(* ===== verification/Prelude.thy ===== *)
theory Prelude
  imports Main "HOL-Library.Word" "HOL-Library.AList"
begin

unbundle bit_operations_syntax

text \<open>
  What every component of the rgpu model shares: the machine types, the driver's result codes
  the code names, the collections of facts the component proofs use, and generic lemmas on
  lists, association lists and words.

  A \<open>std::unordered_map\<close> or \<open>std::map\<close> that the code iterates over is an association list with
  distinct keys (\<open>AList.update\<close> stores, \<open>AList.delete\<close> erases, \<open>map_of\<close> looks up): its order is
  the order of an iteration, which the standard leaves open and no theorem here fixes.
\<close>

section \<open>Machine types and result codes\<close>

type_synonym byte = "8 word"
type_synonym u16 = "16 word"
type_synonym u32 = "32 word"
type_synonym u64 = "64 word"

text \<open>
  A \<open>CUresult\<close> is a C enum that travels as an \<open>int32_t\<close>: 32 bits, kept as they are. The values
  are those the CUDA header documents for the codes the source names.
\<close>

type_synonym CUresult = "32 word"

abbreviation (input) CUDA_SUCCESS :: CUresult where "CUDA_SUCCESS \<equiv> 0"
abbreviation (input) CUDA_ERROR_INVALID_VALUE :: CUresult where "CUDA_ERROR_INVALID_VALUE \<equiv> 1"
abbreviation (input) CUDA_ERROR_OUT_OF_MEMORY :: CUresult where "CUDA_ERROR_OUT_OF_MEMORY \<equiv> 2"
abbreviation (input) CUDA_ERROR_NOT_INITIALIZED :: CUresult where "CUDA_ERROR_NOT_INITIALIZED \<equiv> 3"
abbreviation (input) CUDA_ERROR_INVALID_CONTEXT :: CUresult where "CUDA_ERROR_INVALID_CONTEXT \<equiv> 201"
abbreviation (input) CUDA_ERROR_CONTEXT_IS_DESTROYED :: CUresult
  where "CUDA_ERROR_CONTEXT_IS_DESTROYED \<equiv> 709"
abbreviation (input) CUDA_ERROR_NOT_SUPPORTED :: CUresult where "CUDA_ERROR_NOT_SUPPORTED \<equiv> 801"
abbreviation (input) CUDA_ERROR_UNKNOWN :: CUresult where "CUDA_ERROR_UNKNOWN \<equiv> 999"

section \<open>Collections\<close>

named_theorems wire_simps \<open>how the wire format reads back what it wrote\<close>
named_theorems index_intros \<open>operations that keep the inventory and its reverse index in step\<close>
named_theorems table_simps \<open>what an operation on the client-thread table does to each slot\<close>

section \<open>Lists\<close>

lemma dropWhile_map_sorted:
  assumes "sorted ps" and "\<And>p. p \<in> set ps \<Longrightarrow> P (f p) \<longleftrightarrow> p \<le> j"
  shows "dropWhile P (map f ps) = map f (filter (\<lambda>p. j < p) ps)"
  using assms
proof (induction ps)
  case (Cons p ps)
  show ?case
  proof (cases "p \<le> j")
    case True
    with Cons show ?thesis by auto
  next
    case False
    with Cons.prems have "\<forall>q \<in> set ps. j < q" by auto
    with False Cons.prems show ?thesis by (simp add: filter_id_conv)
  qed
qed simp

lemma take_take_append_drop:
  "k \<le> n \<Longrightarrow> take k xs @ take (n - k) (drop k xs) = take n xs"
  by (metis le_add_diff_inverse take_add)

lemma take_app: "length a \<le> n \<Longrightarrow> take n (a @ b) = a @ take (n - length a) b"
  by simp

lemma drop_app: "length a \<le> n \<Longrightarrow> drop n (a @ b) = drop (n - length a) b"
  by simp

lemma last_snoc_butlast: "xs \<noteq> [] \<Longrightarrow> last xs = x \<Longrightarrow> butlast xs @ [x] = xs"
  by auto

section \<open>Association lists\<close>

lemma map_of_update [simp]: "map_of (AList.update k v al) = (map_of al)(k \<mapsto> v)"
  by (rule update_conv')

lemma map_of_delete [simp]: "map_of (AList.delete k al) = (map_of al)(k := None)"
  by (rule delete_conv')

lemma map_of_apsnd [simp]: "map_of (map (apsnd f) al) k = map_option f (map_of al k)"
  by (induction al) (auto simp: apsnd_def map_prod_def)

lemma set_alist_update: "set (AList.update k v al) \<subseteq> insert (k, v) (set al)"
  by (induction al) auto

lemma map_of_filter_keys:
  "map_of (filter (\<lambda>(k, v). P k) al) k = (if P k then map_of al k else None)"
  by (induction al) auto

lemma distinct_filter_keys:
  "distinct (map fst al) \<Longrightarrow> distinct (map fst (filter P al))"
  by (rule distinct_map_filter)

lemma length_delete_present:
  assumes "distinct (map fst al)" and "map_of al k = Some v"
  shows "length (AList.delete k al) = length al - 1"
  using assms
proof (induction al)
  case (Cons x al)
  show ?case
  proof (cases "fst x = k")
    case True
    with Cons.prems have "k \<notin> fst ` set al" by auto
    then have "AList.delete k al = al"
      by (force simp: AList.delete_eq filter_id_conv)
    with True show ?thesis by (auto simp: AList.delete_eq)
  next
    case False
    with Cons.prems have "map_of al k = Some v" by (auto simp: map_of_Cons_code split: if_splits)
    with Cons False have "length (AList.delete k al) = length al - 1" by auto
    moreover from \<open>map_of al k = Some v\<close> have "al \<noteq> []" by auto
    ultimately show ?thesis using False by (cases al) (auto simp: AList.delete_eq)
  qed
qed simp

lemma delete_absent: "map_of al k = None \<Longrightarrow> AList.delete k al = al"
  by (auto simp: AList.delete_eq filter_id_conv map_of_eq_None_iff image_iff)

lemma keys_delete: "fst ` set (AList.delete k al) = fst ` set al - {k}"
  by (auto simp: AList.delete_eq)

lemma update_absent: "map_of al k = None \<Longrightarrow> AList.update k v al = al @ [(k, v)]"
  by (induction al) (auto split: if_splits)

lemma map_of_snoc_absent:
  "map_of al k = None \<Longrightarrow> map_of (al @ [(k, v)]) = (map_of al)(k \<mapsto> v)"
  by (rule ext) (auto simp: map_add_def split: option.splits)

lemma map_of_Some_in_set: "map_of al k = Some v \<Longrightarrow> (k, v) \<in> set al"
  by (rule map_of_SomeD)

section \<open>Words\<close>

lemma unat_less_u32: "unat (w :: u32) < 4294967296"
  using unsigned_less [of w, where 'a = nat] by simp

lemma unat_less_u64: "unat (w :: u64) < 18446744073709551616"
  using unsigned_less [of w, where 'a = nat] by simp

lemma unat_minus_cases:
  fixes a b :: u32
  shows "unat (b - a) = (if unat a \<le> unat b then unat b - unat a else 2 ^ 32 + unat b - unat a)"
  by (auto simp: unat_sub_if')

end
