(* ===== verification/Wire.thy ===== *)
theory Wire
  imports Prelude
begin

text \<open>
  The wire format of \<^verbatim>\<open>common/wire.h\<close> and the sizes of \<^verbatim>\<open>common/sizes.h\<close>: the order of request
  ids, the four fixed structs as bytes, and the \<^verbatim>\<open>Buffer\<close> the calls are marshalled in.

  Integers are words of the width the code gives them. Both ends are little-endian and write a
  struct as its memory, so a field is its bytes, least significant first (\<open>le_enc\<close>). Lengths and
  positions inside a buffer are \<open>size_t\<close> in the code; they are \<open>nat\<close> here, and the one length that
  arrives from the peer is a 64-bit word read with \<open>unat\<close>.
\<close>

section \<open>Request ids\<close>

definition kMagicReq :: u32 where "kMagicReq = 0x52475155"
definition kMagicRsp :: u32 where "kMagicRsp = 0x52475250"
definition kMagicHello :: u32 where "kMagicHello = 0x52474845"
definition kMagicBusy :: u32 where "kMagicBusy = 0x52474255"

definition req_at_or_before :: "u32 \<Rightarrow> u32 \<Rightarrow> bool" where
  "req_at_or_before a b = (if a = 0 then True else if b = 0 then False else b - a < 0x80000000)"

text \<open>The id after \<open>a\<close> in the order requests are numbered: 0 is skipped on the wrap.\<close>

definition next_id :: "u32 \<Rightarrow> u32" where
  "next_id a = (if a + 1 = 0 then 1 else a + 1)"

definition nth_id :: "u32 \<Rightarrow> nat \<Rightarrow> u32" where
  "nth_id a k = (next_id ^^ k) a"

section \<open>Structs\<close>

definition kProtocolVersion :: u32 where "kProtocolVersion = 3"

record handshake =
  hs_magic :: u32
  hs_version :: u32
  hs_session_hi :: u64
  hs_session_lo :: u64
  hs_last_req_id :: u32
  hs_flags :: u32

definition kHelloResuming :: u32 where "kHelloResuming = push_bit 0 1"

record handshake_reply =
  hr_magic :: u32
  hr_version :: u32
  hr_resumed :: u32
  hr_last_req_id :: u32

definition kFlagNoReply :: u32 where "kFlagNoReply = push_bit 0 1"

record req_header =
  rq_magic :: u32
  rq_api_id :: u32
  rq_req_id :: u32
  rq_flags :: u32
  rq_thread_id :: u32
  rq_payload_len :: u32

record rsp_header =
  rs_magic :: u32
  rs_req_id :: u32
  rs_result :: CUresult
  rs_payload_len :: u32

primrec le_enc :: "nat \<Rightarrow> 'a::len word \<Rightarrow> byte list" where
  "le_enc 0 w = []"
| "le_enc (Suc n) w = ucast w # le_enc n (drop_bit 8 w)"

primrec le_dec :: "byte list \<Rightarrow> 'a::len word" where
  "le_dec [] = 0"
| "le_dec (b # bs) = ucast b OR push_bit 8 (le_dec bs)"

definition enc_handshake :: "handshake \<Rightarrow> byte list" where
  "enc_handshake h = le_enc 4 (hs_magic h) @ le_enc 4 (hs_version h) @ le_enc 8 (hs_session_hi h)
     @ le_enc 8 (hs_session_lo h) @ le_enc 4 (hs_last_req_id h) @ le_enc 4 (hs_flags h)"

definition dec_handshake :: "byte list \<Rightarrow> handshake" where
  "dec_handshake bs = \<lparr> hs_magic = le_dec (take 4 bs), hs_version = le_dec (take 4 (drop 4 bs)),
     hs_session_hi = le_dec (take 8 (drop 8 bs)), hs_session_lo = le_dec (take 8 (drop 16 bs)),
     hs_last_req_id = le_dec (take 4 (drop 24 bs)), hs_flags = le_dec (take 4 (drop 28 bs)) \<rparr>"

definition enc_handshake_reply :: "handshake_reply \<Rightarrow> byte list" where
  "enc_handshake_reply h = le_enc 4 (hr_magic h) @ le_enc 4 (hr_version h)
     @ le_enc 4 (hr_resumed h) @ le_enc 4 (hr_last_req_id h)"

definition dec_handshake_reply :: "byte list \<Rightarrow> handshake_reply" where
  "dec_handshake_reply bs = \<lparr> hr_magic = le_dec (take 4 bs), hr_version = le_dec (take 4 (drop 4 bs)),
     hr_resumed = le_dec (take 4 (drop 8 bs)), hr_last_req_id = le_dec (take 4 (drop 12 bs)) \<rparr>"

definition enc_req_header :: "req_header \<Rightarrow> byte list" where
  "enc_req_header h = le_enc 4 (rq_magic h) @ le_enc 4 (rq_api_id h) @ le_enc 4 (rq_req_id h)
     @ le_enc 4 (rq_flags h) @ le_enc 4 (rq_thread_id h) @ le_enc 4 (rq_payload_len h)"

definition dec_req_header :: "byte list \<Rightarrow> req_header" where
  "dec_req_header bs = \<lparr> rq_magic = le_dec (take 4 bs), rq_api_id = le_dec (take 4 (drop 4 bs)),
     rq_req_id = le_dec (take 4 (drop 8 bs)), rq_flags = le_dec (take 4 (drop 12 bs)),
     rq_thread_id = le_dec (take 4 (drop 16 bs)), rq_payload_len = le_dec (take 4 (drop 20 bs)) \<rparr>"

definition enc_rsp_header :: "rsp_header \<Rightarrow> byte list" where
  "enc_rsp_header h = le_enc 4 (rs_magic h) @ le_enc 4 (rs_req_id h) @ le_enc 4 (rs_result h)
     @ le_enc 4 (rs_payload_len h)"

definition dec_rsp_header :: "byte list \<Rightarrow> rsp_header" where
  "dec_rsp_header bs = \<lparr> rs_magic = le_dec (take 4 bs), rs_req_id = le_dec (take 4 (drop 4 bs)),
     rs_result = le_dec (take 4 (drop 8 bs)), rs_payload_len = le_dec (take 4 (drop 12 bs)) \<rparr>"

section \<open>Buffer\<close>

record buffer =
  bdata :: "byte list"
  bread :: nat
  bok :: bool

definition empty_buffer :: buffer where
  "empty_buffer = \<lparr> bdata = [], bread = 0, bok = True \<rparr>"

definition buffer_of :: "byte list \<Rightarrow> buffer" where
  "buffer_of bs = \<lparr> bdata = bs, bread = 0, bok = True \<rparr>"

text \<open>\<open>put<T>\<close> for an integer type \<open>T\<close> of \<open>n\<close> bytes.\<close>

definition buf_put :: "nat \<Rightarrow> 'a::len word \<Rightarrow> buffer \<Rightarrow> buffer" where
  "buf_put n v b = b\<lparr> bdata := bdata b @ le_enc n v \<rparr>"

definition put_bytes :: "byte list \<Rightarrow> buffer \<Rightarrow> buffer" where
  "put_bytes p b = (if length p = 0 then b else b\<lparr> bdata := bdata b @ p \<rparr>)"

definition put_sized :: "byte list \<Rightarrow> buffer \<Rightarrow> buffer" where
  "put_sized p b = put_bytes p (buf_put 8 (of_nat (length p) :: u64) b)"

text \<open>A C string: \<open>None\<close> is the null pointer, \<open>Some s\<close> the bytes before the terminator.\<close>

definition put_str :: "byte list option \<Rightarrow> buffer \<Rightarrow> buffer" where
  "put_str s b = (let b1 = buf_put 1 (case s of None \<Rightarrow> (0 :: byte) | Some _ \<Rightarrow> 1) b
                  in case s of None \<Rightarrow> b1 | Some p \<Rightarrow> put_sized p b1)"

definition buf_take :: "nat \<Rightarrow> buffer \<Rightarrow> bool \<times> buffer" where
  "buf_take n b = (if \<not> bok b \<or> n > length (bdata b) - bread b
                   then (False, b\<lparr> bok := False \<rparr>)
                   else (True, b\<lparr> bread := bread b + n \<rparr>))"

text \<open>A read returns the value it would store through its out-pointer; \<open>None\<close> is \<open>false\<close>.\<close>

definition get_bytes :: "nat \<Rightarrow> buffer \<Rightarrow> byte list option \<times> buffer" where
  "get_bytes n b = (let (got, b1) = buf_take n b
                    in if got then (Some (take n (drop (bread b1 - n) (bdata b1))), b1)
                       else (None, b1))"

definition buf_get :: "nat \<Rightarrow> buffer \<Rightarrow> 'a::len word option \<times> buffer" where
  "buf_get n b = (let (got, b1) = buf_take n b
                  in if got then (Some (le_dec (take n (drop (bread b1 - n) (bdata b1)))), b1)
                     else (None, b1))"

definition get_sized :: "buffer \<Rightarrow> byte list option \<times> buffer" where
  "get_sized b = (case buf_get 8 b of
       (None, b1) \<Rightarrow> (None, b1)
     | (Some len, b1) \<Rightarrow> (if (len :: u64) = 0 then (Some [], b1) else get_bytes (unat len) b1))"

definition get_str :: "buffer \<Rightarrow> byte list option option \<times> buffer" where
  "get_str b = (case buf_get 1 b of
       (None, b1) \<Rightarrow> (None, b1)
     | (Some has, b1) \<Rightarrow>
         (if (has :: byte) = 0 then (Some None, b1)
          else (case get_sized b1 of (None, b2) \<Rightarrow> (None, b2) | (Some p, b2) \<Rightarrow> (Some (Some p), b2))))"

text \<open>The loops that marshal a run of fields of one type.\<close>

fun put_all :: "('v \<Rightarrow> buffer \<Rightarrow> buffer) \<Rightarrow> 'v list \<Rightarrow> buffer \<Rightarrow> buffer" where
  "put_all put [] b = b"
| "put_all put (v # vs) b = put_all put vs (put v b)"

fun get_all :: "(buffer \<Rightarrow> 'v option \<times> buffer) \<Rightarrow> nat \<Rightarrow> buffer \<Rightarrow> 'v list option \<times> buffer" where
  "get_all get 0 b = (Some [], b)"
| "get_all get (Suc n) b = (case get b of
       (None, b1) \<Rightarrow> (None, b1)
     | (Some v, b1) \<Rightarrow> (case get_all get n b1 of
           (None, b2) \<Rightarrow> (None, b2)
         | (Some vs, b2) \<Rightarrow> (Some (v # vs), b2)))"

definition buf_wf :: "buffer \<Rightarrow> bool" where
  "buf_wf b \<longleftrightarrow> bread b \<le> length (bdata b)"

abbreviation unread :: "buffer \<Rightarrow> byte list" where
  "unread b \<equiv> drop (bread b) (bdata b)"

section \<open>Sizes\<close>

text \<open>\<open>array_bytes\<close>: the product, or \<open>SIZE_MAX\<close> where it does not fit 64 bits.\<close>

definition array_bytes :: "u64 \<Rightarrow> u64 \<Rightarrow> u64" where
  "array_bytes count element =
     (if unat count * unat element < 2 ^ 64 then count * element else - 1)"

section \<open>Bytes\<close>

lemma length_le_enc [simp, wire_simps]: "length (le_enc n w) = n"
  by (induction n arbitrary: w) auto

lemma le_dec_le_enc: "le_dec (le_enc n (w :: 'a::len word)) = (take_bit (8 * n) w :: 'a word)"
proof (induction n arbitrary: w)
  case (Suc n)
  have "ucast (ucast w :: byte) OR push_bit 8 (take_bit (8 * n) (drop_bit 8 w)) = take_bit (8 * Suc n) w"
    by (rule bit_word_eqI) (auto simp: bit_simps)
  with Suc show ?case by simp
qed simp

lemma le_dec_le_enc_full [simp, wire_simps]:
  "LENGTH('a) \<le> 8 * n \<Longrightarrow> le_dec (le_enc n (w :: 'a::len word)) = w"
  by (simp add: le_dec_le_enc take_bit_word_eq_self)

lemma le_enc_take_bit: "8 * n \<le> m \<Longrightarrow> le_enc n (take_bit m w) = le_enc n w"
proof (induction n arbitrary: m w)
  case (Suc n)
  have "ucast (take_bit m w) = (ucast w :: byte)"
    using Suc.prems by (intro bit_word_eqI) (auto simp: bit_simps)
  moreover have "drop_bit 8 (take_bit m w) = take_bit (m - 8) (drop_bit 8 w)"
    using Suc.prems by (intro bit_word_eqI) (auto simp: bit_simps)
  ultimately show ?case using Suc by simp
qed simp

lemma le_enc_le_dec:
  "8 * length bs \<le> LENGTH('a) \<Longrightarrow> le_enc (length bs) (le_dec bs :: 'a::len word) = bs"
proof (induction bs)
  case (Cons b bs)
  have "ucast (ucast b OR push_bit 8 (le_dec bs) :: 'a word) = b"
    using Cons.prems by (intro bit_word_eqI) (auto simp: bit_simps)
  moreover have "drop_bit 8 (ucast b OR push_bit 8 (le_dec bs) :: 'a word) = take_bit (LENGTH('a) - 8) (le_dec bs)"
    using Cons.prems by (intro bit_word_eqI) (auto simp: bit_simps dest: bit_imp_le_length)
  moreover have "le_enc (length bs) (take_bit (LENGTH('a) - 8) (le_dec bs) :: 'a word)
      = le_enc (length bs) (le_dec bs :: 'a word)"
    using Cons.prems by (intro le_enc_take_bit) simp
  ultimately show ?case using Cons by simp
qed simp

lemma length_enc_structs [simp, wire_simps]:
  "length (enc_handshake h) = 32" "length (enc_handshake_reply r) = 16"
  "length (enc_req_header q) = 24" "length (enc_rsp_header p) = 16"
  by (simp_all add: enc_handshake_def enc_handshake_reply_def enc_req_header_def enc_rsp_header_def)

lemma dec_enc_handshake [simp, wire_simps]: "dec_handshake (enc_handshake h @ bs) = h"
  by (simp add: dec_handshake_def enc_handshake_def)

lemma dec_enc_handshake_reply [simp, wire_simps]: "dec_handshake_reply (enc_handshake_reply h @ bs) = h"
  by (simp add: dec_handshake_reply_def enc_handshake_reply_def)

lemma dec_enc_req_header [simp, wire_simps]: "dec_req_header (enc_req_header h @ bs) = h"
  by (simp add: dec_req_header_def enc_req_header_def)

lemma dec_enc_rsp_header [simp, wire_simps]: "dec_rsp_header (enc_rsp_header h @ bs) = h"
  by (simp add: dec_rsp_header_def enc_rsp_header_def)

section \<open>The order of request ids\<close>

lemma nth_id_0 [simp]: "nth_id a 0 = a"
  by (simp add: nth_id_def)

lemma nth_id_Suc: "nth_id a (Suc k) = next_id (nth_id a k)"
  by (simp add: nth_id_def)

lemma nth_id_add: "nth_id (nth_id a i) k = nth_id a (i + k)"
  by (metis add.commute comp_apply funpow_add nth_id_def)

lemma next_id_nonzero [simp]: "next_id a \<noteq> 0"
  by (simp add: next_id_def)

lemma nth_id_nonzero [simp]: "a \<noteq> 0 \<Longrightarrow> nth_id a k \<noteq> 0"
  by (cases k) (auto simp: nth_id_Suc)

lemma unat_next_id: "a \<noteq> 0 \<Longrightarrow> unat (next_id a) = unat a mod (2 ^ 32 - 1) + 1"
proof (cases "a + 1 = 0")
  case True
  then have "a = - 1" by (simp add: eq_neg_iff_add_eq_0)
  then show ?thesis by (simp add: next_id_def unsigned_minus_1_eq_mask mask_eq_exp_minus_1)
next
  case False
  then have "unat (a + 1) = unat a + 1" by (metis Suc_eq_plus1 add.commute unatSuc)
  moreover from this have "unat a < 2 ^ 32 - 1" using unat_less_u32 [of "a + 1"] by simp
  ultimately show ?thesis using False by (simp add: next_id_def)
qed

lemma unat_nth_id:
  assumes "a \<noteq> 0"
  shows "unat (nth_id a k) = (unat a - 1 + k) mod (2 ^ 32 - 1) + 1"
proof (induction k)
  case 0
  have "unat a < 2 ^ 32" "0 < unat a" using assms unsigned_less [of a] by (auto simp: unat_gt_0)
  then show ?case by simp
next
  case (Suc k)
  then show ?case using assms by (simp add: nth_id_Suc unat_next_id mod_Suc_eq del: mod_less)
qed

text \<open>
  Ids close enough together are ordered by when they were minted. \<open>ahead\<close> and \<open>behind\<close> are what
  \<open>req_at_or_before\<close> promises to the client's replay buffer and to the server's check for a
  request that already ran.
\<close>

locale request_order =
  fixes leq :: "'id \<Rightarrow> 'id \<Rightarrow> bool" and nxt :: "'id \<Rightarrow> 'id" and none :: 'id and window :: nat
  assumes none_least: "leq none b"
    and none_only: "a \<noteq> none \<Longrightarrow> \<not> leq a none"
    and nxt_some: "nxt a \<noteq> none"
    and ahead: "a \<noteq> none \<Longrightarrow> k < window \<Longrightarrow> leq a ((nxt ^^ k) a)"
    and behind: "a \<noteq> none \<Longrightarrow> 0 < k \<Longrightarrow> k < window \<Longrightarrow> \<not> leq ((nxt ^^ k) a) a"
begin

lemma iter_some: "a \<noteq> none \<Longrightarrow> (nxt ^^ k) a \<noteq> none"
  by (cases k) (auto simp: nxt_some)

lemma iter_split: "i \<le> j \<Longrightarrow> (nxt ^^ j) a = (nxt ^^ (j - i)) ((nxt ^^ i) a)"
  by (metis comp_apply funpow_add le_add_diff_inverse2)

lemma positions:
  assumes "a \<noteq> none" and "i < window" and "j < window"
  shows "leq ((nxt ^^ i) a) ((nxt ^^ j) a) \<longleftrightarrow> i \<le> j"
proof (cases "i \<le> j")
  case True
  then show ?thesis
    using ahead [OF iter_some [OF assms(1)], of "j - i" i] assms by (simp add: iter_split [OF True])
next
  case False
  then have "j \<le> i" "0 < i - j" by auto
  then show ?thesis
    using behind [OF iter_some [OF assms(1)], of "i - j" j] assms False
    by (simp add: iter_split [OF \<open>j \<le> i\<close>])
qed

text \<open>Forgetting what is at or before an id drops exactly the frames minted up to it.\<close>

lemma drop_up_to:
  assumes "a \<noteq> none" and "sorted ps" and "\<And>p. p \<in> set ps \<Longrightarrow> p < window" and "j < window"
  shows "dropWhile (\<lambda>x. leq x ((nxt ^^ j) a)) (map (\<lambda>p. (nxt ^^ p) a) ps)
    = map (\<lambda>p. (nxt ^^ p) a) (filter (\<lambda>p. j < p) ps)"
  using assms by (intro dropWhile_map_sorted) (auto simp: positions)

lemma drop_up_to_none: "none \<notin> set ids \<Longrightarrow> dropWhile (\<lambda>x. leq x none) ids = ids"
  using none_only by (cases ids) auto

end

lemma unat_nth_id_minus:
  assumes "a \<noteq> 0" and "k < 2 ^ 32 - 1"
  shows "unat (nth_id a k - a) = (if unat a + k < 2 ^ 32 then k else k + 1)"
    and "unat (a - nth_id a k) = (if unat a + k < 2 ^ 32 then (if k = 0 then 0 else 2 ^ 32 - k) else 2 ^ 32 - 1 - k)"
proof -
  have a: "0 < unat a" "unat a < 2 ^ 32"
    using assms unsigned_less [of a] by (auto simp: unat_gt_0)
  have n: "unat (nth_id a k) = (if unat a + k < 2 ^ 32 then unat a + k else unat a + k - (2 ^ 32 - 1))"
    unfolding unat_nth_id [OF assms(1)] using a assms(2) by (auto simp: mod_if)
  show "unat (nth_id a k - a) = (if unat a + k < 2 ^ 32 then k else k + 1)"
    unfolding unat_minus_cases n using a assms(2) by auto
  show "unat (a - nth_id a k) = (if unat a + k < 2 ^ 32 then (if k = 0 then 0 else 2 ^ 32 - k) else 2 ^ 32 - 1 - k)"
    unfolding unat_minus_cases n using a assms(2) by auto
qed

interpretation ids: request_order req_at_or_before next_id 0 "2 ^ 31 - 1"
proof unfold_locales
  fix a :: u32 and k :: nat
  assume a: "a \<noteq> 0" and k: "k < 2 ^ 31 - 1"
  then have "nth_id a k \<noteq> 0" by simp
  with a k show "req_at_or_before a ((next_id ^^ k) a)"
    using unat_nth_id_minus(1) [OF a, of k]
    by (auto simp: req_at_or_before_def word_less_nat_alt nth_id_def split: if_splits)
  assume "0 < k"
  with a k \<open>nth_id a k \<noteq> 0\<close> show "\<not> req_at_or_before ((next_id ^^ k) a) a"
    using unat_nth_id_minus(2) [OF a, of k]
    by (auto simp: req_at_or_before_def word_less_nat_alt nth_id_def split: if_splits)
qed (auto simp: req_at_or_before_def)

section \<open>What a buffer reads back\<close>

lemma buf_take_cases:
  "buf_take n b = (if bok b \<and> n \<le> length (unread b) then (True, b\<lparr>bread := bread b + n\<rparr>)
                   else (False, b\<lparr>bok := False\<rparr>))"
  by (auto simp: buf_take_def)

lemma buf_get_reads [wire_simps]:
  fixes v :: "'a::len word"
  assumes "bok b" and "unread b = le_enc n v @ r" and "LENGTH('a) \<le> 8 * n"
  shows "buf_get n b = (Some v, b\<lparr>bread := bread b + n\<rparr>)"
  using assms by (simp add: buf_get_def buf_take_cases del: length_drop)

lemma get_bytes_reads [wire_simps]:
  assumes "bok b" and "unread b = p @ r" and "n = length p"
  shows "get_bytes n b = (Some p, b\<lparr>bread := bread b + n\<rparr>)"
  using assms by (simp add: get_bytes_def buf_take_cases del: length_drop)

lemma buf_get_sticky: "\<not> bok b \<Longrightarrow> buf_get n b = (None, b\<lparr>bok := False\<rparr>)"
  by (simp add: buf_get_def buf_take_def)

lemma buf_get_frame:
  "bdata (snd (buf_get n b)) = bdata b" "bread b \<le> bread (snd (buf_get n b))"
  by (simp_all add: buf_get_def buf_take_def)

lemma buf_get_ok: "buf_get n b = (v, b') \<Longrightarrow> bok b' \<longleftrightarrow> v \<noteq> None"
  by (auto simp: buf_get_def buf_take_cases split: if_splits)

lemma get_bytes_ok: "get_bytes n b = (v, b') \<Longrightarrow> bok b' \<longleftrightarrow> v \<noteq> None"
  by (auto simp: get_bytes_def buf_take_cases split: if_splits)

lemma buf_get_wf: "buf_wf b \<Longrightarrow> buf_wf (snd (buf_get n b))"
  by (auto simp: buf_get_def buf_take_def buf_wf_def)

lemma get_bytes_frame:
  "bdata (snd (get_bytes n b)) = bdata b" "bread b \<le> bread (snd (get_bytes n b))"
  by (simp_all add: get_bytes_def buf_take_def)

lemma get_bytes_wf: "buf_wf b \<Longrightarrow> buf_wf (snd (get_bytes n b))"
  by (auto simp: get_bytes_def buf_take_def buf_wf_def)

text \<open>
  A kind of field: how it is written, how it is read, and the bytes it takes. The laws are those
  every message of the protocol rests on; \<open>run_reads\<close> carries them to a run of fields.
\<close>

locale field_codec =
  fixes put :: "'v \<Rightarrow> buffer \<Rightarrow> buffer" and get :: "buffer \<Rightarrow> 'v option \<times> buffer"
    and enc :: "'v \<Rightarrow> byte list" and valid :: "'v \<Rightarrow> bool"
  assumes put_appends: "put v b = b\<lparr>bdata := bdata b @ enc v\<rparr>"
    and get_reads: "valid v \<Longrightarrow> bok b \<Longrightarrow> unread b = enc v @ r \<Longrightarrow>
          get b = (Some v, b\<lparr>bread := bread b + length (enc v)\<rparr>)"
    and get_sticky: "\<not> bok b \<Longrightarrow> fst (get b) = None"
    and get_ok: "bok (snd (get b)) \<longleftrightarrow> fst (get b) \<noteq> None"
    and get_wf: "buf_wf b \<Longrightarrow> buf_wf (snd (get b))"
    and get_data: "bdata (snd (get b)) = bdata b"
begin

lemma put_all_appends: "put_all put vs b = b\<lparr>bdata := bdata b @ concat (map enc vs)\<rparr>"
  by (induction vs arbitrary: b) (simp_all add: put_appends)

lemma run_reads:
  assumes "\<And>v. v \<in> set vs \<Longrightarrow> valid v" and "bok b" and "unread b = concat (map enc vs) @ r"
  shows "get_all get (length vs) b
    = (Some vs, b\<lparr>bread := bread b + length (concat (map enc vs))\<rparr>)"
  using assms
proof (induction vs arbitrary: b)
  case (Cons v vs)
  let ?b = "b\<lparr>bread := bread b + length (enc v)\<rparr>"
  have "get b = (Some v, ?b)" using Cons.prems by (intro get_reads) auto
  moreover have "unread ?b = concat (map enc vs) @ r"
  proof -
    have "unread ?b = drop (length (enc v)) (unread b)" by (simp add: add.commute)
    then show ?thesis using Cons.prems(3) by simp
  qed
  then have "get_all get (length vs) ?b
      = (Some vs, ?b\<lparr>bread := bread ?b + length (concat (map enc vs))\<rparr>)"
    using Cons.prems by (intro Cons.IH) auto
  ultimately show ?case by (simp add: add.assoc)
qed simp

lemma run_stays: "buf_wf b \<Longrightarrow> buf_wf (snd (get_all get n b)) \<and> bdata (snd (get_all get n b)) = bdata b"
proof (induction n arbitrary: b)
  case (Suc n)
  obtain v b1 where g: "get b = (v, b1)" by (cases "get b")
  with Suc.prems get_wf [of b] get_data [of b] have b1: "buf_wf b1" "bdata b1 = bdata b" by auto
  show ?case
  proof (cases v)
    case None
    with g b1 show ?thesis by simp
  next
    case (Some x)
    then show ?thesis using Suc.IH [OF b1(1)] g b1(2)
      by (cases "get_all get n b1") (auto split: option.split)
  qed
qed simp

lemma run_ok: "n > 0 \<Longrightarrow> bok (snd (get_all get n b)) \<longleftrightarrow> fst (get_all get n b) \<noteq> None"
proof (induction n arbitrary: b)
  case (Suc n)
  obtain v b1 where g: "get b = (v, b1)" by (cases "get b")
  with get_ok [of b] have ok: "bok b1 \<longleftrightarrow> v \<noteq> None" by simp
  show ?case
  proof (cases "v = None \<or> n = 0")
    case True
    with g ok show ?thesis by auto
  next
    case False
    then show ?thesis using Suc.IH [of b1] g
      by (cases "get_all get n b1") (auto split: option.split)
  qed
qed simp

text \<open>A list of fields written one after the other into an empty buffer is read back whole.\<close>

lemma run_roundtrip:
  assumes "\<And>v. v \<in> set vs \<Longrightarrow> valid v"
  shows "fst (get_all get (length vs) (buffer_of (bdata (put_all put vs empty_buffer)))) = Some vs"
  using run_reads [where vs = vs and b = "buffer_of (bdata (put_all put vs empty_buffer))" and r = "[]"] assms
  by (simp add: put_all_appends buffer_of_def empty_buffer_def)

end

lemma buf_field_codec:
  assumes "LENGTH('a::len) \<le> 8 * n"
  shows "field_codec (buf_put n :: 'a word \<Rightarrow> _) (buf_get n) (le_enc n) (\<lambda>_. True)"
proof unfold_locales
  fix v :: "'a word" and b r assume "bok b" "unread b = le_enc n v @ r"
  then show "buf_get n b = (Some v, b\<lparr>bread := bread b + length (le_enc n v)\<rparr>)"
    using assms by (simp add: buf_get_reads)
next
  fix b
  show "bok (snd (buf_get n b :: 'a word option \<times> _)) \<longleftrightarrow> fst (buf_get n b :: 'a word option \<times> _) \<noteq> None"
    by (cases "buf_get n b :: 'a word option \<times> _") (simp add: buf_get_ok)
qed (auto simp: buf_put_def buf_get_sticky buf_get_frame buf_get_wf)

interpretation u8_field: field_codec "buf_put 1 :: byte \<Rightarrow> _" "buf_get 1" "le_enc 1" "\<lambda>_. True"
  by (rule buf_field_codec) simp

interpretation u32_field: field_codec "buf_put 4 :: u32 \<Rightarrow> _" "buf_get 4" "le_enc 4" "\<lambda>_. True"
  by (rule buf_field_codec) simp

interpretation u64_field: field_codec "buf_put 8 :: u64 \<Rightarrow> _" "buf_get 8" "le_enc 8" "\<lambda>_. True"
  by (rule buf_field_codec) simp

definition enc_sized :: "byte list \<Rightarrow> byte list" where
  "enc_sized p = le_enc 8 (of_nat (length p) :: u64) @ p"

definition enc_str :: "byte list option \<Rightarrow> byte list" where
  "enc_str s = (case s of None \<Rightarrow> [0] | Some p \<Rightarrow> 1 # enc_sized p)"

lemma get_sized_reads:
  assumes "length p < 2 ^ 64" and "bok b" and "unread b = enc_sized p @ r"
  shows "get_sized b = (Some p, b\<lparr>bread := bread b + length (enc_sized p)\<rparr>)"
proof -
  let ?l = "of_nat (length p) :: u64"
  let ?b = "b\<lparr>bread := bread b + 8\<rparr>"
  have len: "unat ?l = length p" using assms(1) by (simp add: unat_of_nat)
  have "buf_get 8 b = (Some ?l, ?b)"
    using assms(2,3) by (intro buf_get_reads) (auto simp: enc_sized_def)
  moreover have "unread ?b = p @ r"
  proof -
    have "unread ?b = drop 8 (unread b)" by (simp add: add.commute)
    then show ?thesis using assms(3) by (simp add: enc_sized_def)
  qed
  then have "get_bytes (unat ?l) ?b = (Some p, ?b\<lparr>bread := bread ?b + unat ?l\<rparr>)"
    using assms(2) len by (intro get_bytes_reads) auto
  moreover have "?l = 0 \<longleftrightarrow> p = []" using len by (metis length_0_conv unat_eq_zero)
  ultimately show ?thesis by (simp add: get_sized_def enc_sized_def len add.assoc)
qed

lemma get_sized_frame:
  assumes "get_sized b = (v, b')"
  shows "bok b' \<longleftrightarrow> v \<noteq> None" and "bdata b' = bdata b" and "buf_wf b \<Longrightarrow> buf_wf b'"
    and "\<not> bok b \<Longrightarrow> v = None"
proof -
  obtain l b1 where g: "buf_get 8 b = (l :: u64 option, b1)" by (cases "buf_get 8 b :: u64 option \<times> _")
  note ok = buf_get_ok [OF g]
  have d: "bdata b1 = bdata b" using buf_get_frame(1) [where 'a = 64, of 8 b] g by simp
  have w: "buf_wf b \<Longrightarrow> buf_wf b1" using buf_get_wf [where 'a = 64, of b 8] g by simp
  have n: "\<not> bok b \<Longrightarrow> l = None" using buf_get_sticky [where 'a = 64, of b 8] g by simp
  show "bok b' \<longleftrightarrow> v \<noteq> None"
    using assms g ok by (auto simp: get_sized_def get_bytes_ok split: option.splits if_splits)
  show "bdata b' = bdata b"
    using assms g d get_bytes_frame(1) [of "unat (the l)" b1]
    by (auto simp: get_sized_def split: option.splits if_splits)
  show "buf_wf b'" if "buf_wf b"
    using assms g w [OF that] get_bytes_wf [of b1 "unat (the l)"]
    by (auto simp: get_sized_def split: option.splits if_splits)
  show "v = None" if "\<not> bok b"
    using assms g n [OF that] by (auto simp: get_sized_def)
qed

interpretation sized_field: field_codec put_sized get_sized enc_sized "\<lambda>p. length p < 2 ^ 64"
proof unfold_locales
  fix b :: buffer
  obtain v b' where g: "get_sized b = (v, b')" by (cases "get_sized b")
  note frame = get_sized_frame [OF g]
  show "bok (snd (get_sized b)) \<longleftrightarrow> fst (get_sized b) \<noteq> None"
    "bdata (snd (get_sized b)) = bdata b"
    "buf_wf b \<Longrightarrow> buf_wf (snd (get_sized b))"
    "\<not> bok b \<Longrightarrow> fst (get_sized b) = None"
    using frame g by simp_all
qed (auto simp: put_sized_def put_bytes_def buf_put_def enc_sized_def get_sized_reads)

text \<open>Request ids minted one after another are ordered by \<open>req_at_or_before\<close> as they
  were minted, across the wrap past 0 too, as long as they lie within a window of 2^31 - 1 ids.\<close>

theorem req_order_within_window:
  assumes "a \<noteq> 0" and "i < 2 ^ 31 - 1" and "j < 2 ^ 31 - 1"
  shows "req_at_or_before (nth_id a i) (nth_id a j) \<longleftrightarrow> i \<le> j"
  using ids.positions [OF assms] by (simp add: nth_id_def)

theorem req_order_within_window_witness:
  "req_at_or_before (nth_id 0xFFFFFFFF 0) (nth_id 0xFFFFFFFF 1) \<and> nth_id 0xFFFFFFFF 1 = 1"
proof
  show "req_at_or_before (nth_id 0xFFFFFFFF 0) (nth_id 0xFFFFFFFF 1)"
    using req_order_within_window [of "0xFFFFFFFF" 0 1] by simp
  show "nth_id 0xFFFFFFFF 1 = 1" by (simp add: nth_id_def next_id_def)
qed

text \<open>The order breaks one id earlier than the comment above it says: two ids minted
  2^31 - 1 apart, so less than 2^31, are misordered when the wrap past 0 lies between them.\<close>

theorem req_order_breaks_across_wrap:
  "\<not> req_at_or_before (0xFFFFFFFF) (nth_id 0xFFFFFFFF (2 ^ 31 - 1))"
  using unat_nth_id_minus(1) [of "0xFFFFFFFF" "2 ^ 31 - 1"]
  by (simp add: req_at_or_before_def word_less_nat_alt)

text \<open>Every structure sent on the wire is read back field for field from the front of
  the stream, and a run of length-prefixed byte strings written into a buffer is read back in order.\<close>

theorem wire_round_trips:
  assumes "\<And>p. p \<in> set ps \<Longrightarrow> length p < 2 ^ 64"
  shows "dec_handshake (enc_handshake h @ bs) = h
    \<and> dec_handshake_reply (enc_handshake_reply hr @ bs) = hr
    \<and> dec_req_header (enc_req_header rq @ bs) = rq
    \<and> dec_rsp_header (enc_rsp_header rs @ bs) = rs
    \<and> fst (get_all get_sized (length ps) (buffer_of (bdata (put_all put_sized ps empty_buffer)))) = Some ps"
  using sized_field.run_roundtrip [OF assms] by simp

theorem wire_round_trips_witness:
  "fst (get_all get_sized 2 (buffer_of (bdata (put_all put_sized [[1, 2], []] empty_buffer)))) = Some [[1, 2], []]"
proof -
  have "length p < 2 ^ 64" if "p \<in> set [[1, 2], [] :: byte list]" for p using that by auto
  from wire_round_trips [OF this] have "fst (get_all get_sized (length [[1, 2], [] :: byte list])
      (buffer_of (bdata (put_all put_sized [[1, 2], []] empty_buffer)))) = Some [[1, 2], []]" by blast
  moreover have "length [[1, 2], [] :: byte list] = 2" by simp
  ultimately show ?thesis by (simp only:)
qed

text \<open>Whatever length the wire claims, up to 2^64 - 1, a length-prefixed read never
  moves the cursor past the data, never changes the data, and fails exactly when it marks the
  buffer bad; a bad buffer answers no later read.\<close>

theorem sized_read_is_bounded:
  assumes "buf_wf b" and "get_sized b = (v, b')"
  shows "buf_wf b' \<and> bdata b' = bdata b \<and> (bok b' \<longleftrightarrow> v \<noteq> None)
    \<and> (\<not> bok b' \<longrightarrow> get_sized b' = (None, b'))"
proof -
  note f = get_sized_frame [OF assms(2)]
  have "get_sized b' = (None, b')" if "\<not> bok b'"
  proof -
    have "b'\<lparr>bok := False\<rparr> = b'" using that by (cases b') simp
    then have "buf_get 8 b' = (None :: u64 option, b')" using buf_get_sticky [OF that, of 8] by simp
    then show ?thesis by (simp add: get_sized_def)
  qed
  with f assms(1) show ?thesis by blast
qed

theorem sized_read_is_bounded_witness:
  "fst (get_sized (buffer_of (enc_sized [] @ [1]))) = Some []
   \<and> bread (snd (get_sized (buffer_of [255, 255, 255, 255, 255, 255, 255, 255, 1]))) \<le> 9"
proof -
  let ?b = "buffer_of [255, 255, 255, 255, 255, 255, 255, 255, 1]"
  obtain v b' where r: "get_sized ?b = (v, b')" by (cases "get_sized ?b")
  have wf: "buf_wf ?b" by (simp add: buf_wf_def buffer_of_def)
  have "buf_wf b' \<and> bdata b' = bdata ?b" using sized_read_is_bounded [OF wf r] by blast
  then have "bread b' \<le> length (bdata ?b)" unfolding buf_wf_def by metis
  moreover have "get_sized (buffer_of (enc_sized [] @ [1])) = (Some [], (buffer_of (enc_sized [] @ [1]))\<lparr>bread := 8\<rparr>)"
    using get_sized_reads [of "[]" "buffer_of (enc_sized [] @ [1])" "[1]"]
    by (simp add: buffer_of_def enc_sized_def)
  moreover have "length (bdata ?b) = 9" by (simp add: buffer_of_def)
  ultimately show ?thesis using r by simp
qed

end
