(* ===== verification/Net.thy ===== *)
theory Net
  imports Wire
begin

text \<open>
  The socket helpers of \<^verbatim>\<open>common/net.h\<close>. The kernel is the environment: a receiving socket is the
  list of what its \<open>recv\<close> calls will find, each with the time the clock shows before that call,
  and a sending one the list of what its \<open>send\<close> calls will accept. A \<open>recv\<close> never returns more than
  it was asked for, and what it leaves is there for the next; a socket whose list has run out is
  one the peer has closed.
\<close>

section \<open>The environment\<close>

datatype rx = RxData "byte list" | RxEintr | RxError

type_synonym sock = "(nat \<times> rx) list"

datatype recv_result = Got "byte list" | Interrupted | Closed | Failed

fun sock_recv :: "nat \<Rightarrow> sock \<Rightarrow> recv_result \<times> sock" where
  "sock_recv n [] = (Closed, [])"
| "sock_recv n ((t, RxData bs) # es) =
     (if bs = [] then (Closed, (t, RxData bs) # es)
      else if length bs \<le> n then (Got bs, es)
      else (Got (take n bs), (t, RxData (drop n bs)) # es))"
| "sock_recv n ((t, RxEintr) # es) = (Interrupted, es)"
| "sock_recv n ((t, RxError) # es) = (Failed, (t, RxError) # es)"

fun sock_size :: "sock \<Rightarrow> nat" where
  "sock_size [] = 0"
| "sock_size ((t, RxData bs) # es) = Suc (length bs) + sock_size es"
| "sock_size ((t, _) # es) = Suc (sock_size es)"

text \<open>The bytes a reader can still get: those before the close or the error.\<close>

fun flat :: "sock \<Rightarrow> byte list" where
  "flat [] = []"
| "flat ((t, RxData bs) # es) = (if bs = [] then [] else bs @ flat es)"
| "flat ((t, RxEintr) # es) = flat es"
| "flat ((t, RxError) # es) = []"

datatype tx = TxSent nat | TxEintr

text \<open>\<open>send\<close> of the bytes \<open>p\<close>: how many went, or the error; an exhausted list is a dead peer.\<close>

fun sock_send :: "nat \<Rightarrow> tx list \<Rightarrow> nat option option \<times> tx list" where
  "sock_send n [] = (None, [])"
| "sock_send n (TxEintr # es) = (Some None, es)"
| "sock_send n (TxSent k # es) = (if k = 0 then (None, es) else (Some (Some (min k n)), es))"

section \<open>Reading and writing whole runs of bytes\<close>

lemma sock_recv_smaller:
  assumes "0 < n" and "sock_recv n es = (r, es')" and "r = Interrupted \<or> (\<exists>bs. r = Got bs)"
  shows "sock_size es' < sock_size es"
  using assms by (induction n es rule: sock_recv.induct) (auto split: if_splits)

definition past :: "nat option \<Rightarrow> sock \<Rightarrow> bool" where
  "past deadline es = (case deadline of None \<Rightarrow> False
     | Some d \<Rightarrow> (case es of [] \<Rightarrow> False | (t, _) # _ \<Rightarrow> d \<le> t))"

function read_exact :: "nat option \<Rightarrow> nat \<Rightarrow> sock \<Rightarrow> byte list option \<times> sock" where
  "read_exact deadline n es =
     (if n = 0 then (Some [], es)
      else if past deadline es then (None, es)
      else (case sock_recv n es of
          (Got bs, es') \<Rightarrow> (case read_exact deadline (n - length bs) es' of
              (None, es'') \<Rightarrow> (None, es'')
            | (Some rest, es'') \<Rightarrow> (Some (bs @ rest), es''))
        | (Interrupted, es') \<Rightarrow> read_exact deadline n es'
        | (Closed, es') \<Rightarrow> (None, es')
        | (Failed, es') \<Rightarrow> (None, es')))"
  by pat_completeness auto
termination
  by (relation "measure (\<lambda>(d, n, es). sock_size es)") (auto intro!: sock_recv_smaller [OF _ sym])

fun write_exact :: "byte list \<Rightarrow> tx list \<Rightarrow> bool \<times> byte list \<times> tx list" where
  "write_exact p [] = (p = [], [], [])"
| "write_exact p (e # es) =
     (if p = [] then (True, [], e # es)
      else (case sock_send (length p) (e # es) of
          (Some (Some r), es') \<Rightarrow>
            (let (ok, sent, es'') = write_exact (drop r p) es in (ok, take r p @ sent, es''))
        | (Some None, es') \<Rightarrow> write_exact p es
        | (None, es') \<Rightarrow> (False, [], es')))"

text \<open>Stepping past what a short write took off the front of an \<open>iovec\<close>.\<close>

fun iov_step :: "nat \<Rightarrow> byte list list \<Rightarrow> byte list list" where
  "iov_step sent [] = []"
| "iov_step sent (p # ps) =
     (if sent = 0 then p # ps
      else if sent \<ge> length p then iov_step (sent - length p) ps
      else drop sent p # ps)"

fun sendmsg_loop :: "nat \<Rightarrow> byte list list \<Rightarrow> tx list \<Rightarrow> bool \<times> byte list \<times> tx list" where
  "sendmsg_loop left iov [] = (left = 0, [], [])"
| "sendmsg_loop left iov (e # es) =
     (if left = 0 then (True, [], e # es)
      else (case sock_send (length (concat iov)) (e # es) of
          (Some (Some r), es') \<Rightarrow>
            (let (ok, sent, es'') = sendmsg_loop (left - r) (iov_step r iov) es
             in (ok, take r (concat iov) @ sent, es''))
        | (Some None, es') \<Rightarrow> sendmsg_loop left iov es
        | (None, es') \<Rightarrow> (False, [], es')))"

definition write_two :: "byte list \<Rightarrow> byte list \<Rightarrow> tx list \<Rightarrow> bool \<times> byte list \<times> tx list" where
  "write_two a b es = sendmsg_loop (length a + length b) (if b \<noteq> [] then [a, b] else [a]) es"

definition send_frame_rsp :: "rsp_header \<Rightarrow> buffer \<Rightarrow> tx list \<Rightarrow> bool \<times> byte list \<times> tx list" where
  "send_frame_rsp h payload es = write_two (enc_rsp_header h) (bdata payload) es"

definition send_frame_req :: "req_header \<Rightarrow> buffer \<Rightarrow> tx list \<Rightarrow> bool \<times> byte list \<times> tx list" where
  "send_frame_req h payload es = write_two (enc_req_header h) (bdata payload) es"

section \<open>Frames\<close>

text \<open>
  \<open>recv_frame\<close>, for a header of \<open>hsize\<close> bytes decoded by \<open>dec\<close>, over whatever reads the bytes. The
  bound on the payload is a \<open>size_t\<close>, and its default is \<open>2^32\<close>.
\<close>

definition default_max_payload :: nat where "default_max_payload = 2 ^ 32"

definition recv_frame ::
    "(nat \<Rightarrow> 's \<Rightarrow> byte list option \<times> 's) \<Rightarrow> nat \<Rightarrow> (byte list \<Rightarrow> 'h) \<Rightarrow> ('h \<Rightarrow> u32) \<Rightarrow> ('h \<Rightarrow> u32) \<Rightarrow>
     u32 \<Rightarrow> nat \<Rightarrow> 's \<Rightarrow> ('h \<times> byte list) option \<times> 's" where
  "recv_frame read hsize dec magicf lenf magic max_payload s =
     (case read hsize s of
        (None, s1) \<Rightarrow> (None, s1)
      | (Some hb, s1) \<Rightarrow>
          (let h = dec hb in
           if magicf h \<noteq> magic then (None, s1)
           else if unat (lenf h) > max_payload then (None, s1)
           else if lenf h = 0 then (Some (h, []), s1)
           else (case read (unat (lenf h)) s1 of
               (None, s2) \<Rightarrow> (None, s2)
             | (Some p, s2) \<Rightarrow> (Some (h, p), s2))))"

text \<open>\<open>FrameReader\<close>: what it has buffered and not handed out, and the socket behind it.\<close>

definition kReaderBytes :: nat where "kReaderBytes = 64 * 1024"

function reader_read :: "nat \<Rightarrow> byte list \<times> sock \<Rightarrow> byte list option \<times> (byte list \<times> sock)" where
  "reader_read n (buf, es) =
     (if n = 0 then (Some [], (buf, es))
      else if buf = [] then
        (if n \<ge> kReaderBytes
         then (case read_exact None n es of (r, es') \<Rightarrow> (r, ([], es')))
         else (case sock_recv kReaderBytes es of
             (Got bs, es') \<Rightarrow> reader_read n (bs, es')
           | (Interrupted, es') \<Rightarrow> reader_read n ([], es')
           | (Closed, es') \<Rightarrow> (None, ([], es'))
           | (Failed, es') \<Rightarrow> (None, ([], es'))))
      else (let k = min n (length buf) in
            case reader_read (n - k) (drop k buf, es) of
              (None, s) \<Rightarrow> (None, s)
            | (Some rest, s) \<Rightarrow> (Some (take k buf @ rest), s)))"
  by pat_completeness auto
termination
proof (relation "measures [\<lambda>(n, buf, es). sock_size es, \<lambda>(n, buf, es). n]", goal_cases)
  case (2 n buf es x es' bs)
  then show ?case
    by (auto intro!: sock_recv_smaller [OF _ sym, of kReaderBytes] simp: kReaderBytes_def)
next
  case (3 n buf es x es')
  then show ?case
    by (auto intro!: sock_recv_smaller [OF _ sym, of kReaderBytes] simp: kReaderBytes_def)
qed (auto simp: length_greater_0_conv [symmetric] simp del: length_greater_0_conv)

definition recv_request :: "byte list \<times> sock \<Rightarrow> (req_header \<times> byte list) option \<times> (byte list \<times> sock)" where
  "recv_request = recv_frame reader_read 24 dec_req_header rq_magic rq_payload_len
     kMagicReq default_max_payload"

definition recv_response :: "sock \<Rightarrow> (rsp_header \<times> byte list) option \<times> sock" where
  "recv_response = recv_frame (read_exact None) 16 dec_rsp_header rs_magic rs_payload_len
     kMagicRsp default_max_payload"

text \<open>The reference: a frame parsed off the front of a stream of bytes.\<close>

definition parse_frame ::
    "nat \<Rightarrow> (byte list \<Rightarrow> 'h) \<Rightarrow> ('h \<Rightarrow> u32) \<Rightarrow> ('h \<Rightarrow> u32) \<Rightarrow> u32 \<Rightarrow> nat \<Rightarrow> byte list \<Rightarrow>
     ('h \<times> byte list \<times> byte list) option" where
  "parse_frame hsize dec magicf lenf magic max_payload bs =
     (let h = dec (take hsize bs) in
      if length bs < hsize \<or> magicf h \<noteq> magic \<or> unat (lenf h) > max_payload
         \<or> length bs < hsize + unat (lenf h) then None
      else Some (h, take (unat (lenf h)) (drop hsize bs), drop (hsize + unat (lenf h)) bs))"

section \<open>A source of bytes\<close>

text \<open>
  What a frame is read from: \<open>read n\<close> hands out the next \<open>n\<close> bytes of the stream, or fails when
  there are not that many before it ends. Frames read through any such source are the frames of
  the stream.
\<close>

locale byte_source =
  fixes read :: "nat \<Rightarrow> 's \<Rightarrow> byte list option \<times> 's" and stream :: "'s \<Rightarrow> byte list"
  assumes read_some: "n \<le> length (stream s) \<Longrightarrow>
      \<exists>s'. read n s = (Some (take n (stream s)), s') \<and> stream s' = drop n (stream s)"
    and read_none: "length (stream s) < n \<Longrightarrow> fst (read n s) = None"
begin

lemma frame_some:
  assumes "parse_frame hsize dec mf lf magic mx (stream s) = Some (h, p, rest)"
  shows "\<exists>s'. recv_frame read hsize dec mf lf magic mx s = (Some (h, p), s') \<and> stream s' = rest"
proof -
  from assms have h: "h = dec (take hsize (stream s))" "mf h = magic" "unat (lf h) \<le> mx"
    "hsize \<le> length (stream s)" "unat (lf h) \<le> length (drop hsize (stream s))"
    "p = take (unat (lf h)) (drop hsize (stream s))" "rest = drop (hsize + unat (lf h)) (stream s)"
    by (auto simp: parse_frame_def Let_def split: if_splits)
  obtain s1 where s1: "read hsize s = (Some (take hsize (stream s)), s1)" "stream s1 = drop hsize (stream s)"
    using read_some [OF h(4)] by auto
  show ?thesis
  proof (cases "lf h = 0")
    case True
    with h s1 show ?thesis by (auto simp: recv_frame_def)
  next
    case False
    obtain s2 where "read (unat (lf h)) s1 = (Some p, s2)" "stream s2 = rest"
      using read_some [of "unat (lf h)" s1] h s1 by (auto simp: add.commute)
    with False h s1 show ?thesis by (auto simp: recv_frame_def Let_def)
  qed
qed

lemma frame_none:
  assumes "parse_frame hsize dec mf lf magic mx (stream s) = None"
  shows "fst (recv_frame read hsize dec mf lf magic mx s) = None"
proof (cases "hsize \<le> length (stream s)")
  case False
  then show ?thesis using read_none [of s hsize] by (auto simp: recv_frame_def split: prod.splits)
next
  case True
  obtain s1 where s1: "read hsize s = (Some (take hsize (stream s)), s1)" "stream s1 = drop hsize (stream s)"
    using read_some [OF True] by auto
  let ?h = "dec (take hsize (stream s))"
  have "fst (read (unat (lf ?h)) s1) = None" if "mf ?h = magic" "unat (lf ?h) \<le> mx"
    using assms that True s1 by (intro read_none) (auto simp: parse_frame_def Let_def split: if_splits)
  moreover have "lf ?h \<noteq> 0" if "mf ?h = magic"
    using assms that True by (auto simp: parse_frame_def Let_def split: if_splits)
  ultimately show ?thesis
    using s1 by (auto simp: recv_frame_def Let_def not_less split: prod.splits option.splits)
qed

end

declare read_exact.simps [simp del] reader_read.simps [simp del]

lemma sock_recv_flat:
  assumes "0 < n" and "sock_recv n es = (r, es')"
  shows "case r of Got bs \<Rightarrow> bs \<noteq> [] \<and> length bs \<le> n \<and> flat es = bs @ flat es'
    | Interrupted \<Rightarrow> flat es' = flat es | _ \<Rightarrow> flat es = []"
  using assms by (induction n es rule: sock_recv.induct) (auto split: if_splits)

lemmas sock_recv_Got = sock_recv_flat [where r = "Got bs" for bs, simplified]
lemmas sock_recv_Interrupted = sock_recv_flat [where r = Interrupted, simplified]
lemmas sock_recv_Closed = sock_recv_flat [where r = Closed, simplified]
lemmas sock_recv_Failed = sock_recv_flat [where r = Failed, simplified]

lemma read_exact_stream:
  assumes "deadline = None"
  shows "(n \<le> length (flat es) \<longrightarrow> (\<exists>es'. read_exact deadline n es = (Some (take n (flat es)), es')
            \<and> flat es' = drop n (flat es)))
    \<and> (length (flat es) < n \<longrightarrow> fst (read_exact deadline n es) = None)"
  using assms
proof (induction deadline n es rule: read_exact.induct)
  case (1 deadline n es)
  show ?case
  proof (cases "n = 0")
    case True
    then show ?thesis by (simp add: read_exact.simps)
  next
    case False
    have np: "\<not> past deadline es" using "1.prems" by (simp add: past_def)
    obtain r es' where r: "sock_recv n es = (r, es')" by (cases "sock_recv n es")
    show ?thesis
    proof (cases r)
      case (Got bs)
      have flat: "length bs \<le> n" "flat es = bs @ flat es'" using sock_recv_Got r Got False by auto
      have IH: "(n - length bs \<le> length (flat es') \<longrightarrow> (\<exists>es''. read_exact deadline (n - length bs) es' =
            (Some (take (n - length bs) (flat es')), es'') \<and> flat es'' = drop (n - length bs) (flat es')))
          \<and> (length (flat es') < n - length bs \<longrightarrow> fst (read_exact deadline (n - length bs) es') = None)"
        using "1.IH"(1) [OF False np r [symmetric] Got] "1.prems" r Got by simp
      show ?thesis
      proof (cases "n \<le> length (flat es)")
        case True
        then obtain es'' where "read_exact deadline (n - length bs) es' =
            (Some (take (n - length bs) (flat es')), es'')" "flat es'' = drop (n - length bs) (flat es')"
          using IH flat by auto
        with flat False np r Got True show ?thesis by (simp add: read_exact.simps [of deadline n es])
      next
        case nle: False
        then have "fst (read_exact deadline (n - length bs) es') = None" using IH flat by auto
        with nle False np r Got show ?thesis
          by (auto simp: read_exact.simps [of deadline n es] split: prod.splits option.splits)
      qed
    next
      case Interrupted
      then show ?thesis
        using "1.IH"(2) [OF False np r [symmetric] Interrupted] "1.prems" False np r
          sock_recv_Interrupted [of n es es']
        by (simp add: read_exact.simps [of None n es] past_def)
    next
      case Closed
      then show ?thesis using False np r sock_recv_Closed [of n es es']
        by (simp add: read_exact.simps [of deadline n es])
    next
      case Failed
      then show ?thesis using False np r sock_recv_Failed [of n es es']
        by (simp add: read_exact.simps [of deadline n es])
    qed
  qed
qed

interpretation plain: byte_source "read_exact None" flat
proof unfold_locales
  fix n :: nat and s :: sock
  show "n \<le> length (flat s) \<Longrightarrow>
      \<exists>s'. read_exact None n s = (Some (take n (flat s)), s') \<and> flat s' = drop n (flat s)"
    and "length (flat s) < n \<Longrightarrow> fst (read_exact None n s) = None"
    using read_exact_stream [OF refl, of n s] by auto
qed

definition reader_stream :: "byte list \<times> sock \<Rightarrow> byte list" where
  "reader_stream s = fst s @ flat (snd s)"

lemma reader_read_stream:
  "(n \<le> length (reader_stream (buf, es)) \<longrightarrow>
      (\<exists>s'. reader_read n (buf, es) = (Some (take n (reader_stream (buf, es))), s')
        \<and> reader_stream s' = drop n (reader_stream (buf, es))))
    \<and> (length (reader_stream (buf, es)) < n \<longrightarrow> fst (reader_read n (buf, es)) = None)"
proof (induction n "(buf, es)" arbitrary: buf es rule: reader_read.induct)
  case (1 n buf es)
  note unf = reader_read.simps [of n buf es]
  consider (zero) "n = 0" | (direct) "n \<noteq> 0" "buf = []" "n \<ge> kReaderBytes"
    | (fill) "n \<noteq> 0" "buf = []" "\<not> n \<ge> kReaderBytes" | (copy) "n \<noteq> 0" "buf \<noteq> []" by blast
  then show ?case
  proof cases
    case zero
    then show ?thesis by (simp add: reader_read.simps [of 0])
  next
    case direct
    then show ?thesis using read_exact_stream [OF refl, of n es]
      by (auto simp: reader_read.simps [of n "[]" es] reader_stream_def split: prod.split)
  next
    case fill
    obtain r es' where r: "sock_recv kReaderBytes es = (r, es')" by (cases "sock_recv kReaderBytes es")
    have k: "0 < kReaderBytes" by (simp add: kReaderBytes_def)
    show ?thesis
    proof (cases r)
      case (Got bs)
      have "flat es = bs @ flat es'" using sock_recv_Got [OF k] r Got by auto
      then show ?thesis using "1.hyps"(1) [OF fill r [symmetric] Got] fill r Got
        by (simp add: reader_read.simps [of n "[]" es] reader_stream_def)
    next
      case Interrupted
      then show ?thesis
        using "1.hyps"(2) [OF fill r [symmetric] Interrupted] fill r sock_recv_Interrupted [OF k, of es es']
        by (simp add: reader_read.simps [of n "[]" es] reader_stream_def)
    next
      case Closed
      then show ?thesis using fill r sock_recv_Closed [OF k, of es es'] by (simp add: reader_read.simps [of n "[]" es] reader_stream_def)
    next
      case Failed
      then show ?thesis using fill r sock_recv_Failed [OF k, of es es'] by (simp add: reader_read.simps [of n "[]" es] reader_stream_def)
    qed
  next
    case copy
    let ?k = "min n (length buf)"
    note IH = "1.hyps"(3) [OF copy refl]
    have stream: "reader_stream (drop ?k buf, es) = drop ?k (reader_stream (buf, es))"
      by (simp add: reader_stream_def)
    show ?thesis
    proof (cases "n \<le> length (reader_stream (buf, es))")
      case True
      then obtain s' where s': "reader_read (n - ?k) (drop ?k buf, es) =
          (Some (take (n - ?k) (drop ?k (reader_stream (buf, es)))), s')"
        "reader_stream s' = drop (n - ?k) (drop ?k (reader_stream (buf, es)))"
        using IH unfolding stream by auto
      moreover have "take ?k buf = take ?k (reader_stream (buf, es))" by (simp add: reader_stream_def)
      ultimately show ?thesis using copy True
        by (simp add: unf Let_def take_take_append_drop add.commute)
    next
      case False
      then have "length (reader_stream (drop ?k buf, es)) < n - ?k" by (auto simp: reader_stream_def)
      then have "fst (reader_read (n - ?k) (drop ?k buf, es)) = None" using IH by blast
      then show ?thesis using copy False by (auto simp: unf Let_def split: prod.splits option.splits)
    qed
  qed
qed

interpretation reader: byte_source reader_read reader_stream
proof unfold_locales
  fix n :: nat and s :: "byte list \<times> sock"
  show "n \<le> length (reader_stream s) \<Longrightarrow>
      \<exists>s'. reader_read n s = (Some (take n (reader_stream s)), s') \<and> reader_stream s' = drop n (reader_stream s)"
    and "length (reader_stream s) < n \<Longrightarrow> fst (reader_read n s) = None"
    using reader_read_stream [of n "fst s" "snd s"] by auto
qed

section \<open>What the peer receives is what was sent\<close>

text \<open>C36. However the bytes of a connection are cut into receives, and whatever is
  already in its buffer, the frame reader returns the frame a parse of the whole stream finds, and
  leaves exactly the rest of the stream; where that parse finds none, it returns none.\<close>

theorem recv_request_parses_stream:
  "case parse_frame 24 dec_req_header rq_magic rq_payload_len kMagicReq default_max_payload
        (reader_stream s) of
     None \<Rightarrow> fst (recv_request s) = None
   | Some (h, p, rest) \<Rightarrow> \<exists>s'. recv_request s = (Some (h, p), s') \<and> reader_stream s' = rest"
  unfolding recv_request_def
  by (auto split: option.split intro: reader.frame_none dest: reader.frame_some)

lemma parse_frame_sent:
  assumes "length (enc h) = hsize" and "\<And>bs. dec (enc h @ bs) = h" and "mf h = magic"
    and "unat (lf h) = length p" and "length p \<le> mx"
  shows "parse_frame hsize dec mf lf magic mx (enc h @ p @ rest) = Some (h, p, rest)"
proof -
  have "dec (enc h) = h" using assms(2) [of "[]"] by simp
  then show ?thesis using assms by (simp add: parse_frame_def)
qed

lemma iov_step_concat: "n \<le> length (concat iov) \<Longrightarrow> concat (iov_step n iov) = drop n (concat iov)"
  by (induction n iov rule: iov_step.induct) (auto simp: le_diff_conv)

lemma sendmsg_loop_sent:
  assumes "sendmsg_loop left iov es = (ok, sent, es')" and "left = length (concat iov)"
  shows "(\<exists>m. sent = take m (concat iov)) \<and> (ok \<longrightarrow> sent = concat iov)"
  using assms
proof (induction es arbitrary: left iov ok sent es')
  case (Cons e es)
  show ?case
  proof (cases "left = 0")
    case True
    then show ?thesis using Cons.prems by auto
  next
    case False
    show ?thesis
    proof (cases e)
      case TxEintr
      then have "sendmsg_loop left iov es = (ok, sent, es')" using Cons.prems(1) False by simp
      then show ?thesis using Cons.prems(2) by (rule Cons.IH)
    next
      case (TxSent k)
      let ?r = "min k (length (concat iov))"
      obtain ok1 sent1 es1 where rec: "sendmsg_loop (left - ?r) (iov_step ?r iov) es = (ok1, sent1, es1)"
        by (cases "sendmsg_loop (left - ?r) (iov_step ?r iov) es")
      have "(\<exists>m. sent1 = take m (drop ?r (concat iov))) \<and> (ok1 \<longrightarrow> sent1 = drop ?r (concat iov))"
        using Cons.IH [OF rec] Cons.prems(2) by (simp add: iov_step_concat)
      moreover have "k = 0 \<and> \<not> ok \<and> sent = [] \<or> ok = ok1 \<and> sent = take ?r (concat iov) @ sent1"
        using Cons.prems TxSent False rec by (auto split: if_splits)
      ultimately show ?thesis by (metis append_take_drop_id take_add take_0)
    qed
  qed
qed auto

lemma write_two_sent:
  assumes "write_two a b es = (ok, sent, es')"
  shows "(\<exists>m. sent = take m (a @ b)) \<and> (ok \<longrightarrow> sent = a @ b)"
  using sendmsg_loop_sent [of _ "if b \<noteq> [] then [a, b] else [a]" es ok sent es'] assms
  by (cases "b = []") (simp_all add: write_two_def)

text \<open>Whatever partial writes and interruptions the kernel answers with, a gathered
  write sends a prefix of the header followed by the payload, and all of both when it reports
  success.\<close>

theorem write_two_sends_both:
  assumes "write_two a b es = (ok, sent, es')"
  shows "(\<exists>m. sent = take m (a @ b)) \<and> (ok \<longrightarrow> sent = a @ b)"
  using assms by (rule write_two_sent)

theorem write_two_sends_both_witness:
  "write_two [1, 2] [3] [TxSent 1, TxEintr, TxSent 2] = (True, [1, 2, 3], [])
   \<and> [1, 2, 3] = [1, 2] @ [3 :: byte]"
proof -
  have run: "write_two [1, 2] [3] [TxSent 1, TxEintr, TxSent 2] = (True, [1, 2, 3], [])"
    by (simp add: write_two_def)
  show ?thesis using write_two_sends_both [OF run] run by simp
qed

text \<open>A request frame whose send succeeded is what the frame reader on the other side
  of the connection receives, header and payload, and nothing of what follows it is consumed.\<close>

theorem request_frame_arrives:
  assumes "send_frame_req h payload es = (True, sent, es')"
    and "reader_stream s = sent @ rest"
    and "rq_magic h = kMagicReq" and "unat (rq_payload_len h) = length (bdata payload)"
  shows "\<exists>s'. recv_request s = (Some (h, bdata payload), s') \<and> reader_stream s' = rest"
proof -
  have "sent = enc_req_header h @ bdata payload"
    using write_two_sent assms(1) by (simp add: send_frame_req_def)
  moreover have "length (bdata payload) \<le> default_max_payload"
    using assms(4) unat_less_u32 [of "rq_payload_len h"] by (simp add: default_max_payload_def)
  ultimately have "parse_frame 24 dec_req_header rq_magic rq_payload_len kMagicReq default_max_payload
      (reader_stream s) = Some (h, bdata payload, rest)"
    using parse_frame_sent [of enc_req_header h 24 dec_req_header rq_magic kMagicReq rq_payload_len
        "bdata payload" default_max_payload rest] assms
    by simp
  then show ?thesis unfolding recv_request_def by (rule reader.frame_some)
qed

theorem request_frame_arrives_witness:
  "\<exists>s'. recv_request ([], [(0, RxData (enc_req_header
        \<lparr> rq_magic = kMagicReq, rq_api_id = 5, rq_req_id = 1, rq_flags = 0, rq_thread_id = 1, rq_payload_len = 2 \<rparr>)),
      (1, RxData [7, 8, 9])])
    = (Some (\<lparr> rq_magic = kMagicReq, rq_api_id = 5, rq_req_id = 1, rq_flags = 0, rq_thread_id = 1,
        rq_payload_len = 2 \<rparr>, [7, 8]), s') \<and> reader_stream s' = [9]"
proof -
  let ?h = "\<lparr> rq_magic = kMagicReq, rq_api_id = 5, rq_req_id = 1, rq_flags = 0, rq_thread_id = 1, rq_payload_len = 2 \<rparr>"
  have sent: "send_frame_req ?h (buffer_of [7, 8]) [TxSent 26] = (True, enc_req_header ?h @ [7, 8], [])"
    by (simp add: send_frame_req_def write_two_def buffer_of_def)
  have "enc_req_header ?h \<noteq> []" by (simp flip: length_0_conv)
  then have stream: "reader_stream ([], [(0, RxData (enc_req_header ?h)), (1, RxData [7, 8, 9])])
      = (enc_req_header ?h @ [7, 8]) @ [9]"
    by (simp add: reader_stream_def)
  show ?thesis
    using request_frame_arrives [OF sent stream] by (simp add: buffer_of_def)
qed

text \<open>The default bound of 2^32 on a frame's payload refuses no header: the length
  field has 32 bits, so a hostile length is bounded by the field and not by the check.\<close>

theorem default_bound_refuses_nothing: "\<not> unat (rq_payload_len h) > default_max_payload"
  using unat_less_u32 [of "rq_payload_len h"] by (simp add: default_max_payload_def)

section \<open>The handshake's deadline\<close>

lemma sock_recv_before:
  assumes "sock_recv n es = (Got bs, es')" and "\<not> past (Some d) es"
  shows "bs @ flat (takeWhile (\<lambda>e. fst e < d) es') = flat (takeWhile (\<lambda>e. fst e < d) es)"
  using assms by (induction n es rule: sock_recv.induct) (auto simp: past_def split: if_splits)

lemma sock_recv_before_interrupted:
  assumes "sock_recv n es = (Interrupted, es')" and "\<not> past (Some d) es"
  shows "flat (takeWhile (\<lambda>e. fst e < d) es') = flat (takeWhile (\<lambda>e. fst e < d) es)"
  using assms by (induction n es rule: sock_recv.induct) (auto simp: past_def split: if_splits)

text \<open>A read with a deadline that succeeds returns exactly as many bytes as were asked
  for, and only bytes delivered by receives begun before the deadline, however they were dribbled.\<close>

theorem read_exact_deadline:
  assumes "read_exact (Some d) n es = (Some bs, es')"
  shows "length bs = n \<and> (\<exists>more. flat (takeWhile (\<lambda>e. fst e < d) es) = bs @ more)"
  using assms
proof (induction "Some d" n es arbitrary: bs es' rule: read_exact.induct)
  case (1 n es)
  show ?case
  proof (cases "n = 0")
    case True
    then show ?thesis using "1.prems" by (simp add: read_exact.simps [of _ 0])
  next
    case False
    have np: "\<not> past (Some d) es"
      using "1.prems" False by (auto simp: read_exact.simps [of _ n es] split: if_splits)
    obtain r es1 where r: "sock_recv n es = (r, es1)" by (cases "sock_recv n es")
    show ?thesis
    proof (cases r)
      case (Got b)
      obtain rest es2 where rec: "read_exact (Some d) (n - length b) es1 = (Some rest, es2)" "bs = b @ rest"
        using "1.prems" False np r Got
        by (auto simp: read_exact.simps [of _ n es] split: prod.splits option.splits)
      have "length b \<le> n" using sock_recv_Got [of n es b es1] False r Got by auto
      then show ?thesis
        using "1.hyps"(1) [OF False np r [symmetric] Got rec(1)] rec(2)
          sock_recv_before [of n es b es1 d] r Got np by (auto dest: sym)
    next
      case Interrupted
      then show ?thesis
        using "1.hyps"(2) [OF False np r [symmetric] Interrupted] "1.prems" False np r
          sock_recv_before_interrupted [of n es es1 d]
        by (auto simp: read_exact.simps [of _ n es])
    qed (use "1.prems" False np r in \<open>auto simp: read_exact.simps [of _ n es]\<close>)
  qed
qed

theorem read_exact_deadline_witness:
  "read_exact (Some 10) 3 [(1, RxData [1]), (4, RxEintr), (9, RxData [2, 3, 4])] = (Some [1, 2, 3], [(9, RxData [4])])
   \<and> read_exact (Some 10) 3 [(1, RxData [1]), (11, RxData [2, 3])] = (None, [(11, RxData [2, 3])])
   \<and> length [1, 2, 3 :: byte] = 3"
proof -
  have run: "read_exact (Some 10) 3 [(1, RxData [1]), (4, RxEintr), (9, RxData [2, 3, 4])] = (Some [1, 2, 3], [(9, RxData [4])])"
    by (simp add: read_exact.simps past_def)
  have late: "read_exact (Some 10) 3 [(1, RxData [1]), (11, RxData [2, 3])] = (None, [(11, RxData [2, 3])])"
    by (simp add: read_exact.simps past_def)
  show ?thesis using read_exact_deadline [OF run] run late by simp
qed

end
