(* ===== verification/Driver.thy ===== *)
theory Driver
  imports Wire
begin

text \<open>
  The CUDA driver as the server sees it. It is not in the repository, so it is a parameter: a
  function from a call and the driver's state to a result code, the values the call wrote through
  its out-pointers, and the new state, together with the set of entry points the installed driver
  has (\<^verbatim>\<open>server/driver_syms.h\<close> resolves each on first use and reports a missing one as
  unsupported).

  Handles and addresses are 64-bit words, 0 the null pointer; a device is an \<open>int\<close>. Where the code
  passes a pointer that may be null, the call carries whether it is there
  (\<open>CtxGetCurrentNull\<close> is the query with none). The world a
  serving thread acts on is the driver's state and, for the theorems only, the list of the calls
  made so far.
\<close>

text \<open>The calls that make something and hand its handle out, and those that give one back.\<close>

datatype maker =
    MemAlloc u64
  | MemAllocPitch bool u64 u64 u32
  | MemAllocAsync u64 u64
  | MemAllocFromPoolAsync u64 u64 u64
  | ModuleLoad "byte list option"
  | ModuleLoadData "byte list option"
  | ModuleLoadFatBinary "byte list option"
  | LibraryLoadData "byte list option" u32 u32
  | LibraryLoadFromFile "byte list"
  | MemAddressReserve u64 u64 u64 u64
  | MemCreate u64 "byte list option" u64
  | StreamCreate u32
  | StreamCreateWithPriority u32 u32
  | EventCreate u32
  | GraphCreate u32
  | StreamEndCapture u64
  | GraphInstantiateWithFlags u64 u64
  | GraphClone u64

datatype giver =
    MemFree u64
  | MemFreeAsync u64 u64
  | ModuleUnload u64
  | LibraryUnload u64
  | MemAddressFree u64 u64
  | MemRelease u64
  | MemUnmap u64 u64
  | StreamDestroy u64
  | EventDestroy u64
  | GraphDestroy u64
  | GraphExecDestroy u64
  | LibHandleDestroy u32 u64

datatype drv_call =
    CtxSetCurrent u64
  | CtxGetCurrent
  | CtxGetCurrentNull
  | CtxPushCurrent u64
  | CtxPopCurrent bool
  | CtxCreate bool u32 int
  | CtxDestroy u64
  | CtxDetach u64
  | CtxSynchronize
  | ExchangeCaptureMode u32
  | PrimaryCtxRetain bool int
  | PrimaryCtxRelease int
  | PrimaryCtxReset int
  | PrimaryCtxGetState int
  | MemMap u64 u64 u64 u64 u64
  | StreamBeginCapture u64 u32
  | Make bool maker
  | Give giver
  | FuncGetParamInfo u64 u64
  | LaunchKernel u64 "u32 list" u64 "byte list option"
  | StreamGetCaptureInfo u64 bool
  | GraphGetNodes u64 "u64 option"
  | DriverGetVersion
  | DeviceGetAttribute u32 int

record 'd driver =
  d_step :: "drv_call \<Rightarrow> 'd \<Rightarrow> (CUresult \<times> u64 list) \<times> 'd"
  d_has :: "string \<Rightarrow> bool"

record 'd world =
  w_drv :: 'd
  w_log :: "drv_call list"

definition dcall :: "'d driver \<Rightarrow> drv_call \<Rightarrow> 'd world \<Rightarrow> (CUresult \<times> u64 list) \<times> 'd world" where
  "dcall drv c w = (case d_step drv c (w_drv w) of
     (r, d) \<Rightarrow> (r, w\<lparr>w_drv := d, w_log := w_log w @ [c]\<rparr>))"

text \<open>An out-variable the code set to null before the call: what the driver wrote, or null.\<close>

definition out0 :: "u64 list \<Rightarrow> u64" where
  "out0 outs = (case outs of [] \<Rightarrow> 0 | x # _ \<Rightarrow> x)"

text \<open>The name each call is resolved by (the names the wrappers and the release path pass to
  \<open>driver_sym_raw\<close>).\<close>

primrec maker_sym :: "maker \<Rightarrow> string" where
  "maker_sym (MemAlloc x1) = ''cuMemAlloc_v2''"
| "maker_sym (MemAllocPitch x1 x2 x3 x4) = ''cuMemAllocPitch_v2''"
| "maker_sym (MemAllocAsync x1 x2) = ''cuMemAllocAsync''"
| "maker_sym (MemAllocFromPoolAsync x1 x2 x3) = ''cuMemAllocFromPoolAsync''"
| "maker_sym (ModuleLoad x1) = ''cuModuleLoad''"
| "maker_sym (ModuleLoadData x1) = ''cuModuleLoadData''"
| "maker_sym (ModuleLoadFatBinary x1) = ''cuModuleLoadFatBinary''"
| "maker_sym (LibraryLoadData x1 x2 x3) = ''cuLibraryLoadData''"
| "maker_sym (LibraryLoadFromFile x1) = ''cuLibraryLoadFromFile''"
| "maker_sym (MemAddressReserve x1 x2 x3 x4) = ''cuMemAddressReserve''"
| "maker_sym (MemCreate x1 x2 x3) = ''cuMemCreate''"
| "maker_sym (StreamCreate x1) = ''cuStreamCreate''"
| "maker_sym (StreamCreateWithPriority x1 x2) = ''cuStreamCreateWithPriority''"
| "maker_sym (EventCreate x1) = ''cuEventCreate''"
| "maker_sym (GraphCreate x1) = ''cuGraphCreate''"
| "maker_sym (StreamEndCapture x1) = ''cuStreamEndCapture''"
| "maker_sym (GraphInstantiateWithFlags x1 x2) = ''cuGraphInstantiateWithFlags''"
| "maker_sym (GraphClone x1) = ''cuGraphClone''"

primrec giver_sym :: "giver \<Rightarrow> string" where
  "giver_sym (MemFree x1) = ''cuMemFree_v2''"
| "giver_sym (MemFreeAsync x1 x2) = ''cuMemFreeAsync''"
| "giver_sym (ModuleUnload x1) = ''cuModuleUnload''"
| "giver_sym (LibraryUnload x1) = ''cuLibraryUnload''"
| "giver_sym (MemAddressFree x1 x2) = ''cuMemAddressFree''"
| "giver_sym (MemRelease x1) = ''cuMemRelease''"
| "giver_sym (MemUnmap x1 x2) = ''cuMemUnmap''"
| "giver_sym (StreamDestroy x1) = ''cuStreamDestroy_v2''"
| "giver_sym (EventDestroy x1) = ''cuEventDestroy_v2''"
| "giver_sym (GraphDestroy x1) = ''cuGraphDestroy''"
| "giver_sym (GraphExecDestroy x1) = ''cuGraphExecDestroy''"
| "giver_sym (LibHandleDestroy x1 x2) = []"

primrec call_sym :: "drv_call \<Rightarrow> string" where
  "call_sym (CtxSetCurrent x1) = ''cuCtxSetCurrent''"
| "call_sym CtxGetCurrent = ''cuCtxGetCurrent''"
| "call_sym CtxGetCurrentNull = ''cuCtxGetCurrent''"
| "call_sym (CtxPushCurrent x1) = ''cuCtxPushCurrent_v2''"
| "call_sym (CtxPopCurrent x1) = ''cuCtxPopCurrent_v2''"
| "call_sym (CtxCreate x1 x2 x3) = ''cuCtxCreate_v2''"
| "call_sym (CtxDestroy x1) = ''cuCtxDestroy_v2''"
| "call_sym (CtxDetach x1) = ''cuCtxDetach''"
| "call_sym CtxSynchronize = ''cuCtxSynchronize''"
| "call_sym (ExchangeCaptureMode x1) = ''cuThreadExchangeStreamCaptureMode''"
| "call_sym (PrimaryCtxRetain x1 x2) = ''cuDevicePrimaryCtxRetain''"
| "call_sym (PrimaryCtxRelease x1) = ''cuDevicePrimaryCtxRelease_v2''"
| "call_sym (PrimaryCtxReset x1) = ''cuDevicePrimaryCtxReset_v2''"
| "call_sym (PrimaryCtxGetState x1) = ''cuDevicePrimaryCtxGetState''"
| "call_sym (MemMap x1 x2 x3 x4 x5) = ''cuMemMap''"
| "call_sym (StreamBeginCapture x1 x2) = ''cuStreamBeginCapture_v2''"
| "call_sym (Make x1 m) = maker_sym m"
| "call_sym (Give g) = giver_sym g"
| "call_sym (FuncGetParamInfo x1 x2) = ''cuFuncGetParamInfo''"
| "call_sym (LaunchKernel x1 x2 x3 x4) = ''cuLaunchKernel''"
| "call_sym (StreamGetCaptureInfo x1 x2) = ''cuStreamGetCaptureInfo_v2''"
| "call_sym (GraphGetNodes x1 x2) = ''cuGraphGetNodes''"
| "call_sym DriverGetVersion = ''cuDriverGetVersion''"
| "call_sym (DeviceGetAttribute x1 x2) = ''cuDeviceGetAttribute''"

text \<open>\<open>REAL\<close>: the entry point without the tracking wrapper, unsupported when the driver lacks it.\<close>

definition real_call :: "'d driver \<Rightarrow> drv_call \<Rightarrow> 'd world \<Rightarrow> (CUresult \<times> u64 list) \<times> 'd world" where
  "real_call drv c w =
     (if d_has drv (call_sym c) then dcall drv c w else ((CUDA_ERROR_NOT_SUPPORTED, []), w))"

section \<open>What the context code relies on\<close>

text \<open>
  The documented behaviour of the calls that select a thread's context and capture mode, on a
  serving thread whose own stack is at most one deep (\<open>ok\<close>): \<open>cur\<close> is its current context, null
  for none, and \<open>mode\<close> its capture mode. Selecting null pops; selecting a context either replaces
  the top or fails and changes nothing; an exchange of modes either happens or changes nothing.
\<close>

locale context_driver =
  fixes drv :: "'d driver" and cur :: "'d \<Rightarrow> u64" and mode :: "'d \<Rightarrow> u32" and ok :: "'d \<Rightarrow> bool"
  assumes get_current: "ok d \<Longrightarrow> \<exists>d'. d_step drv CtxGetCurrent d = ((CUDA_SUCCESS, [cur d]), d')
        \<and> cur d' = cur d \<and> mode d' = mode d \<and> ok d'"
    and set_null: "ok d \<Longrightarrow> \<exists>outs d'. d_step drv (CtxSetCurrent 0) d = ((CUDA_SUCCESS, outs), d')
        \<and> cur d' = 0 \<and> mode d' = mode d \<and> ok d'"
    and set_current: "ok d \<Longrightarrow> c \<noteq> 0 \<Longrightarrow> \<exists>r outs d'. d_step drv (CtxSetCurrent c) d = ((r, outs), d')
        \<and> cur d' = (if r = CUDA_SUCCESS then c else cur d) \<and> mode d' = mode d \<and> ok d'"
    and exchange: "ok d \<Longrightarrow> \<exists>r outs d'. d_step drv (ExchangeCaptureMode m) d = ((r, outs), d')
        \<and> cur d' = cur d \<and> mode d' = (if r = CUDA_SUCCESS then m else mode d) \<and> ok d'"

end
