(* ===== verification/ClientThreads.thy ===== *)
theory ClientThreads
  imports Driver
begin

text \<open>
  The client threads of a session: \<^verbatim>\<open>server/client_threads.h\<close> and \<^verbatim>\<open>server/client_threads.cpp\<close>.
  One serving thread runs the calls of every thread of a client. Each client thread's context
  stack and capture mode are kept in a table; before a request its thread's top is shown to the
  driver, and the calls that select, push, pop, create or destroy a context act on the table.

  A pointer to the slot of the thread being served is the thread's id, its key in the live table.
  The once-only flags of the log lines are left out: nothing but the log reads them.
\<close>

section \<open>State\<close>

abbreviation (input) MODE_GLOBAL :: u32 where "MODE_GLOBAL \<equiv> 0"
abbreviation (input) MODE_THREAD_LOCAL :: u32 where "MODE_THREAD_LOCAL \<equiv> 1"
abbreviation (input) MODE_RELAXED :: u32 where "MODE_RELAXED \<equiv> 2"

record saved_context =
  sc_ctx :: u64
  sc_gone :: bool

definition no_context :: saved_context where
  "no_context = \<lparr> sc_ctx = 0, sc_gone = False \<rparr>"

text \<open>The stack is bottom first: its last element is current.\<close>

record client_thread =
  ct_stack :: "saved_context list"
  ct_stack_ctxs :: "u64 set"
  ct_pending_async :: CUresult
  ct_capture_mode :: u32

definition new_thread :: client_thread where
  "new_thread = \<lparr> ct_stack = [], ct_stack_ctxs = {}, ct_pending_async = CUDA_SUCCESS,
     ct_capture_mode = MODE_GLOBAL \<rparr>"

record client_threads =
  ts_live :: "(u32 \<times> client_thread) list"
  ts_retired :: "(u32 \<times> client_thread) list"
  ts_applied :: saved_context
  ts_applied_mode :: u32
  ts_caller :: "u32 option"
  ts_held_failures :: u64
  ts_unreported_failures :: u64

definition no_threads :: client_threads where
  "no_threads = \<lparr> ts_live = [], ts_retired = [], ts_applied = no_context,
     ts_applied_mode = MODE_GLOBAL, ts_caller = None, ts_held_failures = 0,
     ts_unreported_failures = 0 \<rparr>"

definition threads_clear :: "client_threads \<Rightarrow> client_threads" where
  "threads_clear ts = ts\<lparr> ts_live := [], ts_retired := [], ts_applied := no_context, ts_caller := None \<rparr>"

text \<open>The slot behind a reference, and storing through one.\<close>

definition the_slot :: "client_threads \<Rightarrow> u32 \<Rightarrow> client_thread" where
  "the_slot ts tid = (case map_of (ts_live ts) tid of Some t \<Rightarrow> t | None \<Rightarrow> new_thread)"

definition put_slot :: "u32 \<Rightarrow> client_thread \<Rightarrow> client_threads \<Rightarrow> client_threads" where
  "put_slot tid t ts = ts\<lparr> ts_live := AList.update tid t (ts_live ts) \<rparr>"

definition client_thread_shown :: "client_thread \<Rightarrow> client_threads \<Rightarrow> bool" where
  "client_thread_shown t ts =
     (if ct_capture_mode t \<noteq> ts_applied_mode ts then False
      else if ct_stack t = [] \<or> sc_gone (last (ct_stack t)) then sc_ctx (ts_applied ts) = 0
      else sc_ctx (last (ct_stack t)) = sc_ctx (ts_applied ts))"

type_synonym 'd tw = "client_threads \<times> 'd world"

section \<open>Keeping the serving thread one deep\<close>

definition saved :: "u64 \<Rightarrow> saved_context" where
  "saved ctx = \<lparr> sc_ctx = ctx, sc_gone = False \<rparr>"

definition note_stack_ctxs :: "client_thread \<Rightarrow> client_thread" where
  "note_stack_ctxs t = t\<lparr> ct_stack_ctxs := set (map sc_ctx (ct_stack t)) \<rparr>"

definition set_stack :: "saved_context list \<Rightarrow> client_thread \<Rightarrow> client_thread" where
  "set_stack s t = note_stack_ctxs (t\<lparr> ct_stack := s \<rparr>)"

definition driver_current :: "'d driver \<Rightarrow> 'd world \<Rightarrow> CUresult \<times> u64 \<times> 'd world" where
  "driver_current drv w = (case dcall drv CtxGetCurrent w of ((r, outs), w') \<Rightarrow> (r, out0 outs, w'))"

definition set_current :: "'d driver \<Rightarrow> u64 \<Rightarrow> 'd world \<Rightarrow> CUresult \<times> 'd world" where
  "set_current drv ctx w = (case dcall drv (CtxSetCurrent ctx) w of ((r, _), w') \<Rightarrow> (r, w'))"

definition read_back :: "'d driver \<Rightarrow> 'd tw \<Rightarrow> 'd tw" where
  "read_back drv s = (case s of (ts, w) \<Rightarrow> case driver_current drv w of (_, now, w') \<Rightarrow>
     (if now \<noteq> sc_ctx (ts_applied ts)
      then (ts\<lparr> ts_applied := (if now \<noteq> 0 then saved now else no_context) \<rparr>, w')
      else (ts, w')))"

fun clear_loop :: "'d driver \<Rightarrow> nat \<Rightarrow> CUresult \<Rightarrow> 'd tw \<Rightarrow> CUresult \<times> 'd tw" where
  "clear_loop drv 0 r s = (r, s)"
| "clear_loop drv (Suc i) r (ts, w) =
     (if sc_ctx (ts_applied ts) = 0 then (r, (ts, w))
      else case set_current drv 0 w of (r', w1) \<Rightarrow> case driver_current drv w1 of (_, now, w2) \<Rightarrow>
        (let ts' = ts\<lparr> ts_applied := (if now \<noteq> 0 then saved now else no_context) \<rparr>
         in if r' \<noteq> CUDA_SUCCESS then (r', (ts', w2)) else clear_loop drv i r' (ts', w2)))"

definition kMaxDepth :: nat where "kMaxDepth = 8"

definition clear :: "'d driver \<Rightarrow> 'd tw \<Rightarrow> CUresult \<times> 'd tw" where
  "clear drv s = (case clear_loop drv kMaxDepth CUDA_SUCCESS s of (r, (ts, w)) \<Rightarrow>
     if sc_ctx (ts_applied ts) = 0 then (CUDA_SUCCESS, (ts, w))
     else ((if r \<noteq> CUDA_SUCCESS then r else CUDA_ERROR_INVALID_CONTEXT), (ts, w)))"

text \<open>A limit read from the environment with \<open>atol\<close>: a positive value, or the default.\<close>

definition env_limit :: "int option \<Rightarrow> nat \<Rightarrow> nat" where
  "env_limit v dflt = (let parsed = (case v of None \<Rightarrow> 0 | Some n \<Rightarrow> n)
                       in if parsed > 0 then nat parsed else dflt)"

definition max_stack_depth :: "int option \<Rightarrow> nat" where
  "max_stack_depth env = env_limit env 64"

definition may_push :: "nat \<Rightarrow> client_thread \<Rightarrow> bool" where
  "may_push depth t \<longleftrightarrow> length (ct_stack t) < depth"

definition mark_gone :: "u64 \<Rightarrow> saved_context list \<Rightarrow> saved_context list" where
  "mark_gone ctx = map (\<lambda>s. if \<not> sc_gone s \<and> sc_ctx s = ctx then s\<lparr> sc_gone := True \<rparr> else s)"

definition sweep_one :: "u64 \<Rightarrow> client_thread \<Rightarrow> client_thread" where
  "sweep_one ctx t = (if ctx \<notin> ct_stack_ctxs t then t
                      else t\<lparr> ct_stack := mark_gone ctx (ct_stack t) \<rparr>)"

definition sweep :: "u64 \<Rightarrow> client_threads \<Rightarrow> client_threads" where
  "sweep ctx ts = ts\<lparr> ts_live := map (apsnd (sweep_one ctx)) (ts_live ts),
                      ts_retired := map (apsnd (sweep_one ctx)) (ts_retired ts) \<rparr>"

section \<open>Showing a client thread to the driver\<close>

definition show_context :: "'d driver \<Rightarrow> u32 \<Rightarrow> 'd tw \<Rightarrow> CUresult \<times> 'd tw" where
  "show_context drv tid s = (case s of (ts, w) \<Rightarrow>
     let t = the_slot ts tid; top = last (ct_stack t) in
     if ct_stack t \<noteq> [] \<and> \<not> sc_gone top then
       (if sc_ctx top = sc_ctx (ts_applied ts) then (CUDA_SUCCESS, (ts, w))
        else case set_current drv (sc_ctx top) w of (r, w1) \<Rightarrow>
          (if r = CUDA_SUCCESS then (CUDA_SUCCESS, (ts\<lparr> ts_applied := top \<rparr>, w1))
           else clear drv (read_back drv
                  (put_slot tid (t\<lparr> ct_stack := butlast (ct_stack t) @ [top\<lparr> sc_gone := True \<rparr>] \<rparr>) ts, w1))))
     else clear drv (ts, w))"

definition show_capture_mode :: "'d driver \<Rightarrow> u32 \<Rightarrow> 'd tw \<Rightarrow> CUresult \<times> 'd tw" where
  "show_capture_mode drv tid s = (case s of (ts, w) \<Rightarrow>
     let t = the_slot ts tid in
     if ct_capture_mode t = ts_applied_mode ts then (CUDA_SUCCESS, (ts, w))
     else case dcall drv (ExchangeCaptureMode (ct_capture_mode t)) w of ((r, _), w1) \<Rightarrow>
       (if r = CUDA_SUCCESS then (CUDA_SUCCESS, (ts\<lparr> ts_applied_mode := ct_capture_mode t \<rparr>, w1))
        else (r, (ts, w1))))"

definition client_thread_show :: "'d driver \<Rightarrow> u32 \<Rightarrow> 'd tw \<Rightarrow> CUresult \<times> 'd tw" where
  "client_thread_show drv tid s = (case show_context drv tid s of (r, s1) \<Rightarrow>
     if r \<noteq> CUDA_SUCCESS then (r, s1) else show_capture_mode drv tid s1)"

section \<open>The intercepted calls\<close>

text \<open>What selecting and pushing share: the driver's top is replaced, and then the thread's stack
  is the one given; a driver that refuses is asked what it left current.\<close>

definition show_as_top :: "'d driver \<Rightarrow> u64 \<Rightarrow> u32 \<Rightarrow> saved_context list \<Rightarrow> 'd tw \<Rightarrow> CUresult \<times> 'd tw" where
  "show_as_top drv ctx tid stack s = (case s of (ts, w) \<Rightarrow>
     case set_current drv ctx w of (r, w1) \<Rightarrow>
       (if r \<noteq> CUDA_SUCCESS then (r, read_back drv (ts, w1))
        else (CUDA_SUCCESS, ((put_slot tid (set_stack stack (the_slot ts tid)) ts)
                               \<lparr> ts_applied := saved ctx \<rparr>, w1))))"

definition replaced_top :: "u64 \<Rightarrow> saved_context list \<Rightarrow> saved_context list" where
  "replaced_top ctx stack = (if stack = [] then [saved ctx] else butlast stack @ [saved ctx])"

definition w_cuCtxSetCurrent :: "'d driver \<Rightarrow> u64 \<Rightarrow> 'd tw \<Rightarrow> CUresult \<times> 'd tw" where
  "w_cuCtxSetCurrent drv ctx s = (case s of (ts, w) \<Rightarrow>
     case ts_caller ts of
       None \<Rightarrow> (case set_current drv ctx w of (r, w1) \<Rightarrow> (r, (ts, w1)))
     | Some tid \<Rightarrow>
         (let t = the_slot ts tid in
          if ctx = 0 then
            (if ct_stack t = [] then (CUDA_SUCCESS, (ts, w))
             else client_thread_show drv tid (put_slot tid (set_stack (butlast (ct_stack t)) t) ts, w))
          else show_as_top drv ctx tid (replaced_top ctx (ct_stack t)) (ts, w)))"

definition w_cuCtxPushCurrent :: "'d driver \<Rightarrow> nat \<Rightarrow> u64 \<Rightarrow> 'd tw \<Rightarrow> CUresult \<times> 'd tw" where
  "w_cuCtxPushCurrent drv depth ctx s = (case s of (ts, w) \<Rightarrow>
     case ts_caller ts of
       None \<Rightarrow> (case dcall drv (CtxPushCurrent ctx) w of ((r, _), w1) \<Rightarrow> (r, (ts, w1)))
     | Some tid \<Rightarrow>
         (let t = the_slot ts tid in
          if ctx = 0 then (CUDA_ERROR_INVALID_CONTEXT, (ts, w))
          else if \<not> may_push depth t then (CUDA_ERROR_INVALID_VALUE, (ts, w))
          else show_as_top drv ctx tid (ct_stack t @ [saved ctx]) (ts, w)))"

text \<open>The second result is what is written through \<open>pctx\<close> when it is there.\<close>

definition w_cuCtxPopCurrent :: "'d driver \<Rightarrow> bool \<Rightarrow> 'd tw \<Rightarrow> (CUresult \<times> u64 list) \<times> 'd tw" where
  "w_cuCtxPopCurrent drv want s = (case s of (ts, w) \<Rightarrow>
     case ts_caller ts of
       None \<Rightarrow> (case dcall drv (CtxPopCurrent want) w of (r, w1) \<Rightarrow> (r, (ts, w1)))
     | Some tid \<Rightarrow>
         (let t = the_slot ts tid in
          if ct_stack t = [] then
            (case dcall drv (CtxPopCurrent want) w of (r, w1) \<Rightarrow> (r, read_back drv (ts, w1)))
          else
            (let popped = sc_ctx (last (ct_stack t)) in
             case client_thread_show drv tid (put_slot tid (set_stack (butlast (ct_stack t)) t) ts, w) of
               (r, s1) \<Rightarrow> ((r, if want then [popped] else []), s1))))"

definition w_cuCtxGetCurrent :: "'d driver \<Rightarrow> bool \<Rightarrow> 'd tw \<Rightarrow> (CUresult \<times> u64 list) \<times> 'd tw" where
  "w_cuCtxGetCurrent drv want s = (case s of (ts, w) \<Rightarrow>
     if ts_caller ts = None \<or> \<not> want then
       (case dcall drv (if want then CtxGetCurrent else CtxGetCurrentNull) w of (r, w1) \<Rightarrow> (r, (ts, w1)))
     else case dcall drv CtxGetCurrent w of ((r, _), w1) \<Rightarrow>
       (if r \<noteq> CUDA_SUCCESS then ((r, []), (ts, w1))
        else let t = the_slot ts (the (ts_caller ts)) in
          ((CUDA_SUCCESS, [if ct_stack t = [] then 0 else sc_ctx (last (ct_stack t))]), (ts, w1))))"

definition client_threads_relax_capture_mode :: "'d driver \<Rightarrow> 'd tw \<Rightarrow> 'd tw" where
  "client_threads_relax_capture_mode drv s = (case s of (ts, w) \<Rightarrow>
     if ts_applied_mode ts = MODE_RELAXED then (ts, w)
     else case dcall drv (ExchangeCaptureMode MODE_RELAXED) w of ((r, _), w1) \<Rightarrow>
       (if r = CUDA_SUCCESS then (ts\<lparr> ts_applied_mode := MODE_RELAXED \<rparr>, w1) else (ts, w1)))"

text \<open>The exchange for the running thread: the result and the mode left in \<open>*mode\<close>.\<close>

definition client_threads_exchange_capture_mode ::
    "'d driver \<Rightarrow> u32 \<Rightarrow> 'd tw \<Rightarrow> (CUresult \<times> u32) \<times> 'd tw" where
  "client_threads_exchange_capture_mode drv wanted s = (case s of (ts, w) \<Rightarrow>
     case dcall drv (ExchangeCaptureMode wanted) w of ((r, outs), w1) \<Rightarrow>
       (let old = (case outs of [] \<Rightarrow> wanted | x # _ \<Rightarrow> ucast x) in
        case ts_caller ts of
          None \<Rightarrow> ((r, old), (ts, w1))
        | Some tid \<Rightarrow>
            (if r = CUDA_SUCCESS
             then ((r, old), ((put_slot tid ((the_slot ts tid)\<lparr> ct_capture_mode := wanted \<rparr>) ts)
                                \<lparr> ts_applied_mode := wanted \<rparr>, w1))
             else ((r, old), (ts, w1)))))"

section \<open>After a request\<close>

definition API_count :: u32 where "API_count = 448"
definition kInternalBase :: u32 where "kInternalBase = 0x40000000"
definition kCublasBase :: u32 where "kCublasBase = 0x50000000"

definition API_cuCtxPopCurrent :: u32 where "API_cuCtxPopCurrent = 39"
definition API_cuCtxPushCurrent :: u32 where "API_cuCtxPushCurrent = 40"
definition API_cuCtxSetCurrent :: u32 where "API_cuCtxSetCurrent = 44"

text \<open>The calls that report an invalid context about a context they were handed, by id: the four
  context-selecting calls and \<open>cuCtxDestroy_v2\<close>, \<open>cuCtxDetach\<close>, \<open>cuCtxGetApiVersion\<close>, \<open>cuCtxGetId\<close>,
  \<open>cuCtxRecordEvent\<close>, \<open>cuCtxWaitEvent\<close>, \<open>cuCtxGetDevResource\<close>, \<open>cuMemcpyPeer\<close>, \<open>cuMemcpyPeerAsync\<close>,
  \<open>cuGraphAddMemcpyNode\<close>, \<open>cuGraphAddMemsetNode\<close>, \<open>cuGraphConditionalHandleCreate\<close>,
  \<open>cuGraphExecMemcpyNodeSetParams\<close>, \<open>cuGraphExecMemsetNodeSetParams\<close>, \<open>cuDevicePrimaryCtxRetain\<close>,
  \<open>cuDevicePrimaryCtxRelease_v2\<close>.\<close>

definition keeps_own_answer :: "u32 \<Rightarrow> bool" where
  "keeps_own_answer api \<longleftrightarrow> api \<in> {API_cuCtxSetCurrent, API_cuCtxPushCurrent, API_cuCtxPopCurrent,
     23, 24, 28, 35, 41, 49, 31, 318, 319, 125, 126, 133, 152, 153, 78, 76}"

definition is_driver_call :: "u32 \<Rightarrow> bool" where
  "is_driver_call api \<longleftrightarrow> api < API_count \<or> (kInternalBase \<le> api \<and> api < kCublasBase)"

definition corrected_result :: "client_thread \<Rightarrow> u32 \<Rightarrow> CUresult \<Rightarrow> CUresult" where
  "corrected_result t api result =
     (if result \<noteq> CUDA_ERROR_INVALID_CONTEXT then result
      else if ct_stack t = [] \<or> \<not> sc_gone (last (ct_stack t)) then result
      else if \<not> is_driver_call api then result
      else if keeps_own_answer api then result
      else CUDA_ERROR_CONTEXT_IS_DESTROYED)"

definition client_thread_after ::
    "'d driver \<Rightarrow> u32 \<Rightarrow> u32 \<Rightarrow> CUresult \<Rightarrow> 'd tw \<Rightarrow> CUresult \<times> 'd tw" where
  "client_thread_after drv tid api result s = (case s of (ts, w) \<Rightarrow>
     case driver_current drv w of (_, now, w1) \<Rightarrow>
       (let t = the_slot ts tid;
            ts1 = (if now \<noteq> sc_ctx (ts_applied ts) then
                     (if now = 0
                      then (put_slot tid (set_stack (butlast (ct_stack t)) t) ts)\<lparr> ts_applied := no_context \<rparr>
                      else (put_slot tid (set_stack (replaced_top now (ct_stack t)) t) ts)
                             \<lparr> ts_applied := saved now \<rparr>)
                   else ts)
        in (corrected_result (the_slot ts1 tid) api result, (ts1, w1))))"

definition client_threads_may_create :: "nat \<Rightarrow> client_threads \<Rightarrow> bool" where
  "client_threads_may_create depth ts =
     (case ts_caller ts of None \<Rightarrow> True | Some tid \<Rightarrow> may_push depth (the_slot ts tid))"

definition client_threads_created :: "'d driver \<Rightarrow> u64 \<Rightarrow> 'd tw \<Rightarrow> 'd tw" where
  "client_threads_created drv ctx s = (case s of (ts, w) \<Rightarrow>
     case ts_caller ts of
       None \<Rightarrow> (ts, w)
     | Some tid \<Rightarrow>
         (if ctx = 0 then (ts, w)
          else let w1 = (if sc_ctx (ts_applied ts) \<noteq> 0
                         then snd (set_current drv ctx (snd (set_current drv 0 w))) else w);
                   t = the_slot ts tid in
            read_back drv ((put_slot tid (set_stack (ct_stack t @ [saved ctx]) t) ts)
                             \<lparr> ts_applied := saved ctx \<rparr>, w1)))"

definition pop_destroyed :: "u64 \<Rightarrow> client_threads \<Rightarrow> client_threads" where
  "pop_destroyed ctx ts = (case ts_caller ts of
       None \<Rightarrow> ts
     | Some tid \<Rightarrow>
         (let t = the_slot ts tid in
          if ct_stack t \<noteq> [] \<and> \<not> sc_gone (last (ct_stack t)) \<and> sc_ctx (last (ct_stack t)) = ctx
          then put_slot tid (set_stack (butlast (ct_stack t)) t) ts else ts))"

definition leave_context :: "'d driver \<Rightarrow> u64 \<Rightarrow> 'd tw \<Rightarrow> 'd tw" where
  "leave_context drv ctx s =
     (if sc_ctx (ts_applied (fst s)) = ctx
      then (let s' = read_back drv s in
            if sc_ctx (ts_applied (fst s')) = ctx then snd (clear drv s') else s')
      else s)"

definition client_threads_destroyed :: "'d driver \<Rightarrow> u64 \<Rightarrow> 'd tw \<Rightarrow> 'd tw" where
  "client_threads_destroyed drv ctx s = (case s of (ts, w) \<Rightarrow>
     if ctx = 0 then (ts, w)
     else let s1 = leave_context drv ctx (sweep ctx (pop_destroyed ctx ts), w) in
       (case ts_caller ts of None \<Rightarrow> s1 | Some tid \<Rightarrow> snd (client_thread_show drv tid s1)))"

section \<open>Vocabulary of the properties\<close>

text \<open>What the server believes of the serving thread is what the driver says of it.\<close>

definition agrees :: "('d \<Rightarrow> u64) \<Rightarrow> ('d \<Rightarrow> u32) \<Rightarrow> ('d \<Rightarrow> bool) \<Rightarrow> 'd tw \<Rightarrow> bool" where
  "agrees cur mode ok s \<longleftrightarrow> ok (w_drv (snd s)) \<and> sc_ctx (ts_applied (fst s)) = cur (w_drv (snd s))
     \<and> ts_applied_mode (fst s) = mode (w_drv (snd s))"

text \<open>The context a client thread's calls run under: its top, or none if that is destroyed.\<close>

definition visible :: "client_thread \<Rightarrow> u64" where
  "visible t = (if ct_stack t = [] \<or> sc_gone (last (ct_stack t)) then 0 else sc_ctx (last (ct_stack t)))"

text \<open>Nothing but one thread's slot and the serving thread's own state differs.\<close>

definition only_slot :: "u32 \<Rightarrow> client_threads \<Rightarrow> client_threads \<Rightarrow> bool" where
  "only_slot tid ts ts' \<longleftrightarrow> (\<forall>j. j \<noteq> tid \<longrightarrow> map_of (ts_live ts') j = map_of (ts_live ts) j)
     \<and> ts_retired ts' = ts_retired ts \<and> ts_caller ts' = ts_caller ts
     \<and> ts_held_failures ts' = ts_held_failures ts \<and> ts_unreported_failures ts' = ts_unreported_failures ts"

definition top_gone :: "client_thread \<Rightarrow> client_thread" where
  "top_gone t = t\<lparr> ct_stack := butlast (ct_stack t) @ [(last (ct_stack t))\<lparr> sc_gone := True \<rparr>] \<rparr>"

definition thread_wf :: "nat \<Rightarrow> client_thread \<Rightarrow> bool" where
  "thread_wf depth t \<longleftrightarrow> ct_stack_ctxs t = sc_ctx ` set (ct_stack t) \<and> length (ct_stack t) \<le> depth"

definition table_wf :: "nat \<Rightarrow> client_threads \<Rightarrow> bool" where
  "table_wf depth ts \<longleftrightarrow> (\<forall>j t. map_of (ts_live ts) j = Some t \<longrightarrow> thread_wf depth t)
     \<and> (\<forall>t \<in> snd ` set (ts_retired ts). thread_wf depth t)"

text \<open>No entry naming \<open>ctx\<close>, in any thread the session knows, could be made current again.\<close>

definition swept :: "u64 \<Rightarrow> client_threads \<Rightarrow> bool" where
  "swept ctx ts \<longleftrightarrow>
     (\<forall>j t. map_of (ts_live ts) j = Some t \<longrightarrow> (\<forall>e \<in> set (ct_stack t). sc_ctx e = ctx \<longrightarrow> sc_gone e))
     \<and> (\<forall>t \<in> snd ` set (ts_retired ts). \<forall>e \<in> set (ct_stack t). sc_ctx e = ctx \<longrightarrow> sc_gone e)"

text \<open>The same while the driver has just destroyed \<open>ctx\<close>, which it may have popped.\<close>

definition agrees_but :: "('d \<Rightarrow> u64) \<Rightarrow> ('d \<Rightarrow> u32) \<Rightarrow> ('d \<Rightarrow> bool) \<Rightarrow> u64 \<Rightarrow> 'd tw \<Rightarrow> bool" where
  "agrees_but cur mode ok ctx s \<longleftrightarrow> ok (w_drv (snd s)) \<and> ts_applied_mode (fst s) = mode (w_drv (snd s))
     \<and> (sc_ctx (ts_applied (fst s)) = cur (w_drv (snd s)) \<or> sc_ctx (ts_applied (fst s)) = ctx)"

section \<open>Slots\<close>

lemma the_slot_put [simp, table_simps]:
  "the_slot (put_slot i t ts) j = (if j = i then t else the_slot ts j)"
  by (simp add: the_slot_def put_slot_def)

lemma put_slot_fields [simp, table_simps]:
  "ts_applied (put_slot i t ts) = ts_applied ts" "ts_applied_mode (put_slot i t ts) = ts_applied_mode ts"
  "ts_retired (put_slot i t ts) = ts_retired ts" "ts_caller (put_slot i t ts) = ts_caller ts"
  "ts_held_failures (put_slot i t ts) = ts_held_failures ts"
  "ts_unreported_failures (put_slot i t ts) = ts_unreported_failures ts"
  "map_of (ts_live (put_slot i t ts)) = (map_of (ts_live ts))(i \<mapsto> t)"
  by (simp_all add: put_slot_def)

lemma the_slot_applied [simp, table_simps]:
  "the_slot (ts\<lparr>ts_applied := a\<rparr>) = the_slot ts" "the_slot (ts\<lparr>ts_applied_mode := m\<rparr>) = the_slot ts"
  by (auto simp: the_slot_def)

lemma set_stack_fields [simp, table_simps]:
  "ct_stack (set_stack s t) = s" "ct_stack_ctxs (set_stack s t) = sc_ctx ` set s"
  "ct_pending_async (set_stack s t) = ct_pending_async t"
  "ct_capture_mode (set_stack s t) = ct_capture_mode t"
  by (simp_all add: set_stack_def note_stack_ctxs_def)

lemma saved_fields [simp]: "sc_ctx (saved c) = c" "sc_gone (saved c) = False"
  by (simp_all add: saved_def)

lemma no_context_ctx [simp]: "sc_ctx no_context = 0"
  by (simp add: no_context_def)

lemma only_slot_refl [simp]: "only_slot tid ts ts"
  by (simp add: only_slot_def)

lemma only_slot_trans: "only_slot tid a b \<Longrightarrow> only_slot tid b c \<Longrightarrow> only_slot tid a c"
  by (auto simp: only_slot_def)

lemma only_slot_put [simp]: "only_slot tid ts (put_slot tid t ts)"
  by (simp add: only_slot_def)

lemma only_slot_applied [simp]:
  "only_slot tid a (b\<lparr>ts_applied := x\<rparr>) \<longleftrightarrow> only_slot tid a b"
  "only_slot tid a (b\<lparr>ts_applied_mode := m\<rparr>) \<longleftrightarrow> only_slot tid a b"
  by (simp_all add: only_slot_def)

lemma the_slot_only: "only_slot tid ts ts' \<Longrightarrow> j \<noteq> tid \<Longrightarrow> the_slot ts' j = the_slot ts j"
  by (simp add: only_slot_def the_slot_def)

lemma top_gone_fields [simp]:
  "ct_capture_mode (top_gone t) = ct_capture_mode t" "ct_pending_async (top_gone t) = ct_pending_async t"
  "ct_stack_ctxs (top_gone t) = ct_stack_ctxs t"
  by (simp_all add: top_gone_def)

lemma visible_top_gone [simp]: "visible (top_gone t) = 0"
  by (simp add: visible_def top_gone_def)

lemma butlast_last_set: "xs \<noteq> [] \<Longrightarrow> f (last xs) = y \<Longrightarrow> f ` set (butlast xs) \<union> {y} = f ` set xs"
  by (metis (no_types, lifting) Un_insert_right append_butlast_last_id image_insert image_Un
      list.simps(15) list.set(1) set_append sup_bot.right_neutral image_empty)

lemma thread_wf_top_gone: "ct_stack t \<noteq> [] \<Longrightarrow> thread_wf depth t \<Longrightarrow> thread_wf depth (top_gone t)"
  using butlast_last_set [of "ct_stack t" sc_ctx] by (simp add: thread_wf_def top_gone_def)

lemma thread_wf_set_stack: "length s \<le> depth \<Longrightarrow> thread_wf depth (set_stack s t)"
  by (simp add: thread_wf_def)

text \<open>The sweep that trusts the set of contexts named in a stack marks what a sweep of every entry
  would.\<close>

lemma sweep_one_full:
  assumes "thread_wf depth t"
  shows "sweep_one ctx t = t\<lparr> ct_stack := mark_gone ctx (ct_stack t) \<rparr>"
proof (cases "ctx \<in> ct_stack_ctxs t")
  case False
  then have "mark_gone ctx (ct_stack t) = ct_stack t"
    using assms by (auto simp: thread_wf_def mark_gone_def intro!: map_idI)
  then show ?thesis using False by (simp add: sweep_one_def)
qed (simp add: sweep_one_def)

lemma mark_gone_ctx [simp]: "map sc_ctx (mark_gone ctx s) = map sc_ctx s"
  by (simp add: mark_gone_def)

lemma mark_gone_length [simp]: "length (mark_gone ctx s) = length s"
  by (simp add: mark_gone_def)

lemma mark_gone_none_left:
  assumes "e \<in> set (mark_gone ctx s)" and "sc_ctx e = ctx"
  shows "sc_gone e"
proof -
  from assms(1) obtain x where "e = (if \<not> sc_gone x \<and> sc_ctx x = ctx then x\<lparr> sc_gone := True \<rparr> else x)"
    unfolding mark_gone_def by (auto simp only: set_map image_iff)
  with assms(2) show ?thesis by (cases "\<not> sc_gone x \<and> sc_ctx x = ctx") simp_all
qed

lemma mark_gone_others: "e \<in> set s \<Longrightarrow> sc_ctx e \<noteq> ctx \<Longrightarrow> e \<in> set (mark_gone ctx s)"
  by (auto simp: mark_gone_def image_iff intro!: bexI [of _ e])

lemma thread_wf_sweep_one: "thread_wf depth t \<Longrightarrow> thread_wf depth (sweep_one ctx t)"
proof -
  assume wf: "thread_wf depth t"
  have "sc_ctx ` set (mark_gone ctx (ct_stack t)) = sc_ctx ` set (ct_stack t)"
    by (simp flip: set_map)
  with wf show ?thesis by (simp only: sweep_one_full [OF wf]) (simp add: thread_wf_def)
qed

lemma swept_one:
  assumes "thread_wf depth t" and "e \<in> set (ct_stack (sweep_one ctx t))" and "sc_ctx e = ctx"
  shows "sc_gone e"
  using assms by (auto simp: sweep_one_full intro: mark_gone_none_left)

lemma swept_sweep: "table_wf depth ts \<Longrightarrow> swept ctx (sweep ctx ts)"
  unfolding swept_def table_wf_def sweep_def by (auto intro: swept_one)

lemma table_wf_sweep: "table_wf depth ts \<Longrightarrow> table_wf depth (sweep ctx ts)"
  unfolding table_wf_def sweep_def by (auto intro: thread_wf_sweep_one)

lemma table_wf_put_slot: "table_wf depth ts \<Longrightarrow> thread_wf depth t \<Longrightarrow> table_wf depth (put_slot tid t ts)"
  by (simp add: table_wf_def)

lemma thread_wf_new [simp]: "thread_wf depth new_thread"
  by (simp add: thread_wf_def new_thread_def)

lemma the_slot_wf: "table_wf depth ts \<Longrightarrow> thread_wf depth (the_slot ts tid)"
  by (auto simp: table_wf_def the_slot_def split: option.splits)

lemma table_wf_fields [simp]:
  "table_wf depth (ts\<lparr>ts_applied := a\<rparr>) = table_wf depth ts"
  "table_wf depth (ts\<lparr>ts_applied_mode := m\<rparr>) = table_wf depth ts"
  "table_wf depth (ts\<lparr>ts_caller := c\<rparr>) = table_wf depth ts"
  by (simp_all add: table_wf_def)

lemma table_wf_only_slot:
  assumes "table_wf depth ts" and "only_slot tid ts ts'" and "thread_wf depth (the_slot ts' tid)"
  shows "table_wf depth ts'"
proof -
  have "thread_wf depth t" if "map_of (ts_live ts') j = Some t" for j t
    using assms that by (cases "j = tid") (auto simp: table_wf_def only_slot_def the_slot_def)
  then show ?thesis using assms by (auto simp: table_wf_def only_slot_def)
qed

lemma table_wf_pop_destroyed: "table_wf depth ts \<Longrightarrow> table_wf depth (pop_destroyed ctx ts)"
proof (cases "ts_caller ts")
  case (Some tid)
  assume wf: "table_wf depth ts"
  from the_slot_wf [OF wf, of tid] have "length (butlast (ct_stack (the_slot ts tid))) \<le> depth"
    by (auto simp: thread_wf_def)
  then show ?thesis
    using wf Some by (simp add: pop_destroyed_def Let_def table_wf_put_slot thread_wf_set_stack)
qed (simp add: pop_destroyed_def)

lemma pop_destroyed_fields [simp]:
  "ts_applied (sweep ctx (pop_destroyed ctx ts)) = ts_applied ts"
  "ts_applied_mode (sweep ctx (pop_destroyed ctx ts)) = ts_applied_mode ts"
  by (auto simp: pop_destroyed_def sweep_def Let_def split: option.splits)

lemma swept_applied [simp]: "swept ctx (ts\<lparr>ts_applied := a\<rparr>) = swept ctx ts"
  by (simp add: swept_def)

lemma swept_slot: "swept ctx ts \<Longrightarrow> e \<in> set (ct_stack (the_slot ts tid)) \<Longrightarrow> sc_ctx e = ctx \<Longrightarrow> sc_gone e"
  by (auto simp: swept_def the_slot_def new_thread_def split: option.splits)

lemma swept_only_slot:
  assumes "swept ctx ts" and "only_slot tid ts ts'"
    and "the_slot ts' tid = the_slot ts tid \<or> the_slot ts' tid = top_gone (the_slot ts tid)"
  shows "swept ctx ts'"
proof -
  have "sc_gone e" if "map_of (ts_live ts') tid = Some t" "e \<in> set (ct_stack t)" "sc_ctx e = ctx" for t e
  proof -
    have "e \<in> set (ct_stack (the_slot ts tid)) \<or> sc_gone e"
      using that assms(3) by (auto simp: the_slot_def top_gone_def dest: in_set_butlastD)
    then show ?thesis using swept_slot [OF assms(1)] that(3) by blast
  qed
  then show ?thesis
    using assms(1,2) unfolding swept_def only_slot_def by metis
qed

section \<open>The serving thread under a driver that keeps its word\<close>

context context_driver
begin

lemma driver_current_spec:
  assumes "ok (w_drv w)" and "driver_current drv w = (r, now, w')"
  shows "r = CUDA_SUCCESS" "now = cur (w_drv w)" "cur (w_drv w') = cur (w_drv w)"
    "mode (w_drv w') = mode (w_drv w)" "ok (w_drv w')"
  using get_current [OF assms(1)] assms(2)
  by (auto simp: driver_current_def dcall_def out0_def split: prod.splits)

lemma set_current_spec:
  assumes "ok (w_drv w)" and "set_current drv c w = (r, w')"
  shows "c = 0 \<Longrightarrow> r = CUDA_SUCCESS" "cur (w_drv w') = (if r = CUDA_SUCCESS then c else cur (w_drv w))"
    "mode (w_drv w') = mode (w_drv w)" "ok (w_drv w')"
  using set_null [OF assms(1)] set_current [OF assms(1), of c] assms(2)
  by (cases "c = 0"; force simp: ClientThreads.set_current_def dcall_def split: prod.splits)+

lemma read_back_spec:
  assumes "ok (w_drv w)" and "ts_applied_mode ts = mode (w_drv w)" and "read_back drv (ts, w) = (ts', w')"
  shows "agrees cur mode ok (ts', w')" "cur (w_drv w') = cur (w_drv w)"
    "ts' = ts\<lparr>ts_applied := ts_applied ts'\<rparr>"
proof -
  obtain r now w1 where d: "driver_current drv w = (r, now, w1)" by (cases "driver_current drv w")
  note spec = driver_current_spec [OF assms(1) d]
  show "agrees cur mode ok (ts', w')" "cur (w_drv w') = cur (w_drv w)"
    "ts' = ts\<lparr>ts_applied := ts_applied ts'\<rparr>"
    using assms d spec by (auto simp: read_back_def agrees_def split: if_splits)
qed

lemma clear_spec:
  assumes "agrees cur mode ok (ts, w)" and "clear drv (ts, w) = (r, (ts', w'))"
  shows "r = CUDA_SUCCESS" "agrees cur mode ok (ts', w')" "cur (w_drv w') = 0"
    "ts' = ts\<lparr>ts_applied := ts_applied ts'\<rparr>"
proof -
  have o: "ok (w_drv w)" using assms(1) by (simp add: agrees_def)
  obtain r1 w1 where s: "ClientThreads.set_current drv 0 w = (r1, w1)"
    by (cases "ClientThreads.set_current drv 0 w")
  note s1 = set_current_spec [OF o s]
  obtain r2 now w2 where d: "driver_current drv w1 = (r2, now, w2)" by (cases "driver_current drv w1")
  note d1 = driver_current_spec [OF s1(4) d]
  have "clear drv (ts, w) = (if sc_ctx (ts_applied ts) = 0 then (CUDA_SUCCESS, (ts, w))
      else (CUDA_SUCCESS, (ts\<lparr>ts_applied := no_context\<rparr>, w2)))"
    using s d s1 d1 by (simp add: clear_def kMaxDepth_def eval_nat_numeral)
  then show "r = CUDA_SUCCESS" "agrees cur mode ok (ts', w')" "cur (w_drv w') = 0"
    "ts' = ts\<lparr>ts_applied := ts_applied ts'\<rparr>"
    using assms s1 d1 by (auto simp: agrees_def split: if_splits)
qed

lemma show_context_spec:
  assumes "agrees cur mode ok (ts, w)" and "show_context drv tid (ts, w) = (r, (ts', w'))"
  shows "r = CUDA_SUCCESS" "agrees cur mode ok (ts', w')"
    "cur (w_drv w') = visible (the_slot ts' tid)" "only_slot tid ts ts'"
    "the_slot ts' tid = the_slot ts tid \<or> ct_stack (the_slot ts tid) \<noteq> [] \<and> the_slot ts' tid = top_gone (the_slot ts tid)"
proof -
  let ?t = "the_slot ts tid" let ?top = "last (ct_stack ?t)"
  have o: "ok (w_drv w)" using assms(1) by (simp add: agrees_def)
  consider (none) "ct_stack ?t = [] \<or> sc_gone ?top"
    | (same) "ct_stack ?t \<noteq> []" "\<not> sc_gone ?top" "sc_ctx ?top = sc_ctx (ts_applied ts)"
    | (set) "ct_stack ?t \<noteq> []" "\<not> sc_gone ?top" "sc_ctx ?top \<noteq> sc_ctx (ts_applied ts)" by blast
  then have "r = CUDA_SUCCESS \<and> agrees cur mode ok (ts', w') \<and> cur (w_drv w') = visible (the_slot ts' tid)
    \<and> only_slot tid ts ts' \<and> (the_slot ts' tid = ?t \<or> ct_stack ?t \<noteq> [] \<and> the_slot ts' tid = top_gone ?t)"
  proof cases
    case none
    then have "clear drv (ts, w) = (r, (ts', w'))" using assms(2) by (auto simp: show_context_def)
    note c = clear_spec [OF assms(1) this]
    have "the_slot ts' = the_slot ts" "only_slot tid ts ts'" by (subst c(4), simp)+
    then show ?thesis using c none by (auto simp: visible_def)
  next
    case same
    then show ?thesis using assms by (auto simp: show_context_def agrees_def visible_def)
  next
    case set
    obtain r1 w1 where s: "ClientThreads.set_current drv (sc_ctx ?top) w = (r1, w1)"
      by (cases "ClientThreads.set_current drv (sc_ctx ?top) w")
    note s1 = set_current_spec [OF o s]
    show ?thesis
    proof (cases "r1 = CUDA_SUCCESS")
      case True
      then show ?thesis using set s s1 assms by (auto simp: show_context_def agrees_def visible_def)
    next
      case False
      let ?ts = "put_slot tid (top_gone ?t) ts"
      obtain ts2 w2 where b: "read_back drv (?ts, w1) = (ts2, w2)" by (cases "read_back drv (?ts, w1)")
      have "ts_applied_mode ?ts = mode (w_drv w1)" using assms(1) s1 by (simp add: agrees_def)
      note b1 = read_back_spec [OF s1(4) this b]
      have "clear drv (ts2, w2) = (r, (ts', w'))"
        using assms(2) set s False b by (simp add: show_context_def Let_def top_gone_def)
      note c = clear_spec [OF b1(1) this]
      have "the_slot ts' = the_slot ts2" "only_slot tid ts2 ts'" by (subst c(4), simp)+
      moreover have "the_slot ts2 = the_slot ?ts" "only_slot tid ?ts ts2" by (subst b1(3), simp)+
      ultimately have "only_slot tid ts ts'" by (metis only_slot_put only_slot_trans)
      then show ?thesis using c set \<open>the_slot ts' = the_slot ts2\<close> \<open>the_slot ts2 = the_slot ?ts\<close> by simp
    qed
  qed
  then show "r = CUDA_SUCCESS" "agrees cur mode ok (ts', w')" "cur (w_drv w') = visible (the_slot ts' tid)"
    "only_slot tid ts ts'" "the_slot ts' tid = ?t \<or> ct_stack ?t \<noteq> [] \<and> the_slot ts' tid = top_gone ?t"
    by blast+
qed

lemma show_mode_spec:
  assumes "agrees cur mode ok (ts, w)" and "show_capture_mode drv tid (ts, w) = (r, (ts', w'))"
  shows "agrees cur mode ok (ts', w')" "cur (w_drv w') = cur (w_drv w)" "the_slot ts' = the_slot ts"
    "only_slot tid ts ts'" "r = CUDA_SUCCESS \<Longrightarrow> mode (w_drv w') = ct_capture_mode (the_slot ts tid)"
proof -
  have o: "ok (w_drv w)" using assms(1) by (simp add: agrees_def)
  show "agrees cur mode ok (ts', w')" "cur (w_drv w') = cur (w_drv w)" "the_slot ts' = the_slot ts"
    "only_slot tid ts ts'" "r = CUDA_SUCCESS \<Longrightarrow> mode (w_drv w') = ct_capture_mode (the_slot ts tid)"
    using exchange [OF o, of "ct_capture_mode (the_slot ts tid)"] assms
    by (auto simp: show_capture_mode_def Let_def dcall_def agrees_def split: if_splits prod.splits)
qed

lemma show_spec:
  assumes "agrees cur mode ok (ts, w)" and "client_thread_show drv tid (ts, w) = (r, (ts', w'))"
  shows "agrees cur mode ok (ts', w')" "cur (w_drv w') = visible (the_slot ts' tid)" "only_slot tid ts ts'"
    "the_slot ts' tid = the_slot ts tid \<or> ct_stack (the_slot ts tid) \<noteq> [] \<and> the_slot ts' tid = top_gone (the_slot ts tid)"
    "r = CUDA_SUCCESS \<Longrightarrow> mode (w_drv w') = ct_capture_mode (the_slot ts' tid)"
proof -
  obtain r1 ts1 w1 where s: "show_context drv tid (ts, w) = (r1, (ts1, w1))"
    by (cases "show_context drv tid (ts, w)") auto
  note c = show_context_spec [OF assms(1) s]
  have "show_capture_mode drv tid (ts1, w1) = (r, (ts', w'))"
    using assms(2) s c(1) by (simp add: client_thread_show_def)
  note m = show_mode_spec [OF c(2) this]
  show "agrees cur mode ok (ts', w')" "cur (w_drv w') = visible (the_slot ts' tid)" "only_slot tid ts ts'"
    "the_slot ts' tid = the_slot ts tid \<or> ct_stack (the_slot ts tid) \<noteq> [] \<and> the_slot ts' tid = top_gone (the_slot ts tid)"
    "r = CUDA_SUCCESS \<Longrightarrow> mode (w_drv w') = ct_capture_mode (the_slot ts' tid)"
    using c m by (auto intro: only_slot_trans)
qed

text \<open>What a call does to its thread's own stack.\<close>

lemma show_as_top_spec:
  assumes "agrees cur mode ok (ts, w)" and "show_as_top drv ctx tid stack (ts, w) = (r, (ts', w'))"
  shows "agrees cur mode ok (ts', w') \<and> only_slot tid ts ts'
    \<and> (if r = CUDA_SUCCESS then cur (w_drv w') = ctx \<and> the_slot ts' tid = set_stack stack (the_slot ts tid)
       else cur (w_drv w') = cur (w_drv w) \<and> the_slot ts' tid = the_slot ts tid)"
proof -
  have o: "ok (w_drv w)" using assms(1) by (simp add: agrees_def)
  obtain r1 w1 where s: "ClientThreads.set_current drv ctx w = (r1, w1)"
    by (cases "ClientThreads.set_current drv ctx w")
  note s1 = set_current_spec [OF o s]
  show ?thesis
  proof (cases "r1 = CUDA_SUCCESS")
    case True
    then show ?thesis using s s1 assms by (auto simp: show_as_top_def agrees_def)
  next
    case False
    have "read_back drv (ts, w1) = (ts', w')" "r = r1"
      using assms(2) False s by (simp_all add: show_as_top_def)
    moreover have "ts_applied_mode ts = mode (w_drv w1)" using assms(1) s1 by (simp add: agrees_def)
    ultimately have b: "agrees cur mode ok (ts', w')" "cur (w_drv w') = cur (w_drv w1)"
      "ts' = ts\<lparr>ts_applied := ts_applied ts'\<rparr>" using read_back_spec [OF s1(4)] by blast+
    have "the_slot ts' = the_slot ts" "only_slot tid ts ts'" by (subst b(3), simp)+
    then show ?thesis using False b(1,2) s1(2) \<open>r = r1\<close> by simp
  qed
qed

lemma show_popped_spec:
  assumes "agrees cur mode ok (ts, w)"
    and "client_thread_show drv tid (put_slot tid (set_stack (butlast (ct_stack (the_slot ts tid))) (the_slot ts tid)) ts, w)
          = (r, (ts', w'))"
  shows "agrees cur mode ok (ts', w') \<and> only_slot tid ts ts' \<and> cur (w_drv w') = visible (the_slot ts' tid)
    \<and> map sc_ctx (ct_stack (the_slot ts' tid)) = butlast (map sc_ctx (ct_stack (the_slot ts tid)))"
proof -
  let ?t = "the_slot ts tid" let ?ts = "put_slot tid (set_stack (butlast (ct_stack ?t)) ?t) ts"
  have "agrees cur mode ok (?ts, w)" using assms(1) by (simp add: agrees_def)
  note sh = show_spec [OF this assms(2)]
  have "map sc_ctx (ct_stack (top_gone (set_stack (butlast (ct_stack ?t)) ?t))) = map sc_ctx (butlast (ct_stack ?t))"
    if "butlast (ct_stack ?t) \<noteq> []"
    using that by (simp add: top_gone_def) (metis append_butlast_last_id list.simps(8,9) map_append)
  then show ?thesis using sh only_slot_trans [OF only_slot_put sh(3)] by (auto simp: map_butlast)
qed

lemma set_current_refines:
  assumes "agrees cur mode ok (ts, w)" and "ts_caller ts = Some tid" and "ctx \<noteq> 0"
    and "w_cuCtxSetCurrent drv ctx (ts, w) = (r, (ts', w'))"
  shows "agrees cur mode ok (ts', w') \<and> only_slot tid ts ts'
    \<and> (if r = CUDA_SUCCESS then cur (w_drv w') = ctx
          \<and> the_slot ts' tid = set_stack (replaced_top ctx (ct_stack (the_slot ts tid))) (the_slot ts tid)
       else cur (w_drv w') = cur (w_drv w) \<and> the_slot ts' tid = the_slot ts tid)"
  using assms by (intro show_as_top_spec) (simp_all add: w_cuCtxSetCurrent_def)

lemma push_refines:
  assumes "agrees cur mode ok (ts, w)" and "ts_caller ts = Some tid"
    and "w_cuCtxPushCurrent drv depth ctx (ts, w) = (r, (ts', w'))"
  shows "agrees cur mode ok (ts', w') \<and> only_slot tid ts ts'
    \<and> (if r = CUDA_SUCCESS then cur (w_drv w') = ctx \<and> ctx \<noteq> 0 \<and> length (ct_stack (the_slot ts tid)) < depth
          \<and> the_slot ts' tid = set_stack (ct_stack (the_slot ts tid) @ [saved ctx]) (the_slot ts tid)
       else cur (w_drv w') = cur (w_drv w) \<and> the_slot ts' tid = the_slot ts tid)"
proof (cases "ctx = 0 \<or> \<not> may_push depth (the_slot ts tid)")
  case True
  then show ?thesis using assms by (auto simp: w_cuCtxPushCurrent_def Let_def split: if_splits)
next
  case False
  then have "show_as_top drv ctx tid (ct_stack (the_slot ts tid) @ [saved ctx]) (ts, w) = (r, (ts', w'))"
    using assms by (auto simp: w_cuCtxPushCurrent_def Let_def)
  from show_as_top_spec [OF assms(1) this] show ?thesis using False by (simp add: may_push_def)
qed

lemma pop_refines:
  assumes "agrees cur mode ok (ts, w)" and "ts_caller ts = Some tid" and "ct_stack (the_slot ts tid) \<noteq> []"
    and "w_cuCtxPopCurrent drv want (ts, w) = ((r, outs), (ts', w'))"
  shows "agrees cur mode ok (ts', w') \<and> only_slot tid ts ts' \<and> cur (w_drv w') = visible (the_slot ts' tid)
    \<and> map sc_ctx (ct_stack (the_slot ts' tid)) = butlast (map sc_ctx (ct_stack (the_slot ts tid)))
    \<and> outs = (if want then [sc_ctx (last (ct_stack (the_slot ts tid)))] else [])"
proof -
  let ?s = "(put_slot tid (set_stack (butlast (ct_stack (the_slot ts tid))) (the_slot ts tid)) ts, w)"
  have "client_thread_show drv tid ?s = (r, (ts', w'))"
    "outs = (if want then [sc_ctx (last (ct_stack (the_slot ts tid)))] else [])"
    using assms(2-4) by (cases "client_thread_show drv tid ?s"; simp add: w_cuCtxPopCurrent_def)+
  then show ?thesis using show_popped_spec [OF assms(1)] by blast
qed

lemma leave_context_spec:
  assumes "agrees_but cur mode ok ctx (ts, w)" and "ctx \<noteq> 0" and "leave_context drv ctx (ts, w) = (ts', w')"
  shows "agrees cur mode ok (ts', w')" "cur (w_drv w') \<noteq> ctx" "ts' = ts\<lparr>ts_applied := ts_applied ts'\<rparr>"
proof -
  have "agrees cur mode ok (ts', w') \<and> cur (w_drv w') \<noteq> ctx \<and> ts' = ts\<lparr>ts_applied := ts_applied ts'\<rparr>"
  proof (cases "sc_ctx (ts_applied ts) = ctx")
    case True
    obtain ts1 w1 where b: "read_back drv (ts, w) = (ts1, w1)" by (cases "read_back drv (ts, w)")
    have "ok (w_drv w)" "ts_applied_mode ts = mode (w_drv w)" using assms(1) by (auto simp: agrees_but_def)
    note b1 = read_back_spec [OF this b]
    obtain r2 ts2 w2 where c: "clear drv (ts1, w1) = (r2, (ts2, w2))" by (cases "clear drv (ts1, w1)") auto
    note c1 = clear_spec [OF b1(1) c]
    have "(ts', w') = (if sc_ctx (ts_applied ts1) = ctx then (ts2, w2) else (ts1, w1))"
      using assms(3) True b c by (simp add: leave_context_def Let_def split: if_splits)
    moreover have "ts2 = ts\<lparr>ts_applied := ts_applied ts2\<rparr>" by (subst c1(4), subst b1(3)) simp
    ultimately show ?thesis using b1 c1 assms(2) by (auto simp: agrees_def split: if_splits)
  qed (use assms in \<open>auto simp: leave_context_def agrees_def agrees_but_def\<close>)
  then show "agrees cur mode ok (ts', w')" "cur (w_drv w') \<noteq> ctx" "ts' = ts\<lparr>ts_applied := ts_applied ts'\<rparr>"
    by blast+
qed

lemma destroyed_spec:
  assumes "agrees_but cur mode ok ctx (ts, w)" and "table_wf depth ts" and "ctx \<noteq> 0"
    and "client_threads_destroyed drv ctx (ts, w) = (ts', w')"
  shows "agrees cur mode ok (ts', w') \<and> swept ctx ts' \<and> cur (w_drv w') \<noteq> ctx"
proof -
  let ?ts = "sweep ctx (pop_destroyed ctx ts)"
  obtain ts1 w1 where l: "leave_context drv ctx (?ts, w) = (ts1, w1)"
    by (cases "leave_context drv ctx (?ts, w)")
  have "agrees_but cur mode ok ctx (?ts, w)" using assms(1) by (simp add: agrees_but_def)
  note lv = leave_context_spec [OF this assms(3) l]
  have sw: "swept ctx ts1"
    using swept_sweep [OF table_wf_pop_destroyed [OF assms(2)]] by (subst lv(3)) simp
  show ?thesis
  proof (cases "ts_caller ts")
    case None
    then show ?thesis using assms(3,4) l lv sw by (simp add: client_threads_destroyed_def)
  next
    case (Some tid)
    obtain r where sh: "client_thread_show drv tid (ts1, w1) = (r, (ts', w'))"
      using assms(3,4) l Some by (cases "client_thread_show drv tid (ts1, w1)")
        (simp add: client_threads_destroyed_def)
    note s1 = show_spec [OF lv(1) sh]
    have sw': "swept ctx ts'" using swept_only_slot [OF sw s1(3)] s1(4) by blast
    have "cur (w_drv w') \<noteq> ctx"
      using swept_slot [OF sw', of "last (ct_stack (the_slot ts' tid))" tid] assms(3)
      by (auto simp: s1(2) visible_def)
    then show ?thesis using s1(1) sw' by blast
  qed
qed

end

text \<open>Creating pushes the new context on the serving thread's own stack, on top of what was there;
  destroying pops a context that is current and otherwise leaves the thread as it was.\<close>

locale creating_driver = context_driver +
  assumes create: "ok d \<Longrightarrow> d_step drv (CtxCreate True flags dev) d = ((CUDA_SUCCESS, outs), d') \<Longrightarrow>
      if cur d = 0 then ok d' \<and> cur d' = out0 outs \<and> mode d' = mode d
      else \<exists>outs' d''. d_step drv (CtxSetCurrent 0) d' = ((CUDA_SUCCESS, outs'), d'')
             \<and> ok d'' \<and> cur d'' = cur d \<and> mode d'' = mode d"
    and destroy: "ok d \<Longrightarrow> d_step drv (CtxDestroy c) d = ((CUDA_SUCCESS, outs), d') \<Longrightarrow>
      ok d' \<and> mode d' = mode d \<and> (cur d' = cur d \<or> cur d = c)"
begin

lemma created_refines:
  assumes "agrees cur mode ok (ts, w)" and "ts_caller ts = Some tid"
    and "dcall drv (CtxCreate True flags dev) w = ((CUDA_SUCCESS, outs), w1)" and "out0 outs \<noteq> 0"
    and "client_threads_created drv (out0 outs) (ts, w1) = (ts', w')"
  shows "agrees cur mode ok (ts', w') \<and> only_slot tid ts ts'
    \<and> the_slot ts' tid = set_stack (ct_stack (the_slot ts tid) @ [saved (out0 outs)]) (the_slot ts tid)"
proof -
  let ?c = "out0 outs"
  let ?ts = "(put_slot tid (set_stack (ct_stack (the_slot ts tid) @ [saved ?c]) (the_slot ts tid)) ts)
               \<lparr> ts_applied := saved ?c \<rparr>"
  define w2 where "w2 = (if sc_ctx (ts_applied ts) \<noteq> 0
      then snd (ClientThreads.set_current drv ?c (snd (ClientThreads.set_current drv 0 w1))) else w1)"
  have o: "ok (w_drv w)" and a: "sc_ctx (ts_applied ts) = cur (w_drv w)"
    and m: "ts_applied_mode ts = mode (w_drv w)" using assms(1) by (auto simp: agrees_def)
  obtain d' where d': "d_step drv (CtxCreate True flags dev) (w_drv w) = ((CUDA_SUCCESS, outs), d')" "w_drv w1 = d'"
    using assms(3) by (auto simp: dcall_def split: prod.splits)
  have w2: "ok (w_drv w2) \<and> mode (w_drv w2) = mode (w_drv w)"
  proof (cases "cur (w_drv w) = 0")
    case True
    then show ?thesis using create [OF o d'(1)] d'(2) a by (simp add: w2_def)
  next
    case False
    then obtain outs' d'' where d'': "d_step drv (CtxSetCurrent 0) d' = ((CUDA_SUCCESS, outs'), d'')"
      "ok d''" "mode d'' = mode (w_drv w)" using create [OF o d'(1)] by auto
    define v where "v = snd (ClientThreads.set_current drv 0 w1)"
    have v: "w_drv v = d''" using d''(1) d'(2) by (simp add: v_def ClientThreads.set_current_def dcall_def)
    obtain r x where x: "ClientThreads.set_current drv ?c v = (r, x)"
      by (cases "ClientThreads.set_current drv ?c v")
    then show ?thesis
      using set_current_spec [of v ?c r x] v d''(2,3) False a by (simp add: w2_def v_def)
  qed
  have "read_back drv (?ts, w2) = (ts', w')"
    using assms(2,4,5) by (simp add: client_threads_created_def Let_def w2_def)
  moreover have "ts_applied_mode ?ts = mode (w_drv w2)" using w2 m by simp
  ultimately have b: "agrees cur mode ok (ts', w')" "ts' = ?ts\<lparr>ts_applied := ts_applied ts'\<rparr>"
    using read_back_spec [of w2 ?ts] w2 by blast+
  have "the_slot ts' = the_slot ?ts" "only_slot tid ?ts ts'" by (subst b(2), simp add: only_slot_def)+
  then show ?thesis using b(1) by (auto simp: only_slot_def)
qed

end

end
