(* ===== verification/FakeDriver.thy ===== *)
theory FakeDriver
  imports Driver
begin

text \<open>
  The context calls of the repository's own fake driver (\<^verbatim>\<open>tests/fake_cuda.cpp\<close>), as one concrete
  driver. Its state is the calling thread's context stack (bottom first), the live created
  contexts with their devices, the retain count of each device's primary context, the thread's
  capture mode and the next handle. It keeps no contents of contexts here: what is destroyed with
  a context is outside this model, and the calls that make or free resources succeed with the
  handle they are given or the next one.

  It is the provider of the interface \<open>context_driver\<close>, and the driver the witnesses run on.
\<close>

record fake =
  fk_stack :: "u64 list"
  fk_contexts :: "(u64 \<times> int) list"
  fk_retains :: "(int \<times> int) list"
  fk_mode :: u32
  fk_next :: u64

definition fake_init :: fake where
  "fake_init = \<lparr> fk_stack = [], fk_contexts = [], fk_retains = [], fk_mode = 0, fk_next = 1 \<rparr>"

definition CUDA_ERROR_INVALID_DEVICE :: CUresult where "CUDA_ERROR_INVALID_DEVICE = 101"

definition fk_current :: "fake \<Rightarrow> u64" where
  "fk_current d = (if fk_stack d = [] then 0 else last (fk_stack d))"

text \<open>One device, number 0, whose primary context is one fixed token.\<close>

definition valid_device :: "int \<Rightarrow> bool" where "valid_device dev \<longleftrightarrow> dev = 0"

definition primary_token :: "int \<Rightarrow> u64" where "primary_token dev = 0x50000000 + word_of_int dev"

definition bindable :: "fake \<Rightarrow> u64 \<Rightarrow> bool" where
  "bindable d ctx \<longleftrightarrow> map_of (fk_contexts d) ctx \<noteq> None \<or> ctx = primary_token 0"

definition fk_retain_count :: "fake \<Rightarrow> int \<Rightarrow> int" where
  "fk_retain_count d dev = (case map_of (fk_retains d) dev of None \<Rightarrow> 0 | Some n \<Rightarrow> n)"

definition fk_set_current :: "u64 \<Rightarrow> fake \<Rightarrow> (CUresult \<times> u64 list) \<times> fake" where
  "fk_set_current ctx d =
     (if ctx = 0 then ((CUDA_SUCCESS, []), d\<lparr>fk_stack := butlast (fk_stack d)\<rparr>)
      else if \<not> bindable d ctx then ((CUDA_ERROR_INVALID_CONTEXT, []), d)
      else if fk_stack d = [] then ((CUDA_SUCCESS, []), d\<lparr>fk_stack := [ctx]\<rparr>)
      else ((CUDA_SUCCESS, []), d\<lparr>fk_stack := butlast (fk_stack d) @ [ctx]\<rparr>))"

definition fk_push_current :: "u64 \<Rightarrow> fake \<Rightarrow> (CUresult \<times> u64 list) \<times> fake" where
  "fk_push_current ctx d =
     (if ctx = 0 \<or> \<not> bindable d ctx then ((CUDA_ERROR_INVALID_CONTEXT, []), d)
      else ((CUDA_SUCCESS, []), d\<lparr>fk_stack := fk_stack d @ [ctx]\<rparr>))"

definition fk_pop_current :: "bool \<Rightarrow> fake \<Rightarrow> (CUresult \<times> u64 list) \<times> fake" where
  "fk_pop_current want d =
     (if fk_stack d = [] then ((CUDA_ERROR_INVALID_CONTEXT, []), d)
      else ((CUDA_SUCCESS, if want then [last (fk_stack d)] else []),
            d\<lparr>fk_stack := butlast (fk_stack d)\<rparr>))"

definition fk_create :: "bool \<Rightarrow> int \<Rightarrow> fake \<Rightarrow> (CUresult \<times> u64 list) \<times> fake" where
  "fk_create want dev d =
     (if \<not> want then ((CUDA_ERROR_INVALID_VALUE, []), d)
      else if \<not> valid_device dev then ((CUDA_ERROR_INVALID_DEVICE, []), d)
      else (let h = push_bit 32 0xC0FFEE00 OR fk_next d in
            ((CUDA_SUCCESS, [h]),
             d\<lparr>fk_next := fk_next d + 1, fk_contexts := AList.update h dev (fk_contexts d),
               fk_stack := fk_stack d @ [h]\<rparr>)))"

definition fk_destroy :: "u64 \<Rightarrow> fake \<Rightarrow> (CUresult \<times> u64 list) \<times> fake" where
  "fk_destroy ctx d =
     (if map_of (fk_contexts d) ctx = None then ((CUDA_ERROR_INVALID_CONTEXT, []), d)
      else ((CUDA_SUCCESS, []),
            d\<lparr>fk_contexts := AList.delete ctx (fk_contexts d),
              fk_stack := (if fk_current d = ctx then butlast (fk_stack d) else fk_stack d)\<rparr>))"

definition fk_detach :: "u64 \<Rightarrow> fake \<Rightarrow> (CUresult \<times> u64 list) \<times> fake" where
  "fk_detach ctx d =
     (if ctx = 0 \<or> fk_current d \<noteq> ctx \<or> map_of (fk_contexts d) ctx = None
      then ((CUDA_ERROR_INVALID_CONTEXT, []), d) else fk_destroy ctx d)"

definition fk_retain :: "bool \<Rightarrow> int \<Rightarrow> fake \<Rightarrow> (CUresult \<times> u64 list) \<times> fake" where
  "fk_retain want dev d =
     (if \<not> want then ((CUDA_ERROR_INVALID_VALUE, []), d)
      else if \<not> valid_device dev then ((CUDA_ERROR_INVALID_DEVICE, []), d)
      else ((CUDA_SUCCESS, [primary_token dev]),
            d\<lparr>fk_retains := AList.update dev (fk_retain_count d dev + 1) (fk_retains d)\<rparr>))"

definition fk_release :: "int \<Rightarrow> fake \<Rightarrow> (CUresult \<times> u64 list) \<times> fake" where
  "fk_release dev d =
     (if \<not> valid_device dev then ((CUDA_ERROR_INVALID_DEVICE, []), d)
      else if fk_retain_count d dev \<le> 0 then ((CUDA_ERROR_INVALID_CONTEXT, []), d)
      else ((CUDA_SUCCESS, []),
            d\<lparr>fk_retains := AList.update dev (fk_retain_count d dev - 1) (fk_retains d)\<rparr>))"

definition fk_get_state :: "int \<Rightarrow> fake \<Rightarrow> (CUresult \<times> u64 list) \<times> fake" where
  "fk_get_state dev d =
     (if \<not> valid_device dev then ((CUDA_ERROR_INVALID_DEVICE, []), d)
      else ((CUDA_SUCCESS, [if fk_retain_count d dev > 0 then 1 else 0]), d))"

definition fk_exchange_mode :: "u32 \<Rightarrow> fake \<Rightarrow> (CUresult \<times> u64 list) \<times> fake" where
  "fk_exchange_mode m d =
     (if m \<noteq> 0 \<and> m \<noteq> 1 \<and> m \<noteq> 2 then ((CUDA_ERROR_INVALID_VALUE, []), d)
      else ((CUDA_SUCCESS, [ucast (fk_mode d)]), d\<lparr>fk_mode := m\<rparr>))"

fun fake_step :: "drv_call \<Rightarrow> fake \<Rightarrow> (CUresult \<times> u64 list) \<times> fake" where
  "fake_step (CtxSetCurrent c) d = fk_set_current c d"
| "fake_step CtxGetCurrent d = ((CUDA_SUCCESS, [fk_current d]), d)"
| "fake_step CtxGetCurrentNull d = ((CUDA_ERROR_INVALID_VALUE, []), d)"
| "fake_step (CtxPushCurrent c) d = fk_push_current c d"
| "fake_step (CtxPopCurrent want) d = fk_pop_current want d"
| "fake_step (CtxCreate want flags dev) d = fk_create want dev d"
| "fake_step (CtxDestroy c) d = fk_destroy c d"
| "fake_step (CtxDetach c) d = fk_detach c d"
| "fake_step (ExchangeCaptureMode m) d = fk_exchange_mode m d"
| "fake_step (PrimaryCtxRetain want dev) d = fk_retain want dev d"
| "fake_step (PrimaryCtxRelease dev) d = fk_release dev d"
| "fake_step (PrimaryCtxReset dev) d =
     (if valid_device dev then ((CUDA_SUCCESS, []), d) else ((CUDA_ERROR_INVALID_DEVICE, []), d))"
| "fake_step (PrimaryCtxGetState dev) d = fk_get_state dev d"
| "fake_step c d = ((CUDA_SUCCESS, [fk_next d]), d\<lparr>fk_next := fk_next d + 1\<rparr>)"

definition fake_driver :: "fake driver" where
  "fake_driver = \<lparr> d_step = fake_step, d_has = (\<lambda>_. True) \<rparr>"

definition fake_shallow :: "fake \<Rightarrow> bool" where
  "fake_shallow d \<longleftrightarrow> length (fk_stack d) \<le> 1 \<and> 0 \<notin> set (fk_stack d)"

lemma shallow_cases: "fake_shallow d \<Longrightarrow> fk_stack d = [] \<or> (\<exists>c. c \<noteq> 0 \<and> fk_stack d = [c])"
  by (cases "fk_stack d") (auto simp: fake_shallow_def)

interpretation fake: context_driver fake_driver fk_current fk_mode fake_shallow
proof unfold_locales
  fix d :: fake and c :: u64
  assume ok: "fake_shallow d"
  then show "\<exists>outs d'. d_step fake_driver (CtxSetCurrent 0) d = ((CUDA_SUCCESS, outs), d')
      \<and> fk_current d' = 0 \<and> fk_mode d' = fk_mode d \<and> fake_shallow d'"
    using shallow_cases [OF ok]
    by (auto simp: fake_driver_def fk_set_current_def fk_current_def fake_shallow_def)
  show "\<exists>r outs d'. d_step fake_driver (CtxSetCurrent c) d = ((r, outs), d')
      \<and> fk_current d' = (if r = CUDA_SUCCESS then c else fk_current d)
      \<and> fk_mode d' = fk_mode d \<and> fake_shallow d'" if "c \<noteq> 0"
    using ok that shallow_cases [OF ok]
    by (auto simp: fake_driver_def fk_set_current_def fk_current_def fake_shallow_def)
qed (auto simp: fake_driver_def fk_exchange_mode_def fk_current_def fake_shallow_def)

end
