(* ===== verification/ThreadTable.thy ===== *)
theory ThreadTable
  imports ClientThreads FakeDriver
begin

text \<open>
  What the client threads' context stacks promise (\<^verbatim>\<open>server/client_threads.cpp\<close>): each thread sees its
  own stack and capture mode whatever other threads did in between, and a destroyed context is
  never made current again. The lemmas are those of the locales \<open>context_driver\<close> and
  \<open>creating_driver\<close>; here they are stated for any driver that keeps their laws, and the
  repository's fake driver is shown to be one.
\<close>

interpretation fakes: creating_driver fake_driver fk_current fk_mode fake_shallow
proof unfold_locales
  fix d d' :: fake and flags outs c
  and dev :: int
  assume ok: "fake_shallow d"
  have nz: "13907095858110791680 OR x \<noteq> (0 :: u64)" for x by (simp add: or_eq_0_iff)
  note defs = CUDA_ERROR_INVALID_DEVICE_def fake_driver_def fk_create_def fk_destroy_def fk_set_current_def fk_current_def fake_shallow_def
  show "if fk_current d = 0 then fake_shallow d' \<and> fk_current d' = out0 outs \<and> fk_mode d' = fk_mode d
      else \<exists>outs' d''. d_step fake_driver (CtxSetCurrent 0) d' = ((CUDA_SUCCESS, outs'), d'')
             \<and> fake_shallow d'' \<and> fk_current d'' = fk_current d \<and> fk_mode d'' = fk_mode d"
    if "d_step fake_driver (CtxCreate True flags dev) d = ((CUDA_SUCCESS, outs), d')"
    using that ok shallow_cases [OF ok] by (auto simp: defs Let_def out0_def nz split: if_splits)
  show "fake_shallow d' \<and> fk_mode d' = fk_mode d \<and> (fk_current d' = fk_current d \<or> fk_current d = c)"
    if "d_step fake_driver (CtxDestroy c) d = ((CUDA_SUCCESS, outs), d')"
    using that ok shallow_cases [OF ok] by (auto simp: defs split: if_splits)
qed

section \<open>A concrete session\<close>

text \<open>Thread 7 has the primary context below a created one, thread 8 has nothing, and thread 7 has
  just been served.\<close>

definition demo_fake :: fake where
  "demo_fake = fake_init\<lparr> fk_contexts := [(9, 0)], fk_stack := [9], fk_next := 3 \<rparr>"

definition demo_threads :: client_threads where
  "demo_threads = no_threads\<lparr> ts_live :=
     [(7, set_stack [saved 0x50000000, saved 9] new_thread), (8, new_thread\<lparr> ct_capture_mode := MODE_RELAXED \<rparr>)],
     ts_applied := saved 9 \<rparr>"

definition demo_world :: "fake world" where
  "demo_world = \<lparr> w_drv = demo_fake, w_log = [] \<rparr>"

lemmas demo_defs = demo_fake_def demo_threads_def demo_world_def no_threads_def new_thread_def
  put_slot_def the_slot_def set_stack_def note_stack_ctxs_def saved_def no_context_def Let_def

lemma demo_agrees: "agrees fk_current fk_mode fake_shallow (demo_threads, demo_world)"
  by (simp add: agrees_def fake_shallow_def demo_defs fk_current_def fake_init_def)

lemma demo_agrees_caller:
  "agrees fk_current fk_mode fake_shallow (demo_threads\<lparr> ts_caller := Some 7 \<rparr>, demo_world)"
  using demo_agrees by (simp add: agrees_def)

lemma demo_wf: "table_wf 64 demo_threads"
  by (auto simp: table_wf_def thread_wf_def demo_defs split: if_splits)

lemma demo_slot: "ct_stack (the_slot demo_threads 7) = [saved 0x50000000, saved 9]"
  by (simp add: demo_defs)

lemma demo_slot8: "the_slot demo_threads 8 = new_thread\<lparr> ct_capture_mode := MODE_RELAXED \<rparr>"
  by (simp add: demo_defs)

section \<open>Properties\<close>

text \<open>C31. Showing a client thread to the driver leaves the driver's current context equal to
  what that thread's calls run under - the top of its stack, or none when it has none or its top
  is destroyed - changes no other thread, and on success also leaves the driver in the thread's
  own capture mode.\<close>

theorem show_gives_thread_its_context:
  assumes "context_driver drv cur mode ok" and "agrees cur mode ok (ts, w)"
    and "client_thread_show drv tid (ts, w) = (r, (ts', w'))"
  shows "agrees cur mode ok (ts', w') \<and> only_slot tid ts ts'
    \<and> cur (w_drv w') = visible (the_slot ts' tid)
    \<and> (the_slot ts' tid = the_slot ts tid \<or> the_slot ts' tid = top_gone (the_slot ts tid))
    \<and> (r = CUDA_SUCCESS \<longrightarrow> mode (w_drv w') = ct_capture_mode (the_slot ts' tid))"
  using context_driver.show_spec [OF assms] by blast

theorem show_gives_thread_its_context_witness:
  "fk_current (w_drv (snd (snd (client_thread_show fake_driver 8 (demo_threads, demo_world))))) = 0
   \<and> fk_mode (w_drv (snd (snd (client_thread_show fake_driver 8 (demo_threads, demo_world))))) = MODE_RELAXED"
proof -
  obtain r ts' w' where s: "client_thread_show fake_driver 8 (demo_threads, demo_world) = (r, (ts', w'))"
    by (cases "client_thread_show fake_driver 8 (demo_threads, demo_world)") auto
  have "fst (client_thread_show fake_driver 8 (demo_threads, demo_world)) = CUDA_SUCCESS" by code_simp
  then have r: "r = CUDA_SUCCESS" using s by simp
  have v8: "visible \<lparr>ct_stack = [], ct_stack_ctxs = {}, ct_pending_async = 0, ct_capture_mode = 2\<rparr> = 0"
    by (simp add: visible_def)
  have "visible (the_slot ts' 8) = 0" "ct_capture_mode (the_slot ts' 8) = MODE_RELAXED"
    using show_gives_thread_its_context [OF fake.context_driver_axioms demo_agrees s]
    by (auto simp: demo_slot8 v8 new_thread_def)
  then show ?thesis
    using show_gives_thread_its_context [OF fake.context_driver_axioms demo_agrees s] s r by simp
qed

text \<open>Selecting a context replaces the top of the calling thread's stack (or pushes onto
  an empty one) when the driver accepts it, and otherwise changes neither the stack nor what is
  current; no other thread's slot is touched.\<close>

theorem set_current_acts_on_own_stack:
  assumes "context_driver drv cur mode ok" and "agrees cur mode ok (ts, w)"
    and "ts_caller ts = Some tid" and "ctx \<noteq> 0"
    and "w_cuCtxSetCurrent drv ctx (ts, w) = (r, (ts', w'))"
  shows "agrees cur mode ok (ts', w') \<and> only_slot tid ts ts'
    \<and> (if r = CUDA_SUCCESS then cur (w_drv w') = ctx
          \<and> ct_stack (the_slot ts' tid) = replaced_top ctx (ct_stack (the_slot ts tid))
       else cur (w_drv w') = cur (w_drv w) \<and> the_slot ts' tid = the_slot ts tid)"
  using context_driver.set_current_refines [OF assms(1-5)] by (simp split: if_splits)

theorem set_current_acts_on_own_stack_witness:
  "ct_stack (the_slot (fst (snd (w_cuCtxSetCurrent fake_driver 0x50000000
     (demo_threads\<lparr> ts_caller := Some 7 \<rparr>, demo_world)))) 7) = [saved 0x50000000, saved 0x50000000]"
proof -
  let ?s = "(demo_threads\<lparr> ts_caller := Some 7 \<rparr>, demo_world)"
  obtain r ts' w' where s: "w_cuCtxSetCurrent fake_driver 0x50000000 ?s = (r, (ts', w'))"
    by (cases "w_cuCtxSetCurrent fake_driver 0x50000000 ?s") auto
  have "fst (w_cuCtxSetCurrent fake_driver 0x50000000 ?s) = CUDA_SUCCESS" by code_simp
  then show ?thesis
    using set_current_acts_on_own_stack [OF fake.context_driver_axioms demo_agrees_caller, of 7, OF _ _ s] s
    by (simp add: replaced_top_def demo_defs)
qed

text \<open>Pushing a context appends it to the calling thread's stack exactly when it is not
  null, the stack is below the cap and the driver accepts it; any other outcome is an error that
  changes nothing.\<close>

theorem push_acts_on_own_stack:
  assumes "context_driver drv cur mode ok" and "agrees cur mode ok (ts, w)"
    and "ts_caller ts = Some tid"
    and "w_cuCtxPushCurrent drv depth ctx (ts, w) = (r, (ts', w'))"
  shows "agrees cur mode ok (ts', w') \<and> only_slot tid ts ts'
    \<and> (if r = CUDA_SUCCESS then cur (w_drv w') = ctx \<and> ctx \<noteq> 0
          \<and> length (ct_stack (the_slot ts tid)) < depth
          \<and> ct_stack (the_slot ts' tid) = ct_stack (the_slot ts tid) @ [saved ctx]
       else cur (w_drv w') = cur (w_drv w) \<and> the_slot ts' tid = the_slot ts tid)"
  using context_driver.push_refines [OF assms(1-4)] by (simp split: if_splits)

theorem push_acts_on_own_stack_witness:
  "ct_stack (the_slot (fst (snd (w_cuCtxPushCurrent fake_driver 64 0x50000000
     (demo_threads\<lparr> ts_caller := Some 7 \<rparr>, demo_world)))) 7) = [saved 0x50000000, saved 9, saved 0x50000000]"
proof -
  let ?s = "(demo_threads\<lparr> ts_caller := Some 7 \<rparr>, demo_world)"
  obtain r ts' w' where s: "w_cuCtxPushCurrent fake_driver 64 0x50000000 ?s = (r, (ts', w'))"
    by (cases "w_cuCtxPushCurrent fake_driver 64 0x50000000 ?s") auto
  have "fst (w_cuCtxPushCurrent fake_driver 64 0x50000000 ?s) = CUDA_SUCCESS" by code_simp
  then show ?thesis
    using push_acts_on_own_stack [OF fake.context_driver_axioms demo_agrees_caller, of 7, OF _ s] s
    by (simp add: demo_defs)
qed

text \<open>Popping a thread's non-empty stack hands back the context that was on top, destroyed
  or not, leaves the contexts below it in order, and makes the new top - or nothing, if that one is
  destroyed - current on the driver.\<close>

theorem pop_acts_on_own_stack:
  assumes "context_driver drv cur mode ok" and "agrees cur mode ok (ts, w)"
    and "ts_caller ts = Some tid" and "ct_stack (the_slot ts tid) \<noteq> []"
    and "w_cuCtxPopCurrent drv want (ts, w) = ((r, outs), (ts', w'))"
  shows "agrees cur mode ok (ts', w') \<and> only_slot tid ts ts' \<and> cur (w_drv w') = visible (the_slot ts' tid)
    \<and> map sc_ctx (ct_stack (the_slot ts' tid)) = butlast (map sc_ctx (ct_stack (the_slot ts tid)))
    \<and> outs = (if want then [sc_ctx (last (ct_stack (the_slot ts tid)))] else [])"
  using context_driver.pop_refines [OF assms] .

theorem pop_acts_on_own_stack_witness:
  "map sc_ctx (ct_stack (the_slot (fst (snd (w_cuCtxPopCurrent fake_driver True
     (demo_threads\<lparr> ts_caller := Some 7 \<rparr>, demo_world)))) 7)) = [0x50000000]
   \<and> snd (fst (w_cuCtxPopCurrent fake_driver True (demo_threads\<lparr> ts_caller := Some 7 \<rparr>, demo_world))) = [9]"
proof -
  let ?s = "(demo_threads\<lparr> ts_caller := Some 7 \<rparr>, demo_world)"
  obtain r outs ts' w' where s: "w_cuCtxPopCurrent fake_driver True ?s = ((r, outs), (ts', w'))"
    by (cases "w_cuCtxPopCurrent fake_driver True ?s") auto
  have slot: "the_slot (demo_threads\<lparr> ts_caller := Some 7 \<rparr>) 7 = the_slot demo_threads 7"
    by (simp add: the_slot_def)
  show ?thesis
    using pop_acts_on_own_stack [OF fake.context_driver_axioms demo_agrees_caller, of 7, OF _ _ s] s
    by (simp add: slot demo_slot)
qed



text \<open>A context the driver has just created is pushed onto the calling thread's stack
  and its own stack alone, and what the server believes current is still what the driver says,
  whatever was current before.\<close>

theorem created_context_is_pushed:
  assumes "creating_driver drv cur mode ok" and "agrees cur mode ok (ts, w)"
    and "ts_caller ts = Some tid"
    and "dcall drv (CtxCreate True flags dev) w = ((CUDA_SUCCESS, outs), w1)" and "out0 outs \<noteq> 0"
    and "client_threads_created drv (out0 outs) (ts, w1) = (ts', w')"
  shows "agrees cur mode ok (ts', w') \<and> only_slot tid ts ts'
    \<and> ct_stack (the_slot ts' tid) = ct_stack (the_slot ts tid) @ [saved (out0 outs)]"
  using creating_driver.created_refines [OF assms(1-6)] by simp

theorem created_context_is_pushed_witness:
  "\<exists>outs w1 ts' w'. dcall fake_driver (CtxCreate True 0 0) demo_world = ((CUDA_SUCCESS, outs), w1)
     \<and> client_threads_created fake_driver (out0 outs) (demo_threads\<lparr> ts_caller := Some 7 \<rparr>, w1) = (ts', w')
     \<and> ct_stack (the_slot ts' 7) = [saved 0x50000000, saved 9, saved 0xC0FFEE0000000003]"
proof -
  let ?h = "0xC0FFEE0000000003 :: u64"
  have h: "push_bit 32 0xC0FFEE00 OR (3 :: u64) = ?h" by simp
  obtain w1 where c: "dcall fake_driver (CtxCreate True 0 0) demo_world = ((CUDA_SUCCESS, [?h]), w1)"
    using h by (simp add: dcall_def fake_driver_def fk_create_def valid_device_def demo_defs fake_init_def)
  obtain ts' w' where s: "client_threads_created fake_driver (out0 [?h]) (demo_threads\<lparr> ts_caller := Some 7 \<rparr>, w1) = (ts', w')"
    by (cases "client_threads_created fake_driver (out0 [?h]) (demo_threads\<lparr> ts_caller := Some 7 \<rparr>, w1)")
  have nz: "out0 [?h] \<noteq> 0" by (simp add: out0_def)
  have "ct_stack (the_slot ts' 7) = [saved 0x50000000, saved 9, saved ?h]"
    using created_context_is_pushed [OF fakes.creating_driver_axioms demo_agrees_caller, of 7, OF _ c nz s]
    by (simp add: out0_def the_slot_def demo_defs)
  then show ?thesis using c s by blast
qed

text \<open>A sweep that skips the threads whose set of named contexts lacks the destroyed one
  leaves the table a sweep of every entry of every thread would leave.\<close>

theorem sweep_is_a_full_sweep:
  assumes "table_wf depth ts"
  shows "map_of (ts_live (sweep ctx ts))
      = map_option (\<lambda>t. t\<lparr> ct_stack := mark_gone ctx (ct_stack t) \<rparr>) \<circ> map_of (ts_live ts)
    \<and> ts_retired (sweep ctx ts) = map (apsnd (\<lambda>t. t\<lparr> ct_stack := mark_gone ctx (ct_stack t) \<rparr>)) (ts_retired ts)"
proof
  show "map_of (ts_live (sweep ctx ts))
      = map_option (\<lambda>t. t\<lparr> ct_stack := mark_gone ctx (ct_stack t) \<rparr>) \<circ> map_of (ts_live ts)"
  proof
    fix j show "map_of (ts_live (sweep ctx ts)) j
        = (map_option (\<lambda>t. t\<lparr> ct_stack := mark_gone ctx (ct_stack t) \<rparr>) \<circ> map_of (ts_live ts)) j"
      using assms by (cases "map_of (ts_live ts) j") (auto simp: sweep_def table_wf_def intro!: sweep_one_full)
  qed
  show "ts_retired (sweep ctx ts) = map (apsnd (\<lambda>t. t\<lparr> ct_stack := mark_gone ctx (ct_stack t) \<rparr>)) (ts_retired ts)"
    using assms by (auto simp: sweep_def table_wf_def sweep_one_full)
qed

theorem sweep_is_a_full_sweep_witness:
  "ts_retired (sweep 9 demo_threads) = [] \<and> table_wf 64 demo_threads"
  using sweep_is_a_full_sweep [OF demo_wf, of 9] demo_wf by (simp add: demo_threads_def no_threads_def)

text \<open>After a request, when the driver agrees with what the server believes current, the
  table is left as it is, and the result is changed only from an invalid-context answer of a driver
  call whose thread's top is destroyed, and then to the destroyed-context code.\<close>

theorem after_keeps_agreeing_table:
  assumes "context_driver drv cur mode ok" and "agrees cur mode ok (ts, w)"
    and "client_thread_after drv tid api result (ts, w) = (result', (ts', w'))"
  shows "ts' = ts \<and> agrees cur mode ok (ts', w') \<and> cur (w_drv w') = cur (w_drv w)
    \<and> (if result = CUDA_ERROR_INVALID_CONTEXT \<and> is_driver_call api \<and> \<not> keeps_own_answer api
          \<and> ct_stack (the_slot ts tid) \<noteq> [] \<and> sc_gone (last (ct_stack (the_slot ts tid)))
       then result' = CUDA_ERROR_CONTEXT_IS_DESTROYED else result' = result)"
proof -
  obtain r now w1 where d: "driver_current drv w = (r, now, w1)" by (cases "driver_current drv w")
  have ok: "ok (w_drv w)" using assms(2) by (simp add: agrees_def)
  note spec = context_driver.driver_current_spec [OF assms(1) ok d]
  have "result' = corrected_result (the_slot ts tid) api result" "ts' = ts" "w' = w1"
    using assms(2,3) d spec(2) by (auto simp: client_thread_after_def agrees_def)
  then show ?thesis using spec assms(2) by (auto simp: corrected_result_def agrees_def)
qed

theorem after_keeps_agreeing_table_witness:
  "fst (client_thread_after fake_driver 7 12 CUDA_ERROR_INVALID_CONTEXT (demo_threads, demo_world))
     = CUDA_ERROR_INVALID_CONTEXT"
proof -
  obtain r ts' w' where s: "client_thread_after fake_driver 7 12 CUDA_ERROR_INVALID_CONTEXT
      (demo_threads, demo_world) = (r, (ts', w'))"
    by (cases "client_thread_after fake_driver 7 12 CUDA_ERROR_INVALID_CONTEXT (demo_threads, demo_world)") auto
  show ?thesis
    using after_keeps_agreeing_table [OF fake.context_driver_axioms demo_agrees s] s
    by (simp add: demo_slot)
qed

end
