(* ===== verification/Inventory.thy ===== *)
theory Inventory
  imports ClientThreads
begin

text \<open>
  What a session has taken from the driver and not given back: \<^verbatim>\<open>server/inventory.h\<close> and the recording
  half of \<^verbatim>\<open>server/inventory.cpp\<close>. A resource map is an association list in the map's iteration order;
  the pointer to one of an inventory's maps is a value of the type \<open>which\<close>. The tables shared by all
  sessions of the process are the record \<open>process\<close>, and what one serving thread acts on - its
  session's inventory, the process, the client threads and the driver - is the record \<open>sv\<close>.
  Mutexes are not modelled: each operation here is one critical section, or one run under
  \<^verbatim>\<open>g_primary_mu\<close>, of the code.
\<close>

section \<open>State\<close>

record stamp =
  st_ctx :: u64
  st_dev :: int
  st_gen :: u64

definition no_stamp :: stamp where
  "no_stamp = \<lparr> st_ctx = 0, st_dev = -1, st_gen = 0 \<rparr>"

datatype which = Allocs | Contexts | Modules | Streams | Events | Graphs | GraphExecs
  | Libraries | VmmHandles

datatype sized_map = VmmMaps | VmmRanges

type_synonym items = "(u64 \<times> stamp) list"

text \<open>The function that destroys a maths-library handle is named by a number, or is null.\<close>

record lib_handle =
  lh_made :: stamp
  lh_what :: string
  lh_destroy :: "u32 option"

record open_capture =
  oc_stream :: u64
  oc_where :: stamp

text \<open>A context's entries, per swept map (by its slot), and its library handles.\<close>

record ctx_entries =
  ce_in :: "nat \<Rightarrow> u64 set"
  ce_handles :: "u64 set"

definition no_entries :: ctx_entries where
  "no_entries = \<lparr> ce_in = (\<lambda>_. {}), ce_handles = {} \<rparr>"

record inventory =
  iv_items :: "which \<Rightarrow> items"
  iv_sized :: "sized_map \<Rightarrow> (u64 \<times> u64) list"
  iv_captures :: "open_capture list"
  iv_handles :: "(u64 \<times> lib_handle) list"
  iv_by_ctx :: "u64 \<Rightarrow> ctx_entries option"
  iv_retains :: "(int \<times> int) list"

definition no_inventory :: inventory where
  "no_inventory = \<lparr> iv_items = (\<lambda>_. []), iv_sized = (\<lambda>_. []), iv_captures = [], iv_handles = [],
     iv_by_ctx = (\<lambda>_. None), iv_retains = [] \<rparr>"

record process =
  p_live_sessions :: int
  p_primary_dev :: "(u64 \<times> int) list"
  p_primary_gen :: "(int \<times> u64) list"

definition no_process :: process where
  "no_process = \<lparr> p_live_sessions = 0, p_primary_dev = [], p_primary_gen = [] \<rparr>"

record 'd sv =
  sv_inv :: "inventory option"
  sv_proc :: process
  sv_threads :: client_threads
  sv_world :: "'d world"

definition on_inv :: "(inventory \<Rightarrow> inventory) \<Rightarrow> 'd sv \<Rightarrow> 'd sv" where
  "on_inv f s = s\<lparr> sv_inv := map_option f (sv_inv s) \<rparr>"

definition on_proc :: "(process \<Rightarrow> process) \<Rightarrow> 'd sv \<Rightarrow> 'd sv" where
  "on_proc f s = s\<lparr> sv_proc := f (sv_proc s) \<rparr>"

definition sv_call :: "'d driver \<Rightarrow> drv_call \<Rightarrow> 'd sv \<Rightarrow> (CUresult \<times> u64 list) \<times> 'd sv" where
  "sv_call drv c s = (case dcall drv c (sv_world s) of (r, w) \<Rightarrow> (r, s\<lparr> sv_world := w \<rparr>))"

text \<open>Running an operation of the client-thread table on the serving thread's state.\<close>

definition on_threads :: "('d tw \<Rightarrow> 'd tw) \<Rightarrow> 'd sv \<Rightarrow> 'd sv" where
  "on_threads f s = (case f (sv_threads s, sv_world s) of (ts, w) \<Rightarrow> s\<lparr> sv_threads := ts, sv_world := w \<rparr>)"

section \<open>Primary-context generations\<close>

definition learn_primary :: "u64 \<Rightarrow> int \<Rightarrow> process \<Rightarrow> process" where
  "learn_primary ctx dev p = (if ctx = 0 then p
     else p\<lparr> p_primary_dev := AList.update ctx dev (p_primary_dev p) \<rparr>)"

definition generation :: "process \<Rightarrow> int \<Rightarrow> u64" where
  "generation p dev = (case map_of (p_primary_gen p) dev of None \<Rightarrow> 0 | Some g \<Rightarrow> g)"

definition kEndedGeneration :: u64 where "kEndedGeneration = NOT 0"

definition bump_generation :: "int \<Rightarrow> process \<Rightarrow> process" where
  "bump_generation dev p =
     p\<lparr> p_primary_gen := AList.update dev (generation p dev + 1) (p_primary_gen p) \<rparr>"

definition stamp_context :: "process \<Rightarrow> u64 \<Rightarrow> stamp" where
  "stamp_context p ctx = (case map_of (p_primary_dev p) ctx of
       None \<Rightarrow> \<lparr> st_ctx = ctx, st_dev = -1, st_gen = 0 \<rparr>
     | Some dev \<Rightarrow> \<lparr> st_ctx = ctx, st_dev = dev, st_gen = generation p dev \<rparr>)"

definition current_ctx :: "'d driver \<Rightarrow> 'd sv \<Rightarrow> u64 \<times> 'd sv" where
  "current_ctx drv s = (if d_has drv ''cuCtxGetCurrent''
     then (case sv_call drv CtxGetCurrent s of ((_, outs), s1) \<Rightarrow> (out0 outs, s1)) else (0, s))"

definition take_stamp :: "'d driver \<Rightarrow> 'd sv \<Rightarrow> stamp \<times> 'd sv" where
  "take_stamp drv s = (case current_ctx drv s of (ctx, s1) \<Rightarrow> (stamp_context (sv_proc s1) ctx, s1))"

definition still_current :: "process \<Rightarrow> int \<Rightarrow> u64 \<Rightarrow> bool" where
  "still_current p dev gen \<longleftrightarrow> gen \<noteq> kEndedGeneration \<and> (dev < 0 \<or> generation p dev = gen)"

definition primary_handles :: "process \<Rightarrow> int \<Rightarrow> u64 list" where
  "primary_handles p dev = map fst (filter (\<lambda>kv. snd kv = dev) (p_primary_dev p))"

section \<open>The reverse index\<close>

fun ctx_slot :: "which \<Rightarrow> nat option" where
  "ctx_slot Allocs = Some 0"
| "ctx_slot Modules = Some 1"
| "ctx_slot Streams = Some 2"
| "ctx_slot Events = Some 3"
| "ctx_slot Graphs = Some 4"
| "ctx_slot GraphExecs = Some 5"
| "ctx_slot Contexts = None"
| "ctx_slot Libraries = None"
| "ctx_slot VmmHandles = None"

definition kCtxMapCount :: nat where "kCtxMapCount = 6"

definition ctx_map :: "nat \<Rightarrow> which option" where
  "ctx_map slot = (if slot < kCtxMapCount
     then Some ([Allocs, Modules, Streams, Events, Graphs, GraphExecs] ! slot) else None)"

definition index_drop_if_empty :: "u64 \<Rightarrow> inventory \<Rightarrow> inventory" where
  "index_drop_if_empty ctx iv = (case iv_by_ctx iv ctx of None \<Rightarrow> iv
     | Some e \<Rightarrow> (if ce_handles e \<noteq> {} then iv
                 else if list_ex (\<lambda>slot. ce_in e slot \<noteq> {}) [0..<kCtxMapCount] then iv
                 else iv\<lparr> iv_by_ctx := (iv_by_ctx iv)(ctx := None) \<rparr>))"

definition bucket :: "inventory \<Rightarrow> u64 \<Rightarrow> ctx_entries" where
  "bucket iv ctx = (case iv_by_ctx iv ctx of None \<Rightarrow> no_entries | Some e \<Rightarrow> e)"

definition index_add :: "u64 \<Rightarrow> nat option \<Rightarrow> u64 \<Rightarrow> inventory \<Rightarrow> inventory" where
  "index_add ctx slot h iv = (case slot of None \<Rightarrow> iv
     | Some i \<Rightarrow> (if ctx = 0 then iv
         else let e = bucket iv ctx in
           iv\<lparr> iv_by_ctx := (iv_by_ctx iv)(ctx \<mapsto> e\<lparr> ce_in := (ce_in e)(i := insert h (ce_in e i)) \<rparr>) \<rparr>))"

definition index_remove :: "u64 \<Rightarrow> nat option \<Rightarrow> u64 \<Rightarrow> inventory \<Rightarrow> inventory" where
  "index_remove ctx slot h iv = (case slot of None \<Rightarrow> iv
     | Some i \<Rightarrow> (if ctx = 0 then iv
         else case iv_by_ctx iv ctx of None \<Rightarrow> iv
           | Some e \<Rightarrow> index_drop_if_empty ctx
               (iv\<lparr> iv_by_ctx := (iv_by_ctx iv)(ctx \<mapsto> e\<lparr> ce_in := (ce_in e)(i := ce_in e i - {h}) \<rparr>) \<rparr>)))"

definition index_add_handle :: "u64 \<Rightarrow> u64 \<Rightarrow> inventory \<Rightarrow> inventory" where
  "index_add_handle ctx h iv = (if ctx = 0 then iv
     else let e = bucket iv ctx in
       iv\<lparr> iv_by_ctx := (iv_by_ctx iv)(ctx \<mapsto> e\<lparr> ce_handles := insert h (ce_handles e) \<rparr>) \<rparr>)"

definition index_remove_handle :: "u64 \<Rightarrow> u64 \<Rightarrow> inventory \<Rightarrow> inventory" where
  "index_remove_handle ctx h iv = (if ctx = 0 then iv
     else case iv_by_ctx iv ctx of None \<Rightarrow> iv
       | Some e \<Rightarrow> index_drop_if_empty ctx
           (iv\<lparr> iv_by_ctx := (iv_by_ctx iv)(ctx \<mapsto> e\<lparr> ce_handles := ce_handles e - {h} \<rparr>) \<rparr>))"

section \<open>Recording\<close>

definition put_items :: "which \<Rightarrow> (items \<Rightarrow> items) \<Rightarrow> inventory \<Rightarrow> inventory" where
  "put_items w f iv = iv\<lparr> iv_items := (iv_items iv)(w := f (iv_items iv w)) \<rparr>"

definition stamp_of :: "'d driver \<Rightarrow> which \<Rightarrow> u64 \<Rightarrow> 'd sv \<Rightarrow> stamp \<times> 'd sv" where
  "stamp_of drv w source s = (case sv_inv s of None \<Rightarrow> take_stamp drv s
     | Some iv \<Rightarrow>
         (if source = 0 then take_stamp drv s
          else case map_of (iv_items iv w) source of
              Some st \<Rightarrow> (st, s)
            | None \<Rightarrow> (case take_stamp drv s of (st, s1) \<Rightarrow> (st\<lparr> st_gen := kEndedGeneration \<rparr>, s1))))"

definition note_item :: "which \<Rightarrow> u64 \<Rightarrow> stamp \<Rightarrow> inventory \<Rightarrow> inventory" where
  "note_item w h st iv = (if h = 0 then iv
     else let inv1 = (if ctx_slot w = None then iv
                      else case map_of (iv_items iv w) h of None \<Rightarrow> iv
                        | Some old \<Rightarrow> (if st_ctx old \<noteq> st_ctx st
                                      then index_remove (st_ctx old) (ctx_slot w) h iv else iv))
          in index_add (st_ctx st) (ctx_slot w) h (put_items w (AList.update h st) inv1))"

definition forget_item :: "which \<Rightarrow> u64 \<Rightarrow> inventory \<Rightarrow> inventory" where
  "forget_item w h iv =
     (let inv1 = (if ctx_slot w = None then iv
                  else case map_of (iv_items iv w) h of None \<Rightarrow> iv
                    | Some old \<Rightarrow> index_remove (st_ctx old) (ctx_slot w) h iv)
      in put_items w (AList.delete h) inv1)"

definition note_primary_retain :: "int \<Rightarrow> int \<Rightarrow> inventory \<Rightarrow> inventory" where
  "note_primary_retain dev delta iv =
     (let n = (case map_of (iv_retains iv) dev of None \<Rightarrow> 0 | Some n \<Rightarrow> n) + delta
      in iv\<lparr> iv_retains := AList.update dev (if n < 0 then 0 else n) (iv_retains iv) \<rparr>)"

text \<open>Erasing every key of a set from a map.\<close>

definition erase_keys :: "'k set \<Rightarrow> ('k \<times> 'v) list \<Rightarrow> ('k \<times> 'v) list" where
  "erase_keys ks xs = filter (\<lambda>kv. fst kv \<notin> ks) xs"

definition forget_under :: "u64 \<Rightarrow> inventory \<Rightarrow> inventory" where
  "forget_under ctx iv =
     (let inv1 = (case iv_by_ctx iv ctx of None \<Rightarrow> iv
        | Some e \<Rightarrow> iv\<lparr> iv_items := (\<lambda>w. case ctx_slot w of None \<Rightarrow> iv_items iv w
                                      | Some slot \<Rightarrow> erase_keys (ce_in e slot) (iv_items iv w)),
                        iv_handles := erase_keys (ce_handles e) (iv_handles iv),
                        iv_by_ctx := (iv_by_ctx iv)(ctx := None) \<rparr>)
      in inv1\<lparr> iv_captures := filter (\<lambda>c. st_ctx (oc_where c) \<noteq> ctx) (iv_captures inv1) \<rparr>)"

definition forget_context :: "u64 \<Rightarrow> inventory \<Rightarrow> inventory" where
  "forget_context ctx iv = forget_under ctx (put_items Contexts (AList.delete ctx) iv)"

text \<open>Whether an indexed handle's entry is missing, or of an earlier generation of the device.\<close>

definition outdated :: "int \<Rightarrow> u64 \<Rightarrow> stamp option \<Rightarrow> bool" where
  "outdated dev now e = (case e of None \<Rightarrow> True | Some st \<Rightarrow> st_dev st = dev \<and> st_gen st \<noteq> now)"

definition forget_primary_ctx :: "int \<Rightarrow> u64 \<Rightarrow> u64 \<Rightarrow> inventory \<Rightarrow> inventory" where
  "forget_primary_ctx dev now ctx iv = (case iv_by_ctx iv ctx of None \<Rightarrow> iv
     | Some e \<Rightarrow>
        (let gone = (\<lambda>w h. outdated dev now (map_of (iv_items iv w) h));
             hgone = (\<lambda>h. outdated dev now (map_option lh_made (map_of (iv_handles iv) h)))
         in index_drop_if_empty ctx
           (iv\<lparr> iv_items := (\<lambda>w. case ctx_slot w of None \<Rightarrow> iv_items iv w
                    | Some slot \<Rightarrow> erase_keys {h \<in> ce_in e slot. gone w h} (iv_items iv w)),
                iv_handles := erase_keys {h \<in> ce_handles e. hgone h} (iv_handles iv),
                iv_by_ctx := (iv_by_ctx iv)(ctx \<mapsto>
                  \<lparr> ce_in = (\<lambda>slot. case ctx_map slot of None \<Rightarrow> ce_in e slot
                              | Some w \<Rightarrow> {h \<in> ce_in e slot. \<not> gone w h}),
                    ce_handles = {h \<in> ce_handles e. \<not> hgone h} \<rparr>) \<rparr>)))"

definition forget_primary :: "process \<Rightarrow> int \<Rightarrow> inventory \<Rightarrow> inventory" where
  "forget_primary p dev iv =
     (let now = generation p dev;
          inv1 = fold (forget_primary_ctx dev now) (primary_handles p dev) iv
      in inv1\<lparr> iv_captures := filter (\<lambda>c. \<not> (st_dev (oc_where c) = dev \<and> st_gen (oc_where c) \<noteq> now))
                                      (iv_captures inv1) \<rparr>)"

definition note_sized :: "sized_map \<Rightarrow> u64 \<Rightarrow> u64 \<Rightarrow> inventory \<Rightarrow> inventory" where
  "note_sized m start bytes iv = (if start = 0 then iv
     else iv\<lparr> iv_sized := (iv_sized iv)(m := AList.update start bytes (iv_sized iv m)) \<rparr>)"

definition forget_sized :: "sized_map \<Rightarrow> u64 \<Rightarrow> inventory \<Rightarrow> inventory" where
  "forget_sized m start iv = iv\<lparr> iv_sized := (iv_sized iv)(m := AList.delete start (iv_sized iv m)) \<rparr>"

fun erase_capture :: "u64 \<Rightarrow> u64 \<Rightarrow> open_capture list \<Rightarrow> open_capture list" where
  "erase_capture stream ctx [] = []"
| "erase_capture stream ctx (c # cs) =
     (if oc_stream c = stream \<and> (stream \<noteq> 0 \<or> st_ctx (oc_where c) = ctx) then cs
      else c # erase_capture stream ctx cs)"

definition forget_capture :: "u64 \<Rightarrow> u64 \<Rightarrow> inventory \<Rightarrow> inventory" where
  "forget_capture stream ctx iv = iv\<lparr> iv_captures := erase_capture stream ctx (iv_captures iv) \<rparr>"

definition inventory_note_handle :: "u64 \<Rightarrow> lib_handle \<Rightarrow> inventory \<Rightarrow> inventory" where
  "inventory_note_handle h lh iv = (if h = 0 then iv
     else let inv1 = (case map_of (iv_handles iv) h of None \<Rightarrow> iv
                        | Some old \<Rightarrow> (if st_ctx (lh_made old) \<noteq> st_ctx (lh_made lh)
                                      then index_remove_handle (st_ctx (lh_made old)) h iv else iv))
          in index_add_handle (st_ctx (lh_made lh)) h
               (inv1\<lparr> iv_handles := AList.update h lh (iv_handles inv1) \<rparr>))"

definition inventory_forget_handle :: "u64 \<Rightarrow> inventory \<Rightarrow> inventory" where
  "inventory_forget_handle h iv =
     (let inv1 = (case map_of (iv_handles iv) h of None \<Rightarrow> iv
                    | Some old \<Rightarrow> index_remove_handle (st_ctx (lh_made old)) h iv)
      in inv1\<lparr> iv_handles := AList.delete h (iv_handles inv1) \<rparr>)"

definition inventory_bind :: "inventory option \<Rightarrow> 'd sv \<Rightarrow> 'd sv" where
  "inventory_bind iv s =
     (let n = p_live_sessions (sv_proc s);
          n' = (if iv \<noteq> None \<and> sv_inv s = None then n + 1
                else if iv = None \<and> sv_inv s \<noteq> None then n - 1 else n)
      in s\<lparr> sv_inv := iv, sv_proc := (sv_proc s)\<lparr> p_live_sessions := n' \<rparr> \<rparr>)"

end
