(* ===== verification/InventoryIndex.thy ===== *)
theory InventoryIndex
  imports Inventory
begin

text \<open>
  The reverse index of an inventory names, for each context, exactly the entries recorded under it,
  so that a context's teardown, which visits only the index, forgets what a scan of every map would.
\<close>

section \<open>What the index should hold\<close>

definition indexed :: "inventory \<Rightarrow> u64 \<Rightarrow> nat \<Rightarrow> u64 set" where
  "indexed iv ctx slot = ce_in (bucket iv ctx) slot"

definition indexed_handles :: "inventory \<Rightarrow> u64 \<Rightarrow> u64 set" where
  "indexed_handles iv ctx = ce_handles (bucket iv ctx)"

definition recorded_under :: "u64 \<Rightarrow> (u64 \<times> stamp) list \<Rightarrow> u64 set" where
  "recorded_under ctx xs = {h. ctx \<noteq> 0 \<and> (\<exists>st. map_of xs h = Some st \<and> st_ctx st = ctx)}"

definition handle_stamps :: "inventory \<Rightarrow> (u64 \<times> stamp) list" where
  "handle_stamps iv = map (apsnd lh_made) (iv_handles iv)"

text \<open>No bucket is left empty.\<close>

definition compact :: "inventory \<Rightarrow> bool" where
  "compact iv \<longleftrightarrow> (\<forall>ctx e. iv_by_ctx iv ctx = Some e \<longrightarrow>
     ce_handles e \<noteq> {} \<or> (\<exists>slot < kCtxMapCount. ce_in e slot \<noteq> {}))"

definition inv_wf :: "inventory \<Rightarrow> bool" where
  "inv_wf iv \<longleftrightarrow>
     (\<forall>w slot. ctx_slot w = Some slot \<longrightarrow> (\<forall>ctx. indexed iv ctx slot = recorded_under ctx (iv_items iv w)))
     \<and> (\<forall>ctx. indexed_handles iv ctx = recorded_under ctx (handle_stamps iv))
     \<and> compact iv \<and> (\<forall>w. distinct (map fst (iv_items iv w))) \<and> distinct (map fst (iv_handles iv))"

lemma inv_wf_slot: "inv_wf iv \<Longrightarrow> ctx_slot w = Some slot \<Longrightarrow> indexed iv ctx slot = recorded_under ctx (iv_items iv w)"
  by (simp add: inv_wf_def)

lemma ctx_slot_less: "ctx_slot w = Some slot \<Longrightarrow> slot < kCtxMapCount"
  by (cases w) (auto simp: kCtxMapCount_def)

lemma ctx_slot_inj: "ctx_slot w = Some slot \<Longrightarrow> ctx_slot w' = Some slot \<Longrightarrow> w' = w"
  by (cases w; cases w') auto

lemma ctx_map_slot: "ctx_slot w = Some slot \<Longrightarrow> ctx_map slot = Some w"
  by (cases w) (auto simp: ctx_map_def kCtxMapCount_def)

lemma ctx_slot_map: "ctx_map slot = Some w \<Longrightarrow> ctx_slot w = Some slot"
  by (auto simp: ctx_map_def kCtxMapCount_def less_Suc_eq numeral_eq_Suc split: if_splits)

lemma slot_has_map: "slot < kCtxMapCount \<Longrightarrow> \<exists>w. ctx_slot w = Some slot"
  using ctx_slot_map [of slot] by (auto simp: ctx_map_def)

section \<open>The index under its updates\<close>

lemma no_entries_simps [simp]: "ce_in no_entries slot = {}" "ce_handles no_entries = {}"
  by (simp_all add: no_entries_def)

lemma index_by_ctx_only:
  "iv_items (index_drop_if_empty c iv) = iv_items iv" "iv_handles (index_drop_if_empty c iv) = iv_handles iv"
  "iv_items (index_add c i h iv) = iv_items iv" "iv_handles (index_add c i h iv) = iv_handles iv"
  "iv_items (index_remove c i h iv) = iv_items iv" "iv_handles (index_remove c i h iv) = iv_handles iv"
  "iv_items (index_add_handle c h iv) = iv_items iv" "iv_handles (index_add_handle c h iv) = iv_handles iv"
  "iv_items (index_remove_handle c h iv) = iv_items iv" "iv_handles (index_remove_handle c h iv) = iv_handles iv"
  by (auto simp: index_drop_if_empty_def index_add_def index_remove_def index_add_handle_def
      index_remove_handle_def Let_def split: option.splits)

lemma index_by_ctx_only2:
  "iv_captures (index_drop_if_empty c iv) = iv_captures iv" "iv_retains (index_drop_if_empty c iv) = iv_retains iv"
  "iv_sized (index_drop_if_empty c iv) = iv_sized iv"
  by (auto simp: index_drop_if_empty_def split: option.splits)

lemmas index_frame = index_by_ctx_only index_by_ctx_only2

lemma bucket_upd [simp]:
  "bucket (iv\<lparr>iv_by_ctx := (iv_by_ctx iv)(c \<mapsto> e)\<rparr>) ctx = (if ctx = c then e else bucket iv ctx)"
  by (simp add: bucket_def)

lemma bucket_Some: "iv_by_ctx iv c = Some e \<Longrightarrow> bucket iv c = e"
  by (simp add: bucket_def)

lemma bucket_clear [simp]:
  "bucket (iv\<lparr>iv_by_ctx := (iv_by_ctx iv)(c := None)\<rparr>) ctx = (if ctx = c then no_entries else bucket iv ctx)"
  by (simp add: bucket_def)

lemma bucket_None: "iv_by_ctx iv c = None \<Longrightarrow> bucket iv c = no_entries"
  by (simp add: bucket_def)

lemma drop_if_empty_cases:
  "index_drop_if_empty c iv = iv
   \<or> (\<exists>e. iv_by_ctx iv c = Some e \<and> ce_handles e = {} \<and> (\<forall>slot < kCtxMapCount. ce_in e slot = {})
        \<and> index_drop_if_empty c iv = iv\<lparr>iv_by_ctx := (iv_by_ctx iv)(c := None)\<rparr>)"
  by (auto simp: index_drop_if_empty_def list_ex_iff split: option.split)

lemma bucket_drop:
  assumes "slot < kCtxMapCount"
  shows "ce_in (bucket (index_drop_if_empty c iv) ctx) slot = ce_in (bucket iv ctx) slot"
    "ce_handles (bucket (index_drop_if_empty c iv) ctx) = ce_handles (bucket iv ctx)"
  using drop_if_empty_cases [of c iv] assms by (auto simp: bucket_Some split: if_splits)

lemma indexed_drop [simp]:
  "slot < kCtxMapCount \<Longrightarrow> indexed (index_drop_if_empty c iv) ctx slot = indexed iv ctx slot"
  by (simp add: indexed_def bucket_drop)

lemma indexed_handles_drop [simp]: "indexed_handles (index_drop_if_empty c iv) ctx = indexed_handles iv ctx"
  using bucket_drop(2) [of 0] by (simp add: indexed_handles_def kCtxMapCount_def)

lemma compact_drop:
  assumes "compact iv" shows "compact (index_drop_if_empty c (iv\<lparr>iv_by_ctx := (iv_by_ctx iv)(c \<mapsto> e)\<rparr>))"
proof -
  let ?iv = "iv\<lparr>iv_by_ctx := (iv_by_ctx iv)(c \<mapsto> e)\<rparr>"
  show ?thesis
  proof (cases "ce_handles e = {} \<and> (\<forall>slot < kCtxMapCount. ce_in e slot = {})")
    case True
    then have "index_drop_if_empty c ?iv = ?iv\<lparr>iv_by_ctx := (iv_by_ctx ?iv)(c := None)\<rparr>"
      by (auto simp: index_drop_if_empty_def list_ex_iff)
    then show ?thesis using assms by (simp add: compact_def)
  next
    case False
    then have "compact ?iv" using assms by (auto simp: compact_def)
    moreover have "index_drop_if_empty c ?iv = ?iv"
      using False by (auto simp: index_drop_if_empty_def list_ex_iff)
    ultimately show ?thesis by simp
  qed
qed

lemma indexed_add:
  "indexed (index_add c (Some i) h iv) ctx slot =
     (if c \<noteq> 0 \<and> ctx = c \<and> slot = i then insert h (indexed iv ctx slot) else indexed iv ctx slot)"
  by (simp add: index_add_def indexed_def Let_def)

lemma indexed_handles_add [simp]: "indexed_handles (index_add c i h iv) ctx = indexed_handles iv ctx"
  by (cases i) (simp_all add: index_add_def indexed_handles_def Let_def)

lemma compact_add:
  assumes "compact iv" and "\<And>slot. i = Some slot \<Longrightarrow> slot < kCtxMapCount"
  shows "compact (index_add c i h iv)"
proof (cases i)
  case (Some slot)
  then show ?thesis using assms by (auto simp: compact_def index_add_def Let_def)
qed (use assms in \<open>simp add: index_add_def\<close>)

lemma indexed_remove:
  assumes "slot < kCtxMapCount"
  shows "indexed (index_remove c (Some i) h iv) ctx slot =
     (if c \<noteq> 0 \<and> ctx = c \<and> slot = i then indexed iv ctx slot - {h} else indexed iv ctx slot)"
  using assms
  by (cases "iv_by_ctx iv c") (auto simp: index_remove_def indexed_def bucket_drop bucket_Some bucket_None)

lemma indexed_handles_remove [simp]: "indexed_handles (index_remove c i h iv) ctx = indexed_handles iv ctx"
  using bucket_drop(2) [of 0]
  by (cases i; cases "iv_by_ctx iv c")
    (auto simp: index_remove_def indexed_handles_def kCtxMapCount_def bucket_Some)

lemma compact_remove: "compact iv \<Longrightarrow> compact (index_remove c i h iv)"
  by (cases i; cases "iv_by_ctx iv c") (simp_all add: index_remove_def compact_drop)

lemma indexed_add_handle [simp]: "indexed (index_add_handle c h iv) ctx slot = indexed iv ctx slot"
  by (simp add: index_add_handle_def indexed_def Let_def)

lemma indexed_handles_add_handle:
  "indexed_handles (index_add_handle c h iv) ctx =
     (if c \<noteq> 0 \<and> ctx = c then insert h (indexed_handles iv ctx) else indexed_handles iv ctx)"
  by (simp add: index_add_handle_def indexed_handles_def Let_def)

lemma compact_add_handle: "compact iv \<Longrightarrow> compact (index_add_handle c h iv)"
  by (auto simp: compact_def index_add_handle_def Let_def)

lemma indexed_remove_handle [simp]:
  "slot < kCtxMapCount \<Longrightarrow> indexed (index_remove_handle c h iv) ctx slot = indexed iv ctx slot"
  by (cases "iv_by_ctx iv c") (auto simp: index_remove_handle_def indexed_def bucket_drop bucket_Some)

lemma indexed_handles_remove_handle:
  "indexed_handles (index_remove_handle c h iv) ctx =
     (if c \<noteq> 0 \<and> ctx = c then indexed_handles iv ctx - {h} else indexed_handles iv ctx)"
  using bucket_drop(2) [of 0]
  by (cases "iv_by_ctx iv c")
    (auto simp: index_remove_handle_def indexed_handles_def kCtxMapCount_def bucket_Some bucket_None)

lemma compact_remove_handle: "compact iv \<Longrightarrow> compact (index_remove_handle c h iv)"
  by (cases "iv_by_ctx iv c") (simp_all add: index_remove_handle_def compact_drop)

section \<open>Every operation keeps the index\<close>

lemma recorded_update:
  "recorded_under ctx (AList.update h st xs) =
     (if ctx = 0 then {} else if st_ctx st = ctx then insert h (recorded_under ctx xs)
      else recorded_under ctx xs - {h})"
  by (auto simp: recorded_under_def update_conv')

lemma recorded_delete: "recorded_under ctx (AList.delete h xs) = recorded_under ctx xs - {h}"
  by (auto simp: recorded_under_def delete_conv')

lemma recorded_absent: "map_of xs h = None \<Longrightarrow> h \<notin> recorded_under ctx xs"
  by (simp add: recorded_under_def)

lemma recorded_one: "map_of xs h = Some st \<Longrightarrow> h \<in> recorded_under ctx xs \<longleftrightarrow> ctx \<noteq> 0 \<and> st_ctx st = ctx"
  by (auto simp: recorded_under_def)

lemma inv_wfI:
  assumes "\<And>w slot ctx. ctx_slot w = Some slot \<Longrightarrow> slot < kCtxMapCount \<Longrightarrow>
      indexed iv ctx slot = recorded_under ctx (iv_items iv w)"
    and "\<And>ctx. indexed_handles iv ctx = recorded_under ctx (handle_stamps iv)"
    and "compact iv" and "\<And>w. distinct (map fst (iv_items iv w))" and "distinct (map fst (iv_handles iv))"
  shows "inv_wf iv"
  using assms ctx_slot_less by (simp add: inv_wf_def)

lemma put_items_frame [simp]:
  "iv_items (put_items w f iv) w' = (if w' = w then f (iv_items iv w) else iv_items iv w')"
  "iv_handles (put_items w f iv) = iv_handles iv" "iv_by_ctx (put_items w f iv) = iv_by_ctx iv"
  "bucket (put_items w f iv) = bucket iv" "indexed (put_items w f iv) = indexed iv"
  "indexed_handles (put_items w f iv) = indexed_handles iv" "compact (put_items w f iv) = compact iv"
  "handle_stamps (put_items w f iv) = handle_stamps iv"
  by (auto simp: put_items_def bucket_def indexed_def indexed_handles_def compact_def handle_stamps_def fun_eq_iff)

lemma handle_stamps_index [simp]:
  "handle_stamps (index_add c i h iv) = handle_stamps iv" "handle_stamps (index_remove c i h iv) = handle_stamps iv"
  "handle_stamps (index_drop_if_empty c iv) = handle_stamps iv"
  by (simp_all add: handle_stamps_def index_frame)

text \<open>Whatever is left out of the index, the handles among the rest, does not matter to it.\<close>

lemma inv_wf_frame [simp]:
  "inv_wf (iv\<lparr>iv_captures := cs\<rparr>) = inv_wf iv" "inv_wf (iv\<lparr>iv_retains := rs\<rparr>) = inv_wf iv"
  "inv_wf (iv\<lparr>iv_sized := sz\<rparr>) = inv_wf iv"
  by (simp_all add: inv_wf_def indexed_def indexed_handles_def bucket_def compact_def handle_stamps_def)

lemma inv_wf_none [simp]: "inv_wf no_inventory"
  by (simp add: inv_wf_def no_inventory_def indexed_def indexed_handles_def bucket_def compact_def
      handle_stamps_def recorded_under_def)

lemma inv_wf_put_unindexed:
  assumes "inv_wf iv" and "ctx_slot w = None" and "distinct (map fst (f (iv_items iv w)))"
  shows "inv_wf (put_items w f iv)"
  using assms by (auto simp: inv_wf_def)

lemma note_item_wf:
  assumes "inv_wf iv" shows "inv_wf (note_item w h st iv)"
proof (cases "h = 0 \<or> ctx_slot w = None")
  case True
  then show ?thesis
    using assms inv_wf_put_unindexed [OF assms, of w "AList.update h st"]
    by (auto simp: note_item_def index_add_def inv_wf_def distinct_update)
next
  case False
  then obtain slot where sl: "ctx_slot w = Some slot" and h: "h \<noteq> 0" by auto
  note less = ctx_slot_less [OF sl]
  define iv1 where "iv1 = (case map_of (iv_items iv w) h of None \<Rightarrow> iv
      | Some old \<Rightarrow> (if st_ctx old \<noteq> st_ctx st then index_remove (st_ctx old) (Some slot) h iv else iv))"
  have eq: "note_item w h st iv = index_add (st_ctx st) (Some slot) h (put_items w (AList.update h st) iv1)"
    using h sl by (simp add: note_item_def iv1_def Let_def split: option.split)
  have fr: "iv_items iv1 = iv_items iv" "iv_handles iv1 = iv_handles iv" "indexed_handles iv1 = indexed_handles iv"
    "handle_stamps iv1 = handle_stamps iv"
    by (auto simp: iv1_def index_frame split: option.splits)
  have comp: "compact iv1" using assms by (auto simp: iv1_def inv_wf_def compact_remove split: option.splits)
  have ix: "indexed iv1 ctx slot' = (case map_of (iv_items iv w) h of None \<Rightarrow> indexed iv ctx slot'
      | Some old \<Rightarrow> (if st_ctx old \<noteq> st_ctx st \<and> st_ctx old \<noteq> 0 \<and> ctx = st_ctx old \<and> slot' = slot
                     then indexed iv ctx slot' - {h} else indexed iv ctx slot'))" if "slot' < kCtxMapCount" for ctx slot'
    using that by (auto simp: iv1_def indexed_remove split: option.splits)
  show ?thesis unfolding eq
  proof (rule inv_wfI)
    fix w' slot' ctx assume w': "ctx_slot w' = Some slot'" "slot' < kCtxMapCount"
    have wf: "indexed iv ctx slot' = recorded_under ctx (iv_items iv w')" using inv_wf_slot [OF assms w'(1)] .
    show "indexed (index_add (st_ctx st) (Some slot) h (put_items w (AList.update h st) iv1)) ctx slot'
        = recorded_under ctx (iv_items (index_add (st_ctx st) (Some slot) h (put_items w (AList.update h st) iv1)) w')"
    proof (cases "w' = w")
      case True
      then have "slot' = slot" using w' sl by simp
      then show ?thesis
        using True wf recorded_absent [of "iv_items iv w" h ctx] recorded_one [of "iv_items iv w" h _ ctx]
        by (cases "map_of (iv_items iv w) h")
          (auto simp: indexed_add ix [OF less] index_frame fr recorded_update recorded_under_def)
    next
      case False
      then have "slot' \<noteq> slot" using ctx_slot_inj sl w'(1) by blast
      then show ?thesis
        using False wf by (simp add: indexed_add ix [OF w'(2)] index_frame fr split: option.splits)
    qed
  qed (use assms comp sl in \<open>auto simp: fr index_frame inv_wf_def distinct_update intro!: compact_add ctx_slot_less\<close>)
qed

lemma forget_item_wf:
  assumes "inv_wf iv" shows "inv_wf (forget_item w h iv)"
proof (cases "ctx_slot w")
  case None
  then show ?thesis
    using assms inv_wf_put_unindexed [OF assms, of w "AList.delete h"]
    by (auto simp: forget_item_def inv_wf_def distinct_delete)
next
  case (Some slot)
  note less = ctx_slot_less [OF Some]
  define iv1 where "iv1 = (case map_of (iv_items iv w) h of None \<Rightarrow> iv
      | Some old \<Rightarrow> index_remove (st_ctx old) (Some slot) h iv)"
  have eq: "forget_item w h iv = put_items w (AList.delete h) iv1"
    using Some by (simp add: forget_item_def iv1_def Let_def split: option.split)
  have fr: "iv_items iv1 = iv_items iv" "iv_handles iv1 = iv_handles iv" "indexed_handles iv1 = indexed_handles iv"
    "handle_stamps iv1 = handle_stamps iv"
    by (auto simp: iv1_def index_frame split: option.splits)
  have comp: "compact iv1" using assms by (auto simp: iv1_def inv_wf_def compact_remove split: option.splits)
  show ?thesis unfolding eq
  proof (rule inv_wfI)
    fix w' slot' ctx assume w': "ctx_slot w' = Some slot'" "slot' < kCtxMapCount"
    have wf: "indexed iv ctx slot' = recorded_under ctx (iv_items iv w')" using inv_wf_slot [OF assms w'(1)] .
    show "indexed (put_items w (AList.delete h) iv1) ctx slot'
        = recorded_under ctx (iv_items (put_items w (AList.delete h) iv1) w')"
    proof (cases "w' = w")
      case True
      then have "slot' = slot" using w' Some by simp
      then show ?thesis
        using True wf recorded_absent [of "iv_items iv w" h ctx] recorded_one [of "iv_items iv w" h _ ctx] w'(2)
        by (cases "map_of (iv_items iv w) h")
          (auto simp: indexed_remove iv1_def index_frame fr recorded_delete recorded_under_def)
    next
      case False
      then have "slot' \<noteq> slot" using ctx_slot_inj Some w'(1) by blast
      then show ?thesis
        using False wf w'(2) by (simp add: iv1_def indexed_remove index_frame fr split: option.splits)
    qed
  qed (use assms comp in \<open>auto simp: fr inv_wf_def distinct_delete\<close>)
qed

lemma map_apsnd_delete: "map (apsnd f) (AList.delete h xs) = AList.delete h (map (apsnd f) xs)"
  by (induction xs) auto

lemma map_of_handle_stamps: "map_of (handle_stamps iv) h = map_option lh_made (map_of (iv_handles iv) h)"
  by (simp add: handle_stamps_def)

lemma handle_stamps_delete:
  "handle_stamps (iv'\<lparr>iv_handles := AList.delete h (iv_handles iv)\<rparr>) = AList.delete h (handle_stamps iv)"
  by (simp add: handle_stamps_def map_apsnd_delete)

lemma recorded_handle_update:
  "recorded_under ctx (handle_stamps (iv'\<lparr>iv_handles := AList.update h lh (iv_handles iv)\<rparr>)) =
     (if ctx = 0 then {} else if st_ctx (lh_made lh) = ctx then insert h (recorded_under ctx (handle_stamps iv))
      else recorded_under ctx (handle_stamps iv) - {h})"
  by (auto simp: recorded_under_def map_of_handle_stamps update_conv')

lemma indexed_handles_field [simp]:
  "indexed (iv\<lparr>iv_handles := hs\<rparr>) = indexed iv" "indexed_handles (iv\<lparr>iv_handles := hs\<rparr>) = indexed_handles iv"
  "compact (iv\<lparr>iv_handles := hs\<rparr>) = compact iv"
  by (auto simp: indexed_def indexed_handles_def compact_def bucket_def fun_eq_iff)

lemma handle_stamps_index_handle [simp]:
  "handle_stamps (index_add_handle c h iv) = handle_stamps iv"
  "handle_stamps (index_remove_handle c h iv) = handle_stamps iv"
  by (simp_all add: handle_stamps_def index_frame)

lemma note_handle_wf:
  assumes "inv_wf iv" shows "inv_wf (inventory_note_handle h lh iv)"
proof (cases "h = 0")
  case True then show ?thesis using assms by (simp add: inventory_note_handle_def)
next
  case False
  define iv1 where "iv1 = (case map_of (iv_handles iv) h of None \<Rightarrow> iv
      | Some old \<Rightarrow> (if st_ctx (lh_made old) \<noteq> st_ctx (lh_made lh)
                    then index_remove_handle (st_ctx (lh_made old)) h iv else iv))"
  have fr: "iv_items iv1 = iv_items iv" "iv_handles iv1 = iv_handles iv" "handle_stamps iv1 = handle_stamps iv"
    "compact iv1" "\<And>ctx slot. slot < kCtxMapCount \<Longrightarrow> indexed iv1 ctx slot = indexed iv ctx slot"
    using assms by (auto simp: iv1_def index_frame inv_wf_def compact_remove_handle split: option.splits)
  have wf: "indexed_handles iv ctx = recorded_under ctx (handle_stamps iv)" for ctx
    using assms by (simp add: inv_wf_def)
  have "indexed_handles (index_add_handle (st_ctx (lh_made lh)) h (iv1\<lparr>iv_handles := AList.update h lh (iv_handles iv)\<rparr>)) ctx
      = recorded_under ctx (handle_stamps (iv1\<lparr>iv_handles := AList.update h lh (iv_handles iv)\<rparr>))" for ctx
    unfolding recorded_handle_update using wf [of ctx]
    by (cases "map_of (iv_handles iv) h")
      (auto simp: iv1_def indexed_handles_add_handle indexed_handles_remove_handle recorded_under_def map_of_handle_stamps)
  then show ?thesis
    using assms False unfolding inventory_note_handle_def iv1_def [symmetric] Let_def
    by (auto simp: fr index_frame distinct_update inv_wf_def compact_add_handle ctx_slot_less intro!: inv_wfI)
qed

lemma forget_handle_wf:
  assumes "inv_wf iv" shows "inv_wf (inventory_forget_handle h iv)"
proof -
  define iv1 where "iv1 = (case map_of (iv_handles iv) h of None \<Rightarrow> iv
      | Some old \<Rightarrow> index_remove_handle (st_ctx (lh_made old)) h iv)"
  have fr: "iv_items iv1 = iv_items iv" "iv_handles iv1 = iv_handles iv" "handle_stamps iv1 = handle_stamps iv"
    "compact iv1" "\<And>ctx slot. slot < kCtxMapCount \<Longrightarrow> indexed iv1 ctx slot = indexed iv ctx slot"
    using assms by (auto simp: iv1_def index_frame inv_wf_def compact_remove_handle split: option.splits)
  have wf: "indexed_handles iv ctx = recorded_under ctx (handle_stamps iv)" for ctx
    using assms by (simp add: inv_wf_def)
  have "indexed_handles iv1 ctx = recorded_under ctx (handle_stamps iv) - {h}" for ctx
    using wf [of ctx]
    by (cases "map_of (iv_handles iv) h")
      (auto simp: iv1_def indexed_handles_remove_handle recorded_under_def map_of_handle_stamps)
  then show ?thesis
    using assms unfolding inventory_forget_handle_def iv1_def [symmetric] Let_def
    by (auto simp: fr handle_stamps_delete recorded_delete distinct_delete inv_wf_def ctx_slot_less intro!: inv_wfI)
qed

section \<open>A teardown through the index is a scan\<close>

lemma filter_entry_cong:
  assumes "distinct (map fst xs)" and "\<And>k v. (k, v) \<in> set xs \<Longrightarrow> map_of xs k = Some v \<Longrightarrow> P (k, v) = Q (k, v)"
  shows "filter P xs = filter Q xs"
  using assms by (intro filter_cong refl) auto

lemma erase_recorded:
  assumes "distinct (map fst xs)" and "ctx \<noteq> 0"
  shows "erase_keys {h \<in> recorded_under ctx xs. P (map_of xs h)} xs
    = filter (\<lambda>kv. \<not> (st_ctx (snd kv) = ctx \<and> P (Some (snd kv)))) xs"
  unfolding erase_keys_def by (rule filter_entry_cong [OF assms(1)]) (simp add: recorded_under_def assms(2))

lemma erase_recorded_all:
  "distinct (map fst xs) \<Longrightarrow> ctx \<noteq> 0 \<Longrightarrow>
    erase_keys (recorded_under ctx xs) xs = filter (\<lambda>kv. st_ctx (snd kv) \<noteq> ctx) xs"
  using erase_recorded [of xs ctx "\<lambda>_. True"] by simp

lemma erase_handles:
  assumes "distinct (map fst (iv_handles iv))" and "ctx \<noteq> 0"
  shows "erase_keys {h \<in> recorded_under ctx (handle_stamps iv). P (map_option lh_made (map_of (iv_handles iv) h))} (iv_handles iv)
    = filter (\<lambda>kv. \<not> (st_ctx (lh_made (snd kv)) = ctx \<and> P (Some (lh_made (snd kv))))) (iv_handles iv)"
  unfolding erase_keys_def
  by (rule filter_entry_cong [OF assms(1)]) (simp add: recorded_under_def map_of_handle_stamps assms(2))

lemma map_of_filter_entries:
  "distinct (map fst xs) \<Longrightarrow>
    map_of (filter Q xs) k = (case map_of xs k of None \<Rightarrow> None | Some v \<Rightarrow> if Q (k, v) then Some v else None)"
  by (induction xs) (auto split: option.splits dest: map_of_SomeD simp: image_iff)

lemma recorded_filter:
  assumes "distinct (map fst xs)"
  shows "recorded_under ctx (filter Q xs) = {h \<in> recorded_under ctx xs. \<exists>st. map_of xs h = Some st \<and> Q (h, st)}"
proof (rule set_eqI)
  fix h show "h \<in> recorded_under ctx (filter Q xs) \<longleftrightarrow> h \<in> {h \<in> recorded_under ctx xs. \<exists>st. map_of xs h = Some st \<and> Q (h, st)}"
    using map_of_filter_entries [OF assms, of Q h]
    by (cases "map_of xs h"; simp only: recorded_under_def) (simp_all split: if_splits)
qed

lemma recorded_handles_filter:
  assumes "distinct (map fst (iv_handles iv))"
  shows "recorded_under ctx (handle_stamps (iv'\<lparr>iv_handles := filter Q (iv_handles iv)\<rparr>))
    = {h \<in> recorded_under ctx (handle_stamps iv). \<exists>lh. map_of (iv_handles iv) h = Some lh \<and> Q (h, lh)}"
proof (rule set_eqI)
  fix h show "h \<in> recorded_under ctx (handle_stamps (iv'\<lparr>iv_handles := filter Q (iv_handles iv)\<rparr>))
    \<longleftrightarrow> h \<in> {h \<in> recorded_under ctx (handle_stamps iv). \<exists>lh. map_of (iv_handles iv) h = Some lh \<and> Q (h, lh)}"
    using map_of_filter_entries [OF assms, of Q h]
    by (cases "map_of (iv_handles iv) h"; simp only: recorded_under_def map_of_handle_stamps)
      (simp_all add: map_of_handle_stamps split: if_splits)
qed

lemma erase_none [simp]: "erase_keys {} xs = xs"
  by (simp add: erase_keys_def)

lemma inv_wf_null: "inv_wf iv \<Longrightarrow> iv_by_ctx iv 0 = None"
proof (rule ccontr)
  assume wf: "inv_wf iv" and "iv_by_ctx iv 0 \<noteq> None"
  then obtain e where e: "iv_by_ctx iv 0 = Some e" by blast
  have "ce_in e slot = {}" if "slot < kCtxMapCount" for slot
    using slot_has_map [OF that] inv_wf_slot [OF wf, of _ slot 0] e
    by (auto simp: indexed_def bucket_Some recorded_under_def)
  moreover have "ce_handles e = {}"
    using wf e by (auto simp: inv_wf_def indexed_handles_def bucket_Some recorded_under_def dest: spec [of _ 0])
  moreover have "compact iv" using wf by (simp add: inv_wf_def)
  ultimately show False using e unfolding compact_def by blast
qed

text \<open>Forgetting under a context.\<close>

lemma forget_under_scan:
  assumes "inv_wf iv" and "ctx \<noteq> 0"
  shows "iv_items (forget_under ctx iv) w = (if ctx_slot w = None then iv_items iv w
      else filter (\<lambda>kv. st_ctx (snd kv) \<noteq> ctx) (iv_items iv w))"
    and "iv_handles (forget_under ctx iv) = filter (\<lambda>kv. st_ctx (lh_made (snd kv)) \<noteq> ctx) (iv_handles iv)"
    and "iv_captures (forget_under ctx iv) = filter (\<lambda>c. st_ctx (oc_where c) \<noteq> ctx) (iv_captures iv)"
    and "iv_by_ctx (forget_under ctx iv) = (iv_by_ctx iv)(ctx := None)"
proof -
  have d: "distinct (map fst (iv_items iv w))" "distinct (map fst (iv_handles iv))"
    using assms(1) by (auto simp: inv_wf_def)
  have h: "ce_handles (bucket iv ctx) = recorded_under ctx (handle_stamps iv)"
    using assms(1) by (simp add: inv_wf_def indexed_handles_def)
  have i: "ce_in (bucket iv ctx) slot = recorded_under ctx (iv_items iv w)" if "ctx_slot w = Some slot" for slot
    using inv_wf_slot [OF assms(1) that] by (simp add: indexed_def)
  show "iv_items (forget_under ctx iv) w = (if ctx_slot w = None then iv_items iv w
      else filter (\<lambda>kv. st_ctx (snd kv) \<noteq> ctx) (iv_items iv w))"
    using erase_recorded_all [OF d(1) assms(2)] i
    by (cases "iv_by_ctx iv ctx"; cases "ctx_slot w")
      (simp_all add: forget_under_def bucket_Some bucket_None)
  show "iv_handles (forget_under ctx iv) = filter (\<lambda>kv. st_ctx (lh_made (snd kv)) \<noteq> ctx) (iv_handles iv)"
    using erase_handles [OF d(2) assms(2), of "\<lambda>_. True"] h
    by (cases "iv_by_ctx iv ctx") (simp_all add: forget_under_def bucket_Some bucket_None)
qed (auto simp: forget_under_def split: option.split)

lemma forget_under_wf:
  assumes "inv_wf iv" and "ctx \<noteq> 0" shows "inv_wf (forget_under ctx iv)"
proof (rule inv_wfI)
  note sc = forget_under_scan [OF assms]
  have d: "distinct (map fst (iv_items iv w))" "distinct (map fst (iv_handles iv))" for w
    using assms(1) by (auto simp: inv_wf_def)
  have b: "bucket (forget_under ctx iv) c = (if c = ctx then no_entries else bucket iv c)" for c
    by (simp add: bucket_def sc(4))
  have hs: "handle_stamps (forget_under ctx iv)
      = handle_stamps (iv\<lparr>iv_handles := filter (\<lambda>kv. st_ctx (lh_made (snd kv)) \<noteq> ctx) (iv_handles iv)\<rparr>)"
    by (simp add: handle_stamps_def sc(2))
  show "indexed (forget_under ctx iv) c slot = recorded_under c (iv_items (forget_under ctx iv) w)"
    if "ctx_slot w = Some slot" for w slot c
    using inv_wf_slot [OF assms(1) that, of c] that
    by (simp add: sc(1) recorded_filter [OF d(1)] indexed_def b) (auto simp: recorded_under_def)
  show "indexed_handles (forget_under ctx iv) c = recorded_under c (handle_stamps (forget_under ctx iv))" for c
  proof -
    have "indexed_handles iv c = recorded_under c (handle_stamps iv)" using assms(1) by (simp add: inv_wf_def)
    then show ?thesis unfolding hs recorded_handles_filter [OF d(2)]
      by (auto simp: indexed_handles_def b recorded_under_def map_of_handle_stamps simp del: map_of_eq_Some_iff)
  qed
  show "compact (forget_under ctx iv)" using assms(1) by (simp add: inv_wf_def compact_def sc(4))
qed (use assms(1) in \<open>auto simp: forget_under_scan [OF assms] inv_wf_def distinct_filter_keys\<close>)

text \<open>Forgetting what a device's primary context held in earlier generations, one handle of it at a
  time.\<close>

lemma forget_primary_ctx_scan:
  assumes "inv_wf iv" and "ctx \<noteq> 0"
  shows "iv_items (forget_primary_ctx dev now ctx iv) w = (if ctx_slot w = None then iv_items iv w
      else filter (\<lambda>kv. \<not> (st_ctx (snd kv) = ctx \<and> st_dev (snd kv) = dev \<and> st_gen (snd kv) \<noteq> now)) (iv_items iv w))"
    and "iv_handles (forget_primary_ctx dev now ctx iv)
      = filter (\<lambda>kv. \<not> (st_ctx (lh_made (snd kv)) = ctx \<and> st_dev (lh_made (snd kv)) = dev
                        \<and> st_gen (lh_made (snd kv)) \<noteq> now)) (iv_handles iv)"
    and "iv_captures (forget_primary_ctx dev now ctx iv) = iv_captures iv"
proof -
  have d: "distinct (map fst (iv_items iv w))" "distinct (map fst (iv_handles iv))"
    using assms(1) by (auto simp: inv_wf_def)
  have h: "ce_handles (bucket iv ctx) = recorded_under ctx (handle_stamps iv)"
    using assms(1) by (simp add: inv_wf_def indexed_handles_def)
  have i: "ce_in (bucket iv ctx) slot = recorded_under ctx (iv_items iv w)" if "ctx_slot w = Some slot" for slot
    using inv_wf_slot [OF assms(1) that] by (simp add: indexed_def)
  show "iv_items (forget_primary_ctx dev now ctx iv) w = (if ctx_slot w = None then iv_items iv w
      else filter (\<lambda>kv. \<not> (st_ctx (snd kv) = ctx \<and> st_dev (snd kv) = dev \<and> st_gen (snd kv) \<noteq> now)) (iv_items iv w))"
    using erase_recorded [OF d(1) assms(2), of "outdated dev now"] i
    by (cases "iv_by_ctx iv ctx"; cases "ctx_slot w")
      (simp_all add: forget_primary_ctx_def bucket_Some bucket_None Let_def index_frame outdated_def flip: i)
  show "iv_handles (forget_primary_ctx dev now ctx iv)
      = filter (\<lambda>kv. \<not> (st_ctx (lh_made (snd kv)) = ctx \<and> st_dev (lh_made (snd kv)) = dev
                        \<and> st_gen (lh_made (snd kv)) \<noteq> now)) (iv_handles iv)"
    using erase_handles [OF d(2) assms(2), of "outdated dev now"] h
    by (cases "iv_by_ctx iv ctx")
      (simp_all add: forget_primary_ctx_def bucket_Some bucket_None Let_def index_frame outdated_def)
qed (auto simp: forget_primary_ctx_def Let_def index_frame split: option.split)

lemma forget_primary_ctx_wf:
  assumes "inv_wf iv" and "ctx \<noteq> 0" shows "inv_wf (forget_primary_ctx dev now ctx iv)"
proof (cases "iv_by_ctx iv ctx")
  case None then show ?thesis using assms by (simp add: forget_primary_ctx_def)
next
  case (Some e)
  let ?iv = "forget_primary_ctx dev now ctx iv"
  let ?old = "\<lambda>st. st_dev st = dev \<and> st_gen st \<noteq> now"
  note sc = forget_primary_ctx_scan [OF assms, of dev now]
  have d: "distinct (map fst (iv_items iv w))" "distinct (map fst (iv_handles iv))" for w
    using assms(1) by (auto simp: inv_wf_def)
  have b: "ce_in (bucket ?iv c) slot = (if c = ctx
      then {h \<in> ce_in e slot. \<not> outdated dev now (map_of (iv_items iv w) h)} else ce_in (bucket iv c) slot)"
    if "ctx_slot w = Some slot" for c slot w
    using Some ctx_slot_less [OF that] ctx_map_slot [OF that]
    by (simp add: forget_primary_ctx_def Let_def bucket_drop) (simp add: bucket_def)
  have bh: "ce_handles (bucket ?iv c) = (if c = ctx
      then {h \<in> ce_handles e. \<not> outdated dev now (map_option lh_made (map_of (iv_handles iv) h))}
      else ce_handles (bucket iv c))" for c
    using Some bucket_drop(2) [of 0]
    by (simp add: forget_primary_ctx_def Let_def kCtxMapCount_def) (simp add: bucket_def)
  have hs: "handle_stamps ?iv = handle_stamps (iv\<lparr>iv_handles := filter (\<lambda>kv. \<not> (st_ctx (lh_made (snd kv)) = ctx
      \<and> ?old (lh_made (snd kv)))) (iv_handles iv)\<rparr>)"
    by (simp add: handle_stamps_def sc(2))
  show ?thesis
  proof (rule inv_wfI)
    show "indexed ?iv c slot = recorded_under c (iv_items ?iv w)"
      if "ctx_slot w = Some slot" for w slot c
      using inv_wf_slot [OF assms(1) that, of c] that Some
      by (simp add: sc(1) recorded_filter [OF d(1)] indexed_def b [OF that])
        (auto simp: recorded_under_def bucket_Some outdated_def simp del: map_of_eq_Some_iff)
    have ih: "indexed_handles iv c = recorded_under c (handle_stamps iv)" for c
      using assms(1) by (simp add: inv_wf_def)
    show "indexed_handles ?iv c = recorded_under c (handle_stamps ?iv)" for c
      using ih [of c] Some unfolding hs recorded_handles_filter [OF d(2)]
      by (auto simp: indexed_handles_def bh recorded_under_def map_of_handle_stamps bucket_Some outdated_def
          simp del: map_of_eq_Some_iff)
    have "compact (iv\<lparr>iv_items := f, iv_handles := g\<rparr>)" for f g
      using assms(1) by (simp add: inv_wf_def compact_def)
    from compact_drop [OF this] show "compact ?iv" using Some by (simp add: forget_primary_ctx_def Let_def)
  qed (use assms(1) in \<open>auto simp: sc inv_wf_def distinct_filter_keys\<close>)
qed

lemma fold_forget_primary_scan:
  assumes "inv_wf iv" and "0 \<notin> set cs"
  shows "inv_wf (fold (forget_primary_ctx dev now) cs iv)
    \<and> (\<forall>w. iv_items (fold (forget_primary_ctx dev now) cs iv) w = (if ctx_slot w = None then iv_items iv w
        else filter (\<lambda>kv. \<not> (st_ctx (snd kv) \<in> set cs \<and> st_dev (snd kv) = dev \<and> st_gen (snd kv) \<noteq> now)) (iv_items iv w)))
    \<and> iv_handles (fold (forget_primary_ctx dev now) cs iv)
        = filter (\<lambda>kv. \<not> (st_ctx (lh_made (snd kv)) \<in> set cs \<and> st_dev (lh_made (snd kv)) = dev
                          \<and> st_gen (lh_made (snd kv)) \<noteq> now)) (iv_handles iv)
    \<and> iv_captures (fold (forget_primary_ctx dev now) cs iv) = iv_captures iv"
  using assms
proof (induction cs arbitrary: iv)
  case (Cons c cs)
  then have c: "c \<noteq> 0" "0 \<notin> set cs" by auto
  have "inv_wf (forget_primary_ctx dev now c iv)" using forget_primary_ctx_wf [OF Cons.prems(1) c(1)] .
  note ih = Cons.IH [OF this c(2)]
  note sc = forget_primary_ctx_scan [OF Cons.prems(1) c(1), of dev now]
  show ?case
    using ih sc by (auto simp del: filter_filter simp: filter_filter [THEN trans] intro!: filter_cong) 
qed simp

section \<open>Where entries were made\<close>

definition proc_wf :: "process \<Rightarrow> bool" where
  "proc_wf p \<longleftrightarrow> distinct (map fst (p_primary_dev p)) \<and> 0 \<notin> fst ` set (p_primary_dev p)"

text \<open>An entry that names a device was made in a primary context the process has learned for it.\<close>

definition stamp_placed :: "process \<Rightarrow> stamp \<Rightarrow> bool" where
  "stamp_placed p st \<longleftrightarrow> st_dev st \<noteq> -1 \<longrightarrow> map_of (p_primary_dev p) (st_ctx st) = Some (st_dev st)"

definition placed :: "process \<Rightarrow> inventory \<Rightarrow> bool" where
  "placed p iv \<longleftrightarrow> (\<forall>w. \<forall>st \<in> snd ` set (iv_items iv w). stamp_placed p st)
     \<and> (\<forall>lh \<in> snd ` set (iv_handles iv). stamp_placed p (lh_made lh))
     \<and> (\<forall>c \<in> set (iv_captures iv). stamp_placed p (oc_where c))"

lemma primary_handles_iff: "proc_wf p \<Longrightarrow> c \<in> set (primary_handles p dev) \<longleftrightarrow> map_of (p_primary_dev p) c = Some dev"
  by (force simp: primary_handles_def proc_wf_def)

lemma forget_primary_scan:
  assumes "inv_wf iv" and "proc_wf p" and "placed p iv" and "dev \<noteq> -1"
  shows "inv_wf (forget_primary p dev iv)"
    and "iv_items (forget_primary p dev iv) w = (if ctx_slot w = None then iv_items iv w
        else filter (\<lambda>kv. \<not> (st_dev (snd kv) = dev \<and> st_gen (snd kv) \<noteq> generation p dev)) (iv_items iv w))"
    and "iv_handles (forget_primary p dev iv) = filter (\<lambda>kv. \<not> (st_dev (lh_made (snd kv)) = dev
                        \<and> st_gen (lh_made (snd kv)) \<noteq> generation p dev)) (iv_handles iv)"
    and "iv_captures (forget_primary p dev iv) = filter (\<lambda>c. \<not> (st_dev (oc_where c) = dev
                        \<and> st_gen (oc_where c) \<noteq> generation p dev)) (iv_captures iv)"
proof -
  have "0 \<notin> set (primary_handles p dev)" using assms(2) by (force simp: primary_handles_def proc_wf_def)
  note f = fold_forget_primary_scan [OF assms(1) this, of dev "generation p dev"]
  show "inv_wf (forget_primary p dev iv)" using f by (simp add: forget_primary_def Let_def)
  have "st_ctx (snd kv) \<in> set (primary_handles p dev)" if "kv \<in> set (iv_items iv w)" "st_dev (snd kv) = dev" for kv w
    using assms that by (auto simp: primary_handles_iff placed_def stamp_placed_def)
  then show "iv_items (forget_primary p dev iv) w = (if ctx_slot w = None then iv_items iv w
        else filter (\<lambda>kv. \<not> (st_dev (snd kv) = dev \<and> st_gen (snd kv) \<noteq> generation p dev)) (iv_items iv w))"
    using f by (auto simp: forget_primary_def Let_def intro!: filter_cong)
  have "st_ctx (lh_made (snd kv)) \<in> set (primary_handles p dev)"
    if "kv \<in> set (iv_handles iv)" "st_dev (lh_made (snd kv)) = dev" for kv
    using assms that by (auto simp: primary_handles_iff placed_def stamp_placed_def)
  then show "iv_handles (forget_primary p dev iv) = filter (\<lambda>kv. \<not> (st_dev (lh_made (snd kv)) = dev
                        \<and> st_gen (lh_made (snd kv)) \<noteq> generation p dev)) (iv_handles iv)"
    using f by (auto simp: forget_primary_def Let_def intro!: filter_cong)
  show "iv_captures (forget_primary p dev iv) = filter (\<lambda>c. \<not> (st_dev (oc_where c) = dev
                        \<and> st_gen (oc_where c) \<noteq> generation p dev)) (iv_captures iv)"
    using f by (simp add: forget_primary_def Let_def)
qed

end
