(* ===== verification/Tracking.thy ===== *)
theory Tracking
  imports InventoryIndex
begin

text \<open>
  The tracking wrappers of \<^verbatim>\<open>server/inventory.cpp\<close>: each is the driver's own call with its bookkeeping.
  An argument that a wrapper only forwards to the driver is part of the call's value; the flag
  \<open>want\<close> says whether the out-pointer is there. A call the installed driver lacks is answered as
  unsupported before anything else happens.
\<close>

definition guarded ::
    "'d driver \<Rightarrow> string \<Rightarrow> ('d sv \<Rightarrow> (CUresult \<times> u64 list) \<times> 'd sv) \<Rightarrow> 'd sv \<Rightarrow> (CUresult \<times> u64 list) \<times> 'd sv" where
  "guarded drv name body s = (if d_has drv name then body s else ((CUDA_ERROR_NOT_SUPPORTED, []), s))"

section \<open>What the creators and the releasers share\<close>

text \<open>Where a new resource is recorded: in the current context, where the object it was made from
  was recorded, or in no context at all.\<close>

datatype placement = Here | Beside which u64 | Nowhere

definition place :: "'d driver \<Rightarrow> placement \<Rightarrow> 'd sv \<Rightarrow> stamp \<times> 'd sv" where
  "place drv pl s = (case pl of Here \<Rightarrow> take_stamp drv s
     | Beside w source \<Rightarrow> stamp_of drv w source s | Nowhere \<Rightarrow> (no_stamp, s))"

definition creating ::
    "'d driver \<Rightarrow> placement \<Rightarrow> which \<Rightarrow> bool \<Rightarrow> maker \<Rightarrow> 'd sv \<Rightarrow> (CUresult \<times> u64 list) \<times> 'd sv" where
  "creating drv pl w want m = guarded drv (maker_sym m) (\<lambda>s.
     case place drv pl s of (st, s1) \<Rightarrow> case sv_call drv (Make want m) s1 of ((r, outs), s2) \<Rightarrow>
       ((r, outs), if r = CUDA_SUCCESS \<and> want then on_inv (note_item w (out0 outs) st) s2 else s2))"

definition releasing ::
    "'d driver \<Rightarrow> which \<Rightarrow> u64 \<Rightarrow> giver \<Rightarrow> 'd sv \<Rightarrow> (CUresult \<times> u64 list) \<times> 'd sv" where
  "releasing drv w h g = guarded drv (giver_sym g) (\<lambda>s.
     case sv_call drv (Give g) s of ((r, outs), s1) \<Rightarrow>
       ((r, outs), if r = CUDA_SUCCESS then on_inv (forget_item w h) s1 else s1))"

section \<open>Memory\<close>

definition w_cuMemAlloc :: "'d driver \<Rightarrow> bool \<Rightarrow> u64 \<Rightarrow> 'd sv \<Rightarrow> (CUresult \<times> u64 list) \<times> 'd sv" where
  "w_cuMemAlloc drv want bytes = creating drv Here Allocs want (MemAlloc bytes)"

definition w_cuMemAllocPitch ::
    "'d driver \<Rightarrow> bool \<Rightarrow> bool \<Rightarrow> u64 \<Rightarrow> u64 \<Rightarrow> u32 \<Rightarrow> 'd sv \<Rightarrow> (CUresult \<times> u64 list) \<times> 'd sv" where
  "w_cuMemAllocPitch drv want pitch wd ht elem = creating drv Here Allocs want (MemAllocPitch pitch wd ht elem)"

definition w_cuMemAllocAsync :: "'d driver \<Rightarrow> bool \<Rightarrow> u64 \<Rightarrow> u64 \<Rightarrow> 'd sv \<Rightarrow> (CUresult \<times> u64 list) \<times> 'd sv" where
  "w_cuMemAllocAsync drv want bytes stream = creating drv Here Allocs want (MemAllocAsync bytes stream)"

definition w_cuMemAllocFromPoolAsync ::
    "'d driver \<Rightarrow> bool \<Rightarrow> u64 \<Rightarrow> u64 \<Rightarrow> u64 \<Rightarrow> 'd sv \<Rightarrow> (CUresult \<times> u64 list) \<times> 'd sv" where
  "w_cuMemAllocFromPoolAsync drv want bytes pool stream =
     creating drv Here Allocs want (MemAllocFromPoolAsync bytes pool stream)"

definition w_cuMemFree :: "'d driver \<Rightarrow> u64 \<Rightarrow> 'd sv \<Rightarrow> (CUresult \<times> u64 list) \<times> 'd sv" where
  "w_cuMemFree drv p = releasing drv Allocs p (MemFree p)"

definition w_cuMemFreeAsync :: "'d driver \<Rightarrow> u64 \<Rightarrow> u64 \<Rightarrow> 'd sv \<Rightarrow> (CUresult \<times> u64 list) \<times> 'd sv" where
  "w_cuMemFreeAsync drv p stream = releasing drv Allocs p (MemFreeAsync p stream)"

section \<open>Primary contexts\<close>

definition w_cuDevicePrimaryCtxRetain ::
    "'d driver \<Rightarrow> bool \<Rightarrow> int \<Rightarrow> 'd sv \<Rightarrow> (CUresult \<times> u64 list) \<times> 'd sv" where
  "w_cuDevicePrimaryCtxRetain drv want dev = guarded drv ''cuDevicePrimaryCtxRetain'' (\<lambda>s.
     case sv_call drv (PrimaryCtxRetain want dev) s of ((r, outs), s1) \<Rightarrow>
       ((r, outs), if r = CUDA_SUCCESS
          then on_inv (note_primary_retain dev 1)
                 (on_proc (learn_primary (if want then out0 outs else 0) dev) s1)
          else s1))"

text \<open>The driver's answer is whether the context is active; unreadable counts as active.\<close>

definition primary_inactive :: "'d driver \<Rightarrow> int \<Rightarrow> 'd world \<Rightarrow> bool \<times> 'd world" where
  "primary_inactive drv dev w = (if d_has drv ''cuDevicePrimaryCtxGetState''
     then (case dcall drv (PrimaryCtxGetState dev) w of ((r, outs), w1) \<Rightarrow>
            (r = CUDA_SUCCESS \<and> (case outs of [] \<Rightarrow> False | active # _ \<Rightarrow> active = 0), w1))
     else (False, w))"

definition on_world :: "('d world \<Rightarrow> 'a \<times> 'd world) \<Rightarrow> 'd sv \<Rightarrow> 'a \<times> 'd sv" where
  "on_world f s = (case f (sv_world s) of (a, w) \<Rightarrow> (a, s\<lparr> sv_world := w \<rparr>))"

text \<open>A primary context was seen destroyed: a new generation, and what this session made in the
  earlier ones is forgotten.\<close>

definition primary_ended :: "int \<Rightarrow> 'd sv \<Rightarrow> 'd sv" where
  "primary_ended dev s =
     (let s1 = on_proc (bump_generation dev) s in on_inv (forget_primary (sv_proc s1) dev) s1)"

definition w_cuDevicePrimaryCtxRelease :: "'d driver \<Rightarrow> int \<Rightarrow> 'd sv \<Rightarrow> (CUresult \<times> u64 list) \<times> 'd sv" where
  "w_cuDevicePrimaryCtxRelease drv dev = guarded drv ''cuDevicePrimaryCtxRelease_v2'' (\<lambda>s.
     case sv_call drv (PrimaryCtxRelease dev) s of ((r, outs), s1) \<Rightarrow>
       (if r \<noteq> CUDA_SUCCESS then ((r, outs), s1)
        else case on_world (primary_inactive drv dev) (on_inv (note_primary_retain dev (-1)) s1) of
               (inactive, s2) \<Rightarrow> ((r, outs), if inactive then primary_ended dev s2 else s2)))"

definition w_cuDevicePrimaryCtxReset :: "'d driver \<Rightarrow> int \<Rightarrow> 'd sv \<Rightarrow> (CUresult \<times> u64 list) \<times> 'd sv" where
  "w_cuDevicePrimaryCtxReset drv dev = guarded drv ''cuDevicePrimaryCtxReset_v2'' (\<lambda>s.
     if p_live_sessions (sv_proc s) > 1 then ((CUDA_ERROR_NOT_SUPPORTED, []), s)
     else case sv_call drv (PrimaryCtxReset dev) s of ((r, outs), s1) \<Rightarrow>
       ((r, outs), if r = CUDA_SUCCESS then primary_ended dev s1 else s1))"

section \<open>Contexts\<close>

definition w_cuCtxCreate ::
    "'d driver \<Rightarrow> nat \<Rightarrow> bool \<Rightarrow> u32 \<Rightarrow> int \<Rightarrow> 'd sv \<Rightarrow> (CUresult \<times> u64 list) \<times> 'd sv" where
  "w_cuCtxCreate drv depth want flags dev = guarded drv ''cuCtxCreate_v2'' (\<lambda>s.
     if \<not> client_threads_may_create depth (sv_threads s) then ((CUDA_ERROR_INVALID_VALUE, []), s)
     else case sv_call drv (CtxCreate want flags dev) s of ((r, outs), s1) \<Rightarrow>
       ((r, outs), if r = CUDA_SUCCESS \<and> want
          then (case take_stamp drv s1 of (st, s2) \<Rightarrow>
                 on_threads (client_threads_created drv (out0 outs)) (on_inv (note_item Contexts (out0 outs) st) s2))
          else s1))"

text \<open>What \<open>cuCtxDestroy\<close> and \<open>cuCtxDetach\<close> both do: each that succeeds destroyed the context.\<close>

definition destroying :: "'d driver \<Rightarrow> drv_call \<Rightarrow> u64 \<Rightarrow> 'd sv \<Rightarrow> (CUresult \<times> u64 list) \<times> 'd sv" where
  "destroying drv c ctx = guarded drv (call_sym c) (\<lambda>s.
     case sv_call drv c s of ((r, outs), s1) \<Rightarrow>
       ((r, outs), if r = CUDA_SUCCESS
          then on_threads (client_threads_destroyed drv ctx) (on_inv (forget_context ctx) s1) else s1))"

definition w_cuCtxDestroy :: "'d driver \<Rightarrow> u64 \<Rightarrow> 'd sv \<Rightarrow> (CUresult \<times> u64 list) \<times> 'd sv" where
  "w_cuCtxDestroy drv ctx = destroying drv (CtxDestroy ctx) ctx"

definition w_cuCtxDetach :: "'d driver \<Rightarrow> u64 \<Rightarrow> 'd sv \<Rightarrow> (CUresult \<times> u64 list) \<times> 'd sv" where
  "w_cuCtxDetach drv ctx = destroying drv (CtxDetach ctx) ctx"

definition w_cuCtxAttach :: "'d sv \<Rightarrow> (CUresult \<times> u64 list) \<times> 'd sv" where
  "w_cuCtxAttach s = ((CUDA_ERROR_NOT_SUPPORTED, []), s)"

definition refuse_green :: "'d sv \<Rightarrow> (CUresult \<times> u64 list) \<times> 'd sv" where
  "refuse_green s = ((CUDA_ERROR_NOT_SUPPORTED, []), s)"

section \<open>Modules and libraries\<close>

definition w_cuModuleLoad :: "'d driver \<Rightarrow> bool \<Rightarrow> byte list option \<Rightarrow> 'd sv \<Rightarrow> (CUresult \<times> u64 list) \<times> 'd sv" where
  "w_cuModuleLoad drv want path = creating drv Here Modules want (ModuleLoad path)"

definition w_cuModuleLoadData :: "'d driver \<Rightarrow> bool \<Rightarrow> byte list option \<Rightarrow> 'd sv \<Rightarrow> (CUresult \<times> u64 list) \<times> 'd sv" where
  "w_cuModuleLoadData drv want img = creating drv Here Modules want (ModuleLoadData img)"

definition w_cuModuleLoadFatBinary ::
    "'d driver \<Rightarrow> bool \<Rightarrow> byte list option \<Rightarrow> 'd sv \<Rightarrow> (CUresult \<times> u64 list) \<times> 'd sv" where
  "w_cuModuleLoadFatBinary drv want img = creating drv Here Modules want (ModuleLoadFatBinary img)"

definition w_cuModuleUnload :: "'d driver \<Rightarrow> u64 \<Rightarrow> 'd sv \<Rightarrow> (CUresult \<times> u64 list) \<times> 'd sv" where
  "w_cuModuleUnload drv md = releasing drv Modules md (ModuleUnload md)"

definition w_cuLibraryLoadData ::
    "'d driver \<Rightarrow> bool \<Rightarrow> byte list option \<Rightarrow> u32 \<Rightarrow> u32 \<Rightarrow> 'd sv \<Rightarrow> (CUresult \<times> u64 list) \<times> 'd sv" where
  "w_cuLibraryLoadData drv want code jit libs =
     creating drv Nowhere Libraries want (LibraryLoadData code jit libs)"

definition w_cuLibraryLoadFromFile ::
    "'d driver \<Rightarrow> bool \<Rightarrow> byte list \<Rightarrow> 'd sv \<Rightarrow> (CUresult \<times> u64 list) \<times> 'd sv" where
  "w_cuLibraryLoadFromFile drv want file = creating drv Nowhere Libraries want (LibraryLoadFromFile file)"

definition w_cuLibraryUnload :: "'d driver \<Rightarrow> u64 \<Rightarrow> 'd sv \<Rightarrow> (CUresult \<times> u64 list) \<times> 'd sv" where
  "w_cuLibraryUnload drv lib = releasing drv Libraries lib (LibraryUnload lib)"

section \<open>Virtual memory\<close>

definition w_cuMemAddressReserve ::
    "'d driver \<Rightarrow> bool \<Rightarrow> u64 \<Rightarrow> u64 \<Rightarrow> u64 \<Rightarrow> u64 \<Rightarrow> 'd sv \<Rightarrow> (CUresult \<times> u64 list) \<times> 'd sv" where
  "w_cuMemAddressReserve drv want n align addr flags = guarded drv ''cuMemAddressReserve'' (\<lambda>s.
     case sv_call drv (Make want (MemAddressReserve n align addr flags)) s of ((r, outs), s1) \<Rightarrow>
       ((r, outs), if r = CUDA_SUCCESS \<and> want then on_inv (note_sized VmmRanges (out0 outs) n) s1 else s1))"

definition w_cuMemAddressFree :: "'d driver \<Rightarrow> u64 \<Rightarrow> u64 \<Rightarrow> 'd sv \<Rightarrow> (CUresult \<times> u64 list) \<times> 'd sv" where
  "w_cuMemAddressFree drv p n = guarded drv ''cuMemAddressFree'' (\<lambda>s.
     case sv_call drv (Give (MemAddressFree p n)) s of ((r, outs), s1) \<Rightarrow>
       ((r, outs), if r = CUDA_SUCCESS then on_inv (forget_sized VmmRanges p) s1 else s1))"

definition w_cuMemCreate ::
    "'d driver \<Rightarrow> bool \<Rightarrow> u64 \<Rightarrow> byte list option \<Rightarrow> u64 \<Rightarrow> 'd sv \<Rightarrow> (CUresult \<times> u64 list) \<times> 'd sv" where
  "w_cuMemCreate drv want n prop flags = creating drv Nowhere VmmHandles want (MemCreate n prop flags)"

definition w_cuMemRelease :: "'d driver \<Rightarrow> u64 \<Rightarrow> 'd sv \<Rightarrow> (CUresult \<times> u64 list) \<times> 'd sv" where
  "w_cuMemRelease drv h = releasing drv VmmHandles h (MemRelease h)"

definition w_cuMemMap ::
    "'d driver \<Rightarrow> u64 \<Rightarrow> u64 \<Rightarrow> u64 \<Rightarrow> u64 \<Rightarrow> u64 \<Rightarrow> 'd sv \<Rightarrow> (CUresult \<times> u64 list) \<times> 'd sv" where
  "w_cuMemMap drv p n offset h flags = guarded drv ''cuMemMap'' (\<lambda>s.
     case sv_call drv (MemMap p n offset h flags) s of ((r, outs), s1) \<Rightarrow>
       ((r, outs), if r = CUDA_SUCCESS then on_inv (note_sized VmmMaps p n) s1 else s1))"

definition w_cuMemUnmap :: "'d driver \<Rightarrow> u64 \<Rightarrow> u64 \<Rightarrow> 'd sv \<Rightarrow> (CUresult \<times> u64 list) \<times> 'd sv" where
  "w_cuMemUnmap drv p n = guarded drv ''cuMemUnmap'' (\<lambda>s.
     case sv_call drv (Give (MemUnmap p n)) s of ((r, outs), s1) \<Rightarrow>
       ((r, outs), if r = CUDA_SUCCESS then on_inv (forget_sized VmmMaps p) s1 else s1))"

section \<open>Streams, events and graphs\<close>

definition w_cuStreamCreate :: "'d driver \<Rightarrow> bool \<Rightarrow> u32 \<Rightarrow> 'd sv \<Rightarrow> (CUresult \<times> u64 list) \<times> 'd sv" where
  "w_cuStreamCreate drv want flags = creating drv Here Streams want (StreamCreate flags)"

definition w_cuStreamCreateWithPriority ::
    "'d driver \<Rightarrow> bool \<Rightarrow> u32 \<Rightarrow> u32 \<Rightarrow> 'd sv \<Rightarrow> (CUresult \<times> u64 list) \<times> 'd sv" where
  "w_cuStreamCreateWithPriority drv want flags prio =
     creating drv Here Streams want (StreamCreateWithPriority flags prio)"

definition w_cuStreamDestroy :: "'d driver \<Rightarrow> u64 \<Rightarrow> 'd sv \<Rightarrow> (CUresult \<times> u64 list) \<times> 'd sv" where
  "w_cuStreamDestroy drv stream = guarded drv ''cuStreamDestroy_v2'' (\<lambda>s.
     case sv_call drv (Give (StreamDestroy stream)) s of ((r, outs), s1) \<Rightarrow>
       ((r, outs), if r = CUDA_SUCCESS
          then (let s2 = on_inv (forget_item Streams stream) s1
                in if stream \<noteq> 0 then on_inv (forget_capture stream 0) s2 else s2)
          else s1))"

definition w_cuEventCreate :: "'d driver \<Rightarrow> bool \<Rightarrow> u32 \<Rightarrow> 'd sv \<Rightarrow> (CUresult \<times> u64 list) \<times> 'd sv" where
  "w_cuEventCreate drv want flags = creating drv Here Events want (EventCreate flags)"

definition w_cuEventDestroy :: "'d driver \<Rightarrow> u64 \<Rightarrow> 'd sv \<Rightarrow> (CUresult \<times> u64 list) \<times> 'd sv" where
  "w_cuEventDestroy drv ev = releasing drv Events ev (EventDestroy ev)"

definition w_cuGraphCreate :: "'d driver \<Rightarrow> bool \<Rightarrow> u32 \<Rightarrow> 'd sv \<Rightarrow> (CUresult \<times> u64 list) \<times> 'd sv" where
  "w_cuGraphCreate drv want flags = creating drv Here Graphs want (GraphCreate flags)"

definition w_cuStreamBeginCapture :: "'d driver \<Rightarrow> u64 \<Rightarrow> u32 \<Rightarrow> 'd sv \<Rightarrow> (CUresult \<times> u64 list) \<times> 'd sv" where
  "w_cuStreamBeginCapture drv stream mode = guarded drv ''cuStreamBeginCapture_v2'' (\<lambda>s.
     case stamp_of drv Streams stream s of (st, s1) \<Rightarrow>
     case sv_call drv (StreamBeginCapture stream mode) s1 of ((r, outs), s2) \<Rightarrow>
       ((r, outs), if r = CUDA_SUCCESS
          then on_inv (\<lambda>iv. iv\<lparr> iv_captures := iv_captures iv @ [\<lparr> oc_stream = stream, oc_where = st \<rparr>] \<rparr>) s2
          else s2))"

definition w_cuStreamEndCapture :: "'d driver \<Rightarrow> bool \<Rightarrow> u64 \<Rightarrow> 'd sv \<Rightarrow> (CUresult \<times> u64 list) \<times> 'd sv" where
  "w_cuStreamEndCapture drv want stream = guarded drv ''cuStreamEndCapture'' (\<lambda>s.
     case stamp_of drv Streams stream s of (st, s1) \<Rightarrow>
     case sv_call drv (Make want (StreamEndCapture stream)) s1 of ((r, outs), s2) \<Rightarrow>
       ((r, outs), if r = CUDA_SUCCESS
          then (let s3 = on_inv (forget_capture stream (st_ctx st)) s2
                in if want then on_inv (note_item Graphs (out0 outs) st) s3 else s3)
          else s2))"

definition w_cuGraphDestroy :: "'d driver \<Rightarrow> u64 \<Rightarrow> 'd sv \<Rightarrow> (CUresult \<times> u64 list) \<times> 'd sv" where
  "w_cuGraphDestroy drv g = releasing drv Graphs g (GraphDestroy g)"

definition w_cuGraphInstantiateWithFlags ::
    "'d driver \<Rightarrow> bool \<Rightarrow> u64 \<Rightarrow> u64 \<Rightarrow> 'd sv \<Rightarrow> (CUresult \<times> u64 list) \<times> 'd sv" where
  "w_cuGraphInstantiateWithFlags drv want g flags =
     creating drv (Beside Graphs g) GraphExecs want (GraphInstantiateWithFlags g flags)"

definition w_cuGraphExecDestroy :: "'d driver \<Rightarrow> u64 \<Rightarrow> 'd sv \<Rightarrow> (CUresult \<times> u64 list) \<times> 'd sv" where
  "w_cuGraphExecDestroy drv ex = releasing drv GraphExecs ex (GraphExecDestroy ex)"

definition w_cuGraphClone :: "'d driver \<Rightarrow> bool \<Rightarrow> u64 \<Rightarrow> 'd sv \<Rightarrow> (CUresult \<times> u64 list) \<times> 'd sv" where
  "w_cuGraphClone drv want g = creating drv (Beside Graphs g) Graphs want (GraphClone g)"

section \<open>Which entry point the server calls\<close>

definition kWrappers :: "string list" where
  "kWrappers = [''cuCtxSetCurrent'', ''cuCtxPushCurrent_v2'', ''cuCtxPopCurrent_v2'', ''cuCtxGetCurrent'']"

definition kWrappedCalls :: "string list" where
  "kWrappedCalls =
    [''cuMemAlloc_v2'', ''cuMemAllocPitch_v2'', ''cuMemAllocAsync'', ''cuMemAllocFromPoolAsync'',
     ''cuMemFree_v2'', ''cuMemFreeAsync'', ''cuDevicePrimaryCtxRetain'', ''cuDevicePrimaryCtxRelease_v2'',
     ''cuDevicePrimaryCtxReset_v2'', ''cuCtxCreate_v2'', ''cuCtxDestroy_v2'', ''cuCtxDetach'', ''cuCtxAttach'',
     ''cuGreenCtxCreate'', ''cuGreenCtxDestroy'', ''cuCtxFromGreenCtx'', ''cuGreenCtxStreamCreate'',
     ''cuGreenCtxRecordEvent'', ''cuGreenCtxWaitEvent'', ''cuModuleLoad'', ''cuModuleLoadData'',
     ''cuModuleLoadFatBinary'', ''cuModuleUnload'', ''cuLibraryLoadData'', ''cuLibraryLoadFromFile'',
     ''cuLibraryUnload'', ''cuMemAddressReserve'', ''cuMemAddressFree'', ''cuMemCreate'', ''cuMemRelease'',
     ''cuMemMap'', ''cuMemUnmap'', ''cuStreamCreate'', ''cuStreamCreateWithPriority'', ''cuStreamDestroy_v2'',
     ''cuEventCreate'', ''cuEventDestroy_v2'', ''cuGraphCreate'', ''cuStreamBeginCapture_v2'',
     ''cuStreamEndCapture'', ''cuGraphDestroy'', ''cuGraphInstantiateWithFlags'', ''cuGraphExecDestroy'',
     ''cuGraphClone'']"

datatype entry_point = OnThreadStack string | Tracked string | Drivers_own string

fun table_lookup :: "string list \<Rightarrow> string \<Rightarrow> string option" where
  "table_lookup [] name = None"
| "table_lookup (n # ns) name = (if n = name then Some n else table_lookup ns name)"

definition driver_wrapper :: "string \<Rightarrow> entry_point option" where
  "driver_wrapper name = (case table_lookup kWrappers name of
       Some n \<Rightarrow> Some (OnThreadStack n)
     | None \<Rightarrow> map_option Tracked (table_lookup kWrappedCalls name))"

definition driver_sym :: "'d driver \<Rightarrow> string \<Rightarrow> entry_point option" where
  "driver_sym drv name = (if \<not> d_has drv name then None
     else case driver_wrapper name of Some e \<Rightarrow> Some e | None \<Rightarrow> Some (Drivers_own name))"

text \<open>The call the dispatch makes through that entry point.\<close>

fun tracked_make :: "'d driver \<Rightarrow> bool \<Rightarrow> maker \<Rightarrow> 'd sv \<Rightarrow> (CUresult \<times> u64 list) \<times> 'd sv" where
  "tracked_make drv want (MemAlloc n) = w_cuMemAlloc drv want n"
| "tracked_make drv want (MemAllocPitch p a b c) = w_cuMemAllocPitch drv want p a b c"
| "tracked_make drv want (MemAllocAsync n st) = w_cuMemAllocAsync drv want n st"
| "tracked_make drv want (MemAllocFromPoolAsync n p st) = w_cuMemAllocFromPoolAsync drv want n p st"
| "tracked_make drv want (ModuleLoad b) = w_cuModuleLoad drv want b"
| "tracked_make drv want (ModuleLoadData b) = w_cuModuleLoadData drv want b"
| "tracked_make drv want (ModuleLoadFatBinary b) = w_cuModuleLoadFatBinary drv want b"
| "tracked_make drv want (LibraryLoadData b j l) = w_cuLibraryLoadData drv want b j l"
| "tracked_make drv want (LibraryLoadFromFile b) = w_cuLibraryLoadFromFile drv want b"
| "tracked_make drv want (MemAddressReserve n a p f) = w_cuMemAddressReserve drv want n a p f"
| "tracked_make drv want (MemCreate n p f) = w_cuMemCreate drv want n p f"
| "tracked_make drv want (StreamCreate f) = w_cuStreamCreate drv want f"
| "tracked_make drv want (StreamCreateWithPriority f p) = w_cuStreamCreateWithPriority drv want f p"
| "tracked_make drv want (EventCreate f) = w_cuEventCreate drv want f"
| "tracked_make drv want (GraphCreate f) = w_cuGraphCreate drv want f"
| "tracked_make drv want (StreamEndCapture st) = w_cuStreamEndCapture drv want st"
| "tracked_make drv want (GraphInstantiateWithFlags g f) = w_cuGraphInstantiateWithFlags drv want g f"
| "tracked_make drv want (GraphClone g) = w_cuGraphClone drv want g"

fun tracked_give :: "'d driver \<Rightarrow> giver \<Rightarrow> 'd sv \<Rightarrow> (CUresult \<times> u64 list) \<times> 'd sv" where
  "tracked_give drv (MemFree p) = w_cuMemFree drv p"
| "tracked_give drv (MemFreeAsync p st) = w_cuMemFreeAsync drv p st"
| "tracked_give drv (ModuleUnload m) = w_cuModuleUnload drv m"
| "tracked_give drv (LibraryUnload l) = w_cuLibraryUnload drv l"
| "tracked_give drv (MemAddressFree p n) = w_cuMemAddressFree drv p n"
| "tracked_give drv (MemRelease h) = w_cuMemRelease drv h"
| "tracked_give drv (MemUnmap p n) = w_cuMemUnmap drv p n"
| "tracked_give drv (StreamDestroy st) = w_cuStreamDestroy drv st"
| "tracked_give drv (EventDestroy e) = w_cuEventDestroy drv e"
| "tracked_give drv (GraphDestroy g) = w_cuGraphDestroy drv g"
| "tracked_give drv (GraphExecDestroy e) = w_cuGraphExecDestroy drv e"
| "tracked_give drv (LibHandleDestroy f h) = sv_call drv (Give (LibHandleDestroy f h))"

definition on_stack ::
    "('d tw \<Rightarrow> (CUresult \<times> u64 list) \<times> 'd tw) \<Rightarrow> 'd sv \<Rightarrow> (CUresult \<times> u64 list) \<times> 'd sv" where
  "on_stack f s = (case f (sv_threads s, sv_world s) of (r, (ts, w)) \<Rightarrow>
     (r, s\<lparr> sv_threads := ts, sv_world := w \<rparr>))"

definition no_outs :: "CUresult \<times> 'd tw \<Rightarrow> (CUresult \<times> u64 list) \<times> 'd tw" where
  "no_outs x = ((fst x, []), snd x)"

fun wrapped_call :: "'d driver \<Rightarrow> nat \<Rightarrow> drv_call \<Rightarrow> 'd sv \<Rightarrow> (CUresult \<times> u64 list) \<times> 'd sv" where
  "wrapped_call drv depth (CtxSetCurrent c) = on_stack (\<lambda>s. no_outs (w_cuCtxSetCurrent drv c s))"
| "wrapped_call drv depth (CtxPushCurrent c) = on_stack (\<lambda>s. no_outs (w_cuCtxPushCurrent drv depth c s))"
| "wrapped_call drv depth (CtxPopCurrent want) = on_stack (w_cuCtxPopCurrent drv want)"
| "wrapped_call drv depth CtxGetCurrent = on_stack (w_cuCtxGetCurrent drv True)"
| "wrapped_call drv depth CtxGetCurrentNull = on_stack (w_cuCtxGetCurrent drv False)"
| "wrapped_call drv depth (CtxCreate want flags dev) = w_cuCtxCreate drv depth want flags dev"
| "wrapped_call drv depth (CtxDestroy c) = w_cuCtxDestroy drv c"
| "wrapped_call drv depth (CtxDetach c) = w_cuCtxDetach drv c"
| "wrapped_call drv depth (PrimaryCtxRetain want dev) = w_cuDevicePrimaryCtxRetain drv want dev"
| "wrapped_call drv depth (PrimaryCtxRelease dev) = w_cuDevicePrimaryCtxRelease drv dev"
| "wrapped_call drv depth (PrimaryCtxReset dev) = w_cuDevicePrimaryCtxReset drv dev"
| "wrapped_call drv depth (MemMap p n o' h f) = w_cuMemMap drv p n o' h f"
| "wrapped_call drv depth (StreamBeginCapture st m) = w_cuStreamBeginCapture drv st m"
| "wrapped_call drv depth (Make want m) = tracked_make drv want m"
| "wrapped_call drv depth (Give g) = tracked_give drv g"
| "wrapped_call drv depth c = sv_call drv c"

text \<open>A call by name: resolved in the driver first, so one it lacks is never wrapped.\<close>

definition tracked_call :: "'d driver \<Rightarrow> nat \<Rightarrow> drv_call \<Rightarrow> 'd sv \<Rightarrow> (CUresult \<times> u64 list) \<times> 'd sv" where
  "tracked_call drv depth c s = (case driver_sym drv (call_sym c) of
       None \<Rightarrow> ((CUDA_ERROR_NOT_SUPPORTED, []), s)
     | Some (Drivers_own _) \<Rightarrow> sv_call drv c s
     | Some _ \<Rightarrow> wrapped_call drv depth c s)"

end
