(* ===== verification/Recording.thy ===== *)
theory Recording
  imports Tracking FakeDriver
begin

text \<open>
  What the tracking wrappers keep of a session's record: whatever calls a session makes, and
  whatever other sessions do to the process's primary contexts in between, the reverse index
  stays exact and every entry that names a device was made in that device's primary context.
\<close>

section \<open>The interface: a driver with one primary context per device\<close>

text \<open>The handle of a primary context belongs to one device (\<open>owner\<close>) for the life of the process.\<close>

locale primary_driver =
  fixes drv :: "'d driver" and owner :: "u64 \<Rightarrow> int"
  assumes retain_owner: "d_step drv (PrimaryCtxRetain True dev) d = ((CUDA_SUCCESS, outs), d') \<Longrightarrow>
      out0 outs \<noteq> 0 \<Longrightarrow> owner (out0 outs) = dev"

definition proc_owned :: "(u64 \<Rightarrow> int) \<Rightarrow> process \<Rightarrow> bool" where
  "proc_owned owner p \<longleftrightarrow> proc_wf p \<and> (\<forall>(c, dev) \<in> set (p_primary_dev p). owner c = dev)"

definition inv_ok :: "process \<Rightarrow> inventory option \<Rightarrow> bool" where
  "inv_ok p io \<longleftrightarrow> (\<forall>iv. io = Some iv \<longrightarrow> inv_wf iv \<and> placed p iv)"

definition sv_ok :: "(u64 \<Rightarrow> int) \<Rightarrow> 'd sv \<Rightarrow> bool" where
  "sv_ok owner s \<longleftrightarrow> proc_owned owner (sv_proc s)
     \<and> inv_ok (sv_proc s) (sv_inv s)"

text \<open>Every stamp an inventory holds.\<close>

definition vals :: "('k \<times> 'v) list \<Rightarrow> 'v set" where
  "vals xs = snd ` set xs"

definition stamps :: "inventory \<Rightarrow> stamp set" where
  "stamps iv = {st. (\<exists>w. st \<in> vals (iv_items iv w)) \<or> (\<exists>lh \<in> vals (iv_handles iv). st = lh_made lh)
     \<or> (\<exists>c \<in> set (iv_captures iv). st = oc_where c)}"

lemma placed_stamps: "placed p iv \<longleftrightarrow> (\<forall>st \<in> stamps iv. stamp_placed p st)"
  unfolding placed_def stamps_def vals_def by blast

lemma placed_mono: "placed p iv \<Longrightarrow> stamps iv' \<subseteq> stamps iv \<Longrightarrow> placed p iv'"
  by (auto simp: placed_stamps)

lemma vals_update: "v' \<in> vals (AList.update k v xs) \<Longrightarrow> v' = v \<or> v' \<in> vals xs"
  by (induction xs) (auto simp: vals_def split: if_splits)

lemma vals_delete: "v \<in> vals (AList.delete k xs) \<Longrightarrow> v \<in> vals xs"
  by (induction xs) (auto simp: vals_def split: if_splits)

lemma vals_erase: "v \<in> vals (erase_keys ks xs) \<Longrightarrow> v \<in> vals xs"
  by (auto simp: vals_def erase_keys_def)

lemma vals_filter: "v \<in> vals (filter P xs) \<Longrightarrow> v \<in> vals xs"
  by (auto simp: vals_def)

lemma stamps_put_items: "stamps (put_items w f iv) \<subseteq> vals (f (iv_items iv w)) \<union> stamps iv"
  by (auto simp: stamps_def put_items_def split: if_splits)

lemma index_captures:
  "iv_captures (index_add c i h iv) = iv_captures iv" "iv_captures (index_remove c i h iv) = iv_captures iv"
  "iv_captures (index_add_handle c h iv) = iv_captures iv"
  "iv_captures (index_remove_handle c h iv) = iv_captures iv"
  by (auto simp: index_add_def index_remove_def index_add_handle_def index_remove_handle_def
      index_frame Let_def split: option.split)

lemma stamps_cong:
  "iv_items a = iv_items b \<Longrightarrow> iv_handles a = iv_handles b \<Longrightarrow> iv_captures a = iv_captures b \<Longrightarrow> stamps a = stamps b"
  by (simp add: stamps_def)

lemma stamps_index:
  "stamps (index_add c i h iv) = stamps iv" "stamps (index_remove c i h iv) = stamps iv"
  "stamps (index_add_handle c h iv) = stamps iv" "stamps (index_remove_handle c h iv) = stamps iv"
  by (rule stamps_cong; simp add: index_frame index_captures)+

lemma stamps_note: "stamps (note_item w h st iv) \<subseteq> insert st (stamps iv)"
proof -
  define iv1 where "iv1 = (if ctx_slot w = None then iv
      else case map_of (iv_items iv w) h of None \<Rightarrow> iv
        | Some old \<Rightarrow> (if st_ctx old \<noteq> st_ctx st then index_remove (st_ctx old) (ctx_slot w) h iv else iv))"
  have s1: "stamps iv1 = stamps iv" "iv_items iv1 = iv_items iv"
    by (auto simp: iv1_def stamps_index index_frame split: option.split)
  have "vals (AList.update h st (iv_items iv w)) \<subseteq> insert st (stamps iv)"
    by (auto simp: stamps_def dest: vals_update)
  moreover have "stamps (put_items w (AList.update h st) iv1) \<subseteq> vals (AList.update h st (iv_items iv w)) \<union> stamps iv"
    using stamps_put_items [of w "AList.update h st" iv1] s1 by simp
  ultimately have "stamps (put_items w (AList.update h st) iv1) \<subseteq> insert st (stamps iv)" by blast
  then show ?thesis by (auto simp: note_item_def Let_def stamps_index simp flip: iv1_def)
qed

lemma stamps_forget: "stamps (forget_item w h iv) \<subseteq> stamps iv"
proof -
  define iv1 where "iv1 = (if ctx_slot w = None then iv
      else case map_of (iv_items iv w) h of None \<Rightarrow> iv
        | Some old \<Rightarrow> index_remove (st_ctx old) (ctx_slot w) h iv)"
  have s1: "stamps iv1 = stamps iv" "iv_items iv1 = iv_items iv"
    by (auto simp: iv1_def stamps_index index_frame split: option.split)
  have "vals (AList.delete h (iv_items iv w)) \<subseteq> stamps iv"
    by (auto simp: stamps_def dest: vals_delete)
  moreover have "stamps (put_items w (AList.delete h) iv1) \<subseteq> vals (AList.delete h (iv_items iv w)) \<union> stamps iv"
    using stamps_put_items [of w "AList.delete h" iv1] s1 by simp
  ultimately have "stamps (put_items w (AList.delete h) iv1) \<subseteq> stamps iv" by blast
  then show ?thesis by (simp add: forget_item_def Let_def flip: iv1_def)
qed

lemma stamps_put_handles:
  "stamps (iv\<lparr>iv_handles := hs\<rparr>) \<subseteq> lh_made ` vals hs \<union> stamps iv"
  by (auto simp: stamps_def)

lemma stamps_note_handle: "stamps (inventory_note_handle h lh iv) \<subseteq> insert (lh_made lh) (stamps iv)"
proof -
  define iv1 where "iv1 = (case map_of (iv_handles iv) h of None \<Rightarrow> iv
      | Some old \<Rightarrow> (if st_ctx (lh_made old) \<noteq> st_ctx (lh_made lh)
                    then index_remove_handle (st_ctx (lh_made old)) h iv else iv))"
  have s1: "stamps iv1 = stamps iv" "iv_handles iv1 = iv_handles iv"
    by (auto simp: iv1_def stamps_index index_frame split: option.split)
  have "lh_made ` vals (AList.update h lh (iv_handles iv)) \<subseteq> insert (lh_made lh) (stamps iv)"
    by (auto simp: stamps_def dest: vals_update)
  then have "stamps (iv1\<lparr>iv_handles := AList.update h lh (iv_handles iv)\<rparr>) \<subseteq> insert (lh_made lh) (stamps iv)"
    using stamps_put_handles [of "AList.update h lh (iv_handles iv)" iv1] s1(1) by blast
  then show ?thesis
    by (auto simp: inventory_note_handle_def Let_def stamps_index s1 simp flip: iv1_def)
qed

lemma stamps_forget_handle: "stamps (inventory_forget_handle h iv) \<subseteq> stamps iv"
proof -
  define iv1 where "iv1 = (case map_of (iv_handles iv) h of None \<Rightarrow> iv
      | Some old \<Rightarrow> index_remove_handle (st_ctx (lh_made old)) h iv)"
  have s1: "stamps iv1 = stamps iv" "iv_handles iv1 = iv_handles iv"
    by (auto simp: iv1_def stamps_index index_frame split: option.split)
  have "lh_made ` vals (AList.delete h (iv_handles iv)) \<subseteq> stamps iv"
    by (auto simp: stamps_def dest: vals_delete)
  then have "stamps (iv1\<lparr>iv_handles := AList.delete h (iv_handles iv)\<rparr>) \<subseteq> stamps iv"
    using stamps_put_handles [of "AList.delete h (iv_handles iv)" iv1] s1(1) by blast
  then show ?thesis by (simp add: inventory_forget_handle_def Let_def s1 flip: iv1_def)
qed

lemma stamps_subset:
  assumes "\<And>w st. st \<in> vals (iv_items a w) \<Longrightarrow> st \<in> vals (iv_items b w)"
    and "\<And>lh. lh \<in> vals (iv_handles a) \<Longrightarrow> lh \<in> vals (iv_handles b)"
    and "\<And>c. c \<in> set (iv_captures a) \<Longrightarrow> c \<in> set (iv_captures b)"
  shows "stamps a \<subseteq> stamps b"
  using assms unfolding stamps_def by blast

lemma stamps_forget_under: "stamps (forget_under ctx iv) \<subseteq> stamps iv"
  by (rule stamps_subset) (auto simp: forget_under_def Let_def split: option.splits dest: vals_erase)

lemma stamps_forget_context: "stamps (forget_context ctx iv) \<subseteq> stamps iv"
proof -
  have "stamps (put_items Contexts (AList.delete ctx) iv) \<subseteq> stamps iv"
    by (rule stamps_subset) (auto simp: put_items_def split: if_splits dest: vals_delete)
  then show ?thesis using stamps_forget_under [of ctx] unfolding forget_context_def by blast
qed

lemma stamps_forget_primary: "inv_wf iv \<Longrightarrow> proc_wf p \<Longrightarrow> stamps (forget_primary p dev iv) \<subseteq> stamps iv"
proof -
  assume a: "inv_wf iv" "proc_wf p"
  have "0 \<notin> set (primary_handles p dev)" using a(2) by (force simp: primary_handles_def proc_wf_def)
  note f = fold_forget_primary_scan [OF a(1) this, of dev "generation p dev"]
  show ?thesis
    using f by (intro stamps_subset) (auto simp: forget_primary_def Let_def split: if_splits dest: vals_filter)
qed

lemma erase_capture_subset: "set (erase_capture stream ctx cs) \<subseteq> set cs"
  by (induction cs) auto

lemma stamps_frame [simp]:
  "stamps (note_primary_retain dev n iv) = stamps iv" "stamps (note_sized m a b iv) = stamps iv"
  "stamps (forget_sized m a iv) = stamps iv"
  by (rule stamps_cong; simp add: note_primary_retain_def note_sized_def forget_sized_def Let_def)+

lemma stamps_forget_capture: "stamps (forget_capture stream ctx iv) \<subseteq> stamps iv"
  using erase_capture_subset by (intro stamps_subset) (auto simp: forget_capture_def)

lemma wf_frame [simp]:
  "inv_wf (note_primary_retain dev n iv) = inv_wf iv" "inv_wf (note_sized m a b iv) = inv_wf iv"
  "inv_wf (forget_sized m a iv) = inv_wf iv" "inv_wf (forget_capture stream ctx iv) = inv_wf iv"
  by (simp_all add: note_primary_retain_def note_sized_def forget_sized_def forget_capture_def Let_def)

lemma inv_wf_forget_context:
  assumes "inv_wf iv" shows "inv_wf (forget_context ctx iv)"
proof -
  have c: "inv_wf (put_items Contexts (AList.delete ctx) iv)"
    using inv_wf_put_unindexed [OF assms, of Contexts "AList.delete ctx"] assms
    by (simp add: inv_wf_def distinct_delete)
  show ?thesis
  proof (cases "ctx = 0")
    case True
    then show ?thesis
      using c inv_wf_null [OF c] by (simp add: forget_context_def forget_under_def Let_def)
  qed (use forget_under_wf [OF c] in \<open>simp add: forget_context_def\<close>)
qed

section \<open>Reachable states of a session's record\<close>

text \<open>What happens to a serving thread's state while its session lives: its own calls through the
  dispatch, the maths libraries' handles, and the client-thread table; and, in between, what other
  sessions do to the driver and to the process's tables.\<close>

inductive sv_step :: "'d driver \<Rightarrow> nat \<Rightarrow> (u64 \<Rightarrow> int) \<Rightarrow> 'd sv \<Rightarrow> 'd sv \<Rightarrow> bool"
  for drv depth owner where
  own_call: "tracked_call drv depth c s = (r, s') \<Longrightarrow> sv_step drv depth owner s s'"
| lib_made: "take_stamp drv s = (st, s1) \<Longrightarrow> lh_made lh = st \<Longrightarrow>
    sv_step drv depth owner s (on_inv (inventory_note_handle h lh) (s1\<lparr> sv_world := w \<rparr>))"
| lib_forgotten: "sv_step drv depth owner s (on_inv (inventory_forget_handle h) s)"
| threads: "sv_step drv depth owner s (s\<lparr> sv_threads := ts, sv_world := w \<rparr>)"
| others_retain: "ctx = 0 \<or> owner ctx = dev \<Longrightarrow> sv_step drv depth owner s (on_proc (learn_primary ctx dev) s)"
| others_end: "sv_step drv depth owner s (on_proc (bump_generation dev) s)"
| others_come_and_go: "sv_step drv depth owner s (on_proc (\<lambda>p. p\<lparr> p_live_sessions := n \<rparr>) s)"

inductive sv_reachable :: "'d driver \<Rightarrow> nat \<Rightarrow> (u64 \<Rightarrow> int) \<Rightarrow> 'd sv \<Rightarrow> bool" for drv depth owner where
  start: "sv_inv s = Some no_inventory \<Longrightarrow> proc_owned owner (sv_proc s) \<Longrightarrow> sv_reachable drv depth owner s"
| step: "sv_reachable drv depth owner s \<Longrightarrow> sv_step drv depth owner s s' \<Longrightarrow> sv_reachable drv depth owner s'"

lemma stamp_placed_learn:
  assumes "proc_owned owner p" and "ctx = 0 \<or> owner ctx = dev" and "stamp_placed p st"
  shows "stamp_placed (learn_primary ctx dev p) st"
  using assms by (auto simp: stamp_placed_def learn_primary_def proc_owned_def update_conv' dest: map_of_SomeD)

lemma proc_owned_learn:
  assumes "proc_owned owner p" and "ctx = 0 \<or> owner ctx = dev"
  shows "proc_owned owner (learn_primary ctx dev p)"
proof (cases "ctx = 0")
  case False
  have "distinct (map fst (AList.update ctx dev (p_primary_dev p)))"
    using assms(1) by (simp add: proc_owned_def proc_wf_def distinct_update)
  moreover have "0 \<notin> fst ` set (AList.update ctx dev (p_primary_dev p))"
    using assms(1) False by (simp add: proc_owned_def proc_wf_def dom_update)
  moreover have "owner c = d" if "(c, d) \<in> set (AList.update ctx dev (p_primary_dev p))" for c d
  proof (cases "c = ctx")
    case True
    have "map_of (AList.update ctx dev (p_primary_dev p)) c = Some d"
      using map_of_is_SomeI [OF \<open>distinct (map fst (AList.update ctx dev (p_primary_dev p)))\<close> that] .
    then show ?thesis using True assms(2) False by simp
  next
    case ne: False
    have "map_of (AList.update ctx dev (p_primary_dev p)) c = Some d"
      using map_of_is_SomeI [OF \<open>distinct (map fst (AList.update ctx dev (p_primary_dev p)))\<close> that] .
    then have "(c, d) \<in> set (p_primary_dev p)" using ne by (simp add: map_of_SomeD)
    then show ?thesis using assms(1) by (auto simp: proc_owned_def)
  qed
  ultimately show ?thesis using False by (auto simp: proc_owned_def proc_wf_def learn_primary_def)
qed (use assms in \<open>simp add: learn_primary_def\<close>)

lemma stamp_placed_context: "stamp_placed p (stamp_context p ctx)"
  by (simp add: stamp_placed_def stamp_context_def split: option.split)

lemma stamp_placed_bump [simp]: "stamp_placed (bump_generation dev p) = stamp_placed p"
  by (simp add: stamp_placed_def bump_generation_def fun_eq_iff)

lemma proc_wf_bump [simp]: "proc_wf (bump_generation dev p) = proc_wf p"
  by (simp add: proc_wf_def bump_generation_def)

lemma stamp_placed_live [simp]: "stamp_placed (p\<lparr>p_live_sessions := n\<rparr>) = stamp_placed p"
  by (simp add: stamp_placed_def fun_eq_iff)

lemma stamp_placed_gen [simp]: "stamp_placed p (st\<lparr>st_gen := g\<rparr>) = stamp_placed p st"
  by (simp add: stamp_placed_def)

lemma stamp_placed_none [simp]: "stamp_placed p no_stamp"
  by (simp add: stamp_placed_def no_stamp_def)

lemma proc_owned_frame [simp]:
  "proc_owned owner (bump_generation dev p) = proc_owned owner p"
  "proc_owned owner (p\<lparr>p_live_sessions := n\<rparr>) = proc_owned owner p"
  by (simp_all add: proc_owned_def proc_wf_def bump_generation_def)

lemma sv_ok_world [simp]: "sv_ok owner (s\<lparr>sv_threads := ts, sv_world := w\<rparr>) = sv_ok owner s"
  "sv_ok owner (s\<lparr>sv_world := w\<rparr>) = sv_ok owner s" "sv_ok owner (s\<lparr>sv_threads := ts\<rparr>) = sv_ok owner s"
  by (simp_all add: sv_ok_def)

lemma sv_ok_on_inv:
  assumes "sv_ok owner s"
    and "\<And>iv. sv_inv s = Some iv \<Longrightarrow> inv_wf iv \<Longrightarrow> placed (sv_proc s) iv \<Longrightarrow> inv_wf (f iv) \<and> placed (sv_proc s) (f iv)"
  shows "sv_ok owner (on_inv f s)"
  using assms by (auto simp: sv_ok_def inv_ok_def on_inv_def)

lemma sv_ok_shrink:
  assumes "sv_ok owner s" and "\<And>iv. inv_wf iv \<Longrightarrow> inv_wf (f iv)" and "\<And>iv. stamps (f iv) \<subseteq> stamps iv"
  shows "sv_ok owner (on_inv f s)"
  using assms by (auto intro!: sv_ok_on_inv intro: placed_mono)

lemma sv_call_frame:
  "sv_call drv c s = (r, s') \<Longrightarrow> sv_inv s' = sv_inv s \<and> sv_proc s' = sv_proc s \<and> sv_threads s' = sv_threads s"
  by (auto simp: sv_call_def split: prod.splits)

lemma sv_call_ok: "sv_ok owner s \<Longrightarrow> sv_call drv c s = (r, s') \<Longrightarrow> sv_ok owner s'"
  using sv_call_frame [of drv c s r s'] by (simp add: sv_ok_def)

lemma take_stamp_spec:
  assumes "take_stamp drv s = (st, s')"
  shows "stamp_placed (sv_proc s) st" "sv_inv s' = sv_inv s" "sv_proc s' = sv_proc s" "sv_threads s' = sv_threads s"
  using assms
  by (auto simp: take_stamp_def current_ctx_def stamp_placed_context split: prod.splits if_splits dest: sv_call_frame)

lemma take_stamp_ok: "sv_ok owner s \<Longrightarrow> take_stamp drv s = (st, s') \<Longrightarrow> sv_ok owner s'"
  using take_stamp_spec [of drv s st s'] by (simp add: sv_ok_def)

lemma stamp_of_spec:
  assumes "sv_ok owner s" and "stamp_of drv w source s = (st, s')"
  shows "stamp_placed (sv_proc s) st" "sv_inv s' = sv_inv s" "sv_proc s' = sv_proc s" "sv_ok owner s'"
proof -
  obtain st1 s1 where t: "take_stamp drv s = (st1, s1)" by (cases "take_stamp drv s")
  note t1 = take_stamp_spec [OF t]
  have "stamp_placed (sv_proc s) st \<and> sv_inv s' = sv_inv s \<and> sv_proc s' = sv_proc s"
  proof (cases "sv_inv s")
    case (Some iv)
    show ?thesis
    proof (cases "map_of (iv_items iv w) source")
      case None
      then show ?thesis using assms(2) Some t t1 by (auto simp: stamp_of_def split: if_splits)
    next
      case (Some x)
      then have "x \<in> snd ` set (iv_items iv w)" by (metis image_eqI map_of_SomeD snd_conv)
      then have "stamp_placed (sv_proc s) x"
        using assms(1) \<open>sv_inv s = Some iv\<close> unfolding sv_ok_def inv_ok_def placed_def by blast
      then show ?thesis
        using assms(2) Some \<open>sv_inv s = Some iv\<close> t t1 by (auto simp: stamp_of_def split: if_splits)
    qed
  qed (use assms(2) t t1 in \<open>simp add: stamp_of_def\<close>)
  then show "stamp_placed (sv_proc s) st" "sv_inv s' = sv_inv s" "sv_proc s' = sv_proc s" "sv_ok owner s'"
    using assms(1) by (simp_all add: sv_ok_def)
qed

section \<open>Every operation keeps the record exact\<close>

lemma place_spec:
  assumes "sv_ok owner s" and "place drv pl s = (st, s')"
  shows "stamp_placed (sv_proc s') st" "sv_inv s' = sv_inv s" "sv_proc s' = sv_proc s" "sv_ok owner s'"
proof -
  have "stamp_placed (sv_proc s) st \<and> sv_inv s' = sv_inv s \<and> sv_proc s' = sv_proc s"
  proof (cases pl)
    case Here then show ?thesis using assms(2) take_stamp_spec [of drv s st s'] by (simp add: place_def)
  next
    case (Beside w source)
    then have "stamp_of drv w source s = (st, s')" using assms(2) by (simp add: place_def)
    from stamp_of_spec [OF assms(1) this] show ?thesis by simp
  next
    case Nowhere then show ?thesis using assms(2) by (auto simp: place_def)
  qed
  then show "stamp_placed (sv_proc s') st" "sv_inv s' = sv_inv s" "sv_proc s' = sv_proc s" "sv_ok owner s'"
    using assms(1) by (simp_all add: sv_ok_def)
qed

lemma sv_ok_note:
  "sv_ok owner s \<Longrightarrow> stamp_placed (sv_proc s) st \<Longrightarrow> sv_ok owner (on_inv (note_item w h st) s)"
  using stamps_note [of w h st] by (intro sv_ok_on_inv) (auto simp: note_item_wf placed_stamps)

lemma creating_ok:
  assumes "sv_ok owner s" and "creating drv pl w want m s = (r, s')" shows "sv_ok owner s'"
proof (cases "d_has drv (maker_sym m)")
  case True
  obtain st s1 where p: "place drv pl s = (st, s1)" by (cases "place drv pl s")
  obtain r2 outs s2 where c: "sv_call drv (Make want m) s1 = ((r2, outs), s2)"
    by (cases "sv_call drv (Make want m) s1") auto
  note p1 = place_spec [OF assms(1) p]
  have "sv_ok owner s2" "stamp_placed (sv_proc s2) st"
    using p1 sv_call_ok [OF _ c] sv_call_frame [OF c] by simp_all
  then show ?thesis using assms(2) True p c sv_ok_note by (auto simp: creating_def guarded_def split: if_splits)
qed (use assms in \<open>auto simp: creating_def guarded_def\<close>)

lemma releasing_ok:
  assumes "sv_ok owner s" and "releasing drv w h g s = (r, s')" shows "sv_ok owner s'"
proof -
  obtain r1 outs s1 where c: "sv_call drv (Give g) s = ((r1, outs), s1)" by (cases "sv_call drv (Give g) s") auto
  have "sv_ok owner (on_inv (forget_item w h) s1)"
    using sv_call_ok [OF assms(1) c] by (rule sv_ok_shrink) (simp_all add: forget_item_wf stamps_forget)
  then show ?thesis
    using assms c sv_call_ok [OF assms(1) c] by (auto simp: releasing_def guarded_def split: if_splits)
qed

lemma sv_ok_sized [simp]:
  "sv_ok owner s \<Longrightarrow> sv_ok owner (on_inv (note_sized m a b) s)"
  "sv_ok owner s \<Longrightarrow> sv_ok owner (on_inv (forget_sized m a) s)"
  "sv_ok owner s \<Longrightarrow> sv_ok owner (on_inv (forget_capture a c) s)"
  "sv_ok owner s \<Longrightarrow> sv_ok owner (on_inv (forget_item w h) s)"
  "sv_ok owner s \<Longrightarrow> sv_ok owner (on_inv (note_primary_retain dev n) s)"
  "sv_ok owner s \<Longrightarrow> sv_ok owner (on_inv (forget_context a) s)"
  "sv_ok owner s \<Longrightarrow> sv_ok owner (on_inv (inventory_forget_handle h) s)"
  by (erule sv_ok_shrink, simp_all add: stamps_forget_capture stamps_forget stamps_forget_context
      stamps_forget_handle forget_item_wf inv_wf_forget_context forget_handle_wf)+

lemma sv_ok_proc:
  assumes "sv_ok owner s" and "proc_owned owner (f (sv_proc s))"
    and "\<And>st. stamp_placed (sv_proc s) st \<Longrightarrow> stamp_placed (f (sv_proc s)) st"
  shows "sv_ok owner (on_proc f s)"
  using assms by (auto simp: sv_ok_def on_proc_def inv_ok_def placed_stamps)

lemma sv_ok_bump: "sv_ok owner s \<Longrightarrow> sv_ok owner (on_proc (bump_generation dev) s)"
  by (rule sv_ok_proc) (auto simp: sv_ok_def)

lemma primary_ended_ok: "sv_ok owner s \<Longrightarrow> sv_ok owner (primary_ended dev s)"
proof -
  assume ok: "sv_ok owner s"
  let ?s = "on_proc (bump_generation dev) s"
  have s: "sv_ok owner ?s" using sv_ok_bump [OF ok] .
  then have pw: "proc_wf (sv_proc ?s)" by (simp add: sv_ok_def proc_owned_def)
  have "sv_ok owner (on_inv (forget_primary (sv_proc ?s) dev) ?s)"
  proof (rule sv_ok_on_inv [OF s])
    fix iv assume iv: "inv_wf iv" "placed (sv_proc ?s) iv"
    have "0 \<notin> set (primary_handles (sv_proc ?s) dev)"
      using pw by (force simp: primary_handles_def proc_wf_def)
    then have "inv_wf (forget_primary (sv_proc ?s) dev iv)"
      using fold_forget_primary_scan [OF iv(1)] by (simp add: forget_primary_def Let_def)
    then show "inv_wf (forget_primary (sv_proc ?s) dev iv) \<and> placed (sv_proc ?s) (forget_primary (sv_proc ?s) dev iv)"
      using placed_mono [OF iv(2) stamps_forget_primary [OF iv(1) pw]] by blast
  qed
  then show ?thesis by (simp add: primary_ended_def Let_def)
qed

lemma on_threads_ok: "sv_ok owner s \<Longrightarrow> sv_ok owner (on_threads f s)"
  by (simp add: on_threads_def split: prod.split)

lemma on_stack_ok: "sv_ok owner s \<Longrightarrow> on_stack f s = (r, s') \<Longrightarrow> sv_ok owner s'"
  by (auto simp: on_stack_def split: prod.splits)

context primary_driver
begin

lemma retain_ok:
  assumes "sv_ok owner s" and "w_cuDevicePrimaryCtxRetain drv want dev s = (r, s')" shows "sv_ok owner s'"
proof (cases "d_has drv ''cuDevicePrimaryCtxRetain''")
  case True
  obtain r1 outs s1 where c: "sv_call drv (PrimaryCtxRetain want dev) s = ((r1, outs), s1)"
    by (cases "sv_call drv (PrimaryCtxRetain want dev) s") auto
  note s1 = sv_call_ok [OF assms(1) c]
  let ?ctx = "if want then out0 outs else 0"
  have "?ctx = 0 \<or> owner ?ctx = dev" if "r1 = CUDA_SUCCESS"
  proof (cases "want \<and> out0 outs \<noteq> 0")
    case True
    then have "\<exists>d d'. d_step drv (PrimaryCtxRetain True dev) d = ((CUDA_SUCCESS, outs), d')"
      using c that by (auto simp: sv_call_def dcall_def split: prod.splits)
    then show ?thesis using retain_owner True by auto
  qed auto
  then have "sv_ok owner (on_proc (learn_primary ?ctx dev) s1)" if "r1 = CUDA_SUCCESS"
    using s1 that by (intro sv_ok_proc) (auto simp: sv_ok_def intro: proc_owned_learn stamp_placed_learn)
  then show ?thesis
    using assms(2) True c s1 by (auto simp: w_cuDevicePrimaryCtxRetain_def guarded_def split: if_splits)
qed (use assms in \<open>auto simp: w_cuDevicePrimaryCtxRetain_def guarded_def\<close>)

lemma release_ok:
  assumes "sv_ok owner s" and "w_cuDevicePrimaryCtxRelease drv dev s = (r, s')" shows "sv_ok owner s'"
proof -
  obtain r1 outs s1 where c: "sv_call drv (PrimaryCtxRelease dev) s = ((r1, outs), s1)"
    by (cases "sv_call drv (PrimaryCtxRelease dev) s") auto
  note s1 = sv_call_ok [OF assms(1) c]
  obtain b s2 where w: "on_world (primary_inactive drv dev) (on_inv (note_primary_retain dev (-1)) s1) = (b, s2)"
    by (cases "on_world (primary_inactive drv dev) (on_inv (note_primary_retain dev (-1)) s1)")
  have "sv_ok owner s2" using w s1 by (auto simp: on_world_def split: prod.splits)
  then show ?thesis
    using assms c s1 w primary_ended_ok
    by (auto simp: w_cuDevicePrimaryCtxRelease_def guarded_def split: if_splits)
qed

lemma reset_ok:
  assumes "sv_ok owner s" and "w_cuDevicePrimaryCtxReset drv dev s = (r, s')" shows "sv_ok owner s'"
proof -
  obtain r1 outs s1 where c: "sv_call drv (PrimaryCtxReset dev) s = ((r1, outs), s1)"
    by (cases "sv_call drv (PrimaryCtxReset dev) s") auto
  show ?thesis
    using assms c sv_call_ok [OF assms(1) c] primary_ended_ok
    by (auto simp: w_cuDevicePrimaryCtxReset_def guarded_def split: if_splits)
qed

lemma create_ok:
  assumes "sv_ok owner s" and "w_cuCtxCreate drv depth want flags dev s = (r, s')" shows "sv_ok owner s'"
proof -
  obtain r1 outs s1 where c: "sv_call drv (CtxCreate want flags dev) s = ((r1, outs), s1)"
    by (cases "sv_call drv (CtxCreate want flags dev) s") auto
  note s1 = sv_call_ok [OF assms(1) c]
  obtain st s2 where t: "take_stamp drv s1 = (st, s2)" by (cases "take_stamp drv s1")
  have "sv_ok owner (on_inv (note_item Contexts (out0 outs) st) s2)"
    using take_stamp_ok [OF s1 t] take_stamp_spec [OF t] by (intro sv_ok_note) simp_all
  then show ?thesis
    using assms c s1 t on_threads_ok by (auto simp: w_cuCtxCreate_def guarded_def split: if_splits)
qed

lemma destroying_ok:
  assumes "sv_ok owner s" and "destroying drv c ctx s = (r, s')" shows "sv_ok owner s'"
proof -
  obtain r1 outs s1 where c: "sv_call drv c s = ((r1, outs), s1)" by (cases "sv_call drv c s") auto
  show ?thesis
    using assms c sv_call_ok [OF assms(1) c]
    by (auto simp: destroying_def guarded_def intro!: on_threads_ok split: if_splits)
qed

lemma begin_capture_ok:
  assumes "sv_ok owner s" and "w_cuStreamBeginCapture drv stream mode s = (r, s')" shows "sv_ok owner s'"
proof -
  obtain st s1 where p: "stamp_of drv Streams stream s = (st, s1)" by (cases "stamp_of drv Streams stream s")
  note p1 = stamp_of_spec [OF assms(1) p]
  obtain r1 outs s2 where c: "sv_call drv (StreamBeginCapture stream mode) s1 = ((r1, outs), s2)"
    by (cases "sv_call drv (StreamBeginCapture stream mode) s1") auto
  note s2 = sv_call_ok [OF p1(4) c] sv_call_frame [OF c]
  have "sv_ok owner (on_inv (\<lambda>iv. iv\<lparr> iv_captures := iv_captures iv @ [\<lparr> oc_stream = stream, oc_where = st \<rparr>] \<rparr>) s2)"
    using s2(1) by (rule sv_ok_on_inv) (use s2(2) p1 in \<open>auto simp: placed_def\<close>)
  then show ?thesis
    using assms p c s2 by (auto simp: w_cuStreamBeginCapture_def guarded_def split: if_splits)
qed

lemma end_capture_ok:
  assumes "sv_ok owner s" and "w_cuStreamEndCapture drv want stream s = (r, s')" shows "sv_ok owner s'"
proof -
  obtain st s1 where p: "stamp_of drv Streams stream s = (st, s1)" by (cases "stamp_of drv Streams stream s")
  note p1 = stamp_of_spec [OF assms(1) p]
  obtain r1 outs s2 where c: "sv_call drv (Make want (StreamEndCapture stream)) s1 = ((r1, outs), s2)"
    by (cases "sv_call drv (Make want (StreamEndCapture stream)) s1") auto
  note s2 = sv_call_ok [OF p1(4) c] sv_call_frame [OF c]
  let ?s3 = "on_inv (forget_capture stream (st_ctx st)) s2"
  have "stamp_placed (sv_proc ?s3) st" using p1 s2(2) by (simp add: on_inv_def)
  then have "sv_ok owner (on_inv (note_item Graphs (out0 outs) st) ?s3)" using s2(1) by (intro sv_ok_note) simp_all
  then show ?thesis
    using assms p c s2 by (auto simp: w_cuStreamEndCapture_def guarded_def Let_def split: if_splits)
qed

lemma stream_destroy_ok:
  assumes "sv_ok owner s" and "w_cuStreamDestroy drv stream s = (r, s')" shows "sv_ok owner s'"
proof -
  obtain r1 outs s1 where c: "sv_call drv (Give (StreamDestroy stream)) s = ((r1, outs), s1)"
    by (cases "sv_call drv (Give (StreamDestroy stream)) s") auto
  show ?thesis
    using assms c sv_call_ok [OF assms(1) c]
    by (auto simp: w_cuStreamDestroy_def guarded_def Let_def split: if_splits)
qed

lemma make_ok: "sv_ok owner s \<Longrightarrow> tracked_make drv want m s = (r, s') \<Longrightarrow> sv_ok owner s'"
  by (cases m) (auto simp: w_cuMemAlloc_def w_cuMemAllocPitch_def w_cuMemAllocAsync_def
      w_cuMemAllocFromPoolAsync_def w_cuModuleLoad_def w_cuModuleLoadData_def w_cuModuleLoadFatBinary_def
      w_cuLibraryLoadData_def w_cuLibraryLoadFromFile_def w_cuMemCreate_def w_cuStreamCreate_def
      w_cuStreamCreateWithPriority_def w_cuEventCreate_def w_cuGraphCreate_def w_cuGraphClone_def
      w_cuGraphInstantiateWithFlags_def w_cuMemAddressReserve_def guarded_def
      intro: creating_ok end_capture_ok dest: sv_call_ok split: prod.splits if_splits)

lemma give_ok: "sv_ok owner s \<Longrightarrow> tracked_give drv g s = (r, s') \<Longrightarrow> sv_ok owner s'"
  by (cases g) (auto simp: w_cuMemFree_def w_cuMemFreeAsync_def w_cuModuleUnload_def w_cuLibraryUnload_def
      w_cuMemAddressFree_def w_cuMemRelease_def w_cuMemUnmap_def w_cuEventDestroy_def w_cuGraphDestroy_def
      w_cuGraphExecDestroy_def guarded_def
      intro: releasing_ok stream_destroy_ok dest: sv_call_ok split: prod.splits if_splits)

lemma mem_map_ok: "sv_ok owner s \<Longrightarrow> w_cuMemMap drv p n off h f s = (r, s') \<Longrightarrow> sv_ok owner s'"
  by (auto simp: w_cuMemMap_def guarded_def dest: sv_call_ok split: prod.splits if_splits)

lemma wrapped_ok: "sv_ok owner s \<Longrightarrow> wrapped_call drv depth c s = (r, s') \<Longrightarrow> sv_ok owner s'"
  by (cases c) (auto simp: w_cuCtxDestroy_def w_cuCtxDetach_def
      intro: on_stack_ok create_ok destroying_ok retain_ok release_ok reset_ok mem_map_ok begin_capture_ok
        make_ok give_ok sv_call_ok)

lemma tracked_ok: "sv_ok owner s \<Longrightarrow> tracked_call drv depth c s = (r, s') \<Longrightarrow> sv_ok owner s'"
  by (auto simp: tracked_call_def intro: wrapped_ok sv_call_ok split: option.splits entry_point.splits)

lemma step_ok: "sv_step drv depth owner s s' \<Longrightarrow> sv_ok owner s \<Longrightarrow> sv_ok owner s'"
proof (induction rule: sv_step.induct)
  case (own_call c s r s') then show ?case by (blast intro: tracked_ok)
next
  case (lib_made s st s1 lh h w)
  note t = take_stamp_spec [OF lib_made(1)]
  have "sv_ok owner (s1\<lparr>sv_world := w\<rparr>)" using take_stamp_ok [OF lib_made(3,1)] by simp
  then show ?case
    using stamps_note_handle [of h lh] t lib_made(2)
    by (rule_tac sv_ok_on_inv) (auto simp: note_handle_wf placed_stamps)
next
  case (others_retain ctx dev s)
  then show ?case
    by (intro sv_ok_proc) (auto simp: sv_ok_def intro: proc_owned_learn stamp_placed_learn)
next
  case (others_end s dev) then show ?case by (rule_tac sv_ok_bump)
next
  case (others_come_and_go s n) then show ?case by (intro sv_ok_proc) (auto simp: sv_ok_def)
qed auto

lemma reachable_ok: "sv_reachable drv depth owner s \<Longrightarrow> sv_ok owner s"
proof (induction rule: sv_reachable.induct)
  case (start s)
  then show ?case by (simp add: sv_ok_def inv_ok_def placed_def no_inventory_def inv_wf_none [unfolded no_inventory_def])
qed (blast intro: step_ok)

end

interpretation fakep: primary_driver fake_driver "\<lambda>_. 0"
  by unfold_locales (auto simp: fake_driver_def fk_retain_def valid_device_def CUDA_ERROR_INVALID_DEVICE_def
      split: if_splits)

section \<open>A concrete session\<close>

text \<open>Under a created context, with one allocation in it and one module in none.\<close>

definition demo_inventory :: inventory where
  "demo_inventory = note_item Modules 5 no_stamp
     (note_item Allocs 4 \<lparr> st_ctx = 9, st_dev = -1, st_gen = 0 \<rparr> no_inventory)"

definition demo_sv :: "fake sv" where
  "demo_sv = \<lparr> sv_inv = Some demo_inventory, sv_proc = no_process, sv_threads = no_threads,
     sv_world = \<lparr> w_drv = fake_init\<lparr> fk_contexts := [(9, 0)], fk_stack := [9], fk_next := 3 \<rparr>, w_log = [] \<rparr> \<rparr>"

lemma demo_inventory_wf: "inv_wf demo_inventory"
  by (simp add: demo_inventory_def note_item_wf)

section \<open>Properties\<close>

text \<open>C35. Whatever calls a session makes, and whatever other sessions do to the process's
  primary contexts in between, its reverse index names for each context exactly the entries
  recorded under it, with no empty bucket left behind, and every entry that names a device was made
  in a primary context learned for that device.\<close>

theorem reachable_record_is_exact:
  assumes "primary_driver drv owner" and "sv_reachable drv depth owner s" and "sv_inv s = Some iv"
  shows "inv_wf iv \<and> placed (sv_proc s) iv"
  using primary_driver.reachable_ok [OF assms(1,2)] assms(3) by (simp add: sv_ok_def inv_ok_def)

theorem reachable_record_is_exact_witness:
  "\<exists>iv. sv_inv (snd (tracked_call fake_driver 64 (Make True (MemAlloc 16)) (demo_sv\<lparr> sv_inv := Some no_inventory \<rparr>))) = Some iv
     \<and> iv_items iv Allocs = [(3, \<lparr> st_ctx = 9, st_dev = -1, st_gen = 0 \<rparr>)] \<and> inv_wf iv"
proof -
  let ?s = "demo_sv\<lparr> sv_inv := Some no_inventory \<rparr>"
  obtain r s' where c: "tracked_call fake_driver 64 (Make True (MemAlloc 16)) ?s = (r, s')"
    by (cases "tracked_call fake_driver 64 (Make True (MemAlloc 16)) ?s")
  have "sv_reachable fake_driver 64 (\<lambda>_. 0) ?s"
    by (rule sv_reachable.start) (simp_all add: demo_sv_def no_process_def proc_owned_def proc_wf_def)
  then have reach: "sv_reachable fake_driver 64 (\<lambda>_. 0) s'"
    by (rule sv_reachable.step) (rule sv_step.own_call [OF c])
  have "map_option (\<lambda>iv. iv_items iv Allocs) (sv_inv (snd (tracked_call fake_driver 64 (Make True (MemAlloc 16)) ?s)))
      = Some [(3, \<lparr> st_ctx = 9, st_dev = -1, st_gen = 0 \<rparr>)]"
    by code_simp
  then obtain iv where iv: "sv_inv s' = Some iv" "iv_items iv Allocs = [(3, \<lparr> st_ctx = 9, st_dev = -1, st_gen = 0 \<rparr>)]"
    using c by auto
  show ?thesis
    using reachable_record_is_exact [OF fakep.primary_driver_axioms reach iv(1)] iv c by auto
qed

text \<open>Accounting for a destroyed context through the reverse index forgets exactly what
  a scan of every map for that context would: the context itself, every entry, handle and open
  capture recorded under it, and nothing else.\<close>

theorem teardown_is_a_scan:
  assumes "inv_wf iv" and "ctx \<noteq> 0"
  shows "iv_items (forget_context ctx iv) w =
      (if w = Contexts then AList.delete ctx (iv_items iv Contexts)
       else if ctx_slot w = None then iv_items iv w
       else filter (\<lambda>kv. st_ctx (snd kv) \<noteq> ctx) (iv_items iv w))
    \<and> iv_handles (forget_context ctx iv) = filter (\<lambda>kv. st_ctx (lh_made (snd kv)) \<noteq> ctx) (iv_handles iv)
    \<and> iv_captures (forget_context ctx iv) = filter (\<lambda>c. st_ctx (oc_where c) \<noteq> ctx) (iv_captures iv)
    \<and> inv_wf (forget_context ctx iv)"
proof -
  have "inv_wf (put_items Contexts (AList.delete ctx) iv)"
    using inv_wf_put_unindexed [OF assms(1), of Contexts "AList.delete ctx"] assms(1)
    by (simp add: inv_wf_def distinct_delete)
  note sc = forget_under_scan [OF this assms(2)]
  have "iv_captures (put_items Contexts (AList.delete ctx) iv) = iv_captures iv" by (simp add: put_items_def)
  then show ?thesis using sc inv_wf_forget_context [OF assms(1)] by (auto simp: forget_context_def)
qed

theorem teardown_is_a_scan_witness:
  "iv_items (forget_context 9 demo_inventory) Allocs = []
   \<and> iv_items (forget_context 9 demo_inventory) Modules = [(5, no_stamp)]"
  using teardown_is_a_scan [OF demo_inventory_wf, of 9 Allocs] teardown_is_a_scan [OF demo_inventory_wf, of 9 Modules]
  by (simp add: demo_inventory_def note_item_def no_inventory_def put_items_def index_add_def Let_def no_stamp_def)

text \<open>Forgetting what a device's primary context held before it was destroyed, through
  the handles learned for the device, forgets exactly the entries a scan of every map by device and
  generation would, and keeps what the current generation made.\<close>

theorem primary_teardown_is_a_scan:
  assumes "inv_wf iv" and "proc_wf p" and "placed p iv" and "dev \<noteq> -1"
  shows "iv_items (forget_primary p dev iv) w = (if ctx_slot w = None then iv_items iv w
        else filter (\<lambda>kv. \<not> (st_dev (snd kv) = dev \<and> st_gen (snd kv) \<noteq> generation p dev)) (iv_items iv w))
    \<and> iv_handles (forget_primary p dev iv) = filter (\<lambda>kv. \<not> (st_dev (lh_made (snd kv)) = dev
                        \<and> st_gen (lh_made (snd kv)) \<noteq> generation p dev)) (iv_handles iv)
    \<and> inv_wf (forget_primary p dev iv)"
  using forget_primary_scan [OF assms] by blast

theorem primary_teardown_is_a_scan_witness:
  "iv_items (forget_primary \<lparr> p_live_sessions = 1, p_primary_dev = [(7, 0)], p_primary_gen = [(0, 1)] \<rparr> 0
     (note_item Allocs 4 \<lparr> st_ctx = 7, st_dev = 0, st_gen = 0 \<rparr> no_inventory)) Allocs = []"
proof -
  let ?p = "\<lparr> p_live_sessions = 1, p_primary_dev = [(7, 0)], p_primary_gen = [(0, 1)] \<rparr>"
  let ?iv = "note_item Allocs 4 \<lparr> st_ctx = 7, st_dev = 0, st_gen = 0 \<rparr> no_inventory"
  have wf: "inv_wf ?iv" by (simp add: note_item_wf)
  have items: "iv_items ?iv w = (if w = Allocs then [(4, \<lparr> st_ctx = 7, st_dev = 0, st_gen = 0 \<rparr>)] else [])"
    "iv_handles ?iv = []" "iv_captures ?iv = []" for w
    by (simp_all add: note_item_def no_inventory_def put_items_def index_add_def Let_def)
  have p: "proc_wf ?p" "placed ?p ?iv" by (simp_all add: proc_wf_def placed_def items stamp_placed_def)
  show ?thesis using primary_teardown_is_a_scan [OF wf p, of 0 Allocs] by (simp add: items generation_def)
qed

text \<open>What a call that makes something is recorded as.\<close>

fun recorded_as :: "maker \<Rightarrow> which + sized_map" where
  "recorded_as (MemAlloc n) = Inl Allocs"
| "recorded_as (MemAllocPitch p a b c) = Inl Allocs"
| "recorded_as (MemAllocAsync n st) = Inl Allocs"
| "recorded_as (MemAllocFromPoolAsync n p st) = Inl Allocs"
| "recorded_as (ModuleLoad b) = Inl Modules"
| "recorded_as (ModuleLoadData b) = Inl Modules"
| "recorded_as (ModuleLoadFatBinary b) = Inl Modules"
| "recorded_as (LibraryLoadData b j l) = Inl Libraries"
| "recorded_as (LibraryLoadFromFile b) = Inl Libraries"
| "recorded_as (MemAddressReserve n a p f) = Inr VmmRanges"
| "recorded_as (MemCreate n p f) = Inl VmmHandles"
| "recorded_as (StreamCreate f) = Inl Streams"
| "recorded_as (StreamCreateWithPriority f p) = Inl Streams"
| "recorded_as (EventCreate f) = Inl Events"
| "recorded_as (GraphCreate f) = Inl Graphs"
| "recorded_as (StreamEndCapture st) = Inl Graphs"
| "recorded_as (GraphInstantiateWithFlags g f) = Inl GraphExecs"
| "recorded_as (GraphClone g) = Inl Graphs"

definition held :: "inventory \<Rightarrow> which + sized_map \<Rightarrow> u64 \<Rightarrow> bool" where
  "held iv k h = (case k of Inl w \<Rightarrow> map_of (iv_items iv w) h \<noteq> None
     | Inr m \<Rightarrow> map_of (iv_sized iv m) h \<noteq> None)"

lemma note_item_held: "h \<noteq> 0 \<Longrightarrow> held (note_item w h st iv) (Inl w) h"
  by (simp add: held_def note_item_def Let_def index_frame update_conv')

lemma creating_held:
  assumes "creating drv pl w True m s = ((CUDA_SUCCESS, outs), s')" and "out0 outs \<noteq> 0" and "sv_inv s' = Some iv"
    and "d_has drv (maker_sym m)"
  shows "held iv (Inl w) (out0 outs)"
proof -
  obtain st s1 where p: "place drv pl s = (st, s1)" by (cases "place drv pl s")
  obtain r2 outs2 s2 where c: "sv_call drv (Make True m) s1 = ((r2, outs2), s2)"
    by (cases "sv_call drv (Make True m) s1") auto
  have "s' = on_inv (note_item w (out0 outs) st) s2" using assms(1,4) p c by (auto simp: creating_def guarded_def)
  then show ?thesis using assms(2,3) note_item_held by (auto simp: on_inv_def)
qed

lemma end_capture_held:
  assumes "w_cuStreamEndCapture drv True stream s = ((CUDA_SUCCESS, outs), s')" and "out0 outs \<noteq> 0"
    and "sv_inv s' = Some iv" and "d_has drv ''cuStreamEndCapture''"
  shows "held iv (Inl Graphs) (out0 outs)"
proof -
  obtain st s1 where p: "stamp_of drv Streams stream s = (st, s1)" by (cases "stamp_of drv Streams stream s")
  obtain r2 outs2 s2 where c: "sv_call drv (Make True (StreamEndCapture stream)) s1 = ((r2, outs2), s2)"
    by (cases "sv_call drv (Make True (StreamEndCapture stream)) s1") auto
  have "s' = on_inv (note_item Graphs (out0 outs) st) (on_inv (forget_capture stream (st_ctx st)) s2)"
    using assms(1,4) p c by (auto simp: w_cuStreamEndCapture_def guarded_def Let_def)
  then show ?thesis using assms(2,3) note_item_held by (auto simp: on_inv_def)
qed

lemma reserve_held:
  assumes "w_cuMemAddressReserve drv True n a p f s = ((CUDA_SUCCESS, outs), s')" and "out0 outs \<noteq> 0"
    and "sv_inv s' = Some iv" and "d_has drv ''cuMemAddressReserve''"
  shows "held iv (Inr VmmRanges) (out0 outs)"
  using assms by (auto simp: w_cuMemAddressReserve_def guarded_def held_def on_inv_def note_sized_def update_conv'
        split: prod.splits if_splits)

lemma maker_wrapped: "driver_wrapper (maker_sym m) = Some (Tracked (maker_sym m))"
  by (cases m) (simp_all add: driver_wrapper_def kWrappers_def kWrappedCalls_def)

text \<open>Every call of the dispatch that hands a resource out goes through a wrapper, and
  when it succeeds with a handle the session's inventory lists that handle afterwards.\<close>

theorem handed_out_is_recorded:
  assumes "tracked_call drv depth (Make True m) s = ((CUDA_SUCCESS, outs), s')"
    and "out0 outs \<noteq> 0" and "sv_inv s' = Some iv"
  shows "held iv (recorded_as m) (out0 outs)"
proof -
  have has: "d_has drv (maker_sym m)"
    using assms(1) by (auto simp: tracked_call_def driver_sym_def split: if_splits)
  then have "tracked_make drv True m s = ((CUDA_SUCCESS, outs), s')"
    using assms(1) by (simp add: tracked_call_def driver_sym_def maker_wrapped)
  then show ?thesis
    using assms(2,3) has
    by (cases m) (auto simp: w_cuMemAlloc_def w_cuMemAllocPitch_def w_cuMemAllocAsync_def
      w_cuMemAllocFromPoolAsync_def w_cuModuleLoad_def w_cuModuleLoadData_def w_cuModuleLoadFatBinary_def
      w_cuLibraryLoadData_def w_cuLibraryLoadFromFile_def w_cuMemCreate_def w_cuStreamCreate_def
      w_cuStreamCreateWithPriority_def w_cuEventCreate_def w_cuGraphCreate_def w_cuGraphClone_def
      w_cuGraphInstantiateWithFlags_def intro: creating_held end_capture_held reserve_held)
qed

theorem handed_out_is_recorded_witness:
  "\<exists>outs s' iv. tracked_call fake_driver 64 (Make True (GraphClone 8)) demo_sv = ((CUDA_SUCCESS, outs), s')
     \<and> sv_inv s' = Some iv \<and> held iv (Inl Graphs) 3"
proof -
  obtain r outs s' where c: "tracked_call fake_driver 64 (Make True (GraphClone 8)) demo_sv = ((r, outs), s')"
    by (cases "tracked_call fake_driver 64 (Make True (GraphClone 8)) demo_sv") auto
  have "fst (tracked_call fake_driver 64 (Make True (GraphClone 8)) demo_sv) = (CUDA_SUCCESS, [3])" by code_simp
  then have r: "r = CUDA_SUCCESS" "outs = [3]" using c by simp_all
  have "sv_inv (snd (tracked_call fake_driver 64 (Make True (GraphClone 8)) demo_sv)) \<noteq> None" by code_simp
  then obtain iv where iv: "sv_inv s' = Some iv" using c by auto
  have "out0 outs = 3" using r by (simp add: out0_def)
  then show ?thesis
    using handed_out_is_recorded [OF c [unfolded r(1)] _ iv] c iv r by auto
qed

text \<open>While more than one session is served, a device reset is refused: the driver is not
  called and nothing changes.\<close>

theorem reset_refused_among_sessions:
  assumes "p_live_sessions (sv_proc s) > 1" and "tracked_call drv depth (PrimaryCtxReset dev) s = (r, s')"
  shows "r = (CUDA_ERROR_NOT_SUPPORTED, []) \<and> s' = s"
  using assms
  by (auto simp: tracked_call_def driver_sym_def driver_wrapper_def kWrappers_def kWrappedCalls_def
      w_cuDevicePrimaryCtxReset_def guarded_def split: if_splits)

theorem reset_refused_among_sessions_witness:
  "tracked_call fake_driver 64 (PrimaryCtxReset 0) (inventory_bind (Some no_inventory)
      (demo_sv\<lparr> sv_inv := None, sv_proc := no_process\<lparr> p_live_sessions := 1 \<rparr> \<rparr>))
   = ((CUDA_ERROR_NOT_SUPPORTED, []), inventory_bind (Some no_inventory)
      (demo_sv\<lparr> sv_inv := None, sv_proc := no_process\<lparr> p_live_sessions := 1 \<rparr> \<rparr>))"
proof -
  let ?s = "inventory_bind (Some no_inventory) (demo_sv\<lparr> sv_inv := None, sv_proc := no_process\<lparr> p_live_sessions := 1 \<rparr> \<rparr>)"
  obtain r s' where c: "tracked_call fake_driver 64 (PrimaryCtxReset 0) ?s = (r, s')"
    by (cases "tracked_call fake_driver 64 (PrimaryCtxReset 0) ?s")
  have "p_live_sessions (sv_proc ?s) > 1" by (simp add: inventory_bind_def demo_sv_def no_process_def Let_def)
  from reset_refused_among_sessions [OF this c] show ?thesis using c by simp
qed

text \<open>A release that the driver reports to have been the last starts a new generation
  of that device's primary context and of no other, after which no entry any session made on the
  device in the old generation counts as current, and this session lists none from any earlier one.\<close>

theorem last_release_ends_generation:
  assumes "primary_driver drv owner" and "sv_ok owner s" and "0 \<le> dev"
    and "d_has drv ''cuDevicePrimaryCtxRelease_v2''"
    and "sv_call drv (PrimaryCtxRelease dev) s = ((CUDA_SUCCESS, outs), s1)"
    and "primary_inactive drv dev (sv_world s1) = (True, w2)"
    and "w_cuDevicePrimaryCtxRelease drv dev s = (r, s')"
  shows "generation (sv_proc s') dev = generation (sv_proc s) dev + 1
    \<and> (\<forall>d. d \<noteq> dev \<longrightarrow> generation (sv_proc s') d = generation (sv_proc s) d)
    \<and> \<not> still_current (sv_proc s') dev (generation (sv_proc s) dev)
    \<and> (\<forall>iv w kv. sv_inv s' = Some iv \<longrightarrow> ctx_slot w \<noteq> None \<longrightarrow> kv \<in> set (iv_items iv w) \<longrightarrow>
         st_dev (snd kv) = dev \<longrightarrow> st_gen (snd kv) = generation (sv_proc s') dev)"
proof -
  let ?s2 = "(on_inv (note_primary_retain dev (-1)) s1)\<lparr>sv_world := w2\<rparr>"
  have fr: "sv_proc s1 = sv_proc s" using sv_call_frame [OF assms(5)] by simp
  have s': "s' = primary_ended dev ?s2"
    using assms(4-7) by (simp add: w_cuDevicePrimaryCtxRelease_def guarded_def on_world_def on_inv_def)
  have ok2: "sv_ok owner ?s2" using sv_call_ok [OF assms(2,5)] by simp
  let ?p = "bump_generation dev (sv_proc s)"
  have p': "sv_proc s' = ?p" using fr by (simp add: s' primary_ended_def on_proc_def on_inv_def Let_def)
  have g: "generation ?p d = (if d = dev then generation (sv_proc s) dev + 1 else generation (sv_proc s) d)" for d
    by (simp add: generation_def bump_generation_def update_conv')
  have "st_gen (snd kv) = generation ?p dev"
    if iv: "sv_inv s' = Some iv" "ctx_slot w \<noteq> None" "kv \<in> set (iv_items iv w)" "st_dev (snd kv) = dev" for iv w kv
  proof -
    obtain iv2 where iv2: "sv_inv ?s2 = Some iv2" "iv = forget_primary ?p dev iv2"
      using iv(1) fr by (auto simp: s' primary_ended_def on_proc_def on_inv_def Let_def)
    have "inv_wf iv2" "placed (sv_proc ?s2) iv2" "proc_wf (sv_proc ?s2)"
      using ok2 iv2(1) by (auto simp: sv_ok_def inv_ok_def proc_owned_def)
    then have "inv_wf iv2" "proc_wf ?p" "placed ?p iv2"
      using fr by (simp_all add: on_inv_def placed_stamps)
    note sc = forget_primary_scan(2) [OF this, of dev w]
    show ?thesis using iv iv2(2) sc assms(3) by (auto split: if_splits)
  qed
  moreover have "\<not> dev < 0" using assms(3) by simp
  ultimately show ?thesis by (simp add: p' g still_current_def)
qed

theorem last_release_ends_generation_witness:
  "generation (sv_proc (snd (w_cuDevicePrimaryCtxRelease fake_driver 0
      (demo_sv\<lparr> sv_world := \<lparr> w_drv = fake_init\<lparr> fk_retains := [(0, 1)] \<rparr>, w_log = [] \<rparr> \<rparr>)))) 0 = 1"
proof -
  let ?s = "demo_sv\<lparr> sv_world := \<lparr> w_drv = fake_init\<lparr> fk_retains := [(0, 1)] \<rparr>, w_log = [] \<rparr> \<rparr>"
  have ok: "sv_ok (\<lambda>_. 0) ?s"
    using demo_inventory_wf
    by (simp add: sv_ok_def demo_sv_def inv_ok_def proc_owned_def proc_wf_def no_process_def placed_def)
      (simp add: demo_inventory_def note_item_def no_inventory_def put_items_def index_add_def Let_def
        stamp_placed_def no_stamp_def)
  obtain r1 outs s1 where c: "sv_call fake_driver (PrimaryCtxRelease 0) ?s = ((r1, outs), s1)"
    by (cases "sv_call fake_driver (PrimaryCtxRelease 0) ?s") auto
  have "fst (fst (sv_call fake_driver (PrimaryCtxRelease 0) ?s)) = CUDA_SUCCESS" by code_simp
  then have r1: "r1 = CUDA_SUCCESS" using c by simp
  obtain b w2 where i: "primary_inactive fake_driver 0 (sv_world s1) = (b, w2)"
    by (cases "primary_inactive fake_driver 0 (sv_world s1)")
  have "fst (primary_inactive fake_driver 0 (sv_world (snd (sv_call fake_driver (PrimaryCtxRelease 0) ?s))))" by code_simp
  then have b: "b = True" using c i by simp
  obtain r s' where w: "w_cuDevicePrimaryCtxRelease fake_driver 0 ?s = (r, s')"
    by (cases "w_cuDevicePrimaryCtxRelease fake_driver 0 ?s")
  have "generation (sv_proc ?s) 0 = 0" by (simp add: demo_sv_def no_process_def generation_def)
  then show ?thesis
    using last_release_ends_generation [OF fakep.primary_driver_axioms ok _ _ c [unfolded r1] i [unfolded b] w] w
    by (simp add: fake_driver_def)
qed

end
