(* ===== verification/Release.thy ===== *)
theory Release
  imports Recording
begin

text \<open>
  Giving back what a session still holds when it expires: the releasing half of
  \<^verbatim>\<open>server/inventory.cpp\<close>. Everything is taken out of the inventory first; captures are ended, the
  contexts synchronised, and then each class of resource released in the code's order. A map is
  released in its iteration order, the order of its association list. Each call is the driver's
  own entry point, unsupported where the driver lacks it.
\<close>

section \<open>The pieces\<close>

text \<open>The running state: the driver, the process's tables, which context the class \<open>Current\<close> knows to be
  current, and the counts of failures and of entries skipped.\<close>

record 'd releasing_state =
  rl_world :: "'d world"
  rl_proc :: process
  rl_cur :: "u64 option"
  rl_failed :: nat
  rl_skipped :: nat

definition use_context :: "'d driver \<Rightarrow> u64 \<Rightarrow> 'd releasing_state \<Rightarrow> 'd releasing_state" where
  "use_context drv ctx s = (if rl_cur s = Some ctx then s
     else s\<lparr> rl_world := snd (real_call drv (CtxSetCurrent ctx) (rl_world s)), rl_cur := Some ctx \<rparr>)"

type_synonym 'd action = "'d world \<Rightarrow> (CUresult \<times> u64 list) \<times> 'd world"

text \<open>Runs a release where the entry was made, unless its generation has ended.\<close>

definition unless_destroyed ::
    "'d driver \<Rightarrow> stamp \<Rightarrow> 'd action \<Rightarrow> 'd releasing_state \<Rightarrow> (CUresult \<times> u64 list) option \<times> 'd releasing_state" where
  "unless_destroyed drv st act s =
     (if st_gen st = kEndedGeneration then (None, s)
      else if \<not> st_dev st < 0 \<and> \<not> still_current (rl_proc s) (st_dev st) (st_gen st) then (None, s)
      else let s1 = use_context drv (st_ctx st) s in
        case act (rl_world s1) of (r, w) \<Rightarrow> (Some r, s1\<lparr> rl_world := w \<rparr>))"

definition count_failed :: "'d releasing_state \<Rightarrow> 'd releasing_state" where
  "count_failed s = s\<lparr> rl_failed := rl_failed s + 1 \<rparr>"

definition count_skipped :: "'d releasing_state \<Rightarrow> 'd releasing_state" where
  "count_skipped s = s\<lparr> rl_skipped := rl_skipped s + 1 \<rparr>"

text \<open>The loop over the entries of one map. \<open>act\<close> is the destroy of an entry, \<open>made\<close> its stamp.\<close>

fun release_each ::
    "'d driver \<Rightarrow> ('e \<Rightarrow> stamp) \<Rightarrow> ('e \<Rightarrow> 'd action) \<Rightarrow> 'e list \<Rightarrow> 'd releasing_state \<Rightarrow> nat \<times> 'd releasing_state" where
  "release_each drv made act [] s = (0, s)"
| "release_each drv made act (e # es) s =
     (case unless_destroyed drv (made e) (act e) s of
        (None, s1) \<Rightarrow> release_each drv made act es (count_skipped s1)
      | (Some (r, outs), s1) \<Rightarrow>
          (if r = CUDA_SUCCESS
           then (case release_each drv made act es s1 of (n, s2) \<Rightarrow> (n + 1, s2))
           else release_each drv made act es (count_failed s1)))"

definition release_items ::
    "'d driver \<Rightarrow> (u64 \<Rightarrow> giver) \<Rightarrow> items \<Rightarrow> 'd releasing_state \<Rightarrow> nat \<times> 'd releasing_state" where
  "release_items drv give = release_each drv snd (\<lambda>e. real_call drv (Give (give (fst e))))"

definition destroy_handle :: "'d driver \<Rightarrow> u64 \<times> lib_handle \<Rightarrow> 'd action" where
  "destroy_handle drv e w = (case lh_destroy (snd e) of
       None \<Rightarrow> ((CUDA_ERROR_NOT_SUPPORTED, []), w)
     | Some f \<Rightarrow> dcall drv (Give (LibHandleDestroy f (fst e))) w)"

definition release_handles ::
    "'d driver \<Rightarrow> (u64 \<times> lib_handle) list \<Rightarrow> 'd releasing_state \<Rightarrow> nat \<times> 'd releasing_state" where
  "release_handles drv = release_each drv (\<lambda>e. lh_made (snd e)) (destroy_handle drv)"

text \<open>Contexts, which are destroyed by handle, and the sized maps, which no generation check skips.\<close>

fun release_plain :: "'d driver \<Rightarrow> ('e \<Rightarrow> drv_call) \<Rightarrow> 'e list \<Rightarrow> 'd releasing_state \<Rightarrow> nat \<times> 'd releasing_state" where
  "release_plain drv call [] s = (0, s)"
| "release_plain drv call (e # es) s =
     (case real_call drv (call e) (rl_world s) of ((r, outs), w) \<Rightarrow>
        let s1 = s\<lparr> rl_world := w \<rparr> in
        if r = CUDA_SUCCESS then (case release_plain drv call es s1 of (n, s2) \<Rightarrow> (n + 1, s2))
        else release_plain drv call es (count_failed s1))"

definition release_detached :: "'d driver \<Rightarrow> items \<Rightarrow> 'd releasing_state \<Rightarrow> nat \<times> 'd releasing_state" where
  "release_detached drv = release_plain drv (\<lambda>e. CtxDestroy (fst e))"

definition release_sized ::
    "'d driver \<Rightarrow> (u64 \<Rightarrow> u64 \<Rightarrow> giver) \<Rightarrow> (u64 \<times> u64) list \<Rightarrow> 'd releasing_state \<Rightarrow> nat \<times> 'd releasing_state" where
  "release_sized drv give = release_plain drv (\<lambda>e. Give (give (fst e) (snd e)))"

text \<open>The captures left open: each is ended where its stream is, and its graph joins the others.\<close>

fun end_captures ::
    "'d driver \<Rightarrow> open_capture list \<Rightarrow> items \<Rightarrow> 'd releasing_state \<Rightarrow> (nat \<times> items) \<times> 'd releasing_state" where
  "end_captures drv [] graphs s = ((0, graphs), s)"
| "end_captures drv (c # cs) graphs s =
     (case unless_destroyed drv (oc_where c) (real_call drv (Make True (StreamEndCapture (oc_stream c)))) s of
        (None, s1) \<Rightarrow> end_captures drv cs graphs (count_skipped s1)
      | (Some (r, outs), s1) \<Rightarrow>
          (if r \<noteq> CUDA_SUCCESS then end_captures drv cs graphs (count_failed s1)
           else let graph = out0 outs;
                    graphs' = (if graph = 0 then graphs else AList.update graph (oc_where c) graphs) in
             case end_captures drv cs graphs' s1 of ((n, gs), s2) \<Rightarrow> ((n + 1, gs), s2)))"

text \<open>Each context with something to wait for is synchronised once.\<close>

fun sync_contexts :: "'d driver \<Rightarrow> u64 list \<Rightarrow> stamp list \<Rightarrow> 'd releasing_state \<Rightarrow> 'd releasing_state" where
  "sync_contexts drv seen [] s = s"
| "sync_contexts drv seen (st # sts) s =
     (if st_ctx st = 0 then sync_contexts drv seen sts s
      else if \<not> still_current (rl_proc s) (st_dev st) (st_gen st) then sync_contexts drv seen sts s
      else if st_ctx st \<in> set seen then sync_contexts drv seen sts s
      else let s1 = use_context drv (st_ctx st) s in
        sync_contexts drv (seen @ [st_ctx st]) sts
          (s1\<lparr> rl_world := snd (real_call drv CtxSynchronize (rl_world s1)) \<rparr>))"

text \<open>The retains still held on one device, released until one fails.\<close>

fun release_retain :: "'d driver \<Rightarrow> int \<Rightarrow> nat \<Rightarrow> 'd releasing_state \<Rightarrow> nat \<times> 'd releasing_state" where
  "release_retain drv dev 0 s = (0, s)"
| "release_retain drv dev (Suc n) s =
     (case real_call drv (PrimaryCtxRelease dev) (rl_world s) of ((r, outs), w) \<Rightarrow>
        if r \<noteq> CUDA_SUCCESS then (0, count_failed (s\<lparr> rl_world := w \<rparr>))
        else case primary_inactive drv dev w of (inactive, w1) \<Rightarrow>
          (let s1 = s\<lparr> rl_world := w1,
                      rl_proc := (if inactive then bump_generation dev (rl_proc s) else rl_proc s) \<rparr> in
           case release_retain drv dev n s1 of (k, s2) \<Rightarrow> (k + 1, s2)))"

fun release_retains :: "'d driver \<Rightarrow> (int \<times> int) list \<Rightarrow> 'd releasing_state \<Rightarrow> nat \<times> 'd releasing_state" where
  "release_retains drv [] s = (0, s)"
| "release_retains drv ((dev, n) # rs) s =
     (case release_retain drv dev (nat n) s of (k, s1) \<Rightarrow>
      case release_retains drv rs s1 of (k', s2) \<Rightarrow> (k + k', s2))"

section \<open>The release of a session\<close>

record report =
  rp_captures :: nat
  rp_handles :: nat
  rp_libraries :: nat
  rp_unmapped :: nat
  rp_vmm_handles :: nat
  rp_ranges :: nat
  rp_execs :: nat
  rp_graphs :: nat
  rp_events :: nat
  rp_streams :: nat
  rp_modules :: nat
  rp_allocs :: nat
  rp_contexts :: nat
  rp_retains :: nat
  rp_skipped :: nat
  rp_failed :: nat

text \<open>What is done inside contexts: the captures, the synchronisation, and the releases in order.\<close>

definition release_resources ::
    "'d driver \<Rightarrow> inventory \<Rightarrow> 'd releasing_state \<Rightarrow> report \<times> 'd releasing_state" where
  "release_resources drv iv s =
    (case end_captures drv (iv_captures iv) (iv_items iv Graphs) s of ((ncap, graphs), s1) \<Rightarrow>
     let s2 = sync_contexts drv [] (map snd (iv_items iv Allocs @ iv_items iv Modules @ iv_items iv Streams
                @ iv_items iv Events @ graphs @ iv_items iv GraphExecs)) s1 in
     case release_handles drv (iv_handles iv) s2 of (nh, s3) \<Rightarrow>
     case release_items drv LibraryUnload (iv_items iv Libraries) s3 of (nl, s4) \<Rightarrow>
     case release_sized drv MemUnmap (iv_sized iv VmmMaps) s4 of (nu, s5) \<Rightarrow>
     case release_items drv MemRelease (iv_items iv VmmHandles) s5 of (nv, s6) \<Rightarrow>
     case release_sized drv MemAddressFree (iv_sized iv VmmRanges) s6 of (nr, s7) \<Rightarrow>
     case release_items drv GraphExecDestroy (iv_items iv GraphExecs) s7 of (nx, s8) \<Rightarrow>
     case release_items drv GraphDestroy graphs s8 of (ng, s9) \<Rightarrow>
     case release_items drv EventDestroy (iv_items iv Events) s9 of (ne, s10) \<Rightarrow>
     case release_items drv StreamDestroy (iv_items iv Streams) s10 of (ns, s11) \<Rightarrow>
     case release_items drv ModuleUnload (iv_items iv Modules) s11 of (nm, s12) \<Rightarrow>
     case release_items drv MemFree (iv_items iv Allocs) s12 of (na, s13) \<Rightarrow>
     (\<lparr> rp_captures = ncap, rp_handles = nh, rp_libraries = nl, rp_unmapped = nu, rp_vmm_handles = nv,
        rp_ranges = nr, rp_execs = nx, rp_graphs = ng, rp_events = ne, rp_streams = ns, rp_modules = nm,
        rp_allocs = na, rp_contexts = 0, rp_retains = 0, rp_skipped = 0, rp_failed = 0 \<rparr>, s13))"

text \<open>The whole: everything taken out, released, then the contexts with none current, and the shared
  primary contexts' retains last of all.\<close>

definition release_inventory ::
    "'d driver \<Rightarrow> inventory \<Rightarrow> process \<times> 'd world \<Rightarrow> (inventory \<times> report) \<times> (process \<times> 'd world)" where
  "release_inventory drv iv pw =
    (case release_resources drv iv \<lparr> rl_world = snd pw, rl_proc = fst pw, rl_cur = None, rl_failed = 0, rl_skipped = 0 \<rparr>
     of (rp, s1) \<Rightarrow>
     case release_detached drv (iv_items iv Contexts) (use_context drv 0 s1) of (nc, s2) \<Rightarrow>
     case release_retains drv (iv_retains iv) s2 of (nr, s3) \<Rightarrow>
     ((iv\<lparr> iv_items := (\<lambda>_. []), iv_sized := (\<lambda>_. []), iv_captures := [], iv_handles := [],
          iv_by_ctx := (\<lambda>_. None), iv_retains := [] \<rparr>,
       rp\<lparr> rp_contexts := nc, rp_retains := nr, rp_skipped := rl_skipped s3, rp_failed := rl_failed s3 \<rparr>),
      (rl_proc s3, rl_world s3)))"

section \<open>What reaches the driver\<close>

definition alive :: "process \<Rightarrow> stamp \<Rightarrow> bool" where
  "alive p st \<longleftrightarrow> still_current p (st_dev st) (st_gen st)"

text \<open>The calls that give something back, in the order they were made.\<close>

definition gives :: "drv_call list \<Rightarrow> drv_call list" where
  "gives cs = filter (\<lambda>c. case c of Give _ \<Rightarrow> True | CtxDestroy _ \<Rightarrow> True | PrimaryCtxRelease _ \<Rightarrow> True
                        | _ \<Rightarrow> False) cs"

definition given :: "'d releasing_state \<Rightarrow> drv_call list" where
  "given s = gives (w_log (rl_world s))"

lemma gives_append [simp]: "gives (a @ b) = gives a @ gives b"
  by (simp add: gives_def)

lemma gives_one [simp]:
  "gives [Give g] = [Give g]" "gives [CtxDestroy c] = [CtxDestroy c]" "gives [PrimaryCtxRelease d] = [PrimaryCtxRelease d]"
  "gives [CtxSetCurrent c] = []" "gives [CtxSynchronize] = []" "gives [Make want m] = []"
  "gives [PrimaryCtxGetState d] = []"
  by (simp_all add: gives_def)

lemma counts_simps [simp]:
  "given (count_failed s) = given s" "given (count_skipped s) = given s"
  "rl_proc (count_failed s) = rl_proc s" "rl_proc (count_skipped s) = rl_proc s"
  "rl_failed (count_failed s) = Suc (rl_failed s)" "rl_skipped (count_failed s) = rl_skipped s"
  "rl_failed (count_skipped s) = rl_failed s" "rl_skipped (count_skipped s) = Suc (rl_skipped s)"
  by (simp_all add: count_failed_def count_skipped_def given_def)

lemma dcall_log: "dcall drv c w = (r, w') \<Longrightarrow> w_log w' = w_log w @ [c]"
  by (auto simp: dcall_def split: prod.splits)

definition handle_calls :: "u64 \<times> lib_handle \<Rightarrow> drv_call list" where
  "handle_calls e = (case lh_destroy (snd e) of None \<Rightarrow> [] | Some f \<Rightarrow> [Give (LibHandleDestroy f (fst e))])"

text \<open>What is owed to the driver before the contexts themselves, in order: every entry still current,
  once. \<open>graphs\<close> are the session's graphs and those of the captures just ended.\<close>

definition owed_items :: "process \<Rightarrow> (u64 \<Rightarrow> giver) \<Rightarrow> items \<Rightarrow> drv_call list" where
  "owed_items p give xs = map (\<lambda>e. Give (give (fst e))) (filter (\<lambda>e. alive p (snd e)) xs)"

definition owed :: "process \<Rightarrow> inventory \<Rightarrow> items \<Rightarrow> drv_call list" where
  "owed p iv graphs =
     concat (map handle_calls (filter (\<lambda>e. alive p (lh_made (snd e))) (iv_handles iv)))
     @ owed_items p LibraryUnload (iv_items iv Libraries)
     @ map (\<lambda>e. Give (MemUnmap (fst e) (snd e))) (iv_sized iv VmmMaps)
     @ owed_items p MemRelease (iv_items iv VmmHandles)
     @ map (\<lambda>e. Give (MemAddressFree (fst e) (snd e))) (iv_sized iv VmmRanges)
     @ owed_items p GraphExecDestroy (iv_items iv GraphExecs)
     @ owed_items p GraphDestroy graphs
     @ owed_items p EventDestroy (iv_items iv Events)
     @ owed_items p StreamDestroy (iv_items iv Streams)
     @ owed_items p ModuleUnload (iv_items iv Modules)
     @ owed_items p MemFree (iv_items iv Allocs)"

definition report_total :: "report \<Rightarrow> nat" where
  "report_total rp = rp_captures rp + rp_handles rp + rp_libraries rp + rp_unmapped rp + rp_vmm_handles rp
     + rp_ranges rp + rp_execs rp + rp_graphs rp + rp_events rp + rp_streams rp + rp_modules rp + rp_allocs rp"

definition entry_count :: "inventory \<Rightarrow> items \<Rightarrow> nat" where
  "entry_count iv graphs = length (iv_captures iv) + length (iv_handles iv) + length (iv_items iv Libraries)
     + length (iv_sized iv VmmMaps) + length (iv_items iv VmmHandles) + length (iv_sized iv VmmRanges)
     + length (iv_items iv GraphExecs) + length graphs + length (iv_items iv Events)
     + length (iv_items iv Streams) + length (iv_items iv Modules) + length (iv_items iv Allocs)"

text \<open>The installed driver has every entry point the release uses.\<close>

locale full_driver =
  fixes drv :: "'d driver"
  assumes has_all: "d_has drv name"
begin

lemma real_is_dcall [simp]: "real_call drv c w = dcall drv c w"
  by (simp add: real_call_def has_all)

lemma use_context_spec:
  "given (use_context drv ctx s) = given s" "rl_proc (use_context drv ctx s) = rl_proc s"
  "rl_failed (use_context drv ctx s) = rl_failed s" "rl_skipped (use_context drv ctx s) = rl_skipped s"
  by (auto simp: use_context_def given_def dcall_log [OF surjective_pairing])

lemma unless_destroyed_spec:
  assumes "unless_destroyed drv st act s = (r, s')"
    and "\<And>w. gives (w_log (snd (act w))) = gives (w_log w) @ calls"
  shows "(r = None) = (\<not> alive (rl_proc s) st)" "given s' = given s @ (if alive (rl_proc s) st then calls else [])"
    "rl_proc s' = rl_proc s" "rl_failed s' = rl_failed s" "rl_skipped s' = rl_skipped s"
proof -
  define s1 where "s1 = use_context drv (st_ctx st) s"
  obtain r1 w1 where a: "act (rl_world s1) = (r1, w1)" by (cases "act (rl_world s1)")
  have w1: "gives (w_log w1) = given s @ calls"
    using assms(2) [of "rl_world s1"] a use_context_spec(1) [of "st_ctx st" s] by (simp add: given_def s1_def)
  have "unless_destroyed drv st act s = (if alive (rl_proc s) st then (Some r1, s1\<lparr>rl_world := w1\<rparr>) else (None, s))"
    using a by (auto simp: unless_destroyed_def alive_def still_current_def s1_def Let_def)
  then show "(r = None) = (\<not> alive (rl_proc s) st)" "given s' = given s @ (if alive (rl_proc s) st then calls else [])"
    "rl_proc s' = rl_proc s" "rl_failed s' = rl_failed s" "rl_skipped s' = rl_skipped s"
    using assms(1) w1 use_context_spec [of "st_ctx st" s] by (auto simp: given_def s1_def split: if_splits)
qed

lemma release_each_spec:
  assumes "\<And>e w. gives (w_log (snd (act e w))) = gives (w_log w) @ calls e"
    and "release_each drv made act es s = (n, s')"
  shows "given s' = given s @ concat (map calls (filter (\<lambda>e. alive (rl_proc s) (made e)) es))
    \<and> rl_proc s' = rl_proc s
    \<and> n + rl_failed s' + rl_skipped s' = length es + rl_failed s + rl_skipped s"
  using assms(2)
proof (induction es arbitrary: s n)
  case (Cons e es)
  obtain r s1 where u: "unless_destroyed drv (made e) (act e) s = (r, s1)"
    by (cases "unless_destroyed drv (made e) (act e) s")
  note u1 = unless_destroyed_spec [OF u assms(1)]
  show ?case
  proof (cases r)
    case None
    then have "release_each drv made act es (count_skipped s1) = (n, s')" using Cons.prems u by simp
    from Cons.IH [OF this] show ?thesis using None u1 by simp
  next
    case (Some ro)
    obtain r2 outs where ro: "ro = (r2, outs)" by (cases ro)
    show ?thesis
    proof (cases "r2 = CUDA_SUCCESS")
      case True
      then obtain n' where "release_each drv made act es s1 = (n', s')" "n = n' + 1"
        using Cons.prems u Some ro by (auto split: prod.splits)
      from Cons.IH [OF this(1)] show ?thesis using Some u1 \<open>n = n' + 1\<close> by simp
    next
      case False
      then have "release_each drv made act es (count_failed s1) = (n, s')" using Cons.prems u Some ro by simp
      from Cons.IH [OF this] show ?thesis using Some u1 by simp
    qed
  qed
qed simp

lemma release_plain_spec:
  assumes "\<And>e. gives [call e] = [call e]" and "release_plain drv call es s = (n, s')"
  shows "given s' = given s @ map call es \<and> rl_proc s' = rl_proc s
    \<and> n + rl_failed s' + rl_skipped s' = length es + rl_failed s + rl_skipped s"
  using assms(2)
proof (induction es arbitrary: s n)
  case (Cons e es)
  obtain r outs w where c: "dcall drv (call e) (rl_world s) = ((r, outs), w)"
    by (cases "dcall drv (call e) (rl_world s)") auto
  let ?s = "s\<lparr>rl_world := w\<rparr>"
  have g: "given ?s = given s @ [call e]" using dcall_log [OF c] assms(1) by (simp add: given_def)
  show ?case
  proof (cases "r = CUDA_SUCCESS")
    case True
    then obtain n' where "release_plain drv call es ?s = (n', s')" "n = n' + 1"
      using Cons.prems c by (auto split: prod.splits)
    from Cons.IH [OF this(1)] show ?thesis using g \<open>n = n' + 1\<close> by simp
  next
    case False
    then have "release_plain drv call es (count_failed ?s) = (n, s')" using Cons.prems c by simp
    from Cons.IH [OF this] show ?thesis using g by simp
  qed
qed simp

lemma items_gives: "gives (w_log (snd (real_call drv (Give g) w))) = gives (w_log w) @ [Give g]"
  by (simp add: dcall_log [OF surjective_pairing])

lemma release_items_spec:
  assumes "release_items drv give xs s = (n, s')"
  shows "given s' = given s @ map (\<lambda>e. Give (give (fst e))) (filter (\<lambda>e. alive (rl_proc s) (snd e)) xs)"
    "rl_proc s' = rl_proc s" "n + rl_failed s' + rl_skipped s' = length xs + rl_failed s + rl_skipped s"
  using release_each_spec [where act = "\<lambda>e. real_call drv (Give (give (fst e)))"
      and calls = "\<lambda>e. [Give (give (fst e))]" and made = snd, OF items_gives assms [unfolded release_items_def]]
  by (auto simp: concat_map_singleton)

lemma release_sized_spec:
  assumes "release_sized drv give xs s = (n, s')"
  shows "given s' = given s @ map (\<lambda>e. Give (give (fst e) (snd e))) xs"
    "rl_proc s' = rl_proc s" "n + rl_failed s' + rl_skipped s' = length xs + rl_failed s + rl_skipped s"
  using release_plain_spec [of "\<lambda>e. Give (give (fst e) (snd e))" xs s n s'] assms
  by (auto simp: release_sized_def)

lemma release_detached_spec:
  assumes "release_detached drv xs s = (n, s')"
  shows "given s' = given s @ map (\<lambda>e. CtxDestroy (fst e)) xs"
    "rl_proc s' = rl_proc s" "n + rl_failed s' + rl_skipped s' = length xs + rl_failed s + rl_skipped s"
  using release_plain_spec [of "\<lambda>e. CtxDestroy (fst e)" xs s n s'] assms
  by (auto simp: release_detached_def)

lemma release_handles_spec:
  assumes "release_handles drv xs s = (n, s')"
  shows "given s' = given s @ concat (map handle_calls (filter (\<lambda>e. alive (rl_proc s) (lh_made (snd e))) xs))"
    "rl_proc s' = rl_proc s" "n + rl_failed s' + rl_skipped s' = length xs + rl_failed s + rl_skipped s"
proof -
  have "gives (w_log (snd (destroy_handle drv e w))) = gives (w_log w) @ handle_calls e" for e w
    by (cases "lh_destroy (snd e)") (simp_all add: destroy_handle_def handle_calls_def dcall_log [OF surjective_pairing])
  from release_each_spec [where act = "destroy_handle drv" and calls = handle_calls, OF this assms [unfolded release_handles_def]]
  show "given s' = given s @ concat (map handle_calls (filter (\<lambda>e. alive (rl_proc s) (lh_made (snd e))) xs))"
    "rl_proc s' = rl_proc s" "n + rl_failed s' + rl_skipped s' = length xs + rl_failed s + rl_skipped s"
    by simp_all
qed

lemma end_captures_spec:
  assumes "end_captures drv cs graphs s = ((n, graphs'), s')"
  shows "given s' = given s \<and> rl_proc s' = rl_proc s
    \<and> n + rl_failed s' + rl_skipped s' = length cs + rl_failed s + rl_skipped s"
  using assms
proof (induction cs arbitrary: graphs s n)
  case (Cons c cs)
  let ?act = "real_call drv (Make True (StreamEndCapture (oc_stream c)))"
  obtain r s1 where u: "unless_destroyed drv (oc_where c) ?act s = (r, s1)"
    by (cases "unless_destroyed drv (oc_where c) ?act s")
  have "gives (w_log (snd (?act w))) = gives (w_log w) @ []" for w
    by (simp add: dcall_log [OF surjective_pairing])
  note u1 = unless_destroyed_spec [OF u this]
  show ?case
  proof (cases r)
    case None
    then have "end_captures drv cs graphs (count_skipped s1) = ((n, graphs'), s')" using Cons.prems u by simp
    from Cons.IH [OF this] show ?thesis using u1 by simp
  next
    case (Some ro)
    obtain r2 outs where ro: "ro = (r2, outs)" by (cases ro)
    let ?gs = "if out0 outs = 0 then graphs else AList.update (out0 outs) (oc_where c) graphs"
    show ?thesis
    proof (cases "r2 = CUDA_SUCCESS")
      case True
      then obtain n' where "end_captures drv cs ?gs s1 = ((n', graphs'), s')" "n = n' + 1"
        using Cons.prems u Some ro by (auto simp: Let_def split: prod.splits)
      from Cons.IH [OF this(1)] show ?thesis using u1 \<open>n = n' + 1\<close> by simp
    next
      case False
      then have "end_captures drv cs graphs (count_failed s1) = ((n, graphs'), s')" using Cons.prems u Some ro by simp
      from Cons.IH [OF this] show ?thesis using u1 by simp
    qed
  qed
qed simp

lemma sync_contexts_spec:
  "given (sync_contexts drv seen sts s) = given s \<and> rl_proc (sync_contexts drv seen sts s) = rl_proc s
    \<and> rl_failed (sync_contexts drv seen sts s) = rl_failed s \<and> rl_skipped (sync_contexts drv seen sts s) = rl_skipped s"
proof (induction sts arbitrary: seen s)
  case (Cons st sts)
  have "given ((use_context drv c s)\<lparr>rl_world := snd (dcall drv CtxSynchronize (rl_world (use_context drv c s)))\<rparr>) = given s"
    for c s using use_context_spec(1) [of c s] by (simp add: given_def dcall_log [OF surjective_pairing])
  then show ?case using Cons.IH use_context_spec by (simp add: Let_def)
qed simp

text \<open>The retains: attempts stop at the first failure, and never exceed the count.\<close>

lemma release_retain_spec:
  assumes "release_retain drv dev n s = (k, s')"
  shows "\<exists>m. given s' = given s @ replicate m (PrimaryCtxRelease dev) \<and> k \<le> m \<and> m \<le> n \<and> (k = m \<longrightarrow> m = n)"
  using assms
proof (induction n arbitrary: s k)
  case (Suc n)
  obtain r outs w where c: "dcall drv (PrimaryCtxRelease dev) (rl_world s) = ((r, outs), w)"
    by (cases "dcall drv (PrimaryCtxRelease dev) (rl_world s)") auto
  have g: "gives (w_log w) = given s @ [PrimaryCtxRelease dev]" using dcall_log [OF c] by (simp add: given_def)
  show ?case
  proof (cases "r = CUDA_SUCCESS")
    case False
    then have "k = 0" "s' = count_failed (s\<lparr>rl_world := w\<rparr>)" using Suc.prems c by simp_all
    then show ?thesis using g by (intro exI [of _ 1]) (simp add: given_def count_failed_def)
  next
    case True
    obtain b w1 where i: "primary_inactive drv dev w = (b, w1)" by (cases "primary_inactive drv dev w")
    have g1: "gives (w_log w1) = given s @ [PrimaryCtxRelease dev]"
      using i g by (auto simp: primary_inactive_def has_all split: prod.splits dest: dcall_log)
    let ?s = "s\<lparr>rl_world := w1, rl_proc := (if b then bump_generation dev (rl_proc s) else rl_proc s)\<rparr>"
    obtain k' where k': "release_retain drv dev n ?s = (k', s')" "k = k' + 1"
      using Suc.prems c True i by (auto simp: Let_def split: prod.splits)
    from Suc.IH [OF k'(1)] obtain m where "given s' = given ?s @ replicate m (PrimaryCtxRelease dev)"
      "k' \<le> m" "m \<le> n" "k' = m \<longrightarrow> m = n" by blast
    then show ?thesis using g1 k'(2) by (intro exI [of _ "Suc m"]) (simp add: given_def)
  qed
qed simp

lemma release_retains_spec:
  assumes "release_retains drv rs s = (k, s')"
  shows "\<exists>ms. given s' = given s @ concat (map (\<lambda>(m, r). replicate m (PrimaryCtxRelease (fst r))) (zip ms rs))
      \<and> list_all2 (\<lambda>m r. m \<le> nat (snd r)) ms rs \<and> k \<le> sum_list ms
      \<and> (k = sum_list ms \<longrightarrow> ms = map (\<lambda>r. nat (snd r)) rs)"
  using assms
proof (induction rs arbitrary: s k)
  case (Cons r rs)
  obtain k1 s1 where a: "release_retain drv (fst r) (nat (snd r)) s = (k1, s1)"
    by (cases "release_retain drv (fst r) (nat (snd r)) s")
  obtain k2 where b: "release_retains drv rs s1 = (k2, s')" "k = k1 + k2"
    using Cons.prems a by (cases r) (auto split: prod.splits)
  from release_retain_spec [OF a] obtain m where
    m: "given s1 = given s @ replicate m (PrimaryCtxRelease (fst r))" "k1 \<le> m" "m \<le> nat (snd r)" "k1 = m \<longrightarrow> m = nat (snd r)"
    by blast
  from Cons.IH [OF b(1)] obtain ms where
    ms: "given s' = given s1 @ concat (map (\<lambda>(m, r). replicate m (PrimaryCtxRelease (fst r))) (zip ms rs))"
      "list_all2 (\<lambda>m r. m \<le> nat (snd r)) ms rs" "k2 \<le> sum_list ms" "k2 = sum_list ms \<longrightarrow> ms = map (\<lambda>r. nat (snd r)) rs"
    by blast
  show ?case using m ms b(2) by (intro exI [of _ "m # ms"]) auto
qed simp

lemma release_resources_spec:
  assumes "release_resources drv iv s = (rp, s')"
    and "end_captures drv (iv_captures iv) (iv_items iv Graphs) s = ((ncap, graphs), s1)"
  shows "given s' = given s @ owed (rl_proc s) iv graphs \<and> rl_proc s' = rl_proc s
    \<and> report_total rp + rl_failed s' + rl_skipped s' = entry_count iv graphs + rl_failed s + rl_skipped s"
proof -
  note e = end_captures_spec [OF assms(2)]
  define s2 where "s2 = sync_contexts drv [] (map snd (iv_items iv Allocs @ iv_items iv Modules @ iv_items iv Streams
                @ iv_items iv Events @ graphs @ iv_items iv GraphExecs)) s1"
  have y: "given s2 = given s1 \<and> rl_proc s2 = rl_proc s1 \<and> rl_failed s2 = rl_failed s1 \<and> rl_skipped s2 = rl_skipped s1"
    unfolding s2_def by (rule sync_contexts_spec)
  obtain nh s3 where h: "release_handles drv (iv_handles iv) s2 = (nh, s3)" by fastforce
  obtain nl s4 where l: "release_items drv LibraryUnload (iv_items iv Libraries) s3 = (nl, s4)" by fastforce
  obtain nu s5 where u: "release_sized drv MemUnmap (iv_sized iv VmmMaps) s4 = (nu, s5)" by fastforce
  obtain nv s6 where v: "release_items drv MemRelease (iv_items iv VmmHandles) s5 = (nv, s6)" by fastforce
  obtain nr s7 where r: "release_sized drv MemAddressFree (iv_sized iv VmmRanges) s6 = (nr, s7)" by fastforce
  obtain nx s8 where x: "release_items drv GraphExecDestroy (iv_items iv GraphExecs) s7 = (nx, s8)" by fastforce
  obtain ng s9 where g: "release_items drv GraphDestroy graphs s8 = (ng, s9)" by fastforce
  obtain ne s10 where ev: "release_items drv EventDestroy (iv_items iv Events) s9 = (ne, s10)" by fastforce
  obtain ns s11 where st: "release_items drv StreamDestroy (iv_items iv Streams) s10 = (ns, s11)" by fastforce
  obtain nm s12 where m: "release_items drv ModuleUnload (iv_items iv Modules) s11 = (nm, s12)" by fastforce
  obtain na s13 where a: "release_items drv MemFree (iv_items iv Allocs) s12 = (na, s13)" by fastforce
  have res: "s' = s13" "rp = \<lparr> rp_captures = ncap, rp_handles = nh, rp_libraries = nl, rp_unmapped = nu, rp_vmm_handles = nv,
        rp_ranges = nr, rp_execs = nx, rp_graphs = ng, rp_events = ne, rp_streams = ns, rp_modules = nm,
        rp_allocs = na, rp_contexts = 0, rp_retains = 0, rp_skipped = 0, rp_failed = 0 \<rparr>"
    using assms h l u v r x g ev st m a by (simp_all add: release_resources_def Let_def del: map_append flip: s2_def)
  note specs = release_handles_spec [OF h] release_items_spec [OF l] release_sized_spec [OF u] release_items_spec [OF v]
    release_sized_spec [OF r] release_items_spec [OF x] release_items_spec [OF g] release_items_spec [OF ev]
    release_items_spec [OF st] release_items_spec [OF m] release_items_spec [OF a]
  have p: "rl_proc s3 = rl_proc s" "rl_proc s4 = rl_proc s" "rl_proc s5 = rl_proc s" "rl_proc s6 = rl_proc s"
    "rl_proc s7 = rl_proc s" "rl_proc s8 = rl_proc s" "rl_proc s9 = rl_proc s" "rl_proc s10 = rl_proc s"
    "rl_proc s11 = rl_proc s" "rl_proc s12 = rl_proc s" "rl_proc s13 = rl_proc s" "rl_proc s2 = rl_proc s"
    by (simp_all only: e y specs(2,5,8,11,14,17,20,23,26,29,32))
  have "given s' = given s @ owed (rl_proc s) iv graphs"
    by (simp only: res(1) specs(31,28,25,22,19,16,13,10,7,4,1) e y p owed_def owed_items_def append_assoc)
  moreover have "report_total rp + rl_failed s' + rl_skipped s' = entry_count iv graphs + rl_failed s + rl_skipped s"
    using e y specs(3,6,9,12,15,18,21,24,27,30,33) by (simp add: res report_total_def entry_count_def)
  ultimately show ?thesis using p(11) res(1) by simp
qed

lemma release_inventory_spec:
  assumes "release_inventory drv iv (p, w) = ((iv', rp), (p', w'))"
    and "end_captures drv (iv_captures iv) (iv_items iv Graphs)
          \<lparr> rl_world = w, rl_proc = p, rl_cur = None, rl_failed = 0, rl_skipped = 0 \<rparr> = ((ncap, graphs), s1)"
  shows "iv' = no_inventory \<and> (\<exists>ms. gives (w_log w') = gives (w_log w) @ owed p iv graphs
      @ map (\<lambda>e. CtxDestroy (fst e)) (iv_items iv Contexts)
      @ concat (map (\<lambda>(m, r). replicate m (PrimaryCtxRelease (fst r))) (zip ms (iv_retains iv)))
    \<and> list_all2 (\<lambda>m r. m \<le> nat (snd r)) ms (iv_retains iv) \<and> rp_retains rp \<le> sum_list ms
    \<and> (rp_retains rp = sum_list ms \<longrightarrow> ms = map (\<lambda>r. nat (snd r)) (iv_retains iv)))"
proof -
  let ?s = "\<lparr> rl_world = w, rl_proc = p, rl_cur = None, rl_failed = 0, rl_skipped = 0 \<rparr>"
  obtain rp1 s2 where a: "release_resources drv iv ?s = (rp1, s2)" by fastforce
  obtain nc s3 where c: "release_detached drv (iv_items iv Contexts) (use_context drv 0 s2) = (nc, s3)" by fastforce
  obtain nr s4 where r: "release_retains drv (iv_retains iv) s3 = (nr, s4)" by fastforce
  note a1 = release_resources_spec [OF a assms(2)]
  note c1 = release_detached_spec [OF c]
  have u: "given (use_context drv 0 s2) = given s2" by (rule use_context_spec)
  from release_retains_spec [OF r] obtain ms where
    ms: "given s4 = given s3 @ concat (map (\<lambda>(m, r). replicate m (PrimaryCtxRelease (fst r))) (zip ms (iv_retains iv)))"
      "list_all2 (\<lambda>m r. m \<le> nat (snd r)) ms (iv_retains iv)" "nr \<le> sum_list ms"
      "nr = sum_list ms \<longrightarrow> ms = map (\<lambda>r. nat (snd r)) (iv_retains iv)" by blast
  have "w' = rl_world s4" "rp_retains rp = nr" "iv' = no_inventory"
    using assms(1) a c r by (auto simp: release_inventory_def no_inventory_def)
  then show ?thesis using a1 c1 u ms by (auto simp: given_def)
qed

end

interpretation fakef: full_driver fake_driver
  by unfold_locales (simp add: fake_driver_def)

section \<open>Properties\<close>

definition start_release :: "process \<Rightarrow> 'd world \<Rightarrow> 'd releasing_state" where
  "start_release p w = \<lparr> rl_world = w, rl_proc = p, rl_cur = None, rl_failed = 0, rl_skipped = 0 \<rparr>"

text \<open>C34. When a session expires, the calls that give something back are exactly these, in this
  order, whatever each answers: every handle, library, mapping, memory handle, address range, graph
  executable, graph (those of the captures just ended included), event, stream, module and
  allocation that is still current, each once; then every context by handle; and last, for each
  device, at most as many releases of the primary context as the session holds retains, and exactly
  as many when none of them fails. The inventory is left empty.\<close>

theorem expiry_gives_everything_back_once:
  assumes "full_driver drv"
    and "release_inventory drv iv (p, w) = ((iv', rp), (p', w'))"
    and "end_captures drv (iv_captures iv) (iv_items iv Graphs) (start_release p w) = ((ncap, graphs), s1)"
  shows "iv' = no_inventory \<and> (\<exists>ms. gives (w_log w') = gives (w_log w) @ owed p iv graphs
      @ map (\<lambda>e. CtxDestroy (fst e)) (iv_items iv Contexts)
      @ concat (map (\<lambda>(m, r). replicate m (PrimaryCtxRelease (fst r))) (zip ms (iv_retains iv)))
    \<and> list_all2 (\<lambda>m r. m \<le> nat (snd r)) ms (iv_retains iv) \<and> rp_retains rp \<le> sum_list ms
    \<and> (rp_retains rp = sum_list ms \<longrightarrow> ms = map (\<lambda>r. nat (snd r)) (iv_retains iv)))"
  using full_driver.release_inventory_spec [OF assms(1,2) assms(3) [unfolded start_release_def]] .

theorem expiry_gives_everything_back_once_witness:
  "\<exists>rp p' w'. release_inventory fake_driver (demo_inventory\<lparr> iv_retains := [(0, 2)] \<rparr>)
        (no_process, \<lparr> w_drv = fake_init\<lparr> fk_contexts := [(9, 0)], fk_retains := [(0, 2)] \<rparr>, w_log = [] \<rparr>)
      = ((no_inventory, rp), (p', w'))
    \<and> gives (w_log w') = [Give (ModuleUnload 5), Give (MemFree 4), PrimaryCtxRelease 0, PrimaryCtxRelease 0]"
proof -
  let ?iv = "demo_inventory\<lparr> iv_retains := [(0, 2)] \<rparr>"
  let ?w = "\<lparr> w_drv = fake_init\<lparr> fk_contexts := [(9, 0)], fk_retains := [(0, 2)] \<rparr>, w_log = [] \<rparr>"
  obtain iv' rp p' w' where r: "release_inventory fake_driver ?iv (no_process, ?w) = ((iv', rp), (p', w'))"
    by (metis prod.exhaust)
  have items: "iv_items demo_inventory w = (if w = Allocs then [(4, \<lparr> st_ctx = 9, st_dev = -1, st_gen = 0 \<rparr>)]
      else if w = Modules then [(5, no_stamp)] else [])"
    "iv_sized demo_inventory m = []" "iv_captures demo_inventory = []" "iv_handles demo_inventory = []" for w m
    by (simp_all add: demo_inventory_def note_item_def no_inventory_def put_items_def index_add_def Let_def no_stamp_def)
  have e: "end_captures fake_driver (iv_captures ?iv) (iv_items ?iv Graphs) (start_release no_process ?w)
      = ((0, []), start_release no_process ?w)"
    by (simp add: items)
  have "kEndedGeneration \<noteq> 0" by (simp add: kEndedGeneration_def)
  then have "owed no_process ?iv [] = [Give (ModuleUnload 5), Give (MemFree 4)]"
    by (simp add: owed_def owed_items_def items alive_def still_current_def no_stamp_def)
  moreover have "rp_retains (snd (fst (release_inventory fake_driver ?iv (no_process, ?w)))) = 2" by code_simp
  then have two: "rp_retains rp = 2" using r by simp
  moreover obtain ms where ms: "iv' = no_inventory" "gives (w_log w') = owed no_process ?iv []
      @ concat (map (\<lambda>(m, r). replicate m (PrimaryCtxRelease (fst r))) (zip ms [(0 :: int, 2 :: int)]))"
      "list_all2 (\<lambda>m r. m \<le> nat (snd r)) ms [(0 :: int, 2 :: int)]" "2 \<le> sum_list ms"
    using expiry_gives_everything_back_once [OF fakef.full_driver_axioms r e] two by (auto simp: items gives_def)
  moreover have "ms = [2]" using ms(3,4) by (auto simp: list_all2_Cons2)
  moreover have "replicate 2 x = [x, x]" for x :: drv_call by (simp add: numeral_eq_Suc)
  ultimately show ?thesis using r by simp
qed

text \<open>The call that gives an entry of a map back.\<close>

fun giver_of :: "which \<Rightarrow> u64 \<Rightarrow> drv_call" where
  "giver_of Allocs h = Give (MemFree h)"
| "giver_of Contexts h = CtxDestroy h"
| "giver_of Modules h = Give (ModuleUnload h)"
| "giver_of Streams h = Give (StreamDestroy h)"
| "giver_of Events h = Give (EventDestroy h)"
| "giver_of Graphs h = Give (GraphDestroy h)"
| "giver_of GraphExecs h = Give (GraphExecDestroy h)"
| "giver_of Libraries h = Give (LibraryUnload h)"
| "giver_of VmmHandles h = Give (MemRelease h)"

lemma owed_items_alive:
  assumes "distinct (map fst xs)" and "map_of xs h = Some st" and "\<not> alive p st"
    and "\<And>a b. give a = give b \<Longrightarrow> a = b"
  shows "Give (give h) \<notin> set (owed_items p give xs)"
proof
  assume "Give (give h) \<in> set (owed_items p give xs)"
  then obtain a b where ab: "(a, b) \<in> set xs" "alive p b" "give h = give a" by (auto simp: owed_items_def)
  from assms(4) [OF ab(3)] ab(1) have "map_of xs h = Some b" using assms(1) by simp
  then show False using ab(2) assms(2,3) by simp
qed

lemma handle_calls_not: "Give g \<in> set (concat (map handle_calls xs)) \<Longrightarrow> \<exists>f h. g = LibHandleDestroy f h"
  by (auto simp: handle_calls_def split: option.splits)

lemma stale_not_owed:
  assumes "inv_wf iv" and "w \<noteq> Contexts" and "w \<noteq> Graphs"
    and "map_of (iv_items iv w) h = Some st" and "\<not> alive p st"
  shows "giver_of w h \<notin> set (owed p iv graphs)"
proof -
  have d: "distinct (map fst (iv_items iv w))" using assms(1) by (simp add: inv_wf_def)
  note no = owed_items_alive [OF d assms(4,5)]
  show ?thesis
    using assms(2,3) no handle_calls_not
    by (cases w) (fastforce simp: owed_def owed_items_def handle_calls_def split: option.splits)+
qed



text \<open>Every entry the session held is counted once in the report of its release: as
  given back, as skipped, or as failed.\<close>

theorem every_entry_accounted_for:
  assumes "full_driver drv"
    and "release_resources drv iv (start_release p w) = (rp, s')"
    and "end_captures drv (iv_captures iv) (iv_items iv Graphs) (start_release p w) = ((ncap, graphs), s1)"
  shows "report_total rp + rl_failed s' + rl_skipped s' = entry_count iv graphs"
  using full_driver.release_resources_spec [OF assms] by (simp add: start_release_def)

theorem every_entry_accounted_for_witness:
  "\<exists>rp s'. release_resources fake_driver demo_inventory (start_release no_process \<lparr> w_drv = fake_init, w_log = [] \<rparr>) = (rp, s')
     \<and> report_total rp + rl_failed s' + rl_skipped s' = 2"
proof -
  let ?s = "start_release no_process \<lparr> w_drv = fake_init, w_log = [] \<rparr>"
  obtain rp s' where r: "release_resources fake_driver demo_inventory ?s = (rp, s')" by fastforce
  have items: "iv_items demo_inventory w = (if w = Allocs then [(4, \<lparr> st_ctx = 9, st_dev = -1, st_gen = 0 \<rparr>)]
      else if w = Modules then [(5, no_stamp)] else [])"
    "iv_sized demo_inventory m = []" "iv_captures demo_inventory = []" "iv_handles demo_inventory = []" for w m
    by (simp_all add: demo_inventory_def note_item_def no_inventory_def put_items_def index_add_def Let_def no_stamp_def)
  have e: "end_captures fake_driver (iv_captures demo_inventory) (iv_items demo_inventory Graphs) ?s = ((0, []), ?s)"
    by (simp add: items)
  show ?thesis
    using every_entry_accounted_for [OF fakef.full_driver_axioms r e] r by (simp add: entry_count_def items)
qed

end
