(* ===== verification/Slots.thy ===== *)
theory Slots
  imports ClientThreads
begin

text \<open>
  Which client threads have a slot (\<^verbatim>\<open>server/main.cpp\<close>, the section on client threads): admission up
  to a cap, the 64 retired slots that a thread's late calls find again, the notice that threads
  have exited, and where the failure of a call without a slot is kept. The properties: the table's
  bounds, that a late call finds its own slot, and that a failure held for a thread is never lost
  without being counted.
\<close>

section \<open>Operations\<close>

definition kRetiredSlots :: nat where "kRetiredSlots = 64"

definition max_client_threads :: "int option \<Rightarrow> nat" where
  "max_client_threads env = env_limit env 4096"

text \<open>Taking a thread's slot out of the retired ones: the first under its id, or an empty one.\<close>

fun take_retired :: "u32 \<Rightarrow> (u32 \<times> client_thread) list \<Rightarrow> client_thread \<times> (u32 \<times> client_thread) list" where
  "take_retired tid [] = (new_thread, [])"
| "take_retired tid (e # es) = (if fst e = tid then (snd e, es)
     else (case take_retired tid es of (t, es') \<Rightarrow> (t, e # es')))"

definition admit_thread :: "nat \<Rightarrow> u32 \<Rightarrow> client_threads \<Rightarrow> u32 option \<times> client_threads" where
  "admit_thread cap tid ts =
     (if length (ts_live ts) \<ge> cap then (None, ts)
      else (case take_retired tid (ts_retired ts) of (slot, rest) \<Rightarrow>
        (Some tid, ts\<lparr> ts_retired := rest, ts_live := ts_live ts @ [(tid, slot)] \<rparr>)))"

definition thread_slot :: "nat \<Rightarrow> u32 \<Rightarrow> client_threads \<Rightarrow> u32 option \<times> client_threads" where
  "thread_slot cap tid ts = (case map_of (ts_live ts) tid of
       Some _ \<Rightarrow> (Some tid, ts)
     | None \<Rightarrow> admit_thread cap tid ts)"

definition say_unreported :: "client_thread \<Rightarrow> client_threads \<Rightarrow> client_threads" where
  "say_unreported t ts = (if ct_pending_async t = CUDA_SUCCESS then ts
     else ts\<lparr> ts_unreported_failures := ts_unreported_failures ts + 1 \<rparr>)"

lemma say_unreported_fields [simp, table_simps]:
  "ts_live (say_unreported t ts) = ts_live ts" "ts_retired (say_unreported t ts) = ts_retired ts"
  "ts_applied (say_unreported t ts) = ts_applied ts" "ts_caller (say_unreported t ts) = ts_caller ts"
  "ts_applied_mode (say_unreported t ts) = ts_applied_mode ts"
  "ts_held_failures (say_unreported t ts) = ts_held_failures ts"
  by (simp_all add: say_unreported_def)

function trim_retired :: "client_threads \<Rightarrow> client_threads" where
  "trim_retired ts = (if length (ts_retired ts) > kRetiredSlots
     then trim_retired ((say_unreported (snd (hd (ts_retired ts))) ts)\<lparr> ts_retired := tl (ts_retired ts) \<rparr>)
     else ts)"
  by auto
termination by (relation "measure (\<lambda>ts. length (ts_retired ts))") auto

declare trim_retired.simps [simp del]

definition retire_thread :: "u32 \<Rightarrow> client_threads \<Rightarrow> client_threads" where
  "retire_thread tid ts = (case map_of (ts_live ts) tid of
       None \<Rightarrow> ts
     | Some t \<Rightarrow> trim_retired (ts\<lparr> ts_retired := ts_retired ts @ [(tid, t)],
                                   ts_live := AList.delete tid (ts_live ts) \<rparr>))"

definition handle_thread_gone :: "buffer \<Rightarrow> client_threads \<Rightarrow> CUresult \<times> buffer \<times> client_threads" where
  "handle_thread_gone req ts = (case buf_get 4 req of
       (None, req1) \<Rightarrow> (CUDA_ERROR_INVALID_VALUE, req1, ts)
     | (Some count, req1) \<Rightarrow>
         (case get_all (buf_get 4) (unat (count :: u32)) req1 of
            (None, req2) \<Rightarrow> (CUDA_ERROR_INVALID_VALUE, req2, ts)
          | (Some gone, req2) \<Rightarrow> (CUDA_SUCCESS, req2, fold retire_thread gone ts)))"

text \<open>A reference to a slot: its thread's id and which of the two tables it is in.\<close>

datatype home = LiveSlot u32 | RetiredSlot u32

definition deferred_home :: "u32 \<Rightarrow> bool \<Rightarrow> client_threads \<Rightarrow> home option \<times> client_threads" where
  "deferred_home tid hold ts =
     (if tid = 0 then (None, ts)
      else if map_of (ts_live ts) tid \<noteq> None then (Some (LiveSlot tid), ts)
      else if map_of (ts_retired ts) tid \<noteq> None then (Some (RetiredSlot tid), ts)
      else if \<not> hold then (None, ts)
      else (Some (RetiredSlot tid), trim_retired (ts\<lparr> ts_retired := ts_retired ts @ [(tid, new_thread)] \<rparr>)))"

text \<open>Reading and storing the held failure through such a reference.\<close>

fun home_pending :: "home \<Rightarrow> client_threads \<Rightarrow> CUresult" where
  "home_pending (LiveSlot tid) ts = ct_pending_async (the_slot ts tid)"
| "home_pending (RetiredSlot tid) ts =
     (case map_of (ts_retired ts) tid of None \<Rightarrow> CUDA_SUCCESS | Some t \<Rightarrow> ct_pending_async t)"

fun set_home_pending :: "home \<Rightarrow> CUresult \<Rightarrow> client_threads \<Rightarrow> client_threads" where
  "set_home_pending (LiveSlot tid) r ts = put_slot tid ((the_slot ts tid)\<lparr> ct_pending_async := r \<rparr>) ts"
| "set_home_pending (RetiredSlot tid) r ts = (case map_of (ts_retired ts) tid of
       None \<Rightarrow> ts
     | Some t \<Rightarrow> ts\<lparr> ts_retired := AList.update tid (t\<lparr> ct_pending_async := r \<rparr>) (ts_retired ts) \<rparr>)"

section \<open>Vocabulary of the properties\<close>

definition slots_wf :: "nat \<Rightarrow> client_threads \<Rightarrow> bool" where
  "slots_wf cap ts \<longleftrightarrow> distinct (map fst (ts_live ts @ ts_retired ts))
     \<and> 0 \<notin> set (map fst (ts_live ts @ ts_retired ts))
     \<and> length (ts_live ts) \<le> cap \<and> length (ts_retired ts) \<le> kRetiredSlots"

definition holds_failure :: "u32 \<times> client_thread \<Rightarrow> bool" where
  "holds_failure e \<longleftrightarrow> ct_pending_async (snd e) \<noteq> CUDA_SUCCESS"

text \<open>The failures parked in slots, and those together with the ones counted as never reported.\<close>

definition parked :: "client_threads \<Rightarrow> nat" where
  "parked ts = length (filter holds_failure (ts_live ts)) + length (filter holds_failure (ts_retired ts))"

definition accounted :: "client_threads \<Rightarrow> u64" where
  "accounted ts = ts_unreported_failures ts + of_nat (parked ts)"

text \<open>The slot a thread's next call would be served with.\<close>

definition slot_of :: "client_threads \<Rightarrow> u32 \<Rightarrow> client_thread option" where
  "slot_of ts tid = (case map_of (ts_live ts) tid of Some t \<Rightarrow> Some t | None \<Rightarrow> map_of (ts_retired ts) tid)"

section \<open>Trimming\<close>

lemma trim_small [simp]: "length (ts_retired ts) \<le> kRetiredSlots \<Longrightarrow> trim_retired ts = ts"
  by (subst trim_retired.simps) simp

lemma trim_one:
  assumes "length (ts_retired ts) = Suc kRetiredSlots"
  shows "trim_retired ts =
    (say_unreported (snd (hd (ts_retired ts))) ts)\<lparr> ts_retired := tl (ts_retired ts) \<rparr>"
  using assms by (subst trim_retired.simps) simp

lemma trim_fields [simp, table_simps]:
  "ts_live (trim_retired ts) = ts_live ts"
  "ts_retired (trim_retired ts) = drop (length (ts_retired ts) - kRetiredSlots) (ts_retired ts)"
  "ts_applied (trim_retired ts) = ts_applied ts" "ts_caller (trim_retired ts) = ts_caller ts"
  "ts_applied_mode (trim_retired ts) = ts_applied_mode ts"
  "ts_held_failures (trim_retired ts) = ts_held_failures ts"
proof (induction ts rule: trim_retired.induct)
  case (1 ts)
  {
    case 1
    then show ?case using "1.IH" by (subst trim_retired.simps) simp
  next
    case 2
    show ?case
    proof (cases "kRetiredSlots < length (ts_retired ts)")
      case True
      then obtain e es where "ts_retired ts = e # es" by (cases "ts_retired ts") auto
      with True "1.IH"(2) show ?thesis
        by (subst trim_retired.simps) (simp add: Suc_diff_le less_Suc_eq_le)
    qed simp
  next
    case 3
    then show ?case using "1.IH" by (subst trim_retired.simps) simp
  next
    case 4
    then show ?case using "1.IH" by (subst trim_retired.simps) simp
  next
    case 5
    then show ?case using "1.IH" by (subst trim_retired.simps) simp
  next
    case 6
    then show ?case using "1.IH" by (subst trim_retired.simps) simp
  }
qed

lemma accounted_say:
  "ts_retired ts = e # es \<Longrightarrow>
   accounted ((say_unreported (snd e) ts)\<lparr> ts_retired := es \<rparr>) = accounted ts"
  by (simp add: accounted_def parked_def say_unreported_def holds_failure_def)

lemma accounted_trim [simp]: "accounted (trim_retired ts) = accounted ts"
proof (induction ts rule: trim_retired.induct)
  case (1 ts)
  show ?case
  proof (cases "kRetiredSlots < length (ts_retired ts)")
    case True
    then obtain e es where es: "ts_retired ts = e # es" by (cases "ts_retired ts") auto
    with True 1 show ?thesis
      by (subst trim_retired.simps) (simp add: accounted_say)
  qed simp
qed

section \<open>Taking a retired slot\<close>

lemma take_retired_absent: "map_of es tid = None \<Longrightarrow> take_retired tid es = (new_thread, es)"
  by (induction es) (auto simp: map_of_Cons_code split: if_splits)

lemma delete_head: "k \<notin> fst ` set es \<Longrightarrow> AList.delete k ((k, t) # es) = es"
  using delete_absent [of es k] by (simp add: map_of_eq_None_iff)

lemma delete_other: "j \<noteq> k \<Longrightarrow> AList.delete k ((j, t) # es) = (j, t) # AList.delete k es"
  by (simp add: AList.delete_eq)

lemma take_retired_present:
  "distinct (map fst es) \<Longrightarrow> map_of es tid = Some t \<Longrightarrow> take_retired tid es = (t, AList.delete tid es)"
  by (induction es) (auto simp: delete_head delete_other split: if_splits)

lemma filter_delete_length:
  "distinct (map fst es) \<Longrightarrow> map_of es k = Some t \<Longrightarrow>
   length (filter P (AList.delete k es)) + (if P (k, t) then 1 else 0) = length (filter P es)"
  by (induction es) (auto simp: delete_head delete_other split: if_splits)

lemma new_thread_holds_nothing [simp]: "\<not> holds_failure (tid, new_thread)"
  by (simp add: holds_failure_def new_thread_def)


lemma length_delete: "map_of es k = Some t \<Longrightarrow> distinct (map fst es) \<Longrightarrow> Suc (length (AList.delete k es)) = length es"
  using filter_delete_length [of es k t "\<lambda>_. True"] by simp

lemma set_fst_delete: "set (map fst (AList.delete k es)) = set (map fst es) - {k}"
  using keys_delete [of k es] by simp

lemma distinct_delete: "distinct (map fst es) \<Longrightarrow> distinct (map fst (AList.delete k es))"
  by (rule AList.distinct_delete)

lemma map_fst_snoc: "map fst (xs @ [(k, v)]) = map fst xs @ [k]"
  by simp

section \<open>What the operations keep\<close>

lemma slots_wf_parts:
  "slots_wf cap ts \<longleftrightarrow> distinct (map fst (ts_live ts)) \<and> distinct (map fst (ts_retired ts))
     \<and> fst ` set (ts_live ts) \<inter> fst ` set (ts_retired ts) = {}
     \<and> 0 \<notin> fst ` set (ts_live ts) \<and> 0 \<notin> fst ` set (ts_retired ts)
     \<and> length (ts_live ts) \<le> cap \<and> length (ts_retired ts) \<le> kRetiredSlots"
  by (auto simp: slots_wf_def)

lemma drop_keys: "fst ` set (drop n es) \<subseteq> fst ` set es"
  by (auto dest: in_set_dropD)

lemma slots_wf_trim:
  assumes "distinct (map fst (ts_live ts @ ts_retired ts))"
    and "0 \<notin> set (map fst (ts_live ts @ ts_retired ts))" and "length (ts_live ts) \<le> cap"
  shows "slots_wf cap (trim_retired ts)"
proof -
  let ?kept = "drop (length (ts_retired ts) - kRetiredSlots) (ts_retired ts)"
  have "fst ` set ?kept \<subseteq> fst ` set (ts_retired ts)" by (rule drop_keys)
  moreover have "distinct (map fst ?kept)" using assms(1) by (simp add: drop_map [symmetric])
  moreover have "fst ` set (ts_live ts) \<inter> fst ` set (ts_retired ts) = {}" "distinct (map fst (ts_live ts))"
    "0 \<notin> fst ` set (ts_live ts)" "0 \<notin> fst ` set (ts_retired ts)"
    using assms(1,2) by auto
  moreover have "fst ` set (ts_live ts) \<inter> fst ` set ?kept = {}" "0 \<notin> fst ` set ?kept"
    using calculation(1,3,6) by (meson disjoint_iff subsetD)+
  ultimately show ?thesis using assms(3) by (simp add: slots_wf_parts)
qed

lemma take_retired_keys:
  assumes "distinct (map fst es)" and "take_retired tid es = (t, rest)"
  shows "rest = AList.delete tid es" and "t = (case map_of es tid of None \<Rightarrow> new_thread | Some t \<Rightarrow> t)"
  using assms by (cases "map_of es tid"; simp add: take_retired_absent take_retired_present delete_absent)+

lemma admit_slots_wf:
  assumes wf: "slots_wf cap ts" and new: "map_of (ts_live ts) tid = None" and "tid \<noteq> 0"
  shows "slots_wf cap (snd (admit_thread cap tid ts))"
proof (cases "length (ts_live ts) \<ge> cap")
  case False
  obtain slot rest where sl: "take_retired tid (ts_retired ts) = (slot, rest)" by fastforce
  have d: "distinct (map fst (ts_retired ts))" using wf by (simp add: slots_wf_parts)
  have "length (AList.delete tid (ts_retired ts)) \<le> length (ts_retired ts)"
    by (rule length_delete_le)
  with wf new \<open>tid \<noteq> 0\<close> False sl take_retired_keys(1) [OF d sl] distinct_delete [OF d, of tid]
    keys_delete [of tid "ts_retired ts"]
  show ?thesis by (auto simp: slots_wf_parts admit_thread_def map_of_eq_None_iff)
qed (simp add: admit_thread_def wf)

lemma thread_slot_wf: "slots_wf cap ts \<Longrightarrow> tid \<noteq> 0 \<Longrightarrow> slots_wf cap (snd (thread_slot cap tid ts))"
  by (simp add: thread_slot_def admit_slots_wf split: option.split)

lemma retire_wf: "slots_wf cap ts \<Longrightarrow> slots_wf cap (retire_thread tid ts)"
proof (cases "map_of (ts_live ts) tid")
  case (Some t)
  assume wf: "slots_wf cap ts"
  let ?ts = "ts\<lparr> ts_retired := ts_retired ts @ [(tid, t)], ts_live := AList.delete tid (ts_live ts) \<rparr>"
  have d: "distinct (map fst (ts_live ts))" using wf by (simp add: slots_wf_parts)
  have "tid \<in> fst ` set (ts_live ts)" using Some by (force dest: map_of_SomeD)
  with wf distinct_delete [OF d, of tid] keys_delete [of tid "ts_live ts"]
    length_delete_le [of tid "ts_live ts"]
  have "slots_wf cap (trim_retired ?ts)"
    by (intro slots_wf_trim) (auto simp: slots_wf_parts)
  then show ?thesis using Some by (simp add: retire_thread_def)
qed (simp add: retire_thread_def)

lemma retire_all_wf: "slots_wf cap ts \<Longrightarrow> slots_wf cap (fold retire_thread tids ts)"
  by (induction tids arbitrary: ts) (simp_all add: retire_wf)

lemma thread_gone_wf: "slots_wf cap ts \<Longrightarrow> slots_wf cap (snd (snd (handle_thread_gone req ts)))"
  by (simp add: handle_thread_gone_def retire_all_wf split: prod.split option.split)

lemma deferred_home_wf:
  "slots_wf cap ts \<Longrightarrow> slots_wf cap (snd (deferred_home tid hold ts))"
proof (cases "tid = 0 \<or> map_of (ts_live ts) tid \<noteq> None \<or> map_of (ts_retired ts) tid \<noteq> None \<or> \<not> hold")
  case False
  assume wf: "slots_wf cap ts"
  with False have "slots_wf cap (trim_retired (ts\<lparr> ts_retired := ts_retired ts @ [(tid, new_thread)] \<rparr>))"
    by (intro slots_wf_trim) (auto simp: slots_wf_parts map_of_eq_None_iff)
  with False show ?thesis by (simp add: deferred_home_def)
qed (auto simp: deferred_home_def)

text \<open>A slot forgotten with a failure in it is counted; no other operation loses one.\<close>

lemma accounted_admit:
  assumes wf: "slots_wf cap ts"
  shows "accounted (snd (admit_thread cap tid ts)) = accounted ts"
proof (cases "length (ts_live ts) \<ge> cap")
  case False
  obtain slot rest where sl: "take_retired tid (ts_retired ts) = (slot, rest)" by fastforce
  have d: "distinct (map fst (ts_retired ts))" using wf by (simp add: slots_wf_parts)
  have "length (filter holds_failure rest) + (if holds_failure (tid, slot) then 1 else 0)
      = length (filter holds_failure (ts_retired ts))"
    using take_retired_keys [OF d sl] filter_delete_length [OF d]
    by (cases "map_of (ts_retired ts) tid") (auto simp: delete_absent)
  then have "parked (snd (admit_thread cap tid ts)) = parked ts"
    using False sl by (simp add: parked_def admit_thread_def split: if_splits)
  then show ?thesis using False sl by (simp add: accounted_def admit_thread_def)
qed (simp add: admit_thread_def)

lemma accounted_thread_slot: "slots_wf cap ts \<Longrightarrow> accounted (snd (thread_slot cap tid ts)) = accounted ts"
  by (simp add: thread_slot_def accounted_admit split: option.split)

lemma accounted_retire: "slots_wf cap ts \<Longrightarrow> accounted (retire_thread tid ts) = accounted ts"
proof (cases "map_of (ts_live ts) tid")
  case (Some t)
  assume wf: "slots_wf cap ts"
  then have "distinct (map fst (ts_live ts))" by (simp add: slots_wf_parts)
  from filter_delete_length [OF this Some, of holds_failure]
  have "parked (ts\<lparr> ts_retired := ts_retired ts @ [(tid, t)], ts_live := AList.delete tid (ts_live ts) \<rparr>) = parked ts"
    by (simp add: parked_def split: if_splits)
  then show ?thesis using Some by (simp add: retire_thread_def) (simp add: accounted_def)
qed (simp add: retire_thread_def)

lemma accounted_retire_all: "slots_wf cap ts \<Longrightarrow> accounted (fold retire_thread tids ts) = accounted ts"
  by (induction tids arbitrary: ts) (simp_all add: retire_wf accounted_retire)

lemma accounted_thread_gone:
  "slots_wf cap ts \<Longrightarrow> accounted (snd (snd (handle_thread_gone req ts))) = accounted ts"
  by (simp add: handle_thread_gone_def accounted_retire_all split: prod.split option.split)

lemma accounted_deferred_home: "accounted (snd (deferred_home tid hold ts)) = accounted ts"
  by (simp add: deferred_home_def) (simp add: accounted_def parked_def)


section \<open>A late call\<close>

lemma retire_not_longer: "length (ts_live (retire_thread k ts)) \<le> length (ts_live ts)"
  by (simp add: retire_thread_def length_delete_le split: option.split)

lemma retire_live: "map_of (ts_live (retire_thread k ts)) j = (if j = k then None else map_of (ts_live ts) j)"
  by (simp add: retire_thread_def split: option.split)

text \<open>A slot stays among the retired ones while fewer than 64 follow it.\<close>

lemma retire_keeps:
  assumes "ts_retired ts = xs @ (tid, t) # ys" and "Suc (length ys) < kRetiredSlots"
  shows "\<exists>xs' ys'. ts_retired (retire_thread k ts) = xs' @ (tid, t) # ys' \<and> length ys' \<le> Suc (length ys)"
proof (cases "map_of (ts_live ts) k")
  case None
  then have "ts_retired (retire_thread k ts) = xs @ (tid, t) # ys" using assms by (simp add: retire_thread_def)
  then show ?thesis by (metis le_Suc_eq order_refl)
next
  case (Some t')
  let ?all = "xs @ (tid, t) # (ys @ [(k, t')])"
  have "length ?all - kRetiredSlots \<le> length xs" using assms(2) by simp
  then have "drop (length ?all - kRetiredSlots) ?all
      = drop (length ?all - kRetiredSlots) xs @ (tid, t) # (ys @ [(k, t')])" by simp
  then have "ts_retired (retire_thread k ts)
      = drop (length ?all - kRetiredSlots) xs @ (tid, t) # (ys @ [(k, t')])"
    using Some assms(1) by (simp add: retire_thread_def del: drop_append)
  then show ?thesis by (metis length_append_singleton order_refl)
qed

lemma retire_all_keeps:
  assumes "ts_retired ts = xs @ (tid, t) # ys" and "length ys + length gone < kRetiredSlots"
  shows "\<exists>xs' ys'. ts_retired (fold retire_thread gone ts) = xs' @ (tid, t) # ys'"
  using assms
proof (induction gone arbitrary: ts xs ys)
  case (Cons k gone)
  then have "Suc (length ys) < kRetiredSlots" by simp
  from retire_keeps [OF Cons.prems(1) this] obtain xs' ys'
    where "ts_retired (retire_thread k ts) = xs' @ (tid, t) # ys'" "length ys' \<le> Suc (length ys)" by blast
  with Cons.IH [of "retire_thread k ts" xs' ys'] Cons.prems(2) show ?case by simp
qed auto

lemma retire_all_live:
  "map_of (ts_live (fold retire_thread gone ts)) j
     = (if j \<in> set gone then None else map_of (ts_live ts) j)"
  by (induction gone arbitrary: ts) (auto simp: retire_live)

lemma retire_all_not_longer: "length (ts_live (fold retire_thread gone ts)) \<le> length (ts_live ts)"
proof (induction gone arbitrary: ts)
  case (Cons k gone)
  from Cons [of "retire_thread k ts"] retire_not_longer [of k ts] show ?case by simp
qed simp

lemma retired_now:
  assumes "map_of (ts_live ts) tid = Some t"
  shows "\<exists>xs. ts_retired (retire_thread tid ts) = xs @ [(tid, t)]"
  using assms by (auto simp: retire_thread_def kRetiredSlots_def)

lemma map_of_middle: "distinct (map fst (xs @ (k, v) # ys)) \<Longrightarrow> map_of (xs @ (k, v) # ys) k = Some v"
  by (auto simp: map_add_def map_of_eq_None_iff[THEN iffD2] split: option.splits dest: map_of_SomeD)

lemma retire_shrinks:
  "map_of (ts_live ts) tid = Some t \<Longrightarrow> distinct (map fst (ts_live ts)) \<Longrightarrow>
   Suc (length (ts_live (retire_thread tid ts))) = length (ts_live ts)"
  by (simp add: retire_thread_def length_delete)

lemma admit_retired:
  assumes wf: "slots_wf cap ts" and "map_of (ts_live ts) tid = None" and "map_of (ts_retired ts) tid = Some t"
    and "length (ts_live ts) < cap"
  shows "\<exists>ts'. thread_slot cap tid ts = (Some tid, ts') \<and> map_of (ts_live ts') tid = Some t
    \<and> map_of (ts_retired ts') tid = None \<and> (\<forall>j. j \<noteq> tid \<longrightarrow> slot_of ts' j = slot_of ts j)"
proof -
  have d: "distinct (map fst (ts_retired ts))" using wf by (simp add: slots_wf_parts)
  show ?thesis using assms
    by (auto simp: thread_slot_def admit_thread_def take_retired_present [OF d] map_add_def slot_of_def
      split: option.split)
qed

text \<open>A thread announced gone that calls late, after fewer than 64 other threads were
  retired since, is served with the slot it left: its context stack, its capture mode and a failure
  held for it. Every other thread keeps the slot it had, and there is always room, since its own
  retirement made some.\<close>

theorem late_call_recovers_slot:
  assumes wf: "slots_wf cap ts" and live: "map_of (ts_live ts) tid = Some t"
    and few: "length gone < kRetiredSlots"
  shows "\<exists>ts'. thread_slot cap tid (fold retire_thread gone (retire_thread tid ts)) = (Some tid, ts')
    \<and> the_slot ts' tid = t \<and> map_of (ts_retired ts') tid = None
    \<and> (\<forall>j. j \<noteq> tid \<longrightarrow> slot_of ts' j = slot_of (fold retire_thread gone (retire_thread tid ts)) j)"
proof -
  let ?ts = "fold retire_thread gone (retire_thread tid ts)"
  have wf': "slots_wf cap ?ts" by (simp add: wf retire_wf retire_all_wf)
  obtain xs where "ts_retired (retire_thread tid ts) = xs @ (tid, t) # []" using retired_now [OF live] by auto
  from retire_all_keeps [OF this, of gone] few obtain xs' ys' where r: "ts_retired ?ts = xs' @ (tid, t) # ys'"
    by auto
  have "map_of (ts_retired ?ts) tid = Some t"
    unfolding r using wf' r by (intro map_of_middle) (simp add: slots_wf_parts)
  moreover have "map_of (ts_live ?ts) tid = None" by (simp add: retire_all_live retire_live)
  moreover have "length (ts_live ?ts) < cap"
    using retire_all_not_longer [of gone "retire_thread tid ts"] retire_shrinks [OF live] wf
    by (auto simp: slots_wf_parts)
  ultimately obtain ts' where "thread_slot cap tid ?ts = (Some tid, ts')" "map_of (ts_live ts') tid = Some t"
    "map_of (ts_retired ts') tid = None" "\<forall>j. j \<noteq> tid \<longrightarrow> slot_of ts' j = slot_of ?ts j"
    using admit_retired [OF wf'] by blast
  then show ?thesis by (auto simp: the_slot_def)
qed

text \<open>Two threads, the second with a failure held for it.\<close>

definition demo_slots :: client_threads where
  "demo_slots = no_threads\<lparr> ts_live := [(1, new_thread), (2, new_thread\<lparr> ct_pending_async := 719 \<rparr>)] \<rparr>"

lemma demo_slots_wf: "slots_wf 2 demo_slots"
  by (simp add: slots_wf_def demo_slots_def no_threads_def)

theorem late_call_recovers_slot_witness:
  "\<exists>ts'. thread_slot 2 2 (fold retire_thread [1] (retire_thread 2 demo_slots)) = (Some 2, ts')
    \<and> ct_pending_async (the_slot ts' 2) = 719"
proof -
  have live: "map_of (ts_live demo_slots) 2 = Some (new_thread\<lparr> ct_pending_async := 719 \<rparr>)"
    by (simp add: demo_slots_def no_threads_def)
  have "length [1 :: u32] < kRetiredSlots" by (simp add: kRetiredSlots_def)
  from late_call_recovers_slot [OF demo_slots_wf live this] show ?thesis by auto
qed

text \<open>In a table with distinct threads and its bounds kept, letting a thread in,
  retiring the threads of a notice and finding a home for a failure all keep it so, and a held
  failure is either still in a slot or counted as never reported: the sum of both is unchanged.\<close>

theorem slot_operations_keep_table:
  assumes wf: "slots_wf cap ts" and "tid \<noteq> 0"
  shows "slots_wf cap (snd (thread_slot cap tid ts)) \<and> accounted (snd (thread_slot cap tid ts)) = accounted ts
    \<and> slots_wf cap (snd (snd (handle_thread_gone req ts)))
    \<and> accounted (snd (snd (handle_thread_gone req ts))) = accounted ts
    \<and> slots_wf cap (snd (deferred_home tid hold ts)) \<and> accounted (snd (deferred_home tid hold ts)) = accounted ts"
  using assms by (simp_all add: thread_slot_wf accounted_thread_slot thread_gone_wf accounted_thread_gone
    deferred_home_wf accounted_deferred_home)

theorem slot_operations_keep_table_witness:
  "slots_wf 2 (snd (thread_slot 2 5 demo_slots)) \<and> accounted (snd (deferred_home 5 True demo_slots)) = 1"
proof -
  have "accounted demo_slots = 1"
    by (simp add: accounted_def parked_def demo_slots_def no_threads_def holds_failure_def new_thread_def)
  then show ?thesis
    using slot_operations_keep_table [OF demo_slots_wf, of 5 undefined True] by simp
qed

end
