(* ===== verification/Dispatch.thy ===== *)
theory Dispatch
  imports Recording
begin

text \<open>
  Running a request: the handlers of the server's own calls (\<^verbatim>\<open>server/main.cpp\<close>), and the cases of
  the generated dispatch (\<^verbatim>\<open>server/generated/dispatch.cpp\<close>) for every call the tracking and
  context code knows. A handler reads its arguments from the request buffer, calls the driver, and
  appends what the call returned to the reply buffer. The generated cases of the other driver calls
  and the library dispatchers are a parameter of the dispatch. Memory is not bounded in the model,
  so an allocation fails only where that parameter says so.
\<close>

type_synonym 'd answer = "CUresult \<times> buffer \<times> buffer \<times> 'd sv"
type_synonym 'd handler = "buffer \<Rightarrow> buffer \<Rightarrow> 'd sv \<Rightarrow> 'd answer"

section \<open>Reading arguments\<close>

text \<open>Every handler gives up with \<open>CUDA_ERROR_INVALID_VALUE\<close> at the first argument it cannot read.\<close>

definition take_field :: "(buffer \<Rightarrow> 'v option \<times> buffer) \<Rightarrow> ('v \<Rightarrow> 'd handler) \<Rightarrow> 'd handler" where
  "take_field get k req rsp s = (case get req of
       (None, req1) \<Rightarrow> (CUDA_ERROR_INVALID_VALUE, req1, rsp, s)
     | (Some v, req1) \<Rightarrow> k v req1 rsp s)"

definition get32 :: "(u32 \<Rightarrow> 'd handler) \<Rightarrow> 'd handler" where
  "get32 k = take_field (buf_get 4) k"

definition get64 :: "(u64 \<Rightarrow> 'd handler) \<Rightarrow> 'd handler" where
  "get64 k = take_field (buf_get 8) k"

definition get_has :: "(bool \<Rightarrow> 'd handler) \<Rightarrow> 'd handler" where
  "get_has k = take_field (buf_get 1) (\<lambda>has. k ((has :: byte) \<noteq> 0))"

text \<open>A flag and, if it is set, a byte string; the same with the 32 bytes of a
  \<open>CUmemAllocationProp\<close>.\<close>

definition get_opt_sized :: "buffer \<Rightarrow> byte list option option \<times> buffer" where
  "get_opt_sized b = (case buf_get 1 b of
       (None, b1) \<Rightarrow> (None, b1)
     | (Some has, b1) \<Rightarrow> (if (has :: byte) = 0 then (Some None, b1)
         else (case get_sized b1 of (None, b2) \<Rightarrow> (None, b2) | (Some p, b2) \<Rightarrow> (Some (Some p), b2))))"

definition get_prop :: "buffer \<Rightarrow> byte list option option \<times> buffer" where
  "get_prop b = (case buf_get 1 b of
       (None, b1) \<Rightarrow> (None, b1)
     | (Some has, b1) \<Rightarrow> (if (has :: byte) = 0 then (Some None, b1)
         else (case get_bytes 32 b1 of (None, b2) \<Rightarrow> (None, b2) | (Some p, b2) \<Rightarrow> (Some (Some p), b2))))"

text \<open>What a call wrote through its out-pointers: the k-th value, or the zero it was set to before.\<close>

definition out_at :: "nat \<Rightarrow> u64 list \<Rightarrow> u64" where
  "out_at k outs = (if k < length outs then outs ! k else 0)"

section \<open>The server's own calls\<close>

function param_slots :: "'d driver \<Rightarrow> u64 \<Rightarrow> nat \<Rightarrow> (u64 \<times> u64) list \<Rightarrow> 'd sv
    \<Rightarrow> (CUresult + (u64 \<times> u64) list) \<times> 'd sv" where
  "param_slots drv f i slots s = (case sv_call drv (FuncGetParamInfo f (of_nat i)) s of ((r, outs), s1) \<Rightarrow>
     (if r = CUDA_ERROR_INVALID_VALUE then (Inr slots, s1)
      else if r \<noteq> CUDA_SUCCESS then (Inl r, s1)
      else if i > 1024 then (Inl CUDA_ERROR_INVALID_VALUE, s1)
      else param_slots drv f (Suc i) (slots @ [(out_at 0 outs, out_at 1 outs)]) s1))"
  by auto
termination by (relation "measure (\<lambda>(drv, f, i, slots, s). 1026 - i)") auto

declare param_slots.simps [simp del]

definition put_pair :: "u64 \<times> u64 \<Rightarrow> buffer \<Rightarrow> buffer" where
  "put_pair p b = buf_put 8 (snd p) (buf_put 8 (fst p) b)"

definition handle_param_layout :: "'d driver \<Rightarrow> 'd handler" where
  "handle_param_layout drv = get64 (\<lambda>f req rsp s. case param_slots drv f 0 [] s of
       (Inl r, s1) \<Rightarrow> (r, req, rsp, s1)
     | (Inr slots, s1) \<Rightarrow>
         (CUDA_SUCCESS, req, put_all put_pair slots (buf_put 4 (of_nat (length slots) :: u32) rsp), s1))"

definition handle_launch :: "'d driver \<Rightarrow> 'd handler" where
  "handle_launch drv = get64 (\<lambda>f. get32 (\<lambda>gx. get32 (\<lambda>gy. get32 (\<lambda>gz. get32 (\<lambda>bx. get32 (\<lambda>b2.
     get32 (\<lambda>bz. get32 (\<lambda>shmem. get64 (\<lambda>stream. take_field get_sized (\<lambda>args req rsp s.
       case sv_call drv (LaunchKernel f [gx, gy, gz, bx, b2, bz, shmem] stream
                           (if args = [] then None else Some args)) s of
         ((r, _), s1) \<Rightarrow> (r, req, rsp, s1)))))))))))"

text \<open>The driver's dependency array has as many entries as the count it gives, and is empty where
  it hands out none.\<close>

definition handle_capture_info :: "'d driver \<Rightarrow> 'd handler" where
  "handle_capture_info drv = get64 (\<lambda>stream. get_has (\<lambda>want_deps req rsp s.
     case sv_call drv (StreamGetCaptureInfo stream want_deps) s of ((r, outs), s1) \<Rightarrow>
       (if r \<noteq> CUDA_SUCCESS then (r, req, rsp, s1)
        else (let rsp1 = buf_put 8 (out_at 3 outs) (buf_put 8 (out_at 2 outs) (buf_put 8 (out_at 1 outs)
                           (buf_put 4 (ucast (out_at 0 outs) :: u32) rsp)))
              in (CUDA_SUCCESS, req,
                  (if want_deps then put_sized (concat (map (le_enc 8) (drop 4 outs))) rsp1 else rsp1), s1)))))"

definition kMaxGraphNodes :: u64 where "kMaxGraphNodes = push_bit 24 1"

text \<open>The count comes back first, then the nodes the driver stored; an entry it left is null. With no room
  the vector is empty and its \<open>data()\<close> null, as the standard libraries this is built with have it, which
  asks the driver for the count alone.\<close>

definition graph_nodes_into :: "'d driver \<Rightarrow> u64 \<Rightarrow> bool \<Rightarrow> u64 \<Rightarrow> 'd handler" where
  "graph_nodes_into drv graph want_nodes capacity req rsp s =
     (let room = (if want_nodes then unat capacity else 0) in
      case sv_call drv (GraphGetNodes graph (if room = 0 then None else Some (of_nat room))) s of
        ((r, outs), s1) \<Rightarrow>
          (if r \<noteq> CUDA_SUCCESS then (r, req, rsp, s1)
           else (let n = (case outs of [] \<Rightarrow> of_nat room | x # _ \<Rightarrow> x);
                     nodes = take room (drop 1 outs @ replicate room 0);
                     rsp1 = buf_put 8 n rsp
                 in (CUDA_SUCCESS, req,
                     (if want_nodes then put_sized (concat (map (le_enc 8) (take (unat n) nodes))) rsp1
                      else rsp1), s1))))"

definition handle_graph_nodes :: "'d driver \<Rightarrow> 'd handler" where
  "handle_graph_nodes drv = get64 (\<lambda>graph. get_has (\<lambda>want_nodes. get64 (\<lambda>capacity req rsp s.
     if capacity > kMaxGraphNodes then (CUDA_ERROR_INVALID_VALUE, req, rsp, s)
     else if want_nodes \<and> capacity > 0 then
       (case sv_call drv (GraphGetNodes graph None) s of ((r, outs), s1) \<Rightarrow>
          (if r \<noteq> CUDA_SUCCESS then (r, req, rsp, s1)
           else graph_nodes_into drv graph want_nodes
                  (if capacity > out0 outs then out0 outs else capacity) req rsp s1))
     else graph_nodes_into drv graph want_nodes capacity req rsp s)))"

definition handle_capture_mode :: "'d driver \<Rightarrow> 'd handler" where
  "handle_capture_mode drv = get32 (\<lambda>wanted req rsp s.
     case client_threads_exchange_capture_mode drv wanted (sv_threads s, sv_world s) of
       ((r, old), (ts, w)) \<Rightarrow>
         (let s1 = s\<lparr> sv_threads := ts, sv_world := w \<rparr> in
          if r \<noteq> CUDA_SUCCESS then (r, req, rsp, s1) else (CUDA_SUCCESS, req, buf_put 4 old rsp, s1)))"

definition handle_hello :: "'d driver \<Rightarrow> 'd handler" where
  "handle_hello drv req rsp s = (case sv_call drv DriverGetVersion s of ((_, outs), s1) \<Rightarrow>
     (CUDA_SUCCESS, req, buf_put 4 (ucast (out0 outs) :: u32) rsp, s1))"

fun device_attrs :: "'d driver \<Rightarrow> int \<Rightarrow> nat \<Rightarrow> 'd handler" where
  "device_attrs drv dev 0 req rsp s = (CUDA_SUCCESS, req, rsp, s)"
| "device_attrs drv dev (Suc n) req rsp s = (case buf_get 4 req of
       (None, req1) \<Rightarrow> (CUDA_ERROR_INVALID_VALUE, req1, rsp, s)
     | (Some attr, req1) \<Rightarrow>
         (case sv_call drv (DeviceGetAttribute attr dev) s of ((r, outs), s1) \<Rightarrow>
            device_attrs drv dev n req1
              (buf_put 4 (if r = CUDA_SUCCESS then ucast (out0 outs) else 0 :: u32)
                 (buf_put 1 (if r = CUDA_SUCCESS then 1 else 0 :: byte) rsp)) s1))"

definition handle_device_attrs :: "'d driver \<Rightarrow> 'd handler" where
  "handle_device_attrs drv = get32 (\<lambda>dev. get32 (\<lambda>count req rsp s.
     if count > 4096 then (CUDA_ERROR_INVALID_VALUE, req, rsp, s)
     else device_attrs drv (sint dev) (unat count) req rsp s))"

definition API_rgpu_param_layout :: u32 where "API_rgpu_param_layout = kInternalBase + 1"
definition API_rgpu_launch :: u32 where "API_rgpu_launch = kInternalBase + 2"
definition API_rgpu_hello :: u32 where "API_rgpu_hello = kInternalBase + 3"
definition API_rgpu_capture_info :: u32 where "API_rgpu_capture_info = kInternalBase + 4"
definition API_rgpu_graph_nodes :: u32 where "API_rgpu_graph_nodes = kInternalBase + 5"
definition API_rgpu_capture_mode :: u32 where "API_rgpu_capture_mode = kInternalBase + 6"
definition API_rgpu_thread_gone :: u32 where "API_rgpu_thread_gone = kInternalBase + 7"
definition API_rgpu_device_attrs :: u32 where "API_rgpu_device_attrs = kInternalBase + 8"

definition dispatch_internal :: "'d driver \<Rightarrow> u32 \<Rightarrow> 'd handler option" where
  "dispatch_internal drv api =
     (if api = API_rgpu_param_layout then Some (handle_param_layout drv)
      else if api = API_rgpu_launch then Some (handle_launch drv)
      else if api = API_rgpu_hello then Some (handle_hello drv)
      else if api = API_rgpu_capture_info then Some (handle_capture_info drv)
      else if api = API_rgpu_graph_nodes then Some (handle_graph_nodes drv)
      else if api = API_rgpu_capture_mode then Some (handle_capture_mode drv)
      else if api = API_rgpu_device_attrs then Some (handle_device_attrs drv)
      else None)"

section \<open>The generated dispatch\<close>

text \<open>
  Every case resolves its entry point after reading its arguments, answers unsupported when there
  is none, and otherwise appends each out-value that was asked for, whatever the call's result.
\<close>

fun put_outs :: "(bool \<times> nat) list \<Rightarrow> u64 list \<Rightarrow> buffer \<Rightarrow> buffer" where
  "put_outs [] outs b = b"
| "put_outs ((has, bytes) # ws) outs b =
     (if has then put_outs ws (tl outs) (buf_put bytes (out0 outs) b) else put_outs ws outs b)"

definition invoke :: "'d driver \<Rightarrow> nat \<Rightarrow> drv_call \<Rightarrow> (bool \<times> nat) list \<Rightarrow> 'd handler" where
  "invoke drv depth c wanted req rsp s =
     (if driver_sym drv (call_sym c) = None then (CUDA_ERROR_NOT_SUPPORTED, req, rsp, s)
      else case tracked_call drv depth c s of ((r, outs), s1) \<Rightarrow> (r, req, put_outs wanted outs rsp, s1))"

definition d_cuCtxSetCurrent :: "'d driver \<Rightarrow> nat \<Rightarrow> 'd handler" where
  "d_cuCtxSetCurrent drv depth = get64 (\<lambda>ctx. invoke drv depth (CtxSetCurrent ctx) [])"

definition d_cuCtxGetCurrent :: "'d driver \<Rightarrow> nat \<Rightarrow> 'd handler" where
  "d_cuCtxGetCurrent drv depth = get_has (\<lambda>has.
     invoke drv depth (if has then CtxGetCurrent else CtxGetCurrentNull) [(has, 8)])"

definition d_cuCtxPushCurrent_v2 :: "'d driver \<Rightarrow> nat \<Rightarrow> 'd handler" where
  "d_cuCtxPushCurrent_v2 drv depth = get64 (\<lambda>ctx. invoke drv depth (CtxPushCurrent ctx) [])"

definition d_cuCtxPopCurrent_v2 :: "'d driver \<Rightarrow> nat \<Rightarrow> 'd handler" where
  "d_cuCtxPopCurrent_v2 drv depth = get_has (\<lambda>has.
     invoke drv depth (CtxPopCurrent has) [(has, 8)])"

definition d_cuCtxCreate_v2 :: "'d driver \<Rightarrow> nat \<Rightarrow> 'd handler" where
  "d_cuCtxCreate_v2 drv depth = get_has (\<lambda>has. get32 (\<lambda>flags. get32 (\<lambda>dev.
     invoke drv depth (CtxCreate has flags (sint dev)) [(has, 8)])))"

definition d_cuCtxDestroy_v2 :: "'d driver \<Rightarrow> nat \<Rightarrow> 'd handler" where
  "d_cuCtxDestroy_v2 drv depth = get64 (\<lambda>ctx. invoke drv depth (CtxDestroy ctx) [])"

definition d_cuCtxDetach :: "'d driver \<Rightarrow> nat \<Rightarrow> 'd handler" where
  "d_cuCtxDetach drv depth = get64 (\<lambda>ctx. invoke drv depth (CtxDetach ctx) [])"

definition d_cuCtxSynchronize :: "'d driver \<Rightarrow> nat \<Rightarrow> 'd handler" where
  "d_cuCtxSynchronize drv depth = invoke drv depth (CtxSynchronize) []"

definition d_cuDevicePrimaryCtxRetain :: "'d driver \<Rightarrow> nat \<Rightarrow> 'd handler" where
  "d_cuDevicePrimaryCtxRetain drv depth = get_has (\<lambda>has. get32 (\<lambda>dev.
     invoke drv depth (PrimaryCtxRetain has (sint dev)) [(has, 8)]))"

definition d_cuDevicePrimaryCtxRelease_v2 :: "'d driver \<Rightarrow> nat \<Rightarrow> 'd handler" where
  "d_cuDevicePrimaryCtxRelease_v2 drv depth = get32 (\<lambda>dev.
     invoke drv depth (PrimaryCtxRelease (sint dev)) [])"

definition d_cuDevicePrimaryCtxReset_v2 :: "'d driver \<Rightarrow> nat \<Rightarrow> 'd handler" where
  "d_cuDevicePrimaryCtxReset_v2 drv depth = get32 (\<lambda>dev.
     invoke drv depth (PrimaryCtxReset (sint dev)) [])"

definition d_cuMemMap :: "'d driver \<Rightarrow> nat \<Rightarrow> 'd handler" where
  "d_cuMemMap drv depth = get64 (\<lambda>p. get64 (\<lambda>n. get64 (\<lambda>offset. get64 (\<lambda>h. get64 (\<lambda>flags.
     invoke drv depth (MemMap p n offset h flags) [])))))"

definition d_cuStreamBeginCapture_v2 :: "'d driver \<Rightarrow> nat \<Rightarrow> 'd handler" where
  "d_cuStreamBeginCapture_v2 drv depth = get64 (\<lambda>stream. get32 (\<lambda>mode.
     invoke drv depth (StreamBeginCapture stream mode) []))"

definition d_cuMemAlloc_v2 :: "'d driver \<Rightarrow> nat \<Rightarrow> 'd handler" where
  "d_cuMemAlloc_v2 drv depth = get_has (\<lambda>has. get64 (\<lambda>n.
     invoke drv depth (Make has (MemAlloc n)) [(has, 8)]))"

definition d_cuMemAllocPitch_v2 :: "'d driver \<Rightarrow> nat \<Rightarrow> 'd handler" where
  "d_cuMemAllocPitch_v2 drv depth = get_has (\<lambda>has. get_has (\<lambda>pitch. get64 (\<lambda>wd. get64 (\<lambda>ht. get32 (\<lambda>elem.
     invoke drv depth (Make has (MemAllocPitch pitch wd ht elem)) [(has, 8), (pitch, 8)])))))"

definition d_cuMemAllocAsync :: "'d driver \<Rightarrow> nat \<Rightarrow> 'd handler" where
  "d_cuMemAllocAsync drv depth = get_has (\<lambda>has. get64 (\<lambda>n. get64 (\<lambda>stream.
     invoke drv depth (Make has (MemAllocAsync n stream)) [(has, 8)])))"

definition d_cuMemAllocFromPoolAsync :: "'d driver \<Rightarrow> nat \<Rightarrow> 'd handler" where
  "d_cuMemAllocFromPoolAsync drv depth = get_has (\<lambda>has. get64 (\<lambda>n. get64 (\<lambda>pool. get64 (\<lambda>stream.
     invoke drv depth (Make has (MemAllocFromPoolAsync n pool stream)) [(has, 8)]))))"

definition d_cuModuleLoad :: "'d driver \<Rightarrow> nat \<Rightarrow> 'd handler" where
  "d_cuModuleLoad drv depth = get_has (\<lambda>has. take_field get_str (\<lambda>fname.
     invoke drv depth (Make has (ModuleLoad fname)) [(has, 8)]))"

definition d_cuModuleLoadData :: "'d driver \<Rightarrow> nat \<Rightarrow> 'd handler" where
  "d_cuModuleLoadData drv depth = get_has (\<lambda>has. take_field get_opt_sized (\<lambda>img.
     invoke drv depth (Make has (ModuleLoadData img)) [(has, 8)]))"

definition d_cuModuleLoadFatBinary :: "'d driver \<Rightarrow> nat \<Rightarrow> 'd handler" where
  "d_cuModuleLoadFatBinary drv depth = get_has (\<lambda>has. take_field get_opt_sized (\<lambda>img.
     invoke drv depth (Make has (ModuleLoadFatBinary img)) [(has, 8)]))"

definition d_cuLibraryLoadData :: "'d driver \<Rightarrow> nat \<Rightarrow> 'd handler" where
  "d_cuLibraryLoadData drv depth = get_has (\<lambda>has. take_field get_opt_sized (\<lambda>code. get32 (\<lambda>jit. get32 (\<lambda>libs.
     invoke drv depth (Make has (LibraryLoadData code jit libs)) [(has, 8)]))))"

definition d_cuMemAddressReserve :: "'d driver \<Rightarrow> nat \<Rightarrow> 'd handler" where
  "d_cuMemAddressReserve drv depth = get_has (\<lambda>has. get64 (\<lambda>n. get64 (\<lambda>align. get64 (\<lambda>addr. get64 (\<lambda>flags.
     invoke drv depth (Make has (MemAddressReserve n align addr flags)) [(has, 8)])))))"

definition d_cuMemCreate :: "'d driver \<Rightarrow> nat \<Rightarrow> 'd handler" where
  "d_cuMemCreate drv depth = get_has (\<lambda>has. get64 (\<lambda>n. take_field get_prop (\<lambda>prop. get64 (\<lambda>flags.
     invoke drv depth (Make has (MemCreate n prop flags)) [(has, 8)]))))"

definition d_cuStreamCreate :: "'d driver \<Rightarrow> nat \<Rightarrow> 'd handler" where
  "d_cuStreamCreate drv depth = get_has (\<lambda>has. get32 (\<lambda>flags.
     invoke drv depth (Make has (StreamCreate flags)) [(has, 8)]))"

definition d_cuStreamCreateWithPriority :: "'d driver \<Rightarrow> nat \<Rightarrow> 'd handler" where
  "d_cuStreamCreateWithPriority drv depth = get_has (\<lambda>has. get32 (\<lambda>flags. get32 (\<lambda>prio.
     invoke drv depth (Make has (StreamCreateWithPriority flags prio)) [(has, 8)])))"

definition d_cuEventCreate :: "'d driver \<Rightarrow> nat \<Rightarrow> 'd handler" where
  "d_cuEventCreate drv depth = get_has (\<lambda>has. get32 (\<lambda>flags.
     invoke drv depth (Make has (EventCreate flags)) [(has, 8)]))"

definition d_cuGraphCreate :: "'d driver \<Rightarrow> nat \<Rightarrow> 'd handler" where
  "d_cuGraphCreate drv depth = get_has (\<lambda>has. get32 (\<lambda>flags.
     invoke drv depth (Make has (GraphCreate flags)) [(has, 8)]))"

definition d_cuStreamEndCapture :: "'d driver \<Rightarrow> nat \<Rightarrow> 'd handler" where
  "d_cuStreamEndCapture drv depth = get64 (\<lambda>stream. get_has (\<lambda>has.
     invoke drv depth (Make has (StreamEndCapture stream)) [(has, 8)]))"

definition d_cuGraphInstantiateWithFlags :: "'d driver \<Rightarrow> nat \<Rightarrow> 'd handler" where
  "d_cuGraphInstantiateWithFlags drv depth = get_has (\<lambda>has. get64 (\<lambda>g. get64 (\<lambda>flags.
     invoke drv depth (Make has (GraphInstantiateWithFlags g flags)) [(has, 8)])))"

definition d_cuGraphClone :: "'d driver \<Rightarrow> nat \<Rightarrow> 'd handler" where
  "d_cuGraphClone drv depth = get_has (\<lambda>has. get64 (\<lambda>g.
     invoke drv depth (Make has (GraphClone g)) [(has, 8)]))"

definition d_cuMemFree_v2 :: "'d driver \<Rightarrow> nat \<Rightarrow> 'd handler" where
  "d_cuMemFree_v2 drv depth = get64 (\<lambda>p. invoke drv depth (Give (MemFree p)) [])"

definition d_cuMemFreeAsync :: "'d driver \<Rightarrow> nat \<Rightarrow> 'd handler" where
  "d_cuMemFreeAsync drv depth = get64 (\<lambda>p. get64 (\<lambda>stream.
     invoke drv depth (Give (MemFreeAsync p stream)) []))"

definition d_cuModuleUnload :: "'d driver \<Rightarrow> nat \<Rightarrow> 'd handler" where
  "d_cuModuleUnload drv depth = get64 (\<lambda>md. invoke drv depth (Give (ModuleUnload md)) [])"

definition d_cuLibraryUnload :: "'d driver \<Rightarrow> nat \<Rightarrow> 'd handler" where
  "d_cuLibraryUnload drv depth = get64 (\<lambda>lib. invoke drv depth (Give (LibraryUnload lib)) [])"

definition d_cuMemAddressFree :: "'d driver \<Rightarrow> nat \<Rightarrow> 'd handler" where
  "d_cuMemAddressFree drv depth = get64 (\<lambda>p. get64 (\<lambda>n.
     invoke drv depth (Give (MemAddressFree p n)) []))"

definition d_cuMemRelease :: "'d driver \<Rightarrow> nat \<Rightarrow> 'd handler" where
  "d_cuMemRelease drv depth = get64 (\<lambda>h. invoke drv depth (Give (MemRelease h)) [])"

definition d_cuMemUnmap :: "'d driver \<Rightarrow> nat \<Rightarrow> 'd handler" where
  "d_cuMemUnmap drv depth = get64 (\<lambda>p. get64 (\<lambda>n.
     invoke drv depth (Give (MemUnmap p n)) []))"

definition d_cuStreamDestroy_v2 :: "'d driver \<Rightarrow> nat \<Rightarrow> 'd handler" where
  "d_cuStreamDestroy_v2 drv depth = get64 (\<lambda>stream.
     invoke drv depth (Give (StreamDestroy stream)) [])"

definition d_cuEventDestroy_v2 :: "'d driver \<Rightarrow> nat \<Rightarrow> 'd handler" where
  "d_cuEventDestroy_v2 drv depth = get64 (\<lambda>ev. invoke drv depth (Give (EventDestroy ev)) [])"

definition d_cuGraphDestroy :: "'d driver \<Rightarrow> nat \<Rightarrow> 'd handler" where
  "d_cuGraphDestroy drv depth = get64 (\<lambda>g. invoke drv depth (Give (GraphDestroy g)) [])"

definition d_cuGraphExecDestroy :: "'d driver \<Rightarrow> nat \<Rightarrow> 'd handler" where
  "d_cuGraphExecDestroy drv depth = get64 (\<lambda>ex.
     invoke drv depth (Give (GraphExecDestroy ex)) [])"

definition generated_cases :: "'d driver \<Rightarrow> nat \<Rightarrow> (u32 \<times> 'd handler) list" where
  "generated_cases drv depth =
    [(44, d_cuCtxSetCurrent drv depth),
     (30, d_cuCtxGetCurrent drv depth),
     (40, d_cuCtxPushCurrent_v2 drv depth),
     (39, d_cuCtxPopCurrent_v2 drv depth),
     (20, d_cuCtxCreate_v2 drv depth),
     (23, d_cuCtxDestroy_v2 drv depth),
     (24, d_cuCtxDetach drv depth),
     (48, d_cuCtxSynchronize drv depth),
     (78, d_cuDevicePrimaryCtxRetain drv depth),
     (76, d_cuDevicePrimaryCtxRelease_v2 drv depth),
     (77, d_cuDevicePrimaryCtxReset_v2 drv depth),
     (273, d_cuMemMap drv depth),
     (375, d_cuStreamBeginCapture_v2 drv depth),
     (254, d_cuMemAlloc_v2 drv depth),
     (253, d_cuMemAllocPitch_v2 drv depth),
     (249, d_cuMemAllocAsync drv depth),
     (250, d_cuMemAllocFromPoolAsync drv depth),
     (344, d_cuModuleLoad drv depth),
     (345, d_cuModuleLoadData drv depth),
     (347, d_cuModuleLoadFatBinary drv depth),
     (237, d_cuLibraryLoadData drv depth),
     (246, d_cuMemAddressReserve drv depth),
     (256, d_cuMemCreate drv depth),
     (377, d_cuStreamCreate drv depth),
     (378, d_cuStreamCreateWithPriority drv depth),
     (86, d_cuEventCreate drv depth),
     (134, d_cuGraphCreate drv depth),
     (380, d_cuStreamEndCapture drv depth),
     (166, d_cuGraphInstantiateWithFlags drv depth),
     (132, d_cuGraphClone drv depth),
     (260, d_cuMemFree_v2 drv depth),
     (258, d_cuMemFreeAsync drv depth),
     (348, d_cuModuleUnload drv depth),
     (239, d_cuLibraryUnload drv depth),
     (245, d_cuMemAddressFree drv depth),
     (290, d_cuMemRelease drv depth),
     (293, d_cuMemUnmap drv depth),
     (379, d_cuStreamDestroy_v2 drv depth),
     (87, d_cuEventDestroy_v2 drv depth),
     (136, d_cuGraphDestroy drv depth),
     (144, d_cuGraphExecDestroy drv depth)]"

definition dispatch_generated :: "'d driver \<Rightarrow> nat \<Rightarrow> u32 \<Rightarrow> 'd handler option" where
  "dispatch_generated drv depth api = map_of (generated_cases drv depth) api"

section \<open>The whole dispatch\<close>

text \<open>How a request's dispatch ended: by answering, by running out of memory, or with another
  exception. A thrown one keeps what the call had done.\<close>

datatype 'd outcome = Answered "'d answer" | Bad_alloc buffer "'d sv" | Threw buffer "'d sv"

text \<open>\<open>libs\<close> stands for the library dispatchers, which are asked first, and \<open>rest\<close> for the generated
  cases not modelled here.\<close>

type_synonym 'd dispatcher = "u32 \<Rightarrow> buffer \<Rightarrow> buffer \<Rightarrow> 'd sv \<Rightarrow> 'd outcome option"

definition dispatch ::
    "'d driver \<Rightarrow> nat \<Rightarrow> 'd dispatcher \<Rightarrow> 'd dispatcher \<Rightarrow> u32 \<Rightarrow> buffer \<Rightarrow> 'd sv \<Rightarrow> 'd outcome option" where
  "dispatch drv depth libs rest api req s =
     (case dispatch_internal drv api of
        Some h \<Rightarrow> Some (Answered (h req empty_buffer s))
      | None \<Rightarrow> (case libs api req empty_buffer s of
          Some out \<Rightarrow> Some out
        | None \<Rightarrow> (case dispatch_generated drv depth api of
            Some h \<Rightarrow> Some (Answered (h req empty_buffer s))
          | None \<Rightarrow> rest api req empty_buffer s)))"

text \<open>A server built without the libraries, asked for a call with no case.\<close>

definition nothing_more :: "'d dispatcher" where
  "nothing_more api req rsp s = None"

end
