(* ===== verification/Ledger.thy ===== *)
theory Ledger
  imports Slots Dispatch
begin

text \<open>
  What a request's dispatch leaves alone: which client threads have a slot, the failure held in
  each, and the counters. The serving loop relies on it as the locale \<open>table_keeper\<close>, which is
  interpreted on the dispatch of \<open>Dispatch\<close>. Also, a request with missing arguments changes
  nothing in a generated case.
\<close>

section \<open>The ledger of held failures\<close>

definition ledger :: "client_threads \<Rightarrow> (u32 \<times> CUresult) list \<times> (u32 \<times> CUresult) list \<times> u64 \<times> u64" where
  "ledger ts = (map (apsnd ct_pending_async) (ts_live ts), map (apsnd ct_pending_async) (ts_retired ts),
     ts_held_failures ts, ts_unreported_failures ts)"

definition knows :: "u32 \<Rightarrow> client_threads \<Rightarrow> bool" where
  "knows tid ts \<longleftrightarrow> map_of (ts_live ts) tid \<noteq> None"

definition caller_known :: "client_threads \<Rightarrow> bool" where
  "caller_known ts \<longleftrightarrow> (case ts_caller ts of None \<Rightarrow> True | Some tid \<Rightarrow> knows tid ts)"

definition kept :: "client_threads \<Rightarrow> client_threads \<Rightarrow> bool" where
  "kept ts ts' \<longleftrightarrow> ledger ts' = ledger ts \<and> ts_caller ts' = ts_caller ts"

named_theorems keeps \<open>operations that leave the ledger and the caller alone\<close>

lemma kept_refl [simp, keeps]: "kept ts ts"
  by (simp add: kept_def)

lemma kept_trans [trans]: "kept a b \<Longrightarrow> kept b c \<Longrightarrow> kept a c"
  by (simp add: kept_def)

lemma ledger_fields [simp]:
  "ledger (ts\<lparr> ts_applied := a \<rparr>) = ledger ts" "ledger (ts\<lparr> ts_applied_mode := m \<rparr>) = ledger ts"
  "ledger (ts\<lparr> ts_caller := c \<rparr>) = ledger ts"
  by (simp_all add: ledger_def)

lemma kept_applied [simp]:
  "kept a (b\<lparr> ts_applied := x \<rparr>) = kept a b" "kept a (b\<lparr> ts_applied_mode := m \<rparr>) = kept a b"
  "kept (a\<lparr> ts_applied := x \<rparr>) b = kept a b" "kept (a\<lparr> ts_applied_mode := m \<rparr>) b = kept a b"
  by (simp_all add: kept_def)

lemma knows_fields [simp]:
  "knows tid (ts\<lparr> ts_applied := a \<rparr>) = knows tid ts" "knows tid (ts\<lparr> ts_applied_mode := m \<rparr>) = knows tid ts"
  "knows tid (ts\<lparr> ts_caller := c \<rparr>) = knows tid ts" "knows tid (put_slot j t ts) = (j = tid \<or> knows tid ts)"
  by (auto simp: knows_def)

lemma map_fst_pending: "map fst (map (apsnd f) al) = map fst al"
  by (induction al) auto

lemma ledger_keys:
  assumes "ledger a = ledger b"
  shows "map fst (ts_live a) = map fst (ts_live b)" "map fst (ts_retired a) = map fst (ts_retired b)"
  using assms unfolding ledger_def by (metis map_fst_pending Pair_inject)+

lemma knows_keys: "knows tid ts \<longleftrightarrow> tid \<in> set (map fst (ts_live ts))"
  by (simp add: knows_def map_of_eq_None_iff)

lemma kept_knows: "kept a b \<Longrightarrow> knows tid b = knows tid a"
  using ledger_keys [of b a] by (simp add: kept_def knows_keys del: set_map)

lemma kept_caller: "kept a b \<Longrightarrow> caller_known b = caller_known a"
  using kept_knows [of a b] by (simp add: caller_known_def kept_def split: option.split)

lemma pending_update:
  "map_of al k = Some u \<Longrightarrow> ct_pending_async t = ct_pending_async u \<Longrightarrow>
   map (apsnd ct_pending_async) (AList.update k t al) = map (apsnd ct_pending_async) al"
  by (induction al) (auto split: if_splits)

lemma kept_put [keeps]:
  assumes "knows tid ts" and "ct_pending_async t = ct_pending_async (the_slot ts tid)"
  shows "kept ts (put_slot tid t ts)"
  using assms by (auto simp: knows_def the_slot_def kept_def ledger_def put_slot_def pending_update)

lemma kept_put_then:
  assumes "kept (put_slot tid t ts) ts'" and "knows tid ts" and "ct_pending_async t = ct_pending_async (the_slot ts tid)"
  shows "kept ts ts'"
  using kept_trans [OF kept_put [OF assms(2,3)] assms(1)] .

lemma pending_sweep [simp]: "ct_pending_async (sweep_one ctx t) = ct_pending_async t"
  by (simp add: sweep_one_def)

lemma kept_sweep [keeps]: "kept ts (sweep ctx ts)"
  by (simp add: kept_def ledger_def sweep_def apsnd_compose)

section \<open>The context operations\<close>

lemma kept_read_back [keeps]: "kept ts (fst (read_back drv (ts, w)))"
  by (simp add: read_back_def split: prod.split)

lemma kept_clear_loop: "kept (fst s) (fst (snd (clear_loop drv n r s)))"
proof (induction n arbitrary: r s)
  case (Suc n)
  obtain ts w where s: "s = (ts, w)" by (cases s)
  obtain r' w1 where c: "set_current drv 0 w = (r', w1)" by fastforce
  obtain q now w2 where d: "driver_current drv w1 = (q, now, w2)" by (metis prod_cases3)
  let ?ts = "ts\<lparr> ts_applied := (if now \<noteq> 0 then saved now else no_context) \<rparr>"
  have "kept ts (fst (snd (clear_loop drv n r' (?ts, w2))))" using Suc [of "(?ts, w2)" r'] by simp
  then show ?case by (auto simp: s c d Let_def)
qed simp

lemma kept_clear [keeps]: "kept (fst s) (fst (snd (clear drv s)))"
  using kept_clear_loop [of s drv kMaxDepth CUDA_SUCCESS]
  by (cases "clear_loop drv kMaxDepth CUDA_SUCCESS s") (auto simp: clear_def split: prod.splits)

lemma kept_clear_pair: "clear drv (ts, w) = (r, ts', w') \<Longrightarrow> kept ts ts'"
  using kept_clear [of "(ts, w)" drv] by simp

lemma kept_read_back_pair: "read_back drv (ts, w) = (ts', w') \<Longrightarrow> kept ts ts'"
  using kept_read_back [of ts drv w] by simp

lemma kept_clear_read_back: "clear drv (read_back drv (ts, w)) = (r, ts', w') \<Longrightarrow> kept ts ts'"
  by (metis kept_clear kept_read_back kept_trans fst_conv snd_conv)

lemma kept_show_context: "knows tid ts \<Longrightarrow> show_context drv tid (ts, w) = (r, ts', w') \<Longrightarrow> kept ts ts'"
  by (auto simp: show_context_def Let_def split: if_splits prod.splits
    dest!: kept_clear_pair kept_clear_read_back elim!: kept_put_then)

lemma kept_show_mode: "show_capture_mode drv tid (ts, w) = (r, ts', w') \<Longrightarrow> kept ts ts'"
  by (auto simp: show_capture_mode_def Let_def split: if_splits prod.splits)

lemma kept_show: "knows tid ts \<Longrightarrow> client_thread_show drv tid (ts, w) = (r, ts', w') \<Longrightarrow> kept ts ts'"
  by (auto simp: client_thread_show_def split: if_splits prod.splits
    dest: kept_show_mode intro: kept_show_context kept_trans)

lemma kept_show_as_top:
  "knows tid ts \<Longrightarrow> show_as_top drv ctx tid st (ts, w) = (r, ts', w') \<Longrightarrow> kept ts ts'"
  by (auto simp: show_as_top_def split: if_splits prod.splits dest: kept_read_back_pair intro!: kept_put)

lemma kept_put_show:
  assumes "knows tid ts" and "ct_pending_async t = ct_pending_async (the_slot ts tid)"
    and "client_thread_show drv tid (put_slot tid t ts, w) = (r, ts', w')"
  shows "kept ts ts'"
  using kept_trans [OF kept_put [OF assms(1,2)] kept_show [OF _ assms(3)]] by simp

lemma caller_knows: "caller_known ts \<Longrightarrow> ts_caller ts = Some tid \<Longrightarrow> knows tid ts"
  by (simp add: caller_known_def)

lemma kept_SetCurrent:
  "caller_known ts \<Longrightarrow> w_cuCtxSetCurrent drv c (ts, w) = (r, ts', w') \<Longrightarrow> kept ts ts'"
  by (auto simp: w_cuCtxSetCurrent_def Let_def split: option.splits if_splits prod.splits
    dest: caller_knows kept_show_as_top elim!: kept_put_show [rotated 2])

lemma kept_PushCurrent:
  "caller_known ts \<Longrightarrow> w_cuCtxPushCurrent drv depth c (ts, w) = (r, ts', w') \<Longrightarrow> kept ts ts'"
  by (auto simp: w_cuCtxPushCurrent_def Let_def split: option.splits if_splits prod.splits
    dest: caller_knows kept_show_as_top)

lemma kept_PopCurrent:
  "caller_known ts \<Longrightarrow> w_cuCtxPopCurrent drv want (ts, w) = (r, ts', w') \<Longrightarrow> kept ts ts'"
  by (auto simp: w_cuCtxPopCurrent_def Let_def split: option.splits if_splits prod.splits
    dest: caller_knows kept_read_back_pair elim!: kept_put_show [rotated 2])

lemma kept_GetCurrent: "w_cuCtxGetCurrent drv want (ts, w) = (r, ts', w') \<Longrightarrow> kept ts ts'"
  by (auto simp: w_cuCtxGetCurrent_def Let_def split: if_splits prod.splits)

lemma kept_relax: "client_threads_relax_capture_mode drv (ts, w) = (ts', w') \<Longrightarrow> kept ts ts'"
  by (auto simp: client_threads_relax_capture_mode_def split: if_splits prod.splits)

lemma kept_exchange:
  "caller_known ts \<Longrightarrow> client_threads_exchange_capture_mode drv m (ts, w) = (r, ts', w') \<Longrightarrow> kept ts ts'"
  by (auto simp: client_threads_exchange_capture_mode_def Let_def split: option.splits if_splits prod.splits
    dest!: caller_knows intro!: kept_put)

lemma kept_after:
  "knows tid ts \<Longrightarrow> client_thread_after drv tid api res (ts, w) = (r, ts', w') \<Longrightarrow> kept ts ts'"
  by (auto simp: client_thread_after_def Let_def split: prod.splits if_splits intro!: kept_put)

lemma kept_created:
  "caller_known ts \<Longrightarrow> client_threads_created drv c (ts, w) = (ts', w') \<Longrightarrow> kept ts ts'"
  by (auto simp: client_threads_created_def Let_def split: option.splits if_splits
    dest!: caller_knows kept_read_back_pair elim!: kept_put_then)

lemma kept_leave: "kept (fst s) (fst (leave_context drv c s))"
proof -
  obtain ts w where s: "s = (ts, w)" by (cases s)
  have rb: "kept ts (fst (read_back drv s))" by (simp add: s kept_read_back)
  moreover have "kept ts (fst (snd (clear drv (read_back drv s))))"
    using rb kept_clear kept_trans by blast
  ultimately show ?thesis by (simp add: leave_context_def Let_def s)
qed

lemma kept_pop_destroyed: "caller_known ts \<Longrightarrow> kept ts (pop_destroyed c ts)"
  by (auto simp: pop_destroyed_def Let_def split: option.splits dest!: caller_knows intro!: kept_put)

lemma kept_destroyed:
  assumes "caller_known ts" and "client_threads_destroyed drv c (ts, w) = (ts', w')"
  shows "kept ts ts'"
proof (cases "c = 0")
  case False
  obtain ts1 w1 where l: "leave_context drv c (sweep c (pop_destroyed c ts), w) = (ts1, w1)" by fastforce
  have "kept (sweep c (pop_destroyed c ts)) ts1"
    using kept_leave [of "(sweep c (pop_destroyed c ts), w)" drv c] l by simp
  then have k: "kept ts ts1" using assms(1) by (meson kept_pop_destroyed kept_sweep kept_trans)
  show ?thesis
  proof (cases "ts_caller ts")
    case (Some tid)
    obtain r where "client_thread_show drv tid (ts1, w1) = (r, ts', w')"
      using assms(2) False l Some
      by (cases "client_thread_show drv tid (ts1, w1)") (auto simp: client_threads_destroyed_def)
    moreover have "knows tid ts1" using k caller_knows [OF assms(1) Some] by (simp add: kept_knows)
    ultimately show ?thesis using k kept_show kept_trans by blast
  qed (use assms(2) False l k in \<open>auto simp: client_threads_destroyed_def\<close>)
qed (use assms in \<open>auto simp: client_threads_destroyed_def\<close>)


section \<open>The dispatch\<close>

lemma sv_call_threads: "sv_call drv c s = (r, s') \<Longrightarrow> sv_threads s' = sv_threads s"
  using sv_call_frame [of drv c s r s'] by simp

lemma on_inv_threads [simp]: "sv_threads (on_inv f s) = sv_threads s"
  by (simp add: on_inv_def)

lemma on_proc_threads [simp]: "sv_threads (on_proc f s) = sv_threads s"
  by (simp add: on_proc_def)

lemma on_world_threads: "on_world f s = (a, s') \<Longrightarrow> sv_threads s' = sv_threads s"
  by (auto simp: on_world_def split: prod.splits)

lemma primary_ended_threads [simp]: "sv_threads (primary_ended dev s) = sv_threads s"
  by (simp add: primary_ended_def Let_def)

lemma take_stamp_threads: "take_stamp drv s = (st, s') \<Longrightarrow> sv_threads s' = sv_threads s"
  using take_stamp_spec(4) [of drv s st s'] .

lemma stamp_of_threads: "stamp_of drv w h s = (st, s') \<Longrightarrow> sv_threads s' = sv_threads s"
  by (auto simp: stamp_of_def split: option.splits prod.splits if_splits dest: take_stamp_threads)

lemma place_threads: "place drv pl s = (st, s') \<Longrightarrow> sv_threads s' = sv_threads s"
  by (auto simp: place_def split: placement.splits dest: take_stamp_threads stamp_of_threads)

lemmas threads_same = sv_call_threads take_stamp_threads stamp_of_threads place_threads on_world_threads

lemma creating_threads: "creating drv pl w want m s = (r, s') \<Longrightarrow> sv_threads s' = sv_threads s"
  by (auto simp: creating_def guarded_def split: prod.splits if_splits dest!: threads_same)

lemma releasing_threads: "releasing drv w h g s = (r, s') \<Longrightarrow> sv_threads s' = sv_threads s"
  by (auto simp: releasing_def guarded_def split: prod.splits if_splits dest!: threads_same)

lemma tracked_make_threads: "tracked_make drv want m s = (r, s') \<Longrightarrow> sv_threads s' = sv_threads s"
  by (cases m)
     (auto simp: w_cuMemAlloc_def w_cuMemAllocPitch_def w_cuMemAllocAsync_def w_cuMemAllocFromPoolAsync_def
       w_cuModuleLoad_def w_cuModuleLoadData_def w_cuModuleLoadFatBinary_def w_cuLibraryLoadData_def
       w_cuLibraryLoadFromFile_def w_cuMemCreate_def w_cuStreamCreate_def w_cuStreamCreateWithPriority_def
       w_cuEventCreate_def w_cuGraphCreate_def w_cuGraphInstantiateWithFlags_def w_cuGraphClone_def
       w_cuMemAddressReserve_def w_cuStreamEndCapture_def guarded_def Let_def
       split: prod.splits if_splits dest!: threads_same creating_threads)

lemma tracked_give_threads: "tracked_give drv g s = (r, s') \<Longrightarrow> sv_threads s' = sv_threads s"
  by (cases g)
     (auto simp: w_cuMemFree_def w_cuMemFreeAsync_def w_cuModuleUnload_def w_cuLibraryUnload_def
       w_cuMemAddressFree_def w_cuMemRelease_def w_cuMemUnmap_def w_cuStreamDestroy_def w_cuEventDestroy_def
       w_cuGraphDestroy_def w_cuGraphExecDestroy_def guarded_def Let_def
       split: prod.splits if_splits dest!: threads_same releasing_threads)

lemma on_stack_kept:
  assumes "\<And>r ts' w'. f (sv_threads s, sv_world s) = (r, ts', w') \<Longrightarrow> kept (sv_threads s) ts'"
    and "on_stack f s = (r, s')"
  shows "kept (sv_threads s) (sv_threads s')"
  using assms by (auto simp: on_stack_def split: prod.splits)

lemma on_threads_kept:
  assumes "\<And>ts' w'. f (sv_threads s, sv_world s) = (ts', w') \<Longrightarrow> kept (sv_threads s) ts'"
  shows "kept (sv_threads s) (sv_threads (on_threads f s))"
  using assms by (auto simp: on_threads_def split: prod.splits)

lemma no_outs_eq: "no_outs x = (r, ts, w) \<Longrightarrow> \<exists>q. x = (q, ts, w)"
  by (cases x) (auto simp: no_outs_def)

lemma destroying_kept:
  assumes "caller_known (sv_threads s)" and "destroying drv c ctx s = (r, s')"
  shows "kept (sv_threads s) (sv_threads s')"
proof -
  have "kept (sv_threads t) (sv_threads (on_threads (client_threads_destroyed drv ctx) (on_inv f t)))"
    if "sv_threads t = sv_threads s" for t f
    using on_threads_kept [of "client_threads_destroyed drv ctx" "on_inv f t"] that assms(1)
    by (simp add: kept_destroyed)
  then show ?thesis using assms(2)
    by (auto simp: destroying_def guarded_def split: prod.splits if_splits dest!: threads_same)
qed

lemma create_kept:
  assumes "caller_known (sv_threads s)" and "w_cuCtxCreate drv depth want flags dev s = (r, s')"
  shows "kept (sv_threads s) (sv_threads s')"
proof -
  have "kept (sv_threads t) (sv_threads (on_threads (client_threads_created drv c) (on_inv f t)))"
    if "sv_threads t = sv_threads s" for t f c
    using on_threads_kept [of "client_threads_created drv c" "on_inv f t"] that assms(1)
    by (simp add: kept_created)
  then show ?thesis using assms(2)
    by (auto simp: w_cuCtxCreate_def guarded_def split: prod.splits if_splits dest!: threads_same)
qed

lemma retain_threads: "w_cuDevicePrimaryCtxRetain drv want dev s = (r, s') \<Longrightarrow> sv_threads s' = sv_threads s"
  by (auto simp: w_cuDevicePrimaryCtxRetain_def guarded_def split: prod.splits if_splits dest!: threads_same)

lemma primary_threads:
  "w_cuDevicePrimaryCtxRelease drv dev s = (r, s') \<Longrightarrow> sv_threads s' = sv_threads s"
  "w_cuDevicePrimaryCtxReset drv dev s = (r, s') \<Longrightarrow> sv_threads s' = sv_threads s"
  by (auto simp: w_cuDevicePrimaryCtxRelease_def w_cuDevicePrimaryCtxReset_def guarded_def
    split: prod.splits if_splits dest!: threads_same)

lemma map_capture_threads:
  "w_cuMemMap drv p n off h flags s = (r, s') \<Longrightarrow> sv_threads s' = sv_threads s"
  "w_cuStreamBeginCapture drv st m s = (r, s') \<Longrightarrow> sv_threads s' = sv_threads s"
  by (auto simp: w_cuMemMap_def w_cuStreamBeginCapture_def guarded_def
    split: prod.splits if_splits dest!: threads_same)

lemma wrapped_call_kept:
  assumes known: "caller_known (sv_threads s)" and w: "wrapped_call drv depth c s = (r, s')"
  shows "kept (sv_threads s) (sv_threads s')"
proof -
  note same = sv_call_threads retain_threads primary_threads map_capture_threads
    tracked_make_threads tracked_give_threads
  show ?thesis
  proof (cases c)
    case (CtxSetCurrent x)
    then show ?thesis using w known
      by (auto elim!: on_stack_kept [rotated] dest!: no_outs_eq dest: kept_SetCurrent)
  next
    case (CtxPushCurrent x)
    then show ?thesis using w known
      by (auto elim!: on_stack_kept [rotated] dest!: no_outs_eq dest: kept_PushCurrent)
  next
    case (CtxPopCurrent x)
    then show ?thesis using w known by (auto elim!: on_stack_kept [rotated] dest: kept_PopCurrent)
  next
    case CtxGetCurrent
    then show ?thesis using w by (auto elim!: on_stack_kept [rotated] dest: kept_GetCurrent)
  next
    case CtxGetCurrentNull
    then show ?thesis using w by (auto elim!: on_stack_kept [rotated] dest: kept_GetCurrent)
  next
    case (CtxCreate a b d)
    then show ?thesis using w create_kept [OF known] by simp
  next
    case (CtxDestroy x)
    then show ?thesis using w destroying_kept [OF known] by (simp add: w_cuCtxDestroy_def)
  next
    case (CtxDetach x)
    then show ?thesis using w destroying_kept [OF known] by (simp add: w_cuCtxDetach_def)
  qed (use w in \<open>auto dest: same\<close>)
qed

lemma tracked_call_kept:
  "caller_known (sv_threads s) \<Longrightarrow> tracked_call drv depth c s = (r, s') \<Longrightarrow> kept (sv_threads s) (sv_threads s')"
  by (auto simp: tracked_call_def split: option.splits entry_point.splits dest: sv_call_threads wrapped_call_kept)


section \<open>Handlers\<close>

definition handler_keeps :: "'d handler \<Rightarrow> bool" where
  "handler_keeps h \<longleftrightarrow> (\<forall>req rsp s r req' rsp' s'. caller_known (sv_threads s) \<longrightarrow>
     h req rsp s = (r, req', rsp', s') \<longrightarrow> kept (sv_threads s) (sv_threads s'))"

definition reads_first :: "'d handler \<Rightarrow> bool" where
  "reads_first h \<longleftrightarrow> (\<forall>req rsp s r req' rsp' s'. bok req \<longrightarrow> h req rsp s = (r, req', rsp', s') \<longrightarrow>
     \<not> bok req' \<longrightarrow> r = CUDA_ERROR_INVALID_VALUE \<and> rsp' = rsp \<and> s' = s)"

text \<open>What a handler relies on in the reader of a field: a value read leaves the buffer good.\<close>

locale field_reader =
  fixes get :: "buffer \<Rightarrow> 'v option \<times> buffer"
  assumes read_ok: "get b = (Some v, b') \<Longrightarrow> bok b'"
begin

lemma take_field_reads: "(\<And>v. reads_first (k v)) \<Longrightarrow> reads_first (take_field get k)"
  unfolding reads_first_def take_field_def by (auto split: prod.splits option.splits dest: read_ok)

end

sublocale field_codec \<subseteq> reader: field_reader get
  by unfold_locales (metis get_ok fst_conv option.distinct(1) snd_conv)

lemma get_opt_sized_ok: "get_opt_sized b = (Some v, b') \<Longrightarrow> bok b'"
  by (auto simp: get_opt_sized_def simp del: One_nat_def split: prod.splits option.splits if_splits
    dest: u8_field.reader.read_ok sized_field.reader.read_ok)

interpretation opt_sized: field_reader get_opt_sized
  by unfold_locales (rule get_opt_sized_ok)

lemma get_prop_ok: "get_prop b = (Some v, b') \<Longrightarrow> bok b'"
  by (auto simp: get_prop_def get_bytes_ok simp del: One_nat_def split: prod.splits option.splits if_splits
    dest: u8_field.reader.read_ok)

interpretation prop_field: field_reader get_prop
  by unfold_locales (rule get_prop_ok)

lemma get_str_ok: "get_str b = (Some v, b') \<Longrightarrow> bok b'"
  by (auto simp: get_str_def simp del: One_nat_def split: prod.splits option.splits if_splits
    dest: u8_field.reader.read_ok sized_field.reader.read_ok)

interpretation str_field: field_reader get_str
  by unfold_locales (rule get_str_ok)

lemma reads_get:
  "(\<And>v. reads_first (k v)) \<Longrightarrow> reads_first (get32 k)" "(\<And>v. reads_first (k' v)) \<Longrightarrow> reads_first (get64 k')"
  "(\<And>v. reads_first (kb v)) \<Longrightarrow> reads_first (get_has kb)"
  by (simp_all add: get32_def get64_def get_has_def u32_field.reader.take_field_reads
    u64_field.reader.take_field_reads u8_field.reader.take_field_reads del: One_nat_def)

lemma reads_invoke: "reads_first (invoke drv depth c wanted)"
  by (auto simp: reads_first_def invoke_def split: if_splits prod.splits)

lemmas reads_intros = reads_get reads_invoke opt_sized.take_field_reads prop_field.take_field_reads
  str_field.take_field_reads

lemma keeps_take_field: "(\<And>v. handler_keeps (k v)) \<Longrightarrow> handler_keeps (take_field get k)"
  by (auto simp: handler_keeps_def take_field_def split: prod.splits option.splits)

lemma keeps_get:
  "(\<And>v. handler_keeps (k v)) \<Longrightarrow> handler_keeps (get32 k)" "(\<And>v. handler_keeps (k' v)) \<Longrightarrow> handler_keeps (get64 k')"
  "(\<And>v. handler_keeps (kb v)) \<Longrightarrow> handler_keeps (get_has kb)"
  by (simp_all add: get32_def get64_def get_has_def keeps_take_field)

lemma keeps_invoke: "handler_keeps (invoke drv depth c wanted)"
  by (auto simp: handler_keeps_def invoke_def split: if_splits prod.splits dest: tracked_call_kept)

lemmas keeps_intros = keeps_get keeps_invoke keeps_take_field

lemmas generated_defs =
  d_cuCtxSetCurrent_def d_cuCtxGetCurrent_def d_cuCtxPushCurrent_v2_def d_cuCtxPopCurrent_v2_def
  d_cuCtxCreate_v2_def d_cuCtxDestroy_v2_def d_cuCtxDetach_def d_cuCtxSynchronize_def
  d_cuDevicePrimaryCtxRetain_def d_cuDevicePrimaryCtxRelease_v2_def d_cuDevicePrimaryCtxReset_v2_def
  d_cuMemMap_def d_cuStreamBeginCapture_v2_def d_cuMemAlloc_v2_def d_cuMemAllocPitch_v2_def
  d_cuMemAllocAsync_def d_cuMemAllocFromPoolAsync_def d_cuModuleLoad_def d_cuModuleLoadData_def
  d_cuModuleLoadFatBinary_def d_cuLibraryLoadData_def d_cuMemAddressReserve_def d_cuMemCreate_def
  d_cuStreamCreate_def d_cuStreamCreateWithPriority_def d_cuEventCreate_def d_cuGraphCreate_def
  d_cuStreamEndCapture_def d_cuGraphInstantiateWithFlags_def d_cuGraphClone_def d_cuMemFree_v2_def
  d_cuMemFreeAsync_def d_cuModuleUnload_def d_cuLibraryUnload_def d_cuMemAddressFree_def
  d_cuMemRelease_def d_cuMemUnmap_def d_cuStreamDestroy_v2_def d_cuEventDestroy_v2_def
  d_cuGraphDestroy_def d_cuGraphExecDestroy_def

lemma generated_cases_all:
  assumes "\<And>c ws. P (invoke drv depth c ws)"
    and "\<And>k. (\<And>v. P (k v)) \<Longrightarrow> P (get32 k)" and "\<And>k. (\<And>v. P (k v)) \<Longrightarrow> P (get64 k)"
    and "\<And>k. (\<And>v. P (k v)) \<Longrightarrow> P (get_has k)" and "\<And>k. (\<And>v. P (k v)) \<Longrightarrow> P (take_field get_str k)"
    and "\<And>k. (\<And>v. P (k v)) \<Longrightarrow> P (take_field get_opt_sized k)"
    and "\<And>k. (\<And>v. P (k v)) \<Longrightarrow> P (take_field get_prop k)"
  shows "list_all (\<lambda>c. P (snd c)) (generated_cases drv depth)"
  unfolding generated_cases_def list.pred_inject snd_conv generated_defs
  by (intro conjI TrueI list.pred_inject(1) assms)

lemma generated_case:
  assumes "list_all (\<lambda>c. P (snd c)) (generated_cases drv depth)" and "dispatch_generated drv depth api = Some h"
  shows "P h"
  using assms by (auto simp: dispatch_generated_def list_all_iff dest!: map_of_SomeD)

lemma generated_reads_first: "dispatch_generated drv depth api = Some h \<Longrightarrow> reads_first h"
  by (rule generated_case [OF generated_cases_all]) (auto intro: reads_intros)

lemma generated_keeps: "dispatch_generated drv depth api = Some h \<Longrightarrow> handler_keeps h"
  by (rule generated_case [OF generated_cases_all]) (auto intro: keeps_intros)


section \<open>The server's own calls\<close>

text \<open>One turn of the loop, and induction over the turns.\<close>

lemma param_slots_step:
  assumes "sv_call drv (FuncGetParamInfo f (of_nat i)) s = ((q, outs), s1)"
  shows "param_slots drv f i slots s =
    (if q = CUDA_ERROR_INVALID_VALUE then (Inr slots, s1)
     else if q \<noteq> CUDA_SUCCESS then (Inl q, s1)
     else if i > 1024 then (Inl CUDA_ERROR_INVALID_VALUE, s1)
     else param_slots drv f (Suc i) (slots @ [(out_at 0 outs, out_at 1 outs)]) s1)"
  using assms by (subst param_slots.simps) simp

lemma param_slots_cases [consumes 1, case_names stop more]:
  assumes "param_slots drv f i slots s = (res, s')"
    and "\<And>q outs s1. sv_call drv (FuncGetParamInfo f (of_nat i)) s = ((q, outs), s1) \<Longrightarrow> s' = s1 \<Longrightarrow>
           res = Inr slots \<or> (\<exists>e. res = Inl e) \<Longrightarrow> P"
    and "\<And>outs s1. sv_call drv (FuncGetParamInfo f (of_nat i)) s = ((CUDA_SUCCESS, outs), s1) \<Longrightarrow> i \<le> 1024 \<Longrightarrow>
           param_slots drv f (Suc i) (slots @ [(out_at 0 outs, out_at 1 outs)]) s1 = (res, s') \<Longrightarrow> P"
  shows P
proof -
  obtain q outs s1 where c: "sv_call drv (FuncGetParamInfo f (of_nat i)) s = ((q, outs), s1)" by (metis surj_pair)
  show P using assms(1) assms(2) [OF c] assms(3) [of outs s1] c
    unfolding param_slots_step [OF c] by (auto split: if_splits)
qed

lemma param_slots_threads: "param_slots drv f i slots s = (r, s') \<Longrightarrow> sv_threads s' = sv_threads s"
proof (induction "1026 - i" arbitrary: i slots s)
  case (Suc n)
  from Suc.prems show ?case
    by (cases rule: param_slots_cases) (use Suc.hyps in \<open>force dest: sv_call_threads\<close>)+
next
  case 0
  from 0(2) show ?case by (cases rule: param_slots_cases) (use 0(1) in \<open>auto dest: sv_call_threads\<close>)
qed

lemma device_attrs_threads:
  "device_attrs drv dev n req rsp s = (r, req', rsp', s') \<Longrightarrow> sv_threads s' = sv_threads s"
  by (induction drv dev n req rsp s arbitrary: r req' rsp' s' rule: device_attrs.induct)
     (auto split: prod.splits option.splits dest: sv_call_threads)

lemma graph_nodes_threads:
  "graph_nodes_into drv graph want n req rsp s = (r, req', rsp', s') \<Longrightarrow> sv_threads s' = sv_threads s"
proof -
  let ?c = "GraphGetNodes graph (if (if want then unat n else 0) = 0 then None else Some (of_nat (if want then unat n else 0)))"
  obtain q outs s1 where c: "sv_call drv ?c s = ((q, outs), s1)" by (metis surj_pair)
  assume "graph_nodes_into drv graph want n req rsp s = (r, req', rsp', s')"
  then have "s' = s1" unfolding graph_nodes_into_def Let_def c by (simp split: if_splits)
  then show ?thesis using c by (simp add: sv_call_threads)
qed

lemma keeps_same:
  "(\<And>req rsp s r req' rsp' s'. h req rsp s = (r, req', rsp', s') \<Longrightarrow> sv_threads s' = sv_threads s) \<Longrightarrow> handler_keeps h"
  by (simp add: handler_keeps_def)

lemma internal_keeps: "dispatch_internal drv api = Some h \<Longrightarrow> handler_keeps h"
proof -
  have layout: "handler_keeps (handle_param_layout drv)"
    unfolding handle_param_layout_def
    by ((rule keeps_get keeps_take_field)+, rule keeps_same) (auto split: prod.splits sum.splits dest: param_slots_threads)
  have launch: "handler_keeps (handle_launch drv)"
    unfolding handle_launch_def
    by ((rule keeps_get keeps_take_field)+, rule keeps_same) (auto split: prod.splits dest: sv_call_threads)
  have info: "handler_keeps (handle_capture_info drv)"
    unfolding handle_capture_info_def
    by ((rule keeps_get keeps_take_field)+, rule keeps_same) (auto simp: Let_def split: prod.splits if_splits dest: sv_call_threads)
  have nodes: "handler_keeps (handle_graph_nodes drv)"
    unfolding handle_graph_nodes_def
    by ((rule keeps_get keeps_take_field)+, rule keeps_same)
       (auto split: prod.splits if_splits dest!: sv_call_threads graph_nodes_threads)
  have mode: "handler_keeps (handle_capture_mode drv)"
    unfolding handle_capture_mode_def
    by ((rule keeps_get)+) (auto simp: handler_keeps_def Let_def split: prod.splits if_splits dest: kept_exchange)
  have hello: "handler_keeps (handle_hello drv)"
    by (rule keeps_same) (auto simp: handle_hello_def split: prod.splits dest: sv_call_threads)
  have attrs: "handler_keeps (handle_device_attrs drv)"
    unfolding handle_device_attrs_def
    by ((rule keeps_get keeps_take_field)+, rule keeps_same) (auto split: if_splits dest: device_attrs_threads)
  show "dispatch_internal drv api = Some h \<Longrightarrow> handler_keeps h"
    using layout launch info nodes mode hello attrs by (auto simp: dispatch_internal_def split: if_splits)
qed

primrec outcome_state :: "'d outcome \<Rightarrow> 'd sv" where
  "outcome_state (Answered a) = snd (snd (snd a))"
| "outcome_state (Bad_alloc req s) = s"
| "outcome_state (Threw req s) = s"

locale table_keeper =
  fixes disp :: "u32 \<Rightarrow> buffer \<Rightarrow> 'd sv \<Rightarrow> 'd outcome option"
  assumes disp_keeps: "caller_known (sv_threads s) \<Longrightarrow> disp api req s = Some out \<Longrightarrow>
        kept (sv_threads s) (sv_threads (outcome_state out))"

text \<open>The library dispatchers and the other generated cases never touch the table of threads.\<close>

locale libraries =
  fixes libs rest :: "'d dispatcher"
  assumes libs_keep: "caller_known (sv_threads s) \<Longrightarrow> libs api req rsp s = Some out \<Longrightarrow>
        kept (sv_threads s) (sv_threads (outcome_state out))"
    and rest_keep: "caller_known (sv_threads s) \<Longrightarrow> rest api req rsp s = Some out \<Longrightarrow>
        kept (sv_threads s) (sv_threads (outcome_state out))"

sublocale libraries \<subseteq> whole: table_keeper "dispatch drv depth libs rest"
  by unfold_locales
     (auto simp: dispatch_def split: option.splits
       dest!: internal_keeps generated_keeps intro: libs_keep rest_keep simp: handler_keeps_def,
      metis surj_pair snd_conv, metis surj_pair snd_conv)

interpretation bare: libraries nothing_more nothing_more
  by unfold_locales (simp_all add: nothing_more_def)


section \<open>What a hostile count can cost\<close>

definition calls_made :: "'d sv \<Rightarrow> 'd sv \<Rightarrow> drv_call list" where
  "calls_made s s' = drop (length (w_log (sv_world s))) (w_log (sv_world s'))"

definition logged :: "'d sv \<Rightarrow> drv_call list \<Rightarrow> 'd sv \<Rightarrow> bool" where
  "logged s cs s' \<longleftrightarrow> w_log (sv_world s') = w_log (sv_world s) @ cs"

lemma logged_calls: "logged s cs s' \<Longrightarrow> calls_made s s' = cs"
  by (simp add: logged_def calls_made_def)

lemma logged_none: "logged s [] s"
  by (simp add: logged_def)

lemma logged_call: "sv_call drv c s = (r, s') \<Longrightarrow> logged s [c] s'"
  by (auto simp: logged_def sv_call_def dcall_def split: prod.splits)

lemma logged_append: "logged s cs s' \<Longrightarrow> logged s' ds s'' \<Longrightarrow> logged s (cs @ ds) s''"
  by (simp add: logged_def)

lemma length_put: "length (bdata (buf_put n v b)) = length (bdata b) + n"
  by (simp add: buf_put_def)

lemma device_attrs_cost:
  "device_attrs drv dev n req rsp s = (r, req', rsp', s') \<Longrightarrow>
   \<exists>cs. logged s cs s' \<and> length cs \<le> n \<and> length (bdata rsp') \<le> length (bdata rsp) + 5 * n"
proof (induction n arbitrary: req rsp s)
  case 0
  then show ?case by (auto intro: logged_none)
next
  case (Suc n)
  obtain a :: "u32 option" and req1 where g: "buf_get 4 req = (a, req1)" by fastforce
  show ?case
  proof (cases a)
    case None
    with Suc.prems g show ?thesis by (auto intro: logged_none)
  next
    case (Some attr)
    obtain q outs s1 where c: "sv_call drv (DeviceGetAttribute attr dev) s = ((q, outs), s1)"
      by (metis surj_pair)
    let ?rsp = "buf_put 4 (if q = CUDA_SUCCESS then ucast (out0 outs) else 0 :: u32)
                  (buf_put 1 (if q = CUDA_SUCCESS then 1 else 0 :: byte) rsp)"
    have "device_attrs drv dev n req1 ?rsp s1 = (r, req', rsp', s')"
      using Suc.prems g Some c by simp
    from Suc.IH [OF this] obtain cs where cs: "logged s1 cs s'" "length cs \<le> n"
      "length (bdata rsp') \<le> length (bdata ?rsp) + 5 * n" by blast
    have "logged s (DeviceGetAttribute attr dev # cs) s'"
      using logged_append [OF logged_call [OF c] cs(1)] by simp
    moreover have "length (bdata rsp') \<le> length (bdata rsp) + 5 * Suc n"
      using cs(3) by (simp only: length_put) simp
    ultimately show ?thesis using cs(2) by (metis Suc_le_mono length_Cons)
  qed
qed

lemma param_slots_cost:
  assumes "param_slots drv f i slots s = (res, s')" and "length slots = i" and "i \<le> 1025"
  shows "\<exists>cs. logged s cs s' \<and> length cs \<le> 1026 - i \<and> (\<forall>sl. res = Inr sl \<longrightarrow> length sl \<le> 1025)"
  using assms
proof (induction "1026 - i" arbitrary: i slots s)
  case (Suc n)
  from Suc.prems(1) show ?case
  proof (cases rule: param_slots_cases)
    case (stop q outs s1)
    then show ?thesis using logged_call [OF stop(1)] Suc.prems by (auto intro!: exI [of _ "[_]"])
  next
    case (more outs s1)
    have "\<exists>cs. logged s1 cs s' \<and> length cs \<le> 1026 - Suc i \<and> (\<forall>sl. res = Inr sl \<longrightarrow> length sl \<le> 1025)"
      using Suc.hyps(2) Suc.prems(2) more(2) by (intro Suc.hyps(1) [OF _ more(3)]) auto
    then obtain cs where cs: "logged s1 cs s'" "length cs \<le> 1026 - Suc i"
      "\<forall>sl. res = Inr sl \<longrightarrow> length sl \<le> 1025" by blast
    have "logged s (FuncGetParamInfo f (of_nat i) # cs) s'"
      using logged_append [OF logged_call [OF more(1)] cs(1)] by simp
    then show ?thesis using cs(2,3) more(2)
      by (intro exI [of _ "FuncGetParamInfo f (of_nat i) # cs"]) simp
  qed
qed simp

lemma graph_nodes_cost:
  assumes "graph_nodes_into drv graph want n req rsp s = (r, req', rsp', s')"
  shows "logged s [GraphGetNodes graph (if want \<and> n \<noteq> 0 then Some n else None)] s'"
proof -
  let ?c = "GraphGetNodes graph (if (if want then unat n else 0) = 0 then None else Some (of_nat (if want then unat n else 0)))"
  obtain q outs s1 where c: "sv_call drv ?c s = ((q, outs), s1)" by (metis surj_pair)
  from assms have "s' = s1" unfolding graph_nodes_into_def Let_def c by (simp split: if_splits)
  then show ?thesis using logged_call [OF c] by (auto simp: unat_eq_0 split: if_splits)
qed


text \<open>In a generated case of the dispatch, a request whose arguments end early is
  answered with an invalid value before the driver is called: nothing is appended to the reply, and
  neither the driver, the inventory nor the table of threads changes.\<close>

theorem short_request_runs_nothing:
  assumes "dispatch_generated drv depth api = Some h" and "bok req"
    and "h req rsp s = (r, req', rsp', s')" and "\<not> bok req'"
  shows "r = CUDA_ERROR_INVALID_VALUE \<and> rsp' = rsp \<and> s' = s"
  using generated_reads_first [OF assms(1)] assms(2-4) unfolding reads_first_def by blast

lemma create_case: "dispatch_generated fake_driver 64 20 = Some (d_cuCtxCreate_v2 fake_driver 64)"
  by (simp add: dispatch_generated_def generated_cases_def)

lemma create_short:
  "d_cuCtxCreate_v2 drv depth (buffer_of [1, 0]) rsp s
     = (CUDA_ERROR_INVALID_VALUE, (buffer_of [1, 0])\<lparr> bread := 1, bok := False \<rparr>, rsp, s)"
  by (simp add: d_cuCtxCreate_v2_def get_has_def get32_def take_field_def buf_get_def buf_take_def buffer_of_def)

theorem short_request_runs_nothing_witness:
  "\<exists>h req'. dispatch_generated fake_driver 64 20 = Some h
     \<and> h (buffer_of [1, 0]) empty_buffer demo_sv = (CUDA_ERROR_INVALID_VALUE, req', empty_buffer, demo_sv)"
proof -
  have "bok (buffer_of [1, 0])" by (simp add: buffer_of_def)
  from short_request_runs_nothing [OF create_case this create_short] show ?thesis
    using create_case create_short by fastforce
qed

lemma take_field_cases [consumes 1, case_names short read]:
  assumes "take_field get k req rsp s = (r, req', rsp', s')"
    and "rsp' = rsp \<Longrightarrow> s' = s \<Longrightarrow> P"
    and "\<And>v req1. k v req1 rsp s = (r, req', rsp', s') \<Longrightarrow> P"
  shows P
  using assms by (auto simp: take_field_def split: prod.splits option.splits)

lemma get_cases:
  "get32 k req rsp s = (r, req', rsp', s') \<Longrightarrow> (rsp' = rsp \<Longrightarrow> s' = s \<Longrightarrow> P) \<Longrightarrow>
     (\<And>v req1. k v req1 rsp s = (r, req', rsp', s') \<Longrightarrow> P) \<Longrightarrow> P"
  "get64 k' req rsp s = (r, req', rsp', s') \<Longrightarrow> (rsp' = rsp \<Longrightarrow> s' = s \<Longrightarrow> P) \<Longrightarrow>
     (\<And>v req1. k' v req1 rsp s = (r, req', rsp', s') \<Longrightarrow> P) \<Longrightarrow> P"
  "get_has kb req rsp s = (r, req', rsp', s') \<Longrightarrow> (rsp' = rsp \<Longrightarrow> s' = s \<Longrightarrow> P) \<Longrightarrow>
     (\<And>v req1. kb v req1 rsp s = (r, req', rsp', s') \<Longrightarrow> P) \<Longrightarrow> P"
  unfolding get32_def get64_def get_has_def by (erule take_field_cases; blast)+

lemma calls_made_same [simp]: "calls_made s s = []"
  by (simp add: calls_made_def)

lemma put_pairs_length: "length (bdata (put_all put_pair ps b)) = length (bdata b) + 16 * length ps"
  by (induction ps arbitrary: b) (simp_all add: put_pair_def length_put)

lemma layout_cost:
  assumes "handle_param_layout drv req rsp s = (r, req', rsp', s')"
  shows "length (calls_made s s') \<le> 1026 \<and> length (bdata rsp') \<le> length (bdata rsp) + 16404"
  using assms unfolding handle_param_layout_def
proof (rule get_cases(2))
  fix f req1
  obtain res s1 where p: "param_slots drv f 0 [] s = (res, s1)" by fastforce
  from param_slots_cost [OF p] obtain cs where cs: "logged s cs s1" "length cs \<le> 1026"
    "\<forall>sl. res = Inr sl \<longrightarrow> length sl \<le> 1025" by auto
  assume "(case param_slots drv f 0 [] s of (Inl r, s1) \<Rightarrow> (r, req1, rsp, s1)
     | (Inr slots, s1) \<Rightarrow> (CUDA_SUCCESS, req1,
         put_all put_pair slots (buf_put 4 (word_of_nat (length slots) :: u32) rsp), s1)) = (r, req', rsp', s')"
  then show ?thesis using p cs logged_calls [OF cs(1)]
    by (cases res) (auto simp: put_pairs_length length_put)
qed auto

lemma attrs_cost:
  assumes "handle_device_attrs drv req rsp s = (r, req', rsp', s')"
  shows "length (calls_made s s') \<le> 4096 \<and> length (bdata rsp') \<le> length (bdata rsp) + 20480"
  using assms unfolding handle_device_attrs_def
proof (rule get_cases(1))
  fix dev req1
  assume "get32 (\<lambda>count req rsp s. if 4096 < count then (CUDA_ERROR_INVALID_VALUE, req, rsp, s)
      else device_attrs drv (sint dev) (unat count) req rsp s) req1 rsp s = (r, req', rsp', s')"
  then show ?thesis
  proof (rule get_cases(1))
    fix count :: u32 and req2
    assume r: "(if 4096 < count then (CUDA_ERROR_INVALID_VALUE, req2, rsp, s)
      else device_attrs drv (sint dev) (unat count) req2 rsp s) = (r, req', rsp', s')"
    show ?thesis
    proof (cases "4096 < count")
      case False
      then have "unat count \<le> 4096" by (simp add: word_less_nat_alt)
      moreover from device_attrs_cost [of drv "sint dev" "unat count" req2 rsp s r req' rsp' s'] r False
      obtain cs where "logged s cs s'" "length cs \<le> unat count"
        "length (bdata rsp') \<le> length (bdata rsp) + 5 * unat count" by auto
      ultimately show ?thesis using logged_calls [of s cs s'] by auto
    qed (use r in auto)
  qed auto
qed auto

lemma nodes_cost:
  assumes "handle_graph_nodes drv req rsp s = (r, req', rsp', s')"
    and "GraphGetNodes g (Some room) \<in> set (calls_made s s')"
  shows "room \<le> kMaxGraphNodes"
  using assms(1) unfolding handle_graph_nodes_def
proof (elim get_cases)
  fix graph req1 want req2 n req3
  assume *: "(if kMaxGraphNodes < n then (CUDA_ERROR_INVALID_VALUE, req3, rsp, s)
      else if want \<and> 0 < n
           then case sv_call drv (GraphGetNodes graph None) s of ((r, outs), s1) \<Rightarrow>
             if r \<noteq> CUDA_SUCCESS then (r, req3, rsp, s1)
             else graph_nodes_into drv graph want (if out0 outs < n then out0 outs else n) req3 rsp s1
           else graph_nodes_into drv graph want n req3 rsp s) = (r, req', rsp', s')"
  obtain q outs s1 where c: "sv_call drv (GraphGetNodes graph None) s = ((q, outs), s1)" by (metis surj_pair)
  note l = logged_call [OF c]
  let ?n = "if out0 outs < n then out0 outs else n"
  consider "kMaxGraphNodes < n" "s' = s" | "n \<le> kMaxGraphNodes" "s' = s1"
    | "n \<le> kMaxGraphNodes" "graph_nodes_into drv graph want ?n req3 rsp s1 = (r, req', rsp', s')"
    | "n \<le> kMaxGraphNodes" "graph_nodes_into drv graph want n req3 rsp s = (r, req', rsp', s')"
    using * unfolding c by (auto simp: not_less split: if_splits)
  then show ?thesis
  proof cases
    case 3
    from graph_nodes_cost [OF 3(2)] assms(2) logged_calls [OF logged_append [OF l]] have "room = ?n"
      by (auto split: if_splits)
    moreover have "?n \<le> n" by auto
    ultimately show ?thesis using 3(1) by simp
  next
    case 4
    from graph_nodes_cost [OF 4(2)] assms(2) logged_calls have "room = n"
      by (fastforce split: if_splits)
    then show ?thesis using 4(1) by simp
  qed (use assms(2) logged_calls [OF l] in auto)
qed (use assms(2) in auto)

text \<open>C40. Whatever counts a request names, the parameter query of a kernel makes at most
  1026 driver calls and adds at most 16404 bytes of reply, an attribute query makes at most 4096 calls
  and adds at most 20480 bytes, and a graph's nodes are asked for with room for at most 2^24.\<close>

theorem hostile_counts_are_bounded:
  "(\<forall>req rsp r req' rsp' s'. handle_param_layout drv req rsp s = (r, req', rsp', s') \<longrightarrow>
      length (calls_made s s') \<le> 1026 \<and> length (bdata rsp') \<le> length (bdata rsp) + 16404)
   \<and> (\<forall>req rsp r req' rsp' s'. handle_device_attrs drv req rsp s = (r, req', rsp', s') \<longrightarrow>
      length (calls_made s s') \<le> 4096 \<and> length (bdata rsp') \<le> length (bdata rsp) + 20480)
   \<and> (\<forall>req rsp r req' rsp' s' g room. handle_graph_nodes drv req rsp s = (r, req', rsp', s') \<longrightarrow>
      GraphGetNodes g (Some room) \<in> set (calls_made s s') \<longrightarrow> room \<le> kMaxGraphNodes)"
proof (intro conjI; intro allI impI)
qed (rule layout_cost attrs_cost nodes_cost; assumption)+

text \<open>The fake driver answers every parameter query, so the guard ends the loop there.\<close>

theorem hostile_counts_are_bounded_witness:
  "length (calls_made demo_sv (snd (snd (snd
      (handle_param_layout fake_driver (buffer_of (le_enc 8 (7 :: u64))) empty_buffer demo_sv))))) \<le> 1026"
  using hostile_counts_are_bounded [of fake_driver demo_sv] by (metis prod.collapse)

end
