(* ===== verification/Serve.thy ===== *)
theory Serve
  imports Net Ledger
begin

text \<open>
  Serving the frames of a session (\<^verbatim>\<open>serve\<close> in \<^verbatim>\<open>server/main.cpp\<close>): the check that runs no request
  twice, the choice of the client thread's slot, the dispatch, the failures of calls sent without a
  reply, and the reply that is kept. One frame is served at a time by one thread, so a frame is one
  step of the session's state.

  Log lines and the flags that bound them are left out, as is the \<open>RGPU_DROP_AFTER\<close> test hook, which
  is off unless set. A reply is a list of bytes to write; whether the write succeeds is an input of
  the connection loop.
\<close>

section \<open>State\<close>

record 'd session =
  se_last_req :: u32
  se_last_reply_id :: u32
  se_last_reply :: "byte list"
  se_sv :: "'d sv"

definition no_reply :: "req_header \<Rightarrow> bool" where
  "no_reply h \<longleftrightarrow> rq_flags h AND kFlagNoReply \<noteq> 0"

text \<open>A request being run: what it answers so far, whether it was looked at or refused, and the
  client thread it runs for.\<close>

record 'd running =
  rn_result :: CUresult
  rn_handled :: bool
  rn_refused :: bool
  rn_thread :: "u32 option"
  rn_req :: buffer
  rn_rsp :: buffer
  rn_sv :: "'d sv"

definition with_threads :: "(client_threads \<Rightarrow> client_threads) \<Rightarrow> 'd sv \<Rightarrow> 'd sv" where
  "with_threads f s = s\<lparr> sv_threads := f (sv_threads s) \<rparr>"

section \<open>Running a request\<close>

definition admit_request :: "nat \<Rightarrow> 'd driver \<Rightarrow> req_header \<Rightarrow> byte list \<Rightarrow> 'd sv \<Rightarrow> 'd running" where
  "admit_request cap drv h payload s0 =
     (let s = with_threads (ts_caller_update (\<lambda>_. None)) s0;
          rn = \<lparr> rn_result = CUDA_ERROR_NOT_SUPPORTED, rn_handled = False, rn_refused = False,
                 rn_thread = None, rn_req = buffer_of payload, rn_rsp = empty_buffer, rn_sv = s \<rparr>
      in if rq_thread_id h = 0 then rn\<lparr> rn_refused := True, rn_result := CUDA_ERROR_INVALID_VALUE \<rparr>
      else if rq_api_id h = API_rgpu_thread_gone then
        (case handle_thread_gone (rn_req rn) (sv_threads s) of (r, req, ts) \<Rightarrow>
          rn\<lparr> rn_handled := True, rn_result := r, rn_req := req, rn_sv := s\<lparr> sv_threads := ts \<rparr> \<rparr>)
      else (case thread_slot cap (rq_thread_id h) (sv_threads s) of
          (None, ts) \<Rightarrow> rn\<lparr> rn_refused := True, rn_result := CUDA_ERROR_INVALID_VALUE, rn_sv := s\<lparr> sv_threads := ts \<rparr> \<rparr>
        | (Some tid, ts) \<Rightarrow>
            (if client_thread_shown (the_slot ts tid) ts
             then rn\<lparr> rn_thread := Some tid, rn_sv := s\<lparr> sv_threads := ts \<rparr> \<rparr>
             else (case client_thread_show drv tid (ts, sv_world s) of (r, (ts', w)) \<Rightarrow>
               rn\<lparr> rn_thread := Some tid, rn_result := r, rn_refused := (r \<noteq> CUDA_SUCCESS),
                   rn_sv := s\<lparr> sv_threads := ts', sv_world := w \<rparr> \<rparr>))))"

text \<open>Taking the outcome of the dispatch; one that threw answers with nothing but its error.\<close>

definition take_outcome :: "'d outcome option \<Rightarrow> 'd running \<Rightarrow> 'd running" where
  "take_outcome out rn = (case out of
       None \<Rightarrow> rn
     | Some (Answered (r, req, rsp, s)) \<Rightarrow>
         rn\<lparr> rn_handled := True, rn_result := r, rn_req := req, rn_rsp := rsp, rn_sv := s \<rparr>
     | Some (Bad_alloc req s) \<Rightarrow>
         rn\<lparr> rn_handled := True, rn_result := CUDA_ERROR_OUT_OF_MEMORY, rn_req := req,
            rn_rsp := empty_buffer, rn_sv := s \<rparr>
     | Some (Threw req s) \<Rightarrow>
         rn\<lparr> rn_handled := True, rn_result := CUDA_ERROR_UNKNOWN, rn_req := req,
            rn_rsp := empty_buffer, rn_sv := s \<rparr>)"

definition run_dispatch ::
    "'d driver \<Rightarrow> (u32 \<Rightarrow> buffer \<Rightarrow> 'd sv \<Rightarrow> 'd outcome option) \<Rightarrow> req_header \<Rightarrow> 'd running \<Rightarrow> 'd running" where
  "run_dispatch drv disp h rn =
     (case rn_thread rn of
        None \<Rightarrow> rn
      | Some tid \<Rightarrow>
          (if rn_refused rn \<or> rn_handled rn then rn
           else (let s = with_threads (ts_caller_update (\<lambda>_. Some tid)) (rn_sv rn);
                     rn1 = take_outcome (disp (rq_api_id h) (rn_req rn) s) (rn\<lparr> rn_sv := s \<rparr>);
                     s1 = with_threads (ts_caller_update (\<lambda>_. None)) (rn_sv rn1)
                 in case client_thread_after drv tid (rq_api_id h) (rn_result rn1) (sv_threads s1, sv_world s1) of
                      (r, (ts, w)) \<Rightarrow> rn1\<lparr> rn_result := r, rn_sv := s1\<lparr> sv_threads := ts, sv_world := w \<rparr> \<rparr>)))"

definition malformed :: "'d running \<Rightarrow> bool" where
  "malformed rn \<longleftrightarrow> \<not> rn_refused rn \<and> rn_handled rn \<and> \<not> bok (rn_req rn)"

definition settle_result :: "'d running \<Rightarrow> 'd running" where
  "settle_result rn =
     (let rn1 = (if rn_refused rn then rn
                 else if \<not> rn_handled rn then rn\<lparr> rn_result := CUDA_ERROR_NOT_SUPPORTED \<rparr> else rn)
      in if malformed rn1 then rn1\<lparr> rn_result := CUDA_ERROR_INVALID_VALUE, rn_rsp := empty_buffer \<rparr> else rn1)"

definition run_request ::
    "nat \<Rightarrow> 'd driver \<Rightarrow> (u32 \<Rightarrow> buffer \<Rightarrow> 'd sv \<Rightarrow> 'd outcome option) \<Rightarrow> req_header \<Rightarrow> byte list \<Rightarrow> 'd sv \<Rightarrow> 'd running"
  where
  "run_request cap drv disp h payload s =
     settle_result (run_dispatch drv disp h (admit_request cap drv h payload s))"

section \<open>Answering it\<close>

definition reply_carries_observed_state :: "u32 \<Rightarrow> bool" where
  "reply_carries_observed_state api \<longleftrightarrow>
     api \<in> {API_rgpu_capture_mode, API_cuCtxSetCurrent, API_cuCtxPushCurrent, API_cuCtxPopCurrent}"

definition find_home :: "req_header \<Rightarrow> 'd running \<Rightarrow> home option \<times> client_threads" where
  "find_home h rn = (case rn_thread rn of
       Some tid \<Rightarrow> (Some (LiveSlot tid), sv_threads (rn_sv rn))
     | None \<Rightarrow> (if no_reply h \<and> rn_result rn = CUDA_SUCCESS then (None, sv_threads (rn_sv rn))
               else deferred_home (rq_thread_id h) (no_reply h) (sv_threads (rn_sv rn))))"

definition hold_failure :: "home option \<Rightarrow> CUresult \<Rightarrow> client_threads \<Rightarrow> client_threads" where
  "hold_failure hm r ts = (case hm of
       None \<Rightarrow> ts
     | Some a \<Rightarrow> (if r \<noteq> CUDA_SUCCESS \<and> home_pending a ts = CUDA_SUCCESS
                 then (set_home_pending a r ts)\<lparr> ts_held_failures := ts_held_failures ts + 1 \<rparr> else ts))"

text \<open>The result a reply carries, and the table with the failure it took from its thread's slot.\<close>

definition take_held :: "u32 \<Rightarrow> home option \<Rightarrow> CUresult \<Rightarrow> client_threads \<Rightarrow> CUresult \<times> client_threads" where
  "take_held api hm r ts = (case hm of
       None \<Rightarrow> (r, ts)
     | Some a \<Rightarrow> (if r = CUDA_SUCCESS \<and> home_pending a ts \<noteq> CUDA_SUCCESS \<and> \<not> reply_carries_observed_state api
                 then (home_pending a ts, set_home_pending a CUDA_SUCCESS ts) else (r, ts)))"

definition answer_request :: "req_header \<Rightarrow> 'd running \<Rightarrow> 'd session \<Rightarrow> byte list option \<times> 'd session" where
  "answer_request h rn se = (case find_home h rn of (hm, ts) \<Rightarrow>
     if no_reply h then
       (None, se\<lparr> se_last_req := rq_req_id h,
                  se_sv := (rn_sv rn)\<lparr> sv_threads := hold_failure hm (rn_result rn) ts \<rparr> \<rparr>)
     else (case take_held (rq_api_id h) hm (rn_result rn) ts of (r, ts') \<Rightarrow>
       (let bytes = enc_rsp_header \<lparr> rs_magic = kMagicRsp, rs_req_id = rq_req_id h, rs_result = r,
                      rs_payload_len = of_nat (length (bdata (rn_rsp rn))) \<rparr> @ bdata (rn_rsp rn)
        in (Some bytes, se\<lparr> se_last_req := rq_req_id h, se_last_reply_id := rq_req_id h,
              se_last_reply := bytes, se_sv := (rn_sv rn)\<lparr> sv_threads := ts' \<rparr> \<rparr>))))"

section \<open>A frame\<close>

definition already_ran :: "req_header \<Rightarrow> 'd session \<Rightarrow> bool" where
  "already_ran h se \<longleftrightarrow> req_at_or_before (rq_req_id h) (se_last_req se)"

text \<open>What a copy of a request that ran is answered with: its kept reply, or nothing.\<close>

definition copy_answer :: "req_header \<Rightarrow> 'd session \<Rightarrow> byte list option" where
  "copy_answer h se =
     (if rq_req_id h = 0 then None
      else if \<not> no_reply h \<and> rq_req_id h = se_last_reply_id se \<and> se_last_reply se \<noteq> []
      then Some (se_last_reply se) else None)"

text \<open>The bytes to send, whether the connection is then closed, and the session.\<close>

definition serve_frame ::
    "nat \<Rightarrow> 'd driver \<Rightarrow> (u32 \<Rightarrow> buffer \<Rightarrow> 'd sv \<Rightarrow> 'd outcome option) \<Rightarrow> req_header \<times> byte list \<Rightarrow> 'd session
     \<Rightarrow> byte list option \<times> bool \<times> 'd session" where
  "serve_frame cap drv disp f se =
     (if already_ran (fst f) se then (copy_answer (fst f) se, False, se)
      else (let rn = run_request cap drv disp (fst f) (snd f) (se_sv se)
            in case answer_request (fst f) rn se of (sent, se') \<Rightarrow> (sent, malformed rn, se')))"

text \<open>The frames of one connection, until it is closed, a write fails or the frames end: the
  replies written, and the session. The list says whether each write succeeds.\<close>

fun serve_frames ::
    "nat \<Rightarrow> 'd driver \<Rightarrow> (u32 \<Rightarrow> buffer \<Rightarrow> 'd sv \<Rightarrow> 'd outcome option) \<Rightarrow> (req_header \<times> byte list) list \<Rightarrow> bool list
     \<Rightarrow> 'd session \<Rightarrow> byte list list \<times> 'd session" where
  "serve_frames cap drv disp [] writes se = ([], se)"
| "serve_frames cap drv disp (f # fs) writes se =
     (case serve_frame cap drv disp f se of (sent, close, se1) \<Rightarrow>
        (case sent of
           None \<Rightarrow> (if close then ([], se1) else serve_frames cap drv disp fs writes se1)
         | Some bytes \<Rightarrow>
             (if writes \<noteq> [] \<and> \<not> hd writes then ([], se1)
              else if close then ([bytes], se1)
              else (case serve_frames cap drv disp fs (tl writes) se1 of (out, se2) \<Rightarrow> (bytes # out, se2)))))"

text \<open>The frames a connection's bytes are read as, and a connection served.\<close>

lemma recv_request_smaller:
  assumes "recv_request s = (Some f, s')"
  shows "length (reader_stream s') < length (reader_stream s)"
proof (cases "parse_frame 24 dec_req_header rq_magic rq_payload_len kMagicReq default_max_payload (reader_stream s)")
  case None
  then show ?thesis using reader.frame_none [OF None] assms by (simp add: recv_request_def)
next
  case (Some x)
  then obtain h p rest where x: "x = (h, p, rest)" by (cases x)
  from reader.frame_some [OF Some [unfolded x]] assms have "reader_stream s' = rest"
    by (auto simp: recv_request_def)
  moreover have "length rest < length (reader_stream s)"
    using Some x by (auto simp: parse_frame_def Let_def split: if_splits)
  ultimately show ?thesis by simp
qed

function frames_of :: "byte list \<times> sock \<Rightarrow> (req_header \<times> byte list) list" where
  "frames_of s = (case recv_request s of (None, _) \<Rightarrow> [] | (Some f, s') \<Rightarrow> f # frames_of s')"
  by auto
termination
  by (relation "measure (\<lambda>s. length (reader_stream s))") (auto dest: recv_request_smaller [OF sym])

definition serve ::
    "nat \<Rightarrow> 'd driver \<Rightarrow> (u32 \<Rightarrow> buffer \<Rightarrow> 'd sv \<Rightarrow> 'd outcome option) \<Rightarrow> sock \<Rightarrow> bool list
     \<Rightarrow> 'd session \<Rightarrow> byte list list \<times> 'd session" where
  "serve cap drv disp es writes se = serve_frames cap drv disp (frames_of ([], es)) writes se"

section \<open>The frames a session takes up\<close>

text \<open>Over all its connections: each frame with whether it ran and what was sent for it.\<close>

fun run_frames ::
    "nat \<Rightarrow> 'd driver \<Rightarrow> (u32 \<Rightarrow> buffer \<Rightarrow> 'd sv \<Rightarrow> 'd outcome option) \<Rightarrow> (req_header \<times> byte list) list
     \<Rightarrow> 'd session \<Rightarrow> (req_header \<times> bool \<times> byte list option) list \<times> 'd session" where
  "run_frames cap drv disp [] se = ([], se)"
| "run_frames cap drv disp (f # fs) se =
     (case serve_frame cap drv disp f se of (sent, close, se1) \<Rightarrow>
      case run_frames cap drv disp fs se1 of (log, se2) \<Rightarrow>
        ((fst f, \<not> already_ran (fst f) se, sent) # log, se2))"

text \<open>The ids of those that ran.\<close>

definition ran_ids :: "(req_header \<times> bool \<times> byte list option) list \<Rightarrow> u32 list" where
  "ran_ids log = map (\<lambda>e. rq_req_id (fst e)) (filter (\<lambda>e. fst (snd e)) log)"

lemma connection_is_run:
  "\<exists>n. snd (serve_frames cap drv disp fs writes se) = snd (run_frames cap drv disp (take n fs) se)"
proof (induction fs arbitrary: writes se)
  case (Cons f fs)
  obtain sent close se1 where sf: "serve_frame cap drv disp f se = (sent, close, se1)" by (metis prod_cases3)
  have stop: "snd (run_frames cap drv disp (take 1 (f # fs)) se) = se1" by (simp add: sf)
  show ?case
  proof (cases "(sent = None \<and> \<not> close) \<or> (sent \<noteq> None \<and> (writes = [] \<or> hd writes) \<and> \<not> close)")
    case True
    let ?w = "if sent = None then writes else tl writes"
    from Cons [of ?w se1] obtain n
      where n: "snd (serve_frames cap drv disp fs ?w se1) = snd (run_frames cap drv disp (take n fs) se1)" by blast
    have "snd (serve_frames cap drv disp (f # fs) writes se) = snd (run_frames cap drv disp (take (Suc n) (f # fs)) se)"
      using True n by (auto simp: sf split: option.splits prod.splits)
    then show ?thesis by blast
  next
    case False
    then have "snd (serve_frames cap drv disp (f # fs) writes se) = se1"
      by (auto simp: sf split: option.splits)
    with stop show ?thesis by metis
  qed
qed auto


section \<open>At most once\<close>

lemma answer_last_req: "answer_request h rn se = (sent, se') \<Longrightarrow> se_last_req se' = rq_req_id h"
  by (auto simp: answer_request_def Let_def split: prod.splits if_splits)

lemma serve_frame_last_req:
  "se_last_req (snd (snd (serve_frame cap drv disp f se)))
     = (if already_ran (fst f) se then se_last_req se else rq_req_id (fst f))"
  by (auto simp: serve_frame_def Let_def split: prod.split dest: answer_last_req)

text \<open>A session that completed the first \<open>q\<close> of the requests numbered from the one after \<open>a\<close>.\<close>

definition completed :: "u32 \<Rightarrow> nat \<Rightarrow> 'd session \<Rightarrow> bool" where
  "completed a q se \<longleftrightarrow> se_last_req se = (if q = 0 then 0 else nth_id a q)"

text \<open>Frames sent in order, resent from anywhere within the window, none skipped.\<close>

definition id_window :: nat where "id_window = 2 ^ 31 - 1"

fun in_order :: "nat \<Rightarrow> nat list \<Rightarrow> bool" where
  "in_order q [] = True"
| "in_order q (p # ps) = (0 < p \<and> p \<le> Suc q \<and> q < p + id_window \<and> in_order (max p q) ps)"

lemma completed_already_ran:
  assumes "a \<noteq> 0" and "completed a q se" and "0 < p" and "p \<le> Suc q" and "q < p + id_window"
    and "rq_req_id h = nth_id a p"
  shows "already_ran h se \<longleftrightarrow> p \<le> q"
proof (cases "q = 0")
  case True
  then show ?thesis using assms nth_id_nonzero [OF assms(1), of p]
    by (simp add: already_ran_def completed_def req_at_or_before_def)
next
  case False
  define m where "m = min p q"
  have b: "nth_id a m \<noteq> 0" using assms(1) by simp
  have m: "p = m + (p - m)" "q = m + (q - m)" by (auto simp: m_def)
  have "nth_id a p = nth_id (nth_id a m) (p - m)" "nth_id a q = nth_id (nth_id a m) (q - m)"
    by (metis m nth_id_add)+
  moreover have "p - m < 2 ^ 31 - 1" "q - m < 2 ^ 31 - 1"
    using assms(3-5) False by (auto simp: m_def id_window_def)
  ultimately have "req_at_or_before (nth_id a p) (nth_id a q) \<longleftrightarrow> p - m \<le> q - m"
    using ids.positions [OF b, of "p - m" "q - m"] by (simp add: nth_id_def)
  also have "\<dots> \<longleftrightarrow> p \<le> q" by (auto simp: m_def)
  finally show ?thesis using assms(2,6) False by (simp add: already_ran_def completed_def)
qed

lemma ran_ids_Cons [simp]:
  "ran_ids ((h, did, sent) # log) = (if did then rq_req_id h # ran_ids log else ran_ids log)"
  by (simp add: ran_ids_def)

lemma upt_Suc_Cons: "q < m \<Longrightarrow> [Suc q..<Suc m] = Suc q # [Suc (Suc q)..<Suc m]"
  by (simp add: upt_rec)

lemma run_frames_in_order:
  assumes "a \<noteq> 0" and "in_order q ps" and "completed a q se" and "map (\<lambda>f. rq_req_id (fst f)) fs = map (nth_id a) ps"
  shows "ran_ids (fst (run_frames cap drv disp fs se)) = map (nth_id a) [Suc q..<Suc (fold max ps q)]
    \<and> completed a (fold max ps q) (snd (run_frames cap drv disp fs se))"
  using assms(2-)
proof (induction ps arbitrary: q fs se)
  case Nil
  then show ?case by (simp add: ran_ids_def)
next
  case (Cons p ps)
  then obtain f fs' where fs: "fs = f # fs'" "rq_req_id (fst f) = nth_id a p"
    "map (\<lambda>f. rq_req_id (fst f)) fs' = map (nth_id a) ps" by (cases fs) auto
  obtain sent close se1 where sf: "serve_frame cap drv disp f se = (sent, close, se1)" by (metis prod_cases3)
  obtain log se2 where rf: "run_frames cap drv disp fs' se1 = (log, se2)" by fastforce
  have ran: "already_ran (fst f) se \<longleftrightarrow> p \<le> q"
    using completed_already_ran [OF assms(1) Cons.prems(2)] Cons.prems(1) fs(2) by simp
  have "se_last_req se1 = (if p \<le> q then se_last_req se else nth_id a p)"
    using serve_frame_last_req [of cap drv disp f se] sf ran fs(2) by simp
  then have "completed a (max p q) se1"
    using Cons.prems(1,2) by (auto simp: completed_def max_def)
  from Cons.IH [OF _ this fs(3)] Cons.prems(1) rf
  have IH: "ran_ids log = map (nth_id a) [Suc (max p q)..<Suc (fold max ps (max p q))]"
    "completed a (fold max ps (max p q)) se2" by auto
  have "max p q \<le> fold max ps (max p q)"
    by (induction ps arbitrary: p q) (auto simp: max.coboundedI1 max.assoc intro: order_trans)
  moreover have "fold max (p # ps) q = fold max ps (max p q)" by simp
  moreover have "p = Suc q" if "\<not> p \<le> q" using that Cons.prems(1) by simp
  ultimately show ?case using IH fs(2) sf rf ran upt_Suc_Cons [of q "fold max ps (max p q)"]
    by (cases "p \<le> q") (auto simp: fs(1) max_absorb1 max_absorb2 simp del: upt_Suc)
qed


section \<open>The kept reply\<close>

lemma serve_replying:
  assumes "serve_frame cap drv disp f se = (sent, close, se1)" and "\<not> already_ran (fst f) se"
    and "\<not> no_reply (fst f)"
  shows "se_last_reply_id se1 = rq_req_id (fst f) \<and> sent = Some (se_last_reply se1) \<and> se_last_reply se1 \<noteq> []"
proof -
  have "length (enc_rsp_header r) = 16" for r by simp
  then have "enc_rsp_header r \<noteq> []" for r by (metis list.size(3) zero_neq_numeral)
  then show ?thesis using assms
    by (auto simp: serve_frame_def Let_def answer_request_def split: prod.splits if_splits)
qed

lemma serve_no_reply:
  assumes "serve_frame cap drv disp f se = (sent, close, se1)" and "no_reply (fst f)"
  shows "se_last_reply_id se1 = se_last_reply_id se \<and> se_last_reply se1 = se_last_reply se \<and> sent = None"
  using assms by (auto simp: serve_frame_def Let_def answer_request_def copy_answer_def split: prod.splits if_splits)

lemma run_no_reply:
  assumes "list_all (\<lambda>f. no_reply (fst f)) fs" and "run_frames cap drv disp fs se = (log, se')"
  shows "se_last_reply_id se' = se_last_reply_id se \<and> se_last_reply se' = se_last_reply se"
  using assms
proof (induction fs arbitrary: se log)
  case (Cons f fs)
  obtain sent close se1 where sf: "serve_frame cap drv disp f se = (sent, close, se1)" by (metis prod_cases3)
  with Cons serve_no_reply [OF sf] show ?case by (auto split: prod.splits)
qed simp

text \<open>A client that numbers its requests in the order it sends them, and after a broken
  connection sends again from any of the last 2^31 - 2, has each of them run exactly once and in order,
  whatever it resends and however often: the ids that ran are those of the requests up to the highest
  one sent, each once.\<close>

theorem requests_run_exactly_once:
  assumes "a \<noteq> 0" and "in_order q ps" and "completed a q se"
    and "map (\<lambda>f. rq_req_id (fst f)) fs = map (nth_id a) ps"
  shows "ran_ids (fst (run_frames cap drv disp fs se)) = map (nth_id a) [Suc q..<Suc (fold max ps q)]
    \<and> completed a (fold max ps q) (snd (run_frames cap drv disp fs se))"
  using run_frames_in_order [OF assms] .

definition demo_session :: "fake session" where
  "demo_session = \<lparr> se_last_req = 0, se_last_reply_id = 0, se_last_reply = [], se_sv = demo_sv \<rparr>"

definition frame :: "u32 \<Rightarrow> u32 \<Rightarrow> u32 \<Rightarrow> u32 \<Rightarrow> byte list \<Rightarrow> req_header \<times> byte list" where
  "frame api rid flags tid payload = (\<lparr> rq_magic = kMagicReq, rq_api_id = api, rq_req_id = rid, rq_flags = flags,
     rq_thread_id = tid, rq_payload_len = of_nat (length payload) \<rparr>, payload)"

theorem requests_run_exactly_once_witness:
  "ran_ids (fst (run_frames 4096 fake_driver (dispatch fake_driver 64 nothing_more nothing_more)
      [frame 20 1 0 7 [1], frame 20 2 1 7 [], frame 20 1 0 7 [1], frame 20 2 1 7 [], frame 20 3 0 7 []] demo_session))
    = [1, 2, 3]"
proof -
  let ?fs = "[frame 20 1 0 7 [1], frame 20 2 1 7 [], frame 20 1 0 7 [1], frame 20 2 1 7 [], frame 20 3 0 7 []]"
  have nth: "nth_id x 1 = next_id x" "nth_id x 2 = next_id (next_id x)" "nth_id x 3 = next_id (next_id (next_id x))" for x
    by (simp_all add: nth_id_def numeral_2_eq_2 numeral_3_eq_3)
  have "next_id 0xFFFFFFFF = 1" "next_id 1 = 2" "next_id 2 = 3" by (simp_all add: next_id_def)
  with nth have ids: "nth_id 0xFFFFFFFF 1 = 1" "nth_id 0xFFFFFFFF 2 = 2" "nth_id 0xFFFFFFFF 3 = 3" by metis+
  have m: "map (\<lambda>f. rq_req_id (fst f)) ?fs = map (nth_id 0xFFFFFFFF) [1, 2, 1, 2, 3]"
    using ids by (simp add: frame_def)
  have o': "in_order 0 [1, 2, 1, 2, 3]" by (simp add: id_window_def)
  have c: "completed 0xFFFFFFFF 0 demo_session" by (simp add: completed_def demo_session_def)
  have "ran_ids (fst (run_frames 4096 fake_driver (dispatch fake_driver 64 nothing_more nothing_more) ?fs
      demo_session)) = map (nth_id 0xFFFFFFFF) [Suc 0..<Suc (fold max [1, 2, 1, 2, 3] 0)]"
    using requests_run_exactly_once [OF _ o' c m] by simp
  also have "[Suc 0..<Suc (fold max [1, 2, 1, 2, 3] 0)] = [1, 2, 3]" by (simp add: upt_rec)
  finally show ?thesis using ids by simp
qed

text \<open>After a request that replies ran, and after any number of further frames without
  replies, a copy of it changes nothing in the session and is answered with the same bytes as the
  request itself was: what ran is not run again, and its reply is not lost with its connection.\<close>

theorem copy_gets_the_same_reply:
  assumes ran: "\<not> already_ran (fst f) se" and replies: "\<not> no_reply (fst f)" and "rq_req_id (fst f) \<noteq> 0"
    and first: "serve_frame cap drv disp f se = (sent, close, se1)"
    and behind: "list_all (\<lambda>f. no_reply (fst f)) fs" and between: "run_frames cap drv disp fs se1 = (log, se2)"
    and copy: "rq_req_id (fst f') = rq_req_id (fst f)" "\<not> no_reply (fst f')" "already_ran (fst f') se2"
  shows "serve_frame cap drv disp f' se2 = (sent, False, se2)"
proof -
  have "se_last_reply_id se1 = rq_req_id (fst f)" "sent = Some (se_last_reply se1)" "se_last_reply se1 \<noteq> []"
    using serve_replying [OF first ran replies] by auto
  with run_no_reply [OF behind between] copy assms(3)
  show ?thesis by (simp add: serve_frame_def copy_answer_def)
qed

theorem copy_gets_the_same_reply_witness:
  "\<exists>sent close se1. serve_frame 4096 fake_driver (dispatch fake_driver 64 nothing_more nothing_more)
       (frame 20 1 0 7 [1]) demo_session = (sent, close, se1)
     \<and> serve_frame 4096 fake_driver (dispatch fake_driver 64 nothing_more nothing_more) (frame 20 1 0 7 [1]) se1
       = (sent, False, se1)"
proof -
  let ?disp = "dispatch fake_driver 64 nothing_more nothing_more" and ?f = "frame 20 1 0 7 [1]"
  obtain sent close se1 where sf: "serve_frame 4096 fake_driver ?disp ?f demo_session = (sent, close, se1)"
    by (metis prod_cases3)
  have new: "\<not> already_ran (fst ?f) demo_session"
    by (simp add: already_ran_def frame_def demo_session_def req_at_or_before_def)
  have rep: "\<not> no_reply (fst ?f)" by (simp add: no_reply_def frame_def)
  have "se_last_req se1 = 1" using serve_frame_last_req [of 4096 fake_driver ?disp ?f demo_session] sf new
    by (simp add: frame_def)
  then have again: "already_ran (fst ?f) se1" by (simp add: already_ran_def frame_def req_at_or_before_def)
  have "rq_req_id (fst ?f) \<noteq> 0" by (simp add: frame_def)
  from copy_gets_the_same_reply [OF new rep this sf, of "[]" "[]" se1 ?f] rep again sf show ?thesis by simp
qed


section \<open>Refused and malformed requests\<close>

text \<open>A request that names no client thread, and one from a new thread when the
  session already has as many as it may, is refused with an invalid value: it is never dispatched,
  so neither the driver nor what the session owns changes, and no thread is let in.\<close>

theorem refused_request_runs_nothing:
  assumes "rq_thread_id h = 0 \<or> (rq_api_id h \<noteq> API_rgpu_thread_gone
      \<and> map_of (ts_live (sv_threads s)) (rq_thread_id h) = None \<and> cap \<le> length (ts_live (sv_threads s)))"
    and "rn = run_request cap drv disp h payload s"
  shows "rn_refused rn \<and> rn_result rn = CUDA_ERROR_INVALID_VALUE \<and> rn_thread rn = None
    \<and> rn_sv rn = with_threads (ts_caller_update (\<lambda>_. None)) s \<and> \<not> malformed rn"
proof (cases "rq_thread_id h = 0")
  case True
  then show ?thesis unfolding assms(2)
    by (simp add: run_request_def admit_request_def run_dispatch_def settle_result_def malformed_def Let_def)
next
  case False
  then have "rq_api_id h \<noteq> API_rgpu_thread_gone"
    "thread_slot cap (rq_thread_id h) (sv_threads (with_threads (ts_caller_update (\<lambda>_. None)) s))
      = (None, sv_threads (with_threads (ts_caller_update (\<lambda>_. None)) s))"
    using assms(1) by (auto simp: thread_slot_def admit_thread_def with_threads_def)
  then show ?thesis unfolding assms(2) using False
    by (simp add: run_request_def admit_request_def run_dispatch_def settle_result_def malformed_def Let_def)
qed

theorem refused_request_runs_nothing_witness:
  "sv_world (rn_sv (run_request 4096 fake_driver (dispatch fake_driver 64 nothing_more nothing_more)
      (fst (frame 20 1 0 0 [1])) [1] demo_sv)) = sv_world demo_sv"
proof -
  have z: "rq_thread_id (fst (frame 20 1 0 0 [1])) = 0" by (simp add: frame_def)
  show ?thesis
    using refused_request_runs_nothing [OF disjI1 [OF z] refl, where cap = 4096 and s = demo_sv
        and drv = fake_driver and disp = "dispatch fake_driver 64 nothing_more nothing_more" and payload = "[1]"]
    by (simp add: with_threads_def)
qed

text \<open>C39. A request whose arguments end early closes the connection, but only after it is
  recorded as completed: it is not run again when the client resends it, and one that replies is
  answered with an invalid value and an empty payload, whatever the handler had appended.\<close>

theorem malformed_request_is_recorded:
  assumes "\<not> already_ran h se" and "malformed (run_request cap drv disp h payload (se_sv se))"
    and "serve_frame cap drv disp (h, payload) se = (sent, close, se')"
  shows "close \<and> se_last_req se' = rq_req_id h
    \<and> (\<not> no_reply h \<longrightarrow> sent = Some (enc_rsp_header \<lparr> rs_magic = kMagicRsp, rs_req_id = rq_req_id h,
          rs_result = CUDA_ERROR_INVALID_VALUE, rs_payload_len = 0 \<rparr>))"
proof -
  let ?rn = "run_request cap drv disp h payload (se_sv se)"
  have r: "rn_result ?rn = CUDA_ERROR_INVALID_VALUE" "rn_rsp ?rn = empty_buffer"
    using assms(2) by (auto simp: run_request_def settle_result_def malformed_def Let_def split: if_splits)
  have "take_held api hm CUDA_ERROR_INVALID_VALUE ts = (CUDA_ERROR_INVALID_VALUE, ts)" for api hm ts
    by (simp add: take_held_def split: option.split)
  then show ?thesis using assms r
    by (auto simp: serve_frame_def answer_request_def Let_def empty_buffer_def split: prod.splits if_splits)
qed

lemma demo_malformed:
  "malformed (run_request 4096 fake_driver (dispatch fake_driver 64 nothing_more nothing_more)
     (fst (frame 20 1 0 7 [1])) (snd (frame 20 1 0 7 [1])) (se_sv demo_session))"
  "\<not> already_ran (fst (frame 20 1 0 7 [1])) demo_session" "\<not> no_reply (fst (frame 20 1 0 7 [1]))"
  by code_simp+

theorem malformed_request_is_recorded_witness:
  "fst (serve_frame 4096 fake_driver (dispatch fake_driver 64 nothing_more nothing_more) (frame 20 1 0 7 [1])
      demo_session)
    = Some (enc_rsp_header \<lparr> rs_magic = kMagicRsp, rs_req_id = 1, rs_result = CUDA_ERROR_INVALID_VALUE,
        rs_payload_len = 0 \<rparr>)"
proof -
  let ?f = "frame 20 1 0 7 [1]" and ?disp = "dispatch fake_driver 64 nothing_more nothing_more"
  obtain sent close se' where sf: "serve_frame 4096 fake_driver ?disp (fst ?f, snd ?f) demo_session = (sent, close, se')"
    by (metis prod_cases3)
  from malformed_request_is_recorded [OF demo_malformed(2,1) sf] demo_malformed(3) sf show ?thesis
    by (simp add: frame_def)
qed

end
