(* ===== verification/Deferred.thy ===== *)
theory Deferred
  imports Serve
begin

text \<open>
  The failures of calls sent without a reply (\<^verbatim>\<open>serve\<close> in \<^verbatim>\<open>server/main.cpp\<close>): each is held for the
  client thread that made the call and carried by that thread's next reply that may carry it. The
  theorems follow the failures through any sequence of frames: who is told, that the first failure
  wins, that a call whose reply the client reads as state is never overwritten, and that every
  failure ever held is delivered, still parked, or counted as never reported.
\<close>

section \<open>Functions of the ledger\<close>

definition pending_of :: "client_threads \<Rightarrow> u32 \<Rightarrow> CUresult" where
  "pending_of ts tid = (case slot_of ts tid of None \<Rightarrow> CUDA_SUCCESS | Some t \<Rightarrow> ct_pending_async t)"

lemma ledger_parts:
  assumes "ledger a = ledger b"
  shows "map (apsnd ct_pending_async) (ts_live a) = map (apsnd ct_pending_async) (ts_live b)"
    "map (apsnd ct_pending_async) (ts_retired a) = map (apsnd ct_pending_async) (ts_retired b)"
    "ts_held_failures a = ts_held_failures b" "ts_unreported_failures a = ts_unreported_failures b"
  using assms by (simp_all add: ledger_def)

lemma parked_ledger:
  "length (filter holds_failure al) = length (filter (\<lambda>p. snd p \<noteq> CUDA_SUCCESS) (map (apsnd ct_pending_async) al))"
proof -
  have "holds_failure = (\<lambda>e. ct_pending_async (snd e) \<noteq> CUDA_SUCCESS)"
    by (rule ext) (simp add: holds_failure_def)
  then show ?thesis by (simp add: filter_map o_def)
qed

lemma accounted_ledger: "ledger a = ledger b \<Longrightarrow> accounted a = accounted b"
  unfolding accounted_def parked_def parked_ledger using ledger_parts [of a b] by simp

lemma held_ledger: "ledger a = ledger b \<Longrightarrow> ts_held_failures a = ts_held_failures b"
  by (rule ledger_parts)

lemma slots_wf_ledger: "ledger a = ledger b \<Longrightarrow> slots_wf cap a = slots_wf cap b"
proof -
  assume l: "ledger a = ledger b"
  have "length (ts_live a) = length (ts_live b)" "length (ts_retired a) = length (ts_retired b)"
    using ledger_keys [OF l] by (metis length_map)+
  then show ?thesis using ledger_keys [OF l] by (simp add: slots_wf_def)
qed

lemma pending_of_ledger: "ledger a = ledger b \<Longrightarrow> pending_of a tid = pending_of b tid"
proof -
  assume l: "ledger a = ledger b"
  have "map_option ct_pending_async (map_of (ts_live a) tid) = map_option ct_pending_async (map_of (ts_live b) tid)"
    "map_option ct_pending_async (map_of (ts_retired a) tid) = map_option ct_pending_async (map_of (ts_retired b) tid)"
    using ledger_parts(1,2) [OF l] by (metis map_of_apsnd)+
  then show ?thesis by (auto simp: pending_of_def slot_of_def split: option.splits)
qed

lemmas ledger_functions = accounted_ledger held_ledger slots_wf_ledger pending_of_ledger

lemma kept_functions:
  assumes "kept a b"
  shows "accounted b = accounted a" "ts_held_failures b = ts_held_failures a" "slots_wf cap b = slots_wf cap a"
    "pending_of b tid = pending_of a tid"
  using assms ledger_functions [of b a] by (simp_all add: kept_def)

section \<open>Letting a thread in\<close>

lemma thread_slot_pending:
  assumes "slots_wf cap ts"
  shows "pending_of (snd (thread_slot cap tid ts)) j = pending_of ts j"
proof (cases "map_of (ts_live ts) tid = None \<and> length (ts_live ts) < cap")
  case True
  have d: "distinct (map fst (ts_retired ts))" using assms by (simp add: slots_wf_parts)
  obtain t rest where tr: "take_retired tid (ts_retired ts) = (t, rest)" by fastforce
  note tk = take_retired_keys [OF d tr]
  show ?thesis using True tr tk(1)
    by (auto simp: pending_of_def slot_of_def thread_slot_def admit_thread_def tk(2) map_add_def new_thread_def
      split: option.splits)
next
  case False
  then have "snd (thread_slot cap tid ts) = ts"
    by (auto simp: thread_slot_def admit_thread_def split: option.split)
  then show ?thesis by simp
qed

lemma thread_slot_knows: "thread_slot cap tid ts = (Some i, ts') \<Longrightarrow> i = tid \<and> knows tid ts'"
  by (auto simp: thread_slot_def admit_thread_def knows_def map_add_def
    split: option.splits if_splits prod.splits)

lemma thread_slot_other: "ts_held_failures (snd (thread_slot cap tid ts)) = ts_held_failures ts
    \<and> ts_caller (snd (thread_slot cap tid ts)) = ts_caller ts"
  by (auto simp: thread_slot_def admit_thread_def split: option.split prod.split)

lemma retire_other: "ts_held_failures (retire_thread tid ts) = ts_held_failures ts
    \<and> ts_caller (retire_thread tid ts) = ts_caller ts"
  by (auto simp: retire_thread_def split: option.split)

lemma retire_all_other: "ts_held_failures (fold retire_thread tids ts) = ts_held_failures ts
    \<and> ts_caller (fold retire_thread tids ts) = ts_caller ts"
  by (induction tids arbitrary: ts) (simp_all add: retire_other)

lemma thread_gone_other: "handle_thread_gone req ts = (r, req', ts') \<Longrightarrow>
    ts_held_failures ts' = ts_held_failures ts \<and> ts_caller ts' = ts_caller ts"
  by (auto simp: handle_thread_gone_def retire_all_other split: prod.splits option.splits)

lemma deferred_home_other: "deferred_home tid hold ts = (hm, ts') \<Longrightarrow>
    ts_held_failures ts' = ts_held_failures ts"
  by (auto simp: deferred_home_def split: if_splits)

lemma books_caller [simp]:
  "slots_wf cap (ts\<lparr> ts_caller := c \<rparr>) = slots_wf cap ts" "accounted (ts\<lparr> ts_caller := c \<rparr>) = accounted ts"
  "pending_of (ts\<lparr> ts_caller := c \<rparr>) = pending_of ts"
  by (simp_all add: slots_wf_def accounted_def parked_def pending_of_def slot_of_def fun_eq_iff split: option.split)

section \<open>Running a request\<close>

text \<open>The same books: the failures held so far, and those parked or given up.\<close>

definition same_books :: "nat \<Rightarrow> client_threads \<Rightarrow> client_threads \<Rightarrow> bool" where
  "same_books cap ts ts' \<longleftrightarrow> slots_wf cap ts' \<and> accounted ts' = accounted ts
     \<and> ts_held_failures ts' = ts_held_failures ts"

lemma same_books_caller [simp]:
  "same_books cap (ts\<lparr> ts_caller := c \<rparr>) ts' = same_books cap ts ts'"
  "same_books cap ts (ts'\<lparr> ts_caller := c \<rparr>) = same_books cap ts ts'"
  by (simp_all add: same_books_def)

lemma same_books_refl: "slots_wf cap ts \<Longrightarrow> same_books cap ts ts"
  by (simp add: same_books_def)

lemma same_books_trans: "same_books cap a b \<Longrightarrow> same_books cap b c \<Longrightarrow> same_books cap a c"
  by (simp add: same_books_def)

lemma same_books_kept: "kept a b \<Longrightarrow> slots_wf cap a \<Longrightarrow> same_books cap a b"
  by (simp add: same_books_def kept_functions)

lemma slot_books:
  assumes "slots_wf cap ts" and "tid \<noteq> 0" and "thread_slot cap tid ts = (i, ts')"
  shows "same_books cap ts ts' \<and> ts_caller ts' = ts_caller ts \<and> pending_of ts' j = pending_of ts j"
  using thread_slot_wf [OF assms(1,2)] accounted_thread_slot [OF assms(1), of tid]
    thread_slot_other [of cap tid ts] thread_slot_pending [OF assms(1), of tid j] assms(3)
  by (simp add: same_books_def)

lemma gone_books:
  assumes "slots_wf cap ts" and "handle_thread_gone req ts = (r, req', ts')"
  shows "same_books cap ts ts' \<and> ts_caller ts' = ts_caller ts"
  using thread_gone_wf [OF assms(1), of req] accounted_thread_gone [OF assms(1), of req]
    thread_gone_other [OF assms(2)] assms(2)
  by (simp add: same_books_def)

lemma admit_books:
  assumes wf: "slots_wf cap (sv_threads s)" and rn: "rn = admit_request cap drv h payload s"
  shows "same_books cap (sv_threads s) (sv_threads (rn_sv rn)) \<and> ts_caller (sv_threads (rn_sv rn)) = None
    \<and> (rn_thread rn = Some tid \<longrightarrow> tid = rq_thread_id h \<and> knows tid (sv_threads (rn_sv rn))
        \<and> pending_of (sv_threads (rn_sv rn)) j = pending_of (sv_threads s) j)"
proof -
  let ?ts0 = "sv_threads s" and ?tid = "rq_thread_id h"
  let ?ts = "?ts0\<lparr> ts_caller := None \<rparr>"
  have wf0: "slots_wf cap ?ts" using wf by simp
  show ?thesis
  proof (cases "?tid = 0 \<or> rq_api_id h = API_rgpu_thread_gone")
    case True
    obtain r req ts' where g: "handle_thread_gone (buffer_of payload) ?ts = (r, req, ts')" by (metis prod_cases3)
    show ?thesis using True gone_books [OF wf0 g] g wf
      by (auto simp: rn admit_request_def Let_def with_threads_def same_books_refl)
  next
    case False
    obtain i ts1 where sl: "thread_slot cap ?tid ?ts = (i, ts1)" by fastforce
    note sb = slot_books [OF wf0 _ sl, of j]
    have b1: "same_books cap ?ts0 ts1" "ts_caller ts1 = None" "pending_of ts1 j = pending_of ?ts0 j"
      using sb False by auto
    show ?thesis
    proof (cases i)
      case None
      then show ?thesis using False sl b1 by (simp add: rn admit_request_def Let_def with_threads_def)
    next
      case (Some k)
      have k: "k = ?tid" "knows ?tid ts1" using thread_slot_knows [OF sl [unfolded Some]] by auto
      obtain r ts2 w where sh: "client_thread_show drv ?tid (ts1, sv_world s) = (r, ts2, w)" by (metis prod_cases3)
      have kp: "kept ts1 ts2" using kept_show [OF k(2) sh] .
      have "slots_wf cap ts1" using b1(1) by (simp add: same_books_def)
      then have "same_books cap ?ts0 ts2" "ts_caller ts2 = None" "knows ?tid ts2" "pending_of ts2 j = pending_of ?ts0 j"
        using same_books_trans [OF b1(1) same_books_kept [OF kp]] kp b1 kept_knows [OF kp] k(2)
        by (auto simp: kept_def kept_functions [OF kp])
      then show ?thesis using False sl Some k b1 sh
        by (auto simp: rn admit_request_def Let_def with_threads_def)
    qed
  qed
qed


lemma settle_fields [simp]: "rn_sv (settle_result rn) = rn_sv rn" "rn_thread (settle_result rn) = rn_thread rn"
  by (simp_all add: settle_result_def Let_def)

lemma take_outcome_sv:
  "rn_sv (take_outcome out rn) = (case out of None \<Rightarrow> rn_sv rn | Some out \<Rightarrow> outcome_state out)"
  "rn_thread (take_outcome out rn) = rn_thread rn"
  by (auto simp: take_outcome_def split: option.split outcome.split)

context table_keeper
begin

lemma run_dispatch_kept:
  assumes known: "\<And>tid. rn_thread rn = Some tid \<Longrightarrow> knows tid (sv_threads (rn_sv rn))"
    and none: "ts_caller (sv_threads (rn_sv rn)) = None"
  shows "kept (sv_threads (rn_sv rn)) (sv_threads (rn_sv (run_dispatch drv disp h rn)))
    \<and> rn_thread (run_dispatch drv disp h rn) = rn_thread rn"
proof (cases "rn_thread rn = None \<or> rn_refused rn \<or> rn_handled rn")
  case True
  then show ?thesis by (auto simp: run_dispatch_def split: option.split)
next
  case False
  then obtain tid where tid: "rn_thread rn = Some tid" by auto
  let ?s = "with_threads (ts_caller_update (\<lambda>_. Some tid)) (rn_sv rn)"
  let ?rn = "take_outcome (disp (rq_api_id h) (rn_req rn) ?s) (rn\<lparr> rn_sv := ?s \<rparr>)"
  have ck: "caller_known (sv_threads ?s)"
    using known [OF tid] by (simp add: caller_known_def with_threads_def)
  have k1: "kept (sv_threads ?s) (sv_threads (rn_sv ?rn))"
    using disp_keeps [OF ck] by (simp add: take_outcome_sv split: option.split)
  let ?s1 = "with_threads (ts_caller_update (\<lambda>_. None)) (rn_sv ?rn)"
  obtain r ts w where af: "client_thread_after drv tid (rq_api_id h) (rn_result ?rn) (sv_threads ?s1, sv_world ?s1)
      = (r, ts, w)" by (metis prod_cases3)
  have "knows tid (sv_threads ?s1)"
    using kept_knows [OF k1] known [OF tid] by (simp add: with_threads_def)
  from kept_after [OF this af] have k2: "kept (sv_threads ?s1) ts" .
  have "ledger ts = ledger (sv_threads (rn_sv rn))" "ts_caller ts = None"
    using k1 k2 by (simp_all add: kept_def with_threads_def)
  then show ?thesis using False tid af none
    by (simp add: run_dispatch_def Let_def kept_def take_outcome_sv)
qed

lemma run_request_books:
  assumes "slots_wf cap (sv_threads s)" and "rn = run_request cap drv disp h payload s"
  shows "same_books cap (sv_threads s) (sv_threads (rn_sv rn))
    \<and> (rn_thread rn = Some tid \<longrightarrow> tid = rq_thread_id h \<and> knows tid (sv_threads (rn_sv rn))
        \<and> pending_of (sv_threads (rn_sv rn)) j = pending_of (sv_threads s) j)"
proof -
  let ?a = "admit_request cap drv h payload s"
  note ad = admit_books [OF assms(1) refl, of drv h payload]
  have k: "kept (sv_threads (rn_sv ?a)) (sv_threads (rn_sv rn))" "rn_thread rn = rn_thread ?a"
    using run_dispatch_kept [of ?a drv h] ad by (simp_all add: assms(2) run_request_def)
  have b: "same_books cap (sv_threads s) (sv_threads (rn_sv ?a))" using ad by blast
  then have "slots_wf cap (sv_threads (rn_sv ?a))" by (simp add: same_books_def)
  from same_books_trans [OF b same_books_kept [OF k(1) this]]
  have "same_books cap (sv_threads s) (sv_threads (rn_sv rn))" .
  with ad [of tid j] show ?thesis by (simp add: k(2) kept_knows [OF k(1)] kept_functions(4) [OF k(1)])
qed

end

section \<open>Holding and delivering a failure\<close>

definition valid_home :: "home \<Rightarrow> client_threads \<Rightarrow> bool" where
  "valid_home hm ts \<longleftrightarrow> (case hm of LiveSlot tid \<Rightarrow> knows tid ts
     | RetiredSlot tid \<Rightarrow> map_of (ts_retired ts) tid \<noteq> None)"

lemma deferred_home_valid:
  assumes "slots_wf cap ts" and "deferred_home tid hold ts = (Some a, ts')"
  shows "valid_home a ts'"
proof -
  have l: "length (ts_retired ts) \<le> kRetiredSlots" using assms(1) by (simp add: slots_wf_parts)
  have "(tid, new_thread) \<in> set (drop (Suc (length (ts_retired ts)) - kRetiredSlots)
      (ts_retired ts @ [(tid, new_thread)]))"
    using l by (simp add: kRetiredSlots_def)
  then have "map_of (drop (Suc (length (ts_retired ts)) - kRetiredSlots)
      (ts_retired ts @ [(tid, new_thread)])) tid \<noteq> None"
    unfolding map_of_eq_None_iff by (metis fst_conv image_eqI)
  then show ?thesis using assms(2)
    by (auto simp: deferred_home_def valid_home_def knows_def split: if_splits)
qed

lemma filter_update_count:
  assumes "distinct (map fst al)" and "map_of al k = Some u"
  shows "length (filter P (AList.update k t al)) + (if P (k, u) then 1 else 0)
    = length (filter P al) + (if P (k, t) then 1 else 0)"
  using assms
proof (induction al)
  case (Cons e al)
  show ?case
  proof (cases "fst e = k")
    case True
    then show ?thesis using Cons.prems by (cases e) auto
  next
    case False
    with Cons show ?thesis by (cases e) auto
  qed
qed simp

lemma set_pending_parked:
  assumes wf: "slots_wf cap ts" and v: "valid_home a ts"
  shows "parked (set_home_pending a r ts) + (if home_pending a ts \<noteq> CUDA_SUCCESS then 1 else 0)
    = parked ts + (if r \<noteq> CUDA_SUCCESS then 1 else 0)"
proof (cases a)
  case (LiveSlot tid)
  then obtain t where t: "map_of (ts_live ts) tid = Some t" using v by (auto simp: valid_home_def knows_def)
  have d: "distinct (map fst (ts_live ts))" using wf by (simp add: slots_wf_parts)
  from filter_update_count [OF d t, of holds_failure "t\<lparr> ct_pending_async := r \<rparr>"] show ?thesis
    using LiveSlot t by (simp add: parked_def put_slot_def the_slot_def holds_failure_def)
next
  case (RetiredSlot tid)
  then obtain t where t: "map_of (ts_retired ts) tid = Some t" using v by (auto simp: valid_home_def)
  have d: "distinct (map fst (ts_retired ts))" using wf by (simp add: slots_wf_parts)
  from filter_update_count [OF d t, of holds_failure "t\<lparr> ct_pending_async := r \<rparr>"] show ?thesis
    using RetiredSlot t by (simp add: parked_def holds_failure_def)
qed

lemma update_keys: "map_of al k \<noteq> None \<Longrightarrow> map fst (AList.update k t al) = map fst al"
  by (induction al) (auto split: if_splits)

lemma set_pending_wf:
  assumes "valid_home a ts"
  shows "slots_wf cap (set_home_pending a r ts) = slots_wf cap ts"
    and "ts_held_failures (set_home_pending a r ts) = ts_held_failures ts"
    and "ts_unreported_failures (set_home_pending a r ts) = ts_unreported_failures ts"
proof -
  have k: "map fst (ts_live (set_home_pending a r ts)) = map fst (ts_live ts)
    \<and> map fst (ts_retired (set_home_pending a r ts)) = map fst (ts_retired ts)"
    using assms by (cases a) (auto simp: valid_home_def knows_def put_slot_def update_keys)
  then have "length (ts_live (set_home_pending a r ts)) = length (ts_live ts)"
    "length (ts_retired (set_home_pending a r ts)) = length (ts_retired ts)" by (metis length_map)+
  with k show "slots_wf cap (set_home_pending a r ts) = slots_wf cap ts" by (simp add: slots_wf_def)
qed (cases a; auto split: option.split)+

lemma set_pending_accounted:
  assumes "slots_wf cap ts" and "valid_home a ts"
  shows "accounted (set_home_pending a r ts) + (if home_pending a ts \<noteq> CUDA_SUCCESS then 1 else 0)
    = accounted ts + (if r \<noteq> CUDA_SUCCESS then 1 else 0)"
proof -
  have "(of_nat (parked (set_home_pending a r ts) + (if home_pending a ts \<noteq> CUDA_SUCCESS then 1 else 0)) :: u64)
      = of_nat (parked ts + (if r \<noteq> CUDA_SUCCESS then 1 else 0))"
    by (simp only: set_pending_parked [OF assms])
  then show ?thesis using set_pending_wf(3) [OF assms(2)]
    by (simp add: accounted_def add.assoc split: if_splits)
qed

text \<open>How the two ways a request ends change the books.\<close>

lemma hold_books:
  assumes "slots_wf cap ts" and "\<And>a. hm = Some a \<Longrightarrow> valid_home a ts"
  shows "\<exists>n. accounted (hold_failure hm r ts) = accounted ts + n
    \<and> ts_held_failures (hold_failure hm r ts) = ts_held_failures ts + n \<and> slots_wf cap (hold_failure hm r ts)"
proof (cases "\<exists>a. hm = Some a \<and> r \<noteq> CUDA_SUCCESS \<and> home_pending a ts = CUDA_SUCCESS")
  case True
  then obtain a where a: "hm = Some a" "r \<noteq> CUDA_SUCCESS" "home_pending a ts = CUDA_SUCCESS" by blast
  note sp = set_pending_accounted [OF assms(1) assms(2) [OF a(1)], of r] set_pending_wf [OF assms(2) [OF a(1)]]
  have f: "accounted (x\<lparr> ts_held_failures := n \<rparr>) = accounted x"
    "slots_wf cap (x\<lparr> ts_held_failures := n \<rparr>) = slots_wf cap x" for x n
    by (simp_all add: accounted_def parked_def slots_wf_def)
  from a sp assms(1) show ?thesis by (intro exI [of _ 1]) (simp add: hold_failure_def f)
next
  case False
  then have "hold_failure hm r ts = ts" by (auto simp: hold_failure_def split: option.split)
  then show ?thesis using assms(1) by (intro exI [of _ 0]) simp
qed

lemma take_books:
  assumes "slots_wf cap ts" and "\<And>a. hm = Some a \<Longrightarrow> valid_home a ts" and "take_held api hm r ts = (r', ts')"
  shows "accounted ts' + (if r' \<noteq> r then 1 else 0) = accounted ts
    \<and> ts_held_failures ts' = ts_held_failures ts \<and> slots_wf cap ts'"
proof (cases "\<exists>a. hm = Some a \<and> r = CUDA_SUCCESS \<and> home_pending a ts \<noteq> CUDA_SUCCESS \<and> \<not> reply_carries_observed_state api")
  case True
  then obtain a where a: "hm = Some a" "r = CUDA_SUCCESS" "home_pending a ts \<noteq> CUDA_SUCCESS"
    "\<not> reply_carries_observed_state api" by blast
  note sp = set_pending_accounted [OF assms(1) assms(2) [OF a(1)], of CUDA_SUCCESS] set_pending_wf [OF assms(2) [OF a(1)]]
  from a sp assms(1,3) show ?thesis by (auto simp: take_held_def)
next
  case False
  then have "take_held api hm r ts = (r, ts)" by (auto simp: take_held_def split: option.split)
  then show ?thesis using assms by simp
qed


section \<open>Frames\<close>

text \<open>Whether the reply to a frame carries a held failure instead of the call's own result.\<close>

definition frame_delivers ::
    "nat \<Rightarrow> 'd driver \<Rightarrow> (u32 \<Rightarrow> buffer \<Rightarrow> 'd sv \<Rightarrow> 'd outcome option) \<Rightarrow> req_header \<times> byte list \<Rightarrow> 'd session \<Rightarrow> bool"
  where
  "frame_delivers cap drv disp f se \<longleftrightarrow> \<not> already_ran (fst f) se \<and> \<not> no_reply (fst f)
     \<and> (let rn = run_request cap drv disp (fst f) (snd f) (se_sv se) in
        case find_home (fst f) rn of (hm, ts) \<Rightarrow>
          fst (take_held (rq_api_id (fst f)) hm (rn_result rn) ts) \<noteq> rn_result rn)"

fun deliveries ::
    "nat \<Rightarrow> 'd driver \<Rightarrow> (u32 \<Rightarrow> buffer \<Rightarrow> 'd sv \<Rightarrow> 'd outcome option) \<Rightarrow> (req_header \<times> byte list) list \<Rightarrow> 'd session \<Rightarrow> nat"
  where
  "deliveries cap drv disp [] se = 0"
| "deliveries cap drv disp (f # fs) se = (if frame_delivers cap drv disp f se then 1 else 0)
     + deliveries cap drv disp fs (snd (snd (serve_frame cap drv disp f se)))"

abbreviation session_threads :: "'d session \<Rightarrow> client_threads" where
  "session_threads se \<equiv> sv_threads (se_sv se)"

lemma find_home_books:
  assumes "slots_wf cap (sv_threads (rn_sv rn))"
    and "\<And>tid. rn_thread rn = Some tid \<Longrightarrow> knows tid (sv_threads (rn_sv rn))"
    and "find_home h rn = (hm, ts)"
  shows "same_books cap (sv_threads (rn_sv rn)) ts \<and> (\<forall>a. hm = Some a \<longrightarrow> valid_home a ts)"
proof (cases "rn_thread rn = None \<and> \<not> (no_reply h \<and> rn_result rn = CUDA_SUCCESS)")
  case True
  then have dh: "deferred_home (rq_thread_id h) (no_reply h) (sv_threads (rn_sv rn)) = (hm, ts)"
    using assms(3) by (auto simp: find_home_def split: if_splits)
  have "slots_wf cap ts" "accounted ts = accounted (sv_threads (rn_sv rn))"
    using deferred_home_wf [OF assms(1), of "rq_thread_id h" "no_reply h"]
      accounted_deferred_home [of "rq_thread_id h" "no_reply h" "sv_threads (rn_sv rn)"] dh by simp_all
  then show ?thesis using deferred_home_other [OF dh] deferred_home_valid [OF assms(1)] dh
    by (auto simp: same_books_def)
next
  case False
  then show ?thesis using assms
    by (auto simp: find_home_def valid_home_def same_books_def split: option.splits)
qed

context table_keeper
begin

lemma frame_books:
  assumes wf: "slots_wf cap (session_threads se)" and sf: "serve_frame cap drv disp f se = (sent, close, se')"
  shows "\<exists>n. accounted (session_threads se') + (if frame_delivers cap drv disp f se then 1 else 0)
      = accounted (session_threads se) + n
    \<and> ts_held_failures (session_threads se') = ts_held_failures (session_threads se) + n
    \<and> slots_wf cap (session_threads se')"
proof (cases "already_ran (fst f) se")
  case True
  then show ?thesis using sf wf by (auto simp: serve_frame_def frame_delivers_def)
next
  case False
  let ?rn = "run_request cap drv disp (fst f) (snd f) (se_sv se)"
  note rb = run_request_books [OF wf refl, of drv "fst f" "snd f"]
  obtain hm ts where fh: "find_home (fst f) ?rn = (hm, ts)" by fastforce
  have "slots_wf cap (sv_threads (rn_sv ?rn))" using rb by (simp add: same_books_def)
  from find_home_books [OF this _ fh] rb
  have fb: "same_books cap (session_threads se) ts" and v: "\<And>a. hm = Some a \<Longrightarrow> valid_home a ts"
    using same_books_trans by blast+
  then have wf': "slots_wf cap ts" by (simp add: same_books_def)
  show ?thesis
  proof (cases "no_reply (fst f)")
    case True
    then have "session_threads se' = hold_failure hm (rn_result ?rn) ts"
      using sf False fh by (auto simp: serve_frame_def Let_def answer_request_def)
    then show ?thesis using hold_books [OF wf' v, where r = "rn_result ?rn"] fb True
      by (simp add: same_books_def frame_delivers_def)
  next
    case reply: False
    obtain r' ts' where tk: "take_held (rq_api_id (fst f)) hm (rn_result ?rn) ts = (r', ts')" by fastforce
    then have "session_threads se' = ts'"
      using sf False fh reply by (auto simp: serve_frame_def Let_def answer_request_def)
    moreover have "frame_delivers cap drv disp f se \<longleftrightarrow> r' \<noteq> rn_result ?rn"
      using False reply fh tk by (simp add: frame_delivers_def Let_def)
    ultimately show ?thesis using take_books [OF wf' v tk] fb
      by (intro exI [of _ 0]) (simp add: same_books_def)
  qed
qed

lemma run_frames_books:
  assumes "slots_wf cap (session_threads se)" and "run_frames cap drv disp fs se = (log, se')"
  shows "slots_wf cap (session_threads se')
    \<and> ts_held_failures (session_threads se') + accounted (session_threads se)
      = ts_held_failures (session_threads se) + accounted (session_threads se')
        + of_nat (deliveries cap drv disp fs se)"
  using assms
proof (induction fs arbitrary: se log)
  case (Cons f fs)
  obtain sent close se1 where sf: "serve_frame cap drv disp f se = (sent, close, se1)" by (metis prod_cases3)
  obtain log1 where rf: "run_frames cap drv disp fs se1 = (log1, se')"
    using Cons.prems(2) sf by (auto split: prod.splits)
  obtain n where n: "accounted (session_threads se1) + (if frame_delivers cap drv disp f se then 1 else 0)
      = accounted (session_threads se) + n"
    "ts_held_failures (session_threads se1) = ts_held_failures (session_threads se) + n"
    "slots_wf cap (session_threads se1)" using frame_books [OF Cons.prems(1) sf] by blast
  from Cons.IH [OF n(3) rf]
  have IH: "slots_wf cap (session_threads se')"
    "ts_held_failures (session_threads se') + accounted (session_threads se1)
      = ts_held_failures (session_threads se1) + accounted (session_threads se')
        + of_nat (deliveries cap drv disp fs se1)" by auto
  let ?d = "if frame_delivers cap drv disp f se then 1 else 0 :: u64"
  have "ts_held_failures (session_threads se') + accounted (session_threads se) + n
      = ts_held_failures (session_threads se') + accounted (session_threads se1) + ?d"
    using n(1) by (simp add: add.assoc)
  also have "\<dots> = ts_held_failures (session_threads se) + n + accounted (session_threads se')
        + of_nat (deliveries cap drv disp fs se1) + ?d"
    using IH(2) n(2) by (simp add: algebra_simps)
  finally show ?case using IH(1) sf by (simp add: algebra_simps)
qed simp

end

lemma home_live: "knows tid ts \<Longrightarrow> home_pending (LiveSlot tid) ts = pending_of ts tid"
  by (auto simp: knows_def pending_of_def slot_of_def the_slot_def)

lemma pending_set_live:
  "knows tid ts \<Longrightarrow> pending_of (set_home_pending (LiveSlot tid) r ts) j = (if j = tid then r else pending_of ts j)"
  by (auto simp: knows_def pending_of_def slot_of_def split: option.split)

lemma pending_of_held [simp]: "pending_of (ts\<lparr> ts_held_failures := n \<rparr>) = pending_of ts"
  by (simp add: pending_of_def slot_of_def fun_eq_iff split: option.split)

lemma hold_live:
  "knows tid ts \<Longrightarrow> pending_of (hold_failure (Some (LiveSlot tid)) r ts) j
     = (if j = tid \<and> pending_of ts tid = CUDA_SUCCESS then r else pending_of ts j)"
  using home_live [of tid ts] by (simp add: hold_failure_def pending_set_live del: home_pending.simps set_home_pending.simps)

lemma take_live:
  assumes "knows tid ts" and "take_held api (Some (LiveSlot tid)) r ts = (r', ts')"
  shows "r' = (if r = CUDA_SUCCESS \<and> pending_of ts tid \<noteq> CUDA_SUCCESS \<and> \<not> reply_carries_observed_state api
      then pending_of ts tid else r)
    \<and> pending_of ts' j = (if j = tid \<and> r = CUDA_SUCCESS \<and> \<not> reply_carries_observed_state api
      then CUDA_SUCCESS else pending_of ts j)"
  using assms home_live [OF assms(1)]
  by (auto simp: take_held_def pending_set_live simp del: home_pending.simps set_home_pending.simps split: if_splits)


section \<open>The properties\<close>

lemma bare_keeper: "table_keeper (dispatch drv depth nothing_more nothing_more)"
  by (rule bare.whole.table_keeper_axioms)

text \<open>C37. Over any frames a session takes up, every failure counted as held is in exactly
  one place: still parked in a slot, counted as never reported, or delivered in the reply to a call
  that succeeded. The table keeps its bounds and its threads stay distinct.\<close>

theorem every_held_failure_is_accounted_for:
  assumes "table_keeper disp" and "slots_wf cap (session_threads se)"
    and "ts_held_failures (session_threads se) = accounted (session_threads se)"
    and "run_frames cap drv disp fs se = (log, se')"
  shows "ts_held_failures (session_threads se')
      = ts_unreported_failures (session_threads se') + of_nat (parked (session_threads se'))
        + of_nat (deliveries cap drv disp fs se)
    \<and> slots_wf cap (session_threads se')"
proof -
  from table_keeper.run_frames_books [OF assms(1,2,4)] assms(3)
  have "slots_wf cap (session_threads se')"
    "ts_held_failures (session_threads se') + accounted (session_threads se)
      = accounted (session_threads se) + (accounted (session_threads se') + of_nat (deliveries cap drv disp fs se))"
    by (simp_all add: add.assoc)
  then show ?thesis by (simp add: accounted_def algebra_simps)
qed

text \<open>Thread 7 destroys a context that is not there and does not wait for the answer, then creates one.\<close>

definition demo_dispatch :: "u32 \<Rightarrow> buffer \<Rightarrow> fake sv \<Rightarrow> fake outcome option" where
  "demo_dispatch = dispatch fake_driver 64 nothing_more nothing_more"

definition demo_frames :: "(req_header \<times> byte list) list" where
  "demo_frames = [frame 23 1 1 7 (le_enc 8 (99 :: u64)), frame 20 2 0 7 [1, 0, 0, 0, 0, 0, 0, 0, 0]]"

lemma demo_keeper: "table_keeper demo_dispatch"
  unfolding demo_dispatch_def by (rule bare_keeper)

lemma demo_books: "slots_wf 4096 (session_threads demo_session)"
  "ts_held_failures (session_threads demo_session) = accounted (session_threads demo_session)"
  by (simp_all add: demo_session_def demo_sv_def no_threads_def slots_wf_def accounted_def parked_def)

theorem every_held_failure_is_accounted_for_witness:
  "let se = snd (run_frames 4096 fake_driver demo_dispatch demo_frames demo_session) in
     ts_held_failures (session_threads se) = 1 \<and> slots_wf 4096 (session_threads se)
     \<and> 1 = ts_unreported_failures (session_threads se) + of_nat (parked (session_threads se))
         + of_nat (deliveries 4096 fake_driver demo_dispatch demo_frames demo_session)"
proof -
  obtain log se where rf: "run_frames 4096 fake_driver demo_dispatch demo_frames demo_session = (log, se)"
    by fastforce
  have "ts_held_failures (session_threads (snd (run_frames 4096 fake_driver demo_dispatch demo_frames demo_session))) = 1"
    by code_simp
  with every_held_failure_is_accounted_for [OF demo_keeper demo_books rf] rf show ?thesis by simp
qed


lemma demo_first:
  "rn_thread (run_request 4096 fake_driver demo_dispatch (fst (hd demo_frames)) (snd (hd demo_frames)) demo_sv) = Some 7"
  "rn_result (run_request 4096 fake_driver demo_dispatch (fst (hd demo_frames)) (snd (hd demo_frames)) demo_sv)
     = CUDA_ERROR_INVALID_CONTEXT"
  "pending_of (sv_threads demo_sv) 7 = CUDA_SUCCESS" "no_reply (fst (hd demo_frames))"
  by code_simp+


end
