(* ===== verification/Sessions.thy ===== *)
theory Sessions
  imports Deferred Release
begin

text \<open>
  Sessions and the connections handed to them (\<^verbatim>\<open>accept_connection\<close> and \<^verbatim>\<open>serve_session\<close> in
  \<^verbatim>\<open>server/main.cpp\<close>). Each connection has an accepting thread that reads its handshake, finds or
  makes the session and hands the connection over; each session has one serving thread. What a
  thread does under one hold of a lock is one event, and the events of all threads interleave
  freely: a run of the server is any list of events. The properties: every open descriptor has
  exactly one owner, the caps hold, and a connection handed over always has somebody to read it.

  The test hooks that delay a thread are left out: the interleavings allow every delay. Timers are
  events that may happen at any time they could.
\<close>

section \<open>State\<close>

type_synonym session_key = "u64 \<times> u64"

text \<open>What a session has completed: the part of \<open>session\<close> a handshake reads.\<close>

record completion =
  cp_last_req :: u32
  cp_last_reply_id :: u32
  cp_last_reply :: "byte list"

definition completion_of :: "'d session \<Rightarrow> completion" where
  "completion_of se = \<lparr> cp_last_req = se_last_req se, cp_last_reply_id = se_last_reply_id se,
     cp_last_reply = se_last_reply se \<rparr>"

text \<open>Where a session's serving thread is: not started, waiting for a connection, serving one, or gone.\<close>

datatype serving = Unserved | Waiting | On nat | Given_up

record control =
  co_key :: session_key
  co_pending_fd :: "nat option"
  co_finished :: bool
  co_completion :: completion
  co_serving :: serving

definition new_control :: "session_key \<Rightarrow> control" where
  "new_control key = \<lparr> co_key = key, co_pending_fd = None, co_finished = False,
     co_completion = \<lparr> cp_last_req = 0, cp_last_reply_id = 0, cp_last_reply = [] \<rparr>, co_serving = Unserved \<rparr>"

text \<open>How far an accepting thread is: reading the handshake; with its session found or made; with
  its reply ready to be written; with it written.\<close>

datatype phase =
    Handshaking
  | Found handshake nat bool
  | Replying nat bool handshake_reply "byte list"
  | Replied nat bool

text \<open>A reference to a session is a number; \<open>sr_next\<close> is the next one to be made.\<close>

record server =
  sr_sessions :: "(session_key \<times> nat) list"
  sr_control :: "nat \<Rightarrow> control"
  sr_next :: nat
  sr_accepting :: "(nat \<times> phase) list"
  sr_pending_handshakes :: nat
  sr_open :: "nat set"

definition no_sessions :: server where
  "no_sessions = \<lparr> sr_sessions = [], sr_control = (\<lambda>_. new_control (0, 0)), sr_next = 0, sr_accepting = [],
     sr_pending_handshakes = 0, sr_open = {} \<rparr>"

definition max_sessions :: "int option \<Rightarrow> nat" where
  "max_sessions env = env_limit env 64"

definition max_pending_handshakes :: "int option \<Rightarrow> nat" where
  "max_pending_handshakes env = env_limit env 256"

definition on_control :: "nat \<Rightarrow> (control \<Rightarrow> control) \<Rightarrow> server \<Rightarrow> server" where
  "on_control sid f srv = srv\<lparr> sr_control := (sr_control srv)(sid := f (sr_control srv sid)) \<rparr>"

definition close_fd :: "nat \<Rightarrow> server \<Rightarrow> server" where
  "close_fd fd srv = srv\<lparr> sr_open := sr_open srv - {fd} \<rparr>"

definition close_pending :: "nat \<Rightarrow> server \<Rightarrow> server" where
  "close_pending sid srv = (case co_pending_fd (sr_control srv sid) of
       None \<Rightarrow> srv
     | Some old \<Rightarrow> on_control sid (co_pending_fd_update (\<lambda>_. None)) (close_fd old srv))"

text \<open>The accepting thread is done with its connection.\<close>

definition leave_accept :: "nat \<Rightarrow> server \<Rightarrow> server" where
  "leave_accept fd srv = srv\<lparr> sr_accepting := AList.delete fd (sr_accepting srv),
     sr_pending_handshakes := sr_pending_handshakes srv - 1 \<rparr>"

definition set_phase :: "nat \<Rightarrow> phase \<Rightarrow> server \<Rightarrow> server" where
  "set_phase fd ph srv = srv\<lparr> sr_accepting := AList.update fd ph (sr_accepting srv) \<rparr>"

section \<open>Accepting a connection\<close>

text \<open>A connection past the cap is closed before a byte is read.\<close>

definition begin_accept :: "nat \<Rightarrow> nat \<Rightarrow> server \<Rightarrow> server" where
  "begin_accept cap fd srv =
     (if sr_pending_handshakes srv + 1 > cap then srv
      else srv\<lparr> sr_pending_handshakes := sr_pending_handshakes srv + 1,
                sr_accepting := (fd, Handshaking) # sr_accepting srv, sr_open := insert fd (sr_open srv) \<rparr>)"

definition hello_key :: "handshake \<Rightarrow> session_key" where
  "hello_key hello = (hs_session_hi hello, hs_session_lo hello)"

definition is_starting :: "handshake \<Rightarrow> bool" where
  "is_starting hello \<longleftrightarrow> hs_last_req_id hello = 0 \<and> hs_flags hello AND kHelloResuming = 0"

datatype decision = Refused nat | Not_here | Resumed nat | Started nat

text \<open>A new session is refused with the count it was refused at; at a count of zero, which the least
  limit of one rules out, the code would take it for a client whose session is gone.\<close>

definition find_session :: "nat \<Rightarrow> handshake \<Rightarrow> server \<Rightarrow> decision \<times> server" where
  "find_session cap hello srv =
     (let key = hello_key hello; it = map_of (sr_sessions srv) key in
      case (case it of Some sid \<Rightarrow> if co_finished (sr_control srv sid) then None else Some sid | None \<Rightarrow> None) of
        Some sid \<Rightarrow> (Resumed sid, srv)
      | None \<Rightarrow>
          (if is_starting hello then
             (if it = None \<and> length (sr_sessions srv) \<ge> cap
              then (if sr_sessions srv = [] then Not_here else Refused (length (sr_sessions srv)), srv)
              else (Started (sr_next srv),
                    srv\<lparr> sr_sessions := AList.update key (sr_next srv) (sr_sessions srv),
                         sr_control := (sr_control srv)(sr_next srv := new_control key),
                         sr_next := Suc (sr_next srv) \<rparr>))
           else (Not_here, srv)))"

text \<open>What is said to a client with no session here, or none to be made.\<close>

definition session_gone :: handshake_reply where
  "session_gone = \<lparr> hr_magic = kMagicHello, hr_version = kProtocolVersion, hr_resumed = 0, hr_last_req_id = 0 \<rparr>"

definition session_refused :: handshake_reply where
  "session_refused = \<lparr> hr_magic = kMagicBusy, hr_version = kProtocolVersion, hr_resumed = 0, hr_last_req_id = 0 \<rparr>"

text \<open>A handshake that came in within its deadline with the right bytes. One of another version is
  answered with this server's and closed, as are the two refusals.\<close>

definition handle_handshake :: "nat \<Rightarrow> nat \<Rightarrow> handshake \<Rightarrow> server \<Rightarrow> handshake_reply option \<times> server" where
  "handle_handshake cap fd hello srv =
     (if hs_magic hello \<noteq> kMagicHello then (None, close_fd fd (leave_accept fd srv))
      else if hs_version hello \<noteq> kProtocolVersion then (Some session_gone, close_fd fd (leave_accept fd srv))
      else (case find_session cap hello srv of
          (Refused n, srv1) \<Rightarrow> (Some session_refused, close_fd fd (leave_accept fd srv1))
        | (Not_here, srv1) \<Rightarrow> (Some session_gone, close_fd fd (leave_accept fd srv1))
        | (Resumed sid, srv1) \<Rightarrow> (None, set_phase fd (Found hello sid True) srv1)
        | (Started sid, srv1) \<Rightarrow> (None, set_phase fd (Found hello sid False) srv1)))"

text \<open>The reply, and the kept reply the client never received, read together.\<close>

definition handshake_answer :: "handshake \<Rightarrow> bool \<Rightarrow> completion \<Rightarrow> handshake_reply \<times> byte list" where
  "handshake_answer hello resumed cp =
     (\<lparr> hr_magic = kMagicHello, hr_version = kProtocolVersion, hr_resumed = (if resumed then 1 else 0),
        hr_last_req_id = cp_last_req cp \<rparr>,
      if resumed \<and> \<not> req_at_or_before (cp_last_reply_id cp) (hs_last_req_id hello) \<and> cp_last_reply cp \<noteq> []
      then cp_last_reply cp else [])"

definition forget_unserved :: "nat \<Rightarrow> server \<Rightarrow> server" where
  "forget_unserved sid srv =
     (let key = co_key (sr_control srv sid);
          srv1 = (if map_of (sr_sessions srv) key = Some sid
                  then srv\<lparr> sr_sessions := AList.delete key (sr_sessions srv) \<rparr> else srv)
      in close_pending sid (on_control sid (co_finished_update (\<lambda>_. True)) srv1))"

definition hand_over :: "nat \<Rightarrow> nat \<Rightarrow> server \<Rightarrow> server" where
  "hand_over sid fd srv =
     (if co_finished (sr_control srv sid) then close_fd fd (leave_accept fd srv)
      else on_control sid (co_pending_fd_update (\<lambda>_. Some fd)) (close_pending sid (leave_accept fd srv)))"

definition start_serving :: "nat \<Rightarrow> nat \<Rightarrow> server \<Rightarrow> server" where
  "start_serving sid fd srv =
     on_control sid (\<lambda>co. co\<lparr> co_pending_fd := Some fd, co_serving := Waiting \<rparr>)
       (close_pending sid (leave_accept fd srv))"

section \<open>Serving a session\<close>

definition take_connection :: "nat \<Rightarrow> server \<Rightarrow> server" where
  "take_connection sid srv = (case co_pending_fd (sr_control srv sid) of
       None \<Rightarrow> srv
     | Some fd \<Rightarrow> on_control sid (\<lambda>co. co\<lparr> co_pending_fd := None, co_serving := On fd \<rparr>) srv)"

definition end_connection :: "nat \<Rightarrow> nat \<Rightarrow> server \<Rightarrow> server" where
  "end_connection sid fd srv = on_control sid (co_serving_update (\<lambda>_. Waiting)) (close_fd fd srv)"

definition give_up :: "nat \<Rightarrow> server \<Rightarrow> server" where
  "give_up sid srv = (if co_pending_fd (sr_control srv sid) \<noteq> None then srv
     else on_control sid (\<lambda>co. co\<lparr> co_finished := True, co_serving := Given_up \<rparr>) srv)"

definition erase_session :: "nat \<Rightarrow> server \<Rightarrow> server" where
  "erase_session sid srv = (let key = co_key (sr_control srv sid) in
     if map_of (sr_sessions srv) key = Some sid
     then srv\<lparr> sr_sessions := AList.delete key (sr_sessions srv) \<rparr> else srv)"

text \<open>A request completed, with the reply that is kept if it has one.\<close>

definition complete :: "u32 \<Rightarrow> byte list option \<Rightarrow> completion \<Rightarrow> completion" where
  "complete rid sent cp = (case sent of
       None \<Rightarrow> cp\<lparr> cp_last_req := rid \<rparr>
     | Some bytes \<Rightarrow> cp\<lparr> cp_last_req := rid, cp_last_reply_id := rid, cp_last_reply := bytes \<rparr>)"

section \<open>The end of a session\<close>

definition say_all_unreported :: "client_threads \<Rightarrow> client_threads" where
  "say_all_unreported ts = fold (\<lambda>e. say_unreported (snd e)) (ts_live ts @ ts_retired ts) ts"

text \<open>The table is forgotten before anything is released, the release runs in relaxed capture mode,
  and the inventory is unbound last.\<close>

definition expire_session :: "'d driver \<Rightarrow> 'd sv \<Rightarrow> (u64 \<times> u64) \<times> report option \<times> 'd sv" where
  "expire_session drv s =
     (let ts = say_all_unreported (sv_threads s);
          counts = (ts_held_failures ts, ts_unreported_failures ts);
          s1 = on_threads (client_threads_relax_capture_mode drv) (s\<lparr> sv_threads := threads_clear ts \<rparr>)
      in case sv_inv s1 of
           None \<Rightarrow> (counts, None, inventory_bind None s1)
         | Some iv \<Rightarrow> (case release_inventory drv iv (sv_proc s1, sv_world s1) of
             ((iv', rp), (p, w)) \<Rightarrow>
               (counts, Some rp, inventory_bind None (s1\<lparr> sv_inv := Some iv', sv_proc := p, sv_world := w \<rparr>))))"

section \<open>Events\<close>

datatype event =
    Accept nat
  | Handshake nat "handshake option"
  | Read_completion nat
  | Write_reply nat bool bool
  | Hand_over nat
  | Take_up nat
  | Completed nat u32 "byte list option"
  | Connection_ends nat
  | Grace_over nat
  | Erase nat

text \<open>What the event's thread does, if it is where the event can happen: \<open>mx\<close> and \<open>mp\<close> are the caps
  on sessions and handshakes. The writes of a reply and of a kept reply may each fail.\<close>

fun happen :: "nat \<Rightarrow> nat \<Rightarrow> event \<Rightarrow> server \<Rightarrow> server" where
  "happen mx mp (Accept fd) srv = (if fd \<in> sr_open srv then srv else begin_accept mp fd srv)"
| "happen mx mp (Handshake fd hello) srv = (case map_of (sr_accepting srv) fd of
       Some Handshaking \<Rightarrow> (case hello of
           None \<Rightarrow> close_fd fd (leave_accept fd srv)
         | Some h \<Rightarrow> snd (handle_handshake mx fd h srv))
     | _ \<Rightarrow> srv)"
| "happen mx mp (Read_completion fd) srv = (case map_of (sr_accepting srv) fd of
       Some (Found hello sid resumed) \<Rightarrow>
         (case handshake_answer hello resumed (co_completion (sr_control srv sid)) of
            (reply, unanswered) \<Rightarrow> set_phase fd (Replying sid resumed reply unanswered) srv)
     | _ \<Rightarrow> srv)"
| "happen mx mp (Write_reply fd ok ok2) srv = (case map_of (sr_accepting srv) fd of
       Some (Replying sid resumed reply unanswered) \<Rightarrow>
         (if \<not> ok then close_fd fd (leave_accept fd (if resumed then srv else forget_unserved sid srv))
          else if resumed \<and> unanswered \<noteq> [] \<and> \<not> ok2 then close_fd fd (leave_accept fd srv)
          else set_phase fd (Replied sid resumed) srv)
     | _ \<Rightarrow> srv)"
| "happen mx mp (Hand_over fd) srv = (case map_of (sr_accepting srv) fd of
       Some (Replied sid resumed) \<Rightarrow> (if resumed then hand_over sid fd srv else start_serving sid fd srv)
     | _ \<Rightarrow> srv)"
| "happen mx mp (Take_up sid) srv =
     (if sid < sr_next srv \<and> co_serving (sr_control srv sid) = Waiting then take_connection sid srv else srv)"
| "happen mx mp (Completed sid rid sent) srv = (case co_serving (sr_control srv sid) of
       On fd \<Rightarrow> (if sid < sr_next srv then on_control sid (co_completion_update (complete rid sent)) srv else srv)
     | _ \<Rightarrow> srv)"
| "happen mx mp (Connection_ends sid) srv = (case co_serving (sr_control srv sid) of
       On fd \<Rightarrow> (if sid < sr_next srv then end_connection sid fd srv else srv)
     | _ \<Rightarrow> srv)"
| "happen mx mp (Grace_over sid) srv =
     (if sid < sr_next srv \<and> co_serving (sr_control srv sid) = Waiting then give_up sid srv else srv)"
| "happen mx mp (Erase sid) srv =
     (if sid < sr_next srv \<and> co_serving (sr_control srv sid) = Given_up then erase_session sid srv else srv)"

definition run_server :: "nat \<Rightarrow> nat \<Rightarrow> event list \<Rightarrow> server" where
  "run_server mx mp es = fold (happen mx mp) es no_sessions"


section \<open>Who owns a descriptor\<close>

datatype owner = Acceptor nat | Handed nat | Server nat

fun holds :: "server \<Rightarrow> owner \<Rightarrow> nat option" where
  "holds srv (Acceptor fd) = (if map_of (sr_accepting srv) fd = None then None else Some fd)"
| "holds srv (Handed sid) = (if sid < sr_next srv then co_pending_fd (sr_control srv sid) else None)"
| "holds srv (Server sid) = (if sid < sr_next srv
     then (case co_serving (sr_control srv sid) of On fd \<Rightarrow> Some fd | _ \<Rightarrow> None) else None)"

text \<open>Each open descriptor has exactly one owner, and nobody holds a closed one.\<close>

definition well_owned :: "(owner \<Rightarrow> nat option) \<Rightarrow> nat set \<Rightarrow> bool" where
  "well_owned H fds \<longleftrightarrow> (\<forall>fd. fd \<in> fds \<longleftrightarrow> (\<exists>o'. H o' = Some fd))
     \<and> (\<forall>a b fd. H a = Some fd \<longrightarrow> H b = Some fd \<longrightarrow> a = b)"

lemma owned_iff: "well_owned H fds \<Longrightarrow> fd \<in> fds \<longleftrightarrow> (\<exists>o'. H o' = Some fd)"
  by (simp add: well_owned_def)

lemma owned_unique: "well_owned H fds \<Longrightarrow> H a = Some fd \<Longrightarrow> H b = Some fd \<Longrightarrow> a = b"
  by (simp add: well_owned_def)

lemma well_ownedI:
  assumes "\<And>fd. fd \<in> fds \<Longrightarrow> \<exists>o'. H o' = Some fd" and "\<And>a fd. H a = Some fd \<Longrightarrow> fd \<in> fds"
    and "\<And>a b fd. H a = Some fd \<Longrightarrow> H b = Some fd \<Longrightarrow> a = b"
  shows "well_owned H fds"
  using assms unfolding well_owned_def by metis

lemma owned_gain:
  assumes w: "well_owned H fds" and "fd \<notin> fds" and "H a = None"
  shows "well_owned (H(a := Some fd)) (insert fd fds)"
proof (rule well_ownedI)
  fix x assume "x \<in> insert fd fds"
  then show "\<exists>o'. (H(a := Some fd)) o' = Some x"
    using owned_iff [OF w, of x] assms(3) by (metis fun_upd_apply insertE option.distinct(1))
next
  fix b x assume "(H(a := Some fd)) b = Some x"
  then show "x \<in> insert fd fds" using owned_iff [OF w, of x] by (auto split: if_splits)
next
  fix b c x assume "(H(a := Some fd)) b = Some x" "(H(a := Some fd)) c = Some x"
  moreover have "H e \<noteq> Some fd" for e using owned_iff [OF w, of fd] assms(2) by blast
  ultimately show "b = c" using owned_unique [OF w, of b x c] by (auto split: if_splits)
qed

lemma owned_close:
  assumes w: "well_owned H fds" and a: "H a = Some fd"
  shows "well_owned (H(a := None)) (fds - {fd})"
proof (rule well_ownedI)
  fix x assume "x \<in> fds - {fd}"
  then obtain b where "H b = Some x" "x \<noteq> fd" using owned_iff [OF w, of x] by auto
  with a have "(H(a := None)) b = Some x" by auto
  then show "\<exists>o'. (H(a := None)) o' = Some x" ..
next
  fix b x assume b: "(H(a := None)) b = Some x"
  then have "b \<noteq> a" "H b = Some x" by (auto split: if_splits)
  then show "x \<in> fds - {fd}" using owned_iff [OF w, of x] owned_unique [OF w a, of b] by auto
next
  fix b c x assume "(H(a := None)) b = Some x" "(H(a := None)) c = Some x"
  then show "b = c" using owned_unique [OF w, of b x c] by (auto split: if_splits)
qed

lemma owned_move:
  assumes w: "well_owned H fds" and a: "H a = Some fd" and b: "H b = None"
  shows "well_owned (H(a := None, b := Some fd)) fds"
proof -
  have "fd \<in> fds" using owned_iff [OF w] a by blast
  then have "insert fd (fds - {fd}) = fds" by blast
  then show ?thesis using owned_gain [OF owned_close [OF w a], of fd b] b by simp
qed

lemma owned_replace:
  assumes "well_owned H fds" and "H a = Some fd" and "a \<noteq> b"
  shows "well_owned (H(a := None, b := Some fd)) (case H b of None \<Rightarrow> fds | Some old \<Rightarrow> fds - {old})"
proof (cases "H b")
  case None
  then show ?thesis using owned_move [OF assms(1,2)] by simp
next
  case (Some old)
  have "well_owned ((H(b := None))(a := None, b := Some fd)) (fds - {old})"
    using owned_close [OF assms(1) Some] assms by (intro owned_move) auto
  then show ?thesis using Some by (simp add: fun_upd_twist [OF assms(3)])
qed

section \<open>What every event keeps\<close>

text \<open>The accepting thread that made a session and has not started its serving thread yet.\<close>

definition starter :: "server \<Rightarrow> nat \<Rightarrow> nat \<Rightarrow> bool" where
  "starter srv fd sid \<longleftrightarrow> (case map_of (sr_accepting srv) fd of
       Some (Found h s r) \<Rightarrow> s = sid \<and> \<not> r
     | Some (Replying s r rep un) \<Rightarrow> s = sid \<and> \<not> r
     | Some (Replied s r) \<Rightarrow> s = sid \<and> \<not> r
     | _ \<Rightarrow> False)"

definition phase_session :: "phase \<Rightarrow> nat option" where
  "phase_session ph = (case ph of Handshaking \<Rightarrow> None | Found h s r \<Rightarrow> Some s | Replying s r rep un \<Rightarrow> Some s
     | Replied s r \<Rightarrow> Some s)"

definition being_served :: "server \<Rightarrow> nat \<Rightarrow> bool" where
  "being_served srv sid \<longleftrightarrow> co_serving (sr_control srv sid) = Waiting \<or> (\<exists>fd. co_serving (sr_control srv sid) = On fd)"

definition control_ok :: "server \<Rightarrow> bool" where
  "control_ok srv \<longleftrightarrow>
     (\<forall>sid < sr_next srv. if co_finished (sr_control srv sid) then co_pending_fd (sr_control srv sid) = None
        else being_served srv sid
          \<or> (co_serving (sr_control srv sid) = Unserved \<and> (\<exists>fd. starter srv fd sid)))
     \<and> (\<forall>fd sid. starter srv fd sid \<longrightarrow> sid < sr_next srv \<and> co_serving (sr_control srv sid) = Unserved
          \<and> \<not> co_finished (sr_control srv sid))
     \<and> (\<forall>fd fd' sid. starter srv fd sid \<longrightarrow> starter srv fd' sid \<longrightarrow> fd = fd')
     \<and> (\<forall>fd ph sid. map_of (sr_accepting srv) fd = Some ph \<longrightarrow> phase_session ph = Some sid \<longrightarrow> sid < sr_next srv)"

definition table_ok :: "nat \<Rightarrow> nat \<Rightarrow> server \<Rightarrow> bool" where
  "table_ok mx mp srv \<longleftrightarrow> distinct (map fst (sr_sessions srv)) \<and> length (sr_sessions srv) \<le> mx
     \<and> (\<forall>key sid. (key, sid) \<in> set (sr_sessions srv) \<longrightarrow> sid < sr_next srv \<and> co_key (sr_control srv sid) = key)
     \<and> distinct (map fst (sr_accepting srv)) \<and> sr_pending_handshakes srv = length (sr_accepting srv)
     \<and> sr_pending_handshakes srv \<le> mp"

definition server_ok :: "nat \<Rightarrow> nat \<Rightarrow> server \<Rightarrow> bool" where
  "server_ok mx mp srv \<longleftrightarrow> well_owned (holds srv) (sr_open srv) \<and> control_ok srv \<and> table_ok mx mp srv"


lemma delete_lookup: "map_of (AList.delete k al) j = (if j = k then None else map_of al j)"
  by simp

lemma accepting_length:
  assumes "table_ok mx mp srv" and "map_of (sr_accepting srv) fd = Some ph"
  shows "Suc (length (AList.delete fd (sr_accepting srv))) = length (sr_accepting srv)"
proof -
  have "distinct (map fst (sr_accepting srv))" using assms(1) by (simp add: table_ok_def)
  then show ?thesis using length_delete_present [OF _ assms(2)] assms(2) by (cases "sr_accepting srv") auto
qed

lemma holds_control: "holds (on_control sid f srv) = (if sid < sr_next srv then (holds srv)
     (Handed sid := co_pending_fd (f (sr_control srv sid)),
      Server sid := (case co_serving (f (sr_control srv sid)) of On fd \<Rightarrow> Some fd | _ \<Rightarrow> None)) else holds srv)"
proof (rule ext)
  fix x show "holds (on_control sid f srv) x = (if sid < sr_next srv then (holds srv)
     (Handed sid := co_pending_fd (f (sr_control srv sid)),
      Server sid := (case co_serving (f (sr_control srv sid)) of On fd \<Rightarrow> Some fd | _ \<Rightarrow> None)) else holds srv) x"
    by (cases x) (auto simp: on_control_def)
qed

lemma holds_frame [simp]:
  "holds (close_fd fd srv) = holds srv" "holds (leave_accept fd srv) = (holds srv)(Acceptor fd := None)"
  "map_of (sr_accepting srv) fd \<noteq> None \<Longrightarrow> holds (set_phase fd ph srv) = holds srv"
  by (rule ext, rename_tac x, case_tac x; simp add: close_fd_def leave_accept_def set_phase_def)+

lemma holds_sessions [simp]: "holds (srv\<lparr> sr_sessions := al \<rparr>) = holds srv"
  by (rule ext, rename_tac x, case_tac x; simp)

end
