(* ===== verification/SessionsInv.thy ===== *)
theory SessionsInv
  imports Sessions
begin

text \<open>Every event of the server keeps its invariant: ownership of descriptors, the state of each
  session's serving thread, and the caps.\<close>

section \<open>Fields\<close>

lemma control_fields [simp]:
  "sr_control (on_control sid f srv) = (sr_control srv)(sid := f (sr_control srv sid))"
  "sr_sessions (on_control sid f srv) = sr_sessions srv" "sr_next (on_control sid f srv) = sr_next srv"
  "sr_accepting (on_control sid f srv) = sr_accepting srv" "sr_open (on_control sid f srv) = sr_open srv"
  "sr_pending_handshakes (on_control sid f srv) = sr_pending_handshakes srv"
  by (simp_all add: on_control_def)

lemma close_fields [simp]:
  "sr_control (close_fd fd srv) = sr_control srv" "sr_sessions (close_fd fd srv) = sr_sessions srv"
  "sr_next (close_fd fd srv) = sr_next srv" "sr_accepting (close_fd fd srv) = sr_accepting srv"
  "sr_open (close_fd fd srv) = sr_open srv - {fd}"
  "sr_pending_handshakes (close_fd fd srv) = sr_pending_handshakes srv"
  by (simp_all add: close_fd_def)

lemma leave_fields [simp]:
  "sr_control (leave_accept fd srv) = sr_control srv" "sr_sessions (leave_accept fd srv) = sr_sessions srv"
  "sr_next (leave_accept fd srv) = sr_next srv" "sr_open (leave_accept fd srv) = sr_open srv"
  "sr_accepting (leave_accept fd srv) = AList.delete fd (sr_accepting srv)"
  "sr_pending_handshakes (leave_accept fd srv) = sr_pending_handshakes srv - 1"
  by (simp_all add: leave_accept_def)

lemma phase_fields [simp]:
  "sr_control (set_phase fd ph srv) = sr_control srv" "sr_sessions (set_phase fd ph srv) = sr_sessions srv"
  "sr_next (set_phase fd ph srv) = sr_next srv" "sr_open (set_phase fd ph srv) = sr_open srv"
  "sr_accepting (set_phase fd ph srv) = AList.update fd ph (sr_accepting srv)"
  "sr_pending_handshakes (set_phase fd ph srv) = sr_pending_handshakes srv"
  by (simp_all add: set_phase_def)

lemma close_pending_fields [simp]:
  "sr_control (close_pending sid srv) = (sr_control srv)(sid := (sr_control srv sid)\<lparr> co_pending_fd := None \<rparr>)"
  "sr_sessions (close_pending sid srv) = sr_sessions srv" "sr_next (close_pending sid srv) = sr_next srv"
  "sr_accepting (close_pending sid srv) = sr_accepting srv"
  "sr_open (close_pending sid srv) = (case co_pending_fd (sr_control srv sid) of None \<Rightarrow> sr_open srv
     | Some old \<Rightarrow> sr_open srv - {old})"
  "sr_pending_handshakes (close_pending sid srv) = sr_pending_handshakes srv"
  by (auto simp: close_pending_def split: option.split)

lemma starter_accepting: "sr_accepting a = sr_accepting b \<Longrightarrow> starter a = starter b"
  by (simp add: starter_def fun_eq_iff)

lemma starter_leave: "starter srv' = starter srv"
  if "sr_accepting srv' = AList.delete fd (sr_accepting srv)" "\<And>sid. \<not> starter srv fd sid"
  using that by (auto simp: starter_def fun_eq_iff split: if_splits)

section \<open>The caps\<close>

lemma table_leave:
  assumes "table_ok mx mp srv" and "map_of (sr_accepting srv) fd = Some ph"
  shows "table_ok mx mp (leave_accept fd srv)"
  using assms accepting_length [OF assms] by (auto simp: table_ok_def distinct_delete)

lemma table_frame [simp]:
  "table_ok mx mp (close_fd fd srv) = table_ok mx mp srv"
  "table_ok mx mp (close_pending sid srv) = table_ok mx mp srv"
  by (auto simp: table_ok_def)

lemma table_control:
  "(\<And>co. co_key (f co) = co_key co) \<Longrightarrow> table_ok mx mp (on_control sid f srv) = table_ok mx mp srv"
  by (auto simp: table_ok_def)

lemma table_phase:
  assumes "table_ok mx mp srv" and "map_of (sr_accepting srv) fd = Some ph"
  shows "table_ok mx mp (set_phase fd ph' srv)"
proof -
  have "map fst (AList.update fd ph' (sr_accepting srv)) = map fst (sr_accepting srv)"
    using assms(2) by (simp add: update_keys)
  then show ?thesis using assms(1) unfolding table_ok_def phase_fields by (metis length_map)
qed

lemma set_delete: "x \<in> set (AList.delete k al) \<Longrightarrow> x \<in> set al"
  by (auto simp: AList.delete_eq)

lemma table_erase:
  "table_ok mx mp srv \<Longrightarrow> table_ok mx mp (srv\<lparr> sr_sessions := AList.delete key (sr_sessions srv) \<rparr>)"
  using length_delete_le [of key "sr_sessions srv"]
  by (auto simp: table_ok_def distinct_delete dest: set_delete)

lemma find_session_Started:
  assumes "find_session cap hello srv = (Started sid, srv')"
  shows "sid = sr_next srv \<and> srv' = srv\<lparr> sr_sessions := AList.update (hello_key hello) sid (sr_sessions srv),
      sr_control := (sr_control srv)(sid := new_control (hello_key hello)), sr_next := Suc sid \<rparr>
    \<and> (map_of (sr_sessions srv) (hello_key hello) \<noteq> None \<or> length (sr_sessions srv) < cap)
    \<and> is_starting hello"
  using assms by (auto simp: find_session_def Let_def not_le split: option.splits if_splits)

lemma find_session_Resumed:
  "find_session cap hello srv = (Resumed sid, srv') \<Longrightarrow> srv' = srv
    \<and> map_of (sr_sessions srv) (hello_key hello) = Some sid \<and> \<not> co_finished (sr_control srv sid)"
  by (auto simp: find_session_def Let_def split: option.splits if_splits)

lemma find_session_none:
  "find_session cap hello srv = (Refused n, srv') \<Longrightarrow> srv' = srv"
  "find_session cap hello srv = (Not_here, srv') \<Longrightarrow> srv' = srv"
  by (auto simp: find_session_def Let_def split: option.splits if_splits)

lemma table_started:
  assumes t: "table_ok mx mp srv" and f: "find_session mx hello srv = (Started sid, srv')"
  shows "table_ok mx mp srv'"
proof -
  let ?key = "hello_key hello"
  note st = find_session_Started [OF f]
  have d: "distinct (map fst (sr_sessions srv))" and l: "length (sr_sessions srv) \<le> mx" using t by (simp_all add: table_ok_def)
  have "length (AList.update ?key sid (sr_sessions srv)) \<le> mx"
  proof (cases "map_of (sr_sessions srv) ?key")
    case None
    then show ?thesis using st update_absent [OF None] by simp
  next
    case (Some x)
    have "length (AList.update ?key sid (sr_sessions srv)) = length (sr_sessions srv)"
      using update_keys [of "sr_sessions srv" ?key sid] Some by (metis length_map option.distinct(1))
    then show ?thesis using l by simp
  qed
  moreover have "distinct (map fst (AList.update ?key sid (sr_sessions srv)))" using d by (rule distinct_update)
  moreover have "k = ?key \<and> x = sid \<or> (k, x) \<in> set (sr_sessions srv)"
    if "(k, x) \<in> set (AList.update ?key sid (sr_sessions srv))" for k x
    using that set_alist_update [of ?key sid "sr_sessions srv"] by auto
  ultimately show ?thesis using t st by (fastforce simp: table_ok_def new_control_def)
qed


section \<open>The states of the sessions\<close>

lemma control_okI:
  assumes "\<And>sid. sid < sr_next srv \<Longrightarrow> co_finished (sr_control srv sid) \<Longrightarrow> co_pending_fd (sr_control srv sid) = None"
    and "\<And>sid. sid < sr_next srv \<Longrightarrow> \<not> co_finished (sr_control srv sid) \<Longrightarrow> \<not> being_served srv sid \<Longrightarrow>
       co_serving (sr_control srv sid) = Unserved \<and> (\<exists>fd. starter srv fd sid)"
    and "\<And>fd sid. starter srv fd sid \<Longrightarrow> sid < sr_next srv \<and> co_serving (sr_control srv sid) = Unserved
       \<and> \<not> co_finished (sr_control srv sid)"
    and "\<And>fd fd' sid. starter srv fd sid \<Longrightarrow> starter srv fd' sid \<Longrightarrow> fd = fd'"
    and "\<And>fd ph sid. map_of (sr_accepting srv) fd = Some ph \<Longrightarrow> phase_session ph = Some sid \<Longrightarrow> sid < sr_next srv"
  shows "control_ok srv"
  unfolding control_ok_def using assms by auto

lemma control_okD:
  assumes "control_ok srv"
  shows "sid < sr_next srv \<Longrightarrow> co_finished (sr_control srv sid) \<Longrightarrow> co_pending_fd (sr_control srv sid) = None"
    and "sid < sr_next srv \<Longrightarrow> \<not> co_finished (sr_control srv sid) \<Longrightarrow> \<not> being_served srv sid \<Longrightarrow>
       co_serving (sr_control srv sid) = Unserved \<and> (\<exists>fd. starter srv fd sid)"
    and "starter srv fd sid \<Longrightarrow> sid < sr_next srv \<and> co_serving (sr_control srv sid) = Unserved
       \<and> \<not> co_finished (sr_control srv sid)"
    and "starter srv fd sid \<Longrightarrow> starter srv fd' sid \<Longrightarrow> fd = fd'"
    and "map_of (sr_accepting srv) fd = Some ph \<Longrightarrow> phase_session ph = Some sid \<Longrightarrow> sid < sr_next srv"
  using assms unfolding control_ok_def by (auto split: if_splits)

text \<open>An event that leaves who starts what alone, and changes one session's control.\<close>

lemma control_ok_update:
  assumes c: "control_ok srv" and sid: "sid < sr_next srv"
    and "sr_control srv' = (sr_control srv)(sid := co)" and "sr_next srv' = sr_next srv"
    and st: "starter srv' = starter srv"
    and acc: "\<And>fd ph s. map_of (sr_accepting srv') fd = Some ph \<Longrightarrow> phase_session ph = Some s \<Longrightarrow> s < sr_next srv"
    and fin: "co_finished co \<Longrightarrow> co_pending_fd co = None"
    and same: "(co_serving co = co_serving (sr_control srv sid) \<and> co_finished co = co_finished (sr_control srv sid))
      \<or> (being_served srv sid \<and> (co_finished co \<or> co_serving co = Waiting \<or> (\<exists>fd. co_serving co = On fd)))"
  shows "control_ok srv'"
proof -
  have nostart: "\<not> starter srv fd sid" if "being_served srv sid" for fd
    using control_okD(3) [OF c, of fd sid] that by (auto simp: being_served_def)
  note b = being_served_def
  show ?thesis
  proof (rule control_okI)
    fix s assume "s < sr_next srv'" "co_finished (sr_control srv' s)"
    then show "co_pending_fd (sr_control srv' s) = None"
      using assms(3,4) fin control_okD(1) [OF c, of s] by (auto split: if_splits)
  next
    fix s assume *: "s < sr_next srv'" "\<not> co_finished (sr_control srv' s)" "\<not> being_served srv' s"
    then show "co_serving (sr_control srv' s) = Unserved \<and> (\<exists>fd. starter srv' fd s)"
      using assms(3,4) st same control_okD(2) [OF c, of s] by (auto simp: b split: if_splits)
  next
    fix fd s assume "starter srv' fd s"
    then show "s < sr_next srv' \<and> co_serving (sr_control srv' s) = Unserved \<and> \<not> co_finished (sr_control srv' s)"
      using assms(3,4) st same nostart control_okD(3) [OF c, of fd s] by (auto split: if_splits)
  next
    fix fd fd' s assume "starter srv' fd s" "starter srv' fd' s"
    then show "fd = fd'" using st control_okD(4) [OF c] by simp
  next
    fix fd ph s assume "map_of (sr_accepting srv') fd = Some ph" "phase_session ph = Some s"
    then show "s < sr_next srv'" using acc assms(4) by auto
  qed
qed

lemma control_ok_same:
  assumes c: "control_ok srv" and "sr_control srv' = sr_control srv" and "sr_next srv' = sr_next srv"
    and "starter srv' = starter srv"
    and "\<And>fd ph s. map_of (sr_accepting srv') fd = Some ph \<Longrightarrow> phase_session ph = Some s \<Longrightarrow> s < sr_next srv"
  shows "control_ok srv'"
  using c assms(2-) unfolding control_ok_def being_served_def by auto

lemma accepting_deleted:
  "control_ok srv \<Longrightarrow> map_of (AList.delete fd (sr_accepting srv)) x = Some ph \<Longrightarrow> phase_session ph = Some s \<Longrightarrow> s < sr_next srv"
  using control_okD(5) [of srv x ph s] by (auto split: if_splits)

lemma starter_phase:
  "map_of (sr_accepting srv) fd = Some ph \<Longrightarrow> starter srv fd sid
     \<longleftrightarrow> (phase_session ph = Some sid \<and> (case ph of Found h s r \<Rightarrow> \<not> r | Replying s r rep un \<Rightarrow> \<not> r
        | Replied s r \<Rightarrow> \<not> r | Handshaking \<Rightarrow> False))"
  by (auto simp: starter_def phase_session_def split: phase.splits)

lemma starter_set_phase:
  assumes "map_of (sr_accepting srv) fd = Some ph"
    and "phase_session ph' = phase_session ph \<or> ph = Handshaking"
    and "(case ph' of Found h s r \<Rightarrow> \<not> r | Replying s r rep un \<Rightarrow> \<not> r | Replied s r \<Rightarrow> \<not> r | Handshaking \<Rightarrow> False)
      = (case ph of Found h s r \<Rightarrow> \<not> r | Replying s r rep un \<Rightarrow> \<not> r | Replied s r \<Rightarrow> \<not> r | Handshaking \<Rightarrow> False)"
  shows "starter (set_phase fd ph' srv) = starter srv"
proof (intro ext)
  fix x s
  have "starter (set_phase fd ph' srv) fd s = starter srv fd s"
    using assms by (auto simp: starter_phase [of "set_phase fd ph' srv" fd ph'] starter_phase split: phase.splits)
  then show "starter (set_phase fd ph' srv) x s = starter srv x s"
    by (cases "x = fd") (simp_all add: starter_def)
qed

section \<open>Every event keeps the invariant\<close>

lemma server_okD:
  assumes "server_ok mx mp srv"
  shows "well_owned (holds srv) (sr_open srv)" "control_ok srv" "table_ok mx mp srv"
  using assms by (simp_all add: server_ok_def)

lemma server_okI:
  "well_owned (holds srv) (sr_open srv) \<Longrightarrow> control_ok srv \<Longrightarrow> table_ok mx mp srv \<Longrightarrow> server_ok mx mp srv"
  by (simp add: server_ok_def)

lemma holds_acceptor: "map_of (sr_accepting srv) fd = Some ph \<Longrightarrow> holds srv (Acceptor fd) = Some fd"
  by simp

lemma holds_close_pending:
  "sid < sr_next srv \<Longrightarrow> holds (close_pending sid srv) = (holds srv)(Handed sid := None)"
  by (rule ext, rename_tac x, case_tac x) (auto split: option.split)

lemma ok_accept:
  assumes ok: "server_ok mx mp srv" and new: "fd \<notin> sr_open srv"
  shows "server_ok mx mp (begin_accept mp fd srv)"
proof (cases "sr_pending_handshakes srv + 1 > mp")
  case True
  with ok show ?thesis by (simp add: begin_accept_def)
next
  case False
  note o = server_okD [OF ok]
  let ?s = "begin_accept mp fd srv"
  have none: "map_of (sr_accepting srv) fd = None"
  proof (cases "map_of (sr_accepting srv) fd")
    case (Some ph)
    from owned_iff [OF o(1), of fd] holds_acceptor [OF Some] new show ?thesis by blast
  qed
  have s: "?s = srv\<lparr> sr_pending_handshakes := sr_pending_handshakes srv + 1,
      sr_accepting := (fd, Handshaking) # sr_accepting srv, sr_open := insert fd (sr_open srv) \<rparr>"
    using False by (simp add: begin_accept_def)
  have "holds ?s = (holds srv)(Acceptor fd := Some fd)"
    by (rule ext, rename_tac x, case_tac x) (simp_all add: s)
  then have "well_owned (holds ?s) (sr_open ?s)" using owned_gain [OF o(1) new] none by (simp add: s)
  moreover have "starter ?s = starter srv" using none by (auto simp: s starter_def fun_eq_iff)
  then have "control_ok ?s"
    using control_okD(5) [OF o(2)] by (intro control_ok_same [OF o(2)]) (auto simp: s phase_session_def split: if_splits)
  moreover have "fd \<notin> fst ` set (sr_accepting srv)" using none by (simp add: map_of_eq_None_iff)
  then have "table_ok mx mp ?s" using o(3) False by (simp add: s table_ok_def)
  ultimately show ?thesis by (rule server_okI)
qed

text \<open>An accepting thread that made no session closes its connection.\<close>

lemma ok_leave_close:
  assumes ok: "server_ok mx mp srv" and m: "map_of (sr_accepting srv) fd = Some ph"
    and ns: "\<And>sid. \<not> starter srv fd sid"
  shows "server_ok mx mp (close_fd fd (leave_accept fd srv))"
proof (rule server_okI)
  note o = server_okD [OF ok]
  show "well_owned (holds (close_fd fd (leave_accept fd srv))) (sr_open (close_fd fd (leave_accept fd srv)))"
    using owned_close [OF o(1) holds_acceptor [OF m]] by simp
  show "control_ok (close_fd fd (leave_accept fd srv))"
    by (rule control_ok_same [OF o(2)]) (use accepting_deleted [OF o(2)] starter_leave [OF _ ns] in auto)
  show "table_ok mx mp (close_fd fd (leave_accept fd srv))" using table_leave [OF o(3) m] by simp
qed

lemma ok_set_phase:
  assumes ok: "server_ok mx mp srv" and m: "map_of (sr_accepting srv) fd = Some ph"
    and "starter (set_phase fd ph' srv) = starter srv"
    and "\<And>s. phase_session ph' = Some s \<Longrightarrow> s < sr_next srv"
  shows "server_ok mx mp (set_phase fd ph' srv)"
proof (rule server_okI)
  note o = server_okD [OF ok]
  show "well_owned (holds (set_phase fd ph' srv)) (sr_open (set_phase fd ph' srv))" using o(1) m by simp
  show "control_ok (set_phase fd ph' srv)"
    by (rule control_ok_same [OF o(2)]) (use assms(3,4) control_okD(5) [OF o(2)] in \<open>auto split: if_splits\<close>)
  show "table_ok mx mp (set_phase fd ph' srv)" using table_phase [OF o(3) m] .
qed

lemma ok_started:
  assumes ok: "server_ok mx mp srv" and m: "map_of (sr_accepting srv) fd = Some Handshaking"
    and f: "find_session mx hello srv = (Started sid, srv1)"
  shows "server_ok mx mp (set_phase fd (Found hello sid False) srv1)"
proof (rule server_okI)
  note o = server_okD [OF ok] and st = find_session_Started [OF f]
  let ?s = "set_phase fd (Found hello sid False) srv1"
  have m1: "map_of (sr_accepting srv1) fd = Some Handshaking" using m st by simp
  have "holds ?s = holds srv"
  proof (rule ext)
    fix x show "holds ?s x = holds srv x"
      using st m1 by (cases x) (auto simp: new_control_def less_Suc_eq)
  qed
  then show "well_owned (holds ?s) (sr_open ?s)" using o(1) st by simp
  show "table_ok mx mp ?s" by (rule table_phase [OF table_started [OF o(3) f] m1])
  have starts: "starter ?s x s \<longleftrightarrow> (x = fd \<and> s = sid) \<or> (x \<noteq> fd \<and> starter srv x s)" for x s
    using st by (auto simp: starter_def)
  have none: "\<not> starter srv fd s" for s using m by (simp add: starter_def)
  have fresh: "\<not> starter srv x sid" for x using control_okD(3) [OF o(2), of x sid] st by auto
  have old: "co_finished (sr_control ?s s) = co_finished (sr_control srv s)"
    "co_serving (sr_control ?s s) = co_serving (sr_control srv s)"
    "co_pending_fd (sr_control ?s s) = co_pending_fd (sr_control srv s)" if "s \<noteq> sid" for s using that st by auto
  have new: "\<not> co_finished (sr_control ?s sid)" "co_serving (sr_control ?s sid) = Unserved"
    using st by (simp_all add: new_control_def)
  have nxt: "sr_next ?s = Suc sid" "sr_next srv = sid" using st by simp_all
  show "control_ok ?s"
  proof (rule control_okI)
    fix s assume "s < sr_next ?s" "co_finished (sr_control ?s s)"
    then show "co_pending_fd (sr_control ?s s) = None"
      using nxt new old [of s] control_okD(1) [OF o(2), of s] by (cases "s = sid") auto
  next
    fix s assume *: "s < sr_next ?s" "\<not> co_finished (sr_control ?s s)" "\<not> being_served ?s s"
    show "co_serving (sr_control ?s s) = Unserved \<and> (\<exists>x. starter ?s x s)"
    proof (cases "s = sid")
      case True
      then show ?thesis using new(2) starts by blast
    next
      case False
      then have "\<not> being_served srv s" "s < sr_next srv" using * old [OF False] nxt by (simp_all add: being_served_def)
      then obtain x where "starter srv x s" "co_serving (sr_control srv s) = Unserved"
        using control_okD(2) [OF o(2), of s] * old(1) [OF False] by auto
      moreover from this have "x \<noteq> fd" using none by auto
      ultimately show ?thesis using old(2) [OF False] starts by auto
    qed
  next
    fix x s assume "starter ?s x s"
    then consider "s = sid" | "starter srv x s" using starts by blast
    then show "s < sr_next ?s \<and> co_serving (sr_control ?s s) = Unserved \<and> \<not> co_finished (sr_control ?s s)"
    proof cases
      case 1
      then show ?thesis using new unfolding nxt by blast
    next
      case 2
      with fresh have "s \<noteq> sid" by blast
      then show ?thesis using control_okD(3) [OF o(2) 2] unfolding nxt old(1,2) [OF \<open>s \<noteq> sid\<close>] by simp
    qed
  next
    fix x y s assume xy: "starter ?s x s" "starter ?s y s"
    show "x = y"
    proof (cases "s = sid")
      case True
      then show ?thesis using xy fresh unfolding starts by blast
    next
      case False
      then show ?thesis using xy control_okD(4) [OF o(2), of x s y] unfolding starts by blast
    qed
  next
    fix x ph s assume "map_of (sr_accepting ?s) x = Some ph" "phase_session ph = Some s"
    then have "(x = fd \<and> s = sid) \<or> s < sr_next srv"
      using st control_okD(5) [OF o(2), of x ph s] by (cases "x = fd") (auto simp: phase_session_def)
    then show "s < sr_next ?s" unfolding nxt by auto
  qed
qed

lemma ok_handshake:
  assumes ok: "server_ok mx mp srv" and m: "map_of (sr_accepting srv) fd = Some Handshaking"
  shows "server_ok mx mp (snd (handle_handshake mx fd hello srv))"
proof -
  have ns: "\<not> starter srv fd s" for s using m by (simp add: starter_def)
  note close = ok_leave_close [OF ok m ns]
  obtain d srv1 where f: "find_session mx hello srv = (d, srv1)" by (cases "find_session mx hello srv")
  show ?thesis
  proof (cases d)
    case (Resumed sid)
    note r = find_session_Resumed [OF f [unfolded Resumed]]
    have "server_ok mx mp (set_phase fd (Found hello sid True) srv)"
    proof (rule ok_set_phase [OF ok m])
      show "starter (set_phase fd (Found hello sid True) srv) = starter srv"
        by (rule starter_set_phase [OF m]) simp_all
    next
      fix s assume "phase_session (Found hello sid True) = Some s"
      then have "(hello_key hello, s) \<in> set (sr_sessions srv)"
        using r map_of_SomeD [of "sr_sessions srv" "hello_key hello" s] by (simp add: phase_session_def)
      then show "s < sr_next srv" using server_okD(3) [OF ok] unfolding table_ok_def by blast
    qed
    then show ?thesis using f Resumed r close by (simp add: handle_handshake_def)
  next
    case (Started sid)
    then show ?thesis using f ok_started [OF ok m, of hello sid srv1] close by (simp add: handle_handshake_def)
  next
    case (Refused n)
    then show ?thesis using f find_session_none(1) [of mx hello srv n srv1] close by (simp add: handle_handshake_def)
  next
    case Not_here
    then show ?thesis using f find_session_none(2) [of mx hello srv srv1] close by (simp add: handle_handshake_def)
  qed
qed

text \<open>The accepting thread that made a session is done with it.\<close>

lemma control_ok_unstart:
  assumes c: "control_ok srv" and f: "starter srv fd sid"
    and upd: "sr_control srv' = (sr_control srv)(sid := co)" "sr_next srv' = sr_next srv"
    and acc: "sr_accepting srv' = AList.delete fd (sr_accepting srv)"
    and fin: "co_finished co \<Longrightarrow> co_pending_fd co = None" and srvd: "co_finished co \<or> co_serving co = Waiting"
  shows "control_ok srv'"
proof -
  have st: "starter srv' x s \<longleftrightarrow> x \<noteq> fd \<and> starter srv x s" for x s by (auto simp: starter_def acc)
  have other: "x = fd" if "starter srv x sid" for x using control_okD(4) [OF c that f] .
  show ?thesis
  proof (rule control_okI)
    fix s assume "s < sr_next srv'" "co_finished (sr_control srv' s)"
    then show "co_pending_fd (sr_control srv' s) = None"
      using upd fin control_okD(1) [OF c, of s] by (auto split: if_splits)
  next
    fix s assume *: "s < sr_next srv'" "\<not> co_finished (sr_control srv' s)" "\<not> being_served srv' s"
    then have "s \<noteq> sid" using srvd upd by (auto simp: being_served_def)
    then have "\<not> being_served srv s" "s < sr_next srv" "\<not> co_finished (sr_control srv s)"
      using * upd by (simp_all add: being_served_def)
    then obtain x where "starter srv x s" "co_serving (sr_control srv s) = Unserved" using control_okD(2) [OF c, of s] by auto
    moreover from this have "x \<noteq> fd" using f control_okD(3) [OF c f] \<open>s \<noteq> sid\<close> by (auto simp: starter_def split: option.splits phase.splits)
    ultimately show "co_serving (sr_control srv' s) = Unserved \<and> (\<exists>x. starter srv' x s)"
      using st upd \<open>s \<noteq> sid\<close> by auto
  next
    fix x s assume x: "starter srv' x s"
    then have "s \<noteq> sid" using st other by blast
    then show "s < sr_next srv' \<and> co_serving (sr_control srv' s) = Unserved \<and> \<not> co_finished (sr_control srv' s)"
      using x st upd control_okD(3) [OF c, of x s] by auto
  next
    fix x y s assume "starter srv' x s" "starter srv' y s"
    then show "x = y" using st control_okD(4) [OF c, of x s y] by blast
  next
    fix x ph s assume "map_of (sr_accepting srv') x = Some ph" "phase_session ph = Some s"
    then show "s < sr_next srv'" using accepting_deleted [OF c, of fd x ph s] acc upd by auto
  qed
qed

lemma ok_forget:
  assumes ok: "server_ok mx mp srv" and m: "map_of (sr_accepting srv) fd = Some ph" and f: "starter srv fd sid"
  shows "server_ok mx mp (close_fd fd (leave_accept fd (forget_unserved sid srv)))"
proof (rule server_okI)
  note o = server_okD [OF ok]
  have sid: "sid < sr_next srv" using control_okD(3) [OF o(2) f] by blast
  define srv1 where "srv1 = (if map_of (sr_sessions srv) (co_key (sr_control srv sid)) = Some sid
    then srv\<lparr> sr_sessions := AList.delete (co_key (sr_control srv sid)) (sr_sessions srv) \<rparr> else srv)"
  have fu: "forget_unserved sid srv = close_pending sid (on_control sid (co_finished_update (\<lambda>_. True)) srv1)"
    by (simp add: forget_unserved_def srv1_def Let_def)
  have s1: "sr_control srv1 = sr_control srv" "sr_next srv1 = sr_next srv" "sr_accepting srv1 = sr_accepting srv"
    "sr_open srv1 = sr_open srv" by (simp_all add: srv1_def)
  let ?s = "close_fd fd (leave_accept fd (forget_unserved sid srv))"
  have "holds ?s = (holds srv)(Handed sid := None, Acceptor fd := None)"
    by (rule ext, rename_tac x, case_tac x) (auto simp: fu s1)
  moreover have "sr_open ?s = (case holds srv (Handed sid) of None \<Rightarrow> sr_open srv | Some old \<Rightarrow> sr_open srv - {old}) - {fd}"
    using sid by (simp add: fu s1 split: option.split)
  moreover have "well_owned ((holds srv)(Handed sid := None, Acceptor fd := None))
      ((case holds srv (Handed sid) of None \<Rightarrow> sr_open srv | Some old \<Rightarrow> sr_open srv - {old}) - {fd})"
  proof (cases "holds srv (Handed sid)")
    case None
    then have "(holds srv)(Handed sid := None) = holds srv" by auto
    then show ?thesis using owned_close [OF o(1) holds_acceptor [OF m]] None by (simp del: holds.simps)
  next
    case (Some old)
    have "((holds srv)(Handed sid := None)) (Acceptor fd) = Some fd" using m by simp
    from owned_close [OF owned_close [OF o(1) Some] this] show ?thesis by (simp only: Some option.case)
  qed
  ultimately show "well_owned (holds ?s) (sr_open ?s)" by simp
  show "control_ok ?s"
    by (rule control_ok_unstart [OF o(2) f, where co = "(sr_control srv sid)\<lparr> co_finished := True, co_pending_fd := None \<rparr>"])
      (simp_all add: fu s1)
  have "table_ok mx mp srv1" using o(3) table_erase [OF o(3)] by (simp add: srv1_def)
  then have "table_ok mx mp (forget_unserved sid srv)" by (simp add: fu table_control)
  then show "table_ok mx mp ?s" using table_leave [of mx mp "forget_unserved sid srv" fd ph] m by (simp add: fu s1)
qed

text \<open>Putting a connection where the session's serving thread looks for it.\<close>

lemma owned_hand_over:
  assumes w: "well_owned (holds srv) (sr_open srv)" and m: "map_of (sr_accepting srv) fd = Some ph" and sid: "sid < sr_next srv"
  shows "well_owned ((holds srv)(Acceptor fd := None, Handed sid := Some fd)) (sr_open (close_pending sid srv))"
  using owned_replace [OF w holds_acceptor [OF m], of "Handed sid"] sid by (simp split: option.splits)

lemma ok_hand_over:
  assumes ok: "server_ok mx mp srv" and m: "map_of (sr_accepting srv) fd = Some ph" and p: "phase_session ph = Some sid"
    and ns: "\<And>s. \<not> starter srv fd s"
  shows "server_ok mx mp (hand_over sid fd srv)"
proof (cases "co_finished (sr_control srv sid)")
  case True
  then show ?thesis using ok_leave_close [OF ok m ns] by (simp add: hand_over_def)
next
  case False
  note o = server_okD [OF ok]
  have sid: "sid < sr_next srv" by (rule control_okD(5) [OF o(2) m p])
  let ?s = "hand_over sid fd srv"
  have s: "?s = on_control sid (co_pending_fd_update (\<lambda>_. Some fd)) (close_pending sid (leave_accept fd srv))"
    using False by (simp add: hand_over_def)
  have "holds ?s = (holds srv)(Acceptor fd := None, Handed sid := Some fd)"
    by (rule ext, rename_tac x, case_tac x) (use sid in \<open>auto simp: s\<close>)
  moreover have "sr_open ?s = sr_open (close_pending sid srv)" by (simp add: s split: option.split)
  ultimately have "well_owned (holds ?s) (sr_open ?s)" using owned_hand_over [OF o(1) m sid] by simp
  moreover have "control_ok ?s"
    by (rule control_ok_update [OF o(2) sid, of _ "(sr_control srv sid)\<lparr> co_pending_fd := Some fd \<rparr>"])
      (use False starter_leave [OF _ ns] accepting_deleted [OF o(2)] in \<open>auto simp: s\<close>)
  moreover have "table_ok mx mp ?s" using table_leave [OF o(3) m] by (simp add: s table_control)
  ultimately show ?thesis by (rule server_okI)
qed

lemma ok_start_serving:
  assumes ok: "server_ok mx mp srv" and m: "map_of (sr_accepting srv) fd = Some ph" and f: "starter srv fd sid"
  shows "server_ok mx mp (start_serving sid fd srv)"
proof (rule server_okI)
  note o = server_okD [OF ok]
  have sid: "sid < sr_next srv" and fresh: "co_serving (sr_control srv sid) = Unserved" "\<not> co_finished (sr_control srv sid)"
    using control_okD(3) [OF o(2) f] by auto
  let ?s = "start_serving sid fd srv"
  have "holds ?s = (holds srv)(Acceptor fd := None, Handed sid := Some fd)"
    by (rule ext, rename_tac x, case_tac x) (use sid fresh in \<open>auto simp: start_serving_def\<close>)
  moreover have "sr_open ?s = sr_open (close_pending sid srv)" by (simp add: start_serving_def split: option.split)
  ultimately show "well_owned (holds ?s) (sr_open ?s)" using owned_hand_over [OF o(1) m sid] by simp
  show "control_ok ?s" by (rule control_ok_unstart [OF o(2) f, where co = "(sr_control srv sid)\<lparr> co_pending_fd := Some fd, co_serving := Waiting \<rparr>"])
      (use fresh in \<open>simp_all add: start_serving_def\<close>)
  show "table_ok mx mp ?s" using table_leave [OF o(3) m] by (simp add: start_serving_def table_control)
qed

subsection \<open>The serving thread\<close>

lemma ok_take_connection:
  assumes ok: "server_ok mx mp srv" and sid: "sid < sr_next srv" and w: "co_serving (sr_control srv sid) = Waiting"
  shows "server_ok mx mp (take_connection sid srv)"
proof (cases "co_pending_fd (sr_control srv sid)")
  case None
  with ok show ?thesis by (simp add: take_connection_def)
next
  case (Some fd)
  note o = server_okD [OF ok]
  let ?s = "take_connection sid srv"
  have s: "?s = on_control sid (\<lambda>co. co\<lparr> co_pending_fd := None, co_serving := On fd \<rparr>) srv"
    using Some by (simp add: take_connection_def)
  have "holds ?s = (holds srv)(Handed sid := None, Server sid := Some fd)" using sid by (simp add: s holds_control del: holds.simps)
  moreover have "well_owned ((holds srv)(Handed sid := None, Server sid := Some fd)) (sr_open srv)"
    by (rule owned_move [OF o(1)]) (use sid w Some in simp_all)
  ultimately have "well_owned (holds ?s) (sr_open ?s)" by (simp add: s)
  moreover have "control_ok ?s"
    by (rule control_ok_update [OF o(2) sid, where co = "(sr_control srv sid)\<lparr> co_pending_fd := None, co_serving := On fd \<rparr>"])
      (use w control_okD(5) [OF o(2)] in \<open>auto simp: s being_served_def starter_def fun_eq_iff\<close>)
  moreover have "table_ok mx mp ?s" using o(3) by (simp add: s table_control)
  ultimately show ?thesis by (rule server_okI)
qed

lemma ok_end_connection:
  assumes ok: "server_ok mx mp srv" and sid: "sid < sr_next srv" and w: "co_serving (sr_control srv sid) = On fd"
  shows "server_ok mx mp (end_connection sid fd srv)"
proof (rule server_okI)
  note o = server_okD [OF ok]
  let ?s = "end_connection sid fd srv"
  have h: "holds srv (Server sid) = Some fd" using sid w by simp
  have "holds ?s = (holds srv)(Server sid := None)"
    by (rule ext, rename_tac x, case_tac x) (use sid in \<open>auto simp: end_connection_def\<close>)
  then show "well_owned (holds ?s) (sr_open ?s)" using owned_close [OF o(1) h] by (simp add: end_connection_def)
  show "control_ok ?s"
    by (rule control_ok_update [OF o(2) sid, where co = "(sr_control srv sid)\<lparr> co_serving := Waiting \<rparr>"])
      (use w control_okD(1) [OF o(2) sid] control_okD(5) [OF o(2)] in
        \<open>auto simp: end_connection_def being_served_def starter_def fun_eq_iff\<close>)
  show "table_ok mx mp ?s" using o(3) by (simp add: end_connection_def table_control)
qed

lemma ok_give_up:
  assumes ok: "server_ok mx mp srv" and sid: "sid < sr_next srv" and w: "co_serving (sr_control srv sid) = Waiting"
  shows "server_ok mx mp (give_up sid srv)"
proof (cases "co_pending_fd (sr_control srv sid)")
  case (Some fd)
  with ok show ?thesis by (simp add: give_up_def)
next
  case None
  note o = server_okD [OF ok]
  let ?s = "give_up sid srv"
  have s: "?s = on_control sid (\<lambda>co. co\<lparr> co_finished := True, co_serving := Given_up \<rparr>) srv"
    using None by (simp add: give_up_def)
  have "holds ?s = holds srv" by (rule ext, rename_tac x, case_tac x) (use w in \<open>auto simp: s\<close>)
  then have "well_owned (holds ?s) (sr_open ?s)" using o(1) by (simp add: s)
  moreover have "control_ok ?s"
    by (rule control_ok_update [OF o(2) sid, where co = "(sr_control srv sid)\<lparr> co_finished := True, co_serving := Given_up \<rparr>"])
      (use w None control_okD(5) [OF o(2)] in \<open>auto simp: s being_served_def starter_def fun_eq_iff\<close>)
  moreover have "table_ok mx mp ?s" using o(3) by (simp add: s table_control)
  ultimately show ?thesis by (rule server_okI)
qed

lemma ok_completed:
  assumes ok: "server_ok mx mp srv" and sid: "sid < sr_next srv"
  shows "server_ok mx mp (on_control sid (co_completion_update f) srv)"
proof (rule server_okI)
  note o = server_okD [OF ok]
  let ?s = "on_control sid (co_completion_update f) srv"
  have "holds ?s = holds srv" by (rule ext, rename_tac x, case_tac x) auto
  then show "well_owned (holds ?s) (sr_open ?s)" using o(1) by simp
  show "control_ok ?s"
    by (rule control_ok_update [OF o(2) sid, where co = "co_completion_update f (sr_control srv sid)"])
      (use control_okD(1) [OF o(2) sid] control_okD(5) [OF o(2)] in \<open>auto simp: starter_def fun_eq_iff\<close>)
  show "table_ok mx mp ?s" using o(3) by (simp add: table_control)
qed

lemma ok_erase:
  assumes ok: "server_ok mx mp srv"
  shows "server_ok mx mp (erase_session sid srv)"
proof (cases "map_of (sr_sessions srv) (co_key (sr_control srv sid)) = Some sid")
  case True
  note o = server_okD [OF ok]
  let ?s = "srv\<lparr> sr_sessions := AList.delete (co_key (sr_control srv sid)) (sr_sessions srv) \<rparr>"
  have "control_ok ?s"
    by (rule control_ok_same [OF o(2)]) (use control_okD(5) [OF o(2)] in \<open>auto simp: starter_def fun_eq_iff\<close>)
  then have "server_ok mx mp ?s" using o(1) table_erase [OF o(3)] by (intro server_okI) simp_all
  then show ?thesis using True by (simp add: erase_session_def Let_def)
next
  case False
  with ok show ?thesis by (simp add: erase_session_def Let_def)
qed

lemma ok_write_reply:
  assumes ok: "server_ok mx mp srv" and m: "map_of (sr_accepting srv) fd = Some (Replying sid resumed reply unanswered)"
  shows "server_ok mx mp (happen mx mp (Write_reply fd written again) srv)"
proof -
  have sid: "sid < sr_next srv" by (rule control_okD(5) [OF server_okD(2) [OF ok] m]) (simp add: phase_session_def)
  have st: "starter (set_phase fd (Replied sid resumed) srv) = starter srv"
    by (rule starter_set_phase [OF m]) (simp_all add: phase_session_def)
  have set: "server_ok mx mp (set_phase fd (Replied sid resumed) srv)"
    by (rule ok_set_phase [OF ok m st]) (use sid in \<open>simp add: phase_session_def\<close>)
  have close: "server_ok mx mp (close_fd fd (leave_accept fd srv))" if resumed
    by (rule ok_leave_close [OF ok m]) (use m that in \<open>simp add: starter_def\<close>)
  have forget: "server_ok mx mp (close_fd fd (leave_accept fd (forget_unserved sid srv)))" if "\<not> resumed"
    by (rule ok_forget [OF ok m]) (use m that in \<open>simp add: starter_def\<close>)
  show ?thesis using m set close forget by simp
qed

theorem ok_happen:
  assumes ok: "server_ok mx mp srv"
  shows "server_ok mx mp (happen mx mp ev srv)"
proof (cases ev)
  case (Accept fd)
  then show ?thesis using ok ok_accept [OF ok] by simp
next
  case (Handshake fd hello)
  have "server_ok mx mp (close_fd fd (leave_accept fd srv))" if m: "map_of (sr_accepting srv) fd = Some Handshaking"
    by (rule ok_leave_close [OF ok m]) (use m in \<open>simp add: starter_def\<close>)
  then show ?thesis using Handshake ok ok_handshake [OF ok] by (simp split: option.split phase.split)
next
  case (Read_completion fd)
  have "server_ok mx mp (set_phase fd (Replying sid resumed reply un) srv)"
    if m: "map_of (sr_accepting srv) fd = Some (Found hello sid resumed)" for hello sid resumed reply un
  proof (rule ok_set_phase [OF ok m])
    show "starter (set_phase fd (Replying sid resumed reply un) srv) = starter srv"
      by (rule starter_set_phase [OF m]) (simp_all add: phase_session_def)
    show "s < sr_next srv" if "phase_session (Replying sid resumed reply un) = Some s" for s
      using control_okD(5) [OF server_okD(2) [OF ok] m] that by (simp add: phase_session_def)
  qed
  then show ?thesis using Read_completion ok by (simp split: option.split phase.split prod.split)
next
  case (Write_reply fd written again)
  then show ?thesis using ok ok_write_reply [OF ok] by (cases "map_of (sr_accepting srv) fd") (auto split: phase.split)
next
  case (Hand_over fd)
  have "server_ok mx mp (hand_over sid fd srv)" if m: "map_of (sr_accepting srv) fd = Some (Replied sid True)" for sid
    by (rule ok_hand_over [OF ok m]) (use m in \<open>simp_all add: starter_def phase_session_def\<close>)
  moreover have "server_ok mx mp (start_serving sid fd srv)" if m: "map_of (sr_accepting srv) fd = Some (Replied sid False)" for sid
    by (rule ok_start_serving [OF ok m]) (use m in \<open>simp add: starter_def\<close>)
  ultimately show ?thesis using Hand_over ok by (auto split: option.split phase.split)
next
  case (Take_up sid)
  then show ?thesis using ok ok_take_connection [OF ok] by simp
next
  case (Completed sid rid sent)
  then show ?thesis using ok ok_completed [OF ok] by (simp split: serving.split)
next
  case (Connection_ends sid)
  then show ?thesis using ok ok_end_connection [OF ok] by (simp split: serving.split)
next
  case (Grace_over sid)
  then show ?thesis using ok ok_give_up [OF ok] by simp
next
  case (Erase sid)
  then show ?thesis using ok ok_erase [OF ok] by simp
qed

lemma ok_start: "server_ok mx mp no_sessions"
proof (rule server_okI)
  have "holds no_sessions x = None" for x by (cases x) (simp_all add: no_sessions_def)
  then show "well_owned (holds no_sessions) (sr_open no_sessions)" by (simp add: well_owned_def no_sessions_def)
  show "control_ok no_sessions" by (simp add: control_ok_def no_sessions_def starter_def)
  show "table_ok mx mp no_sessions" by (simp add: table_ok_def no_sessions_def)
qed

text \<open>An invariant of every event holds in every run.\<close>

lemma run_invariant:
  assumes "P no_sessions" and "\<And>ev srv. server_ok mx mp srv \<Longrightarrow> P srv \<Longrightarrow> P (happen mx mp ev srv)"
  shows "server_ok mx mp (run_server mx mp es) \<and> P (run_server mx mp es)"
proof -
  have "server_ok mx mp srv \<and> P srv \<Longrightarrow> server_ok mx mp (fold (happen mx mp) es srv) \<and> P (fold (happen mx mp) es srv)" for srv
    by (induction es arbitrary: srv) (simp_all add: ok_happen assms(2))
  then show ?thesis using ok_start assms(1) by (simp add: run_server_def)
qed

lemma server_run_ok: "server_ok mx mp (run_server mx mp es)"
  using run_invariant [of "\<lambda>_. True"] by simp

end
