(* ===== verification/Connections.thy ===== *)
theory Connections
  imports SessionsInv
begin

text \<open>
  What holds of the server's connections and sessions in every interleaving of its threads: who
  owns an open descriptor, that a connection handed over always has somebody to read it, that a
  live session is always found by its client, and that no client coming back is given an empty one.
\<close>

section \<open>A live session is in the table\<close>

definition live :: "nat \<Rightarrow> server \<Rightarrow> bool" where
  "live sid srv \<longleftrightarrow> sid < sr_next srv \<and> \<not> co_finished (sr_control srv sid)"

definition listed :: "server \<Rightarrow> bool" where
  "listed srv \<longleftrightarrow> (\<forall>sid. live sid srv \<longrightarrow> map_of (sr_sessions srv) (co_key (sr_control srv sid)) = Some sid)"

lemma listedD: "listed srv \<Longrightarrow> live sid srv \<Longrightarrow> map_of (sr_sessions srv) (co_key (sr_control srv sid)) = Some sid"
  by (simp add: listed_def)

lemma listed_frame:
  assumes "listed srv" and "\<And>sid. live sid srv' \<Longrightarrow> live sid srv"
    and "sr_sessions srv' = sr_sessions srv" and "\<And>sid. co_key (sr_control srv' sid) = co_key (sr_control srv sid)"
  shows "listed srv'"
  using assms by (simp add: listed_def)

text \<open>Taking a finished session out of the table.\<close>

lemma listed_erase:
  assumes l: "listed srv" and s: "\<not> live sid srv" and m: "map_of (sr_sessions srv) key = Some sid"
  shows "listed (srv\<lparr> sr_sessions := AList.delete key (sr_sessions srv) \<rparr>)"
proof -
  have "co_key (sr_control srv s') \<noteq> key" if "live s' srv" for s'
    using listedD [OF l that] s m that by auto
  then show ?thesis using l by (simp add: listed_def live_def)
qed

lemma listed_forget:
  assumes l: "listed srv"
  shows "listed (forget_unserved sid srv)"
proof -
  define srv0 where "srv0 = on_control sid (co_finished_update (\<lambda>_. True)) srv"
  have l0: "listed srv0" by (rule listed_frame [OF l]) (auto simp: srv0_def live_def split: if_splits)
  have n0: "\<not> live sid srv0" and m0: "sr_sessions srv0 = sr_sessions srv" by (simp_all add: srv0_def live_def)
  let ?del = "srv0\<lparr> sr_sessions := AList.delete (co_key (sr_control srv sid)) (sr_sessions srv) \<rparr>"
  have "listed ?del" if "map_of (sr_sessions srv) (co_key (sr_control srv sid)) = Some sid"
    using listed_erase [OF l0 n0, of "co_key (sr_control srv sid)"] that by (simp add: m0)
  moreover have "forget_unserved sid srv = close_pending sid
      (if map_of (sr_sessions srv) (co_key (sr_control srv sid)) = Some sid then ?del else srv0)"
    by (simp add: forget_unserved_def srv0_def on_control_def Let_def) (intro impI arg_cong [where f = "close_pending sid"] server.equality; simp)
  moreover have "listed (close_pending sid s)" if "listed s" for s
    by (rule listed_frame [OF that]) (auto simp: live_def split: if_splits)
  ultimately show ?thesis using l0 by simp
qed

lemma listed_started:
  assumes l: "listed srv" and f: "find_session cap hello srv = (Started sid, srv1)"
  shows "listed srv1"
  unfolding listed_def
proof (intro allI impI)
  note st = find_session_Started [OF f]
  fix s assume s: "live s srv1"
  show "map_of (sr_sessions srv1) (co_key (sr_control srv1 s)) = Some s"
  proof (cases "s = sid")
    case True
    then show ?thesis using st by (simp add: new_control_def)
  next
    case False
    then have "live s srv" using s st by (auto simp: live_def less_Suc_eq)
    note m = listedD [OF l this]
    have "co_key (sr_control srv s) \<noteq> hello_key hello"
      using f m \<open>live s srv\<close> by (auto simp: find_session_def Let_def live_def)
    then show ?thesis using m st False by simp
  qed
qed

lemma listed_happen:
  assumes ok: "server_ok mx mp srv" and l: "listed srv"
  shows "listed (happen mx mp ev srv)"
proof (cases ev)
  case (Handshake fd hello)
  have phase: "listed (set_phase fd ph s)" "listed (close_fd fd (leave_accept fd s))" if "listed s" for ph s
    by (rule listed_frame [OF that]; simp add: live_def)+
  have "listed (snd (handle_handshake mx fd h srv))" for h
    using phase [OF l] find_session_Resumed [of mx h srv] find_session_none [of mx h srv] phase(1) [OF listed_started [OF l]]
    by (cases "find_session mx h srv"; cases "fst (find_session mx h srv)") (auto simp: handle_handshake_def)
  then show ?thesis using Handshake l phase(2) [OF l] by (simp split: option.split phase.split)
next
  case (Write_reply fd written again)
  have "listed (close_fd fd (leave_accept fd (forget_unserved sid srv)))" for sid
    by (rule listed_frame [OF listed_forget [OF l, of sid]]) (simp_all add: live_def)
  moreover have "listed (set_phase fd ph srv)" "listed (close_fd fd (leave_accept fd srv))" for ph
    by (rule listed_frame [OF l]; simp add: live_def)+
  ultimately show ?thesis using Write_reply l by (simp split: option.split phase.split)
next
  case (Erase sid)
  have "\<not> live sid srv" if "co_serving (sr_control srv sid) = Given_up" "sid < sr_next srv"
    using control_okD(2) [OF server_okD(2) [OF ok], of sid] that by (auto simp: live_def being_served_def)
  then show ?thesis using Erase l listed_erase [OF l, of sid] by (auto simp: erase_session_def Let_def)
qed (use l in \<open>auto simp: begin_accept_def hand_over_def start_serving_def take_connection_def end_connection_def give_up_def live_def
      intro!: listed_frame [OF l] split: option.split phase.split serving.split if_splits prod.split\<close>)

lemma run_listed: "listed (run_server mx mp es)"
  using run_invariant [of listed mx mp es] listed_happen by (auto simp: listed_def live_def no_sessions_def)

section \<open>The properties\<close>

text \<open>C28. In every interleaving of the accepting and serving threads a descriptor is open exactly
  when one thread, or one session waiting to take it up, owns it: none is leaked and none has two
  threads that would each close it.\<close>

theorem open_descriptor_has_one_owner:
  "fd \<in> sr_open (run_server mx mp es) \<longleftrightarrow> (\<exists>!o'. holds (run_server mx mp es) o' = Some fd)"
  using owned_iff [OF server_okD(1) [OF server_run_ok]] owned_unique [OF server_okD(1) [OF server_run_ok]] by metis

text \<open>In every interleaving there are at most \<open>RGPU_MAX_SESSIONS\<close> sessions, one for each
  client key, and at most \<open>RGPU_MAX_PENDING_HANDSHAKES\<close> connections whose handshake is in flight, each
  of them counted once.\<close>

theorem sessions_and_handshakes_are_capped:
  "length (sr_sessions (run_server mx mp es)) \<le> mx \<and> distinct (map fst (sr_sessions (run_server mx mp es)))
   \<and> sr_pending_handshakes (run_server mx mp es) = length (sr_accepting (run_server mx mp es))
   \<and> sr_pending_handshakes (run_server mx mp es) \<le> mp"
  using server_okD(3) [OF server_run_ok [of mx mp es]] unfolding table_ok_def by blast

text \<open>In every interleaving, a client whose session has not given up finds that very session,
  at the cap or not; and one that is coming back to a session that is not here gets none, is told so and
  is closed, whatever the room: the table of sessions stays as it was.\<close>

theorem client_finds_its_session:
  assumes hello: "hs_magic hello = kMagicHello" "hs_version hello = kProtocolVersion"
  shows "(live sid (run_server mx mp es) \<and> co_key (sr_control (run_server mx mp es) sid) = hello_key hello \<longrightarrow>
      handle_handshake mx fd hello (run_server mx mp es)
        = (None, set_phase fd (Found hello sid True) (run_server mx mp es)))
    \<and> ((\<forall>s. live s (run_server mx mp es) \<longrightarrow> co_key (sr_control (run_server mx mp es) s) \<noteq> hello_key hello)
        \<and> \<not> is_starting hello \<longrightarrow>
      handle_handshake mx fd hello (run_server mx mp es)
        = (Some session_gone, close_fd fd (leave_accept fd (run_server mx mp es))))"
proof -
  define srv where "srv = run_server mx mp es"
  have l: "listed srv" using run_listed by (simp add: srv_def)
  have "s < sr_next srv \<and> co_key (sr_control srv s) = hello_key hello"
    if "map_of (sr_sessions srv) (hello_key hello) = Some s" for s
    using map_of_SomeD [OF that] server_okD(3) [OF server_run_ok [of mx mp es]] unfolding srv_def table_ok_def by blast
  then have "\<forall>s. live s srv \<longrightarrow> co_key (sr_control srv s) \<noteq> hello_key hello \<Longrightarrow> \<not> is_starting hello \<Longrightarrow>
      handle_handshake mx fd hello srv = (Some session_gone, close_fd fd (leave_accept fd srv))"
    using hello by (auto simp: handle_handshake_def find_session_def Let_def live_def split: option.split)
  moreover have "live sid srv \<Longrightarrow> co_key (sr_control srv sid) = hello_key hello \<Longrightarrow>
      handle_handshake mx fd hello srv = (None, set_phase fd (Found hello sid True) srv)"
    using listedD [OF l, of sid] hello by (auto simp: handle_handshake_def find_session_def Let_def live_def)
  ultimately show ?thesis unfolding srv_def [symmetric] by blast
qed

text \<open>A client that starts a session, loses its connection, and comes back.\<close>

definition demo_hello :: "bool \<Rightarrow> handshake" where
  "demo_hello back = \<lparr> hs_magic = kMagicHello, hs_version = kProtocolVersion, hs_session_hi = 7, hs_session_lo = 9,
     hs_last_req_id = 0, hs_flags = (if back then kHelloResuming else 0) \<rparr>"

definition demo_events :: "event list" where
  "demo_events = [Accept 4, Handshake 4 (Some (demo_hello False)), Read_completion 4, Write_reply 4 True True,
     Hand_over 4, Take_up 0, Connection_ends 0]"

lemma client_finds_its_session_witness:
  "handle_handshake 1 4 (demo_hello True) (run_server 1 8 demo_events)
     = (None, set_phase 4 (Found (demo_hello True) 0 True) (run_server 1 8 demo_events))
   \<and> handle_handshake 1 4 (demo_hello True) (run_server 1 8 []) =
     (Some session_gone, close_fd 4 (leave_accept 4 (run_server 1 8 [])))"
proof -
  have h: "hs_magic (demo_hello True) = kMagicHello" "hs_version (demo_hello True) = kProtocolVersion"
    by (simp_all add: demo_hello_def)
  have "live 0 (run_server 1 8 demo_events)" "co_key (sr_control (run_server 1 8 demo_events) 0) = hello_key (demo_hello True)"
    by code_simp+
  moreover have "\<not> is_starting (demo_hello True)" by code_simp
  moreover have "\<not> live s (run_server 1 8 [])" for s by (simp add: live_def run_server_def no_sessions_def)
  ultimately show ?thesis
    using client_finds_its_session [OF h, of 0 1 8 demo_events 4] client_finds_its_session [OF h, of 0 1 8 "[]" 4] by blast
qed

section \<open>A connection handed over is read\<close>

lemma served_takes_up:
  assumes "sid < sr_next srv" and "co_pending_fd (sr_control srv sid) = Some fd" and "being_served srv sid"
  shows "\<exists>ev \<in> {[Take_up sid], [Connection_ends sid, Take_up sid]}.
      co_serving (sr_control (fold (happen mx mp) ev srv) sid) = On fd"
  using assms by (auto simp: being_served_def take_connection_def end_connection_def)

lemma starter_replaces:
  assumes ok: "server_ok mx mp srv" and st: "starter srv x sid" and p: "co_pending_fd (sr_control srv sid) = Some fd"
  shows "fd \<notin> sr_open (fold (happen mx mp) [Read_completion x, Write_reply x True True, Hand_over x] srv)"
proof -
  obtain ph where m: "map_of (sr_accepting srv) x = Some ph" using st by (auto simp: starter_def split: option.splits)
  show ?thesis
  proof (cases ph)
    case (Found h s r)
    then show ?thesis using m st p by (simp add: starter_def handshake_answer_def start_serving_def)
  next
    case (Replying s r rep un)
    then show ?thesis using m st p by (simp add: starter_def start_serving_def)
  next
    case (Replied s r)
    then show ?thesis using m st p by (simp add: starter_def start_serving_def)
  qed (use m st in \<open>simp add: starter_def\<close>)
qed

text \<open>C29. In every interleaving, a connection handed to a session is one it has not given up
  on, and somebody will read or close it: when the session has its serving thread, that thread takes
  it up as soon as it is done with the connection it may be serving; before that, the thread that
  made the session closes it when it puts its own connection there.\<close>

theorem handed_over_connection_has_a_reader:
  assumes "sid < sr_next (run_server mx mp es)" and "co_pending_fd (sr_control (run_server mx mp es) sid) = Some fd"
  shows "live sid (run_server mx mp es)
    \<and> ((\<exists>ev \<in> {[Take_up sid], [Connection_ends sid, Take_up sid]}.
          co_serving (sr_control (run_server mx mp (es @ ev)) sid) = On fd)
      \<or> (\<exists>x. starter (run_server mx mp es) x sid
          \<and> fd \<notin> sr_open (run_server mx mp (es @ [Read_completion x, Write_reply x True True, Hand_over x]))))"
proof -
  let ?s = "run_server mx mp es"
  have ok: "server_ok mx mp ?s" by (rule server_run_ok)
  note c = server_okD(2) [OF ok]
  have run: "run_server mx mp (es @ ev) = fold (happen mx mp) ev ?s" for ev by (simp add: run_server_def)
  have live: "\<not> co_finished (sr_control ?s sid)" using control_okD(1) [OF c assms(1)] assms(2) by auto
  show ?thesis
  proof (cases "being_served ?s sid")
    case True
    then show ?thesis using served_takes_up [OF assms True, of mx mp] live assms(1) unfolding run live_def by blast
  next
    case False
    then obtain x where "starter ?s x sid" using control_okD(2) [OF c assms(1) live False] by blast
    then show ?thesis using starter_replaces [OF ok _ assms(2), of x] live assms(1) unfolding run live_def by blast
  qed
qed

lemma handed_over_connection_has_a_reader_witness:
  "live 0 (run_server 1 8 (take 5 demo_events))
    \<and> ((\<exists>ev \<in> {[Take_up 0], [Connection_ends 0, Take_up 0]}.
          co_serving (sr_control (run_server 1 8 (take 5 demo_events @ ev)) 0) = On 4)
      \<or> (\<exists>x. starter (run_server 1 8 (take 5 demo_events)) x 0
          \<and> 4 \<notin> sr_open (run_server 1 8 (take 5 demo_events @ [Read_completion x, Write_reply x True True, Hand_over x]))))"
proof (rule handed_over_connection_has_a_reader)
  show "0 < sr_next (run_server 1 8 (take 5 demo_events))" by code_simp
  show "co_pending_fd (sr_control (run_server 1 8 (take 5 demo_events)) 0) = Some 4" by code_simp
qed

end
