(* ===== verification/Expiry.thy ===== *)
theory Expiry
  imports Connections
begin

text \<open>
  Where the serving of frames and the life of a session meet: what a handshake is told of the
  requests a session ran, and what a session reports when it ends.
\<close>

section \<open>Completed requests\<close>

lemma completion_served:
  assumes "serve_frame cap drv disp f se = (sent, close, se')"
  shows "completion_of se' = (if already_ran (fst f) se then completion_of se
     else complete (rq_req_id (fst f)) sent (completion_of se))"
  using assms by (auto simp: serve_frame_def answer_request_def completion_of_def complete_def Let_def split: prod.splits if_splits)

text \<open>A frame served on a session's connection is the event that completes its request: what
  handshakes read of the session afterwards is what serving the frame left, and nothing when the frame
  is a copy of a request that ran.\<close>

theorem serving_a_frame_completes_it:
  assumes "serve_frame cap drv disp f se = (sent, close, se')" and "\<not> already_ran (fst f) se"
    and "sid < sr_next srv" and "co_serving (sr_control srv sid) = On fd"
    and "co_completion (sr_control srv sid) = completion_of se"
  shows "co_completion (sr_control (happen mx mp (Completed sid (rq_req_id (fst f)) sent) srv) sid) = completion_of se'
    \<and> holds (happen mx mp (Completed sid (rq_req_id (fst f)) sent) srv) = holds srv"
proof -
  have "holds (on_control sid (co_completion_update g) srv) = holds srv" for g
    by (rule ext, rename_tac x, case_tac x) auto
  then show ?thesis using assms completion_served [OF assms(1)] by simp
qed

lemma serving_a_frame_completes_it_witness:
  "\<exists>sent. co_completion (sr_control (happen 1 8 (Completed 0 1 sent) (run_server 1 8 (take 6 demo_events))) 0)
      = completion_of (snd (snd (serve_frame 4096 fake_driver demo_dispatch (frame 20 1 0 7 [1]) demo_session)))"
proof -
  let ?f = "frame 20 1 0 7 [1]" and ?srv = "run_server 1 8 (take 6 demo_events)"
  obtain sent close se' where sf: "serve_frame 4096 fake_driver demo_dispatch ?f demo_session = (sent, close, se')"
    by (metis prod_cases3)
  have ran: "\<not> already_ran (fst ?f) demo_session" and sid: "0 < sr_next ?srv" and
    on: "co_serving (sr_control ?srv 0) = On 4" and cp: "co_completion (sr_control ?srv 0) = completion_of demo_session"
    by code_simp+
  have "rq_req_id (fst ?f) = 1" by (simp add: frame_def)
  then have "co_completion (sr_control (happen 1 8 (Completed 0 1 sent) ?srv) 0) = completion_of se'"
    using serving_a_frame_completes_it [OF sf ran sid on cp, of 1 8] by (simp only:)
  moreover have "snd (snd (serve_frame 4096 fake_driver demo_dispatch ?f demo_session)) = se'" using sf by simp
  ultimately show ?thesis by (intro exI [of _ sent]) (simp only:)
qed

text \<open>However many calls without a reply were completed behind it, the reply to the last
  request that replies is kept whole until the next one: a client that resumes the session is told the
  last request completed, and is sent exactly that reply unless it says it has had it.\<close>

theorem lost_reply_is_resent:
  assumes "serve_frame cap drv disp f se = (Some bytes, close, se1)" and "\<not> already_ran (fst f) se"
    and "list_all (\<lambda>g. no_reply (fst g)) fs" and "run_frames cap drv disp fs se1 = (log, se2)"
  shows "handshake_answer hello True (completion_of se2) =
     (\<lparr> hr_magic = kMagicHello, hr_version = kProtocolVersion, hr_resumed = 1, hr_last_req_id = se_last_req se2 \<rparr>,
      if req_at_or_before (rq_req_id (fst f)) (hs_last_req_id hello) then [] else bytes)"
proof -
  have "se_last_reply_id se1 = rq_req_id (fst f) \<and> se_last_reply se1 = bytes"
    using assms(1,2) by (auto simp: serve_frame_def answer_request_def Let_def split: prod.splits if_splits)
  then show ?thesis using run_no_reply [OF assms(3,4)] by (simp add: handshake_answer_def completion_of_def)
qed

lemma lost_reply_is_resent_witness:
  "\<exists>bytes. bytes \<noteq> [] \<and> snd (handshake_answer (demo_hello True) True (completion_of (snd (run_frames 4096 fake_driver demo_dispatch
      [frame 23 2 1 7 (le_enc 8 (99 :: u64))]
      (snd (snd (serve_frame 4096 fake_driver demo_dispatch (frame 20 1 0 7 [1]) demo_session))))))) = bytes"
proof -
  let ?f = "frame 20 1 0 7 [1]" and ?fs = "[frame 23 2 1 7 (le_enc 8 (99 :: u64))]"
  obtain sent close se1 where sf: "serve_frame 4096 fake_driver demo_dispatch ?f demo_session = (sent, close, se1)"
    by (metis prod_cases3)
  have ran: "\<not> already_ran (fst ?f) demo_session" and rep: "\<not> no_reply (fst ?f)" and silent: "list_all (\<lambda>g. no_reply (fst g)) ?fs"
    and unseen: "\<not> req_at_or_before (rq_req_id (fst ?f)) (hs_last_req_id (demo_hello True))"
    by code_simp+
  from serve_replying [OF sf ran rep] obtain bytes where b: "sent = Some bytes" "bytes \<noteq> []" by auto
  obtain log se2 where rf: "run_frames 4096 fake_driver demo_dispatch ?fs se1 = (log, se2)" by fastforce
  have "snd (handshake_answer (demo_hello True) True (completion_of se2)) = bytes"
    using lost_reply_is_resent [OF sf [unfolded b(1)] ran silent rf, of "demo_hello True"] unseen by simp
  then show ?thesis using b rf sf by auto
qed

section \<open>The end of a session\<close>

lemma say_all_fold:
  "ts_unreported_failures (fold (\<lambda>e. say_unreported (snd e)) es ts)
     = ts_unreported_failures ts + of_nat (length (filter holds_failure es))
   \<and> ts_held_failures (fold (\<lambda>e. say_unreported (snd e)) es ts) = ts_held_failures ts"
  by (induction es arbitrary: ts) (auto simp: say_unreported_def holds_failure_def algebra_simps)

lemma say_all_counts:
  "ts_unreported_failures (say_all_unreported ts) = accounted ts"
  "ts_held_failures (say_all_unreported ts) = ts_held_failures ts"
  using say_all_fold [of "ts_live ts @ ts_retired ts" ts] by (simp_all add: say_all_unreported_def accounted_def parked_def)

lemma expire_counts: "fst (expire_session drv s) = (ts_held_failures (sv_threads s), accounted (sv_threads s))"
  by (simp add: expire_session_def say_all_counts Let_def split: option.split prod.split)

text \<open>C30. When a session ends, the count of failures it reports as never having reached their
  thread is exact: the failures held over its life are those and the ones delivered in replies.\<close>

theorem expiry_reports_every_failure:
  assumes "table_keeper disp" and "slots_wf cap (session_threads se)"
    and "ts_held_failures (session_threads se) = accounted (session_threads se)"
    and "expire_session drv (se_sv (snd (run_frames cap drv disp fs se))) = ((n, lost), rp, s)"
  shows "n = lost + of_nat (deliveries cap drv disp fs se)"
proof -
  obtain log se' where rf: "run_frames cap drv disp fs se = (log, se')" by fastforce
  from table_keeper.run_frames_books [OF assms(1,2) rf] assms(3)
  have "ts_held_failures (session_threads se') = accounted (session_threads se') + of_nat (deliveries cap drv disp fs se)"
    by (simp add: algebra_simps)
  then show ?thesis using assms(4) expire_counts [of drv "se_sv se'"] rf by simp
qed

lemma expiry_reports_every_failure_witness:
  "let x = expire_session fake_driver (se_sv (snd (run_frames 4096 fake_driver demo_dispatch (take 1 demo_frames) demo_session)))
   in fst (fst x) = snd (fst x) + of_nat (deliveries 4096 fake_driver demo_dispatch (take 1 demo_frames) demo_session)
     \<and> fst (fst x) = 1"
proof -
  let ?s = "se_sv (snd (run_frames 4096 fake_driver demo_dispatch (take 1 demo_frames) demo_session))"
  obtain n lost rp s where x: "expire_session fake_driver ?s = ((n, lost), rp, s)"
    by (metis prod_cases3 surj_pair)
  have "ts_held_failures (sv_threads ?s) = 1" by code_simp
  moreover have "n = ts_held_failures (sv_threads ?s)" using x expire_counts [of fake_driver ?s] by (metis fst_conv)
  ultimately have "n = 1" by (simp only:)
  with expiry_reports_every_failure [OF demo_keeper demo_books x] show ?thesis by (simp only: x Let_def fst_conv snd_conv)
qed

end
