(* ===== verification/Rpc.thy ===== *)
theory Rpc
  imports Serve
begin

text \<open>
  The client's side of the connection (\<^verbatim>\<open>client/rpc.cpp\<close>): request ids, the queue of frames not yet
  written, the replay buffer of frames not yet acknowledged, the handshake, and the two ways a call is
  made. One lock is held over each call, so a call is one step of the client's state.

  The network is an input: what each attempt to connect, each write and each wait for a reply comes
  to. What the client wrote is kept per connection. The statistics, the
  settings, the addresses tried and the flush at exit are in \<^verbatim>\<open>Settings\<close>; log lines are left out.
\<close>

section \<open>State\<close>

text \<open>What an attempt to connect comes to: no address or no peer, a peer that does not answer the
  handshake, or its answer.\<close>

datatype connect_answer = Unreachable | Unanswered | Answer handshake_reply

record link =
  lk_connects :: "connect_answer list"
  lk_writes :: "nat option list"
  lk_replies :: "(rsp_header \<times> byte list) option list"
  lk_sent :: "byte list list"

record sent_frame =
  sf_req_id :: u32
  sf_bytes :: "byte list"

record client =
  cl_connected :: bool
  cl_connect_failed :: bool
  cl_session_gone :: bool
  cl_had_session :: bool
  cl_session :: "u64 \<times> u64"
  cl_next_req :: u32
  cl_last_reply :: u32
  cl_queued :: "byte list"
  cl_unacked :: "sent_frame list"
  cl_unacked_bytes :: nat
  cl_replay_possible :: bool
  cl_next_thread :: u32
  cl_retired :: "u32 list"
  cl_have_retired :: bool
  cl_exited :: "u32 list"
  cl_link :: link

definition new_client :: "u64 \<times> u64 \<Rightarrow> u32 \<Rightarrow> link \<Rightarrow> client" where
  "new_client session first lk = \<lparr> cl_connected = False, cl_connect_failed = False, cl_session_gone = False,
     cl_had_session = False, cl_session = session, cl_next_req = first, cl_last_reply = 0, cl_queued = [],
     cl_unacked = [], cl_unacked_bytes = 0, cl_replay_possible = True, cl_next_thread = 1, cl_retired = [],
     cl_have_retired = False, cl_exited = [], cl_link = lk \<rparr>"

section \<open>Writing\<close>

text \<open>Bytes added to what the current connection carries.\<close>

definition onto_last :: "byte list \<Rightarrow> byte list list \<Rightarrow> byte list list" where
  "onto_last bs ws = (if ws = [] then [bs] else butlast ws @ [last ws @ bs])"

text \<open>A write that fails has written some of its bytes.\<close>

definition write_bytes :: "byte list \<Rightarrow> client \<Rightarrow> bool \<times> client" where
  "write_bytes bs c = (let lk = cl_link c in
     case lk_writes lk of
       [] \<Rightarrow> (True, c\<lparr> cl_link := lk\<lparr> lk_sent := onto_last bs (lk_sent lk) \<rparr> \<rparr>)
     | None # ws \<Rightarrow> (True, c\<lparr> cl_link := lk\<lparr> lk_writes := ws, lk_sent := onto_last bs (lk_sent lk) \<rparr> \<rparr>)
     | Some k # ws \<Rightarrow> (False, c\<lparr> cl_link := lk\<lparr> lk_writes := ws, lk_sent := onto_last (take k bs) (lk_sent lk) \<rparr> \<rparr>))"

definition drop_connection :: "client \<Rightarrow> client" where
  "drop_connection c = c\<lparr> cl_connected := False \<rparr>"

definition flush :: "client \<Rightarrow> bool \<times> client" where
  "flush c =
     (if \<not> cl_connected c then (False, c)
      else if cl_queued c = [] then (True, c)
      else (case write_bytes (cl_queued c) c of (ok, c1) \<Rightarrow>
        (let c2 = c1\<lparr> cl_queued := [] \<rparr> in if ok then (True, c2) else (False, drop_connection c2))))"

section \<open>Request ids and the replay buffer\<close>

definition kMaxUnackedBytes :: nat where "kMaxUnackedBytes = 64 * 2 ^ 20"

definition mint_req_id :: "client \<Rightarrow> u32 \<times> client" where
  "mint_req_id c = (let i = (if cl_next_req c = 0 then 1 else cl_next_req c) in (i, c\<lparr> cl_next_req := i + 1 \<rparr>))"

fun forget_acked_frames :: "u32 \<Rightarrow> sent_frame list \<Rightarrow> nat \<Rightarrow> sent_frame list \<times> nat" where
  "forget_acked_frames acked [] n = ([], n)"
| "forget_acked_frames acked (f # fs) n =
     (if req_at_or_before (sf_req_id f) acked then forget_acked_frames acked fs (n - length (sf_bytes f)) else (f # fs, n))"

definition forget_acked :: "u32 \<Rightarrow> client \<Rightarrow> client" where
  "forget_acked acked c = (case forget_acked_frames acked (cl_unacked c) (cl_unacked_bytes c) of
     (fs, n) \<Rightarrow> c\<lparr> cl_unacked := fs, cl_unacked_bytes := n \<rparr>)"

definition abandon_call :: "u32 \<Rightarrow> client \<Rightarrow> client" where
  "abandon_call rid c =
     (let c1 = (if cl_unacked c \<noteq> [] \<and> sf_req_id (last (cl_unacked c)) = rid
                then c\<lparr> cl_unacked_bytes := cl_unacked_bytes c - length (sf_bytes (last (cl_unacked c))),
                       cl_unacked := butlast (cl_unacked c) \<rparr> else c)
      in c1\<lparr> cl_last_reply := rid, cl_connected := False \<rparr>)"

definition request_header :: "u32 \<Rightarrow> u32 \<Rightarrow> u32 \<Rightarrow> u32 \<Rightarrow> byte list \<Rightarrow> req_header" where
  "request_header api rid flags tid payload = \<lparr> rq_magic = kMagicReq, rq_api_id = api, rq_req_id = rid,
     rq_flags = flags, rq_thread_id = tid, rq_payload_len = of_nat (length payload) \<rparr>"

definition keep_unacked :: "sent_frame \<Rightarrow> client \<Rightarrow> client" where
  "keep_unacked f c =
     (if \<not> cl_replay_possible c then c
      else (let n = cl_unacked_bytes c + length (sf_bytes f) in
        if n > kMaxUnackedBytes then c\<lparr> cl_replay_possible := False, cl_unacked := [], cl_unacked_bytes := 0 \<rparr>
        else c\<lparr> cl_unacked := cl_unacked c @ [f], cl_unacked_bytes := n \<rparr>))"

definition queue_one :: "u32 \<Rightarrow> byte list \<Rightarrow> u32 \<Rightarrow> u32 \<Rightarrow> client \<Rightarrow> u32 \<times> client" where
  "queue_one api payload flags tid c = (case mint_req_id c of (rid, c1) \<Rightarrow>
     (let bytes = enc_req_header (request_header api rid flags tid payload) @ payload;
          c2 = c1\<lparr> cl_queued := cl_queued c1 @ bytes \<rparr>
      in (rid, keep_unacked \<lparr> sf_req_id = rid, sf_bytes = bytes \<rparr> c2)))"

section \<open>Client threads\<close>

text \<open>Ids are minted from 1, skipping 0; a thread that exits is listed for the server to forget.\<close>

definition mint_thread_id :: "client \<Rightarrow> u32 \<times> client" where
  "mint_thread_id c = (let i = (if cl_next_thread c = 0 then 1 else cl_next_thread c) in
     (i, c\<lparr> cl_next_thread := i + 1 \<rparr>))"

definition retire_client_thread :: "u32 \<Rightarrow> client \<Rightarrow> client" where
  "retire_client_thread tid c = c\<lparr> cl_retired := cl_retired c @ [tid], cl_have_retired := True,
     cl_exited := tid # cl_exited c \<rparr>"

definition thread_notice :: "u32 list \<Rightarrow> buffer" where
  "thread_notice gone = put_bytes (concat (map (le_enc 4) gone)) (buf_put 4 (of_nat (length gone) :: u32) empty_buffer)"

text \<open>A notice of the threads that exited goes ahead of the frame, and never names the caller.\<close>

definition queue_notice :: "u32 \<Rightarrow> client \<Rightarrow> client" where
  "queue_notice tid c =
     (if \<not> cl_have_retired c then c
      else (let gone = remove1 tid (cl_retired c);
                kept = (if tid \<in> set (cl_retired c) then [tid] else []);
                c1 = c\<lparr> cl_retired := kept, cl_have_retired := (kept \<noteq> []) \<rparr>
            in if gone = [] then c1
               else snd (queue_one API_rgpu_thread_gone (bdata (thread_notice gone)) kFlagNoReply tid c1)))"

definition list_again :: "u32 \<Rightarrow> client \<Rightarrow> client" where
  "list_again tid c =
     (if tid \<notin> set (cl_exited c) then c
      else c\<lparr> cl_retired := (if tid \<in> set (cl_retired c) then cl_retired c else cl_retired c @ [tid]),
             cl_have_retired := True \<rparr>)"

definition queue_frame :: "u32 \<Rightarrow> byte list \<Rightarrow> u32 \<Rightarrow> u32 \<Rightarrow> client \<Rightarrow> u32 \<times> client" where
  "queue_frame api payload flags tid c =
     (case queue_one api payload flags tid (queue_notice tid c) of (rid, c1) \<Rightarrow> (rid, list_again tid c1))"

section \<open>Connecting\<close>

definition client_hello :: "client \<Rightarrow> handshake" where
  "client_hello c = \<lparr> hs_magic = kMagicHello, hs_version = kProtocolVersion, hs_session_hi = fst (cl_session c),
     hs_session_lo = snd (cl_session c), hs_last_req_id = cl_last_reply c,
     hs_flags = (if cl_had_session c then kHelloResuming else 0) \<rparr>"

fun replay :: "sent_frame list \<Rightarrow> client \<Rightarrow> bool \<times> client" where
  "replay [] c = (True, c)"
| "replay (f # fs) c = (case write_bytes (sf_bytes f) c of
       (True, c1) \<Rightarrow> replay fs c1
     | (False, c1) \<Rightarrow> (False, c1\<lparr> cl_connected := False \<rparr>))"

text \<open>The handshake was answered.\<close>

definition take_answer :: "handshake_reply \<Rightarrow> client \<Rightarrow> bool \<times> client" where
  "take_answer reply c =
     (if hr_magic reply = kMagicBusy \<or> hr_magic reply \<noteq> kMagicHello \<or> hr_version reply \<noteq> kProtocolVersion
      then (False, c\<lparr> cl_connect_failed := True \<rparr>)
      else if cl_had_session c \<and> hr_resumed reply = 0
      then (False, c\<lparr> cl_session_gone := True, cl_connect_failed := True, cl_queued := [], cl_unacked := [],
                     cl_unacked_bytes := 0 \<rparr>)
      else (let c1 = c\<lparr> cl_connected := True, cl_had_session := True \<rparr> in
        if hr_resumed reply \<noteq> 0
        then (let c2 = (forget_acked (hr_last_req_id reply) c1)\<lparr> cl_queued := [] \<rparr> in replay (cl_unacked c2) c2)
        else (True, c1)))"

definition ensure_connected :: "client \<Rightarrow> bool \<times> client" where
  "ensure_connected c =
     (if cl_connected c then (True, c)
      else if cl_session_gone c \<or> cl_connect_failed c then (False, c)
      else (let lk = cl_link c; rest = tl (lk_connects lk) in
        case (if lk_connects lk = [] then Unreachable else hd (lk_connects lk)) of
          Answer reply \<Rightarrow> take_answer reply (c\<lparr> cl_link := lk\<lparr> lk_connects := rest,
             lk_sent := lk_sent lk @ [enc_handshake (client_hello c)] \<rparr> \<rparr>)
        | _ \<Rightarrow> (False, c\<lparr> cl_connect_failed := True, cl_link := lk\<lparr> lk_connects := rest \<rparr> \<rparr>)))"

text \<open>The attempts the clock allows are counted down.\<close>

fun reconnect_tries :: "nat \<Rightarrow> client \<Rightarrow> bool \<times> client" where
  "reconnect_tries 0 c = (False, c\<lparr> cl_connect_failed := True \<rparr>)"
| "reconnect_tries (Suc n) c = (case ensure_connected (c\<lparr> cl_connect_failed := False \<rparr>) of (ok, c1) \<Rightarrow>
     if ok then (True, c1) else if cl_session_gone c1 then (False, c1) else reconnect_tries n c1)"

definition reconnect :: "nat \<Rightarrow> client \<Rightarrow> bool \<times> client" where
  "reconnect tries c = (if \<not> cl_replay_possible c then (False, c) else reconnect_tries tries c)"

section \<open>The two calls\<close>

definition kQueueFlushBytes :: nat where "kQueueFlushBytes = 1024"

text \<open>A reply, or \<open>None\<close> where the connection is gone.\<close>

definition wait_reply :: "client \<Rightarrow> (rsp_header \<times> byte list) option \<times> client" where
  "wait_reply c = (let lk = cl_link c in case lk_replies lk of
       [] \<Rightarrow> (None, c)
     | r # rs \<Rightarrow> (r, c\<lparr> cl_link := lk\<lparr> lk_replies := rs \<rparr> \<rparr>))"

definition give_up_call :: "u32 \<Rightarrow> client \<Rightarrow> (CUresult \<times> byte list) \<times> client" where
  "give_up_call rid c = ((CUDA_ERROR_UNKNOWN, []), abandon_call rid c)"

text \<open>One go at a call whose frame is queued: its reply, or whether to try again.\<close>

definition attempt :: "u32 \<Rightarrow> client \<Rightarrow> ((CUresult \<times> byte list) + bool) \<times> client" where
  "attempt rid c = (case flush c of (sent, c1) \<Rightarrow>
     if \<not> sent then (Inr True, c1)
     else (case wait_reply c1 of
         (None, c2) \<Rightarrow> (Inr True, drop_connection c2)
       | (Some (rh, payload), c2) \<Rightarrow>
           (if rs_req_id rh \<noteq> rid then (Inr False, drop_connection c2)
            else (Inl (rs_result rh, payload), forget_acked (rs_req_id rh) (c2\<lparr> cl_last_reply := rs_req_id rh \<rparr>)))))"

definition call :: "nat \<Rightarrow> u32 \<Rightarrow> u32 \<Rightarrow> byte list \<Rightarrow> client \<Rightarrow> (CUresult \<times> byte list) \<times> client" where
  "call tries tid api payload c = (case ensure_connected c of (ok, c0) \<Rightarrow>
     if \<not> ok then ((CUDA_ERROR_NOT_INITIALIZED, []), c0)
     else (case queue_frame api payload 0 tid c0 of (rid, c1) \<Rightarrow>
       (case attempt rid c1 of
          (Inl r, c2) \<Rightarrow> (r, c2)
        | (Inr again, c2) \<Rightarrow>
            (if \<not> again then give_up_call rid c2
             else (case reconnect tries c2 of (back, c3) \<Rightarrow>
               (if \<not> back then give_up_call rid c3
                else (case attempt rid c3 of
                   (Inl r, c4) \<Rightarrow> (r, c4)
                 | (Inr _, c4) \<Rightarrow> give_up_call rid c4)))))))"

definition call_async :: "bool \<Rightarrow> nat \<Rightarrow> nat \<Rightarrow> u32 \<Rightarrow> u32 \<Rightarrow> byte list \<Rightarrow> client \<Rightarrow> CUresult \<times> client" where
  "call_async batching flush_bytes tries tid api payload c =
     (if \<not> batching then (case call tries tid api payload c of ((r, _), c1) \<Rightarrow> (r, c1))
      else (case ensure_connected c of (ok, c0) \<Rightarrow>
        if \<not> ok then (CUDA_ERROR_NOT_INITIALIZED, c0)
        else (case queue_frame api payload kFlagNoReply tid c0 of (_, c1) \<Rightarrow>
          if length (cl_queued c1) \<ge> flush_bytes
          then (case flush c1 of (sent, c2) \<Rightarrow> (if sent then CUDA_SUCCESS else CUDA_ERROR_UNKNOWN, c2))
          else (CUDA_SUCCESS, c1))))"

end
