(* ===== verification/RpcInv.thy ===== *)
theory RpcInv
  imports Rpc
begin

text \<open>
  What every call keeps of the client's state: the replay buffer holds whole frames under the ids they
  were given, in the order they were queued and within its bound, and the queue is the end of it.
\<close>

section \<open>Ids by position\<close>

text \<open>The id of the last of \<open>q\<close> requests numbered from the one after \<open>a\<close>; 0 when there is none.\<close>

definition done_id :: "u32 \<Rightarrow> nat \<Rightarrow> u32" where
  "done_id a q = (if q = 0 then 0 else nth_id a q)"

lemma completed_done: "completed a q se \<longleftrightarrow> se_last_req se = done_id a q"
  by (simp add: completed_def done_id_def)

lemma position_order:
  assumes "a \<noteq> 0" and "0 < p" and "p < q + id_window" and "q < p + id_window"
  shows "req_at_or_before (nth_id a p) (done_id a q) \<longleftrightarrow> p \<le> q"
proof (cases "q = 0")
  case True
  then show ?thesis using assms by (simp add: done_id_def req_at_or_before_def)
next
  case False
  define m where "m = min p q"
  have b: "nth_id a m \<noteq> 0" using assms(1) by simp
  have m: "p = m + (p - m)" "q = m + (q - m)" by (auto simp: m_def)
  have "nth_id a p = nth_id (nth_id a m) (p - m)" "nth_id a q = nth_id (nth_id a m) (q - m)"
    by (metis m nth_id_add)+
  moreover have "p - m < 2 ^ 31 - 1" "q - m < 2 ^ 31 - 1"
    using assms(3,4) by (auto simp: m_def id_window_def)
  ultimately have "req_at_or_before (nth_id a p) (nth_id a q) \<longleftrightarrow> p - m \<le> q - m"
    using ids.positions [OF b, of "p - m" "q - m"] by (simp add: nth_id_def)
  also have "\<dots> \<longleftrightarrow> p \<le> q" by (auto simp: m_def)
  finally show ?thesis using False by (simp add: done_id_def)
qed

text \<open>A session takes up frames that go on from what it completed, gaps and all.\<close>

lemma run_ascending:
  assumes "a \<noteq> 0" and "completed a q se" and "sorted_wrt (<) (q # ps)" and "\<forall>p \<in> set ps. p < q + id_window"
    and "map (\<lambda>f. rq_req_id (fst f)) fs = map (nth_id a) ps"
  shows "ran_ids (fst (run_frames cap drv disp fs se)) = map (nth_id a) ps
    \<and> completed a (last (q # ps)) (snd (run_frames cap drv disp fs se))"
  using assms(2-)
proof (induction ps arbitrary: q fs se)
  case Nil
  then show ?case by (simp add: ran_ids_def)
next
  case (Cons p ps)
  then obtain f fs' where fs: "fs = f # fs'" "rq_req_id (fst f) = nth_id a p"
    "map (\<lambda>f. rq_req_id (fst f)) fs' = map (nth_id a) ps" by (cases fs) auto
  obtain sent close se1 where sf: "serve_frame cap drv disp f se = (sent, close, se1)" by (metis prod_cases3)
  have p: "0 < p" "q < p" "p < q + id_window" using Cons.prems(2,3) by auto
  have "already_ran (fst f) se \<longleftrightarrow> p \<le> q"
    using position_order [OF assms(1) p(1,3)] p Cons.prems(1) fs(2) by (simp add: already_ran_def completed_done)
  then have ran: "\<not> already_ran (fst f) se" using p by simp
  then have c1: "completed a p se1" using serve_frame_last_req [of cap drv disp f se] sf fs(2) p by (simp add: completed_done done_id_def)
  have asc: "sorted_wrt (<) (p # ps)" using Cons.prems(2) by simp
  have win: "\<forall>x \<in> set ps. x < p + id_window" using Cons.prems(3) p by auto
  from Cons.IH [OF c1 asc win fs(3)] show ?case
    using sf ran fs by (auto simp: ran_ids_Cons split: prod.splits)
qed

section \<open>The invariant\<close>

definition whole_frame :: "sent_frame \<Rightarrow> bool" where
  "whole_frame f \<longleftrightarrow> (\<exists>api flags tid payload. length payload < 2 ^ 32
     \<and> sf_bytes f = enc_req_header (request_header api (sf_req_id f) flags tid payload) @ payload)"

definition frame_bytes :: "sent_frame list \<Rightarrow> byte list" where
  "frame_bytes fs = concat (map sf_bytes fs)"

text \<open>The client has numbered \<open>n\<close> requests from the one after \<open>a\<close>; the frames kept for replay are those
  at the positions \<open>ps\<close>.\<close>

definition upcoming :: "u32 \<Rightarrow> u32" where
  "upcoming i = (if i = 0 then 1 else i)"

definition numbered :: "u32 \<Rightarrow> nat \<Rightarrow> nat list \<Rightarrow> client \<Rightarrow> bool" where
  "numbered a n ps c \<longleftrightarrow> upcoming (cl_next_req c) = nth_id a (Suc n)
     \<and> sorted_wrt (<) ps \<and> (\<forall>p \<in> set ps. 0 < p \<and> p \<le> n) \<and> map sf_req_id (cl_unacked c) = map (nth_id a) ps"

definition buffer_ok :: "client \<Rightarrow> bool" where
  "buffer_ok c \<longleftrightarrow> list_all whole_frame (cl_unacked c)
     \<and> cl_unacked_bytes c = length (frame_bytes (cl_unacked c)) \<and> cl_unacked_bytes c \<le> kMaxUnackedBytes
     \<and> (\<not> cl_replay_possible c \<longrightarrow> cl_unacked c = [])
     \<and> (cl_have_retired c \<longleftrightarrow> cl_retired c \<noteq> [])"

definition queue_ok :: "client \<Rightarrow> bool" where
  "queue_ok c \<longleftrightarrow> (cl_replay_possible c \<longrightarrow> (\<exists>k. cl_queued c = frame_bytes (drop k (cl_unacked c))))"

lemma frame_bytes_simps [simp]:
  "frame_bytes [] = []" "frame_bytes (f # fs) = sf_bytes f @ frame_bytes fs"
  "frame_bytes (fs @ gs) = frame_bytes fs @ frame_bytes gs"
  by (simp_all add: frame_bytes_def)

section \<open>Writing and connecting leave the buffer alone\<close>

text \<open>Everything but the connection, the queue and the network.\<close>

definition same_buffer :: "client \<Rightarrow> client \<Rightarrow> bool" where
  "same_buffer c c' \<longleftrightarrow> cl_unacked c' = cl_unacked c \<and> cl_unacked_bytes c' = cl_unacked_bytes c
     \<and> cl_next_req c' = cl_next_req c \<and> cl_replay_possible c' = cl_replay_possible c
     \<and> cl_retired c' = cl_retired c \<and> cl_have_retired c' = cl_have_retired c"

lemma same_buffer_refl [simp]: "same_buffer c c"
  by (simp add: same_buffer_def)

lemma same_buffer_trans: "same_buffer c c1 \<Longrightarrow> same_buffer c1 c2 \<Longrightarrow> same_buffer c c2"
  by (simp add: same_buffer_def)

lemma same_buffer_ok:
  "same_buffer c c' \<Longrightarrow> numbered a n ps c' = numbered a n ps c" "same_buffer c c' \<Longrightarrow> buffer_ok c' = buffer_ok c"
  by (simp_all add: same_buffer_def numbered_def buffer_ok_def)

lemma write_bytes_cases:
  "\<exists>lk. snd (write_bytes bs c) = c\<lparr> cl_link := lk \<rparr>"
  by (auto simp: write_bytes_def Let_def split: list.split option.split)

lemma write_bytes_same: "write_bytes bs c = (ok, c') \<Longrightarrow> same_buffer c c' \<and> cl_queued c' = cl_queued c \<and> cl_connected c' = cl_connected c"
  using write_bytes_cases [of bs c] by (auto simp: same_buffer_def)

lemma flush_same:
  assumes "flush c = (ok, c')"
  shows "same_buffer c c' \<and> (cl_connected c \<longrightarrow> cl_queued c' = []) \<and> (cl_connected c' \<longleftrightarrow> ok) \<and> (\<not> cl_connected c \<longrightarrow> c' = c)"
  using assms write_bytes_same [of "cl_queued c" c "fst (write_bytes (cl_queued c) c)" "snd (write_bytes (cl_queued c) c)"]
  by (auto simp: flush_def drop_connection_def same_buffer_def Let_def split: if_splits prod.splits)

lemma replay_same: "replay fs c = (ok, c') \<Longrightarrow> cl_connected c \<Longrightarrow> same_buffer c c' \<and> cl_queued c' = cl_queued c \<and> (cl_connected c' \<longleftrightarrow> ok)"
proof (induction fs arbitrary: c)
  case (Cons f fs)
  obtain sent c1 where w: "write_bytes (sf_bytes f) c = (sent, c1)" by fastforce
  note s = write_bytes_same [OF w]
  show ?case
  proof (cases sent)
    case True
    then show ?thesis using Cons w s same_buffer_trans by fastforce
  next
    case False
    then show ?thesis using Cons.prems w s by (auto simp: same_buffer_def)
  qed
qed simp

section \<open>Queueing\<close>

lemma mint_numbered:
  assumes "numbered a n ps c" and "mint_req_id c = (rid, c')"
  shows "rid = nth_id a (Suc n) \<and> numbered a (Suc n) ps c'"
proof -
  have c': "rid = upcoming (cl_next_req c)" "c' = c\<lparr> cl_next_req := upcoming (cl_next_req c) + 1 \<rparr>"
    using assms(2) by (auto simp: mint_req_id_def upcoming_def Let_def)
  have up: "upcoming (nth_id a (Suc n) + 1) = nth_id a (Suc (Suc n))"
    by (simp add: upcoming_def nth_id_Suc next_id_def)
  show ?thesis using assms(1) by (auto simp: c' numbered_def up)
qed

lemma mint_rest:
  "mint_req_id c = (rid, c') \<Longrightarrow> \<exists>i. c' = c\<lparr> cl_next_req := i \<rparr>"
  by (auto simp: mint_req_id_def Let_def)

lemma keep_numbered:
  assumes "numbered a (Suc n) ps c" and "\<forall>p \<in> set ps. p \<le> n" and "sf_req_id f = nth_id a (Suc n)"
  shows "\<exists>ps'. numbered a (Suc n) ps' (keep_unacked f c)"
proof -
  have "numbered a (Suc n) (ps @ [Suc n]) (c\<lparr> cl_unacked := cl_unacked c @ [f], cl_unacked_bytes := k \<rparr>)" for k
    using assms by (auto simp: numbered_def sorted_wrt_append)
  moreover have "numbered a (Suc n) [] (c\<lparr> cl_replay_possible := False, cl_unacked := [], cl_unacked_bytes := 0 \<rparr>)"
    using assms(1) by (simp add: numbered_def)
  ultimately show ?thesis using assms(1) by (auto simp: keep_unacked_def Let_def)
qed

lemma keep_buffer:
  assumes "buffer_ok c" and "cl_replay_possible c \<Longrightarrow> length (sf_bytes f) \<le> kMaxUnackedBytes \<Longrightarrow> whole_frame f"
  shows "buffer_ok (keep_unacked f c)"
  using assms by (auto simp: buffer_ok_def keep_unacked_def Let_def)

lemma request_whole:
  assumes "length (enc_req_header (request_header api rid flags tid payload) @ payload) \<le> kMaxUnackedBytes"
  shows "whole_frame \<lparr> sf_req_id = rid, sf_bytes = enc_req_header (request_header api rid flags tid payload) @ payload \<rparr>"
proof -
  have "length payload < 2 ^ 32" using assms by (simp add: kMaxUnackedBytes_def)
  then show ?thesis unfolding whole_frame_def by auto
qed

lemma queue_one_ok:
  assumes "numbered a n ps c" and "buffer_ok c" and "queue_ok c" and "queue_one api payload flags tid c = (rid, c')"
  shows "rid = nth_id a (Suc n) \<and> (\<exists>ps'. numbered a (Suc n) ps' c') \<and> buffer_ok c' \<and> queue_ok c'
    \<and> cl_connected c' = cl_connected c"
proof -
  obtain c1 where m: "mint_req_id c = (rid, c1)" using assms(4) by (auto simp: queue_one_def Let_def split: prod.splits)
  define bytes where "bytes = enc_req_header (request_header api rid flags tid payload) @ payload"
  define f where "f = \<lparr> sf_req_id = rid, sf_bytes = bytes \<rparr>"
  define c2 where "c2 = c1\<lparr> cl_queued := cl_queued c1 @ bytes \<rparr>"
  obtain i where c1: "c1 = c\<lparr> cl_next_req := i \<rparr>" using mint_rest [OF m] ..
  have c': "c' = keep_unacked f c2"
    using assms(4) m by (simp add: queue_one_def Let_def f_def bytes_def c2_def)
  note n1 = mint_numbered [OF assms(1) m]
  have "numbered a (Suc n) ps c2" using n1 unfolding c2_def numbered_def by simp
  then have "\<exists>ps'. numbered a (Suc n) ps' c'"
    unfolding c' by (rule keep_numbered) (use assms(1) n1 in \<open>auto simp: numbered_def f_def\<close>)
  moreover have "buffer_ok c2" using assms(2) by (simp add: buffer_ok_def c2_def c1)
  then have "buffer_ok c'"
    unfolding c' by (rule keep_buffer) (use request_whole in \<open>auto simp: f_def bytes_def\<close>)
  moreover have "queue_ok c'"
  proof (cases "cl_replay_possible c'")
    case True
    then have u: "cl_unacked c' = cl_unacked c @ [f]" "cl_queued c' = cl_queued c @ bytes" "cl_replay_possible c"
      by (auto simp: c' keep_unacked_def c2_def c1 Let_def split: if_splits)
    obtain k where "cl_queued c = frame_bytes (drop k (cl_unacked c))" using assms(3) u(3) by (auto simp: queue_ok_def)
    then have "cl_queued c' = frame_bytes (drop (min k (length (cl_unacked c))) (cl_unacked c'))"
      using u by (cases "k \<le> length (cl_unacked c)") (auto simp: f_def)
    then show ?thesis unfolding queue_ok_def by blast
  qed (simp add: queue_ok_def)
  moreover have "cl_connected c' = cl_connected c" by (simp add: c' keep_unacked_def c2_def c1 Let_def)
  ultimately show ?thesis using n1 by simp
qed

lemma retired_frame:
  "numbered a n ps (c\<lparr> cl_retired := r, cl_have_retired := h \<rparr>) = numbered a n ps c"
  "queue_ok (c\<lparr> cl_retired := r, cl_have_retired := h \<rparr>) = queue_ok c"
  "buffer_ok c \<Longrightarrow> h = (r \<noteq> []) \<Longrightarrow> buffer_ok (c\<lparr> cl_retired := r, cl_have_retired := h \<rparr>)"
  by (simp_all add: numbered_def queue_ok_def buffer_ok_def)

lemma queue_notice_ok:
  assumes "numbered a n ps c" and "buffer_ok c" and "queue_ok c"
  shows "(\<exists>m ps'. n \<le> m \<and> m \<le> Suc n \<and> numbered a m ps' (queue_notice tid c)) \<and> buffer_ok (queue_notice tid c)
    \<and> queue_ok (queue_notice tid c) \<and> cl_connected (queue_notice tid c) = cl_connected c"
proof (cases "cl_have_retired c")
  case False
  then show ?thesis using assms by (auto simp: queue_notice_def)
next
  case True
  define kept where "kept = (if tid \<in> set (cl_retired c) then [tid] else [])"
  define c1 where "c1 = c\<lparr> cl_retired := kept, cl_have_retired := (kept \<noteq> []) \<rparr>"
  have ok1: "numbered a n ps c1" "buffer_ok c1" "queue_ok c1" using assms by (simp_all add: c1_def retired_frame)
  obtain rid c2 where q: "queue_one API_rgpu_thread_gone (bdata (thread_notice (remove1 tid (cl_retired c)))) kFlagNoReply tid c1
    = (rid, c2)" by fastforce
  have "queue_notice tid c = (if remove1 tid (cl_retired c) = [] then c1 else c2)"
    using True q by (simp add: queue_notice_def Let_def kept_def c1_def)
  moreover have "cl_connected c1 = cl_connected c" by (simp add: c1_def)
  ultimately show ?thesis using queue_one_ok [OF ok1 q] ok1 by (auto intro: exI [of _ n] exI [of _ "Suc n"])
qed

lemma queue_frame_ok:
  assumes "numbered a n ps c" and "buffer_ok c" and "queue_ok c" and "queue_frame api payload flags tid c = (rid, c')"
  shows "(\<exists>m ps'. n < m \<and> rid = nth_id a m \<and> numbered a m ps' c') \<and> buffer_ok c' \<and> queue_ok c' \<and> cl_connected c' = cl_connected c"
proof -
  note qn = queue_notice_ok [OF assms(1-3), of tid]
  obtain m ps1 where m: "n \<le> m" "numbered a m ps1 (queue_notice tid c)" using qn by blast
  obtain c1 where q: "queue_one api payload flags tid (queue_notice tid c) = (rid, c1)" "c' = list_again tid c1"
    using assms(4) by (auto simp: queue_frame_def split: prod.splits)
  note ok1 = queue_one_ok [OF m(2) _ _ q(1)]
  have "numbered a k ps2 c' = numbered a k ps2 c1" "queue_ok c' = queue_ok c1" "cl_connected c' = cl_connected c1"
    for k ps2 by (auto simp: q(2) list_again_def retired_frame)
  moreover have "buffer_ok c1 \<Longrightarrow> buffer_ok c'" by (auto simp: q(2) list_again_def buffer_ok_def)
  ultimately show ?thesis using ok1 qn m(1) by (metis le_imp_less_Suc)
qed

section \<open>Acknowledging\<close>

definition window_ok :: "nat \<Rightarrow> nat \<Rightarrow> nat list \<Rightarrow> bool" where
  "window_ok q n ps \<longleftrightarrow> n < q + id_window \<and> (\<forall>p \<in> set ps. q < p + id_window)"

lemma forget_frames:
  assumes "a \<noteq> 0" and "sorted_wrt (<) ps" and "\<forall>p \<in> set ps. 0 < p \<and> p < q + id_window \<and> q < p + id_window"
    and "map sf_req_id fs = map (nth_id a) ps" and "n = length (frame_bytes fs)"
    and "forget_acked_frames (done_id a q) fs n = (fs', n')"
  shows "map sf_req_id fs' = map (nth_id a) (filter (\<lambda>p. q < p) ps) \<and> n' = length (frame_bytes fs')
    \<and> (\<exists>k. fs' = drop k fs)"
  using assms(2-)
proof (induction ps arbitrary: fs n)
  case Nil
  then show ?case by auto
next
  case (Cons p ps)
  then obtain f fs1 where fs: "fs = f # fs1" "sf_req_id f = nth_id a p" "map sf_req_id fs1 = map (nth_id a) ps"
    by (cases fs) auto
  have o: "req_at_or_before (sf_req_id f) (done_id a q) \<longleftrightarrow> p \<le> q"
    using position_order [OF assms(1), of p q] Cons.prems(2) fs(2) by simp
  show ?case
  proof (cases "p \<le> q")
    case True
    then have "forget_acked_frames (done_id a q) fs1 (length (frame_bytes fs1)) = (fs', n')"
      using Cons.prems(4,5) fs(1) o by simp
    then have "map sf_req_id fs' = map (nth_id a) (filter (\<lambda>p. q < p) ps) \<and> n' = length (frame_bytes fs') \<and> (\<exists>k. fs' = drop k fs1)"
      using Cons.IH [of fs1] Cons.prems(1,2) fs(3) by simp
    moreover have "\<exists>k. drop j fs1 = drop k fs" for j by (rule exI [of _ "Suc j"]) (simp add: fs(1))
    ultimately show ?thesis using True by auto
  next
    case False
    then have "filter (\<lambda>p. q < p) ps = ps" using Cons.prems(1) by (auto intro!: filter_True)
    moreover have "fs' = fs" "n' = n" using Cons.prems(5) fs(1) o False by simp_all
    ultimately show ?thesis using False Cons.prems(3,4) by (auto intro: exI [of _ 0])
  qed
qed

lemma forget_same: "forget_acked i c = c\<lparr> cl_unacked := cl_unacked (forget_acked i c), cl_unacked_bytes := cl_unacked_bytes (forget_acked i c) \<rparr>"
  by (simp add: forget_acked_def split: prod.split)

text \<open>Whatever the id, what is forgotten is the front of the buffer.\<close>

lemma forget_frames_drop:
  assumes "forget_acked_frames i fs n = (fs', n')" and "n = length (frame_bytes fs)"
  shows "(\<exists>k. fs' = drop k fs) \<and> n' = length (frame_bytes fs')"
  using assms
proof (induction i fs n rule: forget_acked_frames.induct)
  case (2 i f fs n)
  show ?case
  proof (cases "req_at_or_before (sf_req_id f) i")
    case True
    then have "(\<exists>k. fs' = drop k fs) \<and> n' = length (frame_bytes fs')" using 2 by simp
    moreover have "\<exists>k. drop j fs = drop k (f # fs)" for j by (rule exI [of _ "Suc j"]) simp
    ultimately show ?thesis by auto
  next
    case False
    then show ?thesis using 2 by (auto intro: exI [of _ 0])
  qed
qed auto

lemma forget_drop:
  assumes "buffer_ok c"
  shows "\<exists>k. forget_acked i c = c\<lparr> cl_unacked := drop k (cl_unacked c), cl_unacked_bytes := length (frame_bytes (drop k (cl_unacked c))) \<rparr>"
  using forget_frames_drop [of i "cl_unacked c" "cl_unacked_bytes c"] assms
  by (auto simp: forget_acked_def buffer_ok_def split: prod.split)

lemma frame_bytes_drop: "length (frame_bytes (drop k fs)) \<le> length (frame_bytes fs)"
  by (metis append_take_drop_id frame_bytes_simps(3) le_add2 length_append)

lemma dropped_ok:
  fixes k :: nat
  assumes "numbered a n ps c" and "buffer_ok c"
  defines "c' \<equiv> c\<lparr> cl_unacked := drop k (cl_unacked c), cl_unacked_bytes := length (frame_bytes (drop k (cl_unacked c))) \<rparr>"
  shows "numbered a n (drop k ps) c'" "buffer_ok c'"
proof -
  have "set (drop k ps) \<subseteq> set ps" "set (drop k (cl_unacked c)) \<subseteq> set (cl_unacked c)" by (rule set_drop_subset)+
  then show "numbered a n (drop k ps) c'" "buffer_ok c'"
    using assms frame_bytes_drop [of k "cl_unacked c"]
    by (auto simp: numbered_def buffer_ok_def list_all_iff drop_map [symmetric] sorted_wrt_drop)
qed

lemma forget_ok:
  assumes "numbered a n ps c" and "buffer_ok c"
  shows "\<exists>ps'. numbered a n ps' (forget_acked i c)" "buffer_ok (forget_acked i c)"
    "cl_queued (forget_acked i c) = cl_queued c" "cl_connected (forget_acked i c) = cl_connected c"
proof -
  obtain k where k: "forget_acked i c = c\<lparr> cl_unacked := drop k (cl_unacked c),
      cl_unacked_bytes := length (frame_bytes (drop k (cl_unacked c))) \<rparr>" using forget_drop [OF assms(2)] ..
  show "\<exists>ps'. numbered a n ps' (forget_acked i c)" unfolding k by (rule exI, rule dropped_ok(1) [OF assms])
  show "buffer_ok (forget_acked i c)" unfolding k by (rule dropped_ok(2) [OF assms])
qed (simp_all add: forget_acked_def split: prod.split)

lemma abandon_ok:
  assumes "numbered a n ps c" and "buffer_ok c"
  shows "\<exists>ps'. numbered a n ps' (abandon_call rid c)" "buffer_ok (abandon_call rid c)"
    "cl_queued (abandon_call rid c) = cl_queued c" "\<not> cl_connected (abandon_call rid c)"
proof -
  let ?b = "c\<lparr> cl_unacked_bytes := cl_unacked_bytes c - length (sf_bytes (last (cl_unacked c))), cl_unacked := butlast (cl_unacked c) \<rparr>"
  have "length (cl_unacked c) = length ps" using assms(1) map_eq_imp_length_eq unfolding numbered_def by blast
  then have "numbered a n (butlast ps) ?b"
    using assms(1) by (auto simp: numbered_def butlast_conv_take sorted_wrt_take take_map [symmetric] dest: in_set_takeD)
  moreover have "buffer_ok ?b" if "cl_unacked c \<noteq> []"
  proof -
    have "length (frame_bytes (cl_unacked c)) = length (frame_bytes (butlast (cl_unacked c))) + length (sf_bytes (last (cl_unacked c)))"
      using append_butlast_last_id [OF that] by (metis append_Nil2 frame_bytes_simps length_append)
    then show ?thesis using assms(2) by (auto simp: buffer_ok_def list_all_iff dest: in_set_butlastD)
  qed
  moreover have "numbered a n p (d\<lparr> cl_last_reply := r, cl_connected := e \<rparr>) = numbered a n p d"
    "buffer_ok (d\<lparr> cl_last_reply := r, cl_connected := e \<rparr>) = buffer_ok d" for p d r e
    by (simp_all add: numbered_def buffer_ok_def)
  ultimately show "\<exists>ps'. numbered a n ps' (abandon_call rid c)" "buffer_ok (abandon_call rid c)"
    using assms by (auto simp: abandon_call_def Let_def)
qed (simp_all add: abandon_call_def Let_def)

section \<open>Connecting\<close>

lemma take_answer_ok:
  assumes "numbered a n ps c" and "buffer_ok c" and "queue_ok c" and "take_answer reply c = (ok, c')" and "\<not> cl_connected c"
    and "cl_queued c = []"
  shows "(\<exists>ps'. numbered a n ps' c') \<and> buffer_ok c' \<and> cl_queued c' = [] \<and> (cl_connected c' \<longleftrightarrow> ok)"
proof -
  let ?c1 = "c\<lparr> cl_connected := True, cl_had_session := True \<rparr>"
  have n1: "numbered a n ps ?c1" "buffer_ok ?c1" using assms(1,2) by (simp_all add: numbered_def buffer_ok_def)
  define c2 where "c2 = (forget_acked (hr_last_req_id reply) ?c1)\<lparr> cl_queued := [] \<rparr>"
  note f = forget_ok [OF n1, of "hr_last_req_id reply"]
  have c2: "\<exists>ps'. numbered a n ps' c2" "buffer_ok c2" "cl_connected c2" "cl_queued c2 = []"
    using f by (simp_all add: c2_def numbered_def buffer_ok_def)
  obtain ok3 c3 where r: "replay (cl_unacked c2) c2 = (ok3, c3)" by fastforce
  note r3 = replay_same [OF r c2(3)]
  have "(\<exists>ps'. numbered a n ps' c3) \<and> buffer_ok c3 \<and> cl_queued c3 = [] \<and> (cl_connected c3 \<longleftrightarrow> ok3)"
    using r3 c2 same_buffer_ok by metis
  moreover have "numbered a n [] (c\<lparr> cl_session_gone := True, cl_connect_failed := True, cl_queued := [], cl_unacked := [], cl_unacked_bytes := 0 \<rparr>)"
    "buffer_ok (c\<lparr> cl_session_gone := True, cl_connect_failed := True, cl_queued := [], cl_unacked := [], cl_unacked_bytes := 0 \<rparr>)"
    "numbered a n ps (c\<lparr> cl_connect_failed := True \<rparr>)" "buffer_ok (c\<lparr> cl_connect_failed := True \<rparr>)"
    using assms(1,2) by (auto simp: numbered_def buffer_ok_def)
  ultimately show ?thesis
    using assms(4-) n1 r by (auto simp: take_answer_def Let_def c2_def split: if_splits)
qed

definition at_rest :: "u32 \<Rightarrow> nat \<Rightarrow> client \<Rightarrow> bool" where
  "at_rest a n c \<longleftrightarrow> (\<exists>ps. numbered a n ps c) \<and> buffer_ok c \<and> (\<not> cl_connected c \<longrightarrow> cl_queued c = []) \<and> queue_ok c"

lemma at_restI:
  "numbered a n ps c \<Longrightarrow> buffer_ok c \<Longrightarrow> cl_queued c = [] \<Longrightarrow> at_rest a n c"
  by (auto simp: at_rest_def queue_ok_def intro!: exI [of _ "length (cl_unacked c)"])

lemma ensure_connected_ok:
  assumes "at_rest a n c" and "ensure_connected c = (ok, c')"
  shows "at_rest a n c' \<and> (cl_connected c' \<longleftrightarrow> ok)"
proof (cases "cl_connected c")
  case True
  then show ?thesis using assms by (auto simp: ensure_connected_def)
next
  case False
  obtain ps where c: "numbered a n ps c" "buffer_ok c" "queue_ok c" "cl_queued c = []" using assms(1) False by (auto simp: at_rest_def)
  have frame: "numbered a n ps (c\<lparr> cl_connect_failed := b, cl_link := lk \<rparr>)" "buffer_ok (c\<lparr> cl_connect_failed := b, cl_link := lk \<rparr>)"
    "numbered a n ps (c\<lparr> cl_link := lk \<rparr>)" "buffer_ok (c\<lparr> cl_link := lk \<rparr>)" "queue_ok (c\<lparr> cl_link := lk \<rparr>)" for b lk
    using c by (simp_all add: numbered_def buffer_ok_def queue_ok_def)
  have ans: "at_rest a n d \<and> (cl_connected d \<longleftrightarrow> k)" if "take_answer reply (c\<lparr> cl_link := lk \<rparr>) = (k, d)" for reply lk k d
    using take_answer_ok [OF frame(3-5) that] False c(4) by (auto intro: at_restI)
  have rest: "at_rest a n (c\<lparr> cl_connect_failed := True, cl_link := lk \<rparr>)" for lk
    by (rule at_restI [OF frame(1,2)]) (use c(4) in simp)
  show ?thesis
  proof (cases "cl_session_gone c \<or> cl_connect_failed c")
    case True
    then show ?thesis using assms False by (auto simp: ensure_connected_def)
  next
    case quiet: False
    let ?a = "if lk_connects (cl_link c) = [] then Unreachable else hd (lk_connects (cl_link c))"
    show ?thesis
    proof (cases ?a)
      case (Answer reply)
      then show ?thesis using assms(2) False quiet ans by (simp add: ensure_connected_def Let_def)
    qed (use assms(2) False quiet rest in \<open>auto simp: ensure_connected_def Let_def\<close>)
  qed
qed

lemma reconnect_ok:
  assumes "at_rest a n c" and "reconnect tries c = (ok, c')" and "\<not> cl_connected c"
  shows "at_rest a n c' \<and> (cl_connected c' \<longleftrightarrow> ok)"
proof -
  have failed: "at_rest a n (d\<lparr> cl_connect_failed := b \<rparr>) = at_rest a n d" for b d
    by (simp add: at_rest_def numbered_def buffer_ok_def queue_ok_def)
  have "reconnect_tries tries c = (ok, c') \<Longrightarrow> at_rest a n c' \<and> (cl_connected c' \<longleftrightarrow> ok)"
    if "at_rest a n c" "\<not> cl_connected c" for c
    using that
  proof (induction tries arbitrary: c)
    case 0
    then show ?case by (auto simp: failed)
  next
    case (Suc t)
    obtain k d where e: "ensure_connected (c\<lparr> cl_connect_failed := False \<rparr>) = (k, d)" by fastforce
    have "at_rest a n (c\<lparr> cl_connect_failed := False \<rparr>)" using Suc.prems by (simp add: failed)
    note ensure_connected_ok [OF this e]
    then show ?case using Suc e by (auto split: if_splits)
  qed
  then show ?thesis using assms by (auto simp: reconnect_def split: if_splits)
qed

section \<open>Calls\<close>

lemma queue_frame_rest:
  assumes "at_rest a n c" and "cl_connected c" and "queue_frame api payload flags tid c = (rid, c')"
  shows "\<exists>m > n. rid = nth_id a m \<and> at_rest a m c'" "cl_connected c'"
  using queue_frame_ok [OF _ _ _ assms(3)] assms(1,2) unfolding at_rest_def by metis+

lemma flush_rest:
  assumes "at_rest a n c" and "flush c = (ok, c')"
  shows "at_rest a n c' \<and> (cl_connected c' \<longleftrightarrow> ok) \<and> cl_queued c' = []"
proof -
  note f = flush_same [OF assms(2)]
  have q: "cl_queued c' = []" using f assms(1) by (auto simp: at_rest_def)
  obtain ps where "numbered a n ps c'" "buffer_ok c'" using assms(1) f same_buffer_ok by (metis at_rest_def)
  then show ?thesis using at_restI q f by blast
qed

lemma attempt_ok:
  assumes "at_rest a n c" and "attempt rid c = (r, c')"
  shows "at_rest a n c' \<and> cl_queued c' = [] \<and> (case r of Inl _ \<Rightarrow> cl_connected c' | Inr _ \<Rightarrow> \<not> cl_connected c')"
proof -
  obtain sent c1 where fl: "flush c = (sent, c1)" by fastforce
  note f = flush_rest [OF assms(1) fl]
  obtain ps where c1: "numbered a n ps c1" "buffer_ok c1" "cl_queued c1 = []" using f by (auto simp: at_rest_def)
  have frame: "numbered a n ps (c1\<lparr> cl_link := lk, cl_connected := b \<rparr>)" "buffer_ok (c1\<lparr> cl_link := lk, cl_connected := b \<rparr>)"
    "numbered a n ps (c1\<lparr> cl_link := lk, cl_last_reply := i \<rparr>)" "buffer_ok (c1\<lparr> cl_link := lk, cl_last_reply := i \<rparr>)" for b lk i
    using c1 by (simp_all add: numbered_def buffer_ok_def)
  have lost: "at_rest a n (drop_connection (c1\<lparr> cl_link := lk \<rparr>))" "cl_queued (drop_connection (c1\<lparr> cl_link := lk \<rparr>)) = []" for lk
    using at_restI [OF frame(1,2)] c1(3) by (simp_all add: drop_connection_def)
  have lost1: "at_rest a n (drop_connection c1)" using at_restI [of a n ps "drop_connection c1"] c1
    by (simp add: drop_connection_def numbered_def buffer_ok_def)
  have got: "at_rest a n (forget_acked j (c1\<lparr> cl_link := lk, cl_last_reply := i \<rparr>))" for j lk i
  proof -
    note g = forget_ok [OF frame(3,4) [where lk = lk and i = i], of j]
    from g(1) obtain qs where "numbered a n qs (forget_acked j (c1\<lparr> cl_link := lk, cl_last_reply := i \<rparr>))" ..
    from at_restI [OF this g(2)] show ?thesis using g(3) c1(3) by simp
  qed
  have "forget_acked j (c1\<lparr> cl_link := lk, cl_last_reply := i \<rparr>) = d \<Longrightarrow> cl_connected d = cl_connected c1 \<and> cl_queued d = []" for j lk i d
    using forget_ok(3,4) [OF frame(3,4) [where lk = lk and i = i], of j] c1(3) by auto
  then show ?thesis
    using assms(2) fl f lost lost1 got c1(3) by (auto simp: attempt_def wait_reply_def Let_def drop_connection_def split: if_splits list.splits option.splits)
qed

lemma give_up_ok:
  assumes "at_rest a n c" and "cl_queued c = []"
  shows "at_rest a n (snd (give_up_call rid c))"
proof -
  obtain ps where "numbered a n ps c" "buffer_ok c" using assms(1) by (auto simp: at_rest_def)
  note g = abandon_ok [OF this, of rid]
  from g(1) obtain qs where "numbered a n qs (abandon_call rid c)" ..
  from at_restI [OF this g(2)] show ?thesis using g(3) assms(2) by (simp add: give_up_call_def)
qed

lemma rest_unconnected: "at_rest a n c \<Longrightarrow> \<not> cl_connected c \<Longrightarrow> cl_queued c = []"
  by (simp add: at_rest_def)

lemma call_ok:
  assumes "at_rest a n c" and "call tries tid api payload c = (r, c')"
  shows "\<exists>m \<ge> n. at_rest a m c'"
proof -
  obtain ok c0 where e: "ensure_connected c = (ok, c0)" by fastforce
  note c0 = ensure_connected_ok [OF assms(1) e]
  obtain rid c1 where q: "queue_frame api payload 0 tid c0 = (rid, c1)" by fastforce
  obtain x c2 where a1: "attempt rid c1 = (x, c2)" by fastforce
  obtain again c3 where rc: "reconnect tries c2 = (again, c3)" by fastforce
  obtain y c4 where a2: "attempt rid c3 = (y, c4)" by fastforce
  show ?thesis
  proof (cases ok)
    case False
    then show ?thesis using assms(2) e c0 by (auto simp: call_def)
  next
    case True
    obtain m where m: "m > n" "at_rest a m c1" using queue_frame_rest(1) [OF _ _ q] c0 True by blast
    note c2 = attempt_ok [OF m(2) a1]
    have c3: "at_rest a m c3" "again \<longleftrightarrow> cl_connected c3" if "x = Inr z" for z
      using reconnect_ok [OF _ rc] c2 that by auto
    have c4: "at_rest a m c4" "\<not> cl_connected c4 \<Longrightarrow> cl_queued c4 = []" if "x = Inr z" for z
      using attempt_ok [OF c3(1) [OF that] a2] by auto
    have up: "at_rest a m (snd (give_up_call rid d))" if "at_rest a m d" "\<not> cl_connected d" for d
      using give_up_ok [OF that(1) rest_unconnected [OF that]] .
    have "at_rest a m c'"
      using assms(2) e q a1 True c2 c3 c4 rc a2 up attempt_ok [OF _ a2] reconnect_ok [OF _ rc]
      by (auto simp: call_def split: sum.splits if_splits) (metis snd_conv)+
    then show ?thesis using m(1) by (intro exI [of _ m]) simp
  qed
qed

lemma call_async_ok:
  assumes "at_rest a n c" and "call_async batching limit tries tid api payload c = (r, c')"
  shows "\<exists>m \<ge> n. at_rest a m c'"
proof (cases batching)
  case False
  then show ?thesis using call_ok [OF assms(1)] assms(2) by (auto simp: call_async_def split: prod.splits)
next
  case True
  obtain ok c0 where e: "ensure_connected c = (ok, c0)" by fastforce
  note c0 = ensure_connected_ok [OF assms(1) e]
  obtain rid c1 where q: "queue_frame api payload kFlagNoReply tid c0 = (rid, c1)" by fastforce
  obtain sent c2 where fl: "flush c1 = (sent, c2)" by fastforce
  show ?thesis
  proof (cases ok)
    case False
    then show ?thesis using assms(2) e c0 True by (auto simp: call_async_def)
  next
    case ok: True
    obtain m where m: "m > n" "at_rest a m c1" using queue_frame_rest(1) [OF _ _ q] c0 ok by blast
    then have "at_rest a m c'" using flush_rest [OF m(2) fl] assms(2) e q fl True ok by (auto simp: call_async_def split: if_splits)
    then show ?thesis using m(1) by (intro exI [of _ m]) simp
  qed
qed

section \<open>Runs\<close>

datatype client_act =
    Calls u32 u32 "byte list"
  | Calls_async u32 u32 "byte list"
  | Thread_exits u32

fun client_step :: "nat \<Rightarrow> client_act \<Rightarrow> client \<Rightarrow> client" where
  "client_step tries (Calls tid api payload) c = snd (call tries tid api payload c)"
| "client_step tries (Calls_async tid api payload) c = snd (call_async True kQueueFlushBytes tries tid api payload c)"
| "client_step tries (Thread_exits tid) c = retire_client_thread tid c"

definition run_client :: "nat \<Rightarrow> client_act list \<Rightarrow> client \<Rightarrow> client" where
  "run_client tries acts c = fold (client_step tries) acts c"

lemma client_act_ok: "at_rest a n c \<Longrightarrow> \<exists>m \<ge> n. at_rest a m (client_step tries act c)"
proof (cases act)
  case (Thread_exits tid)
  assume "at_rest a n c"
  then have "at_rest a n (retire_client_thread tid c)"
    by (auto simp: at_rest_def retire_client_thread_def numbered_def buffer_ok_def queue_ok_def)
  then show ?thesis using Thread_exits by auto
qed (use call_ok call_async_ok in \<open>(simp, metis surj_pair snd_conv)+\<close>)

lemma run_client_ok: "at_rest a n c \<Longrightarrow> \<exists>m \<ge> n. at_rest a m (run_client tries acts c)"
proof (induction acts arbitrary: c n)
  case (Cons act acts)
  then show ?case using client_act_ok [OF Cons.prems, of tries act] unfolding run_client_def by (metis fold_simps(2) order_trans)
qed (auto simp: run_client_def)

lemma new_client_rest: "a \<noteq> 0 \<Longrightarrow> upcoming first = next_id a \<Longrightarrow> at_rest a 0 (new_client session first lk)"
  by (rule at_restI [of _ _ "[]"]) (simp_all add: numbered_def buffer_ok_def new_client_def nth_id_Suc)

end
