(* ===== verification/Replay.thy ===== *)
theory Replay
  imports RpcInv Sessions
begin

text \<open>
  What a broken connection comes to: which calls the client sends again, what the server runs of them,
  what the application is told, and how client and server agree on the threads that are gone.
\<close>

section \<open>What the server reads of a replay\<close>

declare frames_of.simps [simp del]

lemma parse_whole:
  assumes "whole_frame f"
  shows "\<exists>h payload. sf_bytes f = enc_req_header h @ payload \<and> rq_req_id h = sf_req_id f
    \<and> (\<forall>rest. parse_frame 24 dec_req_header rq_magic rq_payload_len kMagicReq default_max_payload (sf_bytes f @ rest)
        = Some (h, payload, rest))"
proof -
  obtain api flags tid payload where f: "length payload < 2 ^ 32"
    "sf_bytes f = enc_req_header (request_header api (sf_req_id f) flags tid payload) @ payload"
    using assms unfolding whole_frame_def by blast
  let ?h = "request_header api (sf_req_id f) flags tid payload"
  have h: "rq_magic ?h = kMagicReq" "unat (rq_payload_len ?h) = length payload" "rq_req_id ?h = sf_req_id f"
    using f(1) by (simp_all add: request_header_def unat_of_nat)
  have "length payload \<le> default_max_payload" using f(1) by (simp add: default_max_payload_def)
  then have "parse_frame 24 dec_req_header rq_magic rq_payload_len kMagicReq default_max_payload
      ((enc_req_header ?h @ payload) @ rest) = Some (?h, payload, rest)" for rest
    using parse_frame_sent [of enc_req_header ?h 24 dec_req_header rq_magic kMagicReq rq_payload_len payload default_max_payload rest]
      h by simp
  then show ?thesis using f(2) h(3) by (intro exI [of _ ?h] exI [of _ payload]) simp
qed

lemma frames_of_whole:
  assumes "list_all whole_frame fs" and "reader_stream s = frame_bytes fs"
  shows "map (\<lambda>f. enc_req_header (fst f) @ snd f) (frames_of s) = map sf_bytes fs
    \<and> map (\<lambda>f. rq_req_id (fst f)) (frames_of s) = map sf_req_id fs"
  using assms
proof (induction fs arbitrary: s)
  case Nil
  then have "parse_frame 24 dec_req_header rq_magic rq_payload_len kMagicReq default_max_payload (reader_stream s) = None"
    by (simp add: parse_frame_def)
  from reader.frame_none [OF this] have "frames_of s = []"
    by (subst frames_of.simps) (auto simp: recv_request_def split: prod.split)
  then show ?case by simp
next
  case (Cons f fs)
  from Cons.prems(1) have "whole_frame f" by simp
  from parse_whole [OF this] obtain h payload where f: "sf_bytes f = enc_req_header h @ payload" "rq_req_id h = sf_req_id f"
    "parse_frame 24 dec_req_header rq_magic rq_payload_len kMagicReq default_max_payload (sf_bytes f @ frame_bytes fs)
      = Some (h, payload, frame_bytes fs)" by blast
  then have "parse_frame 24 dec_req_header rq_magic rq_payload_len kMagicReq default_max_payload (reader_stream s)
      = Some (h, payload, frame_bytes fs)" using Cons.prems(2) by simp
  from reader.frame_some [OF this] obtain s'
    where s': "recv_request s = (Some (h, payload), s')" "reader_stream s' = frame_bytes fs"
    unfolding recv_request_def by blast
  have "frames_of s = (h, payload) # frames_of s'" by (subst frames_of.simps) (simp add: s'(1))
  then show ?case using Cons.IH [OF _ s'(2)] Cons.prems(1) f(1,2) by simp
qed

section \<open>A connection that resumes the session\<close>

definition resuming :: "nat \<Rightarrow> u32 \<Rightarrow> handshake_reply \<Rightarrow> bool" where
  "resuming q a reply \<longleftrightarrow> hr_magic reply = kMagicHello \<and> hr_version reply = kProtocolVersion \<and> hr_resumed reply \<noteq> 0
     \<and> hr_last_req_id reply = done_id a q"

lemma magics: "kMagicHello \<noteq> kMagicBusy"
  by (simp add: kMagicHello_def kMagicBusy_def)

lemma window_each:
  assumes "numbered a n ps c" and "window_ok q n ps"
  shows "\<forall>p \<in> set ps. 0 < p \<and> p < q + id_window \<and> q < p + id_window"
  using assms by (auto simp: numbered_def window_ok_def)

lemma take_resuming:
  assumes "a \<noteq> 0" and num: "numbered a n ps c" and b: "buffer_ok c" and w: "window_ok q n ps" and r: "resuming q a reply"
  shows "\<exists>k. cl_unacked (snd (take_answer reply c)) = drop k (cl_unacked c)"
    and "numbered a n (filter (\<lambda>p. q < p) ps) (snd (take_answer reply c))" and "buffer_ok (snd (take_answer reply c))"
    and "cl_queued (snd (take_answer reply c)) = []"
proof -
  let ?c1 = "c\<lparr> cl_connected := True, cl_had_session := True \<rparr>"
  have num1: "numbered a n ps ?c1" and b1: "buffer_ok ?c1" using num b by (simp_all add: numbered_def buffer_ok_def)
  obtain k where k: "forget_acked (done_id a q) ?c1 = ?c1\<lparr> cl_unacked := drop k (cl_unacked c),
      cl_unacked_bytes := length (frame_bytes (drop k (cl_unacked c))) \<rparr>" using forget_drop [OF b1, of "done_id a q"] by auto
  obtain fs m where fm: "forget_acked_frames (done_id a q) (cl_unacked c) (cl_unacked_bytes c) = (fs, m)" by fastforce
  have fs: "map sf_req_id fs = map (nth_id a) (filter (\<lambda>p. q < p) ps)" "fs = drop k (cl_unacked c)"
  proof -
    show "map sf_req_id fs = map (nth_id a) (filter (\<lambda>p. q < p) ps)"
      using forget_frames [OF assms(1) _ window_each [OF num w] _ _ fm] num b by (auto simp: numbered_def buffer_ok_def)
    have "cl_unacked (forget_acked (done_id a q) ?c1) = fs" using fm by (simp add: forget_acked_def)
    then show "fs = drop k (cl_unacked c)" using k by simp
  qed
  define c2 where "c2 = (forget_acked (done_id a q) ?c1)\<lparr> cl_queued := [] \<rparr>"
  have c2: "cl_connected c2" "cl_unacked c2 = drop k (cl_unacked c)" "cl_queued c2 = []" by (simp_all add: c2_def k)
  have ans: "take_answer reply c = replay (cl_unacked c2) c2"
    using r magics by (simp add: take_answer_def resuming_def c2_def Let_def)
  obtain ok c3 where r3: "replay (cl_unacked c2) c2 = (ok, c3)" by fastforce
  note s3 = replay_same [OF r3 c2(1)]
  have u3: "cl_unacked c3 = drop k (cl_unacked c)" using s3 c2 by (simp add: same_buffer_def)
  show "\<exists>k. cl_unacked (snd (take_answer reply c)) = drop k (cl_unacked c)"
    using u3 by (auto simp: ans r3)
  have "numbered a n (filter (\<lambda>p. q < p) ps) c2"
    using num fs by (simp add: numbered_def c2_def k sorted_wrt_filter)
  then show "numbered a n (filter (\<lambda>p. q < p) ps) (snd (take_answer reply c))"
    using same_buffer_ok(1) [of c2 c3] s3 by (simp add: ans r3)
  have "buffer_ok c2" using dropped_ok(2) [OF num1 b1, of k] by (simp add: c2_def k buffer_ok_def)
  then show "buffer_ok (snd (take_answer reply c))" using same_buffer_ok(2) [of c2 c3] s3 by (simp add: ans r3)
  show "cl_queued (snd (take_answer reply c)) = []" unfolding ans r3 snd_conv using s3 c2(3) by simp
qed

lemma write_sent:
  assumes "write_bytes bs c = (ok, c')" and "lk_sent (cl_link c) \<noteq> []"
  shows "butlast (lk_sent (cl_link c')) = butlast (lk_sent (cl_link c))
    \<and> (\<exists>m. last (lk_sent (cl_link c')) = last (lk_sent (cl_link c)) @ take m bs)
    \<and> (ok \<longrightarrow> last (lk_sent (cl_link c')) = last (lk_sent (cl_link c)) @ bs) \<and> lk_sent (cl_link c') \<noteq> []"
  using assms by (auto simp: write_bytes_def onto_last_def Let_def split: list.splits option.splits intro: exI [of _ "length bs"])

lemma replay_sent:
  assumes "replay fs c = (ok, c')" and "lk_sent (cl_link c) \<noteq> []"
  shows "(\<exists>m. last (lk_sent (cl_link c')) = last (lk_sent (cl_link c)) @ take m (frame_bytes fs))
    \<and> (ok \<longrightarrow> last (lk_sent (cl_link c')) = last (lk_sent (cl_link c)) @ frame_bytes fs)"
  using assms
proof (induction fs arbitrary: c)
  case (Cons f fs)
  obtain sent c1 where w: "write_bytes (sf_bytes f) c = (sent, c1)" by fastforce
  note s = write_sent [OF w Cons.prems(2)]
  show ?case
  proof (cases sent)
    case True
    then have "replay fs c1 = (ok, c')" using Cons.prems(1) w by simp
    note IH = Cons.IH [OF this]
    then obtain m where "last (lk_sent (cl_link c')) = last (lk_sent (cl_link c1)) @ take m (frame_bytes fs)" using s by blast
    then have "last (lk_sent (cl_link c')) = last (lk_sent (cl_link c)) @ take (length (sf_bytes f) + m) (frame_bytes (f # fs))"
      using s True by simp
    moreover have "ok \<longrightarrow> last (lk_sent (cl_link c')) = last (lk_sent (cl_link c)) @ frame_bytes (f # fs)"
      using IH s True by simp
    ultimately show ?thesis by blast
  next
    case False
    then have c': "\<not> ok" "lk_sent (cl_link c') = lk_sent (cl_link c1)" using Cons.prems(1) w by auto
    obtain m where "last (lk_sent (cl_link c1)) = last (lk_sent (cl_link c)) @ take m (sf_bytes f)" using s by blast
    moreover have "take m (sf_bytes f) = take (min m (length (sf_bytes f))) (frame_bytes (f # fs))"
      by (cases "m \<le> length (sf_bytes f)") auto
    ultimately show ?thesis using c' by metis
  qed
qed (auto intro: exI [of _ 0])

text \<open>A connection that resumes the session carries, right after the handshake, exactly the
  frames behind the last request the server says it completed, whole, in the order they were queued and
  under the ids they had: none the server is done with and none left out. Nothing stays queued to be
  written a second time. A write that fails has sent the front of them.\<close>

theorem resumed_connection_carries_what_is_unacknowledged:
  assumes "a \<noteq> 0" and "numbered a n ps c" and "buffer_ok c" and "window_ok q n ps" and "resuming q a reply"
    and "lk_sent (cl_link c) \<noteq> []" and "take_answer reply c = (ok, c')"
  shows "map sf_req_id (cl_unacked c') = map (nth_id a) (filter (\<lambda>p. q < p) ps)
    \<and> (\<exists>k. cl_unacked c' = drop k (cl_unacked c)) \<and> cl_queued c' = []
    \<and> (\<exists>m. last (lk_sent (cl_link c')) = last (lk_sent (cl_link c)) @ take m (frame_bytes (cl_unacked c'))
          \<and> (ok \<longrightarrow> take m (frame_bytes (cl_unacked c')) = frame_bytes (cl_unacked c')))"
proof -
  note t = take_resuming [OF assms(1-5)]
  let ?c2 = "(forget_acked (done_id a q) (c\<lparr> cl_connected := True, cl_had_session := True \<rparr>))\<lparr> cl_queued := [] \<rparr>"
  have rep: "replay (cl_unacked ?c2) ?c2 = (ok, c')"
    using assms(5,7) magics by (simp add: take_answer_def resuming_def Let_def)
  have l: "cl_link ?c2 = cl_link c" "cl_connected ?c2" by (simp_all add: forget_acked_def split: prod.split)
  have u: "cl_unacked c' = cl_unacked ?c2" using replay_same [OF rep l(2)] by (simp add: same_buffer_def)
  have "lk_sent (cl_link ?c2) \<noteq> []" using assms(6) l(1) by (simp only: not_False_eq_True)
  note s = replay_sent [OF rep this, unfolded l(1) u [symmetric]]
  then obtain m where m: "last (lk_sent (cl_link c')) = last (lk_sent (cl_link c)) @ take m (frame_bytes (cl_unacked c'))"
    "ok \<Longrightarrow> last (lk_sent (cl_link c')) = last (lk_sent (cl_link c)) @ frame_bytes (cl_unacked c')" by blast
  have "ok \<Longrightarrow> take m (frame_bytes (cl_unacked c')) = frame_bytes (cl_unacked c')" using m by simp
  then show ?thesis using t assms(7) m(1) by (auto simp: numbered_def)
qed

text \<open>A client that queued three one-way calls; the server completed the first.\<close>

definition demo_link :: link where
  "demo_link = \<lparr> lk_connects = [Answer \<lparr> hr_magic = kMagicHello, hr_version = kProtocolVersion, hr_resumed = 0, hr_last_req_id = 0 \<rparr>],
     lk_writes = [], lk_replies = [], lk_sent = [] \<rparr>"

definition demo_client :: client where
  "demo_client = drop_connection (run_client 0 [Calls_async 7 20 [1], Calls_async 7 23 [2], Calls_async 7 20 [3]]
     (new_client (7, 9) 1 demo_link))"

lemma first_ids: "nth_id 0xFFFFFFFF 1 = 1" "nth_id 0xFFFFFFFF 2 = 2" "nth_id 0xFFFFFFFF 3 = 3" "nth_id 0xFFFFFFFF 4 = 4"
proof -
  have "next_id 0xFFFFFFFF = 1" "next_id 1 = 2" "next_id 2 = 3" "next_id 3 = 4" by (simp_all add: next_id_def)
  then show "nth_id 0xFFFFFFFF 1 = 1" "nth_id 0xFFFFFFFF 2 = 2" "nth_id 0xFFFFFFFF 3 = 3" "nth_id 0xFFFFFFFF 4 = 4"
    by (simp_all add: nth_id_def numeral_eq_Suc)
qed

lemma demo_client_fields:
  "cl_next_req demo_client = 4" "map sf_req_id (cl_unacked demo_client) = [1, 2, 3]"
  "cl_connected demo_client = False" "lk_sent (cl_link demo_client) \<noteq> []"
  by (simp_all add: demo_client_def demo_link_def run_client_def call_async_def ensure_connected_def take_answer_def
      queue_frame_def queue_notice_def queue_one_def mint_req_id_def keep_unacked_def kMaxUnackedBytes_def list_again_def
      kQueueFlushBytes_def new_client_def drop_connection_def magics Let_def)

lemma demo_client_rest: "\<exists>n. at_rest 0xFFFFFFFF n (run_client 0 acts (new_client (7, 9) 1 lk))"
proof -
  have "at_rest 0xFFFFFFFF 0 (new_client (7, 9) 1 lk)"
    by (rule new_client_rest) (simp_all add: upcoming_def next_id_def)
  from run_client_ok [OF this] show ?thesis by blast
qed

lemma demo_client_ok: "numbered 0xFFFFFFFF 3 [1, 2, 3] demo_client" "buffer_ok demo_client" "window_ok 1 3 [1, 2, 3]"
proof -
  show "numbered 0xFFFFFFFF 3 [1, 2, 3] demo_client"
    using demo_client_fields first_ids by (simp add: numbered_def upcoming_def)
  show "buffer_ok demo_client" using demo_client_rest [of "[Calls_async 7 20 [1], Calls_async 7 23 [2], Calls_async 7 20 [3]]" demo_link]
    by (auto simp: demo_client_def drop_connection_def at_rest_def buffer_ok_def)
  show "window_ok 1 3 [1, 2, 3]" by (simp add: window_ok_def id_window_def)
qed

definition demo_reply :: handshake_reply where
  "demo_reply = \<lparr> hr_magic = kMagicHello, hr_version = kProtocolVersion, hr_resumed = 1, hr_last_req_id = 1 \<rparr>"

lemma demo_resuming: "resuming 1 0xFFFFFFFF demo_reply"
  using first_ids by (simp add: resuming_def demo_reply_def done_id_def)

lemma resumed_connection_carries_what_is_unacknowledged_witness:
  "map sf_req_id (cl_unacked (snd (take_answer demo_reply demo_client))) = [2, 3]"
proof -
  obtain ok c' where t: "take_answer demo_reply demo_client = (ok, c')" by fastforce
  from resumed_connection_carries_what_is_unacknowledged [OF _ demo_client_ok demo_resuming demo_client_fields(4) t] t first_ids
  show ?thesis by simp
qed

section \<open>Any number of broken connections\<close>

text \<open>The connections of a client that only waits for what it sent: each resumes the session, carries
  what is not acknowledged, and breaks after the server has taken up so many of its frames. What the
  server ran of them, and how both ends are left.\<close>

fun survive :: "nat \<Rightarrow> 'd driver \<Rightarrow> (u32 \<Rightarrow> buffer \<Rightarrow> 'd sv \<Rightarrow> 'd outcome option) \<Rightarrow> nat list \<Rightarrow> client \<Rightarrow> 'd session
    \<Rightarrow> u32 list \<times> client \<times> 'd session" where
  "survive cap drv disp [] c se = ([], c, se)"
| "survive cap drv disp (k # ks) c se =
     (let c1 = snd (take_answer (fst (handshake_answer (client_hello c) True (completion_of se))) c);
          taken = take k (frames_of ([], [(0, RxData (frame_bytes (cl_unacked c1)))]))
      in case run_frames cap drv disp taken se of (log, se1) \<Rightarrow>
         (case survive cap drv disp ks (drop_connection c1) se1 of (later, c2, se2) \<Rightarrow> (ran_ids log @ later, c2, se2)))"

lemma answer_resuming: "completed a q se \<Longrightarrow> resuming q a (fst (handshake_answer hello True (completion_of se)))"
  by (simp add: resuming_def handshake_answer_def completion_of_def completed_done)

lemma last_take_in: "0 < k \<Longrightarrow> ps \<noteq> [] \<Longrightarrow> last (take k ps) \<in> set ps"
  by (rule in_set_takeD [of _ k], rule last_in_set) simp

lemma filter_above_last:
  assumes "sorted_wrt (<) ps" and "\<forall>p \<in> set ps. (q :: nat) < p"
  shows "filter (\<lambda>p. last (q # take k ps) < p) ps = drop k ps"
  using assms
proof (induction ps arbitrary: k q)
  case (Cons p ps)
  show ?case
  proof (cases k)
    case 0
    then show ?thesis using Cons.prems by (auto intro!: filter_True)
  next
    case (Suc j)
    have "p \<le> last (p # take j ps)" using Cons.prems(1) last_take_in [of j ps] by (auto intro: less_imp_le)
    moreover have "filter (\<lambda>x. last (p # take j ps) < x) ps = drop j ps" using Cons by (intro Cons.IH) auto
    ultimately show ?thesis using Suc by simp
  qed
qed simp

lemma survive_runs:
  assumes "a \<noteq> 0"
  shows "numbered a n ps c \<Longrightarrow> buffer_ok c \<Longrightarrow> completed a q se \<Longrightarrow> q \<le> n \<Longrightarrow> window_ok q n ps \<Longrightarrow>
    fst (survive cap drv disp ks c se) = map (nth_id a) (take (sum_list ks) (filter (\<lambda>p. q < p) ps))"
proof (induction ks arbitrary: ps c q se)
  case (Cons k ks)
  let ?reply = "fst (handshake_answer (client_hello c) True (completion_of se))"
  define c1 where "c1 = snd (take_answer ?reply c)"
  define ps1 where "ps1 = filter (\<lambda>p. q < p) ps"
  define fr where "fr = frames_of ([], [(0, RxData (frame_bytes (cl_unacked c1)))])"
  obtain log se1 where rf: "run_frames cap drv disp (take k fr) se = (log, se1)" by fastforce
  note t = take_resuming [OF assms Cons.prems(1,2,5) answer_resuming [OF Cons.prems(3), of "client_hello c"], folded c1_def ps1_def]
  have ps1: "sorted_wrt (<) ps1" "\<forall>p \<in> set ps1. q < p \<and> p \<le> n" using Cons.prems(1) by (auto simp: numbered_def ps1_def sorted_wrt_filter)
  have "map (\<lambda>f. rq_req_id (fst f)) fr = map (nth_id a) ps1"
    using frames_of_whole [of "cl_unacked c1" "([], [(0, RxData (frame_bytes (cl_unacked c1)))])"] t
    by (simp add: fr_def buffer_ok_def numbered_def reader_stream_def)
  then have ids: "map (\<lambda>f. rq_req_id (fst f)) (take k fr) = map (nth_id a) (take k ps1)" by (simp add: take_map [symmetric])
  have asc: "sorted_wrt (<) (q # take k ps1)" using ps1 by (auto simp: sorted_wrt_take dest: in_set_takeD)
  have win: "\<forall>p \<in> set (take k ps1). p < q + id_window" using ps1(2) Cons.prems(5) by (auto simp: window_ok_def dest!: in_set_takeD)
  define q1 where "q1 = last (q # take k ps1)"
  from run_ascending [OF assms Cons.prems(3) asc win ids, of cap drv disp] rf
  have ran: "ran_ids log = map (nth_id a) (take k ps1)" and c1se: "completed a q1 se1" by (simp_all add: q1_def)
  have q1: "q \<le> q1" "q1 \<le> n" using ps1(2) Cons.prems(4) last_take_in [of k ps1] by (auto simp: q1_def intro: less_imp_le)
  have num1: "numbered a n ps1 (drop_connection c1)" "buffer_ok (drop_connection c1)"
    using t by (simp_all add: drop_connection_def numbered_def buffer_ok_def)
  have "window_ok q1 n ps1" using Cons.prems(5) q1 ps1(2) by (auto simp: window_ok_def)
  from Cons.IH [OF num1 c1se q1(2) this]
  have "fst (survive cap drv disp ks (drop_connection c1) se1) = map (nth_id a) (take (sum_list ks) (drop k ps1))"
    using filter_above_last [OF ps1(1), of q k] ps1(2) by (simp add: q1_def)
  moreover obtain later c2 se2 where "survive cap drv disp ks (drop_connection c1) se1 = (later, c2, se2)"
    by (metis prod_cases3)
  ultimately show ?case using rf ran
    by (simp add: Let_def c1_def [symmetric] fr_def [symmetric] ps1_def [symmetric] take_add)
qed simp

text \<open>However often the connection breaks, and after however many of the frames it carried,
  the calls the client has not had acknowledged run at most once each, in the order they were made, and
  a call that ran is never passed over or repeated: after connections that took up \<open>ks\<close> frames, the
  server has run exactly the first \<open>sum ks\<close> of them, so all of them once enough were taken up.\<close>

theorem calls_survive_broken_connections:
  assumes "a \<noteq> 0" and "numbered a n ps c" and "buffer_ok c" and "completed a q se" and "q \<le> n" and "window_ok q n ps"
  shows "fst (survive cap drv disp ks c se) = map (nth_id a) (take (sum_list ks) (filter (\<lambda>p. q < p) ps))"
  using survive_runs [OF assms] .

lemma calls_survive_broken_connections_witness:
  "fst (survive 4096 fake_driver (dispatch fake_driver 64 nothing_more nothing_more) [1, 0, 5] demo_client
      (demo_session\<lparr> se_last_req := 1 \<rparr>)) = [2, 3]"
proof -
  have fin: "completed 0xFFFFFFFF 1 (demo_session\<lparr> se_last_req := 1 \<rparr>)" using first_ids by (simp add: completed_def)
  have a: "(0xFFFFFFFF :: u32) \<noteq> 0" by simp
  show ?thesis
    using calls_survive_broken_connections [OF a demo_client_ok(1,2) fin _ demo_client_ok(3), of 4096 fake_driver
        "dispatch fake_driver 64 nothing_more nothing_more" "[1, 0, 5]"] first_ids by simp
qed

end
