(* ===== verification/Calls.thy ===== *)
theory Calls
  imports Replay "HOL-Library.Sublist"
begin

text \<open>
  What the application is told of a call, and what becomes of the call afterwards; the notices of
  threads that exited; and a session that is gone.
\<close>

section \<open>What acknowledging leaves\<close>

text \<open>Frames may have been acknowledged, none numbered.\<close>

definition acked :: "client \<Rightarrow> client \<Rightarrow> bool" where
  "acked c c' \<longleftrightarrow> suffix (cl_unacked c') (cl_unacked c) \<and> cl_next_req c' = cl_next_req c"

lemma acked_refl [simp]: "acked c c" by (simp add: acked_def)

lemma acked_trans: "acked c d \<Longrightarrow> acked d e \<Longrightarrow> acked c e"
  unfolding acked_def using suffix_order.trans by auto

lemma acked_fields:
  "cl_unacked d = cl_unacked c \<Longrightarrow> cl_next_req d = cl_next_req c \<Longrightarrow> acked c d"
  by (simp add: acked_def)

lemma same_buffer_acked: "same_buffer c c' \<Longrightarrow> acked c c'"
  by (simp add: same_buffer_def acked_def)

lemma forget_frames_while: "fst (forget_acked_frames i fs n) = dropWhile (\<lambda>f. req_at_or_before (sf_req_id f) i) fs"
  by (induction i fs n rule: forget_acked_frames.induct) auto

lemma forget_acked_acked: "acked c (forget_acked i c)"
  using forget_frames_while [of i "cl_unacked c" "cl_unacked_bytes c"] suffix_dropWhile
  by (auto simp: acked_def forget_acked_def split: prod.split)

lemma take_answer_acked:
  assumes "take_answer reply c = (ok, c')"
  shows "acked c c'"
proof -
  define c2 where "c2 = (forget_acked (hr_last_req_id reply) (c\<lparr> cl_connected := True, cl_had_session := True \<rparr>))\<lparr> cl_queued := [] \<rparr>"
  have conn: "cl_connected c2" by (simp add: c2_def forget_acked_def split: prod.split)
  have c2: "acked c c2"
    using forget_acked_acked [of "c\<lparr> cl_connected := True, cl_had_session := True \<rparr>" "hr_last_req_id reply"]
    by (simp add: acked_def c2_def)
  obtain k d where r: "replay (cl_unacked c2) c2 = (k, d)" by fastforce
  have "acked c d" using acked_trans [OF c2 same_buffer_acked] replay_same [OF r conn] by blast
  then show ?thesis using assms r by (auto simp: take_answer_def Let_def c2_def [symmetric] acked_def split: if_splits)
qed

lemma ensure_acked: "ensure_connected c = (ok, c') \<Longrightarrow> acked c c'"
  using take_answer_acked
  by (auto simp: ensure_connected_def Let_def acked_def split: if_splits connect_answer.splits dest: take_answer_acked)

lemma reconnect_acked: "reconnect tries c = (ok, c') \<Longrightarrow> acked c c'"
proof -
  have "reconnect_tries tries c = (ok, c') \<Longrightarrow> acked c c'" for c
  proof (induction tries arbitrary: c)
    case (Suc t)
    obtain k d where e: "ensure_connected (c\<lparr> cl_connect_failed := False \<rparr>) = (k, d)" by fastforce
    have d: "acked c d" using ensure_acked [OF e] by (simp add: acked_def)
    then show ?case using Suc e acked_trans [OF d] by (auto split: if_splits)
  qed (auto simp: acked_def)
  then show "reconnect tries c = (ok, c') \<Longrightarrow> acked c c'" by (auto simp: reconnect_def split: if_splits)
qed

lemma attempt_acked:
  assumes "attempt rid c = (x, c')"
  shows "acked c c' \<and> (case x of Inl _ \<Rightarrow> \<exists>d. acked c d \<and> c' = forget_acked rid d \<and> cl_last_reply d = rid \<and> cl_connected d
      | Inr _ \<Rightarrow> True)"
proof -
  obtain ok c1 where fl: "flush c = (ok, c1)" by fastforce
  note f = flush_same [OF fl]
  have c1: "acked c c1" using f same_buffer_acked by blast
  have upd: "acked c (drop_connection (c1\<lparr> cl_link := lk \<rparr>))" "acked c (drop_connection c1)"
    "acked c (c1\<lparr> cl_link := lk, cl_last_reply := i \<rparr>)" for lk i
    using c1 by (simp_all add: acked_def drop_connection_def)
  have fg: "acked c (forget_acked rid (c1\<lparr> cl_link := lk, cl_last_reply := i \<rparr>))" for lk i
    using acked_trans [OF upd(3) forget_acked_acked] .
  show ?thesis
  proof (cases "\<exists>rh payload rs. ok \<and> lk_replies (cl_link c1) = Some (rh, payload) # rs \<and> rs_req_id rh = rid")
    case True
    then obtain rh payload rs where r: "ok" "lk_replies (cl_link c1) = Some (rh, payload) # rs" "rs_req_id rh = rid" by blast
    let ?d = "c1\<lparr> cl_link := (cl_link c1)\<lparr> lk_replies := rs \<rparr>, cl_last_reply := rid \<rparr>"
    have "x = Inl (rs_result rh, payload)" "c' = forget_acked rid ?d"
      using assms fl r by (simp_all add: attempt_def wait_reply_def Let_def)
    moreover have "cl_last_reply ?d = rid" "cl_connected ?d" using f r(1) by simp_all
    ultimately show ?thesis using fg upd(3) by (simp, intro exI [of _ ?d]) simp
  next
    case False
    then have "\<exists>z. x = Inr z" "acked c c'"
      using assms fl c1 upd by (auto simp: attempt_def wait_reply_def Let_def split: if_splits list.splits option.splits)
    then show ?thesis by auto
  qed
qed

text \<open>A call that was queued ends in one of two ways.\<close>

lemma call_ends:
  assumes e: "ensure_connected c = (True, c0)" and q: "queue_frame api payload 0 tid c0 = (rid, c1)"
    and call: "call tries tid api payload c = (res, c')"
  shows "(\<exists>d. acked c1 d \<and> c' = forget_acked rid d \<and> cl_last_reply d = rid \<and> cl_connected d)
    \<or> (\<exists>d. acked c1 d \<and> c' = abandon_call rid d \<and> fst res = CUDA_ERROR_UNKNOWN)"
proof -
  obtain x c2 where a1: "attempt rid c1 = (x, c2)" by fastforce
  obtain again c3 where rc: "reconnect tries c2 = (again, c3)" by fastforce
  obtain y c4 where a2: "attempt rid c3 = (y, c4)" by fastforce
  note c2 = attempt_acked [OF a1]
  have c3: "acked c1 c3" using c2 reconnect_acked [OF rc] acked_trans by blast
  have c4: "acked c1 c4" using c3 attempt_acked [OF a2] acked_trans by blast
  have d4: "acked c3 d \<Longrightarrow> acked c1 d" for d using acked_trans [OF c3] .
  show ?thesis
  proof (cases x)
    case (Inl r)
    then show ?thesis using call e q a1 c2 by (auto simp: call_def)
  next
    case (Inr z)
    show ?thesis
    proof (cases "z \<and> again")
      case False
      then have "c' = abandon_call rid (if z then c3 else c2) \<and> fst res = CUDA_ERROR_UNKNOWN"
        using call e q a1 Inr rc by (auto simp: call_def give_up_call_def split: if_splits)
      then show ?thesis using c2 c3 by (cases z) auto
    next
      case True
      then have res: "(case y of Inl r \<Rightarrow> (r, c4) | Inr _ \<Rightarrow> give_up_call rid c4) = (res, c')"
        using call e q a1 Inr rc a2 by (simp add: call_def)
      show ?thesis
      proof (cases y)
        case (Inl r)
        then show ?thesis using res attempt_acked [OF a2] d4 by auto
      next
        case (Inr z)
        then show ?thesis using res c4 by (auto simp: give_up_call_def)
      qed
    qed
  qed
qed

section \<open>Where the call's frame is\<close>

lemma keep_unacked_cases:
  "buffer_ok c \<Longrightarrow> cl_unacked (keep_unacked f c) = cl_unacked c @ [f] \<or> cl_unacked (keep_unacked f c) = []"
  by (auto simp: keep_unacked_def buffer_ok_def Let_def)

lemma queue_one_unacked:
  assumes "buffer_ok c" and "queue_one api payload flags tid c = (rid, c')"
  shows "cl_unacked c' = [] \<or> (\<exists>f. sf_req_id f = rid \<and> cl_unacked c' = cl_unacked c @ [f]
    \<and> sf_bytes f = enc_req_header (request_header api rid flags tid payload) @ payload)"
proof -
  obtain c1 where m: "mint_req_id c = (rid, c1)" using assms(2) by (auto simp: queue_one_def Let_def split: prod.splits)
  obtain i where c1: "c1 = c\<lparr> cl_next_req := i \<rparr>" using mint_rest [OF m] ..
  let ?f = "\<lparr> sf_req_id = rid, sf_bytes = enc_req_header (request_header api rid flags tid payload) @ payload \<rparr>"
  let ?c2 = "c1\<lparr> cl_queued := cl_queued c1 @ sf_bytes ?f \<rparr>"
  have "c' = keep_unacked ?f ?c2" "buffer_ok ?c2" "cl_unacked ?c2 = cl_unacked c"
    using assms m by (simp_all add: queue_one_def Let_def c1 buffer_ok_def)
  then show ?thesis using keep_unacked_cases [of ?c2 ?f] by auto
qed

text \<open>The kept frames' positions, where the last one queued is last.\<close>

lemma numbered_queue:
  assumes "numbered a n ps c" and "buffer_ok c" and "queue_ok c" and "queue_one api payload flags tid c = (rid, c')"
  shows "\<exists>ps'. numbered a (Suc n) ps' c' \<and> set ps' \<subseteq> insert (Suc n) (set ps) \<and> (ps' = [] \<or> last ps' = Suc n)"
proof -
  note q = queue_one_ok [OF assms] and u = queue_one_unacked [OF assms(2,4)]
  obtain qs where qs: "numbered a (Suc n) qs c'" using q by blast
  show ?thesis
  proof (cases "cl_unacked c' = []")
    case True
    then have "numbered a (Suc n) [] c'" using qs by (simp add: numbered_def)
    then show ?thesis by (intro exI [of _ "[]"]) simp
  next
    case False
    then have "map sf_req_id (cl_unacked c') = map (nth_id a) (ps @ [Suc n])"
      using u q assms(1) by (auto simp: numbered_def)
    then have "numbered a (Suc n) (ps @ [Suc n]) c'"
      using assms(1) qs by (auto simp: numbered_def sorted_wrt_append)
    then show ?thesis by (intro exI [of _ "ps @ [Suc n]"]) auto
  qed
qed

lemma numbered_frame:
  assumes "numbered a n ps c" and "buffer_ok c" and "queue_ok c" and "queue_frame api payload flags tid c = (rid, c')"
  shows "\<exists>m ps'. n < m \<and> m \<le> n + 2 \<and> rid = nth_id a m \<and> numbered a m ps' c' \<and> set ps' \<subseteq> {Suc n, n + 2} \<union> set ps
    \<and> (ps' = [] \<or> last ps' = m)"
proof -
  let ?c1 = "queue_notice tid c"
  have again: "numbered a k qs (list_again tid d) = numbered a k qs d" for k qs d
    by (auto simp: list_again_def retired_frame)
  obtain c2 where q: "queue_one api payload flags tid ?c1 = (rid, c2)" "c' = list_again tid c2"
    using assms(4) by (auto simp: queue_frame_def split: prod.splits)
  note qn = queue_notice_ok [OF assms(1-3), of tid]
  have "\<exists>k qs. n \<le> k \<and> k \<le> Suc n \<and> numbered a k qs ?c1 \<and> set qs \<subseteq> insert (Suc n) (set ps)"
  proof -
    define kept where "kept = (if tid \<in> set (cl_retired c) then [tid] else [])"
    define d where "d = c\<lparr> cl_retired := kept, cl_have_retired := (kept \<noteq> []) \<rparr>"
    have d: "numbered a n ps d" "buffer_ok d" "queue_ok d" using assms(1-3) by (simp_all add: d_def retired_frame)
    obtain i d2 where i: "queue_one API_rgpu_thread_gone (bdata (thread_notice (remove1 tid (cl_retired c)))) kFlagNoReply tid d = (i, d2)"
      by fastforce
    have "?c1 = c \<or> ?c1 = d \<or> ?c1 = d2" using i by (auto simp: queue_notice_def Let_def kept_def d_def)
    moreover have "\<exists>qs. numbered a (Suc n) qs d2 \<and> set qs \<subseteq> insert (Suc n) (set ps)"
      using numbered_queue [OF d i] by blast
    ultimately show ?thesis using assms(1) d(1) by (metis le_SucI order_refl subset_insertI)
  qed
  then obtain k qs where k: "n \<le> k" "k \<le> Suc n" "numbered a k qs ?c1" "set qs \<subseteq> insert (Suc n) (set ps)" by blast
  obtain ps' where ps': "numbered a (Suc k) ps' c2" "set ps' \<subseteq> insert (Suc k) (set qs)" "ps' = [] \<or> last ps' = Suc k"
    using numbered_queue [OF k(3) _ _ q(1)] qn by blast
  have "rid = nth_id a (Suc k)" using queue_one_ok [OF k(3) _ _ q(1)] qn by blast
  moreover have "set ps' \<subseteq> {Suc n, n + 2} \<union> set ps" using ps'(2) k by auto
  ultimately show ?thesis using ps' k again q(2) by (intro exI [of _ "Suc k"] exI [of _ ps']) auto
qed

lemma numbered_acked:
  assumes "numbered a n ps c" and "acked c d"
  shows "\<exists>ps'. suffix ps' ps \<and> numbered a n ps' d"
proof -
  obtain us where us: "cl_unacked c = us @ cl_unacked d" using assms(2) by (auto simp: acked_def suffix_def)
  have "map sf_req_id (cl_unacked d) = map (nth_id a) (drop (length us) ps)"
  proof -
    have "map sf_req_id (cl_unacked d) = drop (length us) (map sf_req_id (cl_unacked c))" by (simp add: us)
    then show ?thesis using assms(1) unfolding numbered_def by (metis drop_map)
  qed
  then have "numbered a n (drop (length us) ps) d"
    using assms by (auto simp: numbered_def acked_def sorted_wrt_drop dest: in_set_dropD)
  then show ?thesis using suffix_drop by blast
qed

lemma nth_id_differs:
  assumes "a \<noteq> 0" and "0 < p" and "p < m" and "m < p + id_window"
  shows "nth_id a p \<noteq> nth_id a m"
proof
  assume eq: "nth_id a p = nth_id a m"
  have "req_at_or_before (nth_id a p) (done_id a p)" using position_order [of a p p] assms by (simp add: id_window_def)
  then show False using position_order [of a m p] assms by (simp add: eq)
qed

section \<open>A call is final\<close>

lemma last_map_id: "map f xs = map g ys \<Longrightarrow> xs \<noteq> [] \<Longrightarrow> f (last xs) = g (last ys)"
  by (metis last_map map_is_Nil_conv)

lemma forget_all:
  assumes "a \<noteq> 0" and "numbered a m ps d" and "\<forall>p \<in> set ps. m < p + id_window" and "0 < m"
  shows "cl_unacked (forget_acked (nth_id a m) d) = []"
proof -
  have "req_at_or_before (sf_req_id f) (nth_id a m)" if "f \<in> set (cl_unacked d)" for f
  proof -
    have "sf_req_id f \<in> nth_id a ` set ps" using assms(2) that by (metis numbered_def image_eqI list.set_map)
    then obtain p where "p \<in> set ps" "sf_req_id f = nth_id a p" by blast
    moreover have "0 < p" "p < m + id_window" "m < p + id_window"
      using calculation(1) assms(2-4) by (auto simp: numbered_def id_window_def intro: le_less_trans)
    ultimately show ?thesis using position_order [OF assms(1), of p m] assms(2,4) by (simp add: numbered_def done_id_def)
  qed
  then have "fst (forget_acked_frames (nth_id a m) (cl_unacked d) (cl_unacked_bytes d)) = []"
    by (simp add: forget_frames_while)
  then show ?thesis by (auto simp: forget_acked_def split: prod.split)
qed

lemma abandon_removes:
  assumes "a \<noteq> 0" and num: "numbered a m ps d" and w: "\<forall>p \<in> set ps. m < p + id_window" and l: "ps = [] \<or> last ps = m"
  shows "nth_id a m \<notin> set (map sf_req_id (cl_unacked (abandon_call (nth_id a m) d)))"
proof (cases "ps = []")
  case True
  then show ?thesis using num by (simp add: numbered_def abandon_call_def Let_def)
next
  case False
  have ids: "map sf_req_id (cl_unacked d) = map (nth_id a) ps" using num by (simp add: numbered_def)
  then have ne: "cl_unacked d \<noteq> []" using False by auto
  have "sf_req_id (last (cl_unacked d)) = nth_id a m" using last_map_id [OF ids ne] l False by simp
  then have "map sf_req_id (cl_unacked (abandon_call (nth_id a m) d)) = map (nth_id a) (butlast ps)"
    using ids ne by (simp add: abandon_call_def Let_def map_butlast)
  moreover have "nth_id a p \<noteq> nth_id a m" if "p \<in> set (butlast ps)" for p
  proof -
    have "sorted_wrt (<) (butlast ps @ [last ps])" using num False by (simp add: numbered_def)
    from this [unfolded sorted_wrt_append] have "p < m" using that l False by simp
    moreover have "0 < p" "m < p + id_window" using that num w by (auto simp: numbered_def dest: in_set_butlastD)
    ultimately show ?thesis using nth_id_differs [OF assms(1)] by blast
  qed
  ultimately show ?thesis by (metis (no_types, lifting) imageE list.set_map)
qed

text \<open>C27. A call that waits for its reply is final when it returns, whichever way it ends: its frame
  is in no later replay, so it is never run behind the application's back, and the next handshake names
  it as the last one dealt with. Answered, it has acknowledged everything before it, so nothing at all is
  left to send again; given up after the second connection, it failed and the connection is gone.\<close>

theorem call_is_final:
  assumes "a \<noteq> 0" and num: "numbered a n ps c" and rest: "at_rest a n c" and w: "\<forall>p \<in> set ps. n + 2 < p + id_window"
    and up: "fst (ensure_connected c)" and call: "call tries tid api payload c = (res, c')"
  shows "\<exists>m. n < m \<and> m \<le> n + 2 \<and> cl_last_reply c' = nth_id a m
    \<and> nth_id a m \<notin> set (map sf_req_id (cl_unacked c'))
    \<and> (if cl_connected c' then cl_unacked c' = [] else fst res = CUDA_ERROR_UNKNOWN)"
proof -
  obtain c0 where e: "ensure_connected c = (True, c0)" using up by (cases "ensure_connected c") auto
  obtain rid c1 where q: "queue_frame api payload 0 tid c0 = (rid, c1)" by fastforce
  have r0: "at_rest a n c0" using ensure_connected_ok [OF rest e] by simp
  obtain ps0 where ps0: "suffix ps0 ps" "numbered a n ps0 c0" using numbered_acked [OF num ensure_acked [OF e]] by blast
  obtain m ps1 where m: "n < m" "m \<le> n + 2" "rid = nth_id a m" "numbered a m ps1 c1" "set ps1 \<subseteq> {Suc n, n + 2} \<union> set ps0"
    "ps1 = [] \<or> last ps1 = m" using numbered_frame [OF ps0(2) _ _ q] r0 unfolding at_rest_def by blast
  have w1: "\<forall>p \<in> set ps1. m < p + id_window" using m w ps0(1) set_mono_suffix by (fastforce simp: id_window_def)
  have after: "\<exists>qs. numbered a m qs d \<and> (\<forall>p \<in> set qs. m < p + id_window) \<and> (qs = [] \<or> last qs = m)" if ac: "acked c1 d" for d
  proof -
    obtain qs where qs: "suffix qs ps1" "numbered a m qs d" using numbered_acked [OF m(4) ac] by blast
    have "last qs = last ps1" if "qs \<noteq> []" using qs(1) that by (auto simp: suffix_def)
    then show ?thesis using qs m(6) w1 set_mono_suffix [OF qs(1)] by (intro exI [of _ qs]) auto
  qed
  from call_ends [OF e q call] show ?thesis
  proof (elim disjE exE conjE)
    fix d assume d: "acked c1 d" "c' = forget_acked rid d" "cl_last_reply d = rid" "cl_connected d"
    obtain qs where qs: "numbered a m qs d" "\<forall>p \<in> set qs. m < p + id_window" using after [OF d(1)] by blast
    have "cl_unacked c' = []" using forget_all [OF assms(1) qs] m d(2) by simp
    moreover have "cl_last_reply c' = rid" "cl_connected c'" using d by (simp_all add: forget_acked_def split: prod.split)
    ultimately show ?thesis using m by (intro exI [of _ m]) simp
  next
    fix d assume d: "acked c1 d" "c' = abandon_call rid d" "fst res = CUDA_ERROR_UNKNOWN"
    obtain qs where qs: "numbered a m qs d" "\<forall>p \<in> set qs. m < p + id_window" "qs = [] \<or> last qs = m" using after [OF d(1)] by blast
    have "nth_id a m \<notin> set (map sf_req_id (cl_unacked c'))" using abandon_removes [OF assms(1) qs] d(2) m(3) by simp
    moreover have "cl_last_reply c' = nth_id a m" "\<not> cl_connected c'" using d(2) m(3) by (simp_all add: abandon_call_def Let_def)
    ultimately show ?thesis using m d(3) by (intro exI [of _ m]) simp
  qed
qed

definition demo_answering :: link where
  "demo_answering = demo_link\<lparr> lk_replies := [Some (\<lparr> rs_magic = kMagicRsp, rs_req_id = 1, rs_result = 0, rs_payload_len = 0 \<rparr>, [])] \<rparr>"

lemma call_is_final_witness:
  "\<exists>m. 0 < m \<and> m \<le> (2 :: nat) \<and> cl_last_reply (snd (call 3 7 20 [1] (new_client (7, 9) 1 demo_answering))) = nth_id 0xFFFFFFFF m"
proof -
  let ?c = "new_client (7, 9) 1 demo_answering"
  obtain res c' where call: "call 3 7 20 [1] ?c = (res, c')" by fastforce
  have up: "fst (ensure_connected ?c)"
    by (simp add: ensure_connected_def new_client_def demo_answering_def demo_link_def take_answer_def magics Let_def)
  have rest: "at_rest 0xFFFFFFFF 0 ?c" by (rule new_client_rest) (simp_all add: upcoming_def next_id_def)
  have num: "numbered 0xFFFFFFFF 0 [] ?c" using first_ids by (simp add: numbered_def new_client_def upcoming_def)
  have "(0xFFFFFFFF :: u32) \<noteq> 0" by simp
  from call_is_final [OF this num rest _ up call] call show ?thesis by auto
qed

section \<open>A session that is gone\<close>

lemma gone_ensure:
  "cl_session_gone c \<Longrightarrow> \<not> cl_connected c \<Longrightarrow> ensure_connected c = (False, c)"
  by (simp add: ensure_connected_def)

text \<open>Once the server has said that the session is gone, nothing is sent to it any more, for
  good: every call fails at once, and no connection is tried, however the server would answer one.\<close>

theorem gone_session_stays_gone:
  assumes "cl_session_gone c" and "\<not> cl_connected c"
  shows "cl_link (run_client tries acts c) = cl_link c
    \<and> fst (fst (call tries tid api payload (run_client tries acts c))) = CUDA_ERROR_NOT_INITIALIZED
    \<and> fst (call_async batching limit tries tid api payload (run_client tries acts c)) = CUDA_ERROR_NOT_INITIALIZED"
proof -
  have "cl_session_gone (run_client tries acts c) \<and> \<not> cl_connected (run_client tries acts c)
      \<and> cl_link (run_client tries acts c) = cl_link c"
    using assms
  proof (induction acts arbitrary: c)
    case (Cons act acts)
    have "cl_session_gone (client_step tries act c) \<and> \<not> cl_connected (client_step tries act c)
        \<and> cl_link (client_step tries act c) = cl_link c"
      using Cons.prems by (cases act) (simp_all add: call_def call_async_def gone_ensure retire_client_thread_def)
    then show ?case using Cons.IH [of "client_step tries act c"] by (simp add: run_client_def)
  qed (simp add: run_client_def)
  then show ?thesis by (simp add: call_def call_async_def gone_ensure)
qed

lemma gone_session_stays_gone_witness:
  "lk_sent (cl_link (run_client 5 [Calls 7 20 [1], Calls_async 7 23 [2]]
      ((new_client (7, 9) 1 demo_link)\<lparr> cl_session_gone := True, cl_had_session := True \<rparr>))) = []"
proof -
  let ?c = "(new_client (7, 9) 1 demo_link)\<lparr> cl_session_gone := True, cl_had_session := True \<rparr>"
  have "cl_session_gone ?c" "\<not> cl_connected ?c" by (simp_all add: new_client_def)
  from gone_session_stays_gone [OF this, of 5 "[Calls 7 20 [1], Calls_async 7 23 [2]]"]
  show ?thesis by (simp add: new_client_def demo_link_def)
qed

section \<open>Threads that exited\<close>

lemma notice_bytes: "bdata (thread_notice gone) = le_enc 4 (of_nat (length gone) :: u32) @ concat (map (le_enc 4) gone)"
  by (simp add: thread_notice_def put_bytes_def buf_put_def empty_buffer_def)

lemma notice_read:
  assumes "length gone < 2 ^ 32"
  shows "\<exists>req. handle_thread_gone (buffer_of (bdata (thread_notice gone))) ts = (CUDA_SUCCESS, req, fold retire_thread gone ts)
    \<and> bok req"
proof -
  let ?b = "buffer_of (bdata (thread_notice gone))"
  let ?b1 = "?b\<lparr> bread := 4 \<rparr>"
  have n: "unat (of_nat (length gone) :: u32) = length gone" using assms by (simp add: unat_of_nat)
  have "buf_get 4 ?b = (Some (of_nat (length gone) :: u32), ?b1)"
    using u32_field.get_reads [where v = "of_nat (length gone)" and b = ?b and r = "concat (map (le_enc 4) gone)"]
    by (simp add: notice_bytes buffer_of_def)
  moreover have "get_all (buf_get 4) (length gone) ?b1 = (Some gone, ?b1\<lparr> bread := bread ?b1 + length (concat (map (le_enc 4) gone)) \<rparr>)"
    by (rule u32_field.run_reads [where r = "[]"]) (simp_all add: notice_bytes buffer_of_def)
  ultimately show ?thesis using n by (simp add: handle_thread_gone_def buffer_of_def)
qed

text \<open>The notice a client queues ahead of a frame tells the server of exactly the threads that
  exited, other than the one whose frame it is: read on the server it retires those, so the slot the
  frame is served with, its thread's context and what is held for it, is not forgotten under it. The
  caller stays listed for a later notice.\<close>

theorem notice_retires_the_other_threads:
  assumes "cl_have_retired c" and "distinct (cl_retired c)" and "length (cl_retired c) < 2 ^ 32"
    and "remove1 tid (cl_retired c) = gone"
  shows "\<exists>req. handle_thread_gone (buffer_of (bdata (thread_notice gone))) ts = (CUDA_SUCCESS, req, fold retire_thread gone ts)
    \<and> map_of (ts_live (fold retire_thread gone ts)) tid = map_of (ts_live ts) tid
    \<and> set gone = set (cl_retired c) - {tid}
    \<and> set (cl_retired (queue_notice tid c)) = set (cl_retired c) \<inter> {tid}"
proof -
  have g: "set gone = set (cl_retired c) - {tid}" using assms(2,4) by (auto simp: set_remove1_eq)
  have "length gone < 2 ^ 32" using assms(3,4) length_remove1 [of tid "cl_retired c"] by (auto split: if_splits)
  then obtain req where r: "handle_thread_gone (buffer_of (bdata (thread_notice gone))) ts = (CUDA_SUCCESS, req, fold retire_thread gone ts)"
    using notice_read by blast
  have keep: "cl_retired (snd (queue_one api p f t d)) = cl_retired d" for api p f t d
    by (simp add: queue_one_def mint_req_id_def keep_unacked_def Let_def)
  have "set (cl_retired (queue_notice tid c)) = set (cl_retired c) \<inter> {tid}"
    using assms(1,4) by (auto simp: queue_notice_def Let_def keep)
  moreover have "map_of (ts_live (fold retire_thread gone ts)) tid = map_of (ts_live ts) tid"
    using retire_all_live [of gone ts tid] g by simp
  ultimately show ?thesis using r g by blast
qed

lemma notice_retires_the_other_threads_witness:
  "map_of (ts_live (fold retire_thread [3, 5] no_threads)) 4 = map_of (ts_live no_threads) 4"
proof -
  let ?c = "(new_client (7, 9) 1 demo_link)\<lparr> cl_retired := [3, 4, 5], cl_have_retired := True \<rparr>"
  have "cl_have_retired ?c" "distinct (cl_retired ?c)" "length (cl_retired ?c) < 2 ^ 32" "remove1 4 (cl_retired ?c) = [3, 5]"
    by simp_all
  from notice_retires_the_other_threads [OF this, of no_threads] show ?thesis by blast
qed

section \<open>Where the code falls short of what it says\<close>

text \<open>A one-way call whose write fails returns \<open>CUDA_ERROR_UNKNOWN\<close> to the application, but its frame stays
  at the end of the replay buffer: the next connection carries it, and the call the application was
  told failed runs after all.\<close>

theorem failed_one_way_call_is_sent_again:
  assumes "at_rest a n c" and "call_async True limit tries tid api payload c = (CUDA_ERROR_UNKNOWN, c')"
    and "cl_replay_possible c'"
  shows "\<exists>rid. last (cl_unacked c') = \<lparr> sf_req_id = rid,
      sf_bytes = enc_req_header (request_header api rid kFlagNoReply tid payload) @ payload \<rparr> \<and> cl_unacked c' \<noteq> []"
proof -
  obtain ok c0 where e: "ensure_connected c = (ok, c0)" by fastforce
  obtain rid c1 where q: "queue_frame api payload kFlagNoReply tid c0 = (rid, c1)" by fastforce
  obtain sent c2 where fl: "flush c1 = (sent, c2)" by fastforce
  have c2: "c' = c2" "ok" using assms(2) e q fl by (auto simp: call_async_def split: if_splits)
  have s: "same_buffer c1 c2" using flush_same [OF fl] by simp
  obtain d where d: "queue_one api payload kFlagNoReply tid (queue_notice tid c0) = (rid, d)" "c1 = list_again tid d"
    using q by (auto simp: queue_frame_def split: prod.splits)
  have same: "cl_unacked c1 = cl_unacked d" "cl_replay_possible c1 = cl_replay_possible d" by (auto simp: d(2) list_again_def)
  have rp: "cl_replay_possible d" using assms(3) c2 s same by (simp add: same_buffer_def)
  obtain f where "cl_unacked d = cl_unacked (queue_notice tid c0) @ [f]" "f = \<lparr> sf_req_id = rid,
      sf_bytes = enc_req_header (request_header api rid kFlagNoReply tid payload) @ payload \<rparr>"
    using d(1) rp by (auto simp: queue_one_def mint_req_id_def keep_unacked_def Let_def split: if_splits prod.splits)
  then show ?thesis using c2 s same by (auto simp: same_buffer_def)
qed

text \<open>Past the bound on the replay buffer the session is to be unrecoverable, but only the reconnection
  inside a call is refused: the next call connects, resumes the session with nothing to send again, and
  goes on, the one-way calls that were lost unreported.\<close>

theorem resumes_after_replay_is_lost:
  assumes "\<not> cl_replay_possible c" and "buffer_ok c" and "\<not> cl_connected c" and "\<not> cl_session_gone c"
    and "\<not> cl_connect_failed c" and "lk_connects (cl_link c) = Answer reply # later" and "resuming q a reply"
  shows "\<not> fst (reconnect tries c) \<and> fst (ensure_connected c) \<and> cl_unacked (snd (ensure_connected c)) = []"
proof -
  have u: "cl_unacked c = []" using assms(1,2) by (simp add: buffer_ok_def)
  have m: "kMagicHello \<noteq> kMagicBusy" by (rule magics)
  define d where "d = c\<lparr> cl_link := (cl_link c)\<lparr> lk_connects := later, lk_sent := lk_sent (cl_link c) @ [enc_handshake (client_hello c)] \<rparr> \<rparr>"
  have "ensure_connected c = take_answer reply d" using assms by (simp add: ensure_connected_def d_def Let_def)
  moreover have "cl_unacked (forget_acked i (d\<lparr> cl_connected := True, cl_had_session := True \<rparr>)) = []" for i
    by (simp add: forget_acked_def d_def u)
  ultimately show ?thesis using assms(1,7) m by (simp add: reconnect_def take_answer_def resuming_def Let_def)
qed

end
