(* ===== verification/Journey.thy ===== *)
theory Journey
  imports Calls
begin

text \<open>
  The client and the server of one session together. Every move is one piece of \<^verbatim>\<open>call_locked\<close> and
  \<^verbatim>\<open>call_async\<close> (\<^verbatim>\<open>client/rpc.cpp\<close>), as \<^verbatim>\<open>Rpc\<close> has them, or one frame that the serving thread reads
  (\<^verbatim>\<open>server/main.cpp\<close>), in any order and any number: connections break after any byte, the server goes
  on with an old connection while the client is on a new one, and the count it gives in a handshake is
  what it had completed at some moment before. The session is one that does not expire, and its replay
  buffer stays within its bound. The moves allow more than the program does: a reply that is lost may be
  heard later, a connection the server would close after a malformed request may be read on, and a call
  may give up at any point, so what is shown of them holds of the program.
\<close>

section \<open>The system\<close>

text \<open>The client and the session; the connection the serving thread reads, by its position, and how far
  it has read; the handshake answer under way to the client; every frame that ran, with what was sent for it; the
  replies made since the client last queued a frame, an older one being for another request. The last two
  are the application's side: the frames of all its calls, and the positions, from 1, of those that a call which
  waited for a reply gave up on.\<close>

record 'd system =
  sy_client :: client
  sy_session :: "'d session"
  sy_serving :: nat
  sy_read :: nat
  sy_offer :: "handshake_reply option"
  sy_begun :: bool
  sy_ran :: "((req_header \<times> byte list) \<times> byte list option) list"
  sy_replies :: "byte list list"
  sy_asked :: "sent_frame list"
  sy_failed :: "nat list"

definition new_system :: "client \<Rightarrow> 'd session \<Rightarrow> 'd system" where
  "new_system c se = \<lparr> sy_client = c, sy_session = se, sy_serving = 0, sy_read = 0, sy_offer = None, sy_begun = False,
     sy_ran = [], sy_replies = [], sy_asked = [], sy_failed = [] \<rparr>"

text \<open>The client with what the next attempts to connect, writes and waits come to.\<close>

definition faced :: "connect_answer list \<Rightarrow> nat option list \<Rightarrow> (rsp_header \<times> byte list) option list \<Rightarrow> client \<Rightarrow> client" where
  "faced as ws rs c = c\<lparr> cl_link := (cl_link c)\<lparr> lk_connects := as, lk_writes := ws, lk_replies := rs \<rparr> \<rparr>"

text \<open>What a connection carries after the client's handshake, which has 32 bytes.\<close>

definition carried :: "nat \<Rightarrow> client \<Rightarrow> byte list" where
  "carried i c = drop 32 (lk_sent (cl_link c) ! i)"

definition next_frame :: "byte list \<Rightarrow> (req_header \<times> byte list \<times> byte list) option" where
  "next_frame = parse_frame 24 dec_req_header rq_magic rq_payload_len kMagicReq default_max_payload"

definition last_asked :: "'d system \<Rightarrow> u32" where
  "last_asked s = sf_req_id (last (sy_asked s))"

definition frames_served :: "'d system \<Rightarrow> (req_header \<times> byte list) \<Rightarrow> byte list option \<Rightarrow> 'd session \<Rightarrow> 'd system" where
  "frames_served s f sent se = s\<lparr> sy_session := se, sy_read := sy_read s + 24 + length (snd f),
     sy_ran := sy_ran s @ (if already_ran (fst f) (sy_session s) then [] else [(f, sent)]),
     sy_replies := (case sent of None \<Rightarrow> sy_replies s | Some bytes \<Rightarrow> bytes # sy_replies s) \<rparr>"

inductive moves :: "nat \<Rightarrow> 'd driver \<Rightarrow> (u32 \<Rightarrow> buffer \<Rightarrow> 'd sv \<Rightarrow> 'd outcome option) \<Rightarrow> 'd system \<Rightarrow> 'd system \<Rightarrow> bool"
  for cap drv disp where
  shakes: "\<not> cl_connected (sy_client s) \<Longrightarrow> moves cap drv disp s (s\<lparr> sy_begun := True,
     sy_offer := Some (fst (handshake_answer (client_hello (sy_client s)) (sy_begun s) (completion_of (sy_session s)))) \<rparr>)"
| connects: "\<not> cl_connected (sy_client s) \<Longrightarrow> sy_offer s = Some reply \<Longrightarrow>
     ensure_connected (faced [Answer reply] ws [] (sy_client s)) = (ok, c) \<Longrightarrow>
     moves cap drv disp s (s\<lparr> sy_client := c, sy_offer := None \<rparr>)"
| unanswered: "\<not> cl_connected (sy_client s) \<Longrightarrow>
     a = Unreachable \<or> a = Unanswered \<or> (\<exists>busy. a = Answer busy \<and> hr_magic busy = kMagicBusy) \<Longrightarrow>
     ensure_connected (faced [a] ws [] (sy_client s)) = (ok, c) \<Longrightarrow> moves cap drv disp s (s\<lparr> sy_client := c \<rparr>)"
| retries: "moves cap drv disp s (s\<lparr> sy_client := (sy_client s)\<lparr> cl_connect_failed := False \<rparr> \<rparr>)"
| asks: "cl_connected (sy_client s) \<Longrightarrow> queue_frame api payload flags tid (sy_client s) = (rid, c) \<Longrightarrow>
     cl_replay_possible c \<Longrightarrow>
     moves cap drv disp s (s\<lparr> sy_client := c, sy_replies := [],
       sy_asked := sy_asked s @ drop (length (cl_unacked (sy_client s))) (cl_unacked c) \<rparr>)"
| writes: "flush (faced [] ws [] (sy_client s)) = (ok, c) \<Longrightarrow> moves cap drv disp s (s\<lparr> sy_client := c \<rparr>)"
| hears: "cl_connected (sy_client s) \<Longrightarrow> cl_queued (sy_client s) = [] \<Longrightarrow> sy_asked s \<noteq> [] \<Longrightarrow>
     enc_rsp_header rh @ payload \<in> set (sy_replies s) \<Longrightarrow>
     attempt (last_asked s) (faced [] [] [Some (rh, payload)] (sy_client s)) = (answer, c) \<Longrightarrow>
     moves cap drv disp s (s\<lparr> sy_client := c \<rparr>)"
| drops: "cl_queued (sy_client s) = [] \<Longrightarrow> moves cap drv disp s (s\<lparr> sy_client := drop_connection (sy_client s) \<rparr>)"
| gives_up: "cl_queued (sy_client s) = [] \<Longrightarrow> sy_asked s \<noteq> [] \<Longrightarrow>
     moves cap drv disp s (s\<lparr> sy_client := snd (give_up_call (last_asked s) (sy_client s)),
       sy_failed := length (sy_asked s) # sy_failed s \<rparr>)"
| exits: "moves cap drv disp s (s\<lparr> sy_client := retire_client_thread tid (sy_client s) \<rparr>)"
| serves: "sy_serving s < length (lk_sent (cl_link (sy_client s))) \<Longrightarrow>
     next_frame (drop (sy_read s) (carried (sy_serving s) (sy_client s))) = Some (h, payload, rest) \<Longrightarrow>
     serve_frame cap drv disp (h, payload) (sy_session s) = (sent, close, se) \<Longrightarrow>
     moves cap drv disp s (frames_served s (h, payload) sent se)"
| takes: "sy_serving s < i \<Longrightarrow> i < length (lk_sent (cl_link (sy_client s))) \<Longrightarrow>
     moves cap drv disp s (s\<lparr> sy_serving := i, sy_read := 0 \<rparr>)"

definition comes_to :: "nat \<Rightarrow> 'd driver \<Rightarrow> (u32 \<Rightarrow> buffer \<Rightarrow> 'd sv \<Rightarrow> 'd outcome option) \<Rightarrow> 'd system \<Rightarrow> 'd system \<Rightarrow> bool" where
  "comes_to cap drv disp = (moves cap drv disp)\<^sup>*\<^sup>*"

section \<open>Frames by position\<close>

definition asked_at :: "sent_frame list \<Rightarrow> nat \<Rightarrow> sent_frame" where
  "asked_at fs p = fs ! (p - 1)"

definition bytes_at :: "sent_frame list \<Rightarrow> nat list \<Rightarrow> byte list" where
  "bytes_at fs ps = frame_bytes (map (asked_at fs) ps)"

text \<open>Positions in order, of frames that were asked.\<close>

definition positions :: "nat \<Rightarrow> nat list \<Rightarrow> bool" where
  "positions n ps \<longleftrightarrow> sorted_wrt (<) ps \<and> (\<forall>p \<in> set ps. 0 < p \<and> p \<le> n)"

text \<open>None between \<open>b\<close> and \<open>n\<close> is left out but those that failed.\<close>

definition covers :: "nat set \<Rightarrow> nat \<Rightarrow> nat \<Rightarrow> nat list \<Rightarrow> bool" where
  "covers failed b n ps \<longleftrightarrow> (\<forall>p. b < p \<and> p \<le> n \<longrightarrow> p \<in> set ps \<or> p \<in> failed)"

definition asked_ok :: "u32 \<Rightarrow> sent_frame list \<Rightarrow> bool" where
  "asked_ok a fs \<longleftrightarrow> list_all whole_frame fs \<and> map sf_req_id fs = map (nth_id a) [1..<Suc (length fs)]"

lemma asked_at_grown: "0 < p \<Longrightarrow> p \<le> length fs \<Longrightarrow> asked_at (fs @ gs) p = asked_at fs p"
  by (simp add: asked_at_def nth_append)

lemma bytes_at_simps [simp]:
  "bytes_at fs [] = []" "bytes_at fs (p # ps) = sf_bytes (asked_at fs p) @ bytes_at fs ps"
  "bytes_at fs (ps @ qs) = bytes_at fs ps @ bytes_at fs qs"
  by (simp_all add: bytes_at_def)

lemma bytes_at_grown: "positions (length fs) ps \<Longrightarrow> bytes_at (fs @ gs) ps = bytes_at fs ps"
  by (simp add: bytes_at_def positions_def asked_at_grown cong: map_cong)

lemma positions_grown: "positions n ps \<Longrightarrow> n \<le> m \<Longrightarrow> positions m ps"
  by (auto simp: positions_def)

lemma positions_append:
  "positions n (ps @ qs) \<longleftrightarrow> positions n ps \<and> positions n qs \<and> (\<forall>p \<in> set ps. \<forall>q \<in> set qs. p < q)"
  by (auto simp: positions_def sorted_wrt_append)

lemma covers_grown: "covers failed b n ps \<Longrightarrow> set ps \<subseteq> set ps' \<Longrightarrow> failed \<subseteq> failed' \<Longrightarrow> covers failed' b n ps'"
  by (auto simp: covers_def)

lemma asked_id:
  assumes "asked_ok a fs" and "0 < p" and "p \<le> length fs"
  shows "sf_req_id (asked_at fs p) = nth_id a p" and "whole_frame (asked_at fs p)"
proof -
  have i: "p - 1 < length fs" "p - 1 < length [1..<Suc (length fs)]" using assms(2,3) by simp_all
  have "map sf_req_id fs ! (p - 1) = map (nth_id a) [1..<Suc (length fs)] ! (p - 1)" using assms(1) by (simp only: asked_ok_def)
  then show "sf_req_id (asked_at fs p) = nth_id a p" using i assms(2) by (simp add: asked_at_def nth_map del: upt_Suc)
  show "whole_frame (asked_at fs p)" using assms i by (simp add: asked_ok_def asked_at_def list_all_length)
qed

lemma asked_ok_grown:
  assumes "asked_ok a fs" and "list_all whole_frame gs" and "map sf_req_id gs = map (nth_id a) [Suc (length fs)..<Suc (length fs + length gs)]"
  shows "asked_ok a (fs @ gs)"
proof -
  have "[1..<Suc (length fs + length gs)] = [1..<Suc (length fs)] @ [Suc (length fs)..<Suc (length fs + length gs)]"
    using upt_add_eq_append [of 1 "Suc (length fs)" "length gs"] by simp
  then show ?thesis using assms by (simp only: asked_ok_def list_all_append map_append length_append)
qed

text \<open>Within the window an id has one position.\<close>

lemma id_position:
  assumes "a \<noteq> 0" and "0 < p" and "0 < q" and "p < id_window" and "q < id_window" and "nth_id a p = nth_id a q"
  shows "p = q"
  using nth_id_differs [OF assms(1), of p q] nth_id_differs [OF assms(1), of q p] assms(2-6) by (cases p q rule: linorder_cases) auto

section \<open>What a connection carries\<close>

text \<open>The front of the frames at some positions, which go on from where it began.\<close>

definition carries :: "sent_frame list \<Rightarrow> nat set \<Rightarrow> nat \<times> nat list \<Rightarrow> byte list \<Rightarrow> bool" where
  "carries fs failed = (\<lambda>(b, us) stream. 32 \<le> length stream \<and> positions (length fs) us \<and> (\<forall>p \<in> set us. b < p)
     \<and> covers failed b (last (b # us)) us \<and> (\<exists>m. drop 32 stream = take m (bytes_at fs us)))"

lemma carries_grown:
  assumes "carries fs failed k stream" and "failed \<subseteq> failed'"
  shows "carries (fs @ gs) failed' k stream"
  using assms covers_grown [of failed "fst k" "last (fst k # snd k)" "snd k" "snd k" failed']
  by (cases k) (auto simp: carries_def bytes_at_grown intro: positions_grown)

lemma next_frame_prefix:
  assumes "next_frame bs = Some (h, p, rest)"
  shows "next_frame (bs @ later) = Some (h, p, rest @ later)"
  using assms by (auto simp: next_frame_def parse_frame_def Let_def split: if_splits)

lemma next_frame_nil: "next_frame [] = None"
  by (simp add: next_frame_def parse_frame_def)

lemma past_the_front: "drop (length xs) (take m (xs @ ys)) = take (m - length xs) ys"
  by (cases "length xs \<le> m") simp_all

text \<open>What is parsed off such a connection, after so many whole frames, is the next of them.\<close>

lemma next_carried:
  assumes "asked_ok a fs" and "positions (length fs) us" and "t \<le> length us"
    and "next_frame (drop (length (bytes_at fs (take t us))) (take m (bytes_at fs us))) = Some (h, payload, rest)"
  shows "t < length us \<and> enc_req_header h @ payload = sf_bytes (asked_at fs (us ! t)) \<and> rq_req_id h = nth_id a (us ! t)
    \<and> length (sf_bytes (asked_at fs (us ! t))) = 24 + length payload"
proof -
  let ?k = "length (bytes_at fs (take t us))"
  have split: "bytes_at fs us = bytes_at fs (take t us) @ bytes_at fs (drop t us)"
    by (metis append_take_drop_id bytes_at_simps(3))
  let ?y = "drop (m - ?k) (bytes_at fs (drop t us))"
  have "drop ?k (take m (bytes_at fs us)) = take (m - ?k) (bytes_at fs (drop t us))"
    unfolding split by (rule past_the_front)
  then have "bytes_at fs (drop t us) = drop ?k (take m (bytes_at fs us)) @ ?y" by simp
  then have all: "next_frame (bytes_at fs (drop t us)) = Some (h, payload, rest @ ?y)"
    using next_frame_prefix [OF assms(4), of ?y] by simp
  have t: "t < length us" using all next_frame_nil by (cases "t < length us") auto
  then have us: "drop t us = us ! t # drop (Suc t) us" by (simp add: Cons_nth_drop_Suc)
  have p: "0 < us ! t" "us ! t \<le> length fs" using assms(2) t by (auto simp: positions_def)
  obtain h' p' where w: "sf_bytes (asked_at fs (us ! t)) = enc_req_header h' @ p'" "rq_req_id h' = sf_req_id (asked_at fs (us ! t))"
    "next_frame (sf_bytes (asked_at fs (us ! t)) @ bytes_at fs (drop (Suc t) us)) = Some (h', p', bytes_at fs (drop (Suc t) us))"
    using parse_whole [OF asked_id(2) [OF assms(1) p]] unfolding next_frame_def by blast
  have "h' = h \<and> p' = payload" using all w(3) by (simp add: us)
  then show ?thesis using t w(1,2) asked_id(1) [OF assms(1) p] by simp
qed

section \<open>What the client's pieces do\<close>

text \<open>The numbering of frames and the replay buffer, which holds the frames at \<open>ps\<close>.\<close>

definition keeps :: "u32 \<Rightarrow> sent_frame list \<Rightarrow> nat list \<Rightarrow> client \<Rightarrow> bool" where
  "keeps a fs ps c \<longleftrightarrow> numbered a (length fs) ps c \<and> buffer_ok c \<and> cl_replay_possible c \<and> cl_unacked c = map (asked_at fs) ps"

lemma keeps_positions: "keeps a fs ps c \<Longrightarrow> positions (length fs) ps"
  by (auto simp: keeps_def numbered_def positions_def)

text \<open>Everything a piece may leave as it was but the link.\<close>

lemma keeps_frame [simp]:
  "keeps a fs ps (c\<lparr> cl_link := lk \<rparr>) = keeps a fs ps c" "keeps a fs ps (c\<lparr> cl_connected := b \<rparr>) = keeps a fs ps c"
  "keeps a fs ps (c\<lparr> cl_connect_failed := b \<rparr>) = keeps a fs ps c" "keeps a fs ps (c\<lparr> cl_last_reply := i \<rparr>) = keeps a fs ps c"
  "keeps a fs ps (c\<lparr> cl_queued := bs \<rparr>) = keeps a fs ps c" "keeps a fs ps (c\<lparr> cl_had_session := b \<rparr>) = keeps a fs ps c"
  by (simp_all add: keeps_def numbered_def buffer_ok_def)

lemma same_buffer_keeps: "same_buffer c c' \<Longrightarrow> keeps a fs ps c' = keeps a fs ps c"
  unfolding keeps_def by (simp only: same_buffer_ok) (simp add: same_buffer_def)

lemma queue_one_adds:
  assumes k: "keeps a fs ps c" and q: "queue_one api payload flags tid c = (rid, c')" and "cl_replay_possible c'"
  shows "\<exists>f. sf_req_id f = rid \<and> whole_frame f \<and> rid = nth_id a (Suc (length fs)) \<and> keeps a (fs @ [f]) (ps @ [Suc (length fs)]) c'
    \<and> cl_unacked c' = cl_unacked c @ [f] \<and> cl_queued c' = cl_queued c @ sf_bytes f
    \<and> cl_link c' = cl_link c \<and> cl_connected c' = cl_connected c \<and> cl_had_session c' = cl_had_session c"
proof -
  let ?n = "length fs"
  obtain c1 where m: "mint_req_id c = (rid, c1)" using q by (auto simp: queue_one_def Let_def split: prod.splits)
  obtain i where c1: "c1 = c\<lparr> cl_next_req := i \<rparr>" using mint_rest [OF m] ..
  have num: "numbered a ?n ps c" and b: "buffer_ok c" and u: "cl_unacked c = map (asked_at fs) ps" and r: "cl_replay_possible c"
    using k by (simp_all add: keeps_def)
  define bytes where "bytes = enc_req_header (request_header api rid flags tid payload) @ payload"
  define f where "f = \<lparr> sf_req_id = rid, sf_bytes = bytes \<rparr>"
  define c2 where "c2 = c1\<lparr> cl_queued := cl_queued c1 @ bytes \<rparr>"
  have c': "c' = keep_unacked f c2" using q m by (simp add: queue_one_def Let_def f_def bytes_def c2_def)
  note n1 = mint_numbered [OF num m]
  have fit: "cl_unacked_bytes c + length (sf_bytes f) \<le> kMaxUnackedBytes"
    using assms(3) r by (auto simp: c' keep_unacked_def c2_def c1 Let_def split: if_splits)
  then have u': "c' = c2\<lparr> cl_unacked := cl_unacked c @ [f], cl_unacked_bytes := cl_unacked_bytes c + length (sf_bytes f) \<rparr>"
    using r by (simp add: c' keep_unacked_def c2_def c1 Let_def)
  have w: "whole_frame f" using request_whole [of api rid flags tid payload] fit by (simp add: f_def bytes_def)
  have "buffer_ok c2" using b by (simp add: buffer_ok_def c2_def c1)
  then have b': "buffer_ok c'" unfolding c' by (rule keep_buffer) (use w in simp)
  have p: "positions ?n ps" by (rule keeps_positions [OF k])
  have "asked_at (fs @ [f]) p = asked_at fs p" if "p \<in> set ps" for p using p that by (auto simp: positions_def intro: asked_at_grown)
  moreover have "asked_at (fs @ [f]) (Suc ?n) = f" by (simp add: asked_at_def)
  ultimately have "cl_unacked c' = map (asked_at (fs @ [f])) (ps @ [Suc ?n])" by (simp add: u' u)
  moreover have "numbered a (Suc ?n) (ps @ [Suc ?n]) c'"
    using n1 num p by (auto simp: numbered_def u' c2_def f_def positions_def sorted_wrt_append)
  ultimately have "keeps a (fs @ [f]) (ps @ [Suc ?n]) c'" using b' assms(3) by (simp add: keeps_def)
  then show ?thesis using n1 w by (intro exI [of _ f]) (simp add: f_def u' c2_def c1)
qed

lemma queue_frame_adds:
  assumes k: "keeps a fs ps c" and q: "queue_frame api payload flags tid c = (rid, c')" and rp: "cl_replay_possible c'"
  shows "\<exists>gs. gs \<noteq> [] \<and> list_all whole_frame gs \<and> map sf_req_id gs = map (nth_id a) [Suc (length fs)..<Suc (length fs + length gs)]
    \<and> keeps a (fs @ gs) (ps @ [Suc (length fs)..<Suc (length fs + length gs)]) c'
    \<and> cl_unacked c' = cl_unacked c @ gs \<and> cl_queued c' = cl_queued c @ frame_bytes gs
    \<and> cl_link c' = cl_link c \<and> cl_connected c' = cl_connected c \<and> cl_had_session c' = cl_had_session c \<and> sf_req_id (last gs) = rid"
proof -
  let ?n = "length fs" and ?c1 = "queue_notice tid c"
  obtain c2 where q2: "queue_one api payload flags tid ?c1 = (rid, c2)" "c' = list_again tid c2"
    using q by (auto simp: queue_frame_def split: prod.splits)
  have again: "keeps a hs qs c' = keeps a hs qs c2" if "keeps a hs' qs' c2" for hs qs hs' qs'
    using that by (auto simp: q2(2) list_again_def keeps_def numbered_def buffer_ok_def)
  have again': "cl_unacked c' = cl_unacked c2" "cl_queued c' = cl_queued c2" "cl_link c' = cl_link c2" "cl_connected c' = cl_connected c2"
    "cl_had_session c' = cl_had_session c2" "cl_replay_possible c' = cl_replay_possible c2" by (simp_all add: q2(2) list_again_def)
  have rp2: "cl_replay_possible c2" using rp again' by simp
  have rp1: "cl_replay_possible ?c1"
    using rp2 q2(1) by (auto simp: queue_one_def keep_unacked_def mint_req_id_def Let_def split: if_splits)
  have "(keeps a fs ps ?c1 \<and> cl_unacked ?c1 = cl_unacked c \<and> cl_queued ?c1 = cl_queued c \<and> cl_link ?c1 = cl_link c
      \<and> cl_connected ?c1 = cl_connected c \<and> cl_had_session ?c1 = cl_had_session c)
    \<or> (\<exists>f. whole_frame f \<and> sf_req_id f = nth_id a (Suc ?n) \<and> keeps a (fs @ [f]) (ps @ [Suc ?n]) ?c1 \<and> cl_unacked ?c1 = cl_unacked c @ [f]
      \<and> cl_queued ?c1 = cl_queued c @ sf_bytes f \<and> cl_link ?c1 = cl_link c \<and> cl_connected ?c1 = cl_connected c
      \<and> cl_had_session ?c1 = cl_had_session c)"
  proof -
    define kept where "kept = (if tid \<in> set (cl_retired c) then [tid] else [])"
    define d where "d = c\<lparr> cl_retired := kept, cl_have_retired := (kept \<noteq> []) \<rparr>"
    have d: "keeps a fs ps d" using k retired_frame(3) by (auto simp: d_def keeps_def numbered_def)
    obtain i d2 where i: "queue_one API_rgpu_thread_gone (bdata (thread_notice (remove1 tid (cl_retired c)))) kFlagNoReply tid d = (i, d2)"
      by fastforce
    have cases: "?c1 = c \<or> ?c1 = d \<or> ?c1 = d2" using i by (auto simp: queue_notice_def Let_def kept_def d_def)
    show ?thesis
    proof (cases "?c1 = c \<or> ?c1 = d")
      case True
      then show ?thesis using k d by (auto simp: d_def)
    next
      case False
      then have "?c1 = d2" using cases by blast
      then show ?thesis using queue_one_adds [OF d i] rp1 by (auto simp: d_def)
    qed
  qed
  then show ?thesis
  proof (elim disjE exE conjE)
    assume c1: "keeps a fs ps ?c1" "cl_unacked ?c1 = cl_unacked c" "cl_queued ?c1 = cl_queued c" "cl_link ?c1 = cl_link c"
      "cl_connected ?c1 = cl_connected c" "cl_had_session ?c1 = cl_had_session c"
    from queue_one_adds [OF c1(1) q2(1) rp2] obtain f where f: "sf_req_id f = rid" "whole_frame f" "rid = nth_id a (Suc ?n)"
      "keeps a (fs @ [f]) (ps @ [Suc ?n]) c2" "cl_unacked c2 = cl_unacked ?c1 @ [f]" "cl_queued c2 = cl_queued ?c1 @ sf_bytes f"
      "cl_link c2 = cl_link ?c1" "cl_connected c2 = cl_connected ?c1" "cl_had_session c2 = cl_had_session ?c1" by blast
    then show ?thesis using c1 again [OF f(4)] again' by (intro exI [of _ "[f]"]) simp
  next
    fix g assume c1: "whole_frame g" "sf_req_id g = nth_id a (Suc ?n)" "keeps a (fs @ [g]) (ps @ [Suc ?n]) ?c1"
      "cl_unacked ?c1 = cl_unacked c @ [g]" "cl_queued ?c1 = cl_queued c @ sf_bytes g" "cl_link ?c1 = cl_link c"
      "cl_connected ?c1 = cl_connected c" "cl_had_session ?c1 = cl_had_session c"
    from queue_one_adds [OF c1(3) q2(1) rp2] obtain f where f: "sf_req_id f = rid" "whole_frame f" "rid = nth_id a (Suc (Suc ?n))"
      "keeps a ((fs @ [g]) @ [f]) ((ps @ [Suc ?n]) @ [Suc (Suc ?n)]) c2" "cl_unacked c2 = cl_unacked ?c1 @ [f]"
      "cl_queued c2 = cl_queued ?c1 @ sf_bytes f" "cl_link c2 = cl_link ?c1" "cl_connected c2 = cl_connected ?c1"
      "cl_had_session c2 = cl_had_session ?c1" by auto
    then show ?thesis using c1 again [OF f(4)] again' by (intro exI [of _ "[g, f]"]) (simp add: upt_rec)
  qed
qed

section \<open>What is written\<close>

text \<open>The current connection carries some of these bytes more, and all of them where the write succeeded.\<close>

definition extends :: "byte list \<Rightarrow> bool \<Rightarrow> client \<Rightarrow> client \<Rightarrow> bool" where
  "extends bs ok c c' \<longleftrightarrow> (\<exists>streams stream m. lk_sent (cl_link c) = streams @ [stream]
     \<and> lk_sent (cl_link c') = streams @ [stream @ take m bs] \<and> (ok \<longrightarrow> take m bs = bs))"

lemma write_extends:
  assumes "write_bytes bs c = (ok, c')" and "lk_sent (cl_link c) \<noteq> []"
  shows "extends bs ok c c'"
proof -
  obtain streams stream where s: "lk_sent (cl_link c) = streams @ [stream]" using assms(2) by (metis append_butlast_last_id)
  note w = write_sent [OF assms]
  have "lk_sent (cl_link c') = butlast (lk_sent (cl_link c')) @ [last (lk_sent (cl_link c'))]"
    using w append_butlast_last_id by metis
  then show ?thesis using w s unfolding extends_def by (metis butlast_snoc last_snoc same_append_eq)
qed

lemma replay_extends:
  assumes "replay fs c = (ok, c')" and "lk_sent (cl_link c) \<noteq> []"
  shows "extends (frame_bytes fs) ok c c'"
  using assms
proof (induction fs arbitrary: c)
  case Nil
  then show ?case by (auto simp: extends_def intro: append_butlast_last_id [symmetric])
next
  case (Cons f fs)
  obtain sent c1 where w: "write_bytes (sf_bytes f) c = (sent, c1)" by fastforce
  from write_extends [OF w Cons.prems(2)] obtain streams stream m where e: "lk_sent (cl_link c) = streams @ [stream]"
    "lk_sent (cl_link c1) = streams @ [stream @ take m (sf_bytes f)]" "sent \<longrightarrow> take m (sf_bytes f) = sf_bytes f"
    unfolding extends_def by blast
  show ?case
  proof (cases sent)
    case True
    then have r: "replay fs c1 = (ok, c')" "lk_sent (cl_link c1) \<noteq> []" using Cons.prems(1) w e(2) by simp_all
    from Cons.IH [OF r] obtain j where j: "lk_sent (cl_link c') = streams @ [(stream @ sf_bytes f) @ take j (frame_bytes fs)]"
      "ok \<longrightarrow> take j (frame_bytes fs) = frame_bytes fs" using e True unfolding extends_def by auto
    then show ?thesis unfolding extends_def using e(1)
      by (intro exI [of _ streams] exI [of _ stream] exI [of _ "length (sf_bytes f) + j"]) simp
  next
    case False
    then have c': "\<not> ok" "cl_link c' = cl_link c1" using Cons.prems(1) w by auto
    have "take m (sf_bytes f) = take (min m (length (sf_bytes f))) (frame_bytes (f # fs))"
      by (cases "m \<le> length (sf_bytes f)") auto
    then show ?thesis unfolding extends_def using e c'
      by (intro exI [of _ streams] exI [of _ stream] exI [of _ "min m (length (sf_bytes f))"]) simp
  qed
qed

lemma faced_fields [simp]:
  "cl_connected (faced as ws rs c) = cl_connected c" "cl_queued (faced as ws rs c) = cl_queued c"
  "cl_unacked (faced as ws rs c) = cl_unacked c" "cl_had_session (faced as ws rs c) = cl_had_session c"
  "cl_session_gone (faced as ws rs c) = cl_session_gone c" "cl_connect_failed (faced as ws rs c) = cl_connect_failed c"
  "lk_sent (cl_link (faced as ws rs c)) = lk_sent (cl_link c)" "lk_connects (cl_link (faced as ws rs c)) = as"
  "lk_replies (cl_link (faced as ws rs c)) = rs" "keeps a fs ps (faced as ws rs c) = keeps a fs ps c"
  by (simp_all add: faced_def)

lemma flush_writes:
  assumes "flush (faced [] ws [] c) = (ok, c')" and "cl_connected c" and "lk_sent (cl_link c) \<noteq> []"
  shows "keeps a fs ps c' = keeps a fs ps c \<and> cl_queued c' = [] \<and> (cl_connected c' \<longleftrightarrow> ok) \<and> cl_had_session c' = cl_had_session c
    \<and> extends (cl_queued c) ok c c'"
proof -
  let ?c = "faced [] ws [] c"
  have f: "same_buffer ?c c'" "cl_queued c' = []" "cl_connected c' \<longleftrightarrow> ok" using flush_same [OF assms(1)] assms(2) by auto
  obtain sent c1 where w: "write_bytes (cl_queued c) ?c = (sent, c1)" by fastforce
  obtain lk where lk: "c1 = ?c\<lparr> cl_link := lk \<rparr>" using write_bytes_cases [of "cl_queued c" ?c] w by auto
  have "extends (cl_queued c) ok c c' \<and> cl_had_session c' = cl_had_session c"
  proof (cases "cl_queued c = []")
    case True
    then have "ok" "c' = ?c" using assms(1,2) by (auto simp: flush_def)
    then show ?thesis using True assms(3) by (auto simp: extends_def intro: append_butlast_last_id [symmetric])
  next
    case False
    then have "ok = sent" "cl_link c' = cl_link c1" "cl_had_session c' = cl_had_session c"
      using assms(1,2) w lk by (auto simp: flush_def drop_connection_def Let_def split: if_splits)
    moreover have "extends (cl_queued c) sent c c1" using write_extends [OF w] assms(3) by (simp add: extends_def)
    ultimately show ?thesis by (simp add: extends_def)
  qed
  then show ?thesis using f same_buffer_keeps [OF f(1), of a fs ps] by simp
qed

section \<open>A connection that resumes the session\<close>

lemma filter_above: "sorted_wrt (<) ps \<Longrightarrow> \<exists>j. filter (\<lambda>p. (q :: nat) < p) ps = drop j ps"
proof (induction ps)
  case (Cons p ps)
  show ?case
  proof (cases "q < p")
    case True
    then have "filter (\<lambda>p. q < p) (p # ps) = p # ps" using Cons.prems by (auto intro!: filter_True)
    then show ?thesis by (intro exI [of _ 0]) simp
  next
    case False
    then show ?thesis using Cons by (auto intro: exI [of _ "Suc j" for j])
  qed
qed simp

lemma resumed_keeps:
  assumes "a \<noteq> 0" and k: "keeps a fs ps c" and n: "length fs < id_window" and q: "q < id_window"
    and r: "resuming q a reply" and lk: "lk_sent (cl_link c) \<noteq> []" and t: "take_answer reply c = (ok, c')"
  shows "keeps a fs (filter (\<lambda>p. q < p) ps) c' \<and> cl_queued c' = [] \<and> (cl_connected c' \<longleftrightarrow> ok) \<and> cl_had_session c'
    \<and> extends (bytes_at fs (filter (\<lambda>p. q < p) ps)) ok c c'"
proof -
  let ?ps = "filter (\<lambda>p. q < p) ps" and ?c1 = "c\<lparr> cl_connected := True, cl_had_session := True \<rparr>"
  let ?c2 = "(forget_acked (done_id a q) ?c1)\<lparr> cl_queued := [] \<rparr>"
  have num: "numbered a (length fs) ps c" and b: "buffer_ok c" and u: "cl_unacked c = map (asked_at fs) ps" using k by (simp_all add: keeps_def)
  have w: "window_ok q (length fs) ps" using n q by (auto simp: window_ok_def)
  note t' = take_resuming [OF assms(1) num b w r, unfolded t snd_conv]
  have rep: "replay (cl_unacked ?c2) ?c2 = (ok, c')" using r t magics by (simp add: take_answer_def resuming_def Let_def)
  have c2: "cl_connected ?c2" "cl_had_session ?c2" "cl_link ?c2 = cl_link c" "cl_replay_possible ?c2 = cl_replay_possible c"
    by (simp_all add: forget_acked_def split: prod.split)
  note s = replay_same [OF rep c2(1)]
  have u': "cl_unacked c' = map (asked_at fs) ?ps"
  proof -
    obtain j i where j: "cl_unacked c' = drop j (cl_unacked c)" and i: "?ps = drop i ps"
      using t'(1) filter_above [of ps q] num by (auto simp: numbered_def)
    have "map sf_req_id (cl_unacked c') = map (nth_id a) ?ps" using t'(2) by (simp add: numbered_def)
    then have "length (drop j ps) = length (drop i ps)" using j i u by (metis length_drop length_map)
    then have "drop j ps = drop i ps" by (metis diff_diff_cancel drop_eq_Nil length_drop nat_le_linear)
    then show ?thesis by (simp add: j i u drop_map)
  qed
  have "cl_replay_possible c'" using s c2(4) k by (simp add: same_buffer_def keeps_def)
  then have keeps: "keeps a fs ?ps c'" using t' u' by (simp add: keeps_def)
  have "lk_sent (cl_link ?c2) \<noteq> []" using lk by (simp only: c2(3) simp_thms)
  note e = replay_extends [OF rep this]
  have "cl_unacked ?c2 = cl_unacked c'" using s by (simp add: same_buffer_def)
  then have "frame_bytes (cl_unacked ?c2) = bytes_at fs ?ps" using u' by (simp add: bytes_at_def)
  then have "extends (bytes_at fs ?ps) ok c c'" using e unfolding extends_def c2(3) by simp
  moreover have "cl_had_session c'"
  proof -
    have "replay gs d = (k, d') \<Longrightarrow> cl_had_session d' = cl_had_session d" for gs d d' k
    proof (induction gs arbitrary: d)
      case (Cons g gs)
      obtain sent d1 where w: "write_bytes (sf_bytes g) d = (sent, d1)" by fastforce
      have "cl_had_session d1 = cl_had_session d" using write_bytes_cases [of "sf_bytes g" d] w by auto
      then show ?case using Cons w by (cases sent) auto
    qed simp
    from this [OF rep] c2(2) show ?thesis by simp
  qed
  ultimately show ?thesis using keeps s t'(4) by simp
qed

section \<open>The invariant\<close>

text \<open>What ran is the frames at \<open>rs\<close>, in order and with none passed over but those that failed.\<close>

definition ran_are :: "u32 \<Rightarrow> sent_frame list \<Rightarrow> nat set \<Rightarrow> nat list \<Rightarrow> 'd session
    \<Rightarrow> ((req_header \<times> byte list) \<times> byte list option) list \<Rightarrow> bool" where
  "ran_are a fs failed rs se log \<longleftrightarrow> completed a (last (0 # rs)) se \<and> positions (length fs) rs \<and> covers failed 0 (last (0 # rs)) rs
     \<and> map (\<lambda>x. enc_req_header (fst (fst x)) @ snd (fst x)) log = map (\<lambda>p. sf_bytes (asked_at fs p)) rs
     \<and> map (\<lambda>x. rq_req_id (fst (fst x))) log = map (nth_id a) rs"

text \<open>Every reply there is was sent for a frame that ran, and names it.\<close>

definition replies_are :: "byte list list \<Rightarrow> 'd session \<Rightarrow> ((req_header \<times> byte list) \<times> byte list option) list \<Rightarrow> bool" where
  "replies_are bss se log \<longleftrightarrow> (\<forall>bs \<in> set bss. Some bs \<in> snd ` set log)
     \<and> (se_last_reply se \<noteq> [] \<longrightarrow> Some (se_last_reply se) \<in> snd ` set log)
     \<and> (\<forall>x \<in> set log. \<forall>bs. snd x = Some bs \<longrightarrow> (\<exists>rh payload. bs = enc_rsp_header rh @ payload \<and> rs_req_id rh = rq_req_id (fst (fst x))))"

text \<open>What each connection carries, and that the serving thread has taken up the first frames of the one it reads.\<close>

definition follows :: "sent_frame list \<Rightarrow> nat set \<Rightarrow> nat \<Rightarrow> (nat \<times> nat list) list \<Rightarrow> byte list list \<Rightarrow> nat \<Rightarrow> nat \<Rightarrow> bool" where
  "follows fs failed q cs streams i r \<longleftrightarrow> list_all2 (carries fs failed) cs streams \<and> (\<forall>k \<in> set cs. fst k \<le> q)
     \<and> (if streams = [] then i = 0 \<and> r = 0
        else i < length streams \<and> (\<exists>t \<le> length (snd (cs ! i)). r = length (bytes_at fs (take t (snd (cs ! i))))
          \<and> (\<forall>p \<in> set (take t (snd (cs ! i))). p \<le> q)))"

text \<open>While the client is connected, what its connection carries and what is queued behind it go up to
  the last frame asked.\<close>

definition current :: "sent_frame list \<Rightarrow> nat set \<Rightarrow> (nat \<times> nat list) list \<Rightarrow> client \<Rightarrow> bool" where
  "current fs failed cs c \<longleftrightarrow> (if cl_connected c
     then (\<exists>cs' b us streams stream vs. cs = cs' @ [(b, us)] \<and> lk_sent (cl_link c) = streams @ [stream]
       \<and> drop 32 stream = bytes_at fs us \<and> cl_queued c = bytes_at fs vs \<and> positions (length fs) (us @ vs)
       \<and> (\<forall>p \<in> set (us @ vs). b < p) \<and> covers failed b (length fs) (us @ vs))
     else cl_queued c = [])"

definition offered :: "u32 \<Rightarrow> nat \<Rightarrow> nat \<Rightarrow> nat \<Rightarrow> client \<Rightarrow> bool \<Rightarrow> handshake_reply option \<Rightarrow> bool" where
  "offered a g q n c begun offer \<longleftrightarrow> (\<not> cl_had_session c \<longrightarrow> n = 0) \<and> (\<not> begun \<longrightarrow> \<not> cl_had_session c \<and> offer = None)
     \<and> (cl_connected c \<longrightarrow> cl_had_session c \<and> offer = None)
     \<and> (\<forall>reply. offer = Some reply \<longrightarrow> hr_magic reply = kMagicHello \<and> hr_version reply = kProtocolVersion
        \<and> (if hr_resumed reply = 0 then \<not> cl_had_session c else (\<exists>p. g \<le> p \<and> p \<le> q \<and> resuming p a reply)))"

text \<open>The client was told of the frames up to \<open>g\<close>, and keeps those behind it, at \<open>ps\<close>.\<close>

definition system_ok :: "u32 \<Rightarrow> nat \<Rightarrow> nat list \<Rightarrow> nat list \<Rightarrow> (nat \<times> nat list) list \<Rightarrow> 'd system \<Rightarrow> bool" where
  "system_ok a g ps rs cs s \<longleftrightarrow> (let fs = sy_asked s; failed = set (sy_failed s); c = sy_client s; q = last (0 # rs) in
     asked_ok a fs \<and> keeps a fs ps c \<and> g \<le> q \<and> covers failed g (length fs) ps \<and> ran_are a fs failed rs (sy_session s) (sy_ran s)
     \<and> replies_are (sy_replies s) (sy_session s) (sy_ran s)
     \<and> follows fs failed q cs (lk_sent (cl_link c)) (sy_serving s) (sy_read s) \<and> current fs failed cs c
     \<and> offered a g q (length fs) c (sy_begun s) (sy_offer s))"

section \<open>Growing\<close>

lemma covers_less: "covers failed b n ps \<Longrightarrow> m \<le> n \<Longrightarrow> covers failed b m ps"
  by (auto simp: covers_def)

lemma last_position: "positions n ps \<Longrightarrow> last (0 # ps) \<le> n"
  by (cases "ps = []") (auto simp: positions_def)

lemma ran_are_grown:
  assumes "ran_are a fs failed rs se log" and "failed \<subseteq> failed'"
  shows "ran_are a (fs @ gs) failed' rs se log"
proof -
  have "sf_bytes (asked_at (fs @ gs) p) = sf_bytes (asked_at fs p)" if "p \<in> set rs" for p
    using assms(1) that by (simp add: ran_are_def positions_def asked_at_grown)
  then have "map (\<lambda>p. sf_bytes (asked_at (fs @ gs) p)) rs = map (\<lambda>p. sf_bytes (asked_at fs p)) rs" by simp
  then show ?thesis using assms covers_grown [of failed 0 "last (0 # rs)" rs rs failed']
    by (auto simp: ran_are_def intro: positions_grown)
qed

lemma follows_grown:
  assumes "follows fs failed q cs streams i r" and "failed \<subseteq> failed'"
  shows "follows (fs @ gs) failed' q cs streams i r"
proof -
  have all: "list_all2 (carries fs failed) cs streams" using assms(1) by (simp add: follows_def)
  then have "list_all2 (carries (fs @ gs) failed') cs streams"
    by (rule list_all2_mono) (rule carries_grown [OF _ assms(2)])
  moreover have "bytes_at (fs @ gs) (take t (snd (cs ! i))) = bytes_at fs (take t (snd (cs ! i)))" if "i < length streams" for t
  proof -
    have "carries fs failed (cs ! i) (streams ! i)" using all that by (auto simp: list_all2_conv_all_nth)
    then have "positions (length fs) (snd (cs ! i))" by (auto simp: carries_def)
    then have "positions (length fs) (take t (snd (cs ! i)))" by (auto simp: positions_def sorted_wrt_take dest: in_set_takeD)
    then show ?thesis by (rule bytes_at_grown)
  qed
  ultimately show ?thesis using assms(1) by (auto simp: follows_def split: if_splits)
qed

lemma follows_later: "follows fs failed q cs streams i r \<Longrightarrow> q \<le> q' \<Longrightarrow> follows fs failed q' cs streams i r"
  by (fastforce simp: follows_def split: if_splits)

lemma list_all2_snoc: "list_all2 P (xs @ [x]) (ys @ [y]) \<longleftrightarrow> list_all2 P xs ys \<and> P x y"
  by (cases "length xs = length ys") (auto simp: list_all2_append dest: list_all2_lengthD)

lemma follows_new:
  assumes f: "follows fs failed q cs streams i r" and k: "carries fs failed k stream" "fst k \<le> q"
  shows "follows fs failed q (cs @ [k]) (streams @ [stream]) i r"
proof -
  have l: "length cs = length streams" using f by (auto simp: follows_def list_all2_lengthD)
  have all: "list_all2 (carries fs failed) (cs @ [k]) (streams @ [stream])"
    using f k(1) by (simp add: follows_def list_all2_appendI)
  show ?thesis
  proof (cases "streams = []")
    case True
    then have "i = 0" "r = 0" "cs = []" using f l by (simp_all add: follows_def)
    then show ?thesis using all k True by (simp add: follows_def) (rule exI [of _ 0], simp)
  next
    case False
    then show ?thesis using f all k(2) l by (auto simp: follows_def nth_append)
  qed
qed

lemma follows_extended:
  assumes f: "follows fs failed q (cs @ [(b, us)]) (streams @ [stream]) i r" and k: "carries fs failed (b, us @ vs) stream'"
  shows "follows fs failed q (cs @ [(b, us @ vs)]) (streams @ [stream']) i r"
proof -
  have a: "list_all2 (carries fs failed) (cs @ [(b, us)]) (streams @ [stream])" using f by (simp add: follows_def)
  then have l: "length cs = length streams" using list_all2_lengthD by fastforce
  have "list_all2 (carries fs failed) cs streams" using a l by (simp add: list_all2_append)
  then have all: "list_all2 (carries fs failed) (cs @ [(b, us @ vs)]) (streams @ [stream'])"
    using k l by (simp add: list_all2_append)
  obtain t where t: "t \<le> length (snd ((cs @ [(b, us)]) ! i))" "r = length (bytes_at fs (take t (snd ((cs @ [(b, us)]) ! i))))"
    "\<forall>p \<in> set (take t (snd ((cs @ [(b, us)]) ! i))). p \<le> q" "i < Suc (length cs)" using f l by (auto simp: follows_def)
  have "take t (snd ((cs @ [(b, us @ vs)]) ! i)) = take t (snd ((cs @ [(b, us)]) ! i))"
    "t \<le> length (snd ((cs @ [(b, us @ vs)]) ! i))"
    using t(1,4) by (cases "i = length cs"; simp add: nth_append)+
  then show ?thesis using f all t l by (auto simp: follows_def)
qed

lemma carries_extended:
  assumes "carries fs failed (b, us) stream" and "drop 32 stream = bytes_at fs us" and "positions (length fs) (us @ vs)"
    and "\<forall>p \<in> set (us @ vs). b < p" and "covers failed b (length fs) (us @ vs)"
  shows "carries fs failed (b, us @ vs) (stream @ take m (bytes_at fs vs))"
proof -
  have "32 \<le> length stream" using assms(1) by (simp add: carries_def)
  then have "drop 32 (stream @ take m (bytes_at fs vs)) = take (length (bytes_at fs us) + m) (bytes_at fs (us @ vs))"
    using assms(2) by simp
  moreover have "last (b # us @ vs) \<le> length fs \<or> last (b # us @ vs) = b"
    using assms(3) last_in_set [of "us @ vs"] unfolding positions_def by (cases "us @ vs = []") auto
  then have "covers failed b (last (b # us @ vs)) (us @ vs)"
  proof
    assume "last (b # us @ vs) \<le> length fs"
    then show ?thesis by (rule covers_less [OF assms(5)])
  next
    assume "last (b # us @ vs) = b"
    then have "covers failed b (last (b # us @ vs)) (us @ vs) = covers failed b b (us @ vs)" by (simp only:)
    then show ?thesis by (simp only: covers_def) auto
  qed
  ultimately have "\<exists>j. drop 32 (stream @ take m (bytes_at fs vs)) = take j (bytes_at fs (us @ vs))"
    and "covers failed b (last (b # us @ vs)) (us @ vs)" by blast+
  then show ?thesis using assms(1,3,4) unfolding carries_def by simp
qed

section \<open>Every move keeps it\<close>

lemma same_move:
  assumes "system_ok a g ps rs cs s" and "keeps a (sy_asked s) ps c" and "lk_sent (cl_link c) = lk_sent (cl_link (sy_client s))"
    and "cl_had_session c = cl_had_session (sy_client s)" and "cl_connected c \<longrightarrow> cl_connected (sy_client s)"
    and "current (sy_asked s) (set (sy_failed s)) cs c"
  shows "system_ok a g ps rs cs (s\<lparr> sy_client := c \<rparr>)"
  using assms by (auto simp: system_ok_def offered_def Let_def)

lemma current_down: "\<not> cl_connected c \<Longrightarrow> cl_queued c = [] \<Longrightarrow> current fs failed cs c"
  by (simp add: current_def)

lemma currentI:
  "cl_connected c \<Longrightarrow> lk_sent (cl_link c) = streams @ [stream] \<Longrightarrow> drop 32 stream = bytes_at fs us \<Longrightarrow>
   cl_queued c = bytes_at fs vs \<Longrightarrow> positions (length fs) (us @ vs) \<Longrightarrow> \<forall>p \<in> set (us @ vs). b < p \<Longrightarrow>
   covers failed b (length fs) (us @ vs) \<Longrightarrow> current fs failed (cs @ [(b, us)]) c"
  unfolding current_def by auto

lemma current_same:
  "current fs failed cs c \<Longrightarrow> cl_connected c' = cl_connected c \<Longrightarrow> cl_queued c' = cl_queued c \<Longrightarrow>
   lk_sent (cl_link c') = lk_sent (cl_link c) \<Longrightarrow> current fs failed cs c'"
  unfolding current_def by (simp only:)

lemma shakes_ok:
  assumes "system_ok a g ps rs cs s" and "\<not> cl_connected (sy_client s)"
  shows "system_ok a g ps rs cs (s\<lparr> sy_begun := True,
    sy_offer := Some (fst (handshake_answer hello (sy_begun s) (completion_of (sy_session s)))) \<rparr>)"
proof -
  have c: "completed a (last (0 # rs)) (sy_session s)" using assms by (simp add: system_ok_def Let_def ran_are_def)
  then have "resuming (last (0 # rs)) a (fst (handshake_answer hello True (completion_of (sy_session s))))"
    by (rule answer_resuming)
  then show ?thesis using assms by (cases "sy_begun s") (auto simp: system_ok_def Let_def offered_def handshake_answer_def)
qed

lemma empty_carries: "carries fs failed (0, []) (enc_handshake hello)"
  by (simp add: carries_def positions_def covers_def)

text \<open>An attempt to connect that is not answered, or turned away.\<close>

lemma unanswered_ok:
  assumes ok: "system_ok a g ps rs cs s" and "\<not> cl_connected (sy_client s)"
    and "x = Unreachable \<or> x = Unanswered \<or> (\<exists>busy. x = Answer busy \<and> hr_magic busy = kMagicBusy)"
    and e: "ensure_connected (faced [x] ws [] (sy_client s)) = (k, c)"
  shows "\<exists>cs'. system_ok a g ps rs cs' (s\<lparr> sy_client := c \<rparr>)"
proof -
  let ?c = "sy_client s"
  have q: "cl_queued ?c = []" and ks: "keeps a (sy_asked s) ps ?c" using ok assms(2) by (simp_all add: system_ok_def Let_def current_def)
  have c: "\<not> cl_connected c \<and> cl_queued c = [] \<and> cl_had_session c = cl_had_session ?c \<and> keeps a (sy_asked s) ps c
    \<and> (lk_sent (cl_link c) = lk_sent (cl_link ?c) \<or> (\<exists>hello. lk_sent (cl_link c) = lk_sent (cl_link ?c) @ [enc_handshake hello]))"
    using e assms(2,3) q ks by (auto simp: ensure_connected_def take_answer_def Let_def split: if_splits) blast+
  then have down: "current (sy_asked s) (set (sy_failed s)) cs' c" for cs' by (simp add: current_down)
  from c have sent: "lk_sent (cl_link c) = lk_sent (cl_link ?c) \<or> (\<exists>hello. lk_sent (cl_link c) = lk_sent (cl_link ?c) @ [enc_handshake hello])"
    by blast
  then show ?thesis
  proof (elim disjE exE)
    assume "lk_sent (cl_link c) = lk_sent (cl_link ?c)"
    then show ?thesis using same_move [OF ok _ _ _ _ down] c by blast
  next
    fix hello assume l: "lk_sent (cl_link c) = lk_sent (cl_link ?c) @ [enc_handshake hello]"
    have "follows (sy_asked s) (set (sy_failed s)) (last (0 # rs)) (cs @ [(0, [])]) (lk_sent (cl_link c)) (sy_serving s) (sy_read s)"
      unfolding l by (rule follows_new) (use ok in \<open>simp_all add: system_ok_def Let_def empty_carries\<close>)
    then have "system_ok a g ps rs (cs @ [(0, [])]) (s\<lparr> sy_client := c \<rparr>)" using ok c down
      by (auto simp: system_ok_def Let_def offered_def)
    then show ?thesis ..
  qed
qed

lemma extends_new:
  assumes "extends bs ok c c'" and "lk_sent (cl_link c) = streams @ [stream]"
  shows "\<exists>m. lk_sent (cl_link c') = streams @ [stream @ take m bs] \<and> (ok \<longrightarrow> take m bs = bs)"
  using assms by (auto simp: extends_def)

text \<open>A connection that resumes the session carries what the client keeps behind the count it was given.\<close>

lemma kept_behind:
  assumes "positions (length fs) ps" and "covers failed g (length fs) ps" and "g \<le> p"
  shows "positions (length fs) (filter (\<lambda>x. p < x) ps)" and "covers failed p (length fs) (filter (\<lambda>x. p < x) ps)"
  using assms by (auto simp: positions_def covers_def sorted_wrt_filter)

lemma fresh_carries:
  assumes "positions (length fs) us" and "\<forall>x \<in> set us. p < x" and "covers failed p (length fs) us"
  shows "carries fs failed (p, us) (enc_handshake hello @ take m (bytes_at fs us))"
proof -
  have "carries fs failed (p, []) (enc_handshake hello)" by (auto simp: carries_def positions_def covers_def)
  from carries_extended [OF this, of us m] assms show ?thesis by simp
qed

lemma connects_ok:
  assumes "a \<noteq> 0" and ok: "system_ok a g ps rs cs s" and n: "length (sy_asked s) < id_window" and down: "\<not> cl_connected (sy_client s)"
    and o: "sy_offer s = Some reply" and e: "ensure_connected (faced [Answer reply] ws [] (sy_client s)) = (k, c)"
  shows "\<exists>g' ps' cs'. system_ok a g' ps' rs cs' (s\<lparr> sy_client := c, sy_offer := None \<rparr>)"
proof -
  let ?c = "sy_client s" and ?fs = "sy_asked s" and ?F = "set (sy_failed s)" and ?q = "last (0 # rs)"
  let ?d = "faced [Answer reply] ws [] ?c"
  let ?d1 = "?d\<lparr> cl_link := (cl_link ?d)\<lparr> lk_connects := [], lk_sent := lk_sent (cl_link ?d) @ [enc_handshake (client_hello ?d)] \<rparr> \<rparr>"
  have ks: "keeps a ?fs ps ?c" and g: "g \<le> ?q" "covers ?F g (length ?fs) ps" and q: "cl_queued ?c = []"
    and fol: "follows ?fs ?F ?q cs (lk_sent (cl_link ?c)) (sy_serving s) (sy_read s)" and rn: "positions (length ?fs) rs"
    and off: "offered a g ?q (length ?fs) ?c (sy_begun s) (Some reply)"
    using ok down o by (simp_all add: system_ok_def Let_def current_def ran_are_def)
  have hello: "hr_magic reply = kMagicHello" "hr_version reply = kProtocolVersion" "sy_begun s" using off by (simp_all add: offered_def)
  show ?thesis
  proof (cases "cl_session_gone ?c \<or> cl_connect_failed ?c")
    case True
    then have "c = ?d" using e down by (auto simp: ensure_connected_def)
    then have "system_ok a g ps rs cs (s\<lparr> sy_client := c, sy_offer := None \<rparr>)"
      using ok down by (auto simp: system_ok_def Let_def offered_def current_def)
    then show ?thesis by blast
  next
    case False
    then have t: "take_answer reply ?d1 = (k, c)" using e down by (simp add: ensure_connected_def Let_def)
    show ?thesis
    proof (cases "hr_resumed reply = 0")
      case True
      then have had: "\<not> cl_had_session ?c" "length ?fs = 0" using off by (simp_all add: offered_def)
      then have c: "k" "c = ?d1\<lparr> cl_connected := True, cl_had_session := True \<rparr>"
        using t True hello magics by (auto simp: take_answer_def Let_def)
      have "follows ?fs ?F ?q (cs @ [(0, [])]) (lk_sent (cl_link c)) (sy_serving s) (sy_read s)"
        unfolding c(2) using follows_new [OF fol empty_carries] by simp
      moreover have "current ?fs ?F (cs @ [(0, [])]) c"
        by (rule currentI [where vs = "[]"]) (use c had(2) q in \<open>auto simp: positions_def covers_def\<close>)
      ultimately have "system_ok a g ps rs (cs @ [(0, [])]) (s\<lparr> sy_client := c, sy_offer := None \<rparr>)"
        using ok c ks hello(3) by (auto simp: system_ok_def Let_def offered_def)
      then show ?thesis by blast
    next
      case res: False
      then obtain p where p: "g \<le> p" "p \<le> ?q" "resuming p a reply" using off by (auto simp: offered_def)
      let ?us = "filter (\<lambda>x. p < x) ps"
      have pn: "p < id_window" using p(2) n last_position [OF rn] by simp
      have d1: "keeps a ?fs ps ?d1" "lk_sent (cl_link ?d1) \<noteq> []" using ks by simp_all
      note r = resumed_keeps [OF assms(1) d1(1) n pn p(3) d1(2) t]
      have "lk_sent (cl_link ?d1) = lk_sent (cl_link ?c) @ [enc_handshake (client_hello ?d)]" by simp
      from extends_new [OF conjunct2 [OF conjunct2 [OF conjunct2 [OF conjunct2 [OF r]]]] this] obtain m
        where m: "lk_sent (cl_link c) = lk_sent (cl_link ?c) @ [enc_handshake (client_hello ?d) @ take m (bytes_at ?fs ?us)]"
          "k \<longrightarrow> take m (bytes_at ?fs ?us) = bytes_at ?fs ?us" by blast
      note b = kept_behind [OF keeps_positions [OF ks] g(2) p(1)]
      have above: "\<forall>x \<in> set ?us. p < x" by simp
      have "follows ?fs ?F ?q (cs @ [(p, ?us)]) (lk_sent (cl_link c)) (sy_serving s) (sy_read s)"
        unfolding m(1) by (rule follows_new [OF fol fresh_carries [OF b(1) above b(2)]]) (use p(2) in simp)
      moreover have "current ?fs ?F (cs @ [(p, ?us)]) c"
      proof (cases k)
        case True
        have "cl_connected c" "cl_queued c = bytes_at ?fs []" using r True by simp_all
        moreover have "lk_sent (cl_link c) = lk_sent (cl_link ?c) @ [enc_handshake (client_hello ?d) @ bytes_at ?fs ?us]"
          using m True by simp
        moreover have "drop 32 (enc_handshake (client_hello ?d) @ bytes_at ?fs ?us) = bytes_at ?fs ?us" by simp
        moreover have "positions (length ?fs) (?us @ [])" "\<forall>x \<in> set (?us @ []). p < x" "covers ?F p (length ?fs) (?us @ [])"
          using b above by (simp_all only: append_Nil2)
        ultimately show ?thesis
          using currentI [of c "lk_sent (cl_link ?c)" "enc_handshake (client_hello ?d) @ bytes_at ?fs ?us" ?fs ?us "[]" p ?F cs] by blast
      next
        case False
        then show ?thesis using r by (simp add: current_down)
      qed
      ultimately have "system_ok a p ?us rs (cs @ [(p, ?us)]) (s\<lparr> sy_client := c, sy_offer := None \<rparr>)"
        using ok r p b(2) hello(3) by (auto simp: system_ok_def Let_def offered_def)
      then show ?thesis by blast
    qed
  qed
qed

lemma asks_ok:
  assumes ok: "system_ok a g ps rs cs s" and con: "cl_connected (sy_client s)"
    and q: "queue_frame api payload flags tid (sy_client s) = (rid, c)" and rp: "cl_replay_possible c"
  shows "\<exists>ps'. system_ok a g ps' rs cs (s\<lparr> sy_client := c, sy_replies := [],
    sy_asked := sy_asked s @ drop (length (cl_unacked (sy_client s))) (cl_unacked c) \<rparr>)"
proof -
  let ?c = "sy_client s" and ?fs = "sy_asked s" and ?F = "set (sy_failed s)" and ?q = "last (0 # rs)" and ?n = "length (sy_asked s)"
  have ks: "keeps a ?fs ps ?c" and ao: "asked_ok a ?fs" and cov: "covers ?F g ?n ps"
    and rn: "ran_are a ?fs ?F rs (sy_session s) (sy_ran s)" and cur: "current ?fs ?F cs ?c"
    and fol: "follows ?fs ?F ?q cs (lk_sent (cl_link ?c)) (sy_serving s) (sy_read s)"
    and off: "offered a g ?q ?n ?c (sy_begun s) (sy_offer s)"
    using ok by (simp_all add: system_ok_def Let_def)
  from queue_frame_adds [OF ks q rp] obtain gs where gs: "list_all whole_frame gs"
    "map sf_req_id gs = map (nth_id a) [Suc ?n..<Suc (?n + length gs)]"
    "keeps a (?fs @ gs) (ps @ [Suc ?n..<Suc (?n + length gs)]) c" "cl_unacked c = cl_unacked ?c @ gs"
    "cl_queued c = cl_queued ?c @ frame_bytes gs" "cl_link c = cl_link ?c" "cl_connected c = cl_connected ?c"
    "cl_had_session c = cl_had_session ?c" by blast
  define new where "new = [Suc ?n..<Suc (?n + length gs)]"
  have new: "positions (?n + length gs) new" "set new = {Suc ?n..?n + length gs}" by (auto simp: new_def positions_def simp del: upt_Suc)
  have bytes: "bytes_at (?fs @ gs) new = frame_bytes gs"
  proof -
    have "map (asked_at (?fs @ gs)) new = gs"
      by (rule nth_equalityI) (simp_all add: new_def asked_at_def nth_append del: upt_Suc)
    then show ?thesis by (simp only: bytes_at_def)
  qed
  have "covers ?F b (?n + length gs) (us @ new)" if "covers ?F b ?n us" for b us
    using that unfolding covers_def set_append new(2) by auto
  note grown = this
  have "current (?fs @ gs) ?F cs c"
  proof -
    from cur con obtain cs' b us streams stream vs where u: "cs = cs' @ [(b, us)]" "lk_sent (cl_link ?c) = streams @ [stream]"
      "drop 32 stream = bytes_at ?fs us" "cl_queued ?c = bytes_at ?fs vs" "positions ?n (us @ vs)" "\<forall>p \<in> set (us @ vs). b < p"
      "covers ?F b ?n (us @ vs)" by (auto simp: current_def)
    have b: "b \<le> ?n" using fol rn last_position [of ?n rs] u(1) by (auto simp: follows_def ran_are_def)
    have old: "positions ?n us" "positions ?n vs" using u(5) by (simp_all add: positions_append)
    have "p \<le> ?n" if "p \<in> set (us @ vs)" for p using u(5) that by (simp add: positions_def)
    then have "\<forall>p \<in> set (us @ vs). \<forall>x \<in> set new. p < x" unfolding new(2) by (meson Suc_le_lessD atLeastAtMost_iff le_less_trans)
    then have "positions (?n + length gs) ((us @ vs) @ new)"
      unfolding positions_append [of _ "us @ vs" new] using positions_grown [OF u(5), of "?n + length gs"] new(1) by simp
    then have "positions (?n + length gs) (us @ vs @ new)" by simp
    moreover have "covers ?F b (?n + length gs) (us @ vs @ new)" using grown [OF u(7)] by simp
    moreover have "\<forall>p \<in> set (us @ vs @ new). b < p" using u(6) new(2) b by auto
    moreover have "cl_queued c = bytes_at (?fs @ gs) (vs @ new)" using gs(5) u(4) bytes bytes_at_grown [OF old(2)] by simp
    moreover have "drop 32 stream = bytes_at (?fs @ gs) us" using u(3) bytes_at_grown [OF old(1)] by simp
    ultimately show ?thesis unfolding u(1) using con gs(6,7) u(2) by (intro currentI) (simp_all only: length_append)
  qed
  moreover have "asked_ok a (?fs @ gs)" by (rule asked_ok_grown [OF ao gs(1,2)])
  moreover have "offered a g ?q (?n + length gs) c (sy_begun s) (sy_offer s)"
    using off con gs(7,8) fol cur by (auto simp: offered_def)
  ultimately have "system_ok a g (ps @ new) rs cs (s\<lparr> sy_client := c, sy_replies := [], sy_asked := ?fs @ gs \<rparr>)"
    using ok gs(3,6) [folded new_def] grown [OF cov] ran_are_grown [OF rn subset_refl] follows_grown [OF fol subset_refl]
    by (simp add: system_ok_def Let_def replies_are_def)
  then show ?thesis using gs(4) by auto
qed

lemma writes_ok:
  assumes ok: "system_ok a g ps rs cs s" and f: "flush (faced [] ws [] (sy_client s)) = (k, c)"
  shows "\<exists>cs'. system_ok a g ps rs cs' (s\<lparr> sy_client := c \<rparr>)"
proof (cases "cl_connected (sy_client s)")
  case False
  let ?c = "sy_client s"
  have "c = faced [] ws [] ?c" using f False by (auto simp: flush_def)
  moreover have "current (sy_asked s) (set (sy_failed s)) cs (faced [] ws [] ?c)"
    by (rule current_same [of _ _ _ ?c]) (use ok in \<open>simp_all add: system_ok_def Let_def\<close>)
  ultimately have "system_ok a g ps rs cs (s\<lparr> sy_client := c \<rparr>)"
    by (intro same_move [OF ok]) (use ok in \<open>simp_all add: system_ok_def Let_def\<close>)
  then show ?thesis ..
next
  case True
  let ?c = "sy_client s" and ?fs = "sy_asked s" and ?F = "set (sy_failed s)" and ?q = "last (0 # rs)" and ?n = "length (sy_asked s)"
  have cur: "current ?fs ?F cs ?c" and fol: "follows ?fs ?F ?q cs (lk_sent (cl_link ?c)) (sy_serving s) (sy_read s)"
    using ok by (simp_all add: system_ok_def Let_def)
  from cur True obtain cs' b us streams stream vs where u: "cs = cs' @ [(b, us)]" "lk_sent (cl_link ?c) = streams @ [stream]"
    "drop 32 stream = bytes_at ?fs us" "cl_queued ?c = bytes_at ?fs vs" "positions ?n (us @ vs)" "\<forall>p \<in> set (us @ vs). b < p"
    "covers ?F b ?n (us @ vs)" by (auto simp: current_def)
  have w: "keeps a ?fs ps c = keeps a ?fs ps ?c" "cl_queued c = []" "cl_connected c \<longleftrightarrow> k" "cl_had_session c = cl_had_session ?c"
    "extends (cl_queued ?c) k ?c c" using flush_writes [OF f True, of a ?fs ps] u(2) by auto
  from extends_new [OF w(5) u(2)] obtain m where m: "lk_sent (cl_link c) = streams @ [stream @ take m (bytes_at ?fs vs)]"
    "k \<longrightarrow> take m (bytes_at ?fs vs) = bytes_at ?fs vs" using u(4) by auto
  have "list_all2 (carries ?fs ?F) cs (streams @ [stream])" using fol u(2) by (simp add: follows_def)
  then have car: "carries ?fs ?F (b, us) stream" using u(1) by (simp add: list_all2_snoc)
  have "follows ?fs ?F ?q (cs' @ [(b, us @ vs)]) (lk_sent (cl_link c)) (sy_serving s) (sy_read s)"
    unfolding m(1) by (rule follows_extended [OF _ carries_extended [OF car u(3,5,6,7)]]) (use fol u(1,2) in simp)
  moreover have "current ?fs ?F (cs' @ [(b, us @ vs)]) c"
  proof (cases k)
    case True
    have "32 \<le> length stream" using car by (simp add: carries_def)
    then have "drop 32 (stream @ bytes_at ?fs vs) = bytes_at ?fs (us @ vs)" using u(3) by simp
    moreover have "lk_sent (cl_link c) = streams @ [stream @ bytes_at ?fs vs]" using m True by simp
    ultimately show ?thesis using currentI [of c streams _ ?fs "us @ vs" "[]" b ?F cs'] w(2,3) u(5,6,7) True by simp
  next
    case False
    then show ?thesis using w(2,3) by (simp add: current_down)
  qed
  ultimately have "system_ok a g ps rs (cs' @ [(b, us @ vs)]) (s\<lparr> sy_client := c \<rparr>)"
    using ok w(1,3,4) True by (auto simp: system_ok_def Let_def offered_def)
  then show ?thesis ..
qed

end
