(* ===== verification/JourneyLaws.thy ===== *)
theory JourneyLaws
  imports Journey
begin

text \<open>
  What holds however the client and the server of a session come along (\<^verbatim>\<open>Journey\<close>): what the server ran
  is what the application asked, and a reply is one to the call it is taken for.
\<close>

section \<open>The other moves of the client\<close>

lemma retries_ok:
  assumes "system_ok a g ps rs cs s"
  shows "system_ok a g ps rs cs (s\<lparr> sy_client := (sy_client s)\<lparr> cl_connect_failed := b \<rparr> \<rparr>)"
proof (rule same_move [OF assms])
  have "current (sy_asked s) (set (sy_failed s)) cs (sy_client s)" using assms by (simp add: system_ok_def Let_def)
  then show "current (sy_asked s) (set (sy_failed s)) cs ((sy_client s)\<lparr> cl_connect_failed := b \<rparr>)"
    by (rule current_same) simp_all
qed (use assms in \<open>simp_all add: system_ok_def Let_def\<close>)

lemma drops_ok:
  assumes "system_ok a g ps rs cs s" and "cl_queued (sy_client s) = []"
  shows "system_ok a g ps rs cs (s\<lparr> sy_client := drop_connection (sy_client s) \<rparr>)"
  using assms by (intro same_move [OF assms(1)] current_down) (simp_all add: drop_connection_def system_ok_def Let_def)

lemma exits_ok:
  assumes "system_ok a g ps rs cs s"
  shows "system_ok a g ps rs cs (s\<lparr> sy_client := retire_client_thread tid (sy_client s) \<rparr>)"
proof (rule same_move [OF assms])
  have "keeps a (sy_asked s) ps (sy_client s)" using assms by (simp add: system_ok_def Let_def)
  then show "keeps a (sy_asked s) ps (retire_client_thread tid (sy_client s))"
    by (auto simp: keeps_def numbered_def buffer_ok_def retire_client_thread_def)
  have "current (sy_asked s) (set (sy_failed s)) cs (sy_client s)" using assms by (simp add: system_ok_def Let_def)
  then show "current (sy_asked s) (set (sy_failed s)) cs (retire_client_thread tid (sy_client s))"
    by (rule current_same) (simp_all add: retire_client_thread_def)
qed (simp_all add: retire_client_thread_def)

text \<open>The last frame asked.\<close>

lemma last_asked_id:
  assumes "asked_ok a (sy_asked s)" and "sy_asked s \<noteq> []"
  shows "last_asked s = nth_id a (length (sy_asked s))"
proof -
  have "asked_at (sy_asked s) (length (sy_asked s)) = last (sy_asked s)" using assms(2) by (simp add: asked_at_def last_conv_nth)
  then show ?thesis using asked_id(1) [OF assms(1), of "length (sy_asked s)"] assms(2) by (simp add: last_asked_def)
qed

lemma abandon_keeps:
  assumes "a \<noteq> 0" and k: "keeps a fs ps c" and n: "length fs < id_window" and "fs \<noteq> []"
  shows "\<exists>ps'. keeps a fs ps' (abandon_call (nth_id a (length fs)) c) \<and> (ps' = ps \<or> insert (length fs) (set ps') = set ps)"
proof -
  let ?N = "length fs" and ?c' = "abandon_call (nth_id a (length fs)) c"
  have num: "numbered a ?N ps c" and b: "buffer_ok c" and rp: "cl_replay_possible c" and u: "cl_unacked c = map (asked_at fs) ps"
    using k by (simp_all add: keeps_def)
  have b': "buffer_ok ?c'" using abandon_ok(2) [OF num b] .
  show ?thesis
  proof (cases "ps \<noteq> [] \<and> sf_req_id (last (cl_unacked c)) = nth_id a ?N")
    case True
    then have ids: "cl_unacked ?c' = map (asked_at fs) (butlast ps)" "cl_next_req ?c' = cl_next_req c" "cl_replay_possible ?c' = cl_replay_possible c"
      using u by (simp_all add: abandon_call_def Let_def map_butlast)
    have "map sf_req_id (cl_unacked ?c') = map (nth_id a) (butlast ps)"
      using ids(1) num u unfolding numbered_def by (metis map_butlast)
    moreover have "sorted_wrt (<) (butlast ps)" using num True by (metis append_butlast_last_id numbered_def sorted_wrt_append)
    ultimately have "keeps a fs (butlast ps) ?c'" using ids b' rp num by (auto simp: keeps_def numbered_def dest: in_set_butlastD)
    moreover have "last ps = ?N"
    proof (rule id_position [OF assms(1)])
      have "last ps \<in> set ps" using True by simp
      then show "0 < last ps" "last ps < id_window" using num n by (auto simp: numbered_def)
      have "map sf_req_id (cl_unacked c) = map (nth_id a) ps" using num by (simp add: numbered_def)
      moreover have "cl_unacked c \<noteq> []" using True u by simp
      ultimately show "nth_id a (last ps) = nth_id a ?N" using last_map_id [of sf_req_id "cl_unacked c" "nth_id a" ps] True by metis
    qed (use n assms(4) in simp_all)
    then have "insert ?N (set (butlast ps)) = set ps" using True append_butlast_last_id [of ps]
      by (metis Un_insert_right list.simps(15) set_append sup_bot.right_neutral empty_set)
    ultimately show ?thesis by blast
  next
    case False
    then have "?c' = c\<lparr> cl_last_reply := nth_id a ?N, cl_connected := False \<rparr>" using u by (auto simp: abandon_call_def Let_def)
    then show ?thesis using k by auto
  qed
qed

lemma gives_up_ok:
  assumes "a \<noteq> 0" and ok: "system_ok a g ps rs cs s" and n: "length (sy_asked s) < id_window" and "sy_asked s \<noteq> []"
    and q: "cl_queued (sy_client s) = []"
  shows "\<exists>ps'. system_ok a g ps' rs cs (s\<lparr> sy_client := snd (give_up_call (last_asked s) (sy_client s)),
       sy_failed := length (sy_asked s) # sy_failed s \<rparr>)"
proof -
  let ?c = "sy_client s" and ?fs = "sy_asked s" and ?F = "set (sy_failed s)" and ?N = "length (sy_asked s)"
  let ?c' = "abandon_call (nth_id a ?N) ?c"
  have ks: "keeps a ?fs ps ?c" and ao: "asked_ok a ?fs" and cov: "covers ?F g ?N ps"
    and rn: "ran_are a ?fs ?F rs (sy_session s) (sy_ran s)"
    and fol: "follows ?fs ?F (last (0 # rs)) cs (lk_sent (cl_link ?c)) (sy_serving s) (sy_read s)"
    using ok by (simp_all add: system_ok_def Let_def)
  obtain ps' where ps': "keeps a ?fs ps' ?c'" "ps' = ps \<or> insert ?N (set ps') = set ps"
    using abandon_keeps [OF assms(1) ks n assms(4)] by blast
  have c': "snd (give_up_call (last_asked s) ?c) = ?c'" using last_asked_id [OF ao assms(4)] by (simp add: give_up_call_def)
  have l: "cl_link ?c' = cl_link ?c" "cl_had_session ?c' = cl_had_session ?c" "\<not> cl_connected ?c'" "cl_queued ?c' = []"
    using q by (simp_all add: abandon_call_def Let_def)
  have "covers (insert ?N ?F) g ?N ps'" using cov ps'(2) by (auto simp: covers_def)
  moreover have "ran_are a ?fs (insert ?N ?F) rs (sy_session s) (sy_ran s)"
    using ran_are_grown [OF rn, of "insert ?N ?F" "[]"] by auto
  moreover have "follows ?fs (insert ?N ?F) (last (0 # rs)) cs (lk_sent (cl_link ?c)) (sy_serving s) (sy_read s)"
    using follows_grown [OF fol, of "insert ?N ?F" "[]"] by (simp only: append_Nil2 subset_insertI)
  ultimately have "system_ok a g ps' rs cs (s\<lparr> sy_client := ?c', sy_failed := ?N # sy_failed s \<rparr>)"
    using ok ps'(1) l current_down [OF l(3,4)] by (auto simp: system_ok_def Let_def offered_def)
  then show ?thesis using c' by auto
qed

section \<open>A reply\<close>

lemma reply_of_run:
  assumes "a \<noteq> 0" and ok: "system_ok a g ps rs cs s" and n: "length (sy_asked s) < id_window" and ne: "sy_asked s \<noteq> []"
    and r: "enc_rsp_header rh @ payload \<in> set (sy_replies s)" and id: "rs_req_id rh = last_asked s"
  shows "\<exists>x \<in> set (sy_ran s). snd x = Some (enc_rsp_header rh @ payload)
      \<and> enc_req_header (fst (fst x)) @ snd (fst x) = sf_bytes (last (sy_asked s))"
    and "last (0 # rs) = length (sy_asked s)"
proof -
  let ?fs = "sy_asked s" and ?N = "length (sy_asked s)"
  have ao: "asked_ok a ?fs" and rep: "replies_are (sy_replies s) (sy_session s) (sy_ran s)"
    and rn: "ran_are a ?fs (set (sy_failed s)) rs (sy_session s) (sy_ran s)" using ok by (simp_all add: system_ok_def Let_def)
  obtain x where x: "x \<in> set (sy_ran s)" "snd x = Some (enc_rsp_header rh @ payload)" using rep r unfolding replies_are_def by fastforce
  obtain rh' payload' where e: "enc_rsp_header rh @ payload = enc_rsp_header rh' @ payload'" "rs_req_id rh' = rq_req_id (fst (fst x))"
    using rep x unfolding replies_are_def by blast
  have "dec_rsp_header (enc_rsp_header rh @ payload) = dec_rsp_header (enc_rsp_header rh' @ payload')" using e(1) by (simp only:)
  then have "rh = rh'" by simp
  then have rid: "rq_req_id (fst (fst x)) = nth_id a ?N" using e(2) id last_asked_id [OF ao ne] by simp
  obtain i where i: "i < length (sy_ran s)" "sy_ran s ! i = x" using x(1) by (auto simp: in_set_conv_nth)
  have len: "length rs = length (sy_ran s)" using rn by (auto simp: ran_are_def dest: map_eq_imp_length_eq)
  have pos: "positions ?N rs" using rn by (simp add: ran_are_def)
  have p: "0 < rs ! i" "rs ! i \<le> ?N" using pos i(1) len by (auto simp: positions_def)
  have "map (\<lambda>x. rq_req_id (fst (fst x))) (sy_ran s) ! i = map (nth_id a) rs ! i" using rn by (simp add: ran_are_def)
  then have "nth_id a (rs ! i) = nth_id a ?N" using i len rid by simp
  from id_position [OF assms(1) p(1) _ _ n this] p(2) n ne have at: "rs ! i = ?N" by simp
  have "map (\<lambda>x. enc_req_header (fst (fst x)) @ snd (fst x)) (sy_ran s) ! i = map (\<lambda>p. sf_bytes (asked_at ?fs p)) rs ! i"
    using rn by (simp add: ran_are_def)
  then have "enc_req_header (fst (fst x)) @ snd (fst x) = sf_bytes (last ?fs)"
    using i len at ne by (simp add: asked_at_def last_conv_nth)
  then show "\<exists>x \<in> set (sy_ran s). snd x = Some (enc_rsp_header rh @ payload)
      \<and> enc_req_header (fst (fst x)) @ snd (fst x) = sf_bytes (last (sy_asked s))" using x by blast
  have "?N \<in> set rs" using at i(1) len by (metis nth_mem)
  then have ne_rs: "rs \<noteq> []" by auto
  have "sorted_wrt (<) (butlast rs @ [last rs])" using pos ne_rs by (simp add: positions_def)
  then have "?N \<le> last rs" using \<open>?N \<in> set rs\<close> ne_rs append_butlast_last_id [OF ne_rs]
    by (metis in_set_conv_decomp less_imp_le order_refl sorted_wrt_append set_append Un_iff empty_iff list.set(1) set_ConsD list.set_intros(1))
  then show "last (0 # rs) = ?N" using last_position [OF pos] ne_rs by simp
qed


text \<open>With nothing queued, a wait for a reply either takes it, which acknowledges everything, or drops the connection.\<close>

lemma attempt_heard:
  assumes "cl_connected c" and "cl_queued c = []" and "attempt rid (faced [] [] [Some (rh, payload)] c) = (answer, c')"
  shows "(rs_req_id rh = rid \<and> answer = Inl (rs_result rh, payload)
      \<and> c' = forget_acked rid ((faced [] [] [] c)\<lparr> cl_last_reply := rid \<rparr>))
    \<or> (rs_req_id rh \<noteq> rid \<and> answer = Inr False \<and> c' = drop_connection (faced [] [] [] c))"
  using assms by (cases "rs_req_id rh = rid") (auto simp: attempt_def flush_def wait_reply_def faced_def Let_def)

lemma hears_ok:
  assumes "a \<noteq> 0" and ok: "system_ok a g ps rs cs s" and n: "length (sy_asked s) < id_window" and ne: "sy_asked s \<noteq> []"
    and con: "cl_connected (sy_client s)" and q: "cl_queued (sy_client s) = []"
    and r: "enc_rsp_header rh @ payload \<in> set (sy_replies s)"
    and at: "attempt (last_asked s) (faced [] [] [Some (rh, payload)] (sy_client s)) = (answer, c)"
  shows "\<exists>g' ps'. system_ok a g' ps' rs cs (s\<lparr> sy_client := c \<rparr>)"
proof (cases "rs_req_id rh = last_asked s")
  case False
  then have c: "c = drop_connection (faced [] [] [] (sy_client s))" using attempt_heard [OF con q at] by simp
  have "system_ok a g ps rs cs (s\<lparr> sy_client := c \<rparr>)" unfolding c
    by (rule same_move [OF ok]; (rule current_down)?)
      (use ok q in \<open>simp_all add: drop_connection_def system_ok_def Let_def\<close>)
  then show ?thesis by blast
next
  case True
  let ?c = "sy_client s" and ?fs = "sy_asked s" and ?N = "length (sy_asked s)"
  let ?d = "(faced [] [] [] ?c)\<lparr> cl_last_reply := last_asked s \<rparr>"
  have c: "c = forget_acked (last_asked s) ?d" using attempt_heard [OF con q at] True by simp
  have ks: "keeps a ?fs ps ?c" and ao: "asked_ok a ?fs" and cur: "current ?fs (set (sy_failed s)) cs ?c"
    and off: "offered a g (last (0 # rs)) ?N ?c (sy_begun s) (sy_offer s)" using ok by (simp_all add: system_ok_def Let_def)
  have kd: "keeps a ?fs ps ?d" using ks by simp
  then have num: "numbered a ?N ps ?d" "buffer_ok ?d" by (simp_all only: keeps_def)
  have id: "last_asked s = nth_id a ?N" by (rule last_asked_id [OF ao ne])
  have pos: "\<forall>p \<in> set ps. ?N < p + id_window" "0 < ?N" using n ne by (auto simp: trans_less_add2)
  obtain us m where c': "c = ?d\<lparr> cl_unacked := us, cl_unacked_bytes := m \<rparr>"
    using c forget_same [of "last_asked s" ?d] by blast
  have u: "cl_unacked c = []" using forget_all [OF assms(1) num(1) pos] c id by simp
  have "buffer_ok c" using forget_ok(2) [OF num] c by simp
  moreover have "cl_next_req c = cl_next_req ?c" "cl_replay_possible c = cl_replay_possible ?c" unfolding c' by (simp_all add: faced_def)
  ultimately have keeps: "keeps a ?fs [] c" using ks u by (simp add: keeps_def numbered_def)
  have l: "cl_connected c" "cl_queued c = []" "cl_had_session c = cl_had_session ?c" "lk_sent (cl_link c) = lk_sent (cl_link ?c)"
    unfolding c' using con q by simp_all
  have "current ?fs (set (sy_failed s)) cs c" by (rule current_same [OF cur]) (use l con q in simp_all)
  moreover have "offered a ?N (last (0 # rs)) ?N c (sy_begun s) (sy_offer s)" using off l con by (auto simp: offered_def)
  moreover have "?N \<le> last (0 # rs)" using reply_of_run(2) [OF assms(1) ok n ne r True] by simp
  moreover have "covers (set (sy_failed s)) ?N ?N []" by (auto simp: covers_def)
  ultimately have "system_ok a ?N [] rs cs (s\<lparr> sy_client := c \<rparr>)" using ok keeps l(4) by (simp add: system_ok_def Let_def)
  then show ?thesis by blast
qed

section \<open>The serving thread\<close>

lemma followsI:
  "list_all2 (carries fs failed) cs streams \<Longrightarrow> \<forall>k \<in> set cs. fst k \<le> q \<Longrightarrow> i < length streams \<Longrightarrow> t \<le> length (snd (cs ! i)) \<Longrightarrow>
   r = length (bytes_at fs (take t (snd (cs ! i)))) \<Longrightarrow> \<forall>p \<in> set (take t (snd (cs ! i))). p \<le> q \<Longrightarrow> follows fs failed q cs streams i r"
  unfolding follows_def by auto

lemma takes_ok:
  assumes "system_ok a g ps rs cs s" and "i < length (lk_sent (cl_link (sy_client s)))"
  shows "system_ok a g ps rs cs (s\<lparr> sy_serving := i, sy_read := 0 \<rparr>)"
proof -
  have "follows fs F q cs' streams j r \<Longrightarrow> i < length streams \<Longrightarrow> follows fs F q cs' streams i 0" for fs F q cs' streams j r
    unfolding follows_def by (auto split: if_splits intro!: exI [of _ 0])
  then show ?thesis using assms by (auto simp: system_ok_def Let_def)
qed

lemma serve_answers:
  assumes "serve_frame cap drv disp f se = (sent, close, se')" and "\<not> already_ran (fst f) se" and "\<not> no_reply (fst f)"
  shows "\<exists>rh payload. sent = Some (enc_rsp_header rh @ payload) \<and> se_last_reply se' = enc_rsp_header rh @ payload
    \<and> rs_req_id rh = rq_req_id (fst f)"
proof -
  obtain rn where "answer_request (fst f) rn se = (sent, se')"
    using assms(1,2) by (auto simp: serve_frame_def Let_def split: prod.splits)
  then obtain rh payload where "sent = Some (enc_rsp_header rh @ payload)" "rs_req_id rh = rq_req_id (fst f)"
    using assms(3) by (auto simp: answer_request_def Let_def split: prod.splits)
  then show ?thesis using serve_replying [OF assms] by auto
qed

text \<open>What was sent for a frame is kept, and names it.\<close>

lemma serve_replies:
  assumes "replies_are bss se log" and sf: "serve_frame cap drv disp f se = (sent, close, se')"
    and "log' = log @ (if already_ran (fst f) se then [] else [(f, sent)])"
  shows "replies_are (case sent of None \<Rightarrow> bss | Some bytes \<Rightarrow> bytes # bss) se' log'"
proof (cases "already_ran (fst f) se")
  case True
  then have "se' = se" "sent = copy_answer (fst f) se" using sf by (auto simp: serve_frame_def)
  then show ?thesis using assms(1,3) True by (auto simp: replies_are_def copy_answer_def split: option.split)
next
  case False
  show ?thesis
  proof (cases "no_reply (fst f)")
    case True
    then have "sent = None" "se_last_reply se' = se_last_reply se" using serve_no_reply [OF sf True] by simp_all
    then show ?thesis using assms(1,3) False by (auto simp: replies_are_def)
  next
    case replies: False
    obtain rh payload where "sent = Some (enc_rsp_header rh @ payload)" "se_last_reply se' = enc_rsp_header rh @ payload"
      "rs_req_id rh = rq_req_id (fst f)" using serve_answers [OF sf False replies] by blast
    then show ?thesis using assms(1,3) False by (auto simp: replies_are_def)
  qed
qed

lemma above_last: "sorted_wrt (<) ps \<Longrightarrow> p \<in> set ps \<Longrightarrow> p \<le> last ((0 :: nat) # ps)"
  by (induction ps) (auto simp: less_imp_le split: if_splits)

lemma before_nth: "sorted_wrt (<) (us :: nat list) \<Longrightarrow> t < length us \<Longrightarrow> x \<in> set us \<Longrightarrow> x < us ! t \<Longrightarrow> x \<in> set (take t us)"
proof -
  assume s: "sorted_wrt (<) us" "t < length us" "x \<in> set us" "x < us ! t"
  then obtain j where j: "j < length us" "us ! j = x" by (auto simp: in_set_conv_nth)
  have "j < t" using s j sorted_wrt_nth_less [OF s(1), of t j] by (metis less_asym linorder_neqE_nat)
  then show ?thesis using j s(2) by (auto simp: in_set_conv_nth intro!: exI [of _ j])
qed

lemma below_last_nth: "sorted_wrt (<) us \<Longrightarrow> t < length us \<Longrightarrow> us ! t \<le> last ((b :: nat) # us)"
  by (induction us arbitrary: t) (auto simp: nth_Cons' less_imp_le split: if_splits)

lemma serves_ok:
  assumes "a \<noteq> 0" and ok: "system_ok a g ps rs cs s" and n: "length (sy_asked s) < id_window"
    and i: "sy_serving s < length (lk_sent (cl_link (sy_client s)))"
    and nf: "next_frame (drop (sy_read s) (carried (sy_serving s) (sy_client s))) = Some (h, payload, rest)"
    and sf: "serve_frame cap drv disp (h, payload) (sy_session s) = (sent, close, se)"
  shows "\<exists>rs'. system_ok a g ps rs' cs (frames_served s (h, payload) sent se)"
proof -
  let ?fs = "sy_asked s" and ?F = "set (sy_failed s)" and ?q = "last (0 # rs)" and ?c = "sy_client s" and ?se = "sy_session s"
  let ?streams = "lk_sent (cl_link (sy_client s))"
  have ao: "asked_ok a ?fs" and rn: "ran_are a ?fs ?F rs ?se (sy_ran s)"
    and rep: "replies_are (sy_replies s) ?se (sy_ran s)"
    and fol: "follows ?fs ?F ?q cs ?streams (sy_serving s) (sy_read s)"
    and off: "offered a g ?q (length ?fs) ?c (sy_begun s) (sy_offer s)" and gq: "g \<le> ?q" using ok by (simp_all add: system_ok_def Let_def)
  obtain b us where k: "cs ! sy_serving s = (b, us)" by fastforce
  have all: "list_all2 (carries ?fs ?F) cs ?streams" and bs: "\<forall>k \<in> set cs. fst k \<le> ?q" using fol by (simp_all add: follows_def)
  have len: "length cs = length ?streams" using list_all2_lengthD [OF all] .
  have car: "carries ?fs ?F (b, us) (?streams ! sy_serving s)" using all i k by (metis list_all2_conv_all_nth)
  then obtain m where m: "drop 32 (?streams ! sy_serving s) = take m (bytes_at ?fs us)"
    and us: "positions (length ?fs) us" "\<forall>p \<in> set us. b < p" "covers ?F b (last (b # us)) us" by (auto simp: carries_def)
  have bq: "b \<le> ?q" using bs k i len by (metis fst_conv nth_mem)
  from fol i k obtain t where t: "t \<le> length us" "sy_read s = length (bytes_at ?fs (take t us))" "\<forall>p \<in> set (take t us). p \<le> ?q"
    by (auto simp: follows_def split: if_splits)
  from nf have nf': "next_frame (drop (length (bytes_at ?fs (take t us))) (take m (bytes_at ?fs us))) = Some (h, payload, rest)"
    by (simp only: carried_def m t(2))
  define p where "p = us ! t"
  have p: "t < length us" "enc_req_header h @ payload = sf_bytes (asked_at ?fs p)" "rq_req_id h = nth_id a p"
    "length (sf_bytes (asked_at ?fs p)) = 24 + length payload" using next_carried [OF ao us(1) t(1) nf'] by (auto simp: p_def)
  have pos: "0 < p" "p \<le> length ?fs" "b < p" using us(1,2) p(1) by (auto simp: positions_def p_def)
  have srs: "positions (length ?fs) rs" using rn by (simp add: ran_are_def)
  have qn: "?q \<le> length ?fs" using last_position [OF srs] .
  have c: "se_last_req ?se = done_id a ?q" using rn by (simp add: ran_are_def completed_done)
  have "already_ran h ?se \<longleftrightarrow> p \<le> ?q"
    using position_order [OF assms(1) pos(1), of ?q] pos(2) qn n by (simp add: already_ran_def c p(3))
  note ran = this
  define rs' where "rs' = (if p \<le> ?q then rs else rs @ [p])"
  have q': "last (0 # rs') = max p ?q" by (simp add: rs'_def max_def)
  have rs: "\<forall>x \<in> set rs. x \<le> ?q" using above_last [of rs] srs by (simp add: positions_def)
  have p_us: "us ! t = p" by (simp add: p_def)
  have sus: "sorted_wrt (<) us" using us(1) by (simp add: positions_def)
  have "p \<le> last (b # us)" using below_last_nth [OF sus p(1), of b] by (simp add: p_us)
  have passed: "x \<in> set rs' \<or> x \<in> ?F" if x: "0 < x" "x \<le> max p ?q" for x
  proof (cases "x \<le> ?q")
    case True
    then show ?thesis using rn x(1) by (auto simp: ran_are_def covers_def rs'_def)
  next
    case False
    then have "b < x" "x \<le> p" using x(2) bq by auto
    then have "x \<in> set us \<or> x \<in> ?F" using us(3) \<open>p \<le> last (b # us)\<close> by (auto simp: covers_def)
    moreover have "x = p" if "x \<in> set us"
    proof (rule ccontr)
      assume "x \<noteq> p"
      then have "x \<in> set (take t us)" using before_nth [OF sus p(1) that] \<open>x \<le> p\<close> by (simp add: p_us)
      then show False using t(3) False by simp
    qed
    ultimately show ?thesis using False \<open>x \<le> p\<close> by (auto simp: rs'_def)
  qed
  have "completed a (last (0 # rs')) se"
    using serve_frame_last_req [of cap drv disp "(h, payload)" ?se] sf ran p(3) pos(1) c
    unfolding q' completed_done by (auto simp: done_id_def max_def)
  moreover have "positions (length ?fs) rs'" using srs rs pos by (auto simp: rs'_def positions_def sorted_wrt_append)
  moreover have "covers ?F 0 (last (0 # rs')) rs'" unfolding q' covers_def using passed by blast
  ultimately have ran': "ran_are a ?fs ?F rs' se (sy_ran s @ (if already_ran h ?se then [] else [((h, payload), sent)]))"
    using rn ran p(2,3) by (simp add: ran_are_def rs'_def)
  have later: "?q \<le> last (0 # rs')" unfolding q' by (rule max.cobounded2)
  have "follows ?fs ?F (last (0 # rs')) cs ?streams (sy_serving s) (sy_read s + 24 + length payload)"
  proof -
    have tk: "take (Suc t) us = take t us @ [p]" using p(1) by (simp add: take_Suc_conv_app_nth p_us)
    have "sy_read s + 24 + length payload = length (bytes_at ?fs (take (Suc t) us))" using p(4) t(2) by (simp add: tk)
    moreover have "\<forall>x \<in> set (take (Suc t) us). x \<le> last (0 # rs')" unfolding q' tk using t(3) by (auto simp: le_max_iff_disj)
    moreover have "\<forall>k \<in> set cs. fst k \<le> last (0 # rs')" using bs later order_trans by blast
    moreover have "Suc t \<le> length us" using p(1) by simp
    ultimately show ?thesis using followsI [OF all _ i, of "last (0 # rs')" "Suc t"] by (simp only: k snd_conv)
  qed
  moreover have "offered a g (last (0 # rs')) (length ?fs) ?c (sy_begun s) (sy_offer s)"
    using off later by (fastforce simp: offered_def)
  moreover note serve_replies [OF rep sf, of "sy_ran s @ (if already_ran h ?se then [] else [((h, payload), sent)])"]
  ultimately have "system_ok a g ps rs' cs (frames_served s (h, payload) sent se)"
    using ok ran' order_trans [OF gq later] by (simp add: system_ok_def Let_def frames_served_def del: last.simps)
  then show ?thesis ..
qed


section \<open>Every system that is come to\<close>

lemma moves_ok:
  assumes "a \<noteq> 0" and "system_ok a g ps rs cs s" and "moves cap drv disp s s'" and "length (sy_asked s) < id_window"
  shows "\<exists>g' ps' rs' cs'. system_ok a g' ps' rs' cs' s'"
  using assms(3)
proof cases
  case (shakes)
  then show ?thesis using shakes_ok [OF assms(2)] by blast
next
  case (connects reply ws ok c)
  then show ?thesis using connects_ok [OF assms(1,2,4)] by blast
next
  case (unanswered x ws ok c)
  then show ?thesis using unanswered_ok [OF assms(2)] by blast
next
  case retries
  then show ?thesis using retries_ok [OF assms(2)] by blast
next
  case (asks api payload flags tid rid c)
  then show ?thesis using asks_ok [OF assms(2)] by blast
next
  case (writes ws ok c)
  then show ?thesis using writes_ok [OF assms(2)] by blast
next
  case (hears rh payload answer c)
  then show ?thesis using hears_ok [OF assms(1,2,4)] by blast
next
  case drops
  then show ?thesis using drops_ok [OF assms(2)] by blast
next
  case gives_up
  then show ?thesis using gives_up_ok [OF assms(1,2,4)] by blast
next
  case (exits tid)
  then show ?thesis using exits_ok [OF assms(2)] by blast
next
  case (serves h payload rest sent close se)
  then show ?thesis using serves_ok [OF assms(1,2,4)] by blast
next
  case (takes i)
  then show ?thesis using takes_ok [OF assms(2)] by blast
qed

lemma moves_asked: "moves cap drv disp s s' \<Longrightarrow> length (sy_asked s) \<le> length (sy_asked s')"
  by (cases rule: moves.cases) (auto simp: frames_served_def)

lemma comes_ok:
  assumes "a \<noteq> 0" and "comes_to cap drv disp s0 s" and "length (sy_asked s) < id_window" and "system_ok a g0 ps0 rs0 cs0 s0"
  shows "\<exists>g ps rs cs. system_ok a g ps rs cs s"
  using assms(2) [unfolded comes_to_def] assms(3)
proof (induction rule: rtranclp_induct)
  case base
  then show ?case using assms(4) by blast
next
  case (step s s')
  have l: "length (sy_asked s) < id_window" using moves_asked [OF step.hyps(2)] step.prems by simp
  from step.IH [OF this] obtain g ps rs cs where "system_ok a g ps rs cs s" by blast
  from moves_ok [OF assms(1) this step.hyps(2) l] show ?case .
qed

lemma new_system_ok:
  assumes "a \<noteq> 0" and "upcoming first = next_id a" and "se_last_req se = 0" and "se_last_reply se = []"
    and "lk_sent lk = []"
  shows "system_ok a 0 [] [] [] (new_system (new_client session first lk) se)"
proof -
  have "keeps a [] [] (new_client session first lk)"
    using assms(2) by (simp add: keeps_def numbered_def buffer_ok_def new_client_def nth_id_Suc)
  moreover have "lk_sent (cl_link (new_client session first lk)) = []" using assms(5) by (simp add: new_client_def)
  ultimately show ?thesis using assms(3,4)
    by (simp add: system_ok_def Let_def new_system_def asked_ok_def covers_def ran_are_def replies_are_def follows_def
        current_def offered_def completed_def positions_def new_client_def) auto
qed

lemma comes_step: "moves cap drv disp s s' \<Longrightarrow> comes_to cap drv disp s' s'' \<Longrightarrow> comes_to cap drv disp s s''"
  unfolding comes_to_def by (rule converse_rtranclp_into_rtranclp)

section \<open>A system that comes along\<close>

text \<open>A client that connects, makes one call and is answered.\<close>

definition demo_disp :: "u32 \<Rightarrow> buffer \<Rightarrow> fake sv \<Rightarrow> fake outcome option" where
  "demo_disp = dispatch fake_driver 64 nothing_more nothing_more"

definition demo_start :: "fake system" where
  "demo_start = new_system (new_client (7, 9) 1 \<lparr> lk_connects = [], lk_writes = [], lk_replies = [], lk_sent = [] \<rparr>) demo_session"

definition demo_shaken :: "fake system" where
  "demo_shaken = demo_start\<lparr> sy_begun := True,
     sy_offer := Some (fst (handshake_answer (client_hello (sy_client demo_start)) False (completion_of (sy_session demo_start)))) \<rparr>"

definition demo_up :: "fake system" where
  "demo_up = demo_shaken\<lparr> sy_client := snd (ensure_connected (faced [Answer (the (sy_offer demo_shaken))] [] [] (sy_client demo_shaken))),
     sy_offer := None \<rparr>"

definition demo_queued :: "fake system" where
  "demo_queued = (let c = snd (queue_frame 20 [1] 0 7 (sy_client demo_up)) in
     demo_up\<lparr> sy_client := c, sy_replies := [], sy_asked := sy_asked demo_up @ drop (length (cl_unacked (sy_client demo_up))) (cl_unacked c) \<rparr>)"

definition demo_written :: "fake system" where
  "demo_written = demo_queued\<lparr> sy_client := snd (flush (faced [] [] [] (sy_client demo_queued))) \<rparr>"

definition demo_served :: "fake system" where
  "demo_served = (case serve_frame 4096 fake_driver demo_disp (frame 20 1 0 7 [1]) (sy_session demo_written) of (sent, close, se) \<Rightarrow>
     frames_served demo_written (frame 20 1 0 7 [1]) sent se)"

definition demo_bytes :: "byte list" where
  "demo_bytes = enc_req_header (request_header 20 1 0 7 [1]) @ [1]"

lemma demo_up_client:
  "sy_client demo_up = (new_client (7, 9) 1 \<lparr> lk_connects = [], lk_writes = [], lk_replies = [],
      lk_sent = [enc_handshake (client_hello (sy_client demo_start))] \<rparr>)\<lparr> cl_connected := True, cl_had_session := True \<rparr>"
  by (simp add: demo_up_def demo_shaken_def demo_start_def new_system_def new_client_def ensure_connected_def faced_def
      take_answer_def handshake_answer_def client_hello_def magics Let_def)

lemma demo_queue:
  "queue_frame 20 [1] 0 7 (sy_client demo_up) = (1, (sy_client demo_up)\<lparr> cl_next_req := 2, cl_queued := demo_bytes,
     cl_unacked := [\<lparr> sf_req_id = 1, sf_bytes = demo_bytes \<rparr>], cl_unacked_bytes := length demo_bytes \<rparr>)"
  unfolding demo_up_client
  by (simp add: new_client_def queue_frame_def queue_notice_def queue_one_def mint_req_id_def keep_unacked_def
      kMaxUnackedBytes_def list_again_def demo_bytes_def Let_def)

lemma demo_written_is:
  "demo_queued = demo_up\<lparr> sy_client := snd (queue_frame 20 [1] 0 7 (sy_client demo_up)), sy_replies := [],
     sy_asked := [\<lparr> sf_req_id = 1, sf_bytes = demo_bytes \<rparr>] \<rparr>"
  "sy_client demo_written = (snd (queue_frame 20 [1] 0 7 (sy_client demo_up)))\<lparr> cl_queued := [],
     cl_link := (cl_link (sy_client demo_up))\<lparr> lk_sent := [enc_handshake (client_hello (sy_client demo_start)) @ demo_bytes] \<rparr> \<rparr>"
  "fst (flush (faced [] [] [] (sy_client demo_queued)))"
proof -
  have u: "sy_asked demo_up = []" "cl_unacked (sy_client demo_up) = []" "cl_connected (sy_client demo_up)"
    by (simp_all add: demo_up_def demo_shaken_def demo_start_def new_system_def demo_up_client new_client_def
      ensure_connected_def faced_def take_answer_def handshake_answer_def magics Let_def)
  show q: "demo_queued = demo_up\<lparr> sy_client := snd (queue_frame 20 [1] 0 7 (sy_client demo_up)), sy_replies := [],
     sy_asked := [\<lparr> sf_req_id = 1, sf_bytes = demo_bytes \<rparr>] \<rparr>"
    by (simp add: demo_queued_def demo_queue u)
  have "demo_bytes \<noteq> []" by (simp add: demo_bytes_def)
  moreover have "cl_link (sy_client demo_up) = \<lparr> lk_connects = [], lk_writes = [], lk_replies = [],
      lk_sent = [enc_handshake (client_hello (sy_client demo_start))] \<rparr>" by (simp add: demo_up_client new_client_def)
  ultimately show "sy_client demo_written = (snd (queue_frame 20 [1] 0 7 (sy_client demo_up)))\<lparr> cl_queued := [],
     cl_link := (cl_link (sy_client demo_up))\<lparr> lk_sent := [enc_handshake (client_hello (sy_client demo_start)) @ demo_bytes] \<rparr> \<rparr>"
    "fst (flush (faced [] [] [] (sy_client demo_queued)))"
    using u(3) by (simp_all add: demo_written_def q demo_queue flush_def faced_def write_bytes_def onto_last_def Let_def)
qed

lemma demo_comes:
  "comes_to 4096 fake_driver demo_disp demo_start demo_queued" "comes_to 4096 fake_driver demo_disp demo_start demo_served"
proof -
  have down: "\<not> cl_connected (sy_client demo_start)" "\<not> sy_begun demo_start" "sy_client demo_shaken = sy_client demo_start"
    by (simp_all add: demo_start_def new_system_def new_client_def demo_shaken_def)
  have m1: "moves 4096 fake_driver demo_disp demo_start demo_shaken"
    using moves.shakes [OF down(1), of 4096 fake_driver demo_disp] down(2) by (simp add: demo_shaken_def)
  have m2: "moves 4096 fake_driver demo_disp demo_shaken demo_up"
    unfolding demo_up_def by (rule moves.connects [OF _ _ surjective_pairing]) (simp_all add: down demo_shaken_def)
  have up: "cl_connected (sy_client demo_up)" by (simp add: demo_up_client)
  have m3: "moves 4096 fake_driver demo_disp demo_up demo_queued" unfolding demo_queued_def Let_def
    by (rule moves.asks [OF up surjective_pairing]) (simp only: demo_queue snd_conv, simp add: demo_up_client new_client_def)
  have m4: "moves 4096 fake_driver demo_disp demo_queued demo_written"
    unfolding demo_written_def by (rule moves.writes [OF surjective_pairing])
  show queued: "comes_to 4096 fake_driver demo_disp demo_start demo_queued"
    using comes_step [OF m1 comes_step [OF m2 comes_step [OF m3]]] by (simp add: comes_to_def)
  have w: "lk_sent (cl_link (sy_client demo_written)) = [enc_handshake (client_hello (sy_client demo_start)) @ demo_bytes]"
    "sy_serving demo_written = 0" "sy_read demo_written = 0"
    by (simp_all add: demo_written_is(2)) (simp_all add: demo_written_def demo_written_is(1) demo_up_def demo_shaken_def demo_start_def new_system_def)
  have "next_frame (drop (sy_read demo_written) (carried (sy_serving demo_written) (sy_client demo_written)))
      = Some (request_header 20 1 0 7 [1], [1], [])"
    using parse_frame_sent [of enc_req_header "request_header 20 1 0 7 [1]" 24 dec_req_header rq_magic kMagicReq rq_payload_len "[1]" default_max_payload "[]"]
    by (simp add: carried_def w demo_bytes_def next_frame_def request_header_def default_max_payload_def)
  moreover have "frame 20 1 0 7 [1] = (request_header 20 1 0 7 [1], [1])" by (simp add: frame_def request_header_def)
  ultimately have m5: "moves 4096 fake_driver demo_disp demo_written demo_served"
    unfolding demo_served_def using moves.serves [of demo_written "request_header 20 1 0 7 [1]" "[1]" "[]"] w by (auto split: prod.split)
  show "comes_to 4096 fake_driver demo_disp demo_start demo_served"
    using queued comes_step [OF m4 comes_step [OF m5]] unfolding comes_to_def by (meson rtranclp.rtrancl_refl rtranclp_trans)
qed

lemma demo_given:
  "(0xFFFFFFFF :: u32) \<noteq> 0" "upcoming 1 = next_id 0xFFFFFFFF" "se_last_req demo_session = 0" "se_last_reply demo_session = []"
  "lk_sent \<lparr> lk_connects = [], lk_writes = [], lk_replies = [], lk_sent = [] \<rparr> = []"
  by (simp_all add: upcoming_def next_id_def demo_session_def)

lemma demo_asked: "sy_asked demo_queued = [\<lparr> sf_req_id = 1, sf_bytes = demo_bytes \<rparr>]" "sy_failed demo_queued = []"
  "sy_asked demo_served = sy_asked demo_queued" "length (sy_asked demo_queued) < id_window"
  by (simp_all add: demo_written_is(1) demo_served_def demo_written_def frames_served_def demo_up_def demo_shaken_def demo_start_def
      new_system_def id_window_def split: prod.split)

section \<open>What is promised\<close>

text \<open>The frames that ran, as bytes.\<close>

definition ran_bytes :: "'d system \<Rightarrow> byte list list" where
  "ran_bytes s = map (\<lambda>x. enc_req_header (fst (fst x)) @ snd (fst x)) (sy_ran s)"

text \<open>C2. However a client and the server of its session come along, with connections that break after
  any byte, are dropped or refused, with any number of connections one after another, frames that reach
  the server again and replies that are lost, what the server has run is frames the client queued, each at
  most once, whole, and in the order they were queued. None is passed over: a frame ahead of the last that
  ran has run too, unless a call that waited for it gave up on it; and of those behind it, every one not given
  up on is still in the replay buffer, so that the next connection carries it. This holds while fewer
  than 2^31 - 1 frames were queued and the replay buffer has not gone past its bound.\<close>

theorem what_ran_is_what_was_asked:
  assumes "a \<noteq> 0" and "upcoming first = next_id a" and "se_last_req se = 0" and "se_last_reply se = []" and "lk_sent lk = []"
    and "comes_to cap drv disp (new_system (new_client session first lk) se) s" and "length (sy_asked s) < id_window"
  shows "\<exists>rs. sorted_wrt (<) rs \<and> set rs \<subseteq> {1..length (sy_asked s)}
    \<and> ran_bytes s = map (\<lambda>p. sf_bytes (sy_asked s ! (p - 1))) rs
    \<and> (\<forall>p \<in> {1..length (sy_asked s)}. p \<notin> set rs \<and> p \<notin> set (sy_failed s) \<longrightarrow>
         (\<forall>r \<in> set rs. r < p) \<and> sy_asked s ! (p - 1) \<in> set (cl_unacked (sy_client s)))"
proof -
  from comes_ok [OF assms(1,6,7) new_system_ok [OF assms(1-5)]] obtain g ps rs cs where ok: "system_ok a g ps rs cs s" by blast
  have ks: "keeps a (sy_asked s) ps (sy_client s)" and cov: "covers (set (sy_failed s)) g (length (sy_asked s)) ps"
    and rn: "ran_are a (sy_asked s) (set (sy_failed s)) rs (sy_session s) (sy_ran s)" and gq: "g \<le> last (0 # rs)"
    using ok by (simp_all add: system_ok_def Let_def)
  have pos: "positions (length (sy_asked s)) rs" using rn by (simp add: ran_are_def)
  have "(\<forall>r \<in> set rs. r < p) \<and> sy_asked s ! (p - 1) \<in> set (cl_unacked (sy_client s))"
    if p: "1 \<le> p" "p \<le> length (sy_asked s)" "p \<notin> set rs" "p \<notin> set (sy_failed s)" for p
  proof -
    have "covers (set (sy_failed s)) 0 (last (0 # rs)) rs" using rn by (simp only: ran_are_def)
    then have q: "last (0 # rs) < p" using p unfolding covers_def by (metis One_nat_def Suc_le_lessD not_le)
    moreover have "\<forall>r \<in> set rs. r \<le> last (0 # rs)" using above_last pos unfolding positions_def by blast
    moreover have "p \<in> set ps" using cov p(2,4) le_less_trans [OF gq q] unfolding covers_def by blast
    then have "asked_at (sy_asked s) p \<in> set (cl_unacked (sy_client s))" using ks by (simp add: keeps_def)
    ultimately show ?thesis unfolding asked_at_def by (meson le_less_trans)
  qed
  then show ?thesis using pos rn
    by (intro exI [of _ rs]) (auto simp: positions_def ran_are_def ran_bytes_def asked_at_def)
qed

lemma what_ran_is_what_was_asked_witness:
  "\<exists>rs. sorted_wrt (<) rs \<and> set rs \<subseteq> {1 :: nat} \<and> ran_bytes demo_served = map (\<lambda>p. demo_bytes) rs"
proof -
  have "length (sy_asked demo_served) < id_window" using demo_asked by simp
  from what_ran_is_what_was_asked [OF demo_given demo_comes(2) [unfolded demo_start_def] this] obtain rs where rs: "sorted_wrt (<) rs"
    "set rs \<subseteq> {1..length (sy_asked demo_served)}" "ran_bytes demo_served = map (\<lambda>p. sf_bytes (sy_asked demo_served ! (p - 1))) rs" by blast
  moreover have "{1..length (sy_asked demo_served)} = {1 :: nat}" by (simp add: demo_asked)
  moreover from this rs(2) have "map (\<lambda>p. sf_bytes (sy_asked demo_served ! (p - 1))) rs = map (\<lambda>p. demo_bytes) rs" by (auto simp: demo_asked)
  ultimately show ?thesis by metis
qed

text \<open>C3. A reply that the client takes for its last call was sent when that very call ran: the request of that run is the
  frame the client queued for the call, byte for byte, and the reply is what the server answered it with, however many
  connections, copies of the request and replies to other requests there were between.\<close>

theorem reply_is_to_its_own_call:
  assumes "a \<noteq> 0" and "upcoming first = next_id a" and "se_last_req se = 0" and "se_last_reply se = []" and "lk_sent lk = []"
    and "comes_to cap drv disp (new_system (new_client session first lk) se) s" and "length (sy_asked s) < id_window"
    and "sy_asked s \<noteq> []" and "cl_connected (sy_client s)" and "cl_queued (sy_client s) = []"
    and "enc_rsp_header rh @ payload \<in> set (sy_replies s)"
    and "attempt (last_asked s) (faced [] [] [Some (rh, payload)] (sy_client s)) = (Inl answer, c)"
  shows "answer = (rs_result rh, payload) \<and> (\<exists>x \<in> set (sy_ran s). snd x = Some (enc_rsp_header rh @ payload)
      \<and> enc_req_header (fst (fst x)) @ snd (fst x) = sf_bytes (last (sy_asked s)))"
proof -
  from comes_ok [OF assms(1,6,7) new_system_ok [OF assms(1-5)]] obtain g ps rs cs where ok: "system_ok a g ps rs cs s" by blast
  have h: "rs_req_id rh = last_asked s" "answer = (rs_result rh, payload)" using attempt_heard [OF assms(9,10,12)] by auto
  from reply_of_run(1) [OF assms(1) ok assms(7,8,11) h(1)] h(2) show ?thesis by simp
qed


lemma reply_is_to_its_own_call_witness:
  "\<exists>x \<in> set (sy_ran demo_served). snd x \<noteq> None \<and> enc_req_header (fst (fst x)) @ snd (fst x) = demo_bytes"
proof -
  let ?f = "frame 20 1 0 7 [1]"
  obtain sent close se where sf: "serve_frame 4096 fake_driver demo_disp ?f (sy_session demo_written) = (sent, close, se)" by (metis prod_cases3)
  have "sy_session demo_written = demo_session"
    by (simp add: demo_written_def demo_written_is(1) demo_up_def demo_shaken_def demo_start_def new_system_def)
  then have "\<not> already_ran (fst ?f) (sy_session demo_written)" "\<not> no_reply (fst ?f)"
    by (simp_all add: already_ran_def frame_def demo_session_def req_at_or_before_def no_reply_def)
  from serve_answers [OF sf this] obtain rh payload where r: "sent = Some (enc_rsp_header rh @ payload)" "rs_req_id rh = rq_req_id (fst ?f)"
    by blast
  have in_replies: "enc_rsp_header rh @ payload \<in> set (sy_replies demo_served)" using sf r(1) by (simp add: demo_served_def frames_served_def)
  have l: "length (sy_asked demo_served) < id_window" "sy_asked demo_served \<noteq> []" using demo_asked by simp_all
  have "sy_client demo_served = sy_client demo_written" by (simp add: demo_served_def frames_served_def split: prod.split)
  then have c: "cl_connected (sy_client demo_served)" "cl_queued (sy_client demo_served) = []"
    by (simp_all add: demo_written_is(2) demo_queue) (simp add: demo_up_client)
  have "last_asked demo_served = rs_req_id rh" using r(2) by (simp add: last_asked_def demo_asked frame_def)
  then obtain answer c' where "attempt (last_asked demo_served) (faced [] [] [Some (rh, payload)] (sy_client demo_served)) = (Inl answer, c')"
    using attempt_heard [OF c surjective_pairing] by (metis prod.collapse)
  from reply_is_to_its_own_call [OF demo_given demo_comes(2) [unfolded demo_start_def] l c in_replies this]
  show ?thesis by (auto simp: demo_asked)
qed

section \<open>Nothing is stranded\<close>

text \<open>The session is never given up for gone.\<close>

lemma kept_session [simp]:
  "cl_session_gone (snd (write_bytes bs c)) = cl_session_gone c" "cl_session_gone (faced as ws rs c) = cl_session_gone c"
  "cl_session_gone (forget_acked i c) = cl_session_gone c" "cl_session_gone (abandon_call i c) = cl_session_gone c"
  "cl_session_gone (snd (queue_one api payload flags tid c)) = cl_session_gone c" "cl_session_gone (list_again tid c) = cl_session_gone c"
  by (auto simp: write_bytes_def faced_def forget_acked_def abandon_call_def queue_one_def mint_req_id_def keep_unacked_def
      list_again_def Let_def split: list.splits option.splits prod.splits)

lemma kept_session_calls [simp]:
  "cl_session_gone (snd (flush c)) = cl_session_gone c" "cl_session_gone (queue_notice tid c) = cl_session_gone c"
  using kept_session(1) [of "cl_queued c" c]
  by (auto simp: flush_def queue_notice_def drop_connection_def Let_def split: prod.splits simp del: kept_session(1))

lemma replay_session: "replay fs c = (ok, c') \<Longrightarrow> cl_session_gone c' = cl_session_gone c"
proof (induction fs arbitrary: c)
  case (Cons f fs)
  then show ?case using kept_session(1) [of "sf_bytes f" c] by (auto split: prod.splits bool.splits simp del: kept_session(1))
qed simp

lemma answer_session:
  assumes "offered a g q n c begun (Some reply)" and "ensure_connected (faced [Answer reply] ws [] c) = (ok, c')"
    and "\<not> cl_session_gone c"
  shows "\<not> cl_session_gone c'"
proof -
  have "take_answer reply d = (ok, c') \<Longrightarrow> \<not> cl_session_gone d \<Longrightarrow> cl_had_session d = cl_had_session c \<Longrightarrow> \<not> cl_session_gone c'" for d
    using assms(1) by (auto simp: take_answer_def offered_def Let_def split: if_splits dest!: replay_session)
  then show ?thesis using assms(2,3) by (auto simp: ensure_connected_def Let_def split: if_splits)
qed

lemma moves_session:
  assumes "system_ok a g ps rs cs s" and "moves cap drv disp s s'" and g: "\<not> cl_session_gone (sy_client s)"
  shows "\<not> cl_session_gone (sy_client s')"
  using assms(2)
proof cases
  case (connects reply ws ok c)
  have "offered a g (last (0 # rs)) (length (sy_asked s)) (sy_client s) (sy_begun s) (sy_offer s)"
    using assms(1) by (simp add: system_ok_def Let_def)
  then show ?thesis using answer_session [OF _ connects(4) g] connects(1,3) by simp
next
  case (unanswered x ws ok c)
  then show ?thesis using g by (auto simp: ensure_connected_def take_answer_def Let_def split: if_splits)
next
  case (asks api payload flags tid rid c)
  have "cl_session_gone c = cl_session_gone (sy_client s)"
    using arg_cong [OF asks(3), of "\<lambda>x. cl_session_gone (snd x)"] by (simp add: queue_frame_def split_beta)
  then show ?thesis using g asks(1) by simp
next
  case (writes ws ok c)
  then show ?thesis using g kept_session_calls(1) [of "faced [] ws [] (sy_client s)"] by (simp del: kept_session_calls(1))
next
  case (hears rh payload answer c)
  then show ?thesis using g attempt_heard [OF hears(2,3,6)] by (auto simp: drop_connection_def)
qed (use g in \<open>auto simp: drop_connection_def give_up_call_def retire_client_thread_def frames_served_def\<close>)

lemma comes_session:
  assumes "a \<noteq> 0" and "comes_to cap drv disp s0 s" and "length (sy_asked s) < id_window" and "system_ok a g0 ps0 rs0 cs0 s0"
    and "\<not> cl_session_gone (sy_client s0)"
  shows "\<not> cl_session_gone (sy_client s)"
  using assms(2) [unfolded comes_to_def] assms(3)
proof (induction rule: rtranclp_induct)
  case base
  then show ?case using assms(5) by simp
next
  case (step s s')
  have l: "length (sy_asked s) < id_window" using moves_asked [OF step.hyps(2)] step.prems by simp
  from comes_ok [OF assms(1) step.hyps(1) [folded comes_to_def] l assms(4)] obtain g ps rs cs where "system_ok a g ps rs cs s" by blast
  from moves_session [OF this step.hyps(2)] step.IH [OF l] show ?case .
qed

text \<open>Over a network that holds, an attempt to connect to the session comes up with everything written.\<close>

lemma replay_holds:
  "replay fs c = (ok, c') \<Longrightarrow> lk_writes (cl_link c) = [] \<Longrightarrow> ok \<and> cl_connected c' = cl_connected c \<and> cl_queued c' = cl_queued c"
proof (induction fs arbitrary: c)
  case (Cons f fs)
  let ?d = "c\<lparr> cl_link := (cl_link c)\<lparr> lk_sent := onto_last (sf_bytes f) (lk_sent (cl_link c)) \<rparr> \<rparr>"
  show ?case using Cons.IH [of ?d] Cons.prems by (simp add: write_bytes_def Let_def)
qed simp

lemma connects_held:
  assumes "offered a g q n c begun (Some reply)" and "\<not> cl_session_gone c" and "\<not> cl_connect_failed c"
    and "\<not> cl_connected c" and "cl_queued c = []" and "ensure_connected (faced [Answer reply] [] [] c) = (ok, c')"
  shows "cl_connected c' \<and> cl_queued c' = []"
proof -
  have f: "cl_connected (forget_acked i d) = cl_connected d" "cl_link (forget_acked i d) = cl_link d" for i d
    by (simp_all add: forget_acked_def split: prod.split)
  have "replay fs ((forget_acked i d)\<lparr> cl_queued := [] \<rparr>) = (ok, c') \<Longrightarrow> lk_writes (cl_link d) = [] \<Longrightarrow> cl_connected d \<Longrightarrow>
    cl_connected c' \<and> cl_queued c' = []" for fs i d
    using replay_holds [of fs "(forget_acked i d)\<lparr> cl_queued := [] \<rparr>" ok c'] by (simp add: f)
  moreover have "lk_writes (cl_link (faced [Answer reply] [] [] c)) = []" by (simp add: faced_def)
  ultimately show ?thesis using assms magics
    by (auto simp: ensure_connected_def take_answer_def offered_def Let_def split: if_splits)
qed


lemma whole_not_empty: "asked_ok a fs \<Longrightarrow> positions (length fs) us \<Longrightarrow> bytes_at fs us = [] \<Longrightarrow> us = []"
proof (cases us)
  case (Cons u vs)
  assume p: "asked_ok a fs" "positions (length fs) us" "bytes_at fs us = []"
  have "0 < u" "u \<le> length fs" using p(2) Cons by (simp_all add: positions_def)
  then have "whole_frame (asked_at fs u)" using asked_id(2) [OF p(1)] by blast
  then obtain h payload where "sf_bytes (asked_at fs u) = enc_req_header h @ payload" using parse_whole by blast
  moreover have "length (enc_req_header h) = 24" by simp
  ultimately have "sf_bytes (asked_at fs u) \<noteq> []" by (metis append_is_Nil_conv list.size(3) zero_neq_numeral)
  then show ?thesis using p(3) Cons by simp
qed simp

lemma next_to_serve:
  assumes "asked_ok a fs" and "positions (length fs) us" and "t < length us"
  shows "\<exists>h payload rest. next_frame (drop (length (bytes_at fs (take t us))) (bytes_at fs us)) = Some (h, payload, rest)"
proof -
  have "bytes_at fs us = bytes_at fs (take t us) @ sf_bytes (asked_at fs (us ! t)) @ bytes_at fs (drop (Suc t) us)"
    using id_take_nth_drop [OF assms(3)] bytes_at_simps(2,3) by metis
  then have d: "drop (length (bytes_at fs (take t us))) (bytes_at fs us) = sf_bytes (asked_at fs (us ! t)) @ bytes_at fs (drop (Suc t) us)"
    by simp
  have "0 < us ! t" "us ! t \<le> length fs" using assms(2,3) by (auto simp: positions_def)
  from parse_whole [OF asked_id(2) [OF assms(1) this]] show ?thesis unfolding d next_frame_def by blast
qed

text \<open>The serving thread on the current connection, everything written, takes up all it carries.\<close>

lemma catches_up:
  assumes "a \<noteq> 0"
  shows "system_ok a g ps rs cs s \<Longrightarrow> length (sy_asked s) < id_window \<Longrightarrow> cl_connected (sy_client s) \<Longrightarrow> cl_queued (sy_client s) = [] \<Longrightarrow>
    Suc (sy_serving s) = length (lk_sent (cl_link (sy_client s))) \<Longrightarrow>
    \<exists>s' rs'. comes_to cap drv disp s s' \<and> sy_asked s' = sy_asked s \<and> sy_failed s' = sy_failed s
      \<and> system_ok a g ps rs' cs s' \<and> covers (set (sy_failed s)) 0 (length (sy_asked s)) rs'"
proof (induction "length (carried (sy_serving s) (sy_client s)) - sy_read s" arbitrary: s rs rule: less_induct)
  case less
  let ?fs = "sy_asked s" and ?F = "set (sy_failed s)" and ?q = "last (0 # rs)" and ?c = "sy_client s" and ?N = "length (sy_asked s)"
  note ok = less.prems(1)
  have ao: "asked_ok a ?fs" and rn: "ran_are a ?fs ?F rs (sy_session s) (sy_ran s)" and cur: "current ?fs ?F cs ?c"
    and fol: "follows ?fs ?F ?q cs (lk_sent (cl_link ?c)) (sy_serving s) (sy_read s)" using ok by (simp_all add: system_ok_def Let_def)
  from cur less.prems(3) obtain cs' b us streams stream vs where u: "cs = cs' @ [(b, us)]" "lk_sent (cl_link ?c) = streams @ [stream]"
    "drop 32 stream = bytes_at ?fs us" "cl_queued ?c = bytes_at ?fs vs" "positions ?N (us @ vs)" "\<forall>p \<in> set (us @ vs). b < p"
    "covers ?F b ?N (us @ vs)" unfolding current_def by auto
  have pos: "positions ?N us" "vs = []" using u(4,5) less.prems(4) whole_not_empty [OF ao, of vs] by (simp_all add: positions_append)
  have "length cs = length (lk_sent (cl_link ?c))" using fol list_all2_lengthD by (auto simp: follows_def)
  then have at: "sy_serving s = length streams" "length cs' = length streams" using less.prems(5) u(1,2) by simp_all
  have car: "carried (sy_serving s) ?c = bytes_at ?fs us" using u(2,3) at by (simp add: carried_def)
  have bq: "b \<le> ?q" using fol u(1) by (simp add: follows_def)
  obtain t where t: "t \<le> length us" "sy_read s = length (bytes_at ?fs (take t us))" "\<forall>p \<in> set (take t us). p \<le> ?q"
    using fol u(1,2) at by (auto simp: follows_def nth_append)
  show ?case
  proof (cases "t = length us")
    case True
    have "covers ?F 0 ?N rs" unfolding covers_def
    proof (intro allI impI)
      fix p assume p: "0 < p \<and> p \<le> ?N"
      show "p \<in> set rs \<or> p \<in> ?F"
      proof (cases "p \<le> ?q")
        case below: True
        have "covers ?F 0 ?q rs" using rn by (simp only: ran_are_def)
        then show ?thesis using below p unfolding covers_def by blast
      next
        case False
        then have "b < p" using bq by (simp only: not_le)
        then have "p \<in> set us \<or> p \<in> ?F" using u(7) pos(2) p by (auto simp: covers_def)
        then show ?thesis using t(3) True False by auto
      qed
    qed
    then show ?thesis using ok unfolding comes_to_def by blast
  next
    case False
    then have tl: "t < length us" using t(1) by simp
    from next_to_serve [OF ao pos(1) tl] obtain h payload rest
      where nf: "next_frame (drop (sy_read s) (carried (sy_serving s) ?c)) = Some (h, payload, rest)" by (auto simp: car t(2))
    obtain sent close se where sf: "serve_frame cap drv disp (h, payload) (sy_session s) = (sent, close, se)" by (metis prod_cases3)
    define s2 where "s2 = frames_served s (h, payload) sent se"
    have s2: "sy_client s2 = ?c" "sy_asked s2 = ?fs" "sy_failed s2 = sy_failed s" "sy_serving s2 = sy_serving s"
      "sy_read s2 = sy_read s + 24 + length payload" by (simp_all add: s2_def frames_served_def)
    have i: "sy_serving s < length (lk_sent (cl_link ?c))" using at u(2) by simp
    have m: "moves cap drv disp s s2" unfolding s2_def using moves.serves [OF i nf sf] .
    from serves_ok [OF assms ok less.prems(2) i nf sf] obtain rs2 where ok2: "system_ok a g ps rs2 cs s2" by (auto simp: s2_def)
    have "drop (sy_read s) (carried (sy_serving s) ?c) \<noteq> []" using nf next_frame_nil by force
    then have "length (carried (sy_serving s2) (sy_client s2)) - sy_read s2 < length (carried (sy_serving s) ?c) - sy_read s"
      by (simp add: s2)
    from less.hyps [OF this ok2] less.prems s2 comes_step [OF m] show ?thesis by auto
  qed
qed

text \<open>A client that is up can write what is queued; one that is not can connect, and the session is there.\<close>

lemma comes_up:
  assumes "a \<noteq> 0" and ok: "system_ok a g ps rs cs s" and n: "length (sy_asked s) < id_window" and gone: "\<not> cl_session_gone (sy_client s)"
    and up: "cl_connected (sy_client s) \<or> \<not> cl_connect_failed (sy_client s)"
  shows "\<exists>s' g' ps' cs'. comes_to cap drv disp s s' \<and> sy_asked s' = sy_asked s \<and> sy_failed s' = sy_failed s
    \<and> system_ok a g' ps' rs cs' s' \<and> cl_connected (sy_client s') \<and> cl_queued (sy_client s') = []"
proof (cases "cl_connected (sy_client s)")
  case True
  obtain k c where f: "flush (faced [] [] [] (sy_client s)) = (k, c)" by fastforce
  have "k" using f True by (auto simp: flush_def faced_def write_bytes_def Let_def split: if_splits)
  then have c: "cl_connected c" "cl_queued c = []" using flush_same [OF f] True by simp_all
  have "comes_to cap drv disp s (s\<lparr> sy_client := c \<rparr>)"
    using moves.writes [OF f, of cap drv disp] by (simp add: comes_to_def r_into_rtranclp)
  moreover obtain cs' where "system_ok a g ps rs cs' (s\<lparr> sy_client := c \<rparr>)" using writes_ok [OF ok f] by blast
  ultimately show ?thesis using c by (intro exI [of _ "s\<lparr> sy_client := c \<rparr>"]) auto
next
  case down: False
  define reply where "reply = fst (handshake_answer (client_hello (sy_client s)) (sy_begun s) (completion_of (sy_session s)))"
  define s2 where "s2 = s\<lparr> sy_begun := True, sy_offer := Some reply \<rparr>"
  have m2: "moves cap drv disp s s2" unfolding s2_def reply_def by (rule moves.shakes [OF down])
  have ok2: "system_ok a g ps rs cs s2" unfolding s2_def reply_def by (rule shakes_ok [OF ok down])
  have s2: "sy_client s2 = sy_client s" "sy_offer s2 = Some reply" "sy_asked s2 = sy_asked s" "sy_failed s2 = sy_failed s"
    by (simp_all add: s2_def)
  obtain k c where e: "ensure_connected (faced [Answer reply] [] [] (sy_client s2)) = (k, c)" by fastforce
  let ?s3 = "s2\<lparr> sy_client := c, sy_offer := None \<rparr>"
  have m3: "moves cap drv disp s2 ?s3" by (rule moves.connects [OF _ s2(2) e]) (use down s2 in simp)
  have "\<exists>g' ps' cs'. system_ok a g' ps' rs cs' ?s3"
    by (rule connects_ok [OF assms(1) ok2 _ _ s2(2) e]) (use n down s2 in simp_all)
  moreover have "offered a g (last (0 # rs)) (length (sy_asked s)) (sy_client s2) (sy_begun s2) (Some reply)"
    using ok2 s2 by (simp add: system_ok_def Let_def)
  from connects_held [OF this _ _ _ _ e] have "cl_connected c \<and> cl_queued c = []"
    using down gone up s2(1) ok by (simp add: system_ok_def Let_def current_def)
  moreover have "comes_to cap drv disp s ?s3"
    using comes_step [OF m2 comes_step [OF m3]] by (simp add: comes_to_def)
  ultimately show ?thesis using s2 by (intro exI [of _ ?s3]) auto
qed

text \<open>C4. No call is stranded: from whatever state the client and the server came to, unless the client has given
  up connecting, there is a way on over a network that holds, in which nothing more is asked or reported as
  failed: the client, which any call has connect first, comes up, and once the serving thread has read what
  its connection carries, every frame the client queued has run, but those given up on by a call that waited for
  its reply.\<close>

theorem nothing_is_stranded:
  assumes "a \<noteq> 0" and "upcoming first = next_id a" and "se_last_req se = 0" and "se_last_reply se = []" and "lk_sent lk = []"
    and "comes_to cap drv disp (new_system (new_client session first lk) se) s" and "length (sy_asked s) < id_window"
    and "cl_connected (sy_client s) \<or> \<not> cl_connect_failed (sy_client s)"
  shows "\<exists>s' rs. comes_to cap drv disp s s' \<and> sy_asked s' = sy_asked s \<and> sy_failed s' = sy_failed s
    \<and> sorted_wrt (<) rs \<and> {1..length (sy_asked s)} - set (sy_failed s) \<subseteq> set rs \<and> set rs \<subseteq> {1..length (sy_asked s)}
    \<and> ran_bytes s' = map (\<lambda>p. sf_bytes (sy_asked s ! (p - 1))) rs"
proof -
  note ok0 = new_system_ok [OF assms(1-5), of session]
  from comes_ok [OF assms(1,6,7) ok0] obtain g ps rs cs where ok: "system_ok a g ps rs cs s" by blast
  have "\<not> cl_session_gone (sy_client s)"
    by (rule comes_session [OF assms(1,6,7) ok0]) (simp add: new_system_def new_client_def)
  from comes_up [OF assms(1) ok assms(7) this assms(8), of cap drv disp] obtain s1 g1 ps1 cs1 where s1: "comes_to cap drv disp s s1"
    "sy_asked s1 = sy_asked s" "sy_failed s1 = sy_failed s" "system_ok a g1 ps1 rs cs1 s1" "cl_connected (sy_client s1)"
    "cl_queued (sy_client s1) = []" by blast
  let ?n = "length (lk_sent (cl_link (sy_client s1)))"
  obtain s2 where s2: "comes_to cap drv disp s1 s2" "sy_client s2 = sy_client s1" "sy_asked s2 = sy_asked s1" "sy_failed s2 = sy_failed s1"
    "system_ok a g1 ps1 rs cs1 s2" "Suc (sy_serving s2) = ?n"
  proof (cases "Suc (sy_serving s1) = ?n")
    case True
    then show ?thesis using that [of s1] s1(4) by (simp add: comes_to_def)
  next
    case False
    have "?n \<noteq> 0" using s1(4,5) by (auto simp: system_ok_def Let_def current_def)
    moreover have "sy_serving s1 < ?n" using s1(4) calculation by (auto simp: system_ok_def Let_def follows_def)
    ultimately have i: "sy_serving s1 < ?n - 1" "?n - 1 < ?n" using False by simp_all
    let ?s = "s1\<lparr> sy_serving := ?n - 1, sy_read := 0 \<rparr>"
    have "comes_to cap drv disp s1 ?s" using moves.takes [OF i] by (simp add: comes_to_def r_into_rtranclp)
    then show ?thesis using that [of ?s] takes_ok [OF s1(4) i(2)] i by simp
  qed
  from catches_up [OF assms(1) s2(5), of cap drv disp] s1 s2 assms(7) obtain s' rs' where s': "comes_to cap drv disp s2 s'"
    "sy_asked s' = sy_asked s" "sy_failed s' = sy_failed s" "system_ok a g1 ps1 rs' cs1 s'"
    "covers (set (sy_failed s)) 0 (length (sy_asked s)) rs'" by auto
  have "comes_to cap drv disp s s'" using s1(1) s2(1) s'(1) unfolding comes_to_def by (metis rtranclp_trans)
  moreover have "ran_are a (sy_asked s) (set (sy_failed s)) rs' (sy_session s') (sy_ran s')"
    using s'(2-4) by (simp add: system_ok_def Let_def)
  moreover have "{1..length (sy_asked s)} - set (sy_failed s) \<subseteq> set rs'" using s'(5) by (auto simp: covers_def Suc_le_eq)
  ultimately show ?thesis using s'(2,3)
    by (intro exI [of _ s'] exI [of _ rs']) (auto simp: covers_def ran_are_def positions_def ran_bytes_def asked_at_def)
qed

lemma nothing_is_stranded_witness:
  "\<exists>s' rs. comes_to 4096 fake_driver demo_disp demo_queued s' \<and> sy_asked s' = sy_asked demo_queued \<and> 1 \<in> set rs
    \<and> ran_bytes s' = map (\<lambda>p. sf_bytes (sy_asked demo_queued ! (p - 1))) rs"
proof -
  have "cl_connected (sy_client demo_queued) \<or> \<not> cl_connect_failed (sy_client demo_queued)"
    by (simp add: demo_written_is(1) demo_queue) (simp add: demo_up_client)
  from nothing_is_stranded [OF demo_given demo_comes(1) [unfolded demo_start_def] demo_asked(4) this] obtain s' rs
    where s': "comes_to 4096 fake_driver demo_disp demo_queued s'" "sy_asked s' = sy_asked demo_queued"
      "{1..length (sy_asked demo_queued)} - set (sy_failed demo_queued) \<subseteq> set rs"
      "ran_bytes s' = map (\<lambda>p. sf_bytes (sy_asked demo_queued ! (p - 1))) rs" by blast
  moreover have "1 \<in> set rs" using s'(3) by (auto simp: demo_asked)
  ultimately show ?thesis by blast
qed

end
