(* ===== verification/Marshal.thy ===== *)
theory Marshal
  imports Dispatch
begin

text \<open>
  The wire format of a forwarded driver call, as the generated code has it on both sides: the client
  stubs of \<^verbatim>\<open>client/generated/client_stubs.cpp\<close> write a call's arguments into a request and read its
  results out of the reply, the cases of \<^verbatim>\<open>server/generated/dispatch.cpp\<close> do the reverse. Every stub
  and every case is a sequence of a few forms, one per parameter of the C function: a description of
  the parameters in order says which form each has, and the functions here are what the forms do.
  \<^verbatim>\<open>Stubs\<close> and \<^verbatim>\<open>Cases\<close> hold the two tables.

  A C value is its bytes: an integer, an enum, a handle and a device address of \<open>n\<close> bytes are a 64-bit
  word of which the low \<open>n\<close> bytes count. What a caller's pointer points at is the list of its bytes,
  and \<open>None\<close> is the null pointer.
\<close>

section \<open>Parameters\<close>

text \<open>How long a buffer is: as long as the image in it says, a constant, a parameter (a signed one
  converts to \<open>size_t\<close> through its sign), an array of a count of elements, or an attribute's size.\<close>

datatype measure = Whole | Const nat | Length nat | Signed nat | Array_of nat nat | Attr_size nat

text \<open>\<open>In n\<close> a value of \<open>n\<close> bytes, \<open>Out n\<close> a pointer to where one goes, \<open>Text\<close> a C string, \<open>Block\<close> a
  pointer to bytes the callee reads, \<open>Room\<close> one to bytes it fills, \<open>Struct\<close> and \<open>Out_struct\<close> pointers
  to a structure copied as it is; an \<open>Unsent\<close> parameter never leaves the client.\<close>

datatype param =
    In nat
  | Out nat
  | Text
  | Block measure
  | Room measure
  | Struct nat
  | Out_struct nat
  | Unsent

text \<open>Arguments. The client's caller gives \<open>Place\<close> for a pointer to be written through and whether it
  is there; the server, which makes the room itself, has \<open>Space\<close> with its size.\<close>

datatype arg =
    Val u64
  | Place bool
  | Bytes "byte list option"
  | Space bool u64
  | Absent

definition value_at :: "nat \<Rightarrow> arg list \<Rightarrow> u64" where
  "value_at i as = (if i < length as then (case as ! i of Val v \<Rightarrow> v | _ \<Rightarrow> 0) else 0)"

text \<open>\<open>pointer_attr_size\<close>, by the numbers of the attributes.\<close>

definition pointer_attr_size :: "u32 \<Rightarrow> u64" where
  "pointer_attr_size attribute =
     (if attribute \<in> {1, 3, 4, 11, 19} then 8
      else if attribute \<in> {12, 18} then 8
      else if attribute \<in> {2, 9, 14, 16} then 4
      else if attribute \<in> {6, 8, 10, 15, 13} then 1
      else if attribute \<in> {7, 20} then 8
      else 0)"

text \<open>A value read as the \<open>int\<close> it is and converted to \<open>size_t\<close>.\<close>

definition int_to_size :: "u64 \<Rightarrow> u64" where
  "int_to_size v = signed_take_bit 31 v"

definition extent :: "measure \<Rightarrow> arg list \<Rightarrow> u64 option" where
  "extent m as = (case m of
       Whole \<Rightarrow> None
     | Const n \<Rightarrow> Some (of_nat n)
     | Length i \<Rightarrow> Some (value_at i as)
     | Signed i \<Rightarrow> Some (int_to_size (value_at i as))
     | Array_of i n \<Rightarrow> Some (array_bytes (value_at i as) (of_nat n))
     | Attr_size i \<Rightarrow> Some (pointer_attr_size (ucast (value_at i as))))"

definition room_size :: "measure \<Rightarrow> arg list \<Rightarrow> u64" where
  "room_size m as = (case extent m as of None \<Rightarrow> 0 | Some n \<Rightarrow> n)"

section \<open>The client writes a request\<close>

definition put_flag :: "bool \<Rightarrow> buffer \<Rightarrow> buffer" where
  "put_flag there = buf_put 1 (if there then 1 else 0 :: byte)"

definition put_param :: "arg list \<Rightarrow> param \<Rightarrow> arg \<Rightarrow> buffer \<Rightarrow> buffer" where
  "put_param as p a b = (case (p, a) of
       (In n, Val v) \<Rightarrow> buf_put n v b
     | (Out n, Place there) \<Rightarrow> put_flag there b
     | (Out_struct n, Place there) \<Rightarrow> put_flag there b
     | (Text, Bytes s) \<Rightarrow> put_str s b
     | (Block m, Bytes s) \<Rightarrow> (case s of
           None \<Rightarrow> put_flag False b
         | Some bs \<Rightarrow> put_sized bs (put_flag True b))
     | (Struct n, Bytes s) \<Rightarrow> (case s of
           None \<Rightarrow> put_flag False b
         | Some bs \<Rightarrow> put_bytes bs (put_flag True b))
     | (Room m, Place there) \<Rightarrow> buf_put 8 (room_size m as) (put_flag there b)
     | _ \<Rightarrow> b)"

fun put_params :: "arg list \<Rightarrow> param list \<Rightarrow> arg list \<Rightarrow> buffer \<Rightarrow> buffer" where
  "put_params as (p # ps) (a # rest) b = put_params as ps rest (put_param as p a b)"
| "put_params as _ _ b = b"

definition marshal :: "param list \<Rightarrow> arg list \<Rightarrow> buffer" where
  "marshal ps as = put_params as ps as empty_buffer"

section \<open>The server reads it\<close>

definition read_flagged :: "(buffer \<Rightarrow> byte list option \<times> buffer) \<Rightarrow> buffer \<Rightarrow> arg option \<times> buffer" where
  "read_flagged get b = (case buf_get 1 b of
       (None, b1) \<Rightarrow> (None, b1)
     | (Some there, b1) \<Rightarrow> (if (there :: byte) = 0 then (Some (Bytes None), b1)
         else (case get b1 of (None, b2) \<Rightarrow> (None, b2) | (Some bs, b2) \<Rightarrow> (Some (Bytes (Some bs)), b2))))"

text \<open>The driver is given a string's \<open>c_str\<close>, so it sees what comes before the first null byte.\<close>

definition c_str :: "byte list \<Rightarrow> byte list" where
  "c_str = takeWhile (\<lambda>c. c \<noteq> 0)"

definition read_param :: "param \<Rightarrow> buffer \<Rightarrow> arg option \<times> buffer" where
  "read_param p b = (case p of
       In n \<Rightarrow> (case buf_get n b of (v, b1) \<Rightarrow> (map_option Val v, b1))
     | Out n \<Rightarrow> (case buf_get 1 b of (v, b1) \<Rightarrow> (map_option (\<lambda>there. Place ((there :: byte) \<noteq> 0)) v, b1))
     | Out_struct n \<Rightarrow> (case buf_get 1 b of (v, b1) \<Rightarrow> (map_option (\<lambda>there. Place ((there :: byte) \<noteq> 0)) v, b1))
     | Text \<Rightarrow> (case get_str b of (v, b1) \<Rightarrow> (map_option (\<lambda>s. Bytes (map_option c_str s)) v, b1))
     | Block m \<Rightarrow> read_flagged get_sized b
     | Struct n \<Rightarrow> read_flagged (get_bytes n) b
     | Room m \<Rightarrow> (case buf_get 1 b of
           (None, b1) \<Rightarrow> (None, b1)
         | (Some there, b1) \<Rightarrow> (case buf_get 8 b1 of
             (v, b2) \<Rightarrow> (map_option (Space ((there :: byte) \<noteq> 0)) v, b2)))
     | Unsent \<Rightarrow> (Some Absent, b))"

fun read_params :: "param list \<Rightarrow> buffer \<Rightarrow> arg list option \<times> buffer" where
  "read_params [] b = (Some [], b)"
| "read_params (p # ps) b = (case read_param p b of
       (None, b1) \<Rightarrow> (None, b1)
     | (Some a, b1) \<Rightarrow> (case read_params ps b1 of
           (None, b2) \<Rightarrow> (None, b2)
         | (Some as, b2) \<Rightarrow> (Some (a # as), b2)))"

text \<open>What the sizes on the wire are checked against before the driver sees a buffer. A vector that is
  asked for more than \<open>PTRDIFF_MAX\<close> bytes throws \<open>length_error\<close>; whether memory for fewer can be
  had is a parameter.\<close>

datatype admission = Fits | Bad_size | No_memory | Too_long

definition admit_arg :: "(u64 \<Rightarrow> bool) \<Rightarrow> arg list \<Rightarrow> param \<Rightarrow> arg \<Rightarrow> admission" where
  "admit_arg memory as p a = (case (p, a) of
       (Block m, Bytes (Some bs)) \<Rightarrow> (case extent m as of
           None \<Rightarrow> Fits
         | Some n \<Rightarrow> (if n \<noteq> of_nat (length bs) then Bad_size else Fits))
     | (Room m, Space True n) \<Rightarrow>
         (if room_size m as \<noteq> n \<or> n = 0 then Bad_size
          else if n > 2 ^ 63 - 1 then Too_long
          else if \<not> memory n then No_memory else Fits)
     | _ \<Rightarrow> Fits)"

fun admit :: "(u64 \<Rightarrow> bool) \<Rightarrow> arg list \<Rightarrow> param list \<Rightarrow> arg list \<Rightarrow> admission" where
  "admit memory as (p # ps) (a # rest) =
     (case admit_arg memory as p a of Fits \<Rightarrow> admit memory as ps rest | bad \<Rightarrow> bad)"
| "admit memory as _ _ = Fits"

section \<open>The server writes a reply\<close>

text \<open>A variable of \<open>n\<close> bytes, zero before the call, that the driver wrote these bytes to.\<close>

definition written :: "nat \<Rightarrow> byte list \<Rightarrow> byte list" where
  "written n bs = take n (bs @ replicate n 0)"

text \<open>The driver's outputs are one byte string per pointer it was given, in the order of the
  parameters.\<close>

fun put_results :: "param list \<Rightarrow> arg list \<Rightarrow> byte list list \<Rightarrow> buffer \<Rightarrow> buffer" where
  "put_results (Out n # ps) (Place True # as) outs b =
     put_results ps as (tl outs) (put_bytes (written n (hd (outs @ [[]]))) b)"
| "put_results (Out_struct n # ps) (Place True # as) outs b =
     put_results ps as (tl outs) (put_sized (written n (hd (outs @ [[]]))) b)"
| "put_results (Room m # ps) (Space True n # as) outs b =
     put_results ps as (tl outs) (put_sized (written (unat n) (hd (outs @ [[]]))) b)"
| "put_results (p # ps) (a # as) outs b = put_results ps as outs b"
| "put_results _ _ outs b = b"

section \<open>The client reads it\<close>

text \<open>What the stub writes through its caller's pointers, by the position of the parameter, and
  whether it read all of them; it stops at the first it cannot read. The bytes of a structure must
  be as many as it has; those of a buffer are taken as they come.\<close>

fun take_outs :: "nat \<Rightarrow> param list \<Rightarrow> arg list \<Rightarrow> buffer \<Rightarrow> (nat \<times> byte list) list \<times> bool" where
  "take_outs i (Out n # ps) (Place True # as) b = (case get_bytes n b of
       (None, b1) \<Rightarrow> ([], False)
     | (Some bs, b1) \<Rightarrow> (case take_outs (Suc i) ps as b1 of (ws, ok) \<Rightarrow> ((i, bs) # ws, ok)))"
| "take_outs i (Out_struct n # ps) (Place True # as) b = (case get_sized b of
       (None, b1) \<Rightarrow> ([], False)
     | (Some bs, b1) \<Rightarrow> (if length bs \<noteq> n then ([], False)
         else case take_outs (Suc i) ps as b1 of (ws, ok) \<Rightarrow> ((i, bs) # ws, ok)))"
| "take_outs i (Room m # ps) (Place True # as) b = (case get_sized b of
       (None, b1) \<Rightarrow> ([], False)
     | (Some bs, b1) \<Rightarrow> (case take_outs (Suc i) ps as b1 of (ws, ok) \<Rightarrow> ((i, bs) # ws, ok)))"
| "take_outs i (p # ps) (a # as) b = take_outs (Suc i) ps as b"
| "take_outs i _ _ b = ([], True)"

end
