(* ===== verification/Pending.thy ===== *)
theory Pending
  imports Prelude
begin

text \<open>
  Which streams have work outstanding that a synchronize would wait for (\<^verbatim>\<open>client/pending.cpp\<close>): the
  record behind the choice between waiting in \<open>cuStreamSynchronize\<close> and queueing it. The mutex that
  every operation holds makes each one step.
\<close>

record pending =
  pd_busy :: "u64 set"
  pd_unplaced :: bool

definition nothing_pending :: pending where
  "nothing_pending = \<lparr> pd_busy = {}, pd_unplaced = False \<rparr>"

definition work_on :: "u64 \<Rightarrow> pending \<Rightarrow> pending" where
  "work_on stream p = p\<lparr> pd_busy := insert stream (pd_busy p) \<rparr>"

definition work_somewhere :: "pending \<Rightarrow> pending" where
  "work_somewhere p = p\<lparr> pd_unplaced := True \<rparr>"

definition settled :: "u64 \<Rightarrow> pending \<Rightarrow> pending" where
  "settled stream p = p\<lparr> pd_busy := pd_busy p - {stream} \<rparr>"

definition settled_all :: "pending \<Rightarrow> pending" where
  "settled_all p = p\<lparr> pd_busy := {}, pd_unplaced := False \<rparr>"

definition nothing_to_wait_for :: "u64 \<Rightarrow> pending \<Rightarrow> bool" where
  "nothing_to_wait_for stream p \<longleftrightarrow>
     (if pd_unplaced p then False else if stream = 0 then pd_busy p = {} else stream \<notin> pd_busy p)"

section \<open>What the record stands for\<close>

text \<open>The marks the calls of a program leave, in order: work issued, on a stream or on one that
  cannot be named, and waits that returned.\<close>

datatype mark = Issued u64 | Issued_somewhere | Waited u64 | Waited_all

fun record_mark :: "mark \<Rightarrow> pending \<Rightarrow> pending" where
  "record_mark (Issued t) p = work_on t p"
| "record_mark Issued_somewhere p = work_somewhere p"
| "record_mark (Waited t) p = settled t p"
| "record_mark Waited_all p = settled_all p"

definition record_marks :: "mark list \<Rightarrow> pending" where
  "record_marks ms = fold record_mark ms nothing_pending"

text \<open>Work is over once its stream, or everything, was waited for; what cannot be placed, only by a
  wait for everything.\<close>

fun is_over :: "mark \<Rightarrow> mark \<Rightarrow> bool" where
  "is_over (Issued t) w \<longleftrightarrow> w = Waited t \<or> w = Waited_all"
| "is_over _ w \<longleftrightarrow> w = Waited_all"

definition outstanding :: "mark \<Rightarrow> mark list \<Rightarrow> bool" where
  "outstanding m ms \<longleftrightarrow> (\<exists>before after. ms = before @ m # after \<and> (\<forall>w \<in> set after. \<not> is_over m w))"

lemma outstanding_snoc:
  "outstanding m (ms @ [w]) \<longleftrightarrow> w = m \<or> (outstanding m ms \<and> \<not> is_over m w)"
proof
  assume "outstanding m (ms @ [w])"
  then obtain before rest where s: "ms @ [w] = before @ m # rest" "\<forall>v \<in> set rest. \<not> is_over m v"
    by (auto simp: outstanding_def)
  then show "w = m \<or> (outstanding m ms \<and> \<not> is_over m w)"
    by (cases rest rule: rev_cases) (auto simp: outstanding_def append_eq_append_conv2 Cons_eq_append_conv)
next
  assume "w = m \<or> (outstanding m ms \<and> \<not> is_over m w)"
  then show "outstanding m (ms @ [w])"
  proof
    assume "w = m"
    then show ?thesis unfolding outstanding_def by (intro exI [of _ ms] exI [of _ "[]"]) simp
  next
    assume a: "outstanding m ms \<and> \<not> is_over m w"
    then obtain before rest where "ms = before @ m # rest" "\<forall>v \<in> set rest. \<not> is_over m v"
      by (auto simp: outstanding_def)
    with a show ?thesis unfolding outstanding_def by (intro exI [of _ before] exI [of _ "rest @ [w]"]) auto
  qed
qed

lemma outstanding_Nil [simp]: "\<not> outstanding m []"
  by (simp add: outstanding_def)

lemma pending_holds:
  "t \<in> pd_busy (record_marks ms) \<longleftrightarrow> outstanding (Issued t) ms"
  "pd_unplaced (record_marks ms) \<longleftrightarrow> outstanding Issued_somewhere ms"
proof (induction ms rule: rev_induct)
  case Nil
  show "t \<in> pd_busy (record_marks []) \<longleftrightarrow> outstanding (Issued t) []"
    "pd_unplaced (record_marks []) \<longleftrightarrow> outstanding Issued_somewhere []"
    by (simp_all add: record_marks_def nothing_pending_def)
next
  case (snoc w ms)
  have step: "record_marks (ms @ [v]) = record_mark v (record_marks ms)" for v by (simp add: record_marks_def)
  show "t \<in> pd_busy (record_marks (ms @ [w])) \<longleftrightarrow> outstanding (Issued t) (ms @ [w])"
    using snoc.IH(1) by (cases w)
      (auto simp: step outstanding_snoc work_on_def work_somewhere_def settled_def settled_all_def)
  show "pd_unplaced (record_marks (ms @ [w])) \<longleftrightarrow> outstanding Issued_somewhere (ms @ [w])"
    using snoc.IH(2) by (cases w)
      (auto simp: step outstanding_snoc work_on_def work_somewhere_def settled_def settled_all_def)
qed

text \<open>The work a synchronize of a stream waits for: the stream's own, what cannot be placed and, for
  the default stream, everything.\<close>

fun concerns :: "u64 \<Rightarrow> mark \<Rightarrow> bool" where
  "concerns s (Issued t) \<longleftrightarrow> t = s \<or> s = 0"
| "concerns s Issued_somewhere \<longleftrightarrow> True"
| "concerns s _ \<longleftrightarrow> False"

lemma idle_stream:
  "nothing_to_wait_for s (record_marks ms) \<longleftrightarrow> \<not> (\<exists>m. concerns s m \<and> outstanding m ms)"
proof -
  have each: "(\<exists>m. concerns s m \<and> outstanding m ms) \<longleftrightarrow>
      outstanding Issued_somewhere ms \<or> (\<exists>t. (t = s \<or> s = 0) \<and> outstanding (Issued t) ms)" (is "?l \<longleftrightarrow> ?r")
  proof
    assume ?l
    then obtain m where "concerns s m" "outstanding m ms" by blast
    then show ?r by (cases m) auto
  next
    assume ?r
    then show ?l using concerns.simps(1,2) by blast
  qed
  show ?thesis unfolding each nothing_to_wait_for_def pending_holds [symmetric] by (cases "s = 0") auto
qed

text \<open>C7. A synchronize has nothing to wait for exactly where every piece of work that concerns
  its stream, the stream's own and what no stream is known for, or all there is for the default
  stream, was waited for after it was issued.\<close>

theorem idle_stream_has_no_outstanding_work:
  "nothing_to_wait_for s (record_marks ms) \<longleftrightarrow> \<not> (\<exists>m. concerns s m \<and> outstanding m ms)"
  by (rule idle_stream)

end
