(* ===== verification/Stubs.thy ===== *)
theory Stubs
  imports Marshal Pending
begin

text \<open>
  The client's driver entry points (\<^verbatim>\<open>client/generated/client_stubs.cpp\<close>), in the order of the file:
  the parameters of each forwarded call, whether it waits for its reply, and what it marks as pending.
  A stub that is not forwarded logs its name once, with a reason, and answers unsupported; the log is
  left out. The calls the generator leaves to \<^verbatim>\<open>client/shim.cpp\<close> are not here.
\<close>

section \<open>Stubs\<close>

text \<open>What a stub marks before it sends, and what has settled once its reply came: the number is the
  position of the stream parameter.\<close>

datatype before = No_work | Work_on nat | Work_somewhere
datatype after = No_wait | Settles nat | Settles_all

text \<open>\<open>Calls\<close> waits for its reply and \<open>Posts\<close> does not: name, API id, work, parameters, what settles.\<close>

datatype stub =
    Unimplemented string
  | Calls string u32 before "param list" after
  | Posts string u32 before "param list"

definition stubs_cuArray3DCreate_v2 :: "stub list" where
  "stubs_cuArray3DCreate_v2 =
    [Unimplemented ''cuArray3DCreate_v2'',
     Unimplemented ''cuArray3DGetDescriptor_v2'',
     Unimplemented ''cuArrayCreate_v2'',
     Calls ''cuArrayDestroy'' 4 No_work [In 8] No_wait,
     Unimplemented ''cuArrayGetDescriptor_v2'',
     Unimplemented ''cuArrayGetMemoryRequirements'',
     Calls ''cuArrayGetPlane'' 7 No_work [Out 8, In 8, In 4] No_wait,
     Unimplemented ''cuArrayGetSparseProperties'',
     Unimplemented ''cuCheckpointProcessCheckpoint'',
     Calls ''cuCheckpointProcessGetRestoreThreadId'' 10 No_work [In 4, Out 4] No_wait,
     Calls ''cuCheckpointProcessGetState'' 11 No_work [In 4, Out 4] No_wait,
     Unimplemented ''cuCheckpointProcessLock'',
     Unimplemented ''cuCheckpointProcessRestore'',
     Unimplemented ''cuCheckpointProcessUnlock'',
     Unimplemented ''cuCoredumpGetAttribute'',
     Unimplemented ''cuCoredumpGetAttributeGlobal'',
     Unimplemented ''cuCoredumpSetAttribute'',
     Unimplemented ''cuCoredumpSetAttributeGlobal'',
     Calls ''cuCtxAttach'' 19 No_work [Out 8, In 4] No_wait,
     Calls ''cuCtxCreate_v2'' 20 No_work [Out 8, In 4, In 4] No_wait,
     Unimplemented ''cuCtxCreate_v3'',
     Unimplemented ''cuCtxCreate_v4'',
     Calls ''cuCtxDestroy_v2'' 23 No_work [In 8] No_wait,
     Calls ''cuCtxDetach'' 24 No_work [In 8] No_wait]"

definition stubs_cuCtxDisablePeerAccess :: "stub list" where
  "stubs_cuCtxDisablePeerAccess =
    [Calls ''cuCtxDisablePeerAccess'' 25 No_work [In 8] No_wait,
     Calls ''cuCtxEnablePeerAccess'' 26 No_work [In 8, In 4] No_wait,
     Calls ''cuCtxFromGreenCtx'' 27 No_work [Out 8, In 8] No_wait,
     Calls ''cuCtxGetApiVersion'' 28 No_work [In 8, Out 4] No_wait,
     Calls ''cuCtxGetCacheConfig'' 29 No_work [Out 4] No_wait,
     Calls ''cuCtxGetCurrent'' 30 No_work [Out 8] No_wait,
     Unimplemented ''cuCtxGetDevResource'',
     Calls ''cuCtxGetDevice'' 32 No_work [Out 4] No_wait,
     Unimplemented ''cuCtxGetExecAffinity'',
     Calls ''cuCtxGetFlags'' 34 No_work [Out 4] No_wait,
     Calls ''cuCtxGetId'' 35 No_work [In 8, Out 8] No_wait,
     Calls ''cuCtxGetLimit'' 36 No_work [Out 8, In 4] No_wait,
     Calls ''cuCtxGetSharedMemConfig'' 37 No_work [Out 4] No_wait,
     Calls ''cuCtxGetStreamPriorityRange'' 38 No_work [Out 4, Out 4] No_wait,
     Calls ''cuCtxPopCurrent_v2'' 39 No_work [Out 8] No_wait]"

definition stubs_cuCtxPushCurrent_v2 :: "stub list" where
  "stubs_cuCtxPushCurrent_v2 =
    [Calls ''cuCtxPushCurrent_v2'' 40 No_work [In 8] No_wait,
     Calls ''cuCtxRecordEvent'' 41 No_work [In 8, In 8] No_wait,
     Calls ''cuCtxResetPersistingL2Cache'' 42 No_work [] No_wait,
     Calls ''cuCtxSetCacheConfig'' 43 No_work [In 4] No_wait,
     Calls ''cuCtxSetCurrent'' 44 No_work [In 8] No_wait,
     Calls ''cuCtxSetFlags'' 45 No_work [In 4] No_wait,
     Calls ''cuCtxSetLimit'' 46 No_work [In 4, In 8] No_wait,
     Calls ''cuCtxSetSharedMemConfig'' 47 No_work [In 4] No_wait,
     Calls ''cuCtxSynchronize'' 48 No_work [] Settles_all,
     Calls ''cuCtxWaitEvent'' 49 No_work [In 8, In 8] No_wait,
     Calls ''cuDestroyExternalMemory'' 50 No_work [In 8] No_wait,
     Calls ''cuDestroyExternalSemaphore'' 51 No_work [In 8] No_wait,
     Unimplemented ''cuDevResourceGenerateDesc'',
     Unimplemented ''cuDevSmResourceSplitByCount'',
     Calls ''cuDeviceCanAccessPeer'' 54 No_work [Out 4, In 4, In 4] No_wait,
     Calls ''cuDeviceComputeCapability'' 55 No_work [Out 4, Out 4, In 4] No_wait]"

definition stubs_cuDeviceGet :: "stub list" where
  "stubs_cuDeviceGet =
    [Calls ''cuDeviceGet'' 56 No_work [Out 4, In 4] No_wait,
     Calls ''cuDeviceGetAttribute'' 57 No_work [Out 4, In 4, In 4] No_wait,
     Calls ''cuDeviceGetByPCIBusId'' 58 No_work [Out 4, Text] No_wait,
     Calls ''cuDeviceGetCount'' 59 No_work [Out 4] No_wait,
     Calls ''cuDeviceGetDefaultMemPool'' 60 No_work [Out 8, In 4] No_wait,
     Unimplemented ''cuDeviceGetDevResource'',
     Calls ''cuDeviceGetExecAffinitySupport'' 62 No_work [Out 4, In 4, In 4] No_wait,
     Unimplemented ''cuDeviceGetGraphMemAttribute'',
     Calls ''cuDeviceGetLuid'' 64 No_work [Room (Const 8), Out 4, In 4] No_wait,
     Calls ''cuDeviceGetMemPool'' 65 No_work [Out 8, In 4] No_wait,
     Calls ''cuDeviceGetName'' 66 No_work [Room (Signed 1), In 4, In 4] No_wait,
     Unimplemented ''cuDeviceGetNvSciSyncAttributes'',
     Calls ''cuDeviceGetP2PAttribute'' 68 No_work [Out 4, In 4, In 4, In 4] No_wait,
     Calls ''cuDeviceGetPCIBusId'' 69 No_work [Out 1, In 4, In 4] No_wait]"

definition stubs_cuDeviceGetProperties :: "stub list" where
  "stubs_cuDeviceGetProperties =
    [Unimplemented ''cuDeviceGetProperties'',
     Calls ''cuDeviceGetTexture1DLinearMaxWidth'' 71 No_work [Out 8, In 4, In 4, In 4] No_wait,
     Calls ''cuDeviceGetUuid'' 72 No_work [Out_struct 16, In 4] No_wait,
     Calls ''cuDeviceGetUuid_v2'' 73 No_work [Out_struct 16, In 4] No_wait,
     Calls ''cuDeviceGraphMemTrim'' 74 No_work [In 4] No_wait,
     Unimplemented ''cuDeviceRegisterAsyncNotification'',
     Unimplemented ''cuDeviceSetGraphMemAttribute'',
     Calls ''cuDeviceSetMemPool'' 82 No_work [In 4, In 8] No_wait,
     Calls ''cuDeviceTotalMem_v2'' 83 No_work [Out 8, In 4] No_wait,
     Calls ''cuDeviceUnregisterAsyncNotification'' 84 No_work [In 4, In 8] No_wait,
     Calls ''cuEventCreate'' 86 No_work [Out 8, In 4] No_wait,
     Calls ''cuEventDestroy_v2'' 87 No_work [In 8] No_wait]"

definition stubs_cuEventElapsedTime :: "stub list" where
  "stubs_cuEventElapsedTime =
    [Calls ''cuEventElapsedTime'' 88 No_work [Out 4, In 8, In 8] No_wait,
     Calls ''cuEventElapsedTime_v2'' 89 No_work [Out 4, In 8, In 8] No_wait,
     Calls ''cuEventQuery'' 90 No_work [In 8] No_wait,
     Posts ''cuEventRecord'' 91 (Work_on 1) [In 8, In 8],
     Calls ''cuEventRecordWithFlags'' 92 (Work_on 1) [In 8, In 8, In 4] No_wait,
     Calls ''cuEventSynchronize'' 93 No_work [In 8] No_wait,
     Unimplemented ''cuExternalMemoryGetMappedBuffer'',
     Unimplemented ''cuExternalMemoryGetMappedMipmappedArray'',
     Calls ''cuFlushGPUDirectRDMAWrites'' 96 No_work [In 4, In 4] No_wait,
     Calls ''cuFuncGetAttribute'' 97 No_work [Out 4, In 4, In 8] No_wait,
     Calls ''cuFuncGetModule'' 98 No_work [Out 8, In 8] No_wait,
     Unimplemented ''cuFuncGetName'',
     Calls ''cuFuncGetParamInfo'' 100 No_work [In 8, In 8, Out 8, Out 8] No_wait,
     Calls ''cuFuncIsLoaded'' 101 No_work [Out 4, In 8] No_wait,
     Calls ''cuFuncLoad'' 102 No_work [In 8] No_wait]"

definition stubs_cuFuncSetAttribute :: "stub list" where
  "stubs_cuFuncSetAttribute =
    [Calls ''cuFuncSetAttribute'' 103 No_work [In 8, In 4, In 4] No_wait,
     Calls ''cuFuncSetBlockShape'' 104 No_work [In 8, In 4, In 4, In 4] No_wait,
     Calls ''cuFuncSetCacheConfig'' 105 No_work [In 8, In 4] No_wait,
     Calls ''cuFuncSetSharedMemConfig'' 106 No_work [In 8, In 4] No_wait,
     Calls ''cuFuncSetSharedSize'' 107 No_work [In 8, In 4] No_wait,
     Unimplemented ''cuGraphAddBatchMemOpNode'',
     Unimplemented ''cuGraphAddChildGraphNode'',
     Unimplemented ''cuGraphAddDependencies'',
     Unimplemented ''cuGraphAddDependencies_v2'',
     Unimplemented ''cuGraphAddEmptyNode'',
     Unimplemented ''cuGraphAddEventRecordNode'',
     Unimplemented ''cuGraphAddEventWaitNode'',
     Unimplemented ''cuGraphAddExternalSemaphoresSignalNode'',
     Unimplemented ''cuGraphAddExternalSemaphoresWaitNode'',
     Unimplemented ''cuGraphAddHostNode'',
     Unimplemented ''cuGraphAddKernelNode_v2'',
     Unimplemented ''cuGraphAddMemAllocNode'',
     Unimplemented ''cuGraphAddMemFreeNode'',
     Unimplemented ''cuGraphAddMemcpyNode'',
     Unimplemented ''cuGraphAddMemsetNode'',
     Unimplemented ''cuGraphAddNode'',
     Unimplemented ''cuGraphAddNode_v2'',
     Unimplemented ''cuGraphBatchMemOpNodeGetParams'',
     Unimplemented ''cuGraphBatchMemOpNodeSetParams'',
     Calls ''cuGraphChildGraphNodeGetGraph'' 131 No_work [In 8, Out 8] No_wait]"

definition stubs_cuGraphClone :: "stub list" where
  "stubs_cuGraphClone =
    [Calls ''cuGraphClone'' 132 No_work [Out 8, In 8] No_wait,
     Calls ''cuGraphConditionalHandleCreate'' 133 No_work [Out 8, In 8, In 8, In 4, In 4] No_wait,
     Calls ''cuGraphCreate'' 134 No_work [Out 8, In 4] No_wait,
     Calls ''cuGraphDebugDotPrint'' 135 No_work [In 8, Text, In 4] No_wait,
     Calls ''cuGraphDestroy'' 136 No_work [In 8] No_wait,
     Calls ''cuGraphDestroyNode'' 137 No_work [In 8] No_wait,
     Calls ''cuGraphEventRecordNodeGetEvent'' 138 No_work [In 8, Out 8] No_wait,
     Calls ''cuGraphEventRecordNodeSetEvent'' 139 No_work [In 8, In 8] No_wait,
     Calls ''cuGraphEventWaitNodeGetEvent'' 140 No_work [In 8, Out 8] No_wait,
     Calls ''cuGraphEventWaitNodeSetEvent'' 141 No_work [In 8, In 8] No_wait,
     Unimplemented ''cuGraphExecBatchMemOpNodeSetParams'',
     Calls ''cuGraphExecChildGraphNodeSetParams'' 143 No_work [In 8, In 8, In 8] No_wait,
     Calls ''cuGraphExecDestroy'' 144 No_work [In 8] No_wait,
     Calls ''cuGraphExecEventRecordNodeSetEvent'' 145 No_work [In 8, In 8, In 8] No_wait]"

definition stubs_cuGraphExecEventWaitNodeSetEvent :: "stub list" where
  "stubs_cuGraphExecEventWaitNodeSetEvent =
    [Calls ''cuGraphExecEventWaitNodeSetEvent'' 146 No_work [In 8, In 8, In 8] No_wait,
     Unimplemented ''cuGraphExecExternalSemaphoresSignalNodeSetParams'',
     Unimplemented ''cuGraphExecExternalSemaphoresWaitNodeSetParams'',
     Calls ''cuGraphExecGetFlags'' 149 No_work [In 8, Out 8] No_wait,
     Unimplemented ''cuGraphExecHostNodeSetParams'',
     Unimplemented ''cuGraphExecKernelNodeSetParams_v2'',
     Unimplemented ''cuGraphExecMemcpyNodeSetParams'',
     Unimplemented ''cuGraphExecMemsetNodeSetParams'',
     Unimplemented ''cuGraphExecNodeSetParams'',
     Unimplemented ''cuGraphExecUpdate_v2'',
     Unimplemented ''cuGraphExternalSemaphoresSignalNodeGetParams'',
     Unimplemented ''cuGraphExternalSemaphoresSignalNodeSetParams'',
     Unimplemented ''cuGraphExternalSemaphoresWaitNodeGetParams'',
     Unimplemented ''cuGraphExternalSemaphoresWaitNodeSetParams'',
     Calls ''cuGraphGetEdges'' 160 No_work [In 8, Out 8, Out 8, Out 8] No_wait,
     Unimplemented ''cuGraphGetEdges_v2'',
     Unimplemented ''cuGraphGetRootNodes'',
     Unimplemented ''cuGraphHostNodeGetParams'',
     Unimplemented ''cuGraphHostNodeSetParams'',
     Calls ''cuGraphInstantiateWithFlags'' 166 No_work [Out 8, In 8, In 8] No_wait,
     Unimplemented ''cuGraphInstantiateWithParams'',
     Calls ''cuGraphKernelNodeCopyAttributes'' 168 No_work [In 8, In 8] No_wait,
     Unimplemented ''cuGraphKernelNodeGetAttribute'',
     Unimplemented ''cuGraphKernelNodeGetParams_v2'',
     Unimplemented ''cuGraphKernelNodeSetAttribute'',
     Unimplemented ''cuGraphKernelNodeSetParams_v2'']"

definition stubs_cuGraphLaunch :: "stub list" where
  "stubs_cuGraphLaunch =
    [Calls ''cuGraphLaunch'' 173 (Work_on 1) [In 8, In 8] No_wait,
     Unimplemented ''cuGraphMemAllocNodeGetParams'',
     Calls ''cuGraphMemFreeNodeGetParams'' 175 No_work [In 8, Out 8] No_wait,
     Unimplemented ''cuGraphMemcpyNodeGetParams'',
     Unimplemented ''cuGraphMemcpyNodeSetParams'',
     Unimplemented ''cuGraphMemsetNodeGetParams'',
     Unimplemented ''cuGraphMemsetNodeSetParams'',
     Calls ''cuGraphNodeFindInClone'' 180 No_work [Out 8, In 8, In 8] No_wait,
     Unimplemented ''cuGraphNodeGetDependencies'',
     Unimplemented ''cuGraphNodeGetDependencies_v2'',
     Unimplemented ''cuGraphNodeGetDependentNodes'',
     Unimplemented ''cuGraphNodeGetDependentNodes_v2'',
     Calls ''cuGraphNodeGetEnabled'' 185 No_work [In 8, In 8, Out 4] No_wait,
     Calls ''cuGraphNodeGetType'' 186 No_work [In 8, Out 4] No_wait,
     Calls ''cuGraphNodeSetEnabled'' 187 No_work [In 8, In 8, In 4] No_wait,
     Unimplemented ''cuGraphNodeSetParams'',
     Calls ''cuGraphReleaseUserObject'' 189 No_work [In 8, In 8, In 4] No_wait,
     Unimplemented ''cuGraphRemoveDependencies'',
     Unimplemented ''cuGraphRemoveDependencies_v2'',
     Calls ''cuGraphRetainUserObject'' 192 No_work [In 8, In 8, In 4, In 4] No_wait,
     Calls ''cuGraphUpload'' 193 (Work_on 1) [In 8, In 8] No_wait]"

definition stubs_cuGraphicsMapResources :: "stub list" where
  "stubs_cuGraphicsMapResources =
    [Calls ''cuGraphicsMapResources'' 194 (Work_on 2) [In 4, Out 8, In 8] No_wait,
     Calls ''cuGraphicsResourceGetMappedMipmappedArray'' 195 No_work [Out 8, In 8] No_wait,
     Calls ''cuGraphicsResourceGetMappedPointer_v2'' 196 No_work [Out 8, Out 8, In 8] No_wait,
     Calls ''cuGraphicsResourceSetMapFlags_v2'' 197 No_work [In 8, In 4] No_wait,
     Calls ''cuGraphicsSubResourceGetMappedArray'' 198 No_work [Out 8, In 8, In 4, In 4] No_wait,
     Calls ''cuGraphicsUnmapResources'' 199 (Work_on 2) [In 4, Out 8, In 8] No_wait,
     Calls ''cuGraphicsUnregisterResource'' 200 No_work [In 8] No_wait,
     Calls ''cuGreenCtxCreate'' 201 No_work [Out 8, In 8, In 4, In 4] No_wait,
     Calls ''cuGreenCtxDestroy'' 202 No_work [In 8] No_wait,
     Unimplemented ''cuGreenCtxGetDevResource'',
     Calls ''cuGreenCtxRecordEvent'' 204 No_work [In 8, In 8] No_wait,
     Calls ''cuGreenCtxStreamCreate'' 205 No_work [Out 8, In 8, In 4, In 4] No_wait,
     Calls ''cuGreenCtxWaitEvent'' 206 No_work [In 8, In 8] No_wait,
     Unimplemented ''cuImportExternalMemory'']"

definition stubs_cuImportExternalSemaphore :: "stub list" where
  "stubs_cuImportExternalSemaphore =
    [Unimplemented ''cuImportExternalSemaphore'',
     Calls ''cuInit'' 209 No_work [In 4] No_wait,
     Calls ''cuIpcCloseMemHandle'' 210 No_work [In 8] No_wait,
     Unimplemented ''cuIpcGetEventHandle'',
     Unimplemented ''cuIpcGetMemHandle'',
     Unimplemented ''cuIpcOpenEventHandle'',
     Unimplemented ''cuIpcOpenMemHandle_v2'',
     Calls ''cuKernelGetAttribute'' 215 No_work [Out 4, In 4, In 8, In 4] No_wait,
     Calls ''cuKernelGetFunction'' 216 No_work [Out 8, In 8] No_wait,
     Calls ''cuKernelGetLibrary'' 217 No_work [Out 8, In 8] No_wait,
     Unimplemented ''cuKernelGetName'',
     Calls ''cuKernelGetParamInfo'' 219 No_work [In 8, In 8, Out 8, Out 8] No_wait,
     Calls ''cuKernelSetAttribute'' 220 No_work [In 4, In 4, In 8, In 4] No_wait,
     Calls ''cuKernelSetCacheConfig'' 221 No_work [In 8, In 4, In 4] No_wait,
     Calls ''cuLaunch'' 222 Work_somewhere [In 8] No_wait,
     Unimplemented ''cuLaunchCooperativeKernelMultiDevice'',
     Calls ''cuLaunchGrid'' 225 Work_somewhere [In 8, In 4, In 4] No_wait]"

definition stubs_cuLaunchGridAsync :: "stub list" where
  "stubs_cuLaunchGridAsync =
    [Calls ''cuLaunchGridAsync'' 226 (Work_on 3) [In 8, In 4, In 4, In 8] No_wait,
     Unimplemented ''cuLaunchHostFunc'',
     Unimplemented ''cuLaunchKernelEx'',
     Unimplemented ''cuLibraryEnumerateKernels'',
     Calls ''cuLibraryGetGlobal'' 231 No_work [Out 8, Out 8, In 8, Text] No_wait,
     Calls ''cuLibraryGetKernel'' 232 No_work [Out 8, In 8, Text] No_wait,
     Calls ''cuLibraryGetKernelCount'' 233 No_work [Out 4, In 8] No_wait,
     Calls ''cuLibraryGetManaged'' 234 No_work [Out 8, Out 8, In 8, Text] No_wait,
     Calls ''cuLibraryGetModule'' 235 No_work [Out 8, In 8] No_wait,
     Unimplemented ''cuLibraryGetUnifiedFunction'',
     Calls ''cuLibraryLoadData'' 237 No_work [Out 8, Block Whole, Unsent, Unsent, In 4, Unsent, Unsent, In 4] No_wait,
     Unimplemented ''cuLibraryLoadFromFile'',
     Calls ''cuLibraryUnload'' 239 No_work [In 8] No_wait,
     Unimplemented ''cuLinkAddData_v2'',
     Unimplemented ''cuLinkAddFile_v2'',
     Unimplemented ''cuLinkComplete'',
     Unimplemented ''cuLinkCreate_v2'',
     Calls ''cuLinkDestroy'' 244 No_work [In 8] No_wait]"

definition stubs_cuMemAddressFree :: "stub list" where
  "stubs_cuMemAddressFree =
    [Calls ''cuMemAddressFree'' 245 No_work [In 8, In 8] No_wait,
     Calls ''cuMemAddressReserve'' 246 No_work [Out 8, In 8, In 8, In 8, In 8] No_wait,
     Calls ''cuMemAdvise'' 247 No_work [In 8, In 8, In 4, In 4] No_wait,
     Unimplemented ''cuMemAdvise_v2'',
     Calls ''cuMemAllocAsync'' 249 (Work_on 2) [Out 8, In 8, In 8] No_wait,
     Calls ''cuMemAllocFromPoolAsync'' 250 (Work_on 3) [Out 8, In 8, In 8, In 8] No_wait,
     Unimplemented ''cuMemAllocManaged'',
     Calls ''cuMemAllocPitch_v2'' 253 No_work [Out 8, Out 8, In 8, In 8, In 4] No_wait,
     Unimplemented ''cuMemBatchDecompressAsync'',
     Calls ''cuMemCreate'' 256 No_work [Out 8, In 8, Struct 32, In 8] No_wait,
     Unimplemented ''cuMemExportToShareableHandle'',
     Calls ''cuMemFreeAsync'' 258 (Work_on 1) [In 8, In 8] No_wait,
     Calls ''cuMemGetAccess'' 261 No_work [Out 8, Struct 8, In 8] No_wait,
     Calls ''cuMemGetAddressRange_v2'' 262 No_work [Out 8, Out 8, In 8] No_wait]"

definition stubs_cuMemGetAllocationGranularity :: "stub list" where
  "stubs_cuMemGetAllocationGranularity =
    [Calls ''cuMemGetAllocationGranularity'' 263 No_work [Out 8, Struct 32, In 4] No_wait,
     Calls ''cuMemGetAllocationPropertiesFromHandle'' 264 No_work [Out_struct 32, In 8] No_wait,
     Unimplemented ''cuMemGetHandleForAddressRange'',
     Calls ''cuMemGetInfo_v2'' 266 No_work [Out 8, Out 8] No_wait,
     Unimplemented ''cuMemHostGetDevicePointer_v2'',
     Unimplemented ''cuMemHostGetFlags'',
     Unimplemented ''cuMemImportFromShareableHandle'',
     Calls ''cuMemMap'' 273 No_work [In 8, In 8, In 8, In 8, In 8] No_wait,
     Unimplemented ''cuMemMapArrayAsync'',
     Unimplemented ''cuMemPoolCreate'',
     Calls ''cuMemPoolDestroy'' 276 No_work [In 8] No_wait,
     Unimplemented ''cuMemPoolExportPointer'',
     Unimplemented ''cuMemPoolExportToShareableHandle'',
     Unimplemented ''cuMemPoolGetAccess'',
     Unimplemented ''cuMemPoolGetAttribute'',
     Unimplemented ''cuMemPoolImportFromShareableHandle'',
     Unimplemented ''cuMemPoolImportPointer'',
     Unimplemented ''cuMemPoolSetAccess'',
     Unimplemented ''cuMemPoolSetAttribute'',
     Calls ''cuMemPoolTrimTo'' 285 No_work [In 8, In 8] No_wait,
     Calls ''cuMemPrefetchAsync'' 286 (Work_on 3) [In 8, In 8, In 4, In 8] No_wait,
     Unimplemented ''cuMemPrefetchAsync_v2'',
     Unimplemented ''cuMemRangeGetAttribute'',
     Unimplemented ''cuMemRangeGetAttributes'']"

definition stubs_cuMemRelease :: "stub list" where
  "stubs_cuMemRelease =
    [Calls ''cuMemRelease'' 290 No_work [In 8] No_wait,
     Unimplemented ''cuMemRetainAllocationHandle'',
     Calls ''cuMemSetAccess'' 292 No_work [In 8, In 8, Block (Array_of 3 12), In 8] No_wait,
     Calls ''cuMemUnmap'' 293 No_work [In 8, In 8] No_wait,
     Calls ''cuMemcpy'' 294 No_work [In 8, In 8, In 8] No_wait,
     Unimplemented ''cuMemcpy2DAsync_v2'',
     Unimplemented ''cuMemcpy2DUnaligned_v2'',
     Unimplemented ''cuMemcpy2D_v2'',
     Unimplemented ''cuMemcpy3DAsync_v2'',
     Unimplemented ''cuMemcpy3DBatchAsync'',
     Unimplemented ''cuMemcpy3DPeer'',
     Unimplemented ''cuMemcpy3DPeerAsync'',
     Unimplemented ''cuMemcpy3D_v2'',
     Calls ''cuMemcpyAsync'' 303 (Work_on 3) [In 8, In 8, In 8, In 8] No_wait,
     Calls ''cuMemcpyAtoA_v2'' 304 No_work [In 8, In 8, In 8, In 8, In 8] No_wait,
     Calls ''cuMemcpyAtoD_v2'' 305 No_work [In 8, In 8, In 8, In 8] No_wait,
     Unimplemented ''cuMemcpyAtoHAsync_v2'',
     Unimplemented ''cuMemcpyAtoH_v2'',
     Unimplemented ''cuMemcpyBatchAsync'',
     Calls ''cuMemcpyDtoA_v2'' 309 No_work [In 8, In 8, In 8, In 8] No_wait]"

definition stubs_cuMemcpyDtoDAsync_v2 :: "stub list" where
  "stubs_cuMemcpyDtoDAsync_v2 =
    [Calls ''cuMemcpyDtoDAsync_v2'' 310 (Work_on 3) [In 8, In 8, In 8, In 8] No_wait,
     Calls ''cuMemcpyDtoD_v2'' 311 No_work [In 8, In 8, In 8] No_wait,
     Calls ''cuMemcpyDtoHAsync_v2'' 312 No_work [Room (Length 2), In 8, In 8, In 8] (Settles 3),
     Calls ''cuMemcpyDtoH_v2'' 313 No_work [Room (Length 2), In 8, In 8] No_wait,
     Unimplemented ''cuMemcpyHtoAAsync_v2'',
     Unimplemented ''cuMemcpyHtoA_v2'',
     Posts ''cuMemcpyHtoDAsync_v2'' 316 No_work [In 8, Block (Length 2), In 8, In 8],
     Calls ''cuMemcpyHtoD_v2'' 317 No_work [In 8, Block (Length 2), In 8] No_wait,
     Calls ''cuMemcpyPeer'' 318 No_work [In 8, In 8, In 8, In 8, In 8] No_wait,
     Calls ''cuMemcpyPeerAsync'' 319 (Work_on 5) [In 8, In 8, In 8, In 8, In 8, In 8] No_wait,
     Posts ''cuMemsetD16Async'' 320 (Work_on 3) [In 8, In 2, In 8, In 8],
     Calls ''cuMemsetD16_v2'' 321 No_work [In 8, In 2, In 8] No_wait,
     Posts ''cuMemsetD2D16Async'' 322 (Work_on 5) [In 8, In 8, In 2, In 8, In 8, In 8]]"

definition stubs_cuMemsetD2D16_v2 :: "stub list" where
  "stubs_cuMemsetD2D16_v2 =
    [Calls ''cuMemsetD2D16_v2'' 323 No_work [In 8, In 8, In 2, In 8, In 8] No_wait,
     Posts ''cuMemsetD2D32Async'' 324 (Work_on 5) [In 8, In 8, In 4, In 8, In 8, In 8],
     Calls ''cuMemsetD2D32_v2'' 325 No_work [In 8, In 8, In 4, In 8, In 8] No_wait,
     Posts ''cuMemsetD2D8Async'' 326 (Work_on 5) [In 8, In 8, In 1, In 8, In 8, In 8],
     Calls ''cuMemsetD2D8_v2'' 327 No_work [In 8, In 8, In 1, In 8, In 8] No_wait,
     Posts ''cuMemsetD32Async'' 328 (Work_on 3) [In 8, In 4, In 8, In 8],
     Calls ''cuMemsetD32_v2'' 329 No_work [In 8, In 4, In 8] No_wait,
     Posts ''cuMemsetD8Async'' 330 (Work_on 3) [In 8, In 1, In 8, In 8],
     Calls ''cuMemsetD8_v2'' 331 No_work [In 8, In 1, In 8] No_wait,
     Unimplemented ''cuMipmappedArrayCreate'',
     Calls ''cuMipmappedArrayDestroy'' 333 No_work [In 8] No_wait,
     Calls ''cuMipmappedArrayGetLevel'' 334 No_work [Out 8, In 8, In 4] No_wait,
     Unimplemented ''cuMipmappedArrayGetMemoryRequirements'',
     Unimplemented ''cuMipmappedArrayGetSparseProperties'',
     Unimplemented ''cuModuleEnumerateFunctions'']"

definition stubs_cuModuleGetFunction :: "stub list" where
  "stubs_cuModuleGetFunction =
    [Calls ''cuModuleGetFunction'' 338 No_work [Out 8, In 8, Text] No_wait,
     Calls ''cuModuleGetFunctionCount'' 339 No_work [Out 4, In 8] No_wait,
     Calls ''cuModuleGetGlobal_v2'' 340 No_work [Out 8, Out 8, In 8, Text] No_wait,
     Calls ''cuModuleGetLoadingMode'' 341 No_work [Out 4] No_wait,
     Calls ''cuModuleGetSurfRef'' 342 No_work [Out 8, In 8, Text] No_wait,
     Calls ''cuModuleGetTexRef'' 343 No_work [Out 8, In 8, Text] No_wait,
     Calls ''cuModuleLoad'' 344 No_work [Out 8, Text] No_wait,
     Calls ''cuModuleLoadData'' 345 No_work [Out 8, Block Whole] No_wait,
     Unimplemented ''cuModuleLoadDataEx'',
     Calls ''cuModuleLoadFatBinary'' 347 No_work [Out 8, Block Whole] No_wait,
     Calls ''cuModuleUnload'' 348 No_work [In 8] No_wait,
     Calls ''cuMulticastAddDevice'' 349 No_work [In 8, In 4] No_wait,
     Calls ''cuMulticastBindAddr'' 350 No_work [In 8, In 8, In 8, In 8, In 8] No_wait]"

definition stubs_cuMulticastBindMem :: "stub list" where
  "stubs_cuMulticastBindMem =
    [Calls ''cuMulticastBindMem'' 351 No_work [In 8, In 8, In 8, In 8, In 8, In 8] No_wait,
     Unimplemented ''cuMulticastCreate'',
     Unimplemented ''cuMulticastGetGranularity'',
     Calls ''cuMulticastUnbind'' 354 No_work [In 8, In 4, In 8, In 8] No_wait,
     Calls ''cuOccupancyAvailableDynamicSMemPerBlock'' 355 No_work [Out 8, In 8, In 4, In 4] No_wait,
     Calls ''cuOccupancyMaxActiveBlocksPerMultiprocessor'' 356 No_work [Out 4, In 8, In 4, In 8] No_wait,
     Calls ''cuOccupancyMaxActiveBlocksPerMultiprocessorWithFlags'' 357 No_work [Out 4, In 8, In 4, In 8, In 4] No_wait,
     Unimplemented ''cuOccupancyMaxActiveClusters'',
     Unimplemented ''cuOccupancyMaxPotentialBlockSize'',
     Unimplemented ''cuOccupancyMaxPotentialBlockSizeWithFlags'',
     Unimplemented ''cuOccupancyMaxPotentialClusterSize'',
     Calls ''cuParamSetSize'' 362 No_work [In 8, In 4] No_wait,
     Calls ''cuParamSetTexRef'' 363 No_work [In 8, In 4, In 8] No_wait,
     Calls ''cuParamSetf'' 364 No_work [In 8, In 4, In 4] No_wait,
     Calls ''cuParamSeti'' 365 No_work [In 8, In 4, In 4] No_wait,
     Unimplemented ''cuParamSetv'',
     Unimplemented ''cuPointerGetAttributes'',
     Unimplemented ''cuPointerSetAttribute'',
     Unimplemented ''cuSignalExternalSemaphoresAsync'']"

definition stubs_cuStreamAddCallback :: "stub list" where
  "stubs_cuStreamAddCallback =
    [Unimplemented ''cuStreamAddCallback'',
     Calls ''cuStreamAttachMemAsync'' 372 (Work_on 0) [In 8, In 8, In 8, In 4] No_wait,
     Unimplemented ''cuStreamBatchMemOp_v2'',
     Unimplemented ''cuStreamBeginCaptureToGraph'',
     Calls ''cuStreamBeginCapture_v2'' 375 No_work [In 8, In 4] No_wait,
     Calls ''cuStreamCopyAttributes'' 376 No_work [In 8, In 8] No_wait,
     Calls ''cuStreamCreate'' 377 No_work [Out 8, In 4] No_wait,
     Calls ''cuStreamCreateWithPriority'' 378 No_work [Out 8, In 4, In 4] No_wait,
     Calls ''cuStreamDestroy_v2'' 379 No_work [In 8] (Settles 0),
     Calls ''cuStreamEndCapture'' 380 No_work [In 8, Out 8] No_wait,
     Unimplemented ''cuStreamGetAttribute'',
     Unimplemented ''cuStreamGetCaptureInfo_v3'',
     Calls ''cuStreamGetCtx'' 384 No_work [In 8, Out 8] No_wait,
     Calls ''cuStreamGetCtx_v2'' 385 No_work [In 8, Out 8, Out 8] No_wait,
     Calls ''cuStreamGetDevice'' 386 No_work [In 8, Out 4] No_wait,
     Calls ''cuStreamGetFlags'' 387 No_work [In 8, Out 4] No_wait]"

definition stubs_cuStreamGetGreenCtx :: "stub list" where
  "stubs_cuStreamGetGreenCtx =
    [Calls ''cuStreamGetGreenCtx'' 388 No_work [In 8, Out 8] No_wait,
     Calls ''cuStreamGetId'' 389 No_work [In 8, Out 8] No_wait,
     Calls ''cuStreamGetPriority'' 390 No_work [In 8, Out 4] No_wait,
     Calls ''cuStreamIsCapturing'' 391 No_work [In 8, Out 4] No_wait,
     Calls ''cuStreamQuery'' 392 No_work [In 8] No_wait,
     Unimplemented ''cuStreamSetAttribute'',
     Unimplemented ''cuStreamUpdateCaptureDependencies'',
     Unimplemented ''cuStreamUpdateCaptureDependencies_v2'',
     Posts ''cuStreamWaitEvent'' 397 (Work_on 0) [In 8, In 8, In 4],
     Calls ''cuStreamWaitValue32_v2'' 398 (Work_on 0) [In 8, In 8, In 4, In 4] No_wait,
     Calls ''cuStreamWaitValue64_v2'' 399 (Work_on 0) [In 8, In 8, In 8, In 4] No_wait,
     Calls ''cuStreamWriteValue32_v2'' 400 (Work_on 0) [In 8, In 8, In 4, In 4] No_wait,
     Calls ''cuStreamWriteValue64_v2'' 401 (Work_on 0) [In 8, In 8, In 8, In 4] No_wait,
     Unimplemented ''cuSurfObjectCreate'',
     Calls ''cuSurfObjectDestroy'' 403 No_work [In 8] No_wait,
     Unimplemented ''cuSurfObjectGetResourceDesc'']"

definition stubs_cuSurfRefGetArray :: "stub list" where
  "stubs_cuSurfRefGetArray =
    [Calls ''cuSurfRefGetArray'' 405 No_work [Out 8, In 8] No_wait,
     Calls ''cuSurfRefSetArray'' 406 No_work [In 8, In 8, In 4] No_wait,
     Unimplemented ''cuTensorMapEncodeIm2col'',
     Unimplemented ''cuTensorMapEncodeIm2colWide'',
     Unimplemented ''cuTensorMapEncodeTiled'',
     Unimplemented ''cuTensorMapReplaceAddress'',
     Unimplemented ''cuTexObjectCreate'',
     Calls ''cuTexObjectDestroy'' 412 No_work [In 8] No_wait,
     Unimplemented ''cuTexObjectGetResourceDesc'',
     Unimplemented ''cuTexObjectGetResourceViewDesc'',
     Unimplemented ''cuTexObjectGetTextureDesc'',
     Calls ''cuTexRefCreate'' 416 No_work [Out 8] No_wait,
     Calls ''cuTexRefDestroy'' 417 No_work [In 8] No_wait,
     Calls ''cuTexRefGetAddressMode'' 418 No_work [Out 4, In 8, In 4] No_wait,
     Calls ''cuTexRefGetAddress_v2'' 419 No_work [Out 8, In 8] No_wait,
     Calls ''cuTexRefGetArray'' 420 No_work [Out 8, In 8] No_wait,
     Calls ''cuTexRefGetBorderColor'' 421 No_work [Out 4, In 8] No_wait,
     Calls ''cuTexRefGetFilterMode'' 422 No_work [Out 4, In 8] No_wait]"

definition stubs_cuTexRefGetFlags :: "stub list" where
  "stubs_cuTexRefGetFlags =
    [Calls ''cuTexRefGetFlags'' 423 No_work [Out 4, In 8] No_wait,
     Calls ''cuTexRefGetFormat'' 424 No_work [Out 4, Out 4, In 8] No_wait,
     Calls ''cuTexRefGetMaxAnisotropy'' 425 No_work [Out 4, In 8] No_wait,
     Calls ''cuTexRefGetMipmapFilterMode'' 426 No_work [Out 4, In 8] No_wait,
     Calls ''cuTexRefGetMipmapLevelBias'' 427 No_work [Out 4, In 8] No_wait,
     Calls ''cuTexRefGetMipmapLevelClamp'' 428 No_work [Out 4, Out 4, In 8] No_wait,
     Calls ''cuTexRefGetMipmappedArray'' 429 No_work [Out 8, In 8] No_wait,
     Unimplemented ''cuTexRefSetAddress2D_v3'',
     Calls ''cuTexRefSetAddressMode'' 431 No_work [In 8, In 4, In 4] No_wait,
     Calls ''cuTexRefSetAddress_v2'' 432 No_work [Out 8, In 8, In 8, In 8] No_wait,
     Calls ''cuTexRefSetArray'' 433 No_work [In 8, In 8, In 4] No_wait,
     Calls ''cuTexRefSetBorderColor'' 434 No_work [In 8, Out 4] No_wait,
     Calls ''cuTexRefSetFilterMode'' 435 No_work [In 8, In 4] No_wait]"

definition stubs_cuTexRefSetFlags :: "stub list" where
  "stubs_cuTexRefSetFlags =
    [Calls ''cuTexRefSetFlags'' 436 No_work [In 8, In 4] No_wait,
     Calls ''cuTexRefSetFormat'' 437 No_work [In 8, In 4, In 4] No_wait,
     Calls ''cuTexRefSetMaxAnisotropy'' 438 No_work [In 8, In 4] No_wait,
     Calls ''cuTexRefSetMipmapFilterMode'' 439 No_work [In 8, In 4] No_wait,
     Calls ''cuTexRefSetMipmapLevelBias'' 440 No_work [In 8, In 4] No_wait,
     Calls ''cuTexRefSetMipmapLevelClamp'' 441 No_work [In 8, In 4, In 4] No_wait,
     Calls ''cuTexRefSetMipmappedArray'' 442 No_work [In 8, In 8, In 4] No_wait,
     Unimplemented ''cuUserObjectCreate'',
     Calls ''cuUserObjectRelease'' 445 No_work [In 8, In 4] No_wait,
     Calls ''cuUserObjectRetain'' 446 No_work [In 8, In 4] No_wait,
     Unimplemented ''cuWaitExternalSemaphoresAsync'']"

definition client_stubs :: "stub list" where
  "client_stubs =
    stubs_cuArray3DCreate_v2 @ stubs_cuCtxDisablePeerAccess @ stubs_cuCtxPushCurrent_v2 @
      stubs_cuDeviceGet @ stubs_cuDeviceGetProperties @ stubs_cuEventElapsedTime @
      stubs_cuFuncSetAttribute @ stubs_cuGraphClone @ stubs_cuGraphExecEventWaitNodeSetEvent @
      stubs_cuGraphLaunch @ stubs_cuGraphicsMapResources @ stubs_cuImportExternalSemaphore @
      stubs_cuLaunchGridAsync @ stubs_cuMemAddressFree @ stubs_cuMemGetAllocationGranularity @
      stubs_cuMemRelease @ stubs_cuMemcpyDtoDAsync_v2 @ stubs_cuMemsetD2D16_v2 @
      stubs_cuModuleGetFunction @ stubs_cuMulticastBindMem @ stubs_cuStreamAddCallback @
      stubs_cuStreamGetGreenCtx @ stubs_cuSurfRefGetArray @ stubs_cuTexRefGetFlags @
      stubs_cuTexRefSetFlags"

section \<open>Running a stub\<close>

definition mark_before :: "before \<Rightarrow> arg list \<Rightarrow> pending \<Rightarrow> pending" where
  "mark_before b as p = (case b of
       No_work \<Rightarrow> p | Work_on i \<Rightarrow> work_on (value_at i as) p | Work_somewhere \<Rightarrow> work_somewhere p)"

definition mark_after :: "after \<Rightarrow> arg list \<Rightarrow> pending \<Rightarrow> pending" where
  "mark_after a as p = (case a of
       No_wait \<Rightarrow> p | Settles i \<Rightarrow> settled (value_at i as) p | Settles_all \<Rightarrow> settled_all p)"

text \<open>The stub's result, what it wrote through its caller's pointers, and the states of the
  connection and of the record of pending work. \<open>send\<close> and \<open>post\<close> are \<open>call\<close> and \<open>call_async\<close>.\<close>

type_synonym 'c sender = "u32 \<Rightarrow> byte list \<Rightarrow> 'c \<Rightarrow> (CUresult \<times> byte list) \<times> 'c"
type_synonym 'c poster = "u32 \<Rightarrow> byte list \<Rightarrow> 'c \<Rightarrow> CUresult \<times> 'c"

definition run_stub :: "'c sender \<Rightarrow> 'c poster \<Rightarrow> stub \<Rightarrow> arg list \<Rightarrow> 'c \<times> pending
    \<Rightarrow> (CUresult \<times> (nat \<times> byte list) list) \<times> 'c \<times> pending" where
  "run_stub send post st as cp = (case (st, cp) of
       (Unimplemented name, (c, p)) \<Rightarrow> ((CUDA_ERROR_NOT_SUPPORTED, []), (c, p))
     | (Calls name api b ps a, (c, p)) \<Rightarrow>
         (case send api (bdata (marshal ps as)) c of ((r, payload), c1) \<Rightarrow>
            (if r \<noteq> CUDA_SUCCESS then ((r, []), (c1, mark_before b as p))
             else case take_outs 0 ps as (buffer_of payload) of (ws, ok) \<Rightarrow>
               (if \<not> ok then ((CUDA_ERROR_UNKNOWN, ws), (c1, mark_before b as p))
                else ((r, ws), (c1, mark_after a as (mark_before b as p))))))
     | (Posts name api b ps, (c, p)) \<Rightarrow>
         (case post api (bdata (marshal ps as)) c of (r, c1) \<Rightarrow> ((r, []), (c1, mark_before b as p))))"

end
