(* ===== verification/MarshalLaws.thy ===== *)
theory MarshalLaws
  imports Marshal
begin

text \<open>
  What the two ends of the generated code make of each other's bytes: the server reads back the
  arguments the client wrote, its size checks accept them, and the client reads back the outputs the
  server wrote.
\<close>

section \<open>Arguments that fit\<close>

text \<open>The arguments a caller can pass for a parameter: values of the type's width, strings without a
  null byte, and buffers as long as the call says they are.\<close>

definition fits :: "arg list \<Rightarrow> param \<Rightarrow> arg \<Rightarrow> bool" where
  "fits as p a \<longleftrightarrow> (case (p, a) of
       (In n, Val v) \<Rightarrow> take_bit (8 * n) v = v
     | (Out n, Place there) \<Rightarrow> True
     | (Out_struct n, Place there) \<Rightarrow> n < 2 ^ 64
     | (Room m, Place there) \<Rightarrow> True
     | (Text, Bytes None) \<Rightarrow> True
     | (Text, Bytes (Some s)) \<Rightarrow> 0 \<notin> set s \<and> length s < 2 ^ 64
     | (Block m, Bytes None) \<Rightarrow> True
     | (Block m, Bytes (Some bs)) \<Rightarrow> length bs < 2 ^ 64
          \<and> (case extent m as of None \<Rightarrow> True | Some n \<Rightarrow> n = of_nat (length bs))
     | (Struct n, Bytes None) \<Rightarrow> True
     | (Struct n, Bytes (Some bs)) \<Rightarrow> length bs = n
     | (Unsent, Absent) \<Rightarrow> True
     | _ \<Rightarrow> False)"

definition args_fit :: "param list \<Rightarrow> arg list \<Rightarrow> bool" where
  "args_fit ps as \<longleftrightarrow> list_all2 (fits as) ps as"

text \<open>The same arguments as the server has them: room is space of its own.\<close>

definition received :: "arg list \<Rightarrow> param \<Rightarrow> arg \<Rightarrow> arg" where
  "received as p a = (case (p, a) of (Room m, Place there) \<Rightarrow> Space there (room_size m as) | _ \<Rightarrow> a)"

definition received_args :: "param list \<Rightarrow> arg list \<Rightarrow> arg list" where
  "received_args ps as = map2 (received as) ps as"

text \<open>The bytes of one argument.\<close>

definition flag :: "bool \<Rightarrow> byte list" where
  "flag there = le_enc 1 (if there then 1 else 0 :: byte)"

definition enc_param :: "arg list \<Rightarrow> param \<Rightarrow> arg \<Rightarrow> byte list" where
  "enc_param as p a = (case (p, a) of
       (In n, Val v) \<Rightarrow> le_enc n v
     | (Room m, Place there) \<Rightarrow> flag there @ le_enc 8 (room_size m as)
     | (_, Place there) \<Rightarrow> flag there
     | (Struct n, Bytes (Some bs)) \<Rightarrow> flag True @ bs
     | (_, Bytes (Some bs)) \<Rightarrow> flag True @ enc_sized bs
     | (_, Bytes None) \<Rightarrow> flag False
     | _ \<Rightarrow> [])"

section \<open>A request is read back\<close>

lemma buf_get_short:
  fixes v :: u64
  assumes "bok b" and "unread b = le_enc n v @ r"
  shows "buf_get n b = (Some (take_bit (8 * n) v), b\<lparr>bread := bread b + n\<rparr>)"
  using assms by (simp add: buf_get_def buf_take_cases le_dec_le_enc del: length_drop)

lemma flag_reads [wire_simps]:
  assumes "bok b" and "unread b = flag there @ r"
  shows "buf_get 1 b = (Some (if there then 1 else 0 :: byte), b\<lparr>bread := bread b + 1\<rparr>)"
  using assms unfolding flag_def by (intro buf_get_reads) auto

lemma length_flag [simp]: "length (flag there) = 1"
  by (simp add: flag_def)

lemma put_flag_appends: "put_flag there b = b\<lparr> bdata := bdata b @ flag there \<rparr>"
  by (simp add: put_flag_def buf_put_def flag_def)

lemma put_bytes_appends: "put_bytes p b = b\<lparr> bdata := bdata b @ p \<rparr>"
  by (simp add: put_bytes_def)

lemma put_param_appends:
  "fits as p a \<Longrightarrow> put_param as p a b = b\<lparr> bdata := bdata b @ enc_param as p a \<rparr>"
  by (cases p; cases a)
    (auto simp: put_param_def fits_def enc_param_def put_flag_appends put_bytes_appends put_str_def
      sized_field.put_appends flag_def buf_put_def split: option.splits)

lemma unread_moved:
  "unread b = x @ r \<Longrightarrow> unread (b\<lparr> bread := bread b + length x \<rparr>) = r"
  by (simp add: add.commute flip: drop_drop)

lemma c_str_id: "0 \<notin> set s \<Longrightarrow> c_str s = s"
  by (auto simp: c_str_def takeWhile_eq_all_conv)

lemma read_param_reads:
  assumes f: "fits as p a" and b: "bok b" and u: "unread b = enc_param as p a @ r"
  shows "read_param p b = (Some (received as p a), b\<lparr> bread := bread b + length (enc_param as p a) \<rparr>)"
proof -
  let ?c = "b\<lparr> bread := bread b + 1 \<rparr>"
  have after: "unread ?c = y" if "unread b = flag x @ y" for x y
    using unread_moved [OF that] by simp
  have sized: "get_sized ?c = (Some q, ?c\<lparr> bread := bread ?c + length (enc_sized q) \<rparr>)"
    if "unread b = flag x @ enc_sized q @ r" "length q < 2 ^ 64" for x q
    using get_sized_reads [OF that(2), of ?c r] after [OF that(1)] b by simp
  show ?thesis
  proof (cases p)
    case (In n)
    with f u b show ?thesis
      by (cases a) (auto simp: fits_def enc_param_def read_param_def received_def buf_get_short)
  next
    case (Room m)
    with f obtain there where a: "a = Place there" by (cases a) (auto simp: fits_def)
    have u1: "unread b = flag there @ le_enc 8 (room_size m as) @ r" using u Room a by (simp add: enc_param_def)
    have "buf_get 8 ?c = (Some (room_size m as), ?c\<lparr> bread := bread ?c + 8 \<rparr>)"
      using after [OF u1] b by (intro buf_get_reads) auto
    then show ?thesis using Room a flag_reads [OF b u1]
      by (simp add: read_param_def received_def enc_param_def)
  next
    case (Struct n)
    with f obtain s where a: "a = Bytes s" by (cases a) (auto simp: fits_def)
    show ?thesis
    proof (cases s)
      case None
      with u Struct a have u1: "unread b = flag False @ r" by (simp add: enc_param_def)
      then show ?thesis using Struct a None flag_reads [OF b u1]
        by (simp add: read_param_def read_flagged_def received_def enc_param_def)
    next
      case (Some bs)
      with u Struct a have u1: "unread b = flag True @ bs @ r" by (simp add: enc_param_def)
      have n: "length bs = n" using f Struct a Some by (simp add: fits_def)
      have "get_bytes n ?c = (Some bs, ?c\<lparr> bread := bread ?c + n \<rparr>)"
        using after [OF u1] b n by (intro get_bytes_reads) auto
      then show ?thesis using Struct a Some n flag_reads [OF b u1]
        by (simp add: read_param_def read_flagged_def received_def enc_param_def)
    qed
  next
    case Text
    with f obtain s where a: "a = Bytes s" by (cases a) (auto simp: fits_def)
    show ?thesis
    proof (cases s)
      case None
      with u Text a have u1: "unread b = flag False @ r" by (simp add: enc_param_def)
      then show ?thesis using Text a None flag_reads [OF b u1]
        by (simp add: read_param_def get_str_def received_def enc_param_def)
    next
      case (Some q)
      with u Text a have u1: "unread b = flag True @ enc_sized q @ r" by (simp add: enc_param_def)
      have q: "0 \<notin> set q" "length q < 2 ^ 64" using f Text a Some by (simp_all add: fits_def)
      show ?thesis using Text a Some flag_reads [OF b u1] sized [OF u1 q(2)] c_str_id [OF q(1)]
        by (simp add: read_param_def get_str_def received_def enc_param_def)
    qed
  next
    case (Block m)
    with f obtain s where a: "a = Bytes s" by (cases a) (auto simp: fits_def)
    show ?thesis
    proof (cases s)
      case None
      with u Block a have u1: "unread b = flag False @ r" by (simp add: enc_param_def)
      then show ?thesis using Block a None flag_reads [OF b u1]
        by (simp add: read_param_def read_flagged_def received_def enc_param_def)
    next
      case (Some q)
      with u Block a have u1: "unread b = flag True @ enc_sized q @ r" by (simp add: enc_param_def)
      have q: "length q < 2 ^ 64" using f Block a Some by (simp add: fits_def)
      show ?thesis using Block a Some flag_reads [OF b u1] sized [OF u1 q]
        by (simp add: read_param_def read_flagged_def received_def enc_param_def)
    qed
  next
    case (Out n)
    with f obtain there where a: "a = Place there" by (cases a) (auto simp: fits_def)
    then have "unread b = flag there @ r" using u Out by (simp add: enc_param_def)
    then show ?thesis using Out a flag_reads [OF b]
      by (simp add: read_param_def received_def enc_param_def)
  next
    case (Out_struct n)
    with f obtain there where a: "a = Place there" by (cases a) (auto simp: fits_def)
    then have "unread b = flag there @ r" using u Out_struct by (simp add: enc_param_def)
    then show ?thesis using Out_struct a flag_reads [OF b]
      by (simp add: read_param_def received_def enc_param_def)
  next
    case Unsent
    with f show ?thesis
      by (cases a) (auto simp: fits_def read_param_def received_def enc_param_def)
  qed
qed

definition enc_params :: "arg list \<Rightarrow> param list \<Rightarrow> arg list \<Rightarrow> byte list" where
  "enc_params as ps xs = concat (map2 (enc_param as) ps xs)"

lemma put_params_appends:
  "list_all2 (fits as) ps xs \<Longrightarrow> put_params as ps xs b = b\<lparr> bdata := bdata b @ enc_params as ps xs \<rparr>"
  by (induction ps xs arbitrary: b rule: list_all2_induct) (auto simp: put_param_appends enc_params_def)

lemma read_params_reads:
  assumes "list_all2 (fits as) ps xs" and "bok b" and "unread b = enc_params as ps xs @ r"
  shows "read_params ps b = (Some (map2 (received as) ps xs), b\<lparr> bread := bread b + length (enc_params as ps xs) \<rparr>)"
  using assms
proof (induction ps xs arbitrary: b rule: list_all2_induct)
  case (Cons p ps x xs)
  have u: "unread b = enc_param as p x @ (enc_params as ps xs @ r)" using Cons.prems(2) by (simp add: enc_params_def)
  let ?b = "b\<lparr> bread := bread b + length (enc_param as p x) \<rparr>"
  have "unread ?b = enc_params as ps xs @ r" by (rule unread_moved [OF u])
  then have "read_params ps ?b = (Some (map2 (received as) ps xs), ?b\<lparr> bread := bread ?b + length (enc_params as ps xs) \<rparr>)"
    using Cons.prems(1) by (intro Cons.IH) simp_all
  then show ?case using read_param_reads [OF Cons.hyps(1) Cons.prems(1) u]
    by (simp add: enc_params_def add.assoc)
qed (simp add: enc_params_def)

lemma marshal_bytes: "args_fit ps as \<Longrightarrow> bdata (marshal ps as) = enc_params as ps as"
  by (simp add: args_fit_def marshal_def put_params_appends empty_buffer_def)

lemma request_read_back:
  assumes "args_fit ps as"
  shows "read_params ps (buffer_of (bdata (marshal ps as)))
    = (Some (received_args ps as), (buffer_of (bdata (marshal ps as)))\<lparr> bread := length (bdata (marshal ps as)) \<rparr>)"
  using assms read_params_reads [of as ps as "buffer_of (bdata (marshal ps as))" "[]"]
  by (simp add: marshal_bytes buffer_of_def args_fit_def received_args_def)

section \<open>The sizes are accepted\<close>

lemma args_fit_length: "args_fit ps as \<Longrightarrow> length as = length ps"
  by (simp add: args_fit_def list_all2_lengthD)

lemma value_received:
  assumes "args_fit ps as" shows "value_at i (received_args ps as) = value_at i as"
proof (cases "i < length as")
  case True
  with args_fit_length [OF assms] have "received_args ps as ! i = received as (ps ! i) (as ! i)"
    by (simp add: received_args_def)
  with True args_fit_length [OF assms] show ?thesis
    by (auto simp: value_at_def received_args_def received_def split: arg.splits param.splits)
next
  case False
  with args_fit_length [OF assms] show ?thesis by (simp add: value_at_def received_args_def)
qed

lemma extent_received: "args_fit ps as \<Longrightarrow> extent m (received_args ps as) = extent m as"
  by (simp add: extent_def value_received split: measure.split)

text \<open>Room that is asked for has a size, one the server has the memory for.\<close>

definition has_room :: "(u64 \<Rightarrow> bool) \<Rightarrow> arg list \<Rightarrow> param \<Rightarrow> arg \<Rightarrow> bool" where
  "has_room memory as p a \<longleftrightarrow> (case (p, a) of
       (Room m, Place True) \<Rightarrow> room_size m as \<noteq> 0 \<and> room_size m as \<le> 2 ^ 63 - 1 \<and> memory (room_size m as)
     | _ \<Rightarrow> True)"

definition rooms_fit :: "(u64 \<Rightarrow> bool) \<Rightarrow> param list \<Rightarrow> arg list \<Rightarrow> bool" where
  "rooms_fit memory ps as \<longleftrightarrow> list_all2 (has_room memory as) ps as"

lemma admit_arg_fits:
  assumes "args_fit ps as" and "fits as p a" and "has_room memory as p a"
  shows "admit_arg memory (received_args ps as) p (received as p a) = Fits"
  using assms(2,3)
  by (auto simp: admit_arg_def received_def has_room_def fits_def room_size_def extent_received [OF assms(1)]
      split: param.splits arg.splits bool.splits option.splits)

lemma admit_fits:
  assumes "args_fit ps as" and "list_all2 (fits as) qs xs" and "list_all2 (has_room memory as) qs xs"
  shows "admit memory (received_args ps as) qs (map2 (received as) qs xs) = Fits"
  using assms(2,3)
  by (induction qs xs rule: list_all2_induct) (auto simp: admit_arg_fits [OF assms(1)])

lemma request_admitted:
  "args_fit ps as \<Longrightarrow> rooms_fit memory ps as \<Longrightarrow> admit memory (received_args ps as) ps (received_args ps as) = Fits"
  using admit_fits [of ps as ps as memory] by (simp add: args_fit_def rooms_fit_def received_args_def)

section \<open>A reply is read back\<close>

text \<open>What a call writes through its caller's pointers, one byte string of the driver's each.\<close>

fun results :: "nat \<Rightarrow> arg list \<Rightarrow> param list \<Rightarrow> arg list \<Rightarrow> byte list list \<Rightarrow> (nat \<times> byte list) list" where
  "results i as (Out n # ps) (Place True # xs) outs =
     (i, written n (hd (outs @ [[]]))) # results (Suc i) as ps xs (tl outs)"
| "results i as (Out_struct n # ps) (Place True # xs) outs =
     (i, written n (hd (outs @ [[]]))) # results (Suc i) as ps xs (tl outs)"
| "results i as (Room m # ps) (Place True # xs) outs =
     (i, written (unat (room_size m as)) (hd (outs @ [[]]))) # results (Suc i) as ps xs (tl outs)"
| "results i as (p # ps) (x # xs) outs = results (Suc i) as ps xs outs"
| "results i as _ _ outs = []"

lemma length_written [simp]: "length (written n bs) = n"
  by (simp add: written_def)

fun enc_outs :: "arg list \<Rightarrow> param list \<Rightarrow> arg list \<Rightarrow> byte list list \<Rightarrow> byte list" where
  "enc_outs as (Out n # ps) (Place True # xs) outs =
     written n (hd (outs @ [[]])) @ enc_outs as ps xs (tl outs)"
| "enc_outs as (Out_struct n # ps) (Place True # xs) outs =
     enc_sized (written n (hd (outs @ [[]]))) @ enc_outs as ps xs (tl outs)"
| "enc_outs as (Room m # ps) (Place True # xs) outs =
     enc_sized (written (unat (room_size m as)) (hd (outs @ [[]]))) @ enc_outs as ps xs (tl outs)"
| "enc_outs as (p # ps) (x # xs) outs = enc_outs as ps xs outs"
| "enc_outs as _ _ outs = []"

lemma received_simps:
  "received as (In n) x = x" "received as (Out n) x = x" "received as Text x = x" "received as (Block m) x = x"
  "received as (Struct n) x = x" "received as (Out_struct n) x = x" "received as Unsent x = x"
  "received as (Room m) (Place there) = Space there (room_size m as)"
  by (simp_all add: received_def)

text \<open>A parameter gives a result where it is a pointer to write through and is there.\<close>

fun wanted :: "arg list \<Rightarrow> param \<Rightarrow> arg \<Rightarrow> nat option" where
  "wanted as (Out n) (Place True) = Some n"
| "wanted as (Out_struct n) (Place True) = Some n"
| "wanted as (Room m) (Place True) = Some (unat (room_size m as))"
| "wanted as _ _ = None"

lemma fits_Place:
  "fits as (Out n) x \<Longrightarrow> \<exists>there. x = Place there"
  "fits as (Out_struct n) x \<Longrightarrow> \<exists>there. x = Place there"
  "fits as (Room m) x \<Longrightarrow> \<exists>there. x = Place there"
  by (cases x; simp add: fits_def)+

lemma unwanted:
  assumes "fits as p x" and "wanted as p x = None"
  shows "put_results (p # ps) (received as p x # ys) outs b = put_results ps ys outs b
    \<and> enc_outs as (p # ps) (x # xs) outs = enc_outs as ps xs outs
    \<and> results i as (p # ps) (x # xs) outs = results (Suc i) as ps xs outs
    \<and> take_outs i (p # ps) (x # xs) b = take_outs (Suc i) ps xs b"
proof (cases "\<exists>there. x = Place there")
  case True
  then obtain there where "x = Place there" ..
  then show ?thesis using assms by (cases p; cases there; simp add: fits_def received_simps)
next
  case False
  then show ?thesis using assms fits_Place [of as _ x] by (cases p) (simp_all add: received_simps, blast+)
qed

lemma wanted_cases:
  assumes "wanted as p x = Some n" and "fits as p x"
  obtains "p = Out n" "x = Place True" | "p = Out_struct n" "x = Place True" "n < 2 ^ 64"
    | m where "p = Room m" "x = Place True" "n = unat (room_size m as)" "n < 2 ^ 64"
  using assms unsigned_less [where 'a = nat and 'b = 64] by (cases "(as, p, x)" rule: wanted.cases) (auto simp: fits_def)

lemma put_results_appends:
  "list_all2 (fits as) ps xs \<Longrightarrow>
   put_results ps (map2 (received as) ps xs) outs b = b\<lparr> bdata := bdata b @ enc_outs as ps xs outs \<rparr>"
proof (induction ps xs arbitrary: outs b rule: list_all2_induct)
  case (Cons p ps x xs)
  show ?case
  proof (cases "wanted as p x")
    case None
    then show ?thesis using Cons.IH unwanted [OF Cons.hyps(1) None] by simp
  next
    case (Some n)
    show ?thesis using Some Cons.hyps(1)
      by (cases rule: wanted_cases)
        (simp_all add: received_simps Cons.IH put_bytes_appends sized_field.put_appends)
  qed
qed simp

lemma take_outs_reads:
  "list_all2 (fits as) ps xs \<Longrightarrow> bok b \<Longrightarrow> unread b = enc_outs as ps xs outs @ r \<Longrightarrow>
   take_outs i ps xs b = (results i as ps xs outs, True)"
proof (induction ps xs arbitrary: outs b i rule: list_all2_induct)
  case (Cons p ps x xs)
  show ?case
  proof (cases "wanted as p x")
    case None
    then show ?thesis using Cons.IH [of b outs "Suc i"] Cons.prems unwanted [OF Cons.hyps(1) None] by simp
  next
    case (Some n)
    let ?w = "written n (hd (outs @ [[]]))" and ?rest = "enc_outs as ps xs (tl outs) @ r"
    have later: "take_outs (Suc i) ps xs (b\<lparr> bread := bread b + length e \<rparr>) = (results (Suc i) as ps xs (tl outs), True)"
      if "unread b = e @ ?rest" for e
      using unread_moved [OF that] Cons.prems(1) by (intro Cons.IH) auto
    have plain: "get_bytes n b = (Some ?w, b\<lparr> bread := bread b + length ?w \<rparr>)" if "unread b = ?w @ ?rest"
      using that Cons.prems(1) get_bytes_reads [of b ?w ?rest n] by simp
    have sized: "get_sized b = (Some ?w, b\<lparr> bread := bread b + length (enc_sized ?w) \<rparr>)"
      if "unread b = enc_sized ?w @ ?rest" "n < 2 ^ 64"
      using that Cons.prems(1) by (intro get_sized_reads) auto
    show ?thesis using Some Cons.hyps(1)
    proof (cases rule: wanted_cases)
      case 1
      then have "unread b = ?w @ ?rest" using Cons.prems(2) by simp
      then show ?thesis using 1 plain later [of ?w] by simp
    next
      case 2
      then have "unread b = enc_sized ?w @ ?rest" using Cons.prems(2) by simp
      then show ?thesis using 2 sized later [of "enc_sized ?w"] by simp
    next
      case (3 m)
      then have "unread b = enc_sized ?w @ ?rest" using Cons.prems(2) by simp
      then show ?thesis using 3 sized later [of "enc_sized ?w"] by simp
    qed
  qed
qed simp

lemma reply_read_back:
  assumes "args_fit ps as"
  shows "take_outs 0 ps as (buffer_of (bdata (put_results ps (received_args ps as) outs empty_buffer)))
    = (results 0 as ps as outs, True)"
  using assms take_outs_reads [of as ps as "buffer_of (enc_outs as ps as outs)" outs "[]" 0]
    put_results_appends [of as ps as outs empty_buffer]
  by (simp add: args_fit_def received_args_def empty_buffer_def buffer_of_def)

end
