(* ===== verification/Prototypes.thy ===== *)
theory Prototypes
  imports Stubs MarshalLaws
begin

text \<open>
  The driver's entry points as C has them: the prototypes of the functions that
  \<^verbatim>\<open>client/generated/client_stubs.cpp\<close> and, for nine of them, \<^verbatim>\<open>client/shim.cpp\<close> define, one per call that the
  server has a generated case for, with what the driver's manual says of each pointer that is
  to more than one object of its type. The calls are described here by their C types alone, without the
  wire format: the tables of \<^verbatim>\<open>Stubs\<close> and \<^verbatim>\<open>Cases\<close> are checked against them, and a call of a
  program's own is stated over them.
\<close>

section \<open>C types\<close>

datatype ctype =
    C_char | C_uchar | C_ushort | C_int | C_uint | C_float | C_enum | C_device
  | C_size | C_ulong | C_devptr | C_handle
  | C_uuid | C_alloc_prop | C_mem_location | C_access_desc

primrec c_size :: "ctype \<Rightarrow> nat" where
  "c_size C_char = 1"
| "c_size C_uchar = 1"
| "c_size C_ushort = 2"
| "c_size C_int = 4"
| "c_size C_uint = 4"
| "c_size C_float = 4"
| "c_size C_enum = 4"
| "c_size C_device = 4"
| "c_size C_size = 8"
| "c_size C_ulong = 8"
| "c_size C_devptr = 8"
| "c_size C_handle = 8"
| "c_size C_uuid = 16"
| "c_size C_alloc_prop = 32"
| "c_size C_mem_location = 8"
| "c_size C_access_desc = 12"

text \<open>\<open>By\<close> a value, \<open>To\<close> a pointer through which one object is written, \<open>From\<close> one through which one is
  read, for \<open>C_char\<close> a string. \<open>To_many\<close> and \<open>From_many\<close> are to as many bytes as the manual says, \<open>To_counted\<close>
  to as many objects as the variable that another pointer is to says, and \<open>In_out\<close> to an object that is
  read and written.\<close>

datatype passing =
    By ctype
  | To ctype
  | From ctype
  | To_many measure
  | From_many measure
  | To_counted nat ctype
  | In_out ctype

datatype prototype = Proto u32 string "passing list"

primrec proto_id :: "prototype \<Rightarrow> u32" where
  "proto_id (Proto api name qs) = api"

section \<open>Prototypes\<close>

definition prototypes_cuArray3DCreate_v2 :: "prototype list" where
  "prototypes_cuArray3DCreate_v2 =
    [Proto 4 ''cuArrayDestroy'' [By C_handle],
     Proto 7 ''cuArrayGetPlane'' [To C_handle, By C_handle, By C_uint],
     Proto 10 ''cuCheckpointProcessGetRestoreThreadId'' [By C_int, To C_int],
     Proto 11 ''cuCheckpointProcessGetState'' [By C_int, To C_enum],
     Proto 19 ''cuCtxAttach'' [To C_handle, By C_uint],
     Proto 20 ''cuCtxCreate_v2'' [To C_handle, By C_uint, By C_device],
     Proto 23 ''cuCtxDestroy_v2'' [By C_handle],
     Proto 24 ''cuCtxDetach'' [By C_handle]]"

definition prototypes_cuCtxDisablePeerAccess :: "prototype list" where
  "prototypes_cuCtxDisablePeerAccess =
    [Proto 25 ''cuCtxDisablePeerAccess'' [By C_handle],
     Proto 26 ''cuCtxEnablePeerAccess'' [By C_handle, By C_uint],
     Proto 27 ''cuCtxFromGreenCtx'' [To C_handle, By C_handle],
     Proto 28 ''cuCtxGetApiVersion'' [By C_handle, To C_uint],
     Proto 29 ''cuCtxGetCacheConfig'' [To C_enum],
     Proto 30 ''cuCtxGetCurrent'' [To C_handle],
     Proto 32 ''cuCtxGetDevice'' [To C_device],
     Proto 34 ''cuCtxGetFlags'' [To C_uint],
     Proto 35 ''cuCtxGetId'' [By C_handle, To C_ulong],
     Proto 36 ''cuCtxGetLimit'' [To C_size, By C_enum],
     Proto 37 ''cuCtxGetSharedMemConfig'' [To C_enum],
     Proto 38 ''cuCtxGetStreamPriorityRange'' [To C_int, To C_int],
     Proto 39 ''cuCtxPopCurrent_v2'' [To C_handle]]"

definition prototypes_cuCtxPushCurrent_v2 :: "prototype list" where
  "prototypes_cuCtxPushCurrent_v2 =
    [Proto 40 ''cuCtxPushCurrent_v2'' [By C_handle],
     Proto 41 ''cuCtxRecordEvent'' [By C_handle, By C_handle],
     Proto 42 ''cuCtxResetPersistingL2Cache'' [],
     Proto 43 ''cuCtxSetCacheConfig'' [By C_enum],
     Proto 44 ''cuCtxSetCurrent'' [By C_handle],
     Proto 45 ''cuCtxSetFlags'' [By C_uint],
     Proto 46 ''cuCtxSetLimit'' [By C_enum, By C_size],
     Proto 47 ''cuCtxSetSharedMemConfig'' [By C_enum],
     Proto 48 ''cuCtxSynchronize'' [],
     Proto 49 ''cuCtxWaitEvent'' [By C_handle, By C_handle],
     Proto 50 ''cuDestroyExternalMemory'' [By C_handle],
     Proto 51 ''cuDestroyExternalSemaphore'' [By C_handle],
     Proto 54 ''cuDeviceCanAccessPeer'' [To C_int, By C_device, By C_device],
     Proto 55 ''cuDeviceComputeCapability'' [To C_int, To C_int, By C_device]]"

definition prototypes_cuDeviceGet :: "prototype list" where
  "prototypes_cuDeviceGet =
    [Proto 56 ''cuDeviceGet'' [To C_device, By C_int],
     Proto 57 ''cuDeviceGetAttribute'' [To C_int, By C_enum, By C_device],
     Proto 58 ''cuDeviceGetByPCIBusId'' [To C_device, From C_char],
     Proto 59 ''cuDeviceGetCount'' [To C_int],
     Proto 60 ''cuDeviceGetDefaultMemPool'' [To C_handle, By C_device],
     Proto 62 ''cuDeviceGetExecAffinitySupport'' [To C_int, By C_enum, By C_device],
     Proto 64 ''cuDeviceGetLuid'' [To_many (Const 8), To C_uint, By C_device],
     Proto 65 ''cuDeviceGetMemPool'' [To C_handle, By C_device],
     Proto 66 ''cuDeviceGetName'' [To_many (Signed 1), By C_int, By C_device],
     Proto 68 ''cuDeviceGetP2PAttribute'' [To C_int, By C_enum, By C_device, By C_device],
     Proto 69 ''cuDeviceGetPCIBusId'' [To_many (Signed 1), By C_int, By C_device]]"

definition prototypes_cuDeviceGetProperties :: "prototype list" where
  "prototypes_cuDeviceGetProperties =
    [Proto 71 ''cuDeviceGetTexture1DLinearMaxWidth'' [To C_size, By C_enum, By C_uint, By C_device],
     Proto 72 ''cuDeviceGetUuid'' [To C_uuid, By C_device],
     Proto 73 ''cuDeviceGetUuid_v2'' [To C_uuid, By C_device],
     Proto 74 ''cuDeviceGraphMemTrim'' [By C_device],
     Proto 75 ''cuDevicePrimaryCtxGetState'' [By C_device, To C_uint, To C_int],
     Proto 76 ''cuDevicePrimaryCtxRelease_v2'' [By C_device],
     Proto 77 ''cuDevicePrimaryCtxReset_v2'' [By C_device],
     Proto 78 ''cuDevicePrimaryCtxRetain'' [To C_handle, By C_device],
     Proto 79 ''cuDevicePrimaryCtxSetFlags_v2'' [By C_device, By C_uint],
     Proto 82 ''cuDeviceSetMemPool'' [By C_device, By C_handle],
     Proto 83 ''cuDeviceTotalMem_v2'' [To C_size, By C_device],
     Proto 84 ''cuDeviceUnregisterAsyncNotification'' [By C_device, By C_handle],
     Proto 86 ''cuEventCreate'' [To C_handle, By C_uint],
     Proto 87 ''cuEventDestroy_v2'' [By C_handle]]"

definition prototypes_cuEventElapsedTime :: "prototype list" where
  "prototypes_cuEventElapsedTime =
    [Proto 88 ''cuEventElapsedTime'' [To C_float, By C_handle, By C_handle],
     Proto 89 ''cuEventElapsedTime_v2'' [To C_float, By C_handle, By C_handle],
     Proto 90 ''cuEventQuery'' [By C_handle],
     Proto 91 ''cuEventRecord'' [By C_handle, By C_handle],
     Proto 92 ''cuEventRecordWithFlags'' [By C_handle, By C_handle, By C_uint],
     Proto 93 ''cuEventSynchronize'' [By C_handle],
     Proto 96 ''cuFlushGPUDirectRDMAWrites'' [By C_enum, By C_enum],
     Proto 97 ''cuFuncGetAttribute'' [To C_int, By C_enum, By C_handle],
     Proto 98 ''cuFuncGetModule'' [To C_handle, By C_handle],
     Proto 100 ''cuFuncGetParamInfo'' [By C_handle, By C_size, To C_size, To C_size],
     Proto 101 ''cuFuncIsLoaded'' [To C_enum, By C_handle],
     Proto 102 ''cuFuncLoad'' [By C_handle]]"

definition prototypes_cuFuncSetAttribute :: "prototype list" where
  "prototypes_cuFuncSetAttribute =
    [Proto 103 ''cuFuncSetAttribute'' [By C_handle, By C_enum, By C_int],
     Proto 104 ''cuFuncSetBlockShape'' [By C_handle, By C_int, By C_int, By C_int],
     Proto 105 ''cuFuncSetCacheConfig'' [By C_handle, By C_enum],
     Proto 106 ''cuFuncSetSharedMemConfig'' [By C_handle, By C_enum],
     Proto 107 ''cuFuncSetSharedSize'' [By C_handle, By C_uint],
     Proto 131 ''cuGraphChildGraphNodeGetGraph'' [By C_handle, To C_handle]]"

definition prototypes_cuGraphClone :: "prototype list" where
  "prototypes_cuGraphClone =
    [Proto 132 ''cuGraphClone'' [To C_handle, By C_handle],
     Proto 133 ''cuGraphConditionalHandleCreate'' [To C_handle, By C_handle, By C_handle, By C_uint, By C_uint],
     Proto 134 ''cuGraphCreate'' [To C_handle, By C_uint],
     Proto 135 ''cuGraphDebugDotPrint'' [By C_handle, From C_char, By C_uint],
     Proto 136 ''cuGraphDestroy'' [By C_handle],
     Proto 137 ''cuGraphDestroyNode'' [By C_handle],
     Proto 138 ''cuGraphEventRecordNodeGetEvent'' [By C_handle, To C_handle],
     Proto 139 ''cuGraphEventRecordNodeSetEvent'' [By C_handle, By C_handle],
     Proto 140 ''cuGraphEventWaitNodeGetEvent'' [By C_handle, To C_handle],
     Proto 141 ''cuGraphEventWaitNodeSetEvent'' [By C_handle, By C_handle],
     Proto 143 ''cuGraphExecChildGraphNodeSetParams'' [By C_handle, By C_handle, By C_handle],
     Proto 144 ''cuGraphExecDestroy'' [By C_handle],
     Proto 145 ''cuGraphExecEventRecordNodeSetEvent'' [By C_handle, By C_handle, By C_handle]]"

definition prototypes_cuGraphExecEventWaitNodeSetEvent :: "prototype list" where
  "prototypes_cuGraphExecEventWaitNodeSetEvent =
    [Proto 146 ''cuGraphExecEventWaitNodeSetEvent'' [By C_handle, By C_handle, By C_handle],
     Proto 149 ''cuGraphExecGetFlags'' [By C_handle, To C_ulong],
     Proto 160 ''cuGraphGetEdges'' [By C_handle, To_counted 3 C_handle, To_counted 3 C_handle, In_out C_size],
     Proto 166 ''cuGraphInstantiateWithFlags'' [To C_handle, By C_handle, By C_ulong],
     Proto 168 ''cuGraphKernelNodeCopyAttributes'' [By C_handle, By C_handle]]"

definition prototypes_cuGraphLaunch :: "prototype list" where
  "prototypes_cuGraphLaunch =
    [Proto 173 ''cuGraphLaunch'' [By C_handle, By C_handle],
     Proto 175 ''cuGraphMemFreeNodeGetParams'' [By C_handle, To C_devptr],
     Proto 180 ''cuGraphNodeFindInClone'' [To C_handle, By C_handle, By C_handle],
     Proto 185 ''cuGraphNodeGetEnabled'' [By C_handle, By C_handle, To C_uint],
     Proto 186 ''cuGraphNodeGetType'' [By C_handle, To C_enum],
     Proto 187 ''cuGraphNodeSetEnabled'' [By C_handle, By C_handle, By C_uint],
     Proto 189 ''cuGraphReleaseUserObject'' [By C_handle, By C_handle, By C_uint],
     Proto 192 ''cuGraphRetainUserObject'' [By C_handle, By C_handle, By C_uint, By C_uint],
     Proto 193 ''cuGraphUpload'' [By C_handle, By C_handle]]"

definition prototypes_cuGraphicsMapResources :: "prototype list" where
  "prototypes_cuGraphicsMapResources =
    [Proto 194 ''cuGraphicsMapResources'' [By C_uint, From_many (Array_of 0 8), By C_handle],
     Proto 195 ''cuGraphicsResourceGetMappedMipmappedArray'' [To C_handle, By C_handle],
     Proto 196 ''cuGraphicsResourceGetMappedPointer_v2'' [To C_devptr, To C_size, By C_handle],
     Proto 197 ''cuGraphicsResourceSetMapFlags_v2'' [By C_handle, By C_uint],
     Proto 198 ''cuGraphicsSubResourceGetMappedArray'' [To C_handle, By C_handle, By C_uint, By C_uint],
     Proto 199 ''cuGraphicsUnmapResources'' [By C_uint, From_many (Array_of 0 8), By C_handle],
     Proto 200 ''cuGraphicsUnregisterResource'' [By C_handle],
     Proto 201 ''cuGreenCtxCreate'' [To C_handle, By C_handle, By C_device, By C_uint],
     Proto 202 ''cuGreenCtxDestroy'' [By C_handle],
     Proto 204 ''cuGreenCtxRecordEvent'' [By C_handle, By C_handle],
     Proto 205 ''cuGreenCtxStreamCreate'' [To C_handle, By C_handle, By C_uint, By C_int],
     Proto 206 ''cuGreenCtxWaitEvent'' [By C_handle, By C_handle]]"

definition prototypes_cuImportExternalSemaphore :: "prototype list" where
  "prototypes_cuImportExternalSemaphore =
    [Proto 209 ''cuInit'' [By C_uint],
     Proto 210 ''cuIpcCloseMemHandle'' [By C_devptr],
     Proto 215 ''cuKernelGetAttribute'' [To C_int, By C_enum, By C_handle, By C_device],
     Proto 216 ''cuKernelGetFunction'' [To C_handle, By C_handle],
     Proto 217 ''cuKernelGetLibrary'' [To C_handle, By C_handle],
     Proto 219 ''cuKernelGetParamInfo'' [By C_handle, By C_size, To C_size, To C_size],
     Proto 220 ''cuKernelSetAttribute'' [By C_enum, By C_int, By C_handle, By C_device],
     Proto 221 ''cuKernelSetCacheConfig'' [By C_handle, By C_enum, By C_device],
     Proto 222 ''cuLaunch'' [By C_handle],
     Proto 225 ''cuLaunchGrid'' [By C_handle, By C_int, By C_int]]"

definition prototypes_cuLaunchGridAsync :: "prototype list" where
  "prototypes_cuLaunchGridAsync =
    [Proto 226 ''cuLaunchGridAsync'' [By C_handle, By C_int, By C_int, By C_handle],
     Proto 231 ''cuLibraryGetGlobal'' [To C_devptr, To C_size, By C_handle, From C_char],
     Proto 232 ''cuLibraryGetKernel'' [To C_handle, By C_handle, From C_char],
     Proto 233 ''cuLibraryGetKernelCount'' [To C_uint, By C_handle],
     Proto 234 ''cuLibraryGetManaged'' [To C_devptr, To C_size, By C_handle, From C_char],
     Proto 235 ''cuLibraryGetModule'' [To C_handle, By C_handle],
     Proto 237 ''cuLibraryLoadData'' [To C_handle, From_many Whole, From_many (Array_of 4 4), From_many (Array_of 4 8), By C_uint, From_many (Array_of 7 4), From_many (Array_of 7 8), By C_uint],
     Proto 239 ''cuLibraryUnload'' [By C_handle],
     Proto 244 ''cuLinkDestroy'' [By C_handle]]"

definition prototypes_cuMemAddressFree :: "prototype list" where
  "prototypes_cuMemAddressFree =
    [Proto 245 ''cuMemAddressFree'' [By C_devptr, By C_size],
     Proto 246 ''cuMemAddressReserve'' [To C_devptr, By C_size, By C_size, By C_devptr, By C_ulong],
     Proto 247 ''cuMemAdvise'' [By C_devptr, By C_size, By C_enum, By C_device],
     Proto 249 ''cuMemAllocAsync'' [To C_devptr, By C_size, By C_handle],
     Proto 250 ''cuMemAllocFromPoolAsync'' [To C_devptr, By C_size, By C_handle, By C_handle],
     Proto 253 ''cuMemAllocPitch_v2'' [To C_devptr, To C_size, By C_size, By C_size, By C_uint],
     Proto 254 ''cuMemAlloc_v2'' [To C_devptr, By C_size],
     Proto 256 ''cuMemCreate'' [To C_handle, By C_size, From C_alloc_prop, By C_ulong],
     Proto 258 ''cuMemFreeAsync'' [By C_devptr, By C_handle],
     Proto 260 ''cuMemFree_v2'' [By C_devptr],
     Proto 261 ''cuMemGetAccess'' [To C_ulong, From C_mem_location, By C_devptr],
     Proto 262 ''cuMemGetAddressRange_v2'' [To C_devptr, To C_size, By C_devptr]]"

definition prototypes_cuMemGetAllocationGranularity :: "prototype list" where
  "prototypes_cuMemGetAllocationGranularity =
    [Proto 263 ''cuMemGetAllocationGranularity'' [To C_size, From C_alloc_prop, By C_enum],
     Proto 264 ''cuMemGetAllocationPropertiesFromHandle'' [To C_alloc_prop, By C_handle],
     Proto 266 ''cuMemGetInfo_v2'' [To C_size, To C_size],
     Proto 273 ''cuMemMap'' [By C_devptr, By C_size, By C_size, By C_handle, By C_ulong],
     Proto 276 ''cuMemPoolDestroy'' [By C_handle],
     Proto 285 ''cuMemPoolTrimTo'' [By C_handle, By C_size],
     Proto 286 ''cuMemPrefetchAsync'' [By C_devptr, By C_size, By C_device, By C_handle]]"

definition prototypes_cuMemRelease :: "prototype list" where
  "prototypes_cuMemRelease =
    [Proto 290 ''cuMemRelease'' [By C_handle],
     Proto 292 ''cuMemSetAccess'' [By C_devptr, By C_size, From_many (Array_of 3 12), By C_size],
     Proto 293 ''cuMemUnmap'' [By C_devptr, By C_size],
     Proto 294 ''cuMemcpy'' [By C_devptr, By C_devptr, By C_size],
     Proto 303 ''cuMemcpyAsync'' [By C_devptr, By C_devptr, By C_size, By C_handle],
     Proto 304 ''cuMemcpyAtoA_v2'' [By C_handle, By C_size, By C_handle, By C_size, By C_size],
     Proto 305 ''cuMemcpyAtoD_v2'' [By C_devptr, By C_handle, By C_size, By C_size],
     Proto 309 ''cuMemcpyDtoA_v2'' [By C_handle, By C_size, By C_devptr, By C_size]]"

definition prototypes_cuMemcpyDtoDAsync_v2 :: "prototype list" where
  "prototypes_cuMemcpyDtoDAsync_v2 =
    [Proto 310 ''cuMemcpyDtoDAsync_v2'' [By C_devptr, By C_devptr, By C_size, By C_handle],
     Proto 311 ''cuMemcpyDtoD_v2'' [By C_devptr, By C_devptr, By C_size],
     Proto 312 ''cuMemcpyDtoHAsync_v2'' [To_many (Length 2), By C_devptr, By C_size, By C_handle],
     Proto 313 ''cuMemcpyDtoH_v2'' [To_many (Length 2), By C_devptr, By C_size],
     Proto 316 ''cuMemcpyHtoDAsync_v2'' [By C_devptr, From_many (Length 2), By C_size, By C_handle],
     Proto 317 ''cuMemcpyHtoD_v2'' [By C_devptr, From_many (Length 2), By C_size],
     Proto 318 ''cuMemcpyPeer'' [By C_devptr, By C_handle, By C_devptr, By C_handle, By C_size],
     Proto 319 ''cuMemcpyPeerAsync'' [By C_devptr, By C_handle, By C_devptr, By C_handle, By C_size, By C_handle],
     Proto 320 ''cuMemsetD16Async'' [By C_devptr, By C_ushort, By C_size, By C_handle],
     Proto 321 ''cuMemsetD16_v2'' [By C_devptr, By C_ushort, By C_size],
     Proto 322 ''cuMemsetD2D16Async'' [By C_devptr, By C_size, By C_ushort, By C_size, By C_size, By C_handle]]"

definition prototypes_cuMemsetD2D16_v2 :: "prototype list" where
  "prototypes_cuMemsetD2D16_v2 =
    [Proto 323 ''cuMemsetD2D16_v2'' [By C_devptr, By C_size, By C_ushort, By C_size, By C_size],
     Proto 324 ''cuMemsetD2D32Async'' [By C_devptr, By C_size, By C_uint, By C_size, By C_size, By C_handle],
     Proto 325 ''cuMemsetD2D32_v2'' [By C_devptr, By C_size, By C_uint, By C_size, By C_size],
     Proto 326 ''cuMemsetD2D8Async'' [By C_devptr, By C_size, By C_uchar, By C_size, By C_size, By C_handle],
     Proto 327 ''cuMemsetD2D8_v2'' [By C_devptr, By C_size, By C_uchar, By C_size, By C_size],
     Proto 328 ''cuMemsetD32Async'' [By C_devptr, By C_uint, By C_size, By C_handle],
     Proto 329 ''cuMemsetD32_v2'' [By C_devptr, By C_uint, By C_size],
     Proto 330 ''cuMemsetD8Async'' [By C_devptr, By C_uchar, By C_size, By C_handle],
     Proto 331 ''cuMemsetD8_v2'' [By C_devptr, By C_uchar, By C_size],
     Proto 333 ''cuMipmappedArrayDestroy'' [By C_handle],
     Proto 334 ''cuMipmappedArrayGetLevel'' [To C_handle, By C_handle, By C_uint]]"

definition prototypes_cuModuleGetFunction :: "prototype list" where
  "prototypes_cuModuleGetFunction =
    [Proto 338 ''cuModuleGetFunction'' [To C_handle, By C_handle, From C_char],
     Proto 339 ''cuModuleGetFunctionCount'' [To C_uint, By C_handle],
     Proto 340 ''cuModuleGetGlobal_v2'' [To C_devptr, To C_size, By C_handle, From C_char],
     Proto 341 ''cuModuleGetLoadingMode'' [To C_enum],
     Proto 342 ''cuModuleGetSurfRef'' [To C_handle, By C_handle, From C_char],
     Proto 343 ''cuModuleGetTexRef'' [To C_handle, By C_handle, From C_char],
     Proto 344 ''cuModuleLoad'' [To C_handle, From C_char],
     Proto 345 ''cuModuleLoadData'' [To C_handle, From_many Whole],
     Proto 347 ''cuModuleLoadFatBinary'' [To C_handle, From_many Whole],
     Proto 348 ''cuModuleUnload'' [By C_handle],
     Proto 349 ''cuMulticastAddDevice'' [By C_handle, By C_device],
     Proto 350 ''cuMulticastBindAddr'' [By C_handle, By C_size, By C_devptr, By C_size, By C_ulong]]"

definition prototypes_cuMulticastBindMem :: "prototype list" where
  "prototypes_cuMulticastBindMem =
    [Proto 351 ''cuMulticastBindMem'' [By C_handle, By C_size, By C_handle, By C_size, By C_size, By C_ulong],
     Proto 354 ''cuMulticastUnbind'' [By C_handle, By C_device, By C_size, By C_size],
     Proto 355 ''cuOccupancyAvailableDynamicSMemPerBlock'' [To C_size, By C_handle, By C_int, By C_int],
     Proto 356 ''cuOccupancyMaxActiveBlocksPerMultiprocessor'' [To C_int, By C_handle, By C_int, By C_size],
     Proto 357 ''cuOccupancyMaxActiveBlocksPerMultiprocessorWithFlags'' [To C_int, By C_handle, By C_int, By C_size, By C_uint],
     Proto 362 ''cuParamSetSize'' [By C_handle, By C_uint],
     Proto 363 ''cuParamSetTexRef'' [By C_handle, By C_int, By C_handle],
     Proto 364 ''cuParamSetf'' [By C_handle, By C_int, By C_float],
     Proto 365 ''cuParamSeti'' [By C_handle, By C_int, By C_uint],
     Proto 367 ''cuPointerGetAttribute'' [To_many (Attr_size 1), By C_enum, By C_devptr]]"

definition prototypes_cuStreamAddCallback :: "prototype list" where
  "prototypes_cuStreamAddCallback =
    [Proto 372 ''cuStreamAttachMemAsync'' [By C_handle, By C_devptr, By C_size, By C_uint],
     Proto 375 ''cuStreamBeginCapture_v2'' [By C_handle, By C_enum],
     Proto 376 ''cuStreamCopyAttributes'' [By C_handle, By C_handle],
     Proto 377 ''cuStreamCreate'' [To C_handle, By C_uint],
     Proto 378 ''cuStreamCreateWithPriority'' [To C_handle, By C_uint, By C_int],
     Proto 379 ''cuStreamDestroy_v2'' [By C_handle],
     Proto 380 ''cuStreamEndCapture'' [By C_handle, To C_handle],
     Proto 384 ''cuStreamGetCtx'' [By C_handle, To C_handle],
     Proto 385 ''cuStreamGetCtx_v2'' [By C_handle, To C_handle, To C_handle],
     Proto 386 ''cuStreamGetDevice'' [By C_handle, To C_device],
     Proto 387 ''cuStreamGetFlags'' [By C_handle, To C_uint]]"

definition prototypes_cuStreamGetGreenCtx :: "prototype list" where
  "prototypes_cuStreamGetGreenCtx =
    [Proto 388 ''cuStreamGetGreenCtx'' [By C_handle, To C_handle],
     Proto 389 ''cuStreamGetId'' [By C_handle, To C_ulong],
     Proto 390 ''cuStreamGetPriority'' [By C_handle, To C_int],
     Proto 391 ''cuStreamIsCapturing'' [By C_handle, To C_enum],
     Proto 392 ''cuStreamQuery'' [By C_handle],
     Proto 394 ''cuStreamSynchronize'' [By C_handle],
     Proto 397 ''cuStreamWaitEvent'' [By C_handle, By C_handle, By C_uint],
     Proto 398 ''cuStreamWaitValue32_v2'' [By C_handle, By C_devptr, By C_uint, By C_uint],
     Proto 399 ''cuStreamWaitValue64_v2'' [By C_handle, By C_devptr, By C_ulong, By C_uint],
     Proto 400 ''cuStreamWriteValue32_v2'' [By C_handle, By C_devptr, By C_uint, By C_uint],
     Proto 401 ''cuStreamWriteValue64_v2'' [By C_handle, By C_devptr, By C_ulong, By C_uint],
     Proto 403 ''cuSurfObjectDestroy'' [By C_handle]]"

definition prototypes_cuSurfRefGetArray :: "prototype list" where
  "prototypes_cuSurfRefGetArray =
    [Proto 405 ''cuSurfRefGetArray'' [To C_handle, By C_handle],
     Proto 406 ''cuSurfRefSetArray'' [By C_handle, By C_handle, By C_uint],
     Proto 412 ''cuTexObjectDestroy'' [By C_handle],
     Proto 416 ''cuTexRefCreate'' [To C_handle],
     Proto 417 ''cuTexRefDestroy'' [By C_handle],
     Proto 418 ''cuTexRefGetAddressMode'' [To C_enum, By C_handle, By C_int],
     Proto 419 ''cuTexRefGetAddress_v2'' [To C_devptr, By C_handle],
     Proto 420 ''cuTexRefGetArray'' [To C_handle, By C_handle],
     Proto 421 ''cuTexRefGetBorderColor'' [To_many (Const 16), By C_handle],
     Proto 422 ''cuTexRefGetFilterMode'' [To C_enum, By C_handle]]"

definition prototypes_cuTexRefGetFlags :: "prototype list" where
  "prototypes_cuTexRefGetFlags =
    [Proto 423 ''cuTexRefGetFlags'' [To C_uint, By C_handle],
     Proto 424 ''cuTexRefGetFormat'' [To C_enum, To C_int, By C_handle],
     Proto 425 ''cuTexRefGetMaxAnisotropy'' [To C_int, By C_handle],
     Proto 426 ''cuTexRefGetMipmapFilterMode'' [To C_enum, By C_handle],
     Proto 427 ''cuTexRefGetMipmapLevelBias'' [To C_float, By C_handle],
     Proto 428 ''cuTexRefGetMipmapLevelClamp'' [To C_float, To C_float, By C_handle],
     Proto 429 ''cuTexRefGetMipmappedArray'' [To C_handle, By C_handle],
     Proto 431 ''cuTexRefSetAddressMode'' [By C_handle, By C_int, By C_enum],
     Proto 432 ''cuTexRefSetAddress_v2'' [To C_size, By C_handle, By C_devptr, By C_size],
     Proto 433 ''cuTexRefSetArray'' [By C_handle, By C_handle, By C_uint],
     Proto 434 ''cuTexRefSetBorderColor'' [By C_handle, From_many (Const 16)],
     Proto 435 ''cuTexRefSetFilterMode'' [By C_handle, By C_enum]]"

definition prototypes_cuTexRefSetFlags :: "prototype list" where
  "prototypes_cuTexRefSetFlags =
    [Proto 436 ''cuTexRefSetFlags'' [By C_handle, By C_uint],
     Proto 437 ''cuTexRefSetFormat'' [By C_handle, By C_enum, By C_int],
     Proto 438 ''cuTexRefSetMaxAnisotropy'' [By C_handle, By C_uint],
     Proto 439 ''cuTexRefSetMipmapFilterMode'' [By C_handle, By C_enum],
     Proto 440 ''cuTexRefSetMipmapLevelBias'' [By C_handle, By C_float],
     Proto 441 ''cuTexRefSetMipmapLevelClamp'' [By C_handle, By C_float, By C_float],
     Proto 442 ''cuTexRefSetMipmappedArray'' [By C_handle, By C_handle, By C_uint],
     Proto 445 ''cuUserObjectRelease'' [By C_handle, By C_uint],
     Proto 446 ''cuUserObjectRetain'' [By C_handle, By C_uint]]"

definition prototypes :: "prototype list" where
  "prototypes =
    prototypes_cuArray3DCreate_v2 @ prototypes_cuCtxDisablePeerAccess @ prototypes_cuCtxPushCurrent_v2 @
      prototypes_cuDeviceGet @ prototypes_cuDeviceGetProperties @ prototypes_cuEventElapsedTime @
      prototypes_cuFuncSetAttribute @ prototypes_cuGraphClone @ prototypes_cuGraphExecEventWaitNodeSetEvent @
      prototypes_cuGraphLaunch @ prototypes_cuGraphicsMapResources @ prototypes_cuImportExternalSemaphore @
      prototypes_cuLaunchGridAsync @ prototypes_cuMemAddressFree @ prototypes_cuMemGetAllocationGranularity @
      prototypes_cuMemRelease @ prototypes_cuMemcpyDtoDAsync_v2 @ prototypes_cuMemsetD2D16_v2 @
      prototypes_cuModuleGetFunction @ prototypes_cuMulticastBindMem @ prototypes_cuStreamAddCallback @
      prototypes_cuStreamGetGreenCtx @ prototypes_cuSurfRefGetArray @ prototypes_cuTexRefGetFlags @
      prototypes_cuTexRefSetFlags"

definition prototype :: "u32 \<Rightarrow> (string \<times> passing list) option" where
  "prototype api = (case find (\<lambda>q. proto_id q = api) prototypes of
     None \<Rightarrow> None | Some (Proto i name qs) \<Rightarrow> Some (name, qs))"

section \<open>A call of a program's own\<close>

text \<open>The arguments C allows: values of their type, strings that end, and as many bytes as the manual
  says where bytes are read.\<close>

definition proper :: "arg list \<Rightarrow> passing \<Rightarrow> arg \<Rightarrow> bool" where
  "proper as q a \<longleftrightarrow> (case (q, a) of
       (By t, Val v) \<Rightarrow> take_bit (8 * c_size t) v = v
     | (To t, Place there) \<Rightarrow> True
     | (To_many m, Place there) \<Rightarrow> True
     | (From t, Bytes None) \<Rightarrow> True
     | (From t, Bytes (Some bs)) \<Rightarrow> (if t = C_char then 0 \<notin> set bs \<and> length bs < 2 ^ 64 else length bs = c_size t)
     | (From_many m, Bytes None) \<Rightarrow> True
     | (From_many m, Bytes (Some bs)) \<Rightarrow> length bs < 2 ^ 64
          \<and> (case extent m as of None \<Rightarrow> True | Some n \<Rightarrow> n = of_nat (length bs))
     | _ \<Rightarrow> False)"

text \<open>Room that is to be written is some, and no more than there can be memory for.\<close>

definition roomy :: "(u64 \<Rightarrow> bool) \<Rightarrow> arg list \<Rightarrow> passing \<Rightarrow> arg \<Rightarrow> bool" where
  "roomy memory as q a \<longleftrightarrow> (case (q, a) of
       (To_many m, Place True) \<Rightarrow> (case extent m as of None \<Rightarrow> False | Some n \<Rightarrow> 0 < n \<and> n \<le> 2 ^ 63 - 1 \<and> memory n)
     | _ \<Rightarrow> True)"

text \<open>What the driver is handed: its own room where it is to write many bytes, the arguments otherwise.\<close>

definition handed :: "arg list \<Rightarrow> passing \<Rightarrow> arg \<Rightarrow> arg" where
  "handed as q a = (case (q, a) of (To_many m, Place there) \<Rightarrow> Space there (room_size m as) | _ \<Rightarrow> a)"

text \<open>How many bytes the caller finds written through a pointer it gave.\<close>

fun written_through :: "arg list \<Rightarrow> passing \<Rightarrow> arg \<Rightarrow> nat option" where
  "written_through as (To t) (Place True) = Some (c_size t)"
| "written_through as (To_many m) (Place True) = Some (unat (room_size m as))"
| "written_through as _ _ = None"

fun caller_finds :: "nat \<Rightarrow> arg list \<Rightarrow> passing list \<Rightarrow> arg list \<Rightarrow> byte list list \<Rightarrow> (nat \<times> byte list) list" where
  "caller_finds i as (q # qs) (x # xs) outs = (case written_through as q x of
     None \<Rightarrow> caller_finds (Suc i) as qs xs outs
   | Some n \<Rightarrow> (i, written n (hd (outs @ [[]]))) # caller_finds (Suc i) as qs xs (tl outs))"
| "caller_finds i as _ _ outs = []"

section \<open>What carries it\<close>

text \<open>The forms of the wire that carry a parameter whole.\<close>

fun carries :: "passing \<Rightarrow> param \<Rightarrow> bool" where
  "carries (By t) (In n) \<longleftrightarrow> n = c_size t"
| "carries (To t) (Out n) \<longleftrightarrow> n = c_size t"
| "carries (To t) (Out_struct n) \<longleftrightarrow> n = c_size t"
| "carries (From t) Text \<longleftrightarrow> t = C_char"
| "carries (From t) (Struct n) \<longleftrightarrow> t \<noteq> C_char \<and> n = c_size t"
| "carries (To_many m) (Room k) \<longleftrightarrow> k = m"
| "carries (From_many m) (Block k) \<longleftrightarrow> k = m"
| "carries _ _ \<longleftrightarrow> False"

lemma c_size_bound: "c_size t < 2 ^ 64"
  by (cases t) simp_all

lemma carries_cases:
  assumes "carries q p"
  obtains t where "q = By t" "p = In (c_size t)" | t where "q = To t" "p = Out (c_size t)"
    | t where "q = To t" "p = Out_struct (c_size t)" | "q = From C_char" "p = Text"
    | t where "q = From t" "t \<noteq> C_char" "p = Struct (c_size t)" | m where "q = To_many m" "p = Room m"
    | m where "q = From_many m" "p = Block m"
  using assms by (cases "(q, p)" rule: carries.cases) auto

lemma carried_fits:
  assumes "carries q p" and "proper as q a" shows "fits as p a"
  using assms c_size_bound
  by (cases rule: carries_cases) (auto simp: proper_def fits_def split: arg.splits option.splits)

lemma carried_roomy:
  assumes "carries q p" and "roomy memory as q a" shows "has_room memory as p a"
  using assms(1)
proof (cases rule: carries_cases)
  case (6 m)
  then show ?thesis using assms(2)
    by (auto simp: roomy_def has_room_def room_size_def split: arg.splits bool.splits option.splits)
qed (auto simp: has_room_def)

lemma carried_received:
  assumes "carries q p" shows "received as p a = handed as q a"
  using assms by (cases rule: carries_cases) (auto simp: received_def handed_def split: arg.split)

lemma carried_wanted:
  assumes "carries q p" shows "wanted as p a = written_through as q a"
proof (cases "\<exists>there. a = Place there")
  case True
  then obtain there where a: "a = Place there" ..
  show ?thesis using assms by (cases rule: carries_cases; cases there) (simp_all add: a)
next
  case False
  then have "wanted as p a = None" "written_through as q a = None" by (cases p; cases q; cases a; simp)+
  then show ?thesis by simp
qed

lemma all_carried:
  assumes "list_all2 carries qs ps" and "list_all2 (proper as) qs xs"
  shows "list_all2 (fits as) ps xs \<and> map2 (received as) ps xs = map2 (handed as) qs xs"
  using assms
  by (induction qs ps arbitrary: xs rule: list_all2_induct) (auto simp: list_all2_Cons1 carried_fits carried_received)

lemma all_roomy:
  assumes "list_all2 carries qs ps" and "list_all2 (roomy memory as) qs xs"
  shows "list_all2 (has_room memory as) ps xs"
  using assms by (induction qs ps arbitrary: xs rule: list_all2_induct) (auto simp: list_all2_Cons1 carried_roomy)

lemma results_step:
  "results i as (p # ps) (x # xs) outs = (case wanted as p x of
     None \<Rightarrow> results (Suc i) as ps xs outs
   | Some n \<Rightarrow> (i, written n (hd (outs @ [[]]))) # results (Suc i) as ps xs (tl outs))"
  by (cases "(as, p, x)" rule: wanted.cases) simp_all

lemma all_found:
  assumes "list_all2 carries qs ps"
  shows "results i as ps xs outs = caller_finds i as qs xs outs"
  using assms
proof (induction qs ps arbitrary: i xs outs rule: list_all2_induct)
  case step: (Cons q qs p ps)
  show ?case
  proof (cases xs)
    case Nil
    then show ?thesis by (cases p) simp_all
  next
    case (Cons y ys)
    then show ?thesis
      by (simp add: results_step carried_wanted [OF step.hyps(1)] step.IH del: results.simps split: option.split)
  qed
qed simp

end
