(* ===== verification/Cases.thy ===== *)
theory Cases
  imports MarshalLaws
begin

text \<open>
  The cases of the generated dispatch (\<^verbatim>\<open>server/generated/dispatch.cpp\<close>), in the order of the file:
  the API id, the driver's entry point, the parameters, and the position of the stream that is waited
  for before the outputs are sent back. \<^verbatim>\<open>Dispatch\<close> has those that the tracking and context code
  knows once more, each with the driver call it makes; the others are run from their descriptions.

  \<open>plain\<close> is the driver as those see it: an entry point's name and its arguments give a result code, the
  bytes written through each pointer that was given, and the driver's new state. \<open>memory\<close> says for
  which sizes the server's vectors can be had.
\<close>

section \<open>Cases\<close>

datatype gen_case = Case u32 string "param list" "nat option"

definition cases_cuArray3DCreate_v2 :: "gen_case list" where
  "cases_cuArray3DCreate_v2 =
    [Case 4 ''cuArrayDestroy'' [In 8] None,
     Case 7 ''cuArrayGetPlane'' [Out 8, In 8, In 4] None,
     Case 10 ''cuCheckpointProcessGetRestoreThreadId'' [In 4, Out 4] None,
     Case 11 ''cuCheckpointProcessGetState'' [In 4, Out 4] None,
     Case 19 ''cuCtxAttach'' [Out 8, In 4] None,
     Case 20 ''cuCtxCreate_v2'' [Out 8, In 4, In 4] None,
     Case 23 ''cuCtxDestroy_v2'' [In 8] None,
     Case 24 ''cuCtxDetach'' [In 8] None]"

definition cases_cuCtxDisablePeerAccess :: "gen_case list" where
  "cases_cuCtxDisablePeerAccess =
    [Case 25 ''cuCtxDisablePeerAccess'' [In 8] None,
     Case 26 ''cuCtxEnablePeerAccess'' [In 8, In 4] None,
     Case 27 ''cuCtxFromGreenCtx'' [Out 8, In 8] None,
     Case 28 ''cuCtxGetApiVersion'' [In 8, Out 4] None,
     Case 29 ''cuCtxGetCacheConfig'' [Out 4] None,
     Case 30 ''cuCtxGetCurrent'' [Out 8] None,
     Case 32 ''cuCtxGetDevice'' [Out 4] None,
     Case 34 ''cuCtxGetFlags'' [Out 4] None,
     Case 35 ''cuCtxGetId'' [In 8, Out 8] None,
     Case 36 ''cuCtxGetLimit'' [Out 8, In 4] None,
     Case 37 ''cuCtxGetSharedMemConfig'' [Out 4] None,
     Case 38 ''cuCtxGetStreamPriorityRange'' [Out 4, Out 4] None,
     Case 39 ''cuCtxPopCurrent_v2'' [Out 8] None]"

definition cases_cuCtxPushCurrent_v2 :: "gen_case list" where
  "cases_cuCtxPushCurrent_v2 =
    [Case 40 ''cuCtxPushCurrent_v2'' [In 8] None,
     Case 41 ''cuCtxRecordEvent'' [In 8, In 8] None,
     Case 42 ''cuCtxResetPersistingL2Cache'' [] None,
     Case 43 ''cuCtxSetCacheConfig'' [In 4] None,
     Case 44 ''cuCtxSetCurrent'' [In 8] None,
     Case 45 ''cuCtxSetFlags'' [In 4] None,
     Case 46 ''cuCtxSetLimit'' [In 4, In 8] None,
     Case 47 ''cuCtxSetSharedMemConfig'' [In 4] None,
     Case 48 ''cuCtxSynchronize'' [] None,
     Case 49 ''cuCtxWaitEvent'' [In 8, In 8] None,
     Case 50 ''cuDestroyExternalMemory'' [In 8] None,
     Case 51 ''cuDestroyExternalSemaphore'' [In 8] None,
     Case 54 ''cuDeviceCanAccessPeer'' [Out 4, In 4, In 4] None,
     Case 55 ''cuDeviceComputeCapability'' [Out 4, Out 4, In 4] None]"

definition cases_cuDeviceGet :: "gen_case list" where
  "cases_cuDeviceGet =
    [Case 56 ''cuDeviceGet'' [Out 4, In 4] None,
     Case 57 ''cuDeviceGetAttribute'' [Out 4, In 4, In 4] None,
     Case 58 ''cuDeviceGetByPCIBusId'' [Out 4, Text] None,
     Case 59 ''cuDeviceGetCount'' [Out 4] None,
     Case 60 ''cuDeviceGetDefaultMemPool'' [Out 8, In 4] None,
     Case 62 ''cuDeviceGetExecAffinitySupport'' [Out 4, In 4, In 4] None,
     Case 64 ''cuDeviceGetLuid'' [Room (Const 8), Out 4, In 4] None,
     Case 65 ''cuDeviceGetMemPool'' [Out 8, In 4] None,
     Case 66 ''cuDeviceGetName'' [Room (Signed 1), In 4, In 4] None,
     Case 68 ''cuDeviceGetP2PAttribute'' [Out 4, In 4, In 4, In 4] None,
     Case 69 ''cuDeviceGetPCIBusId'' [Out 1, In 4, In 4] None]"

definition cases_cuDeviceGetProperties :: "gen_case list" where
  "cases_cuDeviceGetProperties =
    [Case 71 ''cuDeviceGetTexture1DLinearMaxWidth'' [Out 8, In 4, In 4, In 4] None,
     Case 72 ''cuDeviceGetUuid'' [Out_struct 16, In 4] None,
     Case 73 ''cuDeviceGetUuid_v2'' [Out_struct 16, In 4] None,
     Case 74 ''cuDeviceGraphMemTrim'' [In 4] None,
     Case 75 ''cuDevicePrimaryCtxGetState'' [In 4, Out 4, Out 4] None,
     Case 76 ''cuDevicePrimaryCtxRelease_v2'' [In 4] None,
     Case 77 ''cuDevicePrimaryCtxReset_v2'' [In 4] None,
     Case 78 ''cuDevicePrimaryCtxRetain'' [Out 8, In 4] None,
     Case 79 ''cuDevicePrimaryCtxSetFlags_v2'' [In 4, In 4] None,
     Case 82 ''cuDeviceSetMemPool'' [In 4, In 8] None,
     Case 83 ''cuDeviceTotalMem_v2'' [Out 8, In 4] None,
     Case 84 ''cuDeviceUnregisterAsyncNotification'' [In 4, In 8] None,
     Case 86 ''cuEventCreate'' [Out 8, In 4] None,
     Case 87 ''cuEventDestroy_v2'' [In 8] None]"

definition cases_cuEventElapsedTime :: "gen_case list" where
  "cases_cuEventElapsedTime =
    [Case 88 ''cuEventElapsedTime'' [Out 4, In 8, In 8] None,
     Case 89 ''cuEventElapsedTime_v2'' [Out 4, In 8, In 8] None,
     Case 90 ''cuEventQuery'' [In 8] None,
     Case 91 ''cuEventRecord'' [In 8, In 8] None,
     Case 92 ''cuEventRecordWithFlags'' [In 8, In 8, In 4] None,
     Case 93 ''cuEventSynchronize'' [In 8] None,
     Case 96 ''cuFlushGPUDirectRDMAWrites'' [In 4, In 4] None,
     Case 97 ''cuFuncGetAttribute'' [Out 4, In 4, In 8] None,
     Case 98 ''cuFuncGetModule'' [Out 8, In 8] None,
     Case 100 ''cuFuncGetParamInfo'' [In 8, In 8, Out 8, Out 8] None,
     Case 101 ''cuFuncIsLoaded'' [Out 4, In 8] None,
     Case 102 ''cuFuncLoad'' [In 8] None]"

definition cases_cuFuncSetAttribute :: "gen_case list" where
  "cases_cuFuncSetAttribute =
    [Case 103 ''cuFuncSetAttribute'' [In 8, In 4, In 4] None,
     Case 104 ''cuFuncSetBlockShape'' [In 8, In 4, In 4, In 4] None,
     Case 105 ''cuFuncSetCacheConfig'' [In 8, In 4] None,
     Case 106 ''cuFuncSetSharedMemConfig'' [In 8, In 4] None,
     Case 107 ''cuFuncSetSharedSize'' [In 8, In 4] None,
     Case 131 ''cuGraphChildGraphNodeGetGraph'' [In 8, Out 8] None]"

definition cases_cuGraphClone :: "gen_case list" where
  "cases_cuGraphClone =
    [Case 132 ''cuGraphClone'' [Out 8, In 8] None,
     Case 133 ''cuGraphConditionalHandleCreate'' [Out 8, In 8, In 8, In 4, In 4] None,
     Case 134 ''cuGraphCreate'' [Out 8, In 4] None,
     Case 135 ''cuGraphDebugDotPrint'' [In 8, Text, In 4] None,
     Case 136 ''cuGraphDestroy'' [In 8] None,
     Case 137 ''cuGraphDestroyNode'' [In 8] None,
     Case 138 ''cuGraphEventRecordNodeGetEvent'' [In 8, Out 8] None,
     Case 139 ''cuGraphEventRecordNodeSetEvent'' [In 8, In 8] None,
     Case 140 ''cuGraphEventWaitNodeGetEvent'' [In 8, Out 8] None,
     Case 141 ''cuGraphEventWaitNodeSetEvent'' [In 8, In 8] None,
     Case 143 ''cuGraphExecChildGraphNodeSetParams'' [In 8, In 8, In 8] None,
     Case 144 ''cuGraphExecDestroy'' [In 8] None,
     Case 145 ''cuGraphExecEventRecordNodeSetEvent'' [In 8, In 8, In 8] None]"

definition cases_cuGraphExecEventWaitNodeSetEvent :: "gen_case list" where
  "cases_cuGraphExecEventWaitNodeSetEvent =
    [Case 146 ''cuGraphExecEventWaitNodeSetEvent'' [In 8, In 8, In 8] None,
     Case 149 ''cuGraphExecGetFlags'' [In 8, Out 8] None,
     Case 160 ''cuGraphGetEdges'' [In 8, Out 8, Out 8, Out 8] None,
     Case 166 ''cuGraphInstantiateWithFlags'' [Out 8, In 8, In 8] None,
     Case 168 ''cuGraphKernelNodeCopyAttributes'' [In 8, In 8] None]"

definition cases_cuGraphLaunch :: "gen_case list" where
  "cases_cuGraphLaunch =
    [Case 173 ''cuGraphLaunch'' [In 8, In 8] None,
     Case 175 ''cuGraphMemFreeNodeGetParams'' [In 8, Out 8] None,
     Case 180 ''cuGraphNodeFindInClone'' [Out 8, In 8, In 8] None,
     Case 185 ''cuGraphNodeGetEnabled'' [In 8, In 8, Out 4] None,
     Case 186 ''cuGraphNodeGetType'' [In 8, Out 4] None,
     Case 187 ''cuGraphNodeSetEnabled'' [In 8, In 8, In 4] None,
     Case 189 ''cuGraphReleaseUserObject'' [In 8, In 8, In 4] None,
     Case 192 ''cuGraphRetainUserObject'' [In 8, In 8, In 4, In 4] None,
     Case 193 ''cuGraphUpload'' [In 8, In 8] None]"

definition cases_cuGraphicsMapResources :: "gen_case list" where
  "cases_cuGraphicsMapResources =
    [Case 194 ''cuGraphicsMapResources'' [In 4, Out 8, In 8] None,
     Case 195 ''cuGraphicsResourceGetMappedMipmappedArray'' [Out 8, In 8] None,
     Case 196 ''cuGraphicsResourceGetMappedPointer_v2'' [Out 8, Out 8, In 8] None,
     Case 197 ''cuGraphicsResourceSetMapFlags_v2'' [In 8, In 4] None,
     Case 198 ''cuGraphicsSubResourceGetMappedArray'' [Out 8, In 8, In 4, In 4] None,
     Case 199 ''cuGraphicsUnmapResources'' [In 4, Out 8, In 8] None,
     Case 200 ''cuGraphicsUnregisterResource'' [In 8] None,
     Case 201 ''cuGreenCtxCreate'' [Out 8, In 8, In 4, In 4] None,
     Case 202 ''cuGreenCtxDestroy'' [In 8] None,
     Case 204 ''cuGreenCtxRecordEvent'' [In 8, In 8] None,
     Case 205 ''cuGreenCtxStreamCreate'' [Out 8, In 8, In 4, In 4] None,
     Case 206 ''cuGreenCtxWaitEvent'' [In 8, In 8] None]"

definition cases_cuImportExternalSemaphore :: "gen_case list" where
  "cases_cuImportExternalSemaphore =
    [Case 209 ''cuInit'' [In 4] None,
     Case 210 ''cuIpcCloseMemHandle'' [In 8] None,
     Case 215 ''cuKernelGetAttribute'' [Out 4, In 4, In 8, In 4] None,
     Case 216 ''cuKernelGetFunction'' [Out 8, In 8] None,
     Case 217 ''cuKernelGetLibrary'' [Out 8, In 8] None,
     Case 219 ''cuKernelGetParamInfo'' [In 8, In 8, Out 8, Out 8] None,
     Case 220 ''cuKernelSetAttribute'' [In 4, In 4, In 8, In 4] None,
     Case 221 ''cuKernelSetCacheConfig'' [In 8, In 4, In 4] None,
     Case 222 ''cuLaunch'' [In 8] None,
     Case 225 ''cuLaunchGrid'' [In 8, In 4, In 4] None]"

definition cases_cuLaunchGridAsync :: "gen_case list" where
  "cases_cuLaunchGridAsync =
    [Case 226 ''cuLaunchGridAsync'' [In 8, In 4, In 4, In 8] None,
     Case 231 ''cuLibraryGetGlobal'' [Out 8, Out 8, In 8, Text] None,
     Case 232 ''cuLibraryGetKernel'' [Out 8, In 8, Text] None,
     Case 233 ''cuLibraryGetKernelCount'' [Out 4, In 8] None,
     Case 234 ''cuLibraryGetManaged'' [Out 8, Out 8, In 8, Text] None,
     Case 235 ''cuLibraryGetModule'' [Out 8, In 8] None,
     Case 237 ''cuLibraryLoadData'' [Out 8, Block Whole, Unsent, Unsent, In 4, Unsent, Unsent, In 4] None,
     Case 239 ''cuLibraryUnload'' [In 8] None,
     Case 244 ''cuLinkDestroy'' [In 8] None]"

definition cases_cuMemAddressFree :: "gen_case list" where
  "cases_cuMemAddressFree =
    [Case 245 ''cuMemAddressFree'' [In 8, In 8] None,
     Case 246 ''cuMemAddressReserve'' [Out 8, In 8, In 8, In 8, In 8] None,
     Case 247 ''cuMemAdvise'' [In 8, In 8, In 4, In 4] None,
     Case 249 ''cuMemAllocAsync'' [Out 8, In 8, In 8] None,
     Case 250 ''cuMemAllocFromPoolAsync'' [Out 8, In 8, In 8, In 8] None,
     Case 253 ''cuMemAllocPitch_v2'' [Out 8, Out 8, In 8, In 8, In 4] None,
     Case 254 ''cuMemAlloc_v2'' [Out 8, In 8] None,
     Case 256 ''cuMemCreate'' [Out 8, In 8, Struct 32, In 8] None,
     Case 258 ''cuMemFreeAsync'' [In 8, In 8] None,
     Case 260 ''cuMemFree_v2'' [In 8] None,
     Case 261 ''cuMemGetAccess'' [Out 8, Struct 8, In 8] None,
     Case 262 ''cuMemGetAddressRange_v2'' [Out 8, Out 8, In 8] None]"

definition cases_cuMemGetAllocationGranularity :: "gen_case list" where
  "cases_cuMemGetAllocationGranularity =
    [Case 263 ''cuMemGetAllocationGranularity'' [Out 8, Struct 32, In 4] None,
     Case 264 ''cuMemGetAllocationPropertiesFromHandle'' [Out_struct 32, In 8] None,
     Case 266 ''cuMemGetInfo_v2'' [Out 8, Out 8] None,
     Case 273 ''cuMemMap'' [In 8, In 8, In 8, In 8, In 8] None,
     Case 276 ''cuMemPoolDestroy'' [In 8] None,
     Case 285 ''cuMemPoolTrimTo'' [In 8, In 8] None,
     Case 286 ''cuMemPrefetchAsync'' [In 8, In 8, In 4, In 8] None]"

definition cases_cuMemRelease :: "gen_case list" where
  "cases_cuMemRelease =
    [Case 290 ''cuMemRelease'' [In 8] None,
     Case 292 ''cuMemSetAccess'' [In 8, In 8, Block (Array_of 3 12), In 8] None,
     Case 293 ''cuMemUnmap'' [In 8, In 8] None,
     Case 294 ''cuMemcpy'' [In 8, In 8, In 8] None,
     Case 303 ''cuMemcpyAsync'' [In 8, In 8, In 8, In 8] None,
     Case 304 ''cuMemcpyAtoA_v2'' [In 8, In 8, In 8, In 8, In 8] None,
     Case 305 ''cuMemcpyAtoD_v2'' [In 8, In 8, In 8, In 8] None,
     Case 309 ''cuMemcpyDtoA_v2'' [In 8, In 8, In 8, In 8] None]"

definition cases_cuMemcpyDtoDAsync_v2 :: "gen_case list" where
  "cases_cuMemcpyDtoDAsync_v2 =
    [Case 310 ''cuMemcpyDtoDAsync_v2'' [In 8, In 8, In 8, In 8] None,
     Case 311 ''cuMemcpyDtoD_v2'' [In 8, In 8, In 8] None,
     Case 312 ''cuMemcpyDtoHAsync_v2'' [Room (Length 2), In 8, In 8, In 8] (Some 3),
     Case 313 ''cuMemcpyDtoH_v2'' [Room (Length 2), In 8, In 8] None,
     Case 316 ''cuMemcpyHtoDAsync_v2'' [In 8, Block (Length 2), In 8, In 8] None,
     Case 317 ''cuMemcpyHtoD_v2'' [In 8, Block (Length 2), In 8] None,
     Case 318 ''cuMemcpyPeer'' [In 8, In 8, In 8, In 8, In 8] None,
     Case 319 ''cuMemcpyPeerAsync'' [In 8, In 8, In 8, In 8, In 8, In 8] None,
     Case 320 ''cuMemsetD16Async'' [In 8, In 2, In 8, In 8] None,
     Case 321 ''cuMemsetD16_v2'' [In 8, In 2, In 8] None,
     Case 322 ''cuMemsetD2D16Async'' [In 8, In 8, In 2, In 8, In 8, In 8] None]"

definition cases_cuMemsetD2D16_v2 :: "gen_case list" where
  "cases_cuMemsetD2D16_v2 =
    [Case 323 ''cuMemsetD2D16_v2'' [In 8, In 8, In 2, In 8, In 8] None,
     Case 324 ''cuMemsetD2D32Async'' [In 8, In 8, In 4, In 8, In 8, In 8] None,
     Case 325 ''cuMemsetD2D32_v2'' [In 8, In 8, In 4, In 8, In 8] None,
     Case 326 ''cuMemsetD2D8Async'' [In 8, In 8, In 1, In 8, In 8, In 8] None,
     Case 327 ''cuMemsetD2D8_v2'' [In 8, In 8, In 1, In 8, In 8] None,
     Case 328 ''cuMemsetD32Async'' [In 8, In 4, In 8, In 8] None,
     Case 329 ''cuMemsetD32_v2'' [In 8, In 4, In 8] None,
     Case 330 ''cuMemsetD8Async'' [In 8, In 1, In 8, In 8] None,
     Case 331 ''cuMemsetD8_v2'' [In 8, In 1, In 8] None,
     Case 333 ''cuMipmappedArrayDestroy'' [In 8] None,
     Case 334 ''cuMipmappedArrayGetLevel'' [Out 8, In 8, In 4] None]"

definition cases_cuModuleGetFunction :: "gen_case list" where
  "cases_cuModuleGetFunction =
    [Case 338 ''cuModuleGetFunction'' [Out 8, In 8, Text] None,
     Case 339 ''cuModuleGetFunctionCount'' [Out 4, In 8] None,
     Case 340 ''cuModuleGetGlobal_v2'' [Out 8, Out 8, In 8, Text] None,
     Case 341 ''cuModuleGetLoadingMode'' [Out 4] None,
     Case 342 ''cuModuleGetSurfRef'' [Out 8, In 8, Text] None,
     Case 343 ''cuModuleGetTexRef'' [Out 8, In 8, Text] None,
     Case 344 ''cuModuleLoad'' [Out 8, Text] None,
     Case 345 ''cuModuleLoadData'' [Out 8, Block Whole] None,
     Case 347 ''cuModuleLoadFatBinary'' [Out 8, Block Whole] None,
     Case 348 ''cuModuleUnload'' [In 8] None,
     Case 349 ''cuMulticastAddDevice'' [In 8, In 4] None,
     Case 350 ''cuMulticastBindAddr'' [In 8, In 8, In 8, In 8, In 8] None]"

definition cases_cuMulticastBindMem :: "gen_case list" where
  "cases_cuMulticastBindMem =
    [Case 351 ''cuMulticastBindMem'' [In 8, In 8, In 8, In 8, In 8, In 8] None,
     Case 354 ''cuMulticastUnbind'' [In 8, In 4, In 8, In 8] None,
     Case 355 ''cuOccupancyAvailableDynamicSMemPerBlock'' [Out 8, In 8, In 4, In 4] None,
     Case 356 ''cuOccupancyMaxActiveBlocksPerMultiprocessor'' [Out 4, In 8, In 4, In 8] None,
     Case 357 ''cuOccupancyMaxActiveBlocksPerMultiprocessorWithFlags'' [Out 4, In 8, In 4, In 8, In 4] None,
     Case 362 ''cuParamSetSize'' [In 8, In 4] None,
     Case 363 ''cuParamSetTexRef'' [In 8, In 4, In 8] None,
     Case 364 ''cuParamSetf'' [In 8, In 4, In 4] None,
     Case 365 ''cuParamSeti'' [In 8, In 4, In 4] None,
     Case 367 ''cuPointerGetAttribute'' [Room (Attr_size 1), In 4, In 8] None]"

definition cases_cuStreamAddCallback :: "gen_case list" where
  "cases_cuStreamAddCallback =
    [Case 372 ''cuStreamAttachMemAsync'' [In 8, In 8, In 8, In 4] None,
     Case 375 ''cuStreamBeginCapture_v2'' [In 8, In 4] None,
     Case 376 ''cuStreamCopyAttributes'' [In 8, In 8] None,
     Case 377 ''cuStreamCreate'' [Out 8, In 4] None,
     Case 378 ''cuStreamCreateWithPriority'' [Out 8, In 4, In 4] None,
     Case 379 ''cuStreamDestroy_v2'' [In 8] None,
     Case 380 ''cuStreamEndCapture'' [In 8, Out 8] None,
     Case 384 ''cuStreamGetCtx'' [In 8, Out 8] None,
     Case 385 ''cuStreamGetCtx_v2'' [In 8, Out 8, Out 8] None,
     Case 386 ''cuStreamGetDevice'' [In 8, Out 4] None,
     Case 387 ''cuStreamGetFlags'' [In 8, Out 4] None]"

definition cases_cuStreamGetGreenCtx :: "gen_case list" where
  "cases_cuStreamGetGreenCtx =
    [Case 388 ''cuStreamGetGreenCtx'' [In 8, Out 8] None,
     Case 389 ''cuStreamGetId'' [In 8, Out 8] None,
     Case 390 ''cuStreamGetPriority'' [In 8, Out 4] None,
     Case 391 ''cuStreamIsCapturing'' [In 8, Out 4] None,
     Case 392 ''cuStreamQuery'' [In 8] None,
     Case 394 ''cuStreamSynchronize'' [In 8] None,
     Case 397 ''cuStreamWaitEvent'' [In 8, In 8, In 4] None,
     Case 398 ''cuStreamWaitValue32_v2'' [In 8, In 8, In 4, In 4] None,
     Case 399 ''cuStreamWaitValue64_v2'' [In 8, In 8, In 8, In 4] None,
     Case 400 ''cuStreamWriteValue32_v2'' [In 8, In 8, In 4, In 4] None,
     Case 401 ''cuStreamWriteValue64_v2'' [In 8, In 8, In 8, In 4] None,
     Case 403 ''cuSurfObjectDestroy'' [In 8] None]"

definition cases_cuSurfRefGetArray :: "gen_case list" where
  "cases_cuSurfRefGetArray =
    [Case 405 ''cuSurfRefGetArray'' [Out 8, In 8] None,
     Case 406 ''cuSurfRefSetArray'' [In 8, In 8, In 4] None,
     Case 412 ''cuTexObjectDestroy'' [In 8] None,
     Case 416 ''cuTexRefCreate'' [Out 8] None,
     Case 417 ''cuTexRefDestroy'' [In 8] None,
     Case 418 ''cuTexRefGetAddressMode'' [Out 4, In 8, In 4] None,
     Case 419 ''cuTexRefGetAddress_v2'' [Out 8, In 8] None,
     Case 420 ''cuTexRefGetArray'' [Out 8, In 8] None,
     Case 421 ''cuTexRefGetBorderColor'' [Out 4, In 8] None,
     Case 422 ''cuTexRefGetFilterMode'' [Out 4, In 8] None]"

definition cases_cuTexRefGetFlags :: "gen_case list" where
  "cases_cuTexRefGetFlags =
    [Case 423 ''cuTexRefGetFlags'' [Out 4, In 8] None,
     Case 424 ''cuTexRefGetFormat'' [Out 4, Out 4, In 8] None,
     Case 425 ''cuTexRefGetMaxAnisotropy'' [Out 4, In 8] None,
     Case 426 ''cuTexRefGetMipmapFilterMode'' [Out 4, In 8] None,
     Case 427 ''cuTexRefGetMipmapLevelBias'' [Out 4, In 8] None,
     Case 428 ''cuTexRefGetMipmapLevelClamp'' [Out 4, Out 4, In 8] None,
     Case 429 ''cuTexRefGetMipmappedArray'' [Out 8, In 8] None,
     Case 431 ''cuTexRefSetAddressMode'' [In 8, In 4, In 4] None,
     Case 432 ''cuTexRefSetAddress_v2'' [Out 8, In 8, In 8, In 8] None,
     Case 433 ''cuTexRefSetArray'' [In 8, In 8, In 4] None,
     Case 434 ''cuTexRefSetBorderColor'' [In 8, Out 4] None,
     Case 435 ''cuTexRefSetFilterMode'' [In 8, In 4] None]"

definition cases_cuTexRefSetFlags :: "gen_case list" where
  "cases_cuTexRefSetFlags =
    [Case 436 ''cuTexRefSetFlags'' [In 8, In 4] None,
     Case 437 ''cuTexRefSetFormat'' [In 8, In 4, In 4] None,
     Case 438 ''cuTexRefSetMaxAnisotropy'' [In 8, In 4] None,
     Case 439 ''cuTexRefSetMipmapFilterMode'' [In 8, In 4] None,
     Case 440 ''cuTexRefSetMipmapLevelBias'' [In 8, In 4] None,
     Case 441 ''cuTexRefSetMipmapLevelClamp'' [In 8, In 4, In 4] None,
     Case 442 ''cuTexRefSetMipmappedArray'' [In 8, In 8, In 4] None,
     Case 445 ''cuUserObjectRelease'' [In 8, In 4] None,
     Case 446 ''cuUserObjectRetain'' [In 8, In 4] None]"

definition server_cases :: "gen_case list" where
  "server_cases =
    cases_cuArray3DCreate_v2 @ cases_cuCtxDisablePeerAccess @ cases_cuCtxPushCurrent_v2 @
      cases_cuDeviceGet @ cases_cuDeviceGetProperties @ cases_cuEventElapsedTime @
      cases_cuFuncSetAttribute @ cases_cuGraphClone @ cases_cuGraphExecEventWaitNodeSetEvent @
      cases_cuGraphLaunch @ cases_cuGraphicsMapResources @ cases_cuImportExternalSemaphore @
      cases_cuLaunchGridAsync @ cases_cuMemAddressFree @ cases_cuMemGetAllocationGranularity @
      cases_cuMemRelease @ cases_cuMemcpyDtoDAsync_v2 @ cases_cuMemsetD2D16_v2 @
      cases_cuModuleGetFunction @ cases_cuMulticastBindMem @ cases_cuStreamAddCallback @
      cases_cuStreamGetGreenCtx @ cases_cuSurfRefGetArray @ cases_cuTexRefGetFlags @
      cases_cuTexRefSetFlags"

section \<open>Running a case\<close>

type_synonym 'd plain = "string \<Rightarrow> arg list \<Rightarrow> 'd \<Rightarrow> (CUresult \<times> byte list list) \<times> 'd"

definition plain_call :: "'d plain \<Rightarrow> string \<Rightarrow> arg list \<Rightarrow> 'd sv \<Rightarrow> (CUresult \<times> byte list list) \<times> 'd sv" where
  "plain_call plain name as s = (case plain name as (w_drv (sv_world s)) of
     (r, d) \<Rightarrow> (r, s\<lparr> sv_world := (sv_world s)\<lparr> w_drv := d \<rparr> \<rparr>))"

text \<open>After an asynchronous copy to the host the stream is waited for, if the copy was accepted and the
  driver can, and the wait's result is the call's.\<close>

definition wait_for :: "'d driver \<Rightarrow> 'd plain \<Rightarrow> nat option \<Rightarrow> arg list \<Rightarrow> CUresult \<Rightarrow> 'd sv \<Rightarrow> CUresult \<times> 'd sv" where
  "wait_for drv plain sync as r s = (case sync of
       None \<Rightarrow> (r, s)
     | Some i \<Rightarrow> (if r = CUDA_SUCCESS \<and> d_has drv ''cuStreamSynchronize''
         then (case plain_call plain ''cuStreamSynchronize'' [Val (value_at i as)] s of ((r1, _), s1) \<Rightarrow> (r1, s1))
         else (r, s)))"

definition run_case :: "'d driver \<Rightarrow> 'd plain \<Rightarrow> (u64 \<Rightarrow> bool) \<Rightarrow> gen_case \<Rightarrow> buffer \<Rightarrow> buffer \<Rightarrow> 'd sv \<Rightarrow> 'd outcome"
  where
  "run_case drv plain memory c req rsp s = (case c of Case api name ps sync \<Rightarrow>
     (case read_params ps req of
        (None, req1) \<Rightarrow> Answered (CUDA_ERROR_INVALID_VALUE, req1, rsp, s)
      | (Some as, req1) \<Rightarrow>
          (case admit memory as ps as of
             Bad_size \<Rightarrow> Answered (CUDA_ERROR_INVALID_VALUE, req1, rsp, s)
           | No_memory \<Rightarrow> Bad_alloc req1 s
           | Too_long \<Rightarrow> Threw req1 s
           | Fits \<Rightarrow>
               (if \<not> d_has drv name then Answered (CUDA_ERROR_NOT_SUPPORTED, req1, rsp, s)
                else case plain_call plain name as s of ((r, outs), s1) \<Rightarrow>
                  (case wait_for drv plain sync as r s1 of (r1, s2) \<Rightarrow>
                     Answered (r1, req1, put_results ps as outs rsp, s2))))))"

primrec case_id :: "gen_case \<Rightarrow> u32" where
  "case_id (Case api name ps sync) = api"

definition generated_rest :: "'d driver \<Rightarrow> 'd plain \<Rightarrow> (u64 \<Rightarrow> bool) \<Rightarrow> 'd dispatcher" where
  "generated_rest drv plain memory api req rsp s =
     map_option (\<lambda>c. run_case drv plain memory c req rsp s) (find (\<lambda>c. case_id c = api) server_cases)"

end
