(* ===== verification/Forward.thy ===== *)
theory Forward
  imports Prototypes Cases Serve
begin

text \<open>
  The client's stubs and the server's cases put together: every stub has a case that reads what it
  sends, and a call that is forwarded gives its caller what the driver would have given it.
\<close>

section \<open>The two tables agree\<close>

text \<open>Parameters that carry something back.\<close>

primrec gives_back :: "param \<Rightarrow> bool" where
  "gives_back (In n) = False"
| "gives_back (Out n) = True"
| "gives_back Text = False"
| "gives_back (Block m) = False"
| "gives_back (Room m) = True"
| "gives_back (Struct n) = False"
| "gives_back (Out_struct n) = True"
| "gives_back Unsent = False"

definition has_case :: "gen_case list \<Rightarrow> string \<Rightarrow> u32 \<Rightarrow> param list \<Rightarrow> bool" where
  "has_case cs name api ps \<longleftrightarrow> (case find (\<lambda>c. case_id c = api) cs of
     None \<Rightarrow> False | Some (Case i n qs sync) \<Rightarrow> n = name \<and> qs = ps)"

primrec served :: "gen_case list \<Rightarrow> stub \<Rightarrow> bool" where
  "served cs (Unimplemented name) \<longleftrightarrow> True"
| "served cs (Calls name api b ps a) \<longleftrightarrow> has_case cs name api ps"
| "served cs (Posts name api b ps) \<longleftrightarrow> has_case cs name api ps \<and> list_all (\<lambda>p. \<not> gives_back p) ps"

text \<open>Both tables are in the order of the ids, so one pass over the two checks a group.\<close>

fun tables_agree :: "stub list \<Rightarrow> gen_case list \<Rightarrow> bool" where
  "tables_agree [] cs = True"
| "tables_agree (Unimplemented name # sts) cs = tables_agree sts cs"
| "tables_agree (Calls name api b ps a # sts) [] = False"
| "tables_agree (Calls name api b ps a # sts) (Case i n qs sync # cs) =
     (if i < api then tables_agree (Calls name api b ps a # sts) cs
      else i = api \<and> n = name \<and> qs = ps \<and> tables_agree sts cs)"
| "tables_agree (Posts name api b ps # sts) [] = False"
| "tables_agree (Posts name api b ps # sts) (Case i n qs sync # cs) =
     (if i < api then tables_agree (Posts name api b ps # sts) cs
      else i = api \<and> n = name \<and> qs = ps \<and> list_all (\<lambda>p. \<not> gives_back p) ps \<and> tables_agree sts cs)"

fun ascends :: "u32 list \<Rightarrow> bool" where
  "ascends (x # y # xs) \<longleftrightarrow> x < y \<and> ascends (y # xs)"
| "ascends _ \<longleftrightarrow> True"

lemma ascends_distinct: "ascends xs \<Longrightarrow> distinct xs"
proof -
  have "sorted_wrt (<) xs" if "ascends xs"
    using that by (induction xs rule: ascends.induct) (auto intro: less_trans)
  then show "ascends xs \<Longrightarrow> distinct xs" by (simp add: strict_sorted_iff)
qed

lemma find_id:
  "distinct (map case_id cs) \<Longrightarrow> c \<in> set cs \<Longrightarrow> find (\<lambda>d. case_id d = case_id c) cs = Some c"
  by (induction cs) (auto simp: rev_image_eqI)

lemma has_caseI:
  "distinct (map case_id cs) \<Longrightarrow> Case api name ps sync \<in> set cs \<Longrightarrow> has_case cs name api ps"
  using find_id [of cs "Case api name ps sync"] by (simp add: has_case_def)

lemma tables_agree_served:
  "tables_agree sts ds \<Longrightarrow> set ds \<subseteq> set cs \<Longrightarrow> distinct (map case_id cs) \<Longrightarrow> list_all (served cs) sts"
  by (induction sts ds rule: tables_agree.induct) (auto intro: has_caseI split: if_splits)

lemma groups_agree:
  "tables_agree stubs_cuArray3DCreate_v2 cases_cuArray3DCreate_v2"
  "tables_agree stubs_cuCtxDisablePeerAccess cases_cuCtxDisablePeerAccess"
  "tables_agree stubs_cuCtxPushCurrent_v2 cases_cuCtxPushCurrent_v2"
  "tables_agree stubs_cuDeviceGet cases_cuDeviceGet"
  "tables_agree stubs_cuDeviceGetProperties cases_cuDeviceGetProperties"
  "tables_agree stubs_cuEventElapsedTime cases_cuEventElapsedTime"
  "tables_agree stubs_cuFuncSetAttribute cases_cuFuncSetAttribute"
  "tables_agree stubs_cuGraphClone cases_cuGraphClone"
  "tables_agree stubs_cuGraphExecEventWaitNodeSetEvent cases_cuGraphExecEventWaitNodeSetEvent"
  "tables_agree stubs_cuGraphLaunch cases_cuGraphLaunch"
  "tables_agree stubs_cuGraphicsMapResources cases_cuGraphicsMapResources"
  "tables_agree stubs_cuImportExternalSemaphore cases_cuImportExternalSemaphore"
  "tables_agree stubs_cuLaunchGridAsync cases_cuLaunchGridAsync"
  "tables_agree stubs_cuMemAddressFree cases_cuMemAddressFree"
  "tables_agree stubs_cuMemGetAllocationGranularity cases_cuMemGetAllocationGranularity"
  "tables_agree stubs_cuMemRelease cases_cuMemRelease"
  "tables_agree stubs_cuMemcpyDtoDAsync_v2 cases_cuMemcpyDtoDAsync_v2"
  "tables_agree stubs_cuMemsetD2D16_v2 cases_cuMemsetD2D16_v2"
  "tables_agree stubs_cuModuleGetFunction cases_cuModuleGetFunction"
  "tables_agree stubs_cuMulticastBindMem cases_cuMulticastBindMem"
  "tables_agree stubs_cuStreamAddCallback cases_cuStreamAddCallback"
  "tables_agree stubs_cuStreamGetGreenCtx cases_cuStreamGetGreenCtx"
  "tables_agree stubs_cuSurfRefGetArray cases_cuSurfRefGetArray"
  "tables_agree stubs_cuTexRefGetFlags cases_cuTexRefGetFlags"
  "tables_agree stubs_cuTexRefSetFlags cases_cuTexRefSetFlags"
  by (simp_all add:
      stubs_cuArray3DCreate_v2_def cases_cuArray3DCreate_v2_def
      stubs_cuCtxDisablePeerAccess_def cases_cuCtxDisablePeerAccess_def
      stubs_cuCtxPushCurrent_v2_def cases_cuCtxPushCurrent_v2_def
      stubs_cuDeviceGet_def cases_cuDeviceGet_def
      stubs_cuDeviceGetProperties_def cases_cuDeviceGetProperties_def
      stubs_cuEventElapsedTime_def cases_cuEventElapsedTime_def
      stubs_cuFuncSetAttribute_def cases_cuFuncSetAttribute_def
      stubs_cuGraphClone_def cases_cuGraphClone_def
      stubs_cuGraphExecEventWaitNodeSetEvent_def cases_cuGraphExecEventWaitNodeSetEvent_def
      stubs_cuGraphLaunch_def cases_cuGraphLaunch_def
      stubs_cuGraphicsMapResources_def cases_cuGraphicsMapResources_def
      stubs_cuImportExternalSemaphore_def cases_cuImportExternalSemaphore_def
      stubs_cuLaunchGridAsync_def cases_cuLaunchGridAsync_def
      stubs_cuMemAddressFree_def cases_cuMemAddressFree_def
      stubs_cuMemGetAllocationGranularity_def cases_cuMemGetAllocationGranularity_def
      stubs_cuMemRelease_def cases_cuMemRelease_def
      stubs_cuMemcpyDtoDAsync_v2_def cases_cuMemcpyDtoDAsync_v2_def
      stubs_cuMemsetD2D16_v2_def cases_cuMemsetD2D16_v2_def
      stubs_cuModuleGetFunction_def cases_cuModuleGetFunction_def
      stubs_cuMulticastBindMem_def cases_cuMulticastBindMem_def
      stubs_cuStreamAddCallback_def cases_cuStreamAddCallback_def
      stubs_cuStreamGetGreenCtx_def cases_cuStreamGetGreenCtx_def
      stubs_cuSurfRefGetArray_def cases_cuSurfRefGetArray_def
      stubs_cuTexRefGetFlags_def cases_cuTexRefGetFlags_def
      stubs_cuTexRefSetFlags_def cases_cuTexRefSetFlags_def)

lemma cases_ascend: "ascends (map case_id server_cases)"
  by (simp add: server_cases_def
      cases_cuArray3DCreate_v2_def cases_cuCtxDisablePeerAccess_def cases_cuCtxPushCurrent_v2_def
      cases_cuDeviceGet_def cases_cuDeviceGetProperties_def cases_cuEventElapsedTime_def
      cases_cuFuncSetAttribute_def cases_cuGraphClone_def cases_cuGraphExecEventWaitNodeSetEvent_def
      cases_cuGraphLaunch_def cases_cuGraphicsMapResources_def cases_cuImportExternalSemaphore_def
      cases_cuLaunchGridAsync_def cases_cuMemAddressFree_def cases_cuMemGetAllocationGranularity_def
      cases_cuMemRelease_def cases_cuMemcpyDtoDAsync_v2_def cases_cuMemsetD2D16_v2_def
      cases_cuModuleGetFunction_def cases_cuMulticastBindMem_def cases_cuStreamAddCallback_def
      cases_cuStreamGetGreenCtx_def cases_cuSurfRefGetArray_def cases_cuTexRefGetFlags_def
      cases_cuTexRefSetFlags_def)

lemma cases_distinct: "distinct (map case_id server_cases)"
  by (rule ascends_distinct [OF cases_ascend])

lemma group_in_cases:
  "set cases_cuArray3DCreate_v2 \<subseteq> set server_cases"
  "set cases_cuCtxDisablePeerAccess \<subseteq> set server_cases"
  "set cases_cuCtxPushCurrent_v2 \<subseteq> set server_cases"
  "set cases_cuDeviceGet \<subseteq> set server_cases"
  "set cases_cuDeviceGetProperties \<subseteq> set server_cases"
  "set cases_cuEventElapsedTime \<subseteq> set server_cases"
  "set cases_cuFuncSetAttribute \<subseteq> set server_cases"
  "set cases_cuGraphClone \<subseteq> set server_cases"
  "set cases_cuGraphExecEventWaitNodeSetEvent \<subseteq> set server_cases"
  "set cases_cuGraphLaunch \<subseteq> set server_cases"
  "set cases_cuGraphicsMapResources \<subseteq> set server_cases"
  "set cases_cuImportExternalSemaphore \<subseteq> set server_cases"
  "set cases_cuLaunchGridAsync \<subseteq> set server_cases"
  "set cases_cuMemAddressFree \<subseteq> set server_cases"
  "set cases_cuMemGetAllocationGranularity \<subseteq> set server_cases"
  "set cases_cuMemRelease \<subseteq> set server_cases"
  "set cases_cuMemcpyDtoDAsync_v2 \<subseteq> set server_cases"
  "set cases_cuMemsetD2D16_v2 \<subseteq> set server_cases"
  "set cases_cuModuleGetFunction \<subseteq> set server_cases"
  "set cases_cuMulticastBindMem \<subseteq> set server_cases"
  "set cases_cuStreamAddCallback \<subseteq> set server_cases"
  "set cases_cuStreamGetGreenCtx \<subseteq> set server_cases"
  "set cases_cuSurfRefGetArray \<subseteq> set server_cases"
  "set cases_cuTexRefGetFlags \<subseteq> set server_cases"
  "set cases_cuTexRefSetFlags \<subseteq> set server_cases"
  by (auto simp: server_cases_def)

lemma stubs_have_cases: "list_all (served server_cases) client_stubs"
proof -
  note group = tables_agree_served [OF _ _ cases_distinct]
  show ?thesis unfolding client_stubs_def list_all_append
    by (intro conjI groups_agree [THEN group] group_in_cases)
qed

text \<open>C5. Every call that a client stub forwards, waited for or not, has a case in the server's
  dispatch under its own id, for the entry point of its own name and with its own parameters in the
  same form and order, and a call that is not waited for has no parameter that gives anything back.\<close>

theorem stubs_match_cases: "list_all (served server_cases) client_stubs"
  by (rule stubs_have_cases)

section \<open>The tables against the prototypes\<close>

text \<open>The calls that the generated code does not carry whole: \<open>cuDeviceGetPCIBusId\<close>, \<open>cuGraphGetEdges\<close>,
  \<open>cuGraphicsMapResources\<close>, \<open>cuGraphicsUnmapResources\<close>, \<open>cuLibraryLoadData\<close>, \<open>cuTexRefGetBorderColor\<close> and
  \<open>cuTexRefSetBorderColor\<close>. Where a \<open>char\<close> buffer, four floats or an array of handles goes through a
  pointer, there is room for one object, and none is read; the options of \<open>cuLibraryLoadData\<close> are left
  behind, their counts are not.\<close>

definition misshapen :: "u32 list" where
  "misshapen = [69, 160, 194, 199, 237, 421, 434]"

text \<open>Whose outputs are not there yet when the driver's call returns: the position of the stream to wait for.\<close>

definition waits_for :: "string \<Rightarrow> nat option" where
  "waits_for name = (if name = ''cuMemcpyDtoHAsync_v2'' then Some 3 else None)"

definition case_shape :: "gen_case \<Rightarrow> prototype \<Rightarrow> bool" where
  "case_shape c pr \<longleftrightarrow> (case (c, pr) of (Case api name ps sync, Proto i n qs) \<Rightarrow>
     i = api \<and> n = name \<and> (list_all2 carries qs ps \<longleftrightarrow> api \<notin> set misshapen) \<and> sync = waits_for name)"

lemma case_shape_simp:
  "case_shape (Case api name ps sync) (Proto i n qs) \<longleftrightarrow>
     i = api \<and> n = name \<and> (list_all2 carries qs ps \<longleftrightarrow> api \<notin> set misshapen) \<and> sync = waits_for name"
  by (simp add: case_shape_def)

lemma groups_shaped:
  "list_all2 case_shape cases_cuArray3DCreate_v2 prototypes_cuArray3DCreate_v2"
  "list_all2 case_shape cases_cuCtxDisablePeerAccess prototypes_cuCtxDisablePeerAccess"
  "list_all2 case_shape cases_cuCtxPushCurrent_v2 prototypes_cuCtxPushCurrent_v2"
  "list_all2 case_shape cases_cuDeviceGet prototypes_cuDeviceGet"
  "list_all2 case_shape cases_cuDeviceGetProperties prototypes_cuDeviceGetProperties"
  "list_all2 case_shape cases_cuEventElapsedTime prototypes_cuEventElapsedTime"
  "list_all2 case_shape cases_cuFuncSetAttribute prototypes_cuFuncSetAttribute"
  "list_all2 case_shape cases_cuGraphClone prototypes_cuGraphClone"
  "list_all2 case_shape cases_cuGraphExecEventWaitNodeSetEvent prototypes_cuGraphExecEventWaitNodeSetEvent"
  "list_all2 case_shape cases_cuGraphLaunch prototypes_cuGraphLaunch"
  "list_all2 case_shape cases_cuGraphicsMapResources prototypes_cuGraphicsMapResources"
  "list_all2 case_shape cases_cuImportExternalSemaphore prototypes_cuImportExternalSemaphore"
  "list_all2 case_shape cases_cuLaunchGridAsync prototypes_cuLaunchGridAsync"
  "list_all2 case_shape cases_cuMemAddressFree prototypes_cuMemAddressFree"
  "list_all2 case_shape cases_cuMemGetAllocationGranularity prototypes_cuMemGetAllocationGranularity"
  "list_all2 case_shape cases_cuMemRelease prototypes_cuMemRelease"
  "list_all2 case_shape cases_cuMemcpyDtoDAsync_v2 prototypes_cuMemcpyDtoDAsync_v2"
  "list_all2 case_shape cases_cuMemsetD2D16_v2 prototypes_cuMemsetD2D16_v2"
  "list_all2 case_shape cases_cuModuleGetFunction prototypes_cuModuleGetFunction"
  "list_all2 case_shape cases_cuMulticastBindMem prototypes_cuMulticastBindMem"
  "list_all2 case_shape cases_cuStreamAddCallback prototypes_cuStreamAddCallback"
  "list_all2 case_shape cases_cuStreamGetGreenCtx prototypes_cuStreamGetGreenCtx"
  "list_all2 case_shape cases_cuSurfRefGetArray prototypes_cuSurfRefGetArray"
  "list_all2 case_shape cases_cuTexRefGetFlags prototypes_cuTexRefGetFlags"
  "list_all2 case_shape cases_cuTexRefSetFlags prototypes_cuTexRefSetFlags"
  by (simp_all add: case_shape_simp misshapen_def waits_for_def
      cases_cuArray3DCreate_v2_def prototypes_cuArray3DCreate_v2_def
      cases_cuCtxDisablePeerAccess_def prototypes_cuCtxDisablePeerAccess_def
      cases_cuCtxPushCurrent_v2_def prototypes_cuCtxPushCurrent_v2_def
      cases_cuDeviceGet_def prototypes_cuDeviceGet_def
      cases_cuDeviceGetProperties_def prototypes_cuDeviceGetProperties_def
      cases_cuEventElapsedTime_def prototypes_cuEventElapsedTime_def
      cases_cuFuncSetAttribute_def prototypes_cuFuncSetAttribute_def
      cases_cuGraphClone_def prototypes_cuGraphClone_def
      cases_cuGraphExecEventWaitNodeSetEvent_def prototypes_cuGraphExecEventWaitNodeSetEvent_def
      cases_cuGraphLaunch_def prototypes_cuGraphLaunch_def
      cases_cuGraphicsMapResources_def prototypes_cuGraphicsMapResources_def
      cases_cuImportExternalSemaphore_def prototypes_cuImportExternalSemaphore_def
      cases_cuLaunchGridAsync_def prototypes_cuLaunchGridAsync_def
      cases_cuMemAddressFree_def prototypes_cuMemAddressFree_def
      cases_cuMemGetAllocationGranularity_def prototypes_cuMemGetAllocationGranularity_def
      cases_cuMemRelease_def prototypes_cuMemRelease_def
      cases_cuMemcpyDtoDAsync_v2_def prototypes_cuMemcpyDtoDAsync_v2_def
      cases_cuMemsetD2D16_v2_def prototypes_cuMemsetD2D16_v2_def
      cases_cuModuleGetFunction_def prototypes_cuModuleGetFunction_def
      cases_cuMulticastBindMem_def prototypes_cuMulticastBindMem_def
      cases_cuStreamAddCallback_def prototypes_cuStreamAddCallback_def
      cases_cuStreamGetGreenCtx_def prototypes_cuStreamGetGreenCtx_def
      cases_cuSurfRefGetArray_def prototypes_cuSurfRefGetArray_def
      cases_cuTexRefGetFlags_def prototypes_cuTexRefGetFlags_def
      cases_cuTexRefSetFlags_def prototypes_cuTexRefSetFlags_def)

lemma cases_shaped: "list_all2 case_shape server_cases prototypes"
  unfolding server_cases_def prototypes_def by (intro list_all2_appendI groups_shaped)

lemma case_shape_ids: "case_shape c pr \<Longrightarrow> case_id c = proto_id pr"
  by (cases c; cases pr) (simp add: case_shape_def)

lemma prototype_ids: "map case_id server_cases = map proto_id prototypes"
proof -
  have "map case_id cs = map proto_id prs" if "list_all2 case_shape cs prs" for cs prs
    using that by (induction cs prs rule: list_all2_induct) (simp_all add: case_shape_ids)
  then show ?thesis using cases_shaped by blast
qed

lemma prototype_is:
  assumes "Proto api name qs \<in> set prototypes" shows "prototype api = Some (name, qs)"
proof -
  have "find (\<lambda>q. proto_id q = proto_id p) prs = Some p" if "distinct (map proto_id prs)" "p \<in> set prs" for p prs
    using that by (induction prs) (auto simp: rev_image_eqI)
  from this [OF _ assms] show ?thesis using cases_distinct by (simp add: prototype_def prototype_ids)
qed

text \<open>A case has a prototype, of its name, and its parameters carry it but where it is one of those.\<close>

lemma case_has_shape:
  assumes "Case api name ps sync \<in> set server_cases"
  obtains qs where "prototype api = Some (name, qs)" and "list_all2 carries qs ps \<longleftrightarrow> api \<notin> set misshapen"
    and "sync = waits_for name"
proof -
  obtain pr where pr: "pr \<in> set prototypes" "case_shape (Case api name ps sync) pr"
    using cases_shaped assms unfolding list_all2_conv_all_nth in_set_conv_nth by metis
  obtain i n qs where "pr = Proto i n qs" by (cases pr)
  then show ?thesis using that prototype_is [of i n qs] pr by (simp add: case_shape_def)
qed

section \<open>A forwarded call\<close>

text \<open>What the serving loop makes of an outcome: the result and the reply's bytes.\<close>

definition answered :: "'d outcome option \<Rightarrow> 'd sv \<Rightarrow> (CUresult \<times> byte list) \<times> 'd sv" where
  "answered out s = (case out of
       None \<Rightarrow> ((CUDA_ERROR_NOT_SUPPORTED, []), s)
     | Some (Answered (r, req, rsp, s1)) \<Rightarrow>
         ((if bok req then (r, bdata rsp) else (CUDA_ERROR_INVALID_VALUE, [])), s1)
     | Some (Bad_alloc req s1) \<Rightarrow> ((if bok req then CUDA_ERROR_OUT_OF_MEMORY else CUDA_ERROR_INVALID_VALUE, []), s1)
     | Some (Threw req s1) \<Rightarrow> ((if bok req then CUDA_ERROR_UNKNOWN else CUDA_ERROR_INVALID_VALUE, []), s1))"

lemma answered_is_settled:
  assumes "\<not> rn_refused rn" and "\<not> rn_handled rn" and "rn_rsp rn = empty_buffer"
  shows "(let rn1 = settle_result (take_outcome out rn) in ((rn_result rn1, bdata (rn_rsp rn1)), rn_sv rn1))
    = answered out (rn_sv rn)"
  using assms
  by (auto simp: settle_result_def take_outcome_def malformed_def answered_def Let_def empty_buffer_def
      split: option.split outcome.split prod.split)

text \<open>A connection on which nothing is lost, to a server where the caller's thread is the one shown.\<close>

definition dispatched :: "'d driver \<Rightarrow> nat \<Rightarrow> 'd dispatcher \<Rightarrow> 'd dispatcher \<Rightarrow> 'd sv sender" where
  "dispatched drv depth libs rest api payload s = answered (dispatch drv depth libs rest api (buffer_of payload) s) s"

lemma ids_below: "list_all (\<lambda>c. case_id c < 1000) server_cases"
  by (simp add: server_cases_def
      cases_cuArray3DCreate_v2_def cases_cuCtxDisablePeerAccess_def cases_cuCtxPushCurrent_v2_def
      cases_cuDeviceGet_def cases_cuDeviceGetProperties_def cases_cuEventElapsedTime_def
      cases_cuFuncSetAttribute_def cases_cuGraphClone_def cases_cuGraphExecEventWaitNodeSetEvent_def
      cases_cuGraphLaunch_def cases_cuGraphicsMapResources_def cases_cuImportExternalSemaphore_def
      cases_cuLaunchGridAsync_def cases_cuMemAddressFree_def cases_cuMemGetAllocationGranularity_def
      cases_cuMemRelease_def cases_cuMemcpyDtoDAsync_v2_def cases_cuMemsetD2D16_v2_def
      cases_cuModuleGetFunction_def cases_cuMulticastBindMem_def cases_cuStreamAddCallback_def
      cases_cuStreamGetGreenCtx_def cases_cuSurfRefGetArray_def cases_cuTexRefGetFlags_def
      cases_cuTexRefSetFlags_def)

lemma not_internal: "c \<in> set server_cases \<Longrightarrow> dispatch_internal drv (case_id c) = None"
  using ids_below unfolding list_all_iff dispatch_internal_def
  by (fastforce simp: API_rgpu_param_layout_def API_rgpu_launch_def API_rgpu_hello_def API_rgpu_capture_info_def
      API_rgpu_graph_nodes_def API_rgpu_capture_mode_def API_rgpu_device_attrs_def kInternalBase_def)

lemma wait_received: "args_fit ps as \<Longrightarrow> wait_for drv plain sync (received_args ps as) = wait_for drv plain sync as"
  by (cases sync) (simp_all add: wait_for_def value_received fun_eq_iff)

lemma run_case_received:
  assumes "args_fit ps as" and "rooms_fit memory ps as" and "d_has drv name"
  defines "q \<equiv> buffer_of (bdata (marshal ps as))"
  shows "run_case drv plain memory (Case api name ps sync) q empty_buffer s
    = (case plain_call plain name (received_args ps as) s of ((r, outs), s1) \<Rightarrow>
        (case wait_for drv plain sync as r s1 of (r1, s2) \<Rightarrow>
           Answered (r1, q\<lparr> bread := length (bdata q) \<rparr>, put_results ps (received_args ps as) outs empty_buffer, s2)))"
  using request_read_back [OF assms(1)] request_admitted [OF assms(1,2)] assms(3)
  by (simp add: run_case_def wait_received [OF assms(1)] buffer_of_def q_def)

lemma has_caseD:
  assumes "has_case server_cases name api ps"
  obtains sync where "find (\<lambda>c. case_id c = api) server_cases = Some (Case api name ps sync)"
    and "Case api name ps sync \<in> set server_cases"
proof -
  obtain c where c: "find (\<lambda>c. case_id c = api) server_cases = Some c"
    using assms by (auto simp: has_case_def split: option.splits)
  then have "case_id c = api" "c \<in> set server_cases" by (auto simp: find_Some_iff)
  with c assms that show thesis by (cases c) (auto simp: has_case_def)
qed

section \<open>Hostile sizes\<close>

text \<open>The bytes the server has where it gives the driver a pointer: a variable of its own, room it made, or
  what came with the request.\<close>

definition provided :: "param \<Rightarrow> arg \<Rightarrow> nat option" where
  "provided p a = (case a of
       Bytes (Some bs) \<Rightarrow> Some (length bs)
     | Space True n \<Rightarrow> Some (unat n)
     | Place True \<Rightarrow> (case p of Out n \<Rightarrow> Some n | Out_struct n \<Rightarrow> Some n | _ \<Rightarrow> Some 0)
     | _ \<Rightarrow> None)"

definition exactly :: "nat \<Rightarrow> param \<Rightarrow> arg \<Rightarrow> bool" where
  "exactly k p a \<longleftrightarrow> (case provided p a of None \<Rightarrow> True | Some n \<Rightarrow> n = k)"

text \<open>As many as the prototype says the driver reads or writes there, with the values of this call. The length
  of an image is not in the call, and a string ends where it does.\<close>

definition in_bounds :: "arg list \<Rightarrow> passing \<Rightarrow> param \<Rightarrow> arg \<Rightarrow> bool" where
  "in_bounds as q p a \<longleftrightarrow> (case q of
       By t \<Rightarrow> True
     | To t \<Rightarrow> exactly (c_size t) p a
     | From t \<Rightarrow> t = C_char \<or> exactly (c_size t) p a
     | To_many m \<Rightarrow> (case extent m as of None \<Rightarrow> provided p a = None | Some n \<Rightarrow> exactly (unat n) p a)
     | From_many m \<Rightarrow> (case extent m as of None \<Rightarrow> True | Some n \<Rightarrow> exactly (unat n) p a)
     | To_counted i t \<Rightarrow> provided p a = None
     | In_out t \<Rightarrow> exactly (c_size t) p a)"

definition all_in_bounds :: "passing list \<Rightarrow> param list \<Rightarrow> arg list \<Rightarrow> bool" where
  "all_in_bounds qs ps as \<longleftrightarrow> list_all2 (\<lambda>(q, p) a. in_bounds as q p a) (zip qs ps) as"

lemma got_bytes: "get_bytes n b = (Some bs, b1) \<Longrightarrow> length bs = n"
  by (auto simp: get_bytes_def buf_take_cases split: if_splits)

lemma got_length: "get_sized b = (Some bs, b1) \<Longrightarrow> length bs < 2 ^ 64"
  using unsigned_less [where 'a = nat and 'b = 64]
  by (auto simp: get_sized_def dest: got_bytes split: option.splits prod.splits if_splits)

lemma read_block:
  assumes "read_param (Block m) b = (Some a, b1)"
  obtains bs where "a = Bytes None \<or> a = Bytes (Some bs) \<and> length bs < 2 ^ 64"
  using assms got_length by (auto simp: read_param_def read_flagged_def split: option.splits prod.splits if_splits)

lemma read_struct:
  assumes "read_param (Struct n) b = (Some a, b1)"
  obtains bs where "a = Bytes None \<or> a = Bytes (Some bs) \<and> length bs = n"
  using assms that by (auto simp: read_param_def read_flagged_def dest: got_bytes split: option.splits prod.splits if_splits)

lemma read_places:
  "read_param (Out n) b = (Some a, b1) \<Longrightarrow> \<exists>there. a = Place there"
  "read_param (Out_struct n) b = (Some a, b1) \<Longrightarrow> \<exists>there. a = Place there"
  "read_param (Room m) b = (Some a, b1) \<Longrightarrow> \<exists>there k. a = Space there k"
  by (auto simp: read_param_def split: option.splits prod.splits)

lemma admitted_in_bounds:
  assumes "carries q p" and "admit_arg memory as p a = Fits" and "read_param p b = (Some a, b1)"
  shows "in_bounds as q p a"
  using assms(1)
proof (cases rule: carries_cases)
  case (2 t)
  then show ?thesis using assms(3) read_places(1) by (fastforce simp: in_bounds_def exactly_def provided_def split: bool.split)
next
  case (3 t)
  then show ?thesis using assms(3) read_places(2) by (fastforce simp: in_bounds_def exactly_def provided_def split: bool.split)
next
  case (5 t)
  then show ?thesis using assms(3) by (auto simp: in_bounds_def exactly_def provided_def elim: read_struct)
next
  case (6 m)
  then obtain there k where "a = Space there k" using assms(3) read_places(3) by blast
  then show ?thesis using 6 assms(2)
    by (auto simp: in_bounds_def exactly_def provided_def admit_arg_def room_size_def split: option.splits bool.splits if_splits)
next
  case (7 m)
  then obtain bs where "a = Bytes None \<or> a = Bytes (Some bs) \<and> length bs < 2 ^ 64" using assms(3) by (auto elim: read_block)
  then show ?thesis using 7 assms(2)
    by (auto simp: in_bounds_def exactly_def provided_def admit_arg_def unsigned_of_nat take_bit_nat_eq_self split: option.splits if_splits)
qed (simp_all add: in_bounds_def)

lemma admit_in_bounds:
  "list_all2 carries qs ps \<Longrightarrow> read_params ps b = (Some xs, b1) \<Longrightarrow> admit memory as ps xs = Fits \<Longrightarrow>
   list_all2 (\<lambda>(q, p) a. in_bounds as q p a) (zip qs ps) xs"
proof (induction qs ps arbitrary: b xs rule: list_all2_induct)
  case (Cons q qs p ps)
  then show ?case
    by (auto dest: admitted_in_bounds split: option.splits prod.splits admission.splits)
qed simp

text \<open>C6. Whatever bytes a request for a generated case has, other than one of those that are not
  carried whole, the driver is called, if at all, with pointers to exactly as many bytes as the
  prototype of its entry point says it reads or writes there, of the server's variables, of the room it
  made and of what came with the request; of a module's image the length is not in the call, and
  is not looked at. Two drivers that agree on such arguments are not told apart, so no other call
  of the entry point is made.\<close>

theorem hostile_sizes_never_reach_the_driver:
  assumes "Case api name ps sync \<in> set server_cases" and "api \<notin> set misshapen" and "prototype api = Some (entry, qs)"
    and "\<And>as d. all_in_bounds qs ps as \<Longrightarrow> plain entry as d = plain' entry as d"
    and "\<And>as d. plain ''cuStreamSynchronize'' as d = plain' ''cuStreamSynchronize'' as d"
  shows "run_case drv plain memory (Case api name ps sync) req rsp s = run_case drv plain' memory (Case api name ps sync) req rsp s"
proof -
  have shape: "entry = name" "list_all2 carries qs ps" using case_has_shape [OF assms(1)] assms(2,3) by auto
  have w: "wait_for drv plain sync = wait_for drv plain' sync"
    by (cases sync) (simp_all add: wait_for_def plain_call_def assms(5) fun_eq_iff)
  have same: "plain_call plain name as s = plain_call plain' name as s"
    if "read_params ps req = (Some as, req1)" "admit memory as ps as = Fits" for as req1
    using assms(4) admit_in_bounds [OF shape(2) that] by (simp add: plain_call_def all_in_bounds_def shape(1))
  obtain got req1 where g: "read_params ps req = (got, req1)" by fastforce
  show ?thesis
  proof (cases got)
    case None
    then show ?thesis using g by (simp add: run_case_def)
  next
    case (Some as)
    then show ?thesis using g same [of as req1] by (cases "admit memory as ps as") (simp_all add: run_case_def w)
  qed
qed

lemma copy_prototype: "prototype 317 = Some (''cuMemcpyHtoD_v2'', [By C_devptr, From_many (Length 2), By C_size])"
  by (rule prototype_is) (simp add: prototypes_def prototypes_cuMemcpyDtoDAsync_v2_def)

text \<open>A driver that would fail on a copy of more bytes than it is given is not told apart from one
  that never fails, whatever the request.\<close>

theorem hostile_sizes_never_reach_the_driver_witness:
  "\<forall>req rsp s. run_case \<lparr> d_step = \<lambda>c d. ((CUDA_SUCCESS, []), d), d_has = \<lambda>name. True \<rparr>
      (\<lambda>name as d. ((if name = ''cuMemcpyHtoD_v2'' \<and>
           \<not> all_in_bounds [By C_devptr, From_many (Length 2), By C_size] [In 8, Block (Length 2), In 8] as
         then CUDA_ERROR_UNKNOWN else CUDA_SUCCESS, []), d + 1 :: nat))
      (\<lambda>n. True) (Case 317 ''cuMemcpyHtoD_v2'' [In 8, Block (Length 2), In 8] None) req rsp s
   = run_case \<lparr> d_step = \<lambda>c d. ((CUDA_SUCCESS, []), d), d_has = \<lambda>name. True \<rparr>
      (\<lambda>name as d. ((CUDA_SUCCESS, []), d + 1))
      (\<lambda>n. True) (Case 317 ''cuMemcpyHtoD_v2'' [In 8, Block (Length 2), In 8] None) req rsp s"
  by (intro allI hostile_sizes_never_reach_the_driver [OF _ _ copy_prototype])
    (simp_all add: server_cases_def cases_cuMemcpyDtoDAsync_v2_def misshapen_def)

text \<open>The bus id: a request for a hundred bytes of it has the driver write them to a variable of one.\<close>

lemma bus_id_overruns:
  "prototype 69 = Some (''cuDeviceGetPCIBusId'', [To_many (Signed 1), By C_int, By C_device])"
  "Case 69 ''cuDeviceGetPCIBusId'' [Out 1, In 4, In 4] None \<in> set server_cases"
  "\<not> all_in_bounds [To_many (Signed 1), By C_int, By C_device] [Out 1, In 4, In 4] [Place True, Val 100, Val 0]"
  "d_has drv ''cuDeviceGetPCIBusId'' \<Longrightarrow> plain_call plain ''cuDeviceGetPCIBusId'' [Place True, Val 100, Val 0] s = ((r, outs), s1) \<Longrightarrow>
   \<exists>req req1. run_case drv plain memory (Case 69 ''cuDeviceGetPCIBusId'' [Out 1, In 4, In 4] None) req empty_buffer s
     = Answered (r, req1, put_results [Out 1, In 4, In 4] [Place True, Val 100, Val 0] outs empty_buffer, s1)"
proof -
  let ?ps = "[Out 1, In 4, In 4]" and ?as = "[Place True, Val 100, Val 0]"
  show "prototype 69 = Some (''cuDeviceGetPCIBusId'', [To_many (Signed 1), By C_int, By C_device])"
    by (rule prototype_is) (simp add: prototypes_def prototypes_cuDeviceGet_def)
  show "Case 69 ''cuDeviceGetPCIBusId'' ?ps None \<in> set server_cases" by (simp add: server_cases_def cases_cuDeviceGet_def)
  show "\<not> all_in_bounds [To_many (Signed 1), By C_int, By C_device] ?ps ?as"
    by (simp add: all_in_bounds_def in_bounds_def exactly_def provided_def extent_def value_at_def int_to_size_def)
  assume has: "d_has drv ''cuDeviceGetPCIBusId''" and call: "plain_call plain ''cuDeviceGetPCIBusId'' ?as s = ((r, outs), s1)"
  have fit: "args_fit ?ps ?as" by (simp add: args_fit_def fits_def)
  have "rooms_fit memory ?ps ?as" by (simp add: rooms_fit_def has_room_def)
  moreover have "received_args ?ps ?as = ?as" by (simp add: received_args_def received_simps)
  ultimately show "\<exists>req req1. run_case drv plain memory (Case 69 ''cuDeviceGetPCIBusId'' ?ps None) req empty_buffer s
      = Answered (r, req1, put_results ?ps ?as outs empty_buffer, s1)"
    using run_case_received [OF fit _ has, of memory plain 69 None s] call by (auto simp: wait_for_def)
qed

section \<open>A forwarded call is the driver's\<close>

text \<open>The driver called as the prototype has it, with the caller's arguments, and waited for where its outputs are
  not there when it returns: its result, and where that is success what the caller finds written through
  the pointers it gave.\<close>

definition driver_call :: "'d driver \<Rightarrow> 'd plain \<Rightarrow> string \<Rightarrow> passing list \<Rightarrow> arg list \<Rightarrow> 'd sv
    \<Rightarrow> (CUresult \<times> (nat \<times> byte list) list) \<times> 'd sv" where
  "driver_call drv plain name qs as s =
     (case plain_call plain name (map2 (handed as) qs as) s of ((r, outs), s1) \<Rightarrow>
        (case wait_for drv plain (waits_for name) as r s1 of (r1, s2) \<Rightarrow>
           ((r1, if r1 = CUDA_SUCCESS then caller_finds 0 as qs as outs else []), s2)))"

text \<open>A call that is not waited for, once the server has run it.\<close>

definition dispatched_later :: "'d driver \<Rightarrow> nat \<Rightarrow> 'd dispatcher \<Rightarrow> 'd dispatcher \<Rightarrow> 'd sv poster" where
  "dispatched_later drv depth libs rest api payload s = (CUDA_SUCCESS, snd (dispatched drv depth libs rest api payload s))"

text \<open>What the caller is told, and what is marked.\<close>

primrec caller_told :: "stub \<Rightarrow> CUresult \<times> (nat \<times> byte list) list \<Rightarrow> CUresult \<times> (nat \<times> byte list) list" where
  "caller_told (Unimplemented name) rw = rw"
| "caller_told (Calls name api b ps a) rw = rw"
| "caller_told (Posts name api b ps) rw = (CUDA_SUCCESS, [])"

primrec marks_left :: "stub \<Rightarrow> CUresult \<Rightarrow> arg list \<Rightarrow> pending \<Rightarrow> pending" where
  "marks_left (Unimplemented name) r as p = p"
| "marks_left (Calls name api b ps a) r as p =
     (if r = CUDA_SUCCESS then mark_after a as (mark_before b as p) else mark_before b as p)"
| "marks_left (Posts name api b ps) r as p = mark_before b as p"

text \<open>The name, id and parameters of a call that is forwarded.\<close>

primrec call_of :: "stub \<Rightarrow> (string \<times> u32 \<times> param list) option" where
  "call_of (Unimplemented name) = None"
| "call_of (Calls name api b ps a) = Some (name, api, ps)"
| "call_of (Posts name api b ps) = Some (name, api, ps)"

lemma dispatched_is_direct:
  assumes "has_case server_cases name api ps" and "api \<notin> set misshapen" and "prototype api = Some (entry, qs)"
    and "list_all2 (proper as) qs as" and "list_all2 (roomy memory as) qs as"
    and "d_has drv entry" and "dispatch_generated drv depth api = None"
    and "libs api (buffer_of (bdata (marshal ps as))) empty_buffer s = None"
  shows "\<exists>payload r ws s1. dispatched drv depth libs (generated_rest drv plain memory) api (bdata (marshal ps as)) s = ((r, payload), s1)
    \<and> driver_call drv plain entry qs as s = ((r, ws), s1)
    \<and> (r = CUDA_SUCCESS \<longrightarrow> take_outs 0 ps as (buffer_of payload) = (ws, True)) \<and> (r \<noteq> CUDA_SUCCESS \<longrightarrow> ws = [])"
proof -
  obtain sync where c: "find (\<lambda>c. case_id c = api) server_cases = Some (Case api name ps sync)"
    "Case api name ps sync \<in> set server_cases" using assms(1) by (rule has_caseD)
  have shape: "entry = name" "list_all2 carries qs ps" "sync = waits_for name"
    using case_has_shape [OF c(2)] assms(2,3) by auto
  have fit: "args_fit ps as" and same: "received_args ps as = map2 (handed as) qs as"
    using all_carried [OF shape(2) assms(4)] by (simp_all add: args_fit_def received_args_def)
  have rooms: "rooms_fit memory ps as" using all_roomy [OF shape(2) assms(5)] by (simp add: rooms_fit_def)
  have has: "d_has drv name" using assms(6) shape(1) by simp
  let ?q = "buffer_of (bdata (marshal ps as))"
  have "dispatch drv depth libs (generated_rest drv plain memory) api ?q s
    = Some (run_case drv plain memory (Case api name ps sync) ?q empty_buffer s)"
    using not_internal [OF c(2), of drv] assms(7,8) c(1) by (simp add: dispatch_def generated_rest_def)
  moreover note run_case_received [OF fit rooms has, where plain = plain and api = api and sync = sync and s = s]
  moreover obtain r outs s1 where p: "plain_call plain name (map2 (handed as) qs as) s = ((r, outs), s1)" by (metis surj_pair)
  moreover obtain r1 s2 where w: "wait_for drv plain (waits_for name) as r s1 = (r1, s2)" by (metis surj_pair)
  ultimately have d: "dispatched drv depth libs (generated_rest drv plain memory) api (bdata (marshal ps as)) s
      = ((r1, bdata (put_results ps (received_args ps as) outs empty_buffer)), s2)"
    by (simp add: dispatched_def answered_def buffer_of_def same shape(3))
  have "take_outs 0 ps as (buffer_of (bdata (put_results ps (received_args ps as) outs empty_buffer))) = (caller_finds 0 as qs as outs, True)"
    using reply_read_back [OF fit] all_found [OF shape(2)] by simp
  moreover have "driver_call drv plain entry qs as s = ((r1, if r1 = CUDA_SUCCESS then caller_finds 0 as qs as outs else []), s2)"
    using p w by (simp add: driver_call_def shape(1))
  ultimately show ?thesis using d by auto
qed

text \<open>C1. A call that a generated stub forwards, waited for or not, of an entry point that the server
  neither wraps with bookkeeping of its own nor leaves to a library, that the driver has, and that is
  not one of those the generated code does not carry whole, is the call of the prototype made on
  the server: the driver is called once with the arguments the caller gave, as C has them; the caller of
  a call that is waited for gets its result and, where that is success, what the driver wrote through
  each pointer the caller gave, of as many bytes as the prototype says; that of a call that is not
  gets success; and the call's marks are left on the record of pending work.\<close>

theorem forwarded_call_is_the_drivers_call:
  assumes "st \<in> set client_stubs" and "call_of st = Some (name, api, ps)" and "prototype api = Some (entry, qs)"
    and "api \<notin> set misshapen" and "list_all2 (proper as) qs as" and "list_all2 (roomy memory as) qs as"
    and "d_has drv entry" and "dispatch_generated drv depth api = None"
    and "libs api (buffer_of (bdata (marshal ps as))) empty_buffer s = None"
  shows "name = entry \<and> run_stub (dispatched drv depth libs (generated_rest drv plain memory))
      (dispatched_later drv depth libs (generated_rest drv plain memory)) st as (s, p)
    = (case driver_call drv plain entry qs as s of (rw, s1) \<Rightarrow> (caller_told st rw, (s1, marks_left st (fst rw) as p)))"
proof -
  have "served server_cases st" using stubs_have_cases assms(1) by (auto simp: list_all_iff)
  then have case_: "has_case server_cases name api ps" using assms(2) by (cases st) auto
  then obtain sync where c: "Case api name ps sync \<in> set server_cases" by (rule has_caseD)
  have "name = entry" using case_has_shape [OF c] assms(3) by auto
  moreover obtain payload r ws s1 where d: "dispatched drv depth libs (generated_rest drv plain memory) api (bdata (marshal ps as)) s = ((r, payload), s1)"
    "driver_call drv plain entry qs as s = ((r, ws), s1)" "r = CUDA_SUCCESS \<longrightarrow> take_outs 0 ps as (buffer_of payload) = (ws, True)"
    "r \<noteq> CUDA_SUCCESS \<longrightarrow> ws = []"
    using dispatched_is_direct [where as = as and plain = plain and libs = libs and s = s and ps = ps, OF case_ assms(4,3,5-9)] by blast
  ultimately show ?thesis using assms(2) by (cases st) (auto simp: run_stub_def dispatched_later_def)
qed

text \<open>A driver that knows one device's name, eight bytes of it asked for.\<close>

definition demo_plain :: "unit plain" where
  "demo_plain name as d = ((CUDA_SUCCESS, [[72, 49, 48, 48]]), d)"

definition demo_all :: "unit driver" where
  "demo_all = \<lparr> d_step = (\<lambda>c d. ((CUDA_SUCCESS, []), d)), d_has = (\<lambda>name. True) \<rparr>"

definition demo_post :: "unit sv poster" where
  "demo_post api payload s = (CUDA_SUCCESS, s)"

lemma name_prototype: "prototype 66 = Some (''cuDeviceGetName'', [To_many (Signed 1), By C_int, By C_device])"
  by (rule prototype_is) (simp add: prototypes_def prototypes_cuDeviceGet_def)

theorem forwarded_call_is_the_drivers_call_witness:
  "\<forall>s. fst (run_stub (dispatched demo_all 8 nothing_more (generated_rest demo_all demo_plain (\<lambda>n. True)))
      (dispatched_later demo_all 8 nothing_more (generated_rest demo_all demo_plain (\<lambda>n. True)))
      (Calls ''cuDeviceGetName'' 66 No_work [Room (Signed 1), In 4, In 4] No_wait)
      [Place True, Val 8, Val 0] (s, nothing_pending))
    = (CUDA_SUCCESS, [(0, [72, 49, 48, 48, 0, 0, 0, 0])])"
proof
  fix s :: "unit sv"
  let ?ps = "[Room (Signed 1), In 4, In 4]" and ?as = "[Place True, Val 8, Val 0]"
  let ?st = "Calls ''cuDeviceGetName'' 66 No_work ?ps No_wait" and ?qs = "[To_many (Signed 1), By C_int, By C_device]"
  have st: "?st \<in> set client_stubs" by (simp add: client_stubs_def stubs_cuDeviceGet_def)
  have size: "extent (Signed 1) ?as = Some 8" by (simp add: extent_def value_at_def int_to_size_def)
  have "list_all2 (proper ?as) ?qs ?as" by (simp add: proper_def)
  moreover have "list_all2 (roomy (\<lambda>n. True) ?as) ?qs ?as" by (simp add: roomy_def size [unfolded One_nat_def])
  moreover have "d_has demo_all ''cuDeviceGetName''" by (simp add: demo_all_def)
  moreover have "dispatch_generated demo_all 8 66 = None" by (simp add: dispatch_generated_def generated_cases_def)
  moreover have "nothing_more 66 (buffer_of (bdata (marshal ?ps ?as))) empty_buffer s = None" by (simp add: nothing_more_def)
  ultimately have e: "run_stub (dispatched demo_all 8 nothing_more (generated_rest demo_all demo_plain (\<lambda>n. True)))
      (dispatched_later demo_all 8 nothing_more (generated_rest demo_all demo_plain (\<lambda>n. True))) ?st ?as (s, nothing_pending)
    = (case driver_call demo_all demo_plain ''cuDeviceGetName'' ?qs ?as s of (rw, s1) \<Rightarrow>
        (caller_told ?st rw, (s1, marks_left ?st (fst rw) ?as nothing_pending)))"
    by (intro forwarded_call_is_the_drivers_call [OF st _ name_prototype, THEN conjunct2]) (simp_all add: misshapen_def)
  obtain rw s1 where d: "driver_call demo_all demo_plain ''cuDeviceGetName'' ?qs ?as s = (rw, s1)" by (metis surj_pair)
  have "written 8 [72, 49, 48, 48] = [72, 49, 48, 48, 0, 0, 0, 0]" by (simp add: written_def numeral_eq_Suc)
  then have "fst (driver_call demo_all demo_plain ''cuDeviceGetName'' ?qs ?as s) = (CUDA_SUCCESS, [(0, [72, 49, 48, 48, 0, 0, 0, 0])])"
    by (simp add: driver_call_def plain_call_def demo_plain_def wait_for_def waits_for_def handed_def room_size_def size [unfolded One_nat_def])
  then show "fst (run_stub (dispatched demo_all 8 nothing_more (generated_rest demo_all demo_plain (\<lambda>n. True)))
      (dispatched_later demo_all 8 nothing_more (generated_rest demo_all demo_plain (\<lambda>n. True)))
      ?st ?as (s, nothing_pending)) = (CUDA_SUCCESS, [(0, [72, 49, 48, 48, 0, 0, 0, 0])])" unfolding e d by simp
qed

end
