(* ===== verification/Shim.thy ===== *)
theory Shim
  imports Stubs
begin

text \<open>
  The client's hand-written driver entry points (\<^verbatim>\<open>client/shim.cpp\<close>): kernel launches and the
  parameter layouts they need, the allocations and primary contexts the client can answer for itself,
  host memory, stream capture, and the synchronize that waits only where there is something to wait
  for. \<open>send\<close> and \<open>post\<close> are \<open>call\<close> and \<open>call_async\<close>; \<open>'c\<close> is the state of the connection. The
  locks each entry point takes make its accesses to the shared tables single steps; here an entry
  point runs as one step.
\<close>

section \<open>State\<close>

record primary =
  pr_retained :: nat
  pr_flags :: u32
  pr_known :: bool

definition new_primary :: primary where
  "new_primary = \<lparr> pr_retained = 0, pr_flags = 0, pr_known = False \<rparr>"

text \<open>The allocations are a \<open>std::map\<close> from base to size, kept in the order of its keys.\<close>

record shim =
  sh_layouts :: "u64 \<rightharpoonup> (u64 \<times> u64) list"
  sh_host :: "u64 set"
  sh_allocs :: "(u64 \<times> u64) list"
  sh_primary :: "u32 \<rightharpoonup> primary"
  sh_version :: u32
  sh_pending :: pending

definition new_shim :: shim where
  "new_shim = \<lparr> sh_layouts = Map.empty, sh_host = {}, sh_allocs = [], sh_primary = Map.empty,
     sh_version = 0, sh_pending = nothing_pending \<rparr>"

type_synonym ('c, 'r) entry = "shim \<times> 'c \<Rightarrow> 'r \<times> shim \<times> 'c"

section \<open>Kernel arguments\<close>

definition get_slot :: "buffer \<Rightarrow> (u64 \<times> u64) option \<times> buffer" where
  "get_slot b = (case buf_get 8 b of
       (None, b1) \<Rightarrow> (None, b1)
     | (Some off, b1) \<Rightarrow> (case buf_get 8 b1 of (None, b2) \<Rightarrow> (None, b2) | (Some n, b2) \<Rightarrow> (Some (off, n), b2)))"

definition read_layout :: "buffer \<Rightarrow> (u64 \<times> u64) list option" where
  "read_layout b = (case buf_get 4 b of
       (None, b1) \<Rightarrow> None
     | (Some n, b1) \<Rightarrow> fst (get_all get_slot (unat (n :: u32)) b1))"

definition fetch_layout :: "'c sender \<Rightarrow> u64 \<Rightarrow> ('c, (u64 \<times> u64) list option) entry" where
  "fetch_layout send f st = (case st of (sh, c) \<Rightarrow>
     (case sh_layouts sh f of
        Some slots \<Rightarrow> (Some slots, (sh, c))
      | None \<Rightarrow> (case send API_rgpu_param_layout (bdata (buf_put 8 f empty_buffer)) c of ((r, payload), c1) \<Rightarrow>
          (if r \<noteq> CUDA_SUCCESS then (None, (sh, c1))
           else case read_layout (buffer_of payload) of
               None \<Rightarrow> (None, (sh, c1))
             | Some slots \<Rightarrow> (Some slots, (sh\<lparr> sh_layouts := (sh_layouts sh)(f \<mapsto> slots) \<rparr>, c1))))))"

definition overwrite :: "nat \<Rightarrow> byte list \<Rightarrow> byte list \<Rightarrow> byte list" where
  "overwrite off bs blob = take off blob @ bs @ drop (off + length bs) blob"

text \<open>A pointer per slot, to at least as many bytes as the slot has; a null one fails. The array has
  an entry for every parameter of the kernel.\<close>

fun place_args :: "(u64 \<times> u64) list \<Rightarrow> byte list option list \<Rightarrow> byte list \<Rightarrow> byte list option" where
  "place_args ((off, n) # slots) (Some bs # ps) blob = place_args slots ps (overwrite (unat off) (take (unat n) bs) blob)"
| "place_args (s # slots) _ blob = None"
| "place_args [] ps blob = Some blob"

definition blob_size :: "(u64 \<times> u64) list \<Rightarrow> u64" where
  "blob_size slots = fold (\<lambda>s total. max total (fst s + snd s)) slots 0"

definition pack_args :: "'c sender \<Rightarrow> u64 \<Rightarrow> byte list option list \<Rightarrow> ('c, byte list option) entry" where
  "pack_args send f ps st = (case fetch_layout send f st of
       (None, st1) \<Rightarrow> (None, st1)
     | (Some slots, st1) \<Rightarrow> (place_args slots ps (replicate (unat (blob_size slots)) 0), st1))"

text \<open>The entries of \<open>extra\<close> before its end: a tag with the pointer that follows it.\<close>

datatype extra = Buffer_pointer "byte list option" | Buffer_size "u64 option" | Unknown_tag

fun extract_extra :: "extra list \<Rightarrow> byte list option \<Rightarrow> u64 option \<Rightarrow> byte list option" where
  "extract_extra [] (Some bs) (Some n) = Some (take (unat n) bs)"
| "extract_extra [] _ _ = None"
| "extract_extra (Buffer_pointer p # es) buf sz = extract_extra es p sz"
| "extract_extra (Buffer_size n # es) buf sz = extract_extra es buf n"
| "extract_extra (Unknown_tag # es) buf sz = None"

definition launch_request :: "u64 \<Rightarrow> u32 list \<Rightarrow> u64 \<Rightarrow> byte list \<Rightarrow> buffer" where
  "launch_request f dims stream args =
     put_sized args (buf_put 8 stream (put_all (buf_put 4) dims (buf_put 8 f empty_buffer)))"

text \<open>\<open>dims\<close> are the grid, the block and the shared memory. Once its arguments are there, a launch is
  work on its stream and goes without a reply.\<close>

definition launch_common :: "'c sender \<Rightarrow> 'c poster \<Rightarrow> u64 \<Rightarrow> u32 list \<Rightarrow> u64 \<Rightarrow> byte list option list option
    \<Rightarrow> extra list option \<Rightarrow> ('c, CUresult) entry" where
  "launch_common send post f dims stream kernel_params extra st =
     (case (case extra of
              Some es \<Rightarrow> (extract_extra es None None, st)
            | None \<Rightarrow> (case kernel_params of
                Some ps \<Rightarrow> pack_args send f ps st
              | None \<Rightarrow> (Some [], st))) of
        (None, st1) \<Rightarrow> (CUDA_ERROR_INVALID_VALUE, st1)
      | (Some args, (sh, c)) \<Rightarrow>
          (case post API_rgpu_launch (bdata (launch_request f dims stream args)) c of
             (r, c1) \<Rightarrow> (r, (sh\<lparr> sh_pending := work_on stream (sh_pending sh) \<rparr>, c1))))"

definition cuLaunchKernel :: "'c sender \<Rightarrow> 'c poster \<Rightarrow> u64 \<Rightarrow> u32 list \<Rightarrow> u64 \<Rightarrow> byte list option list option
    \<Rightarrow> extra list option \<Rightarrow> ('c, CUresult) entry" where
  "cuLaunchKernel = launch_common"

section \<open>Host memory\<close>

text \<open>\<open>mem\<close> is what \<open>posix_memalign\<close> gave, or \<open>None\<close> where it failed.\<close>

definition host_alloc :: "bool \<Rightarrow> u64 option \<Rightarrow> shim \<Rightarrow> (CUresult \<times> u64 option) \<times> shim" where
  "host_alloc there mem sh =
     (if \<not> there then ((CUDA_ERROR_INVALID_VALUE, None), sh)
      else case mem of
          None \<Rightarrow> ((CUDA_ERROR_OUT_OF_MEMORY, None), sh)
        | Some p \<Rightarrow> ((CUDA_SUCCESS, Some p), sh\<lparr> sh_host := insert p (sh_host sh) \<rparr>))"

definition CU_MEMHOSTALLOC_DEVICEMAP :: u32 where "CU_MEMHOSTALLOC_DEVICEMAP = 2"
definition CU_MEMHOSTREGISTER_DEVICEMAP :: u32 where "CU_MEMHOSTREGISTER_DEVICEMAP = 2"

definition cuMemAllocHost_v2 :: "bool \<Rightarrow> u64 option \<Rightarrow> shim \<Rightarrow> (CUresult \<times> u64 option) \<times> shim" where
  "cuMemAllocHost_v2 = host_alloc"

definition cuMemHostAlloc :: "bool \<Rightarrow> u64 option \<Rightarrow> u32 \<Rightarrow> shim \<Rightarrow> (CUresult \<times> u64 option) \<times> shim" where
  "cuMemHostAlloc there mem flags sh =
     (if flags AND CU_MEMHOSTALLOC_DEVICEMAP \<noteq> 0 then ((CUDA_ERROR_NOT_SUPPORTED, None), sh)
      else host_alloc there mem sh)"

text \<open>The result, and what is given back to \<open>free\<close>.\<close>

definition cuMemFreeHost :: "u64 \<Rightarrow> shim \<Rightarrow> (CUresult \<times> u64 option) \<times> shim" where
  "cuMemFreeHost p sh =
     (if p = 0 then ((CUDA_SUCCESS, None), sh)
      else if p \<notin> sh_host sh then ((CUDA_ERROR_INVALID_VALUE, None), sh)
      else ((CUDA_SUCCESS, Some p), sh\<lparr> sh_host := sh_host sh - {p} \<rparr>))"

definition cuMemHostRegister_v2 :: "u32 \<Rightarrow> CUresult" where
  "cuMemHostRegister_v2 flags =
     (if flags AND CU_MEMHOSTREGISTER_DEVICEMAP \<noteq> 0 then CUDA_ERROR_NOT_SUPPORTED else CUDA_SUCCESS)"

definition cuMemHostUnregister :: CUresult where
  "cuMemHostUnregister = CUDA_SUCCESS"

section \<open>Entry points by name\<close>

text \<open>The table is generated from the stubs; \<open>entries\<close> has its names and addresses. The result, what is
  written through \<open>pfn\<close>, and the status. A null name that is not found cannot be logged and is
  outside the model.\<close>

definition find_entry :: "(string \<times> u64) list \<Rightarrow> string \<Rightarrow> u64" where
  "find_entry entries symbol = (case map_of entries symbol of None \<Rightarrow> 0 | Some fn \<Rightarrow> fn)"

definition CUDA_ERROR_NOT_FOUND :: CUresult where "CUDA_ERROR_NOT_FOUND = 500"

definition cuGetProcAddress_v2 :: "(string \<times> u64) list \<Rightarrow> string \<Rightarrow> bool \<Rightarrow> CUresult \<times> (u64 \<times> u32) option" where
  "cuGetProcAddress_v2 entries symbol there =
     (if \<not> there then (CUDA_ERROR_INVALID_VALUE, None)
      else let fn = find_entry entries symbol in
        (if fn = 0 then CUDA_ERROR_NOT_FOUND else CUDA_SUCCESS, Some (fn, if fn = 0 then 1 else 0)))"

text \<open>The older form has no status to write.\<close>

definition cuGetProcAddress :: "(string \<times> u64) list \<Rightarrow> string \<Rightarrow> bool \<Rightarrow> CUresult \<times> u64 option" where
  "cuGetProcAddress entries symbol there =
     (case cuGetProcAddress_v2 entries symbol there of (r, out) \<Rightarrow> (r, map_option fst out))"

section \<open>Device attributes\<close>

definition get_attr :: "buffer \<Rightarrow> (bool \<times> u32) option \<times> buffer" where
  "get_attr b = (case buf_get 1 b of
       (None, b1) \<Rightarrow> (None, b1)
     | (Some ok, b1) \<Rightarrow> (case buf_get 4 b1 of
         (None, b2) \<Rightarrow> (None, b2)
       | (Some v, b2) \<Rightarrow> (Some ((ok :: byte) \<noteq> 0, v), b2)))"

definition attrs_request :: "u32 \<Rightarrow> u32 list \<Rightarrow> buffer" where
  "attrs_request dev attrs =
     put_all (buf_put 4) attrs (buf_put 4 (of_nat (length attrs) :: u32) (buf_put 4 dev empty_buffer))"

text \<open>The values of the attributes and which were answered, or \<open>None\<close> where the reply fails.\<close>

definition device_attributes :: "'c sender \<Rightarrow> u32 \<Rightarrow> u32 list \<Rightarrow> 'c \<Rightarrow> (bool \<times> u32) list option \<times> 'c" where
  "device_attributes send dev attrs c =
     (case send API_rgpu_device_attrs (bdata (attrs_request dev attrs)) c of ((r, payload), c1) \<Rightarrow>
        (if r \<noteq> CUDA_SUCCESS then (None, c1)
         else (fst (get_all get_attr (length attrs) (buffer_of payload)), c1)))"

section \<open>Device allocations\<close>

fun put_sorted :: "u64 \<Rightarrow> u64 \<Rightarrow> (u64 \<times> u64) list \<Rightarrow> (u64 \<times> u64) list" where
  "put_sorted k v [] = [(k, v)]"
| "put_sorted k v ((k', v') # m) =
     (if k < k' then (k, v) # (k', v') # m else if k = k' then (k, v) # m else (k', v') # put_sorted k v m)"

text \<open>The entry before \<open>upper_bound\<close> is the last whose base is not above the pointer.\<close>

definition is_ours :: "u64 \<Rightarrow> (u64 \<times> u64) list \<Rightarrow> bool" where
  "is_ours p m = (let below = filter (\<lambda>e. fst e \<le> p) m in
     if below = [] then False else p \<ge> fst (last below) \<and> p < fst (last below) + snd (last below))"

definition API_cuMemAlloc_v2 :: u32 where "API_cuMemAlloc_v2 = 254"
definition API_cuMemFree_v2 :: u32 where "API_cuMemFree_v2 = 260"
definition API_cuPointerGetAttribute :: u32 where "API_cuPointerGetAttribute = 367"

definition cuMemAlloc_v2 :: "'c sender \<Rightarrow> bool \<Rightarrow> u64 \<Rightarrow> ('c, CUresult \<times> u64 option) entry" where
  "cuMemAlloc_v2 send there n st = (case st of (sh, c) \<Rightarrow>
     (if \<not> there then ((CUDA_ERROR_INVALID_VALUE, None), (sh, c))
      else case send API_cuMemAlloc_v2 (bdata (buf_put 8 n (put_flag True empty_buffer))) c of ((r, payload), c1) \<Rightarrow>
        (if r \<noteq> CUDA_SUCCESS then ((r, None), (sh, c1))
         else case fst (buf_get 8 (buffer_of payload)) of
             None \<Rightarrow> ((CUDA_ERROR_UNKNOWN, None), (sh, c1))
           | Some p \<Rightarrow> ((r, Some p),
               (if n \<noteq> 0 then sh\<lparr> sh_allocs := put_sorted p n (sh_allocs sh) \<rparr> else sh, c1)))))"

definition cuMemFree_v2 :: "'c sender \<Rightarrow> u64 \<Rightarrow> ('c, CUresult) entry" where
  "cuMemFree_v2 send p st = (case st of (sh, c) \<Rightarrow>
     (case send API_cuMemFree_v2 (bdata (buf_put 8 p empty_buffer)) c of ((r, payload), c1) \<Rightarrow>
        (r, (sh\<lparr> sh_allocs := AList.delete p (sh_allocs sh) \<rparr>, c1))))"

definition CU_POINTER_ATTRIBUTE_DEVICE_POINTER :: u32 where "CU_POINTER_ATTRIBUTE_DEVICE_POINTER = 3"

text \<open>The result and the bytes written to \<open>data\<close>.\<close>

definition cuPointerGetAttribute :: "'c sender \<Rightarrow> bool \<Rightarrow> u32 \<Rightarrow> u64 \<Rightarrow> ('c, CUresult \<times> byte list) entry" where
  "cuPointerGetAttribute send there attribute ptr st = (case st of (sh, c) \<Rightarrow>
     (if \<not> there then ((CUDA_ERROR_INVALID_VALUE, []), (sh, c))
      else if attribute = CU_POINTER_ATTRIBUTE_DEVICE_POINTER \<and> is_ours ptr (sh_allocs sh)
      then ((CUDA_SUCCESS, le_enc 8 ptr), (sh, c))
      else let n = pointer_attr_size attribute in
        (if n = 0 then ((CUDA_ERROR_INVALID_VALUE, []), (sh, c))
         else case send API_cuPointerGetAttribute
                 (bdata (buf_put 8 ptr (buf_put 4 attribute (buf_put 8 n (put_flag True empty_buffer))))) c of
             ((r, payload), c1) \<Rightarrow>
               (if r \<noteq> CUDA_SUCCESS then ((r, []), (sh, c1))
                else case fst (get_sized (buffer_of payload)) of
                    None \<Rightarrow> ((CUDA_ERROR_UNKNOWN, []), (sh, c1))
                  | Some bs \<Rightarrow> ((r, take (unat n) bs), (sh, c1))))))"

section \<open>Stream capture\<close>

text \<open>What a capture query gives: status, id, graph, and the count and, if they were asked for, the
  bytes of the dependencies, which the client keeps for the caller.\<close>

record capture_info =
  ci_status :: u32
  ci_id :: u64
  ci_graph :: u64
  ci_count :: u64
  ci_deps :: "byte list option"

definition read_capture_info :: "bool \<Rightarrow> buffer \<Rightarrow> capture_info option" where
  "read_capture_info want b = (case buf_get 4 b of (None, b1) \<Rightarrow> None | (Some status, b1) \<Rightarrow>
     (case get_all (buf_get 8) 3 b1 of (None, b2) \<Rightarrow> None | (Some vs, b2) \<Rightarrow>
       (let info = \<lparr> ci_status = status, ci_id = vs ! 0, ci_graph = vs ! 1, ci_count = vs ! 2, ci_deps = None \<rparr>
        in if want then map_option (\<lambda>bs. info\<lparr> ci_deps := Some bs \<rparr>) (fst (get_sized b2)) else Some info)))"

definition cuStreamGetCaptureInfo_v2 :: "'c sender \<Rightarrow> u64 \<Rightarrow> bool \<Rightarrow> 'c \<Rightarrow> (CUresult \<times> capture_info option) \<times> 'c"
  where
  "cuStreamGetCaptureInfo_v2 send stream want_deps c =
     (case send API_rgpu_capture_info (bdata (put_flag want_deps (buf_put 8 stream empty_buffer))) c of ((r, payload), c1) \<Rightarrow>
        (if r \<noteq> CUDA_SUCCESS then ((r, None), c1)
         else case read_capture_info want_deps (buffer_of payload) of
             None \<Rightarrow> ((CUDA_ERROR_UNKNOWN, None), c1)
           | Some info \<Rightarrow> ((CUDA_SUCCESS, Some info), c1)))"

text \<open>The nodes are asked for with room for so many of them; the bytes written through \<open>nodes\<close>, and
  the count.\<close>

definition cuGraphGetNodes :: "'c sender \<Rightarrow> u64 \<Rightarrow> bool \<Rightarrow> u64 option \<Rightarrow> 'c
    \<Rightarrow> (CUresult \<times> byte list \<times> u64 option) \<times> 'c" where
  "cuGraphGetNodes send graph want_nodes num c =
     (if want_nodes \<and> num = None then ((CUDA_ERROR_INVALID_VALUE, [], None), c)
      else let room = (if want_nodes then the num else 0) in
       case send API_rgpu_graph_nodes
           (bdata (buf_put 8 room (put_flag want_nodes (buf_put 8 graph empty_buffer)))) c of
         ((r, payload), c1) \<Rightarrow>
        (if r \<noteq> CUDA_SUCCESS then ((r, [], None), c1)
         else case buf_get 8 (buffer_of payload) of
             (None, b1) \<Rightarrow> ((CUDA_ERROR_UNKNOWN, [], None), c1)
           | (Some n, b1) \<Rightarrow>
               (if \<not> want_nodes then ((CUDA_SUCCESS, [], if num = None then None else Some n), c1)
                else case fst (get_sized b1) of
                    None \<Rightarrow> ((CUDA_ERROR_UNKNOWN, [], None), c1)
                  | Some bs \<Rightarrow> ((CUDA_SUCCESS, take (unat (room * 8)) bs, Some n), c1))))"

definition cuThreadExchangeStreamCaptureMode :: "'c sender \<Rightarrow> u32 option \<Rightarrow> 'c \<Rightarrow> (CUresult \<times> u32 option) \<times> 'c" where
  "cuThreadExchangeStreamCaptureMode send mode c = (case mode of
       None \<Rightarrow> ((CUDA_ERROR_INVALID_VALUE, None), c)
     | Some m \<Rightarrow> (case send API_rgpu_capture_mode (bdata (buf_put 4 m empty_buffer)) c of ((r, payload), c1) \<Rightarrow>
         (if r \<noteq> CUDA_SUCCESS then ((r, None), c1)
          else case fst (buf_get 4 (buffer_of payload)) of
              None \<Rightarrow> ((CUDA_ERROR_UNKNOWN, None), c1)
            | Some previous \<Rightarrow> ((CUDA_SUCCESS, Some previous), c1))))"

section \<open>The primary context\<close>

definition primary_of :: "u32 \<Rightarrow> shim \<Rightarrow> primary" where
  "primary_of dev sh = (case sh_primary sh dev of None \<Rightarrow> new_primary | Some p \<Rightarrow> p)"

definition set_primary :: "u32 \<Rightarrow> primary \<Rightarrow> shim \<Rightarrow> shim" where
  "set_primary dev p sh = sh\<lparr> sh_primary := (sh_primary sh)(dev \<mapsto> p) \<rparr>"

definition API_cuDevicePrimaryCtxGetState :: u32 where "API_cuDevicePrimaryCtxGetState = 75"
definition API_cuDevicePrimaryCtxRelease_v2 :: u32 where "API_cuDevicePrimaryCtxRelease_v2 = 76"
definition API_cuDevicePrimaryCtxReset_v2 :: u32 where "API_cuDevicePrimaryCtxReset_v2 = 77"
definition API_cuDevicePrimaryCtxRetain :: u32 where "API_cuDevicePrimaryCtxRetain = 78"
definition API_cuDevicePrimaryCtxSetFlags_v2 :: u32 where "API_cuDevicePrimaryCtxSetFlags_v2 = 79"

text \<open>What each call does to the record once its reply is there.\<close>

definition retained :: "u32 \<Rightarrow> shim \<Rightarrow> shim" where
  "retained dev sh = (let p = primary_of dev sh in set_primary dev (p\<lparr> pr_retained := pr_retained p + 1 \<rparr>) sh)"

definition released :: "u32 \<Rightarrow> shim \<Rightarrow> shim" where
  "released dev sh = (let p = primary_of dev sh; n = pr_retained p - 1 in
     set_primary dev (p\<lparr> pr_retained := n, pr_known := (if n = 0 then False else pr_known p) \<rparr>) sh)"

definition was_reset :: "u32 \<Rightarrow> CUresult \<Rightarrow> shim \<Rightarrow> shim" where
  "was_reset dev r sh = (if r \<noteq> CUDA_ERROR_NOT_SUPPORTED then set_primary dev new_primary sh else sh)"

definition flags_set :: "u32 \<Rightarrow> u32 \<Rightarrow> CUresult \<Rightarrow> shim \<Rightarrow> shim" where
  "flags_set dev flags r sh = (let p = primary_of dev sh in
     set_primary dev (if r = CUDA_SUCCESS then p\<lparr> pr_flags := flags, pr_known := True \<rparr> else p\<lparr> pr_known := False \<rparr>) sh)"

definition flags_read :: "u32 \<Rightarrow> u32 \<Rightarrow> shim \<Rightarrow> shim" where
  "flags_read dev flags sh = set_primary dev ((primary_of dev sh)\<lparr> pr_flags := flags, pr_known := True \<rparr>) sh"

text \<open>The state the record answers with, where it can: the flags if they were asked for.\<close>

definition known_state :: "u32 \<Rightarrow> bool \<Rightarrow> shim \<Rightarrow> u32 option" where
  "known_state dev want_flags sh = (case sh_primary sh dev of
       None \<Rightarrow> None
     | Some p \<Rightarrow> (if pr_retained p > 0 \<and> (\<not> want_flags \<or> pr_known p) then Some (pr_flags p) else None))"

definition cuDevicePrimaryCtxRetain :: "'c sender \<Rightarrow> bool \<Rightarrow> u32 \<Rightarrow> ('c, CUresult \<times> u64 option) entry" where
  "cuDevicePrimaryCtxRetain send want dev st = (case st of (sh, c) \<Rightarrow>
     (case send API_cuDevicePrimaryCtxRetain (bdata (buf_put 4 dev (put_flag want empty_buffer))) c of ((r, payload), c1) \<Rightarrow>
        (if r \<noteq> CUDA_SUCCESS then ((r, None), (sh, c1))
         else if \<not> want then ((r, None), (retained dev sh, c1))
         else case fst (buf_get 8 (buffer_of payload)) of
             None \<Rightarrow> ((CUDA_ERROR_UNKNOWN, None), (sh, c1))
           | Some h \<Rightarrow> ((r, Some h), (retained dev sh, c1)))))"

definition cuDevicePrimaryCtxRelease_v2 :: "'c sender \<Rightarrow> u32 \<Rightarrow> ('c, CUresult) entry" where
  "cuDevicePrimaryCtxRelease_v2 send dev st = (case st of (sh, c) \<Rightarrow>
     (case send API_cuDevicePrimaryCtxRelease_v2 (bdata (buf_put 4 dev empty_buffer)) c of ((r, payload), c1) \<Rightarrow>
        (r, (released dev sh, c1))))"

definition cuDevicePrimaryCtxReset_v2 :: "'c sender \<Rightarrow> u32 \<Rightarrow> ('c, CUresult) entry" where
  "cuDevicePrimaryCtxReset_v2 send dev st = (case st of (sh, c) \<Rightarrow>
     (case send API_cuDevicePrimaryCtxReset_v2 (bdata (buf_put 4 dev empty_buffer)) c of ((r, payload), c1) \<Rightarrow>
        (r, (was_reset dev r sh, c1))))"

definition cuDevicePrimaryCtxSetFlags_v2 :: "'c sender \<Rightarrow> u32 \<Rightarrow> u32 \<Rightarrow> ('c, CUresult) entry" where
  "cuDevicePrimaryCtxSetFlags_v2 send dev flags st = (case st of (sh, c) \<Rightarrow>
     (case send API_cuDevicePrimaryCtxSetFlags_v2 (bdata (buf_put 4 flags (buf_put 4 dev empty_buffer))) c of
        ((r, payload), c1) \<Rightarrow> (r, (flags_set dev flags r sh, c1))))"

text \<open>The flags and whether the context is active, as far as they were asked for.\<close>

definition read_state :: "bool \<Rightarrow> bool \<Rightarrow> buffer \<Rightarrow> (u32 \<times> u32) option" where
  "read_state want_flags want_active b =
     (case (if want_flags then buf_get 4 b else (Some 0, b)) of
        (None, b1) \<Rightarrow> None
      | (Some flags, b1) \<Rightarrow> (case (if want_active then buf_get 4 b1 else (Some 0, b1)) of
          (None, b2) \<Rightarrow> None
        | (Some active, b2) \<Rightarrow> Some (flags, active)))"

definition cuDevicePrimaryCtxGetState :: "'c sender \<Rightarrow> u32 \<Rightarrow> bool \<Rightarrow> bool \<Rightarrow> ('c, CUresult \<times> (u32 \<times> u32) option) entry" where
  "cuDevicePrimaryCtxGetState send dev want_flags want_active st = (case st of (sh, c) \<Rightarrow>
     (case known_state dev want_flags sh of
        Some flags \<Rightarrow> ((CUDA_SUCCESS, Some (flags, 1)), (sh, c))
      | None \<Rightarrow>
          (case send API_cuDevicePrimaryCtxGetState
              (bdata (put_flag want_active (put_flag want_flags (buf_put 4 dev empty_buffer)))) c of ((r, payload), c1) \<Rightarrow>
            (if r \<noteq> CUDA_SUCCESS then ((r, None), (sh, c1))
             else case read_state want_flags want_active (buffer_of payload) of
                 None \<Rightarrow> ((CUDA_ERROR_UNKNOWN, None), (sh, c1))
               | Some (flags, active) \<Rightarrow>
                   ((r, Some (flags, active)), (if want_flags then flags_read dev flags sh else sh, c1))))))"

section \<open>Waiting for a stream\<close>

datatype sync_mode = Wait | After_uploads | Queued

text \<open>\<open>RGPU_LAZY_SYNC\<close>, with -1 for one that is not set.\<close>

definition sync_mode :: "int \<Rightarrow> sync_mode" where
  "sync_mode env = (if env < 0 then After_uploads else if env = 0 then Wait else Queued)"

definition API_cuStreamSynchronize :: u32 where "API_cuStreamSynchronize = 394"

definition cuStreamSynchronize :: "'c sender \<Rightarrow> 'c poster \<Rightarrow> sync_mode \<Rightarrow> u64 \<Rightarrow> ('c, CUresult) entry" where
  "cuStreamSynchronize send post mode stream st = (case st of (sh, c) \<Rightarrow>
     (let req = bdata (buf_put 8 stream empty_buffer) in
      if mode = Queued \<or> (mode = After_uploads \<and> nothing_to_wait_for stream (sh_pending sh))
      then (case post API_cuStreamSynchronize req c of (r, c1) \<Rightarrow> (r, (sh, c1)))
      else (case send API_cuStreamSynchronize req c of ((r, payload), c1) \<Rightarrow>
        (r, (sh\<lparr> sh_pending := settled stream (sh_pending sh) \<rparr>, c1)))))"

section \<open>Versions, errors and refusals\<close>

text \<open>\<open>built\<close> is the \<open>CUDA_VERSION\<close> the client was built against.\<close>

definition cuDriverGetVersion :: "'c sender \<Rightarrow> u32 \<Rightarrow> bool \<Rightarrow> ('c, CUresult \<times> u32 option) entry" where
  "cuDriverGetVersion send built there st = (case st of (sh, c) \<Rightarrow>
     (if \<not> there then ((CUDA_ERROR_INVALID_VALUE, None), (sh, c))
      else if sh_version sh \<noteq> 0 then ((CUDA_SUCCESS, Some (sh_version sh)), (sh, c))
      else case send API_rgpu_hello [] c of ((r, payload), c1) \<Rightarrow>
        (let remote = (if r = CUDA_SUCCESS then fst (buf_get 4 (buffer_of payload)) else None);
             v = (case remote of
                    Some n \<Rightarrow> (if sint n > 0 then (if sint n < sint built then n else built) else built)
                  | None \<Rightarrow> built)
         in ((CUDA_SUCCESS, Some v), (sh\<lparr> sh_version := v \<rparr>, c1)))))"

definition CUDA_ERROR_NO_DEVICE :: CUresult where "CUDA_ERROR_NO_DEVICE = 100"

text \<open>101 is \<open>CUDA_ERROR_INVALID_DEVICE\<close>.\<close>

definition cuGetErrorString :: "CUresult \<Rightarrow> bool \<Rightarrow> CUresult \<times> string option" where
  "cuGetErrorString error there =
     (if \<not> there then (CUDA_ERROR_INVALID_VALUE, None)
      else (CUDA_SUCCESS, Some (
        if error = CUDA_SUCCESS then ''no error''
        else if error = CUDA_ERROR_INVALID_VALUE then ''invalid argument''
        else if error = CUDA_ERROR_OUT_OF_MEMORY then ''out of memory''
        else if error = CUDA_ERROR_NOT_INITIALIZED then ''initialization error''
        else if error = CUDA_ERROR_NO_DEVICE then ''no CUDA-capable device is detected''
        else if error = 101 then ''invalid device ordinal''
        else if error = CUDA_ERROR_NOT_FOUND then ''named symbol not found''
        else if error = CUDA_ERROR_NOT_SUPPORTED then ''operation not supported''
        else ''unknown error'')))"

definition cuGetErrorName :: "CUresult \<Rightarrow> bool \<Rightarrow> CUresult \<times> string option" where
  "cuGetErrorName error there =
     (if \<not> there then (CUDA_ERROR_INVALID_VALUE, None)
      else (CUDA_SUCCESS, Some (
        if error = CUDA_SUCCESS then ''CUDA_SUCCESS''
        else if error = CUDA_ERROR_INVALID_VALUE then ''CUDA_ERROR_INVALID_VALUE''
        else if error = CUDA_ERROR_OUT_OF_MEMORY then ''CUDA_ERROR_OUT_OF_MEMORY''
        else if error = CUDA_ERROR_NOT_INITIALIZED then ''CUDA_ERROR_NOT_INITIALIZED''
        else if error = CUDA_ERROR_NO_DEVICE then ''CUDA_ERROR_NO_DEVICE''
        else if error = CUDA_ERROR_NOT_FOUND then ''CUDA_ERROR_NOT_FOUND''
        else if error = CUDA_ERROR_NOT_SUPPORTED then ''CUDA_ERROR_NOT_SUPPORTED''
        else ''CUDA_ERROR_UNKNOWN'')))"

text \<open>The table of private entry points is always refused, with the code of
  \<open>RGPU_EXPORT_TABLE_ERROR\<close> if it is set; so is a cooperative launch.\<close>

definition cuGetExportTable :: "u32 option \<Rightarrow> bool \<Rightarrow> bool \<Rightarrow> CUresult" where
  "cuGetExportTable mode there id_there =
     (if \<not> there \<or> \<not> id_there then CUDA_ERROR_INVALID_VALUE
      else case mode of Some code \<Rightarrow> code | None \<Rightarrow> CUDA_ERROR_NOT_FOUND)"

definition cuLaunchCooperativeKernel :: CUresult where
  "cuLaunchCooperativeKernel = CUDA_ERROR_NOT_SUPPORTED"

end
