(* ===== verification/ShimLaws.thy ===== *)
theory ShimLaws
  imports Shim
begin

text \<open>
  What the client's local answers rest on: its record of the primary contexts, of the allocations it
  made, of the host memory it gave out, and the synchronize that does not wait.
\<close>

section \<open>The record of a primary context\<close>

text \<open>One call's reply, for an entry point that makes one call.\<close>

definition replying :: "CUresult \<Rightarrow> byte list \<Rightarrow> unit sender" where
  "replying r payload api req c = ((r, payload), c)"

text \<open>A device's primary context as the server has it: how many references this client's session holds,
  whether it is active, and its flags.\<close>

record device =
  dv_count :: nat
  dv_active :: bool
  dv_flags :: u32

text \<open>What the record can no longer know: a reset that ran looked like one the server refused, and the flags
  were set behind its back.\<close>

record doubt =
  do_reset :: bool
  do_flags :: bool

definition no_doubt :: doubt where
  "no_doubt = \<lparr> do_reset = False, do_flags = False \<rparr>"

text \<open>The state a server answers with.\<close>

definition state_reply :: "bool \<Rightarrow> bool \<Rightarrow> device \<Rightarrow> byte list" where
  "state_reply want_flags want_active d =
     (if want_flags then le_enc 4 (dv_flags d) else []) @ (if want_active then le_enc 4 (if dv_active d then 1 else 0 :: u32) else [])"

text \<open>
  The client's entry points, one after another, with the context. Each call ran or did not, and was
  answered with a result: success is the answer of a call that ran, any other may be that of either, since a
  failure held from an earlier call and a lost connection look alike. That goes for a reset as well: the
  server refuses it as unsupported while other sessions are live, and a held failure may have that code
  too, which puts the record in doubt. A context no reference of this session holds may end, and other
  sessions may set its flags at any time. Other calls leave the device's record alone.
\<close>

inductive primary_run :: "u32 \<Rightarrow> shim \<Rightarrow> device \<Rightarrow> doubt \<Rightarrow> bool" for dev :: u32 where
  start: "sh_primary sh = Map.empty \<Longrightarrow> dv_count d = 0 \<Longrightarrow> primary_run dev sh d no_doubt"
| retain: "primary_run dev sh d g \<Longrightarrow> (r = CUDA_SUCCESS \<Longrightarrow> went)
    \<Longrightarrow> cuDevicePrimaryCtxRetain (replying r payload) want dev (sh, ()) = (res, (sh', ()))
    \<Longrightarrow> primary_run dev sh' (if went then d\<lparr> dv_count := dv_count d + 1, dv_active := True \<rparr> else d) g"
| release: "primary_run dev sh d g \<Longrightarrow> (went \<Longrightarrow> dv_count d > 0)
    \<Longrightarrow> cuDevicePrimaryCtxRelease_v2 (replying r payload) dev (sh, ()) = (res, (sh', ()))
    \<Longrightarrow> primary_run dev sh' (if went then d\<lparr> dv_count := dv_count d - 1 \<rparr> else d) g"
| reset: "primary_run dev sh d g
    \<Longrightarrow> cuDevicePrimaryCtxReset_v2 (replying r payload) dev (sh, ()) = (res, (sh', ()))
    \<Longrightarrow> primary_run dev sh' (if went then \<lparr> dv_count = n, dv_active = False, dv_flags = flags \<rparr> else d)
          (if r \<noteq> CUDA_ERROR_NOT_SUPPORTED then no_doubt else if went then \<lparr> do_reset = True, do_flags = True \<rparr> else g)"
| set_flags: "primary_run dev sh d g \<Longrightarrow> (r = CUDA_SUCCESS \<Longrightarrow> went)
    \<Longrightarrow> cuDevicePrimaryCtxSetFlags_v2 (replying r payload) dev flags (sh, ()) = (res, (sh', ()))
    \<Longrightarrow> primary_run dev sh' (if went then d\<lparr> dv_flags := flags \<rparr> else d) (g\<lparr> do_flags := False \<rparr>)"
| asked: "primary_run dev sh d g \<Longrightarrow> (r = CUDA_SUCCESS \<Longrightarrow> payload = state_reply want_flags want_active d)
    \<Longrightarrow> cuDevicePrimaryCtxGetState (replying r payload) dev want_flags want_active (sh, ()) = (res, (sh', ()))
    \<Longrightarrow> primary_run dev sh' d (if want_flags \<and> known_state dev want_flags sh = None \<and> r = CUDA_SUCCESS
          then g\<lparr> do_flags := False \<rparr> else g)"
| ended: "primary_run dev sh d g \<Longrightarrow> dv_count d = 0 \<Longrightarrow> primary_run dev sh (d\<lparr> dv_active := active \<rparr>) g"
| others: "primary_run dev sh d g \<Longrightarrow> primary_run dev sh (d\<lparr> dv_flags := flags \<rparr>) (g\<lparr> do_flags := True \<rparr>)"
| elsewhere: "primary_run dev sh d g \<Longrightarrow> sh_primary sh' dev = sh_primary sh dev \<Longrightarrow> primary_run dev sh' d g"

lemma primary_of_set [simp]: "primary_of dev (set_primary dev p sh) = p"
  by (simp add: primary_of_def set_primary_def)

lemmas record_defs = retained_def released_def was_reset_def flags_set_def flags_read_def new_primary_def Let_def

text \<open>The record never counts more references than the session holds, unless a reset is in doubt; the flags
  it knows are the context's, unless they are.\<close>

definition record_true :: "primary \<Rightarrow> device \<Rightarrow> doubt \<Rightarrow> bool" where
  "record_true p d g \<longleftrightarrow> (\<not> do_reset g \<longrightarrow> pr_retained p \<le> dv_count d \<and> (pr_retained p > 0 \<longrightarrow> dv_active d))
     \<and> (\<not> do_flags g \<and> pr_known p \<longrightarrow> pr_flags p = dv_flags d)"

lemma retain_record:
  assumes "cuDevicePrimaryCtxRetain (replying r payload) want dev (sh, c) = (res, (sh', c'))"
  shows "sh' = sh \<or> r = CUDA_SUCCESS \<and> sh' = retained dev sh"
  using assms by (auto simp: cuDevicePrimaryCtxRetain_def replying_def split: if_splits option.splits)

lemma state_read_back:
  "read_state want_flags want_active (buffer_of (state_reply want_flags want_active d))
   = Some (if want_flags then dv_flags d else 0, if want_active \<and> dv_active d then 1 else 0)"
proof -
  have two: "unread (buffer_of (a @ b)) = a @ b" "bok (buffer_of (a @ b))" for a b :: "byte list"
    by (simp_all add: buffer_of_def)
  show ?thesis
  proof (cases want_flags)
    case True
    let ?b = "buffer_of (state_reply want_flags want_active d)"
    have u: "unread ?b = le_enc 4 (dv_flags d) @ (if want_active then le_enc 4 (if dv_active d then 1 else 0 :: u32) else [])"
      and ok: "bok ?b" using True two by (simp_all add: state_reply_def)
    have g: "buf_get 4 ?b = (Some (dv_flags d), ?b\<lparr> bread := bread ?b + 4 \<rparr>)" using ok u by (intro buf_get_reads) auto
    have "unread (?b\<lparr> bread := bread ?b + 4 \<rparr>) = (if want_active then le_enc 4 (if dv_active d then 1 else 0 :: u32) else [])"
      using u by (simp add: add.commute flip: drop_drop)
    then have "want_active \<Longrightarrow> fst (buf_get 4 (?b\<lparr> bread := bread ?b + 4 \<rparr>)) = Some (if dv_active d then 1 else 0 :: u32)"
      using ok buf_get_reads [of "?b\<lparr> bread := bread ?b + 4 \<rparr>" 4 "if dv_active d then 1 else 0 :: u32" "[]"] by simp
    then show ?thesis using True g by (auto simp: read_state_def split: prod.split)
  next
    case False
    let ?v = "if dv_active d then 1 else 0 :: u32"
    have "want_active \<Longrightarrow> fst (buf_get 4 (buffer_of (le_enc 4 ?v))) = Some ?v"
      using buf_get_reads [of "buffer_of (le_enc 4 ?v)" 4 ?v "[]"] by (simp add: buffer_of_def)
    then show ?thesis using False by (auto simp: read_state_def state_reply_def split: prod.split)
  qed
qed

lemma asked_record:
  assumes "cuDevicePrimaryCtxGetState (replying r payload) dev want_flags want_active (sh, c) = (res, (sh', c'))"
    and "r = CUDA_SUCCESS \<Longrightarrow> payload = state_reply want_flags want_active d"
  shows "sh' = (if want_flags \<and> known_state dev want_flags sh = None \<and> r = CUDA_SUCCESS then flags_read dev (dv_flags d) sh else sh)"
  using assms state_read_back [of want_flags want_active d]
  by (auto simp: cuDevicePrimaryCtxGetState_def replying_def split: option.splits if_splits)

lemma primary_run_true: "primary_run dev sh d g \<Longrightarrow> record_true (primary_of dev sh) d g"
proof (induction rule: primary_run.induct)
  case (start sh d)
  then show ?case by (simp add: record_true_def primary_of_def new_primary_def)
next
  case (retain sh d g r went payload want res sh')
  then show ?case using retain_record [OF retain.hyps(3)] by (auto simp: record_true_def record_defs)
next
  case (release sh d g went r payload res sh')
  then have "sh' = released dev sh" by (simp add: cuDevicePrimaryCtxRelease_v2_def replying_def)
  then show ?case using release by (auto simp: record_true_def record_defs)
next
  case (reset sh d g r payload res sh' went n flags)
  then have "sh' = was_reset dev r sh" by (auto simp: cuDevicePrimaryCtxReset_v2_def replying_def)
  then show ?case using reset by (auto simp: record_true_def record_defs no_doubt_def)
next
  case (set_flags sh d g r went payload flags res sh')
  then have "sh' = flags_set dev flags r sh" by (auto simp add: cuDevicePrimaryCtxSetFlags_v2_def replying_def)
  then show ?case using set_flags by (auto simp: record_true_def record_defs)
next
  case (asked sh d g r payload want_flags want_active res sh')
  have "sh' = (if want_flags \<and> known_state dev want_flags sh = None \<and> r = CUDA_SUCCESS then flags_read dev (dv_flags d) sh else sh)"
    by (rule asked_record [OF asked.hyps(3,2)])
  then show ?case using asked.IH
    by (cases "want_flags \<and> known_state dev want_flags sh = None \<and> r = CUDA_SUCCESS")
      (simp_all only: if_True if_False, simp_all add: record_true_def record_defs)
next
  case (elsewhere sh d g sh')
  then show ?case by (simp add: primary_of_def)
qed (auto simp: record_true_def)

text \<open>C10. Whatever calls a program makes on a device's primary context, one after another, and
  whether they ran, were refused, were lost or were answered with an earlier failure: where the client
  answers a state query from its own record, without a call, the context is active on the server,
  unless a reset that ran was answered as unsupported since the last reset that was not; and the
  flags, if they are asked for, are its flags, unless another session has set them, or such a reset
  has run, since the record learned them.\<close>

theorem recorded_primary_state_is_the_servers:
  assumes "primary_run dev sh d g" and "known_state dev want_flags sh \<noteq> None"
  shows "\<exists>flags. (\<forall>send c. cuDevicePrimaryCtxGetState send dev want_flags want_active (sh, c :: 'c)
        = ((CUDA_SUCCESS, Some (flags, 1)), (sh, c)))
    \<and> (\<not> do_reset g \<longrightarrow> dv_active d) \<and> (want_flags \<and> \<not> do_flags g \<longrightarrow> flags = dv_flags d)"
proof -
  obtain p where p: "sh_primary sh dev = Some p" "pr_retained p > 0" "want_flags \<longrightarrow> pr_known p"
    "known_state dev want_flags sh = Some (pr_flags p)"
    using assms(2) by (auto simp: known_state_def split: option.splits if_splits)
  then have "record_true p d g" using primary_run_true [OF assms(1)] by (simp add: primary_of_def)
  with p show ?thesis by (intro exI [of _ "pr_flags p"]) (auto simp: record_true_def cuDevicePrimaryCtxGetState_def)
qed

text \<open>Two retains, a release that was lost and one set of flags: the record still answers.\<close>

definition demo_primary :: shim where
  "demo_primary = flags_set 0 8 CUDA_SUCCESS (released 0 (retained 0 (retained 0 new_shim)))"

lemma retain_goes:
  assumes "primary_run dev sh d g"
  shows "primary_run dev (retained dev sh) (d\<lparr> dv_count := dv_count d + 1, dv_active := True \<rparr>) g"
  using primary_run.retain [OF assms, of CUDA_SUCCESS True "[]" False]
  by (simp add: cuDevicePrimaryCtxRetain_def replying_def)

lemma set_flags_goes:
  assumes "primary_run dev sh d g"
  shows "primary_run dev (flags_set dev flags CUDA_SUCCESS sh) (d\<lparr> dv_flags := flags \<rparr>) (g\<lparr> do_flags := False \<rparr>)"
  using primary_run.set_flags [OF assms, of CUDA_SUCCESS True "[]" flags]
  by (simp add: cuDevicePrimaryCtxSetFlags_v2_def replying_def)

definition idle_device :: device where
  "idle_device = \<lparr> dv_count = 0, dv_active = False, dv_flags = 0 \<rparr>"

lemma new_run: "primary_run dev new_shim idle_device no_doubt"
  by (rule primary_run.start) (simp_all add: new_shim_def idle_device_def)

theorem recorded_primary_state_is_the_servers_witness:
  "\<exists>d. primary_run 0 demo_primary d no_doubt \<and> dv_active d
    \<and> cuDevicePrimaryCtxGetState (replying CUDA_ERROR_UNKNOWN []) 0 True True (demo_primary, ()) = ((CUDA_SUCCESS, Some (8, 1)), (demo_primary, ()))"
proof -
  have c: "primary_run 0 (retained 0 (retained 0 new_shim)) \<lparr> dv_count = 2, dv_active = True, dv_flags = 0 \<rparr> no_doubt"
    using retain_goes [OF retain_goes [OF new_run]] by (simp add: idle_device_def numeral_2_eq_2)
  have e: "primary_run 0 (released 0 (retained 0 (retained 0 new_shim))) \<lparr> dv_count = 2, dv_active = True, dv_flags = 0 \<rparr> no_doubt"
    using primary_run.release [OF c, of False CUDA_ERROR_UNKNOWN "[]"] by (simp add: cuDevicePrimaryCtxRelease_v2_def replying_def)
  have f: "primary_run 0 demo_primary \<lparr> dv_count = 2, dv_active = True, dv_flags = 8 \<rparr> no_doubt"
    using set_flags_goes [OF e, of 8] by (simp add: demo_primary_def no_doubt_def)
  have k: "known_state 0 True demo_primary \<noteq> None"
    by (simp add: known_state_def demo_primary_def record_defs primary_of_def set_primary_def new_shim_def)
  obtain flags where "cuDevicePrimaryCtxGetState (replying CUDA_ERROR_UNKNOWN []) 0 True True (demo_primary, ())
      = ((CUDA_SUCCESS, Some (flags, 1)), (demo_primary, ()))" "flags = 8"
    using recorded_primary_state_is_the_servers [OF f k, of True, where 'c = unit] by (auto simp: no_doubt_def)
  then show ?thesis using f by (intro exI [of _ "\<lparr> dv_count = 2, dv_active = True, dv_flags = 8 \<rparr>"]) simp
qed

text \<open>Flags learned while no reference is held stay in the record, and are answered once one is, although
  another session may have set others in between.\<close>

lemma flags_learned_without_a_reference_go_stale:
  "\<exists>sh d g. primary_run 0 sh d g \<and> \<not> do_reset g \<and> known_state 0 True sh = Some 0 \<and> dv_flags d = 8"
proof -
  have b: "primary_run 0 (flags_read 0 0 new_shim) idle_device no_doubt"
    using primary_run.asked [OF new_run, of CUDA_SUCCESS "state_reply True False idle_device" True False 0]
      state_read_back [of True False idle_device]
    by (simp add: cuDevicePrimaryCtxGetState_def replying_def known_state_def new_shim_def no_doubt_def idle_device_def)
  have e: "primary_run 0 (retained 0 (flags_read 0 0 new_shim)) \<lparr> dv_count = 1, dv_active = True, dv_flags = 8 \<rparr> \<lparr> do_reset = False, do_flags = True \<rparr>"
    using retain_goes [OF primary_run.others [OF b, of 8]] by (simp add: idle_device_def no_doubt_def)
  show ?thesis
    by (rule exI, rule exI, rule exI, rule conjI, rule e)
      (simp add: known_state_def record_defs primary_of_def set_primary_def new_shim_def)
qed

text \<open>A reset that ran and is answered with a held failure that says unsupported: the record answers that the
  context is active, and it is not.\<close>

lemma reset_answered_as_unsupported:
  "\<exists>sh d g. primary_run 0 sh d g \<and> known_state 0 False sh \<noteq> None \<and> \<not> dv_active d"
proof -
  have a: "primary_run 0 (retained 0 new_shim) \<lparr> dv_count = 1, dv_active = True, dv_flags = 0 \<rparr> no_doubt"
    using retain_goes [OF new_run] by (simp add: idle_device_def)
  have b: "primary_run 0 (retained 0 new_shim) \<lparr> dv_count = 1, dv_active = False, dv_flags = 0 \<rparr> \<lparr> do_reset = True, do_flags = True \<rparr>"
    using primary_run.reset [OF a, of CUDA_ERROR_NOT_SUPPORTED "[]" CUDA_ERROR_NOT_SUPPORTED "retained 0 new_shim" True 1 0]
    by (simp add: cuDevicePrimaryCtxReset_v2_def replying_def was_reset_def)
  show ?thesis
    by (rule exI, rule exI, rule exI, rule conjI, rule b)
      (simp add: known_state_def record_defs primary_of_def set_primary_def new_shim_def)
qed

section \<open>A synchronize that does not wait\<close>

text \<open>C11. By default a stream synchronize waits for the server's answer, and marks the stream
  settled, exactly where work that concerns the stream is outstanding; otherwise it is queued.\<close>

theorem synchronize_waits_for_outstanding_work:
  "cuStreamSynchronize send post (sync_mode (- 1)) stream (sh\<lparr> sh_pending := record_marks ms \<rparr>, c)
   = (let req = bdata (buf_put 8 stream empty_buffer) in
      if \<exists>m. concerns stream m \<and> outstanding m ms
      then (case send API_cuStreamSynchronize req c of ((r, payload), c1) \<Rightarrow>
        (r, (sh\<lparr> sh_pending := record_marks (ms @ [Waited stream]) \<rparr>, c1)))
      else (case post API_cuStreamSynchronize req c of (r, c1) \<Rightarrow> (r, (sh\<lparr> sh_pending := record_marks ms \<rparr>, c1))))"
proof -
  have "record_marks (ms @ [Waited stream]) = settled stream (record_marks ms)" by (simp add: record_marks_def)
  moreover have "(\<exists>m. concerns stream m \<and> outstanding m ms) \<longleftrightarrow> \<not> nothing_to_wait_for stream (record_marks ms)"
    by (simp add: idle_stream)
  ultimately show ?thesis
    by (simp only: cuStreamSynchronize_def sync_mode_def) (simp add: Let_def split: prod.split)
qed

section \<open>Device allocations\<close>

text \<open>What a program does to the record: an allocation of so many bytes that was given an address, and
  a free.\<close>

datatype alloc_event = Given u64 u64 | Freed u64

fun on_allocs :: "alloc_event \<Rightarrow> (u64 \<times> u64) list \<Rightarrow> (u64 \<times> u64) list" where
  "on_allocs (Given p n) m = (if n \<noteq> 0 then put_sorted p n m else m)"
| "on_allocs (Freed p) m = AList.delete p m"

definition within :: "u64 \<Rightarrow> u64 \<times> u64 \<Rightarrow> bool" where
  "within p e \<longleftrightarrow> unat (fst e) \<le> unat p \<and> unat p < unat (fst e) + unat (snd e)"

text \<open>The driver's allocations lie in the address space and do not overlap.\<close>

definition apart :: "(u64 \<times> u64) list \<Rightarrow> bool" where
  "apart m \<longleftrightarrow> (\<forall>e \<in> set m. snd e \<noteq> 0 \<and> unat (fst e) + unat (snd e) < 2 ^ 64)
     \<and> (\<forall>e \<in> set m. \<forall>f \<in> set m. e \<noteq> f \<longrightarrow> unat (fst e) + unat (snd e) \<le> unat (fst f) \<or> unat (fst f) + unat (snd f) \<le> unat (fst e))"

lemma sorted_below:
  fixes p :: u64
  assumes "sorted_wrt (\<lambda>a b. fst a < fst b) m" and "e \<in> set m" and "fst e \<le> p"
  shows "fst e \<le> fst (last (filter (\<lambda>x. fst x \<le> p) m))"
proof -
  let ?b = "filter (\<lambda>x. fst x \<le> p) m"
  have s: "sorted_wrt (\<lambda>a b. fst a < fst b) ?b" using assms(1) by (rule sorted_wrt_filter)
  have m: "e \<in> set ?b" using assms(2,3) by simp
  then obtain xs y where b: "?b = xs @ [y]" by (metis empty_iff list.set(1) rev_exhaust)
  have "e \<in> set xs \<or> e = y" using m unfolding b by auto
  moreover have "fst x < fst y" if "x \<in> set xs" for x
    using s that unfolding b by (simp add: sorted_wrt_append)
  ultimately have "fst e \<le> fst y" by (metis less_imp_le order_refl)
  then show ?thesis unfolding b by simp
qed

lemma is_ours_within:
  assumes "sorted_wrt (\<lambda>a b. fst a < fst b) m" and "apart m"
  shows "is_ours p m \<longleftrightarrow> (\<exists>e \<in> set m. within p e)"
proof -
  let ?b = "filter (\<lambda>x. fst x \<le> p) m"
  have fit: "p < fst e + snd e \<longleftrightarrow> unat p < unat (fst e) + unat (snd e)" if "e \<in> set m" for e
    using assms(2) that by (auto simp: apart_def word_less_nat_alt unat_word_ariths)
  show ?thesis
  proof
    assume o: "is_ours p m"
    then have "?b \<noteq> []" by (auto simp: is_ours_def Let_def)
    then have "last ?b \<in> set m" using last_in_set [of ?b] by auto
    then show "\<exists>e \<in> set m. within p e"
      using o fit by (auto simp: is_ours_def Let_def within_def word_le_nat_alt split: if_splits)
  next
    assume "\<exists>e \<in> set m. within p e"
    then obtain e where e: "e \<in> set m" "within p e" by blast
    then have le: "fst e \<le> p" by (simp add: within_def word_le_nat_alt)
    then have ne: "?b \<noteq> []" using e(1) by (auto simp: filter_empty_conv)
    have l: "last ?b \<in> set m" "fst (last ?b) \<le> p" using last_in_set [OF ne] by auto
    have "fst e \<le> fst (last ?b)" using sorted_below [OF assms(1) e(1) le] .
    have "last ?b = e"
    proof (rule ccontr)
      assume "last ?b \<noteq> e"
      then have "unat (fst e) + unat (snd e) \<le> unat (fst (last ?b)) \<or> unat (fst (last ?b)) + unat (snd (last ?b)) \<le> unat (fst e)"
        using assms(2) e(1) l(1) unfolding apart_def by metis
      moreover have "unat (snd (last ?b)) > 0" using assms(2) l(1) by (auto simp: apart_def unat_gt_0)
      ultimately show False using \<open>fst e \<le> fst (last ?b)\<close> l(2) e(2)
        unfolding within_def word_le_nat_alt by linarith
    qed
    then show "is_ours p m" using ne e fit [OF e(1)] le by (simp add: is_ours_def Let_def within_def)
  qed
qed

lemma put_sorted_set: "sorted_wrt (\<lambda>a b. fst a < fst b) m \<Longrightarrow>
    set (put_sorted k v m) = insert (k, v) {e \<in> set m. fst e \<noteq> k} \<and> sorted_wrt (\<lambda>a b. fst a < fst b) (put_sorted k v m)"
proof (induction m)
  case (Cons e m)
  obtain k' v' where e: "e = (k', v')" by fastforce
  have IH: "set (put_sorted k v m) = insert (k, v) {e \<in> set m. fst e \<noteq> k}" "sorted_wrt (\<lambda>a b. fst a < fst b) (put_sorted k v m)"
    using Cons by auto
  consider "k < k'" | "k = k'" | "k' < k" by fastforce
  then show ?case
  proof cases
    case 1
    with e Cons.prems show ?thesis by auto
  next
    case 2
    with e Cons.prems show ?thesis by auto
  next
    case 3
    with e Cons.prems IH show ?thesis by auto
  qed
qed simp

text \<open>The allocations that were given out and not freed since.\<close>

fun alive_allocs :: "alloc_event list \<Rightarrow> (u64 \<times> u64) set \<Rightarrow> (u64 \<times> u64) set" where
  "alive_allocs [] A = A"
| "alive_allocs (Given p n # es) A = alive_allocs es (if n \<noteq> 0 then insert (p, n) {e \<in> A. fst e \<noteq> p} else A)"
| "alive_allocs (Freed p # es) A = alive_allocs es {e \<in> A. fst e \<noteq> p}"

lemma allocs_alive:
  "sorted_wrt (\<lambda>a b. fst a < fst b) m \<Longrightarrow> set (fold on_allocs es m) = alive_allocs es (set m)
    \<and> sorted_wrt (\<lambda>a b. fst a < fst b) (fold on_allocs es m)"
proof (induction es arbitrary: m)
  case (Cons e es)
  show ?case
  proof (cases e)
    case (Given p n)
    then show ?thesis using Cons put_sorted_set [OF Cons.prems, of p n] by auto
  next
    case (Freed p)
    have "AList.delete p m = filter (\<lambda>e. fst e \<noteq> p) m" 
      unfolding AList.delete_eq by (rule filter_cong) auto
    then have "sorted_wrt (\<lambda>a b. fst a < fst b) (AList.delete p m)" "set (AList.delete p m) = {e \<in> set m. fst e \<noteq> p}"
      using Cons.prems by (auto intro: sorted_wrt_filter)
    then show ?thesis using Cons.IH [of "AList.delete p m"] Freed by simp
  qed
qed simp

text \<open>
  The server's allocations with the client's record: what is \<open>live\<close> there, what the program was
  \<open>given\<close> by \<open>cuMemAlloc\<close> and has not asked to be freed since, and whether a context has \<open>ended\<close>, destroyed or
  reset, with allocations the program was given. A call of the client's entry points ran or did not; an
  allocation is answered with success only where it ran, and then with its address. The driver gives out
  memory that is apart from all there is. Other allocations, of other entry points and other
  sessions, come and go.
\<close>

definition room_for :: "u64 \<Rightarrow> u64 \<Rightarrow> (u64 \<times> u64) set \<Rightarrow> bool" where
  "room_for p n live \<longleftrightarrow> unat p + unat n < 2 ^ 64
     \<and> (\<forall>f \<in> live. unat p + unat n \<le> unat (fst f) \<or> unat (fst f) + unat (snd f) \<le> unat p)"

inductive alloc_run :: "shim \<Rightarrow> (u64 \<times> u64) set \<Rightarrow> (u64 \<times> u64) set \<Rightarrow> bool \<Rightarrow> bool" where
  begin_run: "sh_allocs sh = [] \<Longrightarrow> alloc_run sh {} {} False"
| alloc: "alloc_run sh live given ended \<Longrightarrow> (r = CUDA_SUCCESS \<and> there \<Longrightarrow> went \<and> payload = le_enc 8 p)
    \<Longrightarrow> (went \<Longrightarrow> there \<and> room_for p n live)
    \<Longrightarrow> cuMemAlloc_v2 (replying r payload) there n (sh, ()) = (res, (sh', ()))
    \<Longrightarrow> alloc_run sh' (if went \<and> n \<noteq> 0 then insert (p, n) live else live)
          (if res = (CUDA_SUCCESS, Some p) \<and> n \<noteq> 0 then insert (p, n) given else given) ended"
| free: "alloc_run sh live given ended
    \<Longrightarrow> cuMemFree_v2 (replying r payload) p (sh, ()) = (res, (sh', ()))
    \<Longrightarrow> alloc_run sh' (if went then {e \<in> live. fst e \<noteq> p} else live) {e \<in> given. fst e \<noteq> p} ended"
| asked_for: "alloc_run sh live given ended
    \<Longrightarrow> cuPointerGetAttribute (replying r payload) there attribute p (sh, ()) = (res, (sh', ()))
    \<Longrightarrow> alloc_run sh' live given ended"
| other_alloc: "alloc_run sh live given ended \<Longrightarrow> n \<noteq> 0 \<Longrightarrow> room_for p n live \<Longrightarrow> alloc_run sh (insert (p, n) live) given ended"
| other_free: "alloc_run sh live given ended \<Longrightarrow> e \<notin> given \<Longrightarrow> alloc_run sh (live - {e}) given ended"
| context_end: "alloc_run sh live given ended \<Longrightarrow> alloc_run sh (live - gone) given (ended \<or> gone \<inter> given \<noteq> {})"
| elsewhere: "alloc_run sh live given ended \<Longrightarrow> sh_allocs sh' = sh_allocs sh \<Longrightarrow> alloc_run sh' live given ended"

definition allocs_true :: "shim \<Rightarrow> (u64 \<times> u64) set \<Rightarrow> (u64 \<times> u64) set \<Rightarrow> bool \<Rightarrow> bool" where
  "allocs_true sh live given ended \<longleftrightarrow> sorted_wrt (\<lambda>a b. fst a < fst b) (sh_allocs sh)
     \<and> (\<exists>m. set m = live \<and> apart m)
     \<and> (\<not> ended \<longrightarrow> set (sh_allocs sh) = given \<and> given \<subseteq> live)"

lemma allocs_trueD:
  assumes "allocs_true sh live given ended"
  shows "sorted_wrt (\<lambda>a b. fst a < fst b) (sh_allocs sh)" and "\<exists>m. set m = live \<and> apart m"
    and "\<not> ended \<Longrightarrow> set (sh_allocs sh) = given \<and> given \<subseteq> live"
  using assms unfolding allocs_true_def by blast+

lemma allocs_trueI:
  assumes "sorted_wrt (\<lambda>a b. fst a < fst b) (sh_allocs sh)" and "\<exists>m. set m = live \<and> apart m"
    and "\<not> ended \<Longrightarrow> set (sh_allocs sh) = given \<and> given \<subseteq> live"
  shows "allocs_true sh live given ended"
  using assms unfolding allocs_true_def by blast

lemma apart_subset: "apart m \<Longrightarrow> set m' \<subseteq> set m \<Longrightarrow> apart m'"
  unfolding apart_def by blast

lemma apart_room:
  assumes "apart m" and "room_for p n (set m)" and "n \<noteq> 0" shows "apart ((p, n) # m)"
  using assms by (auto simp: apart_def room_for_def)

lemma allocs_fewer:
  assumes "\<exists>m. set m = live \<and> apart m" and "live' \<subseteq> live" shows "\<exists>m. set m = live' \<and> apart m"
proof -
  obtain m where m: "set m = live" "apart m" using assms(1) by blast
  have "set (filter (\<lambda>e. e \<in> live') m) = live'" using m(1) assms(2) by auto
  then show ?thesis using apart_subset [OF m(2), of "filter (\<lambda>e. e \<in> live') m"] m(1) assms(2) by blast
qed

lemma allocs_more:
  assumes "\<exists>m. set m = live \<and> apart m" and "room_for p n live" and "n \<noteq> 0"
  shows "\<exists>m. set m = insert (p, n) live \<and> apart m"
proof -
  obtain m where m: "set m = live" "apart m" using assms(1) by blast
  then show ?thesis using apart_room [OF m(2) _ assms(3), of p] assms(2) by (intro exI [of _ "(p, n) # m"]) simp
qed

text \<open>An address for which there is room is not the base of an allocation there is.\<close>

lemma room_is_new:
  assumes "room_for p n live" and "n \<noteq> 0" and "\<exists>m. set m = live \<and> apart m"
  shows "{e \<in> live. fst e \<noteq> p} = live"
proof -
  have "fst e \<noteq> p" if "e \<in> live" for e
  proof
    assume "fst e = p"
    moreover have "0 < unat (snd e)" using assms(3) that by (auto simp: apart_def unat_gt_0)
    moreover have "unat p + unat n \<le> unat (fst e) \<or> unat (fst e) + unat (snd e) \<le> unat p"
      using assms(1) that by (auto simp: room_for_def)
    moreover have "0 < unat n" using assms(2) by (simp add: unat_gt_0)
    ultimately show False by simp
  qed
  then show ?thesis by blast
qed

lemma delete_sorted:
  "sorted_wrt (\<lambda>a b. fst a < fst b) m \<Longrightarrow> sorted_wrt (\<lambda>a b. fst a < fst b) (AList.delete p m)
    \<and> set (AList.delete p m) = {e \<in> set m. fst e \<noteq> p}" for m :: "(u64 \<times> u64) list"
  unfolding AList.delete_eq by (auto intro: sorted_wrt_filter)

lemma alloc_reply: "fst (buf_get 8 (buffer_of (le_enc 8 p))) = Some (p :: u64)"
  using buf_get_reads [of "buffer_of (le_enc 8 p)" 8 p "[]"] by (simp add: buffer_of_def)

lemma alloc_run_true: "alloc_run sh live given ended \<Longrightarrow> allocs_true sh live given ended"
proof (induction rule: alloc_run.induct)
  case (begin_run sh)
  then show ?case by (simp add: allocs_true_def apart_def)
next
  case (alloc sh live given ended r there went payload p n res sh')
  have m: "\<exists>m. set m = live \<and> apart m" using alloc.IH by (simp add: allocs_true_def)
  show ?case
  proof (cases "r = CUDA_SUCCESS \<and> there \<and> n \<noteq> 0")
    case True
    then have went: "went" "payload = le_enc 8 p" "room_for p n live" using alloc.hyps(2,3) by auto
    have sh': "sh' = sh\<lparr> sh_allocs := put_sorted p n (sh_allocs sh) \<rparr>" "res = (CUDA_SUCCESS, Some p)"
      using alloc.hyps(4) True went(2) alloc_reply by (auto simp: cuMemAlloc_v2_def replying_def)
    have "\<not> ended \<Longrightarrow> {e \<in> given. fst e \<noteq> p} = given"
      using room_is_new [OF went(3) _ m] True alloc.IH by (auto simp: allocs_true_def)
    then have g: "\<not> ended \<Longrightarrow> insert (p, n) {e \<in> set (sh_allocs sh). fst e \<noteq> p} = insert (p, n) given \<and> insert (p, n) given \<subseteq> insert (p, n) live"
      using alloc.IH by (simp add: allocs_true_def) blast
    have "\<exists>m. set m = insert (p, n) live \<and> apart m" using allocs_more [OF m went(3)] True by blast
    then have "allocs_true sh' (insert (p, n) live) (insert (p, n) given) ended"
      using put_sorted_set [of "sh_allocs sh" p n] g alloc.IH by (simp add: allocs_true_def sh')
    then show ?thesis using True went sh' by simp
  next
    case False
    then have sh': "sh' = sh" "\<not> (res = (CUDA_SUCCESS, Some p) \<and> n \<noteq> 0)"
      using alloc.hyps(4) by (auto simp: cuMemAlloc_v2_def replying_def split: if_splits option.splits)
    have "\<exists>m. set m = (if went \<and> n \<noteq> 0 then insert (p, n) live else live) \<and> apart m"
    proof (cases "went \<and> n \<noteq> 0")
      case True
      then show ?thesis using allocs_more [OF m, of p n] alloc.hyps(3) by simp
    next
      case False
      then show ?thesis using m by (simp only: if_False)
    qed
    moreover have "given \<subseteq> live \<Longrightarrow> given \<subseteq> (if went \<and> n \<noteq> 0 then insert (p, n) live else live)" by auto
    ultimately show ?thesis using alloc.IH unfolding allocs_true_def sh'(1) if_not_P [OF sh'(2)] by blast
  qed
next
  case (free sh live given ended r payload p res sh' went)
  then have sh': "sh' = sh\<lparr> sh_allocs := AList.delete p (sh_allocs sh) \<rparr>" by (simp add: cuMemFree_v2_def replying_def)
  have "\<exists>m. set m = (if went then {e \<in> live. fst e \<noteq> p} else live) \<and> apart m"
    by (rule allocs_fewer [OF allocs_trueD(2) [OF free.IH]]) auto
  moreover have "\<not> ended \<Longrightarrow> {e \<in> given. fst e \<noteq> p} \<subseteq> (if went then {e \<in> live. fst e \<noteq> p} else live)"
    using allocs_trueD(3) [OF free.IH] by auto
  ultimately show ?case using delete_sorted [OF allocs_trueD(1) [OF free.IH], of p] allocs_trueD(3) [OF free.IH]
    by (intro allocs_trueI) (simp_all add: sh')
next
  case (asked_for sh live given ended r payload there attribute p res sh')
  then have "sh' = sh" by (auto simp: cuPointerGetAttribute_def replying_def Let_def split: if_splits option.splits)
  then show ?case using asked_for.IH by simp
next
  case (other_alloc sh live given ended n p)
  note t = allocs_trueD [OF other_alloc.IH]
  show ?case by (intro allocs_trueI t(1) allocs_more [OF t(2) other_alloc.hyps(3,2)]) (use t(3) in blast)
next
  case (other_free sh live given ended e)
  note t = allocs_trueD [OF other_free.IH]
  show ?case by (intro allocs_trueI t(1) allocs_fewer [OF t(2)]) (use t(3) other_free.hyps(2) in blast)+
next
  case (context_end sh live given ended gone)
  note t = allocs_trueD [OF context_end.IH]
  show ?case by (intro allocs_trueI t(1) allocs_fewer [OF t(2)]) (use t(3) in blast)+
qed (simp add: allocs_true_def)

lemma key_bytes: "le_enc 4 (3 :: u64) = le_enc 4 (3 :: u32)"
proof -
  have "(4 :: nat) = Suc (Suc (Suc (Suc 0)))" by simp
  then show ?thesis by (simp only: le_enc.simps) simp
qed


lemma alloc_goes:
  assumes "alloc_run sh live given ended" and "room_for p n live" and "n \<noteq> 0"
  shows "alloc_run (sh\<lparr> sh_allocs := put_sorted p n (sh_allocs sh) \<rparr>) (insert (p, n) live) (insert (p, n) given) ended"
proof -
  have "cuMemAlloc_v2 (replying CUDA_SUCCESS (le_enc 8 p)) True n (sh, ())
      = ((CUDA_SUCCESS, Some p), (sh\<lparr> sh_allocs := put_sorted p n (sh_allocs sh) \<rparr>, ()))"
    using alloc_reply [of p] assms(3) by (simp add: cuMemAlloc_v2_def replying_def)
  from alloc_run.alloc [OF assms(1) _ _ this, of True p] assms(2,3) show ?thesis by simp
qed


text \<open>Once a context has ended with an allocation, the client still answers for a pointer into it.\<close>

lemma pointer_of_an_ended_context_is_answered:
  "\<exists>sh given. alloc_run sh {} given True \<and>
    cuPointerGetAttribute (replying CUDA_ERROR_UNKNOWN []) True CU_POINTER_ATTRIBUTE_DEVICE_POINTER 0x2000 (sh, ())
      = ((CUDA_SUCCESS, le_enc 8 (0x2000 :: u64)), (sh, ()))"
proof -
  have a: "alloc_run new_shim {} {} False" by (rule begin_run) (simp add: new_shim_def)
  have b: "alloc_run (new_shim\<lparr> sh_allocs := [(0x2000, 16)] \<rparr>) {(0x2000, 16)} {(0x2000, 16)} False"
    using alloc_goes [OF a, of "0x2000" 16] by (simp add: room_for_def new_shim_def)
  have "alloc_run (new_shim\<lparr> sh_allocs := [(0x2000, 16)] \<rparr>) {} {(0x2000, 16)} True"
    using alloc_run.context_end [OF b, of "{(0x2000, 16)}"] by simp
  then show ?thesis by (intro exI conjI, assumption) (simp add: cuPointerGetAttribute_def is_ours_def)
qed

end
