(* ===== verification/Launch.thy ===== *)
theory Launch
  imports Shim Serve
begin

text \<open>
  The client's hand-written calls against the server's own handlers: a launched kernel gets the
  arguments its caller gave, and what the client reads out of the replies of the server's own calls is
  what the handlers put there.
\<close>

section \<open>Reading on\<close>

text \<open>A buffer whose front has been read, with what is left of it.\<close>

definition reading :: "byte list \<Rightarrow> byte list \<Rightarrow> buffer" where
  "reading pre r = \<lparr> bdata = pre @ r, bread = length pre, bok = True \<rparr>"

lemma buffer_of_reading: "buffer_of bs = reading [] bs"
  by (simp add: buffer_of_def reading_def)

lemma bok_reading [simp]: "bok (reading pre r)"
  by (simp add: reading_def)

lemma reading_get [simp]:
  fixes v :: "'a::len word"
  assumes "LENGTH('a) \<le> 8 * n"
  shows "buf_get n (reading pre (le_enc n v @ r)) = (Some v, reading (pre @ le_enc n v) r)"
    and "buf_get n (reading pre (le_enc n v)) = (Some v, reading (pre @ le_enc n v) [])"
  using buf_get_reads [of "reading pre (le_enc n v @ r)" n v r] buf_get_reads [of "reading pre (le_enc n v)" n v "[]"] assms
  by (simp_all add: reading_def)

lemma reading_sized [simp]:
  assumes "length p < 2 ^ 64"
  shows "get_sized (reading pre (enc_sized p @ r)) = (Some p, reading (pre @ enc_sized p) r)"
    and "get_sized (reading pre (enc_sized p)) = (Some p, reading (pre @ enc_sized p) [])"
  using get_sized_reads [OF assms, of "reading pre (enc_sized p @ r)" r]
    get_sized_reads [OF assms, of "reading pre (enc_sized p)" "[]"]
  by (simp_all add: reading_def)

lemma reading_byte [simp]:
  "buf_get (Suc 0) (reading pre (x # r)) = (Some (x :: byte), reading (pre @ [x]) r)"
  using reading_get(1) [of 1 pre x r] by simp

lemma reading_arguments [simp]:
  "get64 k (reading pre (le_enc 8 v @ r)) rsp s = k v (reading (pre @ le_enc 8 v) r) rsp s"
  "get64 k (reading pre (le_enc 8 v)) rsp s = k v (reading (pre @ le_enc 8 v) []) rsp s"
  "get32 k' (reading pre (le_enc 4 w @ r)) rsp s = k' w (reading (pre @ le_enc 4 w) r) rsp s"
  "get32 k' (reading pre (le_enc 4 w)) rsp s = k' w (reading (pre @ le_enc 4 w) []) rsp s"
  "get_has h (reading pre (x # r)) rsp s = h (x \<noteq> 0) (reading (pre @ [x]) r) rsp s"
  by (simp_all add: get64_def get32_def get_has_def take_field_def)

section \<open>A launch\<close>

lemma put_all_dims: "bdata (put_all (buf_put 4) vs b) = bdata b @ concat (map (le_enc 4) (vs :: u32 list))"
  by (simp add: u32_field.put_all_appends)

lemma launch_bytes:
  "bdata (launch_request f [gx, gy, gz, bx, bd, bz, sm] stream args) = le_enc 8 f @ le_enc 4 gx @ le_enc 4 gy @ le_enc 4 gz
    @ le_enc 4 bx @ le_enc 4 bd @ le_enc 4 bz @ le_enc 4 sm @ le_enc 8 stream @ enc_sized args"
  by (simp add: launch_request_def sized_field.put_appends buf_put_def empty_buffer_def)

lemma launch_read_back:
  assumes "length args < 2 ^ 64" and "dims = [gx, gy, gz, bx, bd, bz, sm]"
  shows "\<exists>req. bok req \<and> handle_launch drv (buffer_of (bdata (launch_request f dims stream args))) rsp s
    = (case sv_call drv (LaunchKernel f dims stream (if args = [] then None else Some args)) s of
        ((r, outs), s1) \<Rightarrow> (r, req, rsp, s1))"
  using assms(1) unfolding assms(2) launch_bytes buffer_of_reading
  by (simp add: handle_launch_def take_field_def) (auto split: prod.split intro: exI [of _ "reading _ []"])

text \<open>Slots in order, none overlapping the next, from one offset up to another.\<close>

fun laid_out :: "nat \<Rightarrow> (u64 \<times> u64) list \<Rightarrow> nat \<Rightarrow> bool" where
  "laid_out lo [] hi \<longleftrightarrow> lo \<le> hi"
| "laid_out lo ((off, n) # slots) hi \<longleftrightarrow> lo \<le> unat off \<and> laid_out (unat off + unat n) slots hi"

text \<open>A pointer to enough bytes for every slot.\<close>

definition args_given :: "(u64 \<times> u64) list \<Rightarrow> byte list list \<Rightarrow> bool" where
  "args_given slots bss \<longleftrightarrow> list_all2 (\<lambda>slot bs. unat (snd slot) \<le> length bs) slots bss"

text \<open>The bytes of every slot are where the slot is.\<close>

definition args_at :: "(u64 \<times> u64) list \<Rightarrow> byte list list \<Rightarrow> byte list \<Rightarrow> bool" where
  "args_at slots bss blob \<longleftrightarrow>
     list_all2 (\<lambda>slot bs. take (unat (snd slot)) (drop (unat (fst slot)) blob) = take (unat (snd slot)) bs) slots bss"

lemma laid_out_le: "laid_out lo slots hi \<Longrightarrow> lo \<le> hi"
proof (induction slots arbitrary: lo)
  case (Cons s slots)
  obtain off n where s: "s = (off, n)" by fastforce
  then have "lo \<le> unat off" "laid_out (unat off + unat n) slots hi" using Cons.prems by auto
  then show ?case using Cons.IH [of "unat off + unat n"] by simp
qed simp

lemma overwrite_parts:
  assumes "off + length bs \<le> length blob"
  shows "length (overwrite off bs blob) = length blob"
    and "take off (overwrite off bs blob) = take off blob"
    and "take (length bs) (drop off (overwrite off bs blob)) = bs"
  using assms by (simp_all add: overwrite_def)

lemma take_drop_front: "lo' \<le> hi \<Longrightarrow> take hi b = take hi c \<Longrightarrow> take lo' b = take lo' c"
  by (metis min_def take_take)

lemma placed:
  "laid_out lo slots (length blob) \<Longrightarrow> args_given slots bss \<Longrightarrow>
   \<exists>b. place_args slots (map Some bss) blob = Some b \<and> length b = length blob \<and> take lo b = take lo blob \<and> args_at slots bss b"
proof (induction slots arbitrary: lo bss blob)
  case Nil
  then show ?case by (simp add: args_given_def args_at_def)
next
  case (Cons s slots)
  obtain off n where s: "s = (off, n)" by fastforce
  obtain bs rest where b: "bss = bs # rest" "unat n \<le> length bs" "args_given slots rest"
    using Cons.prems(2) s by (auto simp: args_given_def list_all2_Cons1)
  let ?stop = "unat off + unat n"
  have l: "lo \<le> unat off" "laid_out ?stop slots (length blob)" using Cons.prems(1) s by auto
  let ?blob = "overwrite (unat off) (take (unat n) bs) blob"
  have fit: "unat off + length (take (unat n) bs) \<le> length blob" using laid_out_le [OF l(2)] b(2) by simp
  note w = overwrite_parts [OF fit]
  obtain c where c: "place_args slots (map Some rest) ?blob = Some c" "length c = length ?blob"
    "take ?stop c = take ?stop ?blob" "args_at slots rest c"
    using Cons.IH [of ?stop ?blob rest] l(2) b(3) w(1) by auto
  have "take (unat n) (drop (unat off) c) = take (unat n) (drop (unat off) ?blob)"
    using c(3) by (metis drop_take add_diff_cancel_left')
  then have "take (unat n) (drop (unat off) c) = take (unat n) bs" using w(3) b(2) by simp
  moreover have "take lo c = take lo blob"
    using c(3) w(2) l(1) take_drop_front [of lo ?stop c ?blob] take_drop_front [of lo "unat off" ?blob blob] by simp
  ultimately show ?case using s b c w(1) by (simp add: args_at_def)
qed

lemma blob_ends:
  assumes "laid_out lo slots hi" and "hi < 2 ^ 64" and "lo \<le> unat t0"
  shows "laid_out lo slots (unat (fold (\<lambda>s t. max t (fst s + snd s)) slots t0))
    \<and> t0 \<le> fold (\<lambda>s t. max t (fst s + snd s)) slots t0"
  using assms
proof (induction slots arbitrary: lo t0)
  case (Cons s slots)
  obtain off n where s: "s = (off, n)" by fastforce
  have l: "lo \<le> unat off" "laid_out (unat off + unat n) slots hi" using Cons.prems(1) s by auto
  then have e: "unat (off + n) = unat off + unat n"
    using laid_out_le [OF l(2)] Cons.prems(2) by (simp add: unat_word_ariths)
  let ?t = "max t0 (off + n)"
  have "unat off + unat n \<le> unat ?t" unfolding e [symmetric] word_le_nat_alt [symmetric] by simp
  from Cons.IH [OF l(2) Cons.prems(2) this] show ?case using s l(1) by (auto intro: order_trans [of t0 ?t])
qed simp

text \<open>C8. A kernel launched with a pointer per parameter reaches the driver on the server with
  the dimensions and the stream of the call and one block of arguments, which holds the bytes each
  pointer points at where the kernel's layout has the parameter, and the launch counts as work on its
  stream whatever becomes of it.\<close>

theorem launched_kernel_gets_its_arguments:
  assumes "fetch_layout send f (sh, c) = (Some slots, (sh1, c1))" and "laid_out 0 slots hi" and "hi < 2 ^ 64"
    and "args_given slots bss" and "dims = [gx, gy, gz, bx, bd, bz, sm]"
  shows "\<exists>args req. args_at slots bss args
    \<and> launch_common send post f dims stream (Some (map Some bss)) None (sh, c)
      = (case post API_rgpu_launch (bdata (launch_request f dims stream args)) c1 of
          (r, c2) \<Rightarrow> (r, (sh1\<lparr> sh_pending := work_on stream (sh_pending sh1) \<rparr>, c2)))
    \<and> bok req \<and> handle_launch drv (buffer_of (bdata (launch_request f dims stream args))) rsp s
      = (case sv_call drv (LaunchKernel f dims stream (if args = [] then None else Some args)) s of
          ((r, outs), s1) \<Rightarrow> (r, req, rsp, s1))"
proof -
  let ?blob = "replicate (unat (blob_size slots)) (0 :: byte)"
  have "laid_out 0 slots (length ?blob)"
    using blob_ends [OF assms(2,3), of 0] by (simp add: blob_size_def)
  then obtain args where a: "place_args slots (map Some bss) ?blob = Some args" "length args = length ?blob" "args_at slots bss args"
    using placed [of 0 slots ?blob bss] assms(4) by auto
  have "length args < 2 ^ 64" using a(2) unsigned_less [of "blob_size slots"] by simp
  from launch_read_back [OF this assms(5), of drv f stream rsp s] obtain req where
    q: "bok req" "handle_launch drv (buffer_of (bdata (launch_request f dims stream args))) rsp s
      = (case sv_call drv (LaunchKernel f dims stream (if args = [] then None else Some args)) s of
          ((r, outs), s1) \<Rightarrow> (r, req, rsp, s1))" by blast
  have "launch_common send post f dims stream (Some (map Some bss)) None (sh, c)
      = (case post API_rgpu_launch (bdata (launch_request f dims stream args)) c1 of
          (r, c2) \<Rightarrow> (r, (sh1\<lparr> sh_pending := work_on stream (sh_pending sh1) \<rparr>, c2)))"
    using a(1) assms(1) by (simp add: launch_common_def pack_args_def)
  then show ?thesis using a(3) q by blast
qed

theorem launched_kernel_gets_its_arguments_witness:
  "\<exists>args. args_at [(0, 2), (8, 4)] [[1, 2], [3, 4, 5, 6]] args
     \<and> fst (launch_common (\<lambda>_ _ c. ((CUDA_SUCCESS, []), c)) (\<lambda>api payload c. (CUDA_SUCCESS, payload)) 7 [1, 1, 1, 32, 1, 1, 0] 5
         (Some [Some [1, 2], Some [3, 4, 5, 6]]) None (new_shim\<lparr> sh_layouts := [7 \<mapsto> [(0, 2), (8, 4)]] \<rparr>, [])) = CUDA_SUCCESS
     \<and> fst (handle_launch fake_driver (buffer_of (bdata (launch_request 7 [1, 1, 1, 32, 1, 1, 0] 5 args))) empty_buffer demo_sv)
       = fst (fst (sv_call fake_driver (LaunchKernel 7 [1, 1, 1, 32, 1, 1, 0] 5 (if args = [] then None else Some args)) demo_sv))"
proof -
  let ?sh = "new_shim\<lparr> sh_layouts := [7 \<mapsto> [(0, 2), (8, 4)]] \<rparr>" and ?bss = "[[1, 2], [3, 4, 5, 6]] :: byte list list"
  let ?send = "\<lambda>(_ :: u32) (_ :: byte list) (c :: byte list). ((CUDA_SUCCESS, [] :: byte list), c)"
  let ?post = "\<lambda>(_ :: u32) (payload :: byte list) (c :: byte list). (CUDA_SUCCESS, payload)"
  have f: "fetch_layout ?send 7 (?sh, []) = (Some [(0, 2), (8, 4)], (?sh, []))" by (simp add: fetch_layout_def)
  have l: "laid_out 0 [(0, 2), (8, 4)] 12" and g: "args_given [(0, 2), (8, 4)] ?bss" by (simp_all add: args_given_def)
  have "(12 :: nat) < 2 ^ 64" by simp
  from launched_kernel_gets_its_arguments [OF f l this g refl, where post = ?post and gx = 1 and gy = 1 and gz = 1
      and bx = 32 and bd = 1 and bz = 1 and sm = 0 and stream = 5 and drv = fake_driver and rsp = empty_buffer and s = demo_sv]
  obtain args req where "args_at [(0, 2), (8, 4)] ?bss args"
    "launch_common ?send ?post 7 [1, 1, 1, 32, 1, 1, 0] 5 (Some (map Some ?bss)) None (?sh, [])
      = (CUDA_SUCCESS, (?sh\<lparr> sh_pending := work_on 5 (sh_pending ?sh) \<rparr>, bdata (launch_request 7 [1, 1, 1, 32, 1, 1, 0] 5 args)))"
    "handle_launch fake_driver (buffer_of (bdata (launch_request 7 [1, 1, 1, 32, 1, 1, 0] 5 args))) empty_buffer demo_sv
      = (case sv_call fake_driver (LaunchKernel 7 [1, 1, 1, 32, 1, 1, 0] 5 (if args = [] then None else Some args)) demo_sv of
          ((r, outs), s1) \<Rightarrow> (r, req, empty_buffer, s1))"
    by auto
  then show ?thesis by (intro exI [of _ args]) (simp add: case_prod_beta)
qed

section \<open>The server's own calls\<close>

text \<open>The server's handler as the other end of a connection on which nothing is lost.\<close>

definition handled :: "'d handler \<Rightarrow> byte list \<Rightarrow> 'd sv \<Rightarrow> (CUresult \<times> byte list) \<times> 'd sv" where
  "handled h payload s = (case h (buffer_of payload) empty_buffer s of (r, req, rsp, s1) \<Rightarrow>
     ((if bok req then (r, bdata rsp) else (CUDA_ERROR_INVALID_VALUE, [])), s1))"

definition own_calls :: "'d driver \<Rightarrow> 'd sv sender" where
  "own_calls drv api payload s = (case dispatch_internal drv api of
       None \<Rightarrow> ((CUDA_ERROR_NOT_SUPPORTED, []), s)
     | Some h \<Rightarrow> handled h payload s)"

lemma own_call_ids [simp]:
  "dispatch_internal drv API_rgpu_param_layout = Some (handle_param_layout drv)"
  "dispatch_internal drv API_rgpu_capture_info = Some (handle_capture_info drv)"
  "dispatch_internal drv API_rgpu_graph_nodes = Some (handle_graph_nodes drv)"
  "dispatch_internal drv API_rgpu_capture_mode = Some (handle_capture_mode drv)"
  "dispatch_internal drv API_rgpu_device_attrs = Some (handle_device_attrs drv)"
  by (simp_all add: dispatch_internal_def API_rgpu_param_layout_def API_rgpu_launch_def API_rgpu_hello_def
      API_rgpu_capture_info_def API_rgpu_graph_nodes_def API_rgpu_capture_mode_def API_rgpu_device_attrs_def kInternalBase_def)

lemma put_empty: "bdata (buf_put n v empty_buffer) = le_enc n v"
  by (simp add: buf_put_def empty_buffer_def)

lemma put_flag_bytes: "bdata (put_flag there b) = bdata b @ [if there then 1 else 0]"
  by (simp add: put_flag_def buf_put_def)

lemma capture_mode_comes_back:
  "cuThreadExchangeStreamCaptureMode (own_calls drv) (Some m) s
   = (case client_threads_exchange_capture_mode drv m (sv_threads s, sv_world s) of ((r, old), (ts, w)) \<Rightarrow>
       ((r, if r = CUDA_SUCCESS then Some old else None), s\<lparr> sv_threads := ts, sv_world := w \<rparr>))"
  by (simp add: cuThreadExchangeStreamCaptureMode_def own_calls_def handled_def handle_capture_mode_def put_empty
      buffer_of_reading Let_def split: prod.split)

lemma capture_info_comes_back:
  assumes "\<And>r outs s1. sv_call drv (StreamGetCaptureInfo stream want) s = ((r, outs), s1) \<Longrightarrow> 8 * length outs < 2 ^ 64"
  shows "cuStreamGetCaptureInfo_v2 (own_calls drv) stream want s
   = (case sv_call drv (StreamGetCaptureInfo stream want) s of ((r, outs), s1) \<Rightarrow>
       ((r, if r = CUDA_SUCCESS
            then Some \<lparr> ci_status = ucast (out_at 0 outs), ci_id = out_at 1 outs, ci_graph = out_at 2 outs,
                   ci_count = out_at 3 outs, ci_deps = (if want then Some (concat (map (le_enc 8) (drop 4 outs))) else None) \<rparr>
            else None), s1))"
proof -
  obtain r outs s1 where d: "sv_call drv (StreamGetCaptureInfo stream want) s = ((r, outs), s1)" by (metis surj_pair)
  have "length (concat (map (le_enc 8) (drop 4 outs))) \<le> 8 * length outs"
    by (simp add: length_concat comp_def sum_list_triv)
  then have n: "length (concat (map (le_enc 8) (drop 4 outs))) < 2 ^ 64" using assms [OF d] by simp
  show ?thesis
    using n d by (cases want) (auto simp: cuStreamGetCaptureInfo_v2_def own_calls_def handled_def handle_capture_info_def put_empty
        put_flag_bytes buffer_of_reading read_capture_info_def buf_put_def empty_buffer_def sized_field.put_appends numeral_3_eq_3)
qed

text \<open>The runs of fields in the replies, as codecs.\<close>

definition enc_pair :: "u64 \<times> u64 \<Rightarrow> byte list" where
  "enc_pair p = le_enc 8 (fst p) @ le_enc 8 (snd p)"

definition put_attr :: "bool \<times> u32 \<Rightarrow> buffer \<Rightarrow> buffer" where
  "put_attr a b = buf_put 4 (snd a) (buf_put 1 (if fst a then 1 else 0 :: byte) b)"

definition enc_attr :: "bool \<times> u32 \<Rightarrow> byte list" where
  "enc_attr a = le_enc 1 (if fst a then 1 else 0 :: byte) @ le_enc 4 (snd a)"

lemma two_reads:
  fixes v :: "'a::len word" and w :: "'b::len word"
  assumes "bok b" and "unread b = le_enc m v @ le_enc n w @ r" and "LENGTH('a) \<le> 8 * m" and "LENGTH('b) \<le> 8 * n"
  shows "buf_get m b = (Some v, b\<lparr> bread := bread b + m \<rparr>)"
    and "buf_get n (b\<lparr> bread := bread b + m \<rparr>) = (Some w, b\<lparr> bread := bread b + (m + n) \<rparr>)"
proof -
  show "buf_get m b = (Some v, b\<lparr> bread := bread b + m \<rparr>)" using assms by (intro buf_get_reads) auto
  have "unread (b\<lparr> bread := bread b + m \<rparr>) = le_enc n w @ r"
    using assms(2) by (simp add: add.commute flip: drop_drop)
  then show "buf_get n (b\<lparr> bread := bread b + m \<rparr>) = (Some w, b\<lparr> bread := bread b + (m + n) \<rparr>)"
    using assms(1,4) buf_get_reads [of "b\<lparr> bread := bread b + m \<rparr>" n w r] by (simp add: add.assoc)
qed

text \<open>Two fields of fixed width read one after the other.\<close>

lemma two_fields_frame:
  fixes b :: buffer
  assumes "(case buf_get m b of (None, b1) \<Rightarrow> (None, b1)
      | (Some x, b1) \<Rightarrow> (case buf_get n b1 of (None, b2) \<Rightarrow> (None, b2)
          | (Some y, b2) \<Rightarrow> (Some (k (x :: 'a::len word) (y :: 'b::len word)), b2))) = (v, b')"
  shows "bok b' \<longleftrightarrow> v \<noteq> None" and "bdata b' = bdata b" and "buf_wf b \<Longrightarrow> buf_wf b'" and "\<not> bok b \<Longrightarrow> v = None"
proof -
  obtain x b1 where x: "buf_get m b = (x :: 'a word option, b1)" by (cases "buf_get m b :: 'a word option \<times> _")
  obtain y b2 where y: "buf_get n b1 = (y :: 'b word option, b2)" by (cases "buf_get n b1 :: 'b word option \<times> _")
  note ox = buf_get_ok [OF x] and oy = buf_get_ok [OF y]
  have d: "bdata b1 = bdata b" "bdata b2 = bdata b1"
    using buf_get_frame(1) [where 'a = 'a, of m b] buf_get_frame(1) [where 'a = 'b, of n b1] x y by simp_all
  have w: "buf_wf b \<Longrightarrow> buf_wf b1" "buf_wf b1 \<Longrightarrow> buf_wf b2"
    using buf_get_wf [where 'a = 'a, of b m] buf_get_wf [where 'a = 'b, of b1 n] x y by simp_all
  have st: "\<not> bok b \<Longrightarrow> x = None" using buf_get_sticky [where 'a = 'a, of b m] x by simp
  show "bok b' \<longleftrightarrow> v \<noteq> None" using assms x y ox oy by (auto split: option.splits)
  show "bdata b' = bdata b" using assms x y d by (auto split: option.splits)
  show "buf_wf b \<Longrightarrow> buf_wf b'" using assms x y w by (auto split: option.splits)
  show "\<not> bok b \<Longrightarrow> v = None" using assms x st by (auto split: option.splits)
qed

interpretation slot_field: field_codec put_pair get_slot enc_pair "\<lambda>_. True"
proof unfold_locales
  fix v :: "u64 \<times> u64" and b :: buffer and r
  show "put_pair v b = b\<lparr> bdata := bdata b @ enc_pair v \<rparr>" by (simp add: put_pair_def buf_put_def enc_pair_def)
  assume b: "bok b" "unread b = enc_pair v @ r"
  then have "unread b = le_enc 8 (fst v) @ le_enc 8 (snd v) @ r" by (simp add: enc_pair_def)
  from two_reads [OF b(1) this] show "get_slot b = (Some v, b\<lparr> bread := bread b + length (enc_pair v) \<rparr>)"
    by (simp add: get_slot_def enc_pair_def)
next
  fix b :: buffer
  obtain v b' where "get_slot b = (v, b')" by (cases "get_slot b")
  then show "bok (snd (get_slot b)) \<longleftrightarrow> fst (get_slot b) \<noteq> None" "bdata (snd (get_slot b)) = bdata b"
    "buf_wf b \<Longrightarrow> buf_wf (snd (get_slot b))" "\<not> bok b \<Longrightarrow> fst (get_slot b) = None"
    using two_fields_frame [where m = 8 and n = 8 and b = b and k = "\<lambda>x y. (x :: u64, y :: u64)" and v = v and b' = b'] by (auto simp: get_slot_def)
qed

interpretation attr_field: field_codec put_attr get_attr enc_attr "\<lambda>_. True"
proof unfold_locales
  fix v :: "bool \<times> u32" and b :: buffer and r
  show "put_attr v b = b\<lparr> bdata := bdata b @ enc_attr v \<rparr>" by (simp add: put_attr_def buf_put_def enc_attr_def)
  assume b: "bok b" "unread b = enc_attr v @ r"
  then have "unread b = le_enc 1 (if fst v then 1 else 0 :: byte) @ le_enc 4 (snd v) @ r" by (simp add: enc_attr_def)
  from two_reads [OF b(1) this] show "get_attr b = (Some v, b\<lparr> bread := bread b + length (enc_attr v) \<rparr>)"
    by (cases v) (simp add: get_attr_def enc_attr_def)
next
  fix b :: buffer
  obtain v b' where "get_attr b = (v, b')" by (cases "get_attr b")
  then show "bok (snd (get_attr b)) \<longleftrightarrow> fst (get_attr b) \<noteq> None" "bdata (snd (get_attr b)) = bdata b"
    "buf_wf b \<Longrightarrow> buf_wf (snd (get_attr b))" "\<not> bok b \<Longrightarrow> fst (get_attr b) = None"
    using two_fields_frame [where m = 1 and n = 4 and b = b and k = "\<lambda>x y. ((x :: byte) \<noteq> 0, y :: u32)" and v = v and b' = b'] by (auto simp: get_attr_def)
qed

lemma param_slots_result:
  "param_slots drv f i slots s = (res, s') \<Longrightarrow>
   (case res of Inl r \<Rightarrow> r \<noteq> CUDA_SUCCESS | Inr slots' \<Rightarrow> length slots' \<le> length slots + (1026 - i))"
proof (induction "1026 - i" arbitrary: i slots s)
  case 0
  obtain q outs s1 where c: "sv_call drv (FuncGetParamInfo f (of_nat i)) s = ((q, outs), s1)" by (metis surj_pair)
  show ?case using 0 unfolding param_slots_step [OF c] by (auto split: if_splits)
next
  case (Suc n)
  obtain q outs s1 where c: "sv_call drv (FuncGetParamInfo f (of_nat i)) s = ((q, outs), s1)" by (metis surj_pair)
  show ?case
  proof (cases "q = CUDA_SUCCESS \<and> \<not> i > 1024")
    case True
    let ?more = "slots @ [(out_at 0 outs, out_at 1 outs)]"
    have n: "n = 1026 - Suc i" using Suc.hyps(2) by simp
    have "param_slots drv f (Suc i) ?more s1 = (res, s')"
      using Suc.prems True unfolding param_slots_step [OF c] by simp
    from Suc.hyps(1) [OF n this] show ?thesis using True by (auto split: sum.splits)
  next
    case False
    then show ?thesis using Suc.prems unfolding param_slots_step [OF c] by (auto split: if_splits)
  qed
qed

lemma layout_comes_back:
  assumes "sh_layouts sh f = None"
  shows "fetch_layout (own_calls drv) f (sh, s) = (case param_slots drv f 0 [] s of
       (Inl r, s1) \<Rightarrow> (None, (sh, s1))
     | (Inr slots, s1) \<Rightarrow> (Some slots, (sh\<lparr> sh_layouts := (sh_layouts sh)(f \<mapsto> slots) \<rparr>, s1)))"
proof -
  obtain res s1 where p: "param_slots drv f 0 [] s = (res, s1)" by fastforce
  show ?thesis
  proof (cases res)
    case (Inl r)
    have "r \<noteq> CUDA_SUCCESS" using param_slots_result [OF p] Inl by simp
    with Inl p assms show ?thesis
      by (simp add: fetch_layout_def own_calls_def handled_def handle_param_layout_def put_empty buffer_of_reading)
  next
    case (Inr slots)
    have "length slots \<le> 1026" using param_slots_result [OF p] Inr by simp
    then have n: "unat (of_nat (length slots) :: u32) = length slots" by (simp add: unat_of_nat)
    let ?r = "concat (map enc_pair slots)"
    have "bdata (put_all put_pair slots (buf_put 4 (of_nat (length slots) :: u32) empty_buffer))
        = le_enc 4 (of_nat (length slots) :: u32) @ ?r"
      by (simp add: slot_field.put_all_appends buf_put_def empty_buffer_def)
    moreover have "fst (get_all get_slot (length slots) (reading (le_enc 4 (of_nat (length slots) :: u32)) ?r)) = Some slots"
      using slot_field.run_reads [of slots "reading (le_enc 4 (of_nat (length slots) :: u32)) ?r" "[]"] by (simp add: reading_def)
    ultimately show ?thesis using Inr p assms n
      by (simp add: fetch_layout_def own_calls_def handled_def handle_param_layout_def put_empty buffer_of_reading read_layout_def)
  qed
qed

text \<open>The driver asked for each attribute in turn.\<close>

fun attr_results :: "'d driver \<Rightarrow> int \<Rightarrow> u32 list \<Rightarrow> 'd sv \<Rightarrow> (bool \<times> u32) list \<times> 'd sv" where
  "attr_results drv dev [] s = ([], s)"
| "attr_results drv dev (a # as) s = (case sv_call drv (DeviceGetAttribute a dev) s of ((r, outs), s1) \<Rightarrow>
     (case attr_results drv dev as s1 of (vs, s2) \<Rightarrow>
       ((r = CUDA_SUCCESS, if r = CUDA_SUCCESS then ucast (out0 outs) else 0) # vs, s2)))"

lemma device_attrs_results:
  "device_attrs drv dev (length as) (reading pre (concat (map (le_enc 4) as))) rsp s
   = (case attr_results drv dev as s of (vs, s1) \<Rightarrow>
       (CUDA_SUCCESS, reading (pre @ concat (map (le_enc 4) as)) [], put_all put_attr vs rsp, s1))"
  by (induction as arbitrary: pre rsp s) (auto simp: put_attr_def split: prod.split)

lemma attr_results_length: "attr_results drv dev as s = (vs, s1) \<Longrightarrow> length vs = length as"
  by (induction as arbitrary: s vs) (auto split: prod.splits)

lemma attributes_come_back:
  assumes "length as \<le> 4096"
  shows "device_attributes (own_calls drv) dev as s
   = (case attr_results drv (sint dev) as s of (vs, s1) \<Rightarrow> (Some vs, s1))"
proof -
  have n: "unat (of_nat (length as) :: u32) = length as" using assms by (simp add: unat_of_nat)
  then have le: "\<not> (of_nat (length as) :: u32) > 4096" using assms by (simp add: word_less_nat_alt)
  obtain vs s1 where a: "attr_results drv (sint dev) as s = (vs, s1)" by fastforce
  have v: "length vs = length as" using attr_results_length [OF a] .
  have b: "bdata (attrs_request dev as) = le_enc 4 dev @ le_enc 4 (of_nat (length as) :: u32) @ concat (map (le_enc 4) as)"
    by (simp add: attrs_request_def u32_field.put_all_appends buf_put_def empty_buffer_def)
  have "handle_device_attrs drv (buffer_of (bdata (attrs_request dev as))) empty_buffer s
      = (CUDA_SUCCESS, reading (bdata (attrs_request dev as)) [], put_all put_attr vs empty_buffer, s1)"
    using le n a by (simp add: b buffer_of_reading handle_device_attrs_def device_attrs_results)
  then show ?thesis using a v attr_field.run_roundtrip [of vs]
    by (simp add: device_attributes_def own_calls_def handled_def)
qed

text \<open>C13. The calls that only client and server know come back as the server's handlers gave them:
  a kernel's parameter layout, which the client keeps, the values of a device's attributes, the capture
  mode a thread had and the state of a stream's capture with its dependencies.\<close>

theorem own_calls_come_back:
  assumes "sh_layouts sh f = None" and "length as \<le> 4096"
    and "\<And>r outs s1. sv_call drv (StreamGetCaptureInfo stream want) s = ((r, outs), s1) \<Longrightarrow> 8 * length outs < 2 ^ 64"
  shows "fetch_layout (own_calls drv) f (sh, s) = (case param_slots drv f 0 [] s of
       (Inl r, s1) \<Rightarrow> (None, (sh, s1))
     | (Inr slots, s1) \<Rightarrow> (Some slots, (sh\<lparr> sh_layouts := (sh_layouts sh)(f \<mapsto> slots) \<rparr>, s1)))
    \<and> device_attributes (own_calls drv) dev as s
      = (case attr_results drv (sint dev) as s of (vs, s1) \<Rightarrow> (Some vs, s1))
    \<and> cuThreadExchangeStreamCaptureMode (own_calls drv) (Some m) s
      = (case client_threads_exchange_capture_mode drv m (sv_threads s, sv_world s) of ((r, old), (ts, w)) \<Rightarrow>
          ((r, if r = CUDA_SUCCESS then Some old else None), s\<lparr> sv_threads := ts, sv_world := w \<rparr>))
    \<and> cuStreamGetCaptureInfo_v2 (own_calls drv) stream want s
      = (case sv_call drv (StreamGetCaptureInfo stream want) s of ((r, outs), s1) \<Rightarrow>
          ((r, if r = CUDA_SUCCESS
               then Some \<lparr> ci_status = ucast (out_at 0 outs), ci_id = out_at 1 outs, ci_graph = out_at 2 outs,
                      ci_count = out_at 3 outs, ci_deps = (if want then Some (concat (map (le_enc 8) (drop 4 outs))) else None) \<rparr>
               else None), s1))"
  using layout_comes_back [OF assms(1)] attributes_come_back [OF assms(2)] capture_mode_comes_back
    capture_info_comes_back [OF assms(3)] by (intro conjI) assumption+

theorem own_calls_come_back_witness:
  "fetch_layout (own_calls fake_driver) 7 (new_shim, demo_sv) = (case param_slots fake_driver 7 0 [] demo_sv of
       (Inl r, s1) \<Rightarrow> (None, (new_shim, s1))
     | (Inr slots, s1) \<Rightarrow> (Some slots, (new_shim\<lparr> sh_layouts := [7 \<mapsto> slots] \<rparr>, s1)))
   \<and> snd (attr_results fake_driver 0 [1, 2] demo_sv) = snd (device_attributes (own_calls fake_driver) 0 [1, 2] demo_sv)"
proof -
  have none: "8 * length outs < 2 ^ 64"
    if "sv_call fake_driver (StreamGetCaptureInfo 5 True) demo_sv = ((r, outs), s1)" for r outs and s1 :: "fake sv"
    using that by (auto simp: sv_call_def dcall_def fake_driver_def split: prod.splits)
  have "sh_layouts new_shim 7 = None" "length [1, 2 :: u32] \<le> 4096" by (simp_all add: new_shim_def)
  note own = own_calls_come_back [OF this, where m = 0 and dev = 0 and drv = fake_driver and s = demo_sv
      and stream = 5 and want = True]
  have f: "fetch_layout (own_calls fake_driver) 7 (new_shim, demo_sv) = (case param_slots fake_driver 7 0 [] demo_sv of
       (Inl r, s1) \<Rightarrow> (None, (new_shim, s1))
     | (Inr slots, s1) \<Rightarrow> (Some slots, (new_shim\<lparr> sh_layouts := (sh_layouts new_shim)(7 \<mapsto> slots) \<rparr>, s1)))"
    by (rule conjunct1 [OF own]) (erule none)
  have d: "device_attributes (own_calls fake_driver) 0 [1, 2] demo_sv
      = (case attr_results fake_driver (sint (0 :: u32)) [1, 2] demo_sv of (vs, s1) \<Rightarrow> (Some vs, s1))"
    by (rule conjunct1 [OF conjunct2 [OF own]]) (erule none)
  have n: "sh_layouts new_shim = Map.empty" by (simp add: new_shim_def)
  show ?thesis using f unfolding d n by (simp add: case_prod_beta)
qed

end
