(* ===== verification/Runtime.thy ===== *)
theory Runtime
  imports Shim
begin

text \<open>
  The CUDA runtime API (\<^verbatim>\<open>client/cudart_impl.cpp\<close>), which is translated into driver calls: the error
  each thread remembers, the context a thread's device needs, memory, streams and events, the registry
  of kernels and their lazy loading, launches, occupancy, device properties and graphs. The driver
  entry points are those of the client's own driver library; here they are one parameter, a function of
  a call and a state, which includes the memory of the process.
\<close>

section \<open>Errors\<close>

datatype cudaError =
    cudaSuccess | cudaErrorInvalidValue | cudaErrorMemoryAllocation | cudaErrorInitializationError
  | cudaErrorCudartUnloading | cudaErrorInvalidConfiguration | cudaErrorNoDevice | cudaErrorInvalidDevice
  | cudaErrorInvalidKernelImage | cudaErrorDeviceUninitialized | cudaErrorInvalidResourceHandle
  | cudaErrorSymbolNotFound | cudaErrorNotReady | cudaErrorIllegalAddress | cudaErrorLaunchFailure
  | cudaErrorLaunchOutOfResources | cudaErrorLaunchTimeout | cudaErrorNotSupported
  | cudaErrorFileNotFound | cudaErrorUnknown

text \<open>The results by their numbers in the header: 4 is \<open>CUDA_ERROR_DEINITIALIZED\<close>, 100 and 101 no and an
  invalid device, 200 an invalid image, 301 a missing file, 400 an invalid handle, 600 not ready, 700 to
  702 an illegal address, out of resources and a timeout of a launch, 719 a failed launch.\<close>

definition from_cu :: "CUresult \<Rightarrow> cudaError" where
  "from_cu r =
     (if r = CUDA_SUCCESS then cudaSuccess
      else if r = CUDA_ERROR_INVALID_VALUE then cudaErrorInvalidValue
      else if r = CUDA_ERROR_OUT_OF_MEMORY then cudaErrorMemoryAllocation
      else if r = CUDA_ERROR_NOT_INITIALIZED then cudaErrorInitializationError
      else if r = 4 then cudaErrorCudartUnloading
      else if r = CUDA_ERROR_NO_DEVICE then cudaErrorNoDevice
      else if r = 101 then cudaErrorInvalidDevice
      else if r = 200 then cudaErrorInvalidKernelImage
      else if r = CUDA_ERROR_INVALID_CONTEXT then cudaErrorDeviceUninitialized
      else if r = 400 then cudaErrorInvalidResourceHandle
      else if r = CUDA_ERROR_NOT_FOUND then cudaErrorSymbolNotFound
      else if r = 600 then cudaErrorNotReady
      else if r = 700 then cudaErrorIllegalAddress
      else if r = 719 then cudaErrorLaunchFailure
      else if r = 701 then cudaErrorLaunchOutOfResources
      else if r = 702 then cudaErrorLaunchTimeout
      else if r = CUDA_ERROR_NOT_SUPPORTED then cudaErrorNotSupported
      else if r = 301 then cudaErrorFileNotFound
      else cudaErrorUnknown)"

section \<open>The driver library\<close>

text \<open>Pointers and handles are words; a host function and a host variable are the addresses that stand
  for them. \<open>Cu\<close> is a call of that name whose arguments, pointers to write through among them, are the
  words given; the others write to variables of their caller, and what they write there is the list a
  call returns. \<open>HostMemcpy\<close> is a copy within the process.\<close>

datatype cu_call =
    Cu string "u64 list" | CuInit | CuDeviceGet u32 | CuDeviceGetCount | CuDeviceGetAttribute u32 u32
  | CuDeviceGetName u32 | CuDeviceTotalMem u32 | CuDeviceGetUuid u32 | DeviceAttributes u32 "u32 list"
  | CuDevicePrimaryCtxRetain u32 | CuDevicePrimaryCtxRelease u32 | CuCtxSetCurrent u64
  | CuMemAlloc u64 | CuMemAllocAsync u64 u64 | HostMemcpy u64 u64 u64
  | CuStreamIsCapturing u64 | CuThreadExchangeStreamCaptureMode u32
  | CuModuleLoadData u64 | CuModuleGetFunction u64 string
  | CuFuncGetAttribute u32 u64 | CuOccupancy u64 u32 u64 u32
  | CuLaunchKernel u64 "u32 list" u64 "byte list option list option"
  | CuStreamEndCapture u64 | CuStreamGetCaptureInfo u64 bool bool bool bool
  | CuGraphInstantiateWithFlags u64 u64

type_synonym 'c libcuda = "cu_call \<Rightarrow> 'c \<Rightarrow> (CUresult \<times> u64 list) \<times> 'c"

text \<open>What a call wrote at a position; a variable it did not write keeps the zero it started with.\<close>

definition wrote :: "nat \<Rightarrow> u64 list \<Rightarrow> u64" where
  "wrote i outs = (if i < length outs then outs ! i else 0)"

section \<open>State\<close>

record module_entry =
  mo_image :: u64
  mo_loaded :: u64
  mo_tried :: bool

record kernel =
  kn_module :: nat
  kn_name :: string
  kn_fn :: u64
  kn_occupancy :: "u32 \<times> u32 \<times> u64 \<times> u32 \<rightharpoonup> u32"

datatype prop_value = Int_value u32 | Size_value u64

record device_prop =
  dp_name :: "u64 list"
  dp_total :: u64
  dp_uuid :: "u64 list"
  dp_fields :: "string \<rightharpoonup> prop_value"

record call_config =
  cc_grid :: "u32 list"
  cc_block :: "u32 list"
  cc_shared :: u64
  cc_stream :: u64

text \<open>The process: \<open>g_inited\<close>, \<open>g_primary\<close>, \<open>g_ctx_gen\<close>, \<open>g_device_allocs\<close>, \<open>g_modules\<close>, \<open>g_kernels\<close>,
  \<open>g_vars\<close> and \<open>g_props\<close>. A \<open>Module*\<close> is a number that is not given out again.\<close>

record runtime =
  rt_inited :: bool
  rt_primary :: "(u32 \<times> u64) list"
  rt_gen :: u64
  rt_allocs :: "(u64 \<times> u64) list"
  rt_modules :: "(nat \<times> module_entry) list"
  rt_next_module :: nat
  rt_kernels :: "(u64 \<times> kernel) list"
  rt_vars :: "u64 \<rightharpoonup> string"
  rt_props :: "u32 \<rightharpoonup> device_prop"

text \<open>A thread: \<open>t_last_error\<close>, \<open>t_device\<close>, \<open>t_ctx_gen\<close> and \<open>t_configs\<close>, the last pushed first.\<close>

record rt_thread =
  th_error :: cudaError
  th_device :: u32
  th_gen :: u64
  th_configs :: "call_config list"

definition new_runtime :: runtime where
  "new_runtime = \<lparr> rt_inited = False, rt_primary = [], rt_gen = 1, rt_allocs = [], rt_modules = [],
     rt_next_module = 1, rt_kernels = [], rt_vars = Map.empty, rt_props = Map.empty \<rparr>"

definition new_rt_thread :: rt_thread where
  "new_rt_thread = \<lparr> th_error = cudaSuccess, th_device = 0, th_gen = 0, th_configs = [] \<rparr>"

type_synonym 'c rt = "runtime \<times> rt_thread \<times> 'c"
type_synonym ('c, 'r) rt_op = "'c rt \<Rightarrow> 'r \<times> 'c rt"

text \<open>A call that returns an error and what it wrote.\<close>

type_synonym 'c rt_call = "('c, cudaError \<times> u64 list) rt_op"

definition record_error :: "cudaError \<Rightarrow> rt_thread \<Rightarrow> rt_thread" where
  "record_error e t = (if e \<noteq> cudaSuccess then t\<lparr> th_error := e \<rparr> else t)"

definition report_error :: "cudaError \<Rightarrow> u64 list \<Rightarrow> 'c rt_call" where
  "report_error e outs st = (case st of (p, t, c) \<Rightarrow> ((e, outs), (p, record_error e t, c)))"

definition record_cu :: "CUresult \<Rightarrow> u64 list \<Rightarrow> 'c rt_call" where
  "record_cu r = report_error (from_cu r)"

definition run_cu :: "'c libcuda \<Rightarrow> cu_call \<Rightarrow> ('c, CUresult \<times> u64 list) rt_op" where
  "run_cu lib call st = (case st of (p, t, c) \<Rightarrow> (case lib call c of (res, c1) \<Rightarrow> (res, (p, t, c1))))"

text \<open>\<open>return record_cu(...)\<close>\<close>

definition tail_call :: "'c libcuda \<Rightarrow> cu_call \<Rightarrow> 'c rt_call" where
  "tail_call lib call st = (case run_cu lib call st of ((r, outs), st1) \<Rightarrow> record_cu r outs st1)"

text \<open>A step that can fail, and what follows it: \<open>if (r != CUDA_SUCCESS) return record_cu(r)\<close>.\<close>

definition and_then :: "('c, CUresult \<times> 'v) rt_op \<Rightarrow> ('v \<Rightarrow> 'c rt_call) \<Rightarrow> 'c rt_call" where
  "and_then op k st = (case op st of ((r, v), st1) \<Rightarrow>
     (if r \<noteq> CUDA_SUCCESS then record_cu r [] st1 else k v st1))"

section \<open>Device and context\<close>

definition ensure_init :: "'c libcuda \<Rightarrow> ('c, CUresult \<times> unit) rt_op" where
  "ensure_init lib st = (case st of (p, t, c) \<Rightarrow>
     (if rt_inited p then ((CUDA_SUCCESS, ()), st)
      else case lib CuInit c of ((r, outs), c1) \<Rightarrow>
        ((r, ()), (if r = CUDA_SUCCESS then p\<lparr> rt_inited := True \<rparr> else p, t, c1))))"

text \<open>The part under \<open>g_ctx_mu\<close>: the context of the thread's device, retained if it is not yet, with the
  generation it belongs to.\<close>

definition find_context :: "'c libcuda \<Rightarrow> ('c, CUresult \<times> u64 \<times> u64) rt_op" where
  "find_context lib st = (case st of (p, t, c) \<Rightarrow>
     (case map_of (rt_primary p) (th_device t) of
        Some ctx \<Rightarrow> ((CUDA_SUCCESS, (ctx, rt_gen p)), st)
      | None \<Rightarrow> (case lib (CuDeviceGet (th_device t)) c of ((r, outs), c1) \<Rightarrow>
          (if r \<noteq> CUDA_SUCCESS then ((r, (0, rt_gen p)), (p, t, c1))
           else case lib (CuDevicePrimaryCtxRetain (ucast (wrote 0 outs))) c1 of ((r, outs), c2) \<Rightarrow>
             (if r \<noteq> CUDA_SUCCESS then ((r, (0, rt_gen p)), (p, t, c2))
              else ((CUDA_SUCCESS, (wrote 0 outs, rt_gen p)),
                    (p\<lparr> rt_primary := AList.update (th_device t) (wrote 0 outs) (rt_primary p) \<rparr>, t, c2)))))))"

definition select_context :: "'c libcuda \<Rightarrow> u64 \<Rightarrow> u64 \<Rightarrow> ('c, CUresult \<times> unit) rt_op" where
  "select_context lib ctx gen st = (case st of (p, t, c) \<Rightarrow>
     (case lib (CuCtxSetCurrent ctx) c of ((r, outs), c1) \<Rightarrow>
        ((r, ()), (p, if r = CUDA_SUCCESS then t\<lparr> th_gen := gen \<rparr> else t, c1))))"

definition context_selected :: "runtime \<Rightarrow> rt_thread \<Rightarrow> bool" where
  "context_selected p t \<longleftrightarrow> th_gen t = rt_gen p"

definition ensure_context :: "'c libcuda \<Rightarrow> ('c, CUresult \<times> unit) rt_op" where
  "ensure_context lib st = (case ensure_init lib st of ((r, _), (p, t, c)) \<Rightarrow>
     (if r \<noteq> CUDA_SUCCESS then ((r, ()), (p, t, c))
      else if context_selected p t then ((CUDA_SUCCESS, ()), (p, t, c))
      else case find_context lib (p, t, c) of ((r, (ctx, gen)), st1) \<Rightarrow>
        (if r \<noteq> CUDA_SUCCESS then ((r, ()), st1) else select_context lib ctx gen st1)))"

text \<open>Most calls: the context, then the driver's call.\<close>

definition in_context :: "'c libcuda \<Rightarrow> cu_call \<Rightarrow> 'c rt_call" where
  "in_context lib call = and_then (ensure_context lib) (\<lambda>_. tail_call lib call)"

definition cudaRuntimeGetVersion :: "u32 \<Rightarrow> u64 \<Rightarrow> 'c rt_call" where
  "cudaRuntimeGetVersion built version =
     (if version = 0 then report_error cudaErrorInvalidValue [] else (\<lambda>st. ((cudaSuccess, [ucast built]), st)))"

definition cudaDriverGetVersion :: "'c libcuda \<Rightarrow> u64 \<Rightarrow> 'c rt_call" where
  "cudaDriverGetVersion lib version =
     (if version = 0 then report_error cudaErrorInvalidValue [] else tail_call lib (Cu ''cuDriverGetVersion'' [version]))"

definition cudaGetLastError :: "'c rt_call" where
  "cudaGetLastError st = (case st of (p, t, c) \<Rightarrow> ((th_error t, []), (p, t\<lparr> th_error := cudaSuccess \<rparr>, c)))"

definition cudaPeekAtLastError :: "'c rt_call" where
  "cudaPeekAtLastError st = (case st of (p, t, c) \<Rightarrow> ((th_error t, []), st))"

fun cudaGetErrorString :: "cudaError \<Rightarrow> string" where
  "cudaGetErrorString cudaSuccess = ''no error''"
| "cudaGetErrorString cudaErrorInvalidValue = ''invalid argument''"
| "cudaGetErrorString cudaErrorMemoryAllocation = ''out of memory''"
| "cudaGetErrorString cudaErrorInitializationError = ''initialization error''"
| "cudaGetErrorString cudaErrorNoDevice = ''no CUDA-capable device is detected''"
| "cudaGetErrorString cudaErrorInvalidDevice = ''invalid device ordinal''"
| "cudaGetErrorString cudaErrorNotSupported = ''operation not supported''"
| "cudaGetErrorString cudaErrorNotReady = ''device not ready''"
| "cudaGetErrorString cudaErrorSymbolNotFound = ''named symbol not found''"
| "cudaGetErrorString cudaErrorInvalidResourceHandle = ''invalid resource handle''"
| "cudaGetErrorString cudaErrorIllegalAddress = ''an illegal memory access was encountered''"
| "cudaGetErrorString cudaErrorLaunchFailure = ''unspecified launch failure''"
| "cudaGetErrorString _ = ''unknown error''"

fun cudaGetErrorName :: "cudaError \<Rightarrow> string" where
  "cudaGetErrorName cudaSuccess = ''cudaSuccess''"
| "cudaGetErrorName cudaErrorInvalidValue = ''cudaErrorInvalidValue''"
| "cudaGetErrorName cudaErrorMemoryAllocation = ''cudaErrorMemoryAllocation''"
| "cudaGetErrorName cudaErrorInitializationError = ''cudaErrorInitializationError''"
| "cudaGetErrorName cudaErrorNoDevice = ''cudaErrorNoDevice''"
| "cudaGetErrorName cudaErrorInvalidDevice = ''cudaErrorInvalidDevice''"
| "cudaGetErrorName cudaErrorNotSupported = ''cudaErrorNotSupported''"
| "cudaGetErrorName cudaErrorNotReady = ''cudaErrorNotReady''"
| "cudaGetErrorName _ = ''cudaErrorUnknown''"

section \<open>Devices\<close>

definition cudaGetDeviceCount :: "'c libcuda \<Rightarrow> u64 \<Rightarrow> 'c rt_call" where
  "cudaGetDeviceCount lib count =
     (if count = 0 then report_error cudaErrorInvalidValue []
      else and_then (ensure_init lib) (\<lambda>_. tail_call lib (Cu ''cuDeviceGetCount'' [count])))"

definition cudaGetDevice :: "u64 \<Rightarrow> 'c rt_call" where
  "cudaGetDevice device =
     (if device = 0 then report_error cudaErrorInvalidValue []
      else (\<lambda>(p, t, c). ((cudaSuccess, [ucast (th_device t)]), (p, t, c))))"

definition choose_device :: "u32 \<Rightarrow> rt_thread \<Rightarrow> rt_thread" where
  "choose_device device t = (if device \<noteq> th_device t then t\<lparr> th_device := device, th_gen := 0 \<rparr> else t)"

definition cudaSetDevice :: "'c libcuda \<Rightarrow> u32 \<Rightarrow> 'c rt_call" where
  "cudaSetDevice lib device =
     and_then (ensure_init lib) (\<lambda>_. and_then (run_cu lib CuDeviceGetCount) (\<lambda>outs (p, t, c).
       (if sint device < 0 \<or> sint device \<ge> sint (ucast (wrote 0 outs) :: u32)
        then report_error cudaErrorInvalidDevice [] (p, t, c)
        else case ensure_context lib (p, choose_device device t, c) of ((r, _), st1) \<Rightarrow> record_cu r [] st1)))"

text \<open>\<open>cuInit\<close>, then the device handle of an ordinal.\<close>

definition with_device :: "'c libcuda \<Rightarrow> u32 \<Rightarrow> (u32 \<Rightarrow> 'c rt_call) \<Rightarrow> 'c rt_call" where
  "with_device lib device k =
     and_then (ensure_init lib) (\<lambda>_. and_then (run_cu lib (CuDeviceGet device)) (\<lambda>outs. k (ucast (wrote 0 outs))))"

definition cudaDeviceGetAttribute :: "'c libcuda \<Rightarrow> u64 \<Rightarrow> u32 \<Rightarrow> u32 \<Rightarrow> 'c rt_call" where
  "cudaDeviceGetAttribute lib value attr device =
     (if value = 0 then report_error cudaErrorInvalidValue []
      else with_device lib device (\<lambda>dev. tail_call lib (Cu ''cuDeviceGetAttribute'' [value, ucast attr, ucast dev])))"

definition cudaDeviceSynchronize :: "'c libcuda \<Rightarrow> 'c rt_call" where
  "cudaDeviceSynchronize lib = in_context lib (Cu ''cuCtxSynchronize'' [])"

text \<open>A release is asked for every device that can still be named; the whole runs under \<open>g_ctx_mu\<close>.\<close>

fun release_primaries :: "'c libcuda \<Rightarrow> (u32 \<times> u64) list \<Rightarrow> 'c \<Rightarrow> 'c" where
  "release_primaries lib [] c = c"
| "release_primaries lib ((device, ctx) # es) c =
     (case lib (CuDeviceGet device) c of ((r, outs), c1) \<Rightarrow>
        release_primaries lib es
          (if r = CUDA_SUCCESS then snd (lib (CuDevicePrimaryCtxRelease (ucast (wrote 0 outs))) c1) else c1))"

definition cudaDeviceReset :: "'c libcuda \<Rightarrow> 'c rt_call" where
  "cudaDeviceReset lib st = (case st of (p, t, c) \<Rightarrow>
     ((cudaSuccess, []), (p\<lparr> rt_primary := [], rt_gen := rt_gen p + 1 \<rparr>, t, release_primaries lib (rt_primary p) c)))"

definition cudaMemGetInfo :: "'c libcuda \<Rightarrow> u64 \<Rightarrow> u64 \<Rightarrow> 'c rt_call" where
  "cudaMemGetInfo lib free everything = in_context lib (Cu ''cuMemGetInfo'' [free, everything])"

section \<open>Memory\<close>

definition note_alloc :: "u64 \<Rightarrow> u64 \<Rightarrow> runtime \<Rightarrow> runtime" where
  "note_alloc a n p = p\<lparr> rt_allocs := put_sorted a n (rt_allocs p) \<rparr>"

definition forget_alloc :: "u64 \<Rightarrow> runtime \<Rightarrow> runtime" where
  "forget_alloc a p = p\<lparr> rt_allocs := AList.delete a (rt_allocs p) \<rparr>"

text \<open>The entry before \<open>upper_bound\<close> is the last whose base is not above the pointer.\<close>

definition is_device_ptr :: "u64 \<Rightarrow> (u64 \<times> u64) list \<Rightarrow> bool" where
  "is_device_ptr v m =
     (if v = 0 then False
      else let below = filter (\<lambda>e. fst e \<le> v) m in
        if below = [] then False else v \<ge> fst (last below) \<and> v < fst (last below) + snd (last below))"

text \<open>\<open>cudaMemcpyKind\<close>; any other number is one the runtime refuses.\<close>

datatype copy_kind = HostToHost | HostToDevice | DeviceToHost | DeviceToDevice | Default | Other_kind

definition resolve_kind :: "u64 \<Rightarrow> u64 \<Rightarrow> copy_kind \<Rightarrow> runtime \<Rightarrow> copy_kind" where
  "resolve_kind dst src kind p =
     (if kind \<noteq> Default then kind
      else let d = is_device_ptr dst (rt_allocs p); s = is_device_ptr src (rt_allocs p) in
        if d \<and> s then DeviceToDevice else if d then HostToDevice else if s then DeviceToHost else HostToHost)"

text \<open>The driver's copy, on a stream or not.\<close>

definition copy_call :: "u64 \<Rightarrow> u64 \<Rightarrow> u64 \<Rightarrow> copy_kind \<Rightarrow> u64 option \<Rightarrow> cu_call option" where
  "copy_call dst src n kind stream = (case (kind, stream) of
       (HostToDevice, Some s) \<Rightarrow> Some (Cu ''cuMemcpyHtoDAsync'' [dst, src, n, s])
     | (HostToDevice, None) \<Rightarrow> Some (Cu ''cuMemcpyHtoD'' [dst, src, n])
     | (DeviceToHost, Some s) \<Rightarrow> Some (Cu ''cuMemcpyDtoHAsync'' [dst, src, n, s])
     | (DeviceToHost, None) \<Rightarrow> Some (Cu ''cuMemcpyDtoH'' [dst, src, n])
     | (DeviceToDevice, Some s) \<Rightarrow> Some (Cu ''cuMemcpyDtoDAsync'' [dst, src, n, s])
     | (DeviceToDevice, None) \<Rightarrow> Some (Cu ''cuMemcpyDtoD'' [dst, src, n])
     | (HostToHost, _) \<Rightarrow> Some (HostMemcpy dst src n)
     | _ \<Rightarrow> None)"

definition do_memcpy :: "'c libcuda \<Rightarrow> u64 \<Rightarrow> u64 \<Rightarrow> u64 \<Rightarrow> copy_kind \<Rightarrow> u64 option \<Rightarrow> 'c rt_call" where
  "do_memcpy lib dst src n kind stream st = (case st of (p, t, c) \<Rightarrow>
     (case copy_call dst src n (resolve_kind dst src kind p) stream of
        None \<Rightarrow> record_cu CUDA_ERROR_INVALID_VALUE [] st
      | Some call \<Rightarrow> (case run_cu lib call st of ((r, outs), st1) \<Rightarrow>
          record_cu (case call of HostMemcpy _ _ _ \<Rightarrow> CUDA_SUCCESS | _ \<Rightarrow> r) [] st1)))"

definition at_least_one :: "u64 \<Rightarrow> u64" where
  "at_least_one n = (if n = 0 then 1 else n)"

definition cudaMalloc :: "'c libcuda \<Rightarrow> u64 \<Rightarrow> u64 \<Rightarrow> 'c rt_call" where
  "cudaMalloc lib dev_ptr n =
     (if dev_ptr = 0 then report_error cudaErrorInvalidValue []
      else and_then (ensure_context lib) (\<lambda>_. and_then (run_cu lib (CuMemAlloc (at_least_one n))) (\<lambda>outs (p, t, c).
        ((cudaSuccess, [wrote 0 outs]), (note_alloc (wrote 0 outs) (at_least_one n) p, t, c)))))"

text \<open>After a free of \<open>d\<close>: forgotten where the driver freed it.\<close>

definition freed_alloc :: "u64 \<Rightarrow> CUresult \<Rightarrow> 'c rt_call" where
  "freed_alloc d r st = (case st of (p, t, c) \<Rightarrow>
     record_cu r [] (if r = CUDA_SUCCESS then forget_alloc d p else p, t, c))"

definition cudaFree :: "'c libcuda \<Rightarrow> u64 \<Rightarrow> 'c rt_call" where
  "cudaFree lib d =
     (if d = 0 then (\<lambda>st. ((cudaSuccess, []), st))
      else and_then (ensure_context lib) (\<lambda>_ st. (case run_cu lib (Cu ''cuMemFree'' [d]) st of
        ((r, outs), st1) \<Rightarrow> freed_alloc d r st1)))"

definition cudaMallocHost :: "'c libcuda \<Rightarrow> u64 \<Rightarrow> u64 \<Rightarrow> 'c rt_call" where
  "cudaMallocHost lib ptr n = in_context lib (Cu ''cuMemAllocHost'' [ptr, at_least_one n])"

definition cudaHostAlloc :: "'c libcuda \<Rightarrow> u64 \<Rightarrow> u64 \<Rightarrow> u32 \<Rightarrow> 'c rt_call" where
  "cudaHostAlloc lib ptr n flags = in_context lib (Cu ''cuMemHostAlloc'' [ptr, at_least_one n, ucast flags])"

definition cudaFreeHost :: "'c libcuda \<Rightarrow> u64 \<Rightarrow> 'c rt_call" where
  "cudaFreeHost lib ptr =
     (if ptr = 0 then (\<lambda>st. ((cudaSuccess, []), st)) else tail_call lib (Cu ''cuMemFreeHost'' [ptr]))"

definition cudaMemcpy :: "'c libcuda \<Rightarrow> u64 \<Rightarrow> u64 \<Rightarrow> u64 \<Rightarrow> copy_kind \<Rightarrow> 'c rt_call" where
  "cudaMemcpy lib dst src count kind =
     (if count = 0 then (\<lambda>st. ((cudaSuccess, []), st))
      else if dst = 0 \<or> src = 0 then report_error cudaErrorInvalidValue []
      else and_then (ensure_context lib) (\<lambda>_. do_memcpy lib dst src count kind None))"

definition cudaMemcpyAsync :: "'c libcuda \<Rightarrow> u64 \<Rightarrow> u64 \<Rightarrow> u64 \<Rightarrow> copy_kind \<Rightarrow> u64 \<Rightarrow> 'c rt_call" where
  "cudaMemcpyAsync lib dst src count kind stream =
     (if count = 0 then (\<lambda>st. ((cudaSuccess, []), st))
      else if dst = 0 \<or> src = 0 then report_error cudaErrorInvalidValue []
      else and_then (ensure_context lib) (\<lambda>_. do_memcpy lib dst src count kind (Some stream)))"

definition cudaMemset :: "'c libcuda \<Rightarrow> u64 \<Rightarrow> u32 \<Rightarrow> u64 \<Rightarrow> 'c rt_call" where
  "cudaMemset lib dev_ptr v count =
     (if count = 0 then (\<lambda>st. ((cudaSuccess, []), st))
      else in_context lib (Cu ''cuMemsetD8'' [dev_ptr, ucast (ucast v :: byte), count]))"

definition cudaMemsetAsync :: "'c libcuda \<Rightarrow> u64 \<Rightarrow> u32 \<Rightarrow> u64 \<Rightarrow> u64 \<Rightarrow> 'c rt_call" where
  "cudaMemsetAsync lib dev_ptr v count stream =
     (if count = 0 then (\<lambda>st. ((cudaSuccess, []), st))
      else in_context lib (Cu ''cuMemsetD8Async'' [dev_ptr, ucast (ucast v :: byte), count, stream]))"

definition cudaMallocAsync :: "'c libcuda \<Rightarrow> u64 \<Rightarrow> u64 \<Rightarrow> u64 \<Rightarrow> 'c rt_call" where
  "cudaMallocAsync lib dev_ptr n stream =
     (if dev_ptr = 0 then report_error cudaErrorInvalidValue []
      else and_then (ensure_context lib) (\<lambda>_. and_then (run_cu lib (CuMemAllocAsync (at_least_one n) stream))
        (\<lambda>outs (p, t, c). ((cudaSuccess, [wrote 0 outs]), (note_alloc (wrote 0 outs) (at_least_one n) p, t, c)))))"

definition cudaFreeAsync :: "'c libcuda \<Rightarrow> u64 \<Rightarrow> u64 \<Rightarrow> 'c rt_call" where
  "cudaFreeAsync lib d stream =
     (if d = 0 then (\<lambda>st. ((cudaSuccess, []), st))
      else (\<lambda>st. (case run_cu lib (Cu ''cuMemFreeAsync'' [d, stream]) st of ((r, outs), st1) \<Rightarrow> freed_alloc d r st1)))"

text \<open>Whether the pointer is a device pointer, the device, and the device and the host pointer.\<close>

definition cudaPointerGetAttributes :: "u64 \<Rightarrow> u64 \<Rightarrow> 'c rt \<Rightarrow> (cudaError \<times> (bool \<times> u32 \<times> u64 \<times> u64) option) \<times> 'c rt" where
  "cudaPointerGetAttributes attributes ptr st = (case st of (p, t, c) \<Rightarrow>
     (if attributes = 0 then ((cudaErrorInvalidValue, None), (p, record_error cudaErrorInvalidValue t, c))
      else if is_device_ptr ptr (rt_allocs p) then ((cudaSuccess, Some (True, th_device t, ptr, 0)), st)
      else ((cudaSuccess, Some (False, th_device t, 0, ptr)), st)))"

section \<open>Streams and events\<close>

definition cudaStreamCreate :: "'c libcuda \<Rightarrow> u64 \<Rightarrow> 'c rt_call" where
  "cudaStreamCreate lib out = in_context lib (Cu ''cuStreamCreate'' [out, 0])"

definition cudaStreamCreateWithFlags :: "'c libcuda \<Rightarrow> u64 \<Rightarrow> u32 \<Rightarrow> 'c rt_call" where
  "cudaStreamCreateWithFlags lib out flags = in_context lib (Cu ''cuStreamCreate'' [out, ucast flags])"

definition cudaStreamCreateWithPriority :: "'c libcuda \<Rightarrow> u64 \<Rightarrow> u32 \<Rightarrow> u32 \<Rightarrow> 'c rt_call" where
  "cudaStreamCreateWithPriority lib out flags priority =
     in_context lib (Cu ''cuStreamCreateWithPriority'' [out, ucast flags, ucast priority])"

definition cudaStreamDestroy :: "'c libcuda \<Rightarrow> u64 \<Rightarrow> 'c rt_call" where
  "cudaStreamDestroy lib stream = tail_call lib (Cu ''cuStreamDestroy'' [stream])"

definition cudaStreamSynchronize :: "'c libcuda \<Rightarrow> u64 \<Rightarrow> 'c rt_call" where
  "cudaStreamSynchronize lib stream = in_context lib (Cu ''cuStreamSynchronize'' [stream])"

definition cudaStreamQuery :: "'c libcuda \<Rightarrow> u64 \<Rightarrow> 'c rt_call" where
  "cudaStreamQuery lib stream = tail_call lib (Cu ''cuStreamQuery'' [stream])"

definition cudaStreamWaitEvent :: "'c libcuda \<Rightarrow> u64 \<Rightarrow> u64 \<Rightarrow> u32 \<Rightarrow> 'c rt_call" where
  "cudaStreamWaitEvent lib stream event flags = tail_call lib (Cu ''cuStreamWaitEvent'' [stream, event, ucast flags])"

definition cudaEventCreate :: "'c libcuda \<Rightarrow> u64 \<Rightarrow> 'c rt_call" where
  "cudaEventCreate lib out = in_context lib (Cu ''cuEventCreate'' [out, 0])"

definition cudaEventCreateWithFlags :: "'c libcuda \<Rightarrow> u64 \<Rightarrow> u32 \<Rightarrow> 'c rt_call" where
  "cudaEventCreateWithFlags lib out flags = in_context lib (Cu ''cuEventCreate'' [out, ucast flags])"

definition cudaEventDestroy :: "'c libcuda \<Rightarrow> u64 \<Rightarrow> 'c rt_call" where
  "cudaEventDestroy lib event = tail_call lib (Cu ''cuEventDestroy'' [event])"

definition cudaEventRecord :: "'c libcuda \<Rightarrow> u64 \<Rightarrow> u64 \<Rightarrow> 'c rt_call" where
  "cudaEventRecord lib event stream = tail_call lib (Cu ''cuEventRecord'' [event, stream])"

definition cudaEventRecordWithFlags :: "'c libcuda \<Rightarrow> u64 \<Rightarrow> u64 \<Rightarrow> u32 \<Rightarrow> 'c rt_call" where
  "cudaEventRecordWithFlags lib event stream flags = tail_call lib (Cu ''cuEventRecordWithFlags'' [event, stream, ucast flags])"

definition cudaEventSynchronize :: "'c libcuda \<Rightarrow> u64 \<Rightarrow> 'c rt_call" where
  "cudaEventSynchronize lib event = tail_call lib (Cu ''cuEventSynchronize'' [event])"

definition cudaEventQuery :: "'c libcuda \<Rightarrow> u64 \<Rightarrow> 'c rt_call" where
  "cudaEventQuery lib event = tail_call lib (Cu ''cuEventQuery'' [event])"

definition cudaEventElapsedTime :: "'c libcuda \<Rightarrow> u64 \<Rightarrow> u64 \<Rightarrow> u64 \<Rightarrow> 'c rt_call" where
  "cudaEventElapsedTime lib ms first last_event = tail_call lib (Cu ''cuEventElapsedTime'' [ms, first, last_event])"

definition cudaDeviceGetStreamPriorityRange :: "'c libcuda \<Rightarrow> u64 \<Rightarrow> u64 \<Rightarrow> 'c rt_call" where
  "cudaDeviceGetStreamPriorityRange lib least greatest = in_context lib (Cu ''cuCtxGetStreamPriorityRange'' [least, greatest])"

definition cudaStreamGetPriority :: "'c libcuda \<Rightarrow> u64 \<Rightarrow> u64 \<Rightarrow> 'c rt_call" where
  "cudaStreamGetPriority lib stream priority = tail_call lib (Cu ''cuStreamGetPriority'' [stream, priority])"

definition cudaStreamGetFlags :: "'c libcuda \<Rightarrow> u64 \<Rightarrow> u64 \<Rightarrow> 'c rt_call" where
  "cudaStreamGetFlags lib stream flags = tail_call lib (Cu ''cuStreamGetFlags'' [stream, flags])"

definition cudaGetDeviceFlags :: "'c libcuda \<Rightarrow> u64 \<Rightarrow> 'c rt_call" where
  "cudaGetDeviceFlags lib flags = in_context lib (Cu ''cuCtxGetFlags'' [flags])"

definition cudaSetDeviceFlags :: "'c libcuda \<Rightarrow> u32 \<Rightarrow> 'c rt_call" where
  "cudaSetDeviceFlags lib flags st = (case st of (p, t, c) \<Rightarrow>
     with_device lib (th_device t) (\<lambda>dev. tail_call lib (Cu ''cuDevicePrimaryCtxSetFlags'' [ucast dev, ucast flags])) st)"

text \<open>The variable the driver may write to starts as \<open>CU_STREAM_CAPTURE_STATUS_NONE\<close>, which is 0; a
  capture mode keeps its value.\<close>

definition cudaStreamIsCapturing :: "'c libcuda \<Rightarrow> u64 \<Rightarrow> u64 \<Rightarrow> 'c rt_call" where
  "cudaStreamIsCapturing lib stream out =
     (if out = 0 then report_error cudaErrorInvalidValue []
      else (\<lambda>st. (case run_cu lib (CuStreamIsCapturing stream) st of ((r, outs), st1) \<Rightarrow> record_cu r [wrote 0 outs] st1)))"

definition cudaThreadExchangeStreamCaptureMode :: "'c libcuda \<Rightarrow> u32 option \<Rightarrow> 'c rt_call" where
  "cudaThreadExchangeStreamCaptureMode lib mode = (case mode of
       None \<Rightarrow> report_error cudaErrorInvalidValue []
     | Some m \<Rightarrow> (\<lambda>st. (case run_cu lib (CuThreadExchangeStreamCaptureMode m) st of ((r, outs), st1) \<Rightarrow>
         record_cu r [if outs = [] then ucast m else wrote 0 outs] st1)))"

end
