(* ===== verification/Kernels.thy ===== *)
theory Kernels
  imports Runtime
begin

text \<open>
  The part of the runtime API (\<^verbatim>\<open>client/cudart_impl.cpp\<close>) that turns host functions into kernels: the
  registry nvcc's code fills in before \<open>main\<close>, loading a module when its first kernel is asked for,
  launches, function attributes, occupancy and its cache; and device properties and graphs. The
  compiler's hidden entry points begin with two underscores, which are left out.
\<close>

section \<open>Modules and kernels\<close>

definition set_module :: "nat \<Rightarrow> module_entry \<Rightarrow> runtime \<Rightarrow> runtime" where
  "set_module m e p = p\<lparr> rt_modules := AList.update m e (rt_modules p) \<rparr>"

definition set_kernel :: "u64 \<Rightarrow> kernel \<Rightarrow> runtime \<Rightarrow> runtime" where
  "set_kernel h k p = p\<lparr> rt_kernels := AList.update h k (rt_kernels p) \<rparr>"

text \<open>200 is \<open>CUDA_ERROR_INVALID_IMAGE\<close>. The result and the entry as it is afterwards.\<close>

definition ensure_module :: "'c libcuda \<Rightarrow> module_entry \<Rightarrow> 'c \<Rightarrow> (CUresult \<times> module_entry) \<times> 'c" where
  "ensure_module lib e c =
     (if mo_loaded e \<noteq> 0 then ((CUDA_SUCCESS, e), c)
      else if mo_tried e then ((200, e), c)
      else case lib (CuModuleLoadData (mo_image e)) c of ((r, outs), c1) \<Rightarrow>
        ((r, e\<lparr> mo_tried := True, mo_loaded := (if r = CUDA_SUCCESS then wrote 0 outs else 0) \<rparr>), c1))"

text \<open>A kernel's module is registered as long as the kernel is (\<open>registry_ok\<close>), so a missing one is the
  case of a pointer that is not followed.\<close>

definition resolve_kernel :: "'c libcuda \<Rightarrow> u64 \<Rightarrow> ('c, CUresult \<times> u64) rt_op" where
  "resolve_kernel lib h st = (case st of (p, t, c) \<Rightarrow>
     (case map_of (rt_kernels p) h of
        None \<Rightarrow> ((CUDA_ERROR_NOT_FOUND, 0), st)
      | Some k \<Rightarrow>
         (if kn_fn k \<noteq> 0 then ((CUDA_SUCCESS, kn_fn k), st)
          else case map_of (rt_modules p) (kn_module k) of
              None \<Rightarrow> ((CUDA_ERROR_NOT_FOUND, 0), st)
            | Some e \<Rightarrow> (case ensure_module lib e c of ((r, e1), c1) \<Rightarrow>
                (let p1 = set_module (kn_module k) e1 p in
                 if r \<noteq> CUDA_SUCCESS then ((r, 0), (p1, t, c1))
                 else case lib (CuModuleGetFunction (mo_loaded e1) (kn_name k)) c1 of ((r, outs), c2) \<Rightarrow>
                   ((r, wrote 0 outs), (set_kernel h (k\<lparr> kn_fn := wrote 0 outs \<rparr>) p1, t, c2)))))))"

text \<open>The wrapper a fat binary is registered with, if there is one: its magic and its \<open>data\<close>.\<close>

definition kFatBinWrapperMagic :: u32 where "kFatBinWrapperMagic = 0x466243b1"

definition fat_image :: "u64 \<Rightarrow> u32 \<times> u64 \<Rightarrow> u64" where
  "fat_image fat w = (if fat \<noteq> 0 \<and> fst w = kFatBinWrapperMagic then snd w else fat)"

definition cudaRegisterFatBinary :: "u64 \<Rightarrow> u32 \<times> u64 \<Rightarrow> ('c, nat) rt_op" where
  "cudaRegisterFatBinary fat w st = (case st of (p, t, c) \<Rightarrow>
     (rt_next_module p,
      (p\<lparr> rt_modules := rt_modules p @ [(rt_next_module p, \<lparr> mo_image = fat_image fat w, mo_loaded = 0, mo_tried = False \<rparr>)],
          rt_next_module := rt_next_module p + 1 \<rparr>, t, c)))"

definition cudaRegisterFatBinaryEnd :: "nat \<Rightarrow> ('c, unit) rt_op" where
  "cudaRegisterFatBinaryEnd m st = ((), st)"

definition cudaUnregisterFatBinary :: "'c libcuda \<Rightarrow> nat \<Rightarrow> ('c, unit) rt_op" where
  "cudaUnregisterFatBinary lib m st = (case st of (p, t, c) \<Rightarrow>
     (if m = 0 then ((), st)
      else let c1 = (case map_of (rt_modules p) m of
                       Some e \<Rightarrow> (if mo_loaded e \<noteq> 0 then snd (lib (Cu ''cuModuleUnload'' [mo_loaded e]) c) else c)
                     | None \<Rightarrow> c)
        in ((), (p\<lparr> rt_modules := AList.delete m (rt_modules p),
                    rt_kernels := filter (\<lambda>(h, k). kn_module k \<noteq> m) (rt_kernels p) \<rparr>, t, c1))))"

definition cudaRegisterFunction :: "nat \<Rightarrow> u64 \<Rightarrow> string option \<Rightarrow> ('c, unit) rt_op" where
  "cudaRegisterFunction m host_fun device_name st = (case st of (p, t, c) \<Rightarrow>
     (case device_name of
        None \<Rightarrow> ((), st)
      | Some name \<Rightarrow>
         (if m = 0 \<or> host_fun = 0 then ((), st)
          else ((), (set_kernel host_fun \<lparr> kn_module = m, kn_name = name, kn_fn = 0, kn_occupancy = Map.empty \<rparr> p, t, c)))))"

definition cudaRegisterVar :: "u64 \<Rightarrow> string option \<Rightarrow> ('c, unit) rt_op" where
  "cudaRegisterVar host_var device_name st = (case st of (p, t, c) \<Rightarrow>
     (case device_name of
        None \<Rightarrow> ((), st)
      | Some name \<Rightarrow> (if host_var = 0 then ((), st)
          else ((), (p\<lparr> rt_vars := (rt_vars p)(host_var \<mapsto> name) \<rparr>, t, c)))))"

text \<open>Managed variables, textures and surfaces are only logged.\<close>

definition cudaRegisterIgnored :: "('c, unit) rt_op" where
  "cudaRegisterIgnored st = ((), st)"

definition cudaInitModule :: "('c, byte) rt_op" where
  "cudaInitModule st = (1, st)"

section \<open>Launches\<close>

definition cudaPushCallConfiguration :: "u32 list \<Rightarrow> u32 list \<Rightarrow> u64 \<Rightarrow> u64 \<Rightarrow> ('c, u32) rt_op" where
  "cudaPushCallConfiguration grid block shared stream st = (case st of (p, t, c) \<Rightarrow>
     (0, (p, t\<lparr> th_configs := \<lparr> cc_grid = grid, cc_block = block, cc_shared = shared, cc_stream = stream \<rparr> # th_configs t \<rparr>, c)))"

text \<open>The error is returned and not recorded.\<close>

definition cudaPopCallConfiguration :: "('c, cudaError \<times> call_config option) rt_op" where
  "cudaPopCallConfiguration st = (case st of (p, t, c) \<Rightarrow>
     (case th_configs t of
        [] \<Rightarrow> ((cudaErrorInvalidConfiguration, None), st)
      | cfg # rest \<Rightarrow> ((cudaSuccess, Some cfg), (p, t\<lparr> th_configs := rest \<rparr>, c))))"

text \<open>Every entry point of the runtime that is not written by hand, as the generator gives it
  (\<^verbatim>\<open>client/generated/cudart_stubs.cpp\<close>): it says so in the log, and records no error either.\<close>

definition cudaUnsupported :: "'c rt_call" where
  "cudaUnsupported st = ((cudaErrorNotSupported, []), st)"

definition cudaProfilerStart :: "'c rt_call" where "cudaProfilerStart st = ((cudaSuccess, []), st)"
definition cudaProfilerStop :: "'c rt_call" where "cudaProfilerStop st = ((cudaSuccess, []), st)"

definition cudaLaunchKernel :: "'c libcuda \<Rightarrow> u64 \<Rightarrow> u32 list \<Rightarrow> u32 list \<Rightarrow> byte list option list option \<Rightarrow> u64 \<Rightarrow> u64
    \<Rightarrow> 'c rt_call" where
  "cudaLaunchKernel lib func grid block args shared stream =
     and_then (ensure_context lib) (\<lambda>_. and_then (resolve_kernel lib func) (\<lambda>fn.
       tail_call lib (CuLaunchKernel fn (grid @ block @ [ucast shared]) stream args)))"

text \<open>The numbers of the function attributes, in the order they are asked for: the first three fill
  \<open>size_t\<close> fields, through their sign. One the driver does not answer stays 0.\<close>

definition func_attributes :: "(string \<times> u32 \<times> bool) list" where
  "func_attributes =
     [(''sharedSizeBytes'', 1, True), (''constSizeBytes'', 2, True), (''localSizeBytes'', 3, True),
      (''maxThreadsPerBlock'', 0, False), (''numRegs'', 4, False), (''ptxVersion'', 5, False),
      (''binaryVersion'', 6, False), (''cacheModeCA'', 7, False), (''maxDynamicSharedSizeBytes'', 8, False),
      (''preferredShmemCarveout'', 9, False)]"

definition prop_field :: "bool \<Rightarrow> u32 \<Rightarrow> prop_value" where
  "prop_field wide v = (if wide then Size_value (scast v) else Int_value v)"

fun query_attributes :: "'c libcuda \<Rightarrow> u64 \<Rightarrow> (string \<times> u32 \<times> bool) list \<Rightarrow> 'c \<Rightarrow> (string \<times> prop_value) list \<times> 'c" where
  "query_attributes lib fn [] c = ([], c)"
| "query_attributes lib fn ((field, attr, wide) # as) c = (case lib (CuFuncGetAttribute attr fn) c of ((r, outs), c1) \<Rightarrow>
     (case query_attributes lib fn as c1 of (vs, c2) \<Rightarrow>
       ((field, prop_field wide (if r = CUDA_SUCCESS then ucast (wrote 0 outs) else 0)) # vs, c2)))"

text \<open>A call whose success also gives a value.\<close>

definition giving :: "('c, CUresult \<times> 'v) rt_op \<Rightarrow> ('v \<Rightarrow> ('c, cudaError \<times> 'w option) rt_op) \<Rightarrow> ('c, cudaError \<times> 'w option) rt_op"
  where
  "giving op k st = (case op st of ((r, v), st1) \<Rightarrow>
     (if r \<noteq> CUDA_SUCCESS then (case record_cu r [] st1 of ((e, _), st2) \<Rightarrow> ((e, None), st2)) else k v st1))"

definition refuse :: "cudaError \<Rightarrow> ('c, cudaError \<times> 'w option) rt_op" where
  "refuse e st = (case report_error e [] st of ((e, _), st1) \<Rightarrow> ((e, None), st1))"

definition cudaFuncGetAttributes :: "'c libcuda \<Rightarrow> u64 \<Rightarrow> u64 \<Rightarrow> ('c, cudaError \<times> (string \<times> prop_value) list option) rt_op" where
  "cudaFuncGetAttributes lib attr func =
     (if attr = 0 then refuse cudaErrorInvalidValue
      else giving (ensure_context lib) (\<lambda>_. giving (resolve_kernel lib func) (\<lambda>fn (p, t, c).
        (case query_attributes lib fn func_attributes c of (vs, c1) \<Rightarrow> ((cudaSuccess, Some vs), (p, t, c1))))))"

definition cudaFuncSetAttribute :: "'c libcuda \<Rightarrow> u64 \<Rightarrow> u32 \<Rightarrow> u32 \<Rightarrow> 'c rt_call" where
  "cudaFuncSetAttribute lib func attr v =
     and_then (ensure_context lib) (\<lambda>_. and_then (resolve_kernel lib func) (\<lambda>fn.
       tail_call lib (Cu ''cuFuncSetAttribute'' [fn, ucast attr, ucast v])))"

text \<open>An occupancy is asked for in sections: the cache is looked up under the registry's lock; the context is
  made current; the kernel is resolved, under the lock again; the driver is asked, under none; and the
  answer is noted under it, for the kernel that is there by then. Other threads run in between
  (\<^verbatim>\<open>Registry\<close>); \<open>occupancy\<close> is the call nothing interrupts.\<close>

definition occupancy_key :: "rt_thread \<Rightarrow> u32 \<Rightarrow> u64 \<Rightarrow> u32 \<Rightarrow> u32 \<times> u32 \<times> u64 \<times> u32" where
  "occupancy_key t block_size smem flags = (th_device t, block_size, smem, flags)"

definition known_occupancy :: "u64 \<Rightarrow> u32 \<times> u32 \<times> u64 \<times> u32 \<Rightarrow> runtime \<Rightarrow> u32 option" where
  "known_occupancy func key p = (case map_of (rt_kernels p) func of None \<Rightarrow> None | Some k \<Rightarrow> kn_occupancy k key)"

definition note_occupancy :: "u64 \<Rightarrow> u32 \<times> u32 \<times> u64 \<times> u32 \<Rightarrow> u32 \<Rightarrow> runtime \<Rightarrow> runtime" where
  "note_occupancy func key blocks p = (case map_of (rt_kernels p) func of
       None \<Rightarrow> p
     | Some k \<Rightarrow> set_kernel func (k\<lparr> kn_occupancy := (kn_occupancy k)(key \<mapsto> blocks) \<rparr>) p)"

definition occupancy :: "'c libcuda \<Rightarrow> u64 \<Rightarrow> u64 \<Rightarrow> u32 \<Rightarrow> u64 \<Rightarrow> u32 \<Rightarrow> ('c, cudaError \<times> u32 option) rt_op" where
  "occupancy lib num_blocks func block_size smem flags st = (case st of (p, t, c) \<Rightarrow>
     (if num_blocks = 0 then refuse cudaErrorInvalidValue st
      else let key = occupancy_key t block_size smem flags in
       case known_occupancy func key p of
         Some blocks \<Rightarrow> ((cudaSuccess, Some blocks), st)
       | None \<Rightarrow> giving (ensure_context lib) (\<lambda>_. giving (resolve_kernel lib func) (\<lambda>fn.
           giving (run_cu lib (CuOccupancy fn block_size smem flags)) (\<lambda>outs (p, t, c).
             ((cudaSuccess, Some (ucast (wrote 0 outs))),
              (note_occupancy func key (ucast (wrote 0 outs)) p, t, c))))) st))"

definition cudaOccupancyMaxActiveBlocksPerMultiprocessorWithFlags where
  "cudaOccupancyMaxActiveBlocksPerMultiprocessorWithFlags = occupancy"

definition cudaOccupancyMaxActiveBlocksPerMultiprocessor ::
    "'c libcuda \<Rightarrow> u64 \<Rightarrow> u64 \<Rightarrow> u32 \<Rightarrow> u64 \<Rightarrow> ('c, cudaError \<times> u32 option) rt_op" where
  "cudaOccupancyMaxActiveBlocksPerMultiprocessor lib num_blocks func block_size smem =
     occupancy lib num_blocks func block_size smem 0"

end
