(* ===== verification/DeviceProps.thy ===== *)
theory DeviceProps
  imports Kernels
begin

text \<open>
  Device properties and graphs (\<^verbatim>\<open>client/cudart_impl.cpp\<close>): the table of which attribute fills which
  field, the query in one round trip or one attribute at a time, its cache, and the calls on captures
  and graphs. The attributes go by the names the header gives their numbers, which are a parameter.
\<close>

section \<open>Device properties\<close>

definition kPropFields :: "(string \<times> string \<times> bool) list" where
  "kPropFields =
    [(''MAX_SHARED_MEMORY_PER_BLOCK'', ''sharedMemPerBlock'', True),
     (''MAX_REGISTERS_PER_BLOCK'', ''regsPerBlock'', False), (''WARP_SIZE'', ''warpSize'', False),
     (''MAX_PITCH'', ''memPitch'', True), (''MAX_THREADS_PER_BLOCK'', ''maxThreadsPerBlock'', False),
     (''MAX_BLOCK_DIM_X'', ''maxThreadsDim[0]'', False), (''MAX_BLOCK_DIM_Y'', ''maxThreadsDim[1]'', False),
     (''MAX_BLOCK_DIM_Z'', ''maxThreadsDim[2]'', False), (''MAX_GRID_DIM_X'', ''maxGridSize[0]'', False),
     (''MAX_GRID_DIM_Y'', ''maxGridSize[1]'', False), (''MAX_GRID_DIM_Z'', ''maxGridSize[2]'', False),
     (''CLOCK_RATE'', ''clockRate'', False), (''TOTAL_CONSTANT_MEMORY'', ''totalConstMem'', True),
     (''COMPUTE_CAPABILITY_MAJOR'', ''major'', False), (''COMPUTE_CAPABILITY_MINOR'', ''minor'', False),
     (''TEXTURE_ALIGNMENT'', ''textureAlignment'', True),
     (''TEXTURE_PITCH_ALIGNMENT'', ''texturePitchAlignment'', True),
     (''GPU_OVERLAP'', ''deviceOverlap'', False), (''MULTIPROCESSOR_COUNT'', ''multiProcessorCount'', False),
     (''KERNEL_EXEC_TIMEOUT'', ''kernelExecTimeoutEnabled'', False), (''INTEGRATED'', ''integrated'', False),
     (''CAN_MAP_HOST_MEMORY'', ''canMapHostMemory'', False), (''COMPUTE_MODE'', ''computeMode'', False),
     (''MAXIMUM_TEXTURE1D_WIDTH'', ''maxTexture1D'', False),
     (''MAXIMUM_TEXTURE1D_MIPMAPPED_WIDTH'', ''maxTexture1DMipmap'', False),
     (''MAXIMUM_TEXTURE1D_LINEAR_WIDTH'', ''maxTexture1DLinear'', False),
     (''MAXIMUM_TEXTURE2D_WIDTH'', ''maxTexture2D[0]'', False),
     (''MAXIMUM_TEXTURE2D_HEIGHT'', ''maxTexture2D[1]'', False),
     (''MAXIMUM_TEXTURE2D_MIPMAPPED_WIDTH'', ''maxTexture2DMipmap[0]'', False),
     (''MAXIMUM_TEXTURE2D_MIPMAPPED_HEIGHT'', ''maxTexture2DMipmap[1]'', False),
     (''MAXIMUM_TEXTURE2D_LINEAR_WIDTH'', ''maxTexture2DLinear[0]'', False),
     (''MAXIMUM_TEXTURE2D_LINEAR_HEIGHT'', ''maxTexture2DLinear[1]'', False),
     (''MAXIMUM_TEXTURE2D_LINEAR_PITCH'', ''maxTexture2DLinear[2]'', False),
     (''MAXIMUM_TEXTURE2D_GATHER_WIDTH'', ''maxTexture2DGather[0]'', False),
     (''MAXIMUM_TEXTURE2D_GATHER_HEIGHT'', ''maxTexture2DGather[1]'', False),
     (''MAXIMUM_TEXTURE3D_WIDTH'', ''maxTexture3D[0]'', False),
     (''MAXIMUM_TEXTURE3D_HEIGHT'', ''maxTexture3D[1]'', False),
     (''MAXIMUM_TEXTURE3D_DEPTH'', ''maxTexture3D[2]'', False),
     (''MAXIMUM_TEXTURE3D_WIDTH_ALTERNATE'', ''maxTexture3DAlt[0]'', False),
     (''MAXIMUM_TEXTURE3D_HEIGHT_ALTERNATE'', ''maxTexture3DAlt[1]'', False),
     (''MAXIMUM_TEXTURE3D_DEPTH_ALTERNATE'', ''maxTexture3DAlt[2]'', False),
     (''MAXIMUM_TEXTURECUBEMAP_WIDTH'', ''maxTextureCubemap'', False),
     (''MAXIMUM_TEXTURE1D_LAYERED_WIDTH'', ''maxTexture1DLayered[0]'', False),
     (''MAXIMUM_TEXTURE1D_LAYERED_LAYERS'', ''maxTexture1DLayered[1]'', False),
     (''MAXIMUM_TEXTURE2D_LAYERED_WIDTH'', ''maxTexture2DLayered[0]'', False),
     (''MAXIMUM_TEXTURE2D_LAYERED_HEIGHT'', ''maxTexture2DLayered[1]'', False),
     (''MAXIMUM_TEXTURE2D_LAYERED_LAYERS'', ''maxTexture2DLayered[2]'', False),
     (''MAXIMUM_TEXTURECUBEMAP_LAYERED_WIDTH'', ''maxTextureCubemapLayered[0]'', False),
     (''MAXIMUM_TEXTURECUBEMAP_LAYERED_LAYERS'', ''maxTextureCubemapLayered[1]'', False),
     (''MAXIMUM_SURFACE1D_WIDTH'', ''maxSurface1D'', False),
     (''MAXIMUM_SURFACE2D_WIDTH'', ''maxSurface2D[0]'', False),
     (''MAXIMUM_SURFACE2D_HEIGHT'', ''maxSurface2D[1]'', False),
     (''MAXIMUM_SURFACE3D_WIDTH'', ''maxSurface3D[0]'', False),
     (''MAXIMUM_SURFACE3D_HEIGHT'', ''maxSurface3D[1]'', False),
     (''MAXIMUM_SURFACE3D_DEPTH'', ''maxSurface3D[2]'', False),
     (''MAXIMUM_SURFACE1D_LAYERED_WIDTH'', ''maxSurface1DLayered[0]'', False),
     (''MAXIMUM_SURFACE1D_LAYERED_LAYERS'', ''maxSurface1DLayered[1]'', False),
     (''MAXIMUM_SURFACE2D_LAYERED_WIDTH'', ''maxSurface2DLayered[0]'', False),
     (''MAXIMUM_SURFACE2D_LAYERED_HEIGHT'', ''maxSurface2DLayered[1]'', False),
     (''MAXIMUM_SURFACE2D_LAYERED_LAYERS'', ''maxSurface2DLayered[2]'', False),
     (''MAXIMUM_SURFACECUBEMAP_WIDTH'', ''maxSurfaceCubemap'', False),
     (''MAXIMUM_SURFACECUBEMAP_LAYERED_WIDTH'', ''maxSurfaceCubemapLayered[0]'', False),
     (''MAXIMUM_SURFACECUBEMAP_LAYERED_LAYERS'', ''maxSurfaceCubemapLayered[1]'', False),
     (''SURFACE_ALIGNMENT'', ''surfaceAlignment'', True),
     (''CONCURRENT_KERNELS'', ''concurrentKernels'', False), (''ECC_ENABLED'', ''ECCEnabled'', False),
     (''PCI_BUS_ID'', ''pciBusID'', False), (''PCI_DEVICE_ID'', ''pciDeviceID'', False),
     (''PCI_DOMAIN_ID'', ''pciDomainID'', False), (''TCC_DRIVER'', ''tccDriver'', False),
     (''ASYNC_ENGINE_COUNT'', ''asyncEngineCount'', False),
     (''UNIFIED_ADDRESSING'', ''unifiedAddressing'', False),
     (''MEMORY_CLOCK_RATE'', ''memoryClockRate'', False),
     (''GLOBAL_MEMORY_BUS_WIDTH'', ''memoryBusWidth'', False), (''L2_CACHE_SIZE'', ''l2CacheSize'', False),
     (''MAX_PERSISTING_L2_CACHE_SIZE'', ''persistingL2CacheMaxSize'', False),
     (''MAX_THREADS_PER_MULTIPROCESSOR'', ''maxThreadsPerMultiProcessor'', False),
     (''STREAM_PRIORITIES_SUPPORTED'', ''streamPrioritiesSupported'', False),
     (''GLOBAL_L1_CACHE_SUPPORTED'', ''globalL1CacheSupported'', False),
     (''LOCAL_L1_CACHE_SUPPORTED'', ''localL1CacheSupported'', False),
     (''MAX_SHARED_MEMORY_PER_MULTIPROCESSOR'', ''sharedMemPerMultiprocessor'', True),
     (''MAX_REGISTERS_PER_MULTIPROCESSOR'', ''regsPerMultiprocessor'', False),
     (''MANAGED_MEMORY'', ''managedMemory'', False), (''MULTI_GPU_BOARD'', ''isMultiGpuBoard'', False),
     (''MULTI_GPU_BOARD_GROUP_ID'', ''multiGpuBoardGroupID'', False),
     (''SINGLE_TO_DOUBLE_PRECISION_PERF_RATIO'', ''singleToDoublePrecisionPerfRatio'', False),
     (''COMPUTE_PREEMPTION_SUPPORTED'', ''computePreemptionSupported'', False),
     (''COOPERATIVE_LAUNCH'', ''cooperativeLaunch'', False),
     (''MAX_SHARED_MEMORY_PER_BLOCK_OPTIN'', ''sharedMemPerBlockOptin'', True),
     (''MAX_BLOCKS_PER_MULTIPROCESSOR'', ''maxBlocksPerMultiProcessor'', False),
     (''MAX_ACCESS_POLICY_WINDOW_SIZE'', ''accessPolicyMaxWindowSize'', False),
     (''RESERVED_SHARED_MEMORY_PER_BLOCK'', ''reservedSharedMemPerBlock'', True),
     (''SPARSE_CUDA_ARRAY_SUPPORTED'', ''sparseCudaArraySupported'', False),
     (''TIMELINE_SEMAPHORE_INTEROP_SUPPORTED'', ''timelineSemaphoreInteropSupported'', False),
     (''MEMORY_POOLS_SUPPORTED'', ''memoryPoolsSupported'', False),
     (''DEFERRED_MAPPING_CUDA_ARRAY_SUPPORTED'', ''deferredMappingCudaArraySupported'', False),
     (''CLUSTER_LAUNCH'', ''clusterLaunch'', False),
     (''UNIFIED_FUNCTION_POINTERS'', ''unifiedFunctionPointers'', False)]"

text \<open>One attribute at a time, as an older server needs it.\<close>

fun attributes_singly :: "'c libcuda \<Rightarrow> u32 \<Rightarrow> u32 list \<Rightarrow> 'c \<Rightarrow> (bool \<times> u32) list \<times> 'c" where
  "attributes_singly lib dev [] c = ([], c)"
| "attributes_singly lib dev (a # as) c = (case lib (CuDeviceGetAttribute a dev) c of ((r, outs), c1) \<Rightarrow>
     (case attributes_singly lib dev as c1 of (vs, c2) \<Rightarrow> ((r = CUDA_SUCCESS, ucast (wrote 0 outs)) # vs, c2)))"

text \<open>All in one round trip: the call writes whether it was answered and the value, for each.\<close>

fun answers :: "u64 list \<Rightarrow> (bool \<times> u32) list" where
  "answers (ok # v # outs) = (ok \<noteq> 0, ucast v) # answers outs"
| "answers _ = []"

definition all_attributes :: "'c libcuda \<Rightarrow> u32 \<Rightarrow> u32 list \<Rightarrow> 'c \<Rightarrow> (bool \<times> u32) list \<times> 'c" where
  "all_attributes lib dev as c = (case lib (DeviceAttributes dev as) c of ((r, outs), c1) \<Rightarrow>
     (if r = CUDA_SUCCESS then (answers outs, c1) else attributes_singly lib dev as c1))"

text \<open>The fields of the answered attributes; the others keep the zero of the cleared structure.\<close>

fun fill_fields :: "(string \<times> string \<times> bool) list \<Rightarrow> (bool \<times> u32) list \<Rightarrow> (string \<rightharpoonup> prop_value) \<Rightarrow> (string \<rightharpoonup> prop_value)" where
  "fill_fields ((attr, field, wide) # fs) ((answered, v) # vs) m =
     fill_fields fs vs (if answered then m(field \<mapsto> prop_field wide v) else m)"
| "fill_fields _ _ m = m"

definition build_props :: "'c libcuda \<Rightarrow> (string \<Rightarrow> u32) \<Rightarrow> u32 \<Rightarrow> 'c \<Rightarrow> device_prop \<times> 'c" where
  "build_props lib num dev c =
     (case lib (CuDeviceGetName dev) c of ((_, name), c1) \<Rightarrow>
      case lib (CuDeviceTotalMem dev) c1 of ((_, mem), c2) \<Rightarrow>
      case lib (CuDeviceGetUuid dev) c2 of ((_, uuid), c3) \<Rightarrow>
      case all_attributes lib dev (map (num \<circ> fst) kPropFields) c3 of (vs, c4) \<Rightarrow>
        (\<lparr> dp_name = name, dp_total = wrote 0 mem, dp_uuid = uuid, dp_fields = fill_fields kPropFields vs Map.empty \<rparr>, c4))"

definition cudaGetDeviceProperties :: "'c libcuda \<Rightarrow> (string \<Rightarrow> u32) \<Rightarrow> u64 \<Rightarrow> u32 \<Rightarrow> ('c, cudaError \<times> device_prop option) rt_op"
  where
  "cudaGetDeviceProperties lib num prop device st = (case st of (p, t, c) \<Rightarrow>
     (if prop = 0 then refuse cudaErrorInvalidValue st
      else case rt_props p device of
          Some built \<Rightarrow> ((cudaSuccess, Some built), st)
        | None \<Rightarrow> giving (ensure_init lib) (\<lambda>_. giving (run_cu lib (CuDeviceGet device)) (\<lambda>outs (p, t, c).
            (case build_props lib num (ucast (wrote 0 outs)) c of (built, c1) \<Rightarrow>
              ((cudaSuccess, Some built), (p\<lparr> rt_props := (rt_props p)(device \<mapsto> built) \<rparr>, t, c1))))) st))"

section \<open>The bus id\<close>

definition hex_digit :: "nat \<Rightarrow> char" where
  "hex_digit n = ''0123456789abcdef'' ! n"

fun hex_digits :: "nat \<Rightarrow> string" where
  "hex_digits n = (if n < 16 then [hex_digit n] else hex_digits (n div 16) @ [hex_digit (n mod 16)])"

declare hex_digits.simps [simp del]

text \<open>\<open>%0kx\<close>\<close>

definition hex_padded :: "nat \<Rightarrow> u32 \<Rightarrow> string" where
  "hex_padded k v = (let ds = hex_digits (unat v) in replicate (k - length ds) CHR ''0'' @ ds)"

definition bus_id :: "u32 \<Rightarrow> u32 \<Rightarrow> u32 \<Rightarrow> string" where
  "bus_id domain bus slot = hex_padded 4 domain @ '':'' @ hex_padded 2 bus @ '':'' @ hex_padded 2 slot @ ''.0''"

text \<open>The result and the bytes in the caller's buffer, the final null included; what does not fit is cut
  off and refused.\<close>

definition cudaDeviceGetPCIBusId :: "'c libcuda \<Rightarrow> (string \<Rightarrow> u32) \<Rightarrow> u64 \<Rightarrow> u32 \<Rightarrow> u32 \<Rightarrow> ('c, cudaError \<times> string option) rt_op" where
  "cudaDeviceGetPCIBusId lib num out len device =
     (if out = 0 \<or> sint len \<le> 0 then refuse cudaErrorInvalidValue
      else giving (ensure_init lib) (\<lambda>_. giving (run_cu lib (CuDeviceGet device)) (\<lambda>outs.
        let dev = ucast (wrote 0 outs) in
        giving (run_cu lib (CuDeviceGetAttribute (num ''PCI_DOMAIN_ID'') dev)) (\<lambda>domain.
        giving (run_cu lib (CuDeviceGetAttribute (num ''PCI_BUS_ID'') dev)) (\<lambda>bus.
        giving (run_cu lib (CuDeviceGetAttribute (num ''PCI_DEVICE_ID'') dev)) (\<lambda>slot (p, t, c).
          let s = bus_id (ucast (wrote 0 domain)) (ucast (wrote 0 bus)) (ucast (wrote 0 slot));
              cut = take (nat (sint len) - 1) s @ [CHR 0x00] in
          (if int (length s) \<ge> sint len
           then ((cudaErrorInvalidValue, Some cut), (p, record_error cudaErrorInvalidValue t, c))
           else ((cudaSuccess, Some cut), (p, t, c)))))))))"

section \<open>Graphs\<close>

definition cudaStreamBeginCapture :: "'c libcuda \<Rightarrow> u64 \<Rightarrow> u32 \<Rightarrow> 'c rt_call" where
  "cudaStreamBeginCapture lib stream mode = in_context lib (Cu ''cuStreamBeginCapture_v2'' [stream, ucast mode])"

text \<open>What is written through the caller's pointer, where it is there.\<close>

definition graph_result :: "u64 \<Rightarrow> CUresult \<times> u64 list \<Rightarrow> 'c rt_call" where
  "graph_result out res = (case res of (r, outs) \<Rightarrow>
     record_cu r (if r = CUDA_SUCCESS \<and> out \<noteq> 0 then [wrote 0 outs] else []))"

definition cudaStreamEndCapture :: "'c libcuda \<Rightarrow> u64 \<Rightarrow> u64 \<Rightarrow> 'c rt_call" where
  "cudaStreamEndCapture lib stream out =
     and_then (ensure_context lib) (\<lambda>_ st. (case run_cu lib (CuStreamEndCapture stream) st of (res, st1) \<Rightarrow> graph_result out res st1))"

text \<open>The status, id, graph, dependencies and their number, each where it was asked for.\<close>

definition cudaStreamGetCaptureInfo_v2 :: "'c libcuda \<Rightarrow> u64 \<Rightarrow> u64 \<Rightarrow> u64 \<Rightarrow> u64 \<Rightarrow> u64 \<Rightarrow> u64
    \<Rightarrow> ('c, cudaError \<times> u64 option list option) rt_op" where
  "cudaStreamGetCaptureInfo_v2 lib stream status id_out graph_out deps num =
     giving (ensure_context lib) (\<lambda>_.
       giving (run_cu lib (CuStreamGetCaptureInfo stream (id_out \<noteq> 0) (graph_out \<noteq> 0) (deps \<noteq> 0) (num \<noteq> 0 \<or> deps \<noteq> 0)))
         (\<lambda>outs st. ((cudaSuccess, Some (map2 (\<lambda>out i. if out \<noteq> 0 then Some (wrote i outs) else None)
                       [status, id_out, graph_out, deps, num] [0, 1, 2, 3, 4])), st)))"

definition cudaGraphInstantiate :: "'c libcuda \<Rightarrow> u64 \<Rightarrow> u64 \<Rightarrow> u64 \<Rightarrow> 'c rt_call" where
  "cudaGraphInstantiate lib out graph flags =
     and_then (ensure_context lib) (\<lambda>_ st. (case run_cu lib (CuGraphInstantiateWithFlags graph flags) st of (res, st1) \<Rightarrow>
       graph_result out res st1))"

definition cudaGraphInstantiateWithFlags :: "'c libcuda \<Rightarrow> u64 \<Rightarrow> u64 \<Rightarrow> u64 \<Rightarrow> 'c rt_call" where
  "cudaGraphInstantiateWithFlags = cudaGraphInstantiate"

definition cudaGraphLaunch :: "'c libcuda \<Rightarrow> u64 \<Rightarrow> u64 \<Rightarrow> 'c rt_call" where
  "cudaGraphLaunch lib graph_exec stream = in_context lib (Cu ''cuGraphLaunch'' [graph_exec, stream])"

definition cudaGraphUpload :: "'c libcuda \<Rightarrow> u64 \<Rightarrow> u64 \<Rightarrow> 'c rt_call" where
  "cudaGraphUpload lib graph_exec stream = in_context lib (Cu ''cuGraphUpload'' [graph_exec, stream])"

definition cudaGraphGetNodes :: "'c libcuda \<Rightarrow> u64 \<Rightarrow> u64 \<Rightarrow> u64 \<Rightarrow> 'c rt_call" where
  "cudaGraphGetNodes lib graph nodes num = in_context lib (Cu ''cuGraphGetNodes'' [graph, nodes, num])"

definition cudaGraphDestroy :: "'c libcuda \<Rightarrow> u64 \<Rightarrow> 'c rt_call" where
  "cudaGraphDestroy lib graph = in_context lib (Cu ''cuGraphDestroy'' [graph])"

definition cudaGraphExecDestroy :: "'c libcuda \<Rightarrow> u64 \<Rightarrow> 'c rt_call" where
  "cudaGraphExecDestroy lib graph_exec = in_context lib (Cu ''cuGraphExecDestroy'' [graph_exec])"

end
