(* ===== verification/RuntimeLaws.thy ===== *)
theory RuntimeLaws
  imports Runtime ShimLaws
begin

text \<open>
  What the runtime API promises of its own state: the context each thread's calls run in, whatever
  other threads do in between, the direction of a copy that is left to the runtime to find out, and
  the error a thread is told of later.
\<close>

section \<open>The context of a thread's device\<close>

text \<open>The process with its threads, each of which may have found its context and not made it current
  yet. \<open>ys_current\<close> is the context each thread last made current, and \<open>ys_resets\<close> counts the resets.\<close>

record 'c rt_system =
  ys_rt :: runtime
  ys_threads :: "nat \<Rightarrow> rt_thread"
  ys_found :: "nat \<Rightarrow> (u64 \<times> u64) option"
  ys_current :: "nat \<Rightarrow> u64 option"
  ys_resets :: nat
  ys_env :: 'c

definition started :: "'c \<Rightarrow> 'c rt_system" where
  "started c = \<lparr> ys_rt = new_runtime, ys_threads = (\<lambda>_. new_rt_thread), ys_found = (\<lambda>_. None),
     ys_current = (\<lambda>_. None), ys_resets = 0, ys_env = c \<rparr>"

text \<open>The steps of the threads: the two halves of \<open>ensure_context\<close>, between which others may run, a
  change of device, a reset, and anything else, which touches none of this.\<close>

inductive rt_step :: "'c libcuda \<Rightarrow> 'c rt_system \<Rightarrow> 'c rt_system \<Rightarrow> bool" for lib where
  find: "ys_found y i = None \<Longrightarrow> \<not> context_selected (ys_rt y) (ys_threads y i) \<Longrightarrow>
    find_context lib (ys_rt y, ys_threads y i, ys_env y) = ((r, found), (p, t, c)) \<Longrightarrow>
    rt_step lib y (y\<lparr> ys_rt := p, ys_env := c,
      ys_found := (if r = CUDA_SUCCESS then (ys_found y)(i := Some found) else ys_found y) \<rparr>)"
| select: "ys_found y i = Some (ctx, gen) \<Longrightarrow>
    select_context lib ctx gen (ys_rt y, ys_threads y i, ys_env y) = ((r, u), (p, t, c)) \<Longrightarrow>
    rt_step lib y (y\<lparr> ys_env := c, ys_found := (ys_found y)(i := None), ys_threads := (ys_threads y)(i := t),
      ys_current := (if r = CUDA_SUCCESS then (ys_current y)(i := Some ctx) else ys_current y) \<rparr>)"
| device: "ys_found y i = None \<Longrightarrow>
    rt_step lib y (y\<lparr> ys_threads := (ys_threads y)(i := choose_device d (ys_threads y i)) \<rparr>)"
| reset: "ys_found y i = None \<Longrightarrow>
    cudaDeviceReset lib (ys_rt y, ys_threads y i, ys_env y) = (res, (p, t, c)) \<Longrightarrow>
    rt_step lib y (y\<lparr> ys_rt := p, ys_env := c, ys_resets := ys_resets y + 1 \<rparr>)"
| other: "rt_primary p = rt_primary (ys_rt y) \<Longrightarrow> rt_gen p = rt_gen (ys_rt y) \<Longrightarrow>
    th_device t = th_device (ys_threads y i) \<Longrightarrow> th_gen t = th_gen (ys_threads y i) \<Longrightarrow>
    rt_step lib y (y\<lparr> ys_rt := p, ys_env := c, ys_threads := (ys_threads y)(i := t) \<rparr>)"

definition gen_of :: "'c rt_system \<Rightarrow> nat" where
  "gen_of y = Suc (ys_resets y)"

text \<open>Generations only go up; who has the current one has its device's context.\<close>

definition selection_ok :: "'c rt_system \<Rightarrow> bool" where
  "selection_ok y \<longleftrightarrow> unat (rt_gen (ys_rt y)) = gen_of y
     \<and> (\<forall>i. unat (th_gen (ys_threads y i)) \<le> gen_of y)
     \<and> (\<forall>i. th_gen (ys_threads y i) = rt_gen (ys_rt y) \<longrightarrow>
          (\<exists>ctx. ys_current y i = Some ctx \<and> map_of (rt_primary (ys_rt y)) (th_device (ys_threads y i)) = Some ctx))
     \<and> (\<forall>i ctx gen. ys_found y i = Some (ctx, gen) \<longrightarrow> unat gen \<le> gen_of y
          \<and> (gen = rt_gen (ys_rt y) \<longrightarrow> map_of (rt_primary (ys_rt y)) (th_device (ys_threads y i)) = Some ctx))"

lemma find_context_cases:
  assumes "find_context lib (p, t, c) = ((r, (ctx, gen)), (p', t', c'))"
  shows "t' = t \<and> gen = rt_gen p \<and> rt_gen p' = rt_gen p
    \<and> (\<forall>d x. map_of (rt_primary p) d = Some x \<longrightarrow> map_of (rt_primary p') d = Some x)
    \<and> (r = CUDA_SUCCESS \<longrightarrow> map_of (rt_primary p') (th_device t) = Some ctx)"
  using assms by (auto simp: find_context_def split: option.splits prod.splits if_splits)

lemma selection_step:
  assumes "rt_step lib y y'" and "selection_ok y" and "ys_resets y' < 2 ^ 64 - 1"
  shows "selection_ok y'"
  using assms
proof (induction rule: rt_step.induct)
  case (find y i r found p t c)
  obtain ctx gen where f: "found = (ctx, gen)" by fastforce
  note fc = find_context_cases [OF find.hyps(3) [unfolded f]]
  show ?case using find.prems fc unfolding f selection_ok_def gen_of_def by (fastforce split: if_splits)
next
  case (select y i ctx gen r u p t c)
  then show ?case
    by (auto simp: selection_ok_def gen_of_def select_context_def split: prod.splits if_splits)
next
  case (device y i d)
  then show ?case by (auto simp: selection_ok_def gen_of_def choose_device_def)
next
  case (reset y i res p t c)
  have "unat (rt_gen (ys_rt y) + 1) = Suc (unat (rt_gen (ys_rt y)))"
    using reset.prems by (auto simp: selection_ok_def gen_of_def unat_word_ariths)
  moreover have "p = (ys_rt y)\<lparr> rt_primary := [], rt_gen := rt_gen (ys_rt y) + 1 \<rparr>"
    using reset.hyps(2) by (simp add: cudaDeviceReset_def)
  moreover have "unat (th_gen (ys_threads y i)) \<le> Suc (ys_resets y)" for i
    using reset.prems(1) by (simp add: selection_ok_def gen_of_def)
  moreover have "unat gen \<le> Suc (ys_resets y)" if "ys_found y i = Some (ctx, gen)" for i ctx gen
    using reset.prems(1) that by (auto simp: selection_ok_def gen_of_def)
  ultimately show ?case using reset.prems unfolding selection_ok_def gen_of_def
    by simp (metis Suc_n_not_le_n le_SucI)
next
  case (other p y t i c)
  then show ?case by (auto simp: selection_ok_def gen_of_def)
qed

lemma resets_mono: "rt_step lib y y' \<Longrightarrow> ys_resets y \<le> ys_resets y'"
  by (induction rule: rt_step.induct) auto

lemma reachable_selection:
  assumes "(rt_step lib)\<^sup>*\<^sup>* (started c) y" and "ys_resets y < 2 ^ 64 - 1"
  shows "selection_ok y"
  using assms
proof (induction rule: rtranclp_induct)
  case base
  show ?case by (simp add: selection_ok_def started_def new_runtime_def new_rt_thread_def gen_of_def)
next
  case (step y z)
  then show ?case using selection_step [OF step.hyps(2)] resets_mono [OF step.hyps(2)] by simp
qed

text \<open>C14. However the calls of the threads interleave, with changes of device and resets of the
  whole process in between, a thread whose call goes ahead because its context is already selected has
  made current the context that is retained for its device, and no reset has come since.\<close>

theorem selected_context_is_current:
  assumes "(rt_step lib)\<^sup>*\<^sup>* (started c) y" and "ys_resets y < 2 ^ 64 - 1"
    and "context_selected (ys_rt y) (ys_threads y i)"
  shows "\<exists>ctx. ys_current y i = Some ctx \<and> map_of (rt_primary (ys_rt y)) (th_device (ys_threads y i)) = Some ctx"
  using reachable_selection [OF assms(1,2)] assms(3) by (auto simp: selection_ok_def context_selected_def)

text \<open>A driver that gives every query the answer 7.\<close>

definition seven :: "unit libcuda" where
  "seven call c = ((CUDA_SUCCESS, [7]), c)"

theorem selected_context_is_current_witness:
  "\<exists>y. (rt_step seven)\<^sup>*\<^sup>* (started ()) y \<and> ys_resets y = 1
     \<and> (\<exists>ctx. ys_current y 3 = Some ctx \<and> map_of (rt_primary (ys_rt y)) (th_device (ys_threads y 3)) = Some ctx)"
proof -
  let ?y0 = "started ()"
  let ?y1 = "?y0\<lparr> ys_rt := new_runtime\<lparr> rt_primary := [], rt_gen := 2 \<rparr>, ys_env := (), ys_resets := ys_resets ?y0 + 1 \<rparr>"
  let ?y2 = "?y1\<lparr> ys_rt := new_runtime\<lparr> rt_primary := [(0, 7)], rt_gen := 2 \<rparr>, ys_env := (),
      ys_found := (if (0 :: CUresult) = CUDA_SUCCESS then (ys_found ?y1)(3 := Some (7, 2)) else ys_found ?y1) \<rparr>"
  let ?y3 = "?y2\<lparr> ys_env := (), ys_found := (ys_found ?y2)(3 := None), ys_threads := (ys_threads ?y2)(3 := new_rt_thread\<lparr> th_gen := 2 \<rparr>),
      ys_current := (if (0 :: CUresult) = CUDA_SUCCESS then (ys_current ?y2)(3 := Some 7) else ys_current ?y2) \<rparr>"
  have "rt_step seven ?y0 ?y1"
    by (rule rt_step.reset [where i = 0 and t = new_rt_thread])
      (simp_all add: started_def cudaDeviceReset_def new_runtime_def)
  moreover have "rt_step seven ?y1 ?y2"
    by (rule rt_step.find [where t = new_rt_thread and i = 3])
      (simp_all add: started_def context_selected_def find_context_def new_runtime_def new_rt_thread_def seven_def wrote_def)
  moreover have "rt_step seven ?y2 ?y3"
    by (rule rt_step.select [where gen = 2 and p = "ys_rt ?y2" and u = "()"])
      (simp_all add: started_def select_context_def seven_def)
  ultimately have r: "(rt_step seven)\<^sup>*\<^sup>* (started ()) ?y3"
    by (meson converse_rtranclp_into_rtranclp rtranclp.rtrancl_refl)
  have n: "ys_resets ?y3 = 1" by (simp add: started_def)
  have "context_selected (ys_rt ?y3) (ys_threads ?y3 3)" by (simp add: context_selected_def)
  from selected_context_is_current [OF r _ this] n r show ?thesis by (intro exI [of _ ?y3]) simp
qed

section \<open>Copies whose direction is not given\<close>

text \<open>The calls that allocate and free device memory.\<close>

datatype mem_op = Malloc u64 u64 | Free u64 | Malloc_async u64 u64 u64 | Free_async u64 u64

fun run_mem_op :: "'c libcuda \<Rightarrow> mem_op \<Rightarrow> 'c rt_call" where
  "run_mem_op lib (Malloc ptr n) = cudaMalloc lib ptr n"
| "run_mem_op lib (Free d) = cudaFree lib d"
| "run_mem_op lib (Malloc_async ptr n stream) = cudaMallocAsync lib ptr n stream"
| "run_mem_op lib (Free_async d stream) = cudaFreeAsync lib d stream"

text \<open>What the program knows of a call: the address it was given, or the block that is gone.\<close>

fun told :: "mem_op \<Rightarrow> cudaError \<times> u64 list \<Rightarrow> alloc_event list" where
  "told (Malloc ptr n) (e, outs) = (if e = cudaSuccess then [Given (wrote 0 outs) (at_least_one n)] else [])"
| "told (Malloc_async ptr n stream) (e, outs) = (if e = cudaSuccess then [Given (wrote 0 outs) (at_least_one n)] else [])"
| "told (Free d) (e, outs) = (if e = cudaSuccess \<and> d \<noteq> 0 then [Freed d] else [])"
| "told (Free_async d stream) (e, outs) = (if e = cudaSuccess \<and> d \<noteq> 0 then [Freed d] else [])"

fun run_mem_ops :: "'c libcuda \<Rightarrow> mem_op list \<Rightarrow> 'c rt \<Rightarrow> alloc_event list \<times> 'c rt" where
  "run_mem_ops lib [] st = ([], st)"
| "run_mem_ops lib (m # ms) st = (case run_mem_op lib m st of (res, st1) \<Rightarrow>
     (case run_mem_ops lib ms st1 of (es, st2) \<Rightarrow> (told m res @ es, st2)))"

lemma from_cu_success [simp]: "from_cu r = cudaSuccess \<longleftrightarrow> r = CUDA_SUCCESS"
  by (simp add: from_cu_def)

lemma at_least_one_pos [simp]: "at_least_one n \<noteq> 0"
  by (simp add: at_least_one_def)

lemma wrote_first [simp]: "wrote 0 (v # vs) = v"
  by (simp add: wrote_def)

text \<open>What a step towards the context leaves alone.\<close>

definition context_only :: "'c rt \<Rightarrow> 'c rt \<Rightarrow> bool" where
  "context_only st st' \<longleftrightarrow> rt_allocs (fst st') = rt_allocs (fst st) \<and> rt_modules (fst st') = rt_modules (fst st)
     \<and> rt_kernels (fst st') = rt_kernels (fst st) \<and> rt_next_module (fst st') = rt_next_module (fst st)
     \<and> th_error (fst (snd st')) = th_error (fst (snd st)) \<and> th_device (fst (snd st')) = th_device (fst (snd st))"

lemma context_only_trans: "context_only st st1 \<Longrightarrow> context_only st1 st2 \<Longrightarrow> context_only st st2"
  by (simp add: context_only_def)

lemma ensure_init_frame: "context_only st (snd (ensure_init lib st))"
  by (cases st) (auto simp: ensure_init_def context_only_def split: prod.split)

lemma find_context_frame: "context_only st (snd (find_context lib st))"
  by (cases st) (auto simp: find_context_def context_only_def split: prod.split option.split)

lemma select_context_frame: "context_only st (snd (select_context lib ctx gen st))"
  by (cases st) (auto simp: select_context_def context_only_def split: prod.split)

lemma ensure_context_frame: "context_only st (snd (ensure_context lib st))"
proof -
  obtain r u p t c where i: "ensure_init lib st = ((r, u), (p, t, c))" by (metis surj_pair)
  obtain r' ctx gen st1 where f: "find_context lib (p, t, c) = ((r', ctx, gen), st1)" by (metis surj_pair)
  have one: "context_only st (p, t, c)" using ensure_init_frame [of st lib] i by simp
  have two: "context_only st st1" using context_only_trans [OF one] find_context_frame [of "(p, t, c)" lib] f by simp
  have "context_only st (snd (select_context lib ctx gen st1))"
    using context_only_trans [OF two] select_context_frame by blast
  then show ?thesis using one two i f by (simp add: ensure_context_def)
qed

lemma ensure_context_allocs: "ensure_context lib st = (res, st1) \<Longrightarrow> rt_allocs (fst st1) = rt_allocs (fst st)"
  using ensure_context_frame [of st lib] by (simp add: context_only_def)

lemma mem_op_record:
  assumes "run_mem_op lib m st = (res, st1)"
  shows "rt_allocs (fst st1) = fold on_allocs (told m res) (rt_allocs (fst st))"
proof -
  obtain r u s2 where e: "ensure_context lib st = ((r, u), s2)" by (metis surj_pair)
  note k = ensure_context_allocs [OF e]
  show ?thesis using assms k e
    by (cases m) (auto simp: cudaMalloc_def cudaFree_def cudaMallocAsync_def cudaFreeAsync_def and_then_def run_cu_def
        freed_alloc_def record_cu_def report_error_def note_alloc_def forget_alloc_def split: prod.splits if_splits)
qed

lemma mem_ops_record:
  "run_mem_ops lib ms st = (es, st1) \<Longrightarrow> rt_allocs (fst st1) = fold on_allocs es (rt_allocs (fst st))"
proof (induction ms arbitrary: st es)
  case (Cons m ms)
  obtain res st2 where m: "run_mem_op lib m st = (res, st2)" by (metis surj_pair)
  obtain es' where "run_mem_ops lib ms st2 = (es', st1)" "es = told m res @ es'"
    using Cons.prems m by (auto split: prod.splits)
  then show ?case using Cons.IH mem_op_record [OF m] by simp
qed simp

lemma is_device_ptr_ours: "is_device_ptr v m \<longleftrightarrow> v \<noteq> 0 \<and> is_ours v m"
  by (simp add: is_device_ptr_def is_ours_def Let_def)

text \<open>The direction of a copy between two places, from what the program knows of its memory.\<close>

definition direction :: "alloc_event list \<Rightarrow> u64 \<Rightarrow> u64 \<Rightarrow> copy_kind" where
  "direction es dst src =
     (case (\<exists>e \<in> alive_allocs es {}. within dst e, \<exists>e \<in> alive_allocs es {}. within src e) of
        (True, True) \<Rightarrow> DeviceToDevice | (True, False) \<Rightarrow> HostToDevice
      | (False, True) \<Rightarrow> DeviceToHost | (False, False) \<Rightarrow> HostToHost)"

lemma resolved_direction:
  assumes "rt_allocs p = fold on_allocs es []" and "apart (rt_allocs p)" and "dst \<noteq> 0" and "src \<noteq> 0"
  shows "resolve_kind dst src Default p = direction es dst src"
proof -
  have s: "set (rt_allocs p) = alive_allocs es {}" "sorted_wrt (\<lambda>a b. fst a < fst b) (rt_allocs p)"
    using allocs_alive [of "[]" es] assms(1) by simp_all
  have "is_device_ptr v (rt_allocs p) \<longleftrightarrow> (\<exists>e \<in> alive_allocs es {}. within v e)" if "v \<noteq> 0" for v
    using is_ours_within [OF s(2) assms(2), of v] that s(1) by (simp add: is_device_ptr_ours)
  then show ?thesis using assms(3,4) by (simp add: resolve_kind_def direction_def Let_def)
qed

lemma do_memcpy_direction:
  "resolve_kind dst src Default (fst st) = kind \<Longrightarrow> kind \<noteq> Default \<Longrightarrow>
   do_memcpy lib dst src n Default stream st = do_memcpy lib dst src n kind stream st"
  by (cases st) (simp add: do_memcpy_def resolve_kind_def Let_def)

lemma direction_given [simp]: "direction es dst src \<noteq> Default"
  by (simp add: direction_def split: bool.splits)

text \<open>C15. After any allocations and frees, plain or on a stream, a copy that leaves its direction to
  the runtime is the copy in the direction its two pointers have: towards the device, from it, within
  it or within the host, as each lies in a block that was given out and not freed since or does not.\<close>

theorem default_copy_goes_the_right_way:
  assumes "run_mem_ops lib ms (p, t, c) = (es, st)" and "rt_allocs p = []" and "apart (fold on_allocs es [])"
  shows "cudaMemcpy lib dst src n Default st = cudaMemcpy lib dst src n (direction es dst src) st
    \<and> cudaMemcpyAsync lib dst src n Default stream st = cudaMemcpyAsync lib dst src n (direction es dst src) stream st"
proof -
  have a: "rt_allocs (fst st) = fold on_allocs es []" using mem_ops_record [OF assms(1)] assms(2) by simp
  have r: "do_memcpy lib dst src n Default str st1 = do_memcpy lib dst src n (direction es dst src) str st1"
    if "ensure_context lib st = (res, st1)" "dst \<noteq> 0" "src \<noteq> 0" for res st1 str
    using ensure_context_allocs [OF that(1)] a assms(3) that
    by (intro do_memcpy_direction resolved_direction) simp_all
  show ?thesis using r by (auto simp: cudaMemcpy_def cudaMemcpyAsync_def and_then_def split: prod.split)
qed

theorem default_copy_goes_the_right_way_witness:
  "cudaMemcpy (\<lambda>call c. ((CUDA_SUCCESS, [0x7000]), c)) 0x7010 0x50 8 Default
     (snd (run_mem_ops (\<lambda>call c. ((CUDA_SUCCESS, [0x7000]), c)) [Malloc 0x20 64] (new_runtime, new_rt_thread, ())))
   = cudaMemcpy (\<lambda>call c. ((CUDA_SUCCESS, [0x7000]), c)) 0x7010 0x50 8 HostToDevice
     (snd (run_mem_ops (\<lambda>call c. ((CUDA_SUCCESS, [0x7000]), c)) [Malloc 0x20 64] (new_runtime, new_rt_thread, ())))"
proof -
  let ?lib = "\<lambda>call c. ((CUDA_SUCCESS, [0x7000]), c) :: (CUresult \<times> u64 list) \<times> unit"
  let ?st = "(new_runtime, new_rt_thread, ())"
  have e: "fst (run_mem_ops ?lib [Malloc 0x20 64] ?st) = [Given 0x7000 64]"
    by (simp add: cudaMalloc_def and_then_def ensure_context_def ensure_init_def new_runtime_def new_rt_thread_def
        context_selected_def find_context_def select_context_def run_cu_def at_least_one_def)
  have a: "apart (fold on_allocs [Given 0x7000 64] [])" by (simp add: apart_def)
  have d: "direction [Given 0x7000 64] 0x7010 0x50 = HostToDevice" by (simp add: direction_def within_def)
  have n: "rt_allocs new_runtime = []" by (simp add: new_runtime_def)
  have "run_mem_ops ?lib [Malloc 0x20 64] ?st = ([Given 0x7000 64], snd (run_mem_ops ?lib [Malloc 0x20 64] ?st))"
    using e by (metis prod.collapse)
  from conjunct1 [OF default_copy_goes_the_right_way [OF this n a, of "0x7010" "0x50" 8]] show ?thesis unfolding d .
qed

section \<open>The last error\<close>

text \<open>A call that returns an error leaves it as its thread's last error, and one that succeeds leaves
  the last error as it was.\<close>

definition remembers :: "('c, cudaError \<times> 'v) rt_op \<Rightarrow> bool" where
  "remembers op \<longleftrightarrow> (\<forall>p t c. case op (p, t, c) of ((e, v), (p', t', c')) \<Rightarrow>
     th_error t' = (if e \<noteq> cudaSuccess then e else th_error t))"

text \<open>A step within a call leaves it alone.\<close>

definition keeps_error :: "('c, 'v) rt_op \<Rightarrow> bool" where
  "keeps_error op \<longleftrightarrow> (\<forall>p t c. case op (p, t, c) of (v, (p', t', c')) \<Rightarrow> th_error t' = th_error t)"

lemma remembersD: "remembers op \<Longrightarrow> op (p, t, c) = ((e, v), (p', t', c')) \<Longrightarrow>
    th_error t' = (if e \<noteq> cudaSuccess then e else th_error t)"
  by (auto simp: remembers_def dest!: spec [of _ p] spec [of _ t] spec [of _ c])

lemma remembersI:
  assumes "\<And>p t c e v p' t' c'. op (p, t, c) = ((e, v), (p', t', c')) \<Longrightarrow>
    th_error t' = (if e \<noteq> cudaSuccess then e else th_error t)"
  shows "remembers op"
  unfolding remembers_def
proof (intro allI)
  fix p t c
  obtain e v p' t' c' where o': "op (p, t, c) = ((e, v), (p', t', c'))" by (metis surj_pair)
  from assms [OF o'] show "case op (p, t, c) of ((e, v), (p', t', c')) \<Rightarrow> th_error t' = (if e \<noteq> cudaSuccess then e else th_error t)"
    by (simp add: o')
qed

lemma keeps_errorI:
  assumes "\<And>st v st1. op st = (v, st1) \<Longrightarrow> th_error (fst (snd st1)) = th_error (fst (snd st))"
  shows "keeps_error op"
  unfolding keeps_error_def
proof (intro allI)
  fix p t c
  obtain v p' t' c' where o': "op (p, t, c) = (v, (p', t', c'))" by (metis surj_pair)
  from assms [OF o'] show "case op (p, t, c) of (v, (p', t', c')) \<Rightarrow> th_error t' = th_error t" by (simp add: o')
qed

lemma keeps_errorD: "keeps_error op \<Longrightarrow> op (p, t, c) = (v, (p', t', c')) \<Longrightarrow> th_error t' = th_error t"
  by (auto simp: keeps_error_def dest!: spec [of _ p] spec [of _ t] spec [of _ c])

named_theorems remembering \<open>how calls remember their errors\<close>

lemma keeps_framed:
  assumes "\<And>st. context_only st (snd (op st))"
  shows "keeps_error op"
proof (rule keeps_errorI)
  fix st v st1 assume "op st = (v, st1)"
  then show "th_error (fst (snd st1)) = th_error (fst (snd st))" using assms [of st] by (simp add: context_only_def)
qed

lemma keeps_init [remembering]: "keeps_error (ensure_init lib)"
  by (rule keeps_framed) (rule ensure_init_frame)

lemma keeps_context [remembering]: "keeps_error (ensure_context lib)"
  by (rule keeps_framed) (rule ensure_context_frame)

lemma keeps_run_cu [remembering]: "keeps_error (run_cu lib call)"
  by (rule keeps_errorI) (auto simp: run_cu_def split: prod.splits)

lemma remembers_report [remembering]: "remembers (report_error e outs)"
  by (simp add: remembers_def report_error_def record_error_def)

lemma remembers_record_cu [remembering]: "remembers (record_cu r outs)"
  by (simp add: record_cu_def remembers_report)

lemma remembers_success [remembering]: "remembers (\<lambda>st. ((cudaSuccess, v), st))"
  by (simp add: remembers_def)

lemma remembers_if [remembering]: "remembers a \<Longrightarrow> remembers b \<Longrightarrow> remembers (if x then a else b)"
  by simp

lemma remembers_then [remembering]:
  assumes "keeps_error op" and "\<And>v. remembers (k v)"
  shows "remembers (and_then op k)"
proof (rule remembersI)
  fix p t c e outs p' t' c'
  assume run: "and_then op k (p, t, c) = ((e, outs), (p', t', c'))"
  obtain r v p1 t1 c1 where o': "op (p, t, c) = ((r, v), (p1, t1, c1))" by (metis surj_pair)
  have t1: "th_error t1 = th_error t" using keeps_errorD [OF assms(1) o'] .
  show "th_error t' = (if e \<noteq> cudaSuccess then e else th_error t)"
  proof (cases "r = CUDA_SUCCESS")
    case True
    then have "k v (p1, t1, c1) = ((e, outs), (p', t', c'))" using run o' by (simp add: and_then_def)
    from remembersD [OF assms(2) this] show ?thesis unfolding t1 .
  next
    case False
    then have "record_cu r [] (p1, t1, c1) = ((e, outs), (p', t', c'))" using run o' by (simp add: and_then_def)
    from remembersD [OF remembers_record_cu this] show ?thesis unfolding t1 .
  qed
qed

lemma remembers_tail [remembering]: "remembers (tail_call lib call)"
proof (rule remembersI)
  fix p t c e outs p' t' c'
  assume run: "tail_call lib call (p, t, c) = ((e, outs), (p', t', c'))"
  obtain r vs c1 where "lib call c = ((r, vs), c1)" by (metis surj_pair)
  then have "run_cu lib call (p, t, c) = ((r, vs), (p, t, c1))" by (simp add: run_cu_def)
  then have "record_cu r vs (p, t, c1) = ((e, outs), (p', t', c'))" using run by (simp add: tail_call_def)
  from remembersD [OF remembers_record_cu this] show "th_error t' = (if e \<noteq> cudaSuccess then e else th_error t)" .
qed

lemma remembers_in_context [remembering]: "remembers (in_context lib call)"
  unfolding in_context_def by (intro remembering)

end
