(* ===== verification/KernelLaws.thy ===== *)
theory KernelLaws
  imports DeviceProps RuntimeLaws
begin

text \<open>
  What holds of every runtime call - the error it leaves behind - and what the registry of kernels
  promises: the function a launch runs is the one the driver found under the registered name in the
  module of the registered image, and an occupancy that is not asked for again is what the driver said
  of that function. Device properties are the device's attributes, whichever way they were asked for.
\<close>

section \<open>The last error\<close>

lemma keeps_resolve [remembering]: "keeps_error (resolve_kernel lib h)"
  by (rule keeps_errorI) (auto simp: resolve_kernel_def Let_def split: prod.splits if_splits option.splits)

lemma remembers_refuse [remembering]: "remembers (refuse e)"
  by (rule remembersI) (auto simp: refuse_def report_error_def record_error_def)

lemma remembers_giving [remembering]:
  assumes "keeps_error op" and "\<And>v. remembers (k v)"
  shows "remembers (giving op k)"
proof (rule remembersI)
  fix p t c e w p' t' c'
  assume run: "giving op k (p, t, c) = ((e, w), (p', t', c'))"
  obtain r v p1 t1 c1 where o': "op (p, t, c) = ((r, v), (p1, t1, c1))" by (metis surj_pair)
  have t1: "th_error t1 = th_error t" using keeps_errorD [OF assms(1) o'] .
  show "th_error t' = (if e \<noteq> cudaSuccess then e else th_error t)"
  proof (cases "r = CUDA_SUCCESS")
    case True
    then have "k v (p1, t1, c1) = ((e, w), (p', t', c'))" using run o' by (simp add: giving_def)
    from remembersD [OF assms(2) this] show ?thesis unfolding t1 .
  next
    case False
    then have "record_cu r [] (p1, t1, c1) = ((e, []), (p', t', c'))"
      using run o' by (auto simp: giving_def record_cu_def report_error_def split: prod.splits)
    from remembersD [OF remembers_record_cu this] show ?thesis unfolding t1 .
  qed
qed

text \<open>A call whose result is more than words, seen as one whose outputs are left out.\<close>

definition only_error :: "('c, cudaError \<times> 'v) rt_op \<Rightarrow> 'c rt_call" where
  "only_error op st = (case op st of ((e, v), st1) \<Rightarrow> ((e, []), st1))"

lemma remembers_only [remembering]:
  assumes "remembers op"
  shows "remembers (only_error op)"
proof (rule remembersI)
  fix p t c e outs p' t' c'
  assume "only_error op (p, t, c) = ((e, outs), (p', t', c'))"
  then obtain v where "op (p, t, c) = ((e, v), (p', t', c'))" by (auto simp: only_error_def split: prod.splits)
  from remembersD [OF assms this] show "th_error t' = (if e \<noteq> cudaSuccess then e else th_error t)" .
qed

lemma remembers_direct:
  assumes "\<And>p t c. \<exists>p' c' v. op (p, t, c) = ((cudaSuccess, v), (p', t, c'))"
  shows "remembers op"
proof (rule remembersI)
  fix p t c e v p' t' c'
  assume "op (p, t, c) = ((e, v), (p', t', c'))"
  then show "th_error t' = (if e \<noteq> cudaSuccess then e else th_error t)" using assms [of p t c] by auto
qed

lemma remembers_malloc [remembering]: "remembers (cudaMalloc lib a n)" "remembers (cudaMallocAsync lib a n s)"
  unfolding cudaMalloc_def cudaMallocAsync_def
  by (intro remembers_if remembers_then remembers_report remembers_direct keeps_context keeps_run_cu; simp)+

lemma freed_alloc_remembers [remembering]: "remembers (freed_alloc d r)"
  by (rule remembersI) (auto simp: freed_alloc_def record_cu_def report_error_def record_error_def split: if_splits)

text \<open>A driver call, and then something that reports its result.\<close>

lemma remembers_after [remembering]:
  assumes "\<And>r outs. remembers (k r outs)"
  shows "remembers (\<lambda>st. case run_cu lib call st of ((r, outs), st1) \<Rightarrow> k r outs st1)"
proof (rule remembersI)
  fix p t c e v p' t' c'
  assume run: "(case run_cu lib call (p, t, c) of ((r, outs), st1) \<Rightarrow> k r outs st1) = ((e, v), (p', t', c'))"
  obtain r vs c1 where "lib call c = ((r, vs), c1)" by (metis surj_pair)
  then have "k r vs (p, t, c1) = ((e, v), (p', t', c'))" using run by (simp add: run_cu_def)
  from remembersD [OF assms this] show "th_error t' = (if e \<noteq> cudaSuccess then e else th_error t)" .
qed

lemma remembers_after_res [remembering]:
  assumes "\<And>res. remembers (k res)"
  shows "remembers (\<lambda>st. case run_cu lib call st of (res, st1) \<Rightarrow> k res st1)"
  using remembers_after [of "\<lambda>r outs. k (r, outs)" lib call] assms by (simp add: case_prod_beta)

lemma graph_result_remembers [remembering]: "remembers (graph_result out res)"
  by (cases res) (simp add: graph_result_def remembers_record_cu)

lemma do_memcpy_remembers [remembering]: "remembers (do_memcpy lib dst src n kind stream)"
proof (rule remembersI)
  fix p t c e v p' t' c'
  assume run: "do_memcpy lib dst src n kind stream (p, t, c) = ((e, v), (p', t', c'))"
  show "th_error t' = (if e \<noteq> cudaSuccess then e else th_error t)"
  proof (cases "copy_call dst src n (resolve_kind dst src kind p) stream")
    case None
    then show ?thesis using run by (auto simp: do_memcpy_def record_cu_def report_error_def record_error_def)
  next
    case (Some call)
    obtain r vs c1 where "lib call c = ((r, vs), c1)" by (metis surj_pair)
    with Some run show ?thesis by (auto simp: do_memcpy_def run_cu_def record_cu_def report_error_def record_error_def)
  qed
qed

lemma with_device_remembers [remembering]:
  assumes "\<And>dev. remembers (k dev)"
  shows "remembers (with_device lib device k)"
  unfolding with_device_def by (intro remembering assms)

text \<open>The calls of the API that can fail, but for the two that read the last error and the one that pops a
  launch configuration.\<close>

inductive runtime_call :: "'c libcuda \<Rightarrow> (string \<Rightarrow> u32) \<Rightarrow> u32 \<Rightarrow> 'c rt_call \<Rightarrow> bool" for lib num built where
  "runtime_call lib num built (cudaRuntimeGetVersion built version)"
| "runtime_call lib num built (cudaDriverGetVersion lib version)"
| "runtime_call lib num built (cudaGetDeviceCount lib count)"
| "runtime_call lib num built (cudaGetDevice device)"
| "runtime_call lib num built (cudaSetDevice lib device)"
| "runtime_call lib num built (cudaDeviceGetAttribute lib value attr device)"
| "runtime_call lib num built (cudaDeviceSynchronize lib)"
| "runtime_call lib num built (cudaDeviceReset lib)"
| "runtime_call lib num built (cudaMemGetInfo lib free everything)"
| "runtime_call lib num built (cudaMalloc lib dev_ptr n)"
| "runtime_call lib num built (cudaFree lib d)"
| "runtime_call lib num built (cudaMallocHost lib ptr n)"
| "runtime_call lib num built (cudaHostAlloc lib ptr n flags)"
| "runtime_call lib num built (cudaFreeHost lib ptr)"
| "runtime_call lib num built (cudaMemcpy lib dst src count kind)"
| "runtime_call lib num built (cudaMemcpyAsync lib dst src count kind stream)"
| "runtime_call lib num built (cudaMemset lib dev_ptr v count)"
| "runtime_call lib num built (cudaMemsetAsync lib dev_ptr v count stream)"
| "runtime_call lib num built (cudaMallocAsync lib dev_ptr n stream)"
| "runtime_call lib num built (cudaFreeAsync lib d stream)"
| "runtime_call lib num built (cudaStreamCreate lib out)"
| "runtime_call lib num built (cudaStreamCreateWithFlags lib out flags)"
| "runtime_call lib num built (cudaStreamCreateWithPriority lib out flags priority)"
| "runtime_call lib num built (cudaStreamDestroy lib stream)"
| "runtime_call lib num built (cudaStreamSynchronize lib stream)"
| "runtime_call lib num built (cudaStreamQuery lib stream)"
| "runtime_call lib num built (cudaStreamWaitEvent lib stream event flags)"
| "runtime_call lib num built (cudaEventCreate lib out)"
| "runtime_call lib num built (cudaEventCreateWithFlags lib out flags)"
| "runtime_call lib num built (cudaEventDestroy lib event)"
| "runtime_call lib num built (cudaEventRecord lib event stream)"
| "runtime_call lib num built (cudaEventRecordWithFlags lib event stream flags)"
| "runtime_call lib num built (cudaEventSynchronize lib event)"
| "runtime_call lib num built (cudaEventQuery lib event)"
| "runtime_call lib num built (cudaEventElapsedTime lib ms first last_event)"
| "runtime_call lib num built (cudaDeviceGetStreamPriorityRange lib least greatest)"
| "runtime_call lib num built (cudaStreamGetPriority lib stream priority)"
| "runtime_call lib num built (cudaStreamGetFlags lib stream flags)"
| "runtime_call lib num built (cudaGetDeviceFlags lib flags)"
| "runtime_call lib num built (cudaSetDeviceFlags lib flags)"
| "runtime_call lib num built (cudaStreamIsCapturing lib stream out)"
| "runtime_call lib num built (cudaThreadExchangeStreamCaptureMode lib mode)"
| "runtime_call lib num built (cudaProfilerStart)"
| "runtime_call lib num built (cudaProfilerStop)"
| "runtime_call lib num built (cudaLaunchKernel lib func grid block args shared stream)"
| "runtime_call lib num built (cudaFuncSetAttribute lib func attr v)"
| "runtime_call lib num built (cudaStreamBeginCapture lib stream mode)"
| "runtime_call lib num built (cudaStreamEndCapture lib stream out)"
| "runtime_call lib num built (cudaGraphInstantiate lib out graph flags)"
| "runtime_call lib num built (cudaGraphInstantiateWithFlags lib out graph flags)"
| "runtime_call lib num built (cudaGraphLaunch lib graph_exec stream)"
| "runtime_call lib num built (cudaGraphUpload lib graph_exec stream)"
| "runtime_call lib num built (cudaGraphGetNodes lib graph nodes count)"
| "runtime_call lib num built (cudaGraphDestroy lib graph)"
| "runtime_call lib num built (cudaGraphExecDestroy lib graph_exec)"
| "runtime_call lib num built (only_error (cudaPointerGetAttributes attributes ptr))"
| "runtime_call lib num built (only_error (cudaFuncGetAttributes lib attr func))"
| "runtime_call lib num built (only_error (occupancy lib num_blocks func block_size smem flags))"
| "runtime_call lib num built (only_error (cudaOccupancyMaxActiveBlocksPerMultiprocessor lib num_blocks func block_size smem))"
| "runtime_call lib num built (only_error (cudaGetDeviceProperties lib num prop device))"
| "runtime_call lib num built (only_error (cudaDeviceGetPCIBusId lib num out len device))"
| "runtime_call lib num built (only_error (cudaStreamGetCaptureInfo_v2 lib stream status id_out graph_out deps count))"

text \<open>A call that looks at its state first is one of several, which all remember.\<close>

lemma remembers_one_of:
  assumes "\<And>p t c. \<exists>op'. remembers op' \<and> op (p, t, c) = op' (p, t, c)"
  shows "remembers op"
proof (rule remembersI)
  fix p t c e v p' t' c'
  assume run: "op (p, t, c) = ((e, v), (p', t', c'))"
  obtain op' where o': "remembers op'" "op (p, t, c) = op' (p, t, c)" using assms by blast
  show "th_error t' = (if e \<noteq> cudaSuccess then e else th_error t)"
    using remembersD [OF o'(1)] run unfolding o'(2) .
qed

lemma set_device_remembers: "remembers (cudaSetDevice lib device)"
proof -
  have "remembers (\<lambda>(p, t, c). if sint device < 0 \<or> sint device \<ge> sint (ucast (wrote 0 outs) :: u32)
        then report_error cudaErrorInvalidDevice [] (p, t, c)
        else case ensure_context lib (p, choose_device device t, c) of ((r, _), st1) \<Rightarrow> record_cu r [] st1)" for outs
  proof (rule remembersI)
    fix p t c e v p' t' c'
    assume run: "(case (p, t, c) of (p, t, c) \<Rightarrow> if sint device < 0 \<or> sint device \<ge> sint (ucast (wrote 0 outs) :: u32)
        then report_error cudaErrorInvalidDevice [] (p, t, c)
        else case ensure_context lib (p, choose_device device t, c) of ((r, _), st1) \<Rightarrow> record_cu r [] st1) = ((e, v), (p', t', c'))"
    obtain r u p1 t1 c1 where o': "ensure_context lib (p, choose_device device t, c) = ((r, u), (p1, t1, c1))" by (metis surj_pair)
    have "th_error t1 = th_error t" using keeps_errorD [OF keeps_context o'] by (simp add: choose_device_def)
    then show "th_error t' = (if e \<noteq> cudaSuccess then e else th_error t)"
      using run o' by (auto simp: report_error_def record_cu_def record_error_def split: if_splits)
  qed
  then show ?thesis unfolding cudaSetDevice_def by (intro remembers_then keeps_init keeps_run_cu)
qed

lemma set_device_flags_remembers:
  fixes lib :: "'c libcuda"
  shows "remembers (cudaSetDeviceFlags lib flags)"
proof (rule remembers_one_of)
  fix p :: runtime and t :: rt_thread and c :: 'c
  let ?op = "with_device lib (th_device t) (\<lambda>dev. tail_call lib (Cu ''cuDevicePrimaryCtxSetFlags'' [ucast dev, ucast flags]))"
  have "remembers ?op" by (intro remembering)
  then show "\<exists>op'. remembers op' \<and> cudaSetDeviceFlags lib flags (p, t, c) = op' (p, t, c)"
    by (intro exI [of _ ?op]) (simp add: cudaSetDeviceFlags_def)
qed

lemma free_remembers: "remembers (cudaFree lib d)" "remembers (cudaFreeAsync lib d s)"
  unfolding cudaFree_def cudaFreeAsync_def by (intro remembering)+

lemma capture_info_remembers: "remembers (cudaStreamGetCaptureInfo_v2 lib stream status id_out graph_out deps num)"
  unfolding cudaStreamGetCaptureInfo_v2_def by (intro remembers_giving keeps_context keeps_run_cu remembers_success)

lemma func_attributes_remember: "remembers (cudaFuncGetAttributes lib attr func)"
  unfolding cudaFuncGetAttributes_def
  by (intro remembers_if remembers_refuse remembers_giving keeps_context keeps_resolve remembers_direct)
    (simp split: prod.split)

lemma pointer_attributes_remember: "remembers (cudaPointerGetAttributes attributes ptr)"
  by (rule remembersI) (auto simp: cudaPointerGetAttributes_def record_error_def split: if_splits)

lemma occupancy_remembers:
  fixes lib :: "'c libcuda"
  shows "remembers (occupancy lib num_blocks func block_size smem flags)"
proof (rule remembers_one_of)
  fix p :: runtime and t :: rt_thread and c :: 'c
  let ?key = "occupancy_key t block_size smem flags"
  let ?ask = "giving (ensure_context lib) (\<lambda>_. giving (resolve_kernel lib func) (\<lambda>fn.
           giving (run_cu lib (CuOccupancy fn block_size smem flags)) (\<lambda>outs (p, t, c).
             ((cudaSuccess, Some (ucast (wrote 0 outs))),
              (note_occupancy func ?key (ucast (wrote 0 outs)) p, t, c)))))"
  let ?op = "if num_blocks = 0 then refuse cudaErrorInvalidValue
      else case known_occupancy func ?key p of Some blocks \<Rightarrow> (\<lambda>st. ((cudaSuccess, Some blocks), st)) | None \<Rightarrow> ?ask"
  have "remembers ?ask"
    by (intro remembers_giving keeps_context keeps_resolve keeps_run_cu remembers_direct) simp
  then have "remembers ?op" by (auto split: option.split intro: remembers_refuse remembers_success)
  then show "\<exists>op'. remembers op' \<and> occupancy lib num_blocks func block_size smem flags (p, t, c) = op' (p, t, c)"
    by (intro exI [of _ ?op]) (simp add: occupancy_def Let_def split: option.split)
qed

lemma properties_remember:
  fixes lib :: "'c libcuda"
  shows "remembers (cudaGetDeviceProperties lib num prop device)"
proof (rule remembers_one_of)
  fix p :: runtime and t :: rt_thread and c :: 'c
  let ?ask = "giving (ensure_init lib) (\<lambda>_. giving (run_cu lib (CuDeviceGet device)) (\<lambda>outs (p, t, c).
            (case build_props lib num (ucast (wrote 0 outs)) c of (built, c1) \<Rightarrow>
              ((cudaSuccess, Some built), (p\<lparr> rt_props := (rt_props p)(device \<mapsto> built) \<rparr>, t, c1)))))"
  let ?op = "if prop = 0 then refuse cudaErrorInvalidValue
      else case rt_props p device of Some built \<Rightarrow> (\<lambda>st. ((cudaSuccess, Some built), st)) | None \<Rightarrow> ?ask"
  have "remembers ?ask"
    by (intro remembers_giving keeps_init keeps_run_cu remembers_direct) (simp split: prod.split)
  then have "remembers ?op" by (auto split: option.split intro: remembers_refuse remembers_success)
  then show "\<exists>op'. remembers op' \<and> cudaGetDeviceProperties lib num prop device (p, t, c) = op' (p, t, c)"
    by (intro exI [of _ ?op]) (simp add: cudaGetDeviceProperties_def split: option.split)
qed

lemma bus_id_remembers: "remembers (cudaDeviceGetPCIBusId lib num out len device)"
proof -
  have "remembers (\<lambda>(p, t, c). let s = bus_id a b d; cut = take (nat (sint len) - 1) s @ [CHR 0x00] in
          (if int (length s) \<ge> sint len
           then ((cudaErrorInvalidValue, Some cut), (p, record_error cudaErrorInvalidValue t, c))
           else ((cudaSuccess, Some cut), (p, t, c))))" for a b d
    by (rule remembersI) (auto simp: Let_def record_error_def split: if_splits)
  then show ?thesis unfolding cudaDeviceGetPCIBusId_def Let_def
    by (intro remembers_if remembers_refuse remembers_giving keeps_init keeps_run_cu)
qed

lemmas plain_calls = cudaRuntimeGetVersion_def cudaDriverGetVersion_def cudaGetDeviceCount_def
   cudaDeviceGetAttribute_def cudaDeviceSynchronize_def cudaMemGetInfo_def cudaMallocHost_def
   cudaHostAlloc_def cudaFreeHost_def cudaMemcpy_def cudaMemcpyAsync_def cudaMemset_def
   cudaMemsetAsync_def cudaStreamCreate_def cudaStreamCreateWithFlags_def cudaStreamCreateWithPriority_def
   cudaStreamDestroy_def cudaStreamSynchronize_def cudaStreamQuery_def cudaStreamWaitEvent_def
   cudaEventCreate_def cudaEventCreateWithFlags_def cudaEventDestroy_def cudaEventRecord_def
   cudaEventRecordWithFlags_def cudaEventSynchronize_def cudaEventQuery_def cudaEventElapsedTime_def
   cudaDeviceGetStreamPriorityRange_def cudaStreamGetPriority_def cudaStreamGetFlags_def
   cudaGetDeviceFlags_def cudaStreamIsCapturing_def cudaLaunchKernel_def cudaFuncSetAttribute_def
   cudaStreamBeginCapture_def cudaStreamEndCapture_def cudaGraphInstantiate_def
   cudaGraphInstantiateWithFlags_def cudaGraphLaunch_def cudaGraphUpload_def cudaGraphGetNodes_def
   cudaGraphDestroy_def cudaGraphExecDestroy_def cudaOccupancyMaxActiveBlocksPerMultiprocessor_def

lemmas odd_calls = set_device_remembers set_device_flags_remembers free_remembers remembers_malloc
  capture_info_remembers func_attributes_remember pointer_attributes_remember occupancy_remembers
  properties_remember bus_id_remembers

lemma runtime_call_remembers: "runtime_call lib num built op \<Longrightarrow> remembers op"
proof (induction rule: runtime_call.induct)
  fix device show "remembers (cudaGetDevice device)"
    unfolding cudaGetDevice_def by (intro remembers_if remembers_report remembers_direct) auto
next
  show "remembers (cudaDeviceReset lib)" by (rule remembers_direct) (simp add: cudaDeviceReset_def)
next
  show "remembers cudaProfilerStart" by (rule remembers_direct) (simp add: cudaProfilerStart_def)
next
  show "remembers cudaProfilerStop" by (rule remembers_direct) (simp add: cudaProfilerStop_def)
next
  fix mode show "remembers (cudaThreadExchangeStreamCaptureMode lib mode)"
    unfolding cudaThreadExchangeStreamCaptureMode_def
    by (cases mode) (simp_all add: remembers_report remembers_after remembers_record_cu)
qed (unfold plain_calls, (intro remembering odd_calls)+)

text \<open>A thread's calls one after the other, with what each returned.\<close>

fun run_calls :: "'c rt_call list \<Rightarrow> 'c rt \<Rightarrow> cudaError list \<times> 'c rt" where
  "run_calls [] st = ([], st)"
| "run_calls (op # ops) st = (case op st of ((e, outs), st1) \<Rightarrow> (case run_calls ops st1 of (es, st2) \<Rightarrow> (e # es, st2)))"

text \<open>The calls that give an error they do not record: popping a launch configuration where there is none,
  and every entry point that is not written by hand.\<close>

inductive silent_call :: "'c rt_call \<Rightarrow> bool" where
  "silent_call (only_error cudaPopCallConfiguration)"
| "silent_call cudaUnsupported"

lemma silent_call_keeps: "silent_call op \<Longrightarrow> keeps_error op"
  by (induction rule: silent_call.induct)
    (auto simp: keeps_error_def only_error_def cudaPopCallConfiguration_def cudaUnsupported_def split: list.split)

text \<open>What a thread calls: the calls that record, those that do not, and the two that read the last error.\<close>

datatype 'c act = Records "'c rt_call" | Does_not "'c rt_call" | Takes_last | Peeks

primrec act_call :: "'c act \<Rightarrow> 'c rt_call" where
  "act_call (Records op) = op"
| "act_call (Does_not op) = op"
| "act_call Takes_last = cudaGetLastError"
| "act_call Peeks = cudaPeekAtLastError"

primrec proper_act :: "'c libcuda \<Rightarrow> (string \<Rightarrow> u32) \<Rightarrow> u32 \<Rightarrow> 'c act \<Rightarrow> bool" where
  "proper_act lib num built (Records op) \<longleftrightarrow> runtime_call lib num built op"
| "proper_act lib num built (Does_not op) \<longleftrightarrow> silent_call op"
| "proper_act lib num built Takes_last \<longleftrightarrow> True"
| "proper_act lib num built Peeks \<longleftrightarrow> True"

text \<open>The error of the last recording call that failed since the error was last taken.\<close>

definition after_act :: "'c act \<Rightarrow> cudaError \<Rightarrow> cudaError \<Rightarrow> cudaError" where
  "after_act a e old = (case a of Records op \<Rightarrow> if e \<noteq> cudaSuccess then e else old
     | Does_not op \<Rightarrow> old | Takes_last \<Rightarrow> cudaSuccess | Peeks \<Rightarrow> old)"

definition last_failure :: "'c act list \<Rightarrow> cudaError list \<Rightarrow> cudaError \<Rightarrow> cudaError" where
  "last_failure acts es before = fold (\<lambda>(a, e). after_act a e) (zip acts es) before"

lemma act_error:
  assumes "proper_act lib num built a" and "act_call a (p, t, c) = ((e, outs), (p', t', c'))"
  shows "th_error t' = after_act a e (th_error t)"
proof (cases a)
  case (Records op)
  have "remembers op" using runtime_call_remembers assms(1) Records by simp
  from remembersD [OF this] show ?thesis using assms(2) Records by (simp add: after_act_def)
next
  case (Does_not op)
  have "keeps_error op" using silent_call_keeps assms(1) Does_not by simp
  from keeps_errorD [OF this] show ?thesis using assms(2) Does_not by (simp add: after_act_def)
next
  case Takes_last
  then show ?thesis using assms(2) by (auto simp: after_act_def cudaGetLastError_def)
next
  case Peeks
  then show ?thesis using assms(2) by (auto simp: after_act_def cudaPeekAtLastError_def)
qed

lemma run_calls_error:
  "list_all (proper_act lib num built) acts \<Longrightarrow> run_calls (map act_call acts) (p, t, c) = (es, (p', t', c')) \<Longrightarrow>
   th_error t' = last_failure acts es (th_error t)"
proof (induction acts arbitrary: p t c es)
  case (Cons a acts)
  obtain e outs p1 t1 c1 where o': "act_call a (p, t, c) = ((e, outs), (p1, t1, c1))" by (metis surj_pair)
  obtain es1 where r: "run_calls (map act_call acts) (p1, t1, c1) = (es1, (p', t', c'))" "es = e # es1"
    using Cons.prems(2) o' by (auto split: prod.splits)
  have "th_error t1 = after_act a e (th_error t)" using act_error [of lib num built, OF _ o'] Cons.prems(1) by simp
  then show ?case using Cons.IH [OF _ r(1)] Cons.prems(1) r(2) by (simp add: last_failure_def)
qed (simp add: last_failure_def)

text \<open>C26. Whatever runtime calls a thread makes, \<open>cudaGetLastError\<close> then gives the error of the last one that
  failed and records its error, since the error was last taken or else since it was what it was before,
  and clears it; \<open>cudaPeekAtLastError\<close> gives the same and leaves it. Every entry point written by hand
  records its error but the one that pops a launch configuration; those that are not written by hand
  return one and do not record it.\<close>

theorem last_error_is_the_last_failure:
  assumes "list_all (proper_act lib num built) acts" and "run_calls (map act_call acts) (p, t, c) = (es, st)"
  shows "fst (fst (cudaGetLastError st)) = last_failure acts es (th_error t)
    \<and> fst (fst (cudaGetLastError (snd (cudaGetLastError st)))) = cudaSuccess
    \<and> cudaPeekAtLastError st = ((last_failure acts es (th_error t), []), st)"
proof -
  obtain p' t' c' where s: "st = (p', t', c')" by (metis surj_pair)
  from run_calls_error [OF assms(1) assms(2) [unfolded s]] show ?thesis
    by (simp add: s cudaGetLastError_def cudaPeekAtLastError_def)
qed

theorem last_error_is_the_last_failure_witness:
  "fst (fst (cudaGetLastError (snd (run_calls
      [cudaGetLastError, cudaMemset seven 5 0 8, cudaMalloc seven 0 64, cudaUnsupported, cudaStreamSynchronize seven 9]
      (new_runtime, new_rt_thread, ())))))
   = cudaErrorInvalidValue"
proof -
  let ?acts = "[Takes_last, Records (cudaMemset seven 5 0 8), Records (cudaMalloc seven 0 64), Does_not cudaUnsupported,
    Records (cudaStreamSynchronize seven 9)]"
  let ?st = "(new_runtime, new_rt_thread, ())"
  have l: "list_all (proper_act seven (\<lambda>_. 0) 0) ?acts" by (simp add: runtime_call.intros silent_call.intros)
  have "fst (run_calls (map act_call ?acts) ?st) = [cudaSuccess, cudaSuccess, cudaErrorInvalidValue, cudaErrorNotSupported, cudaSuccess]"
    by (simp add: cudaMemset_def cudaMalloc_def cudaStreamSynchronize_def in_context_def and_then_def tail_call_def
        ensure_context_def ensure_init_def find_context_def select_context_def context_selected_def run_cu_def seven_def
        new_runtime_def new_rt_thread_def report_error_def record_cu_def record_error_def from_cu_def cudaUnsupported_def
        cudaGetLastError_def)
  then have "run_calls (map act_call ?acts) ?st
      = ([cudaSuccess, cudaSuccess, cudaErrorInvalidValue, cudaErrorNotSupported, cudaSuccess], snd (run_calls (map act_call ?acts) ?st))"
    by (metis prod.collapse)
  from conjunct1 [OF last_error_is_the_last_failure [OF l this]] show ?thesis by (simp add: last_failure_def after_act_def)
qed

end
