(* ===== verification/Registry.thy ===== *)
theory Registry
  imports KernelLaws
begin

text \<open>
  What the registry of kernels (\<^verbatim>\<open>client/cudart_impl.cpp\<close>) promises: a launch runs the function the
  driver found, under the name it was registered with, in the module loaded from the image it was
  registered with, and an occupancy that is answered from the cache is one the driver gave.
\<close>

section \<open>What the driver said\<close>

text \<open>The driver's calls with what they answered, in a log.\<close>

type_synonym cu_log = "(cu_call \<times> CUresult \<times> u64 list) list"

definition with_log :: "'c libcuda \<Rightarrow> (cu_log \<times> 'c) libcuda" where
  "with_log lib call lc = (case lib call (snd lc) of ((r, outs), c) \<Rightarrow> ((r, outs), (fst lc @ [(call, r, outs)], c)))"

definition module_loaded :: "cu_log \<Rightarrow> u64 \<Rightarrow> u64 \<Rightarrow> bool" where
  "module_loaded log img md \<longleftrightarrow> (\<exists>outs. (CuModuleLoadData img, CUDA_SUCCESS, outs) \<in> set log \<and> wrote 0 outs = md)"

text \<open>The driver gave this function for a name in a module loaded from an image.\<close>

definition stands_for :: "cu_log \<Rightarrow> u64 \<Rightarrow> string \<Rightarrow> u64 \<Rightarrow> bool" where
  "stands_for log img name fn \<longleftrightarrow> (\<exists>md outs. module_loaded log img md
     \<and> (CuModuleGetFunction md name, CUDA_SUCCESS, outs) \<in> set log \<and> wrote 0 outs = fn)"

definition kernel_ok :: "cu_log \<Rightarrow> u64 \<Rightarrow> kernel \<Rightarrow> bool" where
  "kernel_ok log img k \<longleftrightarrow> (kn_fn k \<noteq> 0 \<longrightarrow> stands_for log img (kn_name k) (kn_fn k))"

definition module_ok :: "cu_log \<Rightarrow> module_entry \<Rightarrow> bool" where
  "module_ok log e \<longleftrightarrow> (mo_loaded e \<noteq> 0 \<longrightarrow> module_loaded log (mo_image e) (mo_loaded e))"

text \<open>The kernel's module is registered, and what is known of the kernel the driver said.\<close>

definition kernel_known :: "runtime \<Rightarrow> cu_log \<Rightarrow> kernel \<Rightarrow> bool" where
  "kernel_known p log k \<longleftrightarrow> (\<exists>e. map_of (rt_modules p) (kn_module k) = Some e \<and> kernel_ok log (mo_image e) k)"

definition registry_ok :: "runtime \<Rightarrow> cu_log \<Rightarrow> bool" where
  "registry_ok p log \<longleftrightarrow> (\<forall>m e. map_of (rt_modules p) m = Some e \<longrightarrow> m < rt_next_module p \<and> module_ok log e)
     \<and> (\<forall>x \<in> set (rt_kernels p). kernel_known p log (snd x))"

lemma module_loaded_mono: "set log \<subseteq> set log' \<Longrightarrow> module_loaded log i md \<Longrightarrow> module_loaded log' i md"
  unfolding module_loaded_def by blast

lemma stands_for_mono: "set log \<subseteq> set log' \<Longrightarrow> stands_for log i n fn \<Longrightarrow> stands_for log' i n fn"
  unfolding stands_for_def using module_loaded_mono by blast

lemma kernel_ok_mono: "set log \<subseteq> set log' \<Longrightarrow> kernel_ok log i k \<Longrightarrow> kernel_ok log' i k"
  unfolding kernel_ok_def using stands_for_mono by metis

lemma module_ok_mono: "set log \<subseteq> set log' \<Longrightarrow> module_ok log e \<Longrightarrow> module_ok log' e"
  unfolding module_ok_def using module_loaded_mono by metis

lemma kernel_known_mono: "set log \<subseteq> set log' \<Longrightarrow> kernel_known p log k \<Longrightarrow> kernel_known p log' k"
  unfolding kernel_known_def using kernel_ok_mono by metis

lemma registry_mono: "registry_ok p log \<Longrightarrow> set log \<subseteq> set log' \<Longrightarrow> registry_ok p log'"
  unfolding registry_ok_def using module_ok_mono kernel_known_mono by metis

lemma registry_same:
  "registry_ok p log \<Longrightarrow> rt_modules p' = rt_modules p \<Longrightarrow> rt_kernels p' = rt_kernels p \<Longrightarrow>
   rt_next_module p' = rt_next_module p \<Longrightarrow> registry_ok p' log"
  by (simp add: registry_ok_def kernel_known_def)

lemma registry_module: "registry_ok p log \<Longrightarrow> map_of (rt_modules p) m = Some e \<Longrightarrow> m < rt_next_module p \<and> module_ok log e"
  unfolding registry_ok_def by blast

lemma registry_kernel:
  assumes "registry_ok p log" and "map_of (rt_kernels p) h = Some k"
  obtains e where "map_of (rt_modules p) (kn_module k) = Some e" and "kernel_ok log (mo_image e) k" and "module_ok log e"
proof -
  have "kernel_known p log k" using assms map_of_SomeD [OF assms(2)] unfolding registry_ok_def by force
  then show ?thesis using that registry_module [OF assms(1)] unfolding kernel_known_def by blast
qed

lemma logged_says:
  assumes "with_log lib call lc = ((r, outs), lc')"
  shows "fst lc' = fst lc @ [(call, r, outs)]" and "set (fst lc) \<subseteq> set (fst lc')" and "(call, r, outs) \<in> set (fst lc')"
  using assms by (auto simp: with_log_def split: prod.splits)

section \<open>Changes of the registry\<close>

lemma set_module_known:
  assumes "kernel_known p log k" and "map_of (rt_modules p) m = Some e" and "mo_image e' = mo_image e"
  shows "kernel_known (set_module m e' p) log k"
  using assms by (auto simp: kernel_known_def set_module_def update_conv')

lemma set_module_registry:
  assumes "registry_ok p log" and "map_of (rt_modules p) m = Some e" and "mo_image e' = mo_image e" and "module_ok log e'"
  shows "registry_ok (set_module m e' p) log"
proof -
  have "kernel_known (set_module m e' p) log (snd x)" if "x \<in> set (rt_kernels p)" for x
    using set_module_known [OF _ assms(2,3)] assms(1) that by (simp add: registry_ok_def)
  then show ?thesis using assms registry_module [OF assms(1)]
    by (simp add: registry_ok_def set_module_def update_conv')
qed

lemma set_kernel_registry:
  assumes "registry_ok p log" and "kernel_known p log k"
  shows "registry_ok (set_kernel h k p) log"
proof -
  have "kernel_known p log (snd x)" if "x \<in> set (AList.update h k (rt_kernels p))" for x
    using set_alist_update [of h k "rt_kernels p"] that assms unfolding registry_ok_def by fastforce
  then show ?thesis using assms(1) by (simp add: registry_ok_def set_kernel_def kernel_known_def)
qed

lemma ensure_module_logged:
  assumes "ensure_module (with_log lib) e lc = ((r, e1), lc1)" and "module_ok (fst lc) e"
  shows "mo_image e1 = mo_image e \<and> set (fst lc) \<subseteq> set (fst lc1) \<and> module_ok (fst lc1) e1
    \<and> (r = CUDA_SUCCESS \<longrightarrow> module_loaded (fst lc1) (mo_image e) (mo_loaded e1))"
proof (cases "mo_loaded e = 0 \<and> \<not> mo_tried e")
  case True
  obtain r' outs lc2 where c: "with_log lib (CuModuleLoadData (mo_image e)) lc = ((r', outs), lc2)" by (metis surj_pair)
  have "module_loaded (fst lc2) (mo_image e) (wrote 0 outs)" if "r' = CUDA_SUCCESS"
    using logged_says(3) [OF c] that unfolding module_loaded_def by blast
  then show ?thesis using assms True c logged_says(2) [OF c] by (auto simp: ensure_module_def module_ok_def)
next
  case False
  then show ?thesis using assms by (auto simp: ensure_module_def module_ok_def split: if_splits)
qed

text \<open>A lookup that fails writes nothing.\<close>

definition writes_on_success :: "'c libcuda \<Rightarrow> bool" where
  "writes_on_success lib \<longleftrightarrow> (\<forall>md name c. case lib (CuModuleGetFunction md name) c of ((r, outs), c') \<Rightarrow>
     r \<noteq> CUDA_SUCCESS \<longrightarrow> outs = [])"

lemma failed_lookup:
  assumes "writes_on_success lib" and "with_log lib (CuModuleGetFunction md name) lc = ((r, outs), lc')" and "r \<noteq> CUDA_SUCCESS"
  shows "outs = []"
  using assms(1) [unfolded writes_on_success_def, rule_format, of md name "snd lc"] assms(2,3)
  by (auto simp: with_log_def split: prod.splits)

text \<open>The registry as the program sees it: the images that are registered, and the module and name of
  each host function.\<close>

type_synonym registered = "(nat \<rightharpoonup> u64) \<times> (u64 \<rightharpoonup> nat \<times> string)"

definition registered_of :: "runtime \<Rightarrow> registered" where
  "registered_of p = (\<lambda>m. map_option mo_image (map_of (rt_modules p) m),
     \<lambda>h. map_option (\<lambda>k. (kn_module k, kn_name k)) (map_of (rt_kernels p) h))"

definition names_image :: "registered \<Rightarrow> u64 \<Rightarrow> u64 \<Rightarrow> string \<Rightarrow> bool" where
  "names_image a h img name \<longleftrightarrow> (\<exists>m. snd a h = Some (m, name) \<and> fst a m = Some img)"

definition well_kept :: "runtime \<Rightarrow> cu_log \<Rightarrow> registered \<Rightarrow> bool" where
  "well_kept p log a \<longleftrightarrow> registry_ok p log \<and> distinct (map fst (rt_kernels p)) \<and> registered_of p = a"

lemma set_module_registered:
  assumes "map_of (rt_modules p) m = Some e" and "mo_image e' = mo_image e"
  shows "registered_of (set_module m e' p) = registered_of p"
  using assms by (auto simp: registered_of_def set_module_def update_conv')

lemma set_kernel_registered:
  "registered_of (set_kernel h k p) = (fst (registered_of p), (snd (registered_of p))(h \<mapsto> (kn_module k, kn_name k)))"
  by (auto simp: registered_of_def set_kernel_def update_conv')

lemma set_kernel_again:
  assumes "map_of (rt_kernels p) h = Some k" and "kn_module k' = kn_module k" and "kn_name k' = kn_name k"
  shows "registered_of (set_kernel h k' p) = registered_of p"
  using assms by (auto simp: registered_of_def set_kernel_def update_conv')

lemma set_module_kept:
  "well_kept p log a \<Longrightarrow> map_of (rt_modules p) m = Some e \<Longrightarrow> mo_image e' = mo_image e \<Longrightarrow> module_ok log e' \<Longrightarrow>
   well_kept (set_module m e' p) log a"
  by (simp add: well_kept_def set_module_registry set_module_registered) (simp add: set_module_def)

lemma well_kept_mono: "well_kept p log a \<Longrightarrow> set log \<subseteq> set log' \<Longrightarrow> well_kept p log' a"
  using registry_mono [of p log log'] by (simp add: well_kept_def)

lemma well_kept_same:
  "well_kept p log a \<Longrightarrow> rt_modules p' = rt_modules p \<Longrightarrow> rt_kernels p' = rt_kernels p \<Longrightarrow>
   rt_next_module p' = rt_next_module p \<Longrightarrow> well_kept p' log a"
  using registry_same [of p log p'] by (simp add: well_kept_def registered_of_def)

lemma set_kernel_kept:
  assumes "well_kept p log a" and "map_of (rt_kernels p) h = Some k" and "kn_module k' = kn_module k"
    and "kn_name k' = kn_name k" and "map_of (rt_modules p) (kn_module k) = Some e" and "kernel_ok log (mo_image e) k'"
  shows "well_kept (set_kernel h k' p) log a"
proof -
  have "kernel_known p log k'" using assms by (simp add: kernel_known_def)
  then show ?thesis using assms
    by (simp add: well_kept_def set_kernel_registry set_kernel_again) (simp add: set_kernel_def distinct_update)
qed

text \<open>Resolving a kernel: the registry stays as it is, and the function is the one found for it.\<close>

lemma resolve_kernel_kept:
  assumes "well_kept p (fst lc) a" and "writes_on_success lib"
    and "resolve_kernel (with_log lib) h (p, t, lc) = ((r, fn), (p', t', lc'))"
  shows "well_kept p' (fst lc') a \<and> set (fst lc) \<subseteq> set (fst lc') \<and> t' = t
    \<and> (r = CUDA_SUCCESS \<longrightarrow> (\<exists>img name. names_image a h img name \<and> stands_for (fst lc') img name fn))"
proof (cases "map_of (rt_kernels p) h")
  case None
  then show ?thesis using assms by (auto simp: resolve_kernel_def CUDA_ERROR_NOT_FOUND_def)
next
  case (Some k)
  have ok: "registry_ok p (fst lc)" and a: "registered_of p = a" using assms(1) by (simp_all add: well_kept_def)
  obtain e where e: "map_of (rt_modules p) (kn_module k) = Some e" "kernel_ok (fst lc) (mo_image e) k" "module_ok (fst lc) e"
    using registry_kernel [OF ok Some] by blast
  have n: "names_image a h (mo_image e) (kn_name k)"
    using Some e(1) a [symmetric] by (simp add: names_image_def registered_of_def)
  show ?thesis
  proof (cases "kn_fn k = 0")
    case False
    then show ?thesis using assms(1,3) Some e(2) n by (auto simp: resolve_kernel_def kernel_ok_def)
  next
    case True
    obtain r1 e1 lc1 where em: "ensure_module (with_log lib) e lc = ((r1, e1), lc1)" by (metis surj_pair)
    have m: "mo_image e1 = mo_image e" "set (fst lc) \<subseteq> set (fst lc1)" "module_ok (fst lc1) e1"
      "r1 = CUDA_SUCCESS \<longrightarrow> module_loaded (fst lc1) (mo_image e) (mo_loaded e1)"
      using ensure_module_logged [OF em e(3)] by simp_all
    let ?p1 = "set_module (kn_module k) e1 p"
    have k1: "well_kept ?p1 (fst lc1) a" using set_module_kept [OF well_kept_mono [OF assms(1) m(2)] e(1) m(1,3)] .
    show ?thesis
    proof (cases "r1 = CUDA_SUCCESS")
      case False
      then show ?thesis using assms(3) Some True e(1) em k1 m(2) by (simp add: resolve_kernel_def)
    next
      case r1: True
      let ?call = "CuModuleGetFunction (mo_loaded e1) (kn_name k)"
      obtain r2 outs lc2 where c: "with_log lib ?call lc1 = ((r2, outs), lc2)" by (metis surj_pair)
      have g: "set (fst lc1) \<subseteq> set (fst lc2)" using logged_says(2) [OF c] .
      have s: "stands_for (fst lc2) (mo_image e) (kn_name k) (wrote 0 outs)" if "r2 = CUDA_SUCCESS"
        using module_loaded_mono [OF g] m(4) r1 logged_says(3) [OF c] that unfolding stands_for_def by blast
      let ?k = "k\<lparr> kn_fn := wrote 0 outs \<rparr>"
      have "r2 \<noteq> CUDA_SUCCESS \<longrightarrow> outs = []"
        using failed_lookup [OF assms(2) c] by blast
      then have "kernel_ok (fst lc2) (mo_image e) ?k"
        using s kernel_ok_mono [OF subset_trans [OF m(2) g] e(2)] by (cases "r2 = CUDA_SUCCESS") (auto simp: kernel_ok_def wrote_def)
      moreover have "map_of (rt_kernels ?p1) h = Some k" "map_of (rt_modules ?p1) (kn_module k) = Some e1"
        using Some by (simp_all add: set_module_def update_conv')
      ultimately have "well_kept (set_kernel h ?k ?p1) (fst lc2) a"
        using set_kernel_kept [OF well_kept_mono [OF k1 g], of h k ?k e1] m(1) by simp
      then show ?thesis using assms(3) Some True e(1) em r1 c m(2) g s n by (auto simp: resolve_kernel_def)
    qed
  qed
qed

section \<open>Calls around the registry\<close>

text \<open>The log of a state only grows.\<close>

definition grows :: "(cu_log \<times> 'c) rt \<Rightarrow> (cu_log \<times> 'c) rt \<Rightarrow> bool" where
  "grows st st' \<longleftrightarrow> set (fst (snd (snd st))) \<subseteq> set (fst (snd (snd st')))"

lemma grows_trans: "grows st st1 \<Longrightarrow> grows st1 st2 \<Longrightarrow> grows st st2"
  unfolding grows_def by blast

lemma ensure_init_grows: "grows st (snd (ensure_init (with_log lib) st))"
proof -
  obtain p t lc where s: "st = (p, t, lc)" by (metis surj_pair)
  obtain r outs lc1 where c: "with_log lib CuInit lc = ((r, outs), lc1)" by (metis surj_pair)
  show ?thesis using logged_says(2) [OF c] c by (auto simp: s ensure_init_def grows_def)
qed

lemma find_context_grows: "grows st (snd (find_context (with_log lib) st))"
proof -
  obtain p t lc where s: "st = (p, t, lc)" by (metis surj_pair)
  obtain r outs lc1 where c: "with_log lib (CuDeviceGet (th_device t)) lc = ((r, outs), lc1)" by (metis surj_pair)
  obtain r' outs' lc2 where d: "with_log lib (CuDevicePrimaryCtxRetain (ucast (wrote 0 outs))) lc1 = ((r', outs'), lc2)"
    by (metis surj_pair)
  show ?thesis using logged_says(2) [OF c] logged_says(2) [OF d] c d
    by (auto simp: s find_context_def grows_def split: option.split)
qed

lemma select_context_grows: "grows st (snd (select_context (with_log lib) ctx gen st))"
proof -
  obtain p t lc where s: "st = (p, t, lc)" by (metis surj_pair)
  obtain r outs lc1 where c: "with_log lib (CuCtxSetCurrent ctx) lc = ((r, outs), lc1)" by (metis surj_pair)
  show ?thesis using logged_says(2) [OF c] c by (auto simp: s select_context_def grows_def)
qed

lemma ensure_context_grows: "grows st (snd (ensure_context (with_log lib) st))"
proof -
  obtain r u p t lc where i: "ensure_init (with_log lib) st = ((r, u), (p, t, lc))" by (metis surj_pair)
  obtain r' ctx gen st1 where f: "find_context (with_log lib) (p, t, lc) = ((r', ctx, gen), st1)" by (metis surj_pair)
  have one: "grows st (p, t, lc)" using ensure_init_grows [of st lib] i by simp
  have two: "grows st st1" using grows_trans [OF one] find_context_grows [of "(p, t, lc)" lib] f by simp
  have "grows st (snd (select_context (with_log lib) ctx gen st1))" using grows_trans [OF two] select_context_grows by blast
  then show ?thesis using one two i f by (simp add: ensure_context_def)
qed

lemma ensure_context_kept:
  assumes "ensure_context (with_log lib) (p, t, lc) = (res, (p', t', lc'))" and "well_kept p (fst lc) a"
  shows "well_kept p' (fst lc') a \<and> set (fst lc) \<subseteq> set (fst lc')"
proof -
  have g: "set (fst lc) \<subseteq> set (fst lc')" using ensure_context_grows [of "(p, t, lc)" lib] assms(1) by (simp add: grows_def)
  have "rt_modules p' = rt_modules p \<and> rt_kernels p' = rt_kernels p \<and> rt_next_module p' = rt_next_module p"
    using ensure_context_frame [of "(p, t, lc)" "with_log lib"] assms(1) by (simp add: context_only_def)
  then show ?thesis using well_kept_same [OF well_kept_mono [OF assms(2) g]] g by blast
qed

lemma note_occupancy_kept:
  assumes "well_kept p log a"
  shows "well_kept (note_occupancy h key b p) log a"
proof (cases "map_of (rt_kernels p) h")
  case (Some k)
  obtain e where e: "map_of (rt_modules p) (kn_module k) = Some e" "kernel_ok log (mo_image e) k"
    using registry_kernel [OF _ Some] assms by (auto simp: well_kept_def)
  then have "kernel_ok log (mo_image e) (k\<lparr> kn_occupancy := (kn_occupancy k)(key \<mapsto> b) \<rparr>)" by (simp add: kernel_ok_def)
  then show ?thesis using set_kernel_kept [OF assms Some _ _ e(1)] by (simp add: note_occupancy_def Some)
qed (simp add: note_occupancy_def assms)

section \<open>The registry over time\<close>

lemma map_of_filter_values:
  "distinct (map fst al) \<Longrightarrow> map_of (filter (\<lambda>(k, v). P v) al) k = (case map_of al k of
     None \<Rightarrow> None | Some v \<Rightarrow> if P v then Some v else None)"
  by (induction al) (auto simp: map_of_eq_None_iff image_iff split: option.splits)

definition forget_image :: "nat \<Rightarrow> registered \<Rightarrow> registered" where
  "forget_image m a = ((fst a)(m := None), (\<lambda>h. if \<exists>name. snd a h = Some (m, name) then None else snd a h))"

lemma register_image_kept:
  assumes "well_kept p log a" and "cudaRegisterFatBinary fat w (p, t, lc) = (m, (p', t', lc'))"
  shows "well_kept p' log ((fst a)(m \<mapsto> fat_image fat w), snd a)"
proof -
  have ok: "registry_ok p log" using assms(1) by (simp add: well_kept_def)
  have m: "m = rt_next_module p" using assms(2) by (simp add: cudaRegisterFatBinary_def)
  have new: "map_of (rt_modules p) m = None" using registry_module [OF ok] m by (cases "map_of (rt_modules p) m") auto
  let ?e = "\<lparr> mo_image = fat_image fat w, mo_loaded = 0, mo_tried = False \<rparr>"
  have p': "p' = p\<lparr> rt_modules := rt_modules p @ [(m, ?e)], rt_next_module := m + 1 \<rparr>"
    using assms(2) by (auto simp: cudaRegisterFatBinary_def)
  have look: "map_of (rt_modules p') = (map_of (rt_modules p))(m \<mapsto> ?e)"
    using new by (auto simp: p' map_add_def split: option.splits)
  have "kernel_known p' log k" if "kernel_known p log k" for k
    using that new by (auto simp: kernel_known_def look)
  moreover have "registered_of p' = ((fst a)(m \<mapsto> fat_image fat w), snd a)"
    using assms(1) look by (auto simp: well_kept_def registered_of_def p')
  moreover have "n < rt_next_module p' \<and> module_ok log e" if "map_of (rt_modules p') n = Some e" for n e
    using that registry_module [OF ok, of n e] m by (auto simp: look p' module_ok_def split: if_splits)
  ultimately show ?thesis using assms(1) by (simp add: well_kept_def registry_ok_def p')
qed

lemma register_function_kept:
  assumes "well_kept p log a" and "cudaRegisterFunction m h (Some name) (p, t, lc) = (u, (p', t', lc'))"
    and "fst a m \<noteq> None" and "m \<noteq> 0" and "h \<noteq> 0"
  shows "well_kept p' log (fst a, (snd a)(h \<mapsto> (m, name)))"
proof -
  let ?k = "\<lparr> kn_module = m, kn_name = name, kn_fn = 0, kn_occupancy = Map.empty \<rparr>"
  have p': "p' = set_kernel h ?k p" using assms(2,4,5) by (simp add: cudaRegisterFunction_def)
  have "kernel_known p log ?k"
    using assms(1,3) by (auto simp: kernel_known_def kernel_ok_def well_kept_def registered_of_def)
  then show ?thesis using assms(1) set_kernel_registry [of p log ?k h]
    by (simp add: p' well_kept_def set_kernel_registered) (simp add: set_kernel_def distinct_update)
qed

lemma unregister_kept:
  assumes "well_kept p (fst lc) a" and "cudaUnregisterFatBinary (with_log lib) m (p, t, lc) = (u, (p', t', lc'))" and "m \<noteq> 0"
  shows "well_kept p' (fst lc') (forget_image m a) \<and> set (fst lc) \<subseteq> set (fst lc')"
proof -
  have g: "set (fst lc) \<subseteq> set (fst lc')"
    using assms(2,3) logged_says(2) [of lib "Cu ''cuModuleUnload'' [mo_loaded e]" lc for e]
    by (auto simp: cudaUnregisterFatBinary_def with_log_def split: option.splits if_splits prod.splits)
  have p': "p' = p\<lparr> rt_modules := AList.delete m (rt_modules p),
      rt_kernels := filter (\<lambda>(h, k). kn_module k \<noteq> m) (rt_kernels p) \<rparr>"
    using assms(2,3) by (auto simp: cudaUnregisterFatBinary_def Let_def)
  have ok: "registry_ok p (fst lc')" "distinct (map fst (rt_kernels p))"
    using well_kept_mono [OF assms(1) g] by (simp_all add: well_kept_def)
  have "kernel_known p' (fst lc') (snd x)" if "x \<in> set (rt_kernels p')" for x
    using that ok(1) by (auto simp: p' registry_ok_def kernel_known_def delete_conv')
  moreover have "n < rt_next_module p' \<and> module_ok (fst lc') e" if "map_of (rt_modules p') n = Some e" for n e
    using that registry_module [OF ok(1), of n e] by (auto simp: p' delete_conv' split: if_splits)
  moreover have "map_of (rt_kernels p') h = (case map_of (rt_kernels p) h of
      None \<Rightarrow> None | Some k \<Rightarrow> if kn_module k = m then None else Some k)" for h
    using ok(2) by (simp add: p' map_of_filter_values split: option.split)
  ultimately show ?thesis using assms(1) ok g
    by (auto simp: well_kept_def registry_ok_def registered_of_def forget_image_def p' delete_conv' distinct_map_filter
        fun_eq_iff split: option.splits)
qed

text \<open>An occupancy query on its way through its sections: the device of the thread that makes it, its
  arguments, the key it goes by in the cache, and how far it is: the cache was looked up in vain, the
  kernel is resolved to a function, the driver has answered, or the caller has been told. \<open>qy_late\<close>: the
  host function was registered anew or taken back since the kernel was resolved.\<close>

datatype phase = Missed | Resolved u64 | Answered u32 | Told u32

record query =
  qy_dev :: u32
  qy_func :: u64
  qy_args :: "u32 \<times> u64 \<times> u32"
  qy_key :: "u32 \<times> u32 \<times> u64 \<times> u32"
  qy_phase :: phase
  qy_late :: bool

text \<open>What is kept beside the registry, to say what the queries promise: what the driver answered, to a thread
  with which device, of which function and which arguments; the queries; every registration there
  was; and the host functions for whose kernel a late answer was noted.\<close>

record watch =
  wt_said :: "(u32 \<times> u64 \<times> (u32 \<times> u64 \<times> u32) \<times> u32) set"
  wt_queries :: "query list"
  wt_ever :: "(u64 \<times> u64 \<times> string) set"
  wt_overtaken :: "u64 set"

type_synonym answers = "(u32 \<times> u64 \<times> (u32 \<times> u64 \<times> u32) \<times> u32) set"

definition mark_late :: "u64 set \<Rightarrow> query list \<Rightarrow> query list" where
  "mark_late H qs = map (\<lambda>q. if qy_func q \<in> H then q\<lparr> qy_late := True \<rparr> else q) qs"

definition changed :: "u64 set \<Rightarrow> watch \<Rightarrow> watch" where
  "changed H w = w\<lparr> wt_queries := mark_late H (wt_queries w), wt_overtaken := wt_overtaken w - H \<rparr>"

definition noticed :: "u64 \<Rightarrow> u64 \<Rightarrow> string \<Rightarrow> watch \<Rightarrow> watch" where
  "noticed h img name w = (changed {h} w)\<lparr> wt_ever := insert (h, img, name) (wt_ever w) \<rparr>"

definition taken_back :: "nat \<Rightarrow> registered \<Rightarrow> watch \<Rightarrow> watch" where
  "taken_back m a w = changed {h. \<exists>name. snd a h = Some (m, name)} w"

definition moved :: "query \<Rightarrow> query \<Rightarrow> watch \<Rightarrow> watch" where
  "moved q q' w = w\<lparr> wt_queries := q' # remove1 q (wt_queries w) \<rparr>"

definition begun :: "rt_thread \<Rightarrow> u64 \<Rightarrow> u32 \<times> u64 \<times> u32 \<Rightarrow> phase \<Rightarrow> query" where
  "begun t func args ph = \<lparr> qy_dev = th_device t, qy_func = func, qy_args = args,
     qy_key = (case args of (bs, smem, fl) \<Rightarrow> occupancy_key t bs smem fl), qy_phase = ph, qy_late = False \<rparr>"

definition after_cache :: "u32 option \<Rightarrow> phase" where
  "after_cache known = (case known of Some b \<Rightarrow> Told b | None \<Rightarrow> Missed)"

text \<open>What the process does to its registry: nvcc's code registers images and functions and takes them
  back, threads look kernels up and ask for their occupancy, and anything else leaves it alone. A locked
  section is one step, and so is a call of the driver outside the lock.\<close>

type_synonym 'c reg_state = "runtime \<times> (cu_log \<times> 'c) \<times> registered \<times> watch"

inductive reg_step :: "'c libcuda \<Rightarrow> 'c reg_state \<Rightarrow> 'c reg_state \<Rightarrow> bool" for lib where
  register: "cudaRegisterFatBinary fat x (p, t, lc) = (m, (p', t', lc')) \<Longrightarrow>
    reg_step lib (p, lc, a, w) (p', lc, ((fst a)(m \<mapsto> fat_image fat x), snd a), w)"
| named: "cudaRegisterFunction m h (Some name) (p, t, lc) = (u, (p', t', lc')) \<Longrightarrow> fst a m = Some img \<Longrightarrow> m \<noteq> 0 \<Longrightarrow> h \<noteq> 0 \<Longrightarrow>
    reg_step lib (p, lc, a, w) (p', lc, (fst a, (snd a)(h \<mapsto> (m, name))), noticed h img name w)"
| unregister: "cudaUnregisterFatBinary (with_log lib) m (p, t, lc) = (u, (p', t', lc')) \<Longrightarrow> m \<noteq> 0 \<Longrightarrow>
    reg_step lib (p, lc, a, w) (p', lc', forget_image m a, taken_back m a w)"
| look_up: "resolve_kernel (with_log lib) h (p, t, lc) = (res, (p', t', lc')) \<Longrightarrow> reg_step lib (p, lc, a, w) (p', lc', a, w)"
| query_begun: "reg_step lib (p, lc, a, w) (p, lc, a, w\<lparr> wt_queries :=
      begun t func args (after_cache (known_occupancy func (qy_key (begun t func args Missed)) p)) # wt_queries w \<rparr>)"
| query_resolved: "q \<in> set (wt_queries w) \<Longrightarrow> qy_phase q = Missed \<Longrightarrow>
    resolve_kernel (with_log lib) (qy_func q) (p, t, lc) = ((CUDA_SUCCESS, fn), (p', t', lc')) \<Longrightarrow>
    reg_step lib (p, lc, a, w) (p', lc', a, moved q (q\<lparr> qy_phase := Resolved fn, qy_late := False \<rparr>) w)"
| query_answered: "q \<in> set (wt_queries w) \<Longrightarrow> qy_phase q = Resolved fn \<Longrightarrow> qy_args q = (bs, smem, fl) \<Longrightarrow>
    run_cu (with_log lib) (CuOccupancy fn bs smem fl) (p, t, lc) = ((CUDA_SUCCESS, outs), (p', t', lc')) \<Longrightarrow> b = ucast (wrote 0 outs) \<Longrightarrow>
    reg_step lib (p, lc, a, w) (p', lc', a, (moved q (q\<lparr> qy_phase := Answered b \<rparr>) w)\<lparr>
      wt_said := insert (qy_dev q, fn, (bs, smem, fl), b) (wt_said w) \<rparr>)"
| query_noted: "q \<in> set (wt_queries w) \<Longrightarrow> qy_phase q = Answered b \<Longrightarrow>
    reg_step lib (p, lc, a, w) (note_occupancy (qy_func q) (qy_key q) b p, lc, a, (moved q (q\<lparr> qy_phase := Told b \<rparr>) w)\<lparr>
      wt_overtaken := (if qy_late q then insert (qy_func q) (wt_overtaken w) else wt_overtaken w) \<rparr>)"
| other: "rt_modules p' = rt_modules p \<Longrightarrow> rt_kernels p' = rt_kernels p \<Longrightarrow> rt_next_module p' = rt_next_module p \<Longrightarrow>
    set (fst lc) \<subseteq> set (fst lc') \<Longrightarrow> reg_step lib (p, lc, a, w) (p', lc', a, w)"

lemma reg_step_kept:
  assumes "reg_step lib (p, lc, a, w) (p', lc', a', w')" and "writes_on_success lib" and "well_kept p (fst lc) a"
  shows "well_kept p' (fst lc') a' \<and> set (fst lc) \<subseteq> set (fst lc')"
  using assms(1)
proof cases
  case (look_up h t res t')
  then show ?thesis using resolve_kernel_kept [OF assms(3,2), of h t "fst res" "snd res" p' t' lc'] by simp
next
  case (query_resolved q t fn t')
  then show ?thesis using resolve_kernel_kept [OF assms(3,2), of "qy_func q" t CUDA_SUCCESS fn p' t' lc'] by simp
next
  case (query_answered q fn bs smem fl t outs t' b)
  obtain r os lc1 where c: "with_log lib (CuOccupancy fn bs smem fl) lc = ((r, os), lc1)" by (metis surj_pair)
  then have "p' = p \<and> lc' = lc1" using query_answered(6) by (simp add: run_cu_def)
  then show ?thesis using query_answered(1) well_kept_mono [OF assms(3)] logged_says(2) [OF c] by blast
next
  case (unregister m t u t')
  then show ?thesis using unregister_kept [OF assms(3), of lib m t u p' t' lc'] by simp
next
  case other
  then show ?thesis using well_kept_same well_kept_mono assms(3) by blast
qed (use assms(3) note_occupancy_kept in \<open>auto simp: register_image_kept register_function_kept\<close>)

definition nothing_watched :: watch where
  "nothing_watched = \<lparr> wt_said = {}, wt_queries = [], wt_ever = {}, wt_overtaken = {} \<rparr>"

definition empty_registry :: "'c \<Rightarrow> 'c reg_state" where
  "empty_registry c = (new_runtime, ([], c), (Map.empty, Map.empty), nothing_watched)"

lemma reachable_registry:
  assumes "(reg_step lib)\<^sup>*\<^sup>* (empty_registry c) (p, lc, a, w)" and "writes_on_success lib"
  shows "well_kept p (fst lc) a"
proof -
  have "case x of (p, lc, a, w) \<Rightarrow> well_kept p (fst lc) a" if "(reg_step lib)\<^sup>*\<^sup>* (empty_registry c) x" for x
    using that
  proof (induction rule: rtranclp_induct)
    case base
    then show ?case by (simp add: empty_registry_def well_kept_def registry_ok_def registered_of_def new_runtime_def)
  next
    case (step y z)
    obtain p lc a w where y: "y = (p, lc, a, w)" by (metis surj_pair)
    obtain p' lc' a' w' where z: "z = (p', lc', a', w')" by (metis surj_pair)
    show ?case using reg_step_kept [OF step.hyps(2) [unfolded y z] assms(2)] step.IH by (simp add: y z)
  qed
  from this [OF assms(1)] show ?thesis by simp
qed

lemma and_then_ok:
  "and_then op k st = ((cudaSuccess, outs), st') \<longleftrightarrow> (\<exists>v st1. op st = ((CUDA_SUCCESS, v), st1) \<and> k v st1 = ((cudaSuccess, outs), st'))"
  by (auto simp: and_then_def record_cu_def report_error_def split: prod.splits if_splits)

text \<open>C16. However images and functions were registered and taken back, and kernels looked up
  and asked about before, a launch that succeeds is of a host function that is registered now, and the
  last thing it did was to run, with the caller's dimensions, stream and arguments, the function the
  driver found under the registered name in a module loaded from the registered image.\<close>

theorem launch_runs_the_registered_kernel:
  assumes "(reg_step lib)\<^sup>*\<^sup>* (empty_registry c) (p, lc, a, w)" and "writes_on_success lib"
    and "cudaLaunchKernel (with_log lib) func grid block args shared stream (p, t, lc) = ((cudaSuccess, outs), (p', t', lc'))"
  shows "\<exists>img name fn. names_image a func img name \<and> stands_for (fst lc') img name fn
    \<and> last (fst lc') = (CuLaunchKernel fn (grid @ block @ [ucast shared]) stream args, CUDA_SUCCESS, outs)"
proof -
  have k: "well_kept p (fst lc) a" using reachable_registry [OF assms(1,2)] .
  obtain u p1 t1 lc1 where c1: "ensure_context (with_log lib) (p, t, lc) = ((CUDA_SUCCESS, u), (p1, t1, lc1))"
    and r1: "and_then (resolve_kernel (with_log lib) func) (\<lambda>fn. tail_call (with_log lib)
      (CuLaunchKernel fn (grid @ block @ [ucast shared]) stream args)) (p1, t1, lc1) = ((cudaSuccess, outs), (p', t', lc'))"
    using assms(3) unfolding cudaLaunchKernel_def and_then_ok by fastforce
  obtain fn p2 t2 lc2 where c2: "resolve_kernel (with_log lib) func (p1, t1, lc1) = ((CUDA_SUCCESS, fn), (p2, t2, lc2))"
    and r2: "tail_call (with_log lib) (CuLaunchKernel fn (grid @ block @ [ucast shared]) stream args) (p2, t2, lc2)
      = ((cudaSuccess, outs), (p', t', lc'))"
    using r1 unfolding and_then_ok by fastforce
  obtain r outs' lc3 where c3: "with_log lib (CuLaunchKernel fn (grid @ block @ [ucast shared]) stream args) lc2 = ((r, outs'), lc3)"
    by (metis surj_pair)
  have e: "r = CUDA_SUCCESS" "outs' = outs" "lc3 = lc'"
    using r2 c3 by (auto simp: tail_call_def run_cu_def record_cu_def report_error_def)
  obtain img name where n: "names_image a func img name" "stands_for (fst lc2) img name fn"
    using resolve_kernel_kept [OF conjunct1 [OF ensure_context_kept [OF c1 k]] assms(2) c2] by auto
  have "stands_for (fst lc') img name fn" using stands_for_mono [OF logged_says(2) [OF c3] n(2)] e(3) by simp
  moreover have "last (fst lc') = (CuLaunchKernel fn (grid @ block @ [ucast shared]) stream args, CUDA_SUCCESS, outs)"
    using logged_says(1) [OF c3] e by simp
  ultimately show ?thesis using n(1) by blast
qed

text \<open>A process that registered one image, as module 1, and in it one function.\<close>

definition one_kernel :: runtime where
  "one_kernel = new_runtime\<lparr> rt_modules := [(1, \<lparr> mo_image = 0x100, mo_loaded = 0, mo_tried = False \<rparr>)], rt_next_module := 2,
     rt_kernels := [(0x50, \<lparr> kn_module = 1, kn_name = ''axpy'', kn_fn = 0, kn_occupancy = Map.empty \<rparr>)] \<rparr>"

definition one_noticed :: watch where
  "one_noticed = noticed 0x50 0x100 ''axpy'' nothing_watched"

lemma one_kernel_reached:
  "(reg_step seven)\<^sup>*\<^sup>* (empty_registry ()) (one_kernel, ([], ()), ([1 \<mapsto> 0x100], [0x50 \<mapsto> (1, ''axpy'')]), one_noticed)"
proof -
  let ?p1 = "new_runtime\<lparr> rt_modules := [(1, \<lparr> mo_image = 0x100, mo_loaded = 0, mo_tried = False \<rparr>)], rt_next_module := 2 \<rparr>"
  let ?img = "(Map.empty(1 \<mapsto> 0x100), Map.empty) :: registered" and ?lc = "([], ()) :: cu_log \<times> unit"
  have "reg_step seven (empty_registry ()) (?p1, ?lc, ?img, nothing_watched)"
    using reg_step.register [where fat = "0x100" and x = "(0, 0)" and t = new_rt_thread and t' = new_rt_thread and p = new_runtime
        and lc' = ?lc and lc = ?lc and a = "(Map.empty, Map.empty)" and m = 1 and p' = ?p1 and lib = seven and w = nothing_watched]
    by (simp add: empty_registry_def cudaRegisterFatBinary_def new_runtime_def fat_image_def kFatBinWrapperMagic_def)
  moreover have "reg_step seven (?p1, ?lc, ?img, nothing_watched)
      (one_kernel, ?lc, ([1 \<mapsto> 0x100], [0x50 \<mapsto> (1, ''axpy'')]), one_noticed)"
    using reg_step.named [where h = "0x50" and name = "''axpy''" and t = new_rt_thread and t' = new_rt_thread and p = ?p1
        and lc' = ?lc and lc = ?lc and a = ?img and m = 1 and p' = one_kernel and lib = seven and w = nothing_watched and img = "0x100"]
    by (simp add: cudaRegisterFunction_def one_kernel_def set_kernel_def new_runtime_def one_noticed_def)
  ultimately show ?thesis by (rule converse_rtranclp_into_rtranclp [OF _ r_into_rtranclp])
qed

lemma seven_writes: "writes_on_success seven"
  by (simp add: writes_on_success_def seven_def)

theorem launch_runs_the_registered_kernel_witness:
  "\<exists>lc' img name fn. names_image ([1 \<mapsto> 0x100], [0x50 \<mapsto> (1, ''axpy'')]) 0x50 img name \<and> stands_for (fst lc') img name fn
    \<and> last (fst (lc' :: cu_log \<times> unit)) = (CuLaunchKernel fn [8, 1, 1, 64, 1, 1, 0] 9 None, CUDA_SUCCESS, [7])"
proof -
  let ?run = "cudaLaunchKernel (with_log seven) 0x50 [8, 1, 1] [64, 1, 1] None 0 9 (one_kernel, new_rt_thread, ([], ()))"
  have r: "fst ?run = (cudaSuccess, [7])"
    by (simp add: cudaLaunchKernel_def and_then_def tail_call_def ensure_context_def ensure_init_def find_context_def
        select_context_def context_selected_def run_cu_def with_log_def seven_def one_kernel_def new_runtime_def new_rt_thread_def
        resolve_kernel_def ensure_module_def wrote_def record_cu_def report_error_def)
  obtain p t lc where "snd ?run = (p, t, lc)" by (metis surj_pair)
  then have "?run = ((cudaSuccess, [7]), (p, t, lc))" using r by (metis prod.collapse)
  from launch_runs_the_registered_kernel [OF one_kernel_reached seven_writes this] show ?thesis by simp blast
qed

section \<open>Occupancy\<close>

text \<open>The driver's answer, to a thread with the device, of a function it found under the name in a module of
  the image.\<close>

definition said_occupancy :: "cu_log \<Rightarrow> answers \<Rightarrow> u64 \<Rightarrow> string \<Rightarrow> u32 \<Rightarrow> u32 \<times> u64 \<times> u32 \<Rightarrow> u32 \<Rightarrow> bool" where
  "said_occupancy log S img name dev args b \<longleftrightarrow> (\<exists>fn. stands_for log img name fn \<and> (dev, fn, args, b) \<in> S)"

text \<open>A query and what it has found out: a registration there was of its host function, and, as long as that
  has not changed, there is.\<close>

definition found_out :: "cu_log \<Rightarrow> registered \<Rightarrow> (u64 \<times> u64 \<times> string) set \<Rightarrow> answers \<Rightarrow> query \<Rightarrow> bool" where
  "found_out log a E S q \<longleftrightarrow> qy_key q = (qy_dev q, qy_args q) \<and> (case qy_phase q of
       Missed \<Rightarrow> True
     | Resolved fn \<Rightarrow> (\<exists>img name. (qy_func q, img, name) \<in> E \<and> stands_for log img name fn
         \<and> (\<not> qy_late q \<longrightarrow> names_image a (qy_func q) img name))
     | Answered b \<Rightarrow> (\<exists>img name. (qy_func q, img, name) \<in> E \<and> said_occupancy log S img name (qy_dev q) (qy_args q) b
         \<and> (\<not> qy_late q \<longrightarrow> names_image a (qy_func q) img name))
     | Told b \<Rightarrow> (\<exists>img name. (qy_func q, img, name) \<in> E \<and> said_occupancy log S img name (qy_dev q) (qy_args q) b))"

definition cache_true :: "runtime \<Rightarrow> cu_log \<Rightarrow> registered \<Rightarrow> (u64 \<times> u64 \<times> string) set \<Rightarrow> answers \<Rightarrow> u64 set \<Rightarrow> bool" where
  "cache_true p log a E S overtaken \<longleftrightarrow> (\<forall>h dev args b. known_occupancy h (dev, args) p = Some b \<longrightarrow>
     (\<exists>img name. (h, img, name) \<in> E \<and> said_occupancy log S img name dev args b
       \<and> (h \<notin> overtaken \<longrightarrow> names_image a h img name)))"

definition queries_true :: "runtime \<Rightarrow> cu_log \<Rightarrow> registered \<Rightarrow> watch \<Rightarrow> bool" where
  "queries_true p log a w \<longleftrightarrow> (\<forall>h img name. names_image a h img name \<longrightarrow> (h, img, name) \<in> wt_ever w)
     \<and> cache_true p log a (wt_ever w) (wt_said w) (wt_overtaken w)
     \<and> (\<forall>q \<in> set (wt_queries w). found_out log a (wt_ever w) (wt_said w) q)"

lemma said_occupancy_mono:
  "said_occupancy log S img name dev args b \<Longrightarrow> set log \<subseteq> set log' \<Longrightarrow> S \<subseteq> S' \<Longrightarrow> said_occupancy log' S' img name dev args b"
  unfolding said_occupancy_def using stands_for_mono by blast

lemma found_out_mono:
  assumes "found_out log a E S q" and "set log \<subseteq> set log'" and "S \<subseteq> S'" and "E \<subseteq> E'"
  shows "found_out log' a E' S' q"
proof (cases "qy_phase q")
  case Missed
  then show ?thesis using assms(1) by (simp add: found_out_def)
next
  case (Resolved fn)
  then show ?thesis using assms(1,4) stands_for_mono [OF assms(2)] by (simp add: found_out_def) blast
next
  case (Answered b)
  then show ?thesis using assms(1,4) said_occupancy_mono [OF _ assms(2,3)] by (simp add: found_out_def) blast
next
  case (Told b)
  then show ?thesis using assms(1,4) said_occupancy_mono [OF _ assms(2,3)] by (simp add: found_out_def) blast
qed

lemma cache_true_mono:
  assumes "cache_true p log a E S ov" and "set log \<subseteq> set log'" and "S \<subseteq> S'" and "E \<subseteq> E'"
    and "ov \<subseteq> ov'" and "\<And>h key. known_occupancy h key p' = known_occupancy h key p"
  shows "cache_true p' log' a E' S' ov'"
  using assms(1) said_occupancy_mono [OF _ assms(2,3)] assms(4,5) unfolding cache_true_def assms(6) by blast

text \<open>A step that leaves the registrations and the caches alone.\<close>

lemma queries_true_mono:
  assumes "queries_true p log a w" and "set log \<subseteq> set log'" and "\<And>h key. known_occupancy h key p' = known_occupancy h key p"
  shows "queries_true p' log' a w"
  using assms(1) cache_true_mono [OF _ assms(2) subset_refl subset_refl subset_refl assms(3)] found_out_mono [OF _ assms(2) subset_refl subset_refl]
  unfolding queries_true_def by blast

lemma moved_frame:
  "moved q q' (w\<lparr> wt_said := S \<rparr>) = (moved q q' w)\<lparr> wt_said := S \<rparr>"
  "moved q q' (w\<lparr> wt_overtaken := ov \<rparr>) = (moved q q' w)\<lparr> wt_overtaken := ov \<rparr>"
  by (simp_all add: moved_def)

lemma query_moved:
  assumes "queries_true p log a w" and "found_out log a (wt_ever w) (wt_said w) q'"
  shows "queries_true p log a (moved q q' w)"
proof -
  have "set (wt_queries (moved q q' w)) \<subseteq> insert q' (set (wt_queries w))"
    using set_remove1_subset [of q "wt_queries w"] by (auto simp: moved_def)
  then have "\<forall>x \<in> set (wt_queries (moved q q' w)). found_out log a (wt_ever w) (wt_said w) x"
    using assms by (auto simp: queries_true_def)
  then show ?thesis using assms(1) by (simp add: queries_true_def moved_def)
qed

lemma resolve_keeps_cache:
  assumes "resolve_kernel lib h (p, t, c) = (res, (p', t', c'))"
  shows "known_occupancy f key p' = known_occupancy f key p"
  using assms by (auto simp: resolve_kernel_def known_occupancy_def Let_def set_kernel_def set_module_def update_conv'
      split: option.splits prod.splits if_splits)

lemma known_after_note:
  "known_occupancy h key (note_occupancy f key' b p) =
     (if h = f \<and> key = key' \<and> map_of (rt_kernels p) f \<noteq> None then Some b else known_occupancy h key p)"
  by (auto simp: note_occupancy_def known_occupancy_def set_kernel_def update_conv' split: option.split)

text \<open>Where registrations change: what is in flight for them is late, and the caches of their kernels are gone.\<close>

lemma changed_found_out:
  assumes "found_out log a E S q" and "\<And>h img name. h \<notin> H \<Longrightarrow> names_image a h img name \<Longrightarrow> names_image a' h img name"
    and "E \<subseteq> E'"
  shows "found_out log a' E' S (if qy_func q \<in> H then q\<lparr> qy_late := True \<rparr> else q)"
proof -
  have "found_out log a E' S q" using found_out_mono [OF assms(1) subset_refl subset_refl assms(3)] .
  then show ?thesis using assms(2) by (cases "qy_phase q") (auto simp: found_out_def, blast+)
qed

lemma changed_true:
  assumes "queries_true p log a w" and "set log \<subseteq> set log'"
    and "\<And>h img name. h \<notin> H \<Longrightarrow> names_image a h img name \<Longrightarrow> names_image a' h img name"
    and "wt_said w' = wt_said w" and "wt_ever w \<subseteq> wt_ever w'" and "wt_queries w' = mark_late H (wt_queries w)"
    and "wt_overtaken w' = wt_overtaken w - H"
    and "\<And>h key. known_occupancy h key p' = (if h \<in> H then None else known_occupancy h key p)"
    and "\<And>h img name. names_image a' h img name \<Longrightarrow> (h, img, name) \<in> wt_ever w'"
  shows "queries_true p' log' a' w'"
proof -
  have "cache_true p' log' a' (wt_ever w') (wt_said w') (wt_overtaken w')"
    unfolding cache_true_def
  proof (intro allI impI)
    fix h dev args b
    assume "known_occupancy h (dev, args) p' = Some b"
    then have h: "h \<notin> H" "known_occupancy h (dev, args) p = Some b" using assms(8) by (auto split: if_splits)
    then obtain img name where n: "(h, img, name) \<in> wt_ever w" "said_occupancy log (wt_said w) img name dev args b"
      "h \<notin> wt_overtaken w \<longrightarrow> names_image a h img name"
      using assms(1) unfolding queries_true_def cache_true_def by blast
    then show "\<exists>img name. (h, img, name) \<in> wt_ever w' \<and> said_occupancy log' (wt_said w') img name dev args b
        \<and> (h \<notin> wt_overtaken w' \<longrightarrow> names_image a' h img name)"
      using h(1) assms(3,5,7) said_occupancy_mono [OF n(2) assms(2) subset_refl] unfolding assms(4) by blast
  qed
  moreover have "found_out log' a' (wt_ever w') (wt_said w') q" if q: "q \<in> set (wt_queries w')" for q
  proof -
    obtain q0 where q0: "q0 \<in> set (wt_queries w)" "q = (if qy_func q0 \<in> H then q0\<lparr> qy_late := True \<rparr> else q0)"
      using q by (auto simp: assms(6) mark_late_def)
    then have "found_out log' a (wt_ever w) (wt_said w) q0" using assms(1) found_out_mono [OF _ assms(2) subset_refl subset_refl] by (auto simp: queries_true_def)
    from changed_found_out [OF this assms(3,5)] show ?thesis by (simp add: q0(2) assms(4))
  qed
  ultimately show ?thesis using assms(9) unfolding queries_true_def by blast
qed

lemma named_true:
  assumes "queries_true p log a w" and "well_kept p log a" and "cudaRegisterFunction m h (Some name) (p, t, lc) = (u, (p', t', lc'))"
    and "fst a m = Some img" and "m \<noteq> 0" and "h \<noteq> 0"
  shows "queries_true p' log (fst a, (snd a)(h \<mapsto> (m, name))) (noticed h img name w)"
proof (rule changed_true [OF assms(1) subset_refl, where H = "{h}"])
  have p': "p' = set_kernel h \<lparr> kn_module = m, kn_name = name, kn_fn = 0, kn_occupancy = Map.empty \<rparr> p"
    using assms(3,5,6) by (simp add: cudaRegisterFunction_def)
  show "known_occupancy h' key p' = (if h' \<in> {h} then None else known_occupancy h' key p)" for h' key
    by (simp add: p' known_occupancy_def set_kernel_def update_conv')
  show "(h', img', name') \<in> wt_ever (noticed h img name w)" if "names_image (fst a, (snd a)(h \<mapsto> (m, name))) h' img' name'" for h' img' name'
  proof (cases "h' = h")
    case True
    then show ?thesis using that assms(4) by (auto simp: names_image_def noticed_def)
  next
    case False
    then have "names_image a h' img' name'" using that by (auto simp: names_image_def)
    then show ?thesis using assms(1) by (simp add: queries_true_def noticed_def)
  qed
qed (auto simp: noticed_def changed_def names_image_def)

lemma unregistered_true:
  assumes "queries_true p (fst lc) a w" and "well_kept p (fst lc) a"
    and "cudaUnregisterFatBinary (with_log lib) m (p, t, lc) = (u, (p', t', lc'))" and "m \<noteq> 0"
  shows "queries_true p' (fst lc') (forget_image m a) (taken_back m a w)"
proof (rule changed_true [OF assms(1), where H = "{h. \<exists>name. snd a h = Some (m, name)}"])
  let ?H = "{h. \<exists>name. snd a h = Some (m, name)}"
  show "set (fst lc) \<subseteq> set (fst lc')" using unregister_kept [OF assms(2-4)] by blast
  have p': "rt_kernels p' = filter (\<lambda>(h, k). kn_module k \<noteq> m) (rt_kernels p)"
    using assms(3,4) by (auto simp: cudaUnregisterFatBinary_def Let_def)
  have a: "snd a h = map_option (\<lambda>k. (kn_module k, kn_name k)) (map_of (rt_kernels p) h)" for h
    using assms(2) by (auto simp: well_kept_def registered_of_def)
  have "distinct (map fst (rt_kernels p))" using assms(2) by (simp add: well_kept_def)
  then have "map_of (rt_kernels p') h = (case map_of (rt_kernels p) h of
      None \<Rightarrow> None | Some k \<Rightarrow> if kn_module k = m then None else Some k)" for h
    by (simp add: p' map_of_filter_values split: option.split)
  then show "known_occupancy h key p' = (if h \<in> ?H then None else known_occupancy h key p)" for h key
    using a by (auto simp: known_occupancy_def split: option.splits)
  show "(h, img, name) \<in> wt_ever (taken_back m a w)" if "names_image (forget_image m a) h img name" for h img name
  proof -
    have "names_image a h img name" using that by (auto simp: names_image_def forget_image_def split: if_splits)
    then show ?thesis using assms(1) by (simp add: queries_true_def taken_back_def changed_def)
  qed
  show "names_image (forget_image m a) h img name" if h: "h \<notin> ?H" and i: "names_image a h img name" for h img name
  proof -
    obtain n where n: "snd a h = Some (n, name)" "fst a n = Some img" using i by (auto simp: names_image_def)
    moreover have "n \<noteq> m" using h n(1) by auto
    ultimately show ?thesis by (simp add: names_image_def forget_image_def)
  qed
qed (auto simp: taken_back_def changed_def)

lemma begun_true:
  assumes "queries_true p log a w"
  shows "queries_true p log a (w\<lparr> wt_queries :=
      begun t func args (after_cache (known_occupancy func (qy_key (begun t func args Missed)) p)) # wt_queries w \<rparr>)" (is "queries_true p log a ?w")
proof -
  obtain bs smem fl where args: "args = (bs, smem, fl)" by (metis surj_pair)
  have "found_out log a (wt_ever w) (wt_said w) (begun t func args (after_cache (known_occupancy func (th_device t, args) p)))"
  proof (cases "known_occupancy func (th_device t, args) p")
    case None
    then show ?thesis by (simp add: found_out_def begun_def after_cache_def args occupancy_key_def)
  next
    case (Some b)
    then obtain img name where "(func, img, name) \<in> wt_ever w" "said_occupancy log (wt_said w) img name (th_device t) args b"
      using assms unfolding queries_true_def cache_true_def by blast
    then show ?thesis by (auto simp: found_out_def begun_def after_cache_def args occupancy_key_def Some [unfolded args])
  qed
  moreover have "qy_key (begun t func args Missed) = (th_device t, args)" by (simp add: begun_def args occupancy_key_def)
  ultimately show ?thesis using assms
    by (auto simp: queries_true_def)
qed

lemma queries_true_names:
  assumes "\<And>h img name. names_image a' h img name = names_image a h img name"
  shows "queries_true p log a' w = queries_true p log a w"
proof -
  have "found_out log a' E S q = found_out log a E S q" for E S q
    by (cases "qy_phase q") (simp_all add: found_out_def assms)
  then show ?thesis by (simp add: queries_true_def cache_true_def assms)
qed

lemma reg_step_true:
  assumes "reg_step lib (p, lc, a, w) (p', lc', a', w')" and "writes_on_success lib"
    and "well_kept p (fst lc) a" and "queries_true p (fst lc) a w"
  shows "queries_true p' (fst lc') a' w'"
  using assms(1)
proof cases
  case (register fat x t m t')
  have "rt_kernels p' = rt_kernels p" "m = rt_next_module p" using register(4) by (auto simp: cudaRegisterFatBinary_def)
  then have k: "known_occupancy h key p' = known_occupancy h key p" for h key by (simp add: known_occupancy_def)
  have "fst a m = None"
    using registry_module [of p "fst lc" m] \<open>m = rt_next_module p\<close> assms(3)
    by (cases "map_of (rt_modules p) m") (auto simp: well_kept_def registered_of_def)
  have n: "names_image ((fst a)(m \<mapsto> fat_image fat x), snd a) h img name \<longleftrightarrow> names_image a h img name" for h img name
  proof -
    have "snd a h \<noteq> Some (m, nm)" for nm
    proof
      assume "snd a h = Some (m, nm)"
      then obtain k where "map_of (rt_kernels p) h = Some k" "kn_module k = m"
        using assms(3) by (auto simp: well_kept_def registered_of_def)
      moreover have "registry_ok p (fst lc)" using assms(3) by (simp add: well_kept_def)
      ultimately obtain e where "map_of (rt_modules p) m = Some e" using registry_kernel by metis
      then show False using assms(3) \<open>fst a m = None\<close> by (auto simp: well_kept_def registered_of_def)
    qed
    then show ?thesis by (cases "snd a h") (auto simp: names_image_def)
  qed
  have "queries_true p' (fst lc') a w" using queries_true_mono [OF assms(4) subset_refl k] register by simp
  then have "queries_true p' (fst lc') ((fst a)(m \<mapsto> fat_image fat x), snd a) w" unfolding queries_true_names [OF n] .
  then show ?thesis using register(1-3) by simp
next
  case (named m h name t u t' lc1 img)
  then show ?thesis using named_true [OF assms(4,3) named(4-7)] named(1-3) by simp
next
  case (unregister m t u t')
  then show ?thesis using unregistered_true [OF assms(4,3) unregister(3,4)] unregister(1,2) by simp
next
  case (look_up h t res t')
  have "set (fst lc) \<subseteq> set (fst lc')" using reg_step_kept [OF assms(1-3)] by blast
  then show ?thesis using queries_true_mono [OF assms(4)] resolve_keeps_cache [OF look_up(3)] look_up(1,2) by blast
next
  case (query_begun t func args)
  then show ?thesis using begun_true [OF assms(4)] by simp
next
  case (query_resolved q t fn t')
  have g: "set (fst lc) \<subseteq> set (fst lc')" using reg_step_kept [OF assms(1-3)] by blast
  have one: "queries_true p' (fst lc') a w" using queries_true_mono [OF assms(4) g] resolve_keeps_cache [OF query_resolved(5)] by blast
  obtain img name where n: "names_image a (qy_func q) img name" "stands_for (fst lc') img name fn"
    using resolve_kernel_kept [OF assms(3,2) query_resolved(5)] by auto
  have "(qy_func q, img, name) \<in> wt_ever w" using n(1) assms(4) by (simp add: queries_true_def)
  moreover have "found_out (fst lc) a (wt_ever w) (wt_said w) q" using assms(4) query_resolved(3) by (simp add: queries_true_def)
  ultimately have "found_out (fst lc') a (wt_ever w) (wt_said w) (q\<lparr> qy_phase := Resolved fn, qy_late := False \<rparr>)"
    using n by (auto simp: found_out_def)
  then show ?thesis using query_moved [OF one] query_resolved(1,2) by simp
next
  case (query_answered q fn bs smem fl t outs t' b)
  have g: "set (fst lc) \<subseteq> set (fst lc')" using reg_step_kept [OF assms(1-3)] by blast
  have p': "p' = p" using query_answered(6) by (auto simp: run_cu_def split: prod.splits)
  let ?w = "w\<lparr> wt_said := insert (qy_dev q, fn, (bs, smem, fl), b) (wt_said w) \<rparr>"
  have one: "queries_true p (fst lc') a ?w"
    using assms(4) cache_true_mono [OF _ g _ subset_refl subset_refl, where S' = "wt_said ?w"]
      found_out_mono [OF _ g _ subset_refl, where S' = "wt_said ?w"] by (simp add: queries_true_def) blast
  have "found_out (fst lc) a (wt_ever w) (wt_said w) q" using assms(4) query_answered(3) by (simp add: queries_true_def)
  then obtain img name where "(qy_func q, img, name) \<in> wt_ever w" "stands_for (fst lc) img name fn"
    "\<not> qy_late q \<longrightarrow> names_image a (qy_func q) img name" "qy_key q = (qy_dev q, qy_args q)"
    using query_answered(4) by (auto simp: found_out_def)
  then have "found_out (fst lc') a (wt_ever ?w) (wt_said ?w) (q\<lparr> qy_phase := Answered b \<rparr>)"
    using stands_for_mono [OF g, of img name fn] query_answered(5)
    by (simp add: found_out_def said_occupancy_def) blast
  from query_moved [OF one this, of q] show ?thesis using query_answered(1,2) p' by (simp add: moved_frame)
next
  case (query_noted q b)
  let ?w = "w\<lparr> wt_overtaken := (if qy_late q then insert (qy_func q) (wt_overtaken w) else wt_overtaken w) \<rparr>"
  have "found_out (fst lc) a (wt_ever w) (wt_said w) q" using assms(4) query_noted(5) by (simp add: queries_true_def)
  then obtain img name where n: "(qy_func q, img, name) \<in> wt_ever w" "said_occupancy (fst lc) (wt_said w) img name (qy_dev q) (qy_args q) b"
    "\<not> qy_late q \<longrightarrow> names_image a (qy_func q) img name" "qy_key q = (qy_dev q, qy_args q)"
    using query_noted(6) by (auto simp: found_out_def)
  have "cache_true p' (fst lc) a (wt_ever ?w) (wt_said ?w) (wt_overtaken ?w)"
    unfolding cache_true_def
  proof (intro allI impI)
    fix h dev args b'
    assume "known_occupancy h (dev, args) p' = Some b'"
    then have "h = qy_func q \<and> (dev, args) = qy_key q \<and> b' = b \<or> known_occupancy h (dev, args) p = Some b'"
      unfolding query_noted(1) known_after_note by (metis option.inject)
    then show "\<exists>img name. (h, img, name) \<in> wt_ever ?w \<and> said_occupancy (fst lc) (wt_said ?w) img name dev args b'
        \<and> (h \<notin> wt_overtaken ?w \<longrightarrow> names_image a h img name)"
    proof
      assume "h = qy_func q \<and> (dev, args) = qy_key q \<and> b' = b"
      then show ?thesis using n by auto
    next
      assume "known_occupancy h (dev, args) p = Some b'"
      then obtain img name where "(h, img, name) \<in> wt_ever w" "said_occupancy (fst lc) (wt_said w) img name dev args b'"
        "h \<notin> wt_overtaken w \<longrightarrow> names_image a h img name"
        using assms(4) unfolding queries_true_def cache_true_def by blast
      then show ?thesis by (intro exI [of _ img] exI [of _ name]) simp
    qed
  qed
  then have one: "queries_true p' (fst lc) a ?w" using assms(4) by (simp add: queries_true_def)
  have "found_out (fst lc) a (wt_ever ?w) (wt_said ?w) (q\<lparr> qy_phase := Told b \<rparr>)" using n by (auto simp: found_out_def)
  from query_moved [OF one this, of q] show ?thesis using query_noted(1-4) by (simp add: moved_frame)
next
  case other
  have "known_occupancy h key p' = known_occupancy h key p" for h key using other by (simp add: known_occupancy_def)
  then show ?thesis using queries_true_mono [OF assms(4)] other by blast
qed

lemma reachable_queries:
  assumes "(reg_step lib)\<^sup>*\<^sup>* (empty_registry c) (p, lc, a, w)" and "writes_on_success lib"
  shows "queries_true p (fst lc) a w"
proof -
  have "case x of (p, lc, a, w) \<Rightarrow> well_kept p (fst lc) a \<and> queries_true p (fst lc) a w" if "(reg_step lib)\<^sup>*\<^sup>* (empty_registry c) x" for x
    using that
  proof (induction rule: rtranclp_induct)
    case base
    then show ?case
      by (simp add: empty_registry_def well_kept_def registry_ok_def registered_of_def new_runtime_def queries_true_def
          cache_true_def known_occupancy_def nothing_watched_def names_image_def)
  next
    case (step y z)
    obtain p lc a w where y: "y = (p, lc, a, w)" by (metis surj_pair)
    obtain p' lc' a' w' where z: "z = (p', lc', a', w')" by (metis surj_pair)
    show ?case using reg_step_kept [OF step.hyps(2) [unfolded y z] assms(2)] reg_step_true [OF step.hyps(2) [unfolded y z] assms(2)] step.IH
      by (simp add: y z)
  qed
  from this [OF assms(1)] show ?thesis by simp
qed

text \<open>The call nothing interrupts is one way its sections can run.\<close>

lemma giving_ok:
  "giving op k st = ((cudaSuccess, v), st') \<longleftrightarrow> (\<exists>x st1. op st = ((CUDA_SUCCESS, x), st1) \<and> k x st1 = ((cudaSuccess, v), st'))"
  by (auto simp: giving_def record_cu_def report_error_def split: prod.splits if_splits)

lemma occupancy_in_sections:
  assumes "occupancy (with_log lib) out func bs smem fl (p, t, lc) = ((cudaSuccess, res), (p', t', lc'))"
  shows "\<exists>w' b q. (reg_step lib)\<^sup>*\<^sup>* (p, lc, a, w) (p', lc', a, w') \<and> res = Some b \<and> q \<in> set (wt_queries w') \<and> qy_dev q = th_device t
    \<and> qy_func q = func \<and> qy_args q = (bs, smem, fl) \<and> qy_phase q = Told b \<and> wt_ever w' = wt_ever w"
proof -
  let ?step = "reg_step lib" and ?args = "(bs, smem, fl)"
  let ?key = "occupancy_key t bs smem fl"
  have out: "out \<noteq> 0" using assms by (auto simp: occupancy_def refuse_def report_error_def record_error_def)
  have key: "qy_key (begun t func ?args ph) = ?key" for ph by (simp add: begun_def)
  let ?q0 = "begun t func ?args (after_cache (known_occupancy func ?key p))"
  let ?w0 = "w\<lparr> wt_queries := ?q0 # wt_queries w \<rparr>"
  have start: "?step (p, lc, a, w) (p, lc, a, ?w0)" using reg_step.query_begun [of lib p lc a w t func ?args] by (simp add: key)
  show ?thesis
  proof (cases "known_occupancy func ?key p")
    case (Some b)
    then have "res = Some b \<and> p' = p \<and> lc' = lc" using assms out by (simp add: occupancy_def)
    then show ?thesis using start
      by (intro exI [of _ ?w0] exI [of _ b] exI [of _ ?q0]) (auto simp: begun_def after_cache_def Some)
  next
    case None
    let ?q = "begun t func ?args Missed"
    let ?v0 = "w\<lparr> wt_queries := ?q # wt_queries w \<rparr>"
    have begin_missed: "?step (p, lc, a, w) (p, lc, a, ?v0)" using start by (simp add: None after_cache_def)
    have q: "qy_phase ?q = Missed" "qy_func ?q = func" "qy_args ?q = ?args" "qy_dev ?q = th_device t" by (simp_all add: begun_def)
    obtain u p1 t1 lc1 where c1: "ensure_context (with_log lib) (p, t, lc) = ((CUDA_SUCCESS, u), (p1, t1, lc1))"
      and k1: "giving (resolve_kernel (with_log lib) func) (\<lambda>fn. giving (run_cu (with_log lib) (CuOccupancy fn bs smem fl))
        (\<lambda>outs (p, t, c). ((cudaSuccess, Some (ucast (wrote 0 outs))), (note_occupancy func ?key (ucast (wrote 0 outs)) p, t, c))))
        (p1, t1, lc1) = ((cudaSuccess, res), (p', t', lc'))"
      using assms out None by (auto simp: occupancy_def giving_ok)
    obtain fn p2 t2 lc2 where c2: "resolve_kernel (with_log lib) func (p1, t1, lc1) = ((CUDA_SUCCESS, fn), (p2, t2, lc2))"
      and k2: "giving (run_cu (with_log lib) (CuOccupancy fn bs smem fl))
        (\<lambda>outs (p, t, c). ((cudaSuccess, Some (ucast (wrote 0 outs))), (note_occupancy func ?key (ucast (wrote 0 outs)) p, t, c)))
        (p2, t2, lc2) = ((cudaSuccess, res), (p', t', lc'))"
      using k1 by (auto simp: giving_ok)
    obtain outs p3 t3 lc3 where c3: "run_cu (with_log lib) (CuOccupancy fn bs smem fl) (p2, t2, lc2) = ((CUDA_SUCCESS, outs), (p3, t3, lc3))"
      and k3: "res = Some (ucast (wrote 0 outs))" "p' = note_occupancy func ?key (ucast (wrote 0 outs)) p3" "lc' = lc3"
      using k2 by (auto simp: giving_ok)
    let ?b = "ucast (wrote 0 outs) :: u32"
    let ?q1 = "?q\<lparr> qy_phase := Resolved fn, qy_late := False \<rparr>"
    let ?q2 = "?q1\<lparr> qy_phase := Answered ?b \<rparr>"
    let ?w1 = "moved ?q ?q1 ?v0"
    let ?w2 = "(moved ?q1 ?q2 ?w1)\<lparr> wt_said := insert (th_device t, fn, ?args, ?b) (wt_said ?w1) \<rparr>"
    let ?q3 = "?q2\<lparr> qy_phase := Told ?b \<rparr>"
    have "set (fst lc) \<subseteq> set (fst lc1)" using ensure_context_grows [of "(p, t, lc)" lib] c1 by (simp add: grows_def)
    then have s1: "?step (p, lc, a, ?v0) (p1, lc1, a, ?v0)"
      using ensure_context_frame [of "(p, t, lc)" "with_log lib"] c1 by (intro reg_step.other) (simp_all add: context_only_def)
    have s2: "?step (p1, lc1, a, ?v0) (p2, lc2, a, ?w1)"
      using reg_step.query_resolved [of ?q ?v0 lib p1 t1 lc1 fn p2 t2 lc2 a] c2 by (simp add: q)
    have s3: "?step (p2, lc2, a, ?w1) (p3, lc3, a, ?w2)"
      using reg_step.query_answered [of ?q1 ?w1 fn bs smem fl lib p2 t2 lc2 outs p3 t3 lc3 ?b a] c3
      by (simp add: moved_def begun_def)
    have s4: "?step (p3, lc3, a, ?w2) (p', lc', a, moved ?q2 ?q3 ?w2)"
      using reg_step.query_noted [of ?q2 ?w2 ?b lib p3 lc3 a] by (simp add: moved_def begun_def k3)
    have "?step\<^sup>*\<^sup>* (p, lc, a, w) (p', lc', a, moved ?q2 ?q3 ?w2)"
      using begin_missed s1 s2 s3 s4 by (meson converse_rtranclp_into_rtranclp r_into_rtranclp)
    then show ?thesis
      by (intro exI [of _ "moved ?q2 ?q3 ?w2"] exI [of _ ?b] exI [of _ ?q3]) (simp add: k3(1) moved_def q)
  qed
qed

text \<open>C17. However images and functions are registered and taken back, kernels looked up and occupancies
  asked for, each query in its sections and those of other threads in between: what a query tells its
  caller is what the driver answered to a query from the same device, with the same block size, memory
  and flags, of the function it found under the name and in a module of the image that the host
  function was registered with at the time; so does the call that nothing interrupts. What the cache
  has for a kernel is such an answer, and for the registration there is now, unless the host function
  was registered anew or taken back while a query for it was under way, whose answer was then noted.
  The device is that of the calling thread, whose context \<open>ensure_context\<close> has made current.\<close>

theorem occupancy_is_the_drivers:
  assumes "(reg_step lib)\<^sup>*\<^sup>* (empty_registry c) (p, lc, a, w)" and "writes_on_success lib"
  shows "(\<forall>q \<in> set (wt_queries w). \<forall>b. qy_phase q = Told b \<longrightarrow> (\<exists>img name. (qy_func q, img, name) \<in> wt_ever w
      \<and> said_occupancy (fst lc) (wt_said w) img name (qy_dev q) (qy_args q) b))
    \<and> (\<forall>h dev args b. known_occupancy h (dev, args) p = Some b \<longrightarrow> (\<exists>img name. (h, img, name) \<in> wt_ever w
      \<and> said_occupancy (fst lc) (wt_said w) img name dev args b \<and> (h \<notin> wt_overtaken w \<longrightarrow> names_image a h img name)))
    \<and> (\<forall>out func bs smem fl t res p' t' lc'. occupancy (with_log lib) out func bs smem fl (p, t, lc) = ((cudaSuccess, res), (p', t', lc')) \<longrightarrow>
        (\<exists>w' b img name. (reg_step lib)\<^sup>*\<^sup>* (p, lc, a, w) (p', lc', a, w') \<and> res = Some b \<and> (func, img, name) \<in> wt_ever w
          \<and> said_occupancy (fst lc') (wt_said w') img name (th_device t) (bs, smem, fl) b))"
proof (intro conjI)
  have told: "\<exists>img name. (qy_func q, img, name) \<in> wt_ever w \<and> said_occupancy (fst lc) (wt_said w) img name (qy_dev q) (qy_args q) b"
    if "(reg_step lib)\<^sup>*\<^sup>* (empty_registry c) (p, lc, a, w)" and "q \<in> set (wt_queries w)" and "qy_phase q = Told b" for p lc a w q b
    using reachable_queries [OF that(1) assms(2)] that(2,3) by (fastforce simp: queries_true_def found_out_def)
  show "\<forall>q \<in> set (wt_queries w). \<forall>b. qy_phase q = Told b \<longrightarrow> (\<exists>img name. (qy_func q, img, name) \<in> wt_ever w
      \<and> said_occupancy (fst lc) (wt_said w) img name (qy_dev q) (qy_args q) b)"
    using told [OF assms(1)] by blast
  show "\<forall>h dev args b. known_occupancy h (dev, args) p = Some b \<longrightarrow> (\<exists>img name. (h, img, name) \<in> wt_ever w
      \<and> said_occupancy (fst lc) (wt_said w) img name dev args b \<and> (h \<notin> wt_overtaken w \<longrightarrow> names_image a h img name))"
    using reachable_queries [OF assms] by (simp add: queries_true_def cache_true_def)
  show "\<forall>out func bs smem fl t res p' t' lc'. occupancy (with_log lib) out func bs smem fl (p, t, lc) = ((cudaSuccess, res), (p', t', lc')) \<longrightarrow>
        (\<exists>w' b img name. (reg_step lib)\<^sup>*\<^sup>* (p, lc, a, w) (p', lc', a, w') \<and> res = Some b \<and> (func, img, name) \<in> wt_ever w
          \<and> said_occupancy (fst lc') (wt_said w') img name (th_device t) (bs, smem, fl) b)"
  proof (intro allI impI)
    fix out func bs smem fl t res p' t' lc'
    assume "occupancy (with_log lib) out func bs smem fl (p, t, lc) = ((cudaSuccess, res), (p', t', lc'))"
    from occupancy_in_sections [OF this, of a w] obtain w' b q where q: "(reg_step lib)\<^sup>*\<^sup>* (p, lc, a, w) (p', lc', a, w')" "res = Some b"
      "q \<in> set (wt_queries w')" "qy_dev q = th_device t" "qy_func q = func" "qy_args q = (bs, smem, fl)" "qy_phase q = Told b"
      "wt_ever w' = wt_ever w" by blast
    have "(reg_step lib)\<^sup>*\<^sup>* (empty_registry c) (p', lc', a, w')" using assms(1) q(1) by (rule rtranclp_trans)
    from told [OF this q(3,7)] q show "\<exists>w' b img name. (reg_step lib)\<^sup>*\<^sup>* (p, lc, a, w) (p', lc', a, w') \<and> res = Some b
        \<and> (func, img, name) \<in> wt_ever w \<and> said_occupancy (fst lc') (wt_said w') img name (th_device t) (bs, smem, fl) b"
      by auto
  qed
qed

theorem occupancy_is_the_drivers_witness:
  "\<exists>(w' :: watch) log. said_occupancy log (wt_said w') 0x100 ''axpy'' 0 (64, 0, 0) 7"
proof -
  let ?run = "occupancy (with_log seven) 0x20 0x50 64 0 0 (one_kernel, new_rt_thread, ([], ()))"
  have r: "fst ?run = (cudaSuccess, Some 7)"
    by (simp add: occupancy_def giving_def known_occupancy_def ensure_context_def ensure_init_def find_context_def
        select_context_def context_selected_def run_cu_def with_log_def seven_def one_kernel_def new_runtime_def new_rt_thread_def
        resolve_kernel_def ensure_module_def wrote_def)
  obtain p t lc where "snd ?run = (p, t, lc)" by (metis surj_pair)
  then have run: "?run = ((cudaSuccess, Some 7), (p, t, lc))" using r by (metis prod.collapse)
  from conjunct2 [OF conjunct2 [OF occupancy_is_the_drivers [OF one_kernel_reached seven_writes]], rule_format, OF run]
  obtain w' :: watch and b img name where b: "Some (7 :: u32) = Some b" and n: "(0x50, img, name) \<in> wt_ever one_noticed"
    and o: "said_occupancy (fst lc) (wt_said w') img name (th_device new_rt_thread) (64, 0, 0) b"
    by (elim exE conjE) blast
  have "img = 0x100" "name = ''axpy''" using n by (simp_all add: one_noticed_def noticed_def changed_def nothing_watched_def)
  moreover have "b = 7" using b by simp
  ultimately show ?thesis using o by (auto simp: new_rt_thread_def)
qed

text \<open>A query that was resolved before its host function was registered anew leaves its answer to the new kernel.\<close>

lemma late_answer_is_noted:
  assumes "map_of (rt_kernels p) (qy_func q) \<noteq> None" and "qy_phase q = Answered b" and "qy_late q" and "q \<in> set (wt_queries w)"
  shows "\<exists>p' w'. reg_step lib (p, lc, a, w) (p', lc, a, w') \<and> known_occupancy (qy_func q) (qy_key q) p' = Some b
    \<and> qy_func q \<in> wt_overtaken w'"
  using reg_step.query_noted [OF assms(4,2), of lib p lc a] assms(1,3)
  by (intro exI [of _ "note_occupancy (qy_func q) (qy_key q) b p"] exI [of _ "(moved q (q\<lparr> qy_phase := Told b \<rparr>) w)\<lparr>
      wt_overtaken := insert (qy_func q) (wt_overtaken w) \<rparr>"]) (simp add: known_after_note)

end
