(* ===== verification/Maths.thy ===== *)
theory Maths
  imports Launch
begin

text \<open>
  What the forwarding of the three maths libraries shares (\<^verbatim>\<open>client/cublas_impl.cpp\<close>,
  \<^verbatim>\<open>client/cublaslt_impl.cpp\<close>, \<^verbatim>\<open>client/cudnn_impl.cpp\<close> and their servers): the status that travels in
  the payload of a reply, the fields of a request, and the library itself, which is a parameter: which
  functions it has, and for a call its status, what it wrote through its out-pointers and what became
  of the state of the device and the library.
\<close>

section \<open>The library\<close>

text \<open>A scalar is a null pointer, a value copied out of the request, or a device pointer.\<close>

datatype scalar = No_scalar | Value "byte list" | Device_at u64

datatype lib_arg = I32 u32 | I64 u64 | Ptr u64 | Scalar scalar | Bytes "byte list option"

record 'd maths =
  ml_has :: "string \<Rightarrow> bool"
  ml_call :: "string \<Rightarrow> lib_arg list \<Rightarrow> 'd world \<Rightarrow> (u32 \<times> lib_arg list) \<times> 'd world"

text \<open>What a call wrote at a position; a variable it did not write keeps the zero it started with.\<close>

definition wrote_long :: "nat \<Rightarrow> lib_arg list \<Rightarrow> u64" where
  "wrote_long i outs = (if i < length outs then (case outs ! i of I64 v \<Rightarrow> v | _ \<Rightarrow> 0) else 0)"

definition wrote_int :: "nat \<Rightarrow> lib_arg list \<Rightarrow> u32" where
  "wrote_int i outs = (if i < length outs then (case outs ! i of I32 v \<Rightarrow> v | _ \<Rightarrow> 0) else 0)"

text \<open>A buffer of zeros the library was given, with what it left there; and one that came filled.\<close>

definition filled :: "nat \<Rightarrow> nat \<Rightarrow> lib_arg list \<Rightarrow> byte list" where
  "filled n i outs = take n ((if i < length outs then (case outs ! i of Bytes (Some bs) \<Rightarrow> bs | _ \<Rightarrow> []) else []) @ replicate n 0)"

definition overwritten :: "byte list \<Rightarrow> nat \<Rightarrow> lib_arg list \<Rightarrow> byte list" where
  "overwritten bs i outs = (if i < length outs then (case outs ! i of
       Bytes (Some b) \<Rightarrow> take (length bs) (b @ drop (length b) bs) | _ \<Rightarrow> bs) else bs)"

section \<open>The server's side\<close>

text \<open>A handler over any state.\<close>

type_synonym 's lib_step = "buffer \<Rightarrow> buffer \<Rightarrow> 's \<Rightarrow> CUresult \<times> buffer \<times> buffer \<times> 's"

text \<open>Every handler puts the library's status first; the frame's own result stays a success.\<close>

definition put_status :: "u32 \<Rightarrow> buffer \<Rightarrow> buffer" where
  "put_status st rsp = buf_put 4 st rsp"

definition answer_status :: "u32 \<Rightarrow> 'd handler" where
  "answer_status st req rsp s = (CUDA_SUCCESS, req, put_status st rsp, s)"

text \<open>An argument, or the answer where the request ends before it. A buffer that failed once fails
  ever after, so reading on, as some handlers do, would come to the same.\<close>

definition lib_take :: "'s lib_step \<Rightarrow> (buffer \<Rightarrow> 'v option \<times> buffer) \<Rightarrow> ('v \<Rightarrow> 's lib_step) \<Rightarrow> 's lib_step" where
  "lib_take bad get k req rsp s = (case get req of
       (None, req1) \<Rightarrow> bad req1 rsp s
     | (Some v, req1) \<Rightarrow> k v req1 rsp s)"

definition arg8 :: "'s lib_step \<Rightarrow> (byte \<Rightarrow> 's lib_step) \<Rightarrow> 's lib_step" where
  "arg8 bad = lib_take bad (buf_get 1)"

definition arg32 :: "'s lib_step \<Rightarrow> (u32 \<Rightarrow> 's lib_step) \<Rightarrow> 's lib_step" where
  "arg32 bad = lib_take bad (buf_get 4)"

definition arg64 :: "'s lib_step \<Rightarrow> (u64 \<Rightarrow> 's lib_step) \<Rightarrow> 's lib_step" where
  "arg64 bad = lib_take bad (buf_get 8)"

text \<open>The library's function, if it is there.\<close>

definition lib_need :: "'d maths \<Rightarrow> string \<Rightarrow> 's lib_step \<Rightarrow> 's lib_step \<Rightarrow> 's lib_step" where
  "lib_need lib name bad k = (if ml_has lib name then k else bad)"

definition lib_run :: "'d maths \<Rightarrow> string \<Rightarrow> lib_arg list \<Rightarrow> (u32 \<Rightarrow> lib_arg list \<Rightarrow> 'd handler) \<Rightarrow> 'd handler" where
  "lib_run lib name as k req rsp s = (case ml_call lib name as (sv_world s) of
     ((st, outs), w) \<Rightarrow> k st outs req rsp (s\<lparr> sv_world := w \<rparr>))"

definition lib_status_only :: "u32 \<Rightarrow> lib_arg list \<Rightarrow> 'd handler" where
  "lib_status_only st outs = answer_status st"

text \<open>The status and, on success, what was asked for.\<close>

definition lib_status_and :: "u32 \<Rightarrow> (lib_arg list \<Rightarrow> buffer \<Rightarrow> buffer) \<Rightarrow> u32 \<Rightarrow> lib_arg list \<Rightarrow> 'd handler" where
  "lib_status_and ok put st outs req rsp s =
     (CUDA_SUCCESS, req, (if st = ok then put outs (put_status st rsp) else put_status st rsp), s)"

text \<open>A handle the library made: answered, and recorded for the session's end.\<close>

definition lib_create :: "'d driver \<Rightarrow> 'd maths \<Rightarrow> string \<Rightarrow> string \<Rightarrow> u32 \<Rightarrow> 'd handler" where
  "lib_create drv lib name what destroy req rsp s = (case take_stamp drv s of (made, s1) \<Rightarrow>
     (case ml_call lib name [] (sv_world s1) of ((st, outs), w) \<Rightarrow>
       (if st = 0 then (CUDA_SUCCESS, req, buf_put 8 (wrote_long 0 outs) (put_status st rsp),
            on_inv (inventory_note_handle (wrote_long 0 outs) \<lparr> lh_made = made, lh_what = what, lh_destroy = Some destroy \<rparr>)
              (s1\<lparr> sv_world := w \<rparr>))
        else (CUDA_SUCCESS, req, put_status st rsp, s1\<lparr> sv_world := w \<rparr>))))"

text \<open>A handle given back.\<close>

definition lib_destroy :: "'d maths \<Rightarrow> string \<Rightarrow> u64 \<Rightarrow> 'd handler" where
  "lib_destroy lib name h = lib_run lib name [I64 h] (\<lambda>st outs req rsp s.
     (CUDA_SUCCESS, req, put_status st rsp, if st = 0 then on_inv (inventory_forget_handle h) s else s))"

text \<open>\<open>lib_destroy_handle\<close>: how a recorded handle is given back at the session's end.\<close>

definition lib_destroy_handle :: "'d maths \<Rightarrow> string \<Rightarrow> u64 \<Rightarrow> 'd world \<Rightarrow> CUresult \<times> 'd world" where
  "lib_destroy_handle lib name h w = (if \<not> ml_has lib name then (CUDA_ERROR_NOT_SUPPORTED, w)
     else case ml_call lib name [I64 h] w of ((st, outs), w1) \<Rightarrow>
       ((if st = 0 then CUDA_SUCCESS else CUDA_ERROR_UNKNOWN), w1))"

section \<open>The client's side\<close>

text \<open>The fields a request is put together from, in their order.\<close>

datatype field = F8 byte | F32 u32 | F64 u64 | Raw "byte list" | Sized "byte list"

fun put_field :: "field \<Rightarrow> buffer \<Rightarrow> buffer" where
  "put_field (F8 v) = buf_put 1 v"
| "put_field (F32 v) = buf_put 4 v"
| "put_field (F64 v) = buf_put 8 v"
| "put_field (Raw bs) = put_bytes bs"
| "put_field (Sized bs) = put_sized bs"

definition request :: "field list \<Rightarrow> buffer" where
  "request fs = put_all put_field fs empty_buffer"

definition flag_field :: "bool \<Rightarrow> field" where
  "flag_field there = F8 (if there then 1 else 0)"

text \<open>\<open>send\<close>: the status of a call, and the rest of its reply. \<open>failed\<close> is the status of a call that
  could not be made, \<open>internal\<close> that of a reply too short to have one.\<close>

definition lib_send :: "u32 \<Rightarrow> u32 \<Rightarrow> 'c sender \<Rightarrow> u32 \<Rightarrow> buffer \<Rightarrow> 'c \<Rightarrow> (u32 \<times> buffer) \<times> 'c" where
  "lib_send failed internal send api req c = (case send api (bdata req) c of ((r, payload), c1) \<Rightarrow>
     (if r \<noteq> CUDA_SUCCESS then ((failed, buffer_of payload), c1)
      else case buf_get 4 (buffer_of payload) of
          (None, b) \<Rightarrow> ((internal, b), c1)
        | (Some st, b) \<Rightarrow> ((st, b), c1)))"

text \<open>A value of the reply, once the call has succeeded.\<close>

definition lib_value :: "u32 \<Rightarrow> (buffer \<Rightarrow> 'v option \<times> buffer) \<Rightarrow> u32 \<times> buffer \<Rightarrow> u32 \<times> 'v option" where
  "lib_value internal get res = (case res of (st, b) \<Rightarrow>
     (if st \<noteq> 0 then (st, None) else case get b of (None, _) \<Rightarrow> (internal, None) | (Some v, _) \<Rightarrow> (st, Some v)))"

text \<open>The bytes of the process at an address.\<close>

type_synonym host_mem = "u64 \<Rightarrow> nat \<Rightarrow> byte list"

section \<open>The two sides together\<close>

text \<open>The library's dispatcher as the other end of a connection on which nothing is lost.\<close>

definition lib_served :: "'d dispatcher \<Rightarrow> 'd sv sender" where
  "lib_served disp api payload s = (case disp api (buffer_of payload) empty_buffer s of
       Some (Answered (r, req, rsp, s1)) \<Rightarrow> ((if bok req then (r, bdata rsp) else (CUDA_ERROR_INVALID_VALUE, [])), s1)
     | _ \<Rightarrow> ((CUDA_ERROR_NOT_SUPPORTED, []), s))"

end
