(* ===== verification/Cublas.thy ===== *)
theory Cublas
  imports Maths
begin

text \<open>
  cuBLAS over the connection (\<^verbatim>\<open>client/cublas_impl.cpp\<close>, \<^verbatim>\<open>server/cublas_server.cpp\<close>). The client keeps
  the pointer mode and the stream of each handle, since they decide how scalars travel and which stream
  has work; the server reads the fields and calls the library.
\<close>

section \<open>Ids and statuses\<close>

definition API_cublasCreate :: u32 where "API_cublasCreate = kCublasBase + 1"
definition API_cublasDestroy :: u32 where "API_cublasDestroy = kCublasBase + 2"
definition API_cublasSetStream :: u32 where "API_cublasSetStream = kCublasBase + 3"
definition API_cublasGetStream :: u32 where "API_cublasGetStream = kCublasBase + 4"
definition API_cublasSetPointerMode :: u32 where "API_cublasSetPointerMode = kCublasBase + 5"
definition API_cublasSetMathMode :: u32 where "API_cublasSetMathMode = kCublasBase + 7"
definition API_cublasGetMathMode :: u32 where "API_cublasGetMathMode = kCublasBase + 8"
definition API_cublasSetWorkspace :: u32 where "API_cublasSetWorkspace = kCublasBase + 9"
definition API_cublasGetVersion :: u32 where "API_cublasGetVersion = kCublasBase + 10"
definition API_cublasGetProperty :: u32 where "API_cublasGetProperty = kCublasBase + 11"
definition API_cublasSetSmCountTarget :: u32 where "API_cublasSetSmCountTarget = kCublasBase + 12"
definition API_cublasGetSmCountTarget :: u32 where "API_cublasGetSmCountTarget = kCublasBase + 13"
definition API_cublasSgemm :: u32 where "API_cublasSgemm = kCublasBase + 20"
definition API_cublasDgemm :: u32 where "API_cublasDgemm = kCublasBase + 21"
definition API_cublasGemmEx :: u32 where "API_cublasGemmEx = kCublasBase + 22"
definition API_cublasGemmStridedBatchedEx :: u32 where "API_cublasGemmStridedBatchedEx = kCublasBase + 23"
definition API_cublasSgemmStridedBatched :: u32 where "API_cublasSgemmStridedBatched = kCublasBase + 24"

lemmas cublas_ids = API_cublasCreate_def API_cublasDestroy_def API_cublasSetStream_def API_cublasGetStream_def
  API_cublasSetPointerMode_def API_cublasSetMathMode_def API_cublasGetMathMode_def API_cublasSetWorkspace_def
  API_cublasGetVersion_def API_cublasGetProperty_def API_cublasSetSmCountTarget_def API_cublasGetSmCountTarget_def
  API_cublasSgemm_def API_cublasDgemm_def API_cublasGemmEx_def API_cublasGemmStridedBatchedEx_def
  API_cublasSgemmStridedBatched_def kCublasBase_def

text \<open>The numbers the library's header gives its statuses; the one for success is 0.\<close>

definition CUBLAS_STATUS_NOT_INITIALIZED :: u32 where "CUBLAS_STATUS_NOT_INITIALIZED = 1"
definition CUBLAS_STATUS_INVALID_VALUE :: u32 where "CUBLAS_STATUS_INVALID_VALUE = 7"
definition CUBLAS_STATUS_EXECUTION_FAILED :: u32 where "CUBLAS_STATUS_EXECUTION_FAILED = 13"
definition CUBLAS_STATUS_INTERNAL_ERROR :: u32 where "CUBLAS_STATUS_INTERNAL_ERROR = 14"
definition CUBLAS_STATUS_NOT_SUPPORTED :: u32 where "CUBLAS_STATUS_NOT_SUPPORTED = 15"

definition CUBLAS_POINTER_MODE_HOST :: u32 where "CUBLAS_POINTER_MODE_HOST = 0"

section \<open>The client\<close>

record blas =
  bl_modes :: "u64 \<rightharpoonup> u32"
  bl_streams :: "u64 \<rightharpoonup> u64"
  bl_pending :: pending

definition new_blas :: blas where
  "new_blas = \<lparr> bl_modes = Map.empty, bl_streams = Map.empty, bl_pending = nothing_pending \<rparr>"

type_synonym ('c, 'r) blas_call = "blas \<times> 'c \<Rightarrow> 'r \<times> blas \<times> 'c"

definition blas_stream :: "u64 \<Rightarrow> blas \<Rightarrow> u64" where
  "blas_stream h bl = (case bl_streams bl h of None \<Rightarrow> 0 | Some s \<Rightarrow> s)"

definition computes :: "u64 \<Rightarrow> blas \<Rightarrow> blas" where
  "computes h bl = bl\<lparr> bl_pending := work_on (blas_stream h bl) (bl_pending bl) \<rparr>"

definition pointer_mode :: "u64 \<Rightarrow> blas \<Rightarrow> u32" where
  "pointer_mode h bl = (case bl_modes bl h of None \<Rightarrow> CUBLAS_POINTER_MODE_HOST | Some m \<Rightarrow> m)"

definition blas_send :: "'c sender \<Rightarrow> u32 \<Rightarrow> buffer \<Rightarrow> ('c, u32 \<times> buffer) blas_call" where
  "blas_send send api req st = (case st of (bl, c) \<Rightarrow>
     (case lib_send CUBLAS_STATUS_EXECUTION_FAILED CUBLAS_STATUS_INTERNAL_ERROR send api req c of (res, c1) \<Rightarrow> (res, (bl, c1))))"

definition put_scalar :: "host_mem \<Rightarrow> blas \<Rightarrow> u64 \<Rightarrow> u64 \<Rightarrow> nat \<Rightarrow> field list" where
  "put_scalar mem bl h p n =
     (let host = pointer_mode h bl = CUBLAS_POINTER_MODE_HOST in
      [flag_field host, flag_field (p \<noteq> 0)] @ (if p = 0 then [] else if host then [Raw (mem p n)] else [F64 p]))"

text \<open>The status, and the value written through the caller's pointer.\<close>

definition blas_ask :: "'c sender \<Rightarrow> u32 \<Rightarrow> field list \<Rightarrow> (buffer \<Rightarrow> 'v option \<times> buffer) \<Rightarrow> u64 \<Rightarrow> ('c, u32 \<times> 'v option) blas_call" where
  "blas_ask send api fs get out st = (if out = 0 then ((CUBLAS_STATUS_INVALID_VALUE, None), st)
     else case blas_send send api (request fs) st of (res, st1) \<Rightarrow> (lib_value CUBLAS_STATUS_INTERNAL_ERROR get res, st1))"

definition blas_tell :: "'c sender \<Rightarrow> u32 \<Rightarrow> field list \<Rightarrow> ('c, u32) blas_call" where
  "blas_tell send api fs st = (case blas_send send api (request fs) st of ((status, _), st1) \<Rightarrow> (status, st1))"

definition cublasCreate_v2 :: "'c sender \<Rightarrow> u64 \<Rightarrow> ('c, u32 \<times> u64 option) blas_call" where
  "cublasCreate_v2 send out = blas_ask send API_cublasCreate [] (buf_get 8) out"

text \<open>What is known of a destroyed handle is erased after the call, whatever its status, under the lock of the
  streams and then under that of the modes.\<close>

definition forget_stream :: "u64 \<Rightarrow> blas \<Rightarrow> blas" where
  "forget_stream h bl = bl\<lparr> bl_streams := (bl_streams bl)(h := None) \<rparr>"

definition forget_mode :: "u64 \<Rightarrow> blas \<Rightarrow> blas" where
  "forget_mode h bl = bl\<lparr> bl_modes := (bl_modes bl)(h := None) \<rparr>"

definition cublasDestroy_v2 :: "'c sender \<Rightarrow> u64 \<Rightarrow> ('c, u32) blas_call" where
  "cublasDestroy_v2 send h st = (case blas_tell send API_cublasDestroy [F64 h] st of
     (status, (bl, c)) \<Rightarrow> (status, (forget_mode h (forget_stream h bl), c)))"

definition cublasSetStream_v2 :: "'c sender \<Rightarrow> u64 \<Rightarrow> u64 \<Rightarrow> ('c, u32) blas_call" where
  "cublasSetStream_v2 send h stream st = (case blas_tell send API_cublasSetStream [F64 h, F64 stream] st of
     (status, (bl, c)) \<Rightarrow> (status, ((if status = 0 then bl\<lparr> bl_streams := (bl_streams bl)(h \<mapsto> stream) \<rparr> else bl), c)))"

definition cublasGetStream_v2 :: "'c sender \<Rightarrow> u64 \<Rightarrow> u64 \<Rightarrow> ('c, u32 \<times> u64 option) blas_call" where
  "cublasGetStream_v2 send h out = blas_ask send API_cublasGetStream [F64 h] (buf_get 8) out"

definition cublasSetPointerMode_v2 :: "'c sender \<Rightarrow> u64 \<Rightarrow> u32 \<Rightarrow> ('c, u32) blas_call" where
  "cublasSetPointerMode_v2 send h mode st = (case blas_tell send API_cublasSetPointerMode [F64 h, F32 mode] st of
     (status, (bl, c)) \<Rightarrow> (status, ((if status = 0 then bl\<lparr> bl_modes := (bl_modes bl)(h \<mapsto> mode) \<rparr> else bl), c)))"

definition cublasGetPointerMode_v2 :: "u64 \<Rightarrow> u64 \<Rightarrow> ('c, u32 \<times> u32 option) blas_call" where
  "cublasGetPointerMode_v2 h out st = (if out = 0 then ((CUBLAS_STATUS_INVALID_VALUE, None), st)
     else ((0, Some (pointer_mode h (fst st))), st))"

definition cublasSetMathMode :: "'c sender \<Rightarrow> u64 \<Rightarrow> u32 \<Rightarrow> ('c, u32) blas_call" where
  "cublasSetMathMode send h mode = blas_tell send API_cublasSetMathMode [F64 h, F32 mode]"

definition cublasGetMathMode :: "'c sender \<Rightarrow> u64 \<Rightarrow> u64 \<Rightarrow> ('c, u32 \<times> u32 option) blas_call" where
  "cublasGetMathMode send h out = blas_ask send API_cublasGetMathMode [F64 h] (buf_get 4) out"

definition cublasSetWorkspace_v2 :: "'c sender \<Rightarrow> u64 \<Rightarrow> u64 \<Rightarrow> u64 \<Rightarrow> ('c, u32) blas_call" where
  "cublasSetWorkspace_v2 send h workspace n = blas_tell send API_cublasSetWorkspace [F64 h, F64 workspace, F64 n]"

definition cublasGetVersion_v2 :: "'c sender \<Rightarrow> u64 \<Rightarrow> u64 \<Rightarrow> ('c, u32 \<times> u32 option) blas_call" where
  "cublasGetVersion_v2 send h out = blas_ask send API_cublasGetVersion [F64 h] (buf_get 4) out"

definition cublasGetProperty :: "'c sender \<Rightarrow> u32 \<Rightarrow> u64 \<Rightarrow> ('c, u32 \<times> u32 option) blas_call" where
  "cublasGetProperty send ty out = blas_ask send API_cublasGetProperty [F32 ty] (buf_get 4) out"

definition cublasSetSmCountTarget :: "'c sender \<Rightarrow> u64 \<Rightarrow> u32 \<Rightarrow> ('c, u32) blas_call" where
  "cublasSetSmCountTarget send h n = blas_tell send API_cublasSetSmCountTarget [F64 h, F32 n]"

definition cublasGetSmCountTarget :: "'c sender \<Rightarrow> u64 \<Rightarrow> u64 \<Rightarrow> ('c, u32 \<times> u32 option) blas_call" where
  "cublasGetSmCountTarget send h out = blas_ask send API_cublasGetSmCountTarget [F64 h] (buf_get 4) out"

section \<open>Matrix multiplies\<close>

text \<open>The call is work on the handle's stream whatever becomes of it.\<close>

definition blas_compute :: "'c sender \<Rightarrow> u32 \<Rightarrow> u64 \<Rightarrow> (blas \<Rightarrow> field list) \<Rightarrow> ('c, u32) blas_call" where
  "blas_compute send api h fs st = (case st of (bl, c) \<Rightarrow> blas_tell send api (fs bl) (computes h bl, c))"

definition cublasSgemm_v2 :: "host_mem \<Rightarrow> 'c sender \<Rightarrow> u64 \<Rightarrow> u32 \<Rightarrow> u32 \<Rightarrow> u32 \<Rightarrow> u32 \<Rightarrow> u32 \<Rightarrow> u64 \<Rightarrow> u64 \<Rightarrow> u32 \<Rightarrow> u64 \<Rightarrow> u32
    \<Rightarrow> u64 \<Rightarrow> u64 \<Rightarrow> u32 \<Rightarrow> ('c, u32) blas_call" where
  "cublasSgemm_v2 mem send h transa transb m n k alpha a lda b ldb beta c ldc =
     blas_compute send API_cublasSgemm h (\<lambda>bl. [F64 h, F32 transa, F32 transb, F32 m, F32 n, F32 k]
       @ put_scalar mem bl h alpha 4 @ [F64 a, F32 lda, F64 b, F32 ldb] @ put_scalar mem bl h beta 4 @ [F64 c, F32 ldc])"

definition cublasDgemm_v2 :: "host_mem \<Rightarrow> 'c sender \<Rightarrow> u64 \<Rightarrow> u32 \<Rightarrow> u32 \<Rightarrow> u32 \<Rightarrow> u32 \<Rightarrow> u32 \<Rightarrow> u64 \<Rightarrow> u64 \<Rightarrow> u32 \<Rightarrow> u64 \<Rightarrow> u32
    \<Rightarrow> u64 \<Rightarrow> u64 \<Rightarrow> u32 \<Rightarrow> ('c, u32) blas_call" where
  "cublasDgemm_v2 mem send h transa transb m n k alpha a lda b ldb beta c ldc =
     blas_compute send API_cublasDgemm h (\<lambda>bl. [F64 h, F32 transa, F32 transb, F32 m, F32 n, F32 k]
       @ put_scalar mem bl h alpha 8 @ [F64 a, F32 lda, F64 b, F32 ldb] @ put_scalar mem bl h beta 8 @ [F64 c, F32 ldc])"

text \<open>The compute types by their numbers in the header: 70 and 71 are in double precision, 72 and 73 in
  32-bit integers.\<close>

definition compute_scalar_size :: "u32 \<Rightarrow> nat" where
  "compute_scalar_size ct = (if ct = 70 \<or> ct = 71 then 8 else if ct = 72 \<or> ct = 73 then 4 else 4)"

definition cublasGemmEx :: "host_mem \<Rightarrow> 'c sender \<Rightarrow> u64 \<Rightarrow> u32 \<Rightarrow> u32 \<Rightarrow> u32 \<Rightarrow> u32 \<Rightarrow> u32 \<Rightarrow> u64 \<Rightarrow> u64 \<Rightarrow> u32 \<Rightarrow> u32
    \<Rightarrow> u64 \<Rightarrow> u32 \<Rightarrow> u32 \<Rightarrow> u64 \<Rightarrow> u64 \<Rightarrow> u32 \<Rightarrow> u32 \<Rightarrow> u32 \<Rightarrow> u32 \<Rightarrow> ('c, u32) blas_call" where
  "cublasGemmEx mem send h transa transb m n k alpha a a_type lda b b_type ldb beta c c_type ldc compute_type algo =
     (let ss = compute_scalar_size compute_type in
      blas_compute send API_cublasGemmEx h (\<lambda>bl.
        [F64 h, F32 transa, F32 transb, F32 m, F32 n, F32 k, F32 compute_type, F32 algo]
        @ put_scalar mem bl h alpha ss @ [F64 a, F32 a_type, F32 lda, F64 b, F32 b_type, F32 ldb]
        @ put_scalar mem bl h beta ss @ [F64 c, F32 c_type, F32 ldc]))"

definition cublasGemmStridedBatchedEx :: "host_mem \<Rightarrow> 'c sender \<Rightarrow> u64 \<Rightarrow> u32 \<Rightarrow> u32 \<Rightarrow> u32 \<Rightarrow> u32 \<Rightarrow> u32 \<Rightarrow> u64 \<Rightarrow> u64 \<Rightarrow> u32
    \<Rightarrow> u32 \<Rightarrow> u64 \<Rightarrow> u64 \<Rightarrow> u32 \<Rightarrow> u32 \<Rightarrow> u64 \<Rightarrow> u64 \<Rightarrow> u64 \<Rightarrow> u32 \<Rightarrow> u32 \<Rightarrow> u64 \<Rightarrow> u32 \<Rightarrow> u32 \<Rightarrow> u32 \<Rightarrow> ('c, u32) blas_call" where
  "cublasGemmStridedBatchedEx mem send h transa transb m n k alpha a a_type lda stride_a b b_type ldb stride_b beta
     c c_type ldc stride_c batch_count compute_type algo =
     (let ss = compute_scalar_size compute_type in
      blas_compute send API_cublasGemmStridedBatchedEx h (\<lambda>bl.
        [F64 h, F32 transa, F32 transb, F32 m, F32 n, F32 k, F32 compute_type, F32 algo, F32 batch_count]
        @ put_scalar mem bl h alpha ss @ [F64 a, F32 a_type, F32 lda, F64 stride_a, F64 b, F32 b_type, F32 ldb, F64 stride_b]
        @ put_scalar mem bl h beta ss @ [F64 c, F32 c_type, F32 ldc, F64 stride_c]))"

definition cublasSgemmStridedBatched :: "host_mem \<Rightarrow> 'c sender \<Rightarrow> u64 \<Rightarrow> u32 \<Rightarrow> u32 \<Rightarrow> u32 \<Rightarrow> u32 \<Rightarrow> u32 \<Rightarrow> u64 \<Rightarrow> u64 \<Rightarrow> u32
    \<Rightarrow> u64 \<Rightarrow> u64 \<Rightarrow> u32 \<Rightarrow> u64 \<Rightarrow> u64 \<Rightarrow> u64 \<Rightarrow> u32 \<Rightarrow> u64 \<Rightarrow> u32 \<Rightarrow> ('c, u32) blas_call" where
  "cublasSgemmStridedBatched mem send h transa transb m n k alpha a lda stride_a b ldb stride_b beta c ldc stride_c batch_count =
     blas_compute send API_cublasSgemmStridedBatched h (\<lambda>bl.
       [F64 h, F32 transa, F32 transb, F32 m, F32 n, F32 k, F32 batch_count]
       @ put_scalar mem bl h alpha 4 @ [F64 a, F32 lda, F64 stride_a, F64 b, F32 ldb, F64 stride_b]
       @ put_scalar mem bl h beta 4 @ [F64 c, F32 ldc, F64 stride_c])"

section \<open>Names of statuses\<close>

definition status_names :: "(u32 \<times> string \<times> string) list" where
  "status_names =
     [(0, ''CUBLAS_STATUS_SUCCESS'', ''success''),
      (1, ''CUBLAS_STATUS_NOT_INITIALIZED'', ''the library was not initialized''),
      (3, ''CUBLAS_STATUS_ALLOC_FAILED'', ''the resource allocation failed''),
      (7, ''CUBLAS_STATUS_INVALID_VALUE'', ''an invalid numerical value was used as an argument''),
      (8, ''CUBLAS_STATUS_ARCH_MISMATCH'', ''an absent device architectural feature is required''),
      (11, ''CUBLAS_STATUS_MAPPING_ERROR'', ''an access to GPU memory space failed''),
      (13, ''CUBLAS_STATUS_EXECUTION_FAILED'', ''the GPU program failed to execute''),
      (14, ''CUBLAS_STATUS_INTERNAL_ERROR'', ''an internal operation failed''),
      (15, ''CUBLAS_STATUS_NOT_SUPPORTED'', ''the feature required is not supported''),
      (16, ''CUBLAS_STATUS_LICENSE_ERROR'', ''the functionality requested requires a license'')]"

definition cublasGetStatusName :: "u32 \<Rightarrow> string" where
  "cublasGetStatusName st = (case map_of status_names st of Some (name, text) \<Rightarrow> name | None \<Rightarrow> ''unknown cuBLAS status'')"

definition cublasGetStatusString :: "u32 \<Rightarrow> string" where
  "cublasGetStatusString st = (case map_of status_names st of Some (name, text) \<Rightarrow> text | None \<Rightarrow> ''unknown cuBLAS status'')"

section \<open>The server\<close>

definition blas_bad :: "'d handler" where
  "blas_bad = answer_status CUBLAS_STATUS_INVALID_VALUE"

text \<open>A handle first, then whether the library has the function, then the other arguments.\<close>

definition on_handle :: "'d maths \<Rightarrow> string \<Rightarrow> (u64 \<Rightarrow> 'd handler) \<Rightarrow> 'd handler" where
  "on_handle lib name k = arg64 blas_bad (\<lambda>h. lib_need lib name blas_bad (k h))"

abbreviation "int32 \<equiv> arg32 blas_bad"
abbreviation "int64 \<equiv> arg64 blas_bad"

definition put_long :: "lib_arg list \<Rightarrow> buffer \<Rightarrow> buffer" where
  "put_long outs = buf_put 8 (wrote_long 0 outs)"

definition put_int :: "lib_arg list \<Rightarrow> buffer \<Rightarrow> buffer" where
  "put_int outs = buf_put 4 (wrote_int 0 outs)"

definition get_scalar :: "nat \<Rightarrow> buffer \<Rightarrow> scalar option \<times> buffer" where
  "get_scalar n b = (case buf_get 1 b of
       (None, b1) \<Rightarrow> (None, b1)
     | (Some host, b1) \<Rightarrow> (case buf_get 1 b1 of
         (None, b2) \<Rightarrow> (None, b2)
       | (Some present, b2) \<Rightarrow>
           (if (present :: byte) = 0 then (Some No_scalar, b2)
            else if (host :: byte) \<noteq> 0 then (case get_bytes n b2 of
                (None, b3) \<Rightarrow> (None, b3)
              | (Some bs, b3) \<Rightarrow> (Some (Value bs), b3))
            else (case buf_get 8 b2 of
                (None, b3) \<Rightarrow> (None, b3)
              | (Some p, b3) \<Rightarrow> (Some (Device_at p), b3)))))"

abbreviation "scalar_of n \<equiv> lib_take blas_bad (get_scalar n)"

definition handle_cublasCreate :: "'d driver \<Rightarrow> 'd maths \<Rightarrow> 'd handler" where
  "handle_cublasCreate drv lib = lib_need lib ''cublasCreate_v2'' (answer_status CUBLAS_STATUS_NOT_INITIALIZED)
     (lib_create drv lib ''cublasCreate_v2'' ''cuBLAS'' 1)"

definition handle_cublasDestroy :: "'d maths \<Rightarrow> 'd handler" where
  "handle_cublasDestroy lib = on_handle lib ''cublasDestroy_v2'' (lib_destroy lib ''cublasDestroy_v2'')"

definition handle_cublasSetStream :: "'d maths \<Rightarrow> 'd handler" where
  "handle_cublasSetStream lib = on_handle lib ''cublasSetStream_v2'' (\<lambda>h. int64 (\<lambda>stream.
     lib_run lib ''cublasSetStream_v2'' [I64 h, I64 stream] lib_status_only))"

definition handle_cublasGetStream :: "'d maths \<Rightarrow> 'd handler" where
  "handle_cublasGetStream lib = on_handle lib ''cublasGetStream_v2'' (\<lambda>h.
     lib_run lib ''cublasGetStream_v2'' [I64 h] (lib_status_and 0 put_long))"

definition handle_cublasSetPointerMode :: "'d maths \<Rightarrow> 'd handler" where
  "handle_cublasSetPointerMode lib = on_handle lib ''cublasSetPointerMode_v2'' (\<lambda>h. int32 (\<lambda>mode.
     lib_run lib ''cublasSetPointerMode_v2'' [I64 h, I32 mode] lib_status_only))"

definition handle_cublasSetMathMode :: "'d maths \<Rightarrow> 'd handler" where
  "handle_cublasSetMathMode lib = on_handle lib ''cublasSetMathMode'' (\<lambda>h. int32 (\<lambda>mode.
     lib_run lib ''cublasSetMathMode'' [I64 h, I32 mode] lib_status_only))"

definition handle_cublasGetMathMode :: "'d maths \<Rightarrow> 'd handler" where
  "handle_cublasGetMathMode lib = on_handle lib ''cublasGetMathMode'' (\<lambda>h.
     lib_run lib ''cublasGetMathMode'' [I64 h] (lib_status_and 0 put_int))"

definition handle_cublasSetWorkspace :: "'d maths \<Rightarrow> 'd handler" where
  "handle_cublasSetWorkspace lib = arg64 blas_bad (\<lambda>h. int64 (\<lambda>ws. lib_need lib ''cublasSetWorkspace_v2'' blas_bad (int64 (\<lambda>n.
     lib_run lib ''cublasSetWorkspace_v2'' [I64 h, I64 ws, I64 n] lib_status_only))))"

definition handle_cublasGetVersion :: "'d maths \<Rightarrow> 'd handler" where
  "handle_cublasGetVersion lib = on_handle lib ''cublasGetVersion_v2'' (\<lambda>h.
     lib_run lib ''cublasGetVersion_v2'' [I64 h] (lib_status_and 0 put_int))"

definition handle_cublasGetProperty :: "'d maths \<Rightarrow> 'd handler" where
  "handle_cublasGetProperty lib = lib_need lib ''cublasGetProperty'' blas_bad (int32 (\<lambda>ty.
     lib_run lib ''cublasGetProperty'' [I32 ty] (lib_status_and 0 put_int)))"

definition handle_cublasSetSmCountTarget :: "'d maths \<Rightarrow> 'd handler" where
  "handle_cublasSetSmCountTarget lib = on_handle lib ''cublasSetSmCountTarget'' (\<lambda>h. int32 (\<lambda>v.
     lib_run lib ''cublasSetSmCountTarget'' [I64 h, I32 v] lib_status_only))"

definition handle_cublasGetSmCountTarget :: "'d maths \<Rightarrow> 'd handler" where
  "handle_cublasGetSmCountTarget lib = on_handle lib ''cublasGetSmCountTarget'' (\<lambda>h.
     lib_run lib ''cublasGetSmCountTarget'' [I64 h] (lib_status_and 0 put_int))"

text \<open>A multiply of which only the width of the scalars differs between single and double precision.\<close>

definition handle_gemm :: "'d maths \<Rightarrow> string \<Rightarrow> nat \<Rightarrow> 'd handler" where
  "handle_gemm lib name width = on_handle lib name (\<lambda>h.
     int32 (\<lambda>ta. int32 (\<lambda>tb. int32 (\<lambda>m. int32 (\<lambda>n. int32 (\<lambda>k.
     scalar_of width (\<lambda>alpha. int64 (\<lambda>a. int32 (\<lambda>lda. int64 (\<lambda>b. int32 (\<lambda>ldb.
     scalar_of width (\<lambda>beta. int64 (\<lambda>c. int32 (\<lambda>ldc.
     lib_run lib name [I64 h, I32 ta, I32 tb, I32 m, I32 n, I32 k, Scalar alpha, I64 a, I32 lda, I64 b, I32 ldb,
       Scalar beta, I64 c, I32 ldc] lib_status_only))))))))))))))"

definition handle_cublasSgemm :: "'d maths \<Rightarrow> 'd handler" where
  "handle_cublasSgemm lib = handle_gemm lib ''cublasSgemm_v2'' 4"

definition handle_cublasDgemm :: "'d maths \<Rightarrow> 'd handler" where
  "handle_cublasDgemm lib = handle_gemm lib ''cublasDgemm_v2'' 8"

definition gemm_scalar_size :: "u32 \<Rightarrow> nat" where
  "gemm_scalar_size ct = (if ct = 70 \<or> ct = 71 then 8 else 4)"

definition handle_cublasGemmEx :: "'d maths \<Rightarrow> 'd handler" where
  "handle_cublasGemmEx lib = on_handle lib ''cublasGemmEx'' (\<lambda>h.
     int32 (\<lambda>ta. int32 (\<lambda>tb. int32 (\<lambda>m. int32 (\<lambda>n. int32 (\<lambda>k. int32 (\<lambda>ct. int32 (\<lambda>algo.
     scalar_of (gemm_scalar_size ct) (\<lambda>alpha. int64 (\<lambda>a. int32 (\<lambda>at. int32 (\<lambda>lda. int64 (\<lambda>b. int32 (\<lambda>bt. int32 (\<lambda>ldb.
     scalar_of (gemm_scalar_size ct) (\<lambda>beta. int64 (\<lambda>c. int32 (\<lambda>cty. int32 (\<lambda>ldc.
     lib_run lib ''cublasGemmEx'' [I64 h, I32 ta, I32 tb, I32 m, I32 n, I32 k, Scalar alpha, I64 a, I32 at, I32 lda,
       I64 b, I32 bt, I32 ldb, Scalar beta, I64 c, I32 cty, I32 ldc, I32 ct, I32 algo] lib_status_only)))))))))))))))))))"

definition handle_cublasGemmStridedBatchedEx :: "'d maths \<Rightarrow> 'd handler" where
  "handle_cublasGemmStridedBatchedEx lib = on_handle lib ''cublasGemmStridedBatchedEx'' (\<lambda>h.
     int32 (\<lambda>ta. int32 (\<lambda>tb. int32 (\<lambda>m. int32 (\<lambda>n. int32 (\<lambda>k. int32 (\<lambda>ct. int32 (\<lambda>algo. int32 (\<lambda>batch.
     scalar_of (gemm_scalar_size ct) (\<lambda>alpha. int64 (\<lambda>a. int32 (\<lambda>at. int32 (\<lambda>lda. int64 (\<lambda>sa.
     int64 (\<lambda>b. int32 (\<lambda>bt. int32 (\<lambda>ldb. int64 (\<lambda>sb.
     scalar_of (gemm_scalar_size ct) (\<lambda>beta. int64 (\<lambda>c. int32 (\<lambda>cty. int32 (\<lambda>ldc. int64 (\<lambda>sc.
     lib_run lib ''cublasGemmStridedBatchedEx'' [I64 h, I32 ta, I32 tb, I32 m, I32 n, I32 k, Scalar alpha, I64 a, I32 at, I32 lda,
       I64 sa, I64 b, I32 bt, I32 ldb, I64 sb, Scalar beta, I64 c, I32 cty, I32 ldc, I64 sc, I32 batch, I32 ct, I32 algo]
       lib_status_only)))))))))))))))))))))))"

definition handle_cublasSgemmStridedBatched :: "'d maths \<Rightarrow> 'd handler" where
  "handle_cublasSgemmStridedBatched lib = on_handle lib ''cublasSgemmStridedBatched'' (\<lambda>h.
     int32 (\<lambda>ta. int32 (\<lambda>tb. int32 (\<lambda>m. int32 (\<lambda>n. int32 (\<lambda>k. int32 (\<lambda>batch.
     scalar_of 4 (\<lambda>alpha. int64 (\<lambda>a. int32 (\<lambda>lda. int64 (\<lambda>sa. int64 (\<lambda>b. int32 (\<lambda>ldb. int64 (\<lambda>sb.
     scalar_of 4 (\<lambda>beta. int64 (\<lambda>c. int32 (\<lambda>ldc. int64 (\<lambda>sc.
     lib_run lib ''cublasSgemmStridedBatched'' [I64 h, I32 ta, I32 tb, I32 m, I32 n, I32 k, Scalar alpha, I64 a, I32 lda, I64 sa,
       I64 b, I32 ldb, I64 sb, Scalar beta, I64 c, I32 ldc, I64 sc, I32 batch] lib_status_only))))))))))))))))))"

definition cublas_cases :: "'d driver \<Rightarrow> 'd maths \<Rightarrow> (u32 \<times> 'd handler) list" where
  "cublas_cases drv lib =
     [(API_cublasCreate, handle_cublasCreate drv lib), (API_cublasDestroy, handle_cublasDestroy lib),
      (API_cublasSetStream, handle_cublasSetStream lib), (API_cublasGetStream, handle_cublasGetStream lib),
      (API_cublasSetPointerMode, handle_cublasSetPointerMode lib), (API_cublasSetMathMode, handle_cublasSetMathMode lib),
      (API_cublasGetMathMode, handle_cublasGetMathMode lib), (API_cublasSetWorkspace, handle_cublasSetWorkspace lib),
      (API_cublasGetVersion, handle_cublasGetVersion lib), (API_cublasGetProperty, handle_cublasGetProperty lib),
      (API_cublasSetSmCountTarget, handle_cublasSetSmCountTarget lib),
      (API_cublasGetSmCountTarget, handle_cublasGetSmCountTarget lib),
      (API_cublasSgemm, handle_cublasSgemm lib), (API_cublasDgemm, handle_cublasDgemm lib),
      (API_cublasGemmEx, handle_cublasGemmEx lib), (API_cublasGemmStridedBatchedEx, handle_cublasGemmStridedBatchedEx lib),
      (API_cublasSgemmStridedBatched, handle_cublasSgemmStridedBatched lib)]"

definition dispatch_cublas :: "'d driver \<Rightarrow> 'd maths \<Rightarrow> 'd dispatcher" where
  "dispatch_cublas drv lib api req rsp s =
     (if api < kCublasBase \<or> api > kCublasBase + 1000 then None
      else Some (Answered (case map_of (cublas_cases drv lib) api of
          Some h \<Rightarrow> h req rsp s
        | None \<Rightarrow> answer_status CUBLAS_STATUS_NOT_SUPPORTED req rsp s)))"

end
