(* ===== verification/MathsLaws.thy ===== *)
theory MathsLaws
  imports Maths
begin

text \<open>
  What the proofs about the three maths libraries share: requests as bytes, arguments read back, and
  what a client gets of a handler's answer.
\<close>

section \<open>Requests as bytes\<close>

fun enc_field :: "field \<Rightarrow> byte list" where
  "enc_field (F8 v) = [v]"
| "enc_field (F32 v) = le_enc 4 v"
| "enc_field (F64 v) = le_enc 8 v"
| "enc_field (Raw bs) = bs"
| "enc_field (Sized bs) = enc_sized bs"

fun enc_fields :: "field list \<Rightarrow> byte list" where
  "enc_fields [] = []"
| "enc_fields (f # fs) = enc_field f @ enc_fields fs"

lemma enc_fields_append [simp]: "enc_fields (fs @ gs) = enc_fields fs @ enc_fields gs"
  by (induction fs) auto

lemma put_field_bytes: "bdata (put_field f b) = bdata b @ enc_field f"
  by (cases f) (auto simp: buf_put_def put_bytes_def put_sized_def enc_sized_def)

lemma put_fields_bytes: "bdata (put_all put_field fs b) = bdata b @ enc_fields fs"
  by (induction fs arbitrary: b) (simp_all add: put_field_bytes)

lemma request_bytes [simp]: "bdata (request fs) = enc_fields fs"
  by (simp add: request_def put_fields_bytes empty_buffer_def)

lemma put_sized_bytes [simp]: "bdata (put_sized bs b) = bdata b @ enc_sized bs"
  using put_field_bytes [of "Sized bs" b] by simp

lemma length_filled [simp]: "length (filled n i outs) = n"
  by (simp add: filled_def)

section \<open>Reading them\<close>

lemma reading_lib_args [simp]:
  "arg64 bad k (reading pre (le_enc 8 v @ r)) rsp s = k v (reading (pre @ le_enc 8 v) r) rsp s"
  "arg64 bad k (reading pre (le_enc 8 v)) rsp s = k v (reading (pre @ le_enc 8 v) []) rsp s"
  "arg32 bad k' (reading pre (le_enc 4 w @ r)) rsp s = k' w (reading (pre @ le_enc 4 w) r) rsp s"
  "arg32 bad k' (reading pre (le_enc 4 w)) rsp s = k' w (reading (pre @ le_enc 4 w) []) rsp s"
  "arg8 bad k'' (reading pre (x # r)) rsp s = k'' x (reading (pre @ [x]) r) rsp s"
  by (simp_all add: arg64_def arg32_def arg8_def lib_take_def)

lemma reading_bytes [simp]: "length bs = n \<Longrightarrow> get_bytes n (reading pre (bs @ r)) = (Some bs, reading (pre @ bs) r)"
  using get_bytes_reads [of "reading pre (bs @ r)" bs r n] by (simp add: reading_def)

section \<open>A call and its handler\<close>

definition library :: "'d maths \<Rightarrow> string \<Rightarrow> lib_arg list \<Rightarrow> 'd sv \<Rightarrow> (u32 \<times> lib_arg list) \<times> 'd sv" where
  "library lib name as s = (case ml_call lib name as (sv_world s) of (res, w) \<Rightarrow> (res, s\<lparr> sv_world := w \<rparr>))"

lemma library_world: "library lib name as s = ((st, outs), s') \<Longrightarrow> ml_call lib name as (sv_world s) = ((st, outs), sv_world s')"
  by (auto simp: library_def split: prod.splits)

lemma world_on_inv [simp]: "sv_world (on_inv f s) = sv_world s"
  by (simp add: on_inv_def)

text \<open>A handler that answered with a status and what follows it.\<close>

definition answered_with :: "'d answer \<Rightarrow> u32 \<Rightarrow> byte list \<Rightarrow> 'd sv \<Rightarrow> bool" where
  "answered_with a st extra s' \<longleftrightarrow> (\<exists>req rsp. a = (CUDA_SUCCESS, req, rsp, s') \<and> bok req \<and> bdata rsp = le_enc 4 st @ extra)"

lemma lib_send_served:
  assumes "disp api (reading [] (enc_fields fs)) empty_buffer s = Some (Answered a)" and "answered_with a st extra s'"
  shows "lib_send failed internal (lib_served disp) api (request fs) s = ((st, reading (le_enc 4 st) extra), s')"
  using assms by (auto simp: answered_with_def lib_send_def lib_served_def buffer_of_reading)

lemma answered_status_only:
  "library lib name as s = ((st, outs), s') \<Longrightarrow>
   answered_with (lib_run lib name as lib_status_only (reading pre r) empty_buffer s) st [] s'"
  by (auto simp: library_def lib_run_def lib_status_only_def answer_status_def answered_with_def put_status_def buf_put_def
      empty_buffer_def split: prod.splits)

section \<open>A connection with a failure waiting\<close>

text \<open>The serving loop's last step (\<^verbatim>\<open>server/main.cpp\<close>): a call that succeeded carries the failure of an
  earlier call without a reply, if one is held for its thread, in the result of its own reply.\<close>

definition lib_late :: "'d dispatcher \<Rightarrow> ('d sv \<times> CUresult) sender" where
  "lib_late disp api payload x = (case x of (s, late) \<Rightarrow> (case lib_served disp api payload s of ((r, rsp), s1) \<Rightarrow>
     (if r = CUDA_SUCCESS \<and> late \<noteq> CUDA_SUCCESS then ((late, rsp), (s1, CUDA_SUCCESS)) else ((r, rsp), (s1, late)))))"

lemma lib_send_late:
  assumes "disp api (reading [] (enc_fields fs)) empty_buffer s = Some (Answered a)" and "answered_with a st extra s'"
  shows "lib_send failed internal (lib_late disp) api (request fs) (s, late)
    = ((if late = CUDA_SUCCESS then (st, reading (le_enc 4 st) extra) else (failed, reading [] (le_enc 4 st @ extra))), (s', CUDA_SUCCESS))"
  using assms by (auto simp: answered_with_def lib_send_def lib_late_def lib_served_def buffer_of_reading)

text \<open>The bytes of the process at an address: as many as are asked for, and the fewer the first of the more.\<close>

definition host_bytes :: "host_mem \<Rightarrow> bool" where
  "host_bytes mem \<longleftrightarrow> (\<forall>p n. length (mem p n) = n) \<and> (\<forall>p m n. m \<le> n \<longrightarrow> take m (mem p n) = mem p m)"

lemma host_bytesD:
  assumes "host_bytes mem"
  shows "length (mem p n) = n" and "m \<le> n \<Longrightarrow> take m (mem p n) = mem p m"
  using assms by (simp_all add: host_bytes_def)

section \<open>Data types\<close>

text \<open>The types of the toolkit's \<^verbatim>\<open>library_types.h\<close>, by their numbers: the bytes of an element of those a
  scalar can have, and the complex ones. \<open>R_32F\<close> is 0, \<open>R_64F\<close> 1, \<open>R_16F\<close> 2, \<open>C_32F\<close> 4, \<open>C_64F\<close> 5 and \<open>R_32I\<close> 10.\<close>

definition element_width :: "u32 \<Rightarrow> nat option" where
  "element_width = map_of [(0, 4), (1, 8), (2, 2), (4, 8), (5, 16), (10, 4)]"

definition complex_types :: "u32 list" where
  "complex_types = [4, 5, 6, 7, 9, 11, 13, 15, 17, 19, 21, 23, 25, 27]"

end
