(* ===== verification/CublasLaws.thy ===== *)
theory CublasLaws
  imports Cublas MathsLaws
begin

text \<open>
  What the forwarding of cuBLAS promises: a multiply is the library's own multiply, with the caller's
  arguments and scalars; and the mode and stream the client keeps for a handle are the library's.
\<close>

section \<open>Scalars\<close>

text \<open>The scalar the library gets.\<close>

definition scalar_sent :: "host_mem \<Rightarrow> blas \<Rightarrow> u64 \<Rightarrow> u64 \<Rightarrow> nat \<Rightarrow> scalar" where
  "scalar_sent mem bl h p n = (if p = 0 then No_scalar
     else if pointer_mode h bl = CUBLAS_POINTER_MODE_HOST then Value (mem p n) else Device_at p)"

lemma reading_scalar [simp]:
  assumes "length (mem p n) = n"
  shows "lib_take bad (get_scalar n) k (reading pre (enc_fields (put_scalar mem bl h p n) @ r)) rsp s
    = k (scalar_sent mem bl h p n) (reading (pre @ enc_fields (put_scalar mem bl h p n)) r) rsp s"
  using assms by (simp add: lib_take_def get_scalar_def put_scalar_def flag_field_def scalar_sent_def Let_def)

section \<open>A call and its handler\<close>

abbreviation "blas_link drv lib \<equiv> lib_late (dispatch_cublas drv lib)"

text \<open>The status of a call whose reply may carry an earlier failure.\<close>

definition blas_told :: "u32 \<Rightarrow> CUresult \<Rightarrow> u32" where
  "blas_told st late = (if late = CUDA_SUCCESS then st else CUBLAS_STATUS_EXECUTION_FAILED)"

lemma told_zero [simp]: "blas_told st late = 0 \<longleftrightarrow> st = 0 \<and> late = CUDA_SUCCESS"
  by (simp add: blas_told_def CUBLAS_STATUS_EXECUTION_FAILED_def)

definition blas_handler :: "'d driver \<Rightarrow> 'd maths \<Rightarrow> u32 \<Rightarrow> 'd handler" where
  "blas_handler drv lib api = the (map_of (cublas_cases drv lib) api)"

lemma blas_handlers [simp]:
  "blas_handler drv lib API_cublasCreate = handle_cublasCreate drv lib"
  "blas_handler drv lib API_cublasDestroy = handle_cublasDestroy lib"
  "blas_handler drv lib API_cublasSetStream = handle_cublasSetStream lib"
  "blas_handler drv lib API_cublasGetStream = handle_cublasGetStream lib"
  "blas_handler drv lib API_cublasSetPointerMode = handle_cublasSetPointerMode lib"
  "blas_handler drv lib API_cublasSetMathMode = handle_cublasSetMathMode lib"
  "blas_handler drv lib API_cublasGetMathMode = handle_cublasGetMathMode lib"
  "blas_handler drv lib API_cublasSetWorkspace = handle_cublasSetWorkspace lib"
  "blas_handler drv lib API_cublasGetVersion = handle_cublasGetVersion lib"
  "blas_handler drv lib API_cublasGetProperty = handle_cublasGetProperty lib"
  "blas_handler drv lib API_cublasSetSmCountTarget = handle_cublasSetSmCountTarget lib"
  "blas_handler drv lib API_cublasGetSmCountTarget = handle_cublasGetSmCountTarget lib"
  "blas_handler drv lib API_cublasSgemm = handle_cublasSgemm lib"
  "blas_handler drv lib API_cublasDgemm = handle_cublasDgemm lib"
  "blas_handler drv lib API_cublasGemmEx = handle_cublasGemmEx lib"
  "blas_handler drv lib API_cublasGemmStridedBatchedEx = handle_cublasGemmStridedBatchedEx lib"
  "blas_handler drv lib API_cublasSgemmStridedBatched = handle_cublasSgemmStridedBatched lib"
  by (simp_all add: blas_handler_def cublas_cases_def cublas_ids)

definition blas_ids :: "u32 list" where
  "blas_ids = [API_cublasCreate, API_cublasDestroy, API_cublasSetStream, API_cublasGetStream, API_cublasSetPointerMode,
     API_cublasSetMathMode, API_cublasGetMathMode, API_cublasSetWorkspace, API_cublasGetVersion, API_cublasGetProperty,
     API_cublasSetSmCountTarget, API_cublasGetSmCountTarget, API_cublasSgemm, API_cublasDgemm, API_cublasGemmEx,
     API_cublasGemmStridedBatchedEx, API_cublasSgemmStridedBatched]"

lemma blas_dispatched:
  assumes "api \<in> set blas_ids"
  shows "dispatch_cublas drv lib api req rsp s = Some (Answered (blas_handler drv lib api req rsp s))"
proof -
  have "\<not> (api < kCublasBase \<or> api > kCublasBase + 1000)" using assms by (auto simp: blas_ids_def cublas_ids)
  moreover have "map_of (cublas_cases drv lib) api = Some (blas_handler drv lib api)"
    using assms by (auto simp: blas_ids_def blas_handler_def cublas_cases_def cublas_ids)
  ultimately show ?thesis by (simp add: dispatch_cublas_def)
qed

lemma tell_answered:
  assumes "api \<in> set blas_ids" and "answered_with (blas_handler drv lib api (reading [] (enc_fields fs)) empty_buffer s) st extra s'"
  shows "blas_tell (blas_link drv lib) api fs (bl, (s, late)) = (blas_told st late, (bl, (s', CUDA_SUCCESS)))"
  using lib_send_late [where disp = "dispatch_cublas drv lib", OF blas_dispatched [OF assms(1)] assms(2)]
  by (simp add: blas_tell_def blas_send_def blas_told_def)

lemma ask_answered:
  assumes "api \<in> set blas_ids" and "out \<noteq> 0"
    and "answered_with (blas_handler drv lib api (reading [] (enc_fields fs)) empty_buffer s) st extra s'"
  shows "blas_ask (blas_link drv lib) api fs get out (bl, (s, late))
    = (lib_value CUBLAS_STATUS_INTERNAL_ERROR get (blas_told st late, reading (le_enc 4 st) extra), (bl, (s', CUDA_SUCCESS)))"
  using lib_send_late [where disp = "dispatch_cublas drv lib", OF blas_dispatched [OF assms(1)] assms(3)] assms(2)
  by (auto simp: blas_ask_def blas_send_def blas_told_def lib_value_def CUBLAS_STATUS_EXECUTION_FAILED_def)

section \<open>Multiplies\<close>

lemma computed:
  "api \<in> set blas_ids \<Longrightarrow> answered_with (blas_handler drv lib api (reading [] (enc_fields (fs bl))) empty_buffer s) st extra s' \<Longrightarrow>
   blas_compute (blas_link drv lib) api h fs (bl, (s, late)) = (blas_told st late, (computes h bl, (s', CUDA_SUCCESS)))"
  by (simp add: blas_compute_def tell_answered)

text \<open>Both ends take scalars of the same width.\<close>

lemma scalar_sizes_agree [simp]: "gemm_scalar_size ct = compute_scalar_size ct"
  by (simp add: gemm_scalar_size_def compute_scalar_size_def)

lemma sgemm_served:
  assumes "ml_has lib ''cublasSgemm_v2''" and "length (mem alpha 4) = 4" and "length (mem beta 4) = 4"
    and "library lib ''cublasSgemm_v2'' [I64 h, I32 transa, I32 transb, I32 m, I32 n, I32 k, Scalar (scalar_sent mem bl h alpha 4), I64 a, I32 lda, I64 b, I32 ldb, Scalar (scalar_sent mem bl h beta 4), I64 c, I32 ldc] s
      = ((st, outs), s')"
  shows "cublasSgemm_v2 mem (blas_link drv lib) h transa transb m n k alpha a lda b ldb beta c ldc (bl, (s, late)) = (blas_told st late, (computes h bl, (s', CUDA_SUCCESS)))"
  unfolding cublasSgemm_v2_def
  by (rule computed [where extra = "[]"])
    (simp_all add: blas_ids_def handle_cublasSgemm_def handle_gemm_def on_handle_def lib_need_def assms(1-3)
      answered_status_only [OF assms(4)])

lemma dgemm_served:
  assumes "ml_has lib ''cublasDgemm_v2''" and "length (mem alpha 8) = 8" and "length (mem beta 8) = 8"
    and "library lib ''cublasDgemm_v2'' [I64 h, I32 transa, I32 transb, I32 m, I32 n, I32 k, Scalar (scalar_sent mem bl h alpha 8), I64 a, I32 lda, I64 b, I32 ldb, Scalar (scalar_sent mem bl h beta 8), I64 c, I32 ldc] s
      = ((st, outs), s')"
  shows "cublasDgemm_v2 mem (blas_link drv lib) h transa transb m n k alpha a lda b ldb beta c ldc (bl, (s, late)) = (blas_told st late, (computes h bl, (s', CUDA_SUCCESS)))"
  unfolding cublasDgemm_v2_def
  by (rule computed [where extra = "[]"])
    (simp_all add: blas_ids_def handle_cublasDgemm_def handle_gemm_def on_handle_def lib_need_def assms(1-3)
      answered_status_only [OF assms(4)])

lemma gemm_ex_served:
  assumes "ml_has lib ''cublasGemmEx''" and "length (mem alpha (compute_scalar_size ct)) = compute_scalar_size ct" and "length (mem beta (compute_scalar_size ct)) = compute_scalar_size ct"
    and "library lib ''cublasGemmEx'' [I64 h, I32 transa, I32 transb, I32 m, I32 n, I32 k,
        Scalar (scalar_sent mem bl h alpha (compute_scalar_size ct)), I64 a, I32 at, I32 lda, I64 b, I32 bt, I32 ldb,
        Scalar (scalar_sent mem bl h beta (compute_scalar_size ct)), I64 c, I32 cty, I32 ldc, I32 ct, I32 algo] s
      = ((st, outs), s')"
  shows "cublasGemmEx mem (blas_link drv lib) h transa transb m n k alpha a at lda b bt ldb beta c cty ldc ct algo (bl, (s, late)) = (blas_told st late, (computes h bl, (s', CUDA_SUCCESS)))"
  unfolding cublasGemmEx_def Let_def
  by (rule computed [where extra = "[]"])
    (simp_all add: blas_ids_def handle_cublasGemmEx_def on_handle_def lib_need_def assms(1-3)
      answered_status_only [OF assms(4)])

lemma gemm_batched_ex_served:
  assumes "ml_has lib ''cublasGemmStridedBatchedEx''" and "length (mem alpha (compute_scalar_size ct)) = compute_scalar_size ct" and "length (mem beta (compute_scalar_size ct)) = compute_scalar_size ct"
    and "library lib ''cublasGemmStridedBatchedEx'' [I64 h, I32 transa, I32 transb, I32 m, I32 n, I32 k,
        Scalar (scalar_sent mem bl h alpha (compute_scalar_size ct)), I64 a, I32 at, I32 lda, I64 sa, I64 b, I32 bt, I32 ldb, I64 sb,
        Scalar (scalar_sent mem bl h beta (compute_scalar_size ct)), I64 c, I32 cty, I32 ldc, I64 sc, I32 batch, I32 ct, I32 algo] s
      = ((st, outs), s')"
  shows "cublasGemmStridedBatchedEx mem (blas_link drv lib) h transa transb m n k alpha a at lda sa b bt ldb sb beta c cty ldc sc batch ct algo (bl, (s, late)) = (blas_told st late, (computes h bl, (s', CUDA_SUCCESS)))"
  unfolding cublasGemmStridedBatchedEx_def Let_def
  by (rule computed [where extra = "[]"])
    (simp_all add: blas_ids_def handle_cublasGemmStridedBatchedEx_def on_handle_def lib_need_def assms(1-3)
      answered_status_only [OF assms(4)])

lemma sgemm_batched_served:
  assumes "ml_has lib ''cublasSgemmStridedBatched''" and "length (mem alpha 4) = 4" and "length (mem beta 4) = 4"
    and "library lib ''cublasSgemmStridedBatched'' [I64 h, I32 transa, I32 transb, I32 m, I32 n, I32 k,
        Scalar (scalar_sent mem bl h alpha 4), I64 a, I32 lda, I64 sa, I64 b, I32 ldb, I64 sb,
        Scalar (scalar_sent mem bl h beta 4), I64 c, I32 ldc, I64 sc, I32 batch] s
      = ((st, outs), s')"
  shows "cublasSgemmStridedBatched mem (blas_link drv lib) h transa transb m n k alpha a lda sa b ldb sb beta c ldc sc batch (bl, (s, late)) = (blas_told st late, (computes h bl, (s', CUDA_SUCCESS)))"
  unfolding cublasSgemmStridedBatched_def
  by (rule computed [where extra = "[]"])
    (simp_all add: blas_ids_def handle_cublasSgemmStridedBatched_def on_handle_def lib_need_def assms(1-3)
      answered_status_only [OF assms(4)])

definition multiplied :: "'d maths \<Rightarrow> string \<Rightarrow> lib_arg list \<Rightarrow> u64 \<Rightarrow> blas \<Rightarrow> 'd sv \<times> CUresult \<Rightarrow> u32 \<times> blas \<times> 'd sv \<times> CUresult" where
  "multiplied lib name as h bl x = (case library lib name as (fst x) of
     ((st, outs), s') \<Rightarrow> (blas_told st (snd x), (computes h bl, (s', CUDA_SUCCESS))))"

text \<open>What the library's documentation says of the scalars of the two multiplies with a compute type:
  their type by the compute type and by whether the matrices are complex, so many bytes of which the
  library reads. The compute types by their numbers: 64 and 65 in half precision, 68, 69, 74, 75 and 77
  in single, 70 and 71 in double, 72 and 73 in integers.\<close>

definition scale_type :: "u32 \<Rightarrow> u32 \<Rightarrow> u32 option" where
  "scale_type ct cty = (let complex = cty \<in> set complex_types in
     map_of [(64, 2), (65, 2), (72, 10), (73, 10), (70, if complex then 5 else 1), (71, if complex then 5 else 1),
       (68, if complex then 4 else 0), (69, if complex then 4 else 0), (74, if complex then 4 else 0),
       (75, if complex then 4 else 0), (77, if complex then 4 else 0)] ct)"

definition gemm_scalar_width :: "u32 \<Rightarrow> u32 \<Rightarrow> nat option" where
  "gemm_scalar_width ct cty = Option.bind (scale_type ct cty) element_width"

fun first_bytes :: "nat \<Rightarrow> scalar \<Rightarrow> scalar" where
  "first_bytes w (Value bs) = Value (take w bs)"
| "first_bytes w x = x"

definition reads_scalars :: "'d maths \<Rightarrow> bool" where
  "reads_scalars lib \<longleftrightarrow>
     (\<forall>h ta tb m n k x a at lda b bt ldb y c cty ldc ct algo w wd. gemm_scalar_width ct cty = Some w \<longrightarrow>
        ml_call lib ''cublasGemmEx'' [I64 h, I32 ta, I32 tb, I32 m, I32 n, I32 k, Scalar x, I64 a, I32 at, I32 lda,
          I64 b, I32 bt, I32 ldb, Scalar y, I64 c, I32 cty, I32 ldc, I32 ct, I32 algo] wd
        = ml_call lib ''cublasGemmEx'' [I64 h, I32 ta, I32 tb, I32 m, I32 n, I32 k, Scalar (first_bytes w x), I64 a, I32 at, I32 lda,
          I64 b, I32 bt, I32 ldb, Scalar (first_bytes w y), I64 c, I32 cty, I32 ldc, I32 ct, I32 algo] wd)
   \<and> (\<forall>h ta tb m n k x a at lda sa b bt ldb sb y c cty ldc sc batch ct algo w wd. gemm_scalar_width ct cty = Some w \<longrightarrow>
        ml_call lib ''cublasGemmStridedBatchedEx'' [I64 h, I32 ta, I32 tb, I32 m, I32 n, I32 k, Scalar x, I64 a, I32 at, I32 lda,
          I64 sa, I64 b, I32 bt, I32 ldb, I64 sb, Scalar y, I64 c, I32 cty, I32 ldc, I64 sc, I32 batch, I32 ct, I32 algo] wd
        = ml_call lib ''cublasGemmStridedBatchedEx'' [I64 h, I32 ta, I32 tb, I32 m, I32 n, I32 k, Scalar (first_bytes w x), I64 a, I32 at,
          I32 lda, I64 sa, I64 b, I32 bt, I32 ldb, I64 sb, Scalar (first_bytes w y), I64 c, I32 cty, I32 ldc, I64 sc, I32 batch, I32 ct,
          I32 algo] wd)"

text \<open>For real matrices both ends send at least as many bytes as the library reads.\<close>

lemma wide_enough:
  assumes "gemm_scalar_width ct cty = Some w" and "cty \<notin> set complex_types"
  shows "w \<le> compute_scalar_size ct"
  using assms by (auto simp: gemm_scalar_width_def scale_type_def element_width_def compute_scalar_size_def bind_eq_Some_conv split: if_splits)

lemma first_bytes_sent:
  assumes "host_bytes mem" and "w \<le> n"
  shows "first_bytes w (scalar_sent mem bl h p n) = scalar_sent mem bl h p w"
  using host_bytesD [OF assms(1)] assms(2) by (simp add: scalar_sent_def)

text \<open>C18. Each of the five multiplies a program calls is one call of the library's own function on
  the server, with the caller's arguments in their places. Where the handle takes its scalars from the
  host they are the caller's bytes: four for single precision, eight for double, and as many as the
  library's documentation gives for the compute type (\<open>gemm_scalar_width\<close>) in the two that have one; where it
  does not they are the device's addresses. The matrices are real: for complex ones half of each scalar
  is lost (\<open>complex_scalars_are_cut\<close>). The caller gets the library's status, or the mark of an earlier failure
  its reply carried, and its stream has work outstanding.\<close>

theorem multiply_is_the_librarys:
  assumes "\<forall>name. ml_has lib name" and "reads_scalars lib" and "host_bytes mem"
    and "gemm_scalar_width ct cty = Some w" and "cty \<notin> set complex_types"
  shows "cublasSgemm_v2 mem (blas_link drv lib) h transa transb m n k alpha a lda b ldb beta c ldc (bl, x)
      = multiplied lib ''cublasSgemm_v2'' [I64 h, I32 transa, I32 transb, I32 m, I32 n, I32 k, Scalar (scalar_sent mem bl h alpha 4),
          I64 a, I32 lda, I64 b, I32 ldb, Scalar (scalar_sent mem bl h beta 4), I64 c, I32 ldc] h bl x
    \<and> cublasDgemm_v2 mem (blas_link drv lib) h transa transb m n k alpha a lda b ldb beta c ldc (bl, x)
      = multiplied lib ''cublasDgemm_v2'' [I64 h, I32 transa, I32 transb, I32 m, I32 n, I32 k, Scalar (scalar_sent mem bl h alpha 8),
          I64 a, I32 lda, I64 b, I32 ldb, Scalar (scalar_sent mem bl h beta 8), I64 c, I32 ldc] h bl x
    \<and> cublasGemmEx mem (blas_link drv lib) h transa transb m n k alpha a at lda b bt ldb beta c cty ldc ct algo (bl, x)
      = multiplied lib ''cublasGemmEx'' [I64 h, I32 transa, I32 transb, I32 m, I32 n, I32 k,
          Scalar (scalar_sent mem bl h alpha w), I64 a, I32 at, I32 lda, I64 b, I32 bt, I32 ldb,
          Scalar (scalar_sent mem bl h beta w), I64 c, I32 cty, I32 ldc, I32 ct, I32 algo] h bl x
    \<and> cublasGemmStridedBatchedEx mem (blas_link drv lib) h transa transb m n k alpha a at lda sa b bt ldb sb beta c cty ldc sc
        batch ct algo (bl, x)
      = multiplied lib ''cublasGemmStridedBatchedEx'' [I64 h, I32 transa, I32 transb, I32 m, I32 n, I32 k,
          Scalar (scalar_sent mem bl h alpha w), I64 a, I32 at, I32 lda, I64 sa, I64 b, I32 bt, I32 ldb, I64 sb,
          Scalar (scalar_sent mem bl h beta w), I64 c, I32 cty, I32 ldc, I64 sc, I32 batch, I32 ct, I32 algo]
          h bl x
    \<and> cublasSgemmStridedBatched mem (blas_link drv lib) h transa transb m n k alpha a lda sa b ldb sb beta c ldc sc batch (bl, x)
      = multiplied lib ''cublasSgemmStridedBatched'' [I64 h, I32 transa, I32 transb, I32 m, I32 n, I32 k,
          Scalar (scalar_sent mem bl h alpha 4), I64 a, I32 lda, I64 sa, I64 b, I32 ldb, I64 sb,
          Scalar (scalar_sent mem bl h beta 4), I64 c, I32 ldc, I64 sc, I32 batch] h bl x"
proof -
  obtain s late where x: "x = (s, late)" by fastforce
  note len = host_bytesD(1) [OF assms(3)]
  note cut = first_bytes_sent [OF assms(3) wide_enough [OF assms(4,5)]]
  have ex: "library lib ''cublasGemmEx'' [I64 h, I32 transa, I32 transb, I32 m, I32 n, I32 k,
      Scalar (scalar_sent mem bl h alpha (compute_scalar_size ct)), I64 a, I32 at, I32 lda, I64 b, I32 bt, I32 ldb,
      Scalar (scalar_sent mem bl h beta (compute_scalar_size ct)), I64 c, I32 cty, I32 ldc, I32 ct, I32 algo] s
    = library lib ''cublasGemmEx'' [I64 h, I32 transa, I32 transb, I32 m, I32 n, I32 k,
      Scalar (scalar_sent mem bl h alpha w), I64 a, I32 at, I32 lda, I64 b, I32 bt, I32 ldb,
      Scalar (scalar_sent mem bl h beta w), I64 c, I32 cty, I32 ldc, I32 ct, I32 algo] s"
    using conjunct1 [OF assms(2) [unfolded reads_scalars_def], rule_format, OF assms(4), where x = "scalar_sent mem bl h alpha (compute_scalar_size ct)"
        and y = "scalar_sent mem bl h beta (compute_scalar_size ct)"] by (simp add: library_def cut)
  have batched: "library lib ''cublasGemmStridedBatchedEx'' [I64 h, I32 transa, I32 transb, I32 m, I32 n, I32 k,
      Scalar (scalar_sent mem bl h alpha (compute_scalar_size ct)), I64 a, I32 at, I32 lda, I64 sa, I64 b, I32 bt, I32 ldb, I64 sb,
      Scalar (scalar_sent mem bl h beta (compute_scalar_size ct)), I64 c, I32 cty, I32 ldc, I64 sc, I32 batch, I32 ct, I32 algo] s
    = library lib ''cublasGemmStridedBatchedEx'' [I64 h, I32 transa, I32 transb, I32 m, I32 n, I32 k,
      Scalar (scalar_sent mem bl h alpha w), I64 a, I32 at, I32 lda, I64 sa, I64 b, I32 bt, I32 ldb, I64 sb,
      Scalar (scalar_sent mem bl h beta w), I64 c, I32 cty, I32 ldc, I64 sc, I32 batch, I32 ct, I32 algo] s"
    using conjunct2 [OF assms(2) [unfolded reads_scalars_def], rule_format, OF assms(4), where x = "scalar_sent mem bl h alpha (compute_scalar_size ct)"
        and y = "scalar_sent mem bl h beta (compute_scalar_size ct)"] by (simp add: library_def cut)
  show ?thesis
    by (intro conjI; simp add: multiplied_def x flip: ex batched split: prod.split)
      (simp_all add: sgemm_served dgemm_served gemm_ex_served gemm_batched_ex_served sgemm_batched_served assms(1) len)
qed

text \<open>A library that has every function and answers each with success and the number 9.\<close>

definition nine :: "'d maths" where
  "nine = \<lparr> ml_has = (\<lambda>name. True), ml_call = (\<lambda>name as w. ((0, [I64 9]), w)) \<rparr>"

text \<open>A multiply in double precision, on a connection with a failure waiting.\<close>

theorem multiply_is_the_librarys_witness:
  "cublasGemmEx (\<lambda>p n. replicate n (ucast p)) (blas_link fake_driver nine) 5 0 0 16 16 16 0x70 0x1000 1 16 0x2000 1 16 0x80 0x3000 1 16 70 0
     (new_blas\<lparr> bl_streams := [5 \<mapsto> 3] \<rparr>, (demo_sv, CUDA_ERROR_UNKNOWN))
   = (CUBLAS_STATUS_EXECUTION_FAILED,
      (new_blas\<lparr> bl_streams := [5 \<mapsto> 3], bl_pending := work_on 3 nothing_pending \<rparr>, (demo_sv, CUDA_SUCCESS)))
   \<and> scalar_sent (\<lambda>p n. replicate n (ucast p)) (new_blas\<lparr> bl_streams := [5 \<mapsto> 3] \<rparr>) 5 0x70 8 = Value (replicate 8 0x70)"
  by (subst conjunct1 [OF conjunct2 [OF conjunct2 [OF multiply_is_the_librarys [where w = 8]]]])
    (simp_all add: nine_def reads_scalars_def host_bytes_def gemm_scalar_width_def scale_type_def element_width_def complex_types_def
      multiplied_def library_def computes_def blas_stream_def new_blas_def blas_told_def
      scalar_sent_def pointer_mode_def)

text \<open>With complex matrices the library reads eight bytes or sixteen of each scalar, and is given half.\<close>

lemma complex_scalars_are_cut:
  assumes "gemm_scalar_width ct cty = Some w" and "cty \<in> set complex_types" and "ct \<in> {68, 69, 70, 71, 74, 75, 77}"
  shows "w = 2 * compute_scalar_size ct"
  using assms by (auto simp: gemm_scalar_width_def scale_type_def element_width_def compute_scalar_size_def)

section \<open>Modes and streams of handles\<close>

lemma destroy_served:
  assumes "ml_has lib ''cublasDestroy_v2''" and "library lib ''cublasDestroy_v2'' [I64 h] s = ((st, outs), s')"
  shows "blas_tell (blas_link drv lib) API_cublasDestroy [F64 h] (bl, (s, late))
    = (blas_told st late, (bl, (if st = 0 then on_inv (inventory_forget_handle h) s' else s', CUDA_SUCCESS)))"
proof -
  have "answered_with (blas_handler drv lib API_cublasDestroy (reading [] (enc_fields [F64 h])) empty_buffer s) st []
      (if st = 0 then on_inv (inventory_forget_handle h) s' else s')"
    using assms by (auto simp: handle_cublasDestroy_def on_handle_def lib_need_def lib_destroy_def lib_run_def library_def
        answered_with_def put_status_def buf_put_def empty_buffer_def split: prod.splits)
  then show ?thesis by (simp add: tell_answered blas_ids_def)
qed

lemma set_mode_served:
  assumes "ml_has lib ''cublasSetPointerMode_v2''" and "library lib ''cublasSetPointerMode_v2'' [I64 h, I32 v] s = ((st, outs), s')"
  shows "cublasSetPointerMode_v2 (blas_link drv lib) h v (bl, (s, late)) = (blas_told st late,
    ((if st = 0 \<and> late = CUDA_SUCCESS then bl\<lparr> bl_modes := (bl_modes bl)(h \<mapsto> v) \<rparr> else bl), (s', CUDA_SUCCESS)))"
proof -
  have "answered_with (blas_handler drv lib API_cublasSetPointerMode (reading [] (enc_fields [F64 h, F32 v])) empty_buffer s) st [] s'"
    by (simp add: handle_cublasSetPointerMode_def on_handle_def lib_need_def assms(1) answered_status_only [OF assms(2)])
  then show ?thesis by (simp add: cublasSetPointerMode_v2_def tell_answered blas_ids_def)
qed

lemma set_stream_served:
  assumes "ml_has lib ''cublasSetStream_v2''" and "library lib ''cublasSetStream_v2'' [I64 h, I64 v] s = ((st, outs), s')"
  shows "cublasSetStream_v2 (blas_link drv lib) h v (bl, (s, late)) = (blas_told st late,
    ((if st = 0 \<and> late = CUDA_SUCCESS then bl\<lparr> bl_streams := (bl_streams bl)(h \<mapsto> v) \<rparr> else bl), (s', CUDA_SUCCESS)))"
proof -
  have "answered_with (blas_handler drv lib API_cublasSetStream (reading [] (enc_fields [F64 h, F64 v])) empty_buffer s) st [] s'"
    by (simp add: handle_cublasSetStream_def on_handle_def lib_need_def assms(1) answered_status_only [OF assms(2)])
  then show ?thesis by (simp add: cublasSetStream_v2_def tell_answered blas_ids_def)
qed

definition noted_handle :: "u64 \<Rightarrow> stamp \<Rightarrow> 'd sv \<Rightarrow> 'd sv" where
  "noted_handle h made = on_inv (inventory_note_handle h \<lparr> lh_made = made, lh_what = ''cuBLAS'', lh_destroy = Some 1 \<rparr>)"

lemma create_served:
  assumes "ml_has lib ''cublasCreate_v2''" and "take_stamp drv s = (made, s1)" and "out \<noteq> 0"
    and "library lib ''cublasCreate_v2'' [] s1 = ((st, outs), s2)"
  shows "cublasCreate_v2 (blas_link drv lib) out (bl, (s, late))
    = ((blas_told st late, if st = 0 \<and> late = CUDA_SUCCESS then Some (wrote_long 0 outs) else None),
       (bl, (if st = 0 then noted_handle (wrote_long 0 outs) made s2 else s2, CUDA_SUCCESS)))"
proof -
  have a: "answered_with (blas_handler drv lib API_cublasCreate (reading [] (enc_fields [])) empty_buffer s) st
      (if st = 0 then le_enc 8 (wrote_long 0 outs) else []) (if st = 0 then noted_handle (wrote_long 0 outs) made s2 else s2)"
    using assms by (auto simp: handle_cublasCreate_def lib_need_def lib_create_def library_def answered_with_def put_status_def
        noted_handle_def buf_put_def empty_buffer_def split: prod.splits)
  show ?thesis using ask_answered [OF _ assms(3) a, of "buf_get 8" bl late]
    by (auto simp: cublasCreate_v2_def blas_ids_def lib_value_def)
qed

text \<open>The library's side: which handles live, with the pointer mode and the stream of each. Its
  documentation: a new handle did not live before and has host pointers and the default stream; what is
  set with success is had from then on; a handle destroyed with success is gone; nothing else changes.\<close>

record 'd handle_view =
  hv_live :: "'d world \<Rightarrow> u64 set"
  hv_mode :: "'d world \<Rightarrow> u64 \<Rightarrow> u32"
  hv_stream :: "'d world \<Rightarrow> u64 \<Rightarrow> u64"

definition view_same :: "'d handle_view \<Rightarrow> 'd world \<Rightarrow> 'd world \<Rightarrow> bool" where
  "view_same v w w' \<longleftrightarrow> hv_live v w' = hv_live v w \<and> hv_mode v w' = hv_mode v w \<and> hv_stream v w' = hv_stream v w"

definition handle_laws :: "'d driver \<Rightarrow> 'd maths \<Rightarrow> 'd handle_view \<Rightarrow> bool" where
  "handle_laws drv lib v \<longleftrightarrow>
     (\<forall>w. case ml_call lib ''cublasCreate_v2'' [] w of ((st, outs), w') \<Rightarrow>
        if st = 0 then wrote_long 0 outs \<notin> hv_live v w \<and> hv_live v w' = insert (wrote_long 0 outs) (hv_live v w)
          \<and> hv_mode v w' = (hv_mode v w)(wrote_long 0 outs := 0) \<and> hv_stream v w' = (hv_stream v w)(wrote_long 0 outs := 0)
        else view_same v w w')
   \<and> (\<forall>w h m. case ml_call lib ''cublasSetPointerMode_v2'' [I64 h, I32 m] w of ((st, outs), w') \<Rightarrow>
        if st = 0 then hv_live v w' = hv_live v w \<and> hv_mode v w' = (hv_mode v w)(h := m) \<and> hv_stream v w' = hv_stream v w
        else view_same v w w')
   \<and> (\<forall>w h x. case ml_call lib ''cublasSetStream_v2'' [I64 h, I64 x] w of ((st, outs), w') \<Rightarrow>
        if st = 0 then hv_live v w' = hv_live v w \<and> hv_mode v w' = hv_mode v w \<and> hv_stream v w' = (hv_stream v w)(h := x)
        else view_same v w w')
   \<and> (\<forall>w h. case ml_call lib ''cublasDestroy_v2'' [I64 h] w of ((st, outs), w') \<Rightarrow>
        if st = 0 then hv_live v w' = hv_live v w - {h}
          \<and> (\<forall>h'. h' \<noteq> h \<longrightarrow> hv_mode v w' h' = hv_mode v w h' \<and> hv_stream v w' h' = hv_stream v w h')
        else view_same v w w')
   \<and> (\<forall>s. view_same v (sv_world s) (sv_world (snd (take_stamp drv s))))"

lemma law_create:
  assumes "handle_laws drv lib v" and "ml_call lib ''cublasCreate_v2'' [] w = ((st, outs), w')"
  shows "if st = 0 then wrote_long 0 outs \<notin> hv_live v w \<and> hv_live v w' = insert (wrote_long 0 outs) (hv_live v w)
      \<and> hv_mode v w' = (hv_mode v w)(wrote_long 0 outs := 0) \<and> hv_stream v w' = (hv_stream v w)(wrote_long 0 outs := 0)
    else view_same v w w'"
  using conjunct1 [OF assms(1) [unfolded handle_laws_def], THEN spec [of _ w]] assms(2) by simp

lemma law_mode:
  assumes "handle_laws drv lib v" and "ml_call lib ''cublasSetPointerMode_v2'' [I64 h, I32 m] w = ((st, outs), w')"
  shows "if st = 0 then hv_live v w' = hv_live v w \<and> hv_mode v w' = (hv_mode v w)(h := m) \<and> hv_stream v w' = hv_stream v w
    else view_same v w w'"
  using conjunct1 [OF conjunct2 [OF assms(1) [unfolded handle_laws_def]], THEN spec [of _ w], THEN spec [of _ h], THEN spec [of _ m]] assms(2)
  by simp

lemma law_stream:
  assumes "handle_laws drv lib v" and "ml_call lib ''cublasSetStream_v2'' [I64 h, I64 x] w = ((st, outs), w')"
  shows "if st = 0 then hv_live v w' = hv_live v w \<and> hv_mode v w' = hv_mode v w \<and> hv_stream v w' = (hv_stream v w)(h := x)
    else view_same v w w'"
  using conjunct1 [OF conjunct2 [OF conjunct2 [OF assms(1) [unfolded handle_laws_def]]], THEN spec [of _ w], THEN spec [of _ h], THEN spec [of _ x]]
    assms(2) by simp

lemma law_destroy:
  assumes "handle_laws drv lib v" and "ml_call lib ''cublasDestroy_v2'' [I64 h] w = ((st, outs), w')"
  shows "if st = 0 then hv_live v w' = hv_live v w - {h}
      \<and> (\<forall>h'. h' \<noteq> h \<longrightarrow> hv_mode v w' h' = hv_mode v w h' \<and> hv_stream v w' h' = hv_stream v w h')
    else view_same v w w'"
  using conjunct1 [OF conjunct2 [OF conjunct2 [OF conjunct2 [OF assms(1) [unfolded handle_laws_def]]]], THEN spec [of _ w], THEN spec [of _ h]]
    assms(2) by simp

lemma law_stamp:
  assumes "handle_laws drv lib v" and "take_stamp drv s = (made, s1)"
  shows "view_same v (sv_world s) (sv_world s1)"
  using conjunct2 [OF conjunct2 [OF conjunct2 [OF conjunct2 [OF assms(1) [unfolded handle_laws_def]]]], THEN spec, of s] assms(2)
  by simp

text \<open>A process and its handles: the client's state, the server's with a failure that may wait there, and
  the handles the process was given and has not destroyed. \<open>hs_unforgotten\<close>: the handles whose destroy
  has returned from the server in some thread that has not erased them yet, once for the streams and
  once for the modes, which are erased under two locks. \<open>hs_mode_behind\<close> and \<open>hs_stream_behind\<close> record for
  which handles the client may be behind: a set that the library made while the reply carried an
  earlier failure, and an erasure that met a handle which lives, because its destroy was refused or
  because it was given out again before the erasure.\<close>

record 'd handle_state =
  hs_client :: blas
  hs_server :: "'d sv \<times> CUresult"
  hs_mine :: "u64 set"
  hs_streams_unforgotten :: "u64 list"
  hs_modes_unforgotten :: "u64 list"
  hs_mode_behind :: "u64 set"
  hs_stream_behind :: "u64 set"

abbreviation hs_world :: "'d handle_state \<Rightarrow> 'd world" where
  "hs_world x \<equiv> sv_world (fst (hs_server x))"

definition given_out :: "u64 \<Rightarrow> 'd handle_state \<Rightarrow> 'd handle_state" where
  "given_out h x = x\<lparr> hs_mine := insert h (hs_mine x),
     hs_mode_behind := (if h \<in> set (hs_streams_unforgotten x) \<union> set (hs_modes_unforgotten x) then insert h (hs_mode_behind x) else hs_mode_behind x - {h}),
     hs_stream_behind := (if h \<in> set (hs_streams_unforgotten x) then insert h (hs_stream_behind x) else hs_stream_behind x - {h}) \<rparr>"

text \<open>What a set leaves: nothing where the library refused it; the client level with the library where it was
  told of the success, and behind where it was told of the earlier failure.\<close>

definition level :: "bool \<Rightarrow> CUresult \<Rightarrow> u64 \<Rightarrow> u64 set \<Rightarrow> u64 set" where
  "level made late h behind = (if \<not> made then behind else if late = CUDA_SUCCESS then behind - {h} else insert h behind)"

definition took :: "'d maths \<Rightarrow> string \<Rightarrow> lib_arg list \<Rightarrow> 'd handle_state \<Rightarrow> bool" where
  "took lib name as x \<longleftrightarrow> fst (fst (library lib name as (fst (hs_server x)))) = 0"

text \<open>The steps: making a handle, setting its mode and its stream, the three parts of destroying one (the
  call, the erasure of the stream, the erasure of the mode), in any order among the threads of the
  process; and everything else, of its own or of others, which leaves its handles alone. Two calls that
  set the same handle do not overlap, as the library asks of its callers.\<close>

inductive blas_step :: "'d driver \<Rightarrow> 'd maths \<Rightarrow> 'd handle_view \<Rightarrow> 'd handle_state \<Rightarrow> 'd handle_state \<Rightarrow> bool" for drv lib v where
  create: "cublasCreate_v2 (blas_link drv lib) out (hs_client x, hs_server x) = ((st, r), (bl, y)) \<Longrightarrow> out \<noteq> 0 \<Longrightarrow>
    blas_step drv lib v x ((case r of None \<Rightarrow> (\<lambda>z. z) | Some h \<Rightarrow> given_out h) (x\<lparr> hs_client := bl, hs_server := y \<rparr>))"
| set_mode: "cublasSetPointerMode_v2 (blas_link drv lib) h m (hs_client x, hs_server x) = (st, (bl, y)) \<Longrightarrow> h \<in> hs_mine x \<Longrightarrow>
    blas_step drv lib v x (x\<lparr> hs_client := bl, hs_server := y, hs_mode_behind :=
      level (took lib ''cublasSetPointerMode_v2'' [I64 h, I32 m] x) (snd (hs_server x)) h (hs_mode_behind x) \<rparr>)"
| set_stream: "cublasSetStream_v2 (blas_link drv lib) h s (hs_client x, hs_server x) = (st, (bl, y)) \<Longrightarrow> h \<in> hs_mine x \<Longrightarrow>
    blas_step drv lib v x (x\<lparr> hs_client := bl, hs_server := y, hs_stream_behind :=
      level (took lib ''cublasSetStream_v2'' [I64 h, I64 s] x) (snd (hs_server x)) h (hs_stream_behind x) \<rparr>)"
| destroy: "blas_tell (blas_link drv lib) API_cublasDestroy [F64 h] (hs_client x, hs_server x) = (st, (bl, y)) \<Longrightarrow>
    blas_step drv lib v x (x\<lparr> hs_client := bl, hs_server := y,
      hs_mine := (if took lib ''cublasDestroy_v2'' [I64 h] x then hs_mine x - {h} else hs_mine x),
      hs_streams_unforgotten := h # hs_streams_unforgotten x \<rparr>)"
| erase_stream: "h \<in> set (hs_streams_unforgotten x) \<Longrightarrow>
    blas_step drv lib v x (x\<lparr> hs_client := forget_stream h (hs_client x),
      hs_streams_unforgotten := remove1 h (hs_streams_unforgotten x), hs_modes_unforgotten := h # hs_modes_unforgotten x,
      hs_stream_behind := (if h \<in> hs_mine x then insert h (hs_stream_behind x) else hs_stream_behind x) \<rparr>)"
| erase_mode: "h \<in> set (hs_modes_unforgotten x) \<Longrightarrow>
    blas_step drv lib v x (x\<lparr> hs_client := forget_mode h (hs_client x),
      hs_modes_unforgotten := remove1 h (hs_modes_unforgotten x),
      hs_mode_behind := (if h \<in> hs_mine x then insert h (hs_mode_behind x) else hs_mode_behind x) \<rparr>)"
| other: "bl_modes bl = bl_modes (hs_client x) \<Longrightarrow> bl_streams bl = bl_streams (hs_client x) \<Longrightarrow>
    \<forall>h \<in> hs_mine x. h \<in> hv_live v (sv_world s) \<and> hv_mode v (sv_world s) h = hv_mode v (hs_world x) h
      \<and> hv_stream v (sv_world s) h = hv_stream v (hs_world x) h \<Longrightarrow>
    blas_step drv lib v x (x\<lparr> hs_client := bl, hs_server := (s, late) \<rparr>)"

definition handles_agree :: "'d handle_view \<Rightarrow> 'd handle_state \<Rightarrow> bool" where
  "handles_agree v x \<longleftrightarrow>
     dom (bl_modes (hs_client x)) \<subseteq> hs_mine x \<union> set (hs_streams_unforgotten x) \<union> set (hs_modes_unforgotten x)
   \<and> dom (bl_streams (hs_client x)) \<subseteq> hs_mine x \<union> set (hs_streams_unforgotten x)
   \<and> hs_mine x \<subseteq> hv_live v (hs_world x)
   \<and> (\<forall>h \<in> hs_mine x - hs_mode_behind x. pointer_mode h (hs_client x) = hv_mode v (hs_world x) h)
   \<and> (\<forall>h \<in> hs_mine x - hs_stream_behind x. blas_stream h (hs_client x) = hv_stream v (hs_world x) h)"

lemma pointer_mode_new: "bl_modes bl h = None \<Longrightarrow> pointer_mode h bl = 0"
  by (simp add: pointer_mode_def CUBLAS_POINTER_MODE_HOST_def)

lemma create_agrees:
  assumes "cublasCreate_v2 (blas_link drv lib) out (hs_client x, hs_server x) = ((st, r), (bl, y))" and "out \<noteq> 0"
    and "handle_laws drv lib v" and "\<forall>name. ml_has lib name" and "handles_agree v x"
  shows "handles_agree v ((case r of None \<Rightarrow> (\<lambda>z. z) | Some h \<Rightarrow> given_out h) (x\<lparr> hs_client := bl, hs_server := y \<rparr>))"
proof -
  obtain s late where x: "hs_server x = (s, late)" by fastforce
  obtain made s1 where m: "take_stamp drv s = (made, s1)" by fastforce
  obtain q outs s2 where l: "library lib ''cublasCreate_v2'' [] s1 = ((q, outs), s2)" by (metis surj_pair)
  let ?h = "wrote_long 0 outs"
  have e: "r = (if q = 0 \<and> late = CUDA_SUCCESS then Some ?h else None)" "bl = hs_client x" "sv_world (fst y) = sv_world s2"
    using assms(1) create_served [OF assms(4) [THEN spec] m assms(2) l, of "hs_client x" late] by (auto simp: x noted_handle_def)
  have same: "view_same v (sv_world s) (sv_world s1)" using law_stamp [OF assms(3) m] .
  note w = law_create [OF assms(3) library_world [OF l]]
  show ?thesis
  proof (cases "q = 0")
    case True
    then have new: "?h \<notin> hv_live v (sv_world s)" "hv_live v (sv_world s2) = insert ?h (hv_live v (sv_world s))"
      "hv_mode v (sv_world s2) = (hv_mode v (sv_world s))(?h := 0)" "hv_stream v (sv_world s2) = (hv_stream v (sv_world s))(?h := 0)"
      using w same by (simp_all add: view_same_def)
    have no: "?h \<notin> hs_mine x" using new(1) assms(5) by (auto simp: handles_agree_def x)
    have mode: "pointer_mode ?h (hs_client x) = 0"
      if "?h \<notin> set (hs_streams_unforgotten x) \<union> set (hs_modes_unforgotten x)"
      using that no assms(5) by (intro pointer_mode_new) (auto simp: handles_agree_def)
    have stream: "blas_stream ?h (hs_client x) = 0" if "?h \<notin> set (hs_streams_unforgotten x)"
      using that no assms(5) by (auto simp: handles_agree_def blas_stream_def split: option.split)
    show ?thesis
    proof (cases "late = CUDA_SUCCESS")
      case t: True
      show ?thesis using assms(5) no mode stream
        by (auto simp: handles_agree_def e given_out_def x new True t)
    next
      case False
      then show ?thesis using assms(5) no by (auto simp: handles_agree_def e x new)
    qed
  next
    case False
    then show ?thesis using assms(5) w same by (auto simp: handles_agree_def e x view_same_def)
  qed
qed

lemma set_mode_agrees:
  assumes "cublasSetPointerMode_v2 (blas_link drv lib) h m (hs_client x, hs_server x) = (st, (bl, y))" and "h \<in> hs_mine x"
    and "handle_laws drv lib v" and "\<forall>name. ml_has lib name" and "handles_agree v x"
  shows "handles_agree v (x\<lparr> hs_client := bl, hs_server := y, hs_mode_behind :=
      level (took lib ''cublasSetPointerMode_v2'' [I64 h, I32 m] x) (snd (hs_server x)) h (hs_mode_behind x) \<rparr>)"
proof -
  obtain s late where x: "hs_server x = (s, late)" by fastforce
  obtain q outs s1 where l: "library lib ''cublasSetPointerMode_v2'' [I64 h, I32 m] s = ((q, outs), s1)" by (metis surj_pair)
  have e: "bl = (if q = 0 \<and> late = CUDA_SUCCESS then (hs_client x)\<lparr> bl_modes := (bl_modes (hs_client x))(h \<mapsto> m) \<rparr> else hs_client x)"
    "sv_world (fst y) = sv_world s1"
    using assms(1) set_mode_served [OF assms(4) [THEN spec] l, of drv "hs_client x" late] by (auto simp: x)
  have t: "took lib ''cublasSetPointerMode_v2'' [I64 h, I32 m] x \<longleftrightarrow> q = 0" by (simp add: took_def x l)
  note w = law_mode [OF assms(3) library_world [OF l]]
  show ?thesis
  proof (cases "q = 0")
    case True
    then show ?thesis using assms(2,5) w by (auto simp: handles_agree_def e t level_def x pointer_mode_def blas_stream_def)
  next
    case False
    then show ?thesis using assms(2,5) w by (auto simp: handles_agree_def e t level_def x view_same_def)
  qed
qed

lemma set_stream_agrees:
  assumes "cublasSetStream_v2 (blas_link drv lib) h v' (hs_client x, hs_server x) = (st, (bl, y))" and "h \<in> hs_mine x"
    and "handle_laws drv lib v" and "\<forall>name. ml_has lib name" and "handles_agree v x"
  shows "handles_agree v (x\<lparr> hs_client := bl, hs_server := y, hs_stream_behind :=
      level (took lib ''cublasSetStream_v2'' [I64 h, I64 v'] x) (snd (hs_server x)) h (hs_stream_behind x) \<rparr>)"
proof -
  obtain s late where x: "hs_server x = (s, late)" by fastforce
  obtain q outs s1 where l: "library lib ''cublasSetStream_v2'' [I64 h, I64 v'] s = ((q, outs), s1)" by (metis surj_pair)
  have e: "bl = (if q = 0 \<and> late = CUDA_SUCCESS then (hs_client x)\<lparr> bl_streams := (bl_streams (hs_client x))(h \<mapsto> v') \<rparr> else hs_client x)"
    "sv_world (fst y) = sv_world s1"
    using assms(1) set_stream_served [OF assms(4) [THEN spec] l, of drv "hs_client x" late] by (auto simp: x)
  have t: "took lib ''cublasSetStream_v2'' [I64 h, I64 v'] x \<longleftrightarrow> q = 0" by (simp add: took_def x l)
  note w = law_stream [OF assms(3) library_world [OF l]]
  show ?thesis
  proof (cases "q = 0")
    case True
    then show ?thesis using assms(2,5) w by (auto simp: handles_agree_def e t level_def x pointer_mode_def blas_stream_def)
  next
    case False
    then show ?thesis using assms(2,5) w by (auto simp: handles_agree_def e t level_def x view_same_def)
  qed
qed

lemma destroy_agrees:
  assumes "blas_tell (blas_link drv lib) API_cublasDestroy [F64 h] (hs_client x, hs_server x) = (st, (bl, y))"
    and "handle_laws drv lib v" and "\<forall>name. ml_has lib name" and "handles_agree v x"
  shows "handles_agree v (x\<lparr> hs_client := bl, hs_server := y,
      hs_mine := (if took lib ''cublasDestroy_v2'' [I64 h] x then hs_mine x - {h} else hs_mine x),
      hs_streams_unforgotten := h # hs_streams_unforgotten x \<rparr>)"
proof -
  obtain s late where x: "hs_server x = (s, late)" by fastforce
  obtain q outs s1 where l: "library lib ''cublasDestroy_v2'' [I64 h] s = ((q, outs), s1)" by (metis surj_pair)
  have e: "bl = hs_client x" "sv_world (fst y) = sv_world s1"
    using assms(1) destroy_served [OF assms(3) [THEN spec] l, of drv "hs_client x" late] by (auto simp: x)
  have t: "took lib ''cublasDestroy_v2'' [I64 h] x \<longleftrightarrow> q = 0" by (simp add: took_def x l)
  note w = law_destroy [OF assms(2) library_world [OF l]]
  show ?thesis
  proof (cases "q = 0")
    case True
    then show ?thesis using assms(4) w by (auto simp: handles_agree_def e t x)
  next
    case False
    then show ?thesis using assms(4) w by (auto simp: handles_agree_def e t x view_same_def)
  qed
qed

lemma set_remove1_cases: "z \<in> set xs \<Longrightarrow> z = h \<or> z \<in> set (remove1 h xs)"
  by (cases "z = h") (simp_all add: in_set_remove1)

lemma erase_stream_agrees:
  "handles_agree v x \<Longrightarrow> handles_agree v (x\<lparr> hs_client := forget_stream h (hs_client x),
      hs_streams_unforgotten := remove1 h (hs_streams_unforgotten x), hs_modes_unforgotten := h # hs_modes_unforgotten x,
      hs_stream_behind := (if h \<in> hs_mine x then insert h (hs_stream_behind x) else hs_stream_behind x) \<rparr>)"
  using set_remove1_cases [of _ "hs_streams_unforgotten x" h]
  by (auto simp: handles_agree_def forget_stream_def pointer_mode_def blas_stream_def)

lemma erase_mode_agrees:
  "handles_agree v x \<Longrightarrow> handles_agree v (x\<lparr> hs_client := forget_mode h (hs_client x),
      hs_modes_unforgotten := remove1 h (hs_modes_unforgotten x),
      hs_mode_behind := (if h \<in> hs_mine x then insert h (hs_mode_behind x) else hs_mode_behind x) \<rparr>)"
  using set_remove1_cases [of _ "hs_modes_unforgotten x" h]
  by (auto simp: handles_agree_def forget_mode_def pointer_mode_def blas_stream_def)

lemma blas_step_agree:
  assumes "blas_step drv lib v x x'" and "handle_laws drv lib v" and "\<forall>name. ml_has lib name" and "handles_agree v x"
  shows "handles_agree v x'"
  using assms(1)
proof cases
  case (create out st r bl y)
  then show ?thesis using create_agrees assms by blast
next
  case (set_mode h m st bl y)
  then show ?thesis using set_mode_agrees assms by blast
next
  case (set_stream h s st bl y)
  then show ?thesis using set_stream_agrees assms by blast
next
  case (destroy h st bl y)
  then show ?thesis using destroy_agrees assms by blast
next
  case (erase_stream h)
  then show ?thesis using erase_stream_agrees assms(4) by blast
next
  case (erase_mode h)
  then show ?thesis using erase_mode_agrees assms(4) by blast
next
  case (other bl s late)
  then show ?thesis using assms(4)
    by (auto simp: handles_agree_def pointer_mode_def blas_stream_def)
qed

definition no_handles_yet :: "'d sv \<times> CUresult \<Rightarrow> 'd handle_state" where
  "no_handles_yet y = \<lparr> hs_client = new_blas, hs_server = y, hs_mine = {}, hs_streams_unforgotten = [], hs_modes_unforgotten = [],
     hs_mode_behind = {}, hs_stream_behind = {} \<rparr>"

text \<open>C19. Whatever a process does with its handles, on a connection that may carry the failures of earlier
  calls, and whatever the library refuses: the pointer mode by which the client sends a handle's scalars
  is the one the library has for it, unless the last set of it that the library made was answered with
  an earlier failure, or its entry was erased while it lived, by a destroy that was refused or that
  overlapped with its being given out again. The same holds of the stream the client counts the
  handle's work on.\<close>

theorem handle_mode_is_the_librarys:
  assumes "(blas_step drv lib v)\<^sup>*\<^sup>* (no_handles_yet y) x" and "handle_laws drv lib v"
    and "\<forall>name. ml_has lib name" and "h \<in> hs_mine x"
  shows "(h \<notin> hs_mode_behind x \<longrightarrow> pointer_mode h (hs_client x) = hv_mode v (hs_world x) h)
    \<and> (h \<notin> hs_stream_behind x \<longrightarrow> blas_stream h (hs_client x) = hv_stream v (hs_world x) h)"
proof -
  have "handles_agree v z" if "(blas_step drv lib v)\<^sup>*\<^sup>* (no_handles_yet y) z" for z
    using that
  proof (induction rule: rtranclp_induct)
    case base
    then show ?case by (simp add: handles_agree_def no_handles_yet_def new_blas_def)
  next
    case (step z z')
    then show ?case using blas_step_agree [OF step.hyps(2) assms(2,3)] by blast
  qed
  from this [OF assms(1)] assms(4) show ?thesis by (simp add: handles_agree_def)
qed

text \<open>A library that keeps the modes of its handles, and a driver with no entry points.\<close>

type_synonym kept_modes = "u64 set \<times> (u64 \<Rightarrow> u32)"

definition mode_keeper :: "kept_modes maths" where
  "mode_keeper = \<lparr> ml_has = (\<lambda>name. True), ml_call = (\<lambda>name as w. case w_drv w of (live, mode) \<Rightarrow>
     if name = ''cublasCreate_v2'' \<and> 9 \<notin> live then ((0, [I64 9]), w\<lparr> w_drv := (insert 9 live, mode(9 := 0)) \<rparr>)
     else if name = ''cublasSetPointerMode_v2''
       then (case as of I64 h # I32 m # rest \<Rightarrow> ((0, []), w\<lparr> w_drv := (live, mode(h := m)) \<rparr>) | _ \<Rightarrow> ((7, []), w))
     else ((7, []), w)) \<rparr>"

definition no_driver :: "kept_modes driver" where
  "no_driver = \<lparr> d_step = (\<lambda>c d. ((CUDA_ERROR_NOT_SUPPORTED, []), d)), d_has = (\<lambda>name. False) \<rparr>"

definition idle_sv :: "kept_modes sv" where
  "idle_sv = \<lparr> sv_inv = None, sv_proc = no_process, sv_threads = no_threads, sv_world = \<lparr> w_drv = ({}, \<lambda>_. 0), w_log = [] \<rparr> \<rparr>"

definition kept_view :: "kept_modes handle_view" where
  "kept_view = \<lparr> hv_live = (\<lambda>w. fst (w_drv w)), hv_mode = (\<lambda>w. snd (w_drv w)), hv_stream = (\<lambda>w h. 0) \<rparr>"

lemma mode_keeper_laws: "handle_laws no_driver mode_keeper kept_view"
  by (auto simp: handle_laws_def mode_keeper_def kept_view_def view_same_def take_stamp_def current_ctx_def no_driver_def wrote_long_def
      split: prod.split)

text \<open>A handle is made and its mode set.\<close>

definition set_once :: "u32 \<Rightarrow> kept_modes handle_state \<Rightarrow> kept_modes handle_state" where
  "set_once m x = (case cublasSetPointerMode_v2 (blas_link no_driver mode_keeper) 9 m (hs_client x, hs_server x) of
     (st, (bl, y)) \<Rightarrow> x\<lparr> hs_client := bl, hs_server := y, hs_mode_behind :=
       level (took mode_keeper ''cublasSetPointerMode_v2'' [I64 9, I32 m] x) (snd (hs_server x)) 9 (hs_mode_behind x) \<rparr>)"

definition made_nine :: "kept_modes handle_state" where
  "made_nine = (case cublasCreate_v2 (blas_link no_driver mode_keeper) 0x20 (new_blas, (idle_sv, CUDA_SUCCESS)) of
     (_, (bl, y)) \<Rightarrow> given_out 9 ((no_handles_yet (idle_sv, CUDA_SUCCESS))\<lparr> hs_client := bl, hs_server := y \<rparr>))"

lemma nine_made: "(blas_step no_driver mode_keeper kept_view)\<^sup>*\<^sup>* (no_handles_yet (idle_sv, CUDA_SUCCESS)) made_nine"
  and nine_mine: "9 \<in> hs_mine made_nine" and nine_level: "9 \<notin> hs_mode_behind made_nine"
  and nine_quiet: "snd (hs_server made_nine) = CUDA_SUCCESS"
proof -
  let ?x = "no_handles_yet (idle_sv, CUDA_SUCCESS)"
  let ?s2 = "idle_sv\<lparr> sv_world := (sv_world idle_sv)\<lparr> w_drv := ({9}, \<lambda>_. 0) \<rparr> \<rparr>"
  have m: "take_stamp no_driver idle_sv = (\<lparr> st_ctx = 0, st_dev = -1, st_gen = 0 \<rparr>, idle_sv)"
    by (simp add: take_stamp_def current_ctx_def no_driver_def idle_sv_def no_process_def stamp_context_def)
  have l: "library mode_keeper ''cublasCreate_v2'' [] idle_sv = ((0, [I64 9]), ?s2)"
    by (simp add: library_def mode_keeper_def idle_sv_def fun_upd_idem)
  obtain st bl y where c: "cublasCreate_v2 (blas_link no_driver mode_keeper) 0x20 (new_blas, (idle_sv, CUDA_SUCCESS)) = ((st, Some 9), (bl, y))" "snd y = CUDA_SUCCESS"
    using create_served [OF _ m _ l, of "0x20" new_blas CUDA_SUCCESS] by (simp add: mode_keeper_def wrote_long_def)
  have "blas_step no_driver mode_keeper kept_view ?x made_nine"
    using blas_step.create [where x = ?x and out = "0x20" and r = "Some 9" and drv = no_driver and lib = mode_keeper and v = kept_view] c(1)
    by (simp add: made_nine_def no_handles_yet_def)
  then show "(blas_step no_driver mode_keeper kept_view)\<^sup>*\<^sup>* ?x made_nine" by (rule r_into_rtranclp [where r = "blas_step no_driver mode_keeper kept_view"])
  show "9 \<in> hs_mine made_nine" "9 \<notin> hs_mode_behind made_nine" "snd (hs_server made_nine) = CUDA_SUCCESS"
    by (simp_all add: made_nine_def c given_out_def no_handles_yet_def)
qed

lemma set_once_step: "9 \<in> hs_mine x \<Longrightarrow> blas_step no_driver mode_keeper kept_view x (set_once m x)"
  using blas_step.set_mode [where h = 9 and x = x and m = m and drv = no_driver and lib = mode_keeper and v = kept_view]
  by (simp add: set_once_def split: prod.split)

lemma set_once_nine:
  "pointer_mode 9 (hs_client (set_once m x)) = (if snd (hs_server x) = CUDA_SUCCESS then m else pointer_mode 9 (hs_client x))"
  "hv_mode kept_view (hs_world (set_once m x)) 9 = m"
  "hs_mine (set_once m x) = hs_mine x"
  "hs_mode_behind (set_once m x) = (if snd (hs_server x) = CUDA_SUCCESS then hs_mode_behind x - {9} else insert 9 (hs_mode_behind x))"
proof -
  obtain s late where x: "hs_server x = (s, late)" by fastforce
  obtain live mode where w: "w_drv (sv_world s) = (live, mode)" by fastforce
  let ?s1 = "s\<lparr> sv_world := (sv_world s)\<lparr> w_drv := (live, mode(9 := m)) \<rparr> \<rparr>"
  have l: "library mode_keeper ''cublasSetPointerMode_v2'' [I64 9, I32 m] s = ((0, []), ?s1)"
    by (simp add: library_def mode_keeper_def w)
  have h: "ml_has mode_keeper ''cublasSetPointerMode_v2''" by (simp add: mode_keeper_def)
  note c = set_mode_served [OF h l, of no_driver "hs_client x" late]
  show "pointer_mode 9 (hs_client (set_once m x)) = (if snd (hs_server x) = CUDA_SUCCESS then m else pointer_mode 9 (hs_client x))"
    "hv_mode kept_view (hs_world (set_once m x)) 9 = m" "hs_mine (set_once m x) = hs_mine x"
    "hs_mode_behind (set_once m x) = (if snd (hs_server x) = CUDA_SUCCESS then hs_mode_behind x - {9} else insert 9 (hs_mode_behind x))"
    by (simp_all add: set_once_def x c pointer_mode_def kept_view_def level_def took_def l)
qed

theorem handle_mode_is_the_librarys_witness:
  "\<exists>x. (blas_step no_driver mode_keeper kept_view)\<^sup>*\<^sup>* (no_handles_yet (idle_sv, CUDA_SUCCESS)) x \<and> pointer_mode 9 (hs_client x) = 1
     \<and> hv_mode kept_view (hs_world x) 9 = 1"
proof -
  let ?step = "blas_step no_driver mode_keeper kept_view"
  let ?x = "set_once 1 made_nine"
  have run: "?step\<^sup>*\<^sup>* (no_handles_yet (idle_sv, CUDA_SUCCESS)) ?x"
    using rtranclp.rtrancl_into_rtrancl [where r = ?step, OF nine_made set_once_step [OF nine_mine]] .
  have "\<forall>name. ml_has mode_keeper name" by (simp add: mode_keeper_def)
  note t = handle_mode_is_the_librarys [OF run mode_keeper_laws this, of 9]
  have "9 \<in> hs_mine ?x" "9 \<notin> hs_mode_behind ?x" using nine_mine nine_level by (simp_all add: set_once_nine nine_quiet)
  then have "pointer_mode 9 (hs_client ?x) = hv_mode kept_view (hs_world ?x) 9" using t by blast
  then show ?thesis using run by (intro exI [of _ ?x]) (simp add: set_once_nine(2))
qed

text \<open>The client is left behind: the library has the mode, and the client the old one, where the reply
  carried an earlier failure; and a handle whose destroy is refused lives on with its mode erased.\<close>

lemma carried_failure_leaves_mode_behind:
  assumes "\<forall>name. ml_has lib name" and "handle_laws drv lib v" and "late \<noteq> CUDA_SUCCESS"
    and "library lib ''cublasSetPointerMode_v2'' [I64 h, I32 m] s = ((0, outs), s')"
  shows "cublasSetPointerMode_v2 (blas_link drv lib) h m (bl, (s, late)) = (CUBLAS_STATUS_EXECUTION_FAILED, (bl, (s', CUDA_SUCCESS)))
    \<and> hv_mode v (sv_world s') h = m"
  using set_mode_served [OF assms(1) [THEN spec] assms(4), of drv bl late] law_mode [OF assms(2) library_world [OF assms(4)]] assms(3)
  by (simp add: blas_told_def)

lemma refused_destroy_forgets_mode:
  assumes "ml_has lib ''cublasDestroy_v2''" and "library lib ''cublasDestroy_v2'' [I64 h] s = ((st, outs), s')" and "st \<noteq> 0"
  shows "cublasDestroy_v2 (blas_link drv lib) h (bl, (s, late)) = (blas_told st late, (forget_mode h (forget_stream h bl), (s', CUDA_SUCCESS)))
    \<and> pointer_mode h (forget_mode h (forget_stream h bl)) = CUBLAS_POINTER_MODE_HOST"
  using destroy_served [OF assms(1,2), of drv bl late] assms(3)
  by (simp add: cublasDestroy_v2_def forget_mode_def forget_stream_def pointer_mode_def)

text \<open>Uninterrupted, the three parts are the call the program makes.\<close>

lemma destroy_in_parts:
  assumes "cublasDestroy_v2 (blas_link drv lib) h (hs_client x, hs_server x) = (st, (bl, y))"
  shows "\<exists>z. (blas_step drv lib v)\<^sup>*\<^sup>* x z \<and> hs_client z = bl \<and> hs_server z = y"
proof -
  let ?step = "blas_step drv lib v"
  obtain bl1 where c: "blas_tell (blas_link drv lib) API_cublasDestroy [F64 h] (hs_client x, hs_server x) = (st, (bl1, y))"
    and bl: "bl = forget_mode h (forget_stream h bl1)"
    using assms by (auto simp: cublasDestroy_v2_def split: prod.splits)
  note one = blas_step.destroy [where v = v, OF c]
  note two = blas_step.erase_stream [where drv = drv and lib = lib and v = v and h = h and x = "x\<lparr> hs_client := bl1, hs_server := y,
      hs_mine := (if took lib ''cublasDestroy_v2'' [I64 h] x then hs_mine x - {h} else hs_mine x),
      hs_streams_unforgotten := h # hs_streams_unforgotten x \<rparr>"]
  obtain z1 where z1: "?step\<^sup>*\<^sup>* x z1" "hs_client z1 = forget_stream h bl1" "hs_server z1 = y" "h \<in> set (hs_modes_unforgotten z1)"
    using rtranclp.rtrancl_into_rtrancl [where r = ?step, OF r_into_rtranclp [where r = ?step, OF one] two] by simp
  from rtranclp.rtrancl_into_rtrancl [where r = ?step, OF z1(1) blas_step.erase_mode [OF z1(4)]]
  show ?thesis by (intro exI conjI, assumption) (simp_all add: bl z1(2,3))
qed

end
