(* ===== verification/CublasLt.thy ===== *)
theory CublasLt
  imports Cublas
begin

text \<open>
  cuBLASLt over the connection (\<^verbatim>\<open>client/cublaslt_impl.cpp\<close>, \<^verbatim>\<open>server/cublaslt_server.cpp\<close>).
  Descriptors, layouts and preferences are the server's own handles; attributes travel as their bytes.
  The client keeps the scale type and the pointer mode of each descriptor, since they decide how the
  scalars of a multiply travel. The sizes of the library's two opaque structures are parameters.
\<close>

section \<open>Ids\<close>

definition kCublasLtBase :: u32 where "kCublasLtBase = 0x51000000"

definition API_cublasLtCreate :: u32 where "API_cublasLtCreate = kCublasLtBase + 1"
definition API_cublasLtDestroy :: u32 where "API_cublasLtDestroy = kCublasLtBase + 2"
definition API_cublasLtGetVersion :: u32 where "API_cublasLtGetVersion = kCublasLtBase + 3"
definition API_cublasLtGetCudartVersion :: u32 where "API_cublasLtGetCudartVersion = kCublasLtBase + 4"
definition API_cublasLtGetProperty :: u32 where "API_cublasLtGetProperty = kCublasLtBase + 5"
definition API_cublasLtMatmulDescCreate :: u32 where "API_cublasLtMatmulDescCreate = kCublasLtBase + 10"
definition API_cublasLtMatmulDescDestroy :: u32 where "API_cublasLtMatmulDescDestroy = kCublasLtBase + 11"
definition API_cublasLtMatmulDescSetAttribute :: u32 where "API_cublasLtMatmulDescSetAttribute = kCublasLtBase + 12"
definition API_cublasLtMatmulDescGetAttribute :: u32 where "API_cublasLtMatmulDescGetAttribute = kCublasLtBase + 13"
definition API_cublasLtMatrixLayoutCreate :: u32 where "API_cublasLtMatrixLayoutCreate = kCublasLtBase + 20"
definition API_cublasLtMatrixLayoutDestroy :: u32 where "API_cublasLtMatrixLayoutDestroy = kCublasLtBase + 21"
definition API_cublasLtMatrixLayoutSetAttribute :: u32 where "API_cublasLtMatrixLayoutSetAttribute = kCublasLtBase + 22"
definition API_cublasLtMatrixLayoutGetAttribute :: u32 where "API_cublasLtMatrixLayoutGetAttribute = kCublasLtBase + 23"
definition API_cublasLtMatmulPreferenceCreate :: u32 where "API_cublasLtMatmulPreferenceCreate = kCublasLtBase + 30"
definition API_cublasLtMatmulPreferenceDestroy :: u32 where "API_cublasLtMatmulPreferenceDestroy = kCublasLtBase + 31"
definition API_cublasLtMatmulPreferenceSetAttribute :: u32 where "API_cublasLtMatmulPreferenceSetAttribute = kCublasLtBase + 32"
definition API_cublasLtMatmulPreferenceGetAttribute :: u32 where "API_cublasLtMatmulPreferenceGetAttribute = kCublasLtBase + 33"
definition API_cublasLtMatmulAlgoGetHeuristic :: u32 where "API_cublasLtMatmulAlgoGetHeuristic = kCublasLtBase + 40"
definition API_cublasLtMatmul :: u32 where "API_cublasLtMatmul = kCublasLtBase + 41"

lemmas cublaslt_ids = kCublasLtBase_def 
  API_cublasLtCreate_def API_cublasLtDestroy_def API_cublasLtGetVersion_def API_cublasLtGetCudartVersion_def 
  API_cublasLtGetProperty_def API_cublasLtMatmulDescCreate_def API_cublasLtMatmulDescDestroy_def API_cublasLtMatmulDescSetAttribute_def 
  API_cublasLtMatmulDescGetAttribute_def API_cublasLtMatrixLayoutCreate_def API_cublasLtMatrixLayoutDestroy_def API_cublasLtMatrixLayoutSetAttribute_def 
  API_cublasLtMatrixLayoutGetAttribute_def API_cublasLtMatmulPreferenceCreate_def API_cublasLtMatmulPreferenceDestroy_def API_cublasLtMatmulPreferenceSetAttribute_def 
  API_cublasLtMatmulPreferenceGetAttribute_def API_cublasLtMatmulAlgoGetHeuristic_def API_cublasLtMatmul_def

text \<open>Numbers of the library's header: the two attributes of a descriptor the client notes, and the
  pointer mode in which scalars are on the host.\<close>

definition CUBLASLT_MATMUL_DESC_SCALE_TYPE :: u32 where "CUBLASLT_MATMUL_DESC_SCALE_TYPE = 1"
definition CUBLASLT_MATMUL_DESC_POINTER_MODE :: u32 where "CUBLASLT_MATMUL_DESC_POINTER_MODE = 2"
definition CUBLASLT_POINTER_MODE_HOST :: u32 where "CUBLASLT_POINTER_MODE_HOST = 0"

section \<open>The client\<close>

record desc_state =
  ds_scale :: u32
  ds_device :: bool

text \<open>\<open>CUDA_R_32F\<close> is 0.\<close>

definition new_desc :: desc_state where
  "new_desc = \<lparr> ds_scale = 0, ds_device = False \<rparr>"

record lt =
  lt_descs :: "u64 \<rightharpoonup> desc_state"
  lt_pending :: pending

definition new_lt :: lt where
  "new_lt = \<lparr> lt_descs = Map.empty, lt_pending = nothing_pending \<rparr>"

type_synonym ('c, 'r) lt_call = "lt \<times> 'c \<Rightarrow> 'r \<times> lt \<times> 'c"

definition desc_of :: "u64 \<Rightarrow> lt \<Rightarrow> desc_state" where
  "desc_of d lt = (case lt_descs lt d of None \<Rightarrow> new_desc | Some ds \<Rightarrow> ds)"

text \<open>The data types by their numbers: 64-bit real 1 and complex 5; 32-bit real 0, 10, 12 and complex 4,
  11, 13; 16-bit real 2, 14 and complex 6, 15; 8-bit real 3, 8 and complex 7, 9.\<close>

definition scalar_size :: "u32 \<Rightarrow> nat" where
  "scalar_size t = (if t = 1 then 8 else if t = 5 then 16 else if t \<in> {0, 10, 12} then 4 else if t \<in> {4, 11, 13} then 8
     else if t \<in> {2, 14} then 2 else if t \<in> {6, 15} then 4 else if t \<in> {3, 8} then 1 else if t \<in> {7, 9} then 2 else 4)"

definition lt_send :: "'c sender \<Rightarrow> u32 \<Rightarrow> field list \<Rightarrow> ('c, u32 \<times> buffer) lt_call" where
  "lt_send send api fs st = (case st of (lt, c) \<Rightarrow>
     (case lib_send CUBLAS_STATUS_EXECUTION_FAILED CUBLAS_STATUS_INTERNAL_ERROR send api (request fs) c of (res, c1) \<Rightarrow> (res, (lt, c1))))"

definition lt_tell :: "'c sender \<Rightarrow> u32 \<Rightarrow> field list \<Rightarrow> ('c, u32) lt_call" where
  "lt_tell send api fs st = (case lt_send send api fs st of ((status, _), st1) \<Rightarrow> (status, st1))"

text \<open>\<open>recv_handle\<close>, and the other calls that give one value.\<close>

definition lt_ask :: "'c sender \<Rightarrow> u32 \<Rightarrow> field list \<Rightarrow> (buffer \<Rightarrow> 'v option \<times> buffer) \<Rightarrow> ('c, u32 \<times> 'v option) lt_call" where
  "lt_ask send api fs get st = (case lt_send send api fs st of (res, st1) \<Rightarrow> (lib_value CUBLAS_STATUS_INTERNAL_ERROR get res, st1))"

definition lt_create :: "u64 \<Rightarrow> ('c, u32 \<times> 'v option) lt_call \<Rightarrow> ('c, u32 \<times> 'v option) lt_call" where
  "lt_create out k st = (if out = 0 then ((CUBLAS_STATUS_INVALID_VALUE, None), st) else k st)"

definition set_attribute :: "'c sender \<Rightarrow> u32 \<Rightarrow> u64 \<Rightarrow> u32 \<Rightarrow> byte list option \<Rightarrow> ('c, u32) lt_call" where
  "set_attribute send api obj attr buf = lt_tell send api
     ([F64 obj, F32 attr, flag_field (buf \<noteq> None)] @ (case buf of None \<Rightarrow> [] | Some bs \<Rightarrow> [Sized bs]))"

text \<open>The status, and with success the bytes copied to the caller's buffer, where it has one, and the
  number written.\<close>

definition get_attribute :: "'c sender \<Rightarrow> u32 \<Rightarrow> u64 \<Rightarrow> u32 \<Rightarrow> bool \<Rightarrow> u64 \<Rightarrow> ('c, u32 \<times> (byte list option \<times> u64) option) lt_call" where
  "get_attribute send api obj attr buf n st = (case lt_ask send api [F64 obj, F32 attr, F64 n] get_sized st of
     ((status, None), st1) \<Rightarrow> ((status, None), st1)
   | ((status, Some bs), st1) \<Rightarrow>
       ((status, Some (if buf then Some (take (unat n) bs) else None, of_nat (length bs))), st1))"

definition cublasLtCreate :: "'c sender \<Rightarrow> u64 \<Rightarrow> ('c, u32 \<times> u64 option) lt_call" where
  "cublasLtCreate send out = lt_create out (lt_ask send API_cublasLtCreate [] (buf_get 8))"

definition cublasLtDestroy :: "'c sender \<Rightarrow> u64 \<Rightarrow> ('c, u32) lt_call" where
  "cublasLtDestroy send h = lt_tell send API_cublasLtDestroy [F64 h]"

text \<open>A version, or 0 where it cannot be had.\<close>

definition lt_version :: "'c sender \<Rightarrow> u32 \<Rightarrow> ('c, u64) lt_call" where
  "lt_version send api st = (case lt_ask send api [] (buf_get 8) st of
     ((status, v), st1) \<Rightarrow> ((case v of None \<Rightarrow> 0 | Some n \<Rightarrow> n), st1))"

definition cublasLtGetVersion :: "'c sender \<Rightarrow> ('c, u64) lt_call" where
  "cublasLtGetVersion send = lt_version send API_cublasLtGetVersion"

definition cublasLtGetCudartVersion :: "'c sender \<Rightarrow> ('c, u64) lt_call" where
  "cublasLtGetCudartVersion send = lt_version send API_cublasLtGetCudartVersion"

definition cublasLtGetProperty :: "'c sender \<Rightarrow> u32 \<Rightarrow> u64 \<Rightarrow> ('c, u32 \<times> u32 option) lt_call" where
  "cublasLtGetProperty send ty out = lt_create out (lt_ask send API_cublasLtGetProperty [F32 ty] (buf_get 4))"

section \<open>Descriptors, layouts and preferences\<close>

definition note_desc :: "u64 \<Rightarrow> desc_state \<Rightarrow> lt \<Rightarrow> lt" where
  "note_desc d ds lt = lt\<lparr> lt_descs := (lt_descs lt)(d \<mapsto> ds) \<rparr>"

definition cublasLtMatmulDescCreate :: "'c sender \<Rightarrow> u64 \<Rightarrow> u32 \<Rightarrow> u32 \<Rightarrow> ('c, u32 \<times> u64 option) lt_call" where
  "cublasLtMatmulDescCreate send out compute_type scale_type = lt_create out (\<lambda>st.
     (case lt_ask send API_cublasLtMatmulDescCreate [F32 compute_type, F32 scale_type] (buf_get 8) st of
        ((status, Some d), (lt, c)) \<Rightarrow> ((status, Some d), (note_desc d \<lparr> ds_scale = scale_type, ds_device = False \<rparr> lt, c))
      | res \<Rightarrow> res))"

text \<open>What is known of a descriptor is erased after the call, whatever its status.\<close>

definition forget_desc :: "u64 \<Rightarrow> lt \<Rightarrow> lt" where
  "forget_desc d lt = lt\<lparr> lt_descs := (lt_descs lt)(d := None) \<rparr>"

definition cublasLtMatmulDescDestroy :: "'c sender \<Rightarrow> u64 \<Rightarrow> ('c, u32) lt_call" where
  "cublasLtMatmulDescDestroy send d st = (case lt_tell send API_cublasLtMatmulDescDestroy [F64 d] st of
     (status, (lt, c)) \<Rightarrow> (status, (forget_desc d lt, c)))"

text \<open>What is noted of an attribute on its way past; any attribute leaves the descriptor an entry.\<close>

definition noted_attribute :: "u32 \<Rightarrow> byte list \<Rightarrow> desc_state \<Rightarrow> desc_state" where
  "noted_attribute attr bs ds =
     (if attr = CUBLASLT_MATMUL_DESC_POINTER_MODE \<and> length bs \<ge> 4
      then ds\<lparr> ds_device := (le_dec (take 4 bs) :: u32) \<noteq> CUBLASLT_POINTER_MODE_HOST \<rparr>
      else if attr = CUBLASLT_MATMUL_DESC_SCALE_TYPE \<and> length bs \<ge> 4 then ds\<lparr> ds_scale := le_dec (take 4 bs) \<rparr>
      else ds)"

definition cublasLtMatmulDescSetAttribute :: "'c sender \<Rightarrow> u64 \<Rightarrow> u32 \<Rightarrow> byte list option \<Rightarrow> ('c, u32) lt_call" where
  "cublasLtMatmulDescSetAttribute send d attr buf st = (case st of (lt, c) \<Rightarrow>
     set_attribute send API_cublasLtMatmulDescSetAttribute d attr buf
       ((case buf of None \<Rightarrow> lt | Some bs \<Rightarrow> note_desc d (noted_attribute attr bs (desc_of d lt)) lt), c))"

definition cublasLtMatmulDescGetAttribute :: "'c sender \<Rightarrow> u64 \<Rightarrow> u32 \<Rightarrow> bool \<Rightarrow> u64
    \<Rightarrow> ('c, u32 \<times> (byte list option \<times> u64) option) lt_call" where
  "cublasLtMatmulDescGetAttribute send = get_attribute send API_cublasLtMatmulDescGetAttribute"

definition cublasLtMatrixLayoutCreate :: "'c sender \<Rightarrow> u64 \<Rightarrow> u32 \<Rightarrow> u64 \<Rightarrow> u64 \<Rightarrow> u64 \<Rightarrow> ('c, u32 \<times> u64 option) lt_call" where
  "cublasLtMatrixLayoutCreate send out ty rows cols ld =
     lt_create out (lt_ask send API_cublasLtMatrixLayoutCreate [F32 ty, F64 rows, F64 cols, F64 ld] (buf_get 8))"

definition cublasLtMatrixLayoutDestroy :: "'c sender \<Rightarrow> u64 \<Rightarrow> ('c, u32) lt_call" where
  "cublasLtMatrixLayoutDestroy send l = lt_tell send API_cublasLtMatrixLayoutDestroy [F64 l]"

definition cublasLtMatrixLayoutSetAttribute :: "'c sender \<Rightarrow> u64 \<Rightarrow> u32 \<Rightarrow> byte list option \<Rightarrow> ('c, u32) lt_call" where
  "cublasLtMatrixLayoutSetAttribute send = set_attribute send API_cublasLtMatrixLayoutSetAttribute"

definition cublasLtMatrixLayoutGetAttribute :: "'c sender \<Rightarrow> u64 \<Rightarrow> u32 \<Rightarrow> bool \<Rightarrow> u64
    \<Rightarrow> ('c, u32 \<times> (byte list option \<times> u64) option) lt_call" where
  "cublasLtMatrixLayoutGetAttribute send = get_attribute send API_cublasLtMatrixLayoutGetAttribute"

definition cublasLtMatmulPreferenceCreate :: "'c sender \<Rightarrow> u64 \<Rightarrow> ('c, u32 \<times> u64 option) lt_call" where
  "cublasLtMatmulPreferenceCreate send out = lt_create out (lt_ask send API_cublasLtMatmulPreferenceCreate [] (buf_get 8))"

definition cublasLtMatmulPreferenceDestroy :: "'c sender \<Rightarrow> u64 \<Rightarrow> ('c, u32) lt_call" where
  "cublasLtMatmulPreferenceDestroy send p = lt_tell send API_cublasLtMatmulPreferenceDestroy [F64 p]"

definition cublasLtMatmulPreferenceSetAttribute :: "'c sender \<Rightarrow> u64 \<Rightarrow> u32 \<Rightarrow> byte list option \<Rightarrow> ('c, u32) lt_call" where
  "cublasLtMatmulPreferenceSetAttribute send = set_attribute send API_cublasLtMatmulPreferenceSetAttribute"

definition cublasLtMatmulPreferenceGetAttribute :: "'c sender \<Rightarrow> u64 \<Rightarrow> u32 \<Rightarrow> bool \<Rightarrow> u64
    \<Rightarrow> ('c, u32 \<times> (byte list option \<times> u64) option) lt_call" where
  "cublasLtMatmulPreferenceGetAttribute send = get_attribute send API_cublasLtMatmulPreferenceGetAttribute"

section \<open>Heuristics and multiplies\<close>

text \<open>What follows a successful status: the number of results and their bytes, of \<open>hsize\<close> each. \<open>there\<close>:
  the caller gave both of its pointers.\<close>

definition read_heuristics :: "nat \<Rightarrow> u32 \<Rightarrow> buffer \<Rightarrow> (u32 \<times> byte list) option \<times> buffer" where
  "read_heuristics hsize want b = (case buf_get 4 b of
       (None, b1) \<Rightarrow> (None, b1)
     | (Some n, b1) \<Rightarrow> (if sint (n :: u32) < 0 \<or> sint n > sint want then (None, b1)
         else case get_sized b1 of
             (None, b2) \<Rightarrow> (None, b2)
           | (Some bs, b2) \<Rightarrow> (if length bs \<noteq> unat n * hsize then (None, b2) else (Some (n, bs), b2))))"

definition cublasLtMatmulAlgoGetHeuristic :: "nat \<Rightarrow> 'c sender \<Rightarrow> u64 \<Rightarrow> u64 \<Rightarrow> u64 \<Rightarrow> u64 \<Rightarrow> u64 \<Rightarrow> u64 \<Rightarrow> u64 \<Rightarrow> u32 \<Rightarrow> bool
    \<Rightarrow> ('c, u32 \<times> (u32 \<times> byte list) option) lt_call" where
  "cublasLtMatmulAlgoGetHeuristic hsize send h op a b c d pref want there st =
     (if \<not> there \<or> sint want \<le> 0 then ((CUBLAS_STATUS_INVALID_VALUE, None), st)
      else lt_ask send API_cublasLtMatmulAlgoGetHeuristic [F64 h, F64 op, F64 a, F64 b, F64 c, F64 d, F64 pref, F32 want]
        (read_heuristics hsize want) st)"

definition lt_scalar :: "host_mem \<Rightarrow> desc_state \<Rightarrow> u64 \<Rightarrow> field list" where
  "lt_scalar mem ds p = flag_field (p \<noteq> 0) #
     (if p = 0 then [] else if ds_device ds then [F64 p] else [Raw (mem p (scalar_size (ds_scale ds)))])"

definition cublasLtMatmul :: "host_mem \<Rightarrow> 'c sender \<Rightarrow> u64 \<Rightarrow> u64 \<Rightarrow> u64 \<Rightarrow> u64 \<Rightarrow> u64 \<Rightarrow> u64 \<Rightarrow> u64 \<Rightarrow> u64 \<Rightarrow> u64 \<Rightarrow> u64 \<Rightarrow> u64 \<Rightarrow> u64
    \<Rightarrow> byte list option \<Rightarrow> u64 \<Rightarrow> u64 \<Rightarrow> u64 \<Rightarrow> ('c, u32) lt_call" where
  "cublasLtMatmul mem send h desc alpha a a_desc b b_desc beta c c_desc d d_desc algo workspace workspace_size stream st =
     (case st of (lt, cn) \<Rightarrow>
       (let ds = desc_of desc lt in
        lt_tell send API_cublasLtMatmul
          ([F64 h, F64 desc, flag_field (\<not> ds_device ds), F64 (of_nat (scalar_size (ds_scale ds)))]
           @ lt_scalar mem ds alpha @ lt_scalar mem ds beta
           @ [F64 a, F64 a_desc, F64 b, F64 b_desc, F64 c, F64 c_desc, F64 d, F64 d_desc, flag_field (algo \<noteq> None)]
           @ (case algo of None \<Rightarrow> [] | Some bs \<Rightarrow> [Raw bs]) @ [F64 workspace, F64 workspace_size, F64 stream])
          (lt\<lparr> lt_pending := work_on stream (lt_pending lt) \<rparr>, cn)))"

section \<open>The server\<close>

definition handle_set_attribute :: "'d maths \<Rightarrow> string \<Rightarrow> 'd handler" where
  "handle_set_attribute lib name = on_handle lib name (\<lambda>obj. int32 (\<lambda>attr. arg8 blas_bad (\<lambda>present.
     if present \<noteq> 0 then lib_take blas_bad get_sized (\<lambda>bs. lib_run lib name [I64 obj, I32 attr, Bytes (Some bs)] lib_status_only)
     else lib_run lib name [I64 obj, I32 attr, Bytes None] lib_status_only)))"

definition handle_get_attribute :: "'d maths \<Rightarrow> string \<Rightarrow> 'd handler" where
  "handle_get_attribute lib name = on_handle lib name (\<lambda>obj. int32 (\<lambda>attr. int64 (\<lambda>n.
     if n > 2 ^ 20 then blas_bad
     else lib_run lib name [I64 obj, I32 attr, I64 n] (lib_status_and 0 (\<lambda>outs.
       put_sized (take (unat (wrote_long 1 outs)) (filled (unat n) 0 outs)))))))"

definition handle_cublasLtCreate :: "'d driver \<Rightarrow> 'd maths \<Rightarrow> 'd handler" where
  "handle_cublasLtCreate drv lib = lib_need lib ''cublasLtCreate'' (answer_status CUBLAS_STATUS_NOT_INITIALIZED)
     (lib_create drv lib ''cublasLtCreate'' ''cuBLASLt'' 2)"

definition handle_cublasLtDestroy :: "'d maths \<Rightarrow> 'd handler" where
  "handle_cublasLtDestroy lib = on_handle lib ''cublasLtDestroy'' (lib_destroy lib ''cublasLtDestroy'')"

text \<open>A function that only returns a number.\<close>

definition handle_version :: "'d maths \<Rightarrow> string \<Rightarrow> 'd handler" where
  "handle_version lib name = lib_need lib name (answer_status CUBLAS_STATUS_NOT_INITIALIZED)
     (lib_run lib name [] (\<lambda>st. lib_status_and 0 put_long 0))"

definition handle_cublasLtGetVersion :: "'d maths \<Rightarrow> 'd handler" where
  "handle_cublasLtGetVersion lib = handle_version lib ''cublasLtGetVersion''"

definition handle_cublasLtGetCudartVersion :: "'d maths \<Rightarrow> 'd handler" where
  "handle_cublasLtGetCudartVersion lib = handle_version lib ''cublasLtGetCudartVersion''"

definition handle_cublasLtGetProperty :: "'d maths \<Rightarrow> 'd handler" where
  "handle_cublasLtGetProperty lib = lib_need lib ''cublasLtGetProperty'' blas_bad (int32 (\<lambda>ty.
     lib_run lib ''cublasLtGetProperty'' [I32 ty] (lib_status_and 0 put_int)))"

definition handle_cublasLtMatmulDescCreate :: "'d maths \<Rightarrow> 'd handler" where
  "handle_cublasLtMatmulDescCreate lib = lib_need lib ''cublasLtMatmulDescCreate'' blas_bad (int32 (\<lambda>ct. int32 (\<lambda>sc.
     lib_run lib ''cublasLtMatmulDescCreate'' [I32 ct, I32 sc] (lib_status_and 0 put_long))))"

definition handle_cublasLtMatmulDescDestroy :: "'d maths \<Rightarrow> 'd handler" where
  "handle_cublasLtMatmulDescDestroy lib = on_handle lib ''cublasLtMatmulDescDestroy'' (\<lambda>d.
     lib_run lib ''cublasLtMatmulDescDestroy'' [I64 d] lib_status_only)"

definition handle_cublasLtMatrixLayoutCreate :: "'d maths \<Rightarrow> 'd handler" where
  "handle_cublasLtMatrixLayoutCreate lib = lib_need lib ''cublasLtMatrixLayoutCreate'' blas_bad
     (int32 (\<lambda>ty. int64 (\<lambda>rows. int64 (\<lambda>cols. int64 (\<lambda>ld.
       lib_run lib ''cublasLtMatrixLayoutCreate'' [I32 ty, I64 rows, I64 cols, I64 ld] (lib_status_and 0 put_long))))))"

definition handle_cublasLtMatrixLayoutDestroy :: "'d maths \<Rightarrow> 'd handler" where
  "handle_cublasLtMatrixLayoutDestroy lib = on_handle lib ''cublasLtMatrixLayoutDestroy'' (\<lambda>l.
     lib_run lib ''cublasLtMatrixLayoutDestroy'' [I64 l] lib_status_only)"

definition handle_cublasLtMatmulPreferenceCreate :: "'d maths \<Rightarrow> 'd handler" where
  "handle_cublasLtMatmulPreferenceCreate lib = lib_need lib ''cublasLtMatmulPreferenceCreate''
     (answer_status CUBLAS_STATUS_NOT_INITIALIZED)
     (lib_run lib ''cublasLtMatmulPreferenceCreate'' [] (lib_status_and 0 put_long))"

definition handle_cublasLtMatmulPreferenceDestroy :: "'d maths \<Rightarrow> 'd handler" where
  "handle_cublasLtMatmulPreferenceDestroy lib = on_handle lib ''cublasLtMatmulPreferenceDestroy'' (\<lambda>p.
     lib_run lib ''cublasLtMatmulPreferenceDestroy'' [I64 p] lib_status_only)"

text \<open>The results the library gave, no fewer than none and no more than were asked for.\<close>

definition clamp_count :: "u32 \<Rightarrow> u32 \<Rightarrow> u32" where
  "clamp_count want got = (if sint got < 0 then 0 else if sint got > sint want then want else got)"

definition handle_cublasLtMatmulAlgoGetHeuristic :: "nat \<Rightarrow> 'd maths \<Rightarrow> 'd handler" where
  "handle_cublasLtMatmulAlgoGetHeuristic hsize lib =
     int64 (\<lambda>h. int64 (\<lambda>op. int64 (\<lambda>a. int64 (\<lambda>b. int64 (\<lambda>c. int64 (\<lambda>d. int64 (\<lambda>pref.
     lib_need lib ''cublasLtMatmulAlgoGetHeuristic'' blas_bad (int32 (\<lambda>want.
       if sint want \<le> 0 \<or> sint want > 256 then blas_bad
       else lib_run lib ''cublasLtMatmulAlgoGetHeuristic'' [I64 h, I64 op, I64 a, I64 b, I64 c, I64 d, I64 pref, I32 want]
         (lib_status_and 0 (\<lambda>outs rsp. let got = clamp_count want (wrote_int 1 outs) in
            put_sized (take (unat got * hsize) (filled (unat want * hsize) 0 outs)) (buf_put 4 got rsp))))))))))))"

definition read_lt_scalar :: "byte \<Rightarrow> u64 \<Rightarrow> buffer \<Rightarrow> scalar option \<times> buffer" where
  "read_lt_scalar host ss b = (case buf_get 1 b of
       (None, b1) \<Rightarrow> (None, b1)
     | (Some present, b1) \<Rightarrow>
         (if (present :: byte) = 0 then (Some No_scalar, b1)
          else if host \<noteq> 0 then (case get_bytes (unat ss) b1 of
              (None, b2) \<Rightarrow> (None, b2) | (Some bs, b2) \<Rightarrow> (Some (Value bs), b2))
          else (case buf_get 8 b1 of
              (None, b2) \<Rightarrow> (None, b2) | (Some p, b2) \<Rightarrow> (Some (Device_at p), b2))))"

text \<open>A flag and, if it is set, the \<open>asize\<close> bytes of the algorithm.\<close>

definition read_algo :: "nat \<Rightarrow> buffer \<Rightarrow> byte list option option \<times> buffer" where
  "read_algo asize b = (case buf_get 1 b of
       (None, b1) \<Rightarrow> (None, b1)
     | (Some has, b1) \<Rightarrow> (if (has :: byte) = 0 then (Some None, b1)
         else (case get_bytes asize b1 of (None, b2) \<Rightarrow> (None, b2) | (Some bs, b2) \<Rightarrow> (Some (Some bs), b2))))"

definition handle_cublasLtMatmul :: "nat \<Rightarrow> 'd maths \<Rightarrow> 'd handler" where
  "handle_cublasLtMatmul asize lib = int64 (\<lambda>h. int64 (\<lambda>desc. lib_need lib ''cublasLtMatmul'' blas_bad
     (arg8 blas_bad (\<lambda>host. int64 (\<lambda>ss. if ss > 64 then blas_bad else
      lib_take blas_bad (read_lt_scalar host ss) (\<lambda>alpha. lib_take blas_bad (read_lt_scalar host ss) (\<lambda>beta.
      int64 (\<lambda>a. int64 (\<lambda>ad. int64 (\<lambda>b. int64 (\<lambda>bd. int64 (\<lambda>c. int64 (\<lambda>cd. int64 (\<lambda>d. int64 (\<lambda>dd.
      lib_take blas_bad (read_algo asize) (\<lambda>algo. int64 (\<lambda>ws. int64 (\<lambda>wsize. int64 (\<lambda>stream.
      lib_run lib ''cublasLtMatmul'' [I64 h, I64 desc, Scalar alpha, I64 a, I64 ad, I64 b, I64 bd, Scalar beta, I64 c, I64 cd,
        I64 d, I64 dd, Bytes algo, I64 ws, I64 wsize, I64 stream] lib_status_only)))))))))))))))))))"

definition cublaslt_cases :: "nat \<Rightarrow> nat \<Rightarrow> 'd driver \<Rightarrow> 'd maths \<Rightarrow> (u32 \<times> 'd handler) list" where
  "cublaslt_cases hsize asize drv lib =
     [(API_cublasLtCreate, handle_cublasLtCreate drv lib), (API_cublasLtDestroy, handle_cublasLtDestroy lib),
      (API_cublasLtGetVersion, handle_cublasLtGetVersion lib), (API_cublasLtGetCudartVersion, handle_cublasLtGetCudartVersion lib),
      (API_cublasLtGetProperty, handle_cublasLtGetProperty lib),
      (API_cublasLtMatmulDescCreate, handle_cublasLtMatmulDescCreate lib),
      (API_cublasLtMatmulDescDestroy, handle_cublasLtMatmulDescDestroy lib),
      (API_cublasLtMatrixLayoutCreate, handle_cublasLtMatrixLayoutCreate lib),
      (API_cublasLtMatrixLayoutDestroy, handle_cublasLtMatrixLayoutDestroy lib),
      (API_cublasLtMatmulPreferenceCreate, handle_cublasLtMatmulPreferenceCreate lib),
      (API_cublasLtMatmulPreferenceDestroy, handle_cublasLtMatmulPreferenceDestroy lib),
      (API_cublasLtMatmulDescSetAttribute, handle_set_attribute lib ''cublasLtMatmulDescSetAttribute''),
      (API_cublasLtMatrixLayoutSetAttribute, handle_set_attribute lib ''cublasLtMatrixLayoutSetAttribute''),
      (API_cublasLtMatmulPreferenceSetAttribute, handle_set_attribute lib ''cublasLtMatmulPreferenceSetAttribute''),
      (API_cublasLtMatmulDescGetAttribute, handle_get_attribute lib ''cublasLtMatmulDescGetAttribute''),
      (API_cublasLtMatrixLayoutGetAttribute, handle_get_attribute lib ''cublasLtMatrixLayoutGetAttribute''),
      (API_cublasLtMatmulPreferenceGetAttribute, handle_get_attribute lib ''cublasLtMatmulPreferenceGetAttribute''),
      (API_cublasLtMatmulAlgoGetHeuristic, handle_cublasLtMatmulAlgoGetHeuristic hsize lib),
      (API_cublasLtMatmul, handle_cublasLtMatmul asize lib)]"

definition dispatch_cublaslt :: "nat \<Rightarrow> nat \<Rightarrow> 'd driver \<Rightarrow> 'd maths \<Rightarrow> 'd dispatcher" where
  "dispatch_cublaslt hsize asize drv lib api req rsp s =
     (if api < kCublasLtBase \<or> api > kCublasLtBase + 1000 then None
      else Some (Answered (case map_of (cublaslt_cases hsize asize drv lib) api of
          Some h \<Rightarrow> h req rsp s
        | None \<Rightarrow> answer_status CUBLAS_STATUS_NOT_SUPPORTED req rsp s)))"

end
