(* ===== verification/CublasLtLaws.thy ===== *)
theory CublasLtLaws
  imports CublasLt CublasLaws
begin

text \<open>
  What the forwarding of cuBLASLt promises: a multiply is the library's own, with the scalars of the
  width and the place the descriptor says; attributes, heuristics and algorithms travel as their bytes;
  and what the client keeps of a descriptor is what the library has for it.
\<close>

section \<open>A call and its handler\<close>

abbreviation "lt_link hsize asize drv lib \<equiv> lib_late (dispatch_cublaslt hsize asize drv lib)"

definition lt_handler :: "nat \<Rightarrow> nat \<Rightarrow> 'd driver \<Rightarrow> 'd maths \<Rightarrow> u32 \<Rightarrow> 'd handler" where
  "lt_handler hsize asize drv lib api = the (map_of (cublaslt_cases hsize asize drv lib) api)"

lemma lt_handlers [simp]:
  "lt_handler hsize asize drv lib API_cublasLtMatmulDescCreate = handle_cublasLtMatmulDescCreate lib"
  "lt_handler hsize asize drv lib API_cublasLtMatmulDescDestroy = handle_cublasLtMatmulDescDestroy lib"
  "lt_handler hsize asize drv lib API_cublasLtMatmulDescSetAttribute = handle_set_attribute lib ''cublasLtMatmulDescSetAttribute''"
  "lt_handler hsize asize drv lib API_cublasLtMatrixLayoutSetAttribute = handle_set_attribute lib ''cublasLtMatrixLayoutSetAttribute''"
  "lt_handler hsize asize drv lib API_cublasLtMatmulPreferenceSetAttribute = handle_set_attribute lib ''cublasLtMatmulPreferenceSetAttribute''"
  "lt_handler hsize asize drv lib API_cublasLtMatmulDescGetAttribute = handle_get_attribute lib ''cublasLtMatmulDescGetAttribute''"
  "lt_handler hsize asize drv lib API_cublasLtMatrixLayoutGetAttribute = handle_get_attribute lib ''cublasLtMatrixLayoutGetAttribute''"
  "lt_handler hsize asize drv lib API_cublasLtMatmulPreferenceGetAttribute = handle_get_attribute lib ''cublasLtMatmulPreferenceGetAttribute''"
  "lt_handler hsize asize drv lib API_cublasLtMatmulAlgoGetHeuristic = handle_cublasLtMatmulAlgoGetHeuristic hsize lib"
  "lt_handler hsize asize drv lib API_cublasLtMatmul = handle_cublasLtMatmul asize lib"
  by (simp_all add: lt_handler_def cublaslt_cases_def cublaslt_ids)

definition lt_ids :: "u32 list" where
  "lt_ids = [API_cublasLtMatmulDescCreate, API_cublasLtMatmulDescDestroy, API_cublasLtMatmulDescSetAttribute,
     API_cublasLtMatrixLayoutSetAttribute, API_cublasLtMatmulPreferenceSetAttribute, API_cublasLtMatmulDescGetAttribute,
     API_cublasLtMatrixLayoutGetAttribute, API_cublasLtMatmulPreferenceGetAttribute, API_cublasLtMatmulAlgoGetHeuristic,
     API_cublasLtMatmul]"

lemma lt_ids_known [simp]:
  "API_cublasLtMatmulDescCreate \<in> set lt_ids" "API_cublasLtMatmulDescDestroy \<in> set lt_ids"
  "API_cublasLtMatmulDescSetAttribute \<in> set lt_ids" "API_cublasLtMatrixLayoutSetAttribute \<in> set lt_ids"
  "API_cublasLtMatmulPreferenceSetAttribute \<in> set lt_ids" "API_cublasLtMatmulDescGetAttribute \<in> set lt_ids"
  "API_cublasLtMatrixLayoutGetAttribute \<in> set lt_ids" "API_cublasLtMatmulPreferenceGetAttribute \<in> set lt_ids"
  "API_cublasLtMatmulAlgoGetHeuristic \<in> set lt_ids" "API_cublasLtMatmul \<in> set lt_ids"
  by (simp_all add: lt_ids_def)

lemma lt_dispatched:
  assumes "api \<in> set lt_ids"
  shows "dispatch_cublaslt hsize asize drv lib api req rsp s = Some (Answered (lt_handler hsize asize drv lib api req rsp s))"
proof -
  have "\<not> (api < kCublasLtBase \<or> api > kCublasLtBase + 1000)" using assms by (auto simp: lt_ids_def cublaslt_ids)
  moreover have "map_of (cublaslt_cases hsize asize drv lib) api = Some (lt_handler hsize asize drv lib api)"
    using assms by (auto simp: lt_ids_def lt_handler_def cublaslt_cases_def cublaslt_ids)
  ultimately show ?thesis by (simp add: dispatch_cublaslt_def)
qed

lemma lt_tell_answered:
  assumes "api \<in> set lt_ids"
    and "answered_with (lt_handler hsize asize drv lib api (reading [] (enc_fields fs)) empty_buffer s) st extra s'"
  shows "lt_tell (lt_link hsize asize drv lib) api fs (lt, (s, late)) = (blas_told st late, (lt, (s', CUDA_SUCCESS)))"
  using lib_send_late [where disp = "dispatch_cublaslt hsize asize drv lib", OF lt_dispatched [OF assms(1)] assms(2)]
  by (simp add: lt_tell_def lt_send_def blas_told_def)

lemma lt_ask_answered:
  assumes "api \<in> set lt_ids"
    and "answered_with (lt_handler hsize asize drv lib api (reading [] (enc_fields fs)) empty_buffer s) st extra s'"
  shows "lt_ask (lt_link hsize asize drv lib) api fs get (lt, (s, late))
    = (lib_value CUBLAS_STATUS_INTERNAL_ERROR get (blas_told st late, reading (le_enc 4 st) extra), (lt, (s', CUDA_SUCCESS)))"
  using lib_send_late [where disp = "dispatch_cublaslt hsize asize drv lib", OF lt_dispatched [OF assms(1)] assms(2)]
  by (auto simp: lt_ask_def lt_send_def blas_told_def lib_value_def CUBLAS_STATUS_EXECUTION_FAILED_def)

lemma answered_status_and:
  "library lib name as s = ((st, outs), s') \<Longrightarrow> bdata (put outs (put_status st empty_buffer)) = le_enc 4 st @ extra \<Longrightarrow>
   answered_with (lib_run lib name as (lib_status_and 0 put) (reading pre r) empty_buffer s) st (if st = 0 then extra else []) s'"
  by (auto simp: library_def lib_run_def lib_status_and_def answered_with_def put_status_def buf_put_def
      empty_buffer_def split: prod.splits)

section \<open>Multiplies\<close>

text \<open>The scalar the library gets, as the descriptor has it.\<close>

definition lt_scalar_sent :: "host_mem \<Rightarrow> desc_state \<Rightarrow> u64 \<Rightarrow> scalar" where
  "lt_scalar_sent mem ds p = (if p = 0 then No_scalar else if ds_device ds then Device_at p
     else Value (mem p (scalar_size (ds_scale ds))))"

lemma scalar_size_small: "scalar_size t \<le> 16"
  by (simp add: scalar_size_def)

lemma scalar_size_long [simp]: "unat (of_nat (scalar_size t) :: u64) = scalar_size t"
  using scalar_size_small [of t] by (simp add: unat_of_nat take_bit_nat_eq_self)

lemma scalar_size_bound [simp]: "\<not> (64 :: u64) < of_nat (scalar_size t)"
  using scalar_size_small [of t] by (simp add: word_less_nat_alt)

lemma reading_lt_scalar [simp]:
  assumes "length (mem p (scalar_size (ds_scale ds))) = scalar_size (ds_scale ds)"
    and "host = (if ds_device ds then 0 else 1)"
  shows "lib_take bad (read_lt_scalar host (of_nat (scalar_size (ds_scale ds)))) k
      (reading pre (enc_fields (lt_scalar mem ds p) @ r)) rsp s
    = k (lt_scalar_sent mem ds p) (reading (pre @ enc_fields (lt_scalar mem ds p)) r) rsp s"
  using assms by (simp add: lib_take_def read_lt_scalar_def lt_scalar_def flag_field_def lt_scalar_sent_def)

definition algo_fields :: "byte list option \<Rightarrow> field list" where
  "algo_fields algo = flag_field (algo \<noteq> None) # (case algo of None \<Rightarrow> [] | Some bs \<Rightarrow> [Raw bs])"

lemma reading_algo [simp]:
  assumes "\<forall>bs. algo = Some bs \<longrightarrow> length bs = asize"
  shows "lib_take bad (read_algo asize) k (reading pre (enc_fields (algo_fields algo) @ r)) rsp s
    = k algo (reading (pre @ enc_fields (algo_fields algo)) r) rsp s"
  using assms by (cases algo) (simp_all add: lib_take_def read_algo_def algo_fields_def flag_field_def)

definition matmul_args :: "scalar \<Rightarrow> scalar \<Rightarrow> u64 \<Rightarrow> u64 \<Rightarrow> u64 \<Rightarrow> u64 \<Rightarrow> u64 \<Rightarrow> u64 \<Rightarrow> u64 \<Rightarrow> u64 \<Rightarrow> u64 \<Rightarrow> u64
    \<Rightarrow> byte list option \<Rightarrow> u64 \<Rightarrow> u64 \<Rightarrow> u64 \<Rightarrow> lib_arg list" where
  "matmul_args alpha beta h desc a ad b bd c cd d dd algo ws wsize stream =
     [I64 h, I64 desc, Scalar alpha, I64 a, I64 ad, I64 b, I64 bd, Scalar beta, I64 c, I64 cd, I64 d, I64 dd, Bytes algo,
      I64 ws, I64 wsize, I64 stream]"

lemma matmul_handled:
  assumes "ml_has lib ''cublasLtMatmul''" and "\<forall>p n. length (mem p n) = n"
    and "\<forall>bs. algo = Some bs \<longrightarrow> length bs = asize"
    and "library lib ''cublasLtMatmul'' (matmul_args (lt_scalar_sent mem ds alpha) (lt_scalar_sent mem ds beta) h desc a ad b bd c cd d dd
      algo ws wsize stream) s = ((st, outs), s')"
  shows "answered_with (handle_cublasLtMatmul asize lib (reading [] (enc_fields
      ([F64 h, F64 desc, flag_field (\<not> ds_device ds), F64 (of_nat (scalar_size (ds_scale ds)))]
       @ lt_scalar mem ds alpha @ lt_scalar mem ds beta @ [F64 a, F64 ad, F64 b, F64 bd, F64 c, F64 cd, F64 d, F64 dd]
       @ algo_fields algo @ [F64 ws, F64 wsize, F64 stream]))) empty_buffer s) st [] s'"
  by (simp add: handle_cublasLtMatmul_def lib_need_def assms(1-3) flag_field_def
      answered_status_only [OF assms(4) [unfolded matmul_args_def]])

text \<open>What a multiply comes to: the library's call, and the work outstanding.\<close>

definition lt_multiplied :: "'d maths \<Rightarrow> lib_arg list \<Rightarrow> u64 \<Rightarrow> lt \<Rightarrow> 'd sv \<times> CUresult \<Rightarrow> u32 \<times> lt \<times> 'd sv \<times> CUresult" where
  "lt_multiplied lib as stream lt x = (case library lib ''cublasLtMatmul'' as (fst x) of
     ((st, outs), s') \<Rightarrow> (blas_told st (snd x), (lt\<lparr> lt_pending := work_on stream (lt_pending lt) \<rparr>, (s', CUDA_SUCCESS))))"

lemma matmul_served:
  assumes "ml_has lib ''cublasLtMatmul''" and "\<forall>p n. length (mem p n) = n"
    and "\<forall>bs. algo = Some bs \<longrightarrow> length bs = asize"
  shows "cublasLtMatmul mem (lt_link hsize asize drv lib) h desc alpha a ad b bd beta c cd d dd algo ws wsize stream (lt, x)
    = lt_multiplied lib (matmul_args (lt_scalar_sent mem (desc_of desc lt) alpha) (lt_scalar_sent mem (desc_of desc lt) beta)
        h desc a ad b bd c cd d dd algo ws wsize stream) stream lt x"
proof -
  obtain s late where x: "x = (s, late)" by fastforce
  obtain st outs s' where l: "library lib ''cublasLtMatmul''
      (matmul_args (lt_scalar_sent mem (desc_of desc lt) alpha) (lt_scalar_sent mem (desc_of desc lt) beta)
        h desc a ad b bd c cd d dd algo ws wsize stream) s = ((st, outs), s')"
    by (metis surj_pair)
  have f: "flag_field (\<exists>y. algo = Some y) # (case algo of None \<Rightarrow> [] | Some bs \<Rightarrow> [Raw bs]) @ r = algo_fields algo @ r" for r
    by (simp add: algo_fields_def)
  show ?thesis
    using lt_tell_answered [where hsize = hsize and asize = asize and drv = drv and lib = lib and api = API_cublasLtMatmul,
        OF _ matmul_handled [OF assms l, folded lt_handlers(10) [of hsize asize drv]]]
    by (simp add: cublasLtMatmul_def Let_def f lt_multiplied_def l x)
qed

text \<open>The descriptor as the library has it: its scale type and its pointer mode. Its documentation: an element
  of the scale type is what the library reads of a scalar on the host. The pointer modes are \<open>HOST\<close> 0,
  \<open>DEVICE\<close> 1, \<open>DEVICE_VECTOR\<close> 2, \<open>ALPHA_DEVICE_VECTOR_BETA_ZERO\<close> 3 and \<open>ALPHA_DEVICE_VECTOR_BETA_HOST\<close> 4, the last
  of which takes one scalar from each side.\<close>

definition desc_agrees :: "desc_state \<Rightarrow> u32 \<times> u32 \<Rightarrow> bool" where
  "desc_agrees ds v \<longleftrightarrow> ds_scale ds = fst v \<and> (ds_device ds \<longleftrightarrow> snd v \<noteq> CUBLASLT_POINTER_MODE_HOST)"

definition alpha_on_device :: "u32 \<Rightarrow> bool" where
  "alpha_on_device mode \<longleftrightarrow> mode \<in> {1, 2, 3, 4}"

definition beta_on_device :: "u32 \<Rightarrow> bool" where
  "beta_on_device mode \<longleftrightarrow> mode \<in> {1, 2, 3}"

definition scalar_given :: "host_mem \<Rightarrow> bool \<Rightarrow> nat \<Rightarrow> u64 \<Rightarrow> scalar" where
  "scalar_given mem on_device w p = (if p = 0 then No_scalar else if on_device then Device_at p else Value (mem p w))"

lemma scalars_as_described:
  assumes "desc_agrees ds (sc, mode)" and "element_width sc = Some w" and "mode \<in> {0, 1, 2, 3}"
  shows "lt_scalar_sent mem ds p = scalar_given mem (alpha_on_device mode) w p"
    and "lt_scalar_sent mem ds p = scalar_given mem (beta_on_device mode) w p"
proof -
  have "scalar_size sc = w" using assms(2) by (auto simp: element_width_def scalar_size_def split: if_splits)
  then show "lt_scalar_sent mem ds p = scalar_given mem (alpha_on_device mode) w p"
    "lt_scalar_sent mem ds p = scalar_given mem (beta_on_device mode) w p"
    using assms(1,3) by (auto simp: lt_scalar_sent_def scalar_given_def desc_agrees_def alpha_on_device_def beta_on_device_def
        CUBLASLT_POINTER_MODE_HOST_def)
qed

text \<open>With the mode that takes beta from the host, the address of the host is sent for one of the device.\<close>

lemma beta_on_host_is_sent_as_device:
  assumes "desc_agrees ds (sc, 4)" and "p \<noteq> 0"
  shows "lt_scalar_sent mem ds p = Device_at p" and "scalar_given mem (beta_on_device 4) w p = Value (mem p w)"
  using assms by (simp_all add: lt_scalar_sent_def scalar_given_def desc_agrees_def beta_on_device_def CUBLASLT_POINTER_MODE_HOST_def)

section \<open>Attributes\<close>

lemma set_attribute_handled:
  assumes "ml_has lib name" and "\<forall>bs. buf = Some bs \<longrightarrow> length bs < 2 ^ 64"
    and "library lib name [I64 obj, I32 attr, Bytes buf] s = ((st, outs), s')"
  shows "answered_with (handle_set_attribute lib name (reading [] (enc_fields
      ([F64 obj, F32 attr, flag_field (buf \<noteq> None)] @ (case buf of None \<Rightarrow> [] | Some bs \<Rightarrow> [Sized bs])))) empty_buffer s) st [] s'"
  using assms(2) answered_status_only [OF assms(3)] by (cases buf)
    (simp_all add: handle_set_attribute_def on_handle_def lib_need_def assms(1) flag_field_def lib_take_def)

lemma set_attribute_served:
  assumes "api \<in> set lt_ids" and "lt_handler hsize asize drv lib api = handle_set_attribute lib name" and "ml_has lib name"
    and "\<forall>bs. buf = Some bs \<longrightarrow> length bs < 2 ^ 64"
  shows "set_attribute (lt_link hsize asize drv lib) api obj attr buf (lt, (s, late))
    = (case library lib name [I64 obj, I32 attr, Bytes buf] s of ((st, outs), s') \<Rightarrow> (blas_told st late, (lt, (s', CUDA_SUCCESS))))"
proof -
  obtain st outs s' where l: "library lib name [I64 obj, I32 attr, Bytes buf] s = ((st, outs), s')" by (metis surj_pair)
  show ?thesis
    using lt_tell_answered [OF assms(1) set_attribute_handled [OF assms(3,4) l, folded assms(2)]]
    by (simp add: set_attribute_def l)
qed

text \<open>What a program gets of an attribute: the bytes the library wrote, as many as it says it wrote and
  no more than the program has room for.\<close>

definition attribute_got :: "bool \<Rightarrow> u64 \<Rightarrow> u32 \<Rightarrow> lib_arg list \<Rightarrow> u32 \<times> (byte list option \<times> u64) option" where
  "attribute_got buf n st outs = (st, if st \<noteq> 0 then None
     else Some (if buf then Some (take (unat (wrote_long 1 outs)) (filled (unat n) 0 outs)) else None, min n (wrote_long 1 outs)))"

lemma get_attribute_handled:
  assumes "ml_has lib name" and "n \<le> 2 ^ 20" and "library lib name [I64 obj, I32 attr, I64 n] s = ((st, outs), s')"
  shows "answered_with (handle_get_attribute lib name (reading [] (enc_fields [F64 obj, F32 attr, F64 n])) empty_buffer s) st
      (if st = 0 then enc_sized (take (unat (wrote_long 1 outs)) (filled (unat n) 0 outs)) else []) s'"
proof -
  have p: "bdata (put_sized bs (put_status st empty_buffer)) = le_enc 4 st @ enc_sized bs" for bs
    by (simp add: put_status_def buf_put_def empty_buffer_def Let_def)
  show ?thesis
    using assms(2) answered_status_and [where put = "\<lambda>outs. put_sized (take (unat (wrote_long 1 outs)) (filled (unat n) 0 outs))", OF assms(3) p]
    by (simp add: handle_get_attribute_def on_handle_def lib_need_def assms(1) linorder_not_less [symmetric] del: not_less)
qed

lemma take_min_filled: "take (min n k) (filled n i outs) = take k (filled n i outs)"
  by (simp add: min_def)

lemma of_nat_min: "(of_nat (min (unat (a :: u64)) (unat b)) :: u64) = min a b"
  by (simp add: min_def word_le_nat_alt)

lemma get_attribute_served:
  assumes "api \<in> set lt_ids" and "lt_handler hsize asize drv lib api = handle_get_attribute lib name" and "ml_has lib name"
    and "n \<le> 2 ^ 20"
  shows "get_attribute (lt_link hsize asize drv lib) api obj attr buf n (lt, (s, late))
    = (case library lib name [I64 obj, I32 attr, I64 n] s of ((st, outs), s') \<Rightarrow> (attribute_got buf n (blas_told st late) outs, (lt, (s', CUDA_SUCCESS))))"
proof -
  obtain st outs s' where l: "library lib name [I64 obj, I32 attr, I64 n] s = ((st, outs), s')" by (metis surj_pair)
  let ?bs = "take (unat (wrote_long 1 outs)) (filled (unat n) 0 outs)"
  have n: "length ?bs < 2 ^ 64" using unsigned_less [of n, where 'a = nat] by (simp add: min_def)
  show ?thesis
    using lt_ask_answered [OF assms(1) get_attribute_handled [OF assms(3,4) l, folded assms(2)], of get_sized lt late] n
    by (auto simp: get_attribute_def l attribute_got_def lib_value_def of_nat_min take_min_filled)
qed

text \<open>The attributes of descriptors, layouts and preferences travel as their bytes: what a
  program sets is what the library is given, and what the library writes is what the program gets, as
  many bytes as it says it wrote and no more than there was room for.\<close>

theorem attributes_travel_verbatim:
  assumes "\<forall>name. ml_has lib name" and "length bs < 2 ^ 64" and "n \<le> 2 ^ 20"
    and "\<forall>name as. library lib name as s = ((status name as, outs name as), after name as)"
  shows "(\<exists>lt'. cublasLtMatmulDescSetAttribute (lt_link hsize asize drv lib) obj attr (Some bs) (lt, (s, late))
        = (blas_told (status ''cublasLtMatmulDescSetAttribute'' [I64 obj, I32 attr, Bytes (Some bs)]) late,
           (lt', (after ''cublasLtMatmulDescSetAttribute'' [I64 obj, I32 attr, Bytes (Some bs)], CUDA_SUCCESS))))
    \<and> cublasLtMatrixLayoutSetAttribute (lt_link hsize asize drv lib) obj attr (Some bs) (lt, (s, late))
        = (blas_told (status ''cublasLtMatrixLayoutSetAttribute'' [I64 obj, I32 attr, Bytes (Some bs)]) late,
           (lt, (after ''cublasLtMatrixLayoutSetAttribute'' [I64 obj, I32 attr, Bytes (Some bs)], CUDA_SUCCESS)))
    \<and> cublasLtMatmulPreferenceSetAttribute (lt_link hsize asize drv lib) obj attr (Some bs) (lt, (s, late))
        = (blas_told (status ''cublasLtMatmulPreferenceSetAttribute'' [I64 obj, I32 attr, Bytes (Some bs)]) late,
           (lt, (after ''cublasLtMatmulPreferenceSetAttribute'' [I64 obj, I32 attr, Bytes (Some bs)], CUDA_SUCCESS)))
    \<and> cublasLtMatmulDescGetAttribute (lt_link hsize asize drv lib) obj attr True n (lt, (s, late))
        = (attribute_got True n (blas_told (status ''cublasLtMatmulDescGetAttribute'' [I64 obj, I32 attr, I64 n]) late)
             (outs ''cublasLtMatmulDescGetAttribute'' [I64 obj, I32 attr, I64 n]),
           (lt, (after ''cublasLtMatmulDescGetAttribute'' [I64 obj, I32 attr, I64 n], CUDA_SUCCESS)))
    \<and> cublasLtMatrixLayoutGetAttribute (lt_link hsize asize drv lib) obj attr True n (lt, (s, late))
        = (attribute_got True n (blas_told (status ''cublasLtMatrixLayoutGetAttribute'' [I64 obj, I32 attr, I64 n]) late)
             (outs ''cublasLtMatrixLayoutGetAttribute'' [I64 obj, I32 attr, I64 n]),
           (lt, (after ''cublasLtMatrixLayoutGetAttribute'' [I64 obj, I32 attr, I64 n], CUDA_SUCCESS)))
    \<and> cublasLtMatmulPreferenceGetAttribute (lt_link hsize asize drv lib) obj attr True n (lt, (s, late))
        = (attribute_got True n (blas_told (status ''cublasLtMatmulPreferenceGetAttribute'' [I64 obj, I32 attr, I64 n]) late)
             (outs ''cublasLtMatmulPreferenceGetAttribute'' [I64 obj, I32 attr, I64 n]),
           (lt, (after ''cublasLtMatmulPreferenceGetAttribute'' [I64 obj, I32 attr, I64 n], CUDA_SUCCESS)))"
  using assms(2-4)
  by (simp add: cublasLtMatmulDescSetAttribute_def cublasLtMatrixLayoutSetAttribute_def cublasLtMatmulPreferenceSetAttribute_def
      cublasLtMatmulDescGetAttribute_def cublasLtMatrixLayoutGetAttribute_def cublasLtMatmulPreferenceGetAttribute_def
      set_attribute_served [OF lt_ids_known(3) lt_handlers(3)] set_attribute_served [OF lt_ids_known(4) lt_handlers(4)]
      set_attribute_served [OF lt_ids_known(5) lt_handlers(5)] get_attribute_served [OF lt_ids_known(6) lt_handlers(6)]
      get_attribute_served [OF lt_ids_known(7) lt_handlers(7)] get_attribute_served [OF lt_ids_known(8) lt_handlers(8)] assms(1))

section \<open>Heuristics\<close>

text \<open>What a program gets of the library's results: no more than it asked for, their bytes as they were.\<close>

definition heuristics_got :: "nat \<Rightarrow> u32 \<Rightarrow> u32 \<Rightarrow> lib_arg list \<Rightarrow> u32 \<times> (u32 \<times> byte list) option" where
  "heuristics_got hsize want st outs = (st, if st \<noteq> 0 then None
     else Some (clamp_count want (wrote_int 1 outs),
            take (unat (clamp_count want (wrote_int 1 outs)) * hsize) (filled (unat want * hsize) 0 outs)))"

lemma clamp_count_bounds:
  assumes "0 < sint (want :: u32)"
  shows "0 \<le> sint (clamp_count want got)" and "sint (clamp_count want got) \<le> sint want"
    and "unat (clamp_count want got) \<le> unat want"
proof -
  show a: "0 \<le> sint (clamp_count want got)" and b: "sint (clamp_count want got) \<le> sint want"
    using assms by (auto simp: clamp_count_def)
  have u: "uint x = sint x" if "0 \<le> sint x" for x :: u32
  proof -
    have "sint x < 2 ^ 32" using sint_less [of x] by simp
    then show ?thesis using that by (simp add: uint_sint take_bit_int_eq_self)
  qed
  show "unat (clamp_count want got) \<le> unat want"
    using u [OF a] u [of want] b assms by (simp add: word_le_nat_alt [symmetric] word_le_def)
qed


lemma heuristics_handled:
  assumes "ml_has lib ''cublasLtMatmulAlgoGetHeuristic''" and "0 < sint want" and "sint want \<le> 256"
    and "library lib ''cublasLtMatmulAlgoGetHeuristic'' [I64 h, I64 op, I64 a, I64 b, I64 c, I64 d, I64 pref, I32 want] s
      = ((st, outs), s')"
  shows "answered_with (handle_cublasLtMatmulAlgoGetHeuristic hsize lib (reading [] (enc_fields
      [F64 h, F64 op, F64 a, F64 b, F64 c, F64 d, F64 pref, F32 want])) empty_buffer s) st
      (if st = 0 then le_enc 4 (clamp_count want (wrote_int 1 outs))
           @ enc_sized (take (unat (clamp_count want (wrote_int 1 outs)) * hsize) (filled (unat want * hsize) 0 outs)) else []) s'"
proof -
  let ?put = "\<lambda>outs rsp. let got = clamp_count want (wrote_int 1 outs) in
    put_sized (take (unat got * hsize) (filled (unat want * hsize) 0 outs)) (buf_put 4 got rsp)"
  have p: "bdata (?put outs (put_status st empty_buffer)) = le_enc 4 st @ (le_enc 4 (clamp_count want (wrote_int 1 outs))
      @ enc_sized (take (unat (clamp_count want (wrote_int 1 outs)) * hsize) (filled (unat want * hsize) 0 outs)))"
    by (simp add: put_status_def buf_put_def empty_buffer_def Let_def)
  show ?thesis
    using assms(2,3) answered_status_and [where put = ?put, OF assms(4) p]
    by (simp add: handle_cublasLtMatmulAlgoGetHeuristic_def lib_need_def assms(1))
qed

lemma heuristics_served:
  assumes "ml_has lib ''cublasLtMatmulAlgoGetHeuristic''" and "0 < sint want" and "sint want \<le> 256" and "hsize < 2 ^ 32"
  shows "cublasLtMatmulAlgoGetHeuristic hsize (lt_link hsize asize drv lib) h op a b c d pref want True (lt, (s, late))
    = (case library lib ''cublasLtMatmulAlgoGetHeuristic'' [I64 h, I64 op, I64 a, I64 b, I64 c, I64 d, I64 pref, I32 want] s of
         ((st, outs), s') \<Rightarrow> (heuristics_got hsize want (blas_told st late) outs, (lt, (s', CUDA_SUCCESS))))"
proof -
  obtain st outs s' where l: "library lib ''cublasLtMatmulAlgoGetHeuristic''
      [I64 h, I64 op, I64 a, I64 b, I64 c, I64 d, I64 pref, I32 want] s = ((st, outs), s')" by (metis surj_pair)
  let ?got = "clamp_count want (wrote_int 1 outs)"
  let ?bs = "take (unat ?got * hsize) (filled (unat want * hsize) 0 outs)"
  note g = clamp_count_bounds [OF assms(2), of "wrote_int 1 outs"]
  have len: "length ?bs = unat ?got * hsize" using g(3) by simp
  have "unat ?got * hsize \<le> unat ?got * 2 ^ 32" using assms(4) by (intro mult_le_mono) simp_all
  also have "\<dots> < 2 ^ 64" using unsigned_less [of ?got, where 'a = nat] by simp
  finally have small: "length ?bs < 2 ^ 64" using len by simp
  have r: "read_heuristics hsize want (reading pre (le_enc 4 ?got @ enc_sized ?bs)) = (Some (?got, ?bs), reading (pre @ le_enc 4 ?got @ enc_sized ?bs) [])"
    for pre using g(1,2) reading_sized(2) [OF small, of "pre @ le_enc 4 ?got"] len by (simp add: read_heuristics_def del: length_take)
  show ?thesis
    using lt_ask_answered [OF lt_ids_known(9) heuristics_handled [where hsize = hsize, OF assms(1-3) l, folded lt_handlers(9) [of hsize asize drv]],
        of "read_heuristics hsize want" lt late] assms(2) r
    by (simp add: cublasLtMatmulAlgoGetHeuristic_def l heuristics_got_def lib_value_def)
qed

text \<open>The bytes of the algorithm in the first of the results, which a program gives to its multiply.\<close>

definition first_algo :: "nat \<Rightarrow> byte list \<Rightarrow> byte list" where
  "first_algo asize results = take asize results"

text \<open>C20. A program asks for algorithms and multiplies with the first of them. Both calls are the
  library's own on the server: the program gets no more results than it asked for, each as the library
  wrote it; and the multiply gets the library the algorithm byte for byte, every other argument in its
  place, and the scalars as the library has them for the descriptor: the caller's bytes, as many as an
  element of the scale type has, where its pointer mode is of the host, and the device's addresses where
  it is of the device; the client's record of the descriptor being the library's, and the mode not the
  one that mixes the two (\<open>beta_on_host_is_sent_as_device\<close>). The caller has the library's status, or the
  mark of an earlier failure the multiply's reply carried, and its stream has work outstanding.\<close>

theorem chosen_algorithm_multiplies:
  assumes "\<forall>name. ml_has lib name" and "\<forall>p n. length (mem p n) = n" and "0 < asize" and "asize \<le> hsize" and "hsize < 2 ^ 32"
    and "0 < sint want" and "sint want \<le> 256"
    and "library lib ''cublasLtMatmulAlgoGetHeuristic'' [I64 h, I64 op, I64 ad, I64 bd, I64 cd, I64 dd, I64 pref, I32 want] s
      = ((0, outs), s1)" and "0 < sint (wrote_int 1 outs)"
    and "desc_agrees (desc_of op lt) (sc, mode)" and "element_width sc = Some w" and "mode \<in> {0, 1, 2, 3}"
  shows "\<exists>n results. cublasLtMatmulAlgoGetHeuristic hsize (lt_link hsize asize drv lib) h op ad bd cd dd pref want True
          (lt, (s, CUDA_SUCCESS)) = ((0, Some (n, results)), (lt, (s1, CUDA_SUCCESS)))
      \<and> 0 < sint n \<and> sint n \<le> sint want \<and> results = take (unat n * hsize) (filled (unat want * hsize) 0 outs)
      \<and> cublasLtMatmul mem (lt_link hsize asize drv lib) h op alpha a ad b bd beta c cd d dd
          (Some (first_algo asize results)) ws wsize stream (lt, (s1, late))
        = lt_multiplied lib (matmul_args (scalar_given mem (alpha_on_device mode) w alpha) (scalar_given mem (beta_on_device mode) w beta)
            h op a ad b bd c cd d dd (Some (take asize (filled (unat want * hsize) 0 outs))) ws wsize stream) stream lt (s1, late)"
proof -
  let ?n = "clamp_count want (wrote_int 1 outs)"
  let ?all = "filled (unat want * hsize) 0 outs"
  have n: "0 < sint ?n" "sint ?n \<le> sint want" using assms(6,9) by (auto simp: clamp_count_def)
  then have "0 < unat ?n" by (metis gr0I less_irrefl sint_0 unat_0_iff)
  moreover have w: "unat ?n \<le> unat want" using clamp_count_bounds(3) [OF assms(6)] .
  ultimately have le: "asize \<le> unat ?n * hsize" "asize \<le> unat want * hsize"
    using assms(4) by (metis One_nat_def Suc_leI dual_order.trans le_trans mult_le_mono1 nat_mult_1)+
  have alg: "first_algo asize (take (unat ?n * hsize) ?all) = take asize ?all" using le by (simp add: first_algo_def min_def)
  have "\<forall>bs. Some (take asize ?all) = Some bs \<longrightarrow> length bs = asize" using le by auto
  then have m: "cublasLtMatmul mem (lt_link hsize asize drv lib) h op alpha a ad b bd beta c cd d dd (Some (take asize ?all))
        ws wsize stream (lt, (s1, late))
      = lt_multiplied lib (matmul_args (scalar_given mem (alpha_on_device mode) w alpha) (scalar_given mem (beta_on_device mode) w beta)
          h op a ad b bd c cd d dd (Some (take asize ?all)) ws wsize stream) stream lt (s1, late)"
    using matmul_served [OF _ assms(2), of lib "Some (take asize ?all)" asize] assms(1) scalars_as_described [OF assms(10-12)] by metis
  have q: "cublasLtMatmulAlgoGetHeuristic hsize (lt_link hsize asize drv lib) h op ad bd cd dd pref want True (lt, (s, CUDA_SUCCESS))
      = ((0, Some (?n, take (unat ?n * hsize) ?all)), (lt, (s1, CUDA_SUCCESS)))"
    using heuristics_served [OF _ assms(6,7,5), of lib asize drv h op ad bd cd dd pref lt s CUDA_SUCCESS] assms(1,8)
    by (simp add: heuristics_got_def blas_told_def)
  show ?thesis using n alg m q by (intro exI [of _ ?n] exI [of _ "take (unat ?n * hsize) ?all"]) (simp del: One_nat_def)
qed


text \<open>A library whose every call succeeds, writes its four bytes and counts one result; and a descriptor in
  double precision.\<close>

definition one_result :: "'d maths" where
  "one_result = \<lparr> ml_has = (\<lambda>name. True), ml_call = (\<lambda>name as w. ((0, [Bytes (Some [1, 2, 3, 4]), I32 1]), w)) \<rparr>"

definition double_desc :: lt where
  "double_desc = note_desc 6 \<lparr> ds_scale = 1, ds_device = False \<rparr> new_lt"

theorem chosen_algorithm_multiplies_witness:
  "cublasLtMatmulAlgoGetHeuristic 3 (lt_link 3 2 fake_driver one_result) 5 6 7 7 7 7 8 2 True (double_desc, (demo_sv, CUDA_SUCCESS))
     = ((0, Some (1, [1, 2, 3])), (double_desc, (demo_sv, CUDA_SUCCESS)))
   \<and> cublasLtMatmul (\<lambda>p n. replicate n (ucast p)) (lt_link 3 2 fake_driver one_result) 5 6 0x70 0x1000 7 0x2000 7 0x80 0x3000 7
       0x4000 7 (Some [1, 2]) 0 0 3 (double_desc, (demo_sv, CUDA_SUCCESS))
     = lt_multiplied one_result (matmul_args (Value (replicate 8 0x70)) (Value (replicate 8 0x80)) 5 6 0x1000 7 0x2000 7 0x3000 7
         0x4000 7 (Some [1, 2]) 0 0 3) 3 double_desc (demo_sv, CUDA_SUCCESS)"
proof -
  let ?mem = "\<lambda>p n. replicate n (ucast (p :: u64)) :: byte list"
  have l: "library one_result name as s = ((0, [Bytes (Some [1, 2, 3, 4]), I32 1]), s)" for name as and s :: "fake sv"
    by (simp add: library_def one_result_def)
  have has: "\<forall>name. ml_has (one_result :: fake maths) name" by (simp add: one_result_def)
  have f: "filled 6 0 [Bytes (Some [1, 2, 3, 4]), I32 1] = [1, 2, 3, 4, 0, 0]" by (simp add: filled_def numeral_eq_Suc)
  have len: "\<forall>p n. length (?mem p n) = n" by simp
  have desc: "desc_agrees (desc_of 6 double_desc) (1, 0)"
    by (simp add: desc_agrees_def desc_of_def double_desc_def note_desc_def CUBLASLT_POINTER_MODE_HOST_def)
  have width: "element_width 1 = Some 8" by (simp add: element_width_def)
  have given: "scalar_given ?mem (alpha_on_device 0) 8 0x70 = Value (replicate 8 0x70)"
    "scalar_given ?mem (beta_on_device 0) 8 0x80 = Value (replicate 8 0x80)"
    by (simp_all add: scalar_given_def alpha_on_device_def beta_on_device_def)
  obtain n results where
    q: "cublasLtMatmulAlgoGetHeuristic 3 (lt_link 3 2 fake_driver one_result) 5 6 7 7 7 7 8 2 True (double_desc, (demo_sv, CUDA_SUCCESS))
        = ((0, Some (n, results)), (double_desc, (demo_sv, CUDA_SUCCESS)))"
    and n: "0 < sint n" "sint n \<le> 2" and r: "results = take (unat n * 3) [1, 2, 3, 4, 0, 0]"
    and m: "cublasLtMatmul ?mem (lt_link 3 2 fake_driver one_result) 5 6 0x70 0x1000 7 0x2000 7 0x80 0x3000 7
          0x4000 7 (Some (first_algo 2 results)) 0 0 3 (double_desc, (demo_sv, CUDA_SUCCESS))
        = lt_multiplied one_result (matmul_args (Value (replicate 8 0x70)) (Value (replicate 8 0x80)) 5 6 0x1000 7 0x2000 7 0x3000 7
            0x4000 7 (Some [1, 2]) 0 0 3) 3 double_desc (demo_sv, CUDA_SUCCESS)"
    using chosen_algorithm_multiplies [where mem = ?mem and asize = 2 and hsize = 3 and want = 2 and h = 5 and op = 6 and ad = 7
        and bd = 7 and cd = 7 and dd = 7 and pref = 8 and s = demo_sv and lt = double_desc and drv = fake_driver and alpha = "0x70"
        and a = "0x1000" and b = "0x2000" and beta = "0x80" and c = "0x3000" and d = "0x4000" and ws = 0 and wsize = 0
        and stream = 3 and late = CUDA_SUCCESS and mode = 0, OF has len _ _ _ _ _ l _ desc width]
    by (auto simp: f wrote_int_def given)
  have alg: "first_algo 2 results = [1, 2]"
  proof -
    have "n \<noteq> 0" using n(1) by auto
    then have "Suc 0 \<le> unat n" by (simp add: Suc_leI unat_gt_0)
    then obtain k where "unat n = Suc k" by (cases "unat n") auto
    then show ?thesis by (simp add: first_algo_def r numeral_eq_Suc)
  qed
  have "heuristics_got 3 2 0 [Bytes (Some [1, 2, 3, 4]), I32 1] = (0, Some (1, [1, 2, 3]))"
    by (simp add: heuristics_got_def clamp_count_def wrote_int_def f take_Cons')
  then have "cublasLtMatmulAlgoGetHeuristic 3 (lt_link 3 2 fake_driver one_result) 5 6 7 7 7 7 8 2 True (double_desc, (demo_sv, CUDA_SUCCESS))
      = ((0, Some (1, [1, 2, 3])), (double_desc, (demo_sv, CUDA_SUCCESS)))"
    using heuristics_served [of one_result 2 3 2 fake_driver 5 6 7 7 7 7 8 double_desc demo_sv CUDA_SUCCESS] has l by (simp add: blas_told_def)
  then show ?thesis using m by (simp add: alg)
qed

theorem attributes_travel_verbatim_witness:
  "cublasLtMatrixLayoutSetAttribute (lt_link 3 2 fake_driver one_result) 7 0 (Some [5, 0, 0, 0]) (new_lt, (demo_sv, CUDA_SUCCESS))
     = (0, (new_lt, (demo_sv, CUDA_SUCCESS)))
   \<and> fst (cublasLtMatrixLayoutGetAttribute (lt_link 3 2 fake_driver one_result) 7 0 True 4 (new_lt, (demo_sv, CUDA_SUCCESS)))
     = (0, Some (Some [], 0))"
proof -
  have l: "\<forall>name as. library one_result name as demo_sv = ((0, [Bytes (Some [1, 2, 3, 4]), I32 1]), demo_sv)"
    by (simp add: library_def one_result_def)
  have has: "\<forall>name. ml_has one_result name" by (simp add: one_result_def)
  show ?thesis
    using attributes_travel_verbatim [OF has, of "[5, 0, 0, 0]" 4 demo_sv "\<lambda>name as. 0" "\<lambda>name as. [Bytes (Some [1, 2, 3, 4]), I32 1]"
        "\<lambda>name as. demo_sv" 3 2 fake_driver 7 0 new_lt CUDA_SUCCESS] l
    by (simp add: attribute_got_def wrote_long_def blas_told_def)
qed

section \<open>Descriptors\<close>

lemma desc_create_served:
  assumes "ml_has lib ''cublasLtMatmulDescCreate''" and "out \<noteq> 0"
    and "library lib ''cublasLtMatmulDescCreate'' [I32 ct, I32 sc] s = ((st, outs), s')"
  shows "cublasLtMatmulDescCreate (lt_link hsize asize drv lib) out ct sc (lt, (s, late))
    = (if st = 0 \<and> late = CUDA_SUCCESS
       then ((0, Some (wrote_long 0 outs)), (note_desc (wrote_long 0 outs) \<lparr> ds_scale = sc, ds_device = False \<rparr> lt, (s', CUDA_SUCCESS)))
       else ((blas_told st late, None), (lt, (s', CUDA_SUCCESS))))"
proof -
  have p: "bdata (put_long outs (put_status st empty_buffer)) = le_enc 4 st @ le_enc 8 (wrote_long 0 outs)"
    by (simp add: put_long_def put_status_def buf_put_def empty_buffer_def)
  have "answered_with (handle_cublasLtMatmulDescCreate lib (reading [] (enc_fields [F32 ct, F32 sc])) empty_buffer s) st
      (if st = 0 then le_enc 8 (wrote_long 0 outs) else []) s'"
    using answered_status_and [where put = put_long, OF assms(3) p]
    by (simp add: handle_cublasLtMatmulDescCreate_def lib_need_def assms(1))
  from lt_ask_answered [OF lt_ids_known(1) this [folded lt_handlers(1) [of hsize asize drv]], of "buf_get 8 :: buffer \<Rightarrow> u64 option \<times> buffer" lt late]
  show ?thesis using assms(2) by (auto simp: cublasLtMatmulDescCreate_def lt_create_def lib_value_def blas_told_def
      CUBLAS_STATUS_EXECUTION_FAILED_def)
qed

lemma desc_destroy_served:
  assumes "ml_has lib ''cublasLtMatmulDescDestroy''" and "library lib ''cublasLtMatmulDescDestroy'' [I64 d] s = ((st, outs), s')"
  shows "lt_tell (lt_link hsize asize drv lib) API_cublasLtMatmulDescDestroy [F64 d] (lt, (s, late)) = (blas_told st late, (lt, (s', CUDA_SUCCESS)))"
proof -
  have "answered_with (handle_cublasLtMatmulDescDestroy lib (reading [] (enc_fields [F64 d])) empty_buffer s) st [] s'"
    by (simp add: handle_cublasLtMatmulDescDestroy_def on_handle_def lib_need_def assms(1) answered_status_only [OF assms(2)])
  from lt_tell_answered [OF lt_ids_known(2) this [folded lt_handlers(2) [of hsize asize drv]]] show ?thesis .
qed

text \<open>What the client has noted of a descriptor once it has sent an attribute.\<close>

definition after_noting :: "u64 \<Rightarrow> u32 \<Rightarrow> byte list option \<Rightarrow> lt \<Rightarrow> lt" where
  "after_noting d attr buf lt = (case buf of None \<Rightarrow> lt | Some bs \<Rightarrow> note_desc d (noted_attribute attr bs (desc_of d lt)) lt)"

lemma desc_set_served:
  assumes "ml_has lib ''cublasLtMatmulDescSetAttribute''" and "\<forall>bs. buf = Some bs \<longrightarrow> length bs < 2 ^ 64"
    and "library lib ''cublasLtMatmulDescSetAttribute'' [I64 d, I32 attr, Bytes buf] s = ((st, outs), s')"
  shows "cublasLtMatmulDescSetAttribute (lt_link hsize asize drv lib) d attr buf (lt, (s, late))
    = (blas_told st late, (after_noting d attr buf lt, (s', CUDA_SUCCESS)))"
  using set_attribute_served [OF lt_ids_known(3) lt_handlers(3), of lib buf hsize asize drv d attr _ s late] assms
  by (simp add: cublasLtMatmulDescSetAttribute_def after_noting_def)

text \<open>The library's side: which descriptors live, with the scale type and the pointer mode of each. Its
  documentation: a new one did not live before and has the type it is made with and host pointers; an
  attribute set with success, with four bytes, is had from then on; a descriptor destroyed with success
  is gone; nothing else changes.\<close>

record 'd desc_view =
  dv_live :: "'d world \<Rightarrow> u64 set"
  dv_has :: "'d world \<Rightarrow> u64 \<Rightarrow> u32 \<times> u32"

definition desc_same :: "'d desc_view \<Rightarrow> 'd world \<Rightarrow> 'd world \<Rightarrow> bool" where
  "desc_same v w w' \<longleftrightarrow> dv_live v w' = dv_live v w \<and> dv_has v w' = dv_has v w"

definition described :: "u32 \<Rightarrow> byte list \<Rightarrow> u32 \<times> u32 \<Rightarrow> u32 \<times> u32" where
  "described attr bs v = (if attr = CUBLASLT_MATMUL_DESC_SCALE_TYPE then (le_dec bs, snd v)
     else if attr = CUBLASLT_MATMUL_DESC_POINTER_MODE then (fst v, le_dec bs) else v)"

definition noted_kinds :: "u32 set" where
  "noted_kinds = {CUBLASLT_MATMUL_DESC_SCALE_TYPE, CUBLASLT_MATMUL_DESC_POINTER_MODE}"

definition desc_laws :: "'d maths \<Rightarrow> 'd desc_view \<Rightarrow> bool" where
  "desc_laws lib v \<longleftrightarrow>
     (\<forall>w ct sc. case ml_call lib ''cublasLtMatmulDescCreate'' [I32 ct, I32 sc] w of ((st, outs), w') \<Rightarrow>
        if st = 0 then wrote_long 0 outs \<notin> dv_live v w \<and> dv_live v w' = insert (wrote_long 0 outs) (dv_live v w)
          \<and> dv_has v w' = (dv_has v w)(wrote_long 0 outs := (sc, CUBLASLT_POINTER_MODE_HOST))
        else desc_same v w w')
   \<and> (\<forall>w d attr bs. case ml_call lib ''cublasLtMatmulDescSetAttribute'' [I64 d, I32 attr, Bytes (Some bs)] w of ((st, outs), w') \<Rightarrow>
        if st = 0 then (attr \<in> noted_kinds \<longrightarrow> length bs = 4) \<and> dv_live v w' = dv_live v w
          \<and> dv_has v w' = (dv_has v w)(d := described attr bs (dv_has v w d))
        else desc_same v w w')
   \<and> (\<forall>w d attr. desc_same v w (snd (ml_call lib ''cublasLtMatmulDescSetAttribute'' [I64 d, I32 attr, Bytes None] w)))
   \<and> (\<forall>w d. case ml_call lib ''cublasLtMatmulDescDestroy'' [I64 d] w of ((st, outs), w') \<Rightarrow>
        if st = 0 then dv_live v w' = dv_live v w - {d} \<and> (\<forall>d'. d' \<noteq> d \<longrightarrow> dv_has v w' d' = dv_has v w d') else desc_same v w w')"

lemma desc_law_create:
  assumes "desc_laws lib v" and "ml_call lib ''cublasLtMatmulDescCreate'' [I32 ct, I32 sc] w = ((st, outs), w')"
  shows "if st = 0 then wrote_long 0 outs \<notin> dv_live v w \<and> dv_live v w' = insert (wrote_long 0 outs) (dv_live v w)
      \<and> dv_has v w' = (dv_has v w)(wrote_long 0 outs := (sc, CUBLASLT_POINTER_MODE_HOST))
    else desc_same v w w'"
  using conjunct1 [OF assms(1) [unfolded desc_laws_def], THEN spec [of _ w], THEN spec [of _ ct], THEN spec [of _ sc]] assms(2) by simp

lemma desc_law_set:
  assumes "desc_laws lib v"
    and "ml_call lib ''cublasLtMatmulDescSetAttribute'' [I64 d, I32 attr, Bytes (Some bs)] w = ((st, outs), w')"
  shows "if st = 0 then (attr \<in> noted_kinds \<longrightarrow> length bs = 4) \<and> dv_live v w' = dv_live v w
      \<and> dv_has v w' = (dv_has v w)(d := described attr bs (dv_has v w d))
    else desc_same v w w'"
  using conjunct1 [OF conjunct2 [OF assms(1) [unfolded desc_laws_def]], THEN spec [of _ w], THEN spec [of _ d], THEN spec [of _ attr],
      THEN spec [of _ bs]] assms(2) by simp

lemma desc_law_none:
  assumes "desc_laws lib v"
    and "ml_call lib ''cublasLtMatmulDescSetAttribute'' [I64 d, I32 attr, Bytes None] w = (res, w')"
  shows "desc_same v w w'"
  using conjunct1 [OF conjunct2 [OF conjunct2 [OF assms(1) [unfolded desc_laws_def]]], THEN spec [of _ w], THEN spec [of _ d],
      THEN spec [of _ attr]] assms(2) by simp

lemma desc_law_destroy:
  assumes "desc_laws lib v" and "ml_call lib ''cublasLtMatmulDescDestroy'' [I64 d] w = ((st, outs), w')"
  shows "if st = 0 then dv_live v w' = dv_live v w - {d} \<and> (\<forall>d'. d' \<noteq> d \<longrightarrow> dv_has v w' d' = dv_has v w d') else desc_same v w w'"
  using conjunct2 [OF conjunct2 [OF conjunct2 [OF assms(1) [unfolded desc_laws_def]]], THEN spec [of _ w], THEN spec [of _ d]] assms(2) by simp

text \<open>A process and its descriptors, like its handles of cuBLAS. \<open>dr_behind\<close> records for which attribute of
  which descriptor the client may be behind: one the library refused after the client had noted it, and
  every one of a descriptor whose entry was erased while it lived.\<close>

record 'd desc_run =
  dr_client :: lt
  dr_server :: "'d sv \<times> CUresult"
  dr_mine :: "u64 set"
  dr_unforgotten :: "u64 list"
  dr_behind :: "(u64 \<times> u32) set"

abbreviation dr_world :: "'d desc_run \<Rightarrow> 'd world" where
  "dr_world x \<equiv> sv_world (fst (dr_server x))"

definition desc_given :: "u64 \<Rightarrow> 'd desc_run \<Rightarrow> 'd desc_run" where
  "desc_given d x = x\<lparr> dr_mine := insert d (dr_mine x), dr_behind := {y \<in> dr_behind x. fst y \<noteq> d} \<rparr>"

definition library_took :: "'d maths \<Rightarrow> string \<Rightarrow> lib_arg list \<Rightarrow> 'd desc_run \<Rightarrow> bool" where
  "library_took lib name as x \<longleftrightarrow> fst (fst (library lib name as (fst (dr_server x)))) = 0"

definition attribute_behind :: "bool \<Rightarrow> u64 \<Rightarrow> u32 \<Rightarrow> byte list option \<Rightarrow> (u64 \<times> u32) set \<Rightarrow> (u64 \<times> u32) set" where
  "attribute_behind accepted d attr buf behind =
     (if attr \<notin> noted_kinds \<or> (case buf of None \<Rightarrow> True | Some bs \<Rightarrow> length bs < 4) then behind
      else if accepted then behind - {(d, attr)} else insert (d, attr) behind)"

inductive desc_step :: "nat \<Rightarrow> nat \<Rightarrow> 'd driver \<Rightarrow> 'd maths \<Rightarrow> 'd desc_view \<Rightarrow> 'd desc_run \<Rightarrow> 'd desc_run \<Rightarrow> bool"
  for hsize asize drv lib v where
  make: "cublasLtMatmulDescCreate (lt_link hsize asize drv lib) out ct sc (dr_client x, dr_server x) = ((st, r), (lt, y)) \<Longrightarrow> out \<noteq> 0 \<Longrightarrow>
    desc_step hsize asize drv lib v x ((case r of None \<Rightarrow> (\<lambda>z. z) | Some d \<Rightarrow> desc_given d) (x\<lparr> dr_client := lt, dr_server := y \<rparr>))"
| set_attr: "cublasLtMatmulDescSetAttribute (lt_link hsize asize drv lib) d attr buf (dr_client x, dr_server x) = (st, (lt, y)) \<Longrightarrow>
    \<forall>bs. buf = Some bs \<longrightarrow> length bs < 2 ^ 64 \<Longrightarrow> d \<in> dr_mine x \<Longrightarrow>
    desc_step hsize asize drv lib v x (x\<lparr> dr_client := lt, dr_server := y, dr_behind :=
      attribute_behind (library_took lib ''cublasLtMatmulDescSetAttribute'' [I64 d, I32 attr, Bytes buf] x) d attr buf (dr_behind x) \<rparr>)"
| destroy: "lt_tell (lt_link hsize asize drv lib) API_cublasLtMatmulDescDestroy [F64 d] (dr_client x, dr_server x) = (st, (lt, y)) \<Longrightarrow>
    desc_step hsize asize drv lib v x (x\<lparr> dr_client := lt, dr_server := y,
      dr_mine := (if library_took lib ''cublasLtMatmulDescDestroy'' [I64 d] x then dr_mine x - {d} else dr_mine x),
      dr_unforgotten := d # dr_unforgotten x \<rparr>)"
| erase: "d \<in> set (dr_unforgotten x) \<Longrightarrow>
    desc_step hsize asize drv lib v x (x\<lparr> dr_client := forget_desc d (dr_client x), dr_unforgotten := remove1 d (dr_unforgotten x),
      dr_behind := (if d \<in> dr_mine x then dr_behind x \<union> {d} \<times> noted_kinds else dr_behind x) \<rparr>)"
| other: "lt_descs lt = lt_descs (dr_client x) \<Longrightarrow>
    \<forall>d \<in> dr_mine x. d \<in> dv_live v (sv_world s) \<and> dv_has v (sv_world s) d = dv_has v (dr_world x) d \<Longrightarrow>
    desc_step hsize asize drv lib v x (x\<lparr> dr_client := lt, dr_server := (s, late) \<rparr>)"

definition descs_agree :: "'d desc_view \<Rightarrow> 'd desc_run \<Rightarrow> bool" where
  "descs_agree v x \<longleftrightarrow> dr_mine x \<subseteq> dv_live v (dr_world x)
   \<and> (\<forall>d \<in> dr_mine x.
        ((d, CUBLASLT_MATMUL_DESC_SCALE_TYPE) \<notin> dr_behind x \<longrightarrow> ds_scale (desc_of d (dr_client x)) = fst (dv_has v (dr_world x) d))
      \<and> ((d, CUBLASLT_MATMUL_DESC_POINTER_MODE) \<notin> dr_behind x \<longrightarrow>
           ds_device (desc_of d (dr_client x)) = (snd (dv_has v (dr_world x) d) \<noteq> CUBLASLT_POINTER_MODE_HOST)))"

lemma desc_of_noted [simp]: "desc_of e (note_desc d ds lt) = (if e = d then ds else desc_of e lt)"
  by (simp add: desc_of_def note_desc_def)

lemma desc_of_forgotten [simp]: "desc_of e (forget_desc d lt) = (if e = d then new_desc else desc_of e lt)"
  by (simp add: desc_of_def forget_desc_def)

lemma make_agrees:
  assumes "cublasLtMatmulDescCreate (lt_link hsize asize drv lib) out ct sc (dr_client x, dr_server x) = ((st, r), (lt, y))"
    and "out \<noteq> 0" and "desc_laws lib v" and "\<forall>name. ml_has lib name" and "descs_agree v x"
  shows "descs_agree v ((case r of None \<Rightarrow> (\<lambda>z. z) | Some d \<Rightarrow> desc_given d) (x\<lparr> dr_client := lt, dr_server := y \<rparr>))"
proof -
  obtain s late where x: "dr_server x = (s, late)" by fastforce
  obtain q outs s1 where l: "library lib ''cublasLtMatmulDescCreate'' [I32 ct, I32 sc] s = ((q, outs), s1)" by (metis surj_pair)
  note c = assms(1) [unfolded x desc_create_served [OF assms(4) [THEN spec] assms(2) l, of hsize asize drv "dr_client x" late]]
  note w = desc_law_create [OF assms(3) library_world [OF l]]
  consider "q = 0" "late = CUDA_SUCCESS" | "q = 0" "late \<noteq> CUDA_SUCCESS" | "q \<noteq> 0" by blast
  then show ?thesis
  proof cases
    case 1
    then show ?thesis using c w assms(5) by (auto simp: descs_agree_def x desc_given_def split: if_splits)
  next
    case 2
    then show ?thesis using c w assms(5) by (auto simp: descs_agree_def x split: if_splits)
  next
    case 3
    then show ?thesis using c w assms(5) by (auto simp: descs_agree_def x desc_same_def)
  qed
qed

lemmas desc_numbers = CUBLASLT_MATMUL_DESC_SCALE_TYPE_def CUBLASLT_MATMUL_DESC_POINTER_MODE_def

lemma set_attr_agrees:
  assumes "cublasLtMatmulDescSetAttribute (lt_link hsize asize drv lib) d attr buf (dr_client x, dr_server x) = (st, (lt, y))"
    and "\<forall>bs. buf = Some bs \<longrightarrow> length bs < 2 ^ 64" and "d \<in> dr_mine x"
    and "desc_laws lib v" and "\<forall>name. ml_has lib name" and "descs_agree v x"
  shows "descs_agree v (x\<lparr> dr_client := lt, dr_server := y, dr_behind :=
      attribute_behind (library_took lib ''cublasLtMatmulDescSetAttribute'' [I64 d, I32 attr, Bytes buf] x) d attr buf (dr_behind x) \<rparr>)"
proof -
  obtain s late where x: "dr_server x = (s, late)" by fastforce
  obtain q outs s1 where l: "library lib ''cublasLtMatmulDescSetAttribute'' [I64 d, I32 attr, Bytes buf] s = ((q, outs), s1)"
    by (metis surj_pair)
  have e: "lt = after_noting d attr buf (dr_client x)" "fst y = s1"
    using assms(1) desc_set_served [OF assms(5) [THEN spec] assms(2) l, of hsize asize drv "dr_client x" late] by (auto simp: x)
  have t: "library_took lib ''cublasLtMatmulDescSetAttribute'' [I64 d, I32 attr, Bytes buf] x \<longleftrightarrow> q = 0"
    by (simp add: library_took_def x l)
  have "descs_agree v (x\<lparr> dr_client := lt, dr_server := y, dr_behind := attribute_behind (q = 0) d attr buf (dr_behind x) \<rparr>)"
  proof (cases buf)
    case None
    then show ?thesis using desc_law_none [OF assms(4) library_world [OF l [unfolded None]]] assms(6)
      by (auto simp: descs_agree_def x e after_noting_def attribute_behind_def desc_same_def)
  next
    case (Some bs)
    note w = desc_law_set [OF assms(4) library_world [OF l [unfolded Some]]]
    show ?thesis
    proof (cases "q = 0")
      case True
      then show ?thesis using w assms(6) by (auto simp: descs_agree_def x e Some after_noting_def attribute_behind_def
            noted_attribute_def described_def noted_kinds_def desc_numbers)
    next
      case False
      then show ?thesis using w assms(6) by (auto simp: descs_agree_def x e Some after_noting_def attribute_behind_def
            noted_attribute_def noted_kinds_def desc_same_def desc_numbers)
    qed
  qed
  then show ?thesis by (simp only: t)
qed

lemma desc_destroy_agrees:
  assumes "lt_tell (lt_link hsize asize drv lib) API_cublasLtMatmulDescDestroy [F64 d] (dr_client x, dr_server x) = (st, (lt, y))"
    and "desc_laws lib v" and "\<forall>name. ml_has lib name" and "descs_agree v x"
  shows "descs_agree v (x\<lparr> dr_client := lt, dr_server := y,
      dr_mine := (if library_took lib ''cublasLtMatmulDescDestroy'' [I64 d] x then dr_mine x - {d} else dr_mine x),
      dr_unforgotten := d # dr_unforgotten x \<rparr>)"
proof -
  obtain s late where x: "dr_server x = (s, late)" by fastforce
  obtain q outs s1 where l: "library lib ''cublasLtMatmulDescDestroy'' [I64 d] s = ((q, outs), s1)" by (metis surj_pair)
  have e: "lt = dr_client x" "fst y = s1"
    using assms(1) desc_destroy_served [OF assms(3) [THEN spec] l, of hsize asize drv "dr_client x" late] by (auto simp: x)
  have t: "library_took lib ''cublasLtMatmulDescDestroy'' [I64 d] x \<longleftrightarrow> q = 0" by (simp add: library_took_def x l)
  note w = desc_law_destroy [OF assms(2) library_world [OF l]]
  show ?thesis
  proof (cases "q = 0")
    case True
    then show ?thesis using assms(4) w by (auto simp: descs_agree_def e t x)
  next
    case False
    then show ?thesis using assms(4) w by (auto simp: descs_agree_def e t x desc_same_def)
  qed
qed

lemma desc_step_agree:
  assumes "desc_step hsize asize drv lib v x x'" and "desc_laws lib v" and "\<forall>name. ml_has lib name" and "descs_agree v x"
  shows "descs_agree v x'"
  using assms(1)
proof cases
  case (make out ct sc st r lt y)
  then show ?thesis using make_agrees assms by blast
next
  case (set_attr d attr buf st lt y)
  then show ?thesis using set_attr_agrees assms by blast
next
  case (destroy d st lt y)
  then show ?thesis using desc_destroy_agrees assms by blast
next
  case (erase d)
  then show ?thesis using assms(4) by (auto simp: descs_agree_def noted_kinds_def)
next
  case (other lt s late)
  then show ?thesis using assms(4) by (auto simp: descs_agree_def desc_of_def)
qed

definition no_descs_yet :: "'d sv \<times> CUresult \<Rightarrow> 'd desc_run" where
  "no_descs_yet y = \<lparr> dr_client = new_lt, dr_server = y, dr_mine = {}, dr_unforgotten = [], dr_behind = {} \<rparr>"

text \<open>C21. Whatever a process does with its descriptors, on a connection that may carry the failures of
  earlier calls: the scale type by which the client sends the scalars of a multiply is the one the
  library has for the descriptor, unless the library refused the last one that was set, which the
  client notes all the same, or the descriptor's entry was erased while it lived, by a destroy that was
  refused or that overlapped with its being given out again. The same holds of the pointer mode.\<close>

theorem descriptor_is_the_librarys:
  assumes "(desc_step hsize asize drv lib v)\<^sup>*\<^sup>* (no_descs_yet y) x" and "desc_laws lib v"
    and "\<forall>name. ml_has lib name" and "d \<in> dr_mine x"
  shows "((d, CUBLASLT_MATMUL_DESC_SCALE_TYPE) \<notin> dr_behind x \<longrightarrow>
        ds_scale (desc_of d (dr_client x)) = fst (dv_has v (dr_world x) d))
    \<and> ((d, CUBLASLT_MATMUL_DESC_POINTER_MODE) \<notin> dr_behind x \<longrightarrow>
        ds_device (desc_of d (dr_client x)) = (snd (dv_has v (dr_world x) d) \<noteq> CUBLASLT_POINTER_MODE_HOST))"
proof -
  have "descs_agree v z" if "(desc_step hsize asize drv lib v)\<^sup>*\<^sup>* (no_descs_yet y) z" for z
    using that
  proof (induction rule: rtranclp_induct)
    case base
    then show ?case by (simp add: descs_agree_def no_descs_yet_def)
  next
    case (step z z')
    then show ?case using desc_step_agree [OF step.hyps(2) assms(2,3)] by blast
  qed
  from this [OF assms(1)] assms(4) show ?thesis by (simp add: descs_agree_def)
qed

text \<open>A library that keeps its descriptors, and a driver and a server with nothing else in them.\<close>

type_synonym kept_descs = "u64 set \<times> (u64 \<Rightarrow> u32 \<times> u32)"

definition desc_keeper :: "kept_descs maths" where
  "desc_keeper = \<lparr> ml_has = (\<lambda>name. True), ml_call = (\<lambda>name as w. case w_drv w of (live, has) \<Rightarrow>
     if name = ''cublasLtMatmulDescCreate'' \<and> 9 \<notin> live then (case as of
         [I32 ct, I32 sc] \<Rightarrow> ((0, [I64 9]), w\<lparr> w_drv := (insert 9 live, has(9 := (sc, 0))) \<rparr>) | _ \<Rightarrow> ((7, []), w))
     else if name = ''cublasLtMatmulDescSetAttribute'' then (case as of
         [I64 d, I32 attr, Bytes (Some bs)] \<Rightarrow>
           (if length bs = 4 then ((0, []), w\<lparr> w_drv := (live, has(d := described attr bs (has d))) \<rparr>) else ((7, []), w))
       | _ \<Rightarrow> ((7, []), w))
     else ((7, []), w)) \<rparr>"

definition desc_kept :: "kept_descs desc_view" where
  "desc_kept = \<lparr> dv_live = (\<lambda>w. fst (w_drv w)), dv_has = (\<lambda>w. snd (w_drv w)) \<rparr>"

lemma desc_keeper_laws: "desc_laws desc_keeper desc_kept"
  by (auto simp: desc_laws_def desc_keeper_def desc_kept_def desc_same_def wrote_long_def CUBLASLT_POINTER_MODE_HOST_def
      split: prod.split)

definition bare_driver :: "kept_descs driver" where
  "bare_driver = \<lparr> d_step = (\<lambda>c d. ((CUDA_ERROR_NOT_SUPPORTED, []), d)), d_has = (\<lambda>name. False) \<rparr>"

definition bare_sv :: "kept_descs sv" where
  "bare_sv = \<lparr> sv_inv = None, sv_proc = no_process, sv_threads = no_threads, sv_world = \<lparr> w_drv = ({}, \<lambda>_. (0, 0)), w_log = [] \<rparr> \<rparr>"

definition keeping :: "u64 set \<Rightarrow> u32 \<times> u32 \<Rightarrow> kept_descs sv" where
  "keeping live v = bare_sv\<lparr> sv_world := (sv_world bare_sv)\<lparr> w_drv := (live, (\<lambda>_. (0, 0))(9 := v)) \<rparr> \<rparr>"

lemma make_kept: "library desc_keeper ''cublasLtMatmulDescCreate'' [I32 2, I32 1] (keeping {} (0, 0)) = ((0, [I64 9]), keeping {9} (1, 0))"
  by (simp add: library_def desc_keeper_def keeping_def bare_sv_def)

lemma set_kept:
  "library desc_keeper ''cublasLtMatmulDescSetAttribute'' [I64 9, I32 CUBLASLT_MATMUL_DESC_POINTER_MODE, Bytes (Some [1, 0, 0, 0])]
     (keeping {9} (1, 0)) = ((0, []), keeping {9} (1, 1))"
  by (simp add: library_def desc_keeper_def keeping_def described_def desc_numbers le_dec_def)

text \<open>A descriptor is made in double precision and its scalars put on the device.\<close>

definition on_device :: "kept_descs desc_run" where
  "on_device = (no_descs_yet (keeping {} (0, 0), CUDA_SUCCESS))\<lparr>
     dr_client := after_noting 9 CUBLASLT_MATMUL_DESC_POINTER_MODE (Some [1, 0, 0, 0])
       (note_desc 9 \<lparr> ds_scale = 1, ds_device = False \<rparr> new_lt),
     dr_server := (keeping {9} (1, 1), CUDA_SUCCESS), dr_mine := {9} \<rparr>"

lemma on_device_reached:
  "(desc_step 3 2 bare_driver desc_keeper desc_kept)\<^sup>*\<^sup>* (no_descs_yet (keeping {} (0, 0), CUDA_SUCCESS)) on_device"
proof -
  let ?step = "desc_step 3 2 bare_driver desc_keeper desc_kept"
  let ?x0 = "no_descs_yet (keeping {} (0, 0), CUDA_SUCCESS)"
  let ?x1 = "?x0\<lparr> dr_client := note_desc 9 \<lparr> ds_scale = 1, ds_device = False \<rparr> new_lt,
    dr_server := (keeping {9} (1, 0), CUDA_SUCCESS), dr_mine := {9} \<rparr>"
  have has: "ml_has desc_keeper name" for name by (simp add: desc_keeper_def)
  from desc_create_served [OF has _ make_kept, of "0x20" 3 2 bare_driver new_lt CUDA_SUCCESS]
  have c: "cublasLtMatmulDescCreate (lt_link 3 2 bare_driver desc_keeper) 0x20 2 1 (new_lt, (keeping {} (0, 0), CUDA_SUCCESS))
      = ((0, Some 9), (note_desc 9 \<lparr> ds_scale = 1, ds_device = False \<rparr> new_lt, (keeping {9} (1, 0), CUDA_SUCCESS)))"
    by (simp add: wrote_long_def)
  have one: "?step ?x0 ?x1"
    using desc_step.make [where x = ?x0 and out = "0x20" and ct = 2 and sc = 1 and hsize = 3 and asize = 2 and drv = bare_driver
        and lib = desc_keeper and v = desc_kept] c by (simp add: no_descs_yet_def desc_given_def)
  have "dr_mine ?x1 = {9}" "dr_client ?x1 = note_desc 9 \<lparr> ds_scale = 1, ds_device = False \<rparr> new_lt"
    "dr_server ?x1 = (keeping {9} (1, 0), CUDA_SUCCESS)" "dr_behind ?x1 = {}" by (simp_all add: no_descs_yet_def)
  note x1 = this
  have b: "attribute_behind took 9 CUBLASLT_MATMUL_DESC_POINTER_MODE (Some [1, 0, 0, 0]) {} = {}" if took for took
    using that by (simp add: attribute_behind_def)
  have two: "?step ?x1 on_device"
    using desc_step.set_attr [where x = ?x1 and d = 9 and attr = CUBLASLT_MATMUL_DESC_POINTER_MODE and buf = "Some [1, 0, 0, 0]"
        and v = desc_kept, unfolded x1, OF desc_set_served [OF has _ set_kept, of 3 2 bare_driver _ CUDA_SUCCESS]]
    by (simp add: on_device_def b library_took_def set_kept no_descs_yet_def)
  show ?thesis using converse_rtranclp_into_rtranclp [where r = ?step, OF one r_into_rtranclp [where r = ?step, OF two]] .
qed

theorem descriptor_is_the_librarys_witness:
  "ds_scale (desc_of 9 (dr_client on_device)) = 1 \<and> ds_device (desc_of 9 (dr_client on_device))
   \<and> dv_has desc_kept (dr_world on_device) 9 = (1, 1)"
proof -
  have has: "\<forall>name. ml_has desc_keeper name" by (simp add: desc_keeper_def)
  have w: "dv_has desc_kept (dr_world on_device) 9 = (1, 1)" "dr_behind on_device = {}" "9 \<in> dr_mine on_device"
    by (simp_all add: on_device_def no_descs_yet_def desc_kept_def keeping_def)
  then show ?thesis using descriptor_is_the_librarys [OF on_device_reached desc_keeper_laws has w(3)]
    by (simp add: CUBLASLT_POINTER_MODE_HOST_def)
qed

text \<open>A scale type the library refuses is kept all the same, and sizes the scalars from then on.\<close>

lemma refused_attribute_is_kept:
  assumes "ml_has lib ''cublasLtMatmulDescSetAttribute''" and "length bs = 4"
    and "library lib ''cublasLtMatmulDescSetAttribute'' [I64 d, I32 CUBLASLT_MATMUL_DESC_SCALE_TYPE, Bytes (Some bs)] s = ((7, []), s)"
  shows "\<exists>lt'. cublasLtMatmulDescSetAttribute (lt_link hsize asize drv lib) d CUBLASLT_MATMUL_DESC_SCALE_TYPE (Some bs)
      (lt, (s, CUDA_SUCCESS)) = (7, (lt', (s, CUDA_SUCCESS))) \<and> ds_scale (desc_of d lt') = le_dec bs"
  using desc_set_served [OF assms(1) _ assms(3), of hsize asize drv lt CUDA_SUCCESS] assms(2)
  by (simp add: blas_told_def after_noting_def noted_attribute_def desc_numbers)

text \<open>Uninterrupted, the two parts of a destroy are the call the program makes.\<close>

lemma desc_destroy_in_parts:
  assumes "cublasLtMatmulDescDestroy (lt_link hsize asize drv lib) d (dr_client x, dr_server x) = (st, (lt, y))"
  shows "\<exists>z. (desc_step hsize asize drv lib v)\<^sup>*\<^sup>* x z \<and> dr_client z = lt \<and> dr_server z = y"
proof -
  let ?step = "desc_step hsize asize drv lib v"
  obtain lt1 where c: "lt_tell (lt_link hsize asize drv lib) API_cublasLtMatmulDescDestroy [F64 d] (dr_client x, dr_server x) = (st, (lt1, y))"
    and lt: "lt = forget_desc d lt1"
    using assms by (auto simp: cublasLtMatmulDescDestroy_def split: prod.splits)
  note one = desc_step.destroy [where v = v, OF c]
  note two = desc_step.erase [where hsize = hsize and asize = asize and drv = drv and lib = lib and v = v and d = d and
      x = "x\<lparr> dr_client := lt1, dr_server := y,
      dr_mine := (if library_took lib ''cublasLtMatmulDescDestroy'' [I64 d] x then dr_mine x - {d} else dr_mine x),
      dr_unforgotten := d # dr_unforgotten x \<rparr>"]
  from rtranclp.rtrancl_into_rtrancl [where r = ?step, OF r_into_rtranclp [where r = ?step, OF one] two]
  show ?thesis by (intro exI conjI) (assumption | simp add: lt)+
qed

end
