(* ===== verification/Cudnn.thy ===== *)
theory Cudnn
  imports Maths
begin

text \<open>
  cuDNN over the connection (\<^verbatim>\<open>client/cudnn_impl.cpp\<close>, \<^verbatim>\<open>server/cudnn_server.cpp\<close>,
  \<^verbatim>\<open>common/cudnn_sizes.h\<close>). The client makes up the values of its descriptors and tells the server,
  which keeps what they stand for; most calls are sent without waiting, and a failure of one is marked
  in the frame so that a later call reports it. Floating-point numbers travel as their eight bytes.
\<close>

section \<open>Ids, statuses and types\<close>

definition kCudnnBase :: u32 where "kCudnnBase = 0x52000000"

definition API_cudnnCreate :: u32 where "API_cudnnCreate = kCudnnBase + 1"
definition API_cudnnDestroy :: u32 where "API_cudnnDestroy = kCudnnBase + 2"
definition API_cudnnSetStream :: u32 where "API_cudnnSetStream = kCudnnBase + 3"
definition API_cudnnGetStream :: u32 where "API_cudnnGetStream = kCudnnBase + 4"
definition API_cudnnGetVersion :: u32 where "API_cudnnGetVersion = kCudnnBase + 5"
definition API_cudnnGetCudartVersion :: u32 where "API_cudnnGetCudartVersion = kCudnnBase + 6"
definition API_cudnnGetProperty :: u32 where "API_cudnnGetProperty = kCudnnBase + 7"
definition API_cudnnGetLastErrorString :: u32 where "API_cudnnGetLastErrorString = kCudnnBase + 8"
definition API_cudnnGetMaxDeviceVersion :: u32 where "API_cudnnGetMaxDeviceVersion = kCudnnBase + 9"
definition API_cudnnBackendCreateDescriptor :: u32 where "API_cudnnBackendCreateDescriptor = kCudnnBase + 10"
definition API_cudnnBackendDestroyDescriptor :: u32 where "API_cudnnBackendDestroyDescriptor = kCudnnBase + 11"
definition API_cudnnBackendInitialize :: u32 where "API_cudnnBackendInitialize = kCudnnBase + 12"
definition API_cudnnBackendFinalize :: u32 where "API_cudnnBackendFinalize = kCudnnBase + 13"
definition API_cudnnBackendSetAttribute :: u32 where "API_cudnnBackendSetAttribute = kCudnnBase + 14"
definition API_cudnnBackendGetAttribute :: u32 where "API_cudnnBackendGetAttribute = kCudnnBase + 15"
definition API_cudnnBackendExecute :: u32 where "API_cudnnBackendExecute = kCudnnBase + 16"
definition API_cudnnCreateTensorDescriptor :: u32 where "API_cudnnCreateTensorDescriptor = kCudnnBase + 20"
definition API_cudnnDestroyTensorDescriptor :: u32 where "API_cudnnDestroyTensorDescriptor = kCudnnBase + 21"
definition API_cudnnSetTensorNdDescriptor :: u32 where "API_cudnnSetTensorNdDescriptor = kCudnnBase + 22"
definition API_cudnnGetTensorNdDescriptor :: u32 where "API_cudnnGetTensorNdDescriptor = kCudnnBase + 23"
definition API_cudnnDeriveBNTensorDescriptor :: u32 where "API_cudnnDeriveBNTensorDescriptor = kCudnnBase + 24"
definition API_cudnnBatchNormalizationForwardInference :: u32 where "API_cudnnBatchNormalizationForwardInference = kCudnnBase + 25"
definition API_cudnnCreateActivationDescriptor :: u32 where "API_cudnnCreateActivationDescriptor = kCudnnBase + 30"
definition API_cudnnSetActivationDescriptor :: u32 where "API_cudnnSetActivationDescriptor = kCudnnBase + 31"
definition API_cudnnDestroyActivationDescriptor :: u32 where "API_cudnnDestroyActivationDescriptor = kCudnnBase + 32"
definition API_cudnnGetBatchNormalizationForwardTrainingExWorkspaceSize :: u32 where "API_cudnnGetBatchNormalizationForwardTrainingExWorkspaceSize = kCudnnBase + 33"
definition API_cudnnGetBatchNormalizationBackwardExWorkspaceSize :: u32 where "API_cudnnGetBatchNormalizationBackwardExWorkspaceSize = kCudnnBase + 34"
definition API_cudnnGetBatchNormalizationTrainingExReserveSpaceSize :: u32 where "API_cudnnGetBatchNormalizationTrainingExReserveSpaceSize = kCudnnBase + 35"
definition API_cudnnBatchNormalizationForwardTrainingEx :: u32 where "API_cudnnBatchNormalizationForwardTrainingEx = kCudnnBase + 36"
definition API_cudnnBatchNormalizationBackwardEx :: u32 where "API_cudnnBatchNormalizationBackwardEx = kCudnnBase + 37"

lemmas cudnn_ids = kCudnnBase_def
  API_cudnnCreate_def API_cudnnDestroy_def API_cudnnSetStream_def
  API_cudnnGetStream_def API_cudnnGetVersion_def API_cudnnGetCudartVersion_def
  API_cudnnGetProperty_def API_cudnnGetLastErrorString_def API_cudnnGetMaxDeviceVersion_def
  API_cudnnBackendCreateDescriptor_def API_cudnnBackendDestroyDescriptor_def API_cudnnBackendInitialize_def
  API_cudnnBackendFinalize_def API_cudnnBackendSetAttribute_def API_cudnnBackendGetAttribute_def
  API_cudnnBackendExecute_def API_cudnnCreateTensorDescriptor_def API_cudnnDestroyTensorDescriptor_def
  API_cudnnSetTensorNdDescriptor_def API_cudnnGetTensorNdDescriptor_def API_cudnnDeriveBNTensorDescriptor_def
  API_cudnnBatchNormalizationForwardInference_def API_cudnnCreateActivationDescriptor_def API_cudnnSetActivationDescriptor_def
  API_cudnnDestroyActivationDescriptor_def API_cudnnGetBatchNormalizationForwardTrainingExWorkspaceSize_def API_cudnnGetBatchNormalizationBackwardExWorkspaceSize_def
  API_cudnnGetBatchNormalizationTrainingExReserveSpaceSize_def API_cudnnBatchNormalizationForwardTrainingEx_def API_cudnnBatchNormalizationBackwardEx_def

text \<open>The numbers the library's header gives its statuses; the one for success is 0.\<close>

definition CUDNN_STATUS_NOT_INITIALIZED :: u32 where "CUDNN_STATUS_NOT_INITIALIZED = 1001"
definition CUDNN_STATUS_BAD_PARAM :: u32 where "CUDNN_STATUS_BAD_PARAM = 2000"
definition CUDNN_STATUS_NOT_SUPPORTED :: u32 where "CUDNN_STATUS_NOT_SUPPORTED = 3000"
definition CUDNN_STATUS_INTERNAL_ERROR :: u32 where "CUDNN_STATUS_INTERNAL_ERROR = 4000"
definition CUDNN_STATUS_ALLOC_FAILED :: u32 where "CUDNN_STATUS_ALLOC_FAILED = 4003"
definition CUDNN_STATUS_EXECUTION_FAILED :: u32 where "CUDNN_STATUS_EXECUTION_FAILED = 5000"

definition CUDNN_DATA_FLOAT :: u32 where "CUDNN_DATA_FLOAT = 0"
definition CUDNN_DATA_DOUBLE :: u32 where "CUDNN_DATA_DOUBLE = 1"
definition CUDNN_DIM_MAX :: int where "CUDNN_DIM_MAX = 8"

text \<open>The types of an attribute's elements; those not named are enumerations. Which number the library's
  header gives to which type is a parameter.\<close>

datatype attr_type = TYPE_INT64 | TYPE_DOUBLE | TYPE_VOID_PTR | TYPE_HANDLE | TYPE_BACKEND_DESCRIPTOR | TYPE_FLOAT
  | TYPE_INT32 | TYPE_BOOLEAN | TYPE_CHAR | TYPE_FRACTION | TYPE_enumeration

type_synonym types = "u32 \<Rightarrow> attr_type"

fun cudnn_element_size :: "attr_type \<Rightarrow> nat" where
  "cudnn_element_size TYPE_INT64 = 8"
| "cudnn_element_size TYPE_DOUBLE = 8"
| "cudnn_element_size TYPE_VOID_PTR = 8"
| "cudnn_element_size TYPE_HANDLE = 8"
| "cudnn_element_size TYPE_BACKEND_DESCRIPTOR = 8"
| "cudnn_element_size TYPE_FLOAT = 4"
| "cudnn_element_size TYPE_INT32 = 4"
| "cudnn_element_size TYPE_BOOLEAN = 1"
| "cudnn_element_size TYPE_CHAR = 1"
| "cudnn_element_size TYPE_FRACTION = 16"
| "cudnn_element_size TYPE_enumeration = 4"

text \<open>Values the client makes up carry a tag no pointer has.\<close>

definition kHandleTag :: u64 where "kHandleTag = push_bit 32 0x52475055"

definition minted :: "u64 \<Rightarrow> bool" where
  "minted v \<longleftrightarrow> drop_bit 32 v = drop_bit 32 kHandleTag"

section \<open>The client\<close>

text \<open>The process's connection: calls that wait for their reply and calls that do not.\<close>

record 'c link =
  ln_call :: "'c sender"
  ln_async :: "u32 \<Rightarrow> byte list \<Rightarrow> 'c \<Rightarrow> CUresult \<times> 'c"

record dnn =
  dn_next :: u32
  dn_types :: "u64 \<rightharpoonup> u32"
  dn_streams :: "u64 \<rightharpoonup> u64"
  dn_pending :: pending

definition new_dnn :: dnn where
  "new_dnn = \<lparr> dn_next = 1, dn_types = Map.empty, dn_streams = Map.empty, dn_pending = nothing_pending \<rparr>"

type_synonym ('c, 'r) dnn_call = "dnn \<times> 'c \<Rightarrow> 'r \<times> dnn \<times> 'c"

definition dnn_status_of :: "CUresult \<Rightarrow> u32" where
  "dnn_status_of r = (if r = CUDA_SUCCESS then 0 else CUDNN_STATUS_EXECUTION_FAILED)"

text \<open>\<open>send\<close>: the call's own failure, where the reply has one, before that of the frame.\<close>

definition dnn_send :: "'c link \<Rightarrow> u32 \<Rightarrow> field list \<Rightarrow> ('c, u32 \<times> buffer) dnn_call" where
  "dnn_send ln api fs st = (case st of (dn, c) \<Rightarrow> (case ln_call ln api (bdata (request fs)) c of ((r, payload), c1) \<Rightarrow>
     (case buf_get 4 (buffer_of payload) of
        (Some status, b) \<Rightarrow> (((if status \<noteq> 0 then status else dnn_status_of r), b), (dn, c1))
      | (None, b) \<Rightarrow> (((if r \<noteq> CUDA_SUCCESS then dnn_status_of r else CUDNN_STATUS_INTERNAL_ERROR), b), (dn, c1)))))"

definition dnn_async :: "'c link \<Rightarrow> u32 \<Rightarrow> field list \<Rightarrow> ('c, u32) dnn_call" where
  "dnn_async ln api fs st = (case st of (dn, c) \<Rightarrow> (case ln_async ln api (bdata (request fs)) c of (r, c1) \<Rightarrow>
     (dnn_status_of r, (dn, c1))))"

definition dnn_tell :: "'c link \<Rightarrow> u32 \<Rightarrow> field list \<Rightarrow> ('c, u32) dnn_call" where
  "dnn_tell ln api fs st = (case dnn_send ln api fs st of ((status, _), st1) \<Rightarrow> (status, st1))"

definition dnn_ask :: "'c link \<Rightarrow> u32 \<Rightarrow> field list \<Rightarrow> (buffer \<Rightarrow> 'v option \<times> buffer) \<Rightarrow> ('c, u32 \<times> 'v option) dnn_call" where
  "dnn_ask ln api fs get st = (case dnn_send ln api fs st of (res, st1) \<Rightarrow> (lib_value CUDNN_STATUS_INTERNAL_ERROR get res, st1))"

definition dnn_need :: "u64 \<Rightarrow> ('c, u32 \<times> 'v option) dnn_call \<Rightarrow> ('c, u32 \<times> 'v option) dnn_call" where
  "dnn_need out k st = (if out = 0 then ((CUDNN_STATUS_BAD_PARAM, None), st) else k st)"

definition mint_handle :: "('c, u64) dnn_call" where
  "mint_handle st = (case st of (dn, c) \<Rightarrow> (or kHandleTag (ucast (dn_next dn)), (dn\<lparr> dn_next := dn_next dn + 1 \<rparr>, c)))"

definition remember_type :: "u64 \<Rightarrow> u32 \<Rightarrow> dnn \<Rightarrow> dnn" where
  "remember_type d ty dn = dn\<lparr> dn_types := (dn_types dn)(d \<mapsto> ty) \<rparr>"

definition forget_type :: "u64 \<Rightarrow> dnn \<Rightarrow> dnn" where
  "forget_type d dn = dn\<lparr> dn_types := (dn_types dn)(d := None) \<rparr>"

definition scalar_width :: "u64 \<Rightarrow> dnn \<Rightarrow> nat" where
  "scalar_width d dn = (if dn_types dn d = Some CUDNN_DATA_DOUBLE then 8 else 4)"

definition dnn_computes :: "u64 \<Rightarrow> dnn \<Rightarrow> dnn" where
  "dnn_computes h dn = dn\<lparr> dn_pending := work_on (case dn_streams dn h of None \<Rightarrow> 0 | Some s \<Rightarrow> s) (dn_pending dn) \<rparr>"

definition on_dnn :: "(dnn \<Rightarrow> dnn) \<Rightarrow> ('c, 'r) dnn_call \<Rightarrow> ('c, 'r) dnn_call" where
  "on_dnn f k st = k (f (fst st), snd st)"

definition cudnnCreate :: "'c link \<Rightarrow> u64 \<Rightarrow> ('c, u32 \<times> u64 option) dnn_call" where
  "cudnnCreate ln out = dnn_need out (dnn_ask ln API_cudnnCreate [] (buf_get 8))"

definition cudnnDestroy :: "'c link \<Rightarrow> u64 \<Rightarrow> ('c, u32) dnn_call" where
  "cudnnDestroy ln h = on_dnn (dn_streams_update (\<lambda>m. m(h := None))) (dnn_tell ln API_cudnnDestroy [F64 h])"

definition cudnnSetStream :: "'c link \<Rightarrow> u64 \<Rightarrow> u64 \<Rightarrow> ('c, u32) dnn_call" where
  "cudnnSetStream ln h stream = on_dnn (dn_streams_update (\<lambda>m. m(h \<mapsto> stream))) (dnn_async ln API_cudnnSetStream [F64 h, F64 stream])"

definition cudnnGetStream :: "'c link \<Rightarrow> u64 \<Rightarrow> u64 \<Rightarrow> ('c, u32 \<times> u64 option) dnn_call" where
  "cudnnGetStream ln h out = dnn_need out (dnn_ask ln API_cudnnGetStream [F64 h] (buf_get 8))"

text \<open>A version, or 0 where it cannot be had.\<close>

definition dnn_version :: "'c link \<Rightarrow> u32 \<Rightarrow> ('c, u64) dnn_call" where
  "dnn_version ln api st = (case dnn_ask ln api [] (buf_get 8) st of
     ((status, v), st1) \<Rightarrow> ((case v of None \<Rightarrow> 0 | Some n \<Rightarrow> n), st1))"

definition cudnnGetVersion :: "'c link \<Rightarrow> ('c, u64) dnn_call" where
  "cudnnGetVersion ln = dnn_version ln API_cudnnGetVersion"

definition cudnnGetCudartVersion :: "'c link \<Rightarrow> ('c, u64) dnn_call" where
  "cudnnGetCudartVersion ln = dnn_version ln API_cudnnGetCudartVersion"

definition cudnnGetMaxDeviceVersion :: "'c link \<Rightarrow> ('c, u64) dnn_call" where
  "cudnnGetMaxDeviceVersion ln = dnn_version ln API_cudnnGetMaxDeviceVersion"

definition cudnnGetProperty :: "'c link \<Rightarrow> u32 \<Rightarrow> u64 \<Rightarrow> ('c, u32 \<times> u32 option) dnn_call" where
  "cudnnGetProperty ln ty out = dnn_need out (dnn_ask ln API_cudnnGetProperty [F32 ty] (buf_get 4))"

text \<open>What is in the caller's buffer afterwards, before the terminator; nothing where there is no buffer.\<close>

definition cudnnGetLastErrorString :: "'c link \<Rightarrow> u64 \<Rightarrow> u64 \<Rightarrow> ('c, byte list option) dnn_call" where
  "cudnnGetLastErrorString ln message max_size st = (if message = 0 \<or> max_size = 0 then (None, st)
     else case dnn_ask ln API_cudnnGetLastErrorString [F64 max_size] get_sized st of
         ((status, None), st1) \<Rightarrow> (Some [], st1)
       | ((status, Some bs), st1) \<Rightarrow> (Some (take (unat max_size - 1) bs), st1))"

definition cudnnGetErrorString :: "u32 \<Rightarrow> string" where
  "cudnnGetErrorString status =
     (if status = 0 then ''CUDNN_STATUS_SUCCESS''
      else if status = CUDNN_STATUS_NOT_INITIALIZED then ''CUDNN_STATUS_NOT_INITIALIZED''
      else if status = CUDNN_STATUS_ALLOC_FAILED then ''CUDNN_STATUS_ALLOC_FAILED''
      else if status = CUDNN_STATUS_BAD_PARAM then ''CUDNN_STATUS_BAD_PARAM''
      else if status = CUDNN_STATUS_INTERNAL_ERROR then ''CUDNN_STATUS_INTERNAL_ERROR''
      else if status = CUDNN_STATUS_NOT_SUPPORTED then ''CUDNN_STATUS_NOT_SUPPORTED''
      else if status = CUDNN_STATUS_EXECUTION_FAILED then ''CUDNN_STATUS_EXECUTION_FAILED''
      else ''CUDNN_STATUS_UNKNOWN'')"

section \<open>The graph calls\<close>

text \<open>A descriptor whose value the client makes up: the server is told, and not waited for.\<close>

definition dnn_mint :: "'c link \<Rightarrow> u32 \<Rightarrow> field list \<Rightarrow> u64 \<Rightarrow> ('c, u32 \<times> u64 option) dnn_call" where
  "dnn_mint ln api fs out = dnn_need out (\<lambda>st. (case mint_handle st of (h, st1) \<Rightarrow>
     (case dnn_async ln api (fs @ [F64 h]) st1 of (status, st2) \<Rightarrow> ((status, if status = 0 then Some h else None), st2))))"

definition cudnnBackendCreateDescriptor :: "'c link \<Rightarrow> u32 \<Rightarrow> u64 \<Rightarrow> ('c, u32 \<times> u64 option) dnn_call" where
  "cudnnBackendCreateDescriptor ln ty out = dnn_mint ln API_cudnnBackendCreateDescriptor [F32 ty] out"

definition cudnnBackendDestroyDescriptor :: "'c link \<Rightarrow> u64 \<Rightarrow> ('c, u32) dnn_call" where
  "cudnnBackendDestroyDescriptor ln d = dnn_async ln API_cudnnBackendDestroyDescriptor [F64 d]"

definition cudnnBackendInitialize :: "'c link \<Rightarrow> u64 \<Rightarrow> ('c, u32) dnn_call" where
  "cudnnBackendInitialize ln d = dnn_tell ln API_cudnnBackendInitialize [F64 d]"

definition cudnnBackendFinalize :: "'c link \<Rightarrow> u64 \<Rightarrow> ('c, u32) dnn_call" where
  "cudnnBackendFinalize ln d = dnn_tell ln API_cudnnBackendFinalize [F64 d]"

definition array_length :: "types \<Rightarrow> u32 \<Rightarrow> u64 \<Rightarrow> nat" where
  "array_length types ty count = unat (count * of_nat (cudnn_element_size (types ty)))"

definition cudnnBackendSetAttribute :: "types \<Rightarrow> host_mem \<Rightarrow> 'c link \<Rightarrow> u64 \<Rightarrow> u32 \<Rightarrow> u32 \<Rightarrow> u64 \<Rightarrow> u64 \<Rightarrow> ('c, u32) dnn_call" where
  "cudnnBackendSetAttribute types mem ln d name ty count arr st =
     (if sint count < 0 then (CUDNN_STATUS_BAD_PARAM, st)
      else dnn_async ln API_cudnnBackendSetAttribute ([F64 d, F32 name, F32 ty, F64 count, flag_field (arr \<noteq> 0)]
        @ (if arr = 0 then [] else [Sized (mem arr (array_length types ty count))])) st)"

text \<open>The status, the count where it was written, and what was copied to the caller's array.\<close>

definition take_attribute :: "bool \<Rightarrow> bool \<Rightarrow> nat \<Rightarrow> buffer \<Rightarrow> u32 \<times> u64 option \<times> byte list option" where
  "take_attribute want there n b =
     (let (count, b1) = (if want then buf_get 8 b else (None, b)) in
      if want \<and> count = None then (CUDNN_STATUS_INTERNAL_ERROR, None, None)
      else if there then (case get_sized b1 of
          (None, _) \<Rightarrow> (CUDNN_STATUS_INTERNAL_ERROR, count, None)
        | (Some bs, _) \<Rightarrow> (0, count, Some (take n bs)))
      else (0, count, None))"

definition cudnnBackendGetAttribute :: "types \<Rightarrow> host_mem \<Rightarrow> 'c link \<Rightarrow> u64 \<Rightarrow> u32 \<Rightarrow> u32 \<Rightarrow> u64 \<Rightarrow> bool \<Rightarrow> u64
    \<Rightarrow> ('c, u32 \<times> u64 option \<times> byte list option) dnn_call" where
  "cudnnBackendGetAttribute types mem ln d name ty requested want arr st =
     (if sint requested < 0 then ((CUDNN_STATUS_BAD_PARAM, None, None), st)
      else let n = array_length types ty requested in
        (case dnn_send ln API_cudnnBackendGetAttribute ([F64 d, F32 name, F32 ty, F64 requested, flag_field want, flag_field (arr \<noteq> 0)]
            @ (if arr = 0 then [] else [Sized (mem arr n)])) st of
          ((status, b), st1) \<Rightarrow> ((if status \<noteq> 0 then (status, None, None) else take_attribute want (arr \<noteq> 0) n b), st1)))"

definition cudnnBackendExecute :: "'c link \<Rightarrow> u64 \<Rightarrow> u64 \<Rightarrow> u64 \<Rightarrow> ('c, u32) dnn_call" where
  "cudnnBackendExecute ln h plan pack = on_dnn (dnn_computes h) (dnn_async ln API_cudnnBackendExecute [F64 h, F64 plan, F64 pack])"

section \<open>The descriptors of batch normalisation\<close>

definition cudnnCreateTensorDescriptor :: "'c link \<Rightarrow> u64 \<Rightarrow> ('c, u32 \<times> u64 option) dnn_call" where
  "cudnnCreateTensorDescriptor ln out = dnn_mint ln API_cudnnCreateTensorDescriptor [] out"

definition cudnnDestroyTensorDescriptor :: "'c link \<Rightarrow> u64 \<Rightarrow> ('c, u32) dnn_call" where
  "cudnnDestroyTensorDescriptor ln d st = (case dnn_async ln API_cudnnDestroyTensorDescriptor [F64 d] st of
     (status, (dn, c)) \<Rightarrow> (status, (forget_type d dn, c)))"

definition cudnnSetTensorNdDescriptor :: "host_mem \<Rightarrow> 'c link \<Rightarrow> u64 \<Rightarrow> u32 \<Rightarrow> u32 \<Rightarrow> u64 \<Rightarrow> u64 \<Rightarrow> ('c, u32) dnn_call" where
  "cudnnSetTensorNdDescriptor mem ln d ty nb dims strides st =
     (if dims = 0 \<or> strides = 0 \<or> sint nb \<le> 0 \<or> sint nb > CUDNN_DIM_MAX then (CUDNN_STATUS_BAD_PARAM, st)
      else case dnn_async ln API_cudnnSetTensorNdDescriptor
          [F64 d, F32 ty, F32 nb, Sized (mem dims (unat nb * 4)), Sized (mem strides (unat nb * 4))] st of
        (status, (dn, c)) \<Rightarrow> (status, ((if status = 0 then remember_type d ty dn else dn), c)))"

definition read_tensor :: "buffer \<Rightarrow> (u32 \<times> u32 \<times> byte list \<times> byte list) option \<times> buffer" where
  "read_tensor b = (case buf_get 4 b of (None, b1) \<Rightarrow> (None, b1) | (Some ty, b1) \<Rightarrow>
     (case buf_get 4 b1 of (None, b2) \<Rightarrow> (None, b2) | (Some nb, b2) \<Rightarrow>
     (case get_sized b2 of (None, b3) \<Rightarrow> (None, b3) | (Some dims, b3) \<Rightarrow>
     (case get_sized b3 of (None, b4) \<Rightarrow> (None, b4) | (Some strides, b4) \<Rightarrow> (Some (ty, nb, dims, strides), b4)))))"

definition cudnnGetTensorNdDescriptor :: "'c link \<Rightarrow> u64 \<Rightarrow> u32 \<Rightarrow> ('c, u32 \<times> (u32 \<times> u32 \<times> byte list \<times> byte list) option) dnn_call" where
  "cudnnGetTensorNdDescriptor ln d requested st =
     (if sint requested \<le> 0 \<or> sint requested > CUDNN_DIM_MAX then ((CUDNN_STATUS_BAD_PARAM, None), st)
      else dnn_ask ln API_cudnnGetTensorNdDescriptor [F64 d, F32 requested] read_tensor st)"

definition cudnnDeriveBNTensorDescriptor :: "'c link \<Rightarrow> u64 \<Rightarrow> u64 \<Rightarrow> u32 \<Rightarrow> ('c, u32) dnn_call" where
  "cudnnDeriveBNTensorDescriptor ln derived x mode st =
     (case dnn_tell ln API_cudnnDeriveBNTensorDescriptor [F64 derived, F64 x, F32 mode] st of
        (status, (dn, c)) \<Rightarrow> (status, ((if status = 0 then remember_type derived CUDNN_DATA_FLOAT dn else dn), c)))"

definition cudnnCreateActivationDescriptor :: "'c link \<Rightarrow> u64 \<Rightarrow> ('c, u32 \<times> u64 option) dnn_call" where
  "cudnnCreateActivationDescriptor ln out = dnn_mint ln API_cudnnCreateActivationDescriptor [] out"

definition cudnnSetActivationDescriptor :: "'c link \<Rightarrow> u64 \<Rightarrow> u32 \<Rightarrow> u32 \<Rightarrow> u64 \<Rightarrow> ('c, u32) dnn_call" where
  "cudnnSetActivationDescriptor ln d mode nan_opt coef =
     dnn_async ln API_cudnnSetActivationDescriptor [F64 d, F32 mode, F32 nan_opt, F64 coef]"

definition cudnnDestroyActivationDescriptor :: "'c link \<Rightarrow> u64 \<Rightarrow> ('c, u32) dnn_call" where
  "cudnnDestroyActivationDescriptor ln d st = (case dnn_async ln API_cudnnDestroyActivationDescriptor [F64 d] st of
     (status, (dn, c)) \<Rightarrow> (status, (forget_type d dn, c)))"

section \<open>Batch normalisation\<close>

definition cudnnBatchNormalizationForwardInference :: "host_mem \<Rightarrow> 'c link \<Rightarrow> u64 \<Rightarrow> u32 \<Rightarrow> u64 \<Rightarrow> u64 \<Rightarrow> u64 \<Rightarrow> u64 \<Rightarrow> u64 \<Rightarrow> u64
    \<Rightarrow> u64 \<Rightarrow> u64 \<Rightarrow> u64 \<Rightarrow> u64 \<Rightarrow> u64 \<Rightarrow> u64 \<Rightarrow> ('c, u32) dnn_call" where
  "cudnnBatchNormalizationForwardInference mem ln h mode alpha beta xd x yd y bnd scale bias mean var epsilon =
     on_dnn (dnn_computes h) (\<lambda>st. if alpha = 0 \<or> beta = 0 then (CUDNN_STATUS_BAD_PARAM, st)
       else let width = scalar_width yd (fst st) in
         dnn_async ln API_cudnnBatchNormalizationForwardInference
           ([F64 h, F32 mode, F32 (of_nat width), Sized (mem alpha width), Sized (mem beta width)]
            @ map F64 [xd, x, yd, y, bnd, scale, bias, mean, var] @ [F64 epsilon]) st)"

definition size_query :: "'c link \<Rightarrow> u32 \<Rightarrow> u64 \<Rightarrow> u32 \<Rightarrow> u32 \<Rightarrow> u64 \<Rightarrow> u64 list \<Rightarrow> u64 \<Rightarrow> ('c, u32 \<times> u64 option) dnn_call" where
  "size_query ln api h mode ops act descriptors out = dnn_need out
     (dnn_ask ln api ([F64 h, F32 mode, F32 ops, F64 act, F32 (of_nat (length descriptors))] @ map F64 descriptors) (buf_get 8))"

definition cudnnGetBatchNormalizationForwardTrainingExWorkspaceSize :: "'c link \<Rightarrow> u64 \<Rightarrow> u32 \<Rightarrow> u32 \<Rightarrow> u64 \<Rightarrow> u64 \<Rightarrow> u64 \<Rightarrow> u64
    \<Rightarrow> u64 \<Rightarrow> u64 \<Rightarrow> ('c, u32 \<times> u64 option) dnn_call" where
  "cudnnGetBatchNormalizationForwardTrainingExWorkspaceSize ln h mode ops xd zd yd bnd act out =
     size_query ln API_cudnnGetBatchNormalizationForwardTrainingExWorkspaceSize h mode ops act [xd, zd, yd, bnd] out"

definition cudnnGetBatchNormalizationBackwardExWorkspaceSize :: "'c link \<Rightarrow> u64 \<Rightarrow> u32 \<Rightarrow> u32 \<Rightarrow> u64 \<Rightarrow> u64 \<Rightarrow> u64 \<Rightarrow> u64 \<Rightarrow> u64 \<Rightarrow> u64
    \<Rightarrow> u64 \<Rightarrow> u64 \<Rightarrow> ('c, u32 \<times> u64 option) dnn_call" where
  "cudnnGetBatchNormalizationBackwardExWorkspaceSize ln h mode ops xd yd dyd dzd dxd dbnd act out =
     size_query ln API_cudnnGetBatchNormalizationBackwardExWorkspaceSize h mode ops act [xd, yd, dyd, dzd, dxd, dbnd] out"

definition cudnnGetBatchNormalizationTrainingExReserveSpaceSize :: "'c link \<Rightarrow> u64 \<Rightarrow> u32 \<Rightarrow> u32 \<Rightarrow> u64 \<Rightarrow> u64 \<Rightarrow> u64
    \<Rightarrow> ('c, u32 \<times> u64 option) dnn_call" where
  "cudnnGetBatchNormalizationTrainingExReserveSpaceSize ln h mode ops act xd out =
     size_query ln API_cudnnGetBatchNormalizationTrainingExReserveSpaceSize h mode ops act [xd] out"

text \<open>The pointers of the two training calls, in the order the calls have them: those before the first
  number, those after it, and what follows.\<close>

definition cudnnBatchNormalizationForwardTrainingEx :: "host_mem \<Rightarrow> 'c link \<Rightarrow> u64 \<Rightarrow> u32 \<Rightarrow> u32 \<Rightarrow> u64 \<Rightarrow> u64 \<Rightarrow> u64 \<Rightarrow> u64 \<Rightarrow> u64 \<Rightarrow> u64
    \<Rightarrow> u64 \<Rightarrow> u64 \<Rightarrow> u64 \<Rightarrow> u64 \<Rightarrow> u64 \<Rightarrow> u64 \<Rightarrow> u64 \<Rightarrow> u64 \<Rightarrow> u64 \<Rightarrow> u64 \<Rightarrow> u64 \<Rightarrow> u64 \<Rightarrow> u64 \<Rightarrow> u64 \<Rightarrow> u64 \<Rightarrow> u64 \<Rightarrow> ('c, u32) dnn_call" where
  "cudnnBatchNormalizationForwardTrainingEx mem ln h mode ops alpha beta xd x zd z yd y bnd scale bias average
       running_mean running_var epsilon save_mean save_inv_var act workspace workspace_size reserve reserve_size =
     on_dnn (dnn_computes h) (\<lambda>st. if alpha = 0 \<or> beta = 0 then (CUDNN_STATUS_BAD_PARAM, st)
       else let width = scalar_width yd (fst st) in
         dnn_async ln API_cudnnBatchNormalizationForwardTrainingEx
           ([F64 h, F32 mode, F32 ops, F32 (of_nat width), Sized (mem alpha width), Sized (mem beta width)]
            @ map F64 [xd, x, zd, z, yd, y, bnd, scale, bias] @ [F64 average] @ map F64 [running_mean, running_var]
            @ [F64 epsilon] @ map F64 [save_mean, save_inv_var, act, workspace] @ [F64 workspace_size, F64 reserve, F64 reserve_size]) st)"

definition cudnnBatchNormalizationBackwardEx :: "host_mem \<Rightarrow> 'c link \<Rightarrow> u64 \<Rightarrow> u32 \<Rightarrow> u32 \<Rightarrow> u64 \<Rightarrow> u64 \<Rightarrow> u64 \<Rightarrow> u64 \<Rightarrow> u64 \<Rightarrow> u64 \<Rightarrow> u64
    \<Rightarrow> u64 \<Rightarrow> u64 \<Rightarrow> u64 \<Rightarrow> u64 \<Rightarrow> u64 \<Rightarrow> u64 \<Rightarrow> u64 \<Rightarrow> u64 \<Rightarrow> u64 \<Rightarrow> u64 \<Rightarrow> u64 \<Rightarrow> u64 \<Rightarrow> u64 \<Rightarrow> u64 \<Rightarrow> u64 \<Rightarrow> u64 \<Rightarrow> u64 \<Rightarrow> u64 \<Rightarrow> u64 \<Rightarrow> u64 \<Rightarrow> ('c, u32) dnn_call" where
  "cudnnBatchNormalizationBackwardEx mem ln h mode ops alpha_data beta_data alpha_param beta_param xd x yd y dyd dy dzd dz dxd dx
       dbnd scale bias dscale dbias epsilon saved_mean saved_inv_var act workspace workspace_size reserve reserve_size =
     on_dnn (dnn_computes h) (\<lambda>st.
       if alpha_data = 0 \<or> beta_data = 0 \<or> alpha_param = 0 \<or> beta_param = 0 then (CUDNN_STATUS_BAD_PARAM, st)
       else let width = scalar_width dxd (fst st) in
         dnn_async ln API_cudnnBatchNormalizationBackwardEx
           ([F64 h, F32 mode, F32 ops, F32 (of_nat width)]
            @ map (\<lambda>p. Sized (mem p width)) [alpha_data, beta_data, alpha_param, beta_param]
            @ map F64 [xd, x, yd, y, dyd, dy, dzd, dz, dxd, dx, dbnd, scale, bias, dscale, dbias] @ [F64 epsilon]
            @ map F64 [saved_mean, saved_inv_var, act, workspace] @ [F64 workspace_size, F64 reserve, F64 reserve_size]) st)"

section \<open>The server\<close>

text \<open>What the values a client made up stand for, of the thread that serves it, beside the rest.\<close>

record 'd dn_sv =
  dh_handles :: "u64 \<rightharpoonup> u64"
  dh_sv :: "'d sv"

type_synonym 'd dnn_handler = "'d dn_sv lib_step"

text \<open>A failure also marks the frame, for the sake of a call that does not wait.\<close>

definition dnn_answer :: "u32 \<Rightarrow> 'd dnn_handler" where
  "dnn_answer st req rsp s = ((if st = 0 then CUDA_SUCCESS else CUDA_ERROR_UNKNOWN), req, put_status st rsp, s)"

abbreviation "dnn_bad \<equiv> dnn_answer CUDNN_STATUS_BAD_PARAM"

definition dnn_status_and :: "(lib_arg list \<Rightarrow> buffer \<Rightarrow> buffer) \<Rightarrow> u32 \<Rightarrow> lib_arg list \<Rightarrow> 'd dnn_handler" where
  "dnn_status_and put st outs req rsp s = (if st = 0 then (CUDA_SUCCESS, req, put outs (put_status st rsp), s) else dnn_answer st req rsp s)"

definition dnn_run :: "'d maths \<Rightarrow> string \<Rightarrow> lib_arg list \<Rightarrow> (u32 \<Rightarrow> lib_arg list \<Rightarrow> 'd dnn_handler) \<Rightarrow> 'd dnn_handler" where
  "dnn_run lib name as k req rsp s = (case ml_call lib name as (sv_world (dh_sv s)) of
     ((st, outs), w) \<Rightarrow> k st outs req rsp (s\<lparr> dh_sv := (dh_sv s)\<lparr> sv_world := w \<rparr> \<rparr>))"

definition dnn_call :: "'d maths \<Rightarrow> string \<Rightarrow> lib_arg list \<Rightarrow> 'd dnn_handler" where
  "dnn_call lib name as = dnn_run lib name as (\<lambda>st outs. dnn_answer st)"

text \<open>A value made up by the client stands for its descriptor, if it has one; any other for itself.\<close>

definition resolve :: "(u64 \<rightharpoonup> u64) \<Rightarrow> u64 \<Rightarrow> u64 option" where
  "resolve hs v = (if minted v then hs v else Some v)"

fun resolve_all :: "(u64 \<rightharpoonup> u64) \<Rightarrow> u64 list \<Rightarrow> u64 list option" where
  "resolve_all hs [] = Some []"
| "resolve_all hs (v # vs) = (case resolve hs v of None \<Rightarrow> None
     | Some p \<Rightarrow> (case resolve_all hs vs of None \<Rightarrow> None | Some ps \<Rightarrow> Some (p # ps)))"

fun read_raws :: "nat \<Rightarrow> buffer \<Rightarrow> u64 list option \<times> buffer" where
  "read_raws 0 b = (Some [], b)"
| "read_raws (Suc n) b = (case buf_get 8 b of (None, b1) \<Rightarrow> (None, b1) | (Some v, b1) \<Rightarrow>
     (case read_raws n b1 of (None, b2) \<Rightarrow> (None, b2) | (Some vs, b2) \<Rightarrow> (Some (v # vs), b2)))"

text \<open>Several pointers in a row are all read before any of them counts.\<close>

definition dnn_ptrs :: "nat \<Rightarrow> (u64 list \<Rightarrow> 'd dnn_handler) \<Rightarrow> 'd dnn_handler" where
  "dnn_ptrs n k = lib_take dnn_bad (read_raws n) (\<lambda>vs req rsp s.
     (case resolve_all (dh_handles s) vs of None \<Rightarrow> dnn_bad req rsp s | Some ps \<Rightarrow> k ps req rsp s))"

definition dnn_ptr :: "(u64 \<Rightarrow> 'd dnn_handler) \<Rightarrow> 'd dnn_handler" where
  "dnn_ptr k = dnn_ptrs 1 (\<lambda>ps. k (hd ps))"

abbreviation "dnn32 \<equiv> arg32 dnn_bad"
abbreviation "dnn64 \<equiv> arg64 dnn_bad"

definition dnn_need_fn :: "'d maths \<Rightarrow> string \<Rightarrow> 'd dnn_handler \<Rightarrow> 'd dnn_handler" where
  "dnn_need_fn lib name = lib_need lib name dnn_bad"

definition dnn_put_long :: "lib_arg list \<Rightarrow> buffer \<Rightarrow> buffer" where
  "dnn_put_long outs = buf_put 8 (wrote_long 0 outs)"

definition handle_cudnnCreate :: "'d driver \<Rightarrow> 'd maths \<Rightarrow> 'd dnn_handler" where
  "handle_cudnnCreate drv lib = lib_need lib ''cudnnCreate'' (dnn_answer CUDNN_STATUS_NOT_INITIALIZED) (\<lambda>req rsp s.
     (case take_stamp drv (dh_sv s) of (made, s1) \<Rightarrow>
        dnn_run lib ''cudnnCreate'' [] (\<lambda>st outs req rsp s2.
          dnn_status_and dnn_put_long st outs req rsp
            (if st = 0 then s2\<lparr> dh_sv := on_inv (inventory_note_handle (wrote_long 0 outs)
                 \<lparr> lh_made = made, lh_what = ''cuDNN'', lh_destroy = Some 3 \<rparr>) (dh_sv s2) \<rparr> else s2))
          req rsp (s\<lparr> dh_sv := s1 \<rparr>)))"

definition handle_cudnnDestroy :: "'d maths \<Rightarrow> 'd dnn_handler" where
  "handle_cudnnDestroy lib = dnn_ptr (\<lambda>h. dnn_need_fn lib ''cudnnDestroy'' (dnn_run lib ''cudnnDestroy'' [Ptr h] (\<lambda>st outs req rsp s.
     dnn_answer st req rsp (if st = 0 then s\<lparr> dh_sv := on_inv (inventory_forget_handle h) (dh_sv s) \<rparr> else s))))"

definition handle_cudnnSetStream :: "'d maths \<Rightarrow> 'd dnn_handler" where
  "handle_cudnnSetStream lib = dnn_ptrs 2 (\<lambda>ps. dnn_need_fn lib ''cudnnSetStream'' (dnn_call lib ''cudnnSetStream'' (map Ptr ps)))"

definition handle_cudnnGetStream :: "'d maths \<Rightarrow> 'd dnn_handler" where
  "handle_cudnnGetStream lib = dnn_ptr (\<lambda>h. dnn_need_fn lib ''cudnnGetStream''
     (dnn_run lib ''cudnnGetStream'' [Ptr h] (dnn_status_and dnn_put_long)))"

text \<open>A function that only returns a number.\<close>

definition handle_number :: "u32 \<Rightarrow> 'd maths \<Rightarrow> string \<Rightarrow> 'd dnn_handler" where
  "handle_number missing lib name = lib_need lib name (dnn_answer missing)
     (dnn_run lib name [] (\<lambda>st. dnn_status_and dnn_put_long 0))"

definition handle_cudnnGetVersion :: "'d maths \<Rightarrow> 'd dnn_handler" where
  "handle_cudnnGetVersion lib = handle_number CUDNN_STATUS_NOT_INITIALIZED lib ''cudnnGetVersion''"

definition handle_cudnnGetCudartVersion :: "'d maths \<Rightarrow> 'd dnn_handler" where
  "handle_cudnnGetCudartVersion lib = handle_number CUDNN_STATUS_NOT_INITIALIZED lib ''cudnnGetCudartVersion''"

definition handle_cudnnGetMaxDeviceVersion :: "'d maths \<Rightarrow> 'd dnn_handler" where
  "handle_cudnnGetMaxDeviceVersion lib = handle_number CUDNN_STATUS_NOT_SUPPORTED lib ''cudnnGetMaxDeviceVersion''"

text \<open>The buffer is never empty, never more than 4096 bytes, and ends in a terminator.\<close>

definition handle_cudnnGetLastErrorString :: "'d maths \<Rightarrow> 'd dnn_handler" where
  "handle_cudnnGetLastErrorString lib = lib_need lib ''cudnnGetLastErrorString'' (dnn_answer CUDNN_STATUS_NOT_SUPPORTED)
     (arg64 (dnn_answer CUDNN_STATUS_NOT_SUPPORTED) (\<lambda>max_size.
       let n = max 1 (min (unat max_size) 4096) in
       dnn_run lib ''cudnnGetLastErrorString'' [I64 (of_nat n)] (\<lambda>st. dnn_status_and (\<lambda>outs.
         put_sized (takeWhile (\<lambda>b. b \<noteq> 0) (butlast (filled n 0 outs)))) 0)))"

definition handle_cudnnGetProperty :: "'d maths \<Rightarrow> 'd dnn_handler" where
  "handle_cudnnGetProperty lib = dnn_need_fn lib ''cudnnGetProperty'' (dnn32 (\<lambda>ty.
     dnn_run lib ''cudnnGetProperty'' [I32 ty] (dnn_status_and (\<lambda>outs. buf_put 4 (wrote_int 0 outs)))))"

section \<open>Descriptors\<close>

text \<open>A descriptor the library made, under the value the client made up for it.\<close>

definition dnn_make :: "'d maths \<Rightarrow> string \<Rightarrow> lib_arg list \<Rightarrow> u64 \<Rightarrow> 'd dnn_handler" where
  "dnn_make lib name as h = (if \<not> minted h then dnn_bad else dnn_run lib name as (\<lambda>st outs req rsp s.
     dnn_answer st req rsp (if st = 0 then s\<lparr> dh_handles := (dh_handles s)(h \<mapsto> wrote_long 0 outs) \<rparr> else s)))"

definition handle_cudnnBackendCreateDescriptor :: "'d maths \<Rightarrow> 'd dnn_handler" where
  "handle_cudnnBackendCreateDescriptor lib = dnn_need_fn lib ''cudnnBackendCreateDescriptor''
     (dnn32 (\<lambda>ty. dnn64 (\<lambda>h. dnn_make lib ''cudnnBackendCreateDescriptor'' [I32 ty] h)))"

text \<open>A call on one descriptor, given the value it came under.\<close>

definition on_descriptor :: "'d maths \<Rightarrow> string \<Rightarrow> (u64 \<Rightarrow> u64 \<Rightarrow> 'd dnn_handler) \<Rightarrow> 'd dnn_handler" where
  "on_descriptor lib name k = dnn64 (\<lambda>h req rsp s. (case resolve (dh_handles s) h of
       None \<Rightarrow> dnn_bad req rsp s
     | Some d \<Rightarrow> dnn_need_fn lib name (k h d) req rsp s))"

text \<open>The entry goes whatever the library said.\<close>

definition dnn_unmake :: "'d maths \<Rightarrow> string \<Rightarrow> 'd dnn_handler" where
  "dnn_unmake lib name = on_descriptor lib name (\<lambda>h d. dnn_run lib name [Ptr d] (\<lambda>st outs req rsp s.
     dnn_answer st req rsp (s\<lparr> dh_handles := (dh_handles s)(h := None) \<rparr>)))"

definition handle_cudnnBackendDestroyDescriptor :: "'d maths \<Rightarrow> 'd dnn_handler" where
  "handle_cudnnBackendDestroyDescriptor lib = dnn_unmake lib ''cudnnBackendDestroyDescriptor''"

definition handle_cudnnBackendInitialize :: "'d maths \<Rightarrow> 'd dnn_handler" where
  "handle_cudnnBackendInitialize lib = on_descriptor lib ''cudnnBackendInitialize'' (\<lambda>h d.
     dnn_call lib ''cudnnBackendInitialize'' [Ptr d])"

definition handle_cudnnBackendFinalize :: "'d maths \<Rightarrow> 'd dnn_handler" where
  "handle_cudnnBackendFinalize lib = on_descriptor lib ''cudnnBackendFinalize'' (\<lambda>h d.
     dnn_call lib ''cudnnBackendFinalize'' [Ptr d])"

definition kMaxElements :: int where "kMaxElements = 2 ^ 20"

text \<open>An array of values of eight bytes, and back.\<close>

fun words_of :: "nat \<Rightarrow> byte list \<Rightarrow> u64 list" where
  "words_of 0 bs = []"
| "words_of (Suc n) bs = le_dec (take 8 bs) # words_of n (drop 8 bs)"

definition resolve_descriptors :: "(u64 \<rightharpoonup> u64) \<Rightarrow> byte list \<Rightarrow> byte list option" where
  "resolve_descriptors hs bs = (if length bs mod 8 \<noteq> 0 then None
     else map_option (\<lambda>ps. concat (map (le_enc 8) ps)) (resolve_all hs (words_of (length bs div 8) bs)))"

text \<open>The elements of an attribute: as many bytes as the count and the type say, and descriptors in the
  place of the values they came under.\<close>

definition dnn_elements :: "types \<Rightarrow> u32 \<Rightarrow> u64 \<Rightarrow> (byte list \<Rightarrow> byte list \<Rightarrow> 'd dnn_handler) \<Rightarrow> 'd dnn_handler" where
  "dnn_elements types ty count k = lib_take dnn_bad get_sized (\<lambda>bs req rsp s.
     (if length bs \<noteq> unat count * cudnn_element_size (types ty) then dnn_bad req rsp s
      else if types ty = TYPE_BACKEND_DESCRIPTOR then
        (case resolve_descriptors (dh_handles s) bs of None \<Rightarrow> dnn_bad req rsp s | Some real \<Rightarrow> k bs real req rsp s)
      else k bs bs req rsp s))"

definition handle_cudnnBackendSetAttribute :: "types \<Rightarrow> 'd maths \<Rightarrow> 'd dnn_handler" where
  "handle_cudnnBackendSetAttribute types lib = dnn_ptr (\<lambda>d. dnn_need_fn lib ''cudnnBackendSetAttribute''
     (dnn32 (\<lambda>name. dnn32 (\<lambda>ty. dnn64 (\<lambda>count. arg8 dnn_bad (\<lambda>present.
       if sint count < 0 \<or> sint count > kMaxElements then dnn_bad
       else if present = 0 then dnn_call lib ''cudnnBackendSetAttribute'' [Ptr d, I32 name, I32 ty, I64 count, Bytes None]
       else dnn_elements types ty count (\<lambda>sent real.
         dnn_call lib ''cudnnBackendSetAttribute'' [Ptr d, I32 name, I32 ty, I64 count, Bytes (Some real)])))))))"

text \<open>What comes back of an attribute: the count if it was asked for, and what the library left in the
  array, or for descriptors the values that were sent.\<close>

definition put_attribute :: "types \<Rightarrow> u32 \<Rightarrow> bool \<Rightarrow> (byte list \<times> byte list) option \<Rightarrow> lib_arg list \<Rightarrow> buffer \<Rightarrow> buffer" where
  "put_attribute types ty want elems outs rsp =
     (let rsp1 = (if want then buf_put 8 (wrote_long 0 outs) rsp else rsp) in
      case elems of None \<Rightarrow> rsp1
      | Some (sent, real) \<Rightarrow> put_sized (if types ty = TYPE_BACKEND_DESCRIPTOR then sent else overwritten real 1 outs) rsp1)"

definition handle_cudnnBackendGetAttribute :: "types \<Rightarrow> 'd maths \<Rightarrow> 'd dnn_handler" where
  "handle_cudnnBackendGetAttribute types lib = dnn_ptr (\<lambda>d. dnn_need_fn lib ''cudnnBackendGetAttribute''
     (dnn32 (\<lambda>name. dnn32 (\<lambda>ty. dnn64 (\<lambda>requested. arg8 dnn_bad (\<lambda>want. arg8 dnn_bad (\<lambda>has.
       if sint requested < 0 \<or> sint requested > kMaxElements then dnn_bad
       else if has = 0 then dnn_run lib ''cudnnBackendGetAttribute''
           [Ptr d, I32 name, I32 ty, I64 requested, I32 (if want = 0 then 0 else 1), Bytes None]
           (dnn_status_and (put_attribute types ty (want \<noteq> 0) None))
       else dnn_elements types ty requested (\<lambda>sent real.
         dnn_run lib ''cudnnBackendGetAttribute''
           [Ptr d, I32 name, I32 ty, I64 requested, I32 (if want = 0 then 0 else 1), Bytes (if real = [] then None else Some real)]
           (dnn_status_and (put_attribute types ty (want \<noteq> 0) (Some (sent, real))))))))))))"

definition handle_cudnnBackendExecute :: "'d maths \<Rightarrow> 'd dnn_handler" where
  "handle_cudnnBackendExecute lib = dnn_ptrs 3 (\<lambda>ps. dnn_need_fn lib ''cudnnBackendExecute''
     (dnn_call lib ''cudnnBackendExecute'' (map Ptr ps)))"

definition handle_cudnnCreateTensorDescriptor :: "'d maths \<Rightarrow> 'd dnn_handler" where
  "handle_cudnnCreateTensorDescriptor lib = dnn64 (\<lambda>h. dnn_need_fn lib ''cudnnCreateTensorDescriptor''
     (dnn_make lib ''cudnnCreateTensorDescriptor'' [] h))"

definition handle_cudnnDestroyTensorDescriptor :: "'d maths \<Rightarrow> 'd dnn_handler" where
  "handle_cudnnDestroyTensorDescriptor lib = dnn_unmake lib ''cudnnDestroyTensorDescriptor''"

definition handle_cudnnSetTensorNdDescriptor :: "'d maths \<Rightarrow> 'd dnn_handler" where
  "handle_cudnnSetTensorNdDescriptor lib = dnn_ptr (\<lambda>d. dnn_need_fn lib ''cudnnSetTensorNdDescriptor''
     (dnn32 (\<lambda>ty. dnn32 (\<lambda>nb. lib_take dnn_bad get_sized (\<lambda>dims. lib_take dnn_bad get_sized (\<lambda>strides.
       if sint nb \<le> 0 \<or> sint nb > CUDNN_DIM_MAX \<or> length dims \<noteq> unat nb * 4 \<or> length strides \<noteq> length dims then dnn_bad
       else dnn_call lib ''cudnnSetTensorNdDescriptor'' [Ptr d, I32 ty, I32 nb, Bytes (Some dims), Bytes (Some strides)]))))))"

definition handle_cudnnGetTensorNdDescriptor :: "'d maths \<Rightarrow> 'd dnn_handler" where
  "handle_cudnnGetTensorNdDescriptor lib = dnn_ptr (\<lambda>d. dnn_need_fn lib ''cudnnGetTensorNdDescriptor'' (dnn32 (\<lambda>requested.
     if sint requested \<le> 0 \<or> sint requested > CUDNN_DIM_MAX then dnn_bad
     else dnn_run lib ''cudnnGetTensorNdDescriptor'' [Ptr d, I32 requested] (dnn_status_and (\<lambda>outs rsp.
       put_sized (filled (unat requested * 4) 3 outs) (put_sized (filled (unat requested * 4) 2 outs)
         (buf_put 4 (wrote_int 1 outs) (buf_put 4 (wrote_int 0 outs) rsp))))))))"

definition handle_cudnnDeriveBNTensorDescriptor :: "'d maths \<Rightarrow> 'd dnn_handler" where
  "handle_cudnnDeriveBNTensorDescriptor lib = dnn_ptrs 2 (\<lambda>ps. dnn_need_fn lib ''cudnnDeriveBNTensorDescriptor'' (dnn32 (\<lambda>mode.
     dnn_call lib ''cudnnDeriveBNTensorDescriptor'' (map Ptr ps @ [I32 mode]))))"

definition handle_cudnnCreateActivationDescriptor :: "'d maths \<Rightarrow> 'd dnn_handler" where
  "handle_cudnnCreateActivationDescriptor lib = dnn64 (\<lambda>h. dnn_need_fn lib ''cudnnCreateActivationDescriptor''
     (dnn_make lib ''cudnnCreateActivationDescriptor'' [] h))"

definition handle_cudnnSetActivationDescriptor :: "'d maths \<Rightarrow> 'd dnn_handler" where
  "handle_cudnnSetActivationDescriptor lib = dnn_ptr (\<lambda>d. dnn_need_fn lib ''cudnnSetActivationDescriptor''
     (dnn32 (\<lambda>mode. dnn32 (\<lambda>nan_opt. dnn64 (\<lambda>coef.
       dnn_call lib ''cudnnSetActivationDescriptor'' [Ptr d, I32 mode, I32 nan_opt, I64 coef])))))"

definition handle_cudnnDestroyActivationDescriptor :: "'d maths \<Rightarrow> 'd dnn_handler" where
  "handle_cudnnDestroyActivationDescriptor lib = dnn_unmake lib ''cudnnDestroyActivationDescriptor''"

section \<open>Batch normalisation on the server\<close>

text \<open>The eight bytes of a scalar's union: what came, and zeros.\<close>

definition scalar_union :: "byte list \<Rightarrow> scalar" where
  "scalar_union bs = Value (take 8 (bs @ replicate 8 0))"

text \<open>A width and two scalars of it.\<close>

definition dnn_scalars :: "(byte list \<Rightarrow> byte list \<Rightarrow> 'd dnn_handler) \<Rightarrow> 'd dnn_handler" where
  "dnn_scalars k = dnn32 (\<lambda>width. lib_take dnn_bad get_sized (\<lambda>alpha. lib_take dnn_bad get_sized (\<lambda>beta.
     if length alpha \<noteq> unat width \<or> length beta \<noteq> unat width \<or> width \<noteq> 4 \<and> width \<noteq> 8 then dnn_bad else k alpha beta)))"

definition handle_cudnnBatchNormalizationForwardInference :: "'d maths \<Rightarrow> 'd dnn_handler" where
  "handle_cudnnBatchNormalizationForwardInference lib = dnn_ptr (\<lambda>h.
     dnn_need_fn lib ''cudnnBatchNormalizationForwardInference'' (dnn32 (\<lambda>mode. dnn_scalars (\<lambda>alpha beta.
       dnn_ptrs 9 (\<lambda>ps. dnn64 (\<lambda>epsilon.
         dnn_call lib ''cudnnBatchNormalizationForwardInference''
           ([Ptr h, I32 mode, Scalar (scalar_union alpha), Scalar (scalar_union beta)] @ map Ptr ps @ [I64 epsilon])))))))"

text \<open>The three size queries: the number of descriptors comes with them, and has to be the call's.\<close>

definition handle_size_query :: "'d maths \<Rightarrow> string \<Rightarrow> nat \<Rightarrow> (u64 \<Rightarrow> u64 list \<Rightarrow> lib_arg list) \<Rightarrow> 'd dnn_handler" where
  "handle_size_query lib name n args = dnn_ptr (\<lambda>h. dnn32 (\<lambda>mode. dnn32 (\<lambda>ops. dnn_ptr (\<lambda>act. dnn32 (\<lambda>count.
     if count > 8 then dnn_bad else dnn_ptrs (unat count) (\<lambda>ds.
       if ml_has lib name \<and> unat count = n
       then dnn_run lib name ([Ptr h, I32 mode, I32 ops] @ args act ds) (dnn_status_and dnn_put_long)
       else dnn_answer CUDNN_STATUS_NOT_SUPPORTED))))))"

definition handle_cudnnGetBatchNormalizationForwardTrainingExWorkspaceSize :: "'d maths \<Rightarrow> 'd dnn_handler" where
  "handle_cudnnGetBatchNormalizationForwardTrainingExWorkspaceSize lib =
     handle_size_query lib ''cudnnGetBatchNormalizationForwardTrainingExWorkspaceSize'' 4 (\<lambda>act ds. map Ptr ds @ [Ptr act])"

definition handle_cudnnGetBatchNormalizationBackwardExWorkspaceSize :: "'d maths \<Rightarrow> 'd dnn_handler" where
  "handle_cudnnGetBatchNormalizationBackwardExWorkspaceSize lib =
     handle_size_query lib ''cudnnGetBatchNormalizationBackwardExWorkspaceSize'' 6 (\<lambda>act ds. map Ptr ds @ [Ptr act])"

definition handle_cudnnGetBatchNormalizationTrainingExReserveSpaceSize :: "'d maths \<Rightarrow> 'd dnn_handler" where
  "handle_cudnnGetBatchNormalizationTrainingExReserveSpaceSize lib =
     handle_size_query lib ''cudnnGetBatchNormalizationTrainingExReserveSpaceSize'' 1 (\<lambda>act ds. Ptr act # map Ptr ds)"

text \<open>The end both training calls share.\<close>

definition dnn_spaces :: "(u64 list \<Rightarrow> u64 \<Rightarrow> u64 \<Rightarrow> u64 \<Rightarrow> 'd dnn_handler) \<Rightarrow> 'd dnn_handler" where
  "dnn_spaces k = dnn_ptrs 4 (\<lambda>ps. dnn64 (\<lambda>workspace_size. dnn_ptr (\<lambda>reserve. dnn64 (\<lambda>reserve_size. k ps workspace_size reserve reserve_size))))"

definition handle_cudnnBatchNormalizationForwardTrainingEx :: "'d maths \<Rightarrow> 'd dnn_handler" where
  "handle_cudnnBatchNormalizationForwardTrainingEx lib = dnn_ptr (\<lambda>h.
     dnn_need_fn lib ''cudnnBatchNormalizationForwardTrainingEx'' (dnn32 (\<lambda>mode. dnn32 (\<lambda>ops. dnn_scalars (\<lambda>alpha beta.
       dnn_ptrs 9 (\<lambda>ps. dnn64 (\<lambda>average. dnn_ptrs 2 (\<lambda>running. dnn64 (\<lambda>epsilon. dnn_spaces (\<lambda>saved workspace_size reserve reserve_size.
         dnn_call lib ''cudnnBatchNormalizationForwardTrainingEx''
           ([Ptr h, I32 mode, I32 ops, Scalar (scalar_union alpha), Scalar (scalar_union beta)] @ map Ptr ps @ [I64 average]
            @ map Ptr running @ [I64 epsilon] @ map Ptr saved @ [I64 workspace_size, Ptr reserve, I64 reserve_size])))))))))))"

fun read_scalars :: "nat \<Rightarrow> nat \<Rightarrow> buffer \<Rightarrow> byte list list option \<times> buffer" where
  "read_scalars 0 width b = (Some [], b)"
| "read_scalars (Suc n) width b = (case get_sized b of (None, b1) \<Rightarrow> (None, b1) | (Some bs, b1) \<Rightarrow>
     (if length bs \<noteq> width then (None, b1)
      else case read_scalars n width b1 of (None, b2) \<Rightarrow> (None, b2) | (Some bss, b2) \<Rightarrow> (Some (bs # bss), b2)))"

definition handle_cudnnBatchNormalizationBackwardEx :: "'d maths \<Rightarrow> 'd dnn_handler" where
  "handle_cudnnBatchNormalizationBackwardEx lib = dnn_ptr (\<lambda>h.
     dnn_need_fn lib ''cudnnBatchNormalizationBackwardEx'' (dnn32 (\<lambda>mode. dnn32 (\<lambda>ops. dnn32 (\<lambda>width.
       if width \<noteq> 4 \<and> width \<noteq> 8 then dnn_bad
       else lib_take dnn_bad (read_scalars 4 (unat width)) (\<lambda>scalars.
         dnn_ptrs 15 (\<lambda>ps. dnn64 (\<lambda>epsilon. dnn_spaces (\<lambda>saved workspace_size reserve reserve_size.
           dnn_call lib ''cudnnBatchNormalizationBackwardEx''
             ([Ptr h, I32 mode, I32 ops] @ map (\<lambda>bs. Scalar (scalar_union bs)) scalars @ map Ptr ps @ [I64 epsilon]
              @ map Ptr saved @ [I64 workspace_size, Ptr reserve, I64 reserve_size]))))))))))"

definition cudnn_cases :: "types \<Rightarrow> 'd driver \<Rightarrow> 'd maths \<Rightarrow> (u32 \<times> 'd dnn_handler) list" where
  "cudnn_cases types drv lib =
     [(API_cudnnCreate, handle_cudnnCreate drv lib),
      (API_cudnnDestroy, handle_cudnnDestroy lib),
      (API_cudnnSetStream, handle_cudnnSetStream lib),
      (API_cudnnGetStream, handle_cudnnGetStream lib),
      (API_cudnnGetVersion, handle_cudnnGetVersion lib),
      (API_cudnnGetCudartVersion, handle_cudnnGetCudartVersion lib),
      (API_cudnnGetProperty, handle_cudnnGetProperty lib),
      (API_cudnnGetLastErrorString, handle_cudnnGetLastErrorString lib),
      (API_cudnnGetMaxDeviceVersion, handle_cudnnGetMaxDeviceVersion lib),
      (API_cudnnBackendCreateDescriptor, handle_cudnnBackendCreateDescriptor lib),
      (API_cudnnBackendDestroyDescriptor, handle_cudnnBackendDestroyDescriptor lib),
      (API_cudnnBackendInitialize, handle_cudnnBackendInitialize lib),
      (API_cudnnBackendFinalize, handle_cudnnBackendFinalize lib),
      (API_cudnnBackendSetAttribute, handle_cudnnBackendSetAttribute types lib),
      (API_cudnnBackendGetAttribute, handle_cudnnBackendGetAttribute types lib),
      (API_cudnnBackendExecute, handle_cudnnBackendExecute lib),
      (API_cudnnCreateTensorDescriptor, handle_cudnnCreateTensorDescriptor lib),
      (API_cudnnDestroyTensorDescriptor, handle_cudnnDestroyTensorDescriptor lib),
      (API_cudnnSetTensorNdDescriptor, handle_cudnnSetTensorNdDescriptor lib),
      (API_cudnnGetTensorNdDescriptor, handle_cudnnGetTensorNdDescriptor lib),
      (API_cudnnDeriveBNTensorDescriptor, handle_cudnnDeriveBNTensorDescriptor lib),
      (API_cudnnBatchNormalizationForwardInference, handle_cudnnBatchNormalizationForwardInference lib),
      (API_cudnnCreateActivationDescriptor, handle_cudnnCreateActivationDescriptor lib),
      (API_cudnnSetActivationDescriptor, handle_cudnnSetActivationDescriptor lib),
      (API_cudnnDestroyActivationDescriptor, handle_cudnnDestroyActivationDescriptor lib),
      (API_cudnnGetBatchNormalizationForwardTrainingExWorkspaceSize, handle_cudnnGetBatchNormalizationForwardTrainingExWorkspaceSize lib),
      (API_cudnnGetBatchNormalizationBackwardExWorkspaceSize, handle_cudnnGetBatchNormalizationBackwardExWorkspaceSize lib),
      (API_cudnnGetBatchNormalizationTrainingExReserveSpaceSize, handle_cudnnGetBatchNormalizationTrainingExReserveSpaceSize lib),
      (API_cudnnBatchNormalizationForwardTrainingEx, handle_cudnnBatchNormalizationForwardTrainingEx lib),
      (API_cudnnBatchNormalizationBackwardEx, handle_cudnnBatchNormalizationBackwardEx lib)]"

definition dispatch_cudnn :: "types \<Rightarrow> 'd driver \<Rightarrow> 'd maths \<Rightarrow> u32 \<Rightarrow> buffer \<Rightarrow> buffer \<Rightarrow> 'd dn_sv
    \<Rightarrow> (CUresult \<times> buffer \<times> buffer \<times> 'd dn_sv) option" where
  "dispatch_cudnn types drv lib api req rsp s =
     (if api < kCudnnBase \<or> api > kCudnnBase + 1000 then None
      else Some (case map_of (cudnn_cases types drv lib) api of
          Some h \<Rightarrow> h req rsp s
        | None \<Rightarrow> dnn_answer CUDNN_STATUS_NOT_SUPPORTED req rsp s))"

end
