(* ===== verification/CudnnLaws.thy ===== *)
theory CudnnLaws
  imports Cudnn MathsLaws
begin

text \<open>
  What the forwarding of cuDNN promises: a value the client made up never reaches the library; it stands
  for the descriptor that was made for it; the calls that compute are the library's own; and a failure
  of a call that was not waited for is reported by the next one that is.
\<close>

section \<open>Values the client made up\<close>

named_theorems alike_rules

text \<open>The table of a connection holds no value of a client.\<close>

definition table_real :: "'d dn_sv \<Rightarrow> bool" where
  "table_real s \<longleftrightarrow> (\<forall>v d. dh_handles s v = Some d \<longrightarrow> \<not> minted d)"

text \<open>A call of the library without any: no pointer is one, nor any element of an array of descriptors, of
  handles or of pointers. The type of an attribute's elements comes third.\<close>

definition real_elements :: "byte list \<Rightarrow> bool" where
  "real_elements bs \<longleftrightarrow> (\<forall>v \<in> set (words_of (length bs div 8) bs). \<not> minted v)"

definition element_type :: "types \<Rightarrow> string \<Rightarrow> lib_arg list \<Rightarrow> attr_type option" where
  "element_type types name as = (if name \<in> {''cudnnBackendSetAttribute'', ''cudnnBackendGetAttribute''}
     then (case as of d # n # I32 ty # rest \<Rightarrow> Some (types ty) | _ \<Rightarrow> None) else None)"

fun real_arg :: "attr_type option \<Rightarrow> lib_arg \<Rightarrow> bool" where
  "real_arg e (Ptr p) \<longleftrightarrow> \<not> minted p"
| "real_arg e (Bytes (Some bs)) \<longleftrightarrow>
     (e \<in> {Some TYPE_BACKEND_DESCRIPTOR, Some TYPE_HANDLE, Some TYPE_VOID_PTR} \<longrightarrow> real_elements bs)"
| "real_arg e _ \<longleftrightarrow> True"

definition untagged_call :: "types \<Rightarrow> string \<Rightarrow> lib_arg list \<Rightarrow> bool" where
  "untagged_call types name as \<longleftrightarrow> (\<forall>a \<in> set as. real_arg (element_type types name as) a)"

text \<open>The one kind of call the server does not look through: an attribute whose elements are handles or
  pointers, which it passes on as they came.\<close>

definition unresolved_array :: "types \<Rightarrow> string \<Rightarrow> lib_arg list \<Rightarrow> bool" where
  "unresolved_array types name as \<longleftrightarrow> element_type types name as \<in> {Some TYPE_HANDLE, Some TYPE_VOID_PTR}
     \<and> (\<forall>p. Ptr p \<in> set as \<longrightarrow> \<not> minted p)"

text \<open>Two libraries that only differ on calls with such a value, that kind apart, and give no descriptor that
  is one.\<close>

definition same_but_for_minted :: "types \<Rightarrow> 'd maths \<Rightarrow> 'd maths \<Rightarrow> bool" where
  "same_but_for_minted types lib lib' \<longleftrightarrow> ml_has lib = ml_has lib'
     \<and> (\<forall>name as w. untagged_call types name as \<or> unresolved_array types name as \<longrightarrow> ml_call lib name as w = ml_call lib' name as w)
     \<and> (\<forall>name as w st outs w'. ml_call lib name as w = ((st, outs), w') \<longrightarrow> \<not> minted (wrote_long 0 outs))"

text \<open>What the handlers see to, of both kinds of call: every pointer, and every descriptor of an array.\<close>

fun sifted_arg :: "bool \<Rightarrow> lib_arg \<Rightarrow> bool" where
  "sifted_arg descs (Ptr p) \<longleftrightarrow> \<not> minted p"
| "sifted_arg descs (Bytes (Some bs)) \<longleftrightarrow> (descs \<longrightarrow> real_elements bs)"
| "sifted_arg descs _ \<longleftrightarrow> True"

definition of_descriptors :: "types \<Rightarrow> string \<Rightarrow> lib_arg list \<Rightarrow> bool" where
  "of_descriptors types name as \<longleftrightarrow> name \<in> {''cudnnBackendSetAttribute'', ''cudnnBackendGetAttribute''}
     \<and> (case as of d # n # I32 ty # rest \<Rightarrow> types ty = TYPE_BACKEND_DESCRIPTOR | _ \<Rightarrow> False)"

definition sifted_call :: "types \<Rightarrow> string \<Rightarrow> lib_arg list \<Rightarrow> bool" where
  "sifted_call types name as \<longleftrightarrow> (\<forall>a \<in> set as. sifted_arg (of_descriptors types name as) a)"

lemma of_descriptors_element: "of_descriptors types name as \<longleftrightarrow> element_type types name as = Some TYPE_BACKEND_DESCRIPTOR"
  by (auto simp: of_descriptors_def element_type_def split: list.splits lib_arg.splits)

lemma sifted_arg_real: "e \<notin> {Some TYPE_HANDLE, Some TYPE_VOID_PTR} \<Longrightarrow> sifted_arg (e = Some TYPE_BACKEND_DESCRIPTOR) a = real_arg e a"
  by (cases "(e, a)" rule: real_arg.cases) auto

lemma sifted_arg_ptr: "sifted_arg False a \<longleftrightarrow> (\<forall>p. a = Ptr p \<longrightarrow> \<not> minted p)"
  by (cases "(False, a)" rule: sifted_arg.cases) auto

lemma sifted_calls: "sifted_call types name as \<longleftrightarrow> untagged_call types name as \<or> unresolved_array types name as"
proof (cases "element_type types name as \<in> {Some TYPE_HANDLE, Some TYPE_VOID_PTR}")
  case True
  then have "sifted_call types name as \<longleftrightarrow> unresolved_array types name as"
    by (auto simp: sifted_call_def of_descriptors_element unresolved_array_def sifted_arg_ptr)
  moreover have "unresolved_array types name as" if "untagged_call types name as"
    using that True by (fastforce simp: untagged_call_def unresolved_array_def)
  ultimately show ?thesis by blast
next
  case False
  then show ?thesis
    by (simp add: sifted_call_def untagged_call_def unresolved_array_def of_descriptors_element sifted_arg_real)
qed

lemma same_on_sifted: "same_but_for_minted types lib lib' \<Longrightarrow> sifted_call types name as \<Longrightarrow> ml_call lib name as w = ml_call lib' name as w"
  unfolding same_but_for_minted_def sifted_calls by blast

text \<open>Two handlers that do the same on a table without such values, and leave one.\<close>

definition alike :: "'d dnn_handler \<Rightarrow> 'd dnn_handler \<Rightarrow> bool" where
  "alike k k' \<longleftrightarrow> (\<forall>req rsp s. table_real s \<longrightarrow> k req rsp s = k' req rsp s \<and> table_real (snd (snd (snd (k' req rsp s)))))"

lemma alikeD: "alike k k' \<Longrightarrow> table_real s \<Longrightarrow> k req rsp s = k' req rsp s"
  by (simp add: alike_def)

lemma alike_real: "alike k k' \<Longrightarrow> table_real s \<Longrightarrow> k req rsp s = (r, req', rsp', s') \<Longrightarrow> table_real s'"
  by (metis alike_def snd_conv)

lemma table_real_sv [simp]: "table_real (s\<lparr> dh_sv := x \<rparr>) = table_real s"
  by (simp add: table_real_def)

lemma alike_answer [alike_rules]: "alike (dnn_answer st) (dnn_answer st)"
  by (simp add: alike_def dnn_answer_def)

lemma alike_status_and [alike_rules]: "alike (dnn_status_and put st outs) (dnn_status_and put st outs)"
  by (simp add: alike_def dnn_status_and_def dnn_answer_def)

lemma alike_take [alike_rules]:
  "alike bad bad' \<Longrightarrow> (\<And>v. alike (k v) (k' v)) \<Longrightarrow> alike (lib_take bad get k) (lib_take bad' get k')"
  by (simp add: alike_def lib_take_def split: prod.split option.split)

lemma alike_args [alike_rules]:
  "alike bad bad' \<Longrightarrow> (\<And>v. alike (k8 v) (k8' v)) \<Longrightarrow> alike (arg8 bad k8) (arg8 bad' k8')"
  "alike bad bad' \<Longrightarrow> (\<And>v. alike (k32 v) (k32' v)) \<Longrightarrow> alike (arg32 bad k32) (arg32 bad' k32')"
  "alike bad bad' \<Longrightarrow> (\<And>v. alike (k64 v) (k64' v)) \<Longrightarrow> alike (arg64 bad k64) (arg64 bad' k64')"
  by (simp_all add: arg8_def arg32_def arg64_def alike_take)

lemma alike_if [alike_rules]:
  "(c \<Longrightarrow> alike a a') \<Longrightarrow> (\<not> c \<Longrightarrow> alike b b') \<Longrightarrow> alike (if c then a else b) (if c then a' else b')"
  by simp

lemma alike_need [alike_rules]:
  "ml_has lib = ml_has lib' \<Longrightarrow> alike bad bad' \<Longrightarrow> alike k k' \<Longrightarrow> alike (lib_need lib name bad k) (lib_need lib' name bad' k')"
  by (simp add: lib_need_def)

lemma alike_need_fn [alike_rules]:
  "ml_has lib = ml_has lib' \<Longrightarrow> alike k k' \<Longrightarrow> alike (dnn_need_fn lib name k) (dnn_need_fn lib' name k')"
  by (simp add: dnn_need_fn_def alike_need alike_answer)

text \<open>Lookups give no such value.\<close>

lemma resolve_real: "table_real s \<Longrightarrow> resolve (dh_handles s) v = Some p \<Longrightarrow> \<not> minted p"
  by (auto simp: resolve_def table_real_def split: if_splits)

lemma resolve_all_real: "table_real s \<Longrightarrow> resolve_all (dh_handles s) vs = Some ps \<Longrightarrow> \<forall>p \<in> set ps. \<not> minted p"
  by (induction vs arbitrary: ps) (auto split: option.splits dest: resolve_real)

lemma resolve_all_length: "resolve_all hs vs = Some ps \<Longrightarrow> length ps = length vs"
  by (induction vs arbitrary: ps) (auto split: option.splits)

lemma read_raws_length: "read_raws n b = (Some vs, b') \<Longrightarrow> length vs = n"
  by (induction n arbitrary: b vs b') (auto split: prod.splits option.splits)

lemma alike_ptrs [alike_rules]:
  assumes "\<And>ps. \<forall>p \<in> set ps. \<not> minted p \<Longrightarrow> length ps = n \<Longrightarrow> alike (k ps) (k' ps)"
  shows "alike (dnn_ptrs n k) (dnn_ptrs n k')"
  unfolding alike_def
proof (intro allI impI)
  fix req rsp and s :: "'a dn_sv"
  assume s: "table_real s"
  show "dnn_ptrs n k req rsp s = dnn_ptrs n k' req rsp s \<and> table_real (snd (snd (snd (dnn_ptrs n k' req rsp s))))"
  proof (cases "read_raws n req")
    case (Pair vs req1)
    show ?thesis
    proof (cases vs)
      case None
      then show ?thesis using s by (simp add: dnn_ptrs_def lib_take_def Pair dnn_answer_def)
    next
      case (Some raws)
      show ?thesis
      proof (cases "resolve_all (dh_handles s) raws")
        case None
        then show ?thesis using s by (simp add: dnn_ptrs_def lib_take_def Pair Some dnn_answer_def)
      next
        case (Some ps)
        have "length ps = n" using resolve_all_length [OF Some] read_raws_length Pair \<open>vs = Some raws\<close> by simp
        from assms [OF resolve_all_real [OF s Some] this] show ?thesis
          using s by (simp add: dnn_ptrs_def lib_take_def Pair \<open>vs = Some raws\<close> Some alike_def)
      qed
    qed
  qed
qed

lemma alike_ptr [alike_rules]:
  assumes "\<And>p. \<not> minted p \<Longrightarrow> alike (k p) (k' p)"
  shows "alike (dnn_ptr k) (dnn_ptr k')"
  unfolding dnn_ptr_def
proof (rule alike_ptrs)
  fix ps :: "u64 list"
  assume "\<forall>p \<in> set ps. \<not> minted p" and "length ps = 1"
  then show "alike (k (hd ps)) (k' (hd ps))" using assms by (cases ps) auto
qed

lemma words_of_pointers: "words_of (length (concat (map (le_enc 8) ps)) div 8) (concat (map (le_enc 8) ps)) = (ps :: u64 list)"
proof (induction ps)
  case (Cons p ps)
  have "(8 + n) div 8 = Suc (n div 8)" for n :: nat by simp
  with Cons show ?case by simp
qed simp

lemma alike_run:
  assumes "same_but_for_minted types lib lib'" and "sifted_call types name as" and "\<And>st outs. alike (k st outs) (k' st outs)"
  shows "alike (dnn_run lib name as k) (dnn_run lib' name as k')"
  using assms(3) same_on_sifted [OF assms(1,2)] by (simp add: alike_def dnn_run_def split: prod.split)

lemma alike_call:
  assumes "same_but_for_minted types lib lib'" and "sifted_call types name as"
  shows "alike (dnn_call lib name as) (dnn_call lib' name as)"
  unfolding dnn_call_def by (rule alike_run [OF assms alike_answer])


lemma alike_elements [alike_rules]:
  assumes "\<And>sent real. (types ty = TYPE_BACKEND_DESCRIPTOR \<longrightarrow> real_elements real) \<Longrightarrow> alike (k sent real) (k' sent real)"
  shows "alike (dnn_elements types ty count k) (dnn_elements types ty count k')"
  unfolding dnn_elements_def
proof (rule alike_take [OF alike_answer], unfold alike_def, intro allI impI)
  fix bs req rsp and s :: "'a dn_sv"
  let ?h = "\<lambda>k. if length bs \<noteq> unat count * cudnn_element_size (types ty) then dnn_bad req rsp s
      else if types ty = TYPE_BACKEND_DESCRIPTOR then
        (case resolve_descriptors (dh_handles s) bs of None \<Rightarrow> dnn_bad req rsp s | Some real \<Rightarrow> k bs real req rsp s)
      else k bs bs req rsp s"
  assume s: "table_real s"
  have real: "real_elements r" if "resolve_descriptors (dh_handles s) bs = Some r" for r
  proof -
    obtain ps where ps: "resolve_all (dh_handles s) (words_of (length bs div 8) bs) = Some ps" and r: "r = concat (map (le_enc 8) ps)"
      using \<open>resolve_descriptors (dh_handles s) bs = Some r\<close> by (auto simp: resolve_descriptors_def split: if_splits)
    show ?thesis using resolve_all_real [OF s ps] by (simp add: r real_elements_def words_of_pointers)
  qed
  show "?h k = ?h k' \<and> table_real (snd (snd (snd (?h k'))))"
    using assms real s by (auto simp: alike_def dnn_answer_def split: option.split)
qed

section \<open>Every handler\<close>

lemma alike_make:
  assumes "same_but_for_minted types lib lib'" and "sifted_call types name as"
  shows "alike (dnn_make lib name as h) (dnn_make lib' name as h)"
proof -
  have "ml_call lib' name as w = ml_call lib name as w" for w using same_on_sifted [OF assms] by simp
  moreover have "\<not> minted (wrote_long 0 outs)" if "ml_call lib name as w = ((st, outs), w')" for w st outs w'
    using assms(1) that unfolding same_but_for_minted_def by blast
  ultimately show ?thesis by (auto simp: alike_def dnn_make_def dnn_run_def dnn_answer_def table_real_def split: prod.splits)
qed

lemma alike_on_descriptor:
  assumes "ml_has lib = ml_has lib'" and "\<And>h d. \<not> minted d \<Longrightarrow> alike (k h d) (k' h d)"
  shows "alike (on_descriptor lib name k) (on_descriptor lib' name k')"
  unfolding on_descriptor_def
proof (rule alike_args(3) [OF alike_answer], unfold alike_def, intro allI impI)
  fix h req rsp and s :: "'a dn_sv"
  assume s: "table_real s"
  show "(case resolve (dh_handles s) h of None \<Rightarrow> dnn_bad req rsp s | Some d \<Rightarrow> dnn_need_fn lib name (k h d) req rsp s)
      = (case resolve (dh_handles s) h of None \<Rightarrow> dnn_bad req rsp s | Some d \<Rightarrow> dnn_need_fn lib' name (k' h d) req rsp s)
    \<and> table_real (snd (snd (snd (case resolve (dh_handles s) h of None \<Rightarrow> dnn_bad req rsp s | Some d \<Rightarrow> dnn_need_fn lib' name (k' h d) req rsp s))))"
  proof (cases "resolve (dh_handles s) h")
    case None
    then show ?thesis using s by (simp add: dnn_answer_def)
  next
    case (Some d)
    from alike_need_fn [OF assms(1) assms(2) [OF resolve_real [OF s Some]]] show ?thesis using s Some by (simp add: alike_def)
  qed
qed

lemma alike_unmake:
  assumes "same_but_for_minted types lib lib'" and "name \<notin> {''cudnnBackendSetAttribute'', ''cudnnBackendGetAttribute''}"
  shows "alike (dnn_unmake lib name) (dnn_unmake lib' name)"
  unfolding dnn_unmake_def
proof (rule alike_on_descriptor)
  show "ml_has lib = ml_has lib'" using assms(1) by (simp add: same_but_for_minted_def)
next
  fix h d :: u64
  assume "\<not> minted d"
  then have "sifted_call types name [Ptr d]" using assms(2) by (simp add: sifted_call_def)
  then show "alike (dnn_run lib name [Ptr d] (\<lambda>st outs req rsp s. dnn_answer st req rsp (s\<lparr> dh_handles := (dh_handles s)(h := None) \<rparr>)))
      (dnn_run lib' name [Ptr d] (\<lambda>st outs req rsp s. dnn_answer st req rsp (s\<lparr> dh_handles := (dh_handles s)(h := None) \<rparr>)))"
    by (intro alike_run [OF assms(1)]) (auto simp: alike_def dnn_answer_def table_real_def)
qed


lemma untagged_elsewhere:
  "name \<notin> {''cudnnBackendSetAttribute'', ''cudnnBackendGetAttribute''} \<Longrightarrow> \<forall>a \<in> set as. sifted_arg False a \<Longrightarrow> sifted_call types name as"
  by (simp add: sifted_call_def of_descriptors_def)

lemma real_args_ptrs [simp]: "(\<forall>a \<in> set (map Ptr ps). sifted_arg descs a) \<longleftrightarrow> (\<forall>p \<in> set ps. \<not> minted p)"
  by auto

lemma alike_create:
  "same_but_for_minted types lib lib' \<Longrightarrow> alike (handle_cudnnCreate drv lib) (handle_cudnnCreate drv lib')"
  using same_on_sifted [of types lib lib' "''cudnnCreate''" "[]"]
  by (auto simp: alike_def handle_cudnnCreate_def lib_need_def dnn_answer_def dnn_run_def dnn_status_and_def
      same_but_for_minted_def sifted_call_def split: prod.splits)

lemma alike_destroy:
  assumes "same_but_for_minted types lib lib'"
  shows "alike (handle_cudnnDestroy lib) (handle_cudnnDestroy lib')"
  unfolding handle_cudnnDestroy_def
proof (intro alike_ptr alike_need_fn alike_run [OF assms])
  show "ml_has lib = ml_has lib'" using assms by (simp add: same_but_for_minted_def)
next
  fix p :: u64 assume "\<not> minted p"
  then show "sifted_call types ''cudnnDestroy'' [Ptr p]" by (simp add: untagged_elsewhere)
next
  fix p st outs
  show "alike (\<lambda>req rsp s. dnn_answer st req rsp (if st = 0 then s\<lparr> dh_sv := on_inv (inventory_forget_handle p) (dh_sv s) \<rparr> else s))
      (\<lambda>req rsp s. dnn_answer st req rsp (if st = 0 then s\<lparr> dh_sv := on_inv (inventory_forget_handle p) (dh_sv s) \<rparr> else s))"
    by (simp add: alike_def dnn_answer_def)
qed

lemma alike_handlers:
  assumes same: "same_but_for_minted types lib lib'"
  shows "alike (handle_cudnnSetStream lib) (handle_cudnnSetStream lib')"
    and "alike (handle_cudnnGetStream lib) (handle_cudnnGetStream lib')"
    and "alike (handle_cudnnGetVersion lib) (handle_cudnnGetVersion lib')"
    and "alike (handle_cudnnGetCudartVersion lib) (handle_cudnnGetCudartVersion lib')"
    and "alike (handle_cudnnGetMaxDeviceVersion lib) (handle_cudnnGetMaxDeviceVersion lib')"
    and "alike (handle_cudnnGetLastErrorString lib) (handle_cudnnGetLastErrorString lib')"
    and "alike (handle_cudnnGetProperty lib) (handle_cudnnGetProperty lib')"
    and "alike (handle_cudnnBackendCreateDescriptor lib) (handle_cudnnBackendCreateDescriptor lib')"
    and "alike (handle_cudnnBackendDestroyDescriptor lib) (handle_cudnnBackendDestroyDescriptor lib')"
    and "alike (handle_cudnnBackendInitialize lib) (handle_cudnnBackendInitialize lib')"
    and "alike (handle_cudnnBackendFinalize lib) (handle_cudnnBackendFinalize lib')"
    and "alike (handle_cudnnBackendSetAttribute types lib) (handle_cudnnBackendSetAttribute types lib')"
    and "alike (handle_cudnnBackendGetAttribute types lib) (handle_cudnnBackendGetAttribute types lib')"
    and "alike (handle_cudnnBackendExecute lib) (handle_cudnnBackendExecute lib')"
    and "alike (handle_cudnnCreateTensorDescriptor lib) (handle_cudnnCreateTensorDescriptor lib')"
    and "alike (handle_cudnnDestroyTensorDescriptor lib) (handle_cudnnDestroyTensorDescriptor lib')"
    and "alike (handle_cudnnSetTensorNdDescriptor lib) (handle_cudnnSetTensorNdDescriptor lib')"
    and "alike (handle_cudnnGetTensorNdDescriptor lib) (handle_cudnnGetTensorNdDescriptor lib')"
    and "alike (handle_cudnnDeriveBNTensorDescriptor lib) (handle_cudnnDeriveBNTensorDescriptor lib')"
    and "alike (handle_cudnnCreateActivationDescriptor lib) (handle_cudnnCreateActivationDescriptor lib')"
    and "alike (handle_cudnnSetActivationDescriptor lib) (handle_cudnnSetActivationDescriptor lib')"
    and "alike (handle_cudnnDestroyActivationDescriptor lib) (handle_cudnnDestroyActivationDescriptor lib')"
    and "alike (handle_cudnnBatchNormalizationForwardInference lib) (handle_cudnnBatchNormalizationForwardInference lib')"
    and "alike (handle_cudnnGetBatchNormalizationForwardTrainingExWorkspaceSize lib) (handle_cudnnGetBatchNormalizationForwardTrainingExWorkspaceSize lib')"
    and "alike (handle_cudnnGetBatchNormalizationBackwardExWorkspaceSize lib) (handle_cudnnGetBatchNormalizationBackwardExWorkspaceSize lib')"
    and "alike (handle_cudnnGetBatchNormalizationTrainingExReserveSpaceSize lib) (handle_cudnnGetBatchNormalizationTrainingExReserveSpaceSize lib')"
    and "alike (handle_cudnnBatchNormalizationForwardTrainingEx lib) (handle_cudnnBatchNormalizationForwardTrainingEx lib')"
    and "alike (handle_cudnnBatchNormalizationBackwardEx lib) (handle_cudnnBatchNormalizationBackwardEx lib')"
proof -
  have has: "ml_has lib = ml_has lib'" using same by (simp add: same_but_for_minted_def)
  note rules = alike_rules alike_run [OF same] alike_call [OF same] alike_make [OF same] alike_on_descriptor [OF has] has
  note calls = untagged_elsewhere sifted_call_def of_descriptors_def
  show "alike (handle_cudnnSetStream lib) (handle_cudnnSetStream lib')"
    unfolding handle_cudnnSetStream_def handle_number_def handle_size_query_def dnn_scalars_def dnn_spaces_def Let_def has
    by (intro rules alike_unmake [OF same]; auto simp: calls)
  show "alike (handle_cudnnGetStream lib) (handle_cudnnGetStream lib')"
    unfolding handle_cudnnGetStream_def handle_number_def handle_size_query_def dnn_scalars_def dnn_spaces_def Let_def has
    by (intro rules alike_unmake [OF same]; auto simp: calls)
  show "alike (handle_cudnnGetVersion lib) (handle_cudnnGetVersion lib')"
    unfolding handle_cudnnGetVersion_def handle_number_def handle_size_query_def dnn_scalars_def dnn_spaces_def Let_def has
    by (intro rules alike_unmake [OF same]; auto simp: calls)
  show "alike (handle_cudnnGetCudartVersion lib) (handle_cudnnGetCudartVersion lib')"
    unfolding handle_cudnnGetCudartVersion_def handle_number_def handle_size_query_def dnn_scalars_def dnn_spaces_def Let_def has
    by (intro rules alike_unmake [OF same]; auto simp: calls)
  show "alike (handle_cudnnGetMaxDeviceVersion lib) (handle_cudnnGetMaxDeviceVersion lib')"
    unfolding handle_cudnnGetMaxDeviceVersion_def handle_number_def handle_size_query_def dnn_scalars_def dnn_spaces_def Let_def has
    by (intro rules alike_unmake [OF same]; auto simp: calls)
  show "alike (handle_cudnnGetLastErrorString lib) (handle_cudnnGetLastErrorString lib')"
    unfolding handle_cudnnGetLastErrorString_def handle_number_def handle_size_query_def dnn_scalars_def dnn_spaces_def Let_def has
    by (intro rules alike_unmake [OF same]; auto simp: calls)
  show "alike (handle_cudnnGetProperty lib) (handle_cudnnGetProperty lib')"
    unfolding handle_cudnnGetProperty_def handle_number_def handle_size_query_def dnn_scalars_def dnn_spaces_def Let_def has
    by (intro rules alike_unmake [OF same]; auto simp: calls)
  show "alike (handle_cudnnBackendCreateDescriptor lib) (handle_cudnnBackendCreateDescriptor lib')"
    unfolding handle_cudnnBackendCreateDescriptor_def handle_number_def handle_size_query_def dnn_scalars_def dnn_spaces_def Let_def has
    by (intro rules alike_unmake [OF same]; auto simp: calls)
  show "alike (handle_cudnnBackendDestroyDescriptor lib) (handle_cudnnBackendDestroyDescriptor lib')"
    unfolding handle_cudnnBackendDestroyDescriptor_def handle_number_def handle_size_query_def dnn_scalars_def dnn_spaces_def Let_def has
    by (intro rules alike_unmake [OF same]; auto simp: calls)
  show "alike (handle_cudnnBackendInitialize lib) (handle_cudnnBackendInitialize lib')"
    unfolding handle_cudnnBackendInitialize_def handle_number_def handle_size_query_def dnn_scalars_def dnn_spaces_def Let_def has
    by (intro rules alike_unmake [OF same]; auto simp: calls)
  show "alike (handle_cudnnBackendFinalize lib) (handle_cudnnBackendFinalize lib')"
    unfolding handle_cudnnBackendFinalize_def handle_number_def handle_size_query_def dnn_scalars_def dnn_spaces_def Let_def has
    by (intro rules alike_unmake [OF same]; auto simp: calls)
  show "alike (handle_cudnnBackendSetAttribute types lib) (handle_cudnnBackendSetAttribute types lib')"
    unfolding handle_cudnnBackendSetAttribute_def handle_number_def handle_size_query_def dnn_scalars_def dnn_spaces_def Let_def has
    by (intro rules alike_unmake [OF same]; auto simp: calls)
  show "alike (handle_cudnnBackendGetAttribute types lib) (handle_cudnnBackendGetAttribute types lib')"
    unfolding handle_cudnnBackendGetAttribute_def handle_number_def handle_size_query_def dnn_scalars_def dnn_spaces_def Let_def has
    by (intro rules alike_unmake [OF same]; auto simp: calls)
  show "alike (handle_cudnnBackendExecute lib) (handle_cudnnBackendExecute lib')"
    unfolding handle_cudnnBackendExecute_def handle_number_def handle_size_query_def dnn_scalars_def dnn_spaces_def Let_def has
    by (intro rules alike_unmake [OF same]; auto simp: calls)
  show "alike (handle_cudnnCreateTensorDescriptor lib) (handle_cudnnCreateTensorDescriptor lib')"
    unfolding handle_cudnnCreateTensorDescriptor_def handle_number_def handle_size_query_def dnn_scalars_def dnn_spaces_def Let_def has
    by (intro rules alike_unmake [OF same]; auto simp: calls)
  show "alike (handle_cudnnDestroyTensorDescriptor lib) (handle_cudnnDestroyTensorDescriptor lib')"
    unfolding handle_cudnnDestroyTensorDescriptor_def handle_number_def handle_size_query_def dnn_scalars_def dnn_spaces_def Let_def has
    by (intro rules alike_unmake [OF same]; auto simp: calls)
  show "alike (handle_cudnnSetTensorNdDescriptor lib) (handle_cudnnSetTensorNdDescriptor lib')"
    unfolding handle_cudnnSetTensorNdDescriptor_def handle_number_def handle_size_query_def dnn_scalars_def dnn_spaces_def Let_def has
    by (intro rules alike_unmake [OF same]; auto simp: calls)
  show "alike (handle_cudnnGetTensorNdDescriptor lib) (handle_cudnnGetTensorNdDescriptor lib')"
    unfolding handle_cudnnGetTensorNdDescriptor_def handle_number_def handle_size_query_def dnn_scalars_def dnn_spaces_def Let_def has
    by (intro rules alike_unmake [OF same]; auto simp: calls)
  show "alike (handle_cudnnDeriveBNTensorDescriptor lib) (handle_cudnnDeriveBNTensorDescriptor lib')"
    unfolding handle_cudnnDeriveBNTensorDescriptor_def handle_number_def handle_size_query_def dnn_scalars_def dnn_spaces_def Let_def has
    by (intro rules alike_unmake [OF same]; auto simp: calls)
  show "alike (handle_cudnnCreateActivationDescriptor lib) (handle_cudnnCreateActivationDescriptor lib')"
    unfolding handle_cudnnCreateActivationDescriptor_def handle_number_def handle_size_query_def dnn_scalars_def dnn_spaces_def Let_def has
    by (intro rules alike_unmake [OF same]; auto simp: calls)
  show "alike (handle_cudnnSetActivationDescriptor lib) (handle_cudnnSetActivationDescriptor lib')"
    unfolding handle_cudnnSetActivationDescriptor_def handle_number_def handle_size_query_def dnn_scalars_def dnn_spaces_def Let_def has
    by (intro rules alike_unmake [OF same]; auto simp: calls)
  show "alike (handle_cudnnDestroyActivationDescriptor lib) (handle_cudnnDestroyActivationDescriptor lib')"
    unfolding handle_cudnnDestroyActivationDescriptor_def handle_number_def handle_size_query_def dnn_scalars_def dnn_spaces_def Let_def has
    by (intro rules alike_unmake [OF same]; auto simp: calls)
  show "alike (handle_cudnnBatchNormalizationForwardInference lib) (handle_cudnnBatchNormalizationForwardInference lib')"
    unfolding handle_cudnnBatchNormalizationForwardInference_def handle_number_def handle_size_query_def dnn_scalars_def dnn_spaces_def Let_def has
    by (intro rules alike_unmake [OF same]; auto simp: calls)
  show "alike (handle_cudnnGetBatchNormalizationForwardTrainingExWorkspaceSize lib) (handle_cudnnGetBatchNormalizationForwardTrainingExWorkspaceSize lib')"
    unfolding handle_cudnnGetBatchNormalizationForwardTrainingExWorkspaceSize_def handle_number_def handle_size_query_def dnn_scalars_def dnn_spaces_def Let_def has
    by (intro rules alike_unmake [OF same]; auto simp: calls)
  show "alike (handle_cudnnGetBatchNormalizationBackwardExWorkspaceSize lib) (handle_cudnnGetBatchNormalizationBackwardExWorkspaceSize lib')"
    unfolding handle_cudnnGetBatchNormalizationBackwardExWorkspaceSize_def handle_number_def handle_size_query_def dnn_scalars_def dnn_spaces_def Let_def has
    by (intro rules alike_unmake [OF same]; auto simp: calls)
  show "alike (handle_cudnnGetBatchNormalizationTrainingExReserveSpaceSize lib) (handle_cudnnGetBatchNormalizationTrainingExReserveSpaceSize lib')"
    unfolding handle_cudnnGetBatchNormalizationTrainingExReserveSpaceSize_def handle_number_def handle_size_query_def dnn_scalars_def dnn_spaces_def Let_def has
    by (intro rules alike_unmake [OF same]; auto simp: calls)
  show "alike (handle_cudnnBatchNormalizationForwardTrainingEx lib) (handle_cudnnBatchNormalizationForwardTrainingEx lib')"
    unfolding handle_cudnnBatchNormalizationForwardTrainingEx_def handle_number_def handle_size_query_def dnn_scalars_def dnn_spaces_def Let_def has
    by (intro rules alike_unmake [OF same]; auto simp: calls)
  show "alike (handle_cudnnBatchNormalizationBackwardEx lib) (handle_cudnnBatchNormalizationBackwardEx lib')"
    unfolding handle_cudnnBatchNormalizationBackwardEx_def handle_number_def handle_size_query_def dnn_scalars_def dnn_spaces_def Let_def has
    by (intro rules alike_unmake [OF same]; auto simp: calls)
qed


lemma alike_map_of:
  "list_all2 (\<lambda>x x'. fst x = fst x' \<and> alike (snd x) (snd x')) hs hs' \<Longrightarrow>
   (case map_of hs api of None \<Rightarrow> map_of hs' api = None | Some k \<Rightarrow> \<exists>k'. map_of hs' api = Some k' \<and> alike k k')"
  by (induction rule: list_all2_induct) (auto split: option.splits)

lemma alike_cases:
  assumes "same_but_for_minted types lib lib'"
  shows "list_all2 (\<lambda>x x'. fst x = fst x' \<and> alike (snd x) (snd x')) (cudnn_cases types drv lib) (cudnn_cases types drv lib')"
  by (simp add: cudnn_cases_def alike_create [OF assms] alike_destroy [OF assms] alike_handlers [OF assms])

lemma alike_dispatch:
  assumes "same_but_for_minted types lib lib'" and "table_real s"
  shows "dispatch_cudnn types drv lib api req rsp s = dispatch_cudnn types drv lib' api req rsp s"
    and "dispatch_cudnn types drv lib api req rsp s = Some (r, req', rsp', s') \<Longrightarrow> table_real s'"
proof -
  have "alike (case map_of (cudnn_cases types drv lib) api of Some h \<Rightarrow> h | None \<Rightarrow> dnn_answer CUDNN_STATUS_NOT_SUPPORTED)
      (case map_of (cudnn_cases types drv lib') api of Some h \<Rightarrow> h | None \<Rightarrow> dnn_answer CUDNN_STATUS_NOT_SUPPORTED)"
    using alike_map_of [OF alike_cases [OF assms(1)], of drv api] by (auto simp: alike_answer split: option.splits)
  then have a: "alike (\<lambda>req rsp s. case map_of (cudnn_cases types drv lib) api of Some h \<Rightarrow> h req rsp s
        | None \<Rightarrow> dnn_answer CUDNN_STATUS_NOT_SUPPORTED req rsp s)
      (\<lambda>req rsp s. case map_of (cudnn_cases types drv lib') api of Some h \<Rightarrow> h req rsp s
        | None \<Rightarrow> dnn_answer CUDNN_STATUS_NOT_SUPPORTED req rsp s)"
    by (simp add: alike_def split: option.splits)
  show "dispatch_cudnn types drv lib api req rsp s = dispatch_cudnn types drv lib' api req rsp s"
    using alikeD [OF a assms(2), of req rsp] by (simp add: dispatch_cudnn_def)
  show "table_real s'" if "dispatch_cudnn types drv lib api req rsp s = Some (r, req', rsp', s')"
    using alike_real [OF a assms(2), of req rsp] that by (simp add: dispatch_cudnn_def split: if_splits)
qed

text \<open>A connection's requests, one after the other: the result, the reply and whether the request was long
  enough, of each.\<close>

fun dnn_served :: "types \<Rightarrow> 'd driver \<Rightarrow> 'd maths \<Rightarrow> (u32 \<times> byte list) list \<Rightarrow> 'd dn_sv
    \<Rightarrow> (CUresult \<times> byte list \<times> bool) option list \<times> 'd dn_sv" where
  "dnn_served types drv lib [] s = ([], s)"
| "dnn_served types drv lib ((api, payload) # qs) s = (case dispatch_cudnn types drv lib api (buffer_of payload) empty_buffer s of
     None \<Rightarrow> (case dnn_served types drv lib qs s of (as, s') \<Rightarrow> (None # as, s'))
   | Some (r, req, rsp, s1) \<Rightarrow> (case dnn_served types drv lib qs s1 of (as, s') \<Rightarrow> (Some (r, bdata rsp, bok req) # as, s')))"



text \<open>A library that has every function and answers each with success and the number 9, and one that
  does so except where it is given a value of a client's making.\<close>

definition nines :: "'d maths" where
  "nines = \<lparr> ml_has = (\<lambda>name. True), ml_call = (\<lambda>name as w. ((0, [I64 9]), w)) \<rparr>"

definition wild :: "types \<Rightarrow> 'd maths" where
  "wild types = nines\<lparr> ml_call := (\<lambda>name as w. if untagged_call types name as \<or> unresolved_array types name as then ((0, [I64 9]), w) else ((99, [I64 kHandleTag]), w)) \<rparr>"

lemma not_minted_9: "\<not> minted 9"
  by (simp add: minted_def kHandleTag_def)

lemma nines_wild: "same_but_for_minted types nines (wild types)"
  by (auto simp: same_but_for_minted_def nines_def wild_def wrote_long_def not_minted_9)

definition no_handles :: "fake dn_sv" where
  "no_handles = \<lparr> dh_handles = Map.empty, dh_sv = demo_sv \<rparr>"


lemma handles_are_not_looked_up:
  assumes "types ty \<in> {TYPE_HANDLE, TYPE_VOID_PTR}" and "length bs = unat count * 8" and "length bs < 2 ^ 64"
  shows "dnn_elements types ty count k (reading pre (enc_sized bs)) rsp s = k bs bs (reading (pre @ enc_sized bs) []) rsp s"
proof -
  have "cudnn_element_size (types ty) = 8" "types ty \<noteq> TYPE_BACKEND_DESCRIPTOR" using assms(1) by auto
  then show ?thesis using assms(2) reading_sized(2) [OF assms(3), of pre] by (simp add: dnn_elements_def lib_take_def)
qed

section \<open>The two sides together\<close>

text \<open>The server as the other end of a connection on which nothing is lost, with the failure it holds for the
  next reply.\<close>

definition dnn_ran :: "types \<Rightarrow> 'd driver \<Rightarrow> 'd maths \<Rightarrow> u32 \<Rightarrow> byte list \<Rightarrow> 'd dn_sv \<Rightarrow> (CUresult \<times> byte list) \<times> 'd dn_sv" where
  "dnn_ran types drv lib api payload s = (case dispatch_cudnn types drv lib api (buffer_of payload) empty_buffer s of
       None \<Rightarrow> ((CUDA_ERROR_NOT_SUPPORTED, []), s)
     | Some (r, req, rsp, s1) \<Rightarrow> ((if bok req then (r, bdata rsp) else (CUDA_ERROR_INVALID_VALUE, [])), s1))"

definition dnn_link :: "types \<Rightarrow> 'd driver \<Rightarrow> 'd maths \<Rightarrow> ('d dn_sv \<times> CUresult) link" where
  "dnn_link types drv lib = \<lparr>
     ln_call = (\<lambda>api payload x. case x of (s, late) \<Rightarrow> (case dnn_ran types drv lib api payload s of ((r, rsp), s1) \<Rightarrow>
       (if r = CUDA_SUCCESS \<and> late \<noteq> CUDA_SUCCESS then ((late, rsp), (s1, CUDA_SUCCESS)) else ((r, rsp), (s1, late))))),
     ln_async = (\<lambda>api payload x. case x of (s, late) \<Rightarrow> (case dnn_ran types drv lib api payload s of ((r, rsp), s1) \<Rightarrow>
       (CUDA_SUCCESS, (s1, if r \<noteq> CUDA_SUCCESS \<and> late = CUDA_SUCCESS then r else late)))) \<rparr>"

definition dnn_handler :: "types \<Rightarrow> 'd driver \<Rightarrow> 'd maths \<Rightarrow> u32 \<Rightarrow> 'd dnn_handler" where
  "dnn_handler types drv lib api = the (map_of (cudnn_cases types drv lib) api)"

text \<open>A handler that answered with a status and what follows it.\<close>

definition dnn_answered :: "CUresult \<times> buffer \<times> buffer \<times> 'd dn_sv \<Rightarrow> u32 \<Rightarrow> byte list \<Rightarrow> 'd dn_sv \<Rightarrow> bool" where
  "dnn_answered a st extra s' \<longleftrightarrow> (\<exists>req rsp. a = (if st = 0 then CUDA_SUCCESS else CUDA_ERROR_UNKNOWN, req, rsp, s')
     \<and> bok req \<and> bdata rsp = le_enc 4 st @ extra)"

text \<open>What the late failure becomes.\<close>

definition late_after :: "u32 \<Rightarrow> CUresult \<Rightarrow> CUresult" where
  "late_after st late = (if st \<noteq> 0 \<and> late = CUDA_SUCCESS then CUDA_ERROR_UNKNOWN else late)"

definition status_told :: "u32 \<Rightarrow> CUresult \<Rightarrow> u32" where
  "status_told st late = (if st \<noteq> 0 then st else dnn_status_of late)"

definition late_told :: "u32 \<Rightarrow> CUresult \<Rightarrow> CUresult" where
  "late_told st late = (if st = 0 then CUDA_SUCCESS else late)"

lemma cudnn_ids_distinct: "distinct (map fst (cudnn_cases types drv lib))"
  by (simp add: cudnn_cases_def cudnn_ids)

lemma cudnn_ids_range: "api \<in> fst ` set (cudnn_cases types drv lib) \<Longrightarrow> \<not> (api < kCudnnBase \<or> api > kCudnnBase + 1000)"
  by (auto simp: cudnn_cases_def cudnn_ids)

lemma dnn_handled:
  assumes "(api, k) \<in> set (cudnn_cases types drv lib)"
    and "dnn_answered (k (reading [] (enc_fields fs)) empty_buffer s) st extra s'"
  shows "dnn_ran types drv lib api (enc_fields fs) s = ((if st = 0 then CUDA_SUCCESS else CUDA_ERROR_UNKNOWN, le_enc 4 st @ extra), s')"
proof -
  have "map_of (cudnn_cases types drv lib) api = Some k" using assms(1) cudnn_ids_distinct by (rule map_of_is_SomeI [rotated])
  moreover have "\<not> (api < kCudnnBase \<or> api > kCudnnBase + 1000)" using cudnn_ids_range assms(1) by force
  ultimately show ?thesis using assms(2)
    by (auto simp: dnn_ran_def dispatch_cudnn_def dnn_answered_def buffer_of_reading)
qed

lemma dnn_async_answered:
  assumes "(api, k) \<in> set (cudnn_cases types drv lib)"
    and "dnn_answered (k (reading [] (enc_fields fs)) empty_buffer s) st extra s'"
  shows "dnn_async (dnn_link types drv lib) api fs (dn, (s, late)) = (0, (dn, (s', late_after st late)))"
  using dnn_handled [OF assms] by (simp add: dnn_async_def dnn_link_def dnn_status_of_def late_after_def)

lemma dnn_tell_answered:
  assumes "(api, k) \<in> set (cudnn_cases types drv lib)"
    and "dnn_answered (k (reading [] (enc_fields fs)) empty_buffer s) st extra s'"
  shows "dnn_tell (dnn_link types drv lib) api fs (dn, (s, late)) = (status_told st late, (dn, (s', late_told st late)))"
  using dnn_handled [OF assms]
  by (auto simp: dnn_tell_def dnn_send_def dnn_link_def status_told_def late_told_def dnn_status_of_def buffer_of_reading
     )


section \<open>The library's own calls\<close>

lemma enc_pointers: "enc_fields (map F64 vs) = concat (map (le_enc 8) vs)"
  by (induction vs) simp_all

lemma read_raws_all: "read_raws (length vs) (reading pre (concat (map (le_enc 8) vs) @ r)) = (Some vs, reading (pre @ concat (map (le_enc 8) vs)) r)"
  by (induction vs arbitrary: pre) simp_all

lemma reading_ptrs:
  assumes "resolve_all (dh_handles s) vs = Some ps" and "length vs = n"
  shows "dnn_ptrs n k (reading pre (enc_fields (map F64 vs) @ r)) rsp s = k ps (reading (pre @ enc_fields (map F64 vs)) r) rsp s"
  using assms by (auto simp: dnn_ptrs_def lib_take_def enc_pointers read_raws_all)

lemma reading_ptr:
  assumes "resolve (dh_handles s) v = Some p"
  shows "dnn_ptr k (reading pre (le_enc 8 v @ r)) rsp s = k p (reading (pre @ le_enc 8 v) r) rsp s"
    and "dnn_ptr k (reading pre (le_enc 8 v)) rsp s = k p (reading (pre @ le_enc 8 v) []) rsp s"
  using reading_ptrs [of s "[v]" "[p]" 1 "\<lambda>ps. k (hd ps)" pre r] reading_ptrs [of s "[v]" "[p]" 1 "\<lambda>ps. k (hd ps)" pre "[]"] assms
  by (simp_all add: dnn_ptr_def)

text \<open>A call of the library, and the failure it leaves.\<close>

definition dnn_library :: "'d maths \<Rightarrow> string \<Rightarrow> lib_arg list \<Rightarrow> 'd dn_sv \<Rightarrow> (u32 \<times> lib_arg list) \<times> 'd dn_sv" where
  "dnn_library lib name as s = (case library lib name as (dh_sv s) of (res, s1) \<Rightarrow> (res, s\<lparr> dh_sv := s1 \<rparr>))"

definition dnn_computed :: "'d maths \<Rightarrow> string \<Rightarrow> lib_arg list \<Rightarrow> u64 \<Rightarrow> dnn \<times> 'd dn_sv \<times> CUresult \<Rightarrow> u32 \<times> dnn \<times> 'd dn_sv \<times> CUresult" where
  "dnn_computed lib name as h x = (case x of (dn, s, late) \<Rightarrow> (case dnn_library lib name as s of ((st, outs), s') \<Rightarrow>
     (0, (dnn_computes h dn, (s', late_after st late)))))"

lemma dnn_call_answered:
  assumes "dnn_library lib name as s = ((st, outs), s')"
  shows "dnn_answered (dnn_call lib name as (reading pre r) empty_buffer s) st [] s'"
  using assms by (auto simp: dnn_library_def library_def dnn_call_def dnn_run_def dnn_answer_def dnn_answered_def put_status_def
      buf_put_def empty_buffer_def split: prod.splits)

lemma execute_served:
  assumes "\<forall>name. ml_has lib name" and "resolve_all (dh_handles s) [h, plan, pack] = Some ps"
  shows "cudnnBackendExecute (dnn_link types drv lib) h plan pack (dn, (s, late))
    = dnn_computed lib ''cudnnBackendExecute'' (map Ptr ps) h (dn, s, late)"
proof -
  obtain st outs s' where l: "dnn_library lib ''cudnnBackendExecute'' (map Ptr ps) s = ((st, outs), s')" by (metis surj_pair)
  have m: "(API_cudnnBackendExecute, handle_cudnnBackendExecute lib) \<in> set (cudnn_cases types drv lib)" by (simp add: cudnn_cases_def)
  have "dnn_answered (handle_cudnnBackendExecute lib (reading [] (enc_fields [F64 h, F64 plan, F64 pack])) empty_buffer s) st [] s'"
    using reading_ptrs [OF assms(2), where n = 3 and r = "[]"] dnn_call_answered [OF l] assms(1)
    by (simp add: handle_cudnnBackendExecute_def dnn_need_fn_def lib_need_def)
  from dnn_async_answered [OF m this] show ?thesis
    by (simp add: cudnnBackendExecute_def on_dnn_def dnn_computed_def l)
qed

lemma scalar_width_cases: "scalar_width d dn = 4 \<or> scalar_width d dn = 8"
  by (simp add: scalar_width_def)

lemma scalar_width_computes [simp]: "scalar_width d (dnn_computes h dn) = scalar_width d dn"
  by (simp add: scalar_width_def dnn_computes_def)

lemma scalar_width_word [simp]: "unat (of_nat (scalar_width d dn) :: u32) = scalar_width d dn"
  "(of_nat (scalar_width d dn) :: u32) \<noteq> 4 \<Longrightarrow> (of_nat (scalar_width d dn) :: u32) = 8"
  using scalar_width_cases [of d dn] by auto

lemma reading_scalars:
  assumes "length alpha = scalar_width d dn" and "length beta = scalar_width d dn"
  shows "dnn_scalars k (reading pre (le_enc 4 (of_nat (scalar_width d dn) :: u32) @ enc_sized alpha @ enc_sized beta @ r)) rsp s
    = k alpha beta (reading (pre @ le_enc 4 (of_nat (scalar_width d dn) :: u32) @ enc_sized alpha @ enc_sized beta) r) rsp s"
  using assms scalar_width_cases [of d dn] by (auto simp: dnn_scalars_def lib_take_def)

lemma reading_read_scalars:
  "\<forall>bs \<in> set bss. length bs = w \<Longrightarrow> w < 2 ^ 64 \<Longrightarrow> length bss = n \<Longrightarrow>
   read_scalars n w (reading pre (concat (map enc_sized bss) @ r)) = (Some bss, reading (pre @ concat (map enc_sized bss)) r)"
  by (induction bss arbitrary: pre n) auto

lemma inference_served:
  assumes "\<forall>name. ml_has lib name" and "\<forall>p n. length (mem p n) = n" and "alpha \<noteq> 0" and "beta \<noteq> 0"
    and "resolve (dh_handles s) h = Some h'"
    and "resolve_all (dh_handles s) [xd, x, yd, y, bnd, scale, bias, mean, var] = Some ps"
  shows "cudnnBatchNormalizationForwardInference mem (dnn_link types drv lib) h mode alpha beta xd x yd y bnd scale bias mean var epsilon (dn, (s, late))
    = dnn_computed lib ''cudnnBatchNormalizationForwardInference''
        ([Ptr h', I32 mode, Scalar (scalar_union (mem alpha (scalar_width yd dn))), Scalar (scalar_union (mem beta (scalar_width yd dn)))]
         @ map Ptr ps @ [I64 epsilon]) h (dn, s, late)"
proof -
  let ?w = "scalar_width yd dn"
  let ?as = "[Ptr h', I32 mode, Scalar (scalar_union (mem alpha ?w)), Scalar (scalar_union (mem beta ?w))] @ map Ptr ps @ [I64 epsilon]"
  let ?fs = "[F64 h, F32 mode, F32 (of_nat ?w), Sized (mem alpha ?w), Sized (mem beta ?w)]
    @ map F64 [xd, x, yd, y, bnd, scale, bias, mean, var] @ [F64 epsilon]"
  obtain st outs s' where l: "dnn_library lib ''cudnnBatchNormalizationForwardInference'' ?as s = ((st, outs), s')" by (metis surj_pair)
  have m: "(API_cudnnBatchNormalizationForwardInference, handle_cudnnBatchNormalizationForwardInference lib) \<in> set (cudnn_cases types drv lib)"
    by (simp add: cudnn_cases_def)
  have "dnn_answered (handle_cudnnBatchNormalizationForwardInference lib (reading [] (enc_fields ?fs)) empty_buffer s) st [] s'"
    using reading_ptrs [OF assms(6), where n = 9] dnn_call_answered [OF l] assms(1-5)
    by (simp add: reading_scalars handle_cudnnBatchNormalizationForwardInference_def dnn_need_fn_def lib_need_def reading_ptr)
  from dnn_async_answered [OF m this] show ?thesis using assms(3,4)
    by (simp add: cudnnBatchNormalizationForwardInference_def on_dnn_def dnn_computed_def l [simplified] Let_def)
qed


lemma training_served:
  assumes "\<forall>name. ml_has lib name" and "\<forall>p n. length (mem p n) = n" and "alpha \<noteq> 0" and "beta \<noteq> 0"
    and "resolve (dh_handles s) h = Some h'" and "resolve_all (dh_handles s) [xd, x, zd, z, yd, y, bnd, scale, bias] = Some ps"
    and "resolve_all (dh_handles s) [running_mean, running_var] = Some rs"
    and "resolve_all (dh_handles s) [save_mean, save_inv_var, act, workspace] = Some ss" and "resolve (dh_handles s) reserve = Some rv"
  shows "cudnnBatchNormalizationForwardTrainingEx mem (dnn_link types drv lib) h mode ops alpha beta xd x zd z yd y bnd scale bias average
      running_mean running_var epsilon save_mean save_inv_var act workspace wsize reserve rsize (dn, (s, late))
    = dnn_computed lib ''cudnnBatchNormalizationForwardTrainingEx''
        ([Ptr h', I32 mode, I32 ops, Scalar (scalar_union (mem alpha (scalar_width yd dn))), Scalar (scalar_union (mem beta (scalar_width yd dn)))]
         @ map Ptr ps @ [I64 average] @ map Ptr rs @ [I64 epsilon] @ map Ptr ss @ [I64 wsize, Ptr rv, I64 rsize]) h (dn, s, late)"
proof -
  let ?w = "scalar_width yd dn"
  let ?as = "[Ptr h', I32 mode, I32 ops, Scalar (scalar_union (mem alpha ?w)), Scalar (scalar_union (mem beta ?w))]
    @ map Ptr ps @ [I64 average] @ map Ptr rs @ [I64 epsilon] @ map Ptr ss @ [I64 wsize, Ptr rv, I64 rsize]"
  let ?fs = "[F64 h, F32 mode, F32 ops, F32 (of_nat ?w), Sized (mem alpha ?w), Sized (mem beta ?w)]
    @ map F64 [xd, x, zd, z, yd, y, bnd, scale, bias] @ [F64 average] @ map F64 [running_mean, running_var]
    @ [F64 epsilon] @ map F64 [save_mean, save_inv_var, act, workspace] @ [F64 wsize, F64 reserve, F64 rsize]"
  obtain st outs s' where l: "dnn_library lib ''cudnnBatchNormalizationForwardTrainingEx'' ?as s = ((st, outs), s')" by (metis surj_pair)
  have m: "(API_cudnnBatchNormalizationForwardTrainingEx, handle_cudnnBatchNormalizationForwardTrainingEx lib) \<in> set (cudnn_cases types drv lib)"
    by (simp add: cudnn_cases_def)
  have "dnn_answered (handle_cudnnBatchNormalizationForwardTrainingEx lib (reading [] (enc_fields ?fs)) empty_buffer s) st [] s'"
    using reading_ptrs [OF assms(6), where n = 9] reading_ptrs [OF assms(7), where n = 2] reading_ptrs [OF assms(8), where n = 4]
      dnn_call_answered [OF l] assms(1-5,9)
    by (simp add: reading_scalars handle_cudnnBatchNormalizationForwardTrainingEx_def dnn_need_fn_def lib_need_def reading_ptr dnn_spaces_def)
  from dnn_async_answered [OF m this] show ?thesis using assms(3,4)
    by (simp add: cudnnBatchNormalizationForwardTrainingEx_def on_dnn_def dnn_computed_def l [simplified] Let_def)
qed

lemma backward_served:
  assumes "\<forall>name. ml_has lib name" and "\<forall>p n. length (mem p n) = n" and "ad \<noteq> 0" and "bd \<noteq> 0" and "ap \<noteq> 0" and "bp \<noteq> 0"
    and "resolve (dh_handles s) h = Some h'"
    and "resolve_all (dh_handles s) [xd, x, yd, y, dyd, dy, dzd, dz, dxd, dx, dbnd, scale, bias, dscale, dbias] = Some ps"
    and "resolve_all (dh_handles s) [saved_mean, saved_inv_var, act, workspace] = Some ss" and "resolve (dh_handles s) reserve = Some rv"
  shows "cudnnBatchNormalizationBackwardEx mem (dnn_link types drv lib) h mode ops ad bd ap bp xd x yd y dyd dy dzd dz dxd dx dbnd scale bias
      dscale dbias epsilon saved_mean saved_inv_var act workspace wsize reserve rsize (dn, (s, late))
    = dnn_computed lib ''cudnnBatchNormalizationBackwardEx''
        ([Ptr h', I32 mode, I32 ops] @ map (\<lambda>p. Scalar (scalar_union (mem p (scalar_width dxd dn)))) [ad, bd, ap, bp]
         @ map Ptr ps @ [I64 epsilon] @ map Ptr ss @ [I64 wsize, Ptr rv, I64 rsize]) h (dn, s, late)"
proof -
  let ?w = "scalar_width dxd dn"
  let ?as = "[Ptr h', I32 mode, I32 ops] @ map (\<lambda>p. Scalar (scalar_union (mem p ?w))) [ad, bd, ap, bp]
    @ map Ptr ps @ [I64 epsilon] @ map Ptr ss @ [I64 wsize, Ptr rv, I64 rsize]"
  let ?fs = "[F64 h, F32 mode, F32 ops, F32 (of_nat ?w)] @ map (\<lambda>p. Sized (mem p ?w)) [ad, bd, ap, bp]
    @ map F64 [xd, x, yd, y, dyd, dy, dzd, dz, dxd, dx, dbnd, scale, bias, dscale, dbias] @ [F64 epsilon]
    @ map F64 [saved_mean, saved_inv_var, act, workspace] @ [F64 wsize, F64 reserve, F64 rsize]"
  obtain st outs s' where l: "dnn_library lib ''cudnnBatchNormalizationBackwardEx'' ?as s = ((st, outs), s')" by (metis surj_pair)
  have m: "(API_cudnnBatchNormalizationBackwardEx, handle_cudnnBatchNormalizationBackwardEx lib) \<in> set (cudnn_cases types drv lib)"
    by (simp add: cudnn_cases_def)
  have ok: "((of_nat ?w :: u32) \<noteq> 4 \<and> (of_nat ?w :: u32) \<noteq> 8) = False" using scalar_width_cases [of dxd dn] by auto
  have r: "read_scalars 4 ?w (reading pre (enc_sized (mem ad ?w) @ enc_sized (mem bd ?w) @ enc_sized (mem ap ?w) @ enc_sized (mem bp ?w) @ r))
      = (Some [mem ad ?w, mem bd ?w, mem ap ?w, mem bp ?w],
         reading (pre @ enc_sized (mem ad ?w) @ enc_sized (mem bd ?w) @ enc_sized (mem ap ?w) @ enc_sized (mem bp ?w)) r)" for pre r
    using reading_read_scalars [of "[mem ad ?w, mem bd ?w, mem ap ?w, mem bp ?w]" ?w 4 pre r] assms(2) scalar_width_cases [of dxd dn]
    by auto
  have "dnn_answered (handle_cudnnBatchNormalizationBackwardEx lib (reading [] (enc_fields ?fs)) empty_buffer s) st [] s'"
    using reading_ptrs [OF assms(8), where n = 15] reading_ptrs [OF assms(9), where n = 4] dnn_call_answered [OF l] assms(1,7,10)
    by (simp add: r ok lib_take_def handle_cudnnBatchNormalizationBackwardEx_def dnn_need_fn_def lib_need_def reading_ptr dnn_spaces_def)
  from dnn_async_answered [OF m this] show ?thesis using assms(3-6)
    by (simp add: cudnnBatchNormalizationBackwardEx_def on_dnn_def dnn_computed_def l [simplified] Let_def)
qed


lemma resolve_known:
  "\<forall>v \<in> known. resolve hs v = Some (real v) \<Longrightarrow> set vs \<subseteq> known \<Longrightarrow> resolve_all hs vs = Some (map real vs)"
  by (induction vs) auto

text \<open>C22. The batch normalisations of a program, and the graphs it executes, are the library's own calls
  on the server: every pointer and descriptor as what it stands for there, in its place; the scalars as
  bytes of the width of the output's element type; the numbers as they were. The program does not wait,
  its stream has work outstanding, and a failure is kept for a later call.\<close>

theorem computing_calls_are_the_librarys:
  assumes "\<forall>name. ml_has lib name" and "\<forall>p n. length (mem p n) = n" and "0 \<notin> {alpha, beta, alpha2, beta2}"
    and "\<forall>v \<in> known. resolve (dh_handles s) v = Some (real v)"
    and "{h, xd, x, yd, y, zd, z, bnd, scale, bias, mean, var, save_mean, save_var, act, ws, rs, dyd, dy, dxd, dx, dscale, dbias, plan, pack}
      \<subseteq> known"
  shows "cudnnBatchNormalizationForwardInference mem (dnn_link types drv lib) h mode alpha beta xd x yd y bnd scale bias mean var epsilon
        (dn, (s, late))
      = dnn_computed lib ''cudnnBatchNormalizationForwardInference''
          ([Ptr (real h), I32 mode, Scalar (scalar_union (mem alpha (scalar_width yd dn))), Scalar (scalar_union (mem beta (scalar_width yd dn)))]
           @ map (Ptr \<circ> real) [xd, x, yd, y, bnd, scale, bias, mean, var] @ [I64 epsilon]) h (dn, s, late)
    \<and> cudnnBatchNormalizationForwardTrainingEx mem (dnn_link types drv lib) h mode ops alpha beta xd x zd z yd y bnd scale bias average
        mean var epsilon save_mean save_var act ws wsize rs rsize (dn, (s, late))
      = dnn_computed lib ''cudnnBatchNormalizationForwardTrainingEx''
          ([Ptr (real h), I32 mode, I32 ops, Scalar (scalar_union (mem alpha (scalar_width yd dn))), Scalar (scalar_union (mem beta (scalar_width yd dn)))]
           @ map (Ptr \<circ> real) [xd, x, zd, z, yd, y, bnd, scale, bias] @ [I64 average] @ map (Ptr \<circ> real) [mean, var] @ [I64 epsilon]
           @ map (Ptr \<circ> real) [save_mean, save_var, act, ws] @ [I64 wsize, Ptr (real rs), I64 rsize]) h (dn, s, late)
    \<and> cudnnBatchNormalizationBackwardEx mem (dnn_link types drv lib) h mode ops alpha beta alpha2 beta2 xd x yd y dyd dy zd z dxd dx bnd scale
        bias dscale dbias epsilon save_mean save_var act ws wsize rs rsize (dn, (s, late))
      = dnn_computed lib ''cudnnBatchNormalizationBackwardEx''
          ([Ptr (real h), I32 mode, I32 ops] @ map (\<lambda>p. Scalar (scalar_union (mem p (scalar_width dxd dn)))) [alpha, beta, alpha2, beta2]
           @ map (Ptr \<circ> real) [xd, x, yd, y, dyd, dy, zd, z, dxd, dx, bnd, scale, bias, dscale, dbias] @ [I64 epsilon]
           @ map (Ptr \<circ> real) [save_mean, save_var, act, ws] @ [I64 wsize, Ptr (real rs), I64 rsize]) h (dn, s, late)
    \<and> cudnnBackendExecute (dnn_link types drv lib) h plan pack (dn, (s, late))
      = dnn_computed lib ''cudnnBackendExecute'' (map (Ptr \<circ> real) [h, plan, pack]) h (dn, s, late)"
proof -
  have n: "alpha \<noteq> 0" "beta \<noteq> 0" "alpha2 \<noteq> 0" "beta2 \<noteq> 0" using assms(3) by auto
  have h: "resolve (dh_handles s) h = Some (real h)" and rs: "resolve (dh_handles s) rs = Some (real rs)"
    using assms(4,5) by auto
  note r = resolve_known [OF assms(4)]
  show ?thesis using assms(5)
    by (intro conjI) (simp_all add: r inference_served [OF assms(1,2) n(1,2) h r] training_served [OF assms(1,2) n(1,2) h r r r rs]
      backward_served [OF assms(1,2) n h r r rs] execute_served [OF assms(1) r])
qed

lemma nines_library: "dnn_library nines name as s = ((0, [I64 9]), s)" for s :: "fake dn_sv"
  by (simp add: dnn_library_def library_def nines_def)

lemma nines_has: "\<forall>name. ml_has (nines :: fake maths) name"
  by (simp add: nines_def)

theorem computing_calls_are_the_librarys_witness:
  "cudnnBackendExecute (dnn_link (\<lambda>_. TYPE_INT64) fake_driver nines) 5 kHandleTag 6
     (new_dnn, (no_handles\<lparr> dh_handles := [kHandleTag \<mapsto> 9] \<rparr>, CUDA_SUCCESS))
   = (0, (dnn_computes 5 new_dnn, (no_handles\<lparr> dh_handles := [kHandleTag \<mapsto> 9] \<rparr>, CUDA_SUCCESS)))"
proof -
  let ?s = "no_handles\<lparr> dh_handles := [kHandleTag \<mapsto> 9] \<rparr>"
  have len: "\<forall>p n. length (replicate n (ucast (p :: u64)) :: byte list) = n" by simp
  have known: "\<forall>v \<in> {5, 6, kHandleTag}. resolve (dh_handles ?s) v = Some (if v = kHandleTag then 9 else v)"
    by (simp add: resolve_def minted_def kHandleTag_def)
  have "0 \<notin> {1, 2, 3, 4 :: u64}" by simp
  note t = computing_calls_are_the_librarys [where mem = "\<lambda>p n. replicate n (ucast p)" and s = ?s and h = 5 and plan = kHandleTag
      and pack = 6 and xd = 6 and x = 6 and yd = 6 and y = 6 and zd = 6 and z = 6 and bnd = 6 and scale = 6 and bias = 6 and mean = 6
      and var = 6 and save_mean = 6 and save_var = 6 and act = 6 and ws = 6 and rs = 6 and dyd = 6 and dy = 6 and dxd = 6 and dx = 6
      and dscale = 6 and dbias = 6, OF nines_has len this known]
  have "cudnnBackendExecute (dnn_link (\<lambda>_. TYPE_INT64) fake_driver nines) 5 kHandleTag 6 (new_dnn, (?s, CUDA_SUCCESS))
      = dnn_computed nines ''cudnnBackendExecute'' (map (Ptr \<circ> (\<lambda>v. if v = kHandleTag then 9 else v)) [5, kHandleTag, 6]) 5 (new_dnn, ?s, CUDA_SUCCESS)"
    by (rule conjunct2 [OF conjunct2 [OF conjunct2 [OF t]]]) simp
  then show ?thesis by (simp add: dnn_computed_def nines_library late_after_def)
qed

section \<open>Failures of calls that were not waited for\<close>

text \<open>The elements of an attribute as the library gets them.\<close>

definition elements_sent :: "types \<Rightarrow> (u64 \<rightharpoonup> u64) \<Rightarrow> u32 \<Rightarrow> byte list \<Rightarrow> byte list option" where
  "elements_sent types hs ty bs = (if types ty = TYPE_BACKEND_DESCRIPTOR then resolve_descriptors hs bs else Some bs)"

lemma element_size_small: "0 < cudnn_element_size ty" "cudnn_element_size ty \<le> 16"
  by (cases ty; simp)+

lemma array_length_exact:
  assumes "sint count \<le> kMaxElements" and "0 \<le> sint count"
  shows "array_length types ty count = unat count * cudnn_element_size (types ty)"
proof -
  have "uint count \<le> 2 ^ 20"
  proof -
    have "sint count < 2 ^ 64" using sint_less [of count] by simp
    then have "uint count = sint count" using assms(2) by (simp add: uint_sint take_bit_int_eq_self)
    then show ?thesis using assms(1) by (simp add: kMaxElements_def)
  qed
  then have "int (unat count) \<le> int (2 ^ 20)" by simp
  then have "unat count \<le> 2 ^ 20" by (simp only: of_nat_le_iff)
  then have "unat count * cudnn_element_size (types ty) \<le> 2 ^ 20 * 16" using element_size_small(2) [of "types ty"] by (rule mult_le_mono)
  then have small: "unat count * cudnn_element_size (types ty) < 2 ^ 64" by simp
  have "count * of_nat (cudnn_element_size (types ty)) = of_nat (unat count * cudnn_element_size (types ty))" by simp
  then show ?thesis using small by (simp only: array_length_def unat_of_nat) (simp add: take_bit_nat_eq_self)
qed

lemma reading_elements:
  assumes "length bs = unat count * cudnn_element_size (types ty)" and "length bs < 2 ^ 64"
    and "elements_sent types (dh_handles s) ty bs = Some sent"
  shows "dnn_elements types ty count k (reading pre (enc_sized bs)) rsp s = k bs sent (reading (pre @ enc_sized bs) []) rsp s"
  using assms(3) unfolding dnn_elements_def lib_take_def reading_sized(2) [OF assms(2)]
  by (simp add: assms(1) elements_sent_def split: if_splits)

lemma dnn_set_attribute_served:
  assumes "\<forall>name. ml_has lib name" and "\<forall>p n. length (mem p n) = n" and "arr \<noteq> 0" and "0 \<le> sint count" and "sint count \<le> kMaxElements"
    and "resolve (dh_handles s) d = Some d'" and "elements_sent types (dh_handles s) ty (mem arr (array_length types ty count)) = Some sent"
    and l: "dnn_library lib ''cudnnBackendSetAttribute'' [Ptr d', I32 name, I32 ty, I64 count, Bytes (Some sent)] s = ((st, outs), s')"
  shows "cudnnBackendSetAttribute types mem (dnn_link types drv lib) d name ty count arr (dn, (s, late)) = (0, (dn, (s', late_after st late)))"
proof -
  let ?bs = "mem arr (array_length types ty count)"
  let ?fs = "[F64 d, F32 name, F32 ty, F64 count, flag_field (arr \<noteq> 0), Sized ?bs]"
  have m: "(API_cudnnBackendSetAttribute, handle_cudnnBackendSetAttribute types lib) \<in> set (cudnn_cases types drv lib)"
    by (simp add: cudnn_cases_def)
  note n = array_length_exact [OF assms(5,4), of types ty]
  have "length ?bs < 2 ^ 64" using assms(2) unsigned_less [of "count * of_nat (cudnn_element_size (types ty))", where 'a = nat]
    by (simp add: array_length_def)
  with n assms(2) have e: "dnn_elements types ty count k (reading pre (enc_sized ?bs)) rsp s = k ?bs sent (reading (pre @ enc_sized ?bs) []) rsp s"
    for k :: "byte list \<Rightarrow> byte list \<Rightarrow> 'a dnn_handler" and pre rsp by (intro reading_elements assms(7)) simp_all
  have "dnn_answered (handle_cudnnBackendSetAttribute types lib (reading [] (enc_fields ?fs)) empty_buffer s) st [] s'"
    using dnn_call_answered [OF l] assms(1,3-6)
    by (simp add: handle_cudnnBackendSetAttribute_def dnn_need_fn_def lib_need_def reading_ptr flag_field_def e)
  from dnn_async_answered [OF m this] show ?thesis using assms(3,4) by (simp add: cudnnBackendSetAttribute_def)
qed

lemma finalize_served:
  assumes "\<forall>name. ml_has lib name" and "resolve (dh_handles s) d = Some d'"
    and l: "dnn_library lib ''cudnnBackendFinalize'' [Ptr d'] s = ((st, outs), s')"
  shows "cudnnBackendFinalize (dnn_link types drv lib) d (dn, (s, late)) = (status_told st late, (dn, (s', late_told st late)))"
proof -
  have m: "(API_cudnnBackendFinalize, handle_cudnnBackendFinalize lib) \<in> set (cudnn_cases types drv lib)" by (simp add: cudnn_cases_def)
  have "dnn_answered (handle_cudnnBackendFinalize lib (reading [] (enc_fields [F64 d])) empty_buffer s) st [] s'"
    using dnn_call_answered [OF l] assms(1,2) by (simp add: handle_cudnnBackendFinalize_def on_descriptor_def dnn_need_fn_def lib_need_def)
  from dnn_tell_answered [OF m this] show ?thesis by (simp add: cudnnBackendFinalize_def)
qed

text \<open>C25. A program sets an attribute, which does not wait, and finalizes a descriptor, which does. The
  library gets the attribute's bytes as they were, with descriptors in the place of the values they came
  under. If it refuses them, the program is told of success then, and of the failure by the finalize: of
  the finalize's own if it fails too, which it also is told where nothing had failed before.\<close>

theorem refused_attribute_fails_the_finalize:
  assumes "\<forall>name. ml_has lib name" and "\<forall>p n. length (mem p n) = n" and "arr \<noteq> 0" and "0 \<le> sint count" and "sint count \<le> kMaxElements"
    and "resolve (dh_handles s) d = Some d'" and "elements_sent types (dh_handles s) ty (mem arr (array_length types ty count)) = Some sent"
    and "dnn_library lib ''cudnnBackendSetAttribute'' [Ptr d', I32 name, I32 ty, I64 count, Bytes (Some sent)] s = ((st, outs), s1)"
    and "resolve (dh_handles s1) e = Some e'" and "dnn_library lib ''cudnnBackendFinalize'' [Ptr e'] s1 = ((st', outs'), s2)"
  shows "\<exists>late. cudnnBackendSetAttribute types mem (dnn_link types drv lib) d name ty count arr (dn, (s, CUDA_SUCCESS)) = (0, (dn, (s1, late)))
    \<and> cudnnBackendFinalize (dnn_link types drv lib) e (dn, (s1, late))
      = (if st' \<noteq> 0 then st' else if st \<noteq> 0 then CUDNN_STATUS_EXECUTION_FAILED else 0, (dn, (s2, if st' = 0 then CUDA_SUCCESS else late)))"
  using dnn_set_attribute_served [OF assms(1-8)] finalize_served [OF assms(1,9,10)]
  by (simp add: status_told_def late_told_def late_after_def dnn_status_of_def)


text \<open>A library that refuses every attribute.\<close>

definition fussy :: "'d maths" where
  "fussy = \<lparr> ml_has = (\<lambda>name. True), ml_call = (\<lambda>name as w. ((if name = ''cudnnBackendSetAttribute'' then 3000 else 0, []), w)) \<rparr>"

theorem refused_attribute_fails_the_finalize_witness:
  "fst (cudnnBackendFinalize (dnn_link (\<lambda>_. TYPE_INT64) fake_driver fussy) 6
     (snd (cudnnBackendSetAttribute (\<lambda>_. TYPE_INT64) (\<lambda>p n. replicate n 7) (dnn_link (\<lambda>_. TYPE_INT64) fake_driver fussy) 5 1 3 2 0x70
        (new_dnn, (no_handles, CUDA_SUCCESS))))) = CUDNN_STATUS_EXECUTION_FAILED"
proof -
  let ?ln = "dnn_link (\<lambda>_. TYPE_INT64) fake_driver fussy"
  have l: "dnn_library fussy ''cudnnBackendSetAttribute'' as no_handles = ((3000, []), no_handles)"
    "dnn_library fussy ''cudnnBackendFinalize'' as no_handles = ((0, []), no_handles)" for as
    by (simp_all add: dnn_library_def library_def fussy_def)
  have has: "\<forall>name. ml_has (fussy :: fake maths) name" by (simp add: fussy_def)
  have len: "\<forall>p n. length (replicate n 7 :: byte list) = n" by simp
  have r: "resolve (dh_handles no_handles) 5 = Some 5" "resolve (dh_handles no_handles) 6 = Some 6"
    by (simp_all add: resolve_def minted_def kHandleTag_def no_handles_def)
  have e: "elements_sent (\<lambda>_. TYPE_INT64) (dh_handles no_handles) 3 (replicate n 7) = Some (replicate n 7)" for n
    by (simp add: elements_sent_def)
  obtain late where
    "cudnnBackendSetAttribute (\<lambda>_. TYPE_INT64) (\<lambda>p n. replicate n 7) ?ln 5 1 3 2 0x70 (new_dnn, (no_handles, CUDA_SUCCESS)) = (0, (new_dnn, (no_handles, late)))"
    "cudnnBackendFinalize ?ln 6 (new_dnn, (no_handles, late)) = (CUDNN_STATUS_EXECUTION_FAILED, (new_dnn, (no_handles, CUDA_SUCCESS)))"
    using refused_attribute_fails_the_finalize [where mem = "\<lambda>p n. replicate n 7" and types = "\<lambda>_. TYPE_INT64" and drv = fake_driver
        and count = 2 and arr = "0x70" and name = 1 and ty = 3 and dn = new_dnn, OF has len _ _ _ r(1) e l(1) r(2) l(2)]
    by (auto simp: kMaxElements_def)
  then show ?thesis by simp
qed

section \<open>What a made-up value stands for\<close>

definition made_up :: "u32 \<Rightarrow> u64" where
  "made_up n = or kHandleTag (ucast n)"

lemma minted_made_up: "minted (made_up n)"
proof -
  have "drop_bit 32 (ucast n :: u64) = 0" by (rule bit_word_eqI) (auto simp: bit_simps dest: bit_imp_le_length)
  then show ?thesis by (simp add: minted_def made_up_def)
qed

lemma tag_is_high: "bit kHandleTag n \<Longrightarrow> 32 \<le> n"
  by (simp only: kHandleTag_def bit_push_bit_iff)

lemma made_up_inj [simp]: "made_up m = made_up n \<longleftrightarrow> m = n"
proof
  assume "made_up m = made_up n"
  then have "ucast (made_up m) = (ucast (made_up n) :: u32)" by simp
  moreover have "ucast (made_up k) = k" for k
    by (rule bit_word_eqI) (auto simp: made_up_def bit_simps dest: tag_is_high)
  ultimately show "m = n" by simp
qed simp

lemma make_answered:
  assumes "minted h" and "dnn_library lib name as s = ((st, outs), s')"
  shows "dnn_answered (dnn_make lib name as h (reading pre r) empty_buffer s) st []
    (if st = 0 then s'\<lparr> dh_handles := (dh_handles s)(h \<mapsto> wrote_long 0 outs) \<rparr> else s')"
  using assms by (auto simp: dnn_library_def library_def dnn_make_def dnn_run_def dnn_answer_def dnn_answered_def put_status_def
      buf_put_def empty_buffer_def split: prod.splits)

lemma unmake_answered:
  assumes "\<forall>name. ml_has lib name" and "resolve (dh_handles s) h = Some d" and "dnn_library lib name [Ptr d] s = ((st, outs), s')"
  shows "dnn_answered (dnn_unmake lib name (reading [] (le_enc 8 h)) empty_buffer s) st [] (s'\<lparr> dh_handles := (dh_handles s)(h := None) \<rparr>)"
  using assms by (auto simp: dnn_library_def library_def dnn_unmake_def on_descriptor_def dnn_need_fn_def lib_need_def dnn_run_def
      dnn_answer_def dnn_answered_def put_status_def buf_put_def empty_buffer_def split: prod.splits)

lemma unmake_unknown:
  assumes "resolve (dh_handles s) h = None"
  shows "dnn_answered (dnn_unmake lib name (reading [] (le_enc 8 h)) empty_buffer s) CUDNN_STATUS_BAD_PARAM [] s"
  using assms by (simp add: dnn_unmake_def on_descriptor_def dnn_answer_def dnn_answered_def put_status_def buf_put_def empty_buffer_def
      CUDNN_STATUS_BAD_PARAM_def)


lemma mint_served:
  assumes "out \<noteq> 0" and "(api, k) \<in> set (cudnn_cases types drv lib)"
    and "dnn_answered (k (reading [] (enc_fields (fs @ [F64 (made_up (dn_next dn))]))) empty_buffer s) st extra s'"
  shows "dnn_mint (dnn_link types drv lib) api fs out (dn, (s, late))
    = ((0, Some (made_up (dn_next dn))), (dn\<lparr> dn_next := dn_next dn + 1 \<rparr>, (s', late_after st late)))"
  using dnn_async_answered [OF assms(2,3)] assms(1) by (simp add: dnn_mint_def dnn_need_def mint_handle_def made_up_def)

text \<open>A process's use of descriptors: it makes them, in any of the three ways, and destroys them; nothing else
  touches the counter or the table. The list has, for each value handed out and not destroyed, the
  descriptor the library made in that very call, where it made one; and the number counts the values
  made up.\<close>

datatype maker = Backend u32 | Tensor | Activation

definition maker_call :: "maker \<Rightarrow> string \<times> lib_arg list" where
  "maker_call m = (case m of Backend ty \<Rightarrow> (''cudnnBackendCreateDescriptor'', [I32 ty])
     | Tensor \<Rightarrow> (''cudnnCreateTensorDescriptor'', []) | Activation \<Rightarrow> (''cudnnCreateActivationDescriptor'', []))"

definition make_desc :: "'c link \<Rightarrow> maker \<Rightarrow> u64 \<Rightarrow> ('c, u32 \<times> u64 option) dnn_call" where
  "make_desc ln m out = (case m of Backend ty \<Rightarrow> cudnnBackendCreateDescriptor ln ty out
     | Tensor \<Rightarrow> cudnnCreateTensorDescriptor ln out | Activation \<Rightarrow> cudnnCreateActivationDescriptor ln out)"

definition destroy_desc :: "'c link \<Rightarrow> maker \<Rightarrow> u64 \<Rightarrow> ('c, u32) dnn_call" where
  "destroy_desc ln m h = (case m of Backend ty \<Rightarrow> cudnnBackendDestroyDescriptor ln h
     | Tensor \<Rightarrow> cudnnDestroyTensorDescriptor ln h | Activation \<Rightarrow> cudnnDestroyActivationDescriptor ln h)"

inductive mint_step :: "types \<Rightarrow> 'd driver \<Rightarrow> 'd maths \<Rightarrow> dnn \<times> ('d dn_sv \<times> CUresult) \<times> (u64 \<times> u64) list \<times> nat
    \<Rightarrow> dnn \<times> ('d dn_sv \<times> CUresult) \<times> (u64 \<times> u64) list \<times> nat \<Rightarrow> bool" for types drv lib where
  make: "make_desc (dnn_link types drv lib) m out (dn, x) = ((0, Some h), (dn', x')) \<Longrightarrow> out \<noteq> 0 \<Longrightarrow>
    dnn_library lib (fst (maker_call m)) (snd (maker_call m)) (fst x) = ((st, outs), s1) \<Longrightarrow>
    mint_step types drv lib (dn, x, made, n) (dn', x', (if st = 0 then (h, wrote_long 0 outs) # made else made), Suc n)"
| destroy: "destroy_desc (dnn_link types drv lib) m h (dn, x) = (st, (dn', x')) \<Longrightarrow>
    mint_step types drv lib (dn, x, made, n) (dn', x', filter (\<lambda>p. fst p \<noteq> h) made, n)"
| other: "dn_next dn' = dn_next dn \<Longrightarrow> dh_handles (fst x') = dh_handles (fst x) \<Longrightarrow>
    mint_step types drv lib (dn, x, made, n) (dn', x', made, n)"

lemma make_desc_served:
  assumes "\<forall>name. ml_has lib name" and "out \<noteq> 0"
    and l: "dnn_library lib (fst (maker_call m)) (snd (maker_call m)) s = ((st, outs), s1)"
  shows "make_desc (dnn_link types drv lib) m out (dn, (s, late)) = ((0, Some (made_up (dn_next dn))),
    (dn\<lparr> dn_next := dn_next dn + 1 \<rparr>,
     (if st = 0 then s1\<lparr> dh_handles := (dh_handles s)(made_up (dn_next dn) \<mapsto> wrote_long 0 outs) \<rparr> else s1, late_after st late)))"
proof (cases m)
  case (Backend ty)
  have c: "(API_cudnnBackendCreateDescriptor, handle_cudnnBackendCreateDescriptor lib) \<in> set (cudnn_cases types drv lib)"
    by (simp add: cudnn_cases_def)
  show ?thesis unfolding Backend make_desc_def maker.case cudnnBackendCreateDescriptor_def
    using make_answered [OF minted_made_up l [unfolded Backend maker_call_def maker.case prod.sel]] assms(1)
    by (intro mint_served [where extra = "[]", OF assms(2) c]) (simp add: handle_cudnnBackendCreateDescriptor_def dnn_need_fn_def lib_need_def)
next
  case Tensor
  have c: "(API_cudnnCreateTensorDescriptor, handle_cudnnCreateTensorDescriptor lib) \<in> set (cudnn_cases types drv lib)"
    by (simp add: cudnn_cases_def)
  show ?thesis unfolding Tensor make_desc_def maker.case cudnnCreateTensorDescriptor_def
    using make_answered [OF minted_made_up l [unfolded Tensor maker_call_def maker.case prod.sel]] assms(1)
    by (intro mint_served [where extra = "[]", OF assms(2) c]) (simp add: handle_cudnnCreateTensorDescriptor_def dnn_need_fn_def lib_need_def)
next
  case Activation
  have c: "(API_cudnnCreateActivationDescriptor, handle_cudnnCreateActivationDescriptor lib) \<in> set (cudnn_cases types drv lib)"
    by (simp add: cudnn_cases_def)
  show ?thesis unfolding Activation make_desc_def maker.case cudnnCreateActivationDescriptor_def
    using make_answered [OF minted_made_up l [unfolded Activation maker_call_def maker.case prod.sel]] assms(1)
    by (intro mint_served [where extra = "[]", OF assms(2) c]) (simp add: handle_cudnnCreateActivationDescriptor_def dnn_need_fn_def lib_need_def)
qed


lemma destroy_desc_served:
  assumes "\<forall>name. ml_has lib name"
  shows "dh_handles (fst (snd (snd (destroy_desc (dnn_link types drv lib) m h (dn, (s, late)))))) = (dh_handles s)(h := None)"
    and "dn_next (fst (snd (destroy_desc (dnn_link types drv lib) m h (dn, (s, late))))) = dn_next dn"
proof -
  let ?name = "case m of Backend ty \<Rightarrow> ''cudnnBackendDestroyDescriptor'' | Tensor \<Rightarrow> ''cudnnDestroyTensorDescriptor''
    | Activation \<Rightarrow> ''cudnnDestroyActivationDescriptor''"
  let ?api = "case m of Backend ty \<Rightarrow> API_cudnnBackendDestroyDescriptor | Tensor \<Rightarrow> API_cudnnDestroyTensorDescriptor
    | Activation \<Rightarrow> API_cudnnDestroyActivationDescriptor"
  have c: "(?api, dnn_unmake lib ?name) \<in> set (cudnn_cases types drv lib)"
    by (cases m) (simp_all add: cudnn_cases_def handle_cudnnBackendDestroyDescriptor_def handle_cudnnDestroyTensorDescriptor_def
        handle_cudnnDestroyActivationDescriptor_def)
  obtain st s1 where a: "dnn_answered (dnn_unmake lib ?name (reading [] (le_enc 8 h)) empty_buffer s) st [] s1"
    and s1: "dh_handles s1 = (dh_handles s)(h := None)"
  proof (cases "resolve (dh_handles s) h")
    case None
    then have "dh_handles s h = None" by (simp add: resolve_def split: if_splits)
    then show ?thesis using that [OF unmake_unknown [OF None]] by (simp add: fun_upd_idem)
  next
    case (Some d)
    obtain st outs s' where l: "dnn_library lib ?name [Ptr d] s = ((st, outs), s')" by (metis surj_pair)
    show ?thesis using that [OF unmake_answered [OF assms Some l]] by simp
  qed
  have "dnn_async (dnn_link types drv lib) ?api [F64 h] (dn, (s, late)) = (0, (dn, (s1, late_after st late)))"
    using a by (intro dnn_async_answered [where extra = "[]", OF c]) simp
  then show "dh_handles (fst (snd (snd (destroy_desc (dnn_link types drv lib) m h (dn, (s, late)))))) = (dh_handles s)(h := None)"
    and "dn_next (fst (snd (destroy_desc (dnn_link types drv lib) m h (dn, (s, late))))) = dn_next dn"
    by (cases m; simp add: destroy_desc_def cudnnBackendDestroyDescriptor_def cudnnDestroyTensorDescriptor_def
        cudnnDestroyActivationDescriptor_def forget_type_def s1)+
qed

definition mints_agree :: "dnn \<times> ('d dn_sv \<times> CUresult) \<times> (u64 \<times> u64) list \<times> nat \<Rightarrow> bool" where
  "mints_agree z \<longleftrightarrow> (case z of (dn, x, made, n) \<Rightarrow>
     dn_next dn = of_nat (Suc n) \<and> dh_handles (fst x) = map_of made \<and> distinct (map fst made)
     \<and> fst ` set made \<subseteq> (\<lambda>k. made_up (of_nat (Suc k))) ` {..<n})"

lemma fresh_made_up:
  assumes "n < 2 ^ 32"
  shows "made_up (of_nat (Suc n)) \<notin> (\<lambda>k. made_up (of_nat (Suc k))) ` {..<n}"
proof
  assume "made_up (of_nat (Suc n)) \<in> (\<lambda>k. made_up (of_nat (Suc k))) ` {..<n}"
  then obtain k where k: "k < n" "(of_nat (Suc n) :: u32) = of_nat (Suc k)" by auto
  then have "(of_nat n :: u32) = of_nat k" by simp
  then have "take_bit 32 n = take_bit 32 k" by (simp add: word_of_nat_eq_iff)
  then show False using k(1) assms by (simp add: take_bit_nat_eq_self)
qed

lemma mint_step_agree:
  assumes "mint_step types drv lib z z'" and "\<forall>name. ml_has lib name" and "mints_agree z" and "snd (snd (snd z')) \<le> 2 ^ 32"
  shows "mints_agree z'"
  using assms
proof (induction rule: mint_step.induct)
  case (make m out dn x h dn' x' st outs s1 made n)
  obtain s late where x: "x = (s, late)" by fastforce
  have h: "dh_handles s1 = dh_handles s" using make.hyps(3) by (auto simp: dnn_library_def x split: prod.splits)
  have e: "h = made_up (dn_next dn)" "dn' = dn\<lparr> dn_next := dn_next dn + 1 \<rparr>"
    "dh_handles (fst x') = (if st = 0 then (dh_handles s)(h \<mapsto> wrote_long 0 outs) else dh_handles s)"
    using make_desc_served [OF make.prems(1) make.hyps(2) make.hyps(3) [unfolded x fst_conv], of types drv dn late] make.hyps(1) h
    by (auto simp: x split: if_splits)
  have n: "dn_next dn = of_nat (Suc n)" "dh_handles s = map_of made" "distinct (map fst made)"
    "fst ` set made \<subseteq> (\<lambda>k. made_up (of_nat (Suc k))) ` {..<n}"
    using make.prems(2) by (auto simp: mints_agree_def x)
  have "h \<notin> fst ` set made" using fresh_made_up [of n] make.prems(3) n(1,4) e(1) by auto
  moreover have "h \<in> (\<lambda>k. made_up (of_nat (Suc k))) ` {..<Suc n}" by (rule image_eqI [of _ _ n]) (simp_all add: e(1) n(1))
  ultimately show ?case using n e by (auto simp: mints_agree_def lessThan_Suc)
next
  case (destroy m h dn x st dn' x' made n)
  obtain s late where x: "x = (s, late)" by fastforce
  have e: "dh_handles (fst x') = (dh_handles s)(h := None)" "dn_next dn' = dn_next dn"
    using destroy_desc_served [OF destroy.prems(1), of types drv m h dn s late] destroy.hyps x by auto
  have "map_of (filter (\<lambda>p. fst p \<noteq> h) made) = (map_of made)(h := None)"
    by (induction made) auto
  moreover have "distinct (map fst (filter (\<lambda>p. fst p \<noteq> h) made))" using destroy.prems(2)
    by (auto simp: mints_agree_def distinct_map_filter)
  ultimately show ?case using destroy.prems(2) e by (auto simp: mints_agree_def x)
next
  case (other dn' dn x' x made n)
  then show ?case by (simp add: mints_agree_def)
qed


text \<open>C24. Whatever descriptors a program makes and destroys, up to 2 to the 32 of them, it is never given
  the value of one that lives, and each value stands on the server for the descriptor the library made
  for it, though the program never waited for that.\<close>

theorem value_stands_for_its_descriptor:
  assumes "(mint_step types drv lib)\<^sup>*\<^sup>* (new_dnn, (s0, late0), [], 0) (dn, (s, late), made, n)" and "dh_handles s0 = Map.empty"
    and "\<forall>name. ml_has lib name" and "n \<le> 2 ^ 32"
  shows "distinct (map fst made) \<and> (\<forall>(h, d) \<in> set made. minted h \<and> resolve (dh_handles s) h = Some d)"
proof -
  have "snd (snd (snd z)) \<le> 2 ^ 32 \<longrightarrow> mints_agree z" if "(mint_step types drv lib)\<^sup>*\<^sup>* (new_dnn, (s0, late0), [], 0) z" for z
    using that
  proof (induction rule: rtranclp_induct)
    case base
    then show ?case using assms(2) by (simp add: mints_agree_def new_dnn_def)
  next
    case (step y z)
    have "snd (snd (snd y)) \<le> snd (snd (snd z))" using step.hyps(2) by (induction rule: mint_step.induct) simp_all
    then show ?case using mint_step_agree [OF step.hyps(2) assms(3)] step.IH by auto
  qed
  from this [OF assms(1)] assms(4) have m: "mints_agree (dn, (s, late), made, n)" by simp
  then have "minted h" and "resolve (dh_handles s) h = Some d" if "(h, d) \<in> set made" for h d
    using that minted_made_up by (auto simp: mints_agree_def resolve_def map_of_is_SomeI image_subset_iff)
  with m show ?thesis by (auto simp: mints_agree_def)
qed


theorem value_stands_for_its_descriptor_witness:
  "\<exists>dn s late made. (mint_step (\<lambda>_. TYPE_INT64) fake_driver nines)\<^sup>*\<^sup>* (new_dnn, (no_handles, CUDA_SUCCESS), [], 0) (dn, (s, late), made, 2)
     \<and> map snd made = [9, 9] \<and> distinct (map fst made)"
proof -
  let ?step = "mint_step (\<lambda>_. TYPE_INT64) fake_driver nines"
  let ?dn = "\<lambda>k. new_dnn\<lparr> dn_next := k \<rparr>"
  let ?s1 = "no_handles\<lparr> dh_handles := [made_up 1 \<mapsto> 9] \<rparr>"
  let ?s2 = "no_handles\<lparr> dh_handles := [made_up 1 \<mapsto> 9, made_up 2 \<mapsto> 9] \<rparr>"
  have 1: "make_desc (dnn_link (\<lambda>_. TYPE_INT64) fake_driver nines) Tensor 0x20 (new_dnn, (no_handles, CUDA_SUCCESS))
      = ((0, Some (made_up 1)), (?dn 2, (?s1, CUDA_SUCCESS)))"
    by (subst make_desc_served [OF nines_has _ nines_library]) (simp_all add: new_dnn_def no_handles_def late_after_def wrote_long_def)
  have 2: "make_desc (dnn_link (\<lambda>_. TYPE_INT64) fake_driver nines) (Backend 4) 0x20 (?dn 2, (?s1, CUDA_SUCCESS))
      = ((0, Some (made_up 2)), (?dn 3, (?s2, CUDA_SUCCESS)))"
    by (subst make_desc_served [OF nines_has _ nines_library]) (simp_all add: new_dnn_def no_handles_def late_after_def wrote_long_def)
  have one: "?step (new_dnn, (no_handles, CUDA_SUCCESS), [], 0) (?dn 2, (?s1, CUDA_SUCCESS), [(made_up 1, 9)], 1)"
    using mint_step.make [OF 1, of 0 "[I64 9]" no_handles "[]" 0] by (simp add: nines_library wrote_long_def)
  have two: "?step (?dn 2, (?s1, CUDA_SUCCESS), [(made_up 1, 9)], 1) (?dn 3, (?s2, CUDA_SUCCESS), [(made_up 2, 9), (made_up 1, 9)], Suc 1)"
    using mint_step.make [OF 2, of 0 "[I64 9]" ?s1 "[(made_up 1, 9)]" 1] by (simp add: nines_library wrote_long_def)
  have run: "?step\<^sup>*\<^sup>* (new_dnn, (no_handles, CUDA_SUCCESS), [], 0) (?dn 3, (?s2, CUDA_SUCCESS), [(made_up 2, 9), (made_up 1, 9)], 2)"
    using converse_rtranclp_into_rtranclp [where r = ?step, OF one r_into_rtranclp [where r = ?step, OF two [unfolded Suc_1]]] .
  have "distinct (map fst [(made_up 2, 9 :: u64), (made_up 1, 9)])"
    using value_stands_for_its_descriptor [OF run _ nines_has] by (simp add: no_handles_def)
  then show ?thesis using run by (intro exI [of _ "?dn 3"] exI [of _ ?s2] exI [of _ CUDA_SUCCESS] exI [of _ "[(made_up 2, 9), (made_up 1, 9)]"]) simp
qed

end
