(* ===== verification/ModuleImage.thy ===== *)
theory ModuleImage
  imports Launch Forward
begin

text \<open>
  How long a module image is (\<^verbatim>\<open>image_size\<close> of \<^verbatim>\<open>client/rpc.cpp\<close>). A program hands over a pointer and
  no length, so the client reads the length out of the image. Memory is the list of bytes from the
  pointer on; what lies beyond the list reads as zero.
\<close>

section \<open>The length of an image\<close>

definition byte_at :: "byte list \<Rightarrow> nat \<Rightarrow> byte" where
  "byte_at p i = (if i < length p then p ! i else 0)"

text \<open>A field of \<open>n\<close> bytes.\<close>

definition field_at :: "byte list \<Rightarrow> nat \<Rightarrow> nat \<Rightarrow> 'a::len word" where
  "field_at p i n = le_dec (map (byte_at p) [i ..< i + n])"

definition fatbin_magic :: u32 where "fatbin_magic = 0xBA55ED50"

definition c_strlen :: "byte list \<Rightarrow> nat" where
  "c_strlen p = length (takeWhile (\<lambda>b. b \<noteq> 0) p)"

definition image_size :: "byte list option \<Rightarrow> u64" where
  "image_size img = (case img of None \<Rightarrow> 0 | Some p \<Rightarrow>
     if field_at p 0 4 = fatbin_magic
     then ucast (field_at p 6 2 :: 16 word) + field_at p 8 8
     else if map (byte_at p) [0, 1, 2, 3] = [0x7f, 0x45, 0x4c, 0x46]
     then (if byte_at p 4 = 2
           then field_at p 0x28 8 + ucast (field_at p 0x3a 2 :: 16 word) * ucast (field_at p 0x3c 2 :: 16 word)
           else ucast (field_at p 0x20 4 :: u32) + ucast (field_at p 0x2e 2 :: 16 word) * ucast (field_at p 0x30 2 :: 16 word))
     else if byte_at p 0 \<in> {0x2f, 0x0a, 0x2e, 0x20} then of_nat (c_strlen p + 1)
     else 0)"

section \<open>Images\<close>

text \<open>The three kinds of image, as their formats have them: a fat binary, whose header says how much
  follows it; an object file of 64 or 32 bits, whose last part is the table of its sections; and source
  text that ends in a zero.\<close>

definition fatbin :: "byte list \<Rightarrow> bool" where
  "fatbin img \<longleftrightarrow> (\<exists>version header body. img = le_enc 4 fatbin_magic @ le_enc 2 (version :: 16 word)
     @ le_enc 2 (of_nat (16 + length header) :: 16 word) @ le_enc 8 (of_nat (length body) :: u64) @ header @ body
     \<and> 16 + length header < 2 ^ 16)"

definition cubin64 :: "byte list \<Rightarrow> bool" where
  "cubin64 img \<longleftrightarrow> length img \<ge> 64 \<and> take 5 img = [0x7f, 0x45, 0x4c, 0x46, 2]
     \<and> (\<exists>shoff entsize num. take 8 (drop 40 img) = le_enc 8 (shoff :: u64)
       \<and> take 2 (drop 58 img) = le_enc 2 (entsize :: 16 word) \<and> take 2 (drop 60 img) = le_enc 2 (num :: 16 word)
       \<and> unat shoff + unat entsize * unat num = length img)"

definition cubin32 :: "byte list \<Rightarrow> bool" where
  "cubin32 img \<longleftrightarrow> length img \<ge> 52 \<and> take 5 img = [0x7f, 0x45, 0x4c, 0x46, 1]
     \<and> (\<exists>shoff entsize num. take 4 (drop 32 img) = le_enc 4 (shoff :: u32)
       \<and> take 2 (drop 46 img) = le_enc 2 (entsize :: 16 word) \<and> take 2 (drop 48 img) = le_enc 2 (num :: 16 word)
       \<and> unat shoff + unat entsize * unat num = length img)"

text \<open>Source text starts with a comment, a line break, a directive or a blank.\<close>

definition source_text :: "byte list \<Rightarrow> bool" where
  "source_text img \<longleftrightarrow> (\<exists>c cs. img = c # cs @ [0] \<and> c \<in> {0x2f, 0x0a, 0x2e, 0x20} \<and> 0 \<notin> set cs)"

lemma field_at_front:
  "i + n \<le> length img \<Longrightarrow> field_at (img @ rest) i n = le_dec (take n (drop i img))"
proof -
  assume "i + n \<le> length img"
  then have "map (byte_at (img @ rest)) [i ..< i + n] = take n (drop i img)"
    by (intro nth_equalityI) (simp_all add: byte_at_def nth_append)
  then show ?thesis by (simp add: field_at_def)
qed

lemma short_field:
  "k < 2 ^ 16 \<Longrightarrow> (ucast (of_nat k :: 16 word) :: u64) = of_nat k"
  by (simp add: word_unat_eq_iff unsigned_of_nat take_bit_nat_eq_self)

lemma first_byte_of_field:
  "(ucast (le_dec (b # bs) :: u32) :: byte) = b"
  by (rule bit_word_eqI) (simp add: bit_simps)

lemma fatbin_size:
  assumes "fatbin img" and "length img < 2 ^ 64"
  shows "image_size (Some (img @ rest)) = of_nat (length img)"
proof -
  obtain version :: "16 word" and header body where i: "img = le_enc 4 fatbin_magic @ le_enc 2 version
     @ le_enc 2 (of_nat (16 + length header) :: 16 word) @ le_enc 8 (of_nat (length body) :: u64) @ header @ body"
    and h: "16 + length header < 2 ^ 16"
    using assms(1) by (auto simp: fatbin_def)
  have f: "field_at (img @ rest) 0 4 = fatbin_magic" "field_at (img @ rest) 6 2 = (of_nat (16 + length header) :: 16 word)"
    "field_at (img @ rest) 8 8 = (of_nat (length body) :: u64)"
    by (subst field_at_front; simp add: i le_dec_le_enc_full)+
  have l: "length img = 16 + length header + length body" by (simp add: i)
  have "image_size (Some (img @ rest)) = of_nat (16 + length header) + of_nat (length body)"
    unfolding image_size_def by (simp only: f option.case if_True refl short_field [OF h])
  then show ?thesis by (simp only: l of_nat_add)
qed


lemma elf_front:
  assumes "take 5 img = [0x7f, 0x45, 0x4c, 0x46, c]" and "length img \<ge> 5"
  shows "map (byte_at (img @ rest)) [0, 1, 2, 3] = [0x7f, 0x45, 0x4c, 0x46]" and "byte_at (img @ rest) 4 = c"
    and "field_at (img @ rest) 0 4 \<noteq> fatbin_magic"
proof -
  have n: "byte_at (img @ rest) i = take 5 img ! i" if "i < 5" for i using that assms(2) by (simp add: byte_at_def nth_append)
  show b: "map (byte_at (img @ rest)) [0, 1, 2, 3] = [0x7f, 0x45, 0x4c, 0x46]" and "byte_at (img @ rest) 4 = c"
    by (simp_all add: n assms(1))
  have "[0 ..< 0 + 4] = [0, 1, 2, 3 :: nat]" by (simp add: upt_rec)
  then have "field_at (img @ rest) 0 4 = (le_dec [0x7f, 0x45, 0x4c, 0x46] :: u32)" using b by (simp only: field_at_def)
  then show "field_at (img @ rest) 0 4 \<noteq> fatbin_magic" by (simp add: fatbin_magic_def)
qed

lemma table_end:
  fixes e n :: "16 word" and s :: "'a::len word"
  assumes "unat s + unat e * unat n = k"
  shows "(of_nat k :: u64) = ucast s + ucast e * ucast n"
  by (simp add: assms [symmetric])

lemma cubin64_size:
  assumes "cubin64 img"
  shows "image_size (Some (img @ rest)) = of_nat (length img)"
proof -
  obtain shoff :: u64 and e n :: "16 word" where l: "length img \<ge> 64" and m: "take 5 img = [0x7f, 0x45, 0x4c, 0x46, 2]"
    and f: "take 8 (drop 40 img) = le_enc 8 shoff" "take 2 (drop 58 img) = le_enc 2 e" "take 2 (drop 60 img) = le_enc 2 n"
    and k: "unat shoff + unat e * unat n = length img"
    using assms by (auto simp: cubin64_def)
  have g: "field_at (img @ rest) 0x28 8 = shoff" "field_at (img @ rest) 0x3a 2 = e" "field_at (img @ rest) 0x3c 2 = n"
    using l f by (simp_all add: field_at_front)
  have "length img \<ge> 5" using l by simp
  note b = elf_front [OF m this, of rest]
  show ?thesis using table_end [OF k] by (simp add: image_size_def b [simplified] g [simplified])
qed

lemma cubin32_size:
  assumes "cubin32 img"
  shows "image_size (Some (img @ rest)) = of_nat (length img)"
proof -
  obtain shoff :: u32 and e n :: "16 word" where l: "length img \<ge> 52" and m: "take 5 img = [0x7f, 0x45, 0x4c, 0x46, 1]"
    and f: "take 4 (drop 32 img) = le_enc 4 shoff" "take 2 (drop 46 img) = le_enc 2 e" "take 2 (drop 48 img) = le_enc 2 n"
    and k: "unat shoff + unat e * unat n = length img"
    using assms by (auto simp: cubin32_def)
  have g: "field_at (img @ rest) 0x20 4 = shoff" "field_at (img @ rest) 0x2e 2 = e" "field_at (img @ rest) 0x30 2 = n"
    using l f by (simp_all add: field_at_front)
  have "length img \<ge> 5" using l by simp
  note b = elf_front [OF m this, of rest]
  show ?thesis using table_end [OF k] by (simp add: image_size_def b [simplified] g [simplified])
qed

lemma text_size:
  assumes "source_text img"
  shows "image_size (Some (img @ rest)) = of_nat (length img)"
proof -
  obtain c cs where i: "img = c # cs @ [0]" and c: "c \<in> {0x2f, 0x0a, 0x2e, 0x20}" and z: "0 \<notin> set cs"
    using assms by (auto simp: source_text_def)
  have "takeWhile (\<lambda>b. b \<noteq> 0) (img @ rest) = c # cs" using z c by (auto simp: i takeWhile_append takeWhile_eq_all_conv)
  then have s: "c_strlen (img @ rest) + 1 = length img" by (simp add: c_strlen_def i)
  have b: "byte_at (img @ rest) 0 = c" by (simp add: byte_at_def i)
  have "field_at (img @ rest) 0 4 \<noteq> fatbin_magic"
  proof
    assume "field_at (img @ rest) 0 4 = fatbin_magic"
    moreover have "field_at (img @ rest) 0 4 = (le_dec (c # map (byte_at (img @ rest)) [1, 2, 3]) :: u32)"
    proof -
      have "[0 ..< 0 + 4] = [0, 1, 2, 3 :: nat]" by (simp add: upt_rec)
      then show ?thesis by (simp only: field_at_def list.map b)
    qed
    ultimately have "(ucast (le_dec (c # map (byte_at (img @ rest)) [1, 2, 3]) :: u32) :: byte) = ucast fatbin_magic" by simp
    then show False using c unfolding first_byte_of_field by (auto simp: fatbin_magic_def)
  qed
  moreover have "map (byte_at (img @ rest)) [0, 1, 2, 3] \<noteq> [0x7f, 0x45, 0x4c, 0x46]" using c b by auto
  ultimately show ?thesis using c b s by (auto simp: image_size_def)
qed

section \<open>An image on its way\<close>

definition whole_image :: "byte list \<Rightarrow> bool" where
  "whole_image img \<longleftrightarrow> fatbin img \<or> cubin64 img \<or> cubin32 img \<or> source_text img"

lemma image_size_whole:
  "whole_image img \<Longrightarrow> length img < 2 ^ 64 \<Longrightarrow> unat (image_size (Some (img @ beyond))) = length img"
  using fatbin_size [of img beyond] cubin64_size [of img beyond] cubin32_size [of img beyond] text_size [of img beyond]
  unfolding whole_image_def by (elim disjE) (simp_all add: unsigned_of_nat take_bit_nat_eq_self)

text \<open>What the stubs send of the pointer they are given.\<close>

definition image_arg :: "byte list option \<Rightarrow> arg" where
  "image_arg p = Bytes (map_option (\<lambda>bytes. map (byte_at bytes) [0 ..< unat (image_size p)]) p)"

lemma image_arg_whole:
  assumes "whole_image img" and "length img < 2 ^ 64"
  shows "image_arg (Some (img @ beyond)) = Bytes (Some img)"
proof -
  have "map (byte_at (img @ beyond)) [0 ..< length img] = img"
    by (rule nth_equalityI) (simp_all add: byte_at_def nth_append)
  then show ?thesis by (simp only: image_arg_def option.map image_size_whole [OF assms])
qed

lemma image_request:
  "length img < 2 ^ 64 \<Longrightarrow> bdata (marshal [Out 8, Block Whole] [Place has, Bytes (Some img)])
    = (if has then 1 else 0) # 1 # enc_sized img"
  using marshal_bytes [of "[Out 8, Block Whole]" "[Place has, Bytes (Some img)]"]
  by (simp add: args_fit_def fits_def extent_def enc_params_def enc_param_def flag_def)

lemma image_read_back:
  assumes "length img < 2 ^ 64"
  shows "d_cuModuleLoadData drv depth (buffer_of ((if has then 1 else 0) # 1 # enc_sized img)) rsp s
    = invoke drv depth (Make has (ModuleLoadData (Some img))) [(has, 8)] (reading ((if has then 1 else 0) # 1 # enc_sized img) []) rsp s"
  using assms by (simp add: d_cuModuleLoadData_def buffer_of_reading take_field_def get_opt_sized_def)

lemma handle_read_back:
  "take_outs 0 [Out 8, Block Whole] [Place has, a] (buffer_of (bdata (put_outs [(has, 8)] outs empty_buffer)))
    = (if has then [(0, le_enc 8 (out0 outs))] else [], True)"
proof (cases has)
  case True
  have "get_bytes 8 (reading [] (le_enc 8 (out0 outs))) = (Some (le_enc 8 (out0 outs)), reading [] (le_enc 8 (out0 outs))\<lparr> bread := 8 \<rparr>)"
    by (subst get_bytes_reads [where r = "[]"]) (simp_all add: reading_def)
  then show ?thesis using True by (simp add: buffer_of_reading buf_put_def empty_buffer_def)
qed simp

lemma load_case: "dispatch_generated drv depth 345 = Some (d_cuModuleLoadData drv depth)"
  by (simp add: dispatch_generated_def generated_cases_def)

lemma load_not_internal: "dispatch_internal drv 345 = None"
  by (simp add: dispatch_internal_def API_rgpu_param_layout_def API_rgpu_launch_def API_rgpu_hello_def
      API_rgpu_capture_info_def API_rgpu_graph_nodes_def API_rgpu_capture_mode_def API_rgpu_device_attrs_def kInternalBase_def)

text \<open>C9. A module image arrives whole. A program that loads a module hands over a pointer and no
  length. Where the pointer leads to a fat binary, to an object file of 64 or 32 bits whose section
  table is its last part, or to source text that ends in a zero, and whatever lies in memory behind it,
  the stub of \<^verbatim>\<open>cuModuleLoadData\<close> sends exactly the image: the server makes the tracked call of its
  driver with these bytes, and its result and handle are the program's.\<close>

theorem module_image_arrives_whole:
  assumes "whole_image img" and "length img < 2 ^ 64"
    and "driver_sym drv ''cuModuleLoadData'' \<noteq> None"
    and "\<And>q rsp s. libs 345 q rsp s = None"
  shows "run_stub (dispatched drv depth libs rest) post (Calls ''cuModuleLoadData'' 345 No_work [Out 8, Block Whole] No_wait)
      [Place has, image_arg (Some (img @ beyond))] (s, p)
    = (case tracked_call drv depth (Make has (ModuleLoadData (Some img))) s of ((r, outs), s1) \<Rightarrow>
        ((r, if r = CUDA_SUCCESS \<and> has then [(0, le_enc 8 (out0 outs))] else []), (s1, p)))"
proof -
  let ?bs = "(if has then 1 else 0) # 1 # enc_sized img" and ?c = "Make has (ModuleLoadData (Some img))"
  obtain r outs s1 where t: "tracked_call drv depth ?c s = ((r, outs), s1)" by (metis surj_pair)
  obtain f where "driver_sym drv ''cuModuleLoadData'' = Some f" using assms(3) by blast
  then have "d_cuModuleLoadData drv depth (buffer_of ?bs) empty_buffer s
      = (r, reading ?bs [], put_outs [(has, 8)] outs empty_buffer, s1)"
    unfolding image_read_back [OF assms(2)] invoke_def using t by simp
  then have "dispatched drv depth libs rest 345 ?bs s = ((r, bdata (put_outs [(has, 8)] outs empty_buffer)), s1)"
    using assms(4) by (simp add: dispatched_def dispatch_def load_not_internal load_case answered_def)
  then show ?thesis
    by (simp add: run_stub_def image_arg_whole [OF assms(1,2)] image_request [OF assms(2)] t handle_read_back
        mark_before_def mark_after_def del: put_outs.simps take_outs.simps)
qed

theorem module_image_arrives_whole_witness:
  "\<forall>s p. run_stub (dispatched demo_all 8 nothing_more nothing_more) demo_post
      (Calls ''cuModuleLoadData'' 345 No_work [Out 8, Block Whole] No_wait)
      [Place True, image_arg (Some ([0x2e, 0x76, 0] @ [7, 9]))] (s, p)
    = (case tracked_call demo_all 8 (Make True (ModuleLoadData (Some [0x2e, 0x76, 0]))) s of ((r, outs), s1) \<Rightarrow>
        ((r, if r = CUDA_SUCCESS then [(0, le_enc 8 (out0 outs))] else []), (s1, p)))"
proof (intro allI)
  fix s :: "unit sv" and p :: pending
  have "source_text [0x2e, 0x76, 0]"
    unfolding source_text_def by (rule exI [where x = "0x2e"], rule exI [where x = "[0x76]"]) simp
  then have w: "whole_image [0x2e, 0x76, 0]" by (simp add: whole_image_def)
  have d: "driver_sym demo_all ''cuModuleLoadData'' \<noteq> None" by (simp add: driver_sym_def demo_all_def split: option.split)
  show "run_stub (dispatched demo_all 8 nothing_more nothing_more) demo_post
      (Calls ''cuModuleLoadData'' 345 No_work [Out 8, Block Whole] No_wait)
      [Place True, image_arg (Some ([0x2e, 0x76, 0] @ [7, 9]))] (s, p)
    = (case tracked_call demo_all 8 (Make True (ModuleLoadData (Some [0x2e, 0x76, 0]))) s of ((r, outs), s1) \<Rightarrow>
        ((r, if r = CUDA_SUCCESS then [(0, le_enc 8 (out0 outs))] else []), (s1, p)))"
    using module_image_arrives_whole [OF w _ d, where libs = nothing_more and rest = nothing_more and has = True
        and beyond = "[7, 9]" and depth = 8 and post = demo_post and s = s and p = p]
    by (simp add: nothing_more_def)
qed

end
