(* ===== verification/Names.thy ===== *)
theory Names
  imports Forward
begin

text \<open>
  The ids of the driver's entry points (\<^verbatim>\<open>common/generated/api_ids.h\<close>) and their names for the log
  (\<^verbatim>\<open>common/generated/api_names.cpp\<close>), which are generated side by side.
\<close>

section \<open>The tables\<close>

definition ids_cuArray3DCreate_v2 :: "(string \<times> u32) list" where
  "ids_cuArray3DCreate_v2 =
    [(''cuArray3DCreate_v2'', 1),
     (''cuArray3DGetDescriptor_v2'', 2),
     (''cuArrayCreate_v2'', 3),
     (''cuArrayDestroy'', 4),
     (''cuArrayGetDescriptor_v2'', 5),
     (''cuArrayGetMemoryRequirements'', 6),
     (''cuArrayGetPlane'', 7),
     (''cuArrayGetSparseProperties'', 8),
     (''cuCheckpointProcessCheckpoint'', 9),
     (''cuCheckpointProcessGetRestoreThreadId'', 10),
     (''cuCheckpointProcessGetState'', 11),
     (''cuCheckpointProcessLock'', 12),
     (''cuCheckpointProcessRestore'', 13),
     (''cuCheckpointProcessUnlock'', 14),
     (''cuCoredumpGetAttribute'', 15),
     (''cuCoredumpGetAttributeGlobal'', 16),
     (''cuCoredumpSetAttribute'', 17),
     (''cuCoredumpSetAttributeGlobal'', 18),
     (''cuCtxAttach'', 19),
     (''cuCtxCreate_v2'', 20),
     (''cuCtxCreate_v3'', 21),
     (''cuCtxCreate_v4'', 22),
     (''cuCtxDestroy_v2'', 23),
     (''cuCtxDetach'', 24)]"

definition ids_cuCtxDisablePeerAccess :: "(string \<times> u32) list" where
  "ids_cuCtxDisablePeerAccess =
    [(''cuCtxDisablePeerAccess'', 25),
     (''cuCtxEnablePeerAccess'', 26),
     (''cuCtxFromGreenCtx'', 27),
     (''cuCtxGetApiVersion'', 28),
     (''cuCtxGetCacheConfig'', 29),
     (''cuCtxGetCurrent'', 30),
     (''cuCtxGetDevResource'', 31),
     (''cuCtxGetDevice'', 32),
     (''cuCtxGetExecAffinity'', 33),
     (''cuCtxGetFlags'', 34),
     (''cuCtxGetId'', 35),
     (''cuCtxGetLimit'', 36),
     (''cuCtxGetSharedMemConfig'', 37),
     (''cuCtxGetStreamPriorityRange'', 38),
     (''cuCtxPopCurrent_v2'', 39)]"

definition ids_cuCtxPushCurrent_v2 :: "(string \<times> u32) list" where
  "ids_cuCtxPushCurrent_v2 =
    [(''cuCtxPushCurrent_v2'', 40),
     (''cuCtxRecordEvent'', 41),
     (''cuCtxResetPersistingL2Cache'', 42),
     (''cuCtxSetCacheConfig'', 43),
     (''cuCtxSetCurrent'', 44),
     (''cuCtxSetFlags'', 45),
     (''cuCtxSetLimit'', 46),
     (''cuCtxSetSharedMemConfig'', 47),
     (''cuCtxSynchronize'', 48),
     (''cuCtxWaitEvent'', 49),
     (''cuDestroyExternalMemory'', 50),
     (''cuDestroyExternalSemaphore'', 51),
     (''cuDevResourceGenerateDesc'', 52),
     (''cuDevSmResourceSplitByCount'', 53),
     (''cuDeviceCanAccessPeer'', 54),
     (''cuDeviceComputeCapability'', 55)]"

definition ids_cuDeviceGet :: "(string \<times> u32) list" where
  "ids_cuDeviceGet =
    [(''cuDeviceGet'', 56),
     (''cuDeviceGetAttribute'', 57),
     (''cuDeviceGetByPCIBusId'', 58),
     (''cuDeviceGetCount'', 59),
     (''cuDeviceGetDefaultMemPool'', 60),
     (''cuDeviceGetDevResource'', 61),
     (''cuDeviceGetExecAffinitySupport'', 62),
     (''cuDeviceGetGraphMemAttribute'', 63),
     (''cuDeviceGetLuid'', 64),
     (''cuDeviceGetMemPool'', 65),
     (''cuDeviceGetName'', 66),
     (''cuDeviceGetNvSciSyncAttributes'', 67),
     (''cuDeviceGetP2PAttribute'', 68),
     (''cuDeviceGetPCIBusId'', 69)]"

definition ids_cuDeviceGetProperties :: "(string \<times> u32) list" where
  "ids_cuDeviceGetProperties =
    [(''cuDeviceGetProperties'', 70),
     (''cuDeviceGetTexture1DLinearMaxWidth'', 71),
     (''cuDeviceGetUuid'', 72),
     (''cuDeviceGetUuid_v2'', 73),
     (''cuDeviceGraphMemTrim'', 74),
     (''cuDevicePrimaryCtxGetState'', 75),
     (''cuDevicePrimaryCtxRelease_v2'', 76),
     (''cuDevicePrimaryCtxReset_v2'', 77),
     (''cuDevicePrimaryCtxRetain'', 78),
     (''cuDevicePrimaryCtxSetFlags_v2'', 79),
     (''cuDeviceRegisterAsyncNotification'', 80),
     (''cuDeviceSetGraphMemAttribute'', 81),
     (''cuDeviceSetMemPool'', 82),
     (''cuDeviceTotalMem_v2'', 83),
     (''cuDeviceUnregisterAsyncNotification'', 84),
     (''cuDriverGetVersion'', 85),
     (''cuEventCreate'', 86),
     (''cuEventDestroy_v2'', 87)]"

definition ids_cuEventElapsedTime :: "(string \<times> u32) list" where
  "ids_cuEventElapsedTime =
    [(''cuEventElapsedTime'', 88),
     (''cuEventElapsedTime_v2'', 89),
     (''cuEventQuery'', 90),
     (''cuEventRecord'', 91),
     (''cuEventRecordWithFlags'', 92),
     (''cuEventSynchronize'', 93),
     (''cuExternalMemoryGetMappedBuffer'', 94),
     (''cuExternalMemoryGetMappedMipmappedArray'', 95),
     (''cuFlushGPUDirectRDMAWrites'', 96),
     (''cuFuncGetAttribute'', 97),
     (''cuFuncGetModule'', 98),
     (''cuFuncGetName'', 99),
     (''cuFuncGetParamInfo'', 100),
     (''cuFuncIsLoaded'', 101),
     (''cuFuncLoad'', 102)]"

definition ids_cuFuncSetAttribute :: "(string \<times> u32) list" where
  "ids_cuFuncSetAttribute =
    [(''cuFuncSetAttribute'', 103),
     (''cuFuncSetBlockShape'', 104),
     (''cuFuncSetCacheConfig'', 105),
     (''cuFuncSetSharedMemConfig'', 106),
     (''cuFuncSetSharedSize'', 107),
     (''cuGetErrorName'', 108),
     (''cuGetErrorString'', 109),
     (''cuGetExportTable'', 110),
     (''cuGetProcAddress_v2'', 111),
     (''cuGraphAddBatchMemOpNode'', 112),
     (''cuGraphAddChildGraphNode'', 113),
     (''cuGraphAddDependencies'', 114),
     (''cuGraphAddDependencies_v2'', 115),
     (''cuGraphAddEmptyNode'', 116),
     (''cuGraphAddEventRecordNode'', 117),
     (''cuGraphAddEventWaitNode'', 118),
     (''cuGraphAddExternalSemaphoresSignalNode'', 119),
     (''cuGraphAddExternalSemaphoresWaitNode'', 120),
     (''cuGraphAddHostNode'', 121),
     (''cuGraphAddKernelNode_v2'', 122),
     (''cuGraphAddMemAllocNode'', 123),
     (''cuGraphAddMemFreeNode'', 124),
     (''cuGraphAddMemcpyNode'', 125),
     (''cuGraphAddMemsetNode'', 126),
     (''cuGraphAddNode'', 127),
     (''cuGraphAddNode_v2'', 128),
     (''cuGraphBatchMemOpNodeGetParams'', 129),
     (''cuGraphBatchMemOpNodeSetParams'', 130),
     (''cuGraphChildGraphNodeGetGraph'', 131)]"

definition ids_cuGraphClone :: "(string \<times> u32) list" where
  "ids_cuGraphClone =
    [(''cuGraphClone'', 132),
     (''cuGraphConditionalHandleCreate'', 133),
     (''cuGraphCreate'', 134),
     (''cuGraphDebugDotPrint'', 135),
     (''cuGraphDestroy'', 136),
     (''cuGraphDestroyNode'', 137),
     (''cuGraphEventRecordNodeGetEvent'', 138),
     (''cuGraphEventRecordNodeSetEvent'', 139),
     (''cuGraphEventWaitNodeGetEvent'', 140),
     (''cuGraphEventWaitNodeSetEvent'', 141),
     (''cuGraphExecBatchMemOpNodeSetParams'', 142),
     (''cuGraphExecChildGraphNodeSetParams'', 143),
     (''cuGraphExecDestroy'', 144),
     (''cuGraphExecEventRecordNodeSetEvent'', 145)]"

definition ids_cuGraphExecEventWaitNodeSetEvent :: "(string \<times> u32) list" where
  "ids_cuGraphExecEventWaitNodeSetEvent =
    [(''cuGraphExecEventWaitNodeSetEvent'', 146),
     (''cuGraphExecExternalSemaphoresSignalNodeSetParams'', 147),
     (''cuGraphExecExternalSemaphoresWaitNodeSetParams'', 148),
     (''cuGraphExecGetFlags'', 149),
     (''cuGraphExecHostNodeSetParams'', 150),
     (''cuGraphExecKernelNodeSetParams_v2'', 151),
     (''cuGraphExecMemcpyNodeSetParams'', 152),
     (''cuGraphExecMemsetNodeSetParams'', 153),
     (''cuGraphExecNodeSetParams'', 154),
     (''cuGraphExecUpdate_v2'', 155),
     (''cuGraphExternalSemaphoresSignalNodeGetParams'', 156),
     (''cuGraphExternalSemaphoresSignalNodeSetParams'', 157),
     (''cuGraphExternalSemaphoresWaitNodeGetParams'', 158),
     (''cuGraphExternalSemaphoresWaitNodeSetParams'', 159),
     (''cuGraphGetEdges'', 160),
     (''cuGraphGetEdges_v2'', 161),
     (''cuGraphGetNodes'', 162),
     (''cuGraphGetRootNodes'', 163),
     (''cuGraphHostNodeGetParams'', 164),
     (''cuGraphHostNodeSetParams'', 165),
     (''cuGraphInstantiateWithFlags'', 166),
     (''cuGraphInstantiateWithParams'', 167),
     (''cuGraphKernelNodeCopyAttributes'', 168),
     (''cuGraphKernelNodeGetAttribute'', 169),
     (''cuGraphKernelNodeGetParams_v2'', 170),
     (''cuGraphKernelNodeSetAttribute'', 171),
     (''cuGraphKernelNodeSetParams_v2'', 172)]"

definition ids_cuGraphLaunch :: "(string \<times> u32) list" where
  "ids_cuGraphLaunch =
    [(''cuGraphLaunch'', 173),
     (''cuGraphMemAllocNodeGetParams'', 174),
     (''cuGraphMemFreeNodeGetParams'', 175),
     (''cuGraphMemcpyNodeGetParams'', 176),
     (''cuGraphMemcpyNodeSetParams'', 177),
     (''cuGraphMemsetNodeGetParams'', 178),
     (''cuGraphMemsetNodeSetParams'', 179),
     (''cuGraphNodeFindInClone'', 180),
     (''cuGraphNodeGetDependencies'', 181),
     (''cuGraphNodeGetDependencies_v2'', 182),
     (''cuGraphNodeGetDependentNodes'', 183),
     (''cuGraphNodeGetDependentNodes_v2'', 184),
     (''cuGraphNodeGetEnabled'', 185),
     (''cuGraphNodeGetType'', 186),
     (''cuGraphNodeSetEnabled'', 187),
     (''cuGraphNodeSetParams'', 188),
     (''cuGraphReleaseUserObject'', 189),
     (''cuGraphRemoveDependencies'', 190),
     (''cuGraphRemoveDependencies_v2'', 191),
     (''cuGraphRetainUserObject'', 192),
     (''cuGraphUpload'', 193)]"

definition ids_cuGraphicsMapResources :: "(string \<times> u32) list" where
  "ids_cuGraphicsMapResources =
    [(''cuGraphicsMapResources'', 194),
     (''cuGraphicsResourceGetMappedMipmappedArray'', 195),
     (''cuGraphicsResourceGetMappedPointer_v2'', 196),
     (''cuGraphicsResourceSetMapFlags_v2'', 197),
     (''cuGraphicsSubResourceGetMappedArray'', 198),
     (''cuGraphicsUnmapResources'', 199),
     (''cuGraphicsUnregisterResource'', 200),
     (''cuGreenCtxCreate'', 201),
     (''cuGreenCtxDestroy'', 202),
     (''cuGreenCtxGetDevResource'', 203),
     (''cuGreenCtxRecordEvent'', 204),
     (''cuGreenCtxStreamCreate'', 205),
     (''cuGreenCtxWaitEvent'', 206),
     (''cuImportExternalMemory'', 207)]"

definition ids_cuImportExternalSemaphore :: "(string \<times> u32) list" where
  "ids_cuImportExternalSemaphore =
    [(''cuImportExternalSemaphore'', 208),
     (''cuInit'', 209),
     (''cuIpcCloseMemHandle'', 210),
     (''cuIpcGetEventHandle'', 211),
     (''cuIpcGetMemHandle'', 212),
     (''cuIpcOpenEventHandle'', 213),
     (''cuIpcOpenMemHandle_v2'', 214),
     (''cuKernelGetAttribute'', 215),
     (''cuKernelGetFunction'', 216),
     (''cuKernelGetLibrary'', 217),
     (''cuKernelGetName'', 218),
     (''cuKernelGetParamInfo'', 219),
     (''cuKernelSetAttribute'', 220),
     (''cuKernelSetCacheConfig'', 221),
     (''cuLaunch'', 222),
     (''cuLaunchCooperativeKernel'', 223),
     (''cuLaunchCooperativeKernelMultiDevice'', 224),
     (''cuLaunchGrid'', 225)]"

definition ids_cuLaunchGridAsync :: "(string \<times> u32) list" where
  "ids_cuLaunchGridAsync =
    [(''cuLaunchGridAsync'', 226),
     (''cuLaunchHostFunc'', 227),
     (''cuLaunchKernel'', 228),
     (''cuLaunchKernelEx'', 229),
     (''cuLibraryEnumerateKernels'', 230),
     (''cuLibraryGetGlobal'', 231),
     (''cuLibraryGetKernel'', 232),
     (''cuLibraryGetKernelCount'', 233),
     (''cuLibraryGetManaged'', 234),
     (''cuLibraryGetModule'', 235),
     (''cuLibraryGetUnifiedFunction'', 236),
     (''cuLibraryLoadData'', 237),
     (''cuLibraryLoadFromFile'', 238),
     (''cuLibraryUnload'', 239),
     (''cuLinkAddData_v2'', 240),
     (''cuLinkAddFile_v2'', 241),
     (''cuLinkComplete'', 242),
     (''cuLinkCreate_v2'', 243),
     (''cuLinkDestroy'', 244)]"

definition ids_cuMemAddressFree :: "(string \<times> u32) list" where
  "ids_cuMemAddressFree =
    [(''cuMemAddressFree'', 245),
     (''cuMemAddressReserve'', 246),
     (''cuMemAdvise'', 247),
     (''cuMemAdvise_v2'', 248),
     (''cuMemAllocAsync'', 249),
     (''cuMemAllocFromPoolAsync'', 250),
     (''cuMemAllocHost_v2'', 251),
     (''cuMemAllocManaged'', 252),
     (''cuMemAllocPitch_v2'', 253),
     (''cuMemAlloc_v2'', 254),
     (''cuMemBatchDecompressAsync'', 255),
     (''cuMemCreate'', 256),
     (''cuMemExportToShareableHandle'', 257),
     (''cuMemFreeAsync'', 258),
     (''cuMemFreeHost'', 259),
     (''cuMemFree_v2'', 260),
     (''cuMemGetAccess'', 261),
     (''cuMemGetAddressRange_v2'', 262)]"

definition ids_cuMemGetAllocationGranularity :: "(string \<times> u32) list" where
  "ids_cuMemGetAllocationGranularity =
    [(''cuMemGetAllocationGranularity'', 263),
     (''cuMemGetAllocationPropertiesFromHandle'', 264),
     (''cuMemGetHandleForAddressRange'', 265),
     (''cuMemGetInfo_v2'', 266),
     (''cuMemHostAlloc'', 267),
     (''cuMemHostGetDevicePointer_v2'', 268),
     (''cuMemHostGetFlags'', 269),
     (''cuMemHostRegister_v2'', 270),
     (''cuMemHostUnregister'', 271),
     (''cuMemImportFromShareableHandle'', 272),
     (''cuMemMap'', 273),
     (''cuMemMapArrayAsync'', 274),
     (''cuMemPoolCreate'', 275),
     (''cuMemPoolDestroy'', 276),
     (''cuMemPoolExportPointer'', 277),
     (''cuMemPoolExportToShareableHandle'', 278),
     (''cuMemPoolGetAccess'', 279),
     (''cuMemPoolGetAttribute'', 280),
     (''cuMemPoolImportFromShareableHandle'', 281),
     (''cuMemPoolImportPointer'', 282),
     (''cuMemPoolSetAccess'', 283),
     (''cuMemPoolSetAttribute'', 284),
     (''cuMemPoolTrimTo'', 285),
     (''cuMemPrefetchAsync'', 286),
     (''cuMemPrefetchAsync_v2'', 287),
     (''cuMemRangeGetAttribute'', 288),
     (''cuMemRangeGetAttributes'', 289)]"

definition ids_cuMemRelease :: "(string \<times> u32) list" where
  "ids_cuMemRelease =
    [(''cuMemRelease'', 290),
     (''cuMemRetainAllocationHandle'', 291),
     (''cuMemSetAccess'', 292),
     (''cuMemUnmap'', 293),
     (''cuMemcpy'', 294),
     (''cuMemcpy2DAsync_v2'', 295),
     (''cuMemcpy2DUnaligned_v2'', 296),
     (''cuMemcpy2D_v2'', 297),
     (''cuMemcpy3DAsync_v2'', 298),
     (''cuMemcpy3DBatchAsync'', 299),
     (''cuMemcpy3DPeer'', 300),
     (''cuMemcpy3DPeerAsync'', 301),
     (''cuMemcpy3D_v2'', 302),
     (''cuMemcpyAsync'', 303),
     (''cuMemcpyAtoA_v2'', 304),
     (''cuMemcpyAtoD_v2'', 305),
     (''cuMemcpyAtoHAsync_v2'', 306),
     (''cuMemcpyAtoH_v2'', 307),
     (''cuMemcpyBatchAsync'', 308),
     (''cuMemcpyDtoA_v2'', 309)]"

definition ids_cuMemcpyDtoDAsync_v2 :: "(string \<times> u32) list" where
  "ids_cuMemcpyDtoDAsync_v2 =
    [(''cuMemcpyDtoDAsync_v2'', 310),
     (''cuMemcpyDtoD_v2'', 311),
     (''cuMemcpyDtoHAsync_v2'', 312),
     (''cuMemcpyDtoH_v2'', 313),
     (''cuMemcpyHtoAAsync_v2'', 314),
     (''cuMemcpyHtoA_v2'', 315),
     (''cuMemcpyHtoDAsync_v2'', 316),
     (''cuMemcpyHtoD_v2'', 317),
     (''cuMemcpyPeer'', 318),
     (''cuMemcpyPeerAsync'', 319),
     (''cuMemsetD16Async'', 320),
     (''cuMemsetD16_v2'', 321),
     (''cuMemsetD2D16Async'', 322)]"

definition ids_cuMemsetD2D16_v2 :: "(string \<times> u32) list" where
  "ids_cuMemsetD2D16_v2 =
    [(''cuMemsetD2D16_v2'', 323),
     (''cuMemsetD2D32Async'', 324),
     (''cuMemsetD2D32_v2'', 325),
     (''cuMemsetD2D8Async'', 326),
     (''cuMemsetD2D8_v2'', 327),
     (''cuMemsetD32Async'', 328),
     (''cuMemsetD32_v2'', 329),
     (''cuMemsetD8Async'', 330),
     (''cuMemsetD8_v2'', 331),
     (''cuMipmappedArrayCreate'', 332),
     (''cuMipmappedArrayDestroy'', 333),
     (''cuMipmappedArrayGetLevel'', 334),
     (''cuMipmappedArrayGetMemoryRequirements'', 335),
     (''cuMipmappedArrayGetSparseProperties'', 336),
     (''cuModuleEnumerateFunctions'', 337)]"

definition ids_cuModuleGetFunction :: "(string \<times> u32) list" where
  "ids_cuModuleGetFunction =
    [(''cuModuleGetFunction'', 338),
     (''cuModuleGetFunctionCount'', 339),
     (''cuModuleGetGlobal_v2'', 340),
     (''cuModuleGetLoadingMode'', 341),
     (''cuModuleGetSurfRef'', 342),
     (''cuModuleGetTexRef'', 343),
     (''cuModuleLoad'', 344),
     (''cuModuleLoadData'', 345),
     (''cuModuleLoadDataEx'', 346),
     (''cuModuleLoadFatBinary'', 347),
     (''cuModuleUnload'', 348),
     (''cuMulticastAddDevice'', 349),
     (''cuMulticastBindAddr'', 350)]"

definition ids_cuMulticastBindMem :: "(string \<times> u32) list" where
  "ids_cuMulticastBindMem =
    [(''cuMulticastBindMem'', 351),
     (''cuMulticastCreate'', 352),
     (''cuMulticastGetGranularity'', 353),
     (''cuMulticastUnbind'', 354),
     (''cuOccupancyAvailableDynamicSMemPerBlock'', 355),
     (''cuOccupancyMaxActiveBlocksPerMultiprocessor'', 356),
     (''cuOccupancyMaxActiveBlocksPerMultiprocessorWithFlags'', 357),
     (''cuOccupancyMaxActiveClusters'', 358),
     (''cuOccupancyMaxPotentialBlockSize'', 359),
     (''cuOccupancyMaxPotentialBlockSizeWithFlags'', 360),
     (''cuOccupancyMaxPotentialClusterSize'', 361),
     (''cuParamSetSize'', 362),
     (''cuParamSetTexRef'', 363),
     (''cuParamSetf'', 364),
     (''cuParamSeti'', 365),
     (''cuParamSetv'', 366),
     (''cuPointerGetAttribute'', 367),
     (''cuPointerGetAttributes'', 368),
     (''cuPointerSetAttribute'', 369),
     (''cuSignalExternalSemaphoresAsync'', 370)]"

definition ids_cuStreamAddCallback :: "(string \<times> u32) list" where
  "ids_cuStreamAddCallback =
    [(''cuStreamAddCallback'', 371),
     (''cuStreamAttachMemAsync'', 372),
     (''cuStreamBatchMemOp_v2'', 373),
     (''cuStreamBeginCaptureToGraph'', 374),
     (''cuStreamBeginCapture_v2'', 375),
     (''cuStreamCopyAttributes'', 376),
     (''cuStreamCreate'', 377),
     (''cuStreamCreateWithPriority'', 378),
     (''cuStreamDestroy_v2'', 379),
     (''cuStreamEndCapture'', 380),
     (''cuStreamGetAttribute'', 381),
     (''cuStreamGetCaptureInfo_v2'', 382),
     (''cuStreamGetCaptureInfo_v3'', 383),
     (''cuStreamGetCtx'', 384),
     (''cuStreamGetCtx_v2'', 385),
     (''cuStreamGetDevice'', 386),
     (''cuStreamGetFlags'', 387)]"

definition ids_cuStreamGetGreenCtx :: "(string \<times> u32) list" where
  "ids_cuStreamGetGreenCtx =
    [(''cuStreamGetGreenCtx'', 388),
     (''cuStreamGetId'', 389),
     (''cuStreamGetPriority'', 390),
     (''cuStreamIsCapturing'', 391),
     (''cuStreamQuery'', 392),
     (''cuStreamSetAttribute'', 393),
     (''cuStreamSynchronize'', 394),
     (''cuStreamUpdateCaptureDependencies'', 395),
     (''cuStreamUpdateCaptureDependencies_v2'', 396),
     (''cuStreamWaitEvent'', 397),
     (''cuStreamWaitValue32_v2'', 398),
     (''cuStreamWaitValue64_v2'', 399),
     (''cuStreamWriteValue32_v2'', 400),
     (''cuStreamWriteValue64_v2'', 401),
     (''cuSurfObjectCreate'', 402),
     (''cuSurfObjectDestroy'', 403),
     (''cuSurfObjectGetResourceDesc'', 404)]"

definition ids_cuSurfRefGetArray :: "(string \<times> u32) list" where
  "ids_cuSurfRefGetArray =
    [(''cuSurfRefGetArray'', 405),
     (''cuSurfRefSetArray'', 406),
     (''cuTensorMapEncodeIm2col'', 407),
     (''cuTensorMapEncodeIm2colWide'', 408),
     (''cuTensorMapEncodeTiled'', 409),
     (''cuTensorMapReplaceAddress'', 410),
     (''cuTexObjectCreate'', 411),
     (''cuTexObjectDestroy'', 412),
     (''cuTexObjectGetResourceDesc'', 413),
     (''cuTexObjectGetResourceViewDesc'', 414),
     (''cuTexObjectGetTextureDesc'', 415),
     (''cuTexRefCreate'', 416),
     (''cuTexRefDestroy'', 417),
     (''cuTexRefGetAddressMode'', 418),
     (''cuTexRefGetAddress_v2'', 419),
     (''cuTexRefGetArray'', 420),
     (''cuTexRefGetBorderColor'', 421),
     (''cuTexRefGetFilterMode'', 422)]"

definition ids_cuTexRefGetFlags :: "(string \<times> u32) list" where
  "ids_cuTexRefGetFlags =
    [(''cuTexRefGetFlags'', 423),
     (''cuTexRefGetFormat'', 424),
     (''cuTexRefGetMaxAnisotropy'', 425),
     (''cuTexRefGetMipmapFilterMode'', 426),
     (''cuTexRefGetMipmapLevelBias'', 427),
     (''cuTexRefGetMipmapLevelClamp'', 428),
     (''cuTexRefGetMipmappedArray'', 429),
     (''cuTexRefSetAddress2D_v3'', 430),
     (''cuTexRefSetAddressMode'', 431),
     (''cuTexRefSetAddress_v2'', 432),
     (''cuTexRefSetArray'', 433),
     (''cuTexRefSetBorderColor'', 434),
     (''cuTexRefSetFilterMode'', 435)]"

definition ids_cuTexRefSetFlags :: "(string \<times> u32) list" where
  "ids_cuTexRefSetFlags =
    [(''cuTexRefSetFlags'', 436),
     (''cuTexRefSetFormat'', 437),
     (''cuTexRefSetMaxAnisotropy'', 438),
     (''cuTexRefSetMipmapFilterMode'', 439),
     (''cuTexRefSetMipmapLevelBias'', 440),
     (''cuTexRefSetMipmapLevelClamp'', 441),
     (''cuTexRefSetMipmappedArray'', 442),
     (''cuThreadExchangeStreamCaptureMode'', 443),
     (''cuUserObjectCreate'', 444),
     (''cuUserObjectRelease'', 445),
     (''cuUserObjectRetain'', 446),
     (''cuWaitExternalSemaphoresAsync'', 447)]"

definition api_ids :: "(string \<times> u32) list" where
  "api_ids =
    ids_cuArray3DCreate_v2 @ ids_cuCtxDisablePeerAccess @ ids_cuCtxPushCurrent_v2 @ ids_cuDeviceGet @
    ids_cuDeviceGetProperties @ ids_cuEventElapsedTime @ ids_cuFuncSetAttribute @ ids_cuGraphClone @
    ids_cuGraphExecEventWaitNodeSetEvent @ ids_cuGraphLaunch @ ids_cuGraphicsMapResources @
    ids_cuImportExternalSemaphore @ ids_cuLaunchGridAsync @ ids_cuMemAddressFree @
    ids_cuMemGetAllocationGranularity @ ids_cuMemRelease @ ids_cuMemcpyDtoDAsync_v2 @ ids_cuMemsetD2D16_v2 @
    ids_cuModuleGetFunction @ ids_cuMulticastBindMem @ ids_cuStreamAddCallback @ ids_cuStreamGetGreenCtx @
    ids_cuSurfRefGetArray @ ids_cuTexRefGetFlags @ ids_cuTexRefSetFlags"

definition API__count :: u32 where "API__count = 448"

definition names_cuArray3DCreate_v2 :: "string list" where
  "names_cuArray3DCreate_v2 =
    [''cuArray3DCreate_v2'',
     ''cuArray3DGetDescriptor_v2'',
     ''cuArrayCreate_v2'',
     ''cuArrayDestroy'',
     ''cuArrayGetDescriptor_v2'',
     ''cuArrayGetMemoryRequirements'',
     ''cuArrayGetPlane'',
     ''cuArrayGetSparseProperties'',
     ''cuCheckpointProcessCheckpoint'',
     ''cuCheckpointProcessGetRestoreThreadId'',
     ''cuCheckpointProcessGetState'',
     ''cuCheckpointProcessLock'',
     ''cuCheckpointProcessRestore'',
     ''cuCheckpointProcessUnlock'',
     ''cuCoredumpGetAttribute'',
     ''cuCoredumpGetAttributeGlobal'',
     ''cuCoredumpSetAttribute'',
     ''cuCoredumpSetAttributeGlobal'',
     ''cuCtxAttach'',
     ''cuCtxCreate_v2'',
     ''cuCtxCreate_v3'',
     ''cuCtxCreate_v4'',
     ''cuCtxDestroy_v2'',
     ''cuCtxDetach'']"

definition names_cuCtxDisablePeerAccess :: "string list" where
  "names_cuCtxDisablePeerAccess =
    [''cuCtxDisablePeerAccess'',
     ''cuCtxEnablePeerAccess'',
     ''cuCtxFromGreenCtx'',
     ''cuCtxGetApiVersion'',
     ''cuCtxGetCacheConfig'',
     ''cuCtxGetCurrent'',
     ''cuCtxGetDevResource'',
     ''cuCtxGetDevice'',
     ''cuCtxGetExecAffinity'',
     ''cuCtxGetFlags'',
     ''cuCtxGetId'',
     ''cuCtxGetLimit'',
     ''cuCtxGetSharedMemConfig'',
     ''cuCtxGetStreamPriorityRange'',
     ''cuCtxPopCurrent_v2'']"

definition names_cuCtxPushCurrent_v2 :: "string list" where
  "names_cuCtxPushCurrent_v2 =
    [''cuCtxPushCurrent_v2'',
     ''cuCtxRecordEvent'',
     ''cuCtxResetPersistingL2Cache'',
     ''cuCtxSetCacheConfig'',
     ''cuCtxSetCurrent'',
     ''cuCtxSetFlags'',
     ''cuCtxSetLimit'',
     ''cuCtxSetSharedMemConfig'',
     ''cuCtxSynchronize'',
     ''cuCtxWaitEvent'',
     ''cuDestroyExternalMemory'',
     ''cuDestroyExternalSemaphore'',
     ''cuDevResourceGenerateDesc'',
     ''cuDevSmResourceSplitByCount'',
     ''cuDeviceCanAccessPeer'',
     ''cuDeviceComputeCapability'']"

definition names_cuDeviceGet :: "string list" where
  "names_cuDeviceGet =
    [''cuDeviceGet'',
     ''cuDeviceGetAttribute'',
     ''cuDeviceGetByPCIBusId'',
     ''cuDeviceGetCount'',
     ''cuDeviceGetDefaultMemPool'',
     ''cuDeviceGetDevResource'',
     ''cuDeviceGetExecAffinitySupport'',
     ''cuDeviceGetGraphMemAttribute'',
     ''cuDeviceGetLuid'',
     ''cuDeviceGetMemPool'',
     ''cuDeviceGetName'',
     ''cuDeviceGetNvSciSyncAttributes'',
     ''cuDeviceGetP2PAttribute'',
     ''cuDeviceGetPCIBusId'']"

definition names_cuDeviceGetProperties :: "string list" where
  "names_cuDeviceGetProperties =
    [''cuDeviceGetProperties'',
     ''cuDeviceGetTexture1DLinearMaxWidth'',
     ''cuDeviceGetUuid'',
     ''cuDeviceGetUuid_v2'',
     ''cuDeviceGraphMemTrim'',
     ''cuDevicePrimaryCtxGetState'',
     ''cuDevicePrimaryCtxRelease_v2'',
     ''cuDevicePrimaryCtxReset_v2'',
     ''cuDevicePrimaryCtxRetain'',
     ''cuDevicePrimaryCtxSetFlags_v2'',
     ''cuDeviceRegisterAsyncNotification'',
     ''cuDeviceSetGraphMemAttribute'',
     ''cuDeviceSetMemPool'',
     ''cuDeviceTotalMem_v2'',
     ''cuDeviceUnregisterAsyncNotification'',
     ''cuDriverGetVersion'',
     ''cuEventCreate'',
     ''cuEventDestroy_v2'']"

definition names_cuEventElapsedTime :: "string list" where
  "names_cuEventElapsedTime =
    [''cuEventElapsedTime'',
     ''cuEventElapsedTime_v2'',
     ''cuEventQuery'',
     ''cuEventRecord'',
     ''cuEventRecordWithFlags'',
     ''cuEventSynchronize'',
     ''cuExternalMemoryGetMappedBuffer'',
     ''cuExternalMemoryGetMappedMipmappedArray'',
     ''cuFlushGPUDirectRDMAWrites'',
     ''cuFuncGetAttribute'',
     ''cuFuncGetModule'',
     ''cuFuncGetName'',
     ''cuFuncGetParamInfo'',
     ''cuFuncIsLoaded'',
     ''cuFuncLoad'']"

definition names_cuFuncSetAttribute :: "string list" where
  "names_cuFuncSetAttribute =
    [''cuFuncSetAttribute'',
     ''cuFuncSetBlockShape'',
     ''cuFuncSetCacheConfig'',
     ''cuFuncSetSharedMemConfig'',
     ''cuFuncSetSharedSize'',
     ''cuGetErrorName'',
     ''cuGetErrorString'',
     ''cuGetExportTable'',
     ''cuGetProcAddress_v2'',
     ''cuGraphAddBatchMemOpNode'',
     ''cuGraphAddChildGraphNode'',
     ''cuGraphAddDependencies'',
     ''cuGraphAddDependencies_v2'',
     ''cuGraphAddEmptyNode'',
     ''cuGraphAddEventRecordNode'',
     ''cuGraphAddEventWaitNode'',
     ''cuGraphAddExternalSemaphoresSignalNode'',
     ''cuGraphAddExternalSemaphoresWaitNode'',
     ''cuGraphAddHostNode'',
     ''cuGraphAddKernelNode_v2'',
     ''cuGraphAddMemAllocNode'',
     ''cuGraphAddMemFreeNode'',
     ''cuGraphAddMemcpyNode'',
     ''cuGraphAddMemsetNode'',
     ''cuGraphAddNode'',
     ''cuGraphAddNode_v2'',
     ''cuGraphBatchMemOpNodeGetParams'',
     ''cuGraphBatchMemOpNodeSetParams'',
     ''cuGraphChildGraphNodeGetGraph'']"

definition names_cuGraphClone :: "string list" where
  "names_cuGraphClone =
    [''cuGraphClone'',
     ''cuGraphConditionalHandleCreate'',
     ''cuGraphCreate'',
     ''cuGraphDebugDotPrint'',
     ''cuGraphDestroy'',
     ''cuGraphDestroyNode'',
     ''cuGraphEventRecordNodeGetEvent'',
     ''cuGraphEventRecordNodeSetEvent'',
     ''cuGraphEventWaitNodeGetEvent'',
     ''cuGraphEventWaitNodeSetEvent'',
     ''cuGraphExecBatchMemOpNodeSetParams'',
     ''cuGraphExecChildGraphNodeSetParams'',
     ''cuGraphExecDestroy'',
     ''cuGraphExecEventRecordNodeSetEvent'']"

definition names_cuGraphExecEventWaitNodeSetEvent :: "string list" where
  "names_cuGraphExecEventWaitNodeSetEvent =
    [''cuGraphExecEventWaitNodeSetEvent'',
     ''cuGraphExecExternalSemaphoresSignalNodeSetParams'',
     ''cuGraphExecExternalSemaphoresWaitNodeSetParams'',
     ''cuGraphExecGetFlags'',
     ''cuGraphExecHostNodeSetParams'',
     ''cuGraphExecKernelNodeSetParams_v2'',
     ''cuGraphExecMemcpyNodeSetParams'',
     ''cuGraphExecMemsetNodeSetParams'',
     ''cuGraphExecNodeSetParams'',
     ''cuGraphExecUpdate_v2'',
     ''cuGraphExternalSemaphoresSignalNodeGetParams'',
     ''cuGraphExternalSemaphoresSignalNodeSetParams'',
     ''cuGraphExternalSemaphoresWaitNodeGetParams'',
     ''cuGraphExternalSemaphoresWaitNodeSetParams'',
     ''cuGraphGetEdges'',
     ''cuGraphGetEdges_v2'',
     ''cuGraphGetNodes'',
     ''cuGraphGetRootNodes'',
     ''cuGraphHostNodeGetParams'',
     ''cuGraphHostNodeSetParams'',
     ''cuGraphInstantiateWithFlags'',
     ''cuGraphInstantiateWithParams'',
     ''cuGraphKernelNodeCopyAttributes'',
     ''cuGraphKernelNodeGetAttribute'',
     ''cuGraphKernelNodeGetParams_v2'',
     ''cuGraphKernelNodeSetAttribute'',
     ''cuGraphKernelNodeSetParams_v2'']"

definition names_cuGraphLaunch :: "string list" where
  "names_cuGraphLaunch =
    [''cuGraphLaunch'',
     ''cuGraphMemAllocNodeGetParams'',
     ''cuGraphMemFreeNodeGetParams'',
     ''cuGraphMemcpyNodeGetParams'',
     ''cuGraphMemcpyNodeSetParams'',
     ''cuGraphMemsetNodeGetParams'',
     ''cuGraphMemsetNodeSetParams'',
     ''cuGraphNodeFindInClone'',
     ''cuGraphNodeGetDependencies'',
     ''cuGraphNodeGetDependencies_v2'',
     ''cuGraphNodeGetDependentNodes'',
     ''cuGraphNodeGetDependentNodes_v2'',
     ''cuGraphNodeGetEnabled'',
     ''cuGraphNodeGetType'',
     ''cuGraphNodeSetEnabled'',
     ''cuGraphNodeSetParams'',
     ''cuGraphReleaseUserObject'',
     ''cuGraphRemoveDependencies'',
     ''cuGraphRemoveDependencies_v2'',
     ''cuGraphRetainUserObject'',
     ''cuGraphUpload'']"

definition names_cuGraphicsMapResources :: "string list" where
  "names_cuGraphicsMapResources =
    [''cuGraphicsMapResources'',
     ''cuGraphicsResourceGetMappedMipmappedArray'',
     ''cuGraphicsResourceGetMappedPointer_v2'',
     ''cuGraphicsResourceSetMapFlags_v2'',
     ''cuGraphicsSubResourceGetMappedArray'',
     ''cuGraphicsUnmapResources'',
     ''cuGraphicsUnregisterResource'',
     ''cuGreenCtxCreate'',
     ''cuGreenCtxDestroy'',
     ''cuGreenCtxGetDevResource'',
     ''cuGreenCtxRecordEvent'',
     ''cuGreenCtxStreamCreate'',
     ''cuGreenCtxWaitEvent'',
     ''cuImportExternalMemory'']"

definition names_cuImportExternalSemaphore :: "string list" where
  "names_cuImportExternalSemaphore =
    [''cuImportExternalSemaphore'',
     ''cuInit'',
     ''cuIpcCloseMemHandle'',
     ''cuIpcGetEventHandle'',
     ''cuIpcGetMemHandle'',
     ''cuIpcOpenEventHandle'',
     ''cuIpcOpenMemHandle_v2'',
     ''cuKernelGetAttribute'',
     ''cuKernelGetFunction'',
     ''cuKernelGetLibrary'',
     ''cuKernelGetName'',
     ''cuKernelGetParamInfo'',
     ''cuKernelSetAttribute'',
     ''cuKernelSetCacheConfig'',
     ''cuLaunch'',
     ''cuLaunchCooperativeKernel'',
     ''cuLaunchCooperativeKernelMultiDevice'',
     ''cuLaunchGrid'']"

definition names_cuLaunchGridAsync :: "string list" where
  "names_cuLaunchGridAsync =
    [''cuLaunchGridAsync'',
     ''cuLaunchHostFunc'',
     ''cuLaunchKernel'',
     ''cuLaunchKernelEx'',
     ''cuLibraryEnumerateKernels'',
     ''cuLibraryGetGlobal'',
     ''cuLibraryGetKernel'',
     ''cuLibraryGetKernelCount'',
     ''cuLibraryGetManaged'',
     ''cuLibraryGetModule'',
     ''cuLibraryGetUnifiedFunction'',
     ''cuLibraryLoadData'',
     ''cuLibraryLoadFromFile'',
     ''cuLibraryUnload'',
     ''cuLinkAddData_v2'',
     ''cuLinkAddFile_v2'',
     ''cuLinkComplete'',
     ''cuLinkCreate_v2'',
     ''cuLinkDestroy'']"

definition names_cuMemAddressFree :: "string list" where
  "names_cuMemAddressFree =
    [''cuMemAddressFree'',
     ''cuMemAddressReserve'',
     ''cuMemAdvise'',
     ''cuMemAdvise_v2'',
     ''cuMemAllocAsync'',
     ''cuMemAllocFromPoolAsync'',
     ''cuMemAllocHost_v2'',
     ''cuMemAllocManaged'',
     ''cuMemAllocPitch_v2'',
     ''cuMemAlloc_v2'',
     ''cuMemBatchDecompressAsync'',
     ''cuMemCreate'',
     ''cuMemExportToShareableHandle'',
     ''cuMemFreeAsync'',
     ''cuMemFreeHost'',
     ''cuMemFree_v2'',
     ''cuMemGetAccess'',
     ''cuMemGetAddressRange_v2'']"

definition names_cuMemGetAllocationGranularity :: "string list" where
  "names_cuMemGetAllocationGranularity =
    [''cuMemGetAllocationGranularity'',
     ''cuMemGetAllocationPropertiesFromHandle'',
     ''cuMemGetHandleForAddressRange'',
     ''cuMemGetInfo_v2'',
     ''cuMemHostAlloc'',
     ''cuMemHostGetDevicePointer_v2'',
     ''cuMemHostGetFlags'',
     ''cuMemHostRegister_v2'',
     ''cuMemHostUnregister'',
     ''cuMemImportFromShareableHandle'',
     ''cuMemMap'',
     ''cuMemMapArrayAsync'',
     ''cuMemPoolCreate'',
     ''cuMemPoolDestroy'',
     ''cuMemPoolExportPointer'',
     ''cuMemPoolExportToShareableHandle'',
     ''cuMemPoolGetAccess'',
     ''cuMemPoolGetAttribute'',
     ''cuMemPoolImportFromShareableHandle'',
     ''cuMemPoolImportPointer'',
     ''cuMemPoolSetAccess'',
     ''cuMemPoolSetAttribute'',
     ''cuMemPoolTrimTo'',
     ''cuMemPrefetchAsync'',
     ''cuMemPrefetchAsync_v2'',
     ''cuMemRangeGetAttribute'',
     ''cuMemRangeGetAttributes'']"

definition names_cuMemRelease :: "string list" where
  "names_cuMemRelease =
    [''cuMemRelease'',
     ''cuMemRetainAllocationHandle'',
     ''cuMemSetAccess'',
     ''cuMemUnmap'',
     ''cuMemcpy'',
     ''cuMemcpy2DAsync_v2'',
     ''cuMemcpy2DUnaligned_v2'',
     ''cuMemcpy2D_v2'',
     ''cuMemcpy3DAsync_v2'',
     ''cuMemcpy3DBatchAsync'',
     ''cuMemcpy3DPeer'',
     ''cuMemcpy3DPeerAsync'',
     ''cuMemcpy3D_v2'',
     ''cuMemcpyAsync'',
     ''cuMemcpyAtoA_v2'',
     ''cuMemcpyAtoD_v2'',
     ''cuMemcpyAtoHAsync_v2'',
     ''cuMemcpyAtoH_v2'',
     ''cuMemcpyBatchAsync'',
     ''cuMemcpyDtoA_v2'']"

definition names_cuMemcpyDtoDAsync_v2 :: "string list" where
  "names_cuMemcpyDtoDAsync_v2 =
    [''cuMemcpyDtoDAsync_v2'',
     ''cuMemcpyDtoD_v2'',
     ''cuMemcpyDtoHAsync_v2'',
     ''cuMemcpyDtoH_v2'',
     ''cuMemcpyHtoAAsync_v2'',
     ''cuMemcpyHtoA_v2'',
     ''cuMemcpyHtoDAsync_v2'',
     ''cuMemcpyHtoD_v2'',
     ''cuMemcpyPeer'',
     ''cuMemcpyPeerAsync'',
     ''cuMemsetD16Async'',
     ''cuMemsetD16_v2'',
     ''cuMemsetD2D16Async'']"

definition names_cuMemsetD2D16_v2 :: "string list" where
  "names_cuMemsetD2D16_v2 =
    [''cuMemsetD2D16_v2'',
     ''cuMemsetD2D32Async'',
     ''cuMemsetD2D32_v2'',
     ''cuMemsetD2D8Async'',
     ''cuMemsetD2D8_v2'',
     ''cuMemsetD32Async'',
     ''cuMemsetD32_v2'',
     ''cuMemsetD8Async'',
     ''cuMemsetD8_v2'',
     ''cuMipmappedArrayCreate'',
     ''cuMipmappedArrayDestroy'',
     ''cuMipmappedArrayGetLevel'',
     ''cuMipmappedArrayGetMemoryRequirements'',
     ''cuMipmappedArrayGetSparseProperties'',
     ''cuModuleEnumerateFunctions'']"

definition names_cuModuleGetFunction :: "string list" where
  "names_cuModuleGetFunction =
    [''cuModuleGetFunction'',
     ''cuModuleGetFunctionCount'',
     ''cuModuleGetGlobal_v2'',
     ''cuModuleGetLoadingMode'',
     ''cuModuleGetSurfRef'',
     ''cuModuleGetTexRef'',
     ''cuModuleLoad'',
     ''cuModuleLoadData'',
     ''cuModuleLoadDataEx'',
     ''cuModuleLoadFatBinary'',
     ''cuModuleUnload'',
     ''cuMulticastAddDevice'',
     ''cuMulticastBindAddr'']"

definition names_cuMulticastBindMem :: "string list" where
  "names_cuMulticastBindMem =
    [''cuMulticastBindMem'',
     ''cuMulticastCreate'',
     ''cuMulticastGetGranularity'',
     ''cuMulticastUnbind'',
     ''cuOccupancyAvailableDynamicSMemPerBlock'',
     ''cuOccupancyMaxActiveBlocksPerMultiprocessor'',
     ''cuOccupancyMaxActiveBlocksPerMultiprocessorWithFlags'',
     ''cuOccupancyMaxActiveClusters'',
     ''cuOccupancyMaxPotentialBlockSize'',
     ''cuOccupancyMaxPotentialBlockSizeWithFlags'',
     ''cuOccupancyMaxPotentialClusterSize'',
     ''cuParamSetSize'',
     ''cuParamSetTexRef'',
     ''cuParamSetf'',
     ''cuParamSeti'',
     ''cuParamSetv'',
     ''cuPointerGetAttribute'',
     ''cuPointerGetAttributes'',
     ''cuPointerSetAttribute'',
     ''cuSignalExternalSemaphoresAsync'']"

definition names_cuStreamAddCallback :: "string list" where
  "names_cuStreamAddCallback =
    [''cuStreamAddCallback'',
     ''cuStreamAttachMemAsync'',
     ''cuStreamBatchMemOp_v2'',
     ''cuStreamBeginCaptureToGraph'',
     ''cuStreamBeginCapture_v2'',
     ''cuStreamCopyAttributes'',
     ''cuStreamCreate'',
     ''cuStreamCreateWithPriority'',
     ''cuStreamDestroy_v2'',
     ''cuStreamEndCapture'',
     ''cuStreamGetAttribute'',
     ''cuStreamGetCaptureInfo_v2'',
     ''cuStreamGetCaptureInfo_v3'',
     ''cuStreamGetCtx'',
     ''cuStreamGetCtx_v2'',
     ''cuStreamGetDevice'',
     ''cuStreamGetFlags'']"

definition names_cuStreamGetGreenCtx :: "string list" where
  "names_cuStreamGetGreenCtx =
    [''cuStreamGetGreenCtx'',
     ''cuStreamGetId'',
     ''cuStreamGetPriority'',
     ''cuStreamIsCapturing'',
     ''cuStreamQuery'',
     ''cuStreamSetAttribute'',
     ''cuStreamSynchronize'',
     ''cuStreamUpdateCaptureDependencies'',
     ''cuStreamUpdateCaptureDependencies_v2'',
     ''cuStreamWaitEvent'',
     ''cuStreamWaitValue32_v2'',
     ''cuStreamWaitValue64_v2'',
     ''cuStreamWriteValue32_v2'',
     ''cuStreamWriteValue64_v2'',
     ''cuSurfObjectCreate'',
     ''cuSurfObjectDestroy'',
     ''cuSurfObjectGetResourceDesc'']"

definition names_cuSurfRefGetArray :: "string list" where
  "names_cuSurfRefGetArray =
    [''cuSurfRefGetArray'',
     ''cuSurfRefSetArray'',
     ''cuTensorMapEncodeIm2col'',
     ''cuTensorMapEncodeIm2colWide'',
     ''cuTensorMapEncodeTiled'',
     ''cuTensorMapReplaceAddress'',
     ''cuTexObjectCreate'',
     ''cuTexObjectDestroy'',
     ''cuTexObjectGetResourceDesc'',
     ''cuTexObjectGetResourceViewDesc'',
     ''cuTexObjectGetTextureDesc'',
     ''cuTexRefCreate'',
     ''cuTexRefDestroy'',
     ''cuTexRefGetAddressMode'',
     ''cuTexRefGetAddress_v2'',
     ''cuTexRefGetArray'',
     ''cuTexRefGetBorderColor'',
     ''cuTexRefGetFilterMode'']"

definition names_cuTexRefGetFlags :: "string list" where
  "names_cuTexRefGetFlags =
    [''cuTexRefGetFlags'',
     ''cuTexRefGetFormat'',
     ''cuTexRefGetMaxAnisotropy'',
     ''cuTexRefGetMipmapFilterMode'',
     ''cuTexRefGetMipmapLevelBias'',
     ''cuTexRefGetMipmapLevelClamp'',
     ''cuTexRefGetMipmappedArray'',
     ''cuTexRefSetAddress2D_v3'',
     ''cuTexRefSetAddressMode'',
     ''cuTexRefSetAddress_v2'',
     ''cuTexRefSetArray'',
     ''cuTexRefSetBorderColor'',
     ''cuTexRefSetFilterMode'']"

definition names_cuTexRefSetFlags :: "string list" where
  "names_cuTexRefSetFlags =
    [''cuTexRefSetFlags'',
     ''cuTexRefSetFormat'',
     ''cuTexRefSetMaxAnisotropy'',
     ''cuTexRefSetMipmapFilterMode'',
     ''cuTexRefSetMipmapLevelBias'',
     ''cuTexRefSetMipmapLevelClamp'',
     ''cuTexRefSetMipmappedArray'',
     ''cuThreadExchangeStreamCaptureMode'',
     ''cuUserObjectCreate'',
     ''cuUserObjectRelease'',
     ''cuUserObjectRetain'',
     ''cuWaitExternalSemaphoresAsync'']"

definition kNames :: "string list" where
  "kNames = ''?'' #
    names_cuArray3DCreate_v2 @ names_cuCtxDisablePeerAccess @ names_cuCtxPushCurrent_v2 @
    names_cuDeviceGet @ names_cuDeviceGetProperties @ names_cuEventElapsedTime @ names_cuFuncSetAttribute @
    names_cuGraphClone @ names_cuGraphExecEventWaitNodeSetEvent @ names_cuGraphLaunch @
    names_cuGraphicsMapResources @ names_cuImportExternalSemaphore @ names_cuLaunchGridAsync @
    names_cuMemAddressFree @ names_cuMemGetAllocationGranularity @ names_cuMemRelease @
    names_cuMemcpyDtoDAsync_v2 @ names_cuMemsetD2D16_v2 @ names_cuModuleGetFunction @
    names_cuMulticastBindMem @ names_cuStreamAddCallback @ names_cuStreamGetGreenCtx @
    names_cuSurfRefGetArray @ names_cuTexRefGetFlags @ names_cuTexRefSetFlags"

definition api_name :: "u32 \<Rightarrow> string" where
  "api_name i = (if i < API__count then kNames ! unat i else ''?'')"

section \<open>What they say\<close>

lemmas id_tables =
  ids_cuArray3DCreate_v2_def
  ids_cuCtxDisablePeerAccess_def
  ids_cuCtxPushCurrent_v2_def
  ids_cuDeviceGet_def
  ids_cuDeviceGetProperties_def
  ids_cuEventElapsedTime_def
  ids_cuFuncSetAttribute_def
  ids_cuGraphClone_def
  ids_cuGraphExecEventWaitNodeSetEvent_def
  ids_cuGraphLaunch_def
  ids_cuGraphicsMapResources_def
  ids_cuImportExternalSemaphore_def
  ids_cuLaunchGridAsync_def
  ids_cuMemAddressFree_def
  ids_cuMemGetAllocationGranularity_def
  ids_cuMemRelease_def
  ids_cuMemcpyDtoDAsync_v2_def
  ids_cuMemsetD2D16_v2_def
  ids_cuModuleGetFunction_def
  ids_cuMulticastBindMem_def
  ids_cuStreamAddCallback_def
  ids_cuStreamGetGreenCtx_def
  ids_cuSurfRefGetArray_def
  ids_cuTexRefGetFlags_def
  ids_cuTexRefSetFlags_def
lemmas name_tables =
  names_cuArray3DCreate_v2_def
  names_cuCtxDisablePeerAccess_def
  names_cuCtxPushCurrent_v2_def
  names_cuDeviceGet_def
  names_cuDeviceGetProperties_def
  names_cuEventElapsedTime_def
  names_cuFuncSetAttribute_def
  names_cuGraphClone_def
  names_cuGraphExecEventWaitNodeSetEvent_def
  names_cuGraphLaunch_def
  names_cuGraphicsMapResources_def
  names_cuImportExternalSemaphore_def
  names_cuLaunchGridAsync_def
  names_cuMemAddressFree_def
  names_cuMemGetAllocationGranularity_def
  names_cuMemRelease_def
  names_cuMemcpyDtoDAsync_v2_def
  names_cuMemsetD2D16_v2_def
  names_cuModuleGetFunction_def
  names_cuMulticastBindMem_def
  names_cuStreamAddCallback_def
  names_cuStreamGetGreenCtx_def
  names_cuSurfRefGetArray_def
  names_cuTexRefGetFlags_def
  names_cuTexRefSetFlags_def

text \<open>Ids that count up by one.\<close>

fun counts_from :: "u32 \<Rightarrow> u32 list \<Rightarrow> bool" where
  "counts_from i [] \<longleftrightarrow> True"
| "counts_from i (k # ks) \<longleftrightarrow> k = i \<and> counts_from (i + 1) ks"

lemma counts_from_append:
  "counts_from i (ks @ ls) \<longleftrightarrow> counts_from i ks \<and> counts_from (i + of_nat (length ks)) ls"
  by (induction ks arbitrary: i) (auto simp: ac_simps)

lemma counts_from_nth:
  "counts_from i ks \<Longrightarrow> n < length ks \<Longrightarrow> ks ! n = i + of_nat n"
  by (induction ks arbitrary: i n) (auto simp: nth_Cons ac_simps split: nat.split)

lemma ids_count:
  "counts_from 1 (map snd ids_cuArray3DCreate_v2)"
  "counts_from 25 (map snd ids_cuCtxDisablePeerAccess)"
  "counts_from 40 (map snd ids_cuCtxPushCurrent_v2)"
  "counts_from 56 (map snd ids_cuDeviceGet)"
  "counts_from 70 (map snd ids_cuDeviceGetProperties)"
  "counts_from 88 (map snd ids_cuEventElapsedTime)"
  "counts_from 103 (map snd ids_cuFuncSetAttribute)"
  "counts_from 132 (map snd ids_cuGraphClone)"
  "counts_from 146 (map snd ids_cuGraphExecEventWaitNodeSetEvent)"
  "counts_from 173 (map snd ids_cuGraphLaunch)"
  "counts_from 194 (map snd ids_cuGraphicsMapResources)"
  "counts_from 208 (map snd ids_cuImportExternalSemaphore)"
  "counts_from 226 (map snd ids_cuLaunchGridAsync)"
  "counts_from 245 (map snd ids_cuMemAddressFree)"
  "counts_from 263 (map snd ids_cuMemGetAllocationGranularity)"
  "counts_from 290 (map snd ids_cuMemRelease)"
  "counts_from 310 (map snd ids_cuMemcpyDtoDAsync_v2)"
  "counts_from 323 (map snd ids_cuMemsetD2D16_v2)"
  "counts_from 338 (map snd ids_cuModuleGetFunction)"
  "counts_from 351 (map snd ids_cuMulticastBindMem)"
  "counts_from 371 (map snd ids_cuStreamAddCallback)"
  "counts_from 388 (map snd ids_cuStreamGetGreenCtx)"
  "counts_from 405 (map snd ids_cuSurfRefGetArray)"
  "counts_from 423 (map snd ids_cuTexRefGetFlags)"
  "counts_from 436 (map snd ids_cuTexRefSetFlags)"
  by (simp_all add: id_tables)

lemma ids_length:
  "length ids_cuArray3DCreate_v2 = 24"
  "length ids_cuCtxDisablePeerAccess = 15"
  "length ids_cuCtxPushCurrent_v2 = 16"
  "length ids_cuDeviceGet = 14"
  "length ids_cuDeviceGetProperties = 18"
  "length ids_cuEventElapsedTime = 15"
  "length ids_cuFuncSetAttribute = 29"
  "length ids_cuGraphClone = 14"
  "length ids_cuGraphExecEventWaitNodeSetEvent = 27"
  "length ids_cuGraphLaunch = 21"
  "length ids_cuGraphicsMapResources = 14"
  "length ids_cuImportExternalSemaphore = 18"
  "length ids_cuLaunchGridAsync = 19"
  "length ids_cuMemAddressFree = 18"
  "length ids_cuMemGetAllocationGranularity = 27"
  "length ids_cuMemRelease = 20"
  "length ids_cuMemcpyDtoDAsync_v2 = 13"
  "length ids_cuMemsetD2D16_v2 = 15"
  "length ids_cuModuleGetFunction = 13"
  "length ids_cuMulticastBindMem = 20"
  "length ids_cuStreamAddCallback = 17"
  "length ids_cuStreamGetGreenCtx = 17"
  "length ids_cuSurfRefGetArray = 18"
  "length ids_cuTexRefGetFlags = 13"
  "length ids_cuTexRefSetFlags = 12"
  by (simp_all add: id_tables)

lemma names_agree:
  "map fst ids_cuArray3DCreate_v2 = names_cuArray3DCreate_v2"
  "map fst ids_cuCtxDisablePeerAccess = names_cuCtxDisablePeerAccess"
  "map fst ids_cuCtxPushCurrent_v2 = names_cuCtxPushCurrent_v2"
  "map fst ids_cuDeviceGet = names_cuDeviceGet"
  "map fst ids_cuDeviceGetProperties = names_cuDeviceGetProperties"
  "map fst ids_cuEventElapsedTime = names_cuEventElapsedTime"
  "map fst ids_cuFuncSetAttribute = names_cuFuncSetAttribute"
  "map fst ids_cuGraphClone = names_cuGraphClone"
  "map fst ids_cuGraphExecEventWaitNodeSetEvent = names_cuGraphExecEventWaitNodeSetEvent"
  "map fst ids_cuGraphLaunch = names_cuGraphLaunch"
  "map fst ids_cuGraphicsMapResources = names_cuGraphicsMapResources"
  "map fst ids_cuImportExternalSemaphore = names_cuImportExternalSemaphore"
  "map fst ids_cuLaunchGridAsync = names_cuLaunchGridAsync"
  "map fst ids_cuMemAddressFree = names_cuMemAddressFree"
  "map fst ids_cuMemGetAllocationGranularity = names_cuMemGetAllocationGranularity"
  "map fst ids_cuMemRelease = names_cuMemRelease"
  "map fst ids_cuMemcpyDtoDAsync_v2 = names_cuMemcpyDtoDAsync_v2"
  "map fst ids_cuMemsetD2D16_v2 = names_cuMemsetD2D16_v2"
  "map fst ids_cuModuleGetFunction = names_cuModuleGetFunction"
  "map fst ids_cuMulticastBindMem = names_cuMulticastBindMem"
  "map fst ids_cuStreamAddCallback = names_cuStreamAddCallback"
  "map fst ids_cuStreamGetGreenCtx = names_cuStreamGetGreenCtx"
  "map fst ids_cuSurfRefGetArray = names_cuSurfRefGetArray"
  "map fst ids_cuTexRefGetFlags = names_cuTexRefGetFlags"
  "map fst ids_cuTexRefSetFlags = names_cuTexRefSetFlags"
  by (simp_all add: id_tables name_tables)

text \<open>The name at an id is the one the id was given to.\<close>

lemma api_name_of_id:
  assumes "(name, i) \<in> set api_ids"
  shows "api_name i = name"
proof -
  obtain n where n: "n < length api_ids" "api_ids ! n = (name, i)" using assms by (auto simp: in_set_conv_nth)
  have l: "length api_ids = 447" by (simp add: api_ids_def ids_length)
  have "counts_from 1 (map snd api_ids)"
    by (simp add: api_ids_def counts_from_append ids_count ids_length)
  from counts_from_nth [OF this, of n] have i: "i = of_nat (Suc n)" using n by simp
  have k: "kNames = ''?'' # map fst api_ids" by (simp add: kNames_def api_ids_def names_agree)
  have "unat i = Suc n" using n(1) l by (simp add: i unsigned_of_nat take_bit_nat_eq_self del: of_nat_Suc)
  moreover have "i < API__count" using n(1) l calculation by (simp add: API__count_def word_less_nat_alt)
  ultimately show ?thesis using n by (simp add: api_name_def k)
qed

text \<open>Stubs are in the order of the ids too.\<close>

fun named_in_order :: "stub list \<Rightarrow> (string \<times> u32) list \<Rightarrow> bool" where
  "named_in_order [] ids \<longleftrightarrow> True"
| "named_in_order (Unimplemented name # sts) ids \<longleftrightarrow> named_in_order sts ids"
| "named_in_order (Calls name api b ps a # sts) [] \<longleftrightarrow> False"
| "named_in_order (Calls name api b ps a # sts) ((n, i) # ids) \<longleftrightarrow>
     (if i < api then named_in_order (Calls name api b ps a # sts) ids else i = api \<and> n = name \<and> named_in_order sts ids)"
| "named_in_order (Posts name api b ps # sts) [] \<longleftrightarrow> False"
| "named_in_order (Posts name api b ps # sts) ((n, i) # ids) \<longleftrightarrow>
     (if i < api then named_in_order (Posts name api b ps # sts) ids else i = api \<and> n = name \<and> named_in_order sts ids)"

primrec stub_named :: "(string \<times> u32) list \<Rightarrow> stub \<Rightarrow> bool" where
  "stub_named ids (Unimplemented name) \<longleftrightarrow> True"
| "stub_named ids (Calls name api b ps a) \<longleftrightarrow> (name, api) \<in> set ids"
| "stub_named ids (Posts name api b ps) \<longleftrightarrow> (name, api) \<in> set ids"

lemma named_in_order_each:
  "named_in_order sts ids \<Longrightarrow> set ids \<subseteq> set all \<Longrightarrow> list_all (stub_named all) sts"
  by (induction sts ids rule: named_in_order.induct) (auto split: if_splits)

lemma groups_in_order:
  "named_in_order stubs_cuArray3DCreate_v2 ids_cuArray3DCreate_v2"
  "named_in_order stubs_cuCtxDisablePeerAccess ids_cuCtxDisablePeerAccess"
  "named_in_order stubs_cuCtxPushCurrent_v2 ids_cuCtxPushCurrent_v2"
  "named_in_order stubs_cuDeviceGet ids_cuDeviceGet"
  "named_in_order stubs_cuDeviceGetProperties ids_cuDeviceGetProperties"
  "named_in_order stubs_cuEventElapsedTime ids_cuEventElapsedTime"
  "named_in_order stubs_cuFuncSetAttribute ids_cuFuncSetAttribute"
  "named_in_order stubs_cuGraphClone ids_cuGraphClone"
  "named_in_order stubs_cuGraphExecEventWaitNodeSetEvent ids_cuGraphExecEventWaitNodeSetEvent"
  "named_in_order stubs_cuGraphLaunch ids_cuGraphLaunch"
  "named_in_order stubs_cuGraphicsMapResources ids_cuGraphicsMapResources"
  "named_in_order stubs_cuImportExternalSemaphore ids_cuImportExternalSemaphore"
  "named_in_order stubs_cuLaunchGridAsync ids_cuLaunchGridAsync"
  "named_in_order stubs_cuMemAddressFree ids_cuMemAddressFree"
  "named_in_order stubs_cuMemGetAllocationGranularity ids_cuMemGetAllocationGranularity"
  "named_in_order stubs_cuMemRelease ids_cuMemRelease"
  "named_in_order stubs_cuMemcpyDtoDAsync_v2 ids_cuMemcpyDtoDAsync_v2"
  "named_in_order stubs_cuMemsetD2D16_v2 ids_cuMemsetD2D16_v2"
  "named_in_order stubs_cuModuleGetFunction ids_cuModuleGetFunction"
  "named_in_order stubs_cuMulticastBindMem ids_cuMulticastBindMem"
  "named_in_order stubs_cuStreamAddCallback ids_cuStreamAddCallback"
  "named_in_order stubs_cuStreamGetGreenCtx ids_cuStreamGetGreenCtx"
  "named_in_order stubs_cuSurfRefGetArray ids_cuSurfRefGetArray"
  "named_in_order stubs_cuTexRefGetFlags ids_cuTexRefGetFlags"
  "named_in_order stubs_cuTexRefSetFlags ids_cuTexRefSetFlags"
  by (simp_all add: id_tables
      stubs_cuArray3DCreate_v2_def
      stubs_cuCtxDisablePeerAccess_def
      stubs_cuCtxPushCurrent_v2_def
      stubs_cuDeviceGet_def
      stubs_cuDeviceGetProperties_def
      stubs_cuEventElapsedTime_def
      stubs_cuFuncSetAttribute_def
      stubs_cuGraphClone_def
      stubs_cuGraphExecEventWaitNodeSetEvent_def
      stubs_cuGraphLaunch_def
      stubs_cuGraphicsMapResources_def
      stubs_cuImportExternalSemaphore_def
      stubs_cuLaunchGridAsync_def
      stubs_cuMemAddressFree_def
      stubs_cuMemGetAllocationGranularity_def
      stubs_cuMemRelease_def
      stubs_cuMemcpyDtoDAsync_v2_def
      stubs_cuMemsetD2D16_v2_def
      stubs_cuModuleGetFunction_def
      stubs_cuMulticastBindMem_def
      stubs_cuStreamAddCallback_def
      stubs_cuStreamGetGreenCtx_def
      stubs_cuSurfRefGetArray_def
      stubs_cuTexRefGetFlags_def
      stubs_cuTexRefSetFlags_def)

lemma ids_within:
  "set ids_cuArray3DCreate_v2 \<subseteq> set api_ids"
  "set ids_cuCtxDisablePeerAccess \<subseteq> set api_ids"
  "set ids_cuCtxPushCurrent_v2 \<subseteq> set api_ids"
  "set ids_cuDeviceGet \<subseteq> set api_ids"
  "set ids_cuDeviceGetProperties \<subseteq> set api_ids"
  "set ids_cuEventElapsedTime \<subseteq> set api_ids"
  "set ids_cuFuncSetAttribute \<subseteq> set api_ids"
  "set ids_cuGraphClone \<subseteq> set api_ids"
  "set ids_cuGraphExecEventWaitNodeSetEvent \<subseteq> set api_ids"
  "set ids_cuGraphLaunch \<subseteq> set api_ids"
  "set ids_cuGraphicsMapResources \<subseteq> set api_ids"
  "set ids_cuImportExternalSemaphore \<subseteq> set api_ids"
  "set ids_cuLaunchGridAsync \<subseteq> set api_ids"
  "set ids_cuMemAddressFree \<subseteq> set api_ids"
  "set ids_cuMemGetAllocationGranularity \<subseteq> set api_ids"
  "set ids_cuMemRelease \<subseteq> set api_ids"
  "set ids_cuMemcpyDtoDAsync_v2 \<subseteq> set api_ids"
  "set ids_cuMemsetD2D16_v2 \<subseteq> set api_ids"
  "set ids_cuModuleGetFunction \<subseteq> set api_ids"
  "set ids_cuMulticastBindMem \<subseteq> set api_ids"
  "set ids_cuStreamAddCallback \<subseteq> set api_ids"
  "set ids_cuStreamGetGreenCtx \<subseteq> set api_ids"
  "set ids_cuSurfRefGetArray \<subseteq> set api_ids"
  "set ids_cuTexRefGetFlags \<subseteq> set api_ids"
  "set ids_cuTexRefSetFlags \<subseteq> set api_ids"
  by (auto simp: api_ids_def)

text \<open>Whatever a stub sends is named in the log by what the program called.\<close>

lemma stubs_are_named: "list_all (stub_named api_ids) client_stubs"
  unfolding client_stubs_def list_all_append
  by (intro conjI groups_in_order [THEN named_in_order_each] ids_within)

lemma requests_are_named:
  assumes "Calls name api b ps a \<in> set client_stubs \<or> Posts name api b ps \<in> set client_stubs"
  shows "api_name api = name"
  using stubs_are_named assms by (fastforce simp: list_all_iff intro: api_name_of_id)

end
