(* ===== verification/Refusals.thy ===== *)
theory Refusals
  imports Registry
begin

text \<open>
  Entry points that are not forwarded. The generator writes a weak definition of every entry point of
  cuBLAS, cuBLASLt, the runtime and cuDNN (\<^verbatim>\<open>client/generated/cublas_stubs.cpp\<close> and the three beside it),
  and the hand-written ones are strong and take their place. What is left says its name once and
  answers that it is not supported (\<^verbatim>\<open>unimplemented_rt\<close> of \<^verbatim>\<open>client/rpc.cpp\<close>).
\<close>

section \<open>The generated entry points\<close>

definition weak_cublas_1 :: "string list" where
  "weak_cublas_1 =
    [''cublasAsumEx'',
     ''cublasAsumEx_64'',
     ''cublasAxpyEx'',
     ''cublasAxpyEx_64'',
     ''cublasCaxpy_v2'',
     ''cublasCaxpy_v2_64'',
     ''cublasCcopy_v2'',
     ''cublasCcopy_v2_64'',
     ''cublasCdgmm'',
     ''cublasCdgmm_64'',
     ''cublasCdotc_v2'',
     ''cublasCdotc_v2_64'',
     ''cublasCdotu_v2'',
     ''cublasCdotu_v2_64'',
     ''cublasCgbmv_v2'',
     ''cublasCgbmv_v2_64'',
     ''cublasCgeam'',
     ''cublasCgeam_64'',
     ''cublasCgelsBatched'',
     ''cublasCgemm3m'',
     ''cublasCgemm3mBatched'',
     ''cublasCgemm3mBatched_64'',
     ''cublasCgemm3mEx'',
     ''cublasCgemm3mEx_64'',
     ''cublasCgemm3mStridedBatched'',
     ''cublasCgemm3mStridedBatched_64'',
     ''cublasCgemm3m_64'',
     ''cublasCgemmBatched'',
     ''cublasCgemmBatched_64'',
     ''cublasCgemmEx'']"

definition weak_cublas_2 :: "string list" where
  "weak_cublas_2 =
    [''cublasCgemmEx_64'',
     ''cublasCgemmStridedBatched'',
     ''cublasCgemmStridedBatched_64'',
     ''cublasCgemm_v2'',
     ''cublasCgemm_v2_64'',
     ''cublasCgemvBatched'',
     ''cublasCgemvBatched_64'',
     ''cublasCgemvStridedBatched'',
     ''cublasCgemvStridedBatched_64'',
     ''cublasCgemv_v2'',
     ''cublasCgemv_v2_64'',
     ''cublasCgeqrfBatched'',
     ''cublasCgerc_v2'',
     ''cublasCgerc_v2_64'',
     ''cublasCgeru_v2'',
     ''cublasCgeru_v2_64'',
     ''cublasCgetrfBatched'',
     ''cublasCgetriBatched'',
     ''cublasCgetrsBatched'',
     ''cublasChbmv_v2'',
     ''cublasChbmv_v2_64'',
     ''cublasChemm_v2'',
     ''cublasChemm_v2_64'',
     ''cublasChemv_v2'',
     ''cublasChemv_v2_64'',
     ''cublasCher2_v2'',
     ''cublasCher2_v2_64'',
     ''cublasCher2k_v2'',
     ''cublasCher2k_v2_64'',
     ''cublasCher_v2'']"

definition weak_cublas_3 :: "string list" where
  "weak_cublas_3 =
    [''cublasCher_v2_64'',
     ''cublasCherk3mEx'',
     ''cublasCherk3mEx_64'',
     ''cublasCherkEx'',
     ''cublasCherkEx_64'',
     ''cublasCherk_v2'',
     ''cublasCherk_v2_64'',
     ''cublasCherkx'',
     ''cublasCherkx_64'',
     ''cublasChpmv_v2'',
     ''cublasChpmv_v2_64'',
     ''cublasChpr2_v2'',
     ''cublasChpr2_v2_64'',
     ''cublasChpr_v2'',
     ''cublasChpr_v2_64'',
     ''cublasCmatinvBatched'',
     ''cublasCopyEx'',
     ''cublasCopyEx_64'',
     ''cublasCreate_v2'',
     ''cublasCrot_v2'',
     ''cublasCrot_v2_64'',
     ''cublasCrotg_v2'',
     ''cublasCscal_v2'',
     ''cublasCscal_v2_64'',
     ''cublasCsrot_v2'',
     ''cublasCsrot_v2_64'',
     ''cublasCsscal_v2'',
     ''cublasCsscal_v2_64'',
     ''cublasCswap_v2'',
     ''cublasCswap_v2_64'']"

definition weak_cublas_4 :: "string list" where
  "weak_cublas_4 =
    [''cublasCsymm_v2'',
     ''cublasCsymm_v2_64'',
     ''cublasCsymv_v2'',
     ''cublasCsymv_v2_64'',
     ''cublasCsyr2_v2'',
     ''cublasCsyr2_v2_64'',
     ''cublasCsyr2k_v2'',
     ''cublasCsyr2k_v2_64'',
     ''cublasCsyr_v2'',
     ''cublasCsyr_v2_64'',
     ''cublasCsyrk3mEx'',
     ''cublasCsyrk3mEx_64'',
     ''cublasCsyrkEx'',
     ''cublasCsyrkEx_64'',
     ''cublasCsyrk_v2'',
     ''cublasCsyrk_v2_64'',
     ''cublasCsyrkx'',
     ''cublasCsyrkx_64'',
     ''cublasCtbmv_v2'',
     ''cublasCtbmv_v2_64'',
     ''cublasCtbsv_v2'',
     ''cublasCtbsv_v2_64'',
     ''cublasCtpmv_v2'',
     ''cublasCtpmv_v2_64'',
     ''cublasCtpsv_v2'',
     ''cublasCtpsv_v2_64'',
     ''cublasCtpttr'',
     ''cublasCtrmm_v2'',
     ''cublasCtrmm_v2_64'',
     ''cublasCtrmv_v2'']"

definition weak_cublas_5 :: "string list" where
  "weak_cublas_5 =
    [''cublasCtrmv_v2_64'',
     ''cublasCtrsmBatched'',
     ''cublasCtrsmBatched_64'',
     ''cublasCtrsm_v2'',
     ''cublasCtrsm_v2_64'',
     ''cublasCtrsv_v2'',
     ''cublasCtrsv_v2_64'',
     ''cublasCtrttp'',
     ''cublasDasum_v2'',
     ''cublasDasum_v2_64'',
     ''cublasDaxpy_v2'',
     ''cublasDaxpy_v2_64'',
     ''cublasDcopy_v2'',
     ''cublasDcopy_v2_64'',
     ''cublasDdgmm'',
     ''cublasDdgmm_64'',
     ''cublasDdot_v2'',
     ''cublasDdot_v2_64'',
     ''cublasDestroy_v2'',
     ''cublasDgbmv_v2'',
     ''cublasDgbmv_v2_64'',
     ''cublasDgeam'',
     ''cublasDgeam_64'',
     ''cublasDgelsBatched'',
     ''cublasDgemmBatched'',
     ''cublasDgemmBatched_64'',
     ''cublasDgemmGroupedBatched'',
     ''cublasDgemmGroupedBatched_64'',
     ''cublasDgemmStridedBatched'',
     ''cublasDgemmStridedBatched_64'']"

definition weak_cublas_6 :: "string list" where
  "weak_cublas_6 =
    [''cublasDgemm_v2'',
     ''cublasDgemm_v2_64'',
     ''cublasDgemvBatched'',
     ''cublasDgemvBatched_64'',
     ''cublasDgemvStridedBatched'',
     ''cublasDgemvStridedBatched_64'',
     ''cublasDgemv_v2'',
     ''cublasDgemv_v2_64'',
     ''cublasDgeqrfBatched'',
     ''cublasDger_v2'',
     ''cublasDger_v2_64'',
     ''cublasDgetrfBatched'',
     ''cublasDgetriBatched'',
     ''cublasDgetrsBatched'',
     ''cublasDmatinvBatched'',
     ''cublasDnrm2_v2'',
     ''cublasDnrm2_v2_64'',
     ''cublasDotEx'',
     ''cublasDotEx_64'',
     ''cublasDotcEx'',
     ''cublasDotcEx_64'',
     ''cublasDrot_v2'',
     ''cublasDrot_v2_64'',
     ''cublasDrotg_v2'',
     ''cublasDrotm_v2'',
     ''cublasDrotm_v2_64'',
     ''cublasDrotmg_v2'',
     ''cublasDsbmv_v2'',
     ''cublasDsbmv_v2_64'',
     ''cublasDscal_v2'']"

definition weak_cublas_7 :: "string list" where
  "weak_cublas_7 =
    [''cublasDscal_v2_64'',
     ''cublasDspmv_v2'',
     ''cublasDspmv_v2_64'',
     ''cublasDspr2_v2'',
     ''cublasDspr2_v2_64'',
     ''cublasDspr_v2'',
     ''cublasDspr_v2_64'',
     ''cublasDswap_v2'',
     ''cublasDswap_v2_64'',
     ''cublasDsymm_v2'',
     ''cublasDsymm_v2_64'',
     ''cublasDsymv_v2'',
     ''cublasDsymv_v2_64'',
     ''cublasDsyr2_v2'',
     ''cublasDsyr2_v2_64'',
     ''cublasDsyr2k_v2'',
     ''cublasDsyr2k_v2_64'',
     ''cublasDsyr_v2'',
     ''cublasDsyr_v2_64'',
     ''cublasDsyrk_v2'',
     ''cublasDsyrk_v2_64'',
     ''cublasDsyrkx'',
     ''cublasDsyrkx_64'',
     ''cublasDtbmv_v2'',
     ''cublasDtbmv_v2_64'',
     ''cublasDtbsv_v2'',
     ''cublasDtbsv_v2_64'',
     ''cublasDtpmv_v2'',
     ''cublasDtpmv_v2_64'',
     ''cublasDtpsv_v2'']"

definition weak_cublas_8 :: "string list" where
  "weak_cublas_8 =
    [''cublasDtpsv_v2_64'',
     ''cublasDtpttr'',
     ''cublasDtrmm_v2'',
     ''cublasDtrmm_v2_64'',
     ''cublasDtrmv_v2'',
     ''cublasDtrmv_v2_64'',
     ''cublasDtrsmBatched'',
     ''cublasDtrsmBatched_64'',
     ''cublasDtrsm_v2'',
     ''cublasDtrsm_v2_64'',
     ''cublasDtrsv_v2'',
     ''cublasDtrsv_v2_64'',
     ''cublasDtrttp'',
     ''cublasDzasum_v2'',
     ''cublasDzasum_v2_64'',
     ''cublasDznrm2_v2'',
     ''cublasDznrm2_v2_64'',
     ''cublasGemmBatchedEx'',
     ''cublasGemmBatchedEx_64'',
     ''cublasGemmEx'',
     ''cublasGemmEx_64'',
     ''cublasGemmGroupedBatchedEx'',
     ''cublasGemmGroupedBatchedEx_64'',
     ''cublasGemmStridedBatchedEx'',
     ''cublasGemmStridedBatchedEx_64'',
     ''cublasGetAtomicsMode'',
     ''cublasGetLoggerCallback'',
     ''cublasGetMathMode'',
     ''cublasGetMatrix'',
     ''cublasGetMatrixAsync'']"

definition weak_cublas_9 :: "string list" where
  "weak_cublas_9 =
    [''cublasGetMatrixAsync_64'',
     ''cublasGetMatrix_64'',
     ''cublasGetPointerMode_v2'',
     ''cublasGetProperty'',
     ''cublasGetSmCountTarget'',
     ''cublasGetStream_v2'',
     ''cublasGetVector'',
     ''cublasGetVectorAsync'',
     ''cublasGetVectorAsync_64'',
     ''cublasGetVector_64'',
     ''cublasGetVersion_v2'',
     ''cublasIamaxEx'',
     ''cublasIamaxEx_64'',
     ''cublasIaminEx'',
     ''cublasIaminEx_64'',
     ''cublasIcamax_v2'',
     ''cublasIcamax_v2_64'',
     ''cublasIcamin_v2'',
     ''cublasIcamin_v2_64'',
     ''cublasIdamax_v2'',
     ''cublasIdamax_v2_64'',
     ''cublasIdamin_v2'',
     ''cublasIdamin_v2_64'',
     ''cublasIsamax_v2'',
     ''cublasIsamax_v2_64'',
     ''cublasIsamin_v2'',
     ''cublasIsamin_v2_64'',
     ''cublasIzamax_v2'',
     ''cublasIzamax_v2_64'',
     ''cublasIzamin_v2'']"

definition weak_cublas_10 :: "string list" where
  "weak_cublas_10 =
    [''cublasIzamin_v2_64'',
     ''cublasLoggerConfigure'',
     ''cublasNrm2Ex'',
     ''cublasNrm2Ex_64'',
     ''cublasRotEx'',
     ''cublasRotEx_64'',
     ''cublasRotgEx'',
     ''cublasRotmEx'',
     ''cublasRotmEx_64'',
     ''cublasRotmgEx'',
     ''cublasSasum_v2'',
     ''cublasSasum_v2_64'',
     ''cublasSaxpy_v2'',
     ''cublasSaxpy_v2_64'',
     ''cublasScalEx'',
     ''cublasScalEx_64'',
     ''cublasScasum_v2'',
     ''cublasScasum_v2_64'',
     ''cublasScnrm2_v2'',
     ''cublasScnrm2_v2_64'',
     ''cublasScopy_v2'',
     ''cublasScopy_v2_64'',
     ''cublasSdgmm'',
     ''cublasSdgmm_64'',
     ''cublasSdot_v2'',
     ''cublasSdot_v2_64'',
     ''cublasSetAtomicsMode'',
     ''cublasSetLoggerCallback'',
     ''cublasSetMathMode'',
     ''cublasSetMatrix'']"

definition weak_cublas_11 :: "string list" where
  "weak_cublas_11 =
    [''cublasSetMatrixAsync'',
     ''cublasSetMatrixAsync_64'',
     ''cublasSetMatrix_64'',
     ''cublasSetPointerMode_v2'',
     ''cublasSetSmCountTarget'',
     ''cublasSetStream_v2'',
     ''cublasSetVector'',
     ''cublasSetVectorAsync'',
     ''cublasSetVectorAsync_64'',
     ''cublasSetVector_64'',
     ''cublasSetWorkspace_v2'',
     ''cublasSgbmv_v2'',
     ''cublasSgbmv_v2_64'',
     ''cublasSgeam'',
     ''cublasSgeam_64'',
     ''cublasSgelsBatched'',
     ''cublasSgemmBatched'',
     ''cublasSgemmBatched_64'',
     ''cublasSgemmEx'',
     ''cublasSgemmEx_64'',
     ''cublasSgemmGroupedBatched'',
     ''cublasSgemmGroupedBatched_64'',
     ''cublasSgemmStridedBatched'',
     ''cublasSgemmStridedBatched_64'',
     ''cublasSgemm_v2'',
     ''cublasSgemm_v2_64'',
     ''cublasSgemvBatched'',
     ''cublasSgemvBatched_64'',
     ''cublasSgemvStridedBatched'',
     ''cublasSgemvStridedBatched_64'']"

definition weak_cublas_12 :: "string list" where
  "weak_cublas_12 =
    [''cublasSgemv_v2'',
     ''cublasSgemv_v2_64'',
     ''cublasSgeqrfBatched'',
     ''cublasSger_v2'',
     ''cublasSger_v2_64'',
     ''cublasSgetrfBatched'',
     ''cublasSgetriBatched'',
     ''cublasSgetrsBatched'',
     ''cublasSmatinvBatched'',
     ''cublasSnrm2_v2'',
     ''cublasSnrm2_v2_64'',
     ''cublasSrot_v2'',
     ''cublasSrot_v2_64'',
     ''cublasSrotg_v2'',
     ''cublasSrotm_v2'',
     ''cublasSrotm_v2_64'',
     ''cublasSrotmg_v2'',
     ''cublasSsbmv_v2'',
     ''cublasSsbmv_v2_64'',
     ''cublasSscal_v2'',
     ''cublasSscal_v2_64'',
     ''cublasSspmv_v2'',
     ''cublasSspmv_v2_64'',
     ''cublasSspr2_v2'',
     ''cublasSspr2_v2_64'',
     ''cublasSspr_v2'',
     ''cublasSspr_v2_64'',
     ''cublasSswap_v2'',
     ''cublasSswap_v2_64'',
     ''cublasSsymm_v2'']"

definition weak_cublas_13 :: "string list" where
  "weak_cublas_13 =
    [''cublasSsymm_v2_64'',
     ''cublasSsymv_v2'',
     ''cublasSsymv_v2_64'',
     ''cublasSsyr2_v2'',
     ''cublasSsyr2_v2_64'',
     ''cublasSsyr2k_v2'',
     ''cublasSsyr2k_v2_64'',
     ''cublasSsyr_v2'',
     ''cublasSsyr_v2_64'',
     ''cublasSsyrk_v2'',
     ''cublasSsyrk_v2_64'',
     ''cublasSsyrkx'',
     ''cublasSsyrkx_64'',
     ''cublasStbmv_v2'',
     ''cublasStbmv_v2_64'',
     ''cublasStbsv_v2'',
     ''cublasStbsv_v2_64'',
     ''cublasStpmv_v2'',
     ''cublasStpmv_v2_64'',
     ''cublasStpsv_v2'',
     ''cublasStpsv_v2_64'',
     ''cublasStpttr'',
     ''cublasStrmm_v2'',
     ''cublasStrmm_v2_64'',
     ''cublasStrmv_v2'',
     ''cublasStrmv_v2_64'',
     ''cublasStrsmBatched'',
     ''cublasStrsmBatched_64'',
     ''cublasStrsm_v2'',
     ''cublasStrsm_v2_64'']"

definition weak_cublas_14 :: "string list" where
  "weak_cublas_14 =
    [''cublasStrsv_v2'',
     ''cublasStrsv_v2_64'',
     ''cublasStrttp'',
     ''cublasSwapEx'',
     ''cublasSwapEx_64'',
     ''cublasUint8gemmBias'',
     ''cublasZaxpy_v2'',
     ''cublasZaxpy_v2_64'',
     ''cublasZcopy_v2'',
     ''cublasZcopy_v2_64'',
     ''cublasZdgmm'',
     ''cublasZdgmm_64'',
     ''cublasZdotc_v2'',
     ''cublasZdotc_v2_64'',
     ''cublasZdotu_v2'',
     ''cublasZdotu_v2_64'',
     ''cublasZdrot_v2'',
     ''cublasZdrot_v2_64'',
     ''cublasZdscal_v2'',
     ''cublasZdscal_v2_64'',
     ''cublasZgbmv_v2'',
     ''cublasZgbmv_v2_64'',
     ''cublasZgeam'',
     ''cublasZgeam_64'',
     ''cublasZgelsBatched'',
     ''cublasZgemm3m'',
     ''cublasZgemm3m_64'',
     ''cublasZgemmBatched'',
     ''cublasZgemmBatched_64'',
     ''cublasZgemmStridedBatched'']"

definition weak_cublas_15 :: "string list" where
  "weak_cublas_15 =
    [''cublasZgemmStridedBatched_64'',
     ''cublasZgemm_v2'',
     ''cublasZgemm_v2_64'',
     ''cublasZgemvBatched'',
     ''cublasZgemvBatched_64'',
     ''cublasZgemvStridedBatched'',
     ''cublasZgemvStridedBatched_64'',
     ''cublasZgemv_v2'',
     ''cublasZgemv_v2_64'',
     ''cublasZgeqrfBatched'',
     ''cublasZgerc_v2'',
     ''cublasZgerc_v2_64'',
     ''cublasZgeru_v2'',
     ''cublasZgeru_v2_64'',
     ''cublasZgetrfBatched'',
     ''cublasZgetriBatched'',
     ''cublasZgetrsBatched'',
     ''cublasZhbmv_v2'',
     ''cublasZhbmv_v2_64'',
     ''cublasZhemm_v2'',
     ''cublasZhemm_v2_64'',
     ''cublasZhemv_v2'',
     ''cublasZhemv_v2_64'',
     ''cublasZher2_v2'',
     ''cublasZher2_v2_64'',
     ''cublasZher2k_v2'',
     ''cublasZher2k_v2_64'',
     ''cublasZher_v2'',
     ''cublasZher_v2_64'',
     ''cublasZherk_v2'']"

definition weak_cublas_16 :: "string list" where
  "weak_cublas_16 =
    [''cublasZherk_v2_64'',
     ''cublasZherkx'',
     ''cublasZherkx_64'',
     ''cublasZhpmv_v2'',
     ''cublasZhpmv_v2_64'',
     ''cublasZhpr2_v2'',
     ''cublasZhpr2_v2_64'',
     ''cublasZhpr_v2'',
     ''cublasZhpr_v2_64'',
     ''cublasZmatinvBatched'',
     ''cublasZrot_v2'',
     ''cublasZrot_v2_64'',
     ''cublasZrotg_v2'',
     ''cublasZscal_v2'',
     ''cublasZscal_v2_64'',
     ''cublasZswap_v2'',
     ''cublasZswap_v2_64'',
     ''cublasZsymm_v2'',
     ''cublasZsymm_v2_64'',
     ''cublasZsymv_v2'',
     ''cublasZsymv_v2_64'',
     ''cublasZsyr2_v2'',
     ''cublasZsyr2_v2_64'',
     ''cublasZsyr2k_v2'',
     ''cublasZsyr2k_v2_64'',
     ''cublasZsyr_v2'',
     ''cublasZsyr_v2_64'',
     ''cublasZsyrk_v2'',
     ''cublasZsyrk_v2_64'',
     ''cublasZsyrkx'']"

definition weak_cublas_17 :: "string list" where
  "weak_cublas_17 =
    [''cublasZsyrkx_64'',
     ''cublasZtbmv_v2'',
     ''cublasZtbmv_v2_64'',
     ''cublasZtbsv_v2'',
     ''cublasZtbsv_v2_64'',
     ''cublasZtpmv_v2'',
     ''cublasZtpmv_v2_64'',
     ''cublasZtpsv_v2'',
     ''cublasZtpsv_v2_64'',
     ''cublasZtpttr'',
     ''cublasZtrmm_v2'',
     ''cublasZtrmm_v2_64'',
     ''cublasZtrmv_v2'',
     ''cublasZtrmv_v2_64'',
     ''cublasZtrsmBatched'',
     ''cublasZtrsmBatched_64'',
     ''cublasZtrsm_v2'',
     ''cublasZtrsm_v2_64'',
     ''cublasZtrsv_v2'',
     ''cublasZtrsv_v2_64'',
     ''cublasZtrttp'']"

definition weak_cublas :: "string list" where
  "weak_cublas = weak_cublas_1 @ weak_cublas_2 @ weak_cublas_3 @ weak_cublas_4 @ weak_cublas_5 @
    weak_cublas_6 @ weak_cublas_7 @ weak_cublas_8 @ weak_cublas_9 @ weak_cublas_10 @
    weak_cublas_11 @ weak_cublas_12 @ weak_cublas_13 @ weak_cublas_14 @ weak_cublas_15 @
    weak_cublas_16 @ weak_cublas_17"

definition weak_cublaslt_1 :: "string list" where
  "weak_cublaslt_1 =
    [''cublasLtCreate'',
     ''cublasLtDestroy'',
     ''cublasLtGetProperty'',
     ''cublasLtHeuristicsCacheGetCapacity'',
     ''cublasLtHeuristicsCacheSetCapacity'',
     ''cublasLtLoggerForceDisable'',
     ''cublasLtLoggerOpenFile'',
     ''cublasLtLoggerSetCallback'',
     ''cublasLtLoggerSetFile'',
     ''cublasLtLoggerSetLevel'',
     ''cublasLtLoggerSetMask'',
     ''cublasLtMatmul'',
     ''cublasLtMatmulAlgoCapGetAttribute'',
     ''cublasLtMatmulAlgoCheck'',
     ''cublasLtMatmulAlgoConfigGetAttribute'',
     ''cublasLtMatmulAlgoConfigSetAttribute'',
     ''cublasLtMatmulAlgoGetHeuristic'',
     ''cublasLtMatmulAlgoGetIds'',
     ''cublasLtMatmulAlgoInit'',
     ''cublasLtMatmulDescCreate'',
     ''cublasLtMatmulDescDestroy'',
     ''cublasLtMatmulDescGetAttribute'',
     ''cublasLtMatmulDescInit_internal'',
     ''cublasLtMatmulDescSetAttribute'',
     ''cublasLtMatmulPreferenceCreate'',
     ''cublasLtMatmulPreferenceDestroy'',
     ''cublasLtMatmulPreferenceGetAttribute'',
     ''cublasLtMatmulPreferenceInit_internal'',
     ''cublasLtMatmulPreferenceSetAttribute'',
     ''cublasLtMatrixLayoutCreate'']"

definition weak_cublaslt_2 :: "string list" where
  "weak_cublaslt_2 =
    [''cublasLtMatrixLayoutDestroy'',
     ''cublasLtMatrixLayoutGetAttribute'',
     ''cublasLtMatrixLayoutInit_internal'',
     ''cublasLtMatrixLayoutSetAttribute'',
     ''cublasLtMatrixTransform'',
     ''cublasLtMatrixTransformDescCreate'',
     ''cublasLtMatrixTransformDescDestroy'',
     ''cublasLtMatrixTransformDescGetAttribute'',
     ''cublasLtMatrixTransformDescInit_internal'',
     ''cublasLtMatrixTransformDescSetAttribute'']"

definition weak_cublaslt :: "string list" where
  "weak_cublaslt = weak_cublaslt_1 @ weak_cublaslt_2"

definition weak_cudart_1 :: "string list" where
  "weak_cudart_1 =
    [''cudaArrayGetInfo'',
     ''cudaArrayGetMemoryRequirements'',
     ''cudaArrayGetPlane'',
     ''cudaArrayGetSparseProperties'',
     ''cudaChooseDevice'',
     ''cudaCreateSurfaceObject'',
     ''cudaCreateTextureObject'',
     ''cudaCtxResetPersistingL2Cache'',
     ''cudaDestroyExternalMemory'',
     ''cudaDestroyExternalSemaphore'',
     ''cudaDestroySurfaceObject'',
     ''cudaDestroyTextureObject'',
     ''cudaDeviceCanAccessPeer'',
     ''cudaDeviceDisablePeerAccess'',
     ''cudaDeviceEnablePeerAccess'',
     ''cudaDeviceFlushGPUDirectRDMAWrites'',
     ''cudaDeviceGetAttribute'',
     ''cudaDeviceGetByPCIBusId'',
     ''cudaDeviceGetCacheConfig'',
     ''cudaDeviceGetDefaultMemPool'',
     ''cudaDeviceGetGraphMemAttribute'',
     ''cudaDeviceGetLimit'',
     ''cudaDeviceGetMemPool'',
     ''cudaDeviceGetNvSciSyncAttributes'',
     ''cudaDeviceGetP2PAttribute'',
     ''cudaDeviceGetPCIBusId'',
     ''cudaDeviceGetSharedMemConfig'',
     ''cudaDeviceGetStreamPriorityRange'',
     ''cudaDeviceGetTexture1DLinearMaxWidth'',
     ''cudaDeviceGraphMemTrim'']"

definition weak_cudart_2 :: "string list" where
  "weak_cudart_2 =
    [''cudaDeviceRegisterAsyncNotification'',
     ''cudaDeviceReset'',
     ''cudaDeviceSetCacheConfig'',
     ''cudaDeviceSetGraphMemAttribute'',
     ''cudaDeviceSetLimit'',
     ''cudaDeviceSetMemPool'',
     ''cudaDeviceSetSharedMemConfig'',
     ''cudaDeviceSynchronize'',
     ''cudaDeviceUnregisterAsyncNotification'',
     ''cudaDriverGetVersion'',
     ''cudaEventCreate'',
     ''cudaEventCreateWithFlags'',
     ''cudaEventDestroy'',
     ''cudaEventElapsedTime'',
     ''cudaEventElapsedTime_v2'',
     ''cudaEventQuery'',
     ''cudaEventRecord'',
     ''cudaEventRecordWithFlags'',
     ''cudaEventSynchronize'',
     ''cudaExternalMemoryGetMappedBuffer'',
     ''cudaExternalMemoryGetMappedMipmappedArray'',
     ''cudaFree'',
     ''cudaFreeArray'',
     ''cudaFreeAsync'',
     ''cudaFreeHost'',
     ''cudaFreeMipmappedArray'',
     ''cudaFuncGetAttributes'',
     ''cudaFuncGetName'',
     ''cudaFuncGetParamInfo'',
     ''cudaFuncSetAttribute'']"

definition weak_cudart_3 :: "string list" where
  "weak_cudart_3 =
    [''cudaFuncSetCacheConfig'',
     ''cudaFuncSetSharedMemConfig'',
     ''cudaGetChannelDesc'',
     ''cudaGetDevice'',
     ''cudaGetDeviceCount'',
     ''cudaGetDeviceFlags'',
     ''cudaGetDeviceProperties_v2'',
     ''cudaGetDriverEntryPoint'',
     ''cudaGetDriverEntryPointByVersion'',
     ''cudaGetExportTable'',
     ''cudaGetFuncBySymbol'',
     ''cudaGetKernel'',
     ''cudaGetLastError'',
     ''cudaGetMipmappedArrayLevel'',
     ''cudaGetSurfaceObjectResourceDesc'',
     ''cudaGetSymbolAddress'',
     ''cudaGetSymbolSize'',
     ''cudaGetTextureObjectResourceDesc'',
     ''cudaGetTextureObjectResourceViewDesc'',
     ''cudaGetTextureObjectTextureDesc'',
     ''cudaGraphAddChildGraphNode'',
     ''cudaGraphAddDependencies'',
     ''cudaGraphAddDependencies_v2'',
     ''cudaGraphAddEmptyNode'',
     ''cudaGraphAddEventRecordNode'',
     ''cudaGraphAddEventWaitNode'',
     ''cudaGraphAddExternalSemaphoresSignalNode'',
     ''cudaGraphAddExternalSemaphoresWaitNode'',
     ''cudaGraphAddHostNode'',
     ''cudaGraphAddKernelNode'']"

definition weak_cudart_4 :: "string list" where
  "weak_cudart_4 =
    [''cudaGraphAddMemAllocNode'',
     ''cudaGraphAddMemFreeNode'',
     ''cudaGraphAddMemcpyNode'',
     ''cudaGraphAddMemcpyNode1D'',
     ''cudaGraphAddMemcpyNodeFromSymbol'',
     ''cudaGraphAddMemcpyNodeToSymbol'',
     ''cudaGraphAddMemsetNode'',
     ''cudaGraphAddNode'',
     ''cudaGraphAddNode_v2'',
     ''cudaGraphChildGraphNodeGetGraph'',
     ''cudaGraphClone'',
     ''cudaGraphConditionalHandleCreate'',
     ''cudaGraphCreate'',
     ''cudaGraphDebugDotPrint'',
     ''cudaGraphDestroy'',
     ''cudaGraphDestroyNode'',
     ''cudaGraphEventRecordNodeGetEvent'',
     ''cudaGraphEventRecordNodeSetEvent'',
     ''cudaGraphEventWaitNodeGetEvent'',
     ''cudaGraphEventWaitNodeSetEvent'',
     ''cudaGraphExecChildGraphNodeSetParams'',
     ''cudaGraphExecDestroy'',
     ''cudaGraphExecEventRecordNodeSetEvent'',
     ''cudaGraphExecEventWaitNodeSetEvent'',
     ''cudaGraphExecExternalSemaphoresSignalNodeSetParams'',
     ''cudaGraphExecExternalSemaphoresWaitNodeSetParams'',
     ''cudaGraphExecGetFlags'',
     ''cudaGraphExecHostNodeSetParams'',
     ''cudaGraphExecKernelNodeSetParams'',
     ''cudaGraphExecMemcpyNodeSetParams'']"

definition weak_cudart_5 :: "string list" where
  "weak_cudart_5 =
    [''cudaGraphExecMemcpyNodeSetParams1D'',
     ''cudaGraphExecMemcpyNodeSetParamsFromSymbol'',
     ''cudaGraphExecMemcpyNodeSetParamsToSymbol'',
     ''cudaGraphExecMemsetNodeSetParams'',
     ''cudaGraphExecNodeSetParams'',
     ''cudaGraphExecUpdate'',
     ''cudaGraphExternalSemaphoresSignalNodeGetParams'',
     ''cudaGraphExternalSemaphoresSignalNodeSetParams'',
     ''cudaGraphExternalSemaphoresWaitNodeGetParams'',
     ''cudaGraphExternalSemaphoresWaitNodeSetParams'',
     ''cudaGraphGetEdges'',
     ''cudaGraphGetEdges_v2'',
     ''cudaGraphGetNodes'',
     ''cudaGraphGetRootNodes'',
     ''cudaGraphHostNodeGetParams'',
     ''cudaGraphHostNodeSetParams'',
     ''cudaGraphInstantiate'',
     ''cudaGraphInstantiateWithFlags'',
     ''cudaGraphInstantiateWithParams'',
     ''cudaGraphKernelNodeCopyAttributes'',
     ''cudaGraphKernelNodeGetAttribute'',
     ''cudaGraphKernelNodeGetParams'',
     ''cudaGraphKernelNodeSetAttribute'',
     ''cudaGraphKernelNodeSetParams'',
     ''cudaGraphLaunch'',
     ''cudaGraphMemAllocNodeGetParams'',
     ''cudaGraphMemFreeNodeGetParams'',
     ''cudaGraphMemcpyNodeGetParams'',
     ''cudaGraphMemcpyNodeSetParams'',
     ''cudaGraphMemcpyNodeSetParams1D'']"

definition weak_cudart_6 :: "string list" where
  "weak_cudart_6 =
    [''cudaGraphMemcpyNodeSetParamsFromSymbol'',
     ''cudaGraphMemcpyNodeSetParamsToSymbol'',
     ''cudaGraphMemsetNodeGetParams'',
     ''cudaGraphMemsetNodeSetParams'',
     ''cudaGraphNodeFindInClone'',
     ''cudaGraphNodeGetDependencies'',
     ''cudaGraphNodeGetDependencies_v2'',
     ''cudaGraphNodeGetDependentNodes'',
     ''cudaGraphNodeGetDependentNodes_v2'',
     ''cudaGraphNodeGetEnabled'',
     ''cudaGraphNodeGetType'',
     ''cudaGraphNodeSetEnabled'',
     ''cudaGraphNodeSetParams'',
     ''cudaGraphReleaseUserObject'',
     ''cudaGraphRemoveDependencies'',
     ''cudaGraphRemoveDependencies_v2'',
     ''cudaGraphRetainUserObject'',
     ''cudaGraphUpload'',
     ''cudaGraphicsMapResources'',
     ''cudaGraphicsResourceGetMappedMipmappedArray'',
     ''cudaGraphicsResourceGetMappedPointer'',
     ''cudaGraphicsResourceSetMapFlags'',
     ''cudaGraphicsSubResourceGetMappedArray'',
     ''cudaGraphicsUnmapResources'',
     ''cudaGraphicsUnregisterResource'',
     ''cudaHostAlloc'',
     ''cudaHostGetDevicePointer'',
     ''cudaHostGetFlags'',
     ''cudaHostRegister'',
     ''cudaHostUnregister'']"

definition weak_cudart_7 :: "string list" where
  "weak_cudart_7 =
    [''cudaImportExternalMemory'',
     ''cudaImportExternalSemaphore'',
     ''cudaInitDevice'',
     ''cudaIpcCloseMemHandle'',
     ''cudaIpcGetEventHandle'',
     ''cudaIpcGetMemHandle'',
     ''cudaIpcOpenEventHandle'',
     ''cudaIpcOpenMemHandle'',
     ''cudaKernelSetAttributeForDevice'',
     ''cudaLaunchCooperativeKernel'',
     ''cudaLaunchCooperativeKernelMultiDevice'',
     ''cudaLaunchHostFunc'',
     ''cudaLaunchKernel'',
     ''cudaLaunchKernelExC'',
     ''cudaLibraryEnumerateKernels'',
     ''cudaLibraryGetGlobal'',
     ''cudaLibraryGetKernel'',
     ''cudaLibraryGetKernelCount'',
     ''cudaLibraryGetManaged'',
     ''cudaLibraryGetUnifiedFunction'',
     ''cudaLibraryLoadData'',
     ''cudaLibraryLoadFromFile'',
     ''cudaLibraryUnload'',
     ''cudaMalloc'',
     ''cudaMalloc3D'',
     ''cudaMalloc3DArray'',
     ''cudaMallocArray'',
     ''cudaMallocAsync'',
     ''cudaMallocFromPoolAsync'',
     ''cudaMallocHost'']"

definition weak_cudart_8 :: "string list" where
  "weak_cudart_8 =
    [''cudaMallocManaged'',
     ''cudaMallocMipmappedArray'',
     ''cudaMallocPitch'',
     ''cudaMemAdvise'',
     ''cudaMemAdvise_v2'',
     ''cudaMemGetInfo'',
     ''cudaMemPoolCreate'',
     ''cudaMemPoolDestroy'',
     ''cudaMemPoolExportPointer'',
     ''cudaMemPoolExportToShareableHandle'',
     ''cudaMemPoolGetAccess'',
     ''cudaMemPoolGetAttribute'',
     ''cudaMemPoolImportFromShareableHandle'',
     ''cudaMemPoolImportPointer'',
     ''cudaMemPoolSetAccess'',
     ''cudaMemPoolSetAttribute'',
     ''cudaMemPoolTrimTo'',
     ''cudaMemPrefetchAsync'',
     ''cudaMemPrefetchAsync_v2'',
     ''cudaMemRangeGetAttribute'',
     ''cudaMemRangeGetAttributes'',
     ''cudaMemcpy'',
     ''cudaMemcpy2D'',
     ''cudaMemcpy2DArrayToArray'',
     ''cudaMemcpy2DAsync'',
     ''cudaMemcpy2DFromArray'',
     ''cudaMemcpy2DFromArrayAsync'',
     ''cudaMemcpy2DToArray'',
     ''cudaMemcpy2DToArrayAsync'',
     ''cudaMemcpy3D'']"

definition weak_cudart_9 :: "string list" where
  "weak_cudart_9 =
    [''cudaMemcpy3DAsync'',
     ''cudaMemcpy3DBatchAsync'',
     ''cudaMemcpy3DPeer'',
     ''cudaMemcpy3DPeerAsync'',
     ''cudaMemcpyArrayToArray'',
     ''cudaMemcpyAsync'',
     ''cudaMemcpyBatchAsync'',
     ''cudaMemcpyFromArray'',
     ''cudaMemcpyFromArrayAsync'',
     ''cudaMemcpyFromSymbol'',
     ''cudaMemcpyFromSymbolAsync'',
     ''cudaMemcpyPeer'',
     ''cudaMemcpyPeerAsync'',
     ''cudaMemcpyToArray'',
     ''cudaMemcpyToArrayAsync'',
     ''cudaMemcpyToSymbol'',
     ''cudaMemcpyToSymbolAsync'',
     ''cudaMemset'',
     ''cudaMemset2D'',
     ''cudaMemset2DAsync'',
     ''cudaMemset3D'',
     ''cudaMemset3DAsync'',
     ''cudaMemsetAsync'',
     ''cudaMipmappedArrayGetMemoryRequirements'',
     ''cudaMipmappedArrayGetSparseProperties'',
     ''cudaOccupancyAvailableDynamicSMemPerBlock'',
     ''cudaOccupancyMaxActiveBlocksPerMultiprocessor'',
     ''cudaOccupancyMaxActiveBlocksPerMultiprocessorWithFlags'',
     ''cudaOccupancyMaxActiveClusters'',
     ''cudaOccupancyMaxPotentialClusterSize'']"

definition weak_cudart_10 :: "string list" where
  "weak_cudart_10 =
    [''cudaPeekAtLastError'',
     ''cudaPointerGetAttributes'',
     ''cudaRuntimeGetVersion'',
     ''cudaSetDevice'',
     ''cudaSetDeviceFlags'',
     ''cudaSetDoubleForDevice'',
     ''cudaSetDoubleForHost'',
     ''cudaSetValidDevices'',
     ''cudaSignalExternalSemaphoresAsync_v2'',
     ''cudaStreamAddCallback'',
     ''cudaStreamAttachMemAsync'',
     ''cudaStreamBeginCapture'',
     ''cudaStreamBeginCaptureToGraph'',
     ''cudaStreamCopyAttributes'',
     ''cudaStreamCreate'',
     ''cudaStreamCreateWithFlags'',
     ''cudaStreamCreateWithPriority'',
     ''cudaStreamDestroy'',
     ''cudaStreamEndCapture'',
     ''cudaStreamGetAttribute'',
     ''cudaStreamGetCaptureInfo_v2'',
     ''cudaStreamGetCaptureInfo_v3'',
     ''cudaStreamGetDevice'',
     ''cudaStreamGetFlags'',
     ''cudaStreamGetId'',
     ''cudaStreamGetPriority'',
     ''cudaStreamIsCapturing'',
     ''cudaStreamQuery'',
     ''cudaStreamSetAttribute'',
     ''cudaStreamSynchronize'']"

definition weak_cudart_11 :: "string list" where
  "weak_cudart_11 =
    [''cudaStreamUpdateCaptureDependencies'',
     ''cudaStreamUpdateCaptureDependencies_v2'',
     ''cudaStreamWaitEvent'',
     ''cudaThreadExchangeStreamCaptureMode'',
     ''cudaThreadExit'',
     ''cudaThreadGetCacheConfig'',
     ''cudaThreadGetLimit'',
     ''cudaThreadSetCacheConfig'',
     ''cudaThreadSetLimit'',
     ''cudaThreadSynchronize'',
     ''cudaUserObjectCreate'',
     ''cudaUserObjectRelease'',
     ''cudaUserObjectRetain'',
     ''cudaWaitExternalSemaphoresAsync_v2'']"

definition weak_cudart :: "string list" where
  "weak_cudart = weak_cudart_1 @ weak_cudart_2 @ weak_cudart_3 @ weak_cudart_4 @ weak_cudart_5 @
    weak_cudart_6 @ weak_cudart_7 @ weak_cudart_8 @ weak_cudart_9 @ weak_cudart_10 @
    weak_cudart_11"

definition weak_cudnn_1 :: "string list" where
  "weak_cudnn_1 =
    [''cudnnActivationBackward'',
     ''cudnnActivationForward'',
     ''cudnnAddTensor'',
     ''cudnnAdvVersionCheck'',
     ''cudnnBackendCreateDescriptor'',
     ''cudnnBackendDestroyDescriptor'',
     ''cudnnBackendExecute'',
     ''cudnnBackendFinalize'',
     ''cudnnBackendGetAttribute'',
     ''cudnnBackendInitialize'',
     ''cudnnBackendPopulateCudaGraph'',
     ''cudnnBackendSetAttribute'',
     ''cudnnBackendUpdateCudaGraph'',
     ''cudnnBatchNormalizationBackward'',
     ''cudnnBatchNormalizationBackwardEx'',
     ''cudnnBatchNormalizationForwardInference'',
     ''cudnnBatchNormalizationForwardTraining'',
     ''cudnnBatchNormalizationForwardTrainingEx'',
     ''cudnnBuildRNNDynamic'',
     ''cudnnCTCLoss'',
     ''cudnnCTCLoss_v8'',
     ''cudnnCnnVersionCheck'',
     ''cudnnConvolutionBackwardBias'',
     ''cudnnConvolutionBackwardData'',
     ''cudnnConvolutionBackwardFilter'',
     ''cudnnConvolutionBiasActivationForward'',
     ''cudnnConvolutionForward'',
     ''cudnnCreate'',
     ''cudnnCreateActivationDescriptor'',
     ''cudnnCreateAttnDescriptor'']"

definition weak_cudnn_2 :: "string list" where
  "weak_cudnn_2 =
    [''cudnnCreateCTCLossDescriptor'',
     ''cudnnCreateConvolutionDescriptor'',
     ''cudnnCreateDropoutDescriptor'',
     ''cudnnCreateFilterDescriptor'',
     ''cudnnCreateFusedOpsConstParamPack'',
     ''cudnnCreateFusedOpsPlan'',
     ''cudnnCreateFusedOpsVariantParamPack'',
     ''cudnnCreateLRNDescriptor'',
     ''cudnnCreateOpTensorDescriptor'',
     ''cudnnCreatePoolingDescriptor'',
     ''cudnnCreateRNNDataDescriptor'',
     ''cudnnCreateRNNDescriptor'',
     ''cudnnCreateReduceTensorDescriptor'',
     ''cudnnCreateSeqDataDescriptor'',
     ''cudnnCreateSpatialTransformerDescriptor'',
     ''cudnnCreateTensorDescriptor'',
     ''cudnnCreateTensorTransformDescriptor'',
     ''cudnnDeriveBNTensorDescriptor'',
     ''cudnnDeriveNormTensorDescriptor'',
     ''cudnnDestroy'',
     ''cudnnDestroyActivationDescriptor'',
     ''cudnnDestroyAttnDescriptor'',
     ''cudnnDestroyCTCLossDescriptor'',
     ''cudnnDestroyConvolutionDescriptor'',
     ''cudnnDestroyDropoutDescriptor'',
     ''cudnnDestroyFilterDescriptor'',
     ''cudnnDestroyFusedOpsConstParamPack'',
     ''cudnnDestroyFusedOpsPlan'',
     ''cudnnDestroyFusedOpsVariantParamPack'',
     ''cudnnDestroyLRNDescriptor'']"

definition weak_cudnn_3 :: "string list" where
  "weak_cudnn_3 =
    [''cudnnDestroyOpTensorDescriptor'',
     ''cudnnDestroyPoolingDescriptor'',
     ''cudnnDestroyRNNDataDescriptor'',
     ''cudnnDestroyRNNDescriptor'',
     ''cudnnDestroyReduceTensorDescriptor'',
     ''cudnnDestroySeqDataDescriptor'',
     ''cudnnDestroySpatialTransformerDescriptor'',
     ''cudnnDestroyTensorDescriptor'',
     ''cudnnDestroyTensorTransformDescriptor'',
     ''cudnnDivisiveNormalizationBackward'',
     ''cudnnDivisiveNormalizationForward'',
     ''cudnnDropoutBackward'',
     ''cudnnDropoutForward'',
     ''cudnnDropoutGetReserveSpaceSize'',
     ''cudnnDropoutGetStatesSize'',
     ''cudnnFindConvolutionBackwardDataAlgorithm'',
     ''cudnnFindConvolutionBackwardDataAlgorithmEx'',
     ''cudnnFindConvolutionBackwardFilterAlgorithm'',
     ''cudnnFindConvolutionBackwardFilterAlgorithmEx'',
     ''cudnnFindConvolutionForwardAlgorithm'',
     ''cudnnFindConvolutionForwardAlgorithmEx'',
     ''cudnnFusedOpsExecute'',
     ''cudnnGetActivationDescriptor'',
     ''cudnnGetActivationDescriptorSwishBeta'',
     ''cudnnGetAttnDescriptor'',
     ''cudnnGetBatchNormalizationBackwardExWorkspaceSize'',
     ''cudnnGetBatchNormalizationForwardTrainingExWorkspaceSize'',
     ''cudnnGetBatchNormalizationTrainingExReserveSpaceSize'',
     ''cudnnGetCTCLossDescriptor'',
     ''cudnnGetCTCLossDescriptorEx'']"

definition weak_cudnn_4 :: "string list" where
  "weak_cudnn_4 =
    [''cudnnGetCTCLossDescriptor_v8'',
     ''cudnnGetCTCLossDescriptor_v9'',
     ''cudnnGetCTCLossWorkspaceSize'',
     ''cudnnGetCTCLossWorkspaceSize_v8'',
     ''cudnnGetCallback'',
     ''cudnnGetConvolution2dDescriptor'',
     ''cudnnGetConvolution2dForwardOutputDim'',
     ''cudnnGetConvolutionBackwardDataAlgorithmMaxCount'',
     ''cudnnGetConvolutionBackwardDataAlgorithm_v7'',
     ''cudnnGetConvolutionBackwardDataWorkspaceSize'',
     ''cudnnGetConvolutionBackwardFilterAlgorithmMaxCount'',
     ''cudnnGetConvolutionBackwardFilterAlgorithm_v7'',
     ''cudnnGetConvolutionBackwardFilterWorkspaceSize'',
     ''cudnnGetConvolutionForwardAlgorithmMaxCount'',
     ''cudnnGetConvolutionForwardAlgorithm_v7'',
     ''cudnnGetConvolutionForwardWorkspaceSize'',
     ''cudnnGetConvolutionGroupCount'',
     ''cudnnGetConvolutionMathType'',
     ''cudnnGetConvolutionNdDescriptor'',
     ''cudnnGetConvolutionNdForwardOutputDim'',
     ''cudnnGetConvolutionReorderType'',
     ''cudnnGetDropoutDescriptor'',
     ''cudnnGetFilter4dDescriptor'',
     ''cudnnGetFilterNdDescriptor'',
     ''cudnnGetFilterSizeInBytes'',
     ''cudnnGetFoldedConvBackwardDataDescriptors'',
     ''cudnnGetFusedOpsConstParamPackAttribute'',
     ''cudnnGetFusedOpsVariantParamPackAttribute'',
     ''cudnnGetLRNDescriptor'',
     ''cudnnGetMultiHeadAttnBuffers'']"

definition weak_cudnn_5 :: "string list" where
  "weak_cudnn_5 =
    [''cudnnGetMultiHeadAttnWeights'',
     ''cudnnGetNormalizationBackwardWorkspaceSize'',
     ''cudnnGetNormalizationForwardTrainingWorkspaceSize'',
     ''cudnnGetNormalizationTrainingReserveSpaceSize'',
     ''cudnnGetOpTensorDescriptor'',
     ''cudnnGetPooling2dDescriptor'',
     ''cudnnGetPooling2dForwardOutputDim'',
     ''cudnnGetPoolingNdDescriptor'',
     ''cudnnGetPoolingNdForwardOutputDim'',
     ''cudnnGetProperty'',
     ''cudnnGetRNNDataDescriptor'',
     ''cudnnGetRNNDescriptor_v8'',
     ''cudnnGetRNNTempSpaceSizes'',
     ''cudnnGetRNNWeightParams'',
     ''cudnnGetRNNWeightSpaceSize'',
     ''cudnnGetReduceTensorDescriptor'',
     ''cudnnGetReductionIndicesSize'',
     ''cudnnGetReductionWorkspaceSize'',
     ''cudnnGetSeqDataDescriptor'',
     ''cudnnGetStream'',
     ''cudnnGetTensor4dDescriptor'',
     ''cudnnGetTensorNdDescriptor'',
     ''cudnnGetTensorSizeInBytes'',
     ''cudnnGetTensorTransformDescriptor'',
     ''cudnnGraphVersionCheck'',
     ''cudnnIm2Col'',
     ''cudnnInitTransformDest'',
     ''cudnnLRNCrossChannelBackward'',
     ''cudnnLRNCrossChannelForward'',
     ''cudnnMakeFusedOpsPlan'']"

definition weak_cudnn_6 :: "string list" where
  "weak_cudnn_6 =
    [''cudnnMultiHeadAttnBackwardData'',
     ''cudnnMultiHeadAttnBackwardWeights'',
     ''cudnnMultiHeadAttnForward'',
     ''cudnnNormalizationBackward'',
     ''cudnnNormalizationForwardInference'',
     ''cudnnNormalizationForwardTraining'',
     ''cudnnOpTensor'',
     ''cudnnOpsVersionCheck'',
     ''cudnnPoolingBackward'',
     ''cudnnPoolingForward'',
     ''cudnnQueryRuntimeError'',
     ''cudnnRNNBackwardData_v8'',
     ''cudnnRNNBackwardWeights_v8'',
     ''cudnnRNNForward'',
     ''cudnnRNNGetClip_v8'',
     ''cudnnRNNGetClip_v9'',
     ''cudnnRNNSetClip_v8'',
     ''cudnnRNNSetClip_v9'',
     ''cudnnReduceTensor'',
     ''cudnnReorderFilterAndBias'',
     ''cudnnRestoreDropoutDescriptor'',
     ''cudnnScaleTensor'',
     ''cudnnSetActivationDescriptor'',
     ''cudnnSetActivationDescriptorSwishBeta'',
     ''cudnnSetAttnDescriptor'',
     ''cudnnSetCTCLossDescriptor'',
     ''cudnnSetCTCLossDescriptorEx'',
     ''cudnnSetCTCLossDescriptor_v8'',
     ''cudnnSetCTCLossDescriptor_v9'',
     ''cudnnSetCallback'']"

definition weak_cudnn_7 :: "string list" where
  "weak_cudnn_7 =
    [''cudnnSetConvolution2dDescriptor'',
     ''cudnnSetConvolutionGroupCount'',
     ''cudnnSetConvolutionMathType'',
     ''cudnnSetConvolutionNdDescriptor'',
     ''cudnnSetConvolutionReorderType'',
     ''cudnnSetDropoutDescriptor'',
     ''cudnnSetFilter4dDescriptor'',
     ''cudnnSetFilterNdDescriptor'',
     ''cudnnSetFusedOpsConstParamPackAttribute'',
     ''cudnnSetFusedOpsVariantParamPackAttribute'',
     ''cudnnSetLRNDescriptor'',
     ''cudnnSetOpTensorDescriptor'',
     ''cudnnSetPooling2dDescriptor'',
     ''cudnnSetPoolingNdDescriptor'',
     ''cudnnSetRNNDataDescriptor'',
     ''cudnnSetRNNDescriptor_v8'',
     ''cudnnSetReduceTensorDescriptor'',
     ''cudnnSetSeqDataDescriptor'',
     ''cudnnSetSpatialTransformerNdDescriptor'',
     ''cudnnSetStream'',
     ''cudnnSetTensor'',
     ''cudnnSetTensor4dDescriptor'',
     ''cudnnSetTensor4dDescriptorEx'',
     ''cudnnSetTensorNdDescriptor'',
     ''cudnnSetTensorNdDescriptorEx'',
     ''cudnnSetTensorTransformDescriptor'',
     ''cudnnSoftmaxBackward'',
     ''cudnnSoftmaxForward'',
     ''cudnnSpatialTfGridGeneratorBackward'',
     ''cudnnSpatialTfGridGeneratorForward'']"

definition weak_cudnn_8 :: "string list" where
  "weak_cudnn_8 =
    [''cudnnSpatialTfSamplerBackward'',
     ''cudnnSpatialTfSamplerForward'',
     ''cudnnTransformFilter'',
     ''cudnnTransformTensor'',
     ''cudnnTransformTensorEx'']"

definition weak_cudnn :: "string list" where
  "weak_cudnn = weak_cudnn_1 @ weak_cudnn_2 @ weak_cudnn_3 @ weak_cudnn_4 @ weak_cudnn_5 @
    weak_cudnn_6 @ weak_cudnn_7 @ weak_cudnn_8"

text \<open>The entry points of each library that are written by hand.\<close>

definition hand_cublas :: "string list" where
  "hand_cublas =
    [''cublasCreate_v2'', ''cublasDestroy_v2'', ''cublasDgemm_v2'', ''cublasGemmEx'',
     ''cublasGemmStridedBatchedEx'', ''cublasGetMathMode'', ''cublasGetPointerMode_v2'',
     ''cublasGetProperty'', ''cublasGetSmCountTarget'', ''cublasGetStream_v2'', ''cublasGetVersion_v2'',
     ''cublasSetMathMode'', ''cublasSetPointerMode_v2'', ''cublasSetSmCountTarget'',
     ''cublasSetStream_v2'', ''cublasSetWorkspace_v2'', ''cublasSgemmStridedBatched'',
     ''cublasSgemm_v2'']"

definition hand_cublaslt :: "string list" where
  "hand_cublaslt =
    [''cublasLtCreate'', ''cublasLtDestroy'', ''cublasLtGetProperty'', ''cublasLtMatmul'',
     ''cublasLtMatmulAlgoGetHeuristic'', ''cublasLtMatmulDescCreate'', ''cublasLtMatmulDescDestroy'',
     ''cublasLtMatmulDescGetAttribute'', ''cublasLtMatmulDescSetAttribute'',
     ''cublasLtMatmulPreferenceCreate'', ''cublasLtMatmulPreferenceDestroy'',
     ''cublasLtMatmulPreferenceGetAttribute'', ''cublasLtMatmulPreferenceSetAttribute'',
     ''cublasLtMatrixLayoutCreate'', ''cublasLtMatrixLayoutDestroy'',
     ''cublasLtMatrixLayoutGetAttribute'', ''cublasLtMatrixLayoutSetAttribute'']"

definition hand_cudart :: "string list" where
  "hand_cudart =
    [''cudaDeviceGetAttribute'', ''cudaDeviceGetPCIBusId'', ''cudaDeviceGetStreamPriorityRange'',
     ''cudaDeviceReset'', ''cudaDeviceSynchronize'', ''cudaDriverGetVersion'', ''cudaEventCreate'',
     ''cudaEventCreateWithFlags'', ''cudaEventDestroy'', ''cudaEventElapsedTime'', ''cudaEventQuery'',
     ''cudaEventRecord'', ''cudaEventRecordWithFlags'', ''cudaEventSynchronize'', ''cudaFree'',
     ''cudaFreeAsync'', ''cudaFreeHost'', ''cudaFuncGetAttributes'', ''cudaFuncSetAttribute'',
     ''cudaGetDevice'', ''cudaGetDeviceCount'', ''cudaGetDeviceFlags'', ''cudaGetDeviceProperties_v2'',
     ''cudaGetLastError'', ''cudaGraphDestroy'', ''cudaGraphExecDestroy'', ''cudaGraphGetNodes'',
     ''cudaGraphInstantiate'', ''cudaGraphInstantiateWithFlags'', ''cudaGraphLaunch'',
     ''cudaGraphUpload'', ''cudaHostAlloc'', ''cudaLaunchKernel'', ''cudaMalloc'', ''cudaMallocAsync'',
     ''cudaMallocHost'', ''cudaMemGetInfo'', ''cudaMemcpy'', ''cudaMemcpyAsync'', ''cudaMemset'',
     ''cudaMemsetAsync'', ''cudaOccupancyMaxActiveBlocksPerMultiprocessor'',
     ''cudaOccupancyMaxActiveBlocksPerMultiprocessorWithFlags'', ''cudaPeekAtLastError'',
     ''cudaPointerGetAttributes'', ''cudaRuntimeGetVersion'', ''cudaSetDevice'', ''cudaSetDeviceFlags'',
     ''cudaStreamBeginCapture'', ''cudaStreamCreate'', ''cudaStreamCreateWithFlags'',
     ''cudaStreamCreateWithPriority'', ''cudaStreamDestroy'', ''cudaStreamEndCapture'',
     ''cudaStreamGetCaptureInfo_v2'', ''cudaStreamGetFlags'', ''cudaStreamGetPriority'',
     ''cudaStreamIsCapturing'', ''cudaStreamQuery'', ''cudaStreamSynchronize'', ''cudaStreamWaitEvent'',
     ''cudaThreadExchangeStreamCaptureMode'']"

definition hand_cudnn :: "string list" where
  "hand_cudnn =
    [''cudnnBackendCreateDescriptor'', ''cudnnBackendDestroyDescriptor'', ''cudnnBackendExecute'',
     ''cudnnBackendFinalize'', ''cudnnBackendGetAttribute'', ''cudnnBackendInitialize'',
     ''cudnnBackendSetAttribute'', ''cudnnBatchNormalizationBackwardEx'',
     ''cudnnBatchNormalizationForwardInference'', ''cudnnBatchNormalizationForwardTrainingEx'',
     ''cudnnCreate'', ''cudnnCreateActivationDescriptor'', ''cudnnCreateTensorDescriptor'',
     ''cudnnDeriveBNTensorDescriptor'', ''cudnnDestroy'', ''cudnnDestroyActivationDescriptor'',
     ''cudnnDestroyTensorDescriptor'', ''cudnnGetBatchNormalizationBackwardExWorkspaceSize'',
     ''cudnnGetBatchNormalizationForwardTrainingExWorkspaceSize'',
     ''cudnnGetBatchNormalizationTrainingExReserveSpaceSize'', ''cudnnGetProperty'', ''cudnnGetStream'',
     ''cudnnGetTensorNdDescriptor'', ''cudnnSetActivationDescriptor'', ''cudnnSetStream'',
     ''cudnnSetTensorNdDescriptor'']"

section \<open>What they do\<close>

text \<open>The names already said and what the log says of them. The set of names is held under a lock and
  written before the log is, so of several threads at most one says a name; the driver's own entry
  points and these keep a set each.\<close>

record said =
  sd_driver :: "string list"
  sd_runtime :: "string list"
  sd_log :: "string list"

definition nothing_said :: said where
  "nothing_said = \<lparr> sd_driver = [], sd_runtime = [], sd_log = [] \<rparr>"

definition unimplemented_line :: "string \<Rightarrow> string option \<Rightarrow> string" where
  "unimplemented_line name why = ''UNIMPLEMENTED '' @ name @ '' ('' @ (case why of None \<Rightarrow> ''not generated'' | Some w \<Rightarrow> w) @ '')''"

definition untranslated_line :: "string \<Rightarrow> string" where
  "untranslated_line name = ''UNTRANSLATED runtime call '' @ name"

definition unimplemented :: "string \<Rightarrow> string option \<Rightarrow> said \<Rightarrow> CUresult \<times> said" where
  "unimplemented name why s = (CUDA_ERROR_NOT_SUPPORTED,
     if name \<in> set (sd_driver s) then s
     else s\<lparr> sd_driver := sd_driver s @ [name], sd_log := sd_log s @ [unimplemented_line name why] \<rparr>)"

definition unimplemented_rt :: "string \<Rightarrow> said \<Rightarrow> said" where
  "unimplemented_rt name s =
     (if name \<in> set (sd_runtime s) then s
      else s\<lparr> sd_runtime := sd_runtime s @ [name], sd_log := sd_log s @ [untranslated_line name] \<rparr>)"

text \<open>Each library's own value for a call that is not supported, which is what its entry points give.\<close>

datatype lib_name = Lib_cublas | Lib_cublaslt | Lib_cudart | Lib_cudnn

primrec not_supported :: "lib_name \<Rightarrow> u32" where
  "not_supported Lib_cublas = 15"
| "not_supported Lib_cublaslt = 15"
| "not_supported Lib_cudart = 801"
| "not_supported Lib_cudnn = 3000"

primrec weak_entries :: "lib_name \<Rightarrow> string list" where
  "weak_entries Lib_cublas = weak_cublas"
| "weak_entries Lib_cublaslt = weak_cublaslt"
| "weak_entries Lib_cudart = weak_cudart"
| "weak_entries Lib_cudnn = weak_cudnn"

primrec hand_written :: "lib_name \<Rightarrow> string list" where
  "hand_written Lib_cublas = hand_cublas"
| "hand_written Lib_cublaslt = hand_cublaslt"
| "hand_written Lib_cudart = hand_cudart"
| "hand_written Lib_cudnn = hand_cudnn"

definition weak_entry :: "lib_name \<Rightarrow> string \<Rightarrow> said \<Rightarrow> u32 \<times> said" where
  "weak_entry lib name s = (not_supported lib, unimplemented_rt name s)"

text \<open>What the linker binds a name to.\<close>

datatype binding = By_hand | Refuses | Not_there

definition bound_to :: "lib_name \<Rightarrow> string \<Rightarrow> binding" where
  "bound_to lib name = (if name \<in> set (hand_written lib) then By_hand
     else if name \<in> set (weak_entries lib) then Refuses else Not_there)"

section \<open>Each is said once\<close>

text \<open>Whatever refused entry points a program calls, the log has a line for each, once and in the order of
  the first calls.\<close>

lemma said_once:
  "sd_log (fold unimplemented_rt names nothing_said) = map untranslated_line (sd_runtime (fold unimplemented_rt names nothing_said))
   \<and> distinct (sd_runtime (fold unimplemented_rt names nothing_said))
   \<and> set (sd_runtime (fold unimplemented_rt names nothing_said)) = set names"
  by (induction names rule: rev_induct) (auto simp: unimplemented_rt_def nothing_said_def)

lemma said_names:
  "sd_runtime (unimplemented_rt n s) = (if n \<in> set (sd_runtime s) then sd_runtime s else sd_runtime s @ [n])"
  by (simp add: unimplemented_rt_def)

lemma said_in_order:
  "sd_runtime (fold unimplemented_rt (names @ later) nothing_said)
    = sd_runtime (fold unimplemented_rt names nothing_said) @ filter (\<lambda>n. n \<notin> set names) (rev (remdups (rev later)))"
proof (induction later rule: rev_induct)
  case (snoc n later)
  have "set (sd_runtime (fold unimplemented_rt (names @ later) nothing_said)) = set names \<union> set later"
    using said_once [of "names @ later"] by simp
  moreover have "set (sd_runtime (fold unimplemented_rt names nothing_said)) = set names"
    using said_once [of names] by simp
  ultimately show ?case using snoc by (auto simp: said_names simp del: set_append)
qed simp

section \<open>The hand-written ones take the place of generated ones\<close>

text \<open>Names that come in the order of the table.\<close>

fun picked :: "string list \<Rightarrow> string list \<Rightarrow> bool" where
  "picked [] ys \<longleftrightarrow> True"
| "picked (x # xs) [] \<longleftrightarrow> False"
| "picked (x # xs) (y # ys) \<longleftrightarrow> (if x = y then picked xs ys else picked (x # xs) ys)"

lemma picked_within: "picked xs ys \<Longrightarrow> set xs \<subseteq> set ys"
  by (induction xs ys rule: picked.induct) (auto split: if_splits)

lemma hand_cublas_groups:
  "set [''cublasCreate_v2''] \<subseteq> set weak_cublas_3"
  "set [''cublasDestroy_v2''] \<subseteq> set weak_cublas_5"
  "set [''cublasDgemm_v2''] \<subseteq> set weak_cublas_6"
  "set [''cublasGemmEx'', ''cublasGemmStridedBatchedEx'', ''cublasGetMathMode''] \<subseteq> set weak_cublas_8"
  "set [''cublasGetPointerMode_v2'', ''cublasGetProperty'', ''cublasGetSmCountTarget'',
     ''cublasGetStream_v2'', ''cublasGetVersion_v2''] \<subseteq> set weak_cublas_9"
  "set [''cublasSetMathMode''] \<subseteq> set weak_cublas_10"
  "set [''cublasSetPointerMode_v2'', ''cublasSetSmCountTarget'', ''cublasSetStream_v2'',
     ''cublasSetWorkspace_v2'', ''cublasSgemmStridedBatched'', ''cublasSgemm_v2''] \<subseteq> set weak_cublas_11"
  by (rule picked_within, simp add: weak_cublas_3_def weak_cublas_5_def weak_cublas_6_def weak_cublas_8_def weak_cublas_9_def weak_cublas_10_def weak_cublas_11_def)+

lemma hand_cublas_within: "set hand_cublas \<subseteq> set weak_cublas"
  using hand_cublas_groups by (simp add: hand_cublas_def weak_cublas_def)

lemma hand_cublaslt_groups:
  "set [''cublasLtCreate'', ''cublasLtDestroy'', ''cublasLtGetProperty'', ''cublasLtMatmul'',
     ''cublasLtMatmulAlgoGetHeuristic'', ''cublasLtMatmulDescCreate'',
     ''cublasLtMatmulDescDestroy'', ''cublasLtMatmulDescGetAttribute'',
     ''cublasLtMatmulDescSetAttribute'', ''cublasLtMatmulPreferenceCreate'',
     ''cublasLtMatmulPreferenceDestroy'', ''cublasLtMatmulPreferenceGetAttribute'',
     ''cublasLtMatmulPreferenceSetAttribute'', ''cublasLtMatrixLayoutCreate''] \<subseteq> set weak_cublaslt_1"
  "set [''cublasLtMatrixLayoutDestroy'', ''cublasLtMatrixLayoutGetAttribute'',
     ''cublasLtMatrixLayoutSetAttribute''] \<subseteq> set weak_cublaslt_2"
  by (rule picked_within, simp add: weak_cublaslt_1_def weak_cublaslt_2_def)+

lemma hand_cublaslt_within: "set hand_cublaslt \<subseteq> set weak_cublaslt"
  using hand_cublaslt_groups by (simp add: hand_cublaslt_def weak_cublaslt_def)

lemma hand_cudart_groups:
  "set [''cudaDeviceGetAttribute'', ''cudaDeviceGetPCIBusId'', ''cudaDeviceGetStreamPriorityRange''] \<subseteq> set weak_cudart_1"
  "set [''cudaDeviceReset'', ''cudaDeviceSynchronize'', ''cudaDriverGetVersion'',
     ''cudaEventCreate'', ''cudaEventCreateWithFlags'', ''cudaEventDestroy'',
     ''cudaEventElapsedTime'', ''cudaEventQuery'', ''cudaEventRecord'',
     ''cudaEventRecordWithFlags'', ''cudaEventSynchronize'', ''cudaFree'', ''cudaFreeAsync'',
     ''cudaFreeHost'', ''cudaFuncGetAttributes'', ''cudaFuncSetAttribute''] \<subseteq> set weak_cudart_2"
  "set [''cudaGetDevice'', ''cudaGetDeviceCount'', ''cudaGetDeviceFlags'',
     ''cudaGetDeviceProperties_v2'', ''cudaGetLastError''] \<subseteq> set weak_cudart_3"
  "set [''cudaGraphDestroy'', ''cudaGraphExecDestroy''] \<subseteq> set weak_cudart_4"
  "set [''cudaGraphGetNodes'', ''cudaGraphInstantiate'', ''cudaGraphInstantiateWithFlags'',
     ''cudaGraphLaunch''] \<subseteq> set weak_cudart_5"
  "set [''cudaGraphUpload'', ''cudaHostAlloc''] \<subseteq> set weak_cudart_6"
  "set [''cudaLaunchKernel'', ''cudaMalloc'', ''cudaMallocAsync'', ''cudaMallocHost''] \<subseteq> set weak_cudart_7"
  "set [''cudaMemGetInfo'', ''cudaMemcpy''] \<subseteq> set weak_cudart_8"
  "set [''cudaMemcpyAsync'', ''cudaMemset'', ''cudaMemsetAsync'',
     ''cudaOccupancyMaxActiveBlocksPerMultiprocessor'',
     ''cudaOccupancyMaxActiveBlocksPerMultiprocessorWithFlags''] \<subseteq> set weak_cudart_9"
  "set [''cudaPeekAtLastError'', ''cudaPointerGetAttributes'', ''cudaRuntimeGetVersion'',
     ''cudaSetDevice'', ''cudaSetDeviceFlags'', ''cudaStreamBeginCapture'', ''cudaStreamCreate'',
     ''cudaStreamCreateWithFlags'', ''cudaStreamCreateWithPriority'', ''cudaStreamDestroy'',
     ''cudaStreamEndCapture'', ''cudaStreamGetCaptureInfo_v2'', ''cudaStreamGetFlags'',
     ''cudaStreamGetPriority'', ''cudaStreamIsCapturing'', ''cudaStreamQuery'',
     ''cudaStreamSynchronize''] \<subseteq> set weak_cudart_10"
  "set [''cudaStreamWaitEvent'', ''cudaThreadExchangeStreamCaptureMode''] \<subseteq> set weak_cudart_11"
  by (rule picked_within, simp add: weak_cudart_1_def weak_cudart_2_def weak_cudart_3_def weak_cudart_4_def weak_cudart_5_def weak_cudart_6_def weak_cudart_7_def weak_cudart_8_def weak_cudart_9_def weak_cudart_10_def weak_cudart_11_def)+

lemma hand_cudart_within: "set hand_cudart \<subseteq> set weak_cudart"
  using hand_cudart_groups by (simp add: hand_cudart_def weak_cudart_def)

lemma hand_cudnn_groups:
  "set [''cudnnBackendCreateDescriptor'', ''cudnnBackendDestroyDescriptor'', ''cudnnBackendExecute'',
     ''cudnnBackendFinalize'', ''cudnnBackendGetAttribute'', ''cudnnBackendInitialize'',
     ''cudnnBackendSetAttribute'', ''cudnnBatchNormalizationBackwardEx'',
     ''cudnnBatchNormalizationForwardInference'', ''cudnnBatchNormalizationForwardTrainingEx'',
     ''cudnnCreate'', ''cudnnCreateActivationDescriptor''] \<subseteq> set weak_cudnn_1"
  "set [''cudnnCreateTensorDescriptor'', ''cudnnDeriveBNTensorDescriptor'', ''cudnnDestroy'',
     ''cudnnDestroyActivationDescriptor''] \<subseteq> set weak_cudnn_2"
  "set [''cudnnDestroyTensorDescriptor'', ''cudnnGetBatchNormalizationBackwardExWorkspaceSize'',
     ''cudnnGetBatchNormalizationForwardTrainingExWorkspaceSize'',
     ''cudnnGetBatchNormalizationTrainingExReserveSpaceSize''] \<subseteq> set weak_cudnn_3"
  "set [''cudnnGetProperty'', ''cudnnGetStream'', ''cudnnGetTensorNdDescriptor''] \<subseteq> set weak_cudnn_5"
  "set [''cudnnSetActivationDescriptor''] \<subseteq> set weak_cudnn_6"
  "set [''cudnnSetStream'', ''cudnnSetTensorNdDescriptor''] \<subseteq> set weak_cudnn_7"
  by (rule picked_within, simp add: weak_cudnn_1_def weak_cudnn_2_def weak_cudnn_3_def weak_cudnn_5_def weak_cudnn_6_def weak_cudnn_7_def)+

lemma hand_cudnn_within: "set hand_cudnn \<subseteq> set weak_cudnn"
  using hand_cudnn_groups by (simp add: hand_cudnn_def weak_cudnn_def)

text \<open>Every entry point written by hand replaces one of the library's, and every other one refuses.\<close>

lemma hand_written_within: "set (hand_written lib) \<subseteq> set (weak_entries lib)"
  by (cases lib) (simp_all add: hand_cublas_within hand_cublaslt_within hand_cudart_within hand_cudnn_within)

lemma every_entry_is_bound:
  "bound_to lib name = By_hand \<longleftrightarrow> name \<in> set (hand_written lib)"
  "bound_to lib name = Refuses \<longleftrightarrow> name \<in> set (weak_entries lib) - set (hand_written lib)"
  "bound_to lib name = Not_there \<longleftrightarrow> name \<notin> set (weak_entries lib)"
  using hand_written_within [of lib] by (auto simp: bound_to_def)

end
