(* ===== verification/Settings.thy ===== *)
theory Settings
  imports Rpc Sessions Release Shim
begin

text \<open>
  What surrounds the logic: the settings both ends read from their environment, the address the client connects
  to and how often it tries (\<^verbatim>\<open>client/rpc.cpp\<close>), its statistics and the flush when it exits, the lines that are
  logged once, the line that sums up a release (\<^verbatim>\<open>server/inventory.cpp\<close>), how the driver's entry points are found
  (\<^verbatim>\<open>server/driver_syms.h\<close>), and the server's start and its loop of accepting (\<^verbatim>\<open>server/main.cpp\<close>).

  The environment is a map of strings, and what the C library and the system answer is an argument. A number
  too large for \<^verbatim>\<open>int\<close> is not defined by the C standard; here it is the number.
\<close>

section \<open>Numbers as text\<close>

definition is_blank :: "char \<Rightarrow> bool" where
  "is_blank c \<longleftrightarrow> of_char c = (32 :: nat) \<or> (9 \<le> (of_char c :: nat) \<and> of_char c \<le> (13 :: nat))"

definition is_digit :: "char \<Rightarrow> bool" where
  "is_digit c \<longleftrightarrow> 48 \<le> (of_char c :: nat) \<and> of_char c \<le> (57 :: nat)"

definition digits_value :: "nat \<Rightarrow> nat list \<Rightarrow> nat" where
  "digits_value base ds = foldl (\<lambda>n d. base * n + d) 0 ds"

definition decimal :: "string \<Rightarrow> nat" where
  "decimal s = digits_value 10 (map (\<lambda>c. of_char c - 48) (takeWhile is_digit s))"

text \<open>The C library's \<^verbatim>\<open>atoi\<close> and \<^verbatim>\<open>atol\<close>: blanks, a sign, digits, and whatever follows.\<close>

definition atoi :: "string \<Rightarrow> int" where
  "atoi s = (case dropWhile is_blank s of
       [] \<Rightarrow> 0
     | c # cs \<Rightarrow> (if c = CHR ''-'' then - int (decimal cs) else if c = CHR ''+'' then int (decimal cs)
                 else int (decimal (c # cs))))"

text \<open>\<^verbatim>\<open>strtoul\<close> with base 0: hexadecimal after \<^verbatim>\<open>0x\<close>, octal after \<^verbatim>\<open>0\<close>, and no more than its type holds.\<close>

definition digit_in :: "nat \<Rightarrow> char \<Rightarrow> nat option" where
  "digit_in base c = (let k = (of_char c :: nat);
       d = (if 48 \<le> k \<and> k \<le> 57 then k - 48 else if 97 \<le> k \<and> k \<le> 122 then k - 87
            else if 65 \<le> k \<and> k \<le> 90 then k - 55 else base)
     in if d < base then Some d else None)"

definition digits_in :: "nat \<Rightarrow> string \<Rightarrow> nat" where
  "digits_in base s = digits_value base (map (\<lambda>c. the (digit_in base c)) (takeWhile (\<lambda>c. digit_in base c \<noteq> None) s))"

definition any_base :: "string \<Rightarrow> nat" where
  "any_base s = (if take 2 s = ''0x'' \<or> take 2 s = ''0X'' then digits_in 16 (drop 2 s)
     else if take 1 s = ''0'' then digits_in 8 s else digits_in 10 s)"

definition strtoul :: "string \<Rightarrow> u64" where
  "strtoul s = (let most = (2 :: nat) ^ 64 - 1 in case dropWhile is_blank s of
       [] \<Rightarrow> 0
     | c # cs \<Rightarrow> (if c = CHR ''-'' then (if any_base cs > most then of_nat most else - of_nat (any_base cs))
                 else of_nat (min most (any_base (if c = CHR ''+'' then cs else c # cs)))))"

text \<open>\<^verbatim>\<open>std::to_string\<close> of a count and of an \<open>int\<close>.\<close>

fun dec_nat :: "nat \<Rightarrow> string" where
  "dec_nat n = (if n < 10 then [char_of (48 + n)] else dec_nat (n div 10) @ [char_of (48 + n mod 10)])"

declare dec_nat.simps [simp del]

definition dec_int :: "int \<Rightarrow> string" where
  "dec_int n = (if n < 0 then CHR ''-'' # dec_nat (nat (- n)) else dec_nat (nat n))"

lemma digit_char: "d < 10 \<Longrightarrow> is_digit (char_of (48 + d :: nat)) \<and> of_char (char_of (48 + d :: nat)) - 48 = d"
  by (simp add: is_digit_def)

lemma dec_nat_digits: "dec_nat n \<noteq> [] \<and> list_all is_digit (dec_nat n)
    \<and> digits_value 10 (map (\<lambda>c. of_char c - 48) (dec_nat n)) = n"
proof (induction n rule: dec_nat.induct)
  case (1 n)
  show ?case
  proof (cases "n < 10")
    case True
    then show ?thesis using digit_char [OF True] by (simp add: dec_nat.simps [of n] digits_value_def)
  next
    case False
    have d: "n mod 10 < 10" by simp
    show ?thesis using False 1 digit_char [OF d] by (simp add: dec_nat.simps [of n] digits_value_def)
  qed
qed

lemma digit_not: "is_digit c \<Longrightarrow> \<not> is_blank c \<and> c \<noteq> CHR ''-'' \<and> c \<noteq> CHR ''+''"
  by (auto simp: is_digit_def is_blank_def)

text \<open>A number that is printed is read back, whatever but a digit follows it.\<close>

lemma atoi_dec_int:
  assumes "rest = [] \<or> \<not> is_digit (hd rest)"
  shows "atoi (dec_int n @ rest) = n"
proof -
  have d: "decimal (dec_nat k @ rest) = k" for k
  proof -
    have "takeWhile is_digit (dec_nat k @ rest) = dec_nat k @ takeWhile is_digit rest"
      using dec_nat_digits [of k] by (intro takeWhile_append2) (auto simp: list_all_iff)
    moreover have "takeWhile is_digit rest = []" using assms by (cases rest) auto
    ultimately show ?thesis using dec_nat_digits [of k] by (simp add: decimal_def)
  qed
  show ?thesis
  proof (cases "n < 0")
    case True
    have "\<not> is_blank (CHR ''-'')" by (simp add: is_blank_def)
    then show ?thesis using True d by (simp add: dec_int_def atoi_def)
  next
    case False
    obtain c cs where c: "dec_nat (nat n) = c # cs" "is_digit c" using dec_nat_digits [of "nat n"] by (cases "dec_nat (nat n)") auto
    show ?thesis using False d [of "nat n"] c(1) digit_not [OF c(2)] by (simp add: dec_int_def atoi_def)
  qed
qed

section \<open>Settings\<close>

type_synonym environment = "string \<Rightarrow> string option"

definition env_int :: "environment \<Rightarrow> string \<Rightarrow> int \<Rightarrow> int" where
  "env_int env k dflt = (case env k of None \<Rightarrow> dflt | Some v \<Rightarrow> atoi v)"

definition batching :: "environment \<Rightarrow> bool" where
  "batching env \<longleftrightarrow> env_int env ''RGPU_BATCH'' 1 \<noteq> 0"

definition client_verbose :: "environment \<Rightarrow> bool" where
  "client_verbose env \<longleftrightarrow> env_int env ''RGPU_VERBOSE'' 0 \<noteq> 0"

text \<open>As a \<open>size_t\<close>: a negative setting is a size no queue reaches.\<close>

definition flush_size :: "environment \<Rightarrow> u64" where
  "flush_size env = of_int (env_int env ''RGPU_FLUSH_BYTES'' (int kQueueFlushBytes))"

definition sync_setting :: "environment \<Rightarrow> sync_mode" where
  "sync_setting env = sync_mode (env_int env ''RGPU_LAZY_SYNC'' (- 1))"

definition first_req_id :: "environment \<Rightarrow> u32" where
  "first_req_id env = (case env ''RGPU_TEST_FIRST_REQ_ID'' of
       None \<Rightarrow> 1 | Some v \<Rightarrow> (if v = [] then 1 else ucast (strtoul v)))"

definition env_limit_of :: "environment \<Rightarrow> string \<Rightarrow> int option" where
  "env_limit_of env k = map_option atoi (env k)"

definition session_grace_seconds :: "environment \<Rightarrow> int" where
  "session_grace_seconds env = (let n = env_int env ''RGPU_SESSION_GRACE'' 120 in if n > 0 then n else 120)"

definition handshake_timeout_seconds :: "environment \<Rightarrow> int" where
  "handshake_timeout_seconds env = (let n = env_int env ''RGPU_HANDSHAKE_TIMEOUT_SECONDS'' 10 in if n > 0 then n else 10)"

text \<open>The connection that the server drops on purpose, counted in frames read by all connections.\<close>

definition drops_here :: "environment \<Rightarrow> nat \<Rightarrow> bool" where
  "drops_here env frames_seen \<longleftrightarrow> (let drop_after = env_int env ''RGPU_DROP_AFTER'' 0
     in drop_after > 0 \<and> int frames_seen + 1 = drop_after)"

lemma limits_are_positive:
  "0 < session_grace_seconds env" "0 < handshake_timeout_seconds env"
  "0 < max_sessions (env_limit_of env k)" "0 < max_pending_handshakes (env_limit_of env k)"
  by (simp_all add: session_grace_seconds_def handshake_timeout_seconds_def max_sessions_def max_pending_handshakes_def env_limit_def Let_def)

text \<open>A call that need not wait, as the environment has it made.\<close>

definition call_async_set :: "environment \<Rightarrow> nat \<Rightarrow> u32 \<Rightarrow> u32 \<Rightarrow> byte list \<Rightarrow> client \<Rightarrow> CUresult \<times> client" where
  "call_async_set env tries tid api payload c = call_async (batching env) (unat (flush_size env)) tries tid api payload c"

section \<open>Reaching the server\<close>

text \<open>Host and port, at the last colon.\<close>

definition server_spec :: "environment \<Rightarrow> string" where
  "server_spec env = (case env ''RGPU_SERVER'' of None \<Rightarrow> ''127.0.0.1:9713'' | Some v \<Rightarrow> v)"

definition server_address :: "string \<Rightarrow> string \<times> string" where
  "server_address spec =
     (if CHR '':'' \<notin> set spec then (spec, ''9713'')
      else (let port = rev (takeWhile (\<lambda>c. c \<noteq> CHR '':'') (rev spec)) in (take (length spec - length port - 1) spec, port)))"

lemma server_address_parts:
  assumes "CHR '':'' \<notin> set port"
  shows "server_address (host @ '':'' @ port) = (host, port)"
proof -
  have "takeWhile (\<lambda>c. c \<noteq> CHR '':'') (rev (host @ '':'' @ port)) = rev port"
    using takeWhile_append2 [of "rev port" "\<lambda>c. c \<noteq> CHR '':''" "CHR '':'' # rev host"] assms by auto
  then show ?thesis by (simp add: server_address_def)
qed

text \<open>A bare IPv6 address has its last group taken for the port.\<close>

lemma bare_ipv6_is_split: "server_address ''fe80::1'' = (''fe80:'', ''1'')"
  using server_address_parts [of "''1''" "''fe80:''"] by simp

text \<open>The addresses a name resolves to are tried in turn: what \<^verbatim>\<open>socket\<close> and \<^verbatim>\<open>connect\<close> come to for each, and
  the sockets that were closed again.\<close>

fun first_reached :: "(int \<times> bool) list \<Rightarrow> int \<times> int list" where
  "first_reached [] = (- 1, [])"
| "first_reached ((fd, ok) # as) =
     (if fd < 0 then first_reached as
      else if ok then (fd, [])
      else (case first_reached as of (r, closed) \<Rightarrow> (r, fd # closed)))"

lemma first_reached_is_open:
  "first_reached as = (fd, closed) \<Longrightarrow> (fd \<noteq> - 1 \<longrightarrow> 0 \<le> fd \<and> (fd, True) \<in> set as) \<and> (\<forall>x \<in> set closed. 0 \<le> x \<and> (x, False) \<in> set as)"
proof (induction as arbitrary: fd closed)
  case (Cons a as)
  obtain x ok where a: "a = (x, ok)" by fastforce
  obtain r cl where r: "first_reached as = (r, cl)" by fastforce
  from Cons.IH [OF r] Cons.prems show ?case by (cases "x < 0"; cases ok) (auto simp: a r)
qed simp

text \<open>The wait before each attempt to reach the server again, and how many attempts the time allows, each taking
  as long as \<open>took\<close> says.\<close>

definition reconnect_wait :: "nat \<Rightarrow> nat" where
  "reconnect_wait k = (if k < 5 then 100 * 2 ^ k else 3000)"

definition reconnect_ms :: "environment \<Rightarrow> nat" where
  "reconnect_ms env = nat (env_int env ''RGPU_RECONNECT_SECONDS'' 60) * 1000"

lemma reconnect_wait_least: "100 \<le> reconnect_wait k"
  by (simp add: reconnect_wait_def)

function attempts_from :: "nat \<Rightarrow> nat \<Rightarrow> nat \<Rightarrow> (nat \<Rightarrow> nat) \<Rightarrow> nat" where
  "attempts_from k now deadline took =
     (if deadline \<le> now then 0
      else Suc (attempts_from (Suc k) (now + reconnect_wait k + took k) deadline took))"
  by auto
termination
  by (relation "measure (\<lambda>(k, now, deadline, took). deadline - now)")
    (simp_all add: diff_less_mono2 less_le_trans [OF _ reconnect_wait_least])

declare attempts_from.simps [simp del]

definition attempts_allowed :: "environment \<Rightarrow> (nat \<Rightarrow> nat) \<Rightarrow> nat" where
  "attempts_allowed env took = attempts_from 0 0 (reconnect_ms env) took"

lemma attempts_from_bound: "attempts_from k now deadline took * 100 \<le> deadline - now + 99"
proof (induction k now deadline took rule: attempts_from.induct)
  case (1 k now deadline took)
  show ?case
  proof (cases "deadline \<le> now")
    case False
    let ?now' = "now + reconnect_wait k + took k"
    have "attempts_from (Suc k) ?now' deadline took * 100 \<le> deadline - ?now' + 99" using 1 False by simp
    moreover have "deadline - ?now' + 99 + 100 \<le> deadline - now + 99 \<or> deadline \<le> ?now'"
      using reconnect_wait_least [of k] False by linarith
    moreover have "attempts_from (Suc k) ?now' deadline took = 0" if "deadline \<le> ?now'"
      using that by (simp add: attempts_from.simps)
    ultimately show ?thesis using False by (subst attempts_from.simps) (auto simp: algebra_simps)
  qed (simp add: attempts_from.simps)
qed

lemma no_time_no_attempt: "env_int env ''RGPU_RECONNECT_SECONDS'' 60 \<le> 0 \<Longrightarrow> attempts_allowed env took = 0"
  by (simp add: attempts_allowed_def reconnect_ms_def attempts_from.simps)

text \<open>The reconnection of a broken call, as the clock has it.\<close>

definition reconnect_timed :: "environment \<Rightarrow> (nat \<Rightarrow> nat) \<Rightarrow> client \<Rightarrow> bool \<times> client" where
  "reconnect_timed env took c = reconnect (attempts_allowed env took) c"

text \<open>At exit the queue is sent where no thread is inside a call.\<close>

definition exit_flush :: "bool \<Rightarrow> client \<Rightarrow> client" where
  "exit_flush locked c = (if \<not> locked \<and> cl_connected c then snd (flush c) else c)"

lemma exit_flush_sends:
  assumes "\<not> locked" and "cl_connected c" and "lk_writes (cl_link c) = []" and "lk_sent (cl_link c) = streams @ [stream]"
  shows "lk_sent (cl_link (exit_flush locked c)) = streams @ [stream @ cl_queued c] \<and> cl_queued (exit_flush locked c) = []"
  using assms by (simp add: exit_flush_def flush_def write_bytes_def onto_last_def Let_def)


section \<open>What it cost\<close>

text \<open>The statistics a client prints at its end: round trips by call, in the order of the ids.\<close>

record stats =
  st_round_trips :: nat
  st_async_calls :: nat
  st_bytes_out :: nat
  st_bytes_in :: nat
  st_by_api :: "(u32 \<times> nat) list"

definition no_stats :: stats where
  "no_stats = \<lparr> st_round_trips = 0, st_async_calls = 0, st_bytes_out = 0, st_bytes_in = 0, st_by_api = [] \<rparr>"

fun count_api :: "u32 \<Rightarrow> (u32 \<times> nat) list \<Rightarrow> (u32 \<times> nat) list" where
  "count_api api [] = [(api, 1)]"
| "count_api api ((i, n) # rest) =
     (if api = i then (i, Suc n) # rest else if api < i then (api, 1) # (i, n) # rest else (i, n) # count_api api rest)"

definition note_frame :: "nat \<Rightarrow> stats \<Rightarrow> stats" where
  "note_frame payload st = st\<lparr> st_bytes_out := st_bytes_out st + (24 + payload) \<rparr>"

definition note_async :: "stats \<Rightarrow> stats" where
  "note_async st = st\<lparr> st_async_calls := st_async_calls st + 1 \<rparr>"

definition note_reply :: "u32 \<Rightarrow> nat \<Rightarrow> stats \<Rightarrow> stats" where
  "note_reply api payload st = st\<lparr> st_round_trips := st_round_trips st + 1, st_by_api := count_api api (st_by_api st),
     st_bytes_in := st_bytes_in st + (16 + payload) \<rparr>"

text \<open>The report: the calls that took most round trips, no more than fifteen.\<close>

fun insert_top :: "nat \<times> u32 \<Rightarrow> (nat \<times> u32) list \<Rightarrow> (nat \<times> u32) list" where
  "insert_top x [] = [x]"
| "insert_top x (y # ys) = (if fst y < fst x \<or> (fst y = fst x \<and> snd y \<le> snd x) then x # y # ys else y # insert_top x ys)"

definition top_calls :: "stats \<Rightarrow> (nat \<times> u32) list" where
  "top_calls st = take 15 (foldr insert_top (map (\<lambda>(i, n). (n, i)) (st_by_api st)) [])"

text \<open>Every round trip is in the table under its call, each call once.\<close>

definition stats_ok :: "stats \<Rightarrow> bool" where
  "stats_ok st \<longleftrightarrow> sum_list (map snd (st_by_api st)) = st_round_trips st \<and> sorted_wrt (<) (map fst (st_by_api st))"

lemma count_api_sum: "sum_list (map snd (count_api api xs)) = Suc (sum_list (map snd xs))"
  by (induction api xs rule: count_api.induct) auto

lemma count_api_keys: "set (map fst (count_api api xs)) = insert api (set (map fst xs))"
  by (induction api xs rule: count_api.induct) auto

lemma count_api_sorted: "sorted_wrt (<) (map fst xs) \<Longrightarrow> sorted_wrt (<) (map fst (count_api api xs))"
proof (induction api xs rule: count_api.induct)
  case (2 api i n rest)
  have k: "set (map fst (count_api api rest)) = insert api (set (map fst rest))" by (rule count_api_keys)
  show ?case
  proof (cases "api = i \<or> api < i")
    case True
    then show ?thesis using 2 by auto
  next
    case False
    then have "i < api" using linorder_neqE by blast
    then show ?thesis using 2 False k by auto
  qed
qed simp

lemma stats_kept:
  assumes "stats_ok st"
  shows "stats_ok (note_frame k st)" "stats_ok (note_async st)" "stats_ok (note_reply api k st)"
  using assms by (simp_all add: stats_ok_def note_frame_def note_async_def note_reply_def count_api_sum count_api_sorted)

lemma insert_top_set: "set (insert_top x xs) = insert x (set xs)"
  by (induction x xs rule: insert_top.induct) auto

lemma insert_top_sorted: "sorted_wrt (\<lambda>a b. fst b \<le> fst a) xs \<Longrightarrow> sorted_wrt (\<lambda>a b. fst b \<le> fst a) (insert_top x xs)"
  by (induction x xs rule: insert_top.induct) (auto simp: insert_top_set)

text \<open>No call left out of the report took more round trips than one that is in it.\<close>

lemma report_has_the_most:
  assumes "(n, i) \<in> set (top_calls st)" and "(j, m) \<in> set (st_by_api st)" and "(m, j) \<notin> set (top_calls st)"
  shows "m \<le> n"
proof -
  define all where "all = foldr insert_top (map (\<lambda>(i, n). (n, i)) (st_by_api st)) []"
  have "set (foldr insert_top xs []) = set xs \<and> sorted_wrt (\<lambda>a b. fst b \<le> fst a) (foldr insert_top xs [])" for xs
    by (induction xs) (simp_all add: insert_top_set insert_top_sorted)
  then have all: "set all = (\<lambda>(i, n). (n, i)) ` set (st_by_api st)" "sorted_wrt (\<lambda>a b. fst b \<le> fst a) all" by (simp_all add: all_def)
  have "(m, j) \<in> set all" using assms(2) all(1) by force
  then have "(m, j) \<in> set (drop 15 all)" using assms(3) append_take_drop_id [of 15 all] set_append
    by (metis Un_iff all_def top_calls_def)
  moreover have "sorted_wrt (\<lambda>a b. fst b \<le> fst a) (take 15 all @ drop 15 all)" using all(2) by simp
  ultimately show ?thesis using assms(1) unfolding sorted_wrt_append top_calls_def all_def [symmetric] by fastforce
qed

section \<open>Said once\<close>

definition note_missing :: "string \<Rightarrow> int \<Rightarrow> string list \<Rightarrow> string list \<times> string option" where
  "note_missing symbol version seen =
     (if symbol \<in> set seen then (seen, None)
      else (symbol # seen, Some (''MISSING entry point '' @ symbol @ '' (requested version '' @ dec_int version @ '')'')))"

definition say_refused :: "bool \<Rightarrow> string \<Rightarrow> bool \<times> string option" where
  "say_refused said what = (True, if said then None else Some what)"

lemma missing_said_once:
  "snd (note_missing symbol v (fst (note_missing symbol u seen))) = None"
  by (simp add: note_missing_def)

section \<open>Finding the driver's entry points\<close>

text \<open>What is in the process wins over the library, which may not open; the line that says a name is missing.\<close>

definition driver_sym_raw :: "(string \<Rightarrow> u64) \<Rightarrow> (string \<Rightarrow> u64) option \<Rightarrow> string \<Rightarrow> u64 \<times> string option" where
  "driver_sym_raw in_process opened name =
     (if in_process name \<noteq> 0 then (in_process name, None)
      else (let fn = (case opened of None \<Rightarrow> 0 | Some lib \<Rightarrow> lib name) in
        (fn, if fn = 0 then Some (''this driver has no '' @ name @ ''; reporting it as unsupported'') else None)))"

section \<open>The line that sums up a release\<close>

definition plural :: "nat \<Rightarrow> string \<Rightarrow> string" where
  "plural n what = dec_nat n @ '' '' @ what @ (if n = 1 then [] else ''s'')"

definition released_parts :: "report \<Rightarrow> string list" where
  "released_parts rp = map snd (filter (\<lambda>p. fst p \<noteq> 0)
     [(rp_allocs rp, plural (rp_allocs rp) ''allocation''),
      (rp_retains rp, plural (rp_retains rp) ''primary-context retain''),
      (rp_contexts rp, plural (rp_contexts rp) ''context''),
      (rp_handles rp, plural (rp_handles rp) ''library handle''),
      (rp_libraries rp, dec_nat (rp_libraries rp) @ (if rp_libraries rp = 1 then '' loaded library'' else '' loaded libraries'')),
      (rp_unmapped rp, plural (rp_unmapped rp) ''memory mapping''),
      (rp_vmm_handles rp, plural (rp_vmm_handles rp) ''memory handle''),
      (rp_ranges rp, plural (rp_ranges rp) ''address range''),
      (rp_modules rp, plural (rp_modules rp) ''module''),
      (rp_streams rp, plural (rp_streams rp) ''stream''),
      (rp_events rp, plural (rp_events rp) ''event''),
      (rp_graphs rp, plural (rp_graphs rp) ''graph''),
      (rp_execs rp, plural (rp_execs rp) ''graph exec'')])"

fun enumerated :: "string list \<Rightarrow> string" where
  "enumerated [] = []"
| "enumerated [x] = x"
| "enumerated [x, y] = x @ '' and '' @ y"
| "enumerated (x # y # z # xs) = x @ '', '' @ enumerated (y # z # xs)"

definition release_summary :: "report \<Rightarrow> string" where
  "release_summary rp =
     (let parts = released_parts rp;
          summary = (if parts = [] then ''it held nothing this server tracks'' else ''released '' @ enumerated parts);
          summary = (if rp_captures rp \<noteq> 0 then ''ended '' @ plural (rp_captures rp) ''open stream capture'' @ ''; '' @ summary
                     else summary);
          summary = (if rp_skipped rp \<noteq> 0 then summary @ ''; '' @ plural (rp_skipped rp) ''resource''
                       @ '' skipped, destroyed with a primary context or of unknown placement'' else summary)
      in if rp_failed rp \<noteq> 0 then summary @ ''; '' @ plural (rp_failed rp) ''resource'' @ '' could not be released'' else summary)"

lemma nothing_released: "released_parts rp = [] \<longleftrightarrow> rp_allocs rp + rp_retains rp + rp_contexts rp + rp_handles rp + rp_libraries rp
    + rp_unmapped rp + rp_vmm_handles rp + rp_ranges rp + rp_modules rp + rp_streams rp + rp_events rp + rp_graphs rp + rp_execs rp = 0"
  by (simp add: released_parts_def)

section \<open>The server's start\<close>

text \<open>The port: an argument, else the environment, else the default; the socket keeps its low 16 bits.\<close>

definition listening_port :: "environment \<Rightarrow> string list \<Rightarrow> u16" where
  "listening_port env args = of_int (case args of
       a # _ \<Rightarrow> atoi a
     | [] \<Rightarrow> (case env ''RGPU_PORT'' of None \<Rightarrow> 9713 | Some v \<Rightarrow> atoi v))"

text \<open>What \<^verbatim>\<open>accept\<close> gives: a connection, an interruption, or another error, which ends the loop.\<close>

datatype accepted = Accepted int | Interrupted | Accept_error

fun accept_loop :: "accepted list \<Rightarrow> int list" where
  "accept_loop [] = []"
| "accept_loop (Accepted fd # as) = fd # accept_loop as"
| "accept_loop (Interrupted # as) = accept_loop as"
| "accept_loop (Accept_error # as) = []"

definition driver_ready :: "CUresult \<Rightarrow> bool" where
  "driver_ready init \<longleftrightarrow> init = CUDA_SUCCESS"

text \<open>The process: what \<^verbatim>\<open>cuInit\<close>, \<^verbatim>\<open>socket\<close>, \<^verbatim>\<open>bind\<close> and \<^verbatim>\<open>listen\<close> answer; its exit code, which is 0 also for
  one that is still accepting, and the connections each given to a thread of its own.\<close>

definition server_main :: "CUresult \<Rightarrow> int \<Rightarrow> int \<Rightarrow> int \<Rightarrow> accepted list \<Rightarrow> int \<times> int list" where
  "server_main init srv bound listening as =
     (if \<not> driver_ready init \<or> srv < 0 \<or> bound \<noteq> 0 \<or> listening \<noteq> 0 then (1, []) else (0, accept_loop as))"

text \<open>Every connection accepted before an error is given to a thread, once and in order.\<close>

lemma accept_loop_gives_all:
  "Accept_error \<notin> set as \<Longrightarrow> accept_loop as = concat (map (\<lambda>a. case a of Accepted fd \<Rightarrow> [fd] | _ \<Rightarrow> []) as)"
  by (induction as rule: accept_loop.induct) auto

end
