(* ===== verification/Spec2Isabelle.thy ===== *)
theory Spec2Isabelle
  imports Net ThreadTable Release Expiry JourneyLaws Forward ShimLaws Launch Registry CublasLaws CublasLtLaws CudnnLaws
    ModuleImage Names Refusals Settings
begin

text \<open>
  rgpu runs a CUDA program on a machine without a GPU. The program is linked against stand-ins for
  the CUDA libraries; they send every call over a TCP connection to a server that owns the GPU and
  makes the call there. This development models both ends and the wire between them, function by
  function, and proves what the program relies on.

  \<^bold>\<open>How the parts interact.\<close> An application thread calls a driver entry point. Most are generated stubs,
  some are written by hand. Each puts its arguments into a buffer and hands it to the client's RPC
  layer, which numbers the request, names the calling thread in it, and either waits for the reply or
  queues the frame. The server keeps a session per client, which outlives a broken connection: the
  client resends what was not acknowledged, the server runs nothing twice. The serving thread reads a
  frame, shows the client thread's own context to the driver, dispatches the request by its id to a
  handler or a generated case, which calls the driver through a wrapper that records what was taken,
  and sends the reply, with the failures of earlier calls that had none. When a session expires what it
  still holds is given back.

  \<^bold>\<open>Theories and sources\<close>, in the order of their imports:

  \<^item> \<^verbatim>\<open>Prelude\<close>: machine types, result codes, shared lemmas and hints.
  \<^item> \<^verbatim>\<open>Wire\<close> (\<^verbatim>\<open>common/wire.h\<close>, \<^verbatim>\<open>common/sizes.h\<close>): request ids and their order across the wrap, the
    buffer of a frame, headers and handshakes, little endian. The locale \<open>field_codec\<close> is the contract
    of a field that is written and read back; every field of the development interprets it.
  \<^item> \<^verbatim>\<open>Net\<close> (\<^verbatim>\<open>common/net.h\<close>): reads and writes to the last byte, the deadline, the buffered frame
    reader. The kernel is the list of what its calls return.
  \<^item> \<^verbatim>\<open>Driver\<close> (\<^verbatim>\<open>server/driver_syms.h\<close>): the driver is a parameter, a function of a call and a state.
    \<^verbatim>\<open>FakeDriver\<close> (\<^verbatim>\<open>tests/fake_cuda.cpp\<close>) is the concrete one the witnesses use.
  \<^item> \<^verbatim>\<open>ClientThreads\<close>, \<^verbatim>\<open>ThreadTable\<close> (\<^verbatim>\<open>server/client_threads.cpp\<close>): a context stack and a capture mode
    per client thread; showing a thread to the driver, destroyed contexts.
  \<^item> \<^verbatim>\<open>Inventory\<close>, \<^verbatim>\<open>InventoryIndex\<close>, \<^verbatim>\<open>Tracking\<close>, \<^verbatim>\<open>Recording\<close>, \<^verbatim>\<open>Release\<close>
    (\<^verbatim>\<open>server/inventory.cpp\<close>): what a session holds, the index from contexts to entries, the wrappers
    of the driver's calls, and the release.
  \<^item> \<^verbatim>\<open>Slots\<close>, \<^verbatim>\<open>Dispatch\<close>, \<^verbatim>\<open>Ledger\<close>, \<^verbatim>\<open>Serve\<close>, \<^verbatim>\<open>Deferred\<close>, \<^verbatim>\<open>Sessions\<close>, \<^verbatim>\<open>SessionsInv\<close>,
    \<^verbatim>\<open>Connections\<close>, \<^verbatim>\<open>Expiry\<close> (\<^verbatim>\<open>server/main.cpp\<close>): the table of thread slots, the server's own
    handlers, the serving of a frame and of a connection, held failures, handshakes, sessions and their
    end, as steps of an interleaving of the accepting and serving threads.
  \<^item> \<^verbatim>\<open>Rpc\<close>, \<^verbatim>\<open>RpcInv\<close>, \<^verbatim>\<open>Replay\<close>, \<^verbatim>\<open>Calls\<close> (\<^verbatim>\<open>client/rpc.cpp\<close>): queue, replay buffer, handshake,
    reconnection, the two kinds of call, exited threads.
  \<^item> \<^verbatim>\<open>Journey\<close>, \<^verbatim>\<open>JourneyLaws\<close>: the client of \<^verbatim>\<open>client/rpc.cpp\<close> and the serving thread of
    \<^verbatim>\<open>server/main.cpp\<close> as one transition system, whose moves are the pieces of the theories above, with any
    number of connections that break anywhere; its invariant, and what a program sees of it.
  \<^item> \<^verbatim>\<open>Pending\<close> (\<^verbatim>\<open>client/pending.cpp\<close>): which streams have work a synchronize would wait for.
  \<^item> \<^verbatim>\<open>Marshal\<close>, \<^verbatim>\<open>MarshalLaws\<close> (the code \<^verbatim>\<open>codegen/emit.py\<close> emits for each kind of parameter on each
    side), \<^verbatim>\<open>Stubs\<close> (\<^verbatim>\<open>client/generated/client_stubs.cpp\<close>, all 423 entry points), \<^verbatim>\<open>Cases\<close>
    (\<^verbatim>\<open>server/generated/dispatch.cpp\<close>, all 261 cases) and \<^verbatim>\<open>Forward\<close>, where the two meet.
  \<^item> \<^verbatim>\<open>Shim\<close>, \<^verbatim>\<open>ShimLaws\<close>, \<^verbatim>\<open>Launch\<close> (\<^verbatim>\<open>client/shim.cpp\<close>): launches, device and host memory, the
    record of primary contexts, stream capture, the lazy synchronize; \<^verbatim>\<open>Launch\<close> sets them against the
    server's handlers. \<^verbatim>\<open>ModuleImage\<close> (\<^verbatim>\<open>image_size\<close> of \<^verbatim>\<open>client/rpc.cpp\<close>): how long the image behind a
    pointer is, and that it arrives whole.
  \<^item> \<^verbatim>\<open>Runtime\<close>, \<^verbatim>\<open>Kernels\<close>, \<^verbatim>\<open>DeviceProps\<close> (\<^verbatim>\<open>client/cudart_impl.cpp\<close>): the runtime API on top of
    the driver's: errors, the context of a device, memory, streams, the registry of kernels, device
    properties, graphs. \<^verbatim>\<open>RuntimeLaws\<close>, \<^verbatim>\<open>KernelLaws\<close> and
    \<^verbatim>\<open>Registry\<close> hold what it promises.
  \<^item> \<^verbatim>\<open>Maths\<close>, \<^verbatim>\<open>MathsLaws\<close>: what the forwarding of the three maths libraries shares. Each library is
    a parameter: which functions it has, and what a call answers, writes and does.
  \<^item> \<^verbatim>\<open>Cublas\<close>, \<^verbatim>\<open>CublasLaws\<close> (\<^verbatim>\<open>client/cublas_impl.cpp\<close>, \<^verbatim>\<open>server/cublas_server.cpp\<close>), \<^verbatim>\<open>CublasLt\<close>,
    \<^verbatim>\<open>CublasLtLaws\<close> (\<^verbatim>\<open>client/cublaslt_impl.cpp\<close>, \<^verbatim>\<open>server/cublaslt_server.cpp\<close>), \<^verbatim>\<open>Cudnn\<close>, \<^verbatim>\<open>CudnnLaws\<close>
    (\<^verbatim>\<open>client/cudnn_impl.cpp\<close>, \<^verbatim>\<open>server/cudnn_server.cpp\<close>, \<^verbatim>\<open>common/cudnn_sizes.h\<close>): every call on both
    sides, what the client keeps of handles and descriptors, and the two sides set against each other.
  \<^item> \<^verbatim>\<open>Names\<close> (\<^verbatim>\<open>common/generated/api_ids.h\<close>, \<^verbatim>\<open>common/generated/api_names.cpp\<close>): the ids of the requests and
    the names the logs have for them, which are those of the stubs that send them.
  \<^item> \<^verbatim>\<open>Refusals\<close> (\<^verbatim>\<open>client/generated/cublas_stubs.cpp\<close>, \<^verbatim>\<open>cublaslt_stubs.cpp\<close>, \<^verbatim>\<open>cudart_stubs.cpp\<close> and
    \<^verbatim>\<open>cudnn_stubs.cpp\<close>): the entry points of the libraries that only say their name once and refuse, and
    that each hand-written entry point takes the place of one of them.
  \<^item> \<^verbatim>\<open>Settings\<close>: the settings both ends read from their environment, the address and the attempts to reach
    it, the statistics, the flush at exit (\<^verbatim>\<open>client/rpc.cpp\<close>), the line that sums up a release
    (\<^verbatim>\<open>server/inventory.cpp\<close>), the lookup of the driver's names (\<^verbatim>\<open>server/driver_syms.h\<close>), and the server's
    start and accept loop (\<^verbatim>\<open>server/main.cpp\<close>).

  \<^bold>\<open>Conventions.\<close> A C integer is a word of its width and wraps as the machine's does; a pointer or a
  handle is a 64-bit word. A structure is a record; a \<open>std::map\<close> the code iterates over is an
  association list, one it only looks into is a map. A fallible operation returns its result code with
  what it wrote. State is passed explicitly; where threads interleave under a lock, each locked section
  is one step of a relation and a property holds of every sequence of steps. The driver, the kernel and
  the maths libraries are parameters, and a theorem that needs more of one states it as an assumption.

  \<^bold>\<open>What is proved.\<close> The calls: a forwarded call is the driver's own call with the caller's arguments, a
  launch carries every argument to its place, and hostile sizes never reach the driver. The connection:
  in every state client and server come to, what ran is what was asked, once, whole and in order, with nothing
  passed over; a reply is taken only for the call it answers; no call is stranded by connections that break;
  a call that is over is never sent again. The sessions: one owner per descriptor, one session per
  client, no connection without a reader, caps that hold. Threads: each sees its own context, and a
  destroyed context is never current. Resources: the record is exact in every reachable state, an entry
  of a context that ended is never freed, expiry frees everything once. Failures: each is delivered to
  its own thread or counted. The client's shortcuts: it answers for the server, and does not wait, only
  where the answer would be the same. The runtime API: a thread runs in its device's context, copies go the way
  their pointers do, the last error is the last failure, and a launch
  runs the function found for what was registered. The maths libraries: a multiply, a normalisation or a
  graph is the library's own call, what the client keeps of a handle or a descriptor is what the library
  has, and a value the client made up stands for its descriptor and never reaches the library. The properties C1 to C40 stand after their claims.

  \<^bold>\<open>Bounds and fuel.\<close> Recursion is structural or has a measure; the loops of handlers are bounded by the
  counts the code checks (4096 attributes, 1024 parameters), which is proved. Reads that may block
  recurse on the list of what the kernel returns. Nothing else has fuel.

  \<^bold>\<open>Not modelled.\<close> What only reaches outside the program: writing the log, resolving a name, \<open>dlopen\<close>,
  signals, the clock, the random numbers of a session's id, the sleeps that tests ask for. The memory model
  below the granularity of a lock: a locked section is one step.
  Opening the maths libraries is input and output; the numbers of their headers are constants or
  parameters. The code generator is modelled by
  what it emits. Tests, scripts and the website are not the program.
\<close>

end
